(* ===== verification/Prelude.thy ===== *)
theory Prelude
  imports Main "HOL-Library.Word" "HOL-Library.Sublist"
begin

text \<open>
  What every component of the development shares: the collections of simplification and
  Hoare rules, C string primitives (\<open>strncmp\<close> on a prefix, \<open>strtok\<close>, \<open>strstr\<close>), the
  state monad and the state-and-early-return monad in which the handlers are written, with
  a small Hoare calculus for them, and the interface of a machine with an invariant.
\<close>

named_theorems wp \<open>Hoare rules, one per program combinator\<close>
named_theorems frame \<open>what a program leaves unchanged, one rule per combinator\<close>
named_theorems stable \<open>what keeps a predicate, one rule per combinator\<close>
named_theorems str_simps \<open>evaluation of C string primitives\<close>

section \<open>C strings\<close>

text \<open>\<open>strncmp(s, p, strlen(p)) == 0\<close>: \<open>p\<close> is a prefix of \<open>s\<close>.\<close>

definition strncmp_prefix :: "string \<Rightarrow> string \<Rightarrow> bool" where
  "strncmp_prefix s p \<longleftrightarrow> take (length p) s = p"

lemma strncmp_prefix_iff: "strncmp_prefix s p \<longleftrightarrow> prefix p s"
  unfolding strncmp_prefix_def prefix_def
  by (metis append_eq_conv_conj append_take_drop_id)

lemma strncmp_prefix_self [simp]: "strncmp_prefix p p"
  by (simp add: strncmp_prefix_def)

text \<open>\<open>std::string::find(p)\<close>: the first position at which \<open>p\<close> occurs.\<close>

fun str_find :: "string \<Rightarrow> string \<Rightarrow> nat option" where
  "str_find [] p = (if p = [] then Some 0 else None)"
| "str_find (c # s) p =
     (if strncmp_prefix (c # s) p then Some 0 else map_option Suc (str_find s p))"

text \<open>\<open>strstr(s, p) != NULL\<close>.\<close>

definition contains :: "string \<Rightarrow> string \<Rightarrow> bool" where
  "contains s p \<longleftrightarrow> str_find s p \<noteq> None"

lemma str_find_Some_decomp:
  "str_find s p = Some i \<Longrightarrow> \<exists>t. s = take i s @ p @ t \<and> i \<le> length s"
proof (induction s arbitrary: i)
  case Nil
  then show ?case by (auto split: if_splits)
next
  case (Cons c s)
  show ?case
  proof (cases "strncmp_prefix (c # s) p")
    case True
    with Cons.prems have "i = 0" by simp
    moreover from True obtain t where "c # s = p @ t"
      by (auto simp: strncmp_prefix_iff prefix_def)
    ultimately show ?thesis by auto
  next
    case False
    with Cons.prems obtain j where "str_find s p = Some j" "i = Suc j" by auto
    with Cons.IH [of j] show ?thesis by auto
  qed
qed

lemma str_find_None_iff: "str_find s p = None \<longleftrightarrow> (\<nexists>u t. s = u @ p @ t)"
proof (induction s)
  case Nil
  then show ?case by auto
next
  case (Cons c s)
  have "(\<exists>u t. c # s = u @ p @ t) \<longleftrightarrow> strncmp_prefix (c # s) p \<or> (\<exists>u t. s = u @ p @ t)"
    by (auto simp: strncmp_prefix_iff prefix_def Cons_eq_append_conv)
  with Cons.IH show ?case by simp
qed

lemma contains_iff: "contains s p \<longleftrightarrow> sublist p s"
  unfolding contains_def str_find_None_iff sublist_def by blast

text \<open>
  \<open>strtok\<close>: skip the delimiters at the front, take the longest run without one.
  \<open>strtok_first\<close> is the first call; \<open>None\<close> is the NULL it returns when no token is left;
  \<open>strtok_all\<close> is the sequence of tokens a loop of calls sees.
\<close>

definition strtok_first :: "char \<Rightarrow> string \<Rightarrow> string option" where
  "strtok_first d s =
     (let t = takeWhile (\<lambda>c. c \<noteq> d) (dropWhile (\<lambda>c. c = d) s)
      in if t = [] then None else Some t)"

function strtok_all :: "char \<Rightarrow> string \<Rightarrow> string list" where
  "strtok_all d s =
     (case dropWhile (\<lambda>c. c = d) s of
        [] \<Rightarrow> []
      | c # t \<Rightarrow> (c # takeWhile (\<lambda>x. x \<noteq> d) t) # strtok_all d (dropWhile (\<lambda>x. x \<noteq> d) t))"
  by pat_completeness auto
termination
proof (relation "measure (\<lambda>(d, s). length s)")
  show "wf (measure (\<lambda>(d :: char, s :: string). length s))" by simp
next
  fix d :: char and s :: string and c t
  assume "dropWhile (\<lambda>c. c = d) s = c # t"
  then have "length (c # t) \<le> length s" by (metis length_dropWhile_le)
  moreover have "length (dropWhile (\<lambda>x. x \<noteq> d) t) \<le> length t" by (rule length_dropWhile_le)
  ultimately show "((d, dropWhile (\<lambda>x. x \<noteq> d) t), (d, s)) \<in> measure (\<lambda>(d, s). length s)"
    by simp
qed

declare strtok_all.simps [simp del]

lemma strtok_all_Nil [simp]: "strtok_all d [] = []"
  by (simp add: strtok_all.simps)

lemma strtok_all_Cons [str_simps]:
  "strtok_all d (c # s) =
     (if c = d then strtok_all d s
      else (c # takeWhile (\<lambda>x. x \<noteq> d) s) # strtok_all d (dropWhile (\<lambda>x. x \<noteq> d) s))"
  by (simp add: strtok_all.simps [of d "c # s"] strtok_all.simps [of d s])

lemma strtok_first_None: "strtok_first d s = None \<longleftrightarrow> set s \<subseteq> {d}"
  by (induction s) (auto simp: strtok_first_def)

lemma strtok_first_no_delim: "strtok_first d s = Some t \<Longrightarrow> d \<notin> set t"
  by (auto simp: strtok_first_def Let_def split: if_splits dest: set_takeWhileD)

lemma strtok_first_prefix:
  "d \<notin> set t \<Longrightarrow> t \<noteq> [] \<Longrightarrow> strtok_first d (t @ d # u) = Some t"
  by (cases t) (auto simp: strtok_first_def takeWhile_append)

section \<open>Decimal numerals\<close>

text \<open>\<open>printf("%d")\<close> of a number that is not negative.\<close>

definition digit_char :: "nat \<Rightarrow> char" where
  "digit_char d = char_of (48 + d)"

lemma digit_char_simps [simp]:
  "digit_char 0 = CHR ''0''" "digit_char (Suc 0) = CHR ''1''" "digit_char 1 = CHR ''1''"
  "digit_char 2 = CHR ''2''" "digit_char 3 = CHR ''3''" "digit_char 4 = CHR ''4''"
  "digit_char 5 = CHR ''5''" "digit_char 6 = CHR ''6''" "digit_char 7 = CHR ''7''"
  "digit_char 8 = CHR ''8''" "digit_char 9 = CHR ''9''"
  by code_simp+

fun dec :: "nat \<Rightarrow> string" where
  "dec n = (if n < 10 then [digit_char n] else dec (n div 10) @ [digit_char (n mod 10)])"

declare dec.simps [simp del]

lemma dec_small [simp]: "n < 10 \<Longrightarrow> dec n = [digit_char n]"
  by (simp add: dec.simps)

lemma dec_nonempty [simp]: "dec n \<noteq> []"
  by (subst dec.simps) simp

section \<open>Programs with a state and an early return\<close>

text \<open>
  A handler is a function from the state to an outcome and the next state. The outcome
  \<open>Inl e\<close> is an early \<open>return e\<close>, \<open>Inr a\<close> is falling through with the value \<open>a\<close>.
  \<open>bindE\<close> sequences two parts of a handler, \<open>check e m\<close> is
  \<open>if (!m) return e\<close>, \<open>whenE b m\<close> is an \<open>if\<close> without \<open>else\<close>.
\<close>

type_synonym ('s, 'a) st = "'s \<Rightarrow> 'a \<times> 's"
type_synonym ('s, 'e, 'a) prog = "'s \<Rightarrow> ('e + 'a) \<times> 's"

definition returnE :: "'a \<Rightarrow> ('s, 'e, 'a) prog" where
  "returnE a = (\<lambda>s. (Inr a, s))"

definition throwE :: "'e \<Rightarrow> ('s, 'e, 'a) prog" where
  "throwE e = (\<lambda>s. (Inl e, s))"

definition bindE :: "('s, 'e, 'a) prog \<Rightarrow> ('a \<Rightarrow> ('s, 'e, 'b) prog) \<Rightarrow> ('s, 'e, 'b) prog" where
  "bindE m f = (\<lambda>s. case m s of (Inl e, s') \<Rightarrow> (Inl e, s') | (Inr a, s') \<Rightarrow> f a s')"

definition liftE :: "('s, 'a) st \<Rightarrow> ('s, 'e, 'a) prog" where
  "liftE m = (\<lambda>s. case m s of (a, s') \<Rightarrow> (Inr a, s'))"

definition check :: "'e \<Rightarrow> ('s, bool) st \<Rightarrow> ('s, 'e, unit) prog" where
  "check e m = (\<lambda>s. case m s of (ok, s') \<Rightarrow> (if ok then Inr () else Inl e, s'))"

definition modifyE :: "('s \<Rightarrow> 's) \<Rightarrow> ('s, 'e, unit) prog" where
  "modifyE f = (\<lambda>s. (Inr (), f s))"

definition getsE :: "('s \<Rightarrow> 'a) \<Rightarrow> ('s, 'e, 'a) prog" where
  "getsE f = (\<lambda>s. (Inr (f s), s))"

definition whenE :: "bool \<Rightarrow> 'a \<Rightarrow> ('s, 'e, 'a) prog \<Rightarrow> ('s, 'e, 'a) prog" where
  "whenE b a m = (if b then m else returnE a)"

text \<open>
  \<open>hoareE P m Q R\<close>: from a state where \<open>P\<close> holds, \<open>m\<close> falls through into \<open>Q\<close> or
  returns early into \<open>R\<close>. Every program is total, so this is total correctness.
\<close>

definition hoareE ::
    "('s \<Rightarrow> bool) \<Rightarrow> ('s, 'e, 'a) prog \<Rightarrow> ('a \<Rightarrow> 's \<Rightarrow> bool) \<Rightarrow> ('e \<Rightarrow> 's \<Rightarrow> bool) \<Rightarrow> bool" where
  "hoareE P m Q R \<longleftrightarrow>
     (\<forall>s. P s \<longrightarrow> (case m s of (Inl e, s') \<Rightarrow> R e s' | (Inr a, s') \<Rightarrow> Q a s'))"

definition hoare :: "('s \<Rightarrow> bool) \<Rightarrow> ('s, 'a) st \<Rightarrow> ('a \<Rightarrow> 's \<Rightarrow> bool) \<Rightarrow> bool" where
  "hoare P m Q \<longleftrightarrow> (\<forall>s. P s \<longrightarrow> (case m s of (a, s') \<Rightarrow> Q a s'))"

lemma hoareE_bind [wp]:
  "hoareE P m M R \<Longrightarrow> (\<And>a. hoareE (M a) (f a) Q R) \<Longrightarrow> hoareE P (bindE m f) Q R"
  unfolding hoareE_def bindE_def by (fastforce split: prod.splits sum.splits)

lemma hoareE_return [wp]: "(\<And>s. P s \<Longrightarrow> Q a s) \<Longrightarrow> hoareE P (returnE a) Q R"
  by (simp add: hoareE_def returnE_def)

lemma hoareE_throw [wp]: "(\<And>s. P s \<Longrightarrow> R e s) \<Longrightarrow> hoareE P (throwE e) Q R"
  by (simp add: hoareE_def throwE_def)

lemma hoareE_modify [wp]: "(\<And>s. P s \<Longrightarrow> Q () (f s)) \<Longrightarrow> hoareE P (modifyE f) Q R"
  by (simp add: hoareE_def modifyE_def)

lemma hoareE_gets [wp]: "(\<And>s. P s \<Longrightarrow> Q (f s) s) \<Longrightarrow> hoareE P (getsE f) Q R"
  by (simp add: hoareE_def getsE_def)

lemma hoareE_lift [wp]: "hoare P m Q \<Longrightarrow> hoareE P (liftE m) Q R"
  by (fastforce simp: hoareE_def hoare_def liftE_def split: prod.splits)

lemma hoareE_check [wp]:
  "hoare P m (\<lambda>ok s. if ok then Q () s else R e s) \<Longrightarrow> hoareE P (check e m) Q R"
  by (fastforce simp: hoareE_def hoare_def check_def split: prod.splits if_splits)

lemma hoareE_when [wp]:
  "(b \<Longrightarrow> hoareE P m Q R) \<Longrightarrow> (\<And>s. \<not> b \<Longrightarrow> P s \<Longrightarrow> Q a s) \<Longrightarrow> hoareE P (whenE b a m) Q R"
  by (simp add: whenE_def hoareE_return)

lemma hoareE_if [wp]:
  "(b \<Longrightarrow> hoareE P m Q R) \<Longrightarrow> (\<not> b \<Longrightarrow> hoareE P n Q R) \<Longrightarrow> hoareE P (if b then m else n) Q R"
  by simp

lemma hoareE_conseq:
  "hoareE P m Q R \<Longrightarrow> (\<And>s. P' s \<Longrightarrow> P s) \<Longrightarrow> (\<And>a s. Q a s \<Longrightarrow> Q' a s) \<Longrightarrow>
     (\<And>e s. R e s \<Longrightarrow> R' e s) \<Longrightarrow> hoareE P' m Q' R'"
  unfolding hoareE_def by (fastforce split: prod.splits sum.splits)

lemma hoare_conseq:
  "hoare P m Q \<Longrightarrow> (\<And>s. P' s \<Longrightarrow> P s) \<Longrightarrow> (\<And>a s. Q a s \<Longrightarrow> Q' a s) \<Longrightarrow> hoare P' m Q'"
  unfolding hoare_def by (fastforce split: prod.splits)

lemma hoareE_Inl: "hoareE P m Q R \<Longrightarrow> P s \<Longrightarrow> m s = (Inl e, s') \<Longrightarrow> R e s'"
  by (fastforce simp: hoareE_def)

lemma hoareE_Inr: "hoareE P m Q R \<Longrightarrow> P s \<Longrightarrow> m s = (Inr a, s') \<Longrightarrow> Q a s'"
  by (fastforce simp: hoareE_def)

lemma hoareD: "hoare P m Q \<Longrightarrow> P s \<Longrightarrow> m s = (a, s') \<Longrightarrow> Q a s'"
  by (fastforce simp: hoare_def)

lemmas prog_simps = returnE_def throwE_def bindE_def liftE_def check_def modifyE_def getsE_def
  whenE_def

subsection \<open>What a program leaves unchanged\<close>

text \<open>\<open>keeps f m\<close>: whatever \<open>m\<close> does and however it ends, the observation \<open>f\<close> is as before.\<close>

definition keeps :: "('s \<Rightarrow> 'v) \<Rightarrow> ('s, 'a) st \<Rightarrow> bool" where
  "keeps f m \<longleftrightarrow> (\<forall>s. f (snd (m s)) = f s)"

lemma keepsD: "keeps f m \<Longrightarrow> m s = (r, s') \<Longrightarrow> f s' = f s"
  unfolding keeps_def by (metis snd_conv)

lemma keepsI: "(\<And>s r s'. m s = (r, s') \<Longrightarrow> f s' = f s) \<Longrightarrow> keeps f m"
  unfolding keeps_def by (metis prod.collapse)

lemma bindE_assoc: "bindE (bindE m f) g = bindE m (\<lambda>a. bindE (f a) g)"
  by (rule ext) (simp add: bindE_def split: prod.splits sum.splits)

lemma keeps_return [frame]: "keeps f (returnE a)"
  by (simp add: keeps_def returnE_def)

lemma keeps_throw [frame]: "keeps f (throwE e)"
  by (simp add: keeps_def throwE_def)

lemma keeps_gets [frame]: "keeps f (getsE g)"
  by (simp add: keeps_def getsE_def)

lemma keeps_modify [frame]: "(\<And>s. f (g s) = f s) \<Longrightarrow> keeps f (modifyE g)"
  by (simp add: keeps_def modifyE_def)

lemma keeps_lift [frame]: "keeps f m \<Longrightarrow> keeps f (liftE m)"
  by (auto simp: keeps_def liftE_def split: prod.splits) (metis snd_conv)

lemma keeps_check [frame]: "keeps f m \<Longrightarrow> keeps f (check e m)"
  by (auto simp: keeps_def check_def split: prod.splits) (metis snd_conv)+

lemma keeps_when [frame]: "(b \<Longrightarrow> keeps f m) \<Longrightarrow> keeps f (whenE b a m)"
  by (simp add: whenE_def keeps_return)

lemma keeps_if [frame]:
  "(b \<Longrightarrow> keeps f m) \<Longrightarrow> (\<not> b \<Longrightarrow> keeps f n) \<Longrightarrow> keeps f (if b then m else n)"
  by simp

lemma keeps_bind [frame]:
  assumes "keeps f m" and "\<And>a. keeps f (k a)"
  shows "keeps f (bindE m k)"
proof (rule keepsI)
  fix s r s'
  assume run: "bindE m k s = (r, s')"
  obtain r1 s1 where m: "m s = (r1, s1)" by force
  with assms(1) have "f s1 = f s" by (rule keepsD)
  with run m show "f s' = f s"
    by (cases r1) (auto simp: bindE_def dest: keepsD [OF assms(2)])
qed

lemma hoareE_keeps: "keeps f m \<Longrightarrow> hoareE (\<lambda>s. f s = v) m (\<lambda>_ s. f s = v) (\<lambda>_ s. f s = v)"
  unfolding hoareE_def by (auto split: prod.splits sum.splits dest: keepsD)

lemma hoare_keeps: "keeps f m \<Longrightarrow> hoare (\<lambda>s. f s = v) m (\<lambda>_ s. f s = v)"
  unfolding hoare_def by (auto split: prod.splits dest: keepsD)

subsection \<open>Predicates a program keeps\<close>

text \<open>\<open>stable I m\<close>: if \<open>I\<close> holds before \<open>m\<close> it holds after it, however \<open>m\<close> ends.\<close>

definition stable :: "('s \<Rightarrow> bool) \<Rightarrow> ('s, 'a) st \<Rightarrow> bool" where
  "stable I m \<longleftrightarrow> (\<forall>s. I s \<longrightarrow> I (snd (m s)))"

lemma stableD: "stable I m \<Longrightarrow> m s = (r, s') \<Longrightarrow> I s \<Longrightarrow> I s'"
  unfolding stable_def by (metis snd_conv)

lemma stable_snd: "stable I m \<Longrightarrow> I s \<Longrightarrow> I (snd (m s))"
  unfolding stable_def by blast

lemma stableI: "(\<And>s r s'. I s \<Longrightarrow> m s = (r, s') \<Longrightarrow> I s') \<Longrightarrow> stable I m"
  unfolding stable_def by (metis prod.collapse)

lemma stable_return [stable]: "stable I (returnE a)"
  by (simp add: stable_def returnE_def)

lemma stable_throw [stable]: "stable I (throwE e)"
  by (simp add: stable_def throwE_def)

lemma stable_gets [stable]: "stable I (getsE g)"
  by (simp add: stable_def getsE_def)

lemma stable_modify [stable]: "(\<And>s. I s \<Longrightarrow> I (g s)) \<Longrightarrow> stable I (modifyE g)"
  by (simp add: stable_def modifyE_def)

lemma stable_lift [stable]: "stable I m \<Longrightarrow> stable I (liftE m)"
  by (auto simp: stable_def liftE_def split: prod.splits)

lemma stable_check [stable]: "stable I m \<Longrightarrow> stable I (check e m)"
  by (auto simp: stable_def check_def split: prod.splits)

lemma stable_when [stable]: "(b \<Longrightarrow> stable I m) \<Longrightarrow> stable I (whenE b a m)"
  by (simp add: whenE_def stable_return)

lemma stable_if [stable]:
  "(b \<Longrightarrow> stable I m) \<Longrightarrow> (\<not> b \<Longrightarrow> stable I n) \<Longrightarrow> stable I (if b then m else n)"
  by simp

lemma stable_bind [stable]:
  assumes "stable I m" and "\<And>a. stable I (k a)"
  shows "stable I (bindE m k)"
proof (rule stableI)
  fix s r s'
  assume start: "I s" and run: "bindE m k s = (r, s')"
  obtain r1 s1 where m: "m s = (r1, s1)" by force
  with assms(1) start have "I s1" using stableD by metis
  with run m show "I s'"
    by (cases r1) (auto simp: bindE_def dest: stableD [OF assms(2)])
qed

lemma stable_split [stable]: "(\<And>a b. stable I (f a b)) \<Longrightarrow> stable I (case p of (a, b) \<Rightarrow> f a b)"
  by (cases p) simp

lemma stable_let [stable]: "stable I (f a) \<Longrightarrow> stable I (let x = a in f x)"
  by simp

lemma stable_option [stable]:
  "(p = None \<Longrightarrow> stable I m) \<Longrightarrow> (\<And>a. p = Some a \<Longrightarrow> stable I (f a)) \<Longrightarrow>
     stable I (case p of None \<Rightarrow> m | Some a \<Rightarrow> f a)"
  by (cases p) auto

section \<open>Machines with an invariant\<close>

text \<open>
  The contract several components share: a set of initial states, a step relation and a
  predicate that holds initially and that every step keeps. Then it holds in every state
  a run can reach.
\<close>

inductive run_of :: "('s \<Rightarrow> bool) \<Rightarrow> ('s \<Rightarrow> 's \<Rightarrow> bool) \<Rightarrow> 's \<Rightarrow> bool"
  for init :: "'s \<Rightarrow> bool" and step :: "'s \<Rightarrow> 's \<Rightarrow> bool" where
  run_start: "init s \<Longrightarrow> run_of init step s"
| run_step: "run_of init step s \<Longrightarrow> step s t \<Longrightarrow> run_of init step t"

locale machine =
  fixes init :: "'s \<Rightarrow> bool"
    and step :: "'s \<Rightarrow> 's \<Rightarrow> bool"
    and inv :: "'s \<Rightarrow> bool"
  assumes init_inv: "init s \<Longrightarrow> inv s"
    and step_inv: "step s t \<Longrightarrow> inv s \<Longrightarrow> inv t"
begin

lemma reachable_inv: "run_of init step s \<Longrightarrow> inv s"
  by (induction rule: run_of.induct) (auto intro: init_inv step_inv)

lemma reachable_imp: "run_of init step s \<Longrightarrow> (\<And>t. inv t \<Longrightarrow> Q t) \<Longrightarrow> Q s"
  using reachable_inv by blast

end

end
