(* ===== verification/Os.thy ===== *)
theory Os
  imports Prelude
begin

text \<open>
  The operating system and the Android base library as the services see them. They are
  not code of this repository, so they are a parameter: an environment \<open>E\<close> answers every
  call, and may answer it in any way that depends on everything that happened before.
  Every call of a service is recorded in the history, newest event first, so that a
  property can say which calls were made, in which order and with which results. The type
  parameter \<open>'n\<close> is the type of the messages a service sends to its callback.
\<close>

datatype 'n event =
    Wrote string string bool       \<comment> \<open>WriteStringToFile(content, path) = ok\<close>
  | Read string "string option"    \<comment> \<open>ReadFileToString(path)\<close>
  | Accessed string bool           \<comment> \<open>access(path, R\_OK) == 0\<close>
  | Symlinked string string bool   \<comment> \<open>symlink(target, link) == 0\<close>
  | Removed string bool            \<comment> \<open>remove(path) == 0\<close>
  | Opened string bool             \<comment> \<open>opendir(path) != NULL\<close>
  | Sys string int                 \<comment> \<open>any other system call, with its result\<close>
  | GotProp string string          \<comment> \<open>GetProperty(key, default) = value\<close>
  | PutProp string string          \<comment> \<open>SetProperty(key, value)\<close>
  | Clock int                      \<comment> \<open>a reading of a clock\<close>
  | Slept int                      \<comment> \<open>usleep(us)\<close>
  | Notified 'n bool               \<comment> \<open>a call of the callback, and its \<open>isOk()\<close>\<close>

record 'n env =
  e_write :: "'n event list \<Rightarrow> string \<Rightarrow> string \<Rightarrow> bool"
  e_read :: "'n event list \<Rightarrow> string \<Rightarrow> string option"
  e_access :: "'n event list \<Rightarrow> string \<Rightarrow> bool"
  e_symlink :: "'n event list \<Rightarrow> string \<Rightarrow> string \<Rightarrow> bool"
  e_remove :: "'n event list \<Rightarrow> string \<Rightarrow> bool"
  e_opendir :: "'n event list \<Rightarrow> string \<Rightarrow> (string \<times> bool) list option"
  e_sys :: "'n event list \<Rightarrow> string \<Rightarrow> int"
  e_prop :: "'n event list \<Rightarrow> string \<Rightarrow> string \<Rightarrow> string"
  e_clock :: "'n event list \<Rightarrow> int"
  e_notify :: "'n event list \<Rightarrow> 'n \<Rightarrow> bool"
  e_trim :: "string \<Rightarrow> string"

record 'n os =
  hist :: "'n event list"

text \<open>Every call asks the environment and records the answer.\<close>

definition ask ::
    "('n event list \<Rightarrow> 'a) \<Rightarrow> ('a \<Rightarrow> 'n event) \<Rightarrow> (('n, 'x) os_scheme, 'a) st" where
  "ask answer ev = (\<lambda>s. let a = answer (hist s) in (a, s\<lparr>hist := ev a # hist s\<rparr>))"

definition tell :: "'n event \<Rightarrow> ('n, 'x) os_scheme \<Rightarrow> ('n, 'x) os_scheme" where
  "tell ev s = s\<lparr>hist := ev # hist s\<rparr>"

definition write_file where
  "write_file E content path = ask (\<lambda>h. e_write E h content path) (Wrote content path)"

definition read_file where
  "read_file E path = ask (\<lambda>h. e_read E h path) (Read path)"

definition access_file where
  "access_file E path = ask (\<lambda>h. e_access E h path) (Accessed path)"

definition symlink where
  "symlink E target link = ask (\<lambda>h. e_symlink E h target link) (Symlinked target link)"

definition remove_file where
  "remove_file E path = ask (\<lambda>h. e_remove E h path) (Removed path)"

text \<open>A directory that can be opened is listed as pairs of a name and "is a symbolic link".\<close>

definition open_dir where
  "open_dir E path = ask (\<lambda>h. e_opendir E h path) (\<lambda>d. Opened path (d \<noteq> None))"

definition sys where
  "sys E name = ask (\<lambda>h. e_sys E h name) (Sys name)"

definition get_prop where
  "get_prop E key dflt = ask (\<lambda>h. e_prop E h key dflt) (GotProp key)"

definition clock where
  "clock E = ask (\<lambda>h. e_clock E h) Clock"

definition notify where
  "notify E n = ask (\<lambda>h. e_notify E h n) (Notified n)"

definition set_prop where
  "set_prop key value = tell (PutProp key value)"

definition usleep where
  "usleep us = tell (Slept us)"

lemmas os_defs = write_file_def read_file_def access_file_def symlink_def remove_file_def
  open_dir_def sys_def get_prop_def clock_def notify_def set_prop_def usleep_def

lemmas os_simps = os_defs ask_def tell_def Let_def

subsection \<open>Hoare rules: the answer is arbitrary, the history grows by one event\<close>

lemma hoare_ask [wp]:
  "(\<And>s a. P s \<Longrightarrow> Q a (s\<lparr>hist := ev a # hist s\<rparr>)) \<Longrightarrow> hoare P (ask answer ev) Q"
  by (simp add: hoare_def ask_def Let_def)

lemma os_grows [simp]:
  "hist (snd (ask answer ev s)) = ev (fst (ask answer ev s)) # hist s"
  by (simp add: ask_def Let_def)

subsection \<open>What a history says\<close>

fun notified :: "'n event list \<Rightarrow> 'n list" where
  "notified [] = []"
| "notified (Notified n ok # h) = n # notified h"
| "notified (_ # h) = notified h"

text \<open>The links and the contents that were really stored: successful calls only.\<close>

fun links :: "'n event list \<Rightarrow> (string \<times> string) list" where
  "links [] = []"
| "links (Symlinked t l ok # h) = (if ok then (t, l) # links h else links h)"
| "links (_ # h) = links h"

fun stored :: "string \<Rightarrow> 'n event list \<Rightarrow> string list" where
  "stored p [] = []"
| "stored p (Wrote c q ok # h) = (if ok \<and> q = p then c # stored p h else stored p h)"
| "stored p (_ # h) = stored p h"

text \<open>All attempts to write, whatever their result, as pairs of a path and a content.\<close>

fun writes :: "'n event list \<Rightarrow> (string \<times> string) list" where
  "writes [] = []"
| "writes (Wrote c q ok # h) = (q, c) # writes h"
| "writes (_ # h) = writes h"

fun puts :: "'n event list \<Rightarrow> (string \<times> string) list" where
  "puts [] = []"
| "puts (PutProp k v # h) = (k, v) # puts h"
| "puts (_ # h) = puts h"

text \<open>The properties that were read, newest first, and the last value read for a key.\<close>

fun gots :: "'n event list \<Rightarrow> (string \<times> string) list" where
  "gots [] = []"
| "gots (GotProp k v # h) = (k, v) # gots h"
| "gots (_ # h) = gots h"

definition last_read :: "(string \<times> string) list \<Rightarrow> string \<Rightarrow> string" where
  "last_read r k = (case map_of r k of None \<Rightarrow> '''' | Some v \<Rightarrow> v)"

lemma gots_append [simp]: "gots (g @ h) = gots g @ gots h"
  by (induction g rule: gots.induct) auto

lemma notified_append [simp]: "notified (g @ h) = notified g @ notified h"
  by (induction g rule: notified.induct) auto

lemma links_append [simp]: "links (g @ h) = links g @ links h"
  by (induction g rule: links.induct) auto

lemma stored_append [simp]: "stored p (g @ h) = stored p g @ stored p h"
  by (induction g rule: stored.induct) auto

lemma writes_append [simp]: "writes (g @ h) = writes g @ writes h"
  by (induction g rule: writes.induct) auto

lemma puts_append [simp]: "puts (g @ h) = puts g @ puts h"
  by (induction g rule: puts.induct) auto

text \<open>A call leaves every observation alone that does not look at its event.\<close>

lemma keeps_ask [frame]:
  "(\<And>s a. f (s\<lparr>hist := ev a # hist s\<rparr>) = f s) \<Longrightarrow> keeps f (ask answer ev)"
  by (simp add: keeps_def ask_def Let_def)

lemma stored_writes: "c \<in> set (stored p h) \<Longrightarrow> (p, c) \<in> set (writes h)"
  by (induction h rule: writes.induct) (auto split: if_splits)

end
