(* ===== verification/GadgetMonitor.thy ===== *)
theory GadgetMonitor
  imports Os
begin

text \<open>
  The USB gadget HAL (usb/gadget/UsbGadget.h, UsbGadget.cpp): its constants, its state, and
  the thread \<open>monitorFfs\<close> that watches the FunctionFS endpoints and writes the name of the
  controller to the UDC file once they are all there.
\<close>

section \<open>Constants\<close>

definition DISCONNECT_WAIT_US :: int where "DISCONNECT_WAIT_US = 100000"
definition PULL_UP_DELAY :: int where "PULL_UP_DELAY = 500000"

definition GADGET_PATH :: string where "GADGET_PATH = ''/config/usb_gadget/g1/''"
definition PULLUP_PATH :: string where "PULLUP_PATH = GADGET_PATH @ ''UDC''"
definition GADGET_NAME :: string where "GADGET_NAME = ''a600000.dwc3''"
definition VENDOR_ID_PATH :: string where "VENDOR_ID_PATH = GADGET_PATH @ ''idVendor''"
definition PRODUCT_ID_PATH :: string where "PRODUCT_ID_PATH = GADGET_PATH @ ''idProduct''"
definition DEVICE_CLASS_PATH :: string where
  "DEVICE_CLASS_PATH = GADGET_PATH @ ''bDeviceClass''"
definition DEVICE_SUB_CLASS_PATH :: string where
  "DEVICE_SUB_CLASS_PATH = GADGET_PATH @ ''bDeviceSubClass''"
definition DEVICE_PROTOCOL_PATH :: string where
  "DEVICE_PROTOCOL_PATH = GADGET_PATH @ ''bDeviceProtocol''"
definition DESC_USE_PATH :: string where "DESC_USE_PATH = GADGET_PATH @ ''os_desc/use''"
definition OS_DESC_PATH :: string where "OS_DESC_PATH = GADGET_PATH @ ''os_desc/b.1''"
definition CONFIG_PATH :: string where "CONFIG_PATH = GADGET_PATH @ ''configs/b.1/''"
definition FUNCTIONS_PATH :: string where "FUNCTIONS_PATH = GADGET_PATH @ ''functions/''"
definition FUNCTION_NAME :: string where "FUNCTION_NAME = ''function''"
definition FUNCTION_PATH :: string where "FUNCTION_PATH = CONFIG_PATH @ FUNCTION_NAME"

lemmas gadget_paths = PULLUP_PATH_def VENDOR_ID_PATH_def PRODUCT_ID_PATH_def
  DEVICE_CLASS_PATH_def DEVICE_SUB_CLASS_PATH_def DEVICE_PROTOCOL_PATH_def DESC_USE_PATH_def
  OS_DESC_PATH_def CONFIG_PATH_def FUNCTIONS_PATH_def FUNCTION_NAME_def FUNCTION_PATH_def
  GADGET_PATH_def

text \<open>No two of the files that are written share a path.\<close>

lemma gadget_paths_distinct [simp]:
  "distinct [PULLUP_PATH, VENDOR_ID_PATH, PRODUCT_ID_PATH, DEVICE_CLASS_PATH,
     DEVICE_SUB_CLASS_PATH, DEVICE_PROTOCOL_PATH, DESC_USE_PATH]"
  by (simp add: gadget_paths)

lemma pullup_path_neq [simp]:
  "VENDOR_ID_PATH \<noteq> PULLUP_PATH" "PRODUCT_ID_PATH \<noteq> PULLUP_PATH"
  "DEVICE_CLASS_PATH \<noteq> PULLUP_PATH" "DEVICE_SUB_CLASS_PATH \<noteq> PULLUP_PATH"
  "DEVICE_PROTOCOL_PATH \<noteq> PULLUP_PATH" "DESC_USE_PATH \<noteq> PULLUP_PATH"
  using gadget_paths_distinct by auto

lemma gadget_name_not_none [simp]: "GADGET_NAME \<noteq> ''none''" "''none'' \<noteq> GADGET_NAME"
  by (simp_all add: GADGET_NAME_def)

section \<open>State\<close>

text \<open>
  The enumerators of the HIDL interface the service implements. Their numbers belong to the
  interface and not to this repository: they are a field of the environment.
\<close>

datatype GadgetFunction = NONE | ADB | ACCESSORY | MTP | MIDI | PTP | RNDIS | AUDIO_SOURCE

datatype GadgetStatus =
  G_SUCCESS | G_ERROR | FUNCTIONS_APPLIED | FUNCTIONS_NOT_APPLIED | CONFIGURATION_NOT_SUPPORTED

datatype gadget_msg =
    SetCurrentUsbFunctionsCb "64 word" GadgetStatus
  | GetCurrentUsbFunctionsCb "64 word" GadgetStatus

text \<open>
  One entry of the array \<open>epoll_wait\<close> fills: the descriptor that is ready, how many
  inotify events a \<open>read\<close> of it returns if it is the inotify descriptor, and the 64-bit
  value a \<open>read\<close> of it returns if it is the event descriptor. A batch is what one call
  of \<open>epoll_wait\<close> returns; an empty one is a return value that is not positive.
  \<open>g_batches\<close> is what the thread gets to process while the main thread waits for it;
  \<open>None\<close> is that it does not run at all.
\<close>

datatype epoll_in = EpollIn (fd: int) (nread: nat) (flag: "64 word")

record gadget_env = "gadget_msg env" +
  g_fn :: "GadgetFunction \<Rightarrow> 64 word"
  g_batches :: "gadget_msg event list \<Rightarrow> epoll_in list list option"

text \<open>
  The fields of \<open>struct UsbGadget\<close>, the global \<open>gadgetPullup\<close>, and the local variables of
  the monitor thread, which live as long as the thread does. \<open>monStarted\<close> says whether the
  thread has run its first lines (up to its loop), \<open>monDone\<close> whether it has returned.
\<close>

record gadget = "gadget_msg os" +
  mInotifyFd :: int
  mEventFd :: int
  mEpollFd :: int
  mMonitorCreated :: bool
  mEndpointList :: "string list"
  mCurrentUsbFunctions :: "64 word"
  mCurrentUsbFunctionsApplied :: bool
  gadgetPullup :: bool
  monStarted :: bool
  monDone :: bool
  writeUdc :: bool
  disconnect :: int

section \<open>The monitor thread\<close>

fun endpoints_present :: "gadget_env \<Rightarrow> string list \<Rightarrow> (gadget, bool) st" where
  "endpoints_present E [] s = (True, s)"
| "endpoints_present E (p # ps) s =
     (case access_file E p s of (ok, s1) \<Rightarrow>
        if ok then endpoints_present E ps s1 else (False, s1))"

definition pull_up :: "gadget_env \<Rightarrow> gadget \<Rightarrow> gadget" where
  "pull_up E s =
     (case write_file E GADGET_NAME PULLUP_PATH s of (ok, s1) \<Rightarrow>
        if ok then s1\<lparr>mCurrentUsbFunctionsApplied := True, gadgetPullup := True,
                      writeUdc := False\<rparr>
        else s1)"

definition monitor_start :: "gadget_env \<Rightarrow> gadget \<Rightarrow> gadget" where
  "monitor_start E s =
     (case endpoints_present E (mEndpointList s)
             (s\<lparr>monStarted := True, writeUdc := True, disconnect := 0\<rparr>) of
        (descriptorWritten, s1) \<Rightarrow>
          if descriptorWritten then pull_up E (usleep PULL_UP_DELAY s1) else s1)"

definition inotify_event :: "gadget_env \<Rightarrow> gadget \<Rightarrow> gadget" where
  "inotify_event E s =
     (case endpoints_present E (mEndpointList s) s of (descriptorPresent, s1) \<Rightarrow>
        if \<not> descriptorPresent \<and> \<not> writeUdc s1 then
          (case clock E s1 of (now, s2) \<Rightarrow> s2\<lparr>writeUdc := True, disconnect := now\<rparr>)
        else if descriptorPresent \<and> writeUdc s1 then
          (case clock E s1 of (temp, s2) \<Rightarrow>
             pull_up E (if temp - disconnect s2 < PULL_UP_DELAY
                        then usleep PULL_UP_DELAY s2 else s2))
        else s1)"

fun inotify_events :: "gadget_env \<Rightarrow> nat \<Rightarrow> gadget \<Rightarrow> gadget" where
  "inotify_events E 0 s = s"
| "inotify_events E (Suc n) s = inotify_events E n (inotify_event E s)"

text \<open>The \<open>for\<close> loop over one batch; the result says whether the thread is to stop.\<close>

fun monitor_batch :: "gadget_env \<Rightarrow> epoll_in list \<Rightarrow> (gadget, bool) st" where
  "monitor_batch E [] s = (False, s)"
| "monitor_batch E (ev # evs) s =
     (if fd ev = mInotifyFd s then monitor_batch E evs (inotify_events E (nread ev) s)
      else if flag ev = 100 then (True, s)
      else monitor_batch E evs s)"

text \<open>The \<open>while (!stopMonitor)\<close> loop over the batches \<open>epoll_wait\<close> returns.\<close>

fun monitor_loop :: "gadget_env \<Rightarrow> epoll_in list list \<Rightarrow> (gadget, bool) st" where
  "monitor_loop E [] s = (False, s)"
| "monitor_loop E (b # bs) s =
     (case monitor_batch E b s of (stopMonitor, s1) \<Rightarrow>
        if stopMonitor then (True, s1) else monitor_loop E bs s1)"

text \<open>
  The thread from where it stands: its first lines if it has not run yet, then the loop.
  The result says whether it has returned.
\<close>

definition monitorFfs :: "gadget_env \<Rightarrow> epoll_in list list \<Rightarrow> (gadget, bool) st" where
  "monitorFfs E batches s =
     (if monDone s then (True, s)
      else case monitor_loop E batches (if monStarted s then s else monitor_start E s) of
             (stopMonitor, s1) \<Rightarrow> (stopMonitor, s1\<lparr>monDone := stopMonitor\<rparr>))"

section \<open>What the thread may do\<close>

text \<open>
  \<open>mon_ext s t\<close>: \<open>t\<close> is \<open>s\<close> after some activity of the monitor thread. It sends no
  message, makes no link, reads and sets no property and writes nothing but the controller's name to
  the UDC file; it changes the two flags exactly when such a write succeeded; everything
  else the main thread owns is untouched.
\<close>

definition mon_frame :: "gadget \<Rightarrow> gadget \<Rightarrow> bool" where
  "mon_frame s t \<longleftrightarrow>
     mInotifyFd t = mInotifyFd s \<and> mEventFd t = mEventFd s \<and> mEpollFd t = mEpollFd s \<and>
     mMonitorCreated t = mMonitorCreated s \<and> mEndpointList t = mEndpointList s \<and>
     mCurrentUsbFunctions t = mCurrentUsbFunctions s"

definition mon_ext :: "gadget \<Rightarrow> gadget \<Rightarrow> bool" where
  "mon_ext s t \<longleftrightarrow> mon_frame s t \<and>
     (\<exists>g. hist t = g @ hist s \<and> notified g = [] \<and> links g = [] \<and> puts g = [] \<and>
        gots g = [] \<and> set (writes g) \<subseteq> {(PULLUP_PATH, GADGET_NAME)} \<and>
        (if stored PULLUP_PATH g = []
         then mCurrentUsbFunctionsApplied t = mCurrentUsbFunctionsApplied s \<and>
              gadgetPullup t = gadgetPullup s
         else mCurrentUsbFunctionsApplied t \<and> gadgetPullup t))"

lemma mon_frame_refl [simp]: "mon_frame s s"
  by (simp add: mon_frame_def)

lemma mon_frame_trans: "mon_frame s t \<Longrightarrow> mon_frame t u \<Longrightarrow> mon_frame s u"
  by (simp add: mon_frame_def)

lemma mon_ext_refl [simp]: "mon_ext s s"
  by (simp add: mon_ext_def)

lemma mon_ext_trans:
  assumes "mon_ext s t" and "mon_ext t u"
  shows "mon_ext s u"
proof -
  from assms(1) obtain g where g: "mon_frame s t" "hist t = g @ hist s" "notified g = []"
    "links g = []" "puts g = []" "gots g = []" "set (writes g) \<subseteq> {(PULLUP_PATH, GADGET_NAME)}"
    "if stored PULLUP_PATH g = []
     then mCurrentUsbFunctionsApplied t = mCurrentUsbFunctionsApplied s \<and>
          gadgetPullup t = gadgetPullup s
     else mCurrentUsbFunctionsApplied t \<and> gadgetPullup t"
    unfolding mon_ext_def by blast
  from assms(2) obtain k where k: "mon_frame t u" "hist u = k @ hist t" "notified k = []"
    "links k = []" "puts k = []" "gots k = []" "set (writes k) \<subseteq> {(PULLUP_PATH, GADGET_NAME)}"
    "if stored PULLUP_PATH k = []
     then mCurrentUsbFunctionsApplied u = mCurrentUsbFunctionsApplied t \<and>
          gadgetPullup u = gadgetPullup t
     else mCurrentUsbFunctionsApplied u \<and> gadgetPullup u"
    unfolding mon_ext_def by blast
  from g k have "mon_frame s u" "hist u = (k @ g) @ hist s"
    by (auto intro: mon_frame_trans)
  with g k show ?thesis
    unfolding mon_ext_def by (intro conjI exI [of _ "k @ g"]) (auto split: if_splits)
qed

lemma endpoints_present_ext: "mon_ext s (snd (endpoints_present E ps s))"
proof (induction ps arbitrary: s)
  case Nil
  then show ?case by simp
next
  case (Cons p ps)
  let ?s1 = "snd (access_file E p s)"
  have "mon_ext s ?s1"
    unfolding mon_ext_def mon_frame_def os_simps
    by (auto intro!: exI [of _ "[Accessed p (e_access E (hist s) p)]"])
  with Cons [of ?s1] show ?case
    by (auto split: prod.splits intro: mon_ext_trans)
qed

lemma endpoints_present_fields [simp]:
  "writeUdc (snd (endpoints_present E ps s)) = writeUdc s"
  "disconnect (snd (endpoints_present E ps s)) = disconnect s"
  "monStarted (snd (endpoints_present E ps s)) = monStarted s"
  by (induction ps arbitrary: s) (auto simp: os_simps split: prod.splits if_splits)

lemma pull_up_ext: "mon_ext s (pull_up E s)"
  unfolding mon_ext_def mon_frame_def pull_up_def os_simps
  by (auto intro!: exI [of _ "[Wrote GADGET_NAME PULLUP_PATH
        (e_write E (hist s) GADGET_NAME PULLUP_PATH)]"])

lemma mon_ext_usleep: "mon_ext s (usleep us s)"
  unfolding mon_ext_def mon_frame_def os_simps by (auto intro!: exI [of _ "[Slept us]"])

lemma mon_ext_clock: "mon_ext s (snd (clock E s))"
  unfolding mon_ext_def mon_frame_def os_simps by (auto intro!: exI [of _ "[Clock t]" for t])

lemma mon_ext_locals [simp]:
  "mon_ext s (t\<lparr>writeUdc := w, disconnect := d\<rparr>) = mon_ext s t"
  "mon_ext s (t\<lparr>monDone := b\<rparr>) = mon_ext s t"
  "mon_ext s (t\<lparr>monStarted := m, writeUdc := w, disconnect := d\<rparr>) = mon_ext s t"
  "mon_ext (s\<lparr>monStarted := m, writeUdc := w, disconnect := d\<rparr>) t = mon_ext s t"
  by (simp_all add: mon_ext_def mon_frame_def)

lemma monitor_start_ext: "mon_ext s (monitor_start E s)"
proof -
  let ?s0 = "s\<lparr>monStarted := True, writeUdc := True, disconnect := 0\<rparr>"
  obtain w s1 where ep: "endpoints_present E (mEndpointList s) ?s0 = (w, s1)"
    by force
  then have s1: "mon_ext s s1"
    using endpoints_present_ext [of ?s0 E "mEndpointList s"] by simp
  have "mon_ext s (pull_up E (usleep PULL_UP_DELAY s1))"
    by (rule mon_ext_trans [OF mon_ext_trans [OF s1 mon_ext_usleep] pull_up_ext])
  with s1 show ?thesis unfolding monitor_start_def ep by simp
qed

lemma inotify_event_ext: "mon_ext s (inotify_event E s)"
proof -
  obtain present s1 where ep: "endpoints_present E (mEndpointList s) s = (present, s1)"
    by force
  then have s1: "mon_ext s s1" using endpoints_present_ext [of s E "mEndpointList s"] by simp
  obtain t s2 where c: "clock E s1 = (t, s2)" by force
  then have s2: "mon_ext s s2"
    using mon_ext_clock [of s1 E] mon_ext_trans [OF s1] by simp
  have s3: "mon_ext s (pull_up E u)" if "mon_ext s u" for u
    by (rule mon_ext_trans [OF that pull_up_ext])
  have s4: "mon_ext s (usleep PULL_UP_DELAY s2)"
    by (rule mon_ext_trans [OF s2 mon_ext_usleep])
  show ?thesis
    unfolding inotify_event_def ep c using s1 s2 s3 s4 by (auto simp: c)
qed

section \<open>Activities of the thread\<close>

text \<open>
  A relation between states that every primitive action of the thread satisfies, and that
  composes, holds across a whole run of it: the contract behind every "the monitor never"
  statement.
\<close>

locale monitor_activity =
  fixes E :: gadget_env
    and R :: "gadget \<Rightarrow> gadget \<Rightarrow> bool"
  assumes R_refl: "R s s"
    and R_trans: "R s t \<Longrightarrow> R t u \<Longrightarrow> R s u"
    and R_done: "R s t \<Longrightarrow> R s (t\<lparr>monDone := d\<rparr>)"
    and R_start: "R s (monitor_start E s)"
    and R_event: "R s (inotify_event E s)"
begin

lemma R_events: "R s (inotify_events E n s)"
  by (induction n arbitrary: s) (auto intro: R_refl R_trans R_event)

lemma R_batch: "R s (snd (monitor_batch E b s))"
  by (induction b arbitrary: s) (auto intro: R_refl R_trans R_events)

lemma R_loop: "R s (snd (monitor_loop E bs s))"
proof (induction bs arbitrary: s)
  case Nil
  then show ?case by (simp add: R_refl)
next
  case (Cons b bs)
  obtain stop s1 where b: "monitor_batch E b s = (stop, s1)" by force
  then have "R s s1" using R_batch [of s b] by simp
  with Cons [of s1] b show ?case by (auto intro: R_trans)
qed

lemma R_run: "R s (snd (monitorFfs E bs s))"
proof -
  let ?s0 = "if monStarted s then s else monitor_start E s"
  obtain stop s1 where l: "monitor_loop E bs ?s0 = (stop, s1)" by force
  have "R s ?s0" by (simp add: R_refl R_start)
  moreover have "R ?s0 s1" using R_loop [of ?s0 bs] l by simp
  ultimately show ?thesis
    unfolding monitorFfs_def l by (auto intro: R_refl R_done R_trans)
qed

end

interpretation ext: monitor_activity E mon_ext for E
  by unfold_locales (auto intro: mon_ext_trans monitor_start_ext inotify_event_ext)

section \<open>The UDC file is written only while every endpoint is there\<close>

text \<open>
  \<open>settled h\<close> drops the pauses and clock readings at the top of a history; \<open>probed eps h\<close>:
  what is then on top is one successful \<open>access\<close> per endpoint, in the order of the list;
  \<open>guarded eps h\<close>: every attempt to write the controller's name was made in such a state.
\<close>

fun settled :: "'n event list \<Rightarrow> 'n event list" where
  "settled (Slept us # h) = settled h"
| "settled (Clock t # h) = settled h"
| "settled h = h"

definition probed :: "string list \<Rightarrow> 'n event list \<Rightarrow> bool" where
  "probed eps h \<longleftrightarrow> take (length eps) (settled h) = map (\<lambda>p. Accessed p True) (rev eps)"

fun guarded :: "string list \<Rightarrow> 'n event list \<Rightarrow> bool" where
  "guarded eps [] = True"
| "guarded eps (Wrote c p ok # h) =
     ((p = PULLUP_PATH \<and> c = GADGET_NAME \<longrightarrow> probed eps h) \<and> guarded eps h)"
| "guarded eps (_ # h) = guarded eps h"

lemma settled_append: "settled h \<noteq> [] \<Longrightarrow> settled (h @ g) = settled h @ g"
  by (induction h rule: settled.induct) auto

lemma probed_append: "probed eps h \<Longrightarrow> probed eps (h @ g)"
proof (cases "eps = []")
  case False
  assume p: "probed eps h"
  then have "length (take (length eps) (settled h)) = length eps"
    by (simp add: probed_def)
  then have len: "length eps \<le> length (settled h)" by simp
  with False have "settled h \<noteq> []" by auto
  with p len show ?thesis by (simp add: probed_def settled_append)
qed (simp add: probed_def)

lemma guarded_append: "guarded eps h \<Longrightarrow> guarded eps g \<Longrightarrow> guarded eps (h @ g)"
  by (induction eps h rule: guarded.induct) (auto intro: probed_append)

lemma guarded_no_writes: "writes h = [] \<Longrightarrow> guarded eps h"
  by (induction eps h rule: guarded.induct) auto

definition mon_guarded :: "gadget \<Rightarrow> gadget \<Rightarrow> bool" where
  "mon_guarded s t \<longleftrightarrow> mEndpointList t = mEndpointList s \<and>
     (\<exists>g. hist t = g @ hist s \<and> guarded (mEndpointList s) g)"

lemma mon_guarded_refl: "mon_guarded s s"
  by (simp add: mon_guarded_def)

lemma mon_guarded_trans: "mon_guarded s t \<Longrightarrow> mon_guarded t u \<Longrightarrow> mon_guarded s u"
  unfolding mon_guarded_def by (metis append.assoc guarded_append)

lemma endpoints_present_hist:
  assumes "endpoints_present E ps s = (ok, s1)"
  shows "\<exists>g. hist s1 = g @ hist s \<and> writes g = [] \<and>
           (ok \<longrightarrow> g = map (\<lambda>p. Accessed p True) (rev ps))"
    and "mEndpointList s1 = mEndpointList s"
proof -
  have "mon_ext s s1" using endpoints_present_ext [of s E ps] assms by simp
  then show "mEndpointList s1 = mEndpointList s" by (simp add: mon_ext_def mon_frame_def)
  from assms show "\<exists>g. hist s1 = g @ hist s \<and> writes g = [] \<and>
           (ok \<longrightarrow> g = map (\<lambda>p. Accessed p True) (rev ps))"
  proof (induction ps arbitrary: s)
    case (Cons p ps)
    then show ?case by (fastforce simp: os_simps split: if_splits)
  qed simp
qed

lemma accessed_log [simp]:
  "writes (map (\<lambda>p. Accessed p b) ps) = []"
  "settled (map (\<lambda>p. Accessed p b) ps) = map (\<lambda>p. Accessed p b) ps"
  by (induction ps) auto

text \<open>A pull-up after a full probe and at most pauses and clock readings is guarded.\<close>

lemma pull_up_guarded:
  assumes "hist u = g @ map (\<lambda>p. Accessed p True) (rev (mEndpointList s)) @ hist s"
    and "settled g = []" and "writes g = []" and "mEndpointList u = mEndpointList s"
  shows "mon_guarded s (pull_up E u)"
proof -
  let ?acc = "map (\<lambda>p. Accessed p True) (rev (mEndpointList s)) :: gadget_msg event list"
  let ?w = "Wrote GADGET_NAME PULLUP_PATH (e_write E (hist u) GADGET_NAME PULLUP_PATH)"
  have "settled (g @ ?acc) = ?acc"
    using assms(2) by (induction g rule: settled.induct) auto
  then have "guarded (mEndpointList s) (?w # g @ ?acc)"
    using assms(3) by (simp add: probed_def guarded_no_writes)
  moreover have "hist (pull_up E u) = (?w # g @ ?acc) @ hist s"
    using assms(1) by (simp add: pull_up_def os_simps)
  ultimately show ?thesis
    using assms(4) unfolding mon_guarded_def
    by (intro conjI exI [of _ "?w # g @ ?acc"]) (simp_all add: pull_up_def os_simps)
qed

lemma monitor_start_guarded: "mon_guarded s (monitor_start E s)"
proof -
  let ?s0 = "s\<lparr>monStarted := True, writeUdc := True, disconnect := 0\<rparr>"
  obtain ok s1 where ep: "endpoints_present E (mEndpointList s) ?s0 = (ok, s1)" by force
  from endpoints_present_hist [OF ep] show ?thesis
    using pull_up_guarded [of "usleep PULL_UP_DELAY s1" "[Slept PULL_UP_DELAY]" s E]
    by (auto simp: monitor_start_def ep mon_guarded_def os_simps intro: guarded_no_writes)
qed

lemma inotify_event_guarded: "mon_guarded s (inotify_event E s)"
proof -
  obtain ok s1 where ep: "endpoints_present E (mEndpointList s) s = (ok, s1)" by force
  note h = endpoints_present_hist [OF ep]
  let ?t = "e_clock E (hist s1)"
  let ?s2 = "s1\<lparr>hist := Clock ?t # hist s1\<rparr>"
  have c: "clock E s1 = (?t, ?s2)" by (simp add: os_simps)
  from h(1) obtain g where g: "hist s1 = g @ hist s" "writes g = []" by blast
  have plain: "mon_guarded s s1"
    using g h(2) by (auto simp: mon_guarded_def intro: guarded_no_writes)
  have rearm: "mon_guarded s (?s2\<lparr>writeUdc := True, disconnect := ?t\<rparr>)"
    unfolding mon_guarded_def using g h(2)
    by (intro conjI exI [of _ "Clock ?t # g"]) (simp_all add: guarded_no_writes)
  have up: "mon_guarded s (pull_up E ?s2)" "mon_guarded s (pull_up E (usleep PULL_UP_DELAY ?s2))"
    if ok
    using that h pull_up_guarded [of ?s2 "[Clock ?t]" s E]
      pull_up_guarded [of "usleep PULL_UP_DELAY ?s2" "[Slept PULL_UP_DELAY, Clock ?t]" s E]
    by (auto simp: os_simps)
  show ?thesis
    using plain rearm up by (cases ok) (simp_all add: inotify_event_def ep c)
qed

interpretation guard: monitor_activity E mon_guarded for E
proof unfold_locales
  show "mon_guarded s s" for s by (rule mon_guarded_refl)
  show "mon_guarded s u" if "mon_guarded s t" "mon_guarded t u" for s t u
    using that by (rule mon_guarded_trans)
  show "mon_guarded s (t\<lparr>monDone := d\<rparr>)" if "mon_guarded s t" for s t d
    using that by (simp add: mon_guarded_def)
qed (rule monitor_start_guarded inotify_event_guarded)+

section \<open>When the thread stops\<close>

definition stop_request :: "int \<Rightarrow> epoll_in \<Rightarrow> bool" where
  "stop_request inotifyFd ev \<longleftrightarrow> fd ev \<noteq> inotifyFd \<and> flag ev = 100"

lemma inotify_events_fd [simp]: "mInotifyFd (inotify_events E n s) = mInotifyFd s"
  using ext.R_events [of s E n] by (simp add: mon_ext_def mon_frame_def)

lemma monitor_batch_fd: "mInotifyFd (snd (monitor_batch E b s)) = mInotifyFd s"
  using ext.R_batch [of s E b] by (simp add: mon_ext_def mon_frame_def)

lemma monitor_batch_stop:
  "fst (monitor_batch E b s) \<longleftrightarrow> list_ex (stop_request (mInotifyFd s)) b"
  by (induction b arbitrary: s) (auto simp: stop_request_def)

lemma monitor_loop_stop:
  "fst (monitor_loop E bs s) \<longleftrightarrow> list_ex (list_ex (stop_request (mInotifyFd s))) bs"
proof (induction bs arbitrary: s)
  case (Cons b bs)
  obtain stop s1 where b: "monitor_batch E b s = (stop, s1)" by force
  then have "mInotifyFd s1 = mInotifyFd s" "stop = list_ex (stop_request (mInotifyFd s)) b"
    using monitor_batch_fd [of E b s] monitor_batch_stop [of E b s] by simp_all
  with Cons [of s1] b show ?case by auto
qed simp

lemma monitorFfs_stop_iff:
  "fst (monitorFfs E bs s) \<longleftrightarrow>
     monDone s \<or> list_ex (list_ex (stop_request (mInotifyFd s))) bs"
proof -
  let ?s0 = "if monStarted s then s else monitor_start E s"
  obtain stop s1 where l: "monitor_loop E bs ?s0 = (stop, s1)" by force
  have "mInotifyFd ?s0 = mInotifyFd s"
    using monitor_start_ext [of s E] by (simp add: mon_ext_def mon_frame_def)
  with l monitor_loop_stop [of E bs ?s0] show ?thesis by (simp add: monitorFfs_def)
qed

end
