(* ===== verification/Gadget.thy ===== *)
theory Gadget
  imports GadgetMonitor
begin

unbundle bit_operations_syntax

text \<open>
  The operations of the USB gadget HAL (usb/gadget/UsbGadget.cpp): tearing the gadget down,
  choosing the vendor and product id, linking the functions, and the handler
  \<open>setCurrentUsbFunctions\<close> that runs them in order and reports to the callback.
\<close>

section \<open>Operations\<close>

text \<open>
  How a handler leaves: with a status, or never, because it waits for a thread that is
  never told to stop.
\<close>

datatype gexit = Ret GadgetStatus | Blocked

definition UsbGadget_init :: "gadget_env \<Rightarrow> 64 word \<Rightarrow> gadget" where
  "UsbGadget_init E uninit = snd (access_file E OS_DESC_PATH
     \<lparr>hist = [], mInotifyFd = -1, mEventFd = -1, mEpollFd = -1, mMonitorCreated = False,
      mEndpointList = [], mCurrentUsbFunctions = uninit, mCurrentUsbFunctionsApplied = False,
      gadgetPullup = False, monStarted = False, monDone = False, writeUdc = True,
      disconnect = 0\<rparr>)"

fun unlink_loop :: "gadget_env \<Rightarrow> string \<Rightarrow> string list \<Rightarrow> (gadget, int) st" where
  "unlink_loop E path [] s = (0, s)"
| "unlink_loop E path (d_name # ds) s =
     (if \<not> contains d_name FUNCTION_NAME then unlink_loop E path ds s
      else case remove_file E (path @ ''/'' @ d_name) s of
             (ok, s1) \<Rightarrow> if ok then unlink_loop E path ds s1 else (-1, s1))"

definition unlinkFunctions :: "gadget_env \<Rightarrow> string \<Rightarrow> (gadget, int) st" where
  "unlinkFunctions E path s =
     (case open_dir E path s of
        (None, s1) \<Rightarrow> (-1, s1)
      | (Some entries, s1) \<Rightarrow> unlink_loop E path (map fst entries) s1)"

definition addEpollFd :: "gadget_env \<Rightarrow> (gadget, int) st" where
  "addEpollFd E = sys E ''epoll_ctl''"

definition getCurrentUsbFunctions :: "gadget_env \<Rightarrow> gadget \<Rightarrow> gadget" where
  "getCurrentUsbFunctions E s =
     snd (notify E (GetCurrentUsbFunctionsCb (mCurrentUsbFunctions s)
        (if mCurrentUsbFunctionsApplied s then FUNCTIONS_APPLIED else FUNCTIONS_NOT_APPLIED)) s)"

text \<open>
  The check of the \<open>write\<close> to the event descriptor: its result is stored in an unsigned
  variable before it is compared, and only logged.
\<close>

definition stop_write_log :: "int \<Rightarrow> string option" where
  "stop_write_log result =
     (let ret = word_of_int result :: 64 word
      in if ret < 0 then Some ''Error writing''
         else if ret < 8 then Some ''Short write''
         else None)"

text \<open>
  Stopping the monitor: the request reaches the thread if all eight bytes were written;
  \<open>join\<close> returns once the thread has returned.
\<close>

definition stop_monitor :: "gadget_env \<Rightarrow> (gadget, gexit, unit) prog" where
  "stop_monitor E s =
     (case sys E ''write(mEventFd, 100)'' s of
        (ret, s1) \<Rightarrow>
          (case monitorFfs E ((case g_batches E (hist s1) of None \<Rightarrow> [] | Some bs \<Rightarrow> bs) @
                  (if ret = 8 then [[EpollIn (mEventFd s1) 0 100]] else [])) s1 of
             (joined, s2) \<Rightarrow>
               if joined then (Inr (), s2\<lparr>mMonitorCreated := False\<rparr>) else (Inl Blocked, s2)))"

definition reset_fds :: "gadget \<Rightarrow> gadget" where
  "reset_fds s = s\<lparr>mInotifyFd := -1, mEventFd := -1, mEpollFd := -1, mEndpointList := []\<rparr>"

definition tearDownGadget :: "gadget_env \<Rightarrow> (gadget, gexit, unit) prog" where
  "tearDownGadget E =
     bindE (liftE (write_file E ''none'' PULLUP_PATH)) (\<lambda>_.
     bindE (check (Ret G_ERROR) (write_file E ''0'' DEVICE_CLASS_PATH)) (\<lambda>_.
     bindE (check (Ret G_ERROR) (write_file E ''0'' DEVICE_SUB_CLASS_PATH)) (\<lambda>_.
     bindE (check (Ret G_ERROR) (write_file E ''0'' DEVICE_PROTOCOL_PATH)) (\<lambda>_.
     bindE (check (Ret G_ERROR) (write_file E ''0'' DESC_USE_PATH)) (\<lambda>_.
     bindE (liftE (unlinkFunctions E CONFIG_PATH)) (\<lambda>ret.
     if ret \<noteq> 0 then throwE (Ret G_ERROR) else
     bindE (getsE mMonitorCreated) (\<lambda>created.
     bindE (whenE created () (stop_monitor E)) (\<lambda>_.
     modifyE reset_fds))))))))"

definition reset :: "gadget_env \<Rightarrow> (gadget, GadgetStatus) st" where
  "reset E s =
     (case write_file E ''none'' PULLUP_PATH s of
        (ok, s1) \<Rightarrow> if ok then (G_SUCCESS, s1) else (G_ERROR, s1))"

text \<open>\<open>symlink(FUNCTIONS_PATH + function, FUNCTION_PATH + index)\<close>; true is the result 0.\<close>

definition linkFunction :: "gadget_env \<Rightarrow> string \<Rightarrow> nat \<Rightarrow> (gadget, bool) st" where
  "linkFunction E function index =
     symlink E (FUNCTIONS_PATH @ function) (FUNCTION_PATH @ dec index)"

definition setVidPid :: "gadget_env \<Rightarrow> string \<Rightarrow> string \<Rightarrow> (gadget, GadgetStatus) st" where
  "setVidPid E vid pid s =
     (case write_file E vid VENDOR_ID_PATH s of
        (ok1, s1) \<Rightarrow>
          if \<not> ok1 then (G_ERROR, s1)
          else case write_file E pid PRODUCT_ID_PATH s1 of
                 (ok2, s2) \<Rightarrow> if \<not> ok2 then (G_ERROR, s2) else (G_SUCCESS, s2))"

definition BUILD_TYPE :: string where "BUILD_TYPE = ''ro.build.type''"
definition PERSISTENT_BOOT_MODE :: string where "PERSISTENT_BOOT_MODE = ''ro.bootmode''"
definition PERSISTENT_VENDOR_CONFIG :: string where
  "PERSISTENT_VENDOR_CONFIG = ''persist.vendor.usb.usbradio.config''"
definition VENDOR_CONFIG :: string where "VENDOR_CONFIG = ''vendor.usb.config''"

definition getVendorFunctions :: "gadget_env \<Rightarrow> (gadget, string) st" where
  "getVendorFunctions E s =
     (case get_prop E BUILD_TYPE '''' s of (buildType, s1) \<Rightarrow>
      if buildType = ''user'' then (''user'', s1)
      else case get_prop E PERSISTENT_BOOT_MODE '''' s1 of (bootMode, s2) \<Rightarrow>
           case get_prop E PERSISTENT_VENDOR_CONFIG '''' s2 of (persistVendorFunctions, s3) \<Rightarrow>
           case get_prop E VENDOR_CONFIG '''' s3 of (vendorFunctions, s4) \<Rightarrow>
           if vendorFunctions \<noteq> '''' then (vendorFunctions, s4)
           else if bootMode = ''usbradio'' then
             (let ret = (if persistVendorFunctions \<noteq> '''' then persistVendorFunctions
                         else ''diag'')
              in (ret, set_prop VENDOR_CONFIG ret s4))
           else ('''', s4))"

definition invalidVendor :: "string \<Rightarrow> bool" where
  "invalidVendor v \<longleftrightarrow> \<not> (v = ''user'' \<or> v = '''')"

text \<open>The branch that seven of the cases share: reject a vendor string, else use the ids.\<close>

definition plainVidPid ::
    "gadget_env \<Rightarrow> string \<Rightarrow> string \<Rightarrow> (gadget, GadgetStatus) st" where
  "plainVidPid E vendorFunctions pid =
     (if invalidVendor vendorFunctions then (\<lambda>s. (CONFIGURATION_NOT_SUPPORTED, s))
      else setVidPid E ''0x18d1'' pid)"

definition validateAndSetVidPid :: "gadget_env \<Rightarrow> 64 word \<Rightarrow> (gadget, GadgetStatus) st" where
  "validateAndSetVidPid E functions s =
     (case getVendorFunctions E s of (v, s1) \<Rightarrow>
      (if functions = g_fn E MTP then
         (if v = ''diag'' then setVidPid E ''0x05C6'' ''0x901B'' else plainVidPid E v ''0x4ee1'')
       else if functions = g_fn E ADB OR g_fn E MTP then
         (if v = ''diag'' then setVidPid E ''0x05C6'' ''0x903A'' else plainVidPid E v ''0x4ee2'')
       else if functions = g_fn E RNDIS then
         (if v = ''diag'' then setVidPid E ''0x05C6'' ''0x902C''
          else if v = ''serial_cdev,diag'' then setVidPid E ''0x05C6'' ''0x90B5''
          else plainVidPid E v ''0x4ee3'')
       else if functions = g_fn E ADB OR g_fn E RNDIS then
         (if v = ''diag'' then setVidPid E ''0x05C6'' ''0x902D''
          else if v = ''serial_cdev,diag'' then setVidPid E ''0x05C6'' ''0x90B6''
          else plainVidPid E v ''0x4ee4'')
       else if functions = g_fn E PTP then plainVidPid E v ''0x4ee5''
       else if functions = g_fn E ADB OR g_fn E PTP then plainVidPid E v ''0x4ee6''
       else if functions = g_fn E ADB then
         (if v = ''diag'' then setVidPid E ''0x05C6'' ''0x901D''
          else if v = ''diag,serial_cdev,rmnet_gsi'' then setVidPid E ''0x05C6'' ''0x9091''
          else if v = ''diag,serial_cdev'' then setVidPid E ''0x05C6'' ''0x901F''
          else plainVidPid E v ''0x4ee7'')
       else if functions = g_fn E MIDI then plainVidPid E v ''0x4ee8''
       else if functions = g_fn E ADB OR g_fn E MIDI then plainVidPid E v ''0x4ee9''
       else if functions = g_fn E ACCESSORY then setVidPid E ''0x18d1'' ''0x2d00''
       else if functions = g_fn E ADB OR g_fn E ACCESSORY then
         setVidPid E ''0x18d1'' ''0x2d01''
       else if functions = g_fn E AUDIO_SOURCE then setVidPid E ''0x18d1'' ''0x2d02''
       else if functions = g_fn E ADB OR g_fn E AUDIO_SOURCE then
         setVidPid E ''0x18d1'' ''0x2d03''
       else if functions = g_fn E ACCESSORY OR g_fn E AUDIO_SOURCE then
         setVidPid E ''0x18d1'' ''0x2d04''
       else if functions = g_fn E ADB OR g_fn E ACCESSORY OR g_fn E AUDIO_SOURCE then
         setVidPid E ''0x18d1'' ''0x2d05''
       else (\<lambda>s. (CONFIGURATION_NOT_SUPPORTED, s))) s1)"

subsection \<open>Linking the functions\<close>

definition has_fn :: "gadget_env \<Rightarrow> 64 word \<Rightarrow> GadgetFunction \<Rightarrow> bool" where
  "has_fn E functions f \<longleftrightarrow> functions AND g_fn E f \<noteq> 0"

text \<open>\<open>if (linkFunction(function, i++)) return Status::ERROR;\<close>\<close>

definition link :: "gadget_env \<Rightarrow> string \<Rightarrow> nat \<Rightarrow> (gadget, gexit, nat) prog" where
  "link E function i =
     bindE (check (Ret G_ERROR) (linkFunction E function i)) (\<lambda>_. returnE (Suc i))"

text \<open>
  The part the MTP, PTP and ADB branches share: OS descriptors on, watch the endpoint
  directory, link the function, remember its endpoints.
\<close>

definition link_ffs ::
    "gadget_env \<Rightarrow> string \<Rightarrow> string \<Rightarrow> string list \<Rightarrow> nat \<Rightarrow> (gadget, gexit, nat) prog" where
  "link_ffs E function dir eps i =
     bindE (check (Ret G_ERROR) (write_file E ''1'' DESC_USE_PATH)) (\<lambda>_.
     bindE (liftE (sys E (''inotify_add_watch '' @ dir))) (\<lambda>wd.
     if wd = -1 then throwE (Ret G_ERROR) else
     bindE (link E function i) (\<lambda>i'.
     bindE (modifyE (\<lambda>s. s\<lparr>mEndpointList := mEndpointList s @ map (\<lambda>e. dir @ e) eps\<rparr>)) (\<lambda>_.
     returnE i'))))"

text \<open>The loop over the vendor functions.\<close>

fun vendor_loop :: "gadget_env \<Rightarrow> string list \<Rightarrow> nat \<Rightarrow> (gadget, gexit, nat) prog" where
  "vendor_loop E [] i = returnE i"
| "vendor_loop E (function # fs) i =
     bindE (whenE (function = ''diag'') i (link E ''diag.diag'' i)) (\<lambda>i1.
     bindE (whenE (function = ''serial_cdev'') i1 (link E ''cser.dun.0'' i1)) (\<lambda>i2.
     bindE (whenE (function = ''rmnet_gsi'') i2 (link E ''gsi.rmnet'' i2)) (\<lambda>i3.
     vendor_loop E fs i3)))"

definition link_functions :: "gadget_env \<Rightarrow> 64 word \<Rightarrow> (gadget, gexit, nat) prog" where
  "link_functions E functions =
     bindE (if has_fn E functions MTP
            then link_ffs E ''ffs.mtp'' ''/dev/usb-ffs/mtp/'' [''ep1'', ''ep2'', ''ep3''] 0
            else if has_fn E functions PTP
            then link_ffs E ''ffs.ptp'' ''/dev/usb-ffs/ptp/'' [''ep1'', ''ep2'', ''ep3''] 0
            else returnE 0) (\<lambda>i.
     bindE (whenE (has_fn E functions MIDI) i (link E ''midi.gs5'' i)) (\<lambda>i.
     bindE (whenE (has_fn E functions ACCESSORY) i (link E ''accessory.gs2'' i)) (\<lambda>i.
     bindE (whenE (has_fn E functions AUDIO_SOURCE) i (link E ''audio_source.gs3'' i)) (\<lambda>i.
     bindE (whenE (has_fn E functions RNDIS) i (link E ''gsi.rndis'' i)) (\<lambda>i.
     bindE (liftE (getVendorFunctions E)) (\<lambda>vendorFunctions.
     bindE (vendor_loop E (strtok_all (CHR '','') vendorFunctions) i) (\<lambda>i.
     whenE (has_fn E functions ADB) i
       (link_ffs E ''ffs.adb'' ''/dev/usb-ffs/adb/'' [''ep1'', ''ep2''] i))))))))"

definition ffsEnabled :: "gadget_env \<Rightarrow> 64 word \<Rightarrow> bool" where
  "ffsEnabled E functions \<longleftrightarrow>
     has_fn E functions MTP \<or> has_fn E functions PTP \<or> has_fn E functions ADB"

subsection \<open>Setting the gadget up\<close>

text \<open>The condition variable: the monitor may run while the main thread waits on it.\<close>

definition wait_pullup :: "gadget_env \<Rightarrow> gadget \<Rightarrow> gadget" where
  "wait_pullup E s =
     (case g_batches E (hist s) of None \<Rightarrow> s | Some bs \<Rightarrow> snd (monitorFfs E bs s))"

definition report_pullup :: "gadget_env \<Rightarrow> 64 word \<Rightarrow> gadget \<Rightarrow> gadget" where
  "report_pullup E functions s =
     snd (notify E (SetCurrentUsbFunctionsCb functions
        (if gadgetPullup s then G_SUCCESS else G_ERROR)) s)"

text \<open>No FunctionFS function: the gadget is pulled up at once.\<close>

definition pull_up_now :: "gadget_env \<Rightarrow> 64 word \<Rightarrow> bool \<Rightarrow> (gadget, gexit, unit) prog" where
  "pull_up_now E functions callback =
     bindE (check (Ret G_ERROR) (write_file E GADGET_NAME PULLUP_PATH)) (\<lambda>_.
     bindE (modifyE (\<lambda>s. s\<lparr>mCurrentUsbFunctionsApplied := True\<rparr>)) (\<lambda>_.
     whenE callback ()
       (bindE (liftE (notify E (SetCurrentUsbFunctionsCb functions G_SUCCESS))) (\<lambda>_.
        returnE ()))))"

text \<open>Otherwise the monitor thread is created and, with a callback, waited for.\<close>

definition start_monitor ::
    "gadget_env \<Rightarrow> int \<Rightarrow> 64 word \<Rightarrow> bool \<Rightarrow> (gadget, gexit, unit) prog" where
  "start_monitor E inotifyFd functions callback =
     bindE (liftE (sys E ''eventfd'')) (\<lambda>eventFd.
     if eventFd = -1 then throwE (Ret G_ERROR) else
     bindE (liftE (sys E ''epoll_create1'')) (\<lambda>epollFd.
     if epollFd = -1 then throwE (Ret G_ERROR) else
     bindE (liftE (addEpollFd E)) (\<lambda>r1.
     if r1 = -1 then throwE (Ret G_ERROR) else
     bindE (liftE (addEpollFd E)) (\<lambda>r2.
     if r2 = -1 then throwE (Ret G_ERROR) else
     bindE (modifyE (\<lambda>s. s\<lparr>mEpollFd := epollFd, mInotifyFd := inotifyFd, mEventFd := eventFd,
                          gadgetPullup := False, monStarted := False, monDone := False,
                          mMonitorCreated := True\<rparr>)) (\<lambda>_.
     whenE callback ()
       (bindE (modifyE (wait_pullup E)) (\<lambda>_.
        modifyE (report_pullup E functions))))))))"

definition setupFunctions ::
    "gadget_env \<Rightarrow> 64 word \<Rightarrow> bool \<Rightarrow> (gadget, gexit, unit) prog" where
  "setupFunctions E functions callback =
     bindE (liftE (sys E ''inotify_init'')) (\<lambda>inotifyFd.
     if inotifyFd < 0 then throwE (Ret G_ERROR) else
     bindE (liftE (get_prop E PERSISTENT_BOOT_MODE '''')) (\<lambda>_.
     bindE (link_functions E functions) (\<lambda>_.
     if \<not> ffsEnabled E functions then pull_up_now E functions callback
     else start_monitor E inotifyFd functions callback)))"

subsection \<open>The handler\<close>

definition setCurrentUsbFunctions_body ::
    "gadget_env \<Rightarrow> 64 word \<Rightarrow> bool \<Rightarrow> (gadget, gexit, unit) prog" where
  "setCurrentUsbFunctions_body E functions callback =
     bindE (tearDownGadget E) (\<lambda>_.
     bindE (modifyE (usleep DISCONNECT_WAIT_US)) (\<lambda>_.
     if functions = g_fn E NONE then
       whenE callback ()
         (bindE (liftE (notify E (SetCurrentUsbFunctionsCb functions G_SUCCESS))) (\<lambda>_.
          returnE ()))
     else
       bindE (liftE (validateAndSetVidPid E functions)) (\<lambda>status.
       if status \<noteq> G_SUCCESS then throwE (Ret status)
       else setupFunctions E functions callback)))"

text \<open>The result says whether the call returns; it does not when it waits forever.\<close>

definition setCurrentUsbFunctions ::
    "gadget_env \<Rightarrow> 64 word \<Rightarrow> bool \<Rightarrow> (gadget, bool) st" where
  "setCurrentUsbFunctions E functions callback s =
     (case setCurrentUsbFunctions_body E functions callback
             (s\<lparr>mCurrentUsbFunctions := functions, mCurrentUsbFunctionsApplied := False\<rparr>) of
        (Inr _, s1) \<Rightarrow> (True, s1)
      | (Inl Blocked, s1) \<Rightarrow> (False, s1)
      | (Inl (Ret status), s1) \<Rightarrow>
          (True, if callback
                 then snd (notify E (SetCurrentUsbFunctionsCb functions status) s1) else s1))"

end
