(* ===== verification/GadgetCorrect.thy ===== *)
theory GadgetCorrect
  imports Gadget
begin

unbundle bit_operations_syntax

text \<open>
  What the gadget HAL promises: every request is answered exactly once, success is only
  reported for a gadget that is pulled up, the functions are linked in the order of a plan,
  and a torn-down gadget has no function left.
\<close>

section \<open>Messages\<close>

abbreviation messages :: "gadget \<Rightarrow> gadget_msg list" where
  "messages s \<equiv> notified (hist s)"

text \<open>Stopping the monitor is some activity of it, after which it has returned or never will.\<close>

lemma stop_monitor_result:
  assumes "stop_monitor E s = (r, s')"
  shows "\<exists>u. mon_ext s u \<and> (r = Inr () \<and> monDone u \<and> s' = u\<lparr>mMonitorCreated := False\<rparr> \<or>
           r = Inl Blocked \<and> s' = u)"
proof -
  obtain ret s1 where w: "sys E ''write(mEventFd, 100)'' s = (ret, s1)" by force
  define bs where "bs = (case g_batches E (hist s1) of None \<Rightarrow> [] | Some bs \<Rightarrow> bs) @
    (if ret = 8 then [[EpollIn (mEventFd s1) 0 100]] else [])"
  obtain joined u where m: "monitorFfs E bs s1 = (joined, u)" by force
  have "mon_ext s s1"
    using w by (auto simp: mon_ext_def mon_frame_def os_simps
        intro!: exI [of _ "[Sys ''write(mEventFd, 100)'' ret]"])
  moreover have "mon_ext s1 u" using ext.R_run [of s1 E bs] m by simp
  moreover have "joined \<Longrightarrow> monDone u"
    using m by (auto simp: monitorFfs_def split: if_splits prod.splits)
  moreover have "r = (if joined then Inr () else Inl Blocked)"
    "s' = (if joined then u\<lparr>mMonitorCreated := False\<rparr> else u)"
    using assms w m unfolding bs_def by (auto simp: stop_monitor_def split: if_splits)
  ultimately show ?thesis by (cases joined) (auto intro: mon_ext_trans)
qed

lemma messages_stop [frame]: "keeps messages (stop_monitor E)"
  by (rule keepsI) (drule stop_monitor_result, auto simp: mon_ext_def)

lemma messages_unlink_loop: "messages (snd (unlink_loop E path ds s)) = messages s"
  by (induction ds arbitrary: s) (auto simp: os_simps split: prod.splits if_splits)

lemma messages_unlink [frame]: "keeps messages (unlinkFunctions E path)"
proof (rule keepsI)
  fix s r s'
  assume "unlinkFunctions E path s = (r, s')"
  then show "messages s' = messages s"
    using messages_unlink_loop [of E path _ "snd (open_dir E path s)"]
    by (auto simp: unlinkFunctions_def os_simps split: option.splits) (metis snd_conv)
qed

lemma messages_os [frame]:
  "keeps messages (write_file E c p)" "keeps messages (access_file E p)"
  "keeps messages (symlink E t l)" "keeps messages (sys E n)" "keeps messages (get_prop E k d)"
  "keeps messages (remove_file E p)"
  by (auto simp: os_defs intro: keeps_ask)

lemma messages_vendor [frame]: "keeps messages (getVendorFunctions E)"
  by (rule keepsI) (auto simp: getVendorFunctions_def os_simps split: if_splits)

lemma messages_setVidPid [frame]: "keeps messages (setVidPid E vid pid)"
  by (rule keepsI) (auto simp: setVidPid_def os_simps split: if_splits)

lemma messages_validate [frame]: "keeps messages (validateAndSetVidPid E functions)"
proof (rule keepsI)
  fix s r s'
  assume run: "validateAndSetVidPid E functions s = (r, s')"
  obtain v s1 where v: "getVendorFunctions E s = (v, s1)" by force
  then have "messages s1 = messages s" by (rule keepsD [OF messages_vendor])
  moreover have "messages s' = messages s1"
    using run unfolding validateAndSetVidPid_def v
    by (auto simp: plainVidPid_def dest: keepsD [OF messages_setVidPid] split: if_splits)
  ultimately show "messages s' = messages s" by simp
qed

lemma messages_tearDown [frame]: "keeps messages (tearDownGadget E)"
  unfolding tearDownGadget_def by (intro frame) (simp add: reset_fds_def)

lemma messages_link [frame]: "keeps messages (link E f i)"
  unfolding link_def linkFunction_def by (intro frame)

lemma messages_link_ffs [frame]: "keeps messages (link_ffs E f d eps i)"
  unfolding link_ffs_def by (intro frame) simp

lemma messages_vendor_loop [frame]: "keeps messages (vendor_loop E fs i)"
proof (induction fs arbitrary: i)
  case Nil
  then show ?case by (simp add: frame)
next
  case (Cons f fs)
  show ?case unfolding vendor_loop.simps by (intro frame Cons)
qed

lemma messages_link_functions [frame]: "keeps messages (link_functions E functions)"
  unfolding link_functions_def by (intro frame)

section \<open>One answer per request, and success means pulled up\<close>

text \<open>The content that was last stored in the UDC file.\<close>

definition udc :: "gadget \<Rightarrow> string option" where
  "udc s = (case stored PULLUP_PATH (hist s) of [] \<Rightarrow> None | c # _ \<Rightarrow> Some c)"

definition pulled_up :: "gadget \<Rightarrow> bool" where
  "pulled_up s \<longleftrightarrow> mCurrentUsbFunctionsApplied s \<and> udc s = Some GADGET_NAME"

definition answered :: "64 word \<Rightarrow> bool \<Rightarrow> gadget_msg list \<Rightarrow> gadget \<Rightarrow> bool" where
  "answered functions callback before s \<longleftrightarrow>
     (if callback
      then (\<exists>status. messages s = SetCurrentUsbFunctionsCb functions status # before \<and>
              (status = G_SUCCESS \<longrightarrow> pulled_up s))
      else messages s = before)"

text \<open>What the monitor leaves in the UDC file, if it stores anything, is the name.\<close>

lemma mon_ext_stored:
  assumes "set (writes g) \<subseteq> {(PULLUP_PATH, GADGET_NAME)}" and "stored PULLUP_PATH g \<noteq> []"
  shows "hd (stored PULLUP_PATH g) = GADGET_NAME"
proof -
  have "hd (stored PULLUP_PATH g) \<in> set (stored PULLUP_PATH g)" using assms(2) by simp
  from stored_writes [OF this] assms(1) show ?thesis by auto
qed

lemma mon_ext_pulled_up:
  assumes "mon_ext s t" and "gadgetPullup t" and "\<not> gadgetPullup s"
  shows "pulled_up t"
proof -
  from assms(1) obtain g where g: "hist t = g @ hist s"
    "set (writes g) \<subseteq> {(PULLUP_PATH, GADGET_NAME)}"
    "if stored PULLUP_PATH g = []
     then mCurrentUsbFunctionsApplied t = mCurrentUsbFunctionsApplied s \<and>
          gadgetPullup t = gadgetPullup s
     else mCurrentUsbFunctionsApplied t \<and> gadgetPullup t"
    unfolding mon_ext_def by blast
  with assms(2,3) have "stored PULLUP_PATH g \<noteq> []" by auto
  with g mon_ext_stored [of g] show ?thesis
    by (cases "stored PULLUP_PATH g") (auto simp: pulled_up_def udc_def)
qed

lemma wait_pullup_ext: "mon_ext s (wait_pullup E s)"
  using ext.R_run by (auto simp: wait_pullup_def split: option.splits)

lemma report_pullup_answers:
  assumes "messages s = before" and "gadgetPullup s \<Longrightarrow> pulled_up s"
  shows "answered functions True before (report_pullup E functions s)"
  using assms
  by (auto simp: answered_def report_pullup_def os_simps pulled_up_def udc_def)

lemma pull_up_now_answers:
  "hoareE (\<lambda>s. messages s = before) (pull_up_now E functions callback)
     (\<lambda>_. answered functions callback before) (\<lambda>e s. messages s = before \<and> e = Ret G_ERROR)"
  by (auto simp: hoareE_def pull_up_now_def prog_simps os_simps answered_def pulled_up_def
      udc_def)

lemma hoareE_sys:
  "hoareE (\<lambda>s. messages s = before) (liftE (sys E n)) (\<lambda>_ s. messages s = before) R"
  by (simp add: hoareE_def liftE_def os_simps)

lemma start_monitor_answers:
  "hoareE (\<lambda>s. messages s = before) (start_monitor E inotifyFd functions callback)
     (\<lambda>_. answered functions callback before) (\<lambda>e s. messages s = before \<and> e = Ret G_ERROR)"
proof -
  have up: "answered functions True before (report_pullup E functions (wait_pullup E s))"
    if "messages s = before \<and> \<not> gadgetPullup s" for s
  proof (rule report_pullup_answers)
    note w = wait_pullup_ext [of s E]
    show "messages (wait_pullup E s) = before" using w that by (auto simp: mon_ext_def)
    show "pulled_up (wait_pullup E s)" if "gadgetPullup (wait_pullup E s)"
      using mon_ext_pulled_up [OF w that] \<open>messages s = before \<and> \<not> gadgetPullup s\<close> by blast
  qed
  let ?R = "\<lambda>e s. messages s = before \<and> e = Ret G_ERROR"
  have last: "hoareE (\<lambda>s. messages s = before \<and> \<not> gadgetPullup s)
      (whenE callback () (bindE (modifyE (wait_pullup E)) (\<lambda>_.
         modifyE (report_pullup E functions))))
      (\<lambda>_. answered functions callback before) ?R"
    using up by (auto simp: hoareE_def prog_simps answered_def)
  show ?thesis
    unfolding start_monitor_def addEpollFd_def
    apply (rule hoareE_bind [OF hoareE_sys], rule hoareE_if, rule hoareE_throw, simp)+
    apply (rule hoareE_bind [OF hoareE_modify last])
    apply simp
    done
qed

text \<open>Nothing before the last part of a set-up sends a message; a status thrown is no success.\<close>

definition no_success :: "gexit \<Rightarrow> bool" where
  "no_success e \<longleftrightarrow> e \<noteq> Ret G_SUCCESS"

definition failing :: "(gadget, gexit, 'a) prog \<Rightarrow> bool" where
  "failing m \<longleftrightarrow> (\<forall>s. case m s of (Inl e, _) \<Rightarrow> no_success e | (Inr _, _) \<Rightarrow> True)"

lemma failing_simps:
  "failing (throwE (Ret G_ERROR))" "failing (returnE a)" "failing (liftE st)"
  "failing (getsE g)" "failing (modifyE h)" "failing (check (Ret G_ERROR) b)"
  by (auto simp: failing_def no_success_def prog_simps split: prod.splits)

lemma failing_bind: "failing m \<Longrightarrow> (\<And>a. failing (k a)) \<Longrightarrow> failing (bindE m k)"
  unfolding failing_def bindE_def by (fastforce split: prod.splits sum.splits)

lemma failing_if: "failing m \<Longrightarrow> failing n \<Longrightarrow> failing (if b then m else n)"
  by simp

lemma failing_when: "failing m \<Longrightarrow> failing (whenE b a m)"
  by (simp add: whenE_def failing_simps)

lemmas failing_intros = failing_simps failing_bind failing_if failing_when

lemma failing_stop: "failing (stop_monitor E)"
  unfolding failing_def
  by (auto split: prod.splits sum.splits simp: no_success_def dest: stop_monitor_result)

lemma failing_tearDown: "failing (tearDownGadget E)"
  unfolding tearDownGadget_def by (intro failing_intros failing_stop)

lemma failing_link: "failing (link E f i)"
  unfolding link_def by (intro failing_intros)

lemma failing_link_ffs: "failing (link_ffs E f d eps i)"
  unfolding link_ffs_def by (intro failing_intros failing_link)

lemma failing_vendor_loop: "failing (vendor_loop E fs i)"
proof (induction fs arbitrary: i)
  case (Cons f fs)
  show ?case unfolding vendor_loop.simps by (intro failing_intros failing_link Cons)
qed (simp add: failing_simps)

lemma failing_link_functions: "failing (link_functions E functions)"
  unfolding link_functions_def
  by (intro failing_intros failing_link failing_link_ffs failing_vendor_loop)

lemma hoareE_quiet:
  assumes "keeps messages m" and "failing m"
  shows "hoareE (\<lambda>s. messages s = before) m (\<lambda>_ s. messages s = before)
           (\<lambda>e s. messages s = before \<and> no_success e)"
proof -
  have "no_success e" if "m s = (Inl e, s')" for s e s'
    using assms(2) that by (fastforce simp: failing_def split: prod.splits sum.splits)
  with hoareE_keeps [OF assms(1)] show ?thesis
    unfolding hoareE_def by (fastforce split: prod.splits sum.splits)
qed

lemma setupFunctions_answers:
  "hoareE (\<lambda>s. messages s = before) (setupFunctions E functions callback)
     (\<lambda>_. answered functions callback before) (\<lambda>e s. messages s = before \<and> no_success e)"
proof -
  let ?R = "\<lambda>e s. messages s = before \<and> no_success e"
  let ?pull = "\<lambda>inotifyFd. if \<not> ffsEnabled E functions then pull_up_now E functions callback
     else start_monitor E inotifyFd functions callback"
  have last: "hoareE (\<lambda>s. messages s = before) (?pull inotifyFd)
      (\<lambda>_. answered functions callback before) ?R" for inotifyFd
    by (intro hoareE_if hoareE_conseq [OF pull_up_now_answers]
        hoareE_conseq [OF start_monitor_answers]) (auto simp: no_success_def)
  have links: "hoareE (\<lambda>s. messages s = before)
      (bindE (link_functions E functions) (\<lambda>_. ?pull inotifyFd))
      (\<lambda>_. answered functions callback before) ?R" for inotifyFd
    by (rule hoareE_bind [OF hoareE_quiet last]) (rule frame failing_link_functions)+
  show ?thesis
    unfolding setupFunctions_def
    by (rule hoareE_bind [OF hoareE_quiet hoareE_if [OF hoareE_throw
            hoareE_bind [OF hoareE_quiet links]]])
       (auto intro: frame failing_intros simp: no_success_def)
qed

lemma body_answers:
  "hoareE (\<lambda>s. messages s = before) (setCurrentUsbFunctions_body E functions callback)
     (\<lambda>_ s. if functions = g_fn E NONE
            then messages s = (if callback then [SetCurrentUsbFunctionsCb functions G_SUCCESS]
                               else []) @ before
            else answered functions callback before s)
     (\<lambda>e s. messages s = before \<and> no_success e)" (is "hoareE ?P _ ?Q ?R")
proof -
  let ?none = "whenE callback ()
    (bindE (liftE (notify E (SetCurrentUsbFunctionsCb functions G_SUCCESS))) (\<lambda>_. returnE ()))
      :: (gadget, gexit, unit) prog"
  let ?some = "bindE (liftE (validateAndSetVidPid E functions)) (\<lambda>status.
    if status \<noteq> G_SUCCESS then throwE (Ret status) else setupFunctions E functions callback)"
  have none: "hoareE ?P ?none (\<lambda>_ s. messages s =
      (if callback then [SetCurrentUsbFunctionsCb functions G_SUCCESS] else []) @ before) ?R"
    by (simp add: hoareE_def prog_simps os_simps)
  have some: "hoareE ?P ?some (\<lambda>_. answered functions callback before) ?R"
    by (rule hoareE_bind [OF hoareE_quiet hoareE_if [OF hoareE_throw setupFunctions_answers]])
       (auto intro: frame failing_intros simp: no_success_def)
  have both: "hoareE ?P (if functions = g_fn E NONE then ?none else ?some) ?Q ?R"
  proof (cases "functions = g_fn E NONE")
    case True
    show ?thesis unfolding if_P [OF True] by (rule none)
  next
    case False
    show ?thesis unfolding if_not_P [OF False] by (rule some)
  qed
  have rest: "hoareE ?P (bindE (modifyE (usleep DISCONNECT_WAIT_US)) (\<lambda>_.
      if functions = g_fn E NONE then ?none else ?some)) ?Q ?R"
    by (rule hoareE_bind [OF hoareE_modify both]) (simp add: os_simps)
  show ?thesis
    unfolding setCurrentUsbFunctions_body_def
    by (rule hoareE_bind [OF hoareE_quiet rest]) (rule frame failing_tearDown)+
qed

text \<open>
  The fact about the handler that the properties are read off from: a request that returns
  is answered once, and an answer of success to anything but the empty request comes from a
  gadget that is pulled up.
\<close>

lemma handler_answers:
  assumes "setCurrentUsbFunctions E functions callback s = (True, s')"
  shows "if callback
         then \<exists>status. messages s' = SetCurrentUsbFunctionsCb functions status # messages s \<and>
                (status = G_SUCCESS \<longrightarrow> functions \<noteq> g_fn E NONE \<longrightarrow> pulled_up s')
         else messages s' = messages s"
proof -
  let ?s0 = "s\<lparr>mCurrentUsbFunctions := functions, mCurrentUsbFunctionsApplied := False\<rparr>"
  obtain r s1 where run: "setCurrentUsbFunctions_body E functions callback ?s0 = (r, s1)"
    by force
  have m0: "messages ?s0 = messages s" by simp
  show ?thesis
  proof (cases r)
    case (Inl e)
    with hoareE_Inl [OF body_answers m0] run
    have quiet: "messages s1 = messages s" "no_success e" by blast+
    from assms run Inl obtain status where "e = Ret status"
      by (cases e) (auto simp: setCurrentUsbFunctions_def)
    with assms run Inl quiet show ?thesis
      by (auto simp: setCurrentUsbFunctions_def os_simps no_success_def)
  next
    case (Inr u)
    with run have "setCurrentUsbFunctions_body E functions callback ?s0 = (Inr u, s1)" by simp
    note ans = hoareE_Inr [OF body_answers m0 this]
    from assms run Inr have "s' = s1" by (simp add: setCurrentUsbFunctions_def)
    with ans show ?thesis
      by (cases "functions = g_fn E NONE"; cases callback) (simp_all add: answered_def)
  qed
qed

section \<open>The plan of links\<close>

text \<open>
  The abstract specification of \<open>setupFunctions\<close>: the functions it links, in order. The
  link of the \<open>k\<close>-th one is named \<open>function<k>\<close>.
\<close>

definition vendor_links :: "string \<Rightarrow> string list" where
  "vendor_links f =
     (if f = ''diag'' then [''diag.diag''] else if f = ''serial_cdev'' then [''cser.dun.0'']
      else if f = ''rmnet_gsi'' then [''gsi.rmnet''] else [])"

definition plan :: "gadget_env \<Rightarrow> 64 word \<Rightarrow> string \<Rightarrow> string list" where
  "plan E functions vendor =
     (if has_fn E functions MTP then [''ffs.mtp'']
      else if has_fn E functions PTP then [''ffs.ptp''] else []) @
     (if has_fn E functions MIDI then [''midi.gs5''] else []) @
     (if has_fn E functions ACCESSORY then [''accessory.gs2''] else []) @
     (if has_fn E functions AUDIO_SOURCE then [''audio_source.gs3''] else []) @
     (if has_fn E functions RNDIS then [''gsi.rndis''] else []) @
     concat (map vendor_links (strtok_all (CHR '','') vendor)) @
     (if has_fn E functions ADB then [''ffs.adb''] else [])"

definition numbered :: "string list \<Rightarrow> (string \<times> string) list" where
  "numbered fs = map (\<lambda>k. (FUNCTIONS_PATH @ fs ! k, FUNCTION_PATH @ dec k)) [0..<length fs]"

text \<open>
  The links made since a point with links \<open>L\<close>, newest first, are those of \<open>fs\<close>; the
  properties read so far are \<open>G\<close>.
\<close>

definition linked ::
    "(string \<times> string) list \<Rightarrow> (string \<times> string) list \<Rightarrow> string list \<Rightarrow> nat \<Rightarrow> gadget \<Rightarrow> bool" where
  "linked L G fs i s \<longleftrightarrow>
     i = length fs \<and> links (hist s) = rev (numbered fs) @ L \<and> gots (hist s) = G"

abbreviation trace :: "gadget \<Rightarrow> (string \<times> string) list \<times> (string \<times> string) list" where
  "trace s \<equiv> (links (hist s), gots (hist s))"

lemma numbered_snoc:
  "numbered (fs @ [f]) =
     numbered fs @ [(FUNCTIONS_PATH @ f, FUNCTION_PATH @ dec (length fs))]"
  by (simp add: numbered_def nth_append)

lemma numbered_Nil [simp]: "numbered [] = []"
  by (simp add: numbered_def)

text \<open>\<open>extends fs f gs\<close>: a step that appends \<open>gs\<close> to the functions linked so far.\<close>

definition extends :: "(nat \<Rightarrow> (gadget, gexit, nat) prog) \<Rightarrow> string list \<Rightarrow> bool" where
  "extends m gs \<longleftrightarrow>
     (\<forall>L G fs i. hoareE (linked L G fs i) (m i) (linked L G (fs @ gs)) (\<lambda>_ _. True))"

lemma extends_none: "extends returnE []"
  by (simp add: extends_def hoareE_return)

lemma extends_bind:
  assumes "extends m gs" and "extends n hs"
  shows "extends (\<lambda>i. bindE (m i) n) (gs @ hs)"
  unfolding extends_def
proof (intro allI)
  fix L G fs i
  have "hoareE (linked L G (fs @ gs) j) (n j) (linked L G (fs @ gs @ hs)) (\<lambda>_ _. True)" for j
    using assms(2) unfolding extends_def by (metis append_assoc)
  with assms(1) show "hoareE (linked L G fs i) (bindE (m i) n) (linked L G (fs @ gs @ hs)) (\<lambda>_ _. True)"
    unfolding extends_def by (intro hoareE_bind [where M = "linked L G (fs @ gs)"]) auto
qed

lemma extends_when: "extends m gs \<Longrightarrow> extends (\<lambda>i. whenE b i (m i)) (if b then gs else [])"
  by (simp add: extends_def whenE_def hoareE_return)

lemma extends_if:
  "extends m gs \<Longrightarrow> extends n hs \<Longrightarrow>
     extends (\<lambda>i. if b then m i else n i) (if b then gs else hs)"
  by (simp add: extends_def)

lemma extends_link: "extends (link E f) [f]"
  unfolding extends_def link_def linkFunction_def
  by (auto simp: hoareE_def prog_simps os_simps linked_def numbered_snoc)

lemma linked_lift:
  "keeps trace m \<Longrightarrow> hoareE (linked L G fs i) (liftE m) (\<lambda>_. linked L G fs i) (\<lambda>_ _. True)"
  unfolding linked_def
  by (auto simp: hoareE_def liftE_def split: prod.splits dest: keepsD)

lemma linked_check:
  "keeps trace m \<Longrightarrow> hoareE (linked L G fs i) (check e m) (\<lambda>_. linked L G fs i) (\<lambda>_ _. True)"
  unfolding linked_def
  by (auto simp: hoareE_def check_def split: prod.splits dest: keepsD)

lemma links_os [frame]:
  "keeps trace (write_file E c p)" "keeps trace (sys E n)"
  by (auto simp: os_defs intro: keeps_ask)

lemma extends_link_ffs: "extends (link_ffs E f d eps) [f]"
proof -
  have push: "hoareE (linked L G fs i)
      (bindE (modifyE (\<lambda>s. s\<lparr>mEndpointList := mEndpointList s @ map (\<lambda>e. d @ e) eps\<rparr>))
         (\<lambda>_. returnE i)) (linked L G fs) (\<lambda>_ _. True)" for L G fs i
    by (simp add: hoareE_def prog_simps linked_def)
  show ?thesis
    unfolding extends_def link_ffs_def
  proof (intro allI)
    fix L G fs i
    have "hoareE (linked L G fs i) (bindE (link E f i) (\<lambda>i'.
        bindE (modifyE (\<lambda>s. s\<lparr>mEndpointList := mEndpointList s @ map (\<lambda>e. d @ e) eps\<rparr>))
         (\<lambda>_. returnE i'))) (linked L G (fs @ [f])) (\<lambda>_ _. True)"
      by (rule hoareE_bind [OF extends_link [unfolded extends_def, rule_format] push])
    then show "hoareE (linked L G fs i)
      (bindE (check (Ret G_ERROR) (write_file E ''1'' DESC_USE_PATH)) (\<lambda>_.
       bindE (liftE (sys E (''inotify_add_watch '' @ d))) (\<lambda>wd.
       if wd = -1 then throwE (Ret G_ERROR) else
       bindE (link E f i) (\<lambda>i'.
       bindE (modifyE (\<lambda>s. s\<lparr>mEndpointList := mEndpointList s @ map (\<lambda>e. d @ e) eps\<rparr>))
         (\<lambda>_. returnE i'))))) (linked L G (fs @ [f])) (\<lambda>_ _. True)"
      by (intro hoareE_bind [OF linked_check] hoareE_bind [OF linked_lift] hoareE_if
          hoareE_throw frame) auto
  qed
qed

lemma extends_vendor_loop: "extends (vendor_loop E fs) (concat (map vendor_links fs))"
proof (induction fs)
  case Nil
  then show ?case using extends_none by (simp add: extends_def)
next
  case (Cons f fs)
  have "extends (vendor_loop E (f # fs))
     ((if f = ''diag'' then [''diag.diag''] else []) @
      (if f = ''serial_cdev'' then [''cser.dun.0''] else []) @
      (if f = ''rmnet_gsi'' then [''gsi.rmnet''] else []) @ concat (map vendor_links fs))"
    unfolding vendor_loop.simps by (intro extends_bind extends_when extends_link Cons)
  moreover have "(if f = ''diag'' then [''diag.diag''] else []) @
      (if f = ''serial_cdev'' then [''cser.dun.0''] else []) @
      (if f = ''rmnet_gsi'' then [''gsi.rmnet''] else []) @ concat (map vendor_links fs) =
      concat (map vendor_links (f # fs))"
    by (simp add: vendor_links_def)
  ultimately show ?case by (simp only:)
qed


text \<open>
  The vendor functions as a function of the properties. Properties may change at any time, so
  the handler is judged by the values it read itself.
\<close>

definition vendor_of :: "(string \<Rightarrow> string) \<Rightarrow> string" where
  "vendor_of props =
     (if props BUILD_TYPE = ''user'' then ''user''
      else if props VENDOR_CONFIG \<noteq> '''' then props VENDOR_CONFIG
      else if props PERSISTENT_BOOT_MODE = ''usbradio'' then
        (if props PERSISTENT_VENDOR_CONFIG \<noteq> '''' then props PERSISTENT_VENDOR_CONFIG
         else ''diag'')
      else '''')"

lemma vendor_of_reads:
  "vendor_of (last_read ((BUILD_TYPE, ''user'') # q)) = ''user''"
  "b \<noteq> ''user'' \<Longrightarrow>
     vendor_of (last_read ((VENDOR_CONFIG, v) # (PERSISTENT_VENDOR_CONFIG, p) #
       (PERSISTENT_BOOT_MODE, m) # (BUILD_TYPE, b) # q)) =
     (if v \<noteq> '''' then v else if m = ''usbradio'' then if p \<noteq> '''' then p else ''diag'' else '''')"
  by (simp_all add: vendor_of_def last_read_def BUILD_TYPE_def VENDOR_CONFIG_def
      PERSISTENT_BOOT_MODE_def PERSISTENT_VENDOR_CONFIG_def)

text \<open>The reads \<open>r\<close> yield the vendor functions \<open>v\<close>, whatever was read before them.\<close>

definition yields :: "(string \<times> string) list \<Rightarrow> string \<Rightarrow> bool" where
  "yields r v \<longleftrightarrow> (\<forall>q. vendor_of (last_read (r @ q)) = v)"

lemma getVendorFunctions_reads:
  assumes "getVendorFunctions E s = (v, s')"
  shows "links (hist s') = links (hist s) \<and>
    (\<exists>r. gots (hist s') = r @ gots (hist s) \<and> yields r v)"
proof -
  have "links (hist s') = links (hist s)"
    using assms by (auto simp: getVendorFunctions_def os_simps split: if_splits)
  moreover have "\<exists>r. gots (hist s') = r @ gots (hist s) \<and> yields r v"
  proof (cases "e_prop E (hist s) BUILD_TYPE '''' = ''user''")
    case True
    with assms have "v = ''user''" "gots (hist s') = (BUILD_TYPE, ''user'') # gots (hist s)"
      by (auto simp: getVendorFunctions_def os_simps)
    then show ?thesis
      by (intro exI [of _ "[(BUILD_TYPE, ''user'')]"]) (simp add: yields_def vendor_of_reads)
  next
    case False
    with assms show ?thesis
      by (intro exI [of _ "take 4 (gots (hist s'))"])
         (auto simp: getVendorFunctions_def os_simps yields_def vendor_of_reads split: if_splits)
  qed
  ultimately show ?thesis ..
qed

lemma hoareE_assume: "(b \<Longrightarrow> hoareE P m Q R) \<Longrightarrow> hoareE (\<lambda>s. b \<and> P s) m Q R"
  by (simp add: hoareE_def)

lemma hoareE_pull:
  "(\<And>x y. B x y \<Longrightarrow> hoareE (P x y) m Q R) \<Longrightarrow> hoareE (\<lambda>s. \<exists>x y. B x y \<and> P x y s) m Q R"
  unfolding hoareE_def by (intro allI impI, elim exE conjE) metis

lemma linked_vendor:
  "hoareE (linked L G fs i) (liftE (getVendorFunctions E))
     (\<lambda>v s. \<exists>r w. yields r w \<and> w = v \<and> linked L (r @ G) fs i s) (\<lambda>_ _. True)"
  unfolding hoareE_def liftE_def linked_def
  by (auto split: prod.splits dest: getVendorFunctions_reads)

lemma link_functions_plan:
  "hoareE (linked L G [] 0) (link_functions E functions)
     (\<lambda>i s. \<exists>r v. yields r v \<and> linked L (r @ G) (plan E functions v) i s) (\<lambda>_ _. True)"
proof -
  let ?ffs = "\<lambda>i. if has_fn E functions MTP
      then link_ffs E ''ffs.mtp'' ''/dev/usb-ffs/mtp/'' [''ep1'', ''ep2'', ''ep3''] i
      else if has_fn E functions PTP
      then link_ffs E ''ffs.ptp'' ''/dev/usb-ffs/ptp/'' [''ep1'', ''ep2'', ''ep3''] i
      else returnE i"
  let ?tail = "\<lambda>v i. bindE (vendor_loop E (strtok_all (CHR '','') v) i) (\<lambda>i.
      whenE (has_fn E functions ADB) i
        (link_ffs E ''ffs.adb'' ''/dev/usb-ffs/adb/'' [''ep1'', ''ep2''] i))"
  let ?tls = "\<lambda>v. concat (map vendor_links (strtok_all (CHR '','') v)) @
      (if has_fn E functions ADB then [''ffs.adb''] else [])"
  let ?mid = "\<lambda>i. bindE (liftE (getVendorFunctions E)) (\<lambda>v. ?tail v i)"
  have tail: "extends (?tail v) (?tls v)" for v
    by (intro extends_bind extends_when extends_link_ffs extends_vendor_loop)
  have run: "hoareE (linked L (r @ G) fs i) (?tail v i)
      (\<lambda>i s. \<exists>r v. yields r v \<and> linked L (r @ G) (fs @ ?tls v) i s) (\<lambda>_ _. True)"
    if "yields r v" for fs i r v
    by (rule hoareE_conseq [OF tail [unfolded extends_def, rule_format]]) (use that in blast)+
  have mid: "hoareE (linked L G fs i) (?mid i)
      (\<lambda>i s. \<exists>r v. yields r v \<and> linked L (r @ G) (fs @ ?tls v) i s) (\<lambda>_ _. True)" for fs i
  proof (rule hoareE_bind [OF linked_vendor], rule hoareE_pull)
    fix v r w
    show "hoareE (\<lambda>s. w = v \<and> linked L (r @ G) fs i s) (?tail v i)
      (\<lambda>i s. \<exists>r v. yields r v \<and> linked L (r @ G) (fs @ ?tls v) i s) (\<lambda>_ _. True)"
      if "yields r w"
      using run [OF that, of fs i] by (intro hoareE_assume) simp
  qed
  have first: "extends ?ffs (if has_fn E functions MTP then [''ffs.mtp'']
      else if has_fn E functions PTP then [''ffs.ptp''] else [])"
    by (intro extends_if extends_link_ffs extends_none)
  have "extends (\<lambda>i. bindE (?ffs i) (\<lambda>i.
     bindE (whenE (has_fn E functions MIDI) i (link E ''midi.gs5'' i)) (\<lambda>i.
     bindE (whenE (has_fn E functions ACCESSORY) i (link E ''accessory.gs2'' i)) (\<lambda>i.
     bindE (whenE (has_fn E functions AUDIO_SOURCE) i (link E ''audio_source.gs3'' i)) (\<lambda>i.
     whenE (has_fn E functions RNDIS) i (link E ''gsi.rndis'' i))))))
    ((if has_fn E functions MTP then [''ffs.mtp'']
      else if has_fn E functions PTP then [''ffs.ptp''] else []) @
     (if has_fn E functions MIDI then [''midi.gs5''] else []) @
     (if has_fn E functions ACCESSORY then [''accessory.gs2''] else []) @
     (if has_fn E functions AUDIO_SOURCE then [''audio_source.gs3''] else []) @
     (if has_fn E functions RNDIS then [''gsi.rndis''] else []))"
    by (rule extends_bind [OF first], (rule extends_bind, rule extends_when, rule extends_link)+,
        rule extends_when, rule extends_link)
  note head = this [unfolded extends_def, rule_format, of L G "[]" 0, unfolded append_Nil]
  show ?thesis
    using hoareE_bind [OF head mid]
    unfolding link_functions_def plan_def by (simp only: bindE_assoc append_assoc)
qed

text \<open>The rest of a set-up makes no link and reads no property.\<close>

lemma links_start_monitor [frame]: "keeps trace (start_monitor E i functions callback)"
proof -
  have "trace (wait_pullup E s) = trace s" for s
    using wait_pullup_ext [of s E] by (auto simp: mon_ext_def)
  then show ?thesis
    unfolding start_monitor_def addEpollFd_def report_pullup_def
    by (intro frame) (simp_all add: os_simps)
qed

lemma links_pull_up_now [frame]: "keeps trace (pull_up_now E functions callback)"
  unfolding pull_up_now_def by (intro frame) (auto simp: os_defs intro: keeps_ask)

lemma linked_read:
  "hoareE (linked L G fs i) (liftE (get_prop E k d)) (\<lambda>v. linked L ((k, v) # G) fs i) R"
  by (simp add: hoareE_def liftE_def linked_def os_simps)

lemma setupFunctions_links:
  assumes run: "setupFunctions E functions callback s = (Inr u, s')"
  shows "\<exists>r. gots (hist s') = r @ gots (hist s) \<and>
    links (hist s') =
      rev (numbered (plan E functions (vendor_of (last_read r)))) @ links (hist s)"
proof -
  let ?L = "links (hist s)" and ?G = "gots (hist s)"
  let ?Q = "\<lambda>_ s'. \<exists>r. gots (hist s') = r @ ?G \<and>
    links (hist s') = rev (numbered (plan E functions (vendor_of (last_read r)))) @ ?L"
  let ?last = "\<lambda>fd. if \<not> ffsEnabled E functions then pull_up_now E functions callback
       else start_monitor E fd functions callback"
  have last: "hoareE (linked ?L (r @ b # ?G) (plan E functions v) i) (?last fd) ?Q (\<lambda>_ _. True)"
    if "yields r v" for i fd r v b
    by (rule hoareE_conseq [OF hoareE_keeps
          [where f = trace and v = "(rev (numbered (plan E functions v)) @ ?L, r @ b # ?G)"]])
       (use that in \<open>auto intro!: frame exI [of _ "r @ [b]"] simp: linked_def yields_def\<close>)
  have rest: "hoareE (linked ?L (b # ?G) [] 0)
      (bindE (link_functions E functions) (\<lambda>_. ?last fd)) ?Q (\<lambda>_ _. True)" for b fd
    by (rule hoareE_bind [OF link_functions_plan]) (intro hoareE_pull last)
  have "hoareE (linked ?L ?G [] 0) (setupFunctions E functions callback) ?Q (\<lambda>_ _. True)"
    unfolding setupFunctions_def
    by (rule hoareE_bind [OF linked_lift hoareE_if [OF hoareE_throw
            hoareE_bind [OF linked_read rest]]]) (rule frame TrueI)+
  moreover have "linked ?L ?G [] 0 s" by (simp add: linked_def)
  ultimately show ?thesis by (rule hoareE_Inr) (rule run)
qed

end
