(* ===== verification/GadgetIds.thy ===== *)
theory GadgetIds
  imports GadgetCorrect
begin

unbundle bit_operations_syntax

text \<open>
  The vendor and product ids of the gadget HAL against a table of them, and what a
  successful tear-down leaves behind.
\<close>

section \<open>The table of ids\<close>

text \<open>
  Which vendor strings a row of the table accepts: exactly one, none (\<open>user\<close> builds and the
  empty string), or any.
\<close>

datatype vendor_rule = Only string | NoVendor | AnyVendor

fun accepts :: "vendor_rule \<Rightarrow> string \<Rightarrow> bool" where
  "accepts (Only w) v = (v = w)"
| "accepts NoVendor v = (v = ''user'' \<or> v = '''')"
| "accepts AnyVendor v = True"

definition id_table ::
    "(GadgetFunction list \<times> (vendor_rule \<times> string \<times> string) list) list" where
  "id_table =
    [([MTP], [(Only ''diag'', ''0x05C6'', ''0x901B''), (NoVendor, ''0x18d1'', ''0x4ee1'')]),
     ([ADB, MTP], [(Only ''diag'', ''0x05C6'', ''0x903A''), (NoVendor, ''0x18d1'', ''0x4ee2'')]),
     ([RNDIS], [(Only ''diag'', ''0x05C6'', ''0x902C''),
        (Only ''serial_cdev,diag'', ''0x05C6'', ''0x90B5''), (NoVendor, ''0x18d1'', ''0x4ee3'')]),
     ([ADB, RNDIS], [(Only ''diag'', ''0x05C6'', ''0x902D''),
        (Only ''serial_cdev,diag'', ''0x05C6'', ''0x90B6''), (NoVendor, ''0x18d1'', ''0x4ee4'')]),
     ([PTP], [(NoVendor, ''0x18d1'', ''0x4ee5'')]),
     ([ADB, PTP], [(NoVendor, ''0x18d1'', ''0x4ee6'')]),
     ([ADB], [(Only ''diag'', ''0x05C6'', ''0x901D''),
        (Only ''diag,serial_cdev,rmnet_gsi'', ''0x05C6'', ''0x9091''),
        (Only ''diag,serial_cdev'', ''0x05C6'', ''0x901F''), (NoVendor, ''0x18d1'', ''0x4ee7'')]),
     ([MIDI], [(NoVendor, ''0x18d1'', ''0x4ee8'')]),
     ([ADB, MIDI], [(NoVendor, ''0x18d1'', ''0x4ee9'')]),
     ([ACCESSORY], [(AnyVendor, ''0x18d1'', ''0x2d00'')]),
     ([ADB, ACCESSORY], [(AnyVendor, ''0x18d1'', ''0x2d01'')]),
     ([AUDIO_SOURCE], [(AnyVendor, ''0x18d1'', ''0x2d02'')]),
     ([ADB, AUDIO_SOURCE], [(AnyVendor, ''0x18d1'', ''0x2d03'')]),
     ([ACCESSORY, AUDIO_SOURCE], [(AnyVendor, ''0x18d1'', ''0x2d04'')]),
     ([ADB, ACCESSORY, AUDIO_SOURCE], [(AnyVendor, ''0x18d1'', ''0x2d05'')])]"

definition mask :: "gadget_env \<Rightarrow> GadgetFunction list \<Rightarrow> 64 word" where
  "mask E fs = foldr (\<lambda>f m. g_fn E f OR m) fs 0"

fun row_lookup :: "string \<Rightarrow> (vendor_rule \<times> string \<times> string) list \<Rightarrow> (string \<times> string) option" where
  "row_lookup v [] = None"
| "row_lookup v ((r, ids) # rows) = (if accepts r v then Some ids else row_lookup v rows)"

fun id_lookup ::
    "gadget_env \<Rightarrow> 64 word \<Rightarrow> string \<Rightarrow>
      (GadgetFunction list \<times> (vendor_rule \<times> string \<times> string) list) list \<Rightarrow>
      (string \<times> string) option" where
  "id_lookup E functions v [] = None"
| "id_lookup E functions v ((fs, rows) # t) =
     (if functions = mask E fs then row_lookup v rows else id_lookup E functions v t)"

definition vid_pid :: "gadget_env \<Rightarrow> 64 word \<Rightarrow> string \<Rightarrow> (string \<times> string) option" where
  "vid_pid E functions v = id_lookup E functions v id_table"

definition set_ids ::
    "gadget_env \<Rightarrow> (string \<times> string) option \<Rightarrow> (gadget, GadgetStatus) st" where
  "set_ids E ids s =
     (case ids of None \<Rightarrow> (CONFIGURATION_NOT_SUPPORTED, s) | Some (vid, pid) \<Rightarrow> setVidPid E vid pid s)"

lemma set_ids_simps:
  "set_ids E None s = (CONFIGURATION_NOT_SUPPORTED, s)"
  "set_ids E (Some (vid, pid)) s = setVidPid E vid pid s"
  "set_ids E (if b then x else y) s = (if b then set_ids E x s else set_ids E y s)"
  by (simp_all add: set_ids_def)

lemma plainVidPid_ids:
  "plainVidPid E v pid s =
     (if v = ''user'' \<or> v = '''' then setVidPid E ''0x18d1'' pid s
      else (CONFIGURATION_NOT_SUPPORTED, s))"
  by (simp add: plainVidPid_def invalidVendor_def)

lemma if_app: "(if b then f else g) x = (if b then f x else g x)"
  by simp

lemma mask_simps:
  "mask E [f] = g_fn E f" "mask E [f, g] = (g_fn E f OR g_fn E g)"
  "mask E [f, g, h] = (g_fn E f OR g_fn E g OR g_fn E h)"
  by (simp_all add: mask_def word_bw_assocs)

lemma validate_table:
  "validateAndSetVidPid E functions s =
     (case getVendorFunctions E s of (v, s1) \<Rightarrow> set_ids E (vid_pid E functions v) s1)"
proof (cases "getVendorFunctions E s")
  case (Pair v s1)
  show ?thesis
    unfolding validateAndSetVidPid_def Pair prod.case vid_pid_def id_table_def
      id_lookup.simps row_lookup.simps accepts.simps if_True set_ids_simps if_app
      plainVidPid_ids mask_simps word_bw_assocs
    by (intro if_cong refl)
qed

text \<open>The product id alone names the row, and so the function mask.\<close>

definition pid_rows :: "(string \<times> GadgetFunction list) list" where
  "pid_rows = concat (map (\<lambda>(fs, rows). map (\<lambda>(_, _, pid). (pid, fs)) rows) id_table)"

lemma pid_rows_distinct: "distinct (map fst pid_rows)"
  by (simp add: pid_rows_def id_table_def)

lemma row_lookup_in: "row_lookup v rows = Some ids \<Longrightarrow> \<exists>r. (r, ids) \<in> set rows"
  by (induction v rows rule: row_lookup.induct) (auto split: if_splits)

lemma id_lookup_in:
  "id_lookup E functions v t = Some ids \<Longrightarrow>
     \<exists>fs rows r. (fs, rows) \<in> set t \<and> (r, ids) \<in> set rows \<and> functions = mask E fs"
proof (induction t)
  case (Cons row t)
  obtain fs rows where row: "row = (fs, rows)" by force
  show ?case
  proof (cases "functions = mask E fs")
    case True
    with Cons.prems row obtain r where "(r, ids) \<in> set rows" by (auto dest: row_lookup_in)
    with True row show ?thesis by auto
  next
    case False
    with Cons row show ?thesis by auto
  qed
qed simp

lemma vid_pid_row:
  assumes "vid_pid E functions v = Some (vid, pid)"
  shows "\<exists>fs. (pid, fs) \<in> set pid_rows \<and> functions = mask E fs"
  using id_lookup_in [OF assms [unfolded vid_pid_def]] unfolding pid_rows_def by force

lemma vid_pid_injective:
  assumes "vid_pid E f v = Some (vid, pid)" and "vid_pid E g w = Some (vid', pid)"
  shows "f = g"
  using vid_pid_row [OF assms(1)] vid_pid_row [OF assms(2)] pid_rows_distinct
  by (auto dest: eq_key_imp_eq_value)

lemma setVidPid_success:
  assumes "setVidPid E vid pid s = (G_SUCCESS, s')"
  shows "hist s' = Wrote pid PRODUCT_ID_PATH True # Wrote vid VENDOR_ID_PATH True # hist s"
  using assms by (auto simp: setVidPid_def os_simps split: if_splits)

lemma validate_success:
  assumes "validateAndSetVidPid E f s = (G_SUCCESS, s')"
  shows "\<exists>v vid pid h. vid_pid E f v = Some (vid, pid) \<and>
           hist s' = Wrote pid PRODUCT_ID_PATH True # Wrote vid VENDOR_ID_PATH True # h"
proof -
  obtain v s1 where v: "getVendorFunctions E s = (v, s1)" by force
  show ?thesis
  proof (cases "vid_pid E f v")
    case None
    with assms v show ?thesis by (simp add: validate_table set_ids_simps)
  next
    case (Some ids)
    obtain vid pid where "ids = (vid, pid)" by force
    with Some assms v have "setVidPid E vid pid s1 = (G_SUCCESS, s')"
      by (simp add: validate_table set_ids_simps)
    from setVidPid_success [OF this] Some \<open>ids = (vid, pid)\<close> show ?thesis by blast
  qed
qed

section \<open>Tearing down\<close>

lemma unlink_loop_success:
  assumes "unlink_loop E path ds s = (0, s')"
  shows "hist s' = rev (map (\<lambda>d. Removed (path @ ''/'' @ d) True)
                         (filter (\<lambda>d. contains d FUNCTION_NAME) ds)) @ hist s \<and>
         (\<exists>h. s' = s\<lparr>hist := h\<rparr>)"
  using assms
proof (induction ds arbitrary: s)
  case Nil
  then show ?case by (auto intro!: exI [of _ "hist s"])
next
  case (Cons d ds)
  show ?case
  proof (cases "contains d FUNCTION_NAME")
    case False
    with Cons show ?thesis by simp
  next
    case True
    let ?s1 = "s\<lparr>hist := Removed (path @ ''/'' @ d) True # hist s\<rparr>"
    from True Cons.prems have "unlink_loop E path ds ?s1 = (0, s')"
      by (auto simp: os_simps split: if_splits)
    from Cons.IH [OF this] True show ?thesis by auto
  qed
qed

lemma unlinkFunctions_success:
  assumes "unlinkFunctions E path s = (0, s')"
  shows "\<exists>entries. e_opendir E (hist s) path = Some entries \<and>
           hist s' = rev (map (\<lambda>d. Removed (path @ ''/'' @ d) True)
                       (filter (\<lambda>d. contains d FUNCTION_NAME) (map fst entries)))
                     @ Opened path True # hist s \<and> (\<exists>h. s' = s\<lparr>hist := h\<rparr>)"
proof -
  let ?s1 = "s\<lparr>hist := Opened path True # hist s\<rparr>"
  from assms obtain entries where e: "e_opendir E (hist s) path = Some entries"
    "unlink_loop E path (map fst entries) ?s1 = (0, s')"
    by (auto simp: unlinkFunctions_def os_simps split: option.splits)
  with unlink_loop_success [OF e(2)] show ?thesis by auto
qed

text \<open>The calls of a tear-down up to the listing of the configuration, newest first.\<close>

definition pulled_down :: "bool \<Rightarrow> gadget_msg event list" where
  "pulled_down ok =
     [Wrote ''0'' DESC_USE_PATH True, Wrote ''0'' DEVICE_PROTOCOL_PATH True,
      Wrote ''0'' DEVICE_SUB_CLASS_PATH True, Wrote ''0'' DEVICE_CLASS_PATH True,
      Wrote ''none'' PULLUP_PATH ok]"

definition torn_down :: "gadget \<Rightarrow> bool" where
  "torn_down s \<longleftrightarrow> mInotifyFd s = -1 \<and> mEventFd s = -1 \<and> mEpollFd s = -1 \<and>
     mEndpointList s = [] \<and> \<not> mMonitorCreated s"

definition unlinked :: "gadget_env \<Rightarrow> gadget \<Rightarrow> gadget_msg event list \<Rightarrow> bool" where
  "unlinked E s h \<longleftrightarrow>
     (\<exists>ok entries. e_opendir E (pulled_down ok @ hist s) CONFIG_PATH = Some entries \<and>
        h = rev (map (\<lambda>d. Removed (CONFIG_PATH @ ''/'' @ d) True)
              (filter (\<lambda>d. contains d FUNCTION_NAME) (map fst entries)))
            @ Opened CONFIG_PATH True # pulled_down ok @ hist s)"

lemma tearDown_cases:
  assumes "tearDownGadget E s = (Inr u, s')"
  shows "\<exists>s1. unlinked E s (hist s1) \<and> (\<exists>h. s1 = s\<lparr>hist := h\<rparr>) \<and>
           (if mMonitorCreated s
            then \<exists>s2. stop_monitor E s1 = (Inr (), s2) \<and> s' = reset_fds s2
            else s' = reset_fds s1)"
proof -
  define ok where "ok = e_write E (hist s) ''none'' PULLUP_PATH"
  let ?s0 = "s\<lparr>hist := pulled_down ok @ hist s\<rparr>"
  obtain ret s1 where un: "unlinkFunctions E CONFIG_PATH ?s0 = (ret, s1)" by force
  from assms un have ret: "ret = 0"
    and rest: "(if mMonitorCreated s1 then bindE (stop_monitor E) (\<lambda>_. modifyE reset_fds)
                else modifyE reset_fds) s1 = (Inr u, s')"
    by (auto simp: tearDownGadget_def prog_simps os_simps pulled_down_def ok_def
        split: if_splits)
  from unlinkFunctions_success [OF un [unfolded ret]]
  have s1: "unlinked E s (hist s1)" "\<exists>h. s1 = s\<lparr>hist := h\<rparr>"
    unfolding unlinked_def by auto
  then have "mMonitorCreated s1 = mMonitorCreated s" by auto
  with rest have "if mMonitorCreated s
      then \<exists>s2. stop_monitor E s1 = (Inr (), s2) \<and> s' = reset_fds s2
      else s' = reset_fds s1"
    by (auto simp: bindE_def modifyE_def split: if_splits prod.splits sum.splits)
  with s1 show ?thesis by blast
qed

lemma mon_ext_history:
  assumes "mon_ext s t"
  shows "\<exists>g. hist t = g @ hist s \<and> set (writes g) \<subseteq> {(PULLUP_PATH, GADGET_NAME)}"
  using assms unfolding mon_ext_def by blast

lemma tearDown_success:
  assumes "tearDownGadget E s = (Inr u, s')"
  shows "torn_down s' \<and> (mMonitorCreated s \<longrightarrow> monDone s') \<and>
     (\<exists>g h. hist s' = g @ h \<and> unlinked E s h \<and>
        set (writes g) \<subseteq> {(PULLUP_PATH, GADGET_NAME)} \<and> (\<not> mMonitorCreated s \<longrightarrow> g = []))"
proof -
  from tearDown_cases [OF assms] obtain s1 where s1: "unlinked E s (hist s1)"
    "\<exists>h. s1 = s\<lparr>hist := h\<rparr>"
    and rest: "if mMonitorCreated s
            then \<exists>s2. stop_monitor E s1 = (Inr (), s2) \<and> s' = reset_fds s2
            else s' = reset_fds s1"
    by blast
  show ?thesis
  proof (cases "mMonitorCreated s")
    case False
    with rest s1 show ?thesis by (auto simp: torn_down_def reset_fds_def)
  next
    case True
    with rest obtain s2 where s2: "stop_monitor E s1 = (Inr (), s2)" "s' = reset_fds s2" by auto
    from stop_monitor_result [OF s2(1)] obtain w where w: "mon_ext s1 w" "monDone w"
      "s2 = w\<lparr>mMonitorCreated := False\<rparr>" by auto
    from mon_ext_history [OF w(1)] obtain g where
      g: "hist w = g @ hist s1" "set (writes g) \<subseteq> {(PULLUP_PATH, GADGET_NAME)}" by blast
    have s': "hist s' = hist w" "torn_down s'" "monDone s'"
      using w(2) unfolding s2(2) w(3) by (simp_all add: torn_down_def reset_fds_def)
    with g s1(1) True show ?thesis by auto
  qed
qed

end
