(* ===== verification/GadgetService.thy ===== *)
theory GadgetService
  imports GadgetIds
begin

text \<open>
  The gadget HAL as a service: the calls it serves and the activity of its monitor thread
  as the steps of one machine, and the invariant of the descriptors it owns.
\<close>

inductive gadget_step :: "gadget_env \<Rightarrow> gadget \<Rightarrow> gadget \<Rightarrow> bool" for E where
  step_set: "setCurrentUsbFunctions E functions callback s = (returned, t) \<Longrightarrow> gadget_step E s t"
| step_get: "gadget_step E s (getCurrentUsbFunctions E s)"
| step_reset: "reset E s = (status, t) \<Longrightarrow> gadget_step E s t"
| step_monitor: "mMonitorCreated s \<Longrightarrow> monitorFfs E batches s = (stopped, t) \<Longrightarrow> gadget_step E s t"

inductive_cases gadget_stepE: "gadget_step E s t"

definition gadget_init :: "gadget_env \<Rightarrow> gadget \<Rightarrow> bool" where
  "gadget_init E s \<longleftrightarrow> (\<exists>uninit. s = UsbGadget_init E uninit)"

text \<open>The three descriptors are open exactly while the thread exists.\<close>

definition fds :: "gadget \<Rightarrow> bool \<times> int \<times> int \<times> int" where
  "fds s = (mMonitorCreated s, mInotifyFd s, mEventFd s, mEpollFd s)"

fun fds_ok :: "bool \<times> int \<times> int \<times> int \<Rightarrow> bool" where
  "fds_ok (created, inotify, event, epoll) =
     (if created then inotify \<noteq> -1 \<and> event \<noteq> -1 \<and> epoll \<noteq> -1
      else inotify = -1 \<and> event = -1 \<and> epoll = -1)"

definition fds_inv :: "gadget \<Rightarrow> bool" where
  "fds_inv s \<longleftrightarrow> fds_ok (fds s)"

lemma fds_hist [simp]: "fds (s\<lparr>hist := h\<rparr>) = fds s" "fds (s\<lparr>mEndpointList := l\<rparr>) = fds s"
  "fds (s\<lparr>mCurrentUsbFunctionsApplied := b\<rparr>) = fds s"
  "fds (s\<lparr>mCurrentUsbFunctions := m\<rparr>) = fds s"
  by (simp_all add: fds_def)

lemma mon_ext_fds: "mon_ext s t \<Longrightarrow> fds t = fds s"
  by (simp add: mon_ext_def mon_frame_def fds_def)

lemma fds_os [frame]:
  "keeps fds (write_file E c p)" "keeps fds (symlink E t l)" "keeps fds (sys E n)"
  "keeps fds (get_prop E k d)" "keeps fds (notify E m)"
  by (auto simp: os_defs intro: keeps_ask)

lemma fds_unlink_loop: "fds (snd (unlink_loop E path ds s)) = fds s"
  by (induction ds arbitrary: s) (auto simp: os_simps split: prod.splits if_splits)

lemma fds_unlink [frame]: "keeps fds (unlinkFunctions E path)"
  by (rule keepsI) (auto simp: unlinkFunctions_def os_simps split: option.splits,
     (metis fds_unlink_loop snd_conv fds_hist(1))+)

lemma fds_vendor [frame]: "keeps fds (getVendorFunctions E)"
  by (rule keepsI) (auto simp: getVendorFunctions_def os_simps split: if_splits)

lemma fds_validate [frame]: "keeps fds (validateAndSetVidPid E functions)"
proof (rule keepsI)
  fix s r s'
  assume run: "validateAndSetVidPid E functions s = (r, s')"
  obtain v s1 where v: "getVendorFunctions E s = (v, s1)" by force
  then have "fds s1 = fds s" by (rule keepsD [OF fds_vendor])
  moreover have "fds s' = fds s1"
    using run v by (auto simp: validate_table set_ids_def setVidPid_def os_simps
        split: option.splits if_splits)
  ultimately show "fds s' = fds s" by simp
qed

lemma fds_link [frame]: "keeps fds (link E f i)"
  unfolding link_def linkFunction_def by (intro frame)

lemma fds_link_ffs [frame]: "keeps fds (link_ffs E f d eps i)"
  unfolding link_ffs_def by (intro frame) simp

lemma fds_vendor_loop [frame]: "keeps fds (vendor_loop E fs i)"
proof (induction fs arbitrary: i)
  case Nil
  then show ?case by (simp add: frame)
next
  case (Cons f fs)
  show ?case unfolding vendor_loop.simps by (intro frame Cons)
qed

lemma fds_link_functions [frame]: "keeps fds (link_functions E functions)"
  unfolding link_functions_def by (intro frame)

lemma fds_pull_up_now [frame]: "keeps fds (pull_up_now E functions callback)"
  unfolding pull_up_now_def by (intro frame) simp

lemma hoareE_assume': "(b \<Longrightarrow> hoareE P m Q R) \<Longrightarrow> hoareE (\<lambda>s. P s \<and> b) m Q R"
  by (simp add: hoareE_def)

lemma hoareE_closed:
  "keeps fds m \<Longrightarrow>
     hoareE (\<lambda>s. fds s = v \<and> fds_ok v) m (\<lambda>_ s. fds s = v \<and> fds_ok v) (\<lambda>_. fds_inv)"
  by (rule hoareE_assume', rule hoareE_conseq [OF hoareE_keeps]) (auto simp: fds_inv_def)

abbreviation closed :: "gadget \<Rightarrow> bool" where
  "closed s \<equiv> fds s = (False, -1, -1, -1)"

lemma hoareE_keep_closed: "keeps fds m \<Longrightarrow> hoareE closed m (\<lambda>_. closed) (\<lambda>_. fds_inv)"
  by (rule hoareE_conseq [OF hoareE_closed [where v = "(False, -1, -1, -1)"]]) auto

lemma closed_inv: "closed s \<Longrightarrow> fds_inv s"
  by (simp add: fds_inv_def)

lemma stop_monitor_error:
  "hoareE (\<lambda>s. fds s = v) (stop_monitor E) (\<lambda>_ _. True) (\<lambda>_ s. fds s = v)"
  unfolding hoareE_def
proof (intro allI impI)
  fix s
  assume v: "fds s = v"
  obtain r s' where run: "stop_monitor E s = (r, s')" by force
  from stop_monitor_result [OF run] v
  show "case stop_monitor E s of (Inl e, s') \<Rightarrow> fds s' = v | (Inr a, s') \<Rightarrow> True"
    unfolding run by (auto dest: mon_ext_fds)
qed

lemma tearDown_error:
  "hoareE (\<lambda>s. fds s = v) (tearDownGadget E) (\<lambda>_ _. True) (\<lambda>_ s. fds s = v)"
proof -
  let ?P = "\<lambda>s. fds s = v" and ?T = "\<lambda>_ _. True" and ?R = "\<lambda>_ s. fds s = v"
  have keep: "hoareE ?P m (\<lambda>_. ?P) ?R" if "keeps fds m" for m :: "(gadget, gexit, 'a) prog"
    using hoareE_keeps [OF that] .
  have stop: "hoareE ?P (bindE (whenE created () (stop_monitor E)) (\<lambda>_. modifyE reset_fds)) ?T ?R"
    for created
    by (rule hoareE_bind [where M = ?T])
       (auto intro: hoareE_when [OF stop_monitor_error] hoareE_modify)
  have unl: "hoareE ?P (bindE (liftE (unlinkFunctions E CONFIG_PATH)) (\<lambda>ret.
     if ret \<noteq> 0 then throwE (Ret G_ERROR) else
     bindE (getsE mMonitorCreated) (\<lambda>created.
     bindE (whenE created () (stop_monitor E)) (\<lambda>_. modifyE reset_fds)))) ?T ?R"
    by (rule hoareE_bind [OF keep hoareE_if [OF hoareE_throw hoareE_bind [OF keep stop]]])
       (rule frame | assumption)+
  show ?thesis
    unfolding tearDownGadget_def
    by (rule hoareE_bind [OF keep hoareE_bind [OF keep hoareE_bind [OF keep
          hoareE_bind [OF keep hoareE_bind [OF keep unl]]]]]) (rule frame)+
qed

lemma tearDown_fds: "hoareE fds_inv (tearDownGadget E) (\<lambda>_. closed) (\<lambda>_. fds_inv)"
  unfolding hoareE_def
proof (intro allI impI)
  fix s
  assume inv: "fds_inv s"
  obtain r s' where run: "tearDownGadget E s = (r, s')" by force
  show "case tearDownGadget E s of (Inl e, s') \<Rightarrow> fds_inv s' | (Inr a, s') \<Rightarrow> closed s'"
  proof (cases r)
    case (Inl e)
    with run hoareE_Inl [OF tearDown_error refl] have "fds s' = fds s" by blast
    with inv Inl run show ?thesis by (simp add: fds_inv_def)
  next
    case (Inr u)
    with run tearDown_success [of E s u s'] show ?thesis by (simp add: torn_down_def fds_def)
  qed
qed

lemma start_monitor_fds:
  assumes "inotifyFd \<noteq> -1"
  shows "hoareE closed (start_monitor E inotifyFd functions callback) (\<lambda>_. fds_inv) (\<lambda>_. fds_inv)"
proof -
  have w: "fds (wait_pullup E s) = fds s" "fds (report_pullup E functions s) = fds s" for s
    using mon_ext_fds [OF wait_pullup_ext [of s E]] by (simp_all add: report_pullup_def os_simps)
  let ?new = "\<lambda>ev ep s. s\<lparr>mEpollFd := ep, mInotifyFd := inotifyFd, mEventFd := ev,
      gadgetPullup := False, monStarted := False, monDone := False, mMonitorCreated := True\<rparr>"
  have tail: "hoareE fds_inv (whenE callback () (bindE (modifyE (wait_pullup E)) (\<lambda>_.
        modifyE (report_pullup E functions)))) (\<lambda>_. fds_inv) (\<lambda>_. fds_inv)"
    by (simp add: hoareE_def prog_simps fds_inv_def w)
  have new: "hoareE closed (modifyE (?new ev ep)) (\<lambda>_. fds_inv) (\<lambda>_. fds_inv)"
    if "ev \<noteq> -1" "ep \<noteq> -1" for ev ep
    using that assms by (simp add: hoareE_modify fds_inv_def fds_def)
  show ?thesis
    unfolding start_monitor_def addEpollFd_def
    apply (rule hoareE_bind [OF hoareE_keep_closed], intro frame, rule hoareE_if,
        rule hoareE_throw, simp add: closed_inv)+
    apply (rule hoareE_bind [OF new tail])
    apply simp_all
    done
qed

lemma setupFunctions_fds:
  "hoareE closed (setupFunctions E functions callback) (\<lambda>_. fds_inv) (\<lambda>_. fds_inv)"
proof -
  have last: "hoareE closed (if \<not> ffsEnabled E functions then pull_up_now E functions callback
      else start_monitor E inotifyFd functions callback) (\<lambda>_. fds_inv) (\<lambda>_. fds_inv)"
    if "\<not> inotifyFd < 0" for inotifyFd
    using that
    by (intro hoareE_if start_monitor_fds hoareE_conseq [OF hoareE_keep_closed [OF fds_pull_up_now]])
       (auto intro: closed_inv)
  show ?thesis
    unfolding setupFunctions_def
    by (rule hoareE_bind [OF hoareE_keep_closed hoareE_if [OF hoareE_throw
          hoareE_bind [OF hoareE_keep_closed hoareE_bind [OF hoareE_keep_closed last]]]])
       (auto intro: frame closed_inv)
qed

lemma body_fds:
  "hoareE fds_inv (setCurrentUsbFunctions_body E functions callback) (\<lambda>_. fds_inv) (\<lambda>_. fds_inv)"
proof -
  have none: "hoareE closed (whenE callback ()
      (bindE (liftE (notify E (SetCurrentUsbFunctionsCb functions G_SUCCESS))) (\<lambda>_. returnE ())))
      (\<lambda>_. fds_inv) (\<lambda>_. fds_inv)"
    by (rule hoareE_conseq [OF hoareE_keep_closed]) (auto intro: frame closed_inv)
  have some: "hoareE closed (bindE (liftE (validateAndSetVidPid E functions)) (\<lambda>status.
      if status \<noteq> G_SUCCESS then throwE (Ret status) else setupFunctions E functions callback))
      (\<lambda>_. fds_inv) (\<lambda>_. fds_inv)"
    by (rule hoareE_bind [OF hoareE_keep_closed hoareE_if [OF hoareE_throw setupFunctions_fds]])
       (auto intro: frame closed_inv)
  show ?thesis
    unfolding setCurrentUsbFunctions_body_def
    by (rule hoareE_bind [OF tearDown_fds hoareE_bind [OF hoareE_modify hoareE_if [OF none some]]])
       (simp add: os_simps)
qed

lemma handler_fds:
  assumes "setCurrentUsbFunctions E functions callback s = (returned, t)" and "fds_inv s"
  shows "fds_inv t"
proof -
  let ?s0 = "s\<lparr>mCurrentUsbFunctions := functions, mCurrentUsbFunctionsApplied := False\<rparr>"
  obtain r s1 where run: "setCurrentUsbFunctions_body E functions callback ?s0 = (r, s1)"
    by force
  have "fds_inv ?s0" using assms(2) by (simp add: fds_inv_def)
  have "fds_inv s1"
    using hoareE_Inl [OF body_fds \<open>fds_inv ?s0\<close>] hoareE_Inr [OF body_fds \<open>fds_inv ?s0\<close>] run
    by (cases r) blast+
  with assms(1) run show ?thesis
    by (auto simp: setCurrentUsbFunctions_def os_simps fds_inv_def
        split: sum.splits gexit.splits if_splits)
qed

interpretation service: machine "gadget_init E" "gadget_step E" fds_inv for E
proof unfold_locales
  show "fds_inv s" if "gadget_init E s" for s
    using that by (auto simp: gadget_init_def UsbGadget_init_def os_simps fds_inv_def fds_def)
  show "fds_inv t" if "gadget_step E s t" "fds_inv s" for s t
    using that
  proof (induction rule: gadget_step.induct)
    case (step_set fs callback s returned t)
    then show ?case by (blast intro: handler_fds)
  next
    case (step_get s)
    then show ?case by (simp add: getCurrentUsbFunctions_def os_simps fds_inv_def)
  next
    case (step_reset s status t)
    then show ?case by (auto simp: reset_def os_simps fds_inv_def split: if_splits)
  next
    case (step_monitor s batches stopped t)
    then show ?case
      using mon_ext_fds [OF ext.R_run [of s E batches]] by (simp add: fds_inv_def)
  qed
qed


section \<open>A concrete environment\<close>

text \<open>
  Every call succeeds, every property is empty, the configuration lists two links, the
  enumerators are single bits, and the thread runs with no event pending.
\<close>

fun sample_fn :: "GadgetFunction \<Rightarrow> 64 word" where
  "sample_fn NONE = 0"
| "sample_fn ADB = 1"
| "sample_fn ACCESSORY = 2"
| "sample_fn MTP = 4"
| "sample_fn MIDI = 8"
| "sample_fn PTP = 16"
| "sample_fn RNDIS = 32"
| "sample_fn AUDIO_SOURCE = 64"

definition sample_env :: gadget_env where
  "sample_env =
     \<lparr>e_write = \<lambda>h c p. True, e_read = \<lambda>h p. None, e_access = \<lambda>h p. True,
      e_symlink = \<lambda>h t l. True, e_remove = \<lambda>h p. True,
      e_opendir = \<lambda>h p. Some [(''.'', False), (''function0'', True), (''strings'', False)],
      e_sys = \<lambda>h n. if n = ''eventfd'' then 7 else 8, e_prop = \<lambda>h k d. d, e_clock = \<lambda>h. 0, e_notify = \<lambda>h n. True,
      e_trim = \<lambda>s. s, g_fn = sample_fn, g_batches = \<lambda>h. Some []\<rparr>"

definition sample_gadget :: gadget where
  "sample_gadget = UsbGadget_init sample_env 0"

definition sample_running :: gadget where
  "sample_running = snd (setCurrentUsbFunctions sample_env 5 True sample_gadget)"

lemmas gadget_eval = setCurrentUsbFunctions_def setCurrentUsbFunctions_body_def
  tearDownGadget_def stop_monitor_def reset_fds_def unlinkFunctions_def setupFunctions_def
  pull_up_now_def start_monitor_def addEpollFd_def wait_pullup_def report_pullup_def
  link_functions_def link_def linkFunction_def link_ffs_def has_fn_def ffsEnabled_def
  getVendorFunctions_def validateAndSetVidPid_def plainVidPid_def invalidVendor_def
  setVidPid_def monitorFfs_def monitor_start_def pull_up_def UsbGadget_init_def
  prog_simps os_simps sample_env_def sample_gadget_def

lemma contains_sample [simp]:
  "contains ''.'' FUNCTION_NAME = False" "contains ''function0'' FUNCTION_NAME = True"
  "contains ''strings'' FUNCTION_NAME = False"
  by code_simp+

lemma sample_set: "fst (setCurrentUsbFunctions sample_env 5 True sample_gadget) = True"
  by (simp add: gadget_eval)

lemma sample_setup: "fst (setupFunctions sample_env 5 True sample_gadget) = Inr ()"
  by (simp add: gadget_eval)

lemma sample_validate: "fst (validateAndSetVidPid sample_env 5 sample_gadget) = G_SUCCESS"
  by (simp add: gadget_eval)

lemma sample_tearDown:
  "fst (tearDownGadget sample_env sample_running) = Inr ()" "mMonitorCreated sample_running"
  by (simp_all add: gadget_eval sample_running_def)

lemma pairI: "fst p = a \<Longrightarrow> p = (a, snd p)"
  by (cases p) simp

section \<open>Properties\<close>

text \<open>C1: Every request \<open>setCurrentUsbFunctions\<close> that returns is answered: with a callback by
  exactly one message, for the functions asked for, and without one by none; and an answer
  of SUCCESS to a request other than NONE comes from a gadget whose controller name is the
  last content stored in the UDC file, with the functions marked as applied.\<close>

theorem request_answered_once:
  assumes "setCurrentUsbFunctions E functions callback s = (True, s')"
  shows "if callback
         then \<exists>status. messages s' = SetCurrentUsbFunctionsCb functions status # messages s \<and>
                (status = G_SUCCESS \<longrightarrow> functions \<noteq> g_fn E NONE \<longrightarrow> pulled_up s')
         else messages s' = messages s"
  using assms by (rule handler_answers)

theorem request_answered_once_witness:
  "\<exists>s' status. setCurrentUsbFunctions sample_env 5 True sample_gadget = (True, s') \<and>
     messages s' = SetCurrentUsbFunctionsCb 5 status # messages sample_gadget \<and>
     (status = G_SUCCESS \<longrightarrow> pulled_up s')"
  using request_answered_once [OF pairI [OF sample_set]] pairI [OF sample_set]
  by (auto simp: sample_env_def)

text \<open>C2: A set-up that succeeds has made exactly the links of the plan, in its order: the
  function of each mask bit (MTP before PTP and never both), then the vendor functions of the
  comma separated list in its order, then ADB; the k-th link is named \<open>function<k>\<close>. The
  vendor list is decided by the values that this set-up itself read: \<open>r\<close> are its reads of
  properties, newest first, and the last value read for a key counts. The properties may
  change at any time, between two reads as well.\<close>

theorem setup_links_follow_plan:
  assumes "setupFunctions E functions callback s = (Inr u, s')"
  shows "\<exists>r. gots (hist s') = r @ gots (hist s) \<and>
    links (hist s') =
      rev (numbered (plan E functions (vendor_of (last_read r)))) @ links (hist s)"
  using assms by (rule setupFunctions_links)

theorem setup_links_follow_plan_witness:
  "links (hist (snd (setupFunctions sample_env 5 True sample_gadget))) =
     [(FUNCTIONS_PATH @ ''ffs.adb'', FUNCTION_PATH @ ''1''),
      (FUNCTIONS_PATH @ ''ffs.mtp'', FUNCTION_PATH @ ''0'')]"
proof -
  let ?s = "snd (setupFunctions sample_env 5 True sample_gadget)"
  obtain r where r: "gots (hist ?s) = r @ gots (hist sample_gadget)"
    "links (hist ?s) =
      rev (numbered (plan sample_env 5 (vendor_of (last_read r)))) @ links (hist sample_gadget)"
    using setup_links_follow_plan [OF pairI [OF sample_setup]] by blast
  have "gots (hist sample_gadget) = []" "links (hist sample_gadget) = []"
    by (simp_all add: sample_gadget_def UsbGadget_init_def os_simps)
  moreover have "gots (hist ?s) = [(VENDOR_CONFIG, ''''), (PERSISTENT_VENDOR_CONFIG, ''''),
      (PERSISTENT_BOOT_MODE, ''''), (BUILD_TYPE, ''''), (PERSISTENT_BOOT_MODE, '''')]"
    by (simp add: gadget_eval)
  ultimately have "vendor_of (last_read r) = ''''"
    using r(1) by (simp add: vendor_of_reads)
  then have "plan sample_env 5 (vendor_of (last_read r)) = [''ffs.mtp'', ''ffs.adb'']"
    by (simp add: plan_def has_fn_def sample_env_def)
  with r(2) \<open>links (hist sample_gadget) = []\<close> show ?thesis by (simp add: numbered_def)
qed

text \<open>C3: A tear-down that succeeds leaves no descriptor, no endpoint to watch and no monitor
  thread (one that ran has returned). It first wrote \<open>none\<close> to the UDC file, without regard to
  whether that write succeeded, then cleared the device class, subclass, protocol and the OS
  descriptors with successful writes, then removed, in the order of the listing, every entry
  of the configuration whose name contains \<open>function\<close>; and the only thing written after that
  is what the monitor thread still wrote, the controller's name to the UDC file. The monitor
  thread of the model acts from the stop request on, not between the steps before it.\<close>

theorem tear_down_complete:
  assumes "tearDownGadget E s = (Inr u, s')"
  shows "torn_down s' \<and> (mMonitorCreated s \<longrightarrow> monDone s') \<and>
     (\<exists>g h. hist s' = g @ h \<and> unlinked E s h \<and>
        set (writes g) \<subseteq> {(PULLUP_PATH, GADGET_NAME)} \<and> (\<not> mMonitorCreated s \<longrightarrow> g = []))"
  using assms by (rule tearDown_success)

theorem tear_down_complete_witness:
  "\<exists>s'. tearDownGadget sample_env sample_running = (Inr (), s') \<and> torn_down s' \<and> monDone s'"
  using tear_down_complete [OF pairI [OF sample_tearDown(1)]] pairI [OF sample_tearDown(1)]
    sample_tearDown(2) by blast

text \<open>C4: The product id determines the functions: two requests whose ids were both set
  successfully and stored the same product id asked for the same function mask.\<close>

theorem product_id_determines_functions:
  assumes "validateAndSetVidPid E f s = (G_SUCCESS, s')"
    and "validateAndSetVidPid E g t = (G_SUCCESS, t')"
    and "hd (stored PRODUCT_ID_PATH (hist s')) = hd (stored PRODUCT_ID_PATH (hist t'))"
  shows "f = g"
proof -
  obtain v vid pid h where 1: "vid_pid E f v = Some (vid, pid)"
    "hist s' = Wrote pid PRODUCT_ID_PATH True # Wrote vid VENDOR_ID_PATH True # h"
    using validate_success [OF assms(1)] by blast
  obtain w vid' pid' k where 2: "vid_pid E g w = Some (vid', pid')"
    "hist t' = Wrote pid' PRODUCT_ID_PATH True # Wrote vid' VENDOR_ID_PATH True # k"
    using validate_success [OF assms(2)] by blast
  from 1 2 assms(3) show ?thesis by (auto dest: vid_pid_injective)
qed

theorem product_id_determines_functions_witness:
  "\<exists>s'. validateAndSetVidPid sample_env 5 sample_gadget = (G_SUCCESS, s') \<and> (5 :: 64 word) = 5"
  using product_id_determines_functions
    [OF pairI [OF sample_validate] pairI [OF sample_validate] refl] pairI [OF sample_validate]
  by blast

text \<open>The ids that a request sets are those of the table: the first row of its function
  mask, the first entry of the row that accepts the vendor string; and a request without one
  is refused with CONFIGURATION_NOT_SUPPORTED and writes nothing.\<close>

theorem ids_follow_table:
  "validateAndSetVidPid E functions s =
     (case getVendorFunctions E s of (v, s1) \<Rightarrow>
        case vid_pid E functions v of
          None \<Rightarrow> (CONFIGURATION_NOT_SUPPORTED, s1)
        | Some (vid, pid) \<Rightarrow> setVidPid E vid pid s1)"
  by (simp add: validate_table set_ids_def)

text \<open>C5: The monitor thread writes the controller's name to the UDC file only when the calls it
  made just before, pauses and clock readings left aside, were successful tests of every
  endpoint of the list, in the order of the list: no test failed and nothing else was written
  between the first of these tests and the write. The code may sleep after the tests, so an
  endpoint may be gone by the time of the write.\<close>

theorem monitor_writes_guarded:
  "\<exists>g. hist (snd (monitorFfs E batches s)) = g @ hist s \<and> guarded (mEndpointList s) g"
  using guard.R_run [of s E batches] by (auto simp: mon_guarded_def)

text \<open>C6: The monitor thread returns exactly when an event of some batch is a stop request:
  an event on another descriptor than the inotify one that reads as 100.\<close>

theorem monitor_stops_iff:
  "fst (monitorFfs E batches s) \<longleftrightarrow>
     monDone s \<or> list_ex (list_ex (stop_request (mInotifyFd s))) batches"
  by (rule monitorFfs_stop_iff)

text \<open>C7: In every state the service can reach, by requests, resets, queries and any activity
  of the monitor thread, its three descriptors are all open if the thread exists and all
  closed otherwise.\<close>

theorem descriptors_open_iff_monitor:
  assumes "run_of (gadget_init E) (gadget_step E) s"
  shows "if mMonitorCreated s then mInotifyFd s \<noteq> -1 \<and> mEventFd s \<noteq> -1 \<and> mEpollFd s \<noteq> -1
         else mInotifyFd s = -1 \<and> mEventFd s = -1 \<and> mEpollFd s = -1"
  using service.reachable_inv [OF assms] by (simp add: fds_inv_def fds_def)

theorem descriptors_open_iff_monitor_witness:
  "mInotifyFd sample_running \<noteq> -1 \<and> mEventFd sample_running \<noteq> -1 \<and> mEpollFd sample_running \<noteq> -1"
proof -
  have "run_of (gadget_init sample_env) (gadget_step sample_env) sample_gadget"
    by (rule run_start) (auto simp: gadget_init_def sample_gadget_def)
  then have "run_of (gadget_init sample_env) (gadget_step sample_env) sample_running"
    by (rule run_step) (auto simp: sample_running_def intro!: step_set prod.collapse [symmetric])
  from descriptors_open_iff_monitor [OF this] show ?thesis
    using sample_tearDown(2) by simp
qed

end
