(* ===== verification/CInt.thy ===== *)
theory CInt
  imports Prelude "HOL-Library.Signed_Division"
begin

unbundle bit_operations_syntax

text \<open>
  The C types \<open>int\<close> and \<open>unsigned int\<close> of the device headers, both as 32-bit words: a
  conversion between them leaves the bits alone, and an operation that depends on the sign
  says so in its name. Signed arithmetic that overflows, which C leaves undefined, wraps
  here; the theorems that use these operations stay in the range where it does not. Below
  the operations: the rules that carry natural numbers through them.
\<close>

type_synonym cint = "32 word"

text \<open>\<open>a / b\<close> on \<open>int\<close> rounds toward zero; \<open>a >> n\<close> on \<open>int\<close> copies the sign;
  \<open>a >= b\<close> on \<open>int\<close> compares the signed values.\<close>

definition int_div :: "cint \<Rightarrow> cint \<Rightarrow> cint" where
  "int_div a b = word_of_int (sint a sdiv sint b)"

definition int_shr :: "cint \<Rightarrow> nat \<Rightarrow> cint" where
  "int_shr a n = signed_drop_bit n a"

definition int_ge :: "cint \<Rightarrow> cint \<Rightarrow> bool" where
  "int_ge a b \<longleftrightarrow> sint b \<le> sint a"

lemma sint_of_nat_small: "n < 2 ^ 31 \<Longrightarrow> sint (of_nat n :: cint) = int n"
  using sint_sbintrunc' [where 'a = 32, of "int n"] by (simp add: signed_take_bit_int_eq_self)

lemma unat_of_nat_small: "n < 2 ^ 32 \<Longrightarrow> unat (of_nat n :: cint) = n"
  by (simp add: unat_of_nat take_bit_nat_eq_self)

lemma int_div_of_nat:
  assumes "n < 2 ^ 31" and "r < 2 ^ 31"
  shows "int_div (of_nat n) (of_nat r) = of_nat (n div r)"
proof -
  have "int n sdiv int r = int (n div r)"
    by (cases "r = 0") (simp_all add: signed_divide_int_def zdiv_int sgn_if)
  with assms show ?thesis by (simp add: int_div_def sint_of_nat_small)
qed

lemma int_shr_of_nat: "n < 2 ^ 31 \<Longrightarrow> int_shr (of_nat n) k = of_nat (n div 2 ^ k)"
proof -
  assume n: "n < 2 ^ 31"
  then have "n div 2 ^ k < 2 ^ 31" by (rule le_less_trans [OF div_le_dividend])
  with n have "sint (int_shr (of_nat n) k) = sint (of_nat (n div 2 ^ k) :: cint)"
    by (simp add: int_shr_def sint_signed_drop_bit_eq sint_of_nat_small drop_bit_eq_div zdiv_int)
  then show ?thesis by (rule signed_word_eqI)
qed

lemma int_ge_of_nat: "n < 2 ^ 31 \<Longrightarrow> m < 2 ^ 31 \<Longrightarrow> int_ge (of_nat n) (of_nat m) \<longleftrightarrow> m \<le> n"
  by (simp add: int_ge_def sint_of_nat_small)

lemma udiv_of_nat:
  "n < 2 ^ 32 \<Longrightarrow> r < 2 ^ 32 \<Longrightarrow> (of_nat n :: cint) div of_nat r = of_nat (n div r)"
  by (rule word_unat_eq_iff [THEN iffD2])
     (simp add: unat_div_distrib unat_of_nat_small less_imp_diff_less div_le_dividend
        le_less_trans [OF div_le_dividend])

section \<open>Alignment\<close>

text \<open>The least multiple of \<open>a\<close> that is not below \<open>n\<close>.\<close>

definition align :: "nat \<Rightarrow> nat \<Rightarrow> nat" where
  "align a n = (n + a - 1) div a * a"

definition ceil_div :: "nat \<Rightarrow> nat \<Rightarrow> nat" where
  "ceil_div n r = (n + (r - 1)) div r"

lemma align_dvd [simp]: "a dvd align a n"
  by (simp add: align_def)

lemma align_ge: "0 < a \<Longrightarrow> n \<le> align a n"
proof -
  assume "0 < a"
  then have "(n + a - 1) mod a < a" by simp
  moreover have "align a n + (n + a - 1) mod a = n + a - 1" by (simp add: align_def)
  ultimately show ?thesis using \<open>0 < a\<close> by linarith
qed

lemma align_le: "align a n \<le> n + a - 1"
  by (simp add: align_def)

lemma align_least:
  assumes "a dvd m" and "n \<le> m"
  shows "align a n \<le> m"
proof (cases "a = 0")
  case False
  from assms(1) obtain k where m: "m = k * a" by (auto simp: dvd_def mult.commute)
  with assms(2) False have "n + a - 1 < Suc k * a" by simp
  then have "(n + a - 1) div a < Suc k" by (simp add: less_mult_imp_div_less)
  with m show ?thesis unfolding align_def by (simp add: less_Suc_eq_le)
qed (use assms in \<open>simp add: align_def\<close>)

lemma align_id: "a dvd n \<Longrightarrow> align a n = n"
  using align_least [of a n n] align_ge [of a n] by (cases "a = 0") (auto simp: align_def)

lemma align_align [simp]: "align a (align a n) = align a n"
  by (rule align_id) simp

lemma align_mono: "m \<le> n \<Longrightarrow> align a m \<le> align a n"
  unfolding align_def by (intro mult_right_mono div_le_mono) auto

lemma align_zero [simp]: "align a 0 = 0"
  by (cases "a = 0") (simp_all add: align_def)

lemma align_pos: "0 < a \<Longrightarrow> 0 < n \<Longrightarrow> 0 < align a n"
  using align_ge [of a n] by linarith

section \<open>The alignment macros\<close>

text \<open>
  \<open>MSM\_MEDIA\_ALIGN\<close> divides and multiplies when the alignment is no power of two, and
  masks otherwise. Its type is that of its arguments: unsigned as soon as one of them is,
  signed when both are \<open>int\<close>.
\<close>

definition MSM_MEDIA_ALIGN :: "cint \<Rightarrow> cint \<Rightarrow> cint" where
  "MSM_MEDIA_ALIGN sz al =
     (if al AND (al - 1) \<noteq> 0 then ((sz + al - 1) div al) * al
      else (sz + al - 1) AND NOT (al - 1))"

definition MSM_MEDIA_ALIGN_int :: "cint \<Rightarrow> cint \<Rightarrow> cint" where
  "MSM_MEDIA_ALIGN_int sz al =
     (if al AND (al - 1) \<noteq> 0 then int_div (sz + al - 1) al * al
      else (sz + al - 1) AND NOT (al - 1))"

definition MSM_MEDIA_ROUNDUP :: "cint \<Rightarrow> cint \<Rightarrow> cint" where
  "MSM_MEDIA_ROUNDUP sz r = int_div (sz + (r - 1)) r"

definition MSM_MEDIA_MAX :: "cint \<Rightarrow> cint \<Rightarrow> cint" where
  "MSM_MEDIA_MAX a b = (if b < a then a else b)"

lemma and_pred_power_of_two: "(n :: nat) AND (n - 1) = 0 \<Longrightarrow> 0 < n \<Longrightarrow> \<exists>k. n = 2 ^ k"
proof (induction n rule: less_induct)
  case (less n)
  show ?case
  proof (cases "even n")
    case True
    then obtain m where m: "n = 2 * m" by auto
    with less.prems have "0 < m" by simp
    then have "n - 1 = Suc (2 * (m - 1))" using m by simp
    with less.prems m have "(2 * m) AND Suc (2 * (m - 1)) = 0" by simp
    then have "m AND (m - 1) = 0" by (simp add: and_nat_rec [of "2 * m"])
    from less.IH [OF _ this \<open>0 < m\<close>] m \<open>0 < m\<close> obtain k where "m = 2 ^ k" by auto
    with m have "n = 2 ^ Suc k" by simp
    then show ?thesis by blast
  next
    case False
    then obtain m where m: "n = Suc (2 * m)" by (metis oddE Suc_eq_plus1)
    with less.prems have "Suc (2 * m) AND (2 * m) = 0" by simp
    then have "m = 0" by (simp add: and_nat_rec [of "Suc (2 * m)"])
    with m have "n = 2 ^ 0" by simp
    then show ?thesis by blast
  qed
qed

lemma and_not_mask_nat: "(of_nat x :: cint) AND NOT (mask k) = of_nat (x div 2 ^ k * 2 ^ k)"
proof -
  have "(of_nat x :: cint) AND NOT (mask k) = of_nat (push_bit k (drop_bit k x))"
    by (rule bit_word_eqI) (auto simp: bit_simps)
  then show ?thesis by (simp add: push_bit_eq_mult drop_bit_eq_div mult.commute)
qed


lemma align_mask_of_nat:
  assumes "0 < a" and "a < 2 ^ 32"
  shows "((of_nat a :: cint) AND (of_nat a - 1) \<noteq> 0) = (a AND (a - 1) \<noteq> 0)"
    and "(of_nat n + of_nat a - 1 :: cint) = of_nat (n + a - 1)"
proof -
  have pred: "(of_nat a - 1 :: cint) = of_nat (a - 1)"
    using assms(1) by (simp add: of_nat_diff)
  have "int (a AND (a - 1)) \<le> int a" by (simp add: of_nat_and_eq)
  then have "a AND (a - 1) \<le> a" by simp
  with assms(2) have "unat (of_nat (a AND (a - 1)) :: cint) = a AND (a - 1)"
    by (intro unat_of_nat_small) linarith
  then have "(of_nat (a AND (a - 1)) :: cint) = 0 \<longleftrightarrow> a AND (a - 1) = 0"
    using unat_eq_zero by metis
  then show "((of_nat a :: cint) AND (of_nat a - 1) \<noteq> 0) = (a AND (a - 1) \<noteq> 0)"
    unfolding pred by (simp add: of_nat_and_eq)
  show "(of_nat n + of_nat a - 1 :: cint) = of_nat (n + a - 1)"
    using assms(1) by (simp add: of_nat_diff)
qed

lemma align_masked:
  assumes "0 < a" and "a AND (a - 1) = 0"
  shows "(of_nat (n + a - 1) :: cint) AND NOT (of_nat a - 1) = of_nat (align a n)"
proof -
  from and_pred_power_of_two [OF assms(2,1)] obtain k where k: "a = 2 ^ k" by blast
  then have "(of_nat a - 1 :: cint) = mask k" by (simp add: mask_eq_exp_minus_1)
  then show ?thesis by (simp add: and_not_mask_nat align_def k)
qed

lemma MSM_MEDIA_ALIGN_of_nat:
  assumes "0 < a" and "a < 2 ^ 32" and "n + a \<le> 2 ^ 32"
  shows "MSM_MEDIA_ALIGN (of_nat n) (of_nat a) = of_nat (align a n)"
proof -
  have "(of_nat (n + a - 1) :: cint) div of_nat a = of_nat ((n + a - 1) div a)"
    using assms by (intro udiv_of_nat) linarith+
  then show ?thesis
    unfolding MSM_MEDIA_ALIGN_def align_mask_of_nat [OF assms(1,2)]
    using align_masked [OF assms(1)] by (simp add: align_def)
qed

lemma MSM_MEDIA_ALIGN_int_of_nat:
  assumes "0 < a" and "n + a \<le> 2 ^ 31"
  shows "MSM_MEDIA_ALIGN_int (of_nat n) (of_nat a) = of_nat (align a n)"
proof -
  have "int_div (of_nat (n + a - 1)) (of_nat a) = of_nat ((n + a - 1) div a)" if "n \<noteq> 0 \<or> a < 2 ^ 31"
    using assms that by (intro int_div_of_nat) linarith+
  moreover have "a < 2 ^ 32" using assms(2) by simp
  moreover have "a AND (a - 1) = 0" if "n = 0" "a = 2 ^ 31" using that by simp
  moreover have "n \<noteq> 0 \<or> a < 2 ^ 31 \<or> n = 0 \<and> a = 2 ^ 31" using assms(2) by linarith
  ultimately show ?thesis
    unfolding MSM_MEDIA_ALIGN_int_def align_mask_of_nat [OF assms(1) \<open>a < 2 ^ 32\<close>]
    using align_masked [OF assms(1)] by (auto simp: align_def)
qed

lemma MSM_MEDIA_ROUNDUP_of_nat:
  assumes "0 < r" and "n + r \<le> 2 ^ 31" and "r < 2 ^ 31"
  shows "MSM_MEDIA_ROUNDUP (of_nat n) (of_nat r) = of_nat (ceil_div n r)"
proof -
  have "(of_nat n + (of_nat r - 1) :: cint) = of_nat (n + (r - 1))"
    using assms(1) by (simp add: of_nat_diff)
  moreover have "int_div (of_nat (n + (r - 1))) (of_nat r) = of_nat ((n + (r - 1)) div r)"
    using assms by (intro int_div_of_nat) linarith+
  ultimately show ?thesis by (simp add: MSM_MEDIA_ROUNDUP_def ceil_div_def)
qed

lemma MSM_MEDIA_MAX_of_nat:
  "a < 2 ^ 32 \<Longrightarrow> b < 2 ^ 32 \<Longrightarrow> MSM_MEDIA_MAX (of_nat a) (of_nat b) = of_nat (max a b)"
  by (simp add: MSM_MEDIA_MAX_def word_less_nat_alt unat_of_nat_small max_def)

lemma ceil_div_ge: "0 < r \<Longrightarrow> n \<le> ceil_div n r * r"
  using align_ge [of r n] by (simp add: align_def ceil_div_def)

lemma ceil_div_le: "ceil_div n r \<le> n + (r - 1)"
  unfolding ceil_div_def by (rule div_le_dividend)

end
