(* ===== verification/MediaInfo.thy ===== *)
theory MediaInfo
  imports CInt
begin

unbundle bit_operations_syntax

text \<open>
  The buffer layout functions of the video codec header (media/msm_media_info.h): strides,
  scanlines, meta planes, the size of a frame buffer and the offset of the second view of a
  stereo buffer, for every colour format. Each function takes the \<open>int\<close> of the caller; a
  number that is no enumerator takes the default branch of every switch.
\<close>

datatype color_fmts =
    NV12 | NV21 | NV12_MVTB | NV12_UBWC | NV12_BPP10_UBWC | RGBA8888 | RGBA8888_UBWC
  | RGBA1010102_UBWC | RGB565_UBWC | P010_UBWC | P010

text \<open>The enumerators are numbered from 0 in the order of the declaration.\<close>

definition all_fmts :: "color_fmts list" where
  "all_fmts = [NV12, NV21, NV12_MVTB, NV12_UBWC, NV12_BPP10_UBWC, RGBA8888, RGBA8888_UBWC,
     RGBA1010102_UBWC, RGB565_UBWC, P010_UBWC, P010]"

definition decode :: "cint \<Rightarrow> color_fmts option" where
  "decode n = (if n < 11 then Some (all_fmts ! unat n) else None)"

definition encode :: "color_fmts \<Rightarrow> cint" where
  "encode f = (case f of NV12 \<Rightarrow> 0 | NV21 \<Rightarrow> 1 | NV12_MVTB \<Rightarrow> 2 | NV12_UBWC \<Rightarrow> 3
     | NV12_BPP10_UBWC \<Rightarrow> 4 | RGBA8888 \<Rightarrow> 5 | RGBA8888_UBWC \<Rightarrow> 6 | RGBA1010102_UBWC \<Rightarrow> 7
     | RGB565_UBWC \<Rightarrow> 8 | P010_UBWC \<Rightarrow> 9 | P010 \<Rightarrow> 10)"

lemma decode_encode [simp]: "decode (encode f) = Some f"
  by (cases f) (simp_all add: decode_def encode_def all_fmts_def)

section \<open>Strides and scanlines\<close>

definition VENUS_EXTRADATA_SIZE :: "cint \<Rightarrow> cint \<Rightarrow> cint" where
  "VENUS_EXTRADATA_SIZE width height = 16 * 1024"

definition VENUS_Y_STRIDE :: "cint \<Rightarrow> cint \<Rightarrow> cint" where
  "VENUS_Y_STRIDE color_fmt width =
     (if width = 0 then 0
      else case decode color_fmt of
        Some NV21 \<Rightarrow> MSM_MEDIA_ALIGN width 128
      | Some NV12 \<Rightarrow> MSM_MEDIA_ALIGN width 128
      | Some NV12_MVTB \<Rightarrow> MSM_MEDIA_ALIGN width 128
      | Some NV12_UBWC \<Rightarrow> MSM_MEDIA_ALIGN width 128
      | Some NV12_BPP10_UBWC \<Rightarrow>
          (let stride = MSM_MEDIA_ALIGN_int width 192 in MSM_MEDIA_ALIGN (stride * 4 div 3) 256)
      | Some P010_UBWC \<Rightarrow> MSM_MEDIA_ALIGN (width * 2) 256
      | Some P010 \<Rightarrow> MSM_MEDIA_ALIGN (width * 2) 128
      | _ \<Rightarrow> 0)"

definition VENUS_UV_STRIDE :: "cint \<Rightarrow> cint \<Rightarrow> cint" where
  "VENUS_UV_STRIDE color_fmt width =
     (if width = 0 then 0
      else case decode color_fmt of
        Some NV21 \<Rightarrow> MSM_MEDIA_ALIGN width 128
      | Some NV12 \<Rightarrow> MSM_MEDIA_ALIGN width 128
      | Some NV12_MVTB \<Rightarrow> MSM_MEDIA_ALIGN width 128
      | Some NV12_UBWC \<Rightarrow> MSM_MEDIA_ALIGN width 128
      | Some NV12_BPP10_UBWC \<Rightarrow>
          (let stride = MSM_MEDIA_ALIGN_int width 192 in MSM_MEDIA_ALIGN (stride * 4 div 3) 256)
      | Some P010_UBWC \<Rightarrow> MSM_MEDIA_ALIGN (width * 2) 256
      | Some P010 \<Rightarrow> MSM_MEDIA_ALIGN (width * 2) 128
      | _ \<Rightarrow> 0)"

definition VENUS_Y_SCANLINES :: "cint \<Rightarrow> cint \<Rightarrow> cint" where
  "VENUS_Y_SCANLINES color_fmt height =
     (if height = 0 then 0
      else case decode color_fmt of
        Some NV21 \<Rightarrow> MSM_MEDIA_ALIGN height 32
      | Some NV12 \<Rightarrow> MSM_MEDIA_ALIGN height 32
      | Some NV12_MVTB \<Rightarrow> MSM_MEDIA_ALIGN height 32
      | Some NV12_UBWC \<Rightarrow> MSM_MEDIA_ALIGN height 32
      | Some P010 \<Rightarrow> MSM_MEDIA_ALIGN height 32
      | Some NV12_BPP10_UBWC \<Rightarrow> MSM_MEDIA_ALIGN height 16
      | Some P010_UBWC \<Rightarrow> MSM_MEDIA_ALIGN height 16
      | _ \<Rightarrow> 0)"

text \<open>\<open>(n + 1) >> 1\<close> on \<open>int\<close>.\<close>

definition half_up :: "cint \<Rightarrow> cint" where
  "half_up n = int_shr (n + 1) 1"

definition VENUS_UV_SCANLINES :: "cint \<Rightarrow> cint \<Rightarrow> cint" where
  "VENUS_UV_SCANLINES color_fmt height =
     (if height = 0 then 0
      else case decode color_fmt of
        Some NV21 \<Rightarrow> MSM_MEDIA_ALIGN (half_up height) 16
      | Some NV12 \<Rightarrow> MSM_MEDIA_ALIGN (half_up height) 16
      | Some NV12_MVTB \<Rightarrow> MSM_MEDIA_ALIGN (half_up height) 16
      | Some NV12_BPP10_UBWC \<Rightarrow> MSM_MEDIA_ALIGN (half_up height) 16
      | Some P010_UBWC \<Rightarrow> MSM_MEDIA_ALIGN (half_up height) 16
      | Some P010 \<Rightarrow> MSM_MEDIA_ALIGN (half_up height) 16
      | Some NV12_UBWC \<Rightarrow> MSM_MEDIA_ALIGN (half_up height) 32
      | _ \<Rightarrow> 0)"

section \<open>Meta planes\<close>

text \<open>
  Each of these picks a tile size by format and rounds to it: \<open>meta_size n tile step\<close>, with
  the tile \<open>None\<close> where the switch leaves.
\<close>

definition meta_size :: "cint \<Rightarrow> cint option \<Rightarrow> cint \<Rightarrow> cint" where
  "meta_size n tile step =
     (case tile of None \<Rightarrow> 0 | Some t \<Rightarrow> MSM_MEDIA_ALIGN_int (MSM_MEDIA_ROUNDUP n t) step)"

definition VENUS_Y_META_STRIDE :: "cint \<Rightarrow> cint \<Rightarrow> cint" where
  "VENUS_Y_META_STRIDE color_fmt width =
     (if width = 0 then 0
      else meta_size width (case decode color_fmt of
          Some NV12_UBWC \<Rightarrow> Some 32 | Some P010_UBWC \<Rightarrow> Some 32
        | Some NV12_BPP10_UBWC \<Rightarrow> Some 48 | _ \<Rightarrow> None) 64)"

definition VENUS_Y_META_SCANLINES :: "cint \<Rightarrow> cint \<Rightarrow> cint" where
  "VENUS_Y_META_SCANLINES color_fmt height =
     (if height = 0 then 0
      else meta_size height (case decode color_fmt of
          Some NV12_UBWC \<Rightarrow> Some 8
        | Some NV12_BPP10_UBWC \<Rightarrow> Some 4 | Some P010_UBWC \<Rightarrow> Some 4 | _ \<Rightarrow> None) 16)"

definition VENUS_UV_META_STRIDE :: "cint \<Rightarrow> cint \<Rightarrow> cint" where
  "VENUS_UV_META_STRIDE color_fmt width =
     (if width = 0 then 0
      else meta_size (half_up width) (case decode color_fmt of
          Some NV12_UBWC \<Rightarrow> Some 16 | Some P010_UBWC \<Rightarrow> Some 16
        | Some NV12_BPP10_UBWC \<Rightarrow> Some 24 | _ \<Rightarrow> None) 64)"

definition VENUS_UV_META_SCANLINES :: "cint \<Rightarrow> cint \<Rightarrow> cint" where
  "VENUS_UV_META_SCANLINES color_fmt height =
     (if height = 0 then 0
      else meta_size (half_up height) (case decode color_fmt of
          Some NV12_UBWC \<Rightarrow> Some 8
        | Some NV12_BPP10_UBWC \<Rightarrow> Some 4 | Some P010_UBWC \<Rightarrow> Some 4 | _ \<Rightarrow> None) 16)"

section \<open>RGB\<close>

definition VENUS_RGB_STRIDE :: "cint \<Rightarrow> cint \<Rightarrow> cint" where
  "VENUS_RGB_STRIDE color_fmt width =
     (if width = 0 then 0
      else case decode color_fmt of
        Some RGBA8888 \<Rightarrow> MSM_MEDIA_ALIGN (width * 4) 128
      | Some RGB565_UBWC \<Rightarrow> MSM_MEDIA_ALIGN (width * 2) 256
      | Some RGBA8888_UBWC \<Rightarrow> MSM_MEDIA_ALIGN (width * 4) 256
      | Some RGBA1010102_UBWC \<Rightarrow> MSM_MEDIA_ALIGN (width * 4) 256
      | _ \<Rightarrow> 0)"

definition VENUS_RGB_SCANLINES :: "cint \<Rightarrow> cint \<Rightarrow> cint" where
  "VENUS_RGB_SCANLINES color_fmt height =
     (if height = 0 then 0
      else case decode color_fmt of
        Some RGBA8888 \<Rightarrow> MSM_MEDIA_ALIGN height 32
      | Some RGBA8888_UBWC \<Rightarrow> MSM_MEDIA_ALIGN height 16
      | Some RGBA1010102_UBWC \<Rightarrow> MSM_MEDIA_ALIGN height 16
      | Some RGB565_UBWC \<Rightarrow> MSM_MEDIA_ALIGN height 16
      | _ \<Rightarrow> 0)"

definition rgb_ubwc :: "color_fmts option \<Rightarrow> bool" where
  "rgb_ubwc f \<longleftrightarrow> f = Some RGBA8888_UBWC \<or> f = Some RGBA1010102_UBWC \<or> f = Some RGB565_UBWC"

definition VENUS_RGB_META_STRIDE :: "cint \<Rightarrow> cint \<Rightarrow> cint" where
  "VENUS_RGB_META_STRIDE color_fmt width =
     (if width = 0 then 0
      else meta_size width (if rgb_ubwc (decode color_fmt) then Some 16 else None) 64)"

definition VENUS_RGB_META_SCANLINES :: "cint \<Rightarrow> cint \<Rightarrow> cint" where
  "VENUS_RGB_META_SCANLINES color_fmt height =
     (if height = 0 then 0
      else meta_size height (if rgb_ubwc (decode color_fmt) then Some 4 else None) 16)"

section \<open>The size of a buffer\<close>

text \<open>The branches of the switch in \<open>VENUS\_BUFFER\_SIZE\<close>, one definition each.\<close>

definition last_row :: "cint \<Rightarrow> cint \<Rightarrow> cint \<Rightarrow> cint" where
  "last_row width height sz =
     (if int_ge width 2400 \<and> int_ge height 2400
      then MSM_MEDIA_ALIGN (sz + MSM_MEDIA_ALIGN width 512 * 512) 4096 else sz)"

definition linear_size :: "cint \<Rightarrow> cint \<Rightarrow> cint \<Rightarrow> cint" where
  "linear_size color_fmt width height =
     (let y_stride = VENUS_Y_STRIDE color_fmt width;
          y_plane = y_stride * VENUS_Y_SCANLINES color_fmt height;
          uv_plane = VENUS_UV_STRIDE color_fmt width * VENUS_UV_SCANLINES color_fmt height + 4096
      in MSM_MEDIA_ALIGN (y_plane + uv_plane +
           MSM_MEDIA_MAX (VENUS_EXTRADATA_SIZE width height) (8 * y_stride)) 4096)"

definition mvtb_size :: "cint \<Rightarrow> cint \<Rightarrow> cint \<Rightarrow> cint" where
  "mvtb_size color_fmt width height =
     (let y_plane = VENUS_Y_STRIDE color_fmt width * VENUS_Y_SCANLINES color_fmt height;
          uv_plane = VENUS_UV_STRIDE color_fmt width * VENUS_UV_SCANLINES color_fmt height + 4096
      in MSM_MEDIA_ALIGN (2 * (y_plane + uv_plane) + VENUS_EXTRADATA_SIZE width height) 4096)"

text \<open>The four planes of a compressed YUV buffer, for the lines of \<open>h\<close> (a field or a frame).\<close>

definition ubwc_planes :: "cint \<Rightarrow> cint \<Rightarrow> cint \<Rightarrow> cint" where
  "ubwc_planes color_fmt width h =
     (let y_ubwc_plane = MSM_MEDIA_ALIGN
            (VENUS_Y_STRIDE color_fmt width * VENUS_Y_SCANLINES color_fmt h) 4096;
          uv_ubwc_plane = MSM_MEDIA_ALIGN
            (VENUS_UV_STRIDE color_fmt width * VENUS_UV_SCANLINES color_fmt h) 4096;
          y_meta_plane = MSM_MEDIA_ALIGN
            (VENUS_Y_META_STRIDE color_fmt width * VENUS_Y_META_SCANLINES color_fmt h) 4096;
          uv_meta_plane = MSM_MEDIA_ALIGN
            (VENUS_UV_META_STRIDE color_fmt width * VENUS_UV_META_SCANLINES color_fmt h) 4096
      in y_ubwc_plane + uv_ubwc_plane + y_meta_plane + uv_meta_plane)"

definition ubwc_extra :: "cint \<Rightarrow> cint \<Rightarrow> cint \<Rightarrow> cint" where
  "ubwc_extra color_fmt width height =
     MSM_MEDIA_MAX (VENUS_EXTRADATA_SIZE width height + 8192)
       (48 * VENUS_Y_STRIDE color_fmt width)"

definition rgb_plane :: "cint \<Rightarrow> cint \<Rightarrow> cint \<Rightarrow> cint" where
  "rgb_plane color_fmt width height = MSM_MEDIA_ALIGN
     (VENUS_RGB_STRIDE color_fmt width * VENUS_RGB_SCANLINES color_fmt height) 4096"

definition rgb_ubwc_size :: "cint \<Rightarrow> cint \<Rightarrow> cint \<Rightarrow> cint" where
  "rgb_ubwc_size color_fmt width height =
     (let rgb_meta_plane = MSM_MEDIA_ALIGN
            (VENUS_RGB_META_STRIDE color_fmt width * VENUS_RGB_META_SCANLINES color_fmt height)
            4096
      in MSM_MEDIA_ALIGN (rgb_plane color_fmt width height + rgb_meta_plane) 4096)"

definition VENUS_BUFFER_SIZE :: "cint \<Rightarrow> cint \<Rightarrow> cint \<Rightarrow> cint" where
  "VENUS_BUFFER_SIZE color_fmt width height =
     (if width = 0 \<or> height = 0 then 0
      else case decode color_fmt of
        Some NV21 \<Rightarrow> last_row width height (linear_size color_fmt width height)
      | Some NV12 \<Rightarrow> last_row width height (linear_size color_fmt width height)
      | Some P010 \<Rightarrow> linear_size color_fmt width height
      | Some NV12_MVTB \<Rightarrow> mvtb_size color_fmt width height
      | Some NV12_UBWC \<Rightarrow> last_row width height
          (MSM_MEDIA_ALIGN (ubwc_planes color_fmt width (half_up height) * 2 +
             ubwc_extra color_fmt width height) 4096)
      | Some NV12_BPP10_UBWC \<Rightarrow> MSM_MEDIA_ALIGN
          (ubwc_planes color_fmt width height + ubwc_extra color_fmt width height) 4096
      | Some P010_UBWC \<Rightarrow> MSM_MEDIA_ALIGN (ubwc_planes color_fmt width height) 4096
      | Some RGBA8888 \<Rightarrow> MSM_MEDIA_ALIGN (rgb_plane color_fmt width height) 4096
      | Some RGBA8888_UBWC \<Rightarrow> rgb_ubwc_size color_fmt width height
      | Some RGBA1010102_UBWC \<Rightarrow> rgb_ubwc_size color_fmt width height
      | Some RGB565_UBWC \<Rightarrow> rgb_ubwc_size color_fmt width height
      | _ \<Rightarrow> 0)"

definition VENUS_VIEW2_OFFSET :: "cint \<Rightarrow> cint \<Rightarrow> cint \<Rightarrow> cint" where
  "VENUS_VIEW2_OFFSET color_fmt width height =
     (if width = 0 \<or> height = 0 then 0
      else case decode color_fmt of
        Some NV12_MVTB \<Rightarrow>
          (let y_plane = VENUS_Y_STRIDE color_fmt width * VENUS_Y_SCANLINES color_fmt height;
               uv_plane = VENUS_UV_STRIDE color_fmt width * VENUS_UV_SCANLINES color_fmt height
           in y_plane + uv_plane)
      | _ \<Rightarrow> 0)"

end
