(* ===== verification/MediaInfoCorrect.thy ===== *)
theory MediaInfoCorrect
  imports MediaInfo
begin

unbundle bit_operations_syntax

text \<open>
  The layout of a frame buffer over the natural numbers, without machine words, and that
  the header computes it for every frame of up to 16384 by 16384 pixels; then what a client
  of the layout needs: the planes fit, the size is a whole number of pages, the second view
  of a stereo buffer lies inside it, a compressed buffer holds both layouts it may have.
\<close>

section \<open>The layout over the natural numbers\<close>

fun y_stride :: "color_fmts \<Rightarrow> nat \<Rightarrow> nat" where
  "y_stride NV12_BPP10_UBWC w = align 256 (align 192 w * 4 div 3)"
| "y_stride P010_UBWC w = align 256 (2 * w)"
| "y_stride P010 w = align 128 (2 * w)"
| "y_stride f w = (if f \<in> {NV12, NV21, NV12_MVTB, NV12_UBWC} then align 128 w else 0)"

fun y_scanlines :: "color_fmts \<Rightarrow> nat \<Rightarrow> nat" where
  "y_scanlines NV12_BPP10_UBWC h = align 16 h"
| "y_scanlines P010_UBWC h = align 16 h"
| "y_scanlines f h = (if f \<in> {NV12, NV21, NV12_MVTB, NV12_UBWC, P010} then align 32 h else 0)"

text \<open>The lines of the chroma planes: one for two lines of the frame, rounded up.\<close>

abbreviation half :: "nat \<Rightarrow> nat" where
  "half n \<equiv> Suc n div 2"

fun uv_scanlines :: "color_fmts \<Rightarrow> nat \<Rightarrow> nat" where
  "uv_scanlines NV12_UBWC h = align 32 (half h)"
| "uv_scanlines f h =
     (if f \<in> {NV12, NV21, NV12_MVTB, NV12_BPP10_UBWC, P010_UBWC, P010}
      then align 16 (half h) else 0)"

text \<open>The tiles (width and height) of a compressed plane, in pixels; no tile, no meta plane.\<close>

fun y_tile :: "color_fmts \<Rightarrow> (nat \<times> nat) option" where
  "y_tile NV12_UBWC = Some (32, 8)"
| "y_tile P010_UBWC = Some (32, 4)"
| "y_tile NV12_BPP10_UBWC = Some (48, 4)"
| "y_tile f = None"

fun uv_tile :: "color_fmts \<Rightarrow> (nat \<times> nat) option" where
  "uv_tile NV12_UBWC = Some (16, 8)"
| "uv_tile P010_UBWC = Some (16, 4)"
| "uv_tile NV12_BPP10_UBWC = Some (24, 4)"
| "uv_tile f = None"

fun rgb_tile :: "color_fmts \<Rightarrow> (nat \<times> nat) option" where
  "rgb_tile RGBA8888_UBWC = Some (16, 4)"
| "rgb_tile RGBA1010102_UBWC = Some (16, 4)"
| "rgb_tile RGB565_UBWC = Some (16, 4)"
| "rgb_tile f = None"

text \<open>One byte of meta data per tile, in rows of 64 bytes and groups of 16 rows.\<close>

definition meta_stride :: "(nat \<times> nat) option \<Rightarrow> nat \<Rightarrow> nat" where
  "meta_stride tile w = (case tile of None \<Rightarrow> 0 | Some (tw, th) \<Rightarrow> align 64 (ceil_div w tw))"

definition meta_scanlines :: "(nat \<times> nat) option \<Rightarrow> nat \<Rightarrow> nat" where
  "meta_scanlines tile h = (case tile of None \<Rightarrow> 0 | Some (tw, th) \<Rightarrow> align 16 (ceil_div h th))"

definition meta_plane :: "(nat \<times> nat) option \<Rightarrow> nat \<Rightarrow> nat \<Rightarrow> nat" where
  "meta_plane tile w h = align 4096 (meta_stride tile w * meta_scanlines tile h)"

fun rgb_stride :: "color_fmts \<Rightarrow> nat \<Rightarrow> nat" where
  "rgb_stride RGBA8888 w = align 128 (4 * w)"
| "rgb_stride RGB565_UBWC w = align 256 (2 * w)"
| "rgb_stride f w = (if f \<in> {RGBA8888_UBWC, RGBA1010102_UBWC} then align 256 (4 * w) else 0)"

fun rgb_scanlines :: "color_fmts \<Rightarrow> nat \<Rightarrow> nat" where
  "rgb_scanlines RGBA8888 h = align 32 h"
| "rgb_scanlines f h =
     (if f \<in> {RGBA8888_UBWC, RGBA1010102_UBWC, RGB565_UBWC} then align 16 h else 0)"

definition y_bytes :: "color_fmts \<Rightarrow> nat \<Rightarrow> nat \<Rightarrow> nat" where
  "y_bytes f w h = y_stride f w * y_scanlines f h"

definition uv_bytes :: "color_fmts \<Rightarrow> nat \<Rightarrow> nat \<Rightarrow> nat" where
  "uv_bytes f w h = y_stride f w * uv_scanlines f h"

definition rgb_bytes :: "color_fmts \<Rightarrow> nat \<Rightarrow> nat \<Rightarrow> nat" where
  "rgb_bytes f w h = rgb_stride f w * rgb_scanlines f h"

text \<open>The four planes of a compressed YUV picture, each a whole number of pages.\<close>

definition yuv_picture :: "color_fmts \<Rightarrow> nat \<Rightarrow> nat \<Rightarrow> nat" where
  "yuv_picture f w h = align 4096 (y_bytes f w h) + align 4096 (uv_bytes f w h) +
     meta_plane (y_tile f) w h + meta_plane (uv_tile f) (half w) (half h)"

definition rgb_picture :: "color_fmts \<Rightarrow> nat \<Rightarrow> nat \<Rightarrow> nat" where
  "rgb_picture f w h = align 4096 (rgb_bytes f w h) + meta_plane (rgb_tile f) w h"

definition extra_row :: "nat \<Rightarrow> nat \<Rightarrow> nat" where
  "extra_row w h = (if 2400 \<le> w \<and> 2400 \<le> h then align 4096 (align 512 w * 512) else 0)"

fun buffer_size :: "color_fmts \<Rightarrow> nat \<Rightarrow> nat \<Rightarrow> nat" where
  "buffer_size NV12_MVTB w h =
     align 4096 (2 * (y_bytes NV12_MVTB w h + uv_bytes NV12_MVTB w h + 4096) + 16384)"
| "buffer_size NV12_UBWC w h =
     align 4096 (2 * yuv_picture NV12_UBWC w (half h) + max 24576 (48 * y_stride NV12_UBWC w))
       + extra_row w h"
| "buffer_size NV12_BPP10_UBWC w h =
     align 4096 (yuv_picture NV12_BPP10_UBWC w h + max 24576 (48 * y_stride NV12_BPP10_UBWC w))"
| "buffer_size P010_UBWC w h = yuv_picture P010_UBWC w h"
| "buffer_size P010 w h =
     align 4096 (y_bytes P010 w h + uv_bytes P010 w h + 4096 + max 16384 (8 * y_stride P010 w))"
| "buffer_size f w h =
     (if f \<in> {NV12, NV21}
      then align 4096 (y_bytes f w h + uv_bytes f w h + 4096 + max 16384 (8 * y_stride f w))
           + extra_row w h
      else rgb_picture f w h)"

section \<open>The header computes this layout\<close>

text \<open>The frames the theorems are about: 1 to 16384 pixels each way.\<close>

definition frame_ok :: "nat \<Rightarrow> nat \<Rightarrow> bool" where
  "frame_ok w h \<longleftrightarrow> 0 < w \<and> w \<le> 16384 \<and> 0 < h \<and> h \<le> 16384"

lemma of_nat_cint_zero: "n \<le> 2 ^ 31 \<Longrightarrow> (of_nat n :: cint) = 0 \<longleftrightarrow> n = 0"
  using unat_of_nat_small [of n] by auto

lemma frame_okD:
  assumes "frame_ok w h"
  shows "(of_nat w :: cint) \<noteq> 0" "(of_nat h :: cint) \<noteq> 0" "w \<le> 16384" "h \<le> 16384" "0 < w"
    "0 < h" "w \<noteq> 0" "h \<noteq> 0"
  using assms by (simp_all add: frame_ok_def of_nat_cint_zero)

lemma ALIGN_literals:
  assumes "n \<le> 2 ^ 31"
  shows "MSM_MEDIA_ALIGN (of_nat n) 16 = of_nat (align 16 n)"
    "MSM_MEDIA_ALIGN (of_nat n) 32 = of_nat (align 32 n)"
    "MSM_MEDIA_ALIGN (of_nat n) 128 = of_nat (align 128 n)"
    "MSM_MEDIA_ALIGN (of_nat n) 256 = of_nat (align 256 n)"
    "MSM_MEDIA_ALIGN (of_nat n) 512 = of_nat (align 512 n)"
    "MSM_MEDIA_ALIGN (of_nat n) 4096 = of_nat (align 4096 n)"
  using assms MSM_MEDIA_ALIGN_of_nat [of 16 n] MSM_MEDIA_ALIGN_of_nat [of 32 n]
    MSM_MEDIA_ALIGN_of_nat [of 128 n] MSM_MEDIA_ALIGN_of_nat [of 256 n]
    MSM_MEDIA_ALIGN_of_nat [of 512 n] MSM_MEDIA_ALIGN_of_nat [of 4096 n]
  by simp_all

lemma half_up_of_nat: "n \<le> 2 ^ 30 \<Longrightarrow> half_up (of_nat n) = of_nat (half n)"
proof -
  assume "n \<le> 2 ^ 30"
  then have "Suc n < 2 ^ 31" by simp
  from int_shr_of_nat [OF this, of 1] show ?thesis
    by (simp only: half_up_def of_nat_Suc add.commute [of 1] power_one_right)
qed

lemma meta_size_of_nat:
  assumes "n \<le> 2 ^ 30" and "0 < t" and "t \<le> 64" and "s = 16 \<or> s = 64"
  shows "meta_size (of_nat n) (Some (of_nat t)) (of_nat s) = of_nat (align s (ceil_div n t))"
proof -
  have "MSM_MEDIA_ROUNDUP (of_nat n) (of_nat t) = of_nat (ceil_div n t)"
    using assms by (intro MSM_MEDIA_ROUNDUP_of_nat) auto
  moreover have "ceil_div n t + s \<le> 2 ^ 31"
    using ceil_div_le [of n t] assms by auto
  then have "MSM_MEDIA_ALIGN_int (of_nat (ceil_div n t)) (of_nat s) = of_nat (align s (ceil_div n t))"
    using assms by (intro MSM_MEDIA_ALIGN_int_of_nat) auto
  ultimately show ?thesis by (simp add: meta_size_def)
qed

lemma meta_size_literals:
  assumes "n \<le> 2 ^ 30"
  shows "meta_size (of_nat n) (Some 4) 16 = of_nat (align 16 (ceil_div n 4))"
    "meta_size (of_nat n) (Some 8) 16 = of_nat (align 16 (ceil_div n 8))"
    "meta_size (of_nat n) (Some 16) 64 = of_nat (align 64 (ceil_div n 16))"
    "meta_size (of_nat n) (Some 24) 64 = of_nat (align 64 (ceil_div n 24))"
    "meta_size (of_nat n) (Some 32) 64 = of_nat (align 64 (ceil_div n 32))"
    "meta_size (of_nat n) (Some 48) 64 = of_nat (align 64 (ceil_div n 48))"
    "meta_size c None s = 0"
  using assms meta_size_of_nat [of n 4 16] meta_size_of_nat [of n 8 16]
    meta_size_of_nat [of n 16 64] meta_size_of_nat [of n 24 64] meta_size_of_nat [of n 32 64]
    meta_size_of_nat [of n 48 64]
  by (simp_all add: meta_size_def [of c])

lemma BPP10_stride:
  assumes "w \<le> 16384"
  shows "MSM_MEDIA_ALIGN (MSM_MEDIA_ALIGN_int (of_nat w) 192 * 4 div 3) 256 =
           of_nat (align 256 (align 192 w * 4 div 3))"
proof -
  have "MSM_MEDIA_ALIGN_int (of_nat w) 192 = of_nat (align 192 w)"
    using MSM_MEDIA_ALIGN_int_of_nat [of 192 w] assms by simp
  moreover have le: "align 192 w \<le> 16512" using assms by (intro align_least) simp_all
  then have "(of_nat (align 192 w * 4) :: cint) div of_nat 3 = of_nat (align 192 w * 4 div 3)"
    by (intro udiv_of_nat) simp_all
  moreover have "align 192 w * 4 div 3 \<le> 2 ^ 31" using le by simp
  ultimately show ?thesis using ALIGN_literals(4) by simp
qed

lemma strides_of_nat:
  assumes "0 < w" and "w \<le> 16384"
  shows "VENUS_Y_STRIDE (encode f) (of_nat w) = of_nat (y_stride f w)"
    and "VENUS_UV_STRIDE (encode f) (of_nat w) = of_nat (y_stride f w)"
    and "VENUS_RGB_STRIDE (encode f) (of_nat w) = of_nat (rgb_stride f w)"
proof -
  have nz: "(of_nat w :: cint) \<noteq> 0" using assms by (simp add: of_nat_cint_zero)
  have m: "(of_nat w * 2 :: cint) = of_nat (2 * w)" "(of_nat w * 4 :: cint) = of_nat (4 * w)"
    by simp_all
  have b: "w \<le> 2 ^ 31" "2 * w \<le> 2 ^ 31" "4 * w \<le> 2 ^ 31" using assms(2) by simp_all
  note al = ALIGN_literals [OF b(1)] ALIGN_literals [OF b(2)] ALIGN_literals [OF b(3)]
  show "VENUS_Y_STRIDE (encode f) (of_nat w) = of_nat (y_stride f w)"
    by (cases f) (simp_all only: VENUS_Y_STRIDE_def decode_encode nz if_False option.case
        color_fmts.case m al Let_def BPP10_stride [OF assms(2)] y_stride.simps, simp_all)
  show "VENUS_UV_STRIDE (encode f) (of_nat w) = of_nat (y_stride f w)"
    by (cases f) (simp_all only: VENUS_UV_STRIDE_def decode_encode nz if_False option.case
        color_fmts.case m al Let_def BPP10_stride [OF assms(2)] y_stride.simps, simp_all)
  show "VENUS_RGB_STRIDE (encode f) (of_nat w) = of_nat (rgb_stride f w)"
    by (cases f) (simp_all only: VENUS_RGB_STRIDE_def decode_encode nz if_False option.case
        color_fmts.case m al rgb_stride.simps, simp_all)
qed

lemma scanlines_of_nat:
  assumes "0 < h" and "h \<le> 16384"
  shows "VENUS_Y_SCANLINES (encode f) (of_nat h) = of_nat (y_scanlines f h)"
    and "VENUS_UV_SCANLINES (encode f) (of_nat h) = of_nat (uv_scanlines f h)"
    and "VENUS_RGB_SCANLINES (encode f) (of_nat h) = of_nat (rgb_scanlines f h)"
proof -
  have nz: "(of_nat h :: cint) \<noteq> 0" using assms by (simp add: of_nat_cint_zero)
  have hu: "half_up (of_nat h) = of_nat (half h)" using assms by (intro half_up_of_nat) simp
  have b: "h \<le> 2 ^ 31" "half h \<le> 2 ^ 31" using assms(2) by simp_all
  note al = ALIGN_literals [OF b(1)] ALIGN_literals [OF b(2)]
  show "VENUS_Y_SCANLINES (encode f) (of_nat h) = of_nat (y_scanlines f h)"
    by (cases f) (simp_all only: VENUS_Y_SCANLINES_def decode_encode nz if_False option.case
        color_fmts.case al y_scanlines.simps, simp_all)
  show "VENUS_UV_SCANLINES (encode f) (of_nat h) = of_nat (uv_scanlines f h)"
    by (cases f) (simp_all only: VENUS_UV_SCANLINES_def decode_encode nz if_False option.case
        color_fmts.case al hu uv_scanlines.simps, simp_all)
  show "VENUS_RGB_SCANLINES (encode f) (of_nat h) = of_nat (rgb_scanlines f h)"
    by (cases f) (simp_all only: VENUS_RGB_SCANLINES_def decode_encode nz if_False option.case
        color_fmts.case al rgb_scanlines.simps, simp_all)
qed

lemma meta_of_nat:
  assumes "0 < n" and "n \<le> 16384"
  shows "VENUS_Y_META_STRIDE (encode f) (of_nat n) = of_nat (meta_stride (y_tile f) n)"
    and "VENUS_Y_META_SCANLINES (encode f) (of_nat n) = of_nat (meta_scanlines (y_tile f) n)"
    and "VENUS_UV_META_STRIDE (encode f) (of_nat n) = of_nat (meta_stride (uv_tile f) (half n))"
    and "VENUS_UV_META_SCANLINES (encode f) (of_nat n) =
           of_nat (meta_scanlines (uv_tile f) (half n))"
    and "VENUS_RGB_META_STRIDE (encode f) (of_nat n) = of_nat (meta_stride (rgb_tile f) n)"
    and "VENUS_RGB_META_SCANLINES (encode f) (of_nat n) = of_nat (meta_scanlines (rgb_tile f) n)"
proof -
  have nz: "(of_nat n :: cint) \<noteq> 0" using assms by (simp add: of_nat_cint_zero)
  have hu: "half_up (of_nat n) = of_nat (half n)" using assms by (intro half_up_of_nat) simp
  have b: "n \<le> 2 ^ 30" "half n \<le> 2 ^ 30" using assms(2) by simp_all
  note ml = meta_size_literals [OF b(1)] meta_size_literals [OF b(2)]
  show "VENUS_Y_META_STRIDE (encode f) (of_nat n) = of_nat (meta_stride (y_tile f) n)"
    by (cases f) (simp_all add: VENUS_Y_META_STRIDE_def nz hu ml meta_stride_def meta_scanlines_def
        del: word_of_nat_eq_0_iff)
  show "VENUS_Y_META_SCANLINES (encode f) (of_nat n) = of_nat (meta_scanlines (y_tile f) n)"
    by (cases f) (simp_all add: VENUS_Y_META_SCANLINES_def nz hu ml meta_stride_def meta_scanlines_def
        del: word_of_nat_eq_0_iff)
  show "VENUS_UV_META_STRIDE (encode f) (of_nat n) = of_nat (meta_stride (uv_tile f) (half n))"
    by (cases f) (simp_all add: VENUS_UV_META_STRIDE_def nz hu ml meta_stride_def meta_scanlines_def
        del: word_of_nat_eq_0_iff)
  show "VENUS_UV_META_SCANLINES (encode f) (of_nat n) =
      of_nat (meta_scanlines (uv_tile f) (half n))"
    by (cases f) (simp_all add: VENUS_UV_META_SCANLINES_def nz hu ml meta_stride_def meta_scanlines_def
        del: word_of_nat_eq_0_iff)
  show "VENUS_RGB_META_STRIDE (encode f) (of_nat n) = of_nat (meta_stride (rgb_tile f) n)"
    by (cases f) (simp_all add: VENUS_RGB_META_STRIDE_def rgb_ubwc_def nz ml meta_stride_def
        del: word_of_nat_eq_0_iff)
  show "VENUS_RGB_META_SCANLINES (encode f) (of_nat n) = of_nat (meta_scanlines (rgb_tile f) n)"
    by (cases f) (simp_all add: VENUS_RGB_META_SCANLINES_def rgb_ubwc_def nz ml meta_scanlines_def
        del: word_of_nat_eq_0_iff)
qed


subsection \<open>Bounds\<close>

lemma align_bound: "n \<le> m \<Longrightarrow> a dvd m \<Longrightarrow> align a n \<le> m"
  by (rule align_least)

lemma y_stride_le: "w \<le> 16384 \<Longrightarrow> y_stride f w \<le> 32768"
proof -
  assume w: "w \<le> 16384"
  then have "align 192 w \<le> 16512" by (intro align_bound) simp_all
  with w show ?thesis by (cases f) (auto intro!: align_bound)
qed

lemma y_scanlines_le: "h \<le> 16384 \<Longrightarrow> y_scanlines f h \<le> 16384"
  by (cases f) (auto intro!: align_bound)

lemma uv_scanlines_le: "h \<le> 16384 \<Longrightarrow> uv_scanlines f h \<le> 8192"
  by (cases f) (auto intro!: align_bound)

lemma rgb_stride_le: "w \<le> 16384 \<Longrightarrow> rgb_stride f w \<le> 65536"
  by (cases f) (auto intro!: align_bound)

lemma rgb_scanlines_le: "h \<le> 16384 \<Longrightarrow> rgb_scanlines f h \<le> 16384"
  by (cases f) (auto intro!: align_bound)

lemma ceil_div_mono: "m \<le> n \<Longrightarrow> ceil_div m r \<le> ceil_div n r"
  unfolding ceil_div_def by (intro div_le_mono) simp

lemma ceil_div_bounds:
  assumes "n \<le> 16384"
  shows "ceil_div n 4 \<le> 4096" "ceil_div n 8 \<le> 4096" "ceil_div n 16 \<le> 1024"
    "ceil_div n 24 \<le> 1024" "ceil_div n 32 \<le> 1024" "ceil_div n 48 \<le> 1024"
proof -
  have eval: "ceil_div 16384 4 = 4096" "ceil_div 16384 8 = 2048" "ceil_div 16384 16 = 1024"
    "ceil_div 16384 24 = 683" "ceil_div 16384 32 = 512" "ceil_div 16384 48 = 342"
    by (simp_all add: ceil_div_def)
  show "ceil_div n 4 \<le> 4096" "ceil_div n 8 \<le> 4096" "ceil_div n 16 \<le> 1024"
    "ceil_div n 24 \<le> 1024" "ceil_div n 32 \<le> 1024" "ceil_div n 48 \<le> 1024"
    using ceil_div_mono [OF assms, of 4] ceil_div_mono [OF assms, of 8]
      ceil_div_mono [OF assms, of 16] ceil_div_mono [OF assms, of 24]
      ceil_div_mono [OF assms, of 32] ceil_div_mono [OF assms, of 48]
    unfolding eval by linarith+
qed

lemma meta_stride_le:
  assumes "w \<le> 16384" and "tile \<in> {y_tile f, uv_tile f, rgb_tile f}"
  shows "meta_stride tile w \<le> 1024"
  using assms(2) ceil_div_bounds [OF assms(1)]
  by (cases f) (auto simp: meta_stride_def intro!: align_bound)

lemma meta_scanlines_le:
  assumes "h \<le> 16384" and "tile \<in> {y_tile f, uv_tile f, rgb_tile f}"
  shows "meta_scanlines tile h \<le> 4096"
  using assms(2) ceil_div_bounds [OF assms(1)]
  by (cases f) (auto simp: meta_scanlines_def intro!: align_bound)

lemma half_le: "n \<le> 16384 \<Longrightarrow> half n \<le> 16384"
  by simp

lemma prod_bound: "(a :: nat) \<le> x \<Longrightarrow> b \<le> y \<Longrightarrow> x * y \<le> m \<Longrightarrow> a * b \<le> m"
  using mult_le_mono order_trans by blast

lemma bytes_le:
  assumes "w \<le> 16384" and "h \<le> 16384"
  shows "y_bytes f w h \<le> 536870912" and "uv_bytes f w h \<le> 268435456"
    and "rgb_bytes f w h \<le> 1073741824"
  unfolding y_bytes_def uv_bytes_def rgb_bytes_def
  by (rule prod_bound [OF y_stride_le y_scanlines_le], use assms in simp_all,
      rule prod_bound [OF y_stride_le uv_scanlines_le], use assms in simp_all,
      rule prod_bound [OF rgb_stride_le rgb_scanlines_le], use assms in simp_all)

lemma meta_bytes_le:
  assumes "w \<le> 16384" and "h \<le> 16384" and "tile \<in> {y_tile f, uv_tile f, rgb_tile f}"
  shows "meta_stride tile w * meta_scanlines tile h \<le> 4194304"
  by (rule prod_bound [OF meta_stride_le [OF assms(1,3)] meta_scanlines_le [OF assms(2,3)]]) simp

lemma meta_plane_le:
  assumes "w \<le> 16384" and "h \<le> 16384" and "tile \<in> {y_tile f, uv_tile f, rgb_tile f}"
  shows "meta_plane tile w h \<le> 4194304"
  unfolding meta_plane_def using meta_bytes_le [OF assms] by (intro align_bound) simp_all

lemma yuv_picture_le:
  assumes "w \<le> 16384" and "h \<le> 16384"
  shows "yuv_picture f w h \<le> 813694976"
proof -
  have "align 4096 (y_bytes f w h) \<le> 536870912" "align 4096 (uv_bytes f w h) \<le> 268435456"
    using bytes_le [OF assms] by (auto intro!: align_bound)
  moreover have "half w \<le> 16384" "half h \<le> 16384" using assms by simp_all
  ultimately show ?thesis
    using meta_plane_le [OF assms, of "y_tile f" f] meta_plane_le [OF half_le [OF assms(1)] half_le [OF assms(2)], of "uv_tile f" f]
    unfolding yuv_picture_def by simp
qed

subsection \<open>The switch of \<open>VENUS\_BUFFER\_SIZE\<close>\<close>

lemma ALIGN_page:
  "(x :: cint) = of_nat n \<Longrightarrow> n \<le> 2 ^ 31 \<Longrightarrow> MSM_MEDIA_ALIGN x 4096 = of_nat (align 4096 n)"
  by (simp add: ALIGN_literals(6))

lemma dims:
  assumes "frame_ok w h"
  shows "0 < w" "w \<le> 16384" "0 < h" "h \<le> 16384"
  using assms by (simp_all add: frame_ok_def)

lemma planes_of_nat:
  assumes ok: "frame_ok w h"
  shows "VENUS_Y_STRIDE (encode f) (of_nat w) * VENUS_Y_SCANLINES (encode f) (of_nat h) =
     of_nat (y_bytes f w h)"
  "VENUS_UV_STRIDE (encode f) (of_nat w) * VENUS_UV_SCANLINES (encode f) (of_nat h) =
     of_nat (uv_bytes f w h)"
  "VENUS_RGB_STRIDE (encode f) (of_nat w) * VENUS_RGB_SCANLINES (encode f) (of_nat h) =
     of_nat (rgb_bytes f w h)"
  by (simp_all add: strides_of_nat [OF dims(1,2) [OF ok]] scanlines_of_nat [OF dims(3,4) [OF ok]] y_bytes_def
      uv_bytes_def rgb_bytes_def)

lemma linear_of_nat:
  assumes ok: "frame_ok w h"
  shows "linear_size (encode f) (of_nat w) (of_nat h) =
     of_nat (align 4096 (y_bytes f w h + uv_bytes f w h + 4096 + max 16384 (8 * y_stride f w)))"
proof -
  have s: "y_stride f w \<le> 32768" by (rule y_stride_le [OF dims(2) [OF ok]])
  have "MSM_MEDIA_MAX 16384 (8 * of_nat (y_stride f w)) = of_nat (max 16384 (8 * y_stride f w))"
    using MSM_MEDIA_MAX_of_nat [of 16384 "8 * y_stride f w"] s by simp
  then show ?thesis
    unfolding linear_size_def Let_def planes_of_nat [OF ok]
    unfolding strides_of_nat [OF dims(1,2) [OF ok]] VENUS_EXTRADATA_SIZE_def
    by (intro ALIGN_page) (use s bytes_le [OF dims(2,4) [OF ok], of f] in \<open>simp_all add: add.assoc\<close>)
qed

lemma mvtb_of_nat:
  assumes ok: "frame_ok w h"
  shows "mvtb_size (encode f) (of_nat w) (of_nat h) =
     of_nat (align 4096 (2 * (y_bytes f w h + uv_bytes f w h + 4096) + 16384))"
  unfolding mvtb_size_def Let_def planes_of_nat [OF ok] VENUS_EXTRADATA_SIZE_def
  by (intro ALIGN_page) (use bytes_le [OF dims(2,4) [OF ok], of f] in \<open>simp_all add: add.assoc\<close>)

lemma ubwc_planes_of_nat:
  assumes ok: "frame_ok w h"
  shows "ubwc_planes (encode f) (of_nat w) (of_nat h) = of_nat (yuv_picture f w h)"
proof -
  have b: "y_bytes f w h \<le> 2 ^ 31" "uv_bytes f w h \<le> 2 ^ 31"
    using bytes_le [OF dims(2,4) [OF ok], of f] by simp_all
  have m: "meta_stride (y_tile f) w * meta_scanlines (y_tile f) h \<le> 2 ^ 31"
    "meta_stride (uv_tile f) (half w) * meta_scanlines (uv_tile f) (half h) \<le> 2 ^ 31"
    using meta_bytes_le [OF dims(2,4) [OF ok], of "y_tile f" f]
      meta_bytes_le [OF half_le half_le, of w h "uv_tile f" f] dims [OF ok] by simp_all
  show ?thesis
    unfolding ubwc_planes_def Let_def planes_of_nat [OF ok] meta_of_nat [OF dims(1,2) [OF ok]]
      meta_of_nat [OF dims(3,4) [OF ok]] of_nat_mult [symmetric] yuv_picture_def meta_plane_def
    by (simp only: ALIGN_literals(6) [OF b(1)] ALIGN_literals(6) [OF b(2)]
        ALIGN_literals(6) [OF m(1)] ALIGN_literals(6) [OF m(2)] of_nat_add)
qed

lemma ubwc_extra_of_nat:
  assumes ok: "frame_ok w h"
  shows "ubwc_extra (encode f) (of_nat w) (of_nat h) = of_nat (max 24576 (48 * y_stride f w))"
  unfolding ubwc_extra_def VENUS_EXTRADATA_SIZE_def strides_of_nat [OF dims(1,2) [OF ok]]
  using MSM_MEDIA_MAX_of_nat [of 24576 "48 * y_stride f w"] y_stride_le [OF dims(2) [OF ok], of f] by simp

lemma rgb_of_nat:
  assumes ok: "frame_ok w h"
  shows "rgb_plane (encode f) (of_nat w) (of_nat h) = of_nat (align 4096 (rgb_bytes f w h))"
  unfolding rgb_plane_def planes_of_nat [OF ok]
  using bytes_le [OF dims(2,4) [OF ok], of f] by (simp add: ALIGN_literals(6))

lemma rgb_ubwc_of_nat:
  assumes ok: "frame_ok w h"
  shows "rgb_ubwc_size (encode f) (of_nat w) (of_nat h) = of_nat (rgb_picture f w h)"
proof -
  have m: "meta_stride (rgb_tile f) w * meta_scanlines (rgb_tile f) h \<le> 2 ^ 31"
    using meta_bytes_le [OF dims(2,4) [OF ok], of "rgb_tile f" f] by simp
  have p: "MSM_MEDIA_ALIGN (VENUS_RGB_META_STRIDE (encode f) (of_nat w) *
      VENUS_RGB_META_SCANLINES (encode f) (of_nat h)) 4096 = of_nat (meta_plane (rgb_tile f) w h)"
    unfolding meta_of_nat [OF dims(1,2) [OF ok]] meta_of_nat [OF dims(3,4) [OF ok]] meta_plane_def
      of_nat_mult [symmetric] using m by (rule ALIGN_literals(6))
  have "align 4096 (rgb_bytes f w h) \<le> 1073741824"
    using bytes_le(3) [OF dims(2,4) [OF ok], of f] by (intro align_bound) simp_all
  then have le: "rgb_picture f w h \<le> 2 ^ 31"
    using meta_plane_le [OF dims(2,4) [OF ok], of "rgb_tile f" f] by (simp add: rgb_picture_def)
  have "4096 dvd rgb_picture f w h" by (simp add: rgb_picture_def meta_plane_def)
  then show ?thesis
    unfolding rgb_ubwc_size_def Let_def rgb_of_nat [OF ok] p of_nat_add [symmetric]
      rgb_picture_def [symmetric]
    using le by (simp add: ALIGN_literals(6) align_id)
qed

lemma last_row_of_nat:
  assumes ok: "frame_ok w h" and "n \<le> 2 ^ 30" and "4096 dvd n"
  shows "last_row (of_nat w) (of_nat h) (of_nat n) = of_nat (n + extra_row w h)"
proof -
  have ge: "int_ge (of_nat m) 2400 \<longleftrightarrow> 2400 \<le> m" if "m \<le> 16384" for m
    using int_ge_of_nat [of m 2400] that by simp
  have "align 512 w \<le> 16384" using dims [OF ok] by (intro align_bound) simp_all
  moreover have "4096 dvd align 512 w * 512"
    using mult_dvd_mono [of 512 "align 512 w" 8 512] by simp
  ultimately have "MSM_MEDIA_ALIGN (of_nat n + of_nat (align 512 w) * 512) 4096 =
      of_nat (n + align 4096 (align 512 w * 512))"
    using ALIGN_page [of "of_nat n + of_nat (align 512 w) * 512" "n + align 512 w * 512"] assms
    by (simp add: align_id)
  then show ?thesis
    using dims [OF ok] by (simp add: last_row_def ge extra_row_def ALIGN_literals(5))
qed


lemma picture_page: "4096 dvd yuv_picture f w h" "4096 dvd rgb_picture f w h"
  by (simp_all add: yuv_picture_def rgb_picture_def meta_plane_def)

lemma linear_bound:
  assumes "frame_ok w h"
  shows "align 4096 (y_bytes f w h + uv_bytes f w h + 4096 + max 16384 (8 * y_stride f w)) \<le> 2 ^ 30"
  using bytes_le [OF dims(2,4) [OF assms], of f] y_stride_le [OF dims(2) [OF assms], of f]
  by (intro align_bound) auto

lemma half_dims: "frame_ok w h \<Longrightarrow> frame_ok w (half h)"
  unfolding frame_ok_def using half_le [of h] by linarith

text \<open>A compressed NV12 buffer is bounded through the stride and lines of its own format.\<close>

lemma NV12_UBWC_bound:
  assumes ok: "frame_ok w h"
  shows "align 4096 (2 * yuv_picture NV12_UBWC w (half h) + max 24576 (48 * y_stride NV12_UBWC w))
           \<le> 2 ^ 30"
proof -
  have s: "align 128 w \<le> 16384" using dims [OF ok] by (intro align_bound) simp_all
  have l: "align 32 (half h) \<le> 8192" "align 32 (half (half h)) \<le> 4096"
    using dims [OF ok] by (auto intro!: align_bound)
  have "align 4096 (y_bytes NV12_UBWC w (half h)) \<le> 134217728"
    using prod_bound [OF s l(1), of 134217728] by (intro align_bound) (simp_all add: y_bytes_def)
  moreover have "align 4096 (uv_bytes NV12_UBWC w (half h)) \<le> 67108864"
    using prod_bound [OF s l(2), of 67108864] by (intro align_bound) (simp_all add: uv_bytes_def)
  moreover note meta_plane_le [OF dims(2) [OF ok] half_le [OF dims(4) [OF ok]], of "y_tile NV12_UBWC" NV12_UBWC]
    meta_plane_le [OF half_le [OF dims(2) [OF ok]] half_le [OF half_le [OF dims(4) [OF ok]]],
      of "uv_tile NV12_UBWC" NV12_UBWC]
  ultimately have "yuv_picture NV12_UBWC w (half h) \<le> 209715200"
    unfolding yuv_picture_def by simp
  with s show ?thesis by (intro align_bound) auto
qed

lemma VENUS_BUFFER_SIZE_of_nat:
  assumes ok: "frame_ok w h"
  shows "VENUS_BUFFER_SIZE (encode f) (of_nat w) (of_nat h) = of_nat (buffer_size f w h)"
proof -
  note d = dims [OF ok]
  have hu: "half_up (of_nat h) = of_nat (half h)" using d by (intro half_up_of_nat) simp
  have linear: "last_row (of_nat w) (of_nat h) (of_nat
      (align 4096 (y_bytes g w h + uv_bytes g w h + 4096 + max 16384 (8 * y_stride g w)))) =
      of_nat (align 4096 (y_bytes g w h + uv_bytes g w h + 4096 + max 16384 (8 * y_stride g w))
        + extra_row w h)" for g
    by (rule last_row_of_nat [OF ok linear_bound [OF ok]]) simp
  have ubwc: "MSM_MEDIA_ALIGN (of_nat n + of_nat e) 4096 = of_nat (align 4096 (n + e))"
    if "n + e \<le> 2 ^ 31" for n e using that by (simp add: ALIGN_literals(6) flip: of_nat_add)
  have pic: "yuv_picture g w k \<le> 813694976" if "k \<le> 16384" for g k
    using yuv_picture_le [OF d(2) that] .
  have ex: "max 24576 (48 * y_stride g w) \<le> 1572864" for g
    using y_stride_le [OF d(2), of g] by simp
  have nv12: "last_row (of_nat w) (of_nat h) (MSM_MEDIA_ALIGN
      (ubwc_planes (encode NV12_UBWC) (of_nat w) (half_up (of_nat h)) * 2 +
       ubwc_extra (encode NV12_UBWC) (of_nat w) (of_nat h)) 4096) =
      of_nat (buffer_size NV12_UBWC w h)"
  proof -
    have "(of_nat (yuv_picture NV12_UBWC w (half h)) * 2 :: cint) =
        of_nat (2 * yuv_picture NV12_UBWC w (half h))" by simp
    moreover have "2 * yuv_picture NV12_UBWC w (half h) + max 24576 (48 * y_stride NV12_UBWC w) \<le> 2 ^ 31"
      using pic [OF half_le [OF d(4)], of NV12_UBWC] ex [of NV12_UBWC] by simp
    ultimately show ?thesis
      unfolding hu ubwc_planes_of_nat [OF half_dims [OF ok]] ubwc_extra_of_nat [OF ok]
      using last_row_of_nat [OF ok NV12_UBWC_bound [OF ok]] by (simp only: ubwc buffer_size.simps align_dvd)
  qed
  have bpp: "MSM_MEDIA_ALIGN (ubwc_planes (encode g) (of_nat w) (of_nat h) +
      ubwc_extra (encode g) (of_nat w) (of_nat h)) 4096 =
      of_nat (align 4096 (yuv_picture g w h + max 24576 (48 * y_stride g w)))" for g
    unfolding ubwc_planes_of_nat [OF ok] ubwc_extra_of_nat [OF ok]
    using pic [OF d(4), of g] ex [of g] by (intro ubwc) simp
  have p010: "MSM_MEDIA_ALIGN (ubwc_planes (encode g) (of_nat w) (of_nat h)) 4096 =
      of_nat (yuv_picture g w h)" for g
    unfolding ubwc_planes_of_nat [OF ok] using pic [OF d(4), of g]
    by (simp add: ALIGN_literals(6) align_id picture_page)
  have rgba: "MSM_MEDIA_ALIGN (rgb_plane (encode RGBA8888) (of_nat w) (of_nat h)) 4096 =
      of_nat (rgb_picture RGBA8888 w h)"
  proof -
    have "align 4096 (rgb_bytes RGBA8888 w h) \<le> 2 ^ 30"
      using bytes_le(3) [OF d(2,4), of RGBA8888] by (intro align_bound) simp_all
    then show ?thesis
      unfolding rgb_of_nat [OF ok]
      by (simp add: ALIGN_literals(6) rgb_picture_def meta_plane_def meta_stride_def)
  qed
  note rules = linear nv12 bpp p010 rgba mvtb_of_nat [OF ok] rgb_ubwc_of_nat [OF ok]
    linear_of_nat [OF ok]
  show ?thesis
    by (cases f) (simp_all only: VENUS_BUFFER_SIZE_def decode_encode frame_okD(1,2) [OF ok]
        option.case color_fmts.case rules simp_thms if_False buffer_size.simps, simp_all)
qed

lemma extra_row_le: "w \<le> 16384 \<Longrightarrow> extra_row w h \<le> 8388608"
  using align_bound [of w 16384 512] unfolding extra_row_def by (auto intro!: align_bound)

lemma buffer_size_less:
  assumes ok: "frame_ok w h"
  shows "buffer_size f w h < 2 ^ 32"
proof -
  note d = dims [OF ok]
  note b = bytes_le [OF d(2,4)] and s = y_stride_le [OF d(2)] and e = extra_row_le [OF d(2), of h]
  have mvtb: "align 4096 (2 * (y_bytes g w h + uv_bytes g w h + 4096) + 16384) \<le> 1610637312" for g
    using b(1,2) [of g] by (intro align_bound) simp_all
  have bpp: "align 4096 (yuv_picture g w h + max 24576 (48 * y_stride g w)) \<le> 815267840" for g
    using yuv_picture_le [OF d(2,4), of g] s [of g] by (intro align_bound) auto
  have rgb: "rgb_picture g w h \<le> 1077936128" for g
    using b(3) [of g] meta_plane_le [OF d(2,4), of "rgb_tile g" g]
      align_bound [of "rgb_bytes g w h" 1073741824 4096] by (simp add: rgb_picture_def)
  show ?thesis
    using mvtb [of f] bpp [of f] rgb [of f] linear_bound [OF ok, of f] NV12_UBWC_bound [OF ok] e
      yuv_picture_le [OF d(2,4), of f]
    by (cases f) (simp_all only: buffer_size.simps, simp_all)
qed

text \<open>The size a caller sees.\<close>

lemma buffer_size_unat:
  assumes "frame_ok w h"
  shows "unat (VENUS_BUFFER_SIZE (encode f) (of_nat w) (of_nat h)) = buffer_size f w h"
  unfolding VENUS_BUFFER_SIZE_of_nat [OF assms]
  by (rule unat_of_nat_small [OF buffer_size_less [OF assms]])


section \<open>What the layout is good for\<close>

text \<open>The bits of one pixel in the first plane of a format.\<close>

fun pixel_bits :: "color_fmts \<Rightarrow> nat" where
  "pixel_bits NV12_BPP10_UBWC = 10"
| "pixel_bits P010_UBWC = 16"
| "pixel_bits P010 = 16"
| "pixel_bits RGB565_UBWC = 16"
| "pixel_bits f = (if f \<in> {RGBA8888, RGBA8888_UBWC, RGBA1010102_UBWC} then 32 else 8)"

definition is_rgb :: "color_fmts \<Rightarrow> bool" where
  "is_rgb f \<longleftrightarrow> f \<in> {RGBA8888, RGBA8888_UBWC, RGBA1010102_UBWC, RGB565_UBWC}"

definition first_stride :: "color_fmts \<Rightarrow> nat \<Rightarrow> nat" where
  "first_stride f w = (if is_rgb f then rgb_stride f w else y_stride f w)"

definition first_lines :: "color_fmts \<Rightarrow> nat \<Rightarrow> nat" where
  "first_lines f h = (if is_rgb f then rgb_scanlines f h else y_scanlines f h)"

lemma first_stride_holds_row: "pixel_bits f * w \<le> 8 * first_stride f w"
proof -
  have "3 dvd align 192 w" using align_dvd [of 192 w] by (rule dvd_trans [rotated]) simp
  then obtain k where k: "align 192 w = 3 * k" by (auto simp: dvd_def)
  moreover have "w \<le> align 192 w" by (simp add: align_ge)
  ultimately have "10 * w \<le> 8 * (align 192 w * 4 div 3)" by simp
  also have "\<dots> \<le> 8 * align 256 (align 192 w * 4 div 3)" by (simp add: align_ge)
  finally have bpp: "10 * w \<le> 8 * align 256 (align 192 w * 4 div 3)" .
  have al: "n \<le> align 128 n" "n \<le> align 256 n" for n by (simp_all add: align_ge)
  show ?thesis
    using bpp al [of w] al [of "2 * w"] al [of "4 * w"]
    by (cases f) (simp_all add: first_stride_def is_rgb_def)
qed

lemma first_lines_hold_column: "h \<le> first_lines f h"
  by (cases f) (simp_all add: first_lines_def is_rgb_def align_ge)

lemma uv_lines_hold_half:
  "\<not> is_rgb f \<Longrightarrow> half h \<le> uv_scanlines f h"
  by (cases f) (simp_all add: is_rgb_def align_ge)

text \<open>All bytes of the picture: the planes with their strides, and the meta planes.\<close>

definition picture_bytes :: "color_fmts \<Rightarrow> nat \<Rightarrow> nat \<Rightarrow> nat" where
  "picture_bytes f w h =
     (if is_rgb f then rgb_bytes f w h + meta_stride (rgb_tile f) w * meta_scanlines (rgb_tile f) h
      else y_bytes f w h + uv_bytes f w h +
           meta_stride (y_tile f) w * meta_scanlines (y_tile f) h +
           meta_stride (uv_tile f) (half w) * meta_scanlines (uv_tile f) (half h))"

lemma align_page_ge: "n \<le> align 4096 n"
  by (simp add: align_ge)

lemma picture_le: "\<not> is_rgb f \<Longrightarrow> picture_bytes f w h \<le> yuv_picture f w h"
  unfolding picture_bytes_def yuv_picture_def meta_plane_def
  by (simp add: add_mono align_page_ge)

lemma rgb_picture_holds: "is_rgb f \<Longrightarrow> picture_bytes f w h \<le> rgb_picture f w h"
  unfolding picture_bytes_def rgb_picture_def meta_plane_def
  by (simp add: add_mono align_page_ge)

text \<open>Twice the pages of half the lines hold the pages of all of them.\<close>

lemma align_double: "m \<le> 2 * n \<Longrightarrow> align a m \<le> 2 * align a n"
proof (cases "a = 0")
  case False
  assume "m \<le> 2 * n"
  also have "\<dots> \<le> 2 * align a n" using align_ge [of a n] False by simp
  finally show ?thesis by (intro align_least) simp_all
qed (simp add: align_def)

lemma ceil_div_double:
  assumes "m \<le> 2 * n" and "0 < r"
  shows "ceil_div m r \<le> 2 * ceil_div n r"
proof -
  have "m \<le> 2 * (ceil_div n r * r)" using assms(1) ceil_div_ge [OF assms(2), of n] by linarith
  then have "m + (r - 1) < Suc (2 * ceil_div n r) * r" using assms(2) by simp
  then have "(m + (r - 1)) div r < Suc (2 * ceil_div n r)" by (rule less_mult_imp_div_less)
  then show ?thesis by (simp add: ceil_div_def)
qed

lemma mult_double: "(b :: nat) \<le> 2 * c \<Longrightarrow> a * b \<le> 2 * (a * c)"
  using mult_le_mono2 [of b "2 * c" a] by simp

lemma meta_plane_double:
  assumes "m \<le> 2 * n" and "\<And>tw th. tile = Some (tw, th) \<Longrightarrow> 0 < th"
  shows "meta_plane tile w m \<le> 2 * meta_plane tile w n"
proof -
  have "meta_scanlines tile m \<le> 2 * meta_scanlines tile n"
    using assms ceil_div_double [OF assms(1)]
    by (auto simp: meta_scanlines_def intro!: align_double split: option.splits)
  then show ?thesis unfolding meta_plane_def by (intro align_double mult_double)
qed

lemma fields_hold_frame: "yuv_picture NV12_UBWC w h \<le> 2 * yuv_picture NV12_UBWC w (half h)"
proof -
  have h: "h \<le> 2 * half h" "half h \<le> 2 * half (half h)" by simp_all
  have "align 4096 (y_bytes NV12_UBWC w h) \<le> 2 * align 4096 (y_bytes NV12_UBWC w (half h))"
    unfolding y_bytes_def using align_double [OF h(1), of 32]
    by (intro align_double mult_double) simp
  moreover have "align 4096 (uv_bytes NV12_UBWC w h) \<le> 2 * align 4096 (uv_bytes NV12_UBWC w (half h))"
    unfolding uv_bytes_def using align_double [OF h(2), of 32]
    by (intro align_double mult_double) simp
  moreover have "meta_plane (y_tile NV12_UBWC) w h \<le> 2 * meta_plane (y_tile NV12_UBWC) w (half h)"
    by (rule meta_plane_double [OF h(1)]) auto
  moreover have "meta_plane (uv_tile NV12_UBWC) (half w) (half h) \<le>
      2 * meta_plane (uv_tile NV12_UBWC) (half w) (half (half h))"
    by (rule meta_plane_double [OF h(2)]) auto
  ultimately show ?thesis
    unfolding yuv_picture_def by (simp only: distrib_left add_mono)
qed

lemma buffer_holds_picture: "picture_bytes f w h \<le> buffer_size f w h"
proof (cases "is_rgb f")
  case True
  then show ?thesis using rgb_picture_holds [of f w h] by (cases f) (simp_all add: is_rgb_def)
next
  case False
  have tiles: "meta_stride None k = 0" for k by (simp add: meta_stride_def)
  have nv12: "picture_bytes NV12_UBWC w h \<le> buffer_size NV12_UBWC w h"
    using picture_le [of NV12_UBWC w h] fields_hold_frame [of w h]
      align_page_ge [of "2 * yuv_picture NV12_UBWC w (half h) + max 24576 (48 * y_stride NV12_UBWC w)"]
    by (simp only: is_rgb_def buffer_size.simps) simp
  have bpp: "picture_bytes NV12_BPP10_UBWC w h \<le> buffer_size NV12_BPP10_UBWC w h"
    using picture_le [of NV12_BPP10_UBWC w h]
      align_page_ge [of "yuv_picture NV12_BPP10_UBWC w h + max 24576 (48 * y_stride NV12_BPP10_UBWC w)"]
    by (simp only: is_rgb_def buffer_size.simps) simp
  have p010: "picture_bytes P010_UBWC w h \<le> buffer_size P010_UBWC w h"
    using picture_le [of P010_UBWC w h] by (simp add: is_rgb_def)
  have lin: "y_bytes g w h + uv_bytes g w h \<le>
      align 4096 (y_bytes g w h + uv_bytes g w h + 4096 + max 16384 (8 * y_stride g w))" for g
    by (rule order_trans [OF _ align_page_ge]) simp
  have mvtb: "y_bytes g w h + uv_bytes g w h \<le>
      align 4096 (2 * (y_bytes g w h + uv_bytes g w h + 4096) + 16384)" for g
    by (rule order_trans [OF _ align_page_ge]) simp
  show ?thesis
    using False nv12 bpp p010 lin [of f] mvtb [of f]
    by (cases f) (simp_all only: is_rgb_def buffer_size.simps picture_bytes_def y_tile.simps
        uv_tile.simps tiles, simp_all)
qed

lemma buffer_whole_pages: "4096 dvd buffer_size f w h"
  by (cases f) (simp_all add: extra_row_def picture_page)

lemma view2_of_nat:
  assumes ok: "frame_ok w h"
  shows "VENUS_VIEW2_OFFSET (encode NV12_MVTB) (of_nat w) (of_nat h) =
           of_nat (y_bytes NV12_MVTB w h + uv_bytes NV12_MVTB w h)"
  unfolding VENUS_VIEW2_OFFSET_def decode_encode option.case color_fmts.case Let_def
    planes_of_nat [OF ok]
  using frame_okD(1,2) [OF ok] by (simp del: word_of_nat_eq_0_iff)


text \<open>The macros of the planes as a caller sees them.\<close>

lemma macros_unat:
  assumes "0 < n" and "n \<le> 16384"
  shows "unat (VENUS_Y_STRIDE (encode f) (of_nat n)) = y_stride f n"
    "unat (VENUS_UV_STRIDE (encode f) (of_nat n)) = y_stride f n"
    "unat (VENUS_RGB_STRIDE (encode f) (of_nat n)) = rgb_stride f n"
    "unat (VENUS_Y_SCANLINES (encode f) (of_nat n)) = y_scanlines f n"
    "unat (VENUS_UV_SCANLINES (encode f) (of_nat n)) = uv_scanlines f n"
    "unat (VENUS_RGB_SCANLINES (encode f) (of_nat n)) = rgb_scanlines f n"
    "unat (VENUS_Y_META_STRIDE (encode f) (of_nat n)) = meta_stride (y_tile f) n"
    "unat (VENUS_Y_META_SCANLINES (encode f) (of_nat n)) = meta_scanlines (y_tile f) n"
    "unat (VENUS_UV_META_STRIDE (encode f) (of_nat n)) = meta_stride (uv_tile f) (half n)"
    "unat (VENUS_UV_META_SCANLINES (encode f) (of_nat n)) = meta_scanlines (uv_tile f) (half n)"
    "unat (VENUS_RGB_META_STRIDE (encode f) (of_nat n)) = meta_stride (rgb_tile f) n"
    "unat (VENUS_RGB_META_SCANLINES (encode f) (of_nat n)) = meta_scanlines (rgb_tile f) n"
proof -
  have small: "unat (of_nat k :: cint) = k" if "k \<le> 65536" for k
    using that by (intro unat_of_nat_small) simp
  note b = assms(2) half_le [OF assms(2)]
  note le = y_stride_le [OF b(1), of f] rgb_stride_le [OF b(1), of f]
    y_scanlines_le [OF b(1), of f] uv_scanlines_le [OF b(1), of f] rgb_scanlines_le [OF b(1), of f]
    meta_stride_le [OF b(1), of "y_tile f" f] meta_scanlines_le [OF b(1), of "y_tile f" f]
    meta_stride_le [OF b(2), of "uv_tile f" f] meta_scanlines_le [OF b(2), of "uv_tile f" f]
    meta_stride_le [OF b(1), of "rgb_tile f" f] meta_scanlines_le [OF b(1), of "rgb_tile f" f]
  show "unat (VENUS_Y_STRIDE (encode f) (of_nat n)) = y_stride f n"
    "unat (VENUS_UV_STRIDE (encode f) (of_nat n)) = y_stride f n"
    "unat (VENUS_RGB_STRIDE (encode f) (of_nat n)) = rgb_stride f n"
    unfolding strides_of_nat [OF assms] using le by (intro small; simp)+
  show "unat (VENUS_Y_SCANLINES (encode f) (of_nat n)) = y_scanlines f n"
    "unat (VENUS_UV_SCANLINES (encode f) (of_nat n)) = uv_scanlines f n"
    "unat (VENUS_RGB_SCANLINES (encode f) (of_nat n)) = rgb_scanlines f n"
    unfolding scanlines_of_nat [OF assms] using le by (intro small; simp)+
  show "unat (VENUS_Y_META_STRIDE (encode f) (of_nat n)) = meta_stride (y_tile f) n"
    "unat (VENUS_Y_META_SCANLINES (encode f) (of_nat n)) = meta_scanlines (y_tile f) n"
    "unat (VENUS_UV_META_STRIDE (encode f) (of_nat n)) = meta_stride (uv_tile f) (half n)"
    "unat (VENUS_UV_META_SCANLINES (encode f) (of_nat n)) = meta_scanlines (uv_tile f) (half n)"
    "unat (VENUS_RGB_META_STRIDE (encode f) (of_nat n)) = meta_stride (rgb_tile f) n"
    "unat (VENUS_RGB_META_SCANLINES (encode f) (of_nat n)) = meta_scanlines (rgb_tile f) n"
    unfolding meta_of_nat [OF assms] using le by (intro small; simp)+
qed

text \<open>A format without a plane has the stride 0, so the sum over all planes is the picture.\<close>

lemma picture_macros:
  "y_stride f w * y_scanlines f h + y_stride f w * uv_scanlines f h +
     meta_stride (y_tile f) w * meta_scanlines (y_tile f) h +
     meta_stride (uv_tile f) (half w) * meta_scanlines (uv_tile f) (half h) +
     rgb_stride f w * rgb_scanlines f h +
     meta_stride (rgb_tile f) w * meta_scanlines (rgb_tile f) h = picture_bytes f w h"
  by (cases f) (simp_all add: picture_bytes_def is_rgb_def y_bytes_def uv_bytes_def rgb_bytes_def
      meta_stride_def)

section \<open>The documented sizes\<close>

text \<open>
  The "Total size" of the comment of each format, read with exact quotients: the least multiple
  of \<open>a\<close> that is not below \<open>Height/2\<close> or \<open>Width * 4/3\<close> is that of the quotient rounded up. The
  extra data of the uncompressed formats is what \<open>VENUS_EXTRADATA_SIZE\<close> returns, 16 kB. The
  comments name the tiles without their numbers; they divide the width and the height of the
  whole picture by the chroma tile, so it is given here in pixels of the picture, which is
  twice its size in samples.
\<close>

definition doc_planes ::
    "nat \<Rightarrow> nat \<Rightarrow> nat \<Rightarrow> nat \<times> nat \<Rightarrow> nat \<times> nat \<Rightarrow> nat \<Rightarrow> nat \<Rightarrow> nat" where
  "doc_planes stride y_lines uv_lines tile uv w h =
     align 4096 (stride * y_lines) + align 4096 (stride * uv_lines) +
     align 4096 (align 64 (ceil_div w (fst tile)) * align 16 (ceil_div h (snd tile))) +
     align 4096 (align 64 (ceil_div w (fst uv)) * align 16 (ceil_div h (snd uv)))"

fun documented :: "color_fmts \<Rightarrow> nat \<Rightarrow> nat \<Rightarrow> nat" where
  "documented NV12 w h = align 4096 (align 128 w * align 32 h + align 128 w * align 16 (half h) +
     max 16384 (align 128 w * 8))"
| "documented NV21 w h = align 4096 (align 128 w * align 32 h + align 128 w * align 16 (half h) +
     max 16384 (align 128 w * 8))"
| "documented NV12_MVTB w h = align 4096 (2 * (align 128 w * align 32 h) +
     2 * (align 128 w * align 16 (half h)) + 16384)"
| "documented NV12_UBWC w h = align 4096
     (doc_planes (align 128 w) (align 32 h) (align 16 (half h)) (32, 8) (32, 16) w h +
      max 8192 (align 128 w * 48))"
| "documented NV12_BPP10_UBWC w h = align 4096
     (doc_planes (align 128 (ceil_div (w * 4) 3)) (align 32 h) (align 16 (half h))
        (48, 4) (48, 8) w h + max 8192 (align 128 (ceil_div (w * 4) 3) * 48))"
| "documented RGBA8888 w h =
     align 4096 (align 4096 (align 128 (w * 4) * align 32 h) + 8192)"
| "documented RGBA8888_UBWC w h = align 4096
     (align 4096 (align 64 (ceil_div w 16) * align 16 (ceil_div h 4)) +
      align 4096 (align 128 (w * 4) * align 32 h) + 8192)"
| "documented RGBA1010102_UBWC w h = align 4096
     (align 4096 (align 64 (ceil_div w 16) * align 16 (ceil_div h 4)) +
      align 4096 (align 256 (w * 4) * align 16 h) + 8192)"
| "documented RGB565_UBWC w h = align 4096
     (align 4096 (align 64 (ceil_div w 16) * align 16 (ceil_div h 4)) +
      align 4096 (align 128 (w * 2) * align 16 h) + 8192)"
| "documented P010_UBWC w h = align 4096
     (doc_planes (align 256 (w * 2)) (align 16 h) (align 16 (half h)) (32, 4) (32, 8) w h +
      max 8192 (align 256 (w * 2) * 48))"
| "documented P010 w h = align 4096 (align 128 (w * 2) * align 32 h +
     align 128 (w * 2) * align 16 (half h) + max 16384 (align 128 (w * 2) * 8))"

text \<open>The second layout of a compressed NV12 buffer: two fields of half the lines each.\<close>

definition documented_fields :: "nat \<Rightarrow> nat \<Rightarrow> nat" where
  "documented_fields w h = align 4096
     (2 * doc_planes (align 128 w) (align 32 (half h)) (align 32 (half (half h)))
        (32, 8) (32, 16) w (half h) + max 8192 (align 128 w * 48))"

lemma ceil_div_half: "0 < r \<Longrightarrow> ceil_div (half n) r = ceil_div n (2 * r)"
proof -
  assume "0 < r"
  then obtain k where r: "r = Suc k" by (cases r) auto
  have "ceil_div n (2 * r) = (n + (2 * r - 1)) div 2 div r"
    unfolding ceil_div_def by (rule div_mult2_eq)
  also have "(n + (2 * r - 1)) div 2 = half n + (r - 1)"
    unfolding r using div_mult_self2 [of 2 "Suc n" k] by simp
  finally show ?thesis by (simp add: ceil_div_def)
qed

lemma align_page_add:
  "4096 dvd k \<Longrightarrow> align 4096 (n + k) = align 4096 n + k"
  "4096 dvd k \<Longrightarrow> align 4096 (k + n) = k + align 4096 n"
proof -
  assume "4096 dvd k"
  then obtain c where k: "k = 4096 * c" by (auto simp: dvd_def)
  have "n + k + 4096 - 1 = (n + 4096 - 1) + 4096 * c" by (simp add: k)
  then have "(n + k + 4096 - 1) div 4096 = c + (n + 4096 - 1) div 4096"
    using div_mult_self2 [of 4096 "n + 4096 - 1" c] by simp
  then show "align 4096 (n + k) = align 4096 n + k"
    by (simp add: align_def k distrib_right)
  then show "align 4096 (k + n) = k + align 4096 n" by (simp add: add.commute)
qed

lemma picture_documented:
  "yuv_picture NV12_UBWC w h =
     doc_planes (align 128 w) (align 32 h) (align 32 (half h)) (32, 8) (32, 16) w h"
  "yuv_picture P010_UBWC w h =
     doc_planes (align 256 (w * 2)) (align 16 h) (align 16 (half h)) (32, 4) (32, 8) w h"
  using ceil_div_half [of 16 w] ceil_div_half [of 8 h] ceil_div_half [of 4 h]
  by (simp_all add: yuv_picture_def doc_planes_def y_bytes_def uv_bytes_def meta_plane_def
      meta_stride_def meta_scanlines_def mult.commute)

lemma doc_planes_page [simp]: "4096 dvd doc_planes s y u t v w h"
  by (simp add: doc_planes_def)

lemma NV12_UBWC_documented:
  "documented NV12_UBWC w h \<le> buffer_size NV12_UBWC w h"
  "documented_fields w h \<le> buffer_size NV12_UBWC w h"
  "buffer_size NV12_UBWC w h \<le> documented_fields w h + 16384 + extra_row w h"
proof -
  let ?P = "yuv_picture NV12_UBWC w (half h)" and ?s = "align 128 w"
  have y_stride_NV12: "y_stride NV12_UBWC w = ?s" by simp
  have more: "max 8192 (?s * 48) \<le> max 24576 (48 * ?s)"
    by (rule max.mono) (simp_all add: mult.commute)
  have "align 16 (half h) \<le> align 32 (half h)"
    by (intro align_least dvd_trans [OF _ align_dvd]) (simp_all add: align_ge)
  then have "doc_planes ?s (align 32 h) (align 16 (half h)) (32, 8) (32, 16) w h \<le>
      yuv_picture NV12_UBWC w h"
    unfolding picture_documented doc_planes_def by (intro add_mono align_mono mult_le_mono) simp_all
  also have "\<dots> \<le> 2 * ?P" by (rule fields_hold_frame)
  finally have "documented NV12_UBWC w h \<le> align 4096 (2 * ?P + max 24576 (48 * ?s))"
    unfolding documented.simps
    by (intro align_mono add_mono more)
  then show "documented NV12_UBWC w h \<le> buffer_size NV12_UBWC w h"
    unfolding buffer_size.simps by simp
  have fields: "documented_fields w h = align 4096 (2 * ?P + max 8192 (?s * 48))"
    unfolding documented_fields_def picture_documented ..
  show "documented_fields w h \<le> buffer_size NV12_UBWC w h"
    unfolding fields buffer_size.simps y_stride_NV12
    by (intro trans_le_add1 align_mono add_mono more order_refl)
  have "align 4096 (2 * ?P + max 24576 (48 * ?s)) \<le>
      align 4096 ((2 * ?P + max 8192 (?s * 48)) + 16384)"
    by (intro align_mono) simp
  also have "\<dots> = documented_fields w h + 16384"
    unfolding fields by (rule align_page_add) simp
  finally show "buffer_size NV12_UBWC w h \<le> documented_fields w h + 16384 + extra_row w h"
    unfolding buffer_size.simps by simp
qed

lemma linear_documented:
  "align 4096 (a + b + 4096 + m) = align 4096 (a + b + m) + 4096"
  "align 4096 (2 * (a + b + 4096) + 16384) = align 4096 (2 * a + 2 * b + 16384) + 2 * 4096"
  using align_page_add(1) [of 4096 "a + b + m"]
    align_page_add(1) [of "2 * 4096" "2 * a + 2 * b + 16384"]
  by (simp_all add: ac_simps)

lemma RGB565_documented: "documented RGB565_UBWC w h \<le> buffer_size RGB565_UBWC w h + 8192"
proof -
  have "align 128 (w * 2) \<le> align 256 (w * 2)"
    by (intro align_least dvd_trans [OF _ align_dvd]) (simp_all add: align_ge)
  then have "align 4096 (align 128 (w * 2) * align 16 h) \<le> align 4096 (align 256 (w * 2) * align 16 h)"
    by (intro align_mono mult_le_mono) simp_all
  then have "documented RGB565_UBWC w h \<le> align 4096 (buffer_size RGB565_UBWC w h + 8192)"
    unfolding documented.simps
    by (intro align_mono)
       (simp add: rgb_picture_def rgb_bytes_def meta_plane_def meta_stride_def meta_scanlines_def
         mult.commute)
  then show ?thesis using buffer_whole_pages [of RGB565_UBWC w h] by (simp add: align_id)
qed

lemma size_documented:
  "case f of
     NV12 \<Rightarrow> buffer_size f w h = documented f w h + 4096 + extra_row w h
   | NV21 \<Rightarrow> buffer_size f w h = documented f w h + 4096 + extra_row w h
   | P010 \<Rightarrow> buffer_size f w h = documented f w h + 4096
   | NV12_MVTB \<Rightarrow> buffer_size f w h = documented f w h + 2 * 4096
   | NV12_UBWC \<Rightarrow> documented f w h \<le> buffer_size f w h \<and> documented_fields w h \<le> buffer_size f w h \<and>
       buffer_size f w h \<le> documented_fields w h + 16384 + extra_row w h
   | P010_UBWC \<Rightarrow> buffer_size f w h + align 4096 (max 8192 (48 * align 256 (2 * w))) = documented f w h
   | RGBA8888 \<Rightarrow> buffer_size f w h + 8192 = documented f w h
   | RGBA1010102_UBWC \<Rightarrow> buffer_size f w h + 8192 = documented f w h
   | RGB565_UBWC \<Rightarrow> documented f w h \<le> buffer_size f w h + 8192
   | _ \<Rightarrow> True"
proof -
  have linear: "buffer_size g w h = documented g w h + 4096 + extra_row w h"
    if "g = NV12 \<or> g = NV21" for g
    using that linear_documented(1) by (auto simp: y_bytes_def uv_bytes_def mult.commute)
  have p010: "buffer_size P010 w h = documented P010 w h + 4096"
    using linear_documented(1) by (simp add: y_bytes_def uv_bytes_def mult.commute)
  have mvtb: "buffer_size NV12_MVTB w h = documented NV12_MVTB w h + 2 * 4096"
    unfolding buffer_size.simps documented.simps linear_documented(2)
    by (simp add: y_bytes_def uv_bytes_def)
  have ubwc: "buffer_size P010_UBWC w h + align 4096 (max 8192 (48 * align 256 (2 * w))) =
      documented P010_UBWC w h"
    by (simp add: picture_documented align_page_add mult.commute)
  have rgb: "buffer_size g w h + 8192 = documented g w h"
    if "g = RGBA8888 \<or> g = RGBA1010102_UBWC" for g
    using that
    by (auto simp: rgb_picture_def rgb_bytes_def meta_plane_def meta_stride_def meta_scanlines_def
        mult.commute align_id)
  show ?thesis
    using linear [of f] p010 mvtb ubwc rgb [of f] NV12_UBWC_documented RGB565_documented
    by (cases f) (simp_all only: color_fmts.case simp_thms)
qed

section \<open>Properties\<close>

text \<open>C8: How the buffer size of the code stands to the "Total size" that the comments of the
  format document, for every frame of 1 to 16384 pixels each way (where the 32-bit computation
  neither wraps nor overflows). NV12, NV21, P010 and each view of a stereo buffer get one page
  more than documented, NV12 and NV21 from 2400 by 2400 pixels on also a last row of tiles; a
  compressed NV12 buffer has at least the documented size of both its layouts and at most 16 kB
  and a last row more than that of two fields. The other sizes are smaller than documented:
  RGBA8888 and RGBA1010102\_UBWC lack the 8 kB of extra data, P010\_UBWC all of its extra data,
  and RGB565\_UBWC lacks at most the 8 kB. Nothing is said of NV12\_BPP10\_UBWC and
  RGBA8888\_UBWC, whose documented alignments are not those of the code (lemmas
  \<open>BPP10_smaller_than_documented\<close> and \<open>RGBA8888_UBWC_not_documented\<close>).\<close>

theorem buffer_size_against_documentation:
  assumes "frame_ok (unat width) (unat height)"
  shows "case f of
       NV12 \<Rightarrow> unat (VENUS_BUFFER_SIZE (encode f) width height) =
         documented f (unat width) (unat height) + 4096 + extra_row (unat width) (unat height)
     | NV21 \<Rightarrow> unat (VENUS_BUFFER_SIZE (encode f) width height) =
         documented f (unat width) (unat height) + 4096 + extra_row (unat width) (unat height)
     | P010 \<Rightarrow> unat (VENUS_BUFFER_SIZE (encode f) width height) =
         documented f (unat width) (unat height) + 4096
     | NV12_MVTB \<Rightarrow> unat (VENUS_BUFFER_SIZE (encode f) width height) =
         documented f (unat width) (unat height) + 2 * 4096
     | NV12_UBWC \<Rightarrow>
         documented f (unat width) (unat height) \<le>
           unat (VENUS_BUFFER_SIZE (encode f) width height) \<and>
         documented_fields (unat width) (unat height) \<le>
           unat (VENUS_BUFFER_SIZE (encode f) width height) \<and>
         unat (VENUS_BUFFER_SIZE (encode f) width height) \<le>
           documented_fields (unat width) (unat height) + 16384 +
             extra_row (unat width) (unat height)
     | P010_UBWC \<Rightarrow> unat (VENUS_BUFFER_SIZE (encode f) width height) +
           align 4096 (max 8192 (48 * align 256 (2 * unat width))) =
         documented f (unat width) (unat height)
     | RGBA8888 \<Rightarrow> unat (VENUS_BUFFER_SIZE (encode f) width height) + 8192 =
         documented f (unat width) (unat height)
     | RGBA1010102_UBWC \<Rightarrow> unat (VENUS_BUFFER_SIZE (encode f) width height) + 8192 =
         documented f (unat width) (unat height)
     | RGB565_UBWC \<Rightarrow> documented f (unat width) (unat height) \<le>
         unat (VENUS_BUFFER_SIZE (encode f) width height) + 8192
     | _ \<Rightarrow> True"
  using buffer_size_unat [OF assms, of f] size_documented [of f "unat width" "unat height"]
  by (cases f) simp_all

theorem buffer_size_against_documentation_witness:
  "unat (VENUS_BUFFER_SIZE (encode NV12) 1920 1080) = documented NV12 1920 1080 + 4096 \<and>
   documented NV12 1920 1080 = 3149824"
  using buffer_size_against_documentation [of 1920 1080 NV12]
  by (simp add: frame_ok_def align_def extra_row_def)

text \<open>C9: For every colour format and every frame of 1 to 16384 pixels each way, the buffer is a
  whole number of 4096-byte pages and holds, one after the other, all planes and meta planes
  whose strides and scanlines the macros give for the frame (a macro is 0 where the format has
  no such plane); a row of the first plane holds the bits of all pixels of a line, the plane
  has a row for every line, and the chroma plane of a YUV format one for every two lines.\<close>

theorem buffer_holds_frame:
  assumes "frame_ok (unat width) (unat height)"
  shows "4096 dvd unat (VENUS_BUFFER_SIZE (encode f) width height) \<and>
     unat (VENUS_Y_STRIDE (encode f) width) * unat (VENUS_Y_SCANLINES (encode f) height) +
     unat (VENUS_UV_STRIDE (encode f) width) * unat (VENUS_UV_SCANLINES (encode f) height) +
     unat (VENUS_Y_META_STRIDE (encode f) width) *
       unat (VENUS_Y_META_SCANLINES (encode f) height) +
     unat (VENUS_UV_META_STRIDE (encode f) width) *
       unat (VENUS_UV_META_SCANLINES (encode f) height) +
     unat (VENUS_RGB_STRIDE (encode f) width) * unat (VENUS_RGB_SCANLINES (encode f) height) +
     unat (VENUS_RGB_META_STRIDE (encode f) width) *
       unat (VENUS_RGB_META_SCANLINES (encode f) height)
       \<le> unat (VENUS_BUFFER_SIZE (encode f) width height) \<and>
     pixel_bits f * unat width \<le>
       8 * (if is_rgb f then unat (VENUS_RGB_STRIDE (encode f) width)
            else unat (VENUS_Y_STRIDE (encode f) width)) \<and>
     unat height \<le> (if is_rgb f then unat (VENUS_RGB_SCANLINES (encode f) height)
                    else unat (VENUS_Y_SCANLINES (encode f) height)) \<and>
     (is_rgb f \<or> half (unat height) \<le> unat (VENUS_UV_SCANLINES (encode f) height))"
proof -
  let ?w = "unat width" and ?h = "unat height"
  note m = macros_unat [OF dims(1,2) [OF assms], of f, simplified]
    macros_unat [OF dims(3,4) [OF assms], of f, simplified]
  show ?thesis
    unfolding m buffer_size_unat [OF assms, of f, simplified]
    using buffer_whole_pages [of f ?w ?h] buffer_holds_picture [of f ?w ?h]
      first_stride_holds_row [of f ?w] first_lines_hold_column [of ?h f]
      uv_lines_hold_half [of f ?h]
    unfolding picture_macros [symmetric] first_stride_def first_lines_def by auto
qed

theorem buffer_holds_frame_witness:
  "4096 dvd unat (VENUS_BUFFER_SIZE (encode P010_UBWC) 1921 1081)"
  using buffer_holds_frame [of 1921 1081 P010_UBWC] by (simp add: frame_ok_def)

text \<open>A compressed NV12 buffer has room for both of the layouts it may have: the four
  planes of a progressive frame, and twice the four planes of a field.\<close>

theorem ubwc_buffer_holds_both_layouts:
  assumes "frame_ok (unat width) (unat height)"
  shows "yuv_picture NV12_UBWC (unat width) (unat height) \<le>
           unat (VENUS_BUFFER_SIZE (encode NV12_UBWC) width height) \<and>
         2 * yuv_picture NV12_UBWC (unat width) (half (unat height)) \<le>
           unat (VENUS_BUFFER_SIZE (encode NV12_UBWC) width height)"
proof -
  let ?w = "unat width" and ?h = "unat height"
  have "2 * yuv_picture NV12_UBWC ?w (half ?h) \<le>
      unat (VENUS_BUFFER_SIZE (encode NV12_UBWC) width height)"
    unfolding buffer_size_unat [OF assms, simplified]
    using align_page_ge [of "2 * yuv_picture NV12_UBWC ?w (half ?h) + max 24576 (48 * y_stride NV12_UBWC ?w)"]
    by simp
  with fields_hold_frame [of ?w ?h] show ?thesis by linarith
qed

theorem ubwc_buffer_holds_both_layouts_witness:
  "yuv_picture NV12_UBWC 720 577 \<le> unat (VENUS_BUFFER_SIZE (encode NV12_UBWC) 720 577)"
  using ubwc_buffer_holds_both_layouts [of 720 577] by (simp add: frame_ok_def)

text \<open>The second view of a stereo buffer starts right after the planes of the first, and
  its own planes end inside the buffer.\<close>

theorem second_view_fits:
  assumes "frame_ok (unat width) (unat height)"
  shows "unat (VENUS_VIEW2_OFFSET (encode NV12_MVTB) width height) =
           picture_bytes NV12_MVTB (unat width) (unat height) \<and>
         unat (VENUS_VIEW2_OFFSET (encode NV12_MVTB) width height) +
           picture_bytes NV12_MVTB (unat width) (unat height)
           \<le> unat (VENUS_BUFFER_SIZE (encode NV12_MVTB) width height)"
proof -
  let ?w = "unat width" and ?h = "unat height"
  let ?n = "y_bytes NV12_MVTB ?w ?h + uv_bytes NV12_MVTB ?w ?h"
  have pic: "picture_bytes NV12_MVTB ?w ?h = ?n"
    by (simp add: picture_bytes_def is_rgb_def meta_stride_def)
  have "?n < 2 ^ 32" using bytes_le [OF dims(2,4) [OF assms], of NV12_MVTB] by simp
  with view2_of_nat [OF assms] have off: "unat (VENUS_VIEW2_OFFSET (encode NV12_MVTB) width height) = ?n"
    using unat_of_nat_small [of ?n] by simp
  have "2 * ?n \<le> align 4096 (2 * (?n + 4096) + 16384)"
    by (rule order_trans [OF _ align_page_ge]) simp
  then show ?thesis unfolding off pic buffer_size_unat [OF assms, simplified] by simp
qed

theorem second_view_fits_witness:
  "unat (VENUS_VIEW2_OFFSET (encode NV12_MVTB) 640 480) = picture_bytes NV12_MVTB 640 480"
  using second_view_fits [of 640 480] by (simp add: frame_ok_def)

text \<open>The alignment macro yields the least multiple of the alignment that is not below
  the size, on the masking path of a power of two as well as on the dividing path, whenever
  the sum of both fits in 32 bits.\<close>

theorem align_is_least_multiple:
  assumes "0 < al" and "unat sz + unat al \<le> 2 ^ 32"
  shows "unat al dvd unat (MSM_MEDIA_ALIGN sz al) \<and> unat sz \<le> unat (MSM_MEDIA_ALIGN sz al) \<and>
     (\<forall>m. unat al dvd m \<longrightarrow> unat sz \<le> m \<longrightarrow> unat (MSM_MEDIA_ALIGN sz al) \<le> m)"
proof -
  have pos: "0 < unat al" using assms(1) by (simp add: word_less_nat_alt)
  have "MSM_MEDIA_ALIGN sz al = of_nat (align (unat al) (unat sz))"
    using MSM_MEDIA_ALIGN_of_nat [of "unat al" "unat sz"] pos assms(2) unsigned_less [of al] by simp
  moreover have "align (unat al) (unat sz) < 2 ^ 32"
    using align_le [of "unat al" "unat sz"] pos assms(2) by linarith
  ultimately have "unat (MSM_MEDIA_ALIGN sz al) = align (unat al) (unat sz)"
    by (simp add: unat_of_nat_small)
  then show ?thesis using align_ge [OF pos] align_least by auto
qed

theorem align_is_least_multiple_witness:
  "(192 :: nat) dvd unat (MSM_MEDIA_ALIGN 1000 192) \<and> 1000 \<le> unat (MSM_MEDIA_ALIGN 1000 192)"
  using align_is_least_multiple [of 192 1000] by simp

text \<open>What is no frame or no format (a width or height of 0, or a number that is no
  enumerator) has the size 0 and the view offset 0.\<close>

theorem invalid_input_gives_zero:
  "width = 0 \<or> height = 0 \<or> decode color_fmt = None \<Longrightarrow>
     VENUS_BUFFER_SIZE color_fmt width height = 0 \<and> VENUS_VIEW2_OFFSET color_fmt width height = 0"
  by (auto simp: VENUS_BUFFER_SIZE_def VENUS_VIEW2_OFFSET_def)

theorem invalid_input_gives_zero_witness: "VENUS_BUFFER_SIZE 11 640 480 = 0"
  using invalid_input_gives_zero [of 640 480 11] by (simp add: decode_def)

section \<open>Where the layout differs from its documentation\<close>

text \<open>
  The comment of the RGB565 format aligns its stride to 128 bytes, the function to 256; the
  comments of the RGB formats and of P010\_UBWC add extra data that the function leaves out; the
  comment of RGBA8888\_UBWC aligns stride and lines to 128 and 32, the functions to 256 and 16,
  and that of the ten-bit format the lines of the first plane to 32, the function to 16.
\<close>

lemma BPP10_smaller_than_documented:
  "unat (VENUS_BUFFER_SIZE (encode NV12_BPP10_UBWC) 1920 1072) + 40960 =
     documented NV12_BPP10_UBWC 1920 1072"
  using buffer_size_unat [of 1920 1072 NV12_BPP10_UBWC]
  by (simp add: frame_ok_def yuv_picture_def y_bytes_def uv_bytes_def meta_plane_def
      meta_stride_def meta_scanlines_def doc_planes_def align_def ceil_div_def)

lemma RGBA8888_UBWC_not_documented:
  "VENUS_RGB_STRIDE (encode RGBA8888_UBWC) 32 = 256 \<and> align 128 (32 * 4) = 128"
  "VENUS_RGB_SCANLINES (encode RGBA8888_UBWC) 16 = 16 \<and> align 32 16 = 32"
  using strides_of_nat(3) [of 32 RGBA8888_UBWC] scanlines_of_nat(3) [of 16 RGBA8888_UBWC]
  by (simp_all add: align_def)

lemma RGB565_stride_not_documented: "VENUS_RGB_STRIDE (encode RGB565_UBWC) 64 = 256"
  using strides_of_nat(3) [of 64 RGB565_UBWC] by (simp add: align_def)

lemma RGBA8888_no_extradata:
  "VENUS_BUFFER_SIZE (encode RGBA8888) 32 32 = 4096"
  using VENUS_BUFFER_SIZE_of_nat [of 32 32 RGBA8888]
  by (simp add: frame_ok_def rgb_picture_def rgb_bytes_def meta_plane_def meta_stride_def align_def)

end
