(* ===== verification/HdmiModes.thy ===== *)
theory HdmiModes
  imports CInt
begin

unbundle bit_operations_syntax

text \<open>
  The HDMI mode tables (video/msm\_hdmi\_modes.h): the identification codes of the video
  formats, the timing of each supported one, and the macros that fill and read the lookup
  table the display driver and its clients share.
\<close>

section \<open>Types\<close>

datatype aspect_ratio =
    HDMI_RES_AR_INVALID | HDMI_RES_AR_4_3 | HDMI_RES_AR_5_4 | HDMI_RES_AR_16_9
  | HDMI_RES_AR_16_10 | HDMI_RES_AR_64_27 | HDMI_RES_AR_256_135 | HDMI_RES_AR_MAX

record msm_hdmi_mode_timing_info =
  video_format :: cint
  active_h :: cint
  front_porch_h :: cint
  pulse_width_h :: cint
  back_porch_h :: cint
  active_low_h :: cint
  active_v :: cint
  front_porch_v :: cint
  pulse_width_v :: cint
  back_porch_v :: cint
  active_low_v :: cint
  pixel_freq :: cint
  refresh_rate :: cint
  interlaced :: cint
  supported :: cint
  ar :: aspect_ratio
  pixel_formats :: cint

text \<open>
  A braced initialiser, in the order of the fields. The constants \<open>true\<close> and \<open>false\<close> that the
  header stores in integer fields are 1 and 0.
\<close>

definition timing ::
    "cint \<Rightarrow> cint \<Rightarrow> cint \<Rightarrow> cint \<Rightarrow> cint \<Rightarrow> bool \<Rightarrow> cint \<Rightarrow> cint \<Rightarrow> cint \<Rightarrow> cint \<Rightarrow> bool \<Rightarrow>
      cint \<Rightarrow> cint \<Rightarrow> bool \<Rightarrow> bool \<Rightarrow> aspect_ratio \<Rightarrow> cint \<Rightarrow> msm_hdmi_mode_timing_info" where
  "timing vf ah fh ph bh lh av fv pv bv lv pf rr il su asp fmts =
     \<lparr>video_format = vf, active_h = ah, front_porch_h = fh, pulse_width_h = ph,
      back_porch_h = bh, active_low_h = of_bool lh, active_v = av, front_porch_v = fv,
      pulse_width_v = pv, back_porch_v = bv, active_low_v = of_bool lv, pixel_freq = pf,
      refresh_rate = rr, interlaced = of_bool il, supported = of_bool su, ar = asp,
      pixel_formats = fmts\<rparr>"

definition MSM_HDMI_RGB_888_24BPP_FORMAT :: cint where
  "MSM_HDMI_RGB_888_24BPP_FORMAT = push_bit 0 1"
definition MSM_HDMI_YUV_420_12BPP_FORMAT :: cint where
  "MSM_HDMI_YUV_420_12BPP_FORMAT = push_bit 1 1"

definition MSM_HDMI_MODES_CEA :: cint where "MSM_HDMI_MODES_CEA = push_bit 0 1"
definition MSM_HDMI_MODES_XTND :: cint where "MSM_HDMI_MODES_XTND = push_bit 1 1"
definition MSM_HDMI_MODES_DVI :: cint where "MSM_HDMI_MODES_DVI = push_bit 2 1"
definition MSM_HDMI_MODES_ALL :: cint where
  "MSM_HDMI_MODES_ALL = (MSM_HDMI_MODES_CEA OR MSM_HDMI_MODES_XTND OR MSM_HDMI_MODES_DVI)"

section \<open>Identification codes\<close>

definition HDMI_VFRMT_UNKNOWN :: cint where "HDMI_VFRMT_UNKNOWN = 0"
definition HDMI_VFRMT_640x480p60_4_3 :: cint where "HDMI_VFRMT_640x480p60_4_3 = 1"
definition HDMI_VFRMT_720x480p60_4_3 :: cint where "HDMI_VFRMT_720x480p60_4_3 = 2"
definition HDMI_VFRMT_720x480p60_16_9 :: cint where "HDMI_VFRMT_720x480p60_16_9 = 3"
definition HDMI_VFRMT_1280x720p60_16_9 :: cint where "HDMI_VFRMT_1280x720p60_16_9 = 4"
definition HDMI_VFRMT_1920x1080i60_16_9 :: cint where "HDMI_VFRMT_1920x1080i60_16_9 = 5"
definition HDMI_VFRMT_720x480i60_4_3 :: cint where "HDMI_VFRMT_720x480i60_4_3 = 6"
definition HDMI_VFRMT_1440x480i60_4_3 :: cint where
  "HDMI_VFRMT_1440x480i60_4_3 = HDMI_VFRMT_720x480i60_4_3"
definition HDMI_VFRMT_720x480i60_16_9 :: cint where "HDMI_VFRMT_720x480i60_16_9 = 7"
definition HDMI_VFRMT_1440x480i60_16_9 :: cint where
  "HDMI_VFRMT_1440x480i60_16_9 = HDMI_VFRMT_720x480i60_16_9"
definition HDMI_VFRMT_720x240p60_4_3 :: cint where "HDMI_VFRMT_720x240p60_4_3 = 8"
definition HDMI_VFRMT_1440x240p60_4_3 :: cint where
  "HDMI_VFRMT_1440x240p60_4_3 = HDMI_VFRMT_720x240p60_4_3"
definition HDMI_VFRMT_720x240p60_16_9 :: cint where "HDMI_VFRMT_720x240p60_16_9 = 9"
definition HDMI_VFRMT_1440x240p60_16_9 :: cint where
  "HDMI_VFRMT_1440x240p60_16_9 = HDMI_VFRMT_720x240p60_16_9"
definition HDMI_VFRMT_2880x480i60_4_3 :: cint where "HDMI_VFRMT_2880x480i60_4_3 = 10"
definition HDMI_VFRMT_2880x480i60_16_9 :: cint where "HDMI_VFRMT_2880x480i60_16_9 = 11"
definition HDMI_VFRMT_2880x240p60_4_3 :: cint where "HDMI_VFRMT_2880x240p60_4_3 = 12"
definition HDMI_VFRMT_2880x240p60_16_9 :: cint where "HDMI_VFRMT_2880x240p60_16_9 = 13"
definition HDMI_VFRMT_1440x480p60_4_3 :: cint where "HDMI_VFRMT_1440x480p60_4_3 = 14"
definition HDMI_VFRMT_1440x480p60_16_9 :: cint where "HDMI_VFRMT_1440x480p60_16_9 = 15"
definition HDMI_VFRMT_1920x1080p60_16_9 :: cint where "HDMI_VFRMT_1920x1080p60_16_9 = 16"
definition HDMI_VFRMT_720x576p50_4_3 :: cint where "HDMI_VFRMT_720x576p50_4_3 = 17"
definition HDMI_VFRMT_720x576p50_16_9 :: cint where "HDMI_VFRMT_720x576p50_16_9 = 18"
definition HDMI_VFRMT_1280x720p50_16_9 :: cint where "HDMI_VFRMT_1280x720p50_16_9 = 19"
definition HDMI_VFRMT_1920x1080i50_16_9 :: cint where "HDMI_VFRMT_1920x1080i50_16_9 = 20"
definition HDMI_VFRMT_720x576i50_4_3 :: cint where "HDMI_VFRMT_720x576i50_4_3 = 21"
definition HDMI_VFRMT_1440x576i50_4_3 :: cint where
  "HDMI_VFRMT_1440x576i50_4_3 = HDMI_VFRMT_720x576i50_4_3"
definition HDMI_VFRMT_720x576i50_16_9 :: cint where "HDMI_VFRMT_720x576i50_16_9 = 22"
definition HDMI_VFRMT_1440x576i50_16_9 :: cint where
  "HDMI_VFRMT_1440x576i50_16_9 = HDMI_VFRMT_720x576i50_16_9"
definition HDMI_VFRMT_720x288p50_4_3 :: cint where "HDMI_VFRMT_720x288p50_4_3 = 23"
definition HDMI_VFRMT_1440x288p50_4_3 :: cint where
  "HDMI_VFRMT_1440x288p50_4_3 = HDMI_VFRMT_720x288p50_4_3"
definition HDMI_VFRMT_720x288p50_16_9 :: cint where "HDMI_VFRMT_720x288p50_16_9 = 24"
definition HDMI_VFRMT_1440x288p50_16_9 :: cint where
  "HDMI_VFRMT_1440x288p50_16_9 = HDMI_VFRMT_720x288p50_16_9"
definition HDMI_VFRMT_2880x576i50_4_3 :: cint where "HDMI_VFRMT_2880x576i50_4_3 = 25"
definition HDMI_VFRMT_2880x576i50_16_9 :: cint where "HDMI_VFRMT_2880x576i50_16_9 = 26"
definition HDMI_VFRMT_2880x288p50_4_3 :: cint where "HDMI_VFRMT_2880x288p50_4_3 = 27"
definition HDMI_VFRMT_2880x288p50_16_9 :: cint where "HDMI_VFRMT_2880x288p50_16_9 = 28"
definition HDMI_VFRMT_1440x576p50_4_3 :: cint where "HDMI_VFRMT_1440x576p50_4_3 = 29"
definition HDMI_VFRMT_1440x576p50_16_9 :: cint where "HDMI_VFRMT_1440x576p50_16_9 = 30"
definition HDMI_VFRMT_1920x1080p50_16_9 :: cint where "HDMI_VFRMT_1920x1080p50_16_9 = 31"
definition HDMI_VFRMT_1920x1080p24_16_9 :: cint where "HDMI_VFRMT_1920x1080p24_16_9 = 32"
definition HDMI_VFRMT_1920x1080p25_16_9 :: cint where "HDMI_VFRMT_1920x1080p25_16_9 = 33"
definition HDMI_VFRMT_1920x1080p30_16_9 :: cint where "HDMI_VFRMT_1920x1080p30_16_9 = 34"
definition HDMI_VFRMT_2880x480p60_4_3 :: cint where "HDMI_VFRMT_2880x480p60_4_3 = 35"
definition HDMI_VFRMT_2880x480p60_16_9 :: cint where "HDMI_VFRMT_2880x480p60_16_9 = 36"
definition HDMI_VFRMT_2880x576p50_4_3 :: cint where "HDMI_VFRMT_2880x576p50_4_3 = 37"
definition HDMI_VFRMT_2880x576p50_16_9 :: cint where "HDMI_VFRMT_2880x576p50_16_9 = 38"
definition HDMI_VFRMT_1920x1250i50_16_9 :: cint where "HDMI_VFRMT_1920x1250i50_16_9 = 39"
definition HDMI_VFRMT_1920x1080i100_16_9 :: cint where "HDMI_VFRMT_1920x1080i100_16_9 = 40"
definition HDMI_VFRMT_1280x720p100_16_9 :: cint where "HDMI_VFRMT_1280x720p100_16_9 = 41"
definition HDMI_VFRMT_720x576p100_4_3 :: cint where "HDMI_VFRMT_720x576p100_4_3 = 42"
definition HDMI_VFRMT_720x576p100_16_9 :: cint where "HDMI_VFRMT_720x576p100_16_9 = 43"
definition HDMI_VFRMT_720x576i100_4_3 :: cint where "HDMI_VFRMT_720x576i100_4_3 = 44"
definition HDMI_VFRMT_1440x576i100_4_3 :: cint where
  "HDMI_VFRMT_1440x576i100_4_3 = HDMI_VFRMT_720x576i100_4_3"
definition HDMI_VFRMT_720x576i100_16_9 :: cint where "HDMI_VFRMT_720x576i100_16_9 = 45"
definition HDMI_VFRMT_1440x576i100_16_9 :: cint where
  "HDMI_VFRMT_1440x576i100_16_9 = HDMI_VFRMT_720x576i100_16_9"
definition HDMI_VFRMT_1920x1080i120_16_9 :: cint where "HDMI_VFRMT_1920x1080i120_16_9 = 46"
definition HDMI_VFRMT_1280x720p120_16_9 :: cint where "HDMI_VFRMT_1280x720p120_16_9 = 47"
definition HDMI_VFRMT_720x480p120_4_3 :: cint where "HDMI_VFRMT_720x480p120_4_3 = 48"
definition HDMI_VFRMT_720x480p120_16_9 :: cint where "HDMI_VFRMT_720x480p120_16_9 = 49"
definition HDMI_VFRMT_720x480i120_4_3 :: cint where "HDMI_VFRMT_720x480i120_4_3 = 50"
definition HDMI_VFRMT_1440x480i120_4_3 :: cint where
  "HDMI_VFRMT_1440x480i120_4_3 = HDMI_VFRMT_720x480i120_4_3"
definition HDMI_VFRMT_720x480i120_16_9 :: cint where "HDMI_VFRMT_720x480i120_16_9 = 51"
definition HDMI_VFRMT_1440x480i120_16_9 :: cint where
  "HDMI_VFRMT_1440x480i120_16_9 = HDMI_VFRMT_720x480i120_16_9"
definition HDMI_VFRMT_720x576p200_4_3 :: cint where "HDMI_VFRMT_720x576p200_4_3 = 52"
definition HDMI_VFRMT_720x576p200_16_9 :: cint where "HDMI_VFRMT_720x576p200_16_9 = 53"
definition HDMI_VFRMT_720x576i200_4_3 :: cint where "HDMI_VFRMT_720x576i200_4_3 = 54"
definition HDMI_VFRMT_1440x576i200_4_3 :: cint where
  "HDMI_VFRMT_1440x576i200_4_3 = HDMI_VFRMT_720x576i200_4_3"
definition HDMI_VFRMT_720x576i200_16_9 :: cint where "HDMI_VFRMT_720x576i200_16_9 = 55"
definition HDMI_VFRMT_1440x576i200_16_9 :: cint where
  "HDMI_VFRMT_1440x576i200_16_9 = HDMI_VFRMT_720x576i200_16_9"
definition HDMI_VFRMT_720x480p240_4_3 :: cint where "HDMI_VFRMT_720x480p240_4_3 = 56"
definition HDMI_VFRMT_720x480p240_16_9 :: cint where "HDMI_VFRMT_720x480p240_16_9 = 57"
definition HDMI_VFRMT_720x480i240_4_3 :: cint where "HDMI_VFRMT_720x480i240_4_3 = 58"
definition HDMI_VFRMT_1440x480i240_4_3 :: cint where
  "HDMI_VFRMT_1440x480i240_4_3 = HDMI_VFRMT_720x480i240_4_3"
definition HDMI_VFRMT_720x480i240_16_9 :: cint where "HDMI_VFRMT_720x480i240_16_9 = 59"
definition HDMI_VFRMT_1440x480i240_16_9 :: cint where
  "HDMI_VFRMT_1440x480i240_16_9 = HDMI_VFRMT_720x480i240_16_9"
definition HDMI_VFRMT_1280x720p24_16_9 :: cint where "HDMI_VFRMT_1280x720p24_16_9 = 60"
definition HDMI_VFRMT_1280x720p25_16_9 :: cint where "HDMI_VFRMT_1280x720p25_16_9 = 61"
definition HDMI_VFRMT_1280x720p30_16_9 :: cint where "HDMI_VFRMT_1280x720p30_16_9 = 62"
definition HDMI_VFRMT_1920x1080p120_16_9 :: cint where "HDMI_VFRMT_1920x1080p120_16_9 = 63"
definition HDMI_VFRMT_1920x1080p100_16_9 :: cint where "HDMI_VFRMT_1920x1080p100_16_9 = 64"
definition HDMI_VFRMT_1280x720p24_64_27 :: cint where "HDMI_VFRMT_1280x720p24_64_27 = 65"
definition HDMI_VFRMT_1280x720p25_64_27 :: cint where "HDMI_VFRMT_1280x720p25_64_27 = 66"
definition HDMI_VFRMT_1280x720p30_64_27 :: cint where "HDMI_VFRMT_1280x720p30_64_27 = 67"
definition HDMI_VFRMT_1280x720p50_64_27 :: cint where "HDMI_VFRMT_1280x720p50_64_27 = 68"
definition HDMI_VFRMT_1280x720p60_64_27 :: cint where "HDMI_VFRMT_1280x720p60_64_27 = 69"
definition HDMI_VFRMT_1280x720p100_64_27 :: cint where "HDMI_VFRMT_1280x720p100_64_27 = 70"
definition HDMI_VFRMT_1280x720p120_64_27 :: cint where "HDMI_VFRMT_1280x720p120_64_27 = 71"
definition HDMI_VFRMT_1920x1080p24_64_27 :: cint where "HDMI_VFRMT_1920x1080p24_64_27 = 72"
definition HDMI_VFRMT_1920x1080p25_64_27 :: cint where "HDMI_VFRMT_1920x1080p25_64_27 = 73"
definition HDMI_VFRMT_1920x1080p30_64_27 :: cint where "HDMI_VFRMT_1920x1080p30_64_27 = 74"
definition HDMI_VFRMT_1920x1080p50_64_27 :: cint where "HDMI_VFRMT_1920x1080p50_64_27 = 75"
definition HDMI_VFRMT_1920x1080p60_64_27 :: cint where "HDMI_VFRMT_1920x1080p60_64_27 = 76"
definition HDMI_VFRMT_1920x1080p100_64_27 :: cint where "HDMI_VFRMT_1920x1080p100_64_27 = 77"
definition HDMI_VFRMT_1920x1080p120_64_27 :: cint where "HDMI_VFRMT_1920x1080p120_64_27 = 78"
definition HDMI_VFRMT_1680x720p24_64_27 :: cint where "HDMI_VFRMT_1680x720p24_64_27 = 79"
definition HDMI_VFRMT_1680x720p25_64_27 :: cint where "HDMI_VFRMT_1680x720p25_64_27 = 80"
definition HDMI_VFRMT_1680x720p30_64_27 :: cint where "HDMI_VFRMT_1680x720p30_64_27 = 81"
definition HDMI_VFRMT_1680x720p50_64_27 :: cint where "HDMI_VFRMT_1680x720p50_64_27 = 82"
definition HDMI_VFRMT_1680x720p60_64_27 :: cint where "HDMI_VFRMT_1680x720p60_64_27 = 83"
definition HDMI_VFRMT_1680x720p100_64_27 :: cint where "HDMI_VFRMT_1680x720p100_64_27 = 84"
definition HDMI_VFRMT_1680x720p120_64_27 :: cint where "HDMI_VFRMT_1680x720p120_64_27 = 85"
definition HDMI_VFRMT_2560x1080p24_64_27 :: cint where "HDMI_VFRMT_2560x1080p24_64_27 = 86"
definition HDMI_VFRMT_2560x1080p25_64_27 :: cint where "HDMI_VFRMT_2560x1080p25_64_27 = 87"
definition HDMI_VFRMT_2560x1080p30_64_27 :: cint where "HDMI_VFRMT_2560x1080p30_64_27 = 88"
definition HDMI_VFRMT_2560x1080p50_64_27 :: cint where "HDMI_VFRMT_2560x1080p50_64_27 = 89"
definition HDMI_VFRMT_2560x1080p60_64_27 :: cint where "HDMI_VFRMT_2560x1080p60_64_27 = 90"
definition HDMI_VFRMT_2560x1080p100_64_27 :: cint where "HDMI_VFRMT_2560x1080p100_64_27 = 91"
definition HDMI_VFRMT_2560x1080p120_64_27 :: cint where "HDMI_VFRMT_2560x1080p120_64_27 = 92"
definition HDMI_VFRMT_3840x2160p24_16_9 :: cint where "HDMI_VFRMT_3840x2160p24_16_9 = 93"
definition HDMI_VFRMT_3840x2160p25_16_9 :: cint where "HDMI_VFRMT_3840x2160p25_16_9 = 94"
definition HDMI_VFRMT_3840x2160p30_16_9 :: cint where "HDMI_VFRMT_3840x2160p30_16_9 = 95"
definition HDMI_VFRMT_3840x2160p50_16_9 :: cint where "HDMI_VFRMT_3840x2160p50_16_9 = 96"
definition HDMI_VFRMT_3840x2160p60_16_9 :: cint where "HDMI_VFRMT_3840x2160p60_16_9 = 97"
definition HDMI_VFRMT_4096x2160p24_256_135 :: cint where "HDMI_VFRMT_4096x2160p24_256_135 = 98"
definition HDMI_VFRMT_4096x2160p25_256_135 :: cint where "HDMI_VFRMT_4096x2160p25_256_135 = 99"
definition HDMI_VFRMT_4096x2160p30_256_135 :: cint where "HDMI_VFRMT_4096x2160p30_256_135 = 100"
definition HDMI_VFRMT_4096x2160p50_256_135 :: cint where "HDMI_VFRMT_4096x2160p50_256_135 = 101"
definition HDMI_VFRMT_4096x2160p60_256_135 :: cint where "HDMI_VFRMT_4096x2160p60_256_135 = 102"
definition HDMI_VFRMT_3840x2160p24_64_27 :: cint where "HDMI_VFRMT_3840x2160p24_64_27 = 103"
definition HDMI_VFRMT_3840x2160p25_64_27 :: cint where "HDMI_VFRMT_3840x2160p25_64_27 = 104"
definition HDMI_VFRMT_3840x2160p30_64_27 :: cint where "HDMI_VFRMT_3840x2160p30_64_27 = 105"
definition HDMI_VFRMT_3840x2160p50_64_27 :: cint where "HDMI_VFRMT_3840x2160p50_64_27 = 106"
definition HDMI_VFRMT_3840x2160p60_64_27 :: cint where "HDMI_VFRMT_3840x2160p60_64_27 = 107"
definition HDMI_VFRMT_END :: cint where "HDMI_VFRMT_END = 127"
definition EVFRMT_OFF :: "cint \<Rightarrow> cint" where "EVFRMT_OFF x = HDMI_VFRMT_END + x"
definition HDMI_EVFRMT_3840x2160p30_16_9 :: cint where
  "HDMI_EVFRMT_3840x2160p30_16_9 = EVFRMT_OFF 1"
definition HDMI_EVFRMT_3840x2160p25_16_9 :: cint where
  "HDMI_EVFRMT_3840x2160p25_16_9 = EVFRMT_OFF 2"
definition HDMI_EVFRMT_3840x2160p24_16_9 :: cint where
  "HDMI_EVFRMT_3840x2160p24_16_9 = EVFRMT_OFF 3"
definition HDMI_EVFRMT_4096x2160p24_16_9 :: cint where
  "HDMI_EVFRMT_4096x2160p24_16_9 = EVFRMT_OFF 4"
definition HDMI_EVFRMT_END :: cint where "HDMI_EVFRMT_END = HDMI_EVFRMT_4096x2160p24_16_9"
definition WQXGA_OFF :: "cint \<Rightarrow> cint" where "WQXGA_OFF x = HDMI_EVFRMT_END + x"
definition HDMI_VFRMT_2560x1600p60_16_9 :: cint where "HDMI_VFRMT_2560x1600p60_16_9 = WQXGA_OFF 1"
definition HDMI_WQXGAFRMT_END :: cint where "HDMI_WQXGAFRMT_END = HDMI_VFRMT_2560x1600p60_16_9"
definition WXGA_OFF :: "cint \<Rightarrow> cint" where "WXGA_OFF x = HDMI_WQXGAFRMT_END + x"
definition HDMI_VFRMT_1280x800p60_16_10 :: cint where "HDMI_VFRMT_1280x800p60_16_10 = WXGA_OFF 1"
definition HDMI_VFRMT_1366x768p60_16_10 :: cint where "HDMI_VFRMT_1366x768p60_16_10 = WXGA_OFF 2"
definition HDMI_WXGAFRMT_END :: cint where "HDMI_WXGAFRMT_END = HDMI_VFRMT_1366x768p60_16_10"
definition ETI_OFF :: "cint \<Rightarrow> cint" where "ETI_OFF x = HDMI_WXGAFRMT_END + x"
definition HDMI_VFRMT_800x600p60_4_3 :: cint where "HDMI_VFRMT_800x600p60_4_3 = ETI_OFF 1"
definition ETI_VFRMT_END :: cint where "ETI_VFRMT_END = HDMI_VFRMT_800x600p60_4_3"
definition ETII_OFF :: "cint \<Rightarrow> cint" where "ETII_OFF x = ETI_VFRMT_END + x"
definition HDMI_VFRMT_1024x768p60_4_3 :: cint where "HDMI_VFRMT_1024x768p60_4_3 = ETII_OFF 1"
definition HDMI_VFRMT_1280x1024p60_5_4 :: cint where "HDMI_VFRMT_1280x1024p60_5_4 = ETII_OFF 2"
definition ETII_VFRMT_END :: cint where "ETII_VFRMT_END = HDMI_VFRMT_1280x1024p60_5_4"
definition ETIII_OFF :: "cint \<Rightarrow> cint" where "ETIII_OFF x = ETII_VFRMT_END + x"
definition HDMI_VFRMT_848x480p60_16_9 :: cint where "HDMI_VFRMT_848x480p60_16_9 = ETIII_OFF 1"
definition HDMI_VFRMT_1280x960p60_4_3 :: cint where "HDMI_VFRMT_1280x960p60_4_3 = ETIII_OFF 2"
definition HDMI_VFRMT_1360x768p60_16_9 :: cint where "HDMI_VFRMT_1360x768p60_16_9 = ETIII_OFF 3"
definition HDMI_VFRMT_1440x900p60_16_10 :: cint where "HDMI_VFRMT_1440x900p60_16_10 = ETIII_OFF 4"
definition HDMI_VFRMT_1400x1050p60_4_3 :: cint where "HDMI_VFRMT_1400x1050p60_4_3 = ETIII_OFF 5"
definition HDMI_VFRMT_1680x1050p60_16_10 :: cint where
  "HDMI_VFRMT_1680x1050p60_16_10 = ETIII_OFF 6"
definition HDMI_VFRMT_1600x1200p60_4_3 :: cint where "HDMI_VFRMT_1600x1200p60_4_3 = ETIII_OFF 7"
definition HDMI_VFRMT_1920x1200p60_16_10 :: cint where
  "HDMI_VFRMT_1920x1200p60_16_10 = ETIII_OFF 8"
definition ETIII_VFRMT_END :: cint where "ETIII_VFRMT_END = HDMI_VFRMT_1920x1200p60_16_10"
definition RESERVE_OFF :: "cint \<Rightarrow> cint" where "RESERVE_OFF x = ETIII_VFRMT_END + x"
definition HDMI_VFRMT_RESERVE1 :: cint where "HDMI_VFRMT_RESERVE1 = RESERVE_OFF 1"
definition HDMI_VFRMT_RESERVE2 :: cint where "HDMI_VFRMT_RESERVE2 = RESERVE_OFF 2"
definition HDMI_VFRMT_RESERVE3 :: cint where "HDMI_VFRMT_RESERVE3 = RESERVE_OFF 3"
definition HDMI_VFRMT_RESERVE4 :: cint where "HDMI_VFRMT_RESERVE4 = RESERVE_OFF 4"
definition HDMI_VFRMT_RESERVE5 :: cint where "HDMI_VFRMT_RESERVE5 = RESERVE_OFF 5"
definition HDMI_VFRMT_RESERVE6 :: cint where "HDMI_VFRMT_RESERVE6 = RESERVE_OFF 6"
definition HDMI_VFRMT_RESERVE7 :: cint where "HDMI_VFRMT_RESERVE7 = RESERVE_OFF 7"
definition HDMI_VFRMT_RESERVE8 :: cint where "HDMI_VFRMT_RESERVE8 = RESERVE_OFF 8"
definition RESERVE_VFRMT_END :: cint where "RESERVE_VFRMT_END = HDMI_VFRMT_RESERVE8"
definition HDMI_VFRMT_MAX :: cint where "HDMI_VFRMT_MAX = RESERVE_VFRMT_END + 1"

lemmas hdmi_codes =
  HDMI_VFRMT_UNKNOWN_def HDMI_VFRMT_640x480p60_4_3_def HDMI_VFRMT_720x480p60_4_3_def
  HDMI_VFRMT_720x480p60_16_9_def HDMI_VFRMT_1280x720p60_16_9_def
  HDMI_VFRMT_1920x1080i60_16_9_def HDMI_VFRMT_720x480i60_4_3_def HDMI_VFRMT_1440x480i60_4_3_def
  HDMI_VFRMT_720x480i60_16_9_def HDMI_VFRMT_1440x480i60_16_9_def HDMI_VFRMT_720x240p60_4_3_def
  HDMI_VFRMT_1440x240p60_4_3_def HDMI_VFRMT_720x240p60_16_9_def HDMI_VFRMT_1440x240p60_16_9_def
  HDMI_VFRMT_2880x480i60_4_3_def HDMI_VFRMT_2880x480i60_16_9_def HDMI_VFRMT_2880x240p60_4_3_def
  HDMI_VFRMT_2880x240p60_16_9_def HDMI_VFRMT_1440x480p60_4_3_def HDMI_VFRMT_1440x480p60_16_9_def
  HDMI_VFRMT_1920x1080p60_16_9_def HDMI_VFRMT_720x576p50_4_3_def HDMI_VFRMT_720x576p50_16_9_def
  HDMI_VFRMT_1280x720p50_16_9_def HDMI_VFRMT_1920x1080i50_16_9_def HDMI_VFRMT_720x576i50_4_3_def
  HDMI_VFRMT_1440x576i50_4_3_def HDMI_VFRMT_720x576i50_16_9_def HDMI_VFRMT_1440x576i50_16_9_def
  HDMI_VFRMT_720x288p50_4_3_def HDMI_VFRMT_1440x288p50_4_3_def HDMI_VFRMT_720x288p50_16_9_def
  HDMI_VFRMT_1440x288p50_16_9_def HDMI_VFRMT_2880x576i50_4_3_def HDMI_VFRMT_2880x576i50_16_9_def
  HDMI_VFRMT_2880x288p50_4_3_def HDMI_VFRMT_2880x288p50_16_9_def HDMI_VFRMT_1440x576p50_4_3_def
  HDMI_VFRMT_1440x576p50_16_9_def HDMI_VFRMT_1920x1080p50_16_9_def
  HDMI_VFRMT_1920x1080p24_16_9_def HDMI_VFRMT_1920x1080p25_16_9_def
  HDMI_VFRMT_1920x1080p30_16_9_def HDMI_VFRMT_2880x480p60_4_3_def
  HDMI_VFRMT_2880x480p60_16_9_def HDMI_VFRMT_2880x576p50_4_3_def HDMI_VFRMT_2880x576p50_16_9_def
  HDMI_VFRMT_1920x1250i50_16_9_def HDMI_VFRMT_1920x1080i100_16_9_def
  HDMI_VFRMT_1280x720p100_16_9_def HDMI_VFRMT_720x576p100_4_3_def
  HDMI_VFRMT_720x576p100_16_9_def HDMI_VFRMT_720x576i100_4_3_def HDMI_VFRMT_1440x576i100_4_3_def
  HDMI_VFRMT_720x576i100_16_9_def HDMI_VFRMT_1440x576i100_16_9_def
  HDMI_VFRMT_1920x1080i120_16_9_def HDMI_VFRMT_1280x720p120_16_9_def
  HDMI_VFRMT_720x480p120_4_3_def HDMI_VFRMT_720x480p120_16_9_def HDMI_VFRMT_720x480i120_4_3_def
  HDMI_VFRMT_1440x480i120_4_3_def HDMI_VFRMT_720x480i120_16_9_def
  HDMI_VFRMT_1440x480i120_16_9_def HDMI_VFRMT_720x576p200_4_3_def
  HDMI_VFRMT_720x576p200_16_9_def HDMI_VFRMT_720x576i200_4_3_def HDMI_VFRMT_1440x576i200_4_3_def
  HDMI_VFRMT_720x576i200_16_9_def HDMI_VFRMT_1440x576i200_16_9_def
  HDMI_VFRMT_720x480p240_4_3_def HDMI_VFRMT_720x480p240_16_9_def HDMI_VFRMT_720x480i240_4_3_def
  HDMI_VFRMT_1440x480i240_4_3_def HDMI_VFRMT_720x480i240_16_9_def
  HDMI_VFRMT_1440x480i240_16_9_def HDMI_VFRMT_1280x720p24_16_9_def
  HDMI_VFRMT_1280x720p25_16_9_def HDMI_VFRMT_1280x720p30_16_9_def
  HDMI_VFRMT_1920x1080p120_16_9_def HDMI_VFRMT_1920x1080p100_16_9_def
  HDMI_VFRMT_1280x720p24_64_27_def HDMI_VFRMT_1280x720p25_64_27_def
  HDMI_VFRMT_1280x720p30_64_27_def HDMI_VFRMT_1280x720p50_64_27_def
  HDMI_VFRMT_1280x720p60_64_27_def HDMI_VFRMT_1280x720p100_64_27_def
  HDMI_VFRMT_1280x720p120_64_27_def HDMI_VFRMT_1920x1080p24_64_27_def
  HDMI_VFRMT_1920x1080p25_64_27_def HDMI_VFRMT_1920x1080p30_64_27_def
  HDMI_VFRMT_1920x1080p50_64_27_def HDMI_VFRMT_1920x1080p60_64_27_def
  HDMI_VFRMT_1920x1080p100_64_27_def HDMI_VFRMT_1920x1080p120_64_27_def
  HDMI_VFRMT_1680x720p24_64_27_def HDMI_VFRMT_1680x720p25_64_27_def
  HDMI_VFRMT_1680x720p30_64_27_def HDMI_VFRMT_1680x720p50_64_27_def
  HDMI_VFRMT_1680x720p60_64_27_def HDMI_VFRMT_1680x720p100_64_27_def
  HDMI_VFRMT_1680x720p120_64_27_def HDMI_VFRMT_2560x1080p24_64_27_def
  HDMI_VFRMT_2560x1080p25_64_27_def HDMI_VFRMT_2560x1080p30_64_27_def
  HDMI_VFRMT_2560x1080p50_64_27_def HDMI_VFRMT_2560x1080p60_64_27_def
  HDMI_VFRMT_2560x1080p100_64_27_def HDMI_VFRMT_2560x1080p120_64_27_def
  HDMI_VFRMT_3840x2160p24_16_9_def HDMI_VFRMT_3840x2160p25_16_9_def
  HDMI_VFRMT_3840x2160p30_16_9_def HDMI_VFRMT_3840x2160p50_16_9_def
  HDMI_VFRMT_3840x2160p60_16_9_def HDMI_VFRMT_4096x2160p24_256_135_def
  HDMI_VFRMT_4096x2160p25_256_135_def HDMI_VFRMT_4096x2160p30_256_135_def
  HDMI_VFRMT_4096x2160p50_256_135_def HDMI_VFRMT_4096x2160p60_256_135_def
  HDMI_VFRMT_3840x2160p24_64_27_def HDMI_VFRMT_3840x2160p25_64_27_def
  HDMI_VFRMT_3840x2160p30_64_27_def HDMI_VFRMT_3840x2160p50_64_27_def
  HDMI_VFRMT_3840x2160p60_64_27_def HDMI_VFRMT_END_def EVFRMT_OFF_def
  HDMI_EVFRMT_3840x2160p30_16_9_def HDMI_EVFRMT_3840x2160p25_16_9_def
  HDMI_EVFRMT_3840x2160p24_16_9_def HDMI_EVFRMT_4096x2160p24_16_9_def HDMI_EVFRMT_END_def
  WQXGA_OFF_def HDMI_VFRMT_2560x1600p60_16_9_def HDMI_WQXGAFRMT_END_def WXGA_OFF_def
  HDMI_VFRMT_1280x800p60_16_10_def HDMI_VFRMT_1366x768p60_16_10_def HDMI_WXGAFRMT_END_def
  ETI_OFF_def HDMI_VFRMT_800x600p60_4_3_def ETI_VFRMT_END_def ETII_OFF_def
  HDMI_VFRMT_1024x768p60_4_3_def HDMI_VFRMT_1280x1024p60_5_4_def ETII_VFRMT_END_def
  ETIII_OFF_def HDMI_VFRMT_848x480p60_16_9_def HDMI_VFRMT_1280x960p60_4_3_def
  HDMI_VFRMT_1360x768p60_16_9_def HDMI_VFRMT_1440x900p60_16_10_def
  HDMI_VFRMT_1400x1050p60_4_3_def HDMI_VFRMT_1680x1050p60_16_10_def
  HDMI_VFRMT_1600x1200p60_4_3_def HDMI_VFRMT_1920x1200p60_16_10_def ETIII_VFRMT_END_def
  RESERVE_OFF_def HDMI_VFRMT_RESERVE1_def HDMI_VFRMT_RESERVE2_def HDMI_VFRMT_RESERVE3_def
  HDMI_VFRMT_RESERVE4_def HDMI_VFRMT_RESERVE5_def HDMI_VFRMT_RESERVE6_def
  HDMI_VFRMT_RESERVE7_def HDMI_VFRMT_RESERVE8_def RESERVE_VFRMT_END_def HDMI_VFRMT_MAX_def

lemma hdmi_vfrmt_max: "unat HDMI_VFRMT_MAX = 154"
  by (simp add: hdmi_codes)

section \<open>Timings\<close>

definition VFRMT_NOT_SUPPORTED :: "cint \<Rightarrow> msm_hdmi_mode_timing_info" where
  "VFRMT_NOT_SUPPORTED vfrmt =
     timing vfrmt 0 0 0 0 False 0 0 0 0 False 0 0 False False HDMI_RES_AR_INVALID 0"

definition HDMI_VFRMT_640x480p60_4_3_TIMING :: msm_hdmi_mode_timing_info where
  "HDMI_VFRMT_640x480p60_4_3_TIMING = timing HDMI_VFRMT_640x480p60_4_3
     640 16 96 48 True 480 10 2 33 True 25200 60000 False True HDMI_RES_AR_4_3 0"
definition HDMI_VFRMT_720x480p60_4_3_TIMING :: msm_hdmi_mode_timing_info where
  "HDMI_VFRMT_720x480p60_4_3_TIMING = timing HDMI_VFRMT_720x480p60_4_3
     720 16 62 60 True 480 9 6 30 True 27027 60000 False True HDMI_RES_AR_4_3 0"
definition HDMI_VFRMT_720x480p60_16_9_TIMING :: msm_hdmi_mode_timing_info where
  "HDMI_VFRMT_720x480p60_16_9_TIMING = timing HDMI_VFRMT_720x480p60_16_9
     720 16 62 60 True 480 9 6 30 True 27027 60000 False True HDMI_RES_AR_16_9 0"
definition HDMI_VFRMT_1280x720p60_16_9_TIMING :: msm_hdmi_mode_timing_info where
  "HDMI_VFRMT_1280x720p60_16_9_TIMING = timing HDMI_VFRMT_1280x720p60_16_9
     1280 110 40 220 False 720 5 5 20 False 74250 60000 False True HDMI_RES_AR_16_9 0"
definition HDMI_VFRMT_1920x1080i60_16_9_TIMING :: msm_hdmi_mode_timing_info where
  "HDMI_VFRMT_1920x1080i60_16_9_TIMING = timing HDMI_VFRMT_1920x1080i60_16_9
     1920 88 44 148 False 540 2 5 5 False 74250 60000 False True HDMI_RES_AR_16_9 0"
definition HDMI_VFRMT_1440x480i60_4_3_TIMING :: msm_hdmi_mode_timing_info where
  "HDMI_VFRMT_1440x480i60_4_3_TIMING = timing HDMI_VFRMT_1440x480i60_4_3
     1440 38 124 114 True 240 4 3 15 True 27000 60000 True True HDMI_RES_AR_4_3 0"
definition HDMI_VFRMT_1440x480i60_16_9_TIMING :: msm_hdmi_mode_timing_info where
  "HDMI_VFRMT_1440x480i60_16_9_TIMING = timing HDMI_VFRMT_1440x480i60_16_9
     1440 38 124 114 True 240 4 3 15 True 27000 60000 True True HDMI_RES_AR_16_9 0"
definition HDMI_VFRMT_1920x1080p60_16_9_TIMING :: msm_hdmi_mode_timing_info where
  "HDMI_VFRMT_1920x1080p60_16_9_TIMING = timing HDMI_VFRMT_1920x1080p60_16_9
     1920 88 44 148 False 1080 4 5 36 False 148500 60000 False True HDMI_RES_AR_16_9 0"
definition HDMI_VFRMT_720x576p50_4_3_TIMING :: msm_hdmi_mode_timing_info where
  "HDMI_VFRMT_720x576p50_4_3_TIMING = timing HDMI_VFRMT_720x576p50_4_3
     720 12 64 68 True 576 5 5 39 True 27000 50000 False True HDMI_RES_AR_4_3 0"
definition HDMI_VFRMT_720x576p50_16_9_TIMING :: msm_hdmi_mode_timing_info where
  "HDMI_VFRMT_720x576p50_16_9_TIMING = timing HDMI_VFRMT_720x576p50_16_9
     720 12 64 68 True 576 5 5 39 True 27000 50000 False True HDMI_RES_AR_16_9 0"
definition HDMI_VFRMT_1280x720p50_16_9_TIMING :: msm_hdmi_mode_timing_info where
  "HDMI_VFRMT_1280x720p50_16_9_TIMING = timing HDMI_VFRMT_1280x720p50_16_9
     1280 440 40 220 False 720 5 5 20 False 74250 50000 False True HDMI_RES_AR_16_9 0"
definition HDMI_VFRMT_1440x576i50_4_3_TIMING :: msm_hdmi_mode_timing_info where
  "HDMI_VFRMT_1440x576i50_4_3_TIMING = timing HDMI_VFRMT_1440x576i50_4_3
     1440 24 126 138 True 288 2 3 19 True 27000 50000 True True HDMI_RES_AR_4_3 0"
definition HDMI_VFRMT_1440x576i50_16_9_TIMING :: msm_hdmi_mode_timing_info where
  "HDMI_VFRMT_1440x576i50_16_9_TIMING = timing HDMI_VFRMT_1440x576i50_16_9
     1440 24 126 138 True 288 2 3 19 True 27000 50000 True True HDMI_RES_AR_16_9 0"
definition HDMI_VFRMT_1920x1080p50_16_9_TIMING :: msm_hdmi_mode_timing_info where
  "HDMI_VFRMT_1920x1080p50_16_9_TIMING = timing HDMI_VFRMT_1920x1080p50_16_9
     1920 528 44 148 False 1080 4 5 36 False 148500 50000 False True HDMI_RES_AR_16_9 0"
definition HDMI_VFRMT_1920x1080p24_16_9_TIMING :: msm_hdmi_mode_timing_info where
  "HDMI_VFRMT_1920x1080p24_16_9_TIMING = timing HDMI_VFRMT_1920x1080p24_16_9
     1920 638 44 148 False 1080 4 5 36 False 74250 24000 False True HDMI_RES_AR_16_9 0"
definition HDMI_VFRMT_1920x1080p25_16_9_TIMING :: msm_hdmi_mode_timing_info where
  "HDMI_VFRMT_1920x1080p25_16_9_TIMING = timing HDMI_VFRMT_1920x1080p25_16_9
     1920 528 44 148 False 1080 4 5 36 False 74250 25000 False True HDMI_RES_AR_16_9 0"
definition HDMI_VFRMT_1920x1080p30_16_9_TIMING :: msm_hdmi_mode_timing_info where
  "HDMI_VFRMT_1920x1080p30_16_9_TIMING = timing HDMI_VFRMT_1920x1080p30_16_9
     1920 88 44 148 False 1080 4 5 36 False 74250 30000 False True HDMI_RES_AR_16_9 0"
definition HDMI_VFRMT_1024x768p60_4_3_TIMING :: msm_hdmi_mode_timing_info where
  "HDMI_VFRMT_1024x768p60_4_3_TIMING = timing HDMI_VFRMT_1024x768p60_4_3
     1024 24 136 160 False 768 2 6 29 False 65000 60000 False True HDMI_RES_AR_4_3 0"
definition HDMI_VFRMT_1280x1024p60_5_4_TIMING :: msm_hdmi_mode_timing_info where
  "HDMI_VFRMT_1280x1024p60_5_4_TIMING = timing HDMI_VFRMT_1280x1024p60_5_4
     1280 48 112 248 False 1024 1 3 38 False 108000 60000 False True HDMI_RES_AR_5_4 0"
definition HDMI_VFRMT_2560x1600p60_16_9_TIMING :: msm_hdmi_mode_timing_info where
  "HDMI_VFRMT_2560x1600p60_16_9_TIMING = timing HDMI_VFRMT_2560x1600p60_16_9
     2560 48 32 80 False 1600 3 6 37 False 268500 60000 False True HDMI_RES_AR_16_9 0"
definition HDMI_EVFRMT_3840x2160p30_16_9_TIMING :: msm_hdmi_mode_timing_info where
  "HDMI_EVFRMT_3840x2160p30_16_9_TIMING = timing HDMI_EVFRMT_3840x2160p30_16_9
     3840 176 88 296 False 2160 8 10 72 False 297000 30000 False True HDMI_RES_AR_16_9 0"
definition HDMI_EVFRMT_3840x2160p25_16_9_TIMING :: msm_hdmi_mode_timing_info where
  "HDMI_EVFRMT_3840x2160p25_16_9_TIMING = timing HDMI_EVFRMT_3840x2160p25_16_9
     3840 1056 88 296 False 2160 8 10 72 False 297000 25000 False True HDMI_RES_AR_16_9 0"
definition HDMI_EVFRMT_3840x2160p24_16_9_TIMING :: msm_hdmi_mode_timing_info where
  "HDMI_EVFRMT_3840x2160p24_16_9_TIMING = timing HDMI_EVFRMT_3840x2160p24_16_9
     3840 1276 88 296 False 2160 8 10 72 False 297000 24000 False True HDMI_RES_AR_16_9 0"
definition HDMI_EVFRMT_4096x2160p24_16_9_TIMING :: msm_hdmi_mode_timing_info where
  "HDMI_EVFRMT_4096x2160p24_16_9_TIMING = timing HDMI_EVFRMT_4096x2160p24_16_9
     4096 1020 88 296 False 2160 8 10 72 False 297000 24000 False True HDMI_RES_AR_16_9 0"
definition HDMI_VFRMT_800x600p60_4_3_TIMING :: msm_hdmi_mode_timing_info where
  "HDMI_VFRMT_800x600p60_4_3_TIMING = timing HDMI_VFRMT_800x600p60_4_3
     800 40 128 88 False 600 1 4 23 False 40000 60000 False True HDMI_RES_AR_4_3 0"
definition HDMI_VFRMT_848x480p60_16_9_TIMING :: msm_hdmi_mode_timing_info where
  "HDMI_VFRMT_848x480p60_16_9_TIMING = timing HDMI_VFRMT_848x480p60_16_9
     848 16 112 112 False 480 6 8 23 False 33750 60000 False True HDMI_RES_AR_16_9 0"
definition HDMI_VFRMT_1280x960p60_4_3_TIMING :: msm_hdmi_mode_timing_info where
  "HDMI_VFRMT_1280x960p60_4_3_TIMING = timing HDMI_VFRMT_1280x960p60_4_3
     1280 96 112 312 False 960 1 3 36 False 108000 60000 False True HDMI_RES_AR_4_3 0"
definition HDMI_VFRMT_1360x768p60_16_9_TIMING :: msm_hdmi_mode_timing_info where
  "HDMI_VFRMT_1360x768p60_16_9_TIMING = timing HDMI_VFRMT_1360x768p60_16_9
     1360 64 112 256 False 768 3 6 18 False 85500 60000 False True HDMI_RES_AR_16_9 0"
definition HDMI_VFRMT_1440x900p60_16_10_TIMING :: msm_hdmi_mode_timing_info where
  "HDMI_VFRMT_1440x900p60_16_10_TIMING = timing HDMI_VFRMT_1440x900p60_16_10
     1440 48 32 80 False 900 3 6 17 True 88750 60000 False True HDMI_RES_AR_16_10 0"
definition HDMI_VFRMT_1400x1050p60_4_3_TIMING :: msm_hdmi_mode_timing_info where
  "HDMI_VFRMT_1400x1050p60_4_3_TIMING = timing HDMI_VFRMT_1400x1050p60_4_3
     1400 48 32 80 False 1050 3 4 23 True 101000 60000 False True HDMI_RES_AR_4_3 0"
definition HDMI_VFRMT_1680x1050p60_16_10_TIMING :: msm_hdmi_mode_timing_info where
  "HDMI_VFRMT_1680x1050p60_16_10_TIMING = timing HDMI_VFRMT_1680x1050p60_16_10
     1680 48 32 80 False 1050 3 6 21 True 119000 60000 False True HDMI_RES_AR_16_10 0"
definition HDMI_VFRMT_1600x1200p60_4_3_TIMING :: msm_hdmi_mode_timing_info where
  "HDMI_VFRMT_1600x1200p60_4_3_TIMING = timing HDMI_VFRMT_1600x1200p60_4_3
     1600 64 192 304 False 1200 1 3 46 False 162000 60000 False True HDMI_RES_AR_4_3 0"
definition HDMI_VFRMT_1920x1200p60_16_10_TIMING :: msm_hdmi_mode_timing_info where
  "HDMI_VFRMT_1920x1200p60_16_10_TIMING = timing HDMI_VFRMT_1920x1200p60_16_10
     1920 48 32 80 False 1200 3 6 26 True 154000 60000 False True HDMI_RES_AR_16_10 0"
definition HDMI_VFRMT_1366x768p60_16_10_TIMING :: msm_hdmi_mode_timing_info where
  "HDMI_VFRMT_1366x768p60_16_10_TIMING = timing HDMI_VFRMT_1366x768p60_16_10
     1366 70 143 213 False 768 3 3 24 False 85500 60000 False True HDMI_RES_AR_16_10 0"
definition HDMI_VFRMT_1280x800p60_16_10_TIMING :: msm_hdmi_mode_timing_info where
  "HDMI_VFRMT_1280x800p60_16_10_TIMING = timing HDMI_VFRMT_1280x800p60_16_10
     1280 72 128 200 True 800 3 6 22 False 83500 60000 False True HDMI_RES_AR_16_10 0"
definition HDMI_VFRMT_3840x2160p24_16_9_TIMING :: msm_hdmi_mode_timing_info where
  "HDMI_VFRMT_3840x2160p24_16_9_TIMING = timing HDMI_VFRMT_3840x2160p24_16_9
     3840 1276 88 296 False 2160 8 10 72 False 297000 24000 False True HDMI_RES_AR_16_9 0"
definition HDMI_VFRMT_3840x2160p25_16_9_TIMING :: msm_hdmi_mode_timing_info where
  "HDMI_VFRMT_3840x2160p25_16_9_TIMING = timing HDMI_VFRMT_3840x2160p25_16_9
     3840 1056 88 296 False 2160 8 10 72 False 297000 25000 False True HDMI_RES_AR_16_9 0"
definition HDMI_VFRMT_3840x2160p30_16_9_TIMING :: msm_hdmi_mode_timing_info where
  "HDMI_VFRMT_3840x2160p30_16_9_TIMING = timing HDMI_VFRMT_3840x2160p30_16_9
     3840 176 88 296 False 2160 8 10 72 False 297000 30000 False True HDMI_RES_AR_16_9 0"
definition HDMI_VFRMT_3840x2160p50_16_9_TIMING :: msm_hdmi_mode_timing_info where
  "HDMI_VFRMT_3840x2160p50_16_9_TIMING = timing HDMI_VFRMT_3840x2160p50_16_9
     3840 1056 88 296 False 2160 8 10 72 False 594000 50000 False True HDMI_RES_AR_16_9 0"
definition HDMI_VFRMT_3840x2160p60_16_9_TIMING :: msm_hdmi_mode_timing_info where
  "HDMI_VFRMT_3840x2160p60_16_9_TIMING = timing HDMI_VFRMT_3840x2160p60_16_9
     3840 176 88 296 False 2160 8 10 72 False 594000 60000 False True HDMI_RES_AR_16_9 0"
definition HDMI_VFRMT_4096x2160p24_256_135_TIMING :: msm_hdmi_mode_timing_info where
  "HDMI_VFRMT_4096x2160p24_256_135_TIMING = timing HDMI_VFRMT_4096x2160p24_256_135
     4096 1020 88 296 False 2160 8 10 72 False 297000 24000 False True HDMI_RES_AR_256_135 0"
definition HDMI_VFRMT_4096x2160p25_256_135_TIMING :: msm_hdmi_mode_timing_info where
  "HDMI_VFRMT_4096x2160p25_256_135_TIMING = timing HDMI_VFRMT_4096x2160p25_256_135
     4096 968 88 128 False 2160 8 10 72 False 297000 25000 False True HDMI_RES_AR_256_135 0"
definition HDMI_VFRMT_4096x2160p30_256_135_TIMING :: msm_hdmi_mode_timing_info where
  "HDMI_VFRMT_4096x2160p30_256_135_TIMING = timing HDMI_VFRMT_4096x2160p30_256_135
     4096 88 88 128 False 2160 8 10 72 False 297000 30000 False True HDMI_RES_AR_256_135 0"
definition HDMI_VFRMT_4096x2160p50_256_135_TIMING :: msm_hdmi_mode_timing_info where
  "HDMI_VFRMT_4096x2160p50_256_135_TIMING = timing HDMI_VFRMT_4096x2160p50_256_135
     4096 968 88 128 False 2160 8 10 72 False 594000 50000 False True HDMI_RES_AR_256_135 0"
definition HDMI_VFRMT_4096x2160p60_256_135_TIMING :: msm_hdmi_mode_timing_info where
  "HDMI_VFRMT_4096x2160p60_256_135_TIMING = timing HDMI_VFRMT_4096x2160p60_256_135
     4096 88 88 128 False 2160 8 10 72 False 594000 60000 False True HDMI_RES_AR_256_135 0"
definition HDMI_VFRMT_3840x2160p24_64_27_TIMING :: msm_hdmi_mode_timing_info where
  "HDMI_VFRMT_3840x2160p24_64_27_TIMING = timing HDMI_VFRMT_3840x2160p24_64_27
     3840 1276 88 296 False 2160 8 10 72 False 297000 24000 False True HDMI_RES_AR_64_27 0"
definition HDMI_VFRMT_3840x2160p25_64_27_TIMING :: msm_hdmi_mode_timing_info where
  "HDMI_VFRMT_3840x2160p25_64_27_TIMING = timing HDMI_VFRMT_3840x2160p25_64_27
     3840 1056 88 296 False 2160 8 10 72 False 297000 25000 False True HDMI_RES_AR_64_27 0"
definition HDMI_VFRMT_3840x2160p30_64_27_TIMING :: msm_hdmi_mode_timing_info where
  "HDMI_VFRMT_3840x2160p30_64_27_TIMING = timing HDMI_VFRMT_3840x2160p30_64_27
     3840 176 88 296 False 2160 8 10 72 False 297000 30000 False True HDMI_RES_AR_64_27 0"
definition HDMI_VFRMT_3840x2160p50_64_27_TIMING :: msm_hdmi_mode_timing_info where
  "HDMI_VFRMT_3840x2160p50_64_27_TIMING = timing HDMI_VFRMT_3840x2160p50_64_27
     3840 1056 88 296 False 2160 8 10 72 False 594000 50000 False True HDMI_RES_AR_64_27 0"
definition HDMI_VFRMT_3840x2160p60_64_27_TIMING :: msm_hdmi_mode_timing_info where
  "HDMI_VFRMT_3840x2160p60_64_27_TIMING = timing HDMI_VFRMT_3840x2160p60_64_27
     3840 176 88 296 False 2160 8 10 72 False 594000 60000 False True HDMI_RES_AR_64_27 0"

lemmas hdmi_timings =
  HDMI_VFRMT_640x480p60_4_3_TIMING_def HDMI_VFRMT_720x480p60_4_3_TIMING_def
  HDMI_VFRMT_720x480p60_16_9_TIMING_def HDMI_VFRMT_1280x720p60_16_9_TIMING_def
  HDMI_VFRMT_1920x1080i60_16_9_TIMING_def HDMI_VFRMT_1440x480i60_4_3_TIMING_def
  HDMI_VFRMT_1440x480i60_16_9_TIMING_def HDMI_VFRMT_1920x1080p60_16_9_TIMING_def
  HDMI_VFRMT_720x576p50_4_3_TIMING_def HDMI_VFRMT_720x576p50_16_9_TIMING_def
  HDMI_VFRMT_1280x720p50_16_9_TIMING_def HDMI_VFRMT_1440x576i50_4_3_TIMING_def
  HDMI_VFRMT_1440x576i50_16_9_TIMING_def HDMI_VFRMT_1920x1080p50_16_9_TIMING_def
  HDMI_VFRMT_1920x1080p24_16_9_TIMING_def HDMI_VFRMT_1920x1080p25_16_9_TIMING_def
  HDMI_VFRMT_1920x1080p30_16_9_TIMING_def HDMI_VFRMT_1024x768p60_4_3_TIMING_def
  HDMI_VFRMT_1280x1024p60_5_4_TIMING_def HDMI_VFRMT_2560x1600p60_16_9_TIMING_def
  HDMI_EVFRMT_3840x2160p30_16_9_TIMING_def HDMI_EVFRMT_3840x2160p25_16_9_TIMING_def
  HDMI_EVFRMT_3840x2160p24_16_9_TIMING_def HDMI_EVFRMT_4096x2160p24_16_9_TIMING_def
  HDMI_VFRMT_800x600p60_4_3_TIMING_def HDMI_VFRMT_848x480p60_16_9_TIMING_def
  HDMI_VFRMT_1280x960p60_4_3_TIMING_def HDMI_VFRMT_1360x768p60_16_9_TIMING_def
  HDMI_VFRMT_1440x900p60_16_10_TIMING_def HDMI_VFRMT_1400x1050p60_4_3_TIMING_def
  HDMI_VFRMT_1680x1050p60_16_10_TIMING_def HDMI_VFRMT_1600x1200p60_4_3_TIMING_def
  HDMI_VFRMT_1920x1200p60_16_10_TIMING_def HDMI_VFRMT_1366x768p60_16_10_TIMING_def
  HDMI_VFRMT_1280x800p60_16_10_TIMING_def HDMI_VFRMT_3840x2160p24_16_9_TIMING_def
  HDMI_VFRMT_3840x2160p25_16_9_TIMING_def HDMI_VFRMT_3840x2160p30_16_9_TIMING_def
  HDMI_VFRMT_3840x2160p50_16_9_TIMING_def HDMI_VFRMT_3840x2160p60_16_9_TIMING_def
  HDMI_VFRMT_4096x2160p24_256_135_TIMING_def HDMI_VFRMT_4096x2160p25_256_135_TIMING_def
  HDMI_VFRMT_4096x2160p30_256_135_TIMING_def HDMI_VFRMT_4096x2160p50_256_135_TIMING_def
  HDMI_VFRMT_4096x2160p60_256_135_TIMING_def HDMI_VFRMT_3840x2160p24_64_27_TIMING_def
  HDMI_VFRMT_3840x2160p25_64_27_TIMING_def HDMI_VFRMT_3840x2160p30_64_27_TIMING_def
  HDMI_VFRMT_3840x2160p50_64_27_TIMING_def HDMI_VFRMT_3840x2160p60_64_27_TIMING_def

section \<open>The lookup table\<close>

type_synonym lut = "msm_hdmi_mode_timing_info list"

text \<open>
  \<open>LUT[MODE] = MODE##\_TIMING\<close>. An index out of range would write behind the array in C and
  is ignored here; that no index is out of range is a theorem.
\<close>

definition MSM_HDMI_MODES_SET_TIMING ::
    "lut \<Rightarrow> cint \<times> msm_hdmi_mode_timing_info \<Rightarrow> lut" where
  "MSM_HDMI_MODES_SET_TIMING lut m = lut[unat (fst m) := snd m]"

definition MSM_HDMI_MODES_INIT_TIMINGS :: "lut \<Rightarrow> lut" where
  "MSM_HDMI_MODES_INIT_TIMINGS lut =
     fold (\<lambda>i l. l[i := VFRMT_NOT_SUPPORTED (of_nat i)]) [0..<unat HDMI_VFRMT_MAX] lut"

definition MSM_HDMI_MODES_GET_DETAILS ::
    "msm_hdmi_mode_timing_info \<Rightarrow> cint \<times> msm_hdmi_mode_timing_info \<Rightarrow>
      msm_hdmi_mode_timing_info" where
  "MSM_HDMI_MODES_GET_DETAILS mode m = snd m"

text \<open>The modes of each type, in the order in which they are set, each with its timing.\<close>

definition cea_modes :: "(cint \<times> msm_hdmi_mode_timing_info) list" where
  "cea_modes =
    [(HDMI_VFRMT_640x480p60_4_3, HDMI_VFRMT_640x480p60_4_3_TIMING),
     (HDMI_VFRMT_720x480p60_4_3, HDMI_VFRMT_720x480p60_4_3_TIMING),
     (HDMI_VFRMT_720x480p60_16_9, HDMI_VFRMT_720x480p60_16_9_TIMING),
     (HDMI_VFRMT_1280x720p60_16_9, HDMI_VFRMT_1280x720p60_16_9_TIMING),
     (HDMI_VFRMT_1920x1080i60_16_9, HDMI_VFRMT_1920x1080i60_16_9_TIMING),
     (HDMI_VFRMT_1440x480i60_4_3, HDMI_VFRMT_1440x480i60_4_3_TIMING),
     (HDMI_VFRMT_1440x480i60_16_9, HDMI_VFRMT_1440x480i60_16_9_TIMING),
     (HDMI_VFRMT_1920x1080p60_16_9, HDMI_VFRMT_1920x1080p60_16_9_TIMING),
     (HDMI_VFRMT_720x576p50_4_3, HDMI_VFRMT_720x576p50_4_3_TIMING),
     (HDMI_VFRMT_720x576p50_16_9, HDMI_VFRMT_720x576p50_16_9_TIMING),
     (HDMI_VFRMT_1280x720p50_16_9, HDMI_VFRMT_1280x720p50_16_9_TIMING),
     (HDMI_VFRMT_1440x576i50_4_3, HDMI_VFRMT_1440x576i50_4_3_TIMING),
     (HDMI_VFRMT_1440x576i50_16_9, HDMI_VFRMT_1440x576i50_16_9_TIMING),
     (HDMI_VFRMT_1920x1080p50_16_9, HDMI_VFRMT_1920x1080p50_16_9_TIMING),
     (HDMI_VFRMT_1920x1080p24_16_9, HDMI_VFRMT_1920x1080p24_16_9_TIMING),
     (HDMI_VFRMT_1920x1080p25_16_9, HDMI_VFRMT_1920x1080p25_16_9_TIMING),
     (HDMI_VFRMT_1920x1080p30_16_9, HDMI_VFRMT_1920x1080p30_16_9_TIMING),
     (HDMI_VFRMT_3840x2160p24_16_9, HDMI_VFRMT_3840x2160p24_16_9_TIMING),
     (HDMI_VFRMT_3840x2160p25_16_9, HDMI_VFRMT_3840x2160p25_16_9_TIMING),
     (HDMI_VFRMT_3840x2160p30_16_9, HDMI_VFRMT_3840x2160p30_16_9_TIMING),
     (HDMI_VFRMT_3840x2160p50_16_9, HDMI_VFRMT_3840x2160p50_16_9_TIMING),
     (HDMI_VFRMT_3840x2160p60_16_9, HDMI_VFRMT_3840x2160p60_16_9_TIMING),
     (HDMI_VFRMT_4096x2160p24_256_135, HDMI_VFRMT_4096x2160p24_256_135_TIMING),
     (HDMI_VFRMT_4096x2160p25_256_135, HDMI_VFRMT_4096x2160p25_256_135_TIMING),
     (HDMI_VFRMT_4096x2160p30_256_135, HDMI_VFRMT_4096x2160p30_256_135_TIMING),
     (HDMI_VFRMT_4096x2160p50_256_135, HDMI_VFRMT_4096x2160p50_256_135_TIMING),
     (HDMI_VFRMT_4096x2160p60_256_135, HDMI_VFRMT_4096x2160p60_256_135_TIMING),
     (HDMI_VFRMT_3840x2160p24_64_27, HDMI_VFRMT_3840x2160p24_64_27_TIMING),
     (HDMI_VFRMT_3840x2160p25_64_27, HDMI_VFRMT_3840x2160p25_64_27_TIMING),
     (HDMI_VFRMT_3840x2160p30_64_27, HDMI_VFRMT_3840x2160p30_64_27_TIMING),
     (HDMI_VFRMT_3840x2160p50_64_27, HDMI_VFRMT_3840x2160p50_64_27_TIMING),
     (HDMI_VFRMT_3840x2160p60_64_27, HDMI_VFRMT_3840x2160p60_64_27_TIMING)]"

definition xtnd_modes :: "(cint \<times> msm_hdmi_mode_timing_info) list" where
  "xtnd_modes =
    [(HDMI_EVFRMT_3840x2160p30_16_9, HDMI_EVFRMT_3840x2160p30_16_9_TIMING),
     (HDMI_EVFRMT_3840x2160p25_16_9, HDMI_EVFRMT_3840x2160p25_16_9_TIMING),
     (HDMI_EVFRMT_3840x2160p24_16_9, HDMI_EVFRMT_3840x2160p24_16_9_TIMING),
     (HDMI_EVFRMT_4096x2160p24_16_9, HDMI_EVFRMT_4096x2160p24_16_9_TIMING)]"

definition dvi_modes :: "(cint \<times> msm_hdmi_mode_timing_info) list" where
  "dvi_modes =
    [(HDMI_VFRMT_1024x768p60_4_3, HDMI_VFRMT_1024x768p60_4_3_TIMING),
     (HDMI_VFRMT_1280x1024p60_5_4, HDMI_VFRMT_1280x1024p60_5_4_TIMING),
     (HDMI_VFRMT_2560x1600p60_16_9, HDMI_VFRMT_2560x1600p60_16_9_TIMING),
     (HDMI_VFRMT_800x600p60_4_3, HDMI_VFRMT_800x600p60_4_3_TIMING),
     (HDMI_VFRMT_848x480p60_16_9, HDMI_VFRMT_848x480p60_16_9_TIMING),
     (HDMI_VFRMT_1280x960p60_4_3, HDMI_VFRMT_1280x960p60_4_3_TIMING),
     (HDMI_VFRMT_1360x768p60_16_9, HDMI_VFRMT_1360x768p60_16_9_TIMING),
     (HDMI_VFRMT_1440x900p60_16_10, HDMI_VFRMT_1440x900p60_16_10_TIMING),
     (HDMI_VFRMT_1400x1050p60_4_3, HDMI_VFRMT_1400x1050p60_4_3_TIMING),
     (HDMI_VFRMT_1680x1050p60_16_10, HDMI_VFRMT_1680x1050p60_16_10_TIMING),
     (HDMI_VFRMT_1600x1200p60_4_3, HDMI_VFRMT_1600x1200p60_4_3_TIMING),
     (HDMI_VFRMT_1920x1200p60_16_10, HDMI_VFRMT_1920x1200p60_16_10_TIMING),
     (HDMI_VFRMT_1366x768p60_16_10, HDMI_VFRMT_1366x768p60_16_10_TIMING),
     (HDMI_VFRMT_1280x800p60_16_10, HDMI_VFRMT_1280x800p60_16_10_TIMING)]"

definition MSM_HDMI_MODES_SET_SUPP_TIMINGS :: "lut \<Rightarrow> cint \<Rightarrow> lut" where
  "MSM_HDMI_MODES_SET_SUPP_TIMINGS lut type =
     (let set_all = (\<lambda>ms l. fold (\<lambda>m l. MSM_HDMI_MODES_SET_TIMING l m) ms l);
          l1 = (if type AND MSM_HDMI_MODES_CEA \<noteq> 0 then set_all cea_modes lut else lut);
          l2 = (if type AND MSM_HDMI_MODES_XTND \<noteq> 0 then set_all xtnd_modes l1 else l1)
      in if type AND MSM_HDMI_MODES_DVI \<noteq> 0 then set_all dvi_modes l2 else l2)"

end
