(* ===== verification/HdmiModesCorrect.thy ===== *)
theory HdmiModesCorrect
  imports HdmiModes
begin

unbundle bit_operations_syntax

text \<open>
  The HDMI lookup table is filled as its clients expect: every entry carries its own index,
  the supported ones are exactly those of the types asked for, no macro writes out of range
  or twice, and the timings agree with their pixel clocks.
\<close>

section \<open>Filling a table from a list of modes\<close>

definition set_modes :: "(cint \<times> msm_hdmi_mode_timing_info) list \<Rightarrow> lut \<Rightarrow> lut" where
  "set_modes ms lut = fold (\<lambda>m l. MSM_HDMI_MODES_SET_TIMING l m) ms lut"

definition all_modes :: "(cint \<times> msm_hdmi_mode_timing_info) list" where
  "all_modes = cea_modes @ xtnd_modes @ dvi_modes"

definition modes_of :: "cint \<Rightarrow> (cint \<times> msm_hdmi_mode_timing_info) list" where
  "modes_of t =
     (if t AND MSM_HDMI_MODES_CEA \<noteq> 0 then cea_modes else []) @
     (if t AND MSM_HDMI_MODES_XTND \<noteq> 0 then xtnd_modes else []) @
     (if t AND MSM_HDMI_MODES_DVI \<noteq> 0 then dvi_modes else [])"

lemma supp_timings_modes: "MSM_HDMI_MODES_SET_SUPP_TIMINGS lut t = set_modes (modes_of t) lut"
  by (simp add: MSM_HDMI_MODES_SET_SUPP_TIMINGS_def modes_of_def set_modes_def Let_def)

lemma set_modes_length [simp]: "length (set_modes ms lut) = length lut"
  unfolding set_modes_def
  by (induction ms arbitrary: lut) (simp_all add: MSM_HDMI_MODES_SET_TIMING_def)

lemma set_modes_other: "i \<notin> unat ` fst ` set ms \<Longrightarrow> set_modes ms lut ! i = lut ! i"
  unfolding set_modes_def
  by (induction ms arbitrary: lut) (auto simp: MSM_HDMI_MODES_SET_TIMING_def)

lemma set_modes_hit:
  assumes "distinct (map fst ms)" and "(m, t) \<in> set ms" and "unat m < length lut"
  shows "set_modes ms lut ! unat m = t"
  using assms
proof (induction ms arbitrary: lut)
  case (Cons x ms)
  let ?l = "MSM_HDMI_MODES_SET_TIMING lut x"
  have step: "set_modes (x # ms) lut = set_modes ms ?l" by (simp add: set_modes_def)
  show ?case
  proof (cases "(m, t) \<in> set ms")
    case True
    with Cons show ?thesis unfolding step by (simp add: MSM_HDMI_MODES_SET_TIMING_def)
  next
    case False
    with Cons.prems have "x = (m, t)" by auto
    with Cons.prems(1) have "m \<notin> fst ` set ms" by simp
    then have "unat m \<notin> unat ` fst ` set ms" by (force simp: word_unat_eq_iff)
    with \<open>x = (m, t)\<close> Cons.prems(3) show ?thesis
      unfolding step by (simp add: set_modes_other MSM_HDMI_MODES_SET_TIMING_def)
  qed
qed simp

section \<open>What is true of the tables themselves\<close>

text \<open>Every mode is below the bound, every timing carries the code of its mode and is marked
  as supported, and no code occurs twice.\<close>

lemma all_modes_codes:
  "map fst all_modes =
     [1, 2, 3, 4, 5, 6, 7, 16, 17, 18, 19, 21, 22, 31, 32, 33, 34, 93, 94, 95, 96, 97, 98, 99,
      100, 101, 102, 103, 104, 105, 106, 107, 128, 129, 130, 131, 136, 137, 132, 135, 138, 139,
      140, 141, 142, 143, 144, 145, 134, 133]"
  by (simp add: all_modes_def cea_modes_def xtnd_modes_def dvi_modes_def hdmi_codes)

lemma all_modes_distinct: "distinct (map fst all_modes)"
  unfolding all_modes_codes by simp

lemma all_modes_in_range: "m \<in> fst ` set all_modes \<Longrightarrow> unat m < unat HDMI_VFRMT_MAX"
proof -
  have "\<forall>m \<in> set (map fst all_modes). unat m < 154" unfolding all_modes_codes by simp
  then show "m \<in> fst ` set all_modes \<Longrightarrow> unat m < unat HDMI_VFRMT_MAX"
    by (auto simp: hdmi_vfrmt_max)
qed

lemma all_modes_self:
  "\<forall>(m, t) \<in> set all_modes. video_format t = m \<and> supported t = 1"
  by (simp add: all_modes_def cea_modes_def xtnd_modes_def dvi_modes_def hdmi_timings timing_def)

lemma modes_of_subset: "set (modes_of t) \<subseteq> set all_modes"
  by (auto simp: modes_of_def all_modes_def)

lemma modes_of_distinct: "distinct (map fst (modes_of t))"
  using all_modes_distinct by (auto simp: modes_of_def all_modes_def)

section \<open>The initialised table\<close>

lemma init_fold:
  "n \<le> length lut \<Longrightarrow> i < length lut \<Longrightarrow>
     fold (\<lambda>i l. l[i := VFRMT_NOT_SUPPORTED (of_nat i)]) [0..<n] lut ! i =
       (if i < n then VFRMT_NOT_SUPPORTED (of_nat i) else lut ! i)"
proof (induction n)
  case (Suc n)
  have len: "length (fold (\<lambda>i l. l[i := f i]) xs lut) = length lut" for f :: "nat \<Rightarrow> _" and xs
    by (induction xs arbitrary: lut) simp_all
  from Suc show ?case by (auto simp: len nth_list_update less_Suc_eq)
qed simp

lemma init_length: "length (MSM_HDMI_MODES_INIT_TIMINGS lut) = length lut"
proof -
  have "length (fold (\<lambda>i l. l[i := f i]) xs lut) = length lut" for f :: "nat \<Rightarrow> _" and xs
    by (induction xs arbitrary: lut) simp_all
  then show ?thesis by (simp add: MSM_HDMI_MODES_INIT_TIMINGS_def)
qed

lemma init_entry:
  assumes "unat HDMI_VFRMT_MAX \<le> length lut" and "i < unat HDMI_VFRMT_MAX"
  shows "MSM_HDMI_MODES_INIT_TIMINGS lut ! i = VFRMT_NOT_SUPPORTED (of_nat i)"
  using assms init_fold [of "unat HDMI_VFRMT_MAX" lut i]
  by (simp add: MSM_HDMI_MODES_INIT_TIMINGS_def)

definition filled :: "lut \<Rightarrow> cint \<Rightarrow> lut" where
  "filled lut t = MSM_HDMI_MODES_SET_SUPP_TIMINGS (MSM_HDMI_MODES_INIT_TIMINGS lut) t"

lemma filled_entry:
  assumes "unat HDMI_VFRMT_MAX \<le> length lut" and "i < unat HDMI_VFRMT_MAX"
  shows "filled lut t ! i =
     (case map_of (modes_of t) (of_nat i) of
        None \<Rightarrow> VFRMT_NOT_SUPPORTED (of_nat i) | Some e \<Rightarrow> e)"
proof (cases "map_of (modes_of t) (of_nat i :: cint)")
  case None
  have i: "unat (of_nat i :: cint) = i"
    using assms(2) by (intro unat_of_nat_small) (simp add: hdmi_vfrmt_max)
  from None have "(of_nat i :: cint) \<notin> fst ` set (modes_of t)" by (simp add: map_of_eq_None_iff)
  then have "i \<notin> unat ` fst ` set (modes_of t)" using i by (metis imageE word_unat_eq_iff)
  with None show ?thesis
    by (simp add: filled_def supp_timings_modes set_modes_other init_entry [OF assms])
next
  case (Some e)
  have i: "unat (of_nat i :: cint) = i"
    using assms(2) by (intro unat_of_nat_small) (simp add: hdmi_vfrmt_max)
  from Some have "(of_nat i, e) \<in> set (modes_of t)" by (rule map_of_SomeD)
  from set_modes_hit [OF modes_of_distinct this, of "MSM_HDMI_MODES_INIT_TIMINGS lut"] i assms
  show ?thesis by (simp add: filled_def supp_timings_modes Some init_length)
qed


section \<open>Timings and pixel clocks\<close>

text \<open>
  Pixels per line and lines per field, blanking included; the product with the refresh rate
  (in thousandths of a hertz) against the pixel clock (in kilohertz), within one percent.
\<close>

definition h_total :: "msm_hdmi_mode_timing_info \<Rightarrow> nat" where
  "h_total t = unat (active_h t) + unat (front_porch_h t) + unat (pulse_width_h t) +
     unat (back_porch_h t)"

definition v_total :: "msm_hdmi_mode_timing_info \<Rightarrow> nat" where
  "v_total t = unat (active_v t) + unat (front_porch_v t) + unat (pulse_width_v t) +
     unat (back_porch_v t)"

definition clock_matches :: "msm_hdmi_mode_timing_info \<Rightarrow> bool" where
  "clock_matches t \<longleftrightarrow>
     (let clk = unat (pixel_freq t) * 1000000; prod = h_total t * v_total t * unat (refresh_rate t)
      in 100 * prod \<le> 101 * clk \<and> 99 * clk \<le> 100 * prod)"

lemma clocks_match:
  "list_all (\<lambda>(m, t). clock_matches t = (m \<noteq> HDMI_VFRMT_1920x1080i60_16_9)) all_modes"
  by (simp add: all_modes_def cea_modes_def xtnd_modes_def dvi_modes_def hdmi_timings timing_def
      hdmi_codes clock_matches_def h_total_def v_total_def)

section \<open>Properties\<close>

text \<open>After initialisation and the setting of any types, every entry of the lookup table
  carries its own index as its video format.\<close>

theorem lut_self_indexed:
  assumes "unat HDMI_VFRMT_MAX \<le> length lut" and "i < unat HDMI_VFRMT_MAX"
  shows "video_format (MSM_HDMI_MODES_SET_SUPP_TIMINGS (MSM_HDMI_MODES_INIT_TIMINGS lut) t ! i) =
           of_nat i"
proof -
  have "video_format e = of_nat i" if "map_of (modes_of t) (of_nat i) = Some e" for e
    using all_modes_self modes_of_subset map_of_SomeD [OF that] by fastforce
  then show ?thesis
    using filled_entry [OF assms, of t]
    by (auto simp: filled_def VFRMT_NOT_SUPPORTED_def timing_def split: option.splits)
qed

theorem lut_self_indexed_witness:
  "video_format (MSM_HDMI_MODES_SET_SUPP_TIMINGS (MSM_HDMI_MODES_INIT_TIMINGS
     (replicate 154 (VFRMT_NOT_SUPPORTED 0))) MSM_HDMI_MODES_DVI ! 16) = 16"
  using lut_self_indexed [of "replicate 154 (VFRMT_NOT_SUPPORTED 0)" 16 MSM_HDMI_MODES_DVI]
  by (simp add: hdmi_vfrmt_max)

text \<open>C11: The entries marked as supported are exactly the codes of the types that were set, and
  such an entry is the timing that GET\_DETAILS yields for its mode.\<close>

theorem lut_supported_iff:
  assumes "unat HDMI_VFRMT_MAX \<le> length lut" and "i < unat HDMI_VFRMT_MAX"
  shows "(supported (MSM_HDMI_MODES_SET_SUPP_TIMINGS (MSM_HDMI_MODES_INIT_TIMINGS lut) t ! i) = 1
            \<longleftrightarrow> of_nat i \<in> fst ` set (modes_of t)) \<and>
         (\<forall>m \<in> set (modes_of t). unat (fst m) = i \<longrightarrow>
            MSM_HDMI_MODES_SET_SUPP_TIMINGS (MSM_HDMI_MODES_INIT_TIMINGS lut) t ! i =
              MSM_HDMI_MODES_GET_DETAILS d m)"
proof -
  have sup: "supported e = 1" if "map_of (modes_of t) (of_nat i) = Some e" for e
    using all_modes_self modes_of_subset map_of_SomeD [OF that] by fastforce
  have "filled lut t ! i = snd m" if "m \<in> set (modes_of t)" "unat (fst m) = i" for m
  proof -
    have "of_nat i = fst m" using that(2) by auto
    then have "map_of (modes_of t) (of_nat i) = Some (snd m)"
      using that(1) modes_of_distinct [of t] by simp
    then show ?thesis using filled_entry [OF assms, of t] by simp
  qed
  then show ?thesis
    using filled_entry [OF assms, of t] sup map_of_eq_None_iff [of "modes_of t" "of_nat i"]
    by (auto simp: filled_def VFRMT_NOT_SUPPORTED_def timing_def MSM_HDMI_MODES_GET_DETAILS_def
        split: option.splits)
qed

theorem lut_supported_iff_witness:
  "supported (MSM_HDMI_MODES_SET_SUPP_TIMINGS (MSM_HDMI_MODES_INIT_TIMINGS
     (replicate 154 (VFRMT_NOT_SUPPORTED 0))) MSM_HDMI_MODES_XTND ! 16) \<noteq> 1"
proof -
  have "(16 :: cint) \<notin> fst ` set (modes_of MSM_HDMI_MODES_XTND)"
    by (simp add: modes_of_def MSM_HDMI_MODES_XTND_def MSM_HDMI_MODES_CEA_def
        MSM_HDMI_MODES_DVI_def xtnd_modes_def hdmi_codes)
  then show ?thesis
    using lut_supported_iff [of "replicate 154 (VFRMT_NOT_SUPPORTED 0)" 16 MSM_HDMI_MODES_XTND]
    by (simp add: hdmi_vfrmt_max)
qed

text \<open>No type of modes writes out of the range of the table, and no two modes share a code,
  so that no timing is written twice.\<close>

theorem mode_codes_in_range_and_distinct:
  "(\<forall>m \<in> set (cea_modes @ xtnd_modes @ dvi_modes). unat (fst m) < unat HDMI_VFRMT_MAX) \<and>
   distinct (map fst (cea_modes @ xtnd_modes @ dvi_modes))"
  using all_modes_distinct all_modes_in_range unfolding all_modes_def by auto

theorem mode_codes_in_range_and_distinct_witness:
  "unat (fst (HDMI_VFRMT_1280x800p60_16_10, HDMI_VFRMT_1280x800p60_16_10_TIMING))
     < unat HDMI_VFRMT_MAX"
  using mode_codes_in_range_and_distinct unfolding dvi_modes_def by simp

text \<open>The timing of every mode, total pixels times total lines times refresh rate, agrees
  with its pixel clock to within one percent, with one exception: 1920x1080i60.\<close>

theorem timing_agrees_with_clock:
  "list_all (\<lambda>(m, t). clock_matches t = (m \<noteq> HDMI_VFRMT_1920x1080i60_16_9))
     (cea_modes @ xtnd_modes @ dvi_modes)"
  using clocks_match by (simp add: all_modes_def)

text \<open>The exception: the vertical back porch is 5 lines, and the mode is not marked as
  interlaced, unlike the other interlaced modes.\<close>

lemma i1080_not_interlaced:
  "interlaced HDMI_VFRMT_1920x1080i60_16_9_TIMING = 0"
  "interlaced HDMI_VFRMT_1440x480i60_16_9_TIMING = 1"
  "v_total HDMI_VFRMT_1920x1080i60_16_9_TIMING = 552"
  by (simp_all add: hdmi_timings timing_def v_total_def)

end
