(* ===== verification/HealthState.thy ===== *)
theory HealthState
  imports Os
begin

text \<open>
  The state of the health HAL (health/): the battery properties that pass through it, the
  static objects that keep state from one update to the next, and the environment, which
  also stands for the updaters of the shared pixelhealth library.
\<close>

section \<open>Battery properties\<close>

datatype BatteryStatus =
    BATTERY_STATUS_UNKNOWN | BATTERY_STATUS_CHARGING | BATTERY_STATUS_DISCHARGING
  | BATTERY_STATUS_NOT_CHARGING | BATTERY_STATUS_FULL

text \<open>The two fields of \<open>android::BatteryProperties\<close> that the code of this device touches.\<close>

record BatteryProperties =
  batteryStatus :: BatteryStatus
  batteryLevel :: int

section \<open>Storage reports\<close>

record StorageAttribute =
  isInternal :: bool
  isBootDevice :: bool
  attr_name :: string

record StorageInfo =
  info_attr :: StorageAttribute
  eol :: int
  lifetimeA :: int
  lifetimeB :: int
  version :: string

text \<open>The eleven counters of a disk, in the order of the fields of \<open>DiskStats\<close>.\<close>

record DiskStats =
  stats_attr :: StorageAttribute
  reads :: int
  readMerges :: int
  readSectors :: int
  readTicks :: int
  diskWrites :: int
  writeMerges :: int
  writeSectors :: int
  writeTicks :: int
  ioInFlight :: int
  ioTicks :: int
  ioInQueue :: int

datatype Result = R_SUCCESS | R_NOT_SUPPORTED

datatype health_msg =
    StorageInfoCb Result "StorageInfo list"
  | DiskStatsCb Result "DiskStats list"

section \<open>State and environment\<close>

datatype RechargeState = WAIT_EOC | RECHARGING_CYCLE | OVER_LOADING | NO_POWER_SOURCE | INACTIVE

text \<open>
  \<open>h_update name\<close> is what the updater \<open>name\<close> of the shared library does to the properties;
  \<open>h_uninit\<close> is the content of a variable that is read before it is written; \<open>h_info_max\<close> and
  \<open>h_stats_max\<close> are the largest values of the fields of the storage interface.
\<close>

record health_env = "health_msg env" +
  h_update :: "string \<Rightarrow> health_msg event list \<Rightarrow> BatteryProperties \<Rightarrow> BatteryProperties"
  h_uninit :: "health_msg event list \<Rightarrow> int"
  h_info_max :: nat
  h_stats_max :: nat

record health = "health_msg os" +
  rc_state :: RechargeState
  start_time :: int
  recharge_soc :: int
  sw_cap :: int
  hw_cap :: int
  nom_cap :: int

text \<open>The static objects after their constructors: what no constructor sets is zero.\<close>

definition health_init :: health where
  "health_init = \<lparr>hist = [], rc_state = INACTIVE, start_time = 0, recharge_soc = 0,
     sw_cap = 0, hw_cap = 0, nom_cap = 0\<rparr>"

end
