(* ===== verification/Double.thy ===== *)
theory Double
  imports Prelude "HOL-Library.Log_Nat"
begin

text \<open>
  The C type \<open>double\<close> as the health service uses it: rational numbers, with every operation
  rounded to 53 binary digits, halves to even, as IEEE 754 prescribes; and the library
  function \<open>round\<close>, halves away from zero. Subnormal numbers and overflow, far from the
  values that occur (at most 53-bit quotients of times and levels), are left out.
\<close>

definition expo :: "rat \<Rightarrow> int" where
  "expo x = (case quotient_of x of (n, d) \<Rightarrow>
     let k = bitlen n - bitlen d in if 2 powi k \<le> x then k else k - 1)"

definition round_even :: "rat \<Rightarrow> int" where
  "round_even x =
     (let f = \<lfloor>x\<rfloor>; r = x - of_int f
      in if r < 1 / 2 \<or> r = 1 / 2 \<and> even f then f else f + 1)"

definition fl :: "rat \<Rightarrow> rat" where
  "fl x =
     (if x = 0 then 0
      else let e = expo \<bar>x\<bar>
           in sgn x * of_int (round_even (\<bar>x\<bar> * 2 powi (52 - e))) * 2 powi (e - 52))"

definition c_round :: "rat \<Rightarrow> int" where
  "c_round x = (if 0 \<le> x then \<lfloor>x + 1 / 2\<rfloor> else - \<lfloor>- x + 1 / 2\<rfloor>)"

lemma expo_bounds:
  assumes "0 < x"
  shows "2 powi (expo x) \<le> x \<and> x < 2 powi (expo x + 1)"
proof -
  obtain n d where q: "quotient_of x = (n, d)" by force
  have d: "0 < d" and x: "x = of_int n / of_int d"
    using quotient_of_denom_pos [OF q] quotient_of_div [OF q] by simp_all
  with assms have n: "0 < n" by (simp add: zero_less_divide_iff)
  let ?a = "bitlen n" and ?b = "bitlen d"
  have a1: "1 \<le> ?a" and b1: "1 \<le> ?b" using n d by (simp_all add: bitlen_alt_def)
  have pow_le: "2 powi i \<le> (of_int m :: rat)" if "0 \<le> i" "2 ^ nat i \<le> m" for i m
    using that by (metis of_int_le_iff of_int_numeral of_int_power power_int_nonneg_exp)
  have pow_gt: "(of_int m :: rat) < 2 powi i" if "0 \<le> i" "m < 2 ^ nat i" for i m
    using that by (metis of_int_less_iff of_int_numeral of_int_power power_int_nonneg_exp)
  have lo: "2 powi (?a - 1) \<le> (of_int n :: rat)" "2 powi (?b - 1) \<le> (of_int d :: rat)"
    using pow_le bitlen_bounds [OF n] bitlen_bounds [OF d] a1 b1 by simp_all
  have hi: "(of_int n :: rat) < 2 powi ?a" "(of_int d :: rat) < 2 powi ?b"
    using pow_gt bitlen_bounds [OF n] bitlen_bounds [OF d] a1 b1 by simp_all
  have dpos: "(0 :: rat) < of_int d" using d by simp
  have below: "2 powi (?a - ?b - 1) \<le> x"
  proof -
    have "2 powi (?a - ?b - 1) * (of_int d :: rat) \<le> 2 powi (?a - ?b - 1) * 2 powi ?b"
      using hi(2) by (intro mult_left_mono) simp_all
    also have "\<dots> = 2 powi (?a - 1)" by (simp flip: power_int_add)
    also note lo(1)
    finally show ?thesis using dpos by (simp add: x field_simps)
  qed
  have above: "x < 2 powi (?a - ?b + 1)"
  proof -
    note hi(1)
    also have "2 powi ?a = 2 powi (?a - ?b + 1) * (2 powi (?b - 1) :: rat)"
      by (simp flip: power_int_add)
    also have "\<dots> \<le> 2 powi (?a - ?b + 1) * of_int d"
      using lo(2) by (intro mult_left_mono) simp_all
    finally show ?thesis using dpos by (simp add: x field_simps)
  qed
  show ?thesis
    using below above by (auto simp: expo_def q Let_def)
qed

lemma round_even_error: "\<bar>of_int (round_even x) - x\<bar> \<le> 1 / 2"
proof -
  have "of_int \<lfloor>x\<rfloor> \<le> x" "x < of_int \<lfloor>x\<rfloor> + 1" by linarith+
  then show ?thesis unfolding round_even_def Let_def by (auto split: if_splits)
qed

lemma round_even_int [simp]: "round_even (of_int n) = n"
  by (simp add: round_even_def)

text \<open>The relative error of one operation.\<close>

lemma fl_error: "\<bar>fl x - x\<bar> \<le> \<bar>x\<bar> / 2 ^ 53"
proof (cases "x = 0")
  case False
  let ?e = "expo \<bar>x\<bar>" and ?y = "\<bar>x\<bar>"
  let ?m = "?y * 2 powi (52 - ?e)"
  have pos: "0 < ?y" using False by simp
  have y: "?y = ?m * 2 powi (?e - 52)" by (simp add: mult.assoc flip: power_int_add)
  have "fl x - x = sgn x * (of_int (round_even ?m) - ?m) * 2 powi (?e - 52)"
  proof -
    have "fl x - x = sgn x * of_int (round_even ?m) * 2 powi (?e - 52) - sgn x * ?y"
      using False by (simp add: fl_def Let_def mult_sgn_abs)
    also have "sgn x * ?y = sgn x * ?m * 2 powi (?e - 52)" by (subst y) simp
    finally show ?thesis by (simp add: algebra_simps)
  qed
  then have "\<bar>fl x - x\<bar> = \<bar>of_int (round_even ?m) - ?m\<bar> * 2 powi (?e - 52)"
    using False by (simp add: abs_mult power_int_abs abs_sgn_eq)
  also have "\<dots> \<le> 1 / 2 * 2 powi (?e - 52)"
    using round_even_error by (intro mult_right_mono) simp_all
  also have "\<dots> = 2 powi ?e / 2 ^ 53"
    by (simp add: power_int_diff)
  also have "\<dots> \<le> ?y / 2 ^ 53"
    using expo_bounds [OF pos] by (intro divide_right_mono) simp_all
  finally show ?thesis .
qed (simp add: fl_def)

text \<open>Integers of up to 53 bits are exact.\<close>

lemma fl_int:
  assumes "\<bar>n\<bar> < 2 ^ 53"
  shows "fl (of_int n) = of_int n"
proof (cases "n = 0")
  case False
  let ?y = "\<bar>of_int n :: rat\<bar>"
  let ?e = "expo ?y"
  have pos: "0 < ?y" using False by simp
  have "(2 :: rat) powi ?e < 2 powi 53"
  proof -
    have "2 powi ?e \<le> ?y" using expo_bounds [OF pos] by simp
    also have "?y < 2 ^ 53" using assms by (metis of_int_abs of_int_less_iff of_int_numeral of_int_power)
    finally show ?thesis by simp
  qed
  moreover have "(2 :: rat) powi 53 \<le> 2 powi ?e" if "53 \<le> ?e"
    using that by (intro power_int_increasing) simp_all
  ultimately have "?e \<le> 52" by linarith
  then obtain k where k: "52 - ?e = int k" using zero_le_imp_eq_int [of "52 - ?e"] by auto
  have "round_even (?y * 2 powi (52 - ?e)) = \<bar>n\<bar> * 2 ^ k"
    unfolding k using round_even_int [of "\<bar>n\<bar> * 2 ^ k"] by simp
  moreover have "(2 :: rat) ^ k * 2 powi (?e - 52) = 1"
  proof -
    have "(2 :: rat) ^ k * 2 powi (?e - 52) = 2 powi (52 - ?e) * 2 powi (?e - 52)"
      unfolding k by simp
    then show ?thesis by (simp flip: power_int_add)
  qed
  ultimately show ?thesis
    using False by (simp add: fl_def Let_def mult.assoc mult_sgn_abs)
qed (simp add: fl_def)

lemma c_round_nearest: "\<bar>of_int (c_round x) - x\<bar> \<le> 1 / 2"
proof (cases "0 \<le> x")
  case True
  then have "c_round x = \<lfloor>x + 1 / 2\<rfloor>" by (simp add: c_round_def)
  moreover have "\<bar>of_int \<lfloor>x + 1 / 2\<rfloor> - x\<bar> \<le> 1 / 2" by linarith
  ultimately show ?thesis by simp
next
  case False
  then have "c_round x = - \<lfloor>- x + 1 / 2\<rfloor>" by (simp add: c_round_def)
  moreover have "\<bar>of_int \<lfloor>- x + 1 / 2\<rfloor> - (- x)\<bar> \<le> 1 / 2" by linarith
  ultimately show ?thesis by linarith
qed

lemma c_round_int [simp]: "c_round (of_int n) = n"
proof -
  have "\<lfloor>of_int m + 1 / 2 :: rat\<rfloor> = m" for m by linarith
  from this [of n] this [of "- n"] show ?thesis by (simp add: c_round_def)
qed

end
