(* ===== verification/Recharge.thy ===== *)
theory Recharge
  imports HealthState Double
begin

text \<open>
  Battery recharging control (health/BatteryRechargingControl.cpp): once the battery has
  been full, the level that is reported stays at 100 through recharging cycles, and is led
  down to the level of the fuel gauge over 15 minutes when the power source is lost or
  overloaded.
\<close>

section \<open>Operations\<close>

definition kChargerStatus :: string where
  "kChargerStatus = ''sys/class/power_supply/battery/status''"
definition kStatusIsFull :: string where "kStatusIsFull = ''Full''"
definition kStatusIsCharging :: string where "kStatusIsCharging = ''Charging''"
definition kTransitionTime :: int where "kTransitionTime = 15 * 60"
definition kFullSoc :: int where "kFullSoc = 100"

text \<open>The first entry whose string is a prefix of the text; \<open>None\<close> is the result -1.\<close>

fun mapSysfsString :: "string \<Rightarrow> (string \<times> 'v) list \<Rightarrow> 'v option" where
  "mapSysfsString str [] = None"
| "mapSysfsString str ((s, val) # rest) =
     (if strncmp_prefix str s then Some val else mapSysfsString str rest)"

definition batteryStatusMap :: "(string \<times> BatteryStatus) list" where
  "batteryStatusMap =
     [(''Unknown'', BATTERY_STATUS_UNKNOWN), (''Charging'', BATTERY_STATUS_CHARGING),
      (''Discharging'', BATTERY_STATUS_DISCHARGING),
      (''Not charging'', BATTERY_STATUS_NOT_CHARGING), (''Full'', BATTERY_STATUS_FULL)]"

definition getBatteryStatus :: "string \<Rightarrow> BatteryStatus" where
  "getBatteryStatus status =
     (case mapSysfsString status batteryStatusMap of
        None \<Rightarrow> BATTERY_STATUS_UNKNOWN | Some val \<Rightarrow> val)"

text \<open>
  \<open>getTime\<close> is a reading of the boot clock in seconds. \<open>remap soc diff\<close> is the arithmetic of
  \<open>RemapSOC\<close>, every operation in double precision, with the conversion to \<open>int\<close> at the end.
\<close>

definition getTime :: "health_env \<Rightarrow> (health, int) st" where
  "getTime E = clock E"

definition remap :: "int \<Rightarrow> int \<Rightarrow> int" where
  "remap soc diff =
     (let diff_sec = fl (of_int diff);
          q = fl (diff_sec / of_int kTransitionTime)
      in c_round (fl (fl (of_int soc * q) + fl (of_int kFullSoc * fl (1 - q)))))"

definition RemapSOC :: "health_env \<Rightarrow> int \<Rightarrow> (health, int) st" where
  "RemapSOC E soc s =
     (case getTime E s of (now, s1) \<Rightarrow> (remap soc (now - start_time s1), s1))"

text \<open>\<open>start_time = getTime(); rc_state = st; batteryLevel = RemapSOC(batteryLevel)\<close>.\<close>

definition start_remap ::
    "health_env \<Rightarrow> RechargeState \<Rightarrow> BatteryProperties \<Rightarrow> (health, BatteryProperties) st" where
  "start_remap E next props s =
     (case getTime E s of (now, s1) \<Rightarrow>
      case RemapSOC E (batteryLevel props) (s1\<lparr>start_time := now, rc_state := next\<rparr>) of
        (level, s2) \<Rightarrow> (props\<lparr>batteryLevel := level\<rparr>, s2))"

text \<open>The cases of the switch.\<close>

definition wait_eoc ::
    "health_env \<Rightarrow> string \<Rightarrow> BatteryProperties \<Rightarrow> (health, BatteryProperties) st" where
  "wait_eoc E charger_status props s =
     (if batteryLevel props \<noteq> kFullSoc then (props, s\<lparr>rc_state := INACTIVE, recharge_soc := 0\<rparr>)
      else if charger_status = kStatusIsFull then
        (props\<lparr>batteryLevel := kFullSoc\<rparr>, s\<lparr>rc_state := RECHARGING_CYCLE\<rparr>)
      else if charger_status \<noteq> kStatusIsCharging then start_remap E NO_POWER_SOURCE props s
      else (props, s))"

definition recharging_cycle ::
    "health_env \<Rightarrow> string \<Rightarrow> BatteryProperties \<Rightarrow> (health, BatteryProperties) st" where
  "recharging_cycle E charger_status props s =
     (if charger_status = kStatusIsFull then
        (props\<lparr>batteryLevel := kFullSoc\<rparr>, s\<lparr>recharge_soc := 0\<rparr>)
      else if charger_status = kStatusIsCharging then
        (if recharge_soc s = 0 then
           (props\<lparr>batteryLevel := kFullSoc\<rparr>, s\<lparr>recharge_soc := batteryLevel props\<rparr>)
         else if batteryLevel props < recharge_soc s then start_remap E OVER_LOADING props s
         else (props\<lparr>batteryLevel := kFullSoc\<rparr>, s))
      else start_remap E NO_POWER_SOURCE props s)"

definition remapping ::
    "health_env \<Rightarrow> string \<Rightarrow> BatteryProperties \<Rightarrow> (health, BatteryProperties) st" where
  "remapping E charger_status props s =
     (let cur_soc = batteryLevel props in
      case getTime E s of (now, s1) \<Rightarrow>
      (let elapsed_time = fl (of_int (now - start_time s1)) in
       if elapsed_time > of_int kTransitionTime then (props, s1\<lparr>rc_state := INACTIVE\<rparr>)
       else case RemapSOC E (batteryLevel props) s1 of (battery_level, s2) \<Rightarrow>
         if battery_level = batteryLevel props \<and> battery_level \<noteq> kFullSoc
         then (props, s2\<lparr>rc_state := INACTIVE\<rparr>)
         else (let props' = props\<lparr>batteryLevel := battery_level\<rparr> in
               if charger_status = kStatusIsCharging \<and> batteryLevel props' = kFullSoc \<and>
                  cur_soc \<ge> recharge_soc s2
               then (props', s2\<lparr>rc_state := RECHARGING_CYCLE, recharge_soc := batteryLevel props'\<rparr>)
               else (props', s2))))"

definition recharge_switch ::
    "health_env \<Rightarrow> string \<Rightarrow> BatteryProperties \<Rightarrow> (health, BatteryProperties) st" where
  "recharge_switch E charger_status props s =
     (case rc_state s of
        INACTIVE \<Rightarrow> wait_eoc E charger_status props (s\<lparr>rc_state := WAIT_EOC, recharge_soc := 0\<rparr>)
      | WAIT_EOC \<Rightarrow> wait_eoc E charger_status props s
      | RECHARGING_CYCLE \<Rightarrow> recharging_cycle E charger_status props s
      | OVER_LOADING \<Rightarrow> remapping E charger_status props s
      | NO_POWER_SOURCE \<Rightarrow> remapping E charger_status props s)"

definition updateBatteryProperties ::
    "health_env \<Rightarrow> BatteryProperties \<Rightarrow> (health, BatteryProperties) st" where
  "updateBatteryProperties E props s =
     (case read_file E kChargerStatus s of
        (None, s1) \<Rightarrow> (props, s1)
      | (Some text, s1) \<Rightarrow>
          (let charger_status = e_trim E text;
               props1 = props\<lparr>batteryStatus := getBatteryStatus charger_status\<rparr>
           in if rc_state s1 = INACTIVE \<and> batteryLevel props1 < kFullSoc then (props1, s1)
              else recharge_switch E charger_status props1 s1))"

section \<open>The level while it is led down\<close>

text \<open>The exact level: a straight line from 100 at the start to the fuel gauge's level.\<close>

definition exact_level :: "int \<Rightarrow> int \<Rightarrow> rat" where
  "exact_level soc diff = of_int (90000 - (100 - soc) * diff) / 900"

lemma rounding_errors:
  assumes "0 \<le> soc" and "soc \<le> 100" and "\<bar>diff\<bar> \<le> 1000"
  shows "\<bar>fl (fl (of_int soc * fl (of_int diff / 900)) +
             fl (100 * fl (1 - fl (of_int diff / 900)))) - exact_level soc diff\<bar> < 1 / 10000"
proof -
  let ?d = "of_int diff :: rat" and ?s = "of_int soc :: rat"
  have d: "\<bar>?d\<bar> \<le> 1000" using assms(3) by (metis of_int_abs of_int_le_iff of_int_numeral)
  have s: "0 \<le> ?s" "?s \<le> 100" using assms by simp_all
  have err: "\<bar>fl x - x\<bar> \<le> 1 / 1000000000" if "\<bar>x\<bar> \<le> 1000000" for x
    using fl_error [of x] that by (simp add: divide_simps)
  define q where "q = fl (?d / 900)"
  have q: "\<bar>q - ?d / 900\<bar> \<le> 1 / 1000000000"
    unfolding q_def using d by (intro err) linarith
  then have q2: "\<bar>q\<bar> \<le> 2" using d by linarith
  have sq: "\<bar>?s * q\<bar> \<le> 200"
    using mult_mono [of "\<bar>?s\<bar>" 100 "\<bar>q\<bar>" 2] s q2 by (simp add: abs_mult)
  define a where "a = fl (?s * q)"
  have a: "\<bar>a - ?s * q\<bar> \<le> 1 / 1000000000" unfolding a_def using sq by (intro err) linarith
  define r where "r = fl (1 - q)"
  have r: "\<bar>r - (1 - q)\<bar> \<le> 1 / 1000000000" unfolding r_def using q2 by (intro err) linarith
  define b where "b = fl (100 * r)"
  have b: "\<bar>b - 100 * r\<bar> \<le> 1 / 1000000000"
    unfolding b_def using r q2 by (intro err) linarith
  define c where "c = fl (a + b)"
  have c: "\<bar>c - (a + b)\<bar> \<le> 1 / 1000000000"
    unfolding c_def using a b r q2 sq by (intro err) linarith
  have "\<bar>?s * q - ?s * (?d / 900)\<bar> = ?s * \<bar>q - ?d / 900\<bar>"
    using s by (simp only: abs_mult abs_of_nonneg right_diff_distrib [symmetric])
  also have "\<dots> \<le> 100 * (1 / 1000000000)" using s q by (intro mult_mono) simp_all
  finally have e: "\<bar>?s * q - ?s * (?d / 900)\<bar> \<le> 100 / 1000000000" by simp
  have "exact_level soc diff = ?s * (?d / 900) + 100 * (1 - ?d / 900)"
    by (simp add: exact_level_def field_simps)
  moreover define t where "t = ?d / 900"
  moreover define u v where "u = ?s * q" and "v = ?s * t"
  ultimately have "exact_level soc diff = v + 100 * (1 - t)" by (simp only:)
  moreover have qt: "\<bar>q - t\<bar> \<le> 1 / 1000000000" using q by (simp only: t_def)
  moreover have "\<bar>a - v\<bar> \<le> 101 / 1000000000"
    using a e unfolding t_def [symmetric] u_def [symmetric] unfolding v_def [symmetric] by linarith
  ultimately have "\<bar>c - exact_level soc diff\<bar> \<le> 1 / 10001"
    using b c r unfolding abs_le_iff by simp
  then have "\<bar>c - exact_level soc diff\<bar> < 1 / 10000" by linarith
  then show ?thesis by (simp add: c_def b_def r_def a_def q_def)
qed


text \<open>
  The exact level has a denominator of 900, so that an error below a 1800th never moves it
  across a half: the result is a nearest integer to the exact level.
\<close>

lemma remap_nearest:
  assumes "0 \<le> soc" and "soc \<le> 100" and "\<bar>diff\<bar> \<le> 1000"
  shows "\<bar>of_int (remap soc diff) - exact_level soc diff\<bar> \<le> 1 / 2"
proof -
  let ?n = "remap soc diff" and ?k = "90000 - (100 - soc) * diff"
  have "fl (of_int diff) = of_int diff" "fl (of_int 100) = of_int 100"
    using assms(3) by (intro fl_int; simp)+
  then have n: "?n = c_round (fl (fl (of_int soc * fl (of_int diff / 900)) +
      fl (100 * fl (1 - fl (of_int diff / 900)))))"
    by (simp add: remap_def Let_def kTransitionTime_def kFullSoc_def)
  define x where "x = fl (fl (of_int soc * fl (of_int diff / 900)) +
      fl (100 * fl (1 - fl (of_int diff / 900))))"
  have "\<bar>of_int ?n - exact_level soc diff\<bar> < 1 / 2 + 1 / 10000"
    using rounding_errors [OF assms] c_round_nearest [of x]
    unfolding n x_def [symmetric] by linarith
  moreover have "of_int ?n - exact_level soc diff = of_int (900 * ?n - ?k) / 900"
    by (simp add: exact_level_def field_simps)
  ultimately have "\<bar>of_int (900 * ?n - ?k) :: rat\<bar> < 451" by (simp only: abs_divide) simp
  then have "\<bar>900 * ?n - ?k\<bar> \<le> 450" by linarith
  then have "\<bar>of_int (900 * ?n - ?k) :: rat\<bar> \<le> 450" by linarith
  with \<open>of_int ?n - exact_level soc diff = of_int (900 * ?n - ?k) / 900\<close> show ?thesis
    by (simp only: abs_divide) simp
qed

lemma remap_bounds:
  assumes "0 \<le> soc" and "soc \<le> 100" and "-4 \<le> diff" and "diff \<le> 904"
  shows "soc \<le> remap soc diff \<and> remap soc diff \<le> 100"
proof -
  let ?n = "remap soc diff" and ?k = "90000 - (100 - soc) * diff"
  have "\<bar>of_int ?n - exact_level soc diff\<bar> \<le> 1 / 2"
    using assms by (intro remap_nearest) auto
  then have "\<bar>of_int (900 * ?n - ?k) :: rat\<bar> \<le> 450"
    by (simp add: exact_level_def abs_le_iff field_simps)
  then have n: "\<bar>900 * ?n - ?k\<bar> \<le> 450" by linarith
  define p where "p = (100 - soc) * diff"
  have "p \<le> (100 - soc) * 904" "(100 - soc) * (-4) \<le> p"
    using assms unfolding p_def by (intro mult_left_mono; simp)+
  then have "900 * soc - 400 \<le> ?k" "?k \<le> 90400"
    using assms(1,2) unfolding p_def [symmetric] by (simp_all add: algebra_simps)
  with n show ?thesis by linarith
qed

lemma remap_start:
  assumes "0 \<le> soc" and "soc \<le> 100" shows "remap soc 0 = 100"
proof -
  have "\<bar>of_int (remap soc 0) - exact_level soc 0\<bar> \<le> 1 / 2" using assms by (intro remap_nearest) auto
  moreover have "exact_level soc 0 = 100" by (simp add: exact_level_def)
  ultimately show ?thesis by linarith
qed

lemma remap_end:
  assumes "0 \<le> soc" and "soc \<le> 100" shows "remap soc 900 = soc"
proof -
  have "\<bar>of_int (remap soc 900) - exact_level soc 900\<bar> \<le> 1 / 2"
    using assms by (intro remap_nearest) auto
  moreover have "exact_level soc 900 = of_int soc" by (simp add: exact_level_def)
  ultimately show ?thesis by linarith
qed

section \<open>One update\<close>

text \<open>
  The clock may advance during an update: its readings stay within four seconds of \<open>now\<close>,
  and \<open>now\<close> is not before the time that was stored.
\<close>

definition steady :: "health_env \<Rightarrow> int \<Rightarrow> bool" where
  "steady E now \<longleftrightarrow> (\<forall>h. now \<le> e_clock E h \<and> e_clock E h \<le> now + 4)"

definition level_ok :: "int \<Rightarrow> int \<Rightarrow> bool" where
  "level_ok gauge level \<longleftrightarrow> gauge \<le> level \<and> level \<le> 100"

lemma start_remap_level:
  assumes "steady E now" and "0 \<le> batteryLevel props" and "batteryLevel props \<le> 100"
    and "start_remap E st props s = (props', s')"
  shows "level_ok (batteryLevel props) (batteryLevel props')"
proof -
  have "\<bar>e_clock E h - e_clock E h'\<bar> \<le> 4" for h h'
    using assms(1) unfolding steady_def by (smt (verit))
  then have "-4 \<le> e_clock E h - e_clock E h'" "e_clock E h - e_clock E h' \<le> 904" for h h'
    by (smt (verit))+
  then have "level_ok (batteryLevel props)
      (remap (batteryLevel props) (e_clock E h - e_clock E h'))" for h h'
    using assms(2,3) unfolding level_ok_def by (intro remap_bounds)
  with assms(4) show ?thesis
    by (auto simp: start_remap_def RemapSOC_def getTime_def os_simps)
qed

lemma remapping_level:
  assumes "steady E now" and "start_time s \<le> now" and "0 \<le> batteryLevel props"
    and "batteryLevel props \<le> 100" and "remapping E status props s = (props', s')"
  shows "level_ok (batteryLevel props) (batteryLevel props')"
proof -
  let ?t = "e_clock E (hist s)"
  let ?u = "e_clock E (Clock ?t # hist s)"
  have t: "now \<le> ?t" "?u \<le> ?t + 4" "now \<le> ?u"
    using assms(1) unfolding steady_def by (smt (verit))+
  have "level_ok (batteryLevel props) (remap (batteryLevel props) (?u - start_time s))"
    if "\<not> fl (of_int (?t - start_time s)) > 900"
  proof -
    have "?t - start_time s \<le> 900"
    proof (rule ccontr)
      assume "\<not> ?t - start_time s \<le> 900"
      then have big: "901 \<le> ?t - start_time s" by linarith
      define x :: rat where "x = of_int (?t - start_time s)"
      have "901 \<le> x" using big unfolding x_def by (metis of_int_le_iff of_int_numeral)
      moreover have "\<bar>fl x - x\<bar> \<le> \<bar>x\<bar> / 2 ^ 53" by (rule fl_error)
      then have "\<bar>fl x - x\<bar> \<le> \<bar>x\<bar> / 1000000" by (rule order_trans) (simp add: divide_simps)
      ultimately have "fl x > 900" by linarith
      with that show False by (simp add: x_def)
    qed
    with t assms(2-4) show ?thesis unfolding level_ok_def by (intro remap_bounds) linarith+
  qed
  with assms(4,5) show ?thesis
    by (auto simp: remapping_def RemapSOC_def getTime_def os_simps Let_def kTransitionTime_def
        level_ok_def split: if_splits)
qed


lemma update_level:
  assumes "steady E now" and "start_time s \<le> now" and "0 \<le> batteryLevel props"
    and "batteryLevel props \<le> 100" and "updateBatteryProperties E props s = (props', s')"
  shows "level_ok (batteryLevel props) (batteryLevel props')"
proof -
  note level = assms(3,4)
  have start: "level_ok (batteryLevel props) (batteryLevel p')"
    if "start_remap E st (props\<lparr>batteryStatus := b\<rparr>) t = (p', t')" for st b t p' t'
    using start_remap_level [OF assms(1) _ _ that] level by simp
  have remap: "level_ok (batteryLevel props) (batteryLevel p')"
    if "remapping E status (props\<lparr>batteryStatus := b\<rparr>) t = (p', t')" "start_time t = start_time s"
    for status b t p' t'
    using remapping_level [OF assms(1) _ _ _ that(1)] level assms(2) that(2) by simp
  from assms(5) level show ?thesis
    by (auto simp: updateBatteryProperties_def os_simps recharge_switch_def wait_eoc_def
        recharging_cycle_def kFullSoc_def level_ok_def
        split: option.splits if_splits RechargeState.splits
        dest: start [unfolded level_ok_def] remap [unfolded level_ok_def])
qed

lemma start_remap_state:
  "start_remap E st props s = (props', s') \<Longrightarrow> rc_state s' = st \<and> recharge_soc s' = recharge_soc s"
  by (auto simp: start_remap_def RemapSOC_def getTime_def os_simps)

lemma remapping_cases:
  assumes "remapping E status props s = (props', s')"
  shows "rc_state s' = INACTIVE \<and> recharge_soc s' = recharge_soc s \<or>
     rc_state s' = rc_state s \<and> recharge_soc s' = recharge_soc s \<or>
     rc_state s' = RECHARGING_CYCLE \<and> recharge_soc s' = 100 \<and> batteryLevel props' = 100"
  using assms
  by (auto simp: remapping_def RemapSOC_def getTime_def os_simps Let_def kFullSoc_def
      split: if_splits)

text \<open>Whenever an update with a readable status ends in a recharging cycle, it reports 100.\<close>

lemma cycle_level:
  assumes "updateBatteryProperties E props s = (props', s')"
    and "e_read E (hist s) kChargerStatus = Some text" and "rc_state s' = RECHARGING_CYCLE"
  shows "batteryLevel props' = 100"
proof -
  have no_start: "rc_state t' = st" if "start_remap E st p t = (p', t')" for st p t p' t'
    using start_remap_state [OF that] by blast
  have remap: "batteryLevel p' = 100"
    if "remapping E status p t = (p', t')" "rc_state t' = RECHARGING_CYCLE"
      "rc_state t \<noteq> RECHARGING_CYCLE" for status p t p' t'
    using remapping_cases [OF that(1)] that(2,3) by auto
  show ?thesis
  proof (cases "rc_state s")
    case WAIT_EOC
    with assms show ?thesis
      by (auto simp: updateBatteryProperties_def os_simps Let_def recharge_switch_def wait_eoc_def
          kFullSoc_def dest: no_start split: if_splits)
  next
    case RECHARGING_CYCLE
    with assms show ?thesis
      by (auto simp: updateBatteryProperties_def os_simps Let_def recharge_switch_def
          recharging_cycle_def kFullSoc_def dest: no_start split: if_splits)
  next
    case OVER_LOADING
    with assms show ?thesis
      by (auto simp: updateBatteryProperties_def os_simps Let_def recharge_switch_def
          dest: remap split: if_splits)
  next
    case NO_POWER_SOURCE
    with assms show ?thesis
      by (auto simp: updateBatteryProperties_def os_simps Let_def recharge_switch_def
          dest: remap split: if_splits)
  next
    case INACTIVE
    with assms show ?thesis
      by (auto simp: updateBatteryProperties_def os_simps Let_def recharge_switch_def wait_eoc_def
          kFullSoc_def dest: no_start split: if_splits)
  qed
qed

text \<open>And a cycle is left only when charging stops or the level falls below the target; the
  update that leaves it on charge still reports 100.\<close>

lemma remap_small:
  assumes "0 \<le> soc" and "soc \<le> 100" and "-4 \<le> diff" and "diff \<le> 4"
  shows "remap soc diff = 100"
proof -
  have near: "\<bar>of_int (remap soc diff) - exact_level soc diff\<bar> \<le> 1 / 2"
    using assms by (intro remap_nearest) auto
  define p where "p = (100 - soc) * diff"
  have "p \<le> (100 - soc) * 4" "(100 - soc) * (-4) \<le> p"
    using assms unfolding p_def by (intro mult_left_mono; simp)+
  then have "p \<le> 400" "-400 \<le> p" using assms(1,2) by (simp_all add: algebra_simps)
  then have "\<bar>p\<bar> \<le> 400" by linarith
  then have p: "\<bar>of_int p :: rat\<bar> \<le> 400" by linarith
  have "exact_level soc diff = 100 - of_int p / 900"
    by (simp add: exact_level_def p_def)
  with near p have "\<bar>of_int (remap soc diff) - 100 :: rat\<bar> < 1" by linarith
  then show ?thesis by linarith
qed

lemma cycle_on_charge:
  assumes "steady E now" and "0 \<le> batteryLevel props" and "batteryLevel props \<le> 100"
    and "updateBatteryProperties E props s = (props', s')"
    and "e_read E (hist s) kChargerStatus = Some text"
    and "e_trim E text = kStatusIsFull \<or> e_trim E text = kStatusIsCharging"
    and "rc_state s = RECHARGING_CYCLE"
  shows "batteryLevel props' = 100 \<and>
     (rc_state s' = RECHARGING_CYCLE \<or> rc_state s' = OVER_LOADING \<and> batteryLevel props < recharge_soc s)"
proof -
  have "\<bar>e_clock E h - e_clock E h'\<bar> \<le> 4" for h h'
    using assms(1) unfolding steady_def by (smt (verit))
  then have d: "-4 \<le> e_clock E h - e_clock E h'" "e_clock E h - e_clock E h' \<le> 4" for h h'
    by (smt (verit))+
  have "remap (batteryLevel props) (e_clock E h - e_clock E h') = 100" for h h'
    by (rule remap_small [OF assms(2,3) d])
  with assms(4-7) show ?thesis
    by (auto simp: updateBatteryProperties_def os_simps Let_def recharge_switch_def
        recharging_cycle_def start_remap_def RemapSOC_def getTime_def kFullSoc_def
        kStatusIsFull_def kStatusIsCharging_def split: if_splits)
qed

section \<open>The machine\<close>

inductive recharge_step :: "health \<Rightarrow> health \<Rightarrow> bool" where
  recharge_update: "0 \<le> batteryLevel props \<Longrightarrow> batteryLevel props \<le> 100 \<Longrightarrow>
    updateBatteryProperties E props s = (props', t) \<Longrightarrow> recharge_step s t"

inductive_cases recharge_stepE: "recharge_step s t"

definition recharge_inv :: "health \<Rightarrow> bool" where
  "recharge_inv s \<longleftrightarrow> 0 \<le> recharge_soc s \<and> recharge_soc s \<le> 100 \<and>
     (rc_state s = WAIT_EOC \<longrightarrow> recharge_soc s = 0) \<and>
     (rc_state s = OVER_LOADING \<longrightarrow> 0 < recharge_soc s)"

lemma update_inv:
  assumes "recharge_inv s" and "0 \<le> batteryLevel props" and "batteryLevel props \<le> 100"
    and "updateBatteryProperties E props s = (props', t)"
  shows "recharge_inv t"
proof -
  have start: "recharge_inv t'"
    if "start_remap E st p u = (p', t')" "0 \<le> recharge_soc u" "recharge_soc u \<le> 100"
      "st = NO_POWER_SOURCE \<or> st = OVER_LOADING \<and> 0 < recharge_soc u" for st p u p' t'
    using start_remap_state [OF that(1)] that(2-4) by (auto simp: recharge_inv_def)
  have remap: "recharge_inv t'"
    if "remapping E status p u = (p', t')" "recharge_inv u" for status p u p' t'
    using remapping_cases [OF that(1)] that(2) by (auto simp: recharge_inv_def)
  have wait: "recharge_inv t'"
    if "wait_eoc E status p u = (p', t')" "recharge_soc u = 0" "rc_state u = WAIT_EOC"
    for status p u p' t'
    using that by (auto simp: wait_eoc_def recharge_inv_def split: if_splits dest: start_remap_state)
  have cycle: "recharge_inv t'"
    if "recharging_cycle E status p u = (p', t')" "recharge_inv u" "rc_state u = RECHARGING_CYCLE"
      "0 \<le> batteryLevel p" "batteryLevel p \<le> 100" for status p u p' t'
    using that
    by (auto simp: recharging_cycle_def recharge_inv_def split: if_splits dest: start_remap_state)
  obtain content s1 where r: "read_file E kChargerStatus s = (content, s1)" by force
  then have s1: "recharge_inv s1" using assms(1) by (auto simp: os_simps recharge_inv_def)
  show ?thesis
  proof (cases content)
    case None
    with assms(4) r s1 show ?thesis by (simp add: updateBatteryProperties_def)
  next
    case (Some x)
    with assms r s1 show ?thesis
      by (auto simp: updateBatteryProperties_def Let_def recharge_switch_def recharge_inv_def
          split: if_splits RechargeState.splits dest: wait [unfolded recharge_inv_def]
          cycle [unfolded recharge_inv_def] remap [unfolded recharge_inv_def])
  qed
qed

interpretation recharging: machine "\<lambda>s. s = health_init" recharge_step recharge_inv
proof unfold_locales
  show "recharge_inv s" if "s = health_init" for s
    using that by (simp add: recharge_inv_def health_init_def)
  show "recharge_inv t" if "recharge_step s t" "recharge_inv s" for s t
    using that by (auto elim!: recharge_stepE intro: update_inv)
qed

end
