(* ===== verification/CText.thy ===== *)
theory CText
  imports Prelude
begin

text \<open>
  Numbers as text, as the C and C++ libraries read and write them: \<open>printf\<close> of decimal and
  hexadecimal numbers, \<open>sscanf("%d")\<close>, and the extraction of unsigned numbers from an input
  stream; with the round trips.
\<close>

section \<open>Digits\<close>

definition xdigit :: "nat \<Rightarrow> char" where
  "xdigit d = (if d < 10 then char_of (48 + d) else char_of (87 + d))"

definition digit_val :: "char \<Rightarrow> nat option" where
  "digit_val c =
     (let n = (of_char c :: nat)
      in if 48 \<le> n \<and> n \<le> 57 then Some (n - 48)
         else if 97 \<le> n \<and> n \<le> 102 then Some (n - 87)
         else if 65 \<le> n \<and> n \<le> 70 then Some (n - 55) else None)"

definition is_digit :: "nat \<Rightarrow> char \<Rightarrow> bool" where
  "is_digit b c = (case digit_val c of None \<Rightarrow> False | Some v \<Rightarrow> v < b)"

lemma digit_val_xdigit: "d < 16 \<Longrightarrow> digit_val (xdigit d) = Some d"
  by (auto simp: digit_val_def xdigit_def Let_def)

lemma is_digit_xdigit: "d < b \<Longrightarrow> b \<le> 16 \<Longrightarrow> is_digit b (xdigit d)"
  by (simp add: is_digit_def digit_val_xdigit)

section \<open>Writing numbers\<close>

fun num :: "nat \<Rightarrow> nat \<Rightarrow> string" where
  "num b n = (if n < b \<or> b < 2 then [xdigit n] else num b (n div b) @ [xdigit (n mod b)])"

declare num.simps [simp del]

lemma dec_num: "dec n = num 10 n"
proof (induction n rule: less_induct)
  case (less n)
  show ?case
  proof (cases "n < 10")
    case True
    then show ?thesis by (simp add: num.simps [of 10 n] digit_char_def xdigit_def)
  next
    case False
    with less [of "n div 10"] show ?thesis
      by (subst dec.simps, subst num.simps) (simp add: digit_char_def xdigit_def)
  qed
qed

definition print_d :: "int \<Rightarrow> string" where
  "print_d v = (if v < 0 then CHR ''-'' # dec (nat (- v)) else dec (nat v))"

section \<open>Reading numbers\<close>

definition is_space :: "char \<Rightarrow> bool" where
  "is_space c \<longleftrightarrow> of_char c = (32 :: nat) \<or> 9 \<le> (of_char c :: nat) \<and> of_char c \<le> (13 :: nat)"

definition skip_ws :: "string \<Rightarrow> string" where
  "skip_ws = dropWhile is_space"

definition digits_value :: "nat \<Rightarrow> string \<Rightarrow> nat" where
  "digits_value b ds = foldl (\<lambda>a c. a * b + the (digit_val c)) 0 ds"

definition scan_nat :: "nat \<Rightarrow> string \<Rightarrow> (nat \<times> string) option" where
  "scan_nat b s =
     (let ds = takeWhile (is_digit b) s
      in if ds = [] then None else Some (digits_value b ds, dropWhile (is_digit b) s))"

text \<open>\<open>sscanf(s, "%d", \&v)\<close>: \<open>None\<close> is the result below 1, with \<open>v\<close> left alone. A number
  outside the range of \<open>int\<close>, for which C leaves the result undefined, is kept as it is.\<close>

definition scan_d :: "string \<Rightarrow> int option" where
  "scan_d s =
     (case skip_ws s of
        [] \<Rightarrow> None
      | c # t \<Rightarrow>
          if c = CHR ''-'' then map_option (\<lambda>(n, _). - int n) (scan_nat 10 t)
          else if c = CHR ''+'' then map_option (\<lambda>(n, _). int n) (scan_nat 10 t)
          else map_option (\<lambda>(n, _). int n) (scan_nat 10 (c # t)))"

section \<open>Round trips\<close>

lemma num_digits: "2 \<le> b \<Longrightarrow> b \<le> 16 \<Longrightarrow> c \<in> set (num b n) \<Longrightarrow> is_digit b c"
proof (induction b n rule: num.induct)
  case (1 b n)
  show ?case
  proof (cases "n < b")
    case True
    with 1 show ?thesis by (simp add: num.simps [of b n] is_digit_xdigit)
  next
    case False
    with 1 have "c \<in> set (num b (n div b)) \<or> c = xdigit (n mod b)"
      by (auto simp: num.simps [of b n])
    with 1 False show ?thesis by (auto simp: is_digit_xdigit)
  qed
qed

lemma num_nonempty [simp]: "num b n \<noteq> []"
  by (subst num.simps) simp

lemma num_value: "2 \<le> b \<Longrightarrow> b \<le> 16 \<Longrightarrow> digits_value b (num b n) = n"
proof (induction b n rule: num.induct)
  case (1 b n)
  show ?case
  proof (cases "n < b")
    case True
    with 1 show ?thesis
      by (simp add: num.simps [of b n] digits_value_def digit_val_xdigit)
  next
    case False
    with 1 have "digits_value b (num b (n div b)) = n div b" by simp
    moreover have "n mod b < 16" using 1(2,3) mod_less_divisor [of b n] by linarith
    ultimately show ?thesis
      using False 1(2) by (simp add: num.simps [of b n] digits_value_def digit_val_xdigit)
  qed
qed

text \<open>A number is read back when no digit follows it.\<close>

definition ends_number :: "nat \<Rightarrow> string \<Rightarrow> bool" where
  "ends_number b t \<longleftrightarrow> (case t of [] \<Rightarrow> True | c # _ \<Rightarrow> \<not> is_digit b c)"

lemma scan_num:
  assumes "2 \<le> b" and "b \<le> 16" and "ends_number b t"
  shows "scan_nat b (num b n @ t) = Some (n, t)"
proof -
  have all: "\<forall>c \<in> set (num b n). is_digit b c" using num_digits assms by blast
  have "takeWhile (is_digit b) t = []" "dropWhile (is_digit b) t = t"
    using assms(3) by (cases t; simp add: ends_number_def)+
  with all have "takeWhile (is_digit b) (num b n @ t) = num b n"
    "dropWhile (is_digit b) (num b n @ t) = t"
    by (simp_all add: takeWhile_append2 dropWhile_append2)
  then show ?thesis using num_value [OF assms(1,2)] by (simp add: scan_nat_def Let_def)
qed

lemma digit_not_special:
  assumes "is_digit b c"
  shows "\<not> is_space c" "c \<noteq> CHR ''-''" "c \<noteq> CHR ''+''"
proof -
  have "48 \<le> (of_char c :: nat)"
    using assms by (auto simp: is_digit_def digit_val_def Let_def split: if_splits)
  then show "\<not> is_space c" "c \<noteq> CHR ''-''" "c \<noteq> CHR ''+''" by (auto simp: is_space_def)
qed

lemma num_head:
  assumes "2 \<le> b" and "b \<le> 16"
  shows "\<exists>c t. num b n = c # t \<and> is_digit b c"
proof (cases "num b n")
  case (Cons c t)
  then have "c \<in> set (num b n)" by simp
  with Cons num_digits [OF assms] show ?thesis by blast
qed simp

lemma scan_print_d:
  assumes "ends_number 10 t"
  shows "scan_d (print_d v @ t) = Some v"
proof -
  obtain c u where c: "dec (nat v) = c # u" "is_digit 10 c"
    using num_head [of 10 "nat v"] by (auto simp: dec_num)
  have scan: "scan_nat 10 (dec n @ t) = Some (n, t)" for n
    using scan_num [of 10 t n] assms by (simp add: dec_num)
  show ?thesis
  proof (cases "v < 0")
    case True
    have "\<not> is_space (CHR ''-'')" by code_simp
    with True scan [of "nat (- v)"] show ?thesis
      by (simp add: scan_d_def print_d_def skip_ws_def)
  next
    case False
    with scan [of "nat v"] c digit_not_special [OF c(2)] show ?thesis
      by (simp add: scan_d_def print_d_def skip_ws_def)
  qed
qed

section \<open>Input streams\<close>

text \<open>
  An input stream is the text that is left, or \<open>None\<close> once it has failed (or was never
  opened). Extraction of an unsigned number of at most \<open>lim\<close>: a failed stream and one with
  only white space left do not touch the variable; text that is no number stores 0, a number
  that is too large stores \<open>lim\<close>, and both fail the stream; a minus sign negates modulo
  \<open>lim + 1\<close>. \<open>scan\<close> reads the digits: decimal, or with the base given by the prefix.
\<close>

definition scan_dec :: "string \<Rightarrow> (nat \<times> string) option" where
  "scan_dec = scan_nat 10"

definition scan_auto :: "string \<Rightarrow> (nat \<times> string) option" where
  "scan_auto s =
     (if take 2 s = ''0x'' \<or> take 2 s = ''0X'' then scan_nat 16 (drop 2 s)
      else if take 1 s = ''0'' then scan_nat 8 s else scan_nat 10 s)"

definition get_uint ::
    "(string \<Rightarrow> (nat \<times> string) option) \<Rightarrow> nat \<Rightarrow> int \<Rightarrow> string option \<Rightarrow> int \<times> string option" where
  "get_uint scan lim old stream =
     (case stream of
        None \<Rightarrow> (old, None)
      | Some s \<Rightarrow>
          (case skip_ws s of
             [] \<Rightarrow> (old, None)
           | c # t \<Rightarrow>
               (let negate = (c = CHR ''-''); body = (if c \<in> {CHR ''-'', CHR ''+''} then t else c # t)
                in case scan body of
                     None \<Rightarrow> (0, None)
                   | Some (n, rest) \<Rightarrow>
                       if lim < n then (int lim, None)
                       else (if negate then (- int n) mod (int lim + 1) else int n, Some rest))))"

lemma skip_ws_num:
  assumes "2 \<le> b" and "b \<le> 16" and "list_all is_space ws"
  shows "skip_ws (ws @ num b n @ t) = num b n @ t"
proof -
  obtain c u where c: "num b n = c # u" "is_digit b c" using num_head [OF assms(1,2)] by blast
  have "dropWhile is_space (ws @ c # u @ t) = c # u @ t"
    using assms(3) digit_not_special(1) [OF c(2)] by (induction ws) auto
  with c show ?thesis by (simp add: skip_ws_def)
qed

lemma get_uint_dec:
  assumes "list_all is_space ws" and "ends_number 10 t" and "n \<le> lim"
  shows "get_uint scan_dec lim old (Some (ws @ dec n @ t)) = (int n, Some t)"
proof -
  obtain c u where c: "num 10 n = c # u" "is_digit 10 c" using num_head [of 10 n] by auto
  have "skip_ws (ws @ dec n @ t) = c # u @ t"
    using skip_ws_num [of 10 ws n t] assms(1) c by (simp add: dec_num)
  moreover have "scan_nat 10 (c # u @ t) = Some (n, t)"
    using scan_num [of 10 t n] assms(2) c by simp
  ultimately show ?thesis
    using assms(3) digit_not_special [OF c(2)] by (simp add: get_uint_def scan_dec_def Let_def)
qed

lemma get_uint_hex:
  assumes "list_all is_space ws" and "ends_number 16 t" and "n \<le> lim"
  shows "get_uint scan_auto lim old (Some (ws @ ''0x'' @ num 16 n @ t)) = (int n, Some t)"
proof -
  have "\<not> is_space (CHR ''0'')" by code_simp
  then have "skip_ws (ws @ ''0x'' @ num 16 n @ t) = ''0x'' @ num 16 n @ t"
    using assms(1) unfolding skip_ws_def by (induction ws) auto
  moreover have "scan_auto (''0x'' @ num 16 n @ t) = Some (n, t)"
    using scan_num [of 16 t n] assms(2) by (simp add: scan_auto_def)
  ultimately show ?thesis using assms(3) by (simp add: get_uint_def Let_def)
qed

end
