(* ===== verification/Learned.thy ===== *)
theory Learned
  imports HealthState CText
begin

text \<open>
  Learned battery capacity (health/LearnedCapacityBackupRestore.cpp): the capacity the fuel
  gauge has learned is kept in a file of the persist partition, and given back to the gauge
  when the gauge has fallen back to the nominal capacity.
\<close>

section \<open>Operations\<close>

definition kChgFullDesignFile :: string where
  "kChgFullDesignFile = ''sys/class/power_supply/bms/charge_full_design''"
definition kChgFullFile :: string where
  "kChgFullFile = ''sys/class/power_supply/bms/charge_full''"
definition kSysCFPersistFile :: string where
  "kSysCFPersistFile = ''/mnt/vendor/persist/battery/qcom_charge_full''"

text \<open>A field is assigned only when \<open>sscanf\<close> matches; an unreadable file changes nothing.\<close>

definition assign :: "string \<Rightarrow> int \<Rightarrow> int" where
  "assign content old = (case scan_d content of None \<Rightarrow> old | Some v \<Rightarrow> v)"

definition ReadPersistData :: "health_env \<Rightarrow> health \<Rightarrow> health" where
  "ReadPersistData E s =
     (case read_file E kSysCFPersistFile s of
        (None, s1) \<Rightarrow> s1
      | (Some buffer, s1) \<Rightarrow> s1\<lparr>sw_cap := assign buffer (sw_cap s1)\<rparr>)"

definition ReadNominalCapacity :: "health_env \<Rightarrow> health \<Rightarrow> health" where
  "ReadNominalCapacity E s =
     (case read_file E kChgFullDesignFile s of
        (None, s1) \<Rightarrow> s1
      | (Some buffer, s1) \<Rightarrow> s1\<lparr>nom_cap := assign (e_trim E buffer) (nom_cap s1)\<rparr>)"

definition ReadCapacity :: "health_env \<Rightarrow> health \<Rightarrow> health" where
  "ReadCapacity E s =
     (case read_file E kChgFullFile s of
        (None, s1) \<Rightarrow> s1
      | (Some buffer, s1) \<Rightarrow> s1\<lparr>hw_cap := assign (e_trim E buffer) (hw_cap s1)\<rparr>)"

definition SaveToStorage :: "health_env \<Rightarrow> health \<Rightarrow> health" where
  "SaveToStorage E s = snd (write_file E (print_d (sw_cap s)) kSysCFPersistFile s)"

definition SaveToSRAM :: "health_env \<Rightarrow> health \<Rightarrow> health" where
  "SaveToSRAM E s = snd (write_file E (print_d (hw_cap s)) kChgFullFile s)"

text \<open>The decision of \<open>UpdateAndSave\<close>: back up, restore, or neither.\<close>

datatype cap_action = BackUp | GiveBack | Keep

definition decide :: "int \<Rightarrow> int \<Rightarrow> int \<Rightarrow> cap_action" where
  "decide sw hw nom =
     (if hw \<noteq> 0 then
        (if hw \<noteq> sw \<and> hw \<noteq> nom \<or> sw = 0 then BackUp
         else if sw > 0 \<and> hw = nom then GiveBack else Keep)
      else Keep)"

definition UpdateAndSave :: "health_env \<Rightarrow> health \<Rightarrow> health" where
  "UpdateAndSave E s =
     (case decide (sw_cap s) (hw_cap s) (nom_cap s) of
        BackUp \<Rightarrow> SaveToStorage E (s\<lparr>sw_cap := hw_cap s\<rparr>)
      | GiveBack \<Rightarrow> SaveToSRAM E (s\<lparr>hw_cap := sw_cap s\<rparr>)
      | Keep \<Rightarrow> s)"

definition Restore :: "health_env \<Rightarrow> health \<Rightarrow> health" where
  "Restore E s = UpdateAndSave E (ReadCapacity E (ReadNominalCapacity E (ReadPersistData E s)))"

definition Backup :: "health_env \<Rightarrow> health \<Rightarrow> health" where
  "Backup E s = UpdateAndSave E (ReadCapacity E s)"

section \<open>Facts\<close>

abbreviation caps :: "health \<Rightarrow> int \<times> int \<times> int" where
  "caps s \<equiv> (sw_cap s, hw_cap s, nom_cap s)"

lemma UpdateAndSave_caps:
  "caps (UpdateAndSave E s) =
     (case decide (sw_cap s) (hw_cap s) (nom_cap s) of
        BackUp \<Rightarrow> (hw_cap s, hw_cap s, nom_cap s)
      | GiveBack \<Rightarrow> (sw_cap s, sw_cap s, nom_cap s)
      | Keep \<Rightarrow> caps s)"
  by (simp add: UpdateAndSave_def SaveToStorage_def SaveToSRAM_def os_simps split: cap_action.splits)

lemma decide_settles:
  assumes "(sw', hw', nom') = (case decide sw hw nom of
      BackUp \<Rightarrow> (hw, hw, nom) | GiveBack \<Rightarrow> (sw, sw, nom) | Keep \<Rightarrow> (sw, hw, nom))"
  shows "(case decide sw' hw' nom' of
      BackUp \<Rightarrow> (hw', hw', nom') | GiveBack \<Rightarrow> (sw', sw', nom') | Keep \<Rightarrow> (sw', hw', nom')) =
      (sw', hw', nom')"
  using assms by (auto simp: decide_def split: if_splits)

lemma UpdateAndSave_writes:
  "writes (hist (UpdateAndSave E s)) =
     (case decide (sw_cap s) (hw_cap s) (nom_cap s) of
        BackUp \<Rightarrow> [(kSysCFPersistFile, print_d (hw_cap s))]
      | GiveBack \<Rightarrow> [(kChgFullFile, print_d (sw_cap s))]
      | Keep \<Rightarrow> []) @ writes (hist s)"
  by (simp add: UpdateAndSave_def SaveToStorage_def SaveToSRAM_def os_simps split: cap_action.splits)

lemma assign_print: "ends_number 10 t \<Longrightarrow> assign (print_d v @ t) old = v"
  by (simp add: assign_def scan_print_d)

lemma reads_write_nothing:
  "writes (hist (ReadPersistData E s)) = writes (hist s)"
  "writes (hist (ReadNominalCapacity E s)) = writes (hist s)"
  "writes (hist (ReadCapacity E s)) = writes (hist s)"
  by (auto simp: ReadPersistData_def ReadNominalCapacity_def ReadCapacity_def os_simps
      split: option.splits)

text \<open>A file that gives back what was stored in it last, possibly with a line end after it.\<close>

definition keeps_content :: "health_env \<Rightarrow> string \<Rightarrow> bool" where
  "keeps_content E path \<longleftrightarrow> (\<forall>h c cs. stored path h = c # cs \<longrightarrow>
     (\<exists>t. e_read E h path = Some (c @ t) \<and> ends_number 10 t))"

lemma saved_then_read:
  assumes "keeps_content E kSysCFPersistFile"
    and "e_write E (hist s) (print_d (sw_cap s)) kSysCFPersistFile"
    and "hist t = g @ hist (SaveToStorage E s)" and "stored kSysCFPersistFile g = []"
  shows "caps (ReadPersistData E t) = (sw_cap s, hw_cap t, nom_cap t)"
proof -
  have "stored kSysCFPersistFile (hist t) =
      print_d (sw_cap s) # stored kSysCFPersistFile (hist s)"
    using assms(2-4) by (simp add: SaveToStorage_def os_simps)
  with assms(1) obtain u where
    "e_read E (hist t) kSysCFPersistFile = Some (print_d (sw_cap s) @ u)" "ends_number 10 u"
    unfolding keeps_content_def by blast
  then show ?thesis by (simp add: ReadPersistData_def os_simps assign_print)
qed

text \<open>
  The three files as numbers: \<open>persisted\<close> and the two files of the gauge hold printed
  numbers, possibly followed by a line end, whenever they are read.
\<close>

definition file_holds :: "health_env \<Rightarrow> string \<Rightarrow> int \<Rightarrow> bool" where
  "file_holds E path v \<longleftrightarrow>
     (\<forall>h. \<exists>t. e_read E h path = Some (print_d v @ t) \<and> ends_number 10 t)"

definition trims_ends :: "health_env \<Rightarrow> bool" where
  "trims_ends E \<longleftrightarrow> (\<forall>v t. ends_number 10 t \<longrightarrow>
     (\<exists>t'. e_trim E (print_d v @ t) = print_d v @ t' \<and> ends_number 10 t'))"

lemma read_values:
  assumes "trims_ends E"
  shows "file_holds E kSysCFPersistFile p \<Longrightarrow> caps (ReadPersistData E s) = (p, hw_cap s, nom_cap s)"
    and "file_holds E kChgFullDesignFile n \<Longrightarrow> caps (ReadNominalCapacity E s) = (sw_cap s, hw_cap s, n)"
    and "file_holds E kChgFullFile c \<Longrightarrow> caps (ReadCapacity E s) = (sw_cap s, c, nom_cap s)"
proof -
  have trim: "assign (e_trim E (print_d v @ t)) old = v" if "ends_number 10 t" for v t old
    using assms that unfolding trims_ends_def by (metis assign_print)
  show "caps (ReadPersistData E s) = (p, hw_cap s, nom_cap s)"
    if "file_holds E kSysCFPersistFile p"
  proof -
    from that obtain t where "e_read E (hist s) kSysCFPersistFile = Some (print_d p @ t)"
      "ends_number 10 t" unfolding file_holds_def by blast
    then show ?thesis by (simp add: ReadPersistData_def os_simps assign_print)
  qed
  show "caps (ReadNominalCapacity E s) = (sw_cap s, hw_cap s, n)"
    if "file_holds E kChgFullDesignFile n"
  proof -
    from that obtain t where "e_read E (hist s) kChgFullDesignFile = Some (print_d n @ t)"
      "ends_number 10 t" unfolding file_holds_def by blast
    then show ?thesis by (simp add: ReadNominalCapacity_def os_simps trim)
  qed
  show "caps (ReadCapacity E s) = (sw_cap s, c, nom_cap s)"
    if "file_holds E kChgFullFile c"
  proof -
    from that obtain t where "e_read E (hist s) kChgFullFile = Some (print_d c @ t)"
      "ends_number 10 t" unfolding file_holds_def by blast
    then show ?thesis by (simp add: ReadCapacity_def os_simps trim)
  qed
qed

lemma restore_effect:
  assumes "trims_ends E" and "file_holds E kSysCFPersistFile p"
    and "file_holds E kChgFullDesignFile n" and "file_holds E kChgFullFile c"
  shows "writes (hist (Restore E s)) =
     (case decide p c n of
        BackUp \<Rightarrow> [(kSysCFPersistFile, print_d c)]
      | GiveBack \<Rightarrow> [(kChgFullFile, print_d p)]
      | Keep \<Rightarrow> []) @ writes (hist s)"
proof -
  let ?s1 = "ReadPersistData E s"
  let ?s2 = "ReadNominalCapacity E ?s1"
  let ?s3 = "ReadCapacity E ?s2"
  have "caps ?s3 = (p, c, n)"
    using read_values(1) [OF assms(1,2), of s] read_values(2) [OF assms(1,3), of ?s1]
      read_values(3) [OF assms(1,4), of ?s2] by simp
  then show ?thesis
    by (simp add: Restore_def UpdateAndSave_writes reads_write_nothing split: cap_action.splits)
qed

end
