(* ===== verification/Health.thy ===== *)
theory Health
  imports Recharge Learned
begin

text \<open>
  The health HAL itself (health/Health.cpp, BatteryInfoUpdate.cpp): the pipeline of updaters
  that every report of the battery passes through, and the reports on the storage device,
  which are read from files with the stream operators of C++.
\<close>

section \<open>Storage\<close>

definition kEmmcHealthEol :: string where
  "kEmmcHealthEol = ''/sys/devices/platform/soc/7c4000.sdhci/health/eol''"
definition kEmmcHealthLifetimeA :: string where
  "kEmmcHealthLifetimeA = ''/sys/devices/platform/soc/7c4000.sdhci/health/lifetimeA''"
definition kEmmcHealthLifetimeB :: string where
  "kEmmcHealthLifetimeB = ''/sys/devices/platform/soc/7c4000.sdhci/health/lifetimeB''"
definition kEmmcVersion :: string where "kEmmcVersion = ''/sys/block/mmcblk0/device/fwrev''"
definition kDiskStatsFile :: string where "kDiskStatsFile = ''/sys/block/mmcblk0/stat''"
definition kEmmcName :: string where "kEmmcName = ''MMC0''"

text \<open>A stream on a file that cannot be opened has failed from the start.\<close>

definition assert_open :: "health_env \<Rightarrow> string \<Rightarrow> (health, string option) st" where
  "assert_open E path = read_file E path"

text \<open>\<open>T\<close> is given by the largest value it holds; the base is taken from the prefix.\<close>

definition read_value_from_file ::
    "health_env \<Rightarrow> nat \<Rightarrow> string \<Rightarrow> int \<Rightarrow> (health, int) st" where
  "read_value_from_file E bound path field s =
     (case assert_open E path s of
        (stream, s1) \<Rightarrow> (fst (get_uint scan_auto bound field stream), s1))"

definition UINT64_MAX :: nat where "UINT64_MAX = 2 ^ 64 - 1"

definition read_emmc_version :: "health_env \<Rightarrow> StorageInfo \<Rightarrow> (health, StorageInfo) st" where
  "read_emmc_version E info s =
     (case read_value_from_file E UINT64_MAX kEmmcVersion (h_uninit E (hist s)) s of
        (value, s1) \<Rightarrow> (info\<lparr>version := ''mmc0 '' @ num 16 (nat value)\<rparr>, s1))"

definition fill_emmc_storage_attribute :: "StorageAttribute \<Rightarrow> StorageAttribute" where
  "fill_emmc_storage_attribute attr = \<lparr>isInternal = True, isBootDevice = True, attr_name = kEmmcName\<rparr>"

definition zero_attr :: StorageAttribute where
  "zero_attr = \<lparr>isInternal = False, isBootDevice = False, attr_name = ''''\<rparr>"

definition private_get_storage_info :: "health_env \<Rightarrow> (health, StorageInfo list) st" where
  "private_get_storage_info E s =
     (let info = \<lparr>info_attr = fill_emmc_storage_attribute zero_attr, eol = 0, lifetimeA = 0,
                  lifetimeB = 0, version = ''''\<rparr>
      in case read_emmc_version E info s of (info1, s1) \<Rightarrow>
         case read_value_from_file E (h_info_max E) kEmmcHealthEol (eol info1) s1 of (e, s2) \<Rightarrow>
         case read_value_from_file E (h_info_max E) kEmmcHealthLifetimeA (lifetimeA info1) s2 of
           (a, s3) \<Rightarrow>
         case read_value_from_file E (h_info_max E) kEmmcHealthLifetimeB (lifetimeB info1) s3 of
           (b, s4) \<Rightarrow> ([info1\<lparr>eol := e, lifetimeA := a, lifetimeB := b\<rparr>], s4))"

text \<open>\<open>stream >> f1 >> f2 >> ...\<close> with all fields 0 before: the values, in order.\<close>

fun get_uints :: "nat \<Rightarrow> nat \<Rightarrow> string option \<Rightarrow> int list" where
  "get_uints bound 0 stream = []"
| "get_uints bound (Suc n) stream =
     (case get_uint scan_dec bound 0 stream of
        (v, stream') \<Rightarrow> v # get_uints bound n stream')"

definition disk_stats_of :: "int list \<Rightarrow> DiskStats" where
  "disk_stats_of v =
     \<lparr>stats_attr = fill_emmc_storage_attribute zero_attr, reads = v ! 0, readMerges = v ! 1,
      readSectors = v ! 2, readTicks = v ! 3, diskWrites = v ! 4, writeMerges = v ! 5,
      writeSectors = v ! 6, writeTicks = v ! 7, ioInFlight = v ! 8, ioTicks = v ! 9,
      ioInQueue = v ! 10\<rparr>"

definition private_get_disk_stats :: "health_env \<Rightarrow> (health, DiskStats list) st" where
  "private_get_disk_stats E s =
     (case assert_open E kDiskStatsFile s of
        (stream, s1) \<Rightarrow> ([disk_stats_of (get_uints (h_stats_max E) 11 stream)], s1))"

definition getStorageInfo :: "health_env \<Rightarrow> health \<Rightarrow> health" where
  "getStorageInfo E s =
     (case private_get_storage_info E s of
        (info, s1) \<Rightarrow>
          snd (notify E (StorageInfoCb (if info = [] then R_NOT_SUPPORTED else R_SUCCESS) info) s1))"

definition getDiskStats :: "health_env \<Rightarrow> health \<Rightarrow> health" where
  "getDiskStats E s =
     (case private_get_disk_stats E s of
        (stats, s1) \<Rightarrow>
          snd (notify E (DiskStatsCb (if stats = [] then R_NOT_SUPPORTED else R_SUCCESS) stats) s1))"

section \<open>The battery pipeline\<close>

definition BatteryInfoUpdate_update :: "BatteryProperties \<Rightarrow> BatteryProperties" where
  "BatteryInfoUpdate_update props =
     (if batteryStatus props = BATTERY_STATUS_NOT_CHARGING
      then props\<lparr>batteryStatus := BATTERY_STATUS_DISCHARGING\<rparr> else props)"

text \<open>An updater of the shared library: recorded by name, with its effect on the properties.\<close>

definition shared_update ::
    "health_env \<Rightarrow> string \<Rightarrow> BatteryProperties \<Rightarrow> (health, BatteryProperties) st" where
  "shared_update E name props s =
     (case sys E name s of (_, s1) \<Rightarrow> (h_update E name (hist s) props, s1))"

definition private_healthd_board_battery_update ::
    "health_env \<Rightarrow> BatteryProperties \<Rightarrow> (health, BatteryProperties) st" where
  "private_healthd_board_battery_update E props s =
     (case updateBatteryProperties E props s of (p1, s1) \<Rightarrow>
      case shared_update E ''deviceHealth.update'' p1 s1 of (p2, s2) \<Rightarrow>
      case shared_update E ''battThermalControl.updateThermalState'' p2 s2 of (p3, s3) \<Rightarrow>
      (let p4 = BatteryInfoUpdate_update p3 in
       case shared_update E ''battMetricsLogger.logBatteryProperties'' p4 s3 of (p5, s4) \<Rightarrow>
       case shared_update E ''shutdownMetrics.logShutdownVoltage'' p5 s4 of (p6, s5) \<Rightarrow>
       case sys E (''ccBackupRestoreBMS.Backup '' @ print_d (batteryLevel p6)) s5 of (_, s6) \<Rightarrow>
       shared_update E ''battDefender.update'' p6 (Backup E s6)))"

definition UpdateHealthInfo ::
    "health_env \<Rightarrow> BatteryProperties \<Rightarrow> (health, BatteryProperties) st" where
  "UpdateHealthInfo E health_info = private_healthd_board_battery_update E health_info"

definition private_healthd_board_init :: "health_env \<Rightarrow> health \<Rightarrow> health" where
  "private_healthd_board_init E s =
     Restore E (snd (sys E ''ccBackupRestoreBMS.Restore'' s))"

text \<open>Loading the implementation: only the instance named \<open>default\<close> exists.\<close>

definition HIDL_FETCH_IHealth :: "health_env \<Rightarrow> string \<Rightarrow> health \<Rightarrow> health option" where
  "HIDL_FETCH_IHealth E instance_name s =
     (if instance_name \<noteq> ''default'' then None else Some (private_healthd_board_init E s))"

end
