(* ===== verification/HealthCorrect.thy ===== *)
theory HealthCorrect
  imports Health
begin

text \<open>
  The properties of the health HAL: the level that is reported, the learned capacity, the
  storage reports, and the pipeline as a whole.
\<close>

section \<open>Reading a line of counters\<close>

lemma space_ends_number: "is_space c \<Longrightarrow> ends_number 10 (c # t)"
  using digit_not_special(1) [of 10 c] by (auto simp: ends_number_def)

text \<open>A text of numbers, each after some white space.\<close>

definition numbers :: "(string \<times> nat) list \<Rightarrow> string" where
  "numbers xs = concat (map (\<lambda>(ws, n). ws @ dec n) xs)"

definition spaced :: "(string \<times> nat) list \<Rightarrow> bool" where
  "spaced xs \<longleftrightarrow> (\<forall>(ws, n) \<in> set xs. ws \<noteq> [] \<and> list_all is_space ws)"

lemma spaced_Cons: "spaced ((ws, n) # xs) \<longleftrightarrow> ws \<noteq> [] \<and> list_all is_space ws \<and> spaced xs"
  by (simp add: spaced_def)

lemma numbers_ends:
  assumes "spaced xs" and "ends_number 10 t"
  shows "ends_number 10 (numbers xs @ t)"
proof (cases xs)
  case (Cons x ys)
  obtain ws n where "x = (ws, n)" by force
  with assms(1) Cons have "ws \<noteq> []" "list_all is_space ws" by (simp_all add: spaced_Cons)
  with Cons \<open>x = (ws, n)\<close> show ?thesis
    by (cases ws) (auto simp: numbers_def intro: space_ends_number)
qed (use assms(2) in \<open>simp add: numbers_def\<close>)

lemma skip_ws_all: "list_all is_space t \<Longrightarrow> skip_ws t = []"
  by (simp add: skip_ws_def list_all_iff)

lemma ws_ends: "list_all is_space t \<Longrightarrow> ends_number 10 t"
  by (cases t) (auto simp: ends_number_def dest: space_ends_number [unfolded ends_number_def])

lemma get_uints_none: "get_uints bound k None = replicate k 0"
  by (induction k) (simp_all add: get_uint_def)

lemma get_uints_empty: "list_all is_space t \<Longrightarrow> get_uints bound k (Some t) = replicate k 0"
  by (cases k) (simp_all add: get_uint_def skip_ws_all get_uints_none)

lemma get_uints_numbers:
  assumes "spaced xs" and "\<forall>(ws, n) \<in> set xs. n \<le> bound" and "list_all is_space t"
  shows "get_uints bound (length xs + k) (Some (numbers xs @ t)) =
           map (int \<circ> snd) xs @ replicate k 0"
  using assms(1,2)
proof (induction xs)
  case Nil
  then show ?case using get_uints_empty [OF assms(3)] by (simp add: numbers_def)
next
  case (Cons x xs)
  obtain ws n where x: "x = (ws, n)" by force
  with Cons.prems have ws: "list_all is_space ws" "spaced xs" "n \<le> bound"
    by (auto simp: spaced_Cons)
  have "numbers (x # xs) @ t = ws @ dec n @ (numbers xs @ t)" by (simp add: numbers_def x)
  moreover have "get_uint scan_dec bound 0 (Some (ws @ dec n @ (numbers xs @ t))) =
      (int n, Some (numbers xs @ t))"
    using ws numbers_ends [OF ws(2) ws_ends [OF assms(3)]] by (intro get_uint_dec)
  ultimately show ?case using Cons x by (simp add: spaced_Cons)
qed

section \<open>A concrete environment\<close>

text \<open>
  A clock that stands at 100 seconds, a charger that is full, a fuel gauge that has fallen
  back to its nominal capacity, one counter in the disk statistics, and updaters that change
  nothing.
\<close>

definition sample_file :: "string \<Rightarrow> string option" where
  "sample_file p =
     (if p = kChargerStatus then Some ''Full''
      else if p = kSysCFPersistFile then Some (print_d 2900000)
      else if p = kChgFullDesignFile \<or> p = kChgFullFile then Some (print_d 3000000)
      else if p = kDiskStatsFile then Some (numbers [('' '', 17), ('' '', 4)])
      else if p = kEmmcVersion then Some (''0x'' @ num 16 201) else None)"

definition sample_health :: health_env where
  "sample_health =
     \<lparr>e_write = \<lambda>h c p. True, e_read = \<lambda>h. sample_file, e_access = \<lambda>h p. True,
      e_symlink = \<lambda>h t l. True, e_remove = \<lambda>h p. True, e_opendir = \<lambda>h p. None,
      e_sys = \<lambda>h n. 0, e_prop = \<lambda>h k d. d, e_clock = \<lambda>h. 100, e_notify = \<lambda>h n. True,
      e_trim = \<lambda>s. s, h_update = \<lambda>n h p. p, h_uninit = \<lambda>h. 0, h_info_max = 2 ^ 16 - 1,
      h_stats_max = 2 ^ 64 - 1\<rparr>"

definition sample_props :: BatteryProperties where
  "sample_props = \<lparr>batteryStatus = BATTERY_STATUS_UNKNOWN, batteryLevel = 99\<rparr>"

text \<open>A recharging cycle, the fuel gauge having fallen to 99.\<close>

definition sample_cycle :: health where
  "sample_cycle = health_init\<lparr>rc_state := RECHARGING_CYCLE\<rparr>"

lemma sample_health_simps [simp]:
  "e_clock sample_health h = 100" "e_read sample_health h p = sample_file p"
  "e_trim sample_health u = u" "h_update sample_health n h b = b"
  "h_stats_max sample_health = 2 ^ 64 - 1"
  by (simp_all add: sample_health_def)

lemma sample_file_simps [simp]:
  "sample_file kChargerStatus = Some ''Full''"
  "sample_file kSysCFPersistFile = Some (print_d 2900000)"
  "sample_file kChgFullDesignFile = Some (print_d 3000000)"
  "sample_file kChgFullFile = Some (print_d 3000000)"
  "sample_file kDiskStatsFile = Some (numbers [('' '', 17), ('' '', 4)])"
  "sample_file kEmmcVersion = Some (''0x'' @ num 16 201)"
  by (simp_all add: sample_file_def kChargerStatus_def kSysCFPersistFile_def
      kChgFullDesignFile_def kChgFullFile_def kDiskStatsFile_def kEmmcVersion_def)

lemma ends_Nil [simp]: "ends_number b []"
  by (simp add: ends_number_def)

section \<open>Properties: recharging\<close>

text \<open>C12: The level that is reported while the level is led down is a nearest integer to the
  straight line from 100 to the level of the fuel gauge over 900 seconds, although every
  operation of the computation is rounded to double precision; it starts at 100 and ends at
  the fuel gauge's level.\<close>

theorem remapped_level_is_nearest:
  assumes "0 \<le> soc" and "soc \<le> 100" and "0 \<le> diff" and "diff \<le> 900"
  shows "\<bar>of_int (remap soc diff) - exact_level soc diff\<bar> \<le> 1 / 2 \<and>
     soc \<le> remap soc diff \<and> remap soc diff \<le> 100 \<and> remap soc 0 = 100 \<and> remap soc 900 = soc"
  using assms remap_nearest [of soc diff] remap_bounds [of soc diff] remap_start [of soc]
    remap_end [of soc] by auto

theorem remapped_level_is_nearest_witness:
  "\<bar>of_int (remap 90 450) - exact_level 90 450\<bar> \<le> 1 / 2 \<and> 90 \<le> remap 90 450"
  using remapped_level_is_nearest [of 90 450] by simp

text \<open>C13: In every update, whatever the state, the level that is reported lies between the level
  of the fuel gauge and 100, as long as the clock does not run backwards and the readings of
  one update are at most four seconds apart.\<close>

theorem reported_level_between_gauge_and_full:
  assumes "\<And>h. now \<le> e_clock E h \<and> e_clock E h \<le> now + 4" and "start_time s \<le> now"
    and "0 \<le> batteryLevel props" and "batteryLevel props \<le> 100"
    and "updateBatteryProperties E props s = (props', s')"
  shows "batteryLevel props \<le> batteryLevel props' \<and> batteryLevel props' \<le> 100"
  using update_level [OF _ assms(2-5)] assms(1) by (simp add: steady_def level_ok_def)

theorem reported_level_between_gauge_and_full_witness:
  "99 \<le> batteryLevel (fst (updateBatteryProperties sample_health sample_props sample_cycle))"
  using reported_level_between_gauge_and_full [of 100 sample_health sample_cycle sample_props,
      OF _ _ _ _ surjective_pairing]
  by (simp add: sample_cycle_def health_init_def sample_props_def)

text \<open>C14: A recharging cycle keeps the report at 100: every update that reads the charger status
  and ends in the recharging cycle reports 100; and one that starts in it on a charger that is
  charging or full reports 100 and stays in it, unless the level has dropped below the target
  of the cycle.\<close>

theorem recharging_cycle_reports_full:
  assumes "updateBatteryProperties E props s = (props', s')"
    and "e_read E (hist s) kChargerStatus = Some content"
  shows "(rc_state s' = RECHARGING_CYCLE \<longrightarrow> batteryLevel props' = 100) \<and>
     (rc_state s = RECHARGING_CYCLE \<and> 0 \<le> batteryLevel props \<and> batteryLevel props \<le> 100 \<and>
      e_trim E content \<in> {kStatusIsFull, kStatusIsCharging} \<and>
      (\<forall>h. now \<le> e_clock E h \<and> e_clock E h \<le> now + 4) \<longrightarrow>
        batteryLevel props' = 100 \<and>
        (rc_state s' = RECHARGING_CYCLE \<or>
         rc_state s' = OVER_LOADING \<and> batteryLevel props < recharge_soc s))"
  using cycle_level [OF assms] cycle_on_charge [OF _ _ _ assms, of now]
  by (auto simp: steady_def)

theorem recharging_cycle_reports_full_witness:
  "batteryLevel (fst (updateBatteryProperties sample_health sample_props sample_cycle)) = 100"
  using recharging_cycle_reports_full [of sample_health sample_props sample_cycle, where now = 100,
      OF surjective_pairing]
  by (simp add: sample_cycle_def sample_props_def kStatusIsFull_def)

text \<open>C15: In every state that updates with levels from 0 to 100 can reach, the target level lies
  between 0 and 100, it is 0 while the end of charge is awaited, and it is set in an
  overload.\<close>

theorem recharge_target_invariant:
  assumes "run_of (\<lambda>s. s = health_init) recharge_step s"
  shows "0 \<le> recharge_soc s \<and> recharge_soc s \<le> 100 \<and>
     (rc_state s = WAIT_EOC \<longrightarrow> recharge_soc s = 0) \<and>
     (rc_state s = OVER_LOADING \<longrightarrow> 0 < recharge_soc s)"
  using recharging.reachable_inv [OF assms] by (simp add: recharge_inv_def)

theorem recharge_target_invariant_witness:
  "recharge_soc (snd (updateBatteryProperties sample_health sample_props health_init)) \<le> 100"
proof -
  have "run_of (\<lambda>s. s = health_init) recharge_step health_init" by (rule run_start) simp
  then have "run_of (\<lambda>s. s = health_init) recharge_step
      (snd (updateBatteryProperties sample_health sample_props health_init))"
    by (rule run_step) (rule recharge_update [OF _ _ surjective_pairing],
        simp_all add: sample_props_def)
  from recharge_target_invariant [OF this] show ?thesis by simp
qed

section \<open>Properties: learned capacity\<close>

text \<open>C16: A capacity saved by \<open>SaveToStorage\<close> is read back by \<open>ReadPersistData\<close>: if the write
  succeeded and nothing else is stored in the persist file until then, \<open>ReadPersistData\<close> sets
  the persisted capacity to the one that was saved, in whatever state it runs (another process
  with other values, after any other calls), and leaves the gauge's and the nominal capacity
  alone. It is assumed of the file that it gives back the content stored last, possibly
  followed by text that does not start with a digit.\<close>

theorem saved_capacity_reads_back:
  assumes "keeps_content E kSysCFPersistFile"
    and "e_write E (hist s) (print_d (sw_cap s)) kSysCFPersistFile"
    and "hist t = g @ hist (SaveToStorage E s)" and "stored kSysCFPersistFile g = []"
  shows "sw_cap (ReadPersistData E t) = sw_cap s \<and> hw_cap (ReadPersistData E t) = hw_cap t \<and>
     nom_cap (ReadPersistData E t) = nom_cap t"
  using saved_then_read [OF assms] by simp

definition disk_health :: health_env where
  "disk_health = sample_health\<lparr>e_read := \<lambda>h p. case stored p h of [] \<Rightarrow> None
     | c # _ \<Rightarrow> Some (c @ [char_of (10 :: nat)])\<rparr>"

theorem saved_capacity_reads_back_witness:
  "sw_cap (ReadPersistData disk_health (health_init\<lparr>hist :=
     hist (SaveToStorage disk_health (health_init\<lparr>sw_cap := -4050000\<rparr>))\<rparr>)) = -4050000"
proof -
  have "ends_number 10 [char_of (10 :: nat)]" by code_simp
  then have "keeps_content disk_health kSysCFPersistFile"
    by (auto simp: keeps_content_def disk_health_def)
  then show ?thesis
    using saved_capacity_reads_back [of disk_health "health_init\<lparr>sw_cap := -4050000\<rparr>" _ "[]"]
    by (simp add: disk_health_def sample_health_def)
qed

text \<open>Restoring writes one file at most, and as the three numbers it reads command: the
  persisted capacity is given back to the fuel gauge when the gauge reports the nominal
  capacity and a capacity was learned before; the gauge's capacity is saved when it differs
  from both or nothing was saved yet; nothing is written for a gauge that reports 0.\<close>

theorem restore_writes:
  assumes "trims_ends E" and "file_holds E kSysCFPersistFile p"
    and "file_holds E kChgFullDesignFile n" and "file_holds E kChgFullFile c"
  shows "writes (hist (Restore E s)) =
     (if c \<noteq> 0 \<and> (c \<noteq> p \<and> c \<noteq> n \<or> p = 0) then [(kSysCFPersistFile, print_d c)]
      else if c \<noteq> 0 \<and> 0 < p \<and> c = n then [(kChgFullFile, print_d p)] else []) @ writes (hist s)"
  using restore_effect [OF assms, of s] by (auto simp: decide_def)

theorem restore_writes_witness:
  "writes (hist (Restore sample_health health_init)) = [(kChgFullFile, print_d 2900000)]"
proof -
  have "trims_ends sample_health" by (auto simp: trims_ends_def)
  moreover have "file_holds sample_health kSysCFPersistFile 2900000"
    "file_holds sample_health kChgFullDesignFile 3000000"
    "file_holds sample_health kChgFullFile 3000000"
    by (auto simp: file_holds_def)
  ultimately show ?thesis
    using restore_writes [of sample_health 2900000 3000000 3000000 health_init]
    by (simp add: health_init_def)
qed

text \<open>The decision settles at once: deciding again on the capacities an update left changes
  none of them.\<close>

theorem update_and_save_settles:
  "caps (UpdateAndSave E' (UpdateAndSave E s)) = caps (UpdateAndSave E s)"
  unfolding UpdateAndSave_caps [of E'] by (rule decide_settles [OF UpdateAndSave_caps])

section \<open>Properties: storage\<close>

text \<open>The disk statistics are the numbers of the file in its order: up to eleven numbers, each
  after white space, fill the fields one after the other, and the fields the file has no
  number for are 0; the same for a file that cannot be opened. The report is always a
  success with one disk.\<close>

theorem disk_stats_are_the_file:
  assumes "e_read E (hist s) kDiskStatsFile = Some (numbers xs @ t)" and "spaced xs"
    and "\<forall>(ws, n) \<in> set xs. n \<le> h_stats_max E" and "list_all is_space t"
    and "length xs + k = 11"
  shows "notified (hist (getDiskStats E s)) =
     DiskStatsCb R_SUCCESS [disk_stats_of (map (int \<circ> snd) xs @ replicate k 0)] # notified (hist s)"
  using get_uints_numbers [OF assms(2-4), of k] assms(1,5)
  by (simp add: getDiskStats_def private_get_disk_stats_def assert_open_def os_simps)

theorem disk_stats_are_the_file_witness:
  "notified (hist (getDiskStats sample_health health_init)) =
     [DiskStatsCb R_SUCCESS [disk_stats_of ([17, 4] @ replicate 9 0)]]"
proof -
  have "is_space (CHR '' '')" by code_simp
  then show ?thesis
    using disk_stats_are_the_file [of sample_health health_init "[('' '', 17), ('' '', 4)]" "[]" 9]
    by (simp add: spaced_def health_init_def)
qed

text \<open>The version of the storage device is reported as the hexadecimal number of its file.\<close>

theorem emmc_version_is_hex:
  assumes "e_read E (hist s) kEmmcVersion = Some (''0x'' @ num 16 n @ t)" and "ends_number 16 t"
    and "n < 2 ^ 64"
  shows "fst (read_emmc_version E info s) = info\<lparr>version := ''mmc0 '' @ num 16 n\<rparr>"
proof -
  have "get_uint scan_auto UINT64_MAX old (Some ([] @ ''0x'' @ num 16 n @ t)) = (int n, Some t)" for old
    using assms(2,3) by (intro get_uint_hex) (simp_all add: UINT64_MAX_def)
  with assms(1) show ?thesis
    by (simp add: read_emmc_version_def read_value_from_file_def assert_open_def os_simps)
qed

theorem emmc_version_is_hex_witness:
  "\<forall>info. version (fst (read_emmc_version sample_health info health_init)) = ''mmc0 '' @ num 16 201"
proof
  fix info
  show "version (fst (read_emmc_version sample_health info health_init)) = ''mmc0 '' @ num 16 201"
    using emmc_version_is_hex [of sample_health health_init 201 "[]" info] by simp
qed

text \<open>
  If the file cannot be read, the version is made of a variable that was never written.
\<close>

lemma emmc_version_uninitialised:
  "e_read E (hist s) kEmmcVersion = None \<Longrightarrow>
     version (fst (read_emmc_version E info s)) = ''mmc0 '' @ num 16 (nat (h_uninit E (hist s)))"
  by (simp add: read_emmc_version_def read_value_from_file_def assert_open_def os_simps get_uint_def)

section \<open>Properties: the pipeline\<close>

text \<open>What \<open>UpdateHealthInfo\<close> reports, when the shared updaters keep the level and do not make
  a status "not charging": a level between the fuel gauge's and 100, and never the status
  "not charging".\<close>

theorem health_report:
  assumes "\<And>h. now \<le> e_clock E h \<and> e_clock E h \<le> now + 4" and "start_time s \<le> now"
    and "0 \<le> batteryLevel props" and "batteryLevel props \<le> 100"
    and "\<And>name h p. batteryLevel (h_update E name h p) = batteryLevel p"
    and "\<And>name h p. batteryStatus (h_update E name h p) = BATTERY_STATUS_NOT_CHARGING \<Longrightarrow>
           batteryStatus p = BATTERY_STATUS_NOT_CHARGING"
    and "UpdateHealthInfo E props s = (props', s')"
  shows "batteryLevel props \<le> batteryLevel props' \<and> batteryLevel props' \<le> 100 \<and>
     batteryStatus props' \<noteq> BATTERY_STATUS_NOT_CHARGING"
proof -
  obtain p1 s1 where u: "updateBatteryProperties E props s = (p1, s1)" by force
  have st: "steady E now" using assms(1) by (simp add: steady_def)
  have level: "level_ok (batteryLevel props) (batteryLevel p1)"
    by (rule update_level [OF st assms(2-4) u])
  have info: "batteryLevel (BatteryInfoUpdate_update p) = batteryLevel p"
    "batteryStatus (BatteryInfoUpdate_update p) \<noteq> BATTERY_STATUS_NOT_CHARGING" for p
    by (simp_all add: BatteryInfoUpdate_update_def)
  from assms(7) u obtain n2 h2 n3 h3 n5 h5 n6 h6 n8 h8 where
    p': "props' = h_update E n8 h8 (h_update E n6 h6 (h_update E n5 h5
       (BatteryInfoUpdate_update (h_update E n3 h3 (h_update E n2 h2 p1)))))"
    by (simp add: UpdateHealthInfo_def private_healthd_board_battery_update_def shared_update_def
        os_simps) blast
  have "batteryLevel props' = batteryLevel p1" unfolding p' by (simp only: assms(5) info)
  moreover have "batteryStatus props' \<noteq> BATTERY_STATUS_NOT_CHARGING"
    unfolding p' using info(2) assms(6) by blast
  ultimately show ?thesis using level by (simp add: level_ok_def)
qed

theorem health_report_witness:
  "99 \<le> batteryLevel (fst (UpdateHealthInfo sample_health sample_props sample_cycle))"
  using health_report [of 100 sample_health sample_cycle sample_props, OF _ _ _ _ _ _ surjective_pairing]
  by (simp add: sample_cycle_def health_init_def sample_props_def)

text \<open>The implementation is handed out under the name \<open>default\<close> and no other, and only after
  the learned capacity was restored.\<close>

theorem only_default_instance:
  "HIDL_FETCH_IHealth E name s =
     (if name = ''default'' then Some (Restore E (snd (sys E ''ccBackupRestoreBMS.Restore'' s)))
      else None)"
  by (simp add: HIDL_FETCH_IHealth_def private_healthd_board_init_def)

end
