(* ===== verification/UsbState.thy ===== *)
theory UsbState
  imports Os CText
begin

text \<open>
  The state of the USB HAL (usb/usb/Usb.h): the types of the AIDL interface its source
  names, the fields of the service, and the environment, with the answers of the system
  calls that are not shared with the other services.
\<close>

section \<open>The types of the interface\<close>

datatype PortPowerRole = POWER_NONE | SOURCE | SINK
datatype PortDataRole = DATA_NONE | HOST | DEVICE
datatype PortMode = MODE_NONE | UFP | DFP | DRP | AUDIO_ACCESSORY | DEBUG_ACCESSORY

text \<open>A union; \<open>OtherRole\<close> stands for a tag none of the switches of the source names.\<close>

datatype PortRole =
    PowerRole PortPowerRole | DataRole PortDataRole | ModeRole PortMode | OtherRole

datatype Status = SUCCESS | ERROR | UNRECOGNIZED_ROLE | NOT_SUPPORTED

datatype UsbDataStatus = ENABLED | DISABLED_FORCE
datatype PowerBrickStatus = BRICK_UNKNOWN | BRICK_OTHER
datatype ContaminantProtectionMode = FORCE_DISABLE | PROTECTION_MODE_OTHER
datatype ContaminantProtectionStatus = PROTECTION_NONE | PROTECTION_OTHER
datatype ContaminantDetectionStatus = NOT_DETECTED | DETECTION_OTHER

record PortStatus =
  portName :: string
  currentPowerRole :: PortPowerRole
  currentDataRole :: PortDataRole
  currentMode :: PortMode
  canChangeMode :: bool
  canChangeDataRole :: bool
  canChangePowerRole :: bool
  supportedModes :: "PortMode list"
  usbDataStatus :: "UsbDataStatus list"
  powerBrickStatus :: PowerBrickStatus
  supportedContaminantProtectionModes :: "ContaminantProtectionMode list"
  contaminantProtectionStatus :: ContaminantProtectionStatus
  contaminantDetectionStatus :: ContaminantDetectionStatus
  supportsEnableContaminantPresenceDetection :: bool
  supportsEnableContaminantPresenceProtection :: bool

text \<open>The methods of the callback, each with its arguments; transaction ids are integers.\<close>

datatype usb_msg =
    NotifyEnableUsbDataStatus string bool Status int
  | NotifyEnableUsbDataWhileDockedStatus string Status int
  | NotifyResetUsbPortStatus string Status int
  | NotifyLimitPowerTransferStatus string bool Status int
  | NotifyRoleSwitchStatus string PortRole Status int
  | NotifyPortStatusChange "PortStatus list" Status
  | NotifyQueryPortStatus string Status int
  | NotifyContaminantEnabledStatus string bool Status int

section \<open>State and environment\<close>

text \<open>A callback is known by a number, so that a message says whom it was sent to.\<close>

type_synonym usb_event = "(nat \<times> usb_msg) event"

record usb = "(nat \<times> usb_msg) os" +
  mCallback :: "nat option"
  mPartnerUp :: bool
  mUsbDataEnabled :: bool
  mPoll :: bool              \<comment> \<open>a worker thread was created and not joined\<close>
  destroyThread :: bool

text \<open>
  What one \<open>pthread\_cond\_timedwait\<close> gives: its result, and whether another thread set
  \<open>mPartnerUp\<close> meanwhile. What one \<open>epoll\_wait\<close> gives: whether the signal arrived before
  the loop looked at \<open>destroyThread\<close>, the number of events or -1, \<open>errno\<close>, and for each
  event whether its pointer is set.
\<close>

type_synonym wake = "int \<times> bool"

record poll_in =
  in_signal :: bool
  in_nevents :: int
  in_errno :: int
  in_ptrs :: "bool list"

text \<open>
  The environment further says what the uevent socket returns (a length and the bytes), the
  wake-ups of a wait, the order in which an unordered map is walked, and the value of a port
  status before its fields are set.
\<close>

record usb_env = "(nat \<times> usb_msg) env" +
  u_recv :: "usb_event list \<Rightarrow> int \<times> string"
  u_wakes :: "usb_event list \<Rightarrow> wake list"
  u_order :: "(string \<times> bool) list \<Rightarrow> (string \<times> bool) list"
  u_port :: PortStatus

text \<open>
  How an operation ends early: the process is aborted, because a union is read as the wrong
  member or the constructor fails, or it waits for something that never comes.
\<close>

datatype usb_exit = Aborted | Waiting

type_synonym 'a uprog = "(usb, usb_exit, 'a) prog"

text \<open>The constructor: it aborts unless all four calls on the condition variable succeed.\<close>

definition sys_ok :: "usb_env \<Rightarrow> string \<Rightarrow> (usb, bool) st" where
  "sys_ok E name s = (case sys E name s of (r, s1) \<Rightarrow> (r = 0, s1))"

definition Usb_init :: "usb_env \<Rightarrow> unit uprog" where
  "Usb_init E =
     bindE (modifyE (\<lambda>s. s\<lparr>mCallback := None, mPartnerUp := False, mUsbDataEnabled := True,
              mPoll := False\<rparr>)) (\<lambda>_.
     bindE (check Aborted (sys_ok E ''pthread_condattr_init'')) (\<lambda>_.
     bindE (check Aborted (sys_ok E ''pthread_condattr_setclock'')) (\<lambda>_.
     bindE (check Aborted (sys_ok E ''pthread_cond_init'')) (\<lambda>_.
     check Aborted (sys_ok E ''pthread_condattr_destroy'')))))"

end
