(* ===== verification/Usb.thy ===== *)
theory Usb
  imports UsbState "HOL-Library.AList"
begin

text \<open>
  The operations of the USB HAL (usb/usb/Usb.cpp), in the order of the source: data
  signalling, the roles of a port as text, role switches, port status reports, the handler
  of kernel events, the worker thread and the callback. Locks are the subject of the theory
  on threads; here an operation runs undisturbed but for what the environment says.
\<close>

section \<open>Constants\<close>

definition kTypecPath :: string where "kTypecPath = ''/sys/class/typec''"
definition kUsbGadgetName :: string where "kUsbGadgetName = ''a600000.dwc3''"
definition USB_PULLUP_PATH :: string where "USB_PULLUP_PATH = ''/config/usb_gadget/g1/UDC''"
definition SOC_PATH :: string where "SOC_PATH = ''/sys/devices/platform/soc/a600000.ssusb/''"
definition USB_DATA_PATH :: string where "USB_DATA_PATH = SOC_PATH @ ''usb_data_enabled''"
definition UEVENT_MSG_LEN :: int where "UEVENT_MSG_LEN = 2048"
definition PORT_TYPE_TIMEOUT :: int where "PORT_TYPE_TIMEOUT = 8"
definition ETIMEDOUT :: int where "ETIMEDOUT = 110"
definition EINTR :: int where "EINTR = 4"

text \<open>Every message goes to the callback that is set; without one it is only logged.\<close>

definition tell_callback :: "usb_env \<Rightarrow> usb_msg \<Rightarrow> usb \<Rightarrow> usb" where
  "tell_callback E msg s =
     (case mCallback s of None \<Rightarrow> s | Some cb \<Rightarrow> snd (notify E (cb, msg) s))"

abbreviation result_status :: "bool \<Rightarrow> Status" where
  "result_status ok \<equiv> (if ok then SUCCESS else ERROR)"

section \<open>The roles of a port\<close>

definition appendRoleNodeHelper :: "string \<Rightarrow> PortRole \<Rightarrow> string" where
  "appendRoleNodeHelper name role =
     (let node = ''/sys/class/typec/'' @ name
      in case role of
           DataRole _ \<Rightarrow> node @ ''/data_role''
         | PowerRole _ \<Rightarrow> node @ ''/power_role''
         | ModeRole _ \<Rightarrow> node @ ''/port_type''
         | OtherRole \<Rightarrow> '''')"

definition convertRoletoString :: "PortRole \<Rightarrow> string" where
  "convertRoletoString role =
     (case role of
        PowerRole SOURCE \<Rightarrow> ''source''
      | PowerRole SINK \<Rightarrow> ''sink''
      | DataRole HOST \<Rightarrow> ''host''
      | DataRole DEVICE \<Rightarrow> ''device''
      | ModeRole UFP \<Rightarrow> ''sink''
      | ModeRole DFP \<Rightarrow> ''source''
      | _ \<Rightarrow> ''none'')"

text \<open>
  \<open>substr(first + 1, last - first - 1)\<close> in unsigned arithmetic: with the closing bracket
  before the opening one the length wraps around and the rest of the string is taken.
\<close>

definition extractRole :: "string \<Rightarrow> string" where
  "extractRole roleName =
     (case (str_find roleName ''['', str_find roleName '']'') of
        (Some i, Some j) \<Rightarrow>
          (if i < j then take (j - i - 1) (drop (i + 1) roleName) else drop (i + 1) roleName)
      | _ \<Rightarrow> roleName)"

section \<open>Role switches\<close>

definition fopen_w :: "usb_env \<Rightarrow> string \<Rightarrow> (usb, bool) st" where
  "fopen_w E filename s = (case sys E (''fopen '' @ filename) s of (fp, s1) \<Rightarrow> (fp \<noteq> 0, s1))"

definition switchToDrp :: "usb_env \<Rightarrow> string \<Rightarrow> usb \<Rightarrow> usb" where
  "switchToDrp E name s =
     (let filename = appendRoleNodeHelper name (ModeRole MODE_NONE)
      in if filename \<noteq> '''' then
           (case fopen_w E filename s of
              (fp, s1) \<Rightarrow> if fp then snd (write_file E ''dual'' filename s1) else s1)
         else s)"

text \<open>The label \<open>wait\_again\<close>: wait until the time is up or the partner is there.\<close>

fun wait_again :: "usb_env \<Rightarrow> wake list \<Rightarrow> bool uprog" where
  "wait_again E [] = throwE Waiting"
| "wait_again E ((err, up) # wakes) =
     bindE (liftE (clock E)) (\<lambda>now.
     bindE (modifyE (\<lambda>s. tell (Sys (''pthread_cond_timedwait '' @
              print_d (now + PORT_TYPE_TIMEOUT)) err) (s\<lparr>mPartnerUp := mPartnerUp s \<or> up\<rparr>))) (\<lambda>_.
     bindE (getsE mPartnerUp) (\<lambda>partner.
       if err = ETIMEDOUT then returnE False
       else if \<not> partner then wait_again E wakes
       else returnE True)))"

definition switchMode :: "usb_env \<Rightarrow> string \<Rightarrow> PortRole \<Rightarrow> bool uprog" where
  "switchMode E name in_role =
     (let filename = appendRoleNodeHelper name in_role
      in if filename = '''' then returnE False
         else
           bindE (liftE (fopen_w E filename)) (\<lambda>fp.
           bindE (if \<not> fp then returnE False
                  else
                    bindE (modifyE (\<lambda>s. s\<lparr>mPartnerUp := False\<rparr>)) (\<lambda>_.
                    bindE (liftE (write_file E (convertRoletoString in_role) filename)) (\<lambda>ret.
                      if ret then bindE (getsE (\<lambda>s. u_wakes E (hist s))) (wait_again E)
                      else returnE False))) (\<lambda>roleSwitch.
           bindE (whenE (\<not> roleSwitch) () (modifyE (switchToDrp E name))) (\<lambda>_.
           returnE roleSwitch))))"

text \<open>The branch of \<open>switchRole\<close> for power and data roles: write, read back and compare.\<close>

definition write_role :: "usb_env \<Rightarrow> string \<Rightarrow> PortRole \<Rightarrow> (usb, bool) st" where
  "write_role E filename in_role s =
     (case fopen_w E filename s of
        (False, s1) \<Rightarrow> (False, s1)
      | (True, s1) \<Rightarrow>
          (case write_file E (convertRoletoString in_role) filename s1 of
             (False, s2) \<Rightarrow> (False, s2)
           | (True, s2) \<Rightarrow>
               (case read_file E filename s2 of
                  (None, s3) \<Rightarrow> (False, s3)
                | (Some written, s3) \<Rightarrow>
                    (extractRole (e_trim E written) = convertRoletoString in_role, s3))))"

definition switchRole :: "usb_env \<Rightarrow> string \<Rightarrow> PortRole \<Rightarrow> int \<Rightarrow> unit uprog" where
  "switchRole E in_portName in_role in_transactionId =
     (let filename = appendRoleNodeHelper in_portName in_role
      in if filename = '''' then returnE ()
         else
           bindE (case in_role of
                    ModeRole _ \<Rightarrow> switchMode E in_portName in_role
                  | _ \<Rightarrow> liftE (write_role E filename in_role)) (\<lambda>roleSwitch.
           modifyE (tell_callback E
             (NotifyRoleSwitchStatus in_portName in_role (result_status roleSwitch)
                in_transactionId))))"

section \<open>Port status\<close>

definition getAccessoryConnected :: "usb_env \<Rightarrow> string \<Rightarrow> (usb, string option) st" where
  "getAccessoryConnected E name s =
     (case read_file E (''/sys/class/typec/'' @ name @ ''-partner/accessory_mode'') s of
        (None, s1) \<Rightarrow> (None, s1)
      | (Some accessory, s1) \<Rightarrow> (Some (e_trim E accessory), s1))"

text \<open>The last lines of \<open>getCurrentRoleHelper\<close>: the role a word stands for.\<close>

definition role_of_word :: "PortRole \<Rightarrow> string \<Rightarrow> Status \<times> PortRole" where
  "role_of_word current roleName =
     (let is_data = (case current of DataRole _ \<Rightarrow> True | _ \<Rightarrow> False)
      in if roleName = ''source'' then (SUCCESS, PowerRole SOURCE)
         else if roleName = ''sink'' then (SUCCESS, PowerRole SINK)
         else if roleName = ''host'' then
           (SUCCESS, if is_data then DataRole HOST else ModeRole DFP)
         else if roleName = ''device'' then
           (SUCCESS, if is_data then DataRole DEVICE else ModeRole UFP)
         else if roleName \<noteq> ''none'' then (UNRECOGNIZED_ROLE, current)
         else (SUCCESS, current))"

definition read_role :: "usb_env \<Rightarrow> string \<Rightarrow> PortRole \<Rightarrow> (usb, Status \<times> PortRole) st" where
  "read_role E filename current s =
     (case read_file E filename s of
        (None, s1) \<Rightarrow> ((ERROR, current), s1)
      | (Some roleName, s1) \<Rightarrow> (role_of_word current (extractRole (e_trim E roleName)), s1))"

definition getCurrentRoleHelper ::
    "usb_env \<Rightarrow> string \<Rightarrow> bool \<Rightarrow> PortRole \<Rightarrow> (usb, Status \<times> PortRole) st" where
  "getCurrentRoleHelper E name connected currentRole s =
     (case currentRole of
        PowerRole _ \<Rightarrow>
          if \<not> connected then ((SUCCESS, PowerRole POWER_NONE), s)
          else read_role E (''/sys/class/typec/'' @ name @ ''/power_role'') (PowerRole POWER_NONE) s
      | DataRole _ \<Rightarrow>
          if \<not> connected then ((SUCCESS, DataRole DATA_NONE), s)
          else read_role E (''/sys/class/typec/'' @ name @ ''/data_role'') (DataRole DATA_NONE) s
      | ModeRole _ \<Rightarrow>
          if \<not> connected then ((SUCCESS, ModeRole MODE_NONE), s)
          else
            (case getAccessoryConnected E name s of
               (None, s1) \<Rightarrow> ((ERROR, ModeRole MODE_NONE), s1)
             | (Some accessory, s1) \<Rightarrow>
                 if accessory = ''analog_audio'' then ((SUCCESS, ModeRole AUDIO_ACCESSORY), s1)
                 else if accessory = ''debug'' then ((SUCCESS, ModeRole DEBUG_ACCESSORY), s1)
                 else read_role E (''/sys/class/typec/'' @ name @ ''/data_role'')
                        (ModeRole MODE_NONE) s1)
      | OtherRole \<Rightarrow> ((ERROR, OtherRole), s))"

text \<open>
  The names of the ports, with "has a partner": a link that is not a partner's adds its name,
  a partner's link marks the port it belongs to. \<open>None\<close> would be the null pointer of a
  \<open>strtok\<close> without a token.
\<close>

fun add_names :: "(string \<times> bool) list \<Rightarrow> (string \<times> bool) list \<Rightarrow> (string \<times> bool) list option" where
  "add_names [] names = Some names"
| "add_names ((d_name, is_link) # ds) names =
     (if is_link then
        (if \<not> contains d_name ''-partner'' then
           (if map_of names d_name = None then add_names ds (names @ [(d_name, False)])
            else add_names ds names)
         else (case strtok_first (CHR ''-'') d_name of
                 None \<Rightarrow> None
               | Some name \<Rightarrow> add_names ds (AList.update name True names)))
      else add_names ds names)"

definition getTypeCPortNamesHelper :: "usb_env \<Rightarrow> (string \<times> bool) list option uprog" where
  "getTypeCPortNamesHelper E =
     bindE (liftE (open_dir E kTypecPath)) (\<lambda>dp.
     case dp of
       None \<Rightarrow> returnE None
     | Some entries \<Rightarrow>
         (case add_names entries [] of
            None \<Rightarrow> throwE Aborted
          | Some names \<Rightarrow> returnE (Some names)))"

definition canSwitchRoleHelper :: "usb_env \<Rightarrow> string \<Rightarrow> (usb, bool) st" where
  "canSwitchRoleHelper E name s =
     (case read_file E (''/sys/class/typec/'' @ name @ ''-partner/supports_usb_power_delivery'') s of
        (None, s1) \<Rightarrow> (False, s1)
      | (Some supportsPD, s1) \<Rightarrow> (e_trim E supportsPD = ''yes'', s1))"

text \<open>Reading a union as a member it does not hold aborts the process.\<close>

definition get_power :: "PortRole \<Rightarrow> PortPowerRole uprog" where
  "get_power role = (case role of PowerRole r \<Rightarrow> returnE r | _ \<Rightarrow> throwE Aborted)"

definition get_data :: "PortRole \<Rightarrow> PortDataRole uprog" where
  "get_data role = (case role of DataRole r \<Rightarrow> returnE r | _ \<Rightarrow> throwE Aborted)"

definition get_mode :: "PortRole \<Rightarrow> PortMode uprog" where
  "get_mode role = (case role of ModeRole r \<Rightarrow> returnE r | _ \<Rightarrow> throwE Aborted)"

text \<open>The last fields of a port, once its three roles are known.\<close>

definition finish_port ::
    "usb_env \<Rightarrow> string \<Rightarrow> bool \<Rightarrow> PortStatus \<Rightarrow> (usb, PortStatus) st" where
  "finish_port E name connected e s =
     (case (if connected then canSwitchRoleHelper E name s else (False, s)) of (dt, s1) \<Rightarrow>
      case (if connected then canSwitchRoleHelper E name s1 else (False, s1)) of (pw, s2) \<Rightarrow>
        (e\<lparr>canChangeMode := True, canChangeDataRole := dt, canChangePowerRole := pw,
           supportedModes := supportedModes e @ [DRP],
           usbDataStatus := usbDataStatus e @
             [if \<not> mUsbDataEnabled s2 then DISABLED_FORCE else ENABLED],
           powerBrickStatus := BRICK_UNKNOWN\<rparr>, s2))"

text \<open>One iteration of the loop: the entry of the port, and whether all went well.\<close>

definition port_entry :: "usb_env \<Rightarrow> string \<times> bool \<Rightarrow> (bool \<times> PortStatus) uprog" where
  "port_entry E port =
     (let name = fst port; connected = snd port; e0 = (u_port E)\<lparr>portName := name\<rparr> in
      bindE (liftE (getCurrentRoleHelper E name connected (PowerRole POWER_NONE))) (\<lambda>(st, role).
      if st \<noteq> SUCCESS then returnE (False, e0) else
      bindE (get_power role) (\<lambda>pw. let e1 = e0\<lparr>currentPowerRole := pw\<rparr> in
      bindE (liftE (getCurrentRoleHelper E name connected (DataRole DATA_NONE))) (\<lambda>(st, role).
      if st \<noteq> SUCCESS then returnE (False, e1) else
      bindE (get_data role) (\<lambda>dt. let e2 = e1\<lparr>currentDataRole := dt\<rparr> in
      bindE (liftE (getCurrentRoleHelper E name connected (ModeRole MODE_NONE))) (\<lambda>(st, role).
      if st \<noteq> SUCCESS then returnE (False, e2) else
      bindE (get_mode role) (\<lambda>md. let e3 = e2\<lparr>currentMode := md\<rparr> in
      bindE (liftE (finish_port E name connected e3)) (\<lambda>e4. returnE (True, e4)))))))))"

text \<open>The entries after the first port with an error keep their initial value.\<close>

fun port_loop :: "usb_env \<Rightarrow> (string \<times> bool) list \<Rightarrow> (Status \<times> PortStatus list) uprog" where
  "port_loop E [] = returnE (SUCCESS, [])"
| "port_loop E (port # ports) =
     bindE (port_entry E port) (\<lambda>(ok, e).
     if ok then bindE (port_loop E ports) (\<lambda>(st, es). returnE (st, e # es))
     else returnE (ERROR, e # replicate (length ports) (u_port E)))"

definition getPortStatusHelper :: "usb_env \<Rightarrow> (Status \<times> PortStatus list) uprog" where
  "getPortStatusHelper E =
     bindE (getTypeCPortNamesHelper E) (\<lambda>names.
     case names of
       None \<Rightarrow> returnE (ERROR, [])
     | Some names \<Rightarrow> port_loop E (u_order E names))"

definition queryMoistureDetectionStatus :: "PortStatus list \<Rightarrow> Status \<times> PortStatus list" where
  "queryMoistureDetectionStatus currentPortStatus =
     (case currentPortStatus of
        [] \<Rightarrow> (ERROR, [])
      | e # es \<Rightarrow>
          (SUCCESS,
           e\<lparr>supportedContaminantProtectionModes :=
               supportedContaminantProtectionModes e @ [FORCE_DISABLE],
             contaminantProtectionStatus := PROTECTION_NONE,
             contaminantDetectionStatus := NOT_DETECTED,
             supportsEnableContaminantPresenceDetection := False,
             supportsEnableContaminantPresenceProtection := False\<rparr> # es))"

text \<open>The vector the caller passes by reference is the result.\<close>

definition queryVersionHelper :: "usb_env \<Rightarrow> PortStatus list uprog" where
  "queryVersionHelper E =
     bindE (getPortStatusHelper E) (\<lambda>(status, ports).
     let ports' = (if status = SUCCESS then snd (queryMoistureDetectionStatus ports) else ports) in
     bindE (modifyE (tell_callback E (NotifyPortStatusChange ports' status))) (\<lambda>_.
     returnE ports'))"

definition queryPortStatus :: "usb_env \<Rightarrow> int \<Rightarrow> unit uprog" where
  "queryPortStatus E in_transactionId =
     bindE (queryVersionHelper E) (\<lambda>_.
     modifyE (tell_callback E (NotifyQueryPortStatus ''all'' SUCCESS in_transactionId)))"

section \<open>Data signalling and the small handlers\<close>

text \<open>Turning the controller on or off, if the UDC file does not already say so.\<close>

definition set_pullup :: "usb_env \<Rightarrow> bool \<Rightarrow> (usb, bool) st" where
  "set_pullup E enable s =
     (case read_file E USB_PULLUP_PATH s of
        (None, s1) \<Rightarrow> (True, s1)
      | (Some pullup, s1) \<Rightarrow>
          if (e_trim E pullup = kUsbGadgetName) = enable then (True, s1)
          else write_file E (if enable then kUsbGadgetName else ''none'') USB_PULLUP_PATH s1)"

definition enableUsbData :: "usb_env \<Rightarrow> string \<Rightarrow> bool \<Rightarrow> int \<Rightarrow> unit uprog" where
  "enableUsbData E in_portName in_enable in_transactionId =
     bindE (liftE (set_pullup E in_enable)) (\<lambda>pulled.
     bindE (liftE (write_file E (if in_enable then ''1'' else ''0'') USB_DATA_PATH)) (\<lambda>written.
     let result = (pulled \<and> written) in
     bindE (whenE result () (modifyE (\<lambda>s. s\<lparr>mUsbDataEnabled := in_enable\<rparr>))) (\<lambda>_.
     bindE (modifyE (tell_callback E (NotifyEnableUsbDataStatus in_portName in_enable
              (result_status result) in_transactionId))) (\<lambda>_.
     bindE (queryVersionHelper E) (\<lambda>_. returnE ())))))"

definition enableUsbDataWhileDocked :: "usb_env \<Rightarrow> string \<Rightarrow> int \<Rightarrow> unit uprog" where
  "enableUsbDataWhileDocked E in_portName in_transactionId =
     bindE (modifyE (tell_callback E (NotifyEnableUsbDataWhileDockedStatus in_portName
              NOT_SUPPORTED in_transactionId))) (\<lambda>_.
     bindE (queryVersionHelper E) (\<lambda>_. returnE ()))"

definition resetUsbPort :: "usb_env \<Rightarrow> string \<Rightarrow> int \<Rightarrow> unit uprog" where
  "resetUsbPort E in_portName in_transactionId =
     bindE (liftE (write_file E ''none'' USB_PULLUP_PATH)) (\<lambda>result.
     modifyE (tell_callback E (NotifyResetUsbPortStatus in_portName (result_status result)
       in_transactionId)))"

definition limitPowerTransfer :: "usb_env \<Rightarrow> string \<Rightarrow> bool \<Rightarrow> int \<Rightarrow> unit uprog" where
  "limitPowerTransfer E in_portName in_limit in_transactionId =
     bindE (whenE (in_transactionId \<ge> 0) () (modifyE (tell_callback E
              (NotifyLimitPowerTransferStatus in_portName in_limit NOT_SUPPORTED
                 in_transactionId)))) (\<lambda>_.
     bindE (queryVersionHelper E) (\<lambda>_. returnE ()))"

definition enableContaminantPresenceDetection ::
    "usb_env \<Rightarrow> string \<Rightarrow> bool \<Rightarrow> int \<Rightarrow> unit uprog" where
  "enableContaminantPresenceDetection E in_portName in_enable in_transactionId =
     bindE (modifyE (tell_callback E (NotifyContaminantEnabledStatus in_portName in_enable
              NOT_SUPPORTED in_transactionId))) (\<lambda>_.
     bindE (queryVersionHelper E) (\<lambda>_. returnE ()))"

section \<open>Kernel events and the worker thread\<close>

text \<open>
  The strings the pointer \<open>cp\<close> visits: each ends at a zero byte, and the first empty one
  ends the walk. The bytes behind the message are zero.
\<close>

definition NUL :: char where "NUL = CHR 0x00"

function uevent_fields :: "string \<Rightarrow> string list" where
  "uevent_fields msg =
     (case takeWhile (\<lambda>c. c \<noteq> NUL) msg of
        [] \<Rightarrow> []
      | field \<Rightarrow> field # uevent_fields (drop (length field + 1) msg))"
  by pat_completeness auto
termination
proof (relation "measure length")
  show "wf (measure length :: (string \<times> string) set)" by simp
next
  fix msg :: string and c cs
  assume "takeWhile (\<lambda>c. c \<noteq> NUL) msg = c # cs"
  then have "msg \<noteq> []" by auto
  then show "(drop (length (c # cs) + 1) msg, msg) \<in> measure length"
    by (cases msg) auto
qed

declare uevent_fields.simps [simp del]

text \<open>\<open>regex\_match(cp, "(add)(.*)(-partner)")\<close>; the dot matches no line terminator.\<close>

definition partner_added :: "string \<Rightarrow> bool" where
  "partner_added cp \<longleftrightarrow>
     length cp \<ge> 11 \<and> take 3 cp = ''add'' \<and> drop (length cp - 8) cp = ''-partner'' \<and>
     list_all (\<lambda>c. c \<noteq> CHR 0x0A \<and> c \<noteq> CHR 0x0D) (take (length cp - 11) (drop 3 cp))"

text \<open>Ports whose partner directory is gone go back to both roles.\<close>

fun drp_loop :: "usb_env \<Rightarrow> PortStatus list \<Rightarrow> usb \<Rightarrow> usb" where
  "drp_loop E [] s = s"
| "drp_loop E (p # ps) s =
     (case open_dir E (''/sys/class/typec/'' @ portName p @ ''-partner'') s of
        (None, s1) \<Rightarrow> drp_loop E ps (switchToDrp E (portName p) s1)
      | (Some dp, s1) \<Rightarrow> drp_loop E ps s1)"

definition typec_event :: "usb_env \<Rightarrow> unit uprog" where
  "typec_event E =
     bindE (queryVersionHelper E) (\<lambda>ports.
     bindE (liftE (sys E ''pthread_mutex_trylock mRoleSwitchLock'')) (\<lambda>busy.
     whenE (busy = 0) () (modifyE (drp_loop E ports))))"

fun field_loop :: "usb_env \<Rightarrow> string list \<Rightarrow> unit uprog" where
  "field_loop E [] = returnE ()"
| "field_loop E (cp # cps) =
     (if partner_added cp then
        bindE (modifyE (\<lambda>s. s\<lparr>mPartnerUp := True\<rparr>)) (\<lambda>_. field_loop E cps)
      else if strncmp_prefix cp ''DEVTYPE=typec_'' then typec_event E
      else field_loop E cps)"

definition uevent_event :: "usb_env \<Rightarrow> unit uprog" where
  "uevent_event E =
     bindE (getsE (\<lambda>s. u_recv E (hist s))) (\<lambda>(n, msg).
     bindE (modifyE (tell (Sys ''uevent_kernel_multicast_recv'' n))) (\<lambda>_.
     if n \<le> 0 then returnE ()
     else if n \<ge> UEVENT_MSG_LEN then returnE ()
     else field_loop E (uevent_fields (take (nat n) msg))))"

fun dispatch_loop :: "usb_env \<Rightarrow> bool list \<Rightarrow> unit uprog" where
  "dispatch_loop E [] = returnE ()"
| "dispatch_loop E (ptr # ptrs) =
     bindE (whenE ptr () (uevent_event E)) (\<lambda>_. dispatch_loop E ptrs)"

text \<open>The loop \<open>while (!destroyThread)\<close>; it waits when \<open>epoll\_wait\<close> gives nothing more.\<close>

fun work_loop :: "usb_env \<Rightarrow> poll_in list \<Rightarrow> unit uprog" where
  "work_loop E polls =
     bindE (getsE destroyThread) (\<lambda>destroy.
     if destroy then returnE ()
     else case polls of
            [] \<Rightarrow> throwE Waiting
          | i # rest \<Rightarrow>
              bindE (modifyE (\<lambda>s. s\<lparr>destroyThread := destroyThread s \<or> in_signal i\<rparr>)) (\<lambda>_.
              if in_nevents i = -1 then
                (if in_errno i = EINTR then work_loop E rest else returnE ())
              else bindE (dispatch_loop E (take (nat (in_nevents i)) (in_ptrs i))) (\<lambda>_.
                   work_loop E rest)))"

declare work_loop.simps [simp del]

definition close_fd :: "string \<Rightarrow> usb \<Rightarrow> usb" where
  "close_fd fd = tell (Sys (''close '' @ fd) 0)"

definition leave_work :: "int \<Rightarrow> unit uprog" where
  "leave_work epoll_fd =
     bindE (modifyE (close_fd ''uevent_fd'')) (\<lambda>_.
     whenE (epoll_fd \<ge> 0) () (modifyE (close_fd ''epoll_fd'')))"

definition work :: "usb_env \<Rightarrow> poll_in list \<Rightarrow> unit uprog" where
  "work E polls =
     bindE (liftE (sys E ''uevent_open_socket'')) (\<lambda>uevent_fd.
     if uevent_fd < 0 then returnE ()
     else
       bindE (liftE (sys E ''fcntl'')) (\<lambda>_.
       bindE (liftE (sys E ''epoll_create1'')) (\<lambda>epoll_fd.
       if epoll_fd = -1 then leave_work epoll_fd
       else
         bindE (liftE (sys E ''epoll_ctl'')) (\<lambda>r.
         if r = -1 then leave_work epoll_fd
         else bindE (work_loop E polls) (\<lambda>_. leave_work epoll_fd)))))"

definition sighandler :: "bool \<Rightarrow> usb \<Rightarrow> usb" where
  "sighandler is_sigusr1 s =
     (if is_sigusr1 then s\<lparr>destroyThread := True\<rparr>
      else tell (Sys ''signal SIGUSR1 sighandler'' 0) s)"

section \<open>The callback\<close>

text \<open>
  Clearing the callback stops the worker: when the signal was sent the service waits for
  the thread to end (that it ends is the subject of the theory on threads).
\<close>

definition setCallback :: "usb_env \<Rightarrow> nat option \<Rightarrow> usb \<Rightarrow> usb" where
  "setCallback E in_callback s =
     (if (mCallback s = None) = (in_callback = None) then s\<lparr>mCallback := in_callback\<rparr>
      else
        (let s0 = s\<lparr>mCallback := in_callback\<rparr> in
         if mCallback s0 = None then
           (case sys E ''pthread_kill'' s0 of
              (r, s1) \<Rightarrow> if r = 0 then s1\<lparr>destroyThread := True, mPoll := False\<rparr> else s1)
         else
           (case sys E ''pthread_create'' (s0\<lparr>destroyThread := False\<rparr>) of
              (r, s1) \<Rightarrow>
                if r \<noteq> 0 then s1\<lparr>mCallback := None\<rparr> else s1\<lparr>mPoll := True\<rparr>)))"

end
