(* ===== verification/UsbPorts.thy ===== *)
theory UsbPorts
  imports Usb "HOL-Library.Multiset"
begin

text \<open>
  What the reports on the ports are made of: the walk over the directory of the Type-C
  class, the roles read from the kernel's files, and what a kernel event about a port does.
  The files are described by \<open>typec_files\<close>, from which the whole report follows.
\<close>

section \<open>Calls that only read\<close>

definition only_reads :: "usb \<Rightarrow> usb \<Rightarrow> bool" where
  "only_reads s t \<longleftrightarrow>
     t = s\<lparr>hist := hist t\<rparr> \<and> notified (hist t) = notified (hist s) \<and> writes (hist t) = writes (hist s)"

lemma only_reads_refl [simp]: "only_reads s s"
  by (simp add: only_reads_def)

lemma only_reads_trans: "only_reads s t \<Longrightarrow> only_reads t u \<Longrightarrow> only_reads s u"
  by (cases s, cases t, cases u) (simp add: only_reads_def)

lemma only_reads_fields:
  "only_reads s t \<Longrightarrow> mCallback t = mCallback s"
  "only_reads s t \<Longrightarrow> mUsbDataEnabled t = mUsbDataEnabled s"
  "only_reads s t \<Longrightarrow> mPartnerUp t = mPartnerUp s"
  "only_reads s t \<Longrightarrow> notified (hist t) = notified (hist s)"
  "only_reads s t \<Longrightarrow> writes (hist t) = writes (hist s)"
  by (metis only_reads_def usb.select_convs usb.update_convs os.select_convs usb.surjective
      os.update_convs)+

lemma only_reads_os [simp]:
  "only_reads s (snd (read_file E p s))" "only_reads s (snd (open_dir E p s))"
  "only_reads s (snd (sys E x s))" "only_reads s (snd (clock E s))"
  by (simp_all add: only_reads_def os_simps)

definition reads_only :: "(usb, 'a) st \<Rightarrow> bool" where
  "reads_only m \<longleftrightarrow> (\<forall>s. only_reads s (snd (m s)))"

lemma reads_onlyD: "reads_only m \<Longrightarrow> m s = (a, t) \<Longrightarrow> only_reads s t"
  unfolding reads_only_def by (metis snd_conv)

lemma reads_onlyI: "(\<And>s a t. m s = (a, t) \<Longrightarrow> only_reads s t) \<Longrightarrow> reads_only m"
  unfolding reads_only_def by (metis prod.collapse)

lemma reads_only_os:
  "reads_only (read_file E p)" "reads_only (open_dir E p)" "reads_only (sys E x)"
  by (simp_all add: reads_only_def)

lemma reads_only_accessory: "reads_only (getAccessoryConnected E name)"
  by (rule reads_onlyI)
    (auto simp: getAccessoryConnected_def split: prod.splits option.splits
      dest: reads_onlyD [OF reads_only_os(1)])

lemma reads_only_read_role: "reads_only (read_role E f role)"
  by (rule reads_onlyI)
    (auto simp: read_role_def split: prod.splits option.splits
      dest: reads_onlyD [OF reads_only_os(1)])

lemma reads_only_role: "reads_only (getCurrentRoleHelper E name conn role)"
  by (rule reads_onlyI)
    (auto simp: getCurrentRoleHelper_def
      split: PortRole.splits if_splits prod.splits option.splits
      dest!: reads_onlyD [OF reads_only_read_role] reads_onlyD [OF reads_only_accessory]
      intro: only_reads_trans)

lemma reads_only_canSwitch: "reads_only (canSwitchRoleHelper E name)"
  by (rule reads_onlyI)
    (auto simp: canSwitchRoleHelper_def split: prod.splits option.splits
      dest: reads_onlyD [OF reads_only_os(1)])

section \<open>The names of the ports\<close>

text \<open>A partner's link always has a token in front of its first dash.\<close>

lemma partner_has_port: "contains d ''-partner'' \<Longrightarrow> strtok_first (CHR ''-'') d \<noteq> None"
proof
  assume "contains d ''-partner''" and none: "strtok_first (CHR ''-'') d = None"
  then obtain u v where d: "d = u @ ''-partner'' @ v"
    by (auto simp: contains_iff sublist_def)
  from none have "set d \<subseteq> {CHR ''-''}" by (simp only: strtok_first_None)
  with d show False by simp
qed

text \<open>What the directory says of a name: a port with a partner, without one, or no port.\<close>

definition port_of :: "(string \<times> bool) list \<Rightarrow> string \<Rightarrow> bool option" where
  "port_of entries n =
     (if \<exists>d. (d, True) \<in> set entries \<and> contains d ''-partner'' \<and>
           strtok_first (CHR ''-'') d = Some n then Some True
      else if (n, True) \<in> set entries \<and> \<not> contains n ''-partner'' then Some False
      else None)"

definition merge_ports :: "bool option \<Rightarrow> bool option \<Rightarrow> bool option" where
  "merge_ports a b = (if a = Some True \<or> b = Some True then Some True
     else if a = None then b else a)"

lemma port_of_Nil [simp]: "port_of [] n = None"
  by (simp add: port_of_def)

lemma port_of_Cons:
  "port_of ((d, l) # es) n =
     (if l \<and> contains d ''-partner'' \<and> strtok_first (CHR ''-'') d = Some n then Some True
      else if l \<and> \<not> contains d ''-partner'' \<and> d = n then merge_ports (Some False) (port_of es n)
      else port_of es n)"
  by (auto simp: port_of_def merge_ports_def)

lemma merge_ports_simps [simp]:
  "merge_ports (Some True) b = Some True" "merge_ports None b = b"
  "merge_ports b None = b" "merge_ports b (Some True) = Some True"
  "merge_ports (Some False) (merge_ports (Some False) b) = merge_ports (Some False) b"
  by (auto simp: merge_ports_def)

lemma merge_ports_assoc: "merge_ports (merge_ports a b) c = merge_ports a (merge_ports b c)"
  by (auto simp: merge_ports_def)

lemma add_names_spec:
  assumes "distinct (map fst names)"
  shows "\<exists>res. add_names entries names = Some res \<and> distinct (map fst res) \<and>
    (\<forall>n. map_of res n = merge_ports (map_of names n) (port_of entries n))"
  using assms
proof (induction entries names rule: add_names.induct)
  case (1 names)
  then show ?case by auto
next
  case (2 d l ds names)
  show ?case
  proof (cases "l \<and> contains d ''-partner''")
    case True
    then obtain n where n: "strtok_first (CHR ''-'') d = Some n" using partner_has_port by blast
    have dist: "distinct (map fst (AList.update n True names))"
      using 2(5) by (rule distinct_update)
    have "map_of (AList.update n True names) m =
        (if m = n then Some True else map_of names m)" for m
      by (simp add: update_conv')
    with 2(3) [OF _ _ n dist] True n show ?thesis by (auto simp: port_of_Cons)
  next
    case False
    show ?thesis
    proof (cases "l \<and> map_of names d = None")
      case True
      then have "distinct (map fst (names @ [(d, False)]))"
        using 2(5) by (auto simp: map_of_eq_None_iff)
      moreover have "map_of (names @ [(d, False)]) m =
          (if m = d then Some False else map_of names m)" for m
        using True by (auto simp: map_of_append map_add_def split: option.splits)
      ultimately show ?thesis
        using 2(1) True False by (auto simp: port_of_Cons merge_ports_assoc)
    next
      case other: False
      show ?thesis
      proof (cases l)
        case True
        with other obtain b where "map_of names d = Some b" by auto
        moreover have "merge_ports (Some b) (merge_ports (Some False) x) =
            merge_ports (Some b) x" for x by (auto simp: merge_ports_def)
        ultimately show ?thesis
          using 2(2) 2(5) True False other by (auto simp: port_of_Cons)
      next
        case False
        with 2 show ?thesis by (auto simp: port_of_Cons)
      qed
    qed
  qed
qed

section \<open>The files of the Type-C class\<close>

text \<open>What is connected to a port: its roles, the accessory mode, and power delivery.\<close>

record partner =
  p_power :: PortPowerRole
  p_data :: PortDataRole
  p_accessory :: "PortMode option"
  p_pd :: bool

definition accessory_word :: "PortMode option \<Rightarrow> string \<Rightarrow> bool" where
  "accessory_word acc w =
     (case acc of
        Some AUDIO_ACCESSORY \<Rightarrow> w = ''analog_audio''
      | Some DEBUG_ACCESSORY \<Rightarrow> w = ''debug''
      | _ \<Rightarrow> w \<noteq> ''analog_audio'' \<and> w \<noteq> ''debug'')"

text \<open>The role files of a connected port name its roles, the one in brackets being current.\<close>

definition holds :: "usb_env \<Rightarrow> string \<Rightarrow> (string \<Rightarrow> bool) \<Rightarrow> bool" where
  "holds E path P \<longleftrightarrow> (\<forall>h. \<exists>c. e_read E h path = Some c \<and> P (e_trim E c))"

definition partner_files :: "usb_env \<Rightarrow> string \<Rightarrow> partner \<Rightarrow> bool" where
  "partner_files E name p \<longleftrightarrow>
     holds E (''/sys/class/typec/'' @ name @ ''/power_role'')
       (\<lambda>c. extractRole c = convertRoletoString (PowerRole (p_power p))) \<and>
     holds E (''/sys/class/typec/'' @ name @ ''/data_role'')
       (\<lambda>c. extractRole c = convertRoletoString (DataRole (p_data p))) \<and>
     holds E (''/sys/class/typec/'' @ name @ ''-partner/accessory_mode'')
       (accessory_word (p_accessory p)) \<and>
     holds E (''/sys/class/typec/'' @ name @ ''-partner/supports_usb_power_delivery'')
       (\<lambda>c. (c = ''yes'') = p_pd p) \<and>
     p_accessory p \<in> {None, Some AUDIO_ACCESSORY, Some DEBUG_ACCESSORY}"

definition partner_mode :: "partner \<Rightarrow> PortMode" where
  "partner_mode p =
     (case p_accessory p of
        Some m \<Rightarrow> m
      | None \<Rightarrow> (case p_data p of HOST \<Rightarrow> DFP | DEVICE \<Rightarrow> UFP | DATA_NONE \<Rightarrow> MODE_NONE))"

text \<open>The entry a port should have in the report.\<close>

definition expected_port :: "usb_env \<Rightarrow> bool \<Rightarrow> string \<Rightarrow> partner option \<Rightarrow> PortStatus" where
  "expected_port E enabled name po =
     (u_port E)\<lparr>portName := name,
       currentPowerRole := (case po of None \<Rightarrow> POWER_NONE | Some p \<Rightarrow> p_power p),
       currentDataRole := (case po of None \<Rightarrow> DATA_NONE | Some p \<Rightarrow> p_data p),
       currentMode := (case po of None \<Rightarrow> MODE_NONE | Some p \<Rightarrow> partner_mode p),
       canChangeMode := True,
       canChangeDataRole := (case po of None \<Rightarrow> False | Some p \<Rightarrow> p_pd p),
       canChangePowerRole := (case po of None \<Rightarrow> False | Some p \<Rightarrow> p_pd p),
       supportedModes := supportedModes (u_port E) @ [DRP],
       usbDataStatus := usbDataStatus (u_port E) @ [if enabled then ENABLED else DISABLED_FORCE],
       powerBrickStatus := BRICK_UNKNOWN\<rparr>"

definition port_files :: "usb_env \<Rightarrow> string \<Rightarrow> partner option \<Rightarrow> bool" where
  "port_files E name po \<longleftrightarrow> (case po of None \<Rightarrow> True | Some p \<Rightarrow> partner_files E name p)"

lemma partner_filesD:
  assumes "partner_files E name p"
  shows "holds E (''/sys/class/typec/'' @ name @ ''/power_role'')
       (\<lambda>c. extractRole c = convertRoletoString (PowerRole (p_power p)))"
    and "holds E (''/sys/class/typec/'' @ name @ ''/data_role'')
       (\<lambda>c. extractRole c = convertRoletoString (DataRole (p_data p)))"
    and "holds E (''/sys/class/typec/'' @ name @ ''-partner/accessory_mode'')
       (accessory_word (p_accessory p))"
    and "holds E (''/sys/class/typec/'' @ name @ ''-partner/supports_usb_power_delivery'')
       (\<lambda>c. (c = ''yes'') = p_pd p)"
    and "p_accessory p \<in> {None, Some AUDIO_ACCESSORY, Some DEBUG_ACCESSORY}"
  using assms unfolding partner_files_def by blast+

lemma holds_read:
  assumes "holds E path P"
  obtains c where "fst (read_file E path s) = Some c" "P (e_trim E c)"
  using assms unfolding holds_def os_simps by auto

lemma role_power:
  assumes "holds E (''/sys/class/typec/'' @ name @ ''/power_role'')
    (\<lambda>c. extractRole c = convertRoletoString (PowerRole r))"
  shows "fst (getCurrentRoleHelper E name True (PowerRole x) s) = (SUCCESS, PowerRole r)"
  by (rule holds_read [OF assms, of s])
    (auto simp: getCurrentRoleHelper_def read_role_def role_of_word_def convertRoletoString_def
      split: prod.splits PortPowerRole.splits)

lemma role_data:
  assumes "holds E (''/sys/class/typec/'' @ name @ ''/data_role'')
    (\<lambda>c. extractRole c = convertRoletoString (DataRole r))"
  shows "fst (getCurrentRoleHelper E name True (DataRole x) s) = (SUCCESS, DataRole r)"
  by (rule holds_read [OF assms, of s])
    (auto simp: getCurrentRoleHelper_def read_role_def role_of_word_def convertRoletoString_def
      split: prod.splits PortDataRole.splits)

lemma role_mode:
  assumes "partner_files E name p"
  shows "fst (getCurrentRoleHelper E name True (ModeRole x) s) = (SUCCESS, ModeRole (partner_mode p))"
proof -
  let ?af = "''/sys/class/typec/'' @ name @ ''-partner/accessory_mode''"
  obtain a where a: "fst (read_file E ?af s) = Some a" "accessory_word (p_accessory p) (e_trim E a)"
    by (rule holds_read [OF partner_filesD(3) [OF assms]])
  obtain t where t: "read_file E ?af s = (Some a, t)" using a(1) by (metis prod.collapse)
  obtain c where c: "fst (read_file E (''/sys/class/typec/'' @ name @ ''/data_role'') t) = Some c"
    "extractRole (e_trim E c) = convertRoletoString (DataRole (p_data p))"
    by (rule holds_read [OF partner_filesD(2) [OF assms]])
  then obtain u where u: "read_file E (''/sys/class/typec/'' @ name @ ''/data_role'') t = (Some c, u)"
    by (metis prod.collapse)
  have "p_accessory p \<in> {None, Some AUDIO_ACCESSORY, Some DEBUG_ACCESSORY}"
    using assms by (rule partner_filesD(5))
  then show ?thesis
    using a(2) c(2) t u
    by (auto simp: getCurrentRoleHelper_def getAccessoryConnected_def read_role_def
        role_of_word_def convertRoletoString_def partner_mode_def accessory_word_def
        split: PortDataRole.splits)
qed

lemma role_disconnected:
  "getCurrentRoleHelper E name False (PowerRole x) s = ((SUCCESS, PowerRole POWER_NONE), s)"
  "getCurrentRoleHelper E name False (DataRole y) s = ((SUCCESS, DataRole DATA_NONE), s)"
  "getCurrentRoleHelper E name False (ModeRole z) s = ((SUCCESS, ModeRole MODE_NONE), s)"
  by (simp_all add: getCurrentRoleHelper_def)

lemma can_switch:
  assumes "holds E (''/sys/class/typec/'' @ name @ ''-partner/supports_usb_power_delivery'')
    (\<lambda>c. (c = ''yes'') = pd)"
  shows "fst (canSwitchRoleHelper E name s) = pd"
  by (rule holds_read [OF assms, of s]) (auto simp: canSwitchRoleHelper_def split: prod.splits)

section \<open>The report\<close>

lemma read_step:
  assumes "reads_only m" and "fst (m s) = v"
  obtains t where "m s = (v, t)" "only_reads s t"
  using assms unfolding reads_only_def by (metis prod.collapse)

lemma finish_port_spec:
  assumes "port_files E name po"
  obtains t where "only_reads s t"
    "finish_port E name (po \<noteq> None) e s =
       (let pd = (case po of None \<Rightarrow> False | Some p \<Rightarrow> p_pd p) in
        (e\<lparr>canChangeMode := True, canChangeDataRole := pd, canChangePowerRole := pd,
           supportedModes := supportedModes e @ [DRP],
           usbDataStatus := usbDataStatus e @
             [if \<not> mUsbDataEnabled s then DISABLED_FORCE else ENABLED],
           powerBrickStatus := BRICK_UNKNOWN\<rparr>, t))"
proof (cases po)
  case None
  then show ?thesis by (auto intro: that [of s] simp: finish_port_def Let_def)
next
  case (Some p)
  then have pd: "fst (canSwitchRoleHelper E name u) = p_pd p" for u
    using assms can_switch [OF partner_filesD(4)] by (simp add: port_files_def)
  obtain t where t: "canSwitchRoleHelper E name s = (p_pd p, t)" "only_reads s t"
    by (rule read_step [OF reads_only_canSwitch pd])
  obtain u where u: "canSwitchRoleHelper E name t = (p_pd p, u)" "only_reads t u"
    by (rule read_step [OF reads_only_canSwitch pd])
  have su: "only_reads s u" using t(2) u(2) by (rule only_reads_trans)
  then show ?thesis
    using that [OF su] t u only_reads_fields(2) [OF su] Some
    by (simp add: finish_port_def Let_def)
qed

lemma port_entry_spec:
  assumes "port_files E name po"
  obtains t where "only_reads s t"
    "port_entry E (name, po \<noteq> None) s =
       (Inr (True, expected_port E (mUsbDataEnabled s) name po), t)"
proof -
  let ?pw = "case po of None \<Rightarrow> POWER_NONE | Some p \<Rightarrow> p_power p"
  let ?dt = "case po of None \<Rightarrow> DATA_NONE | Some p \<Rightarrow> p_data p"
  let ?md = "case po of None \<Rightarrow> MODE_NONE | Some p \<Rightarrow> partner_mode p"
  have roles:
    "fst (getCurrentRoleHelper E name (po \<noteq> None) (PowerRole POWER_NONE) u) = (SUCCESS, PowerRole ?pw)"
    "fst (getCurrentRoleHelper E name (po \<noteq> None) (DataRole DATA_NONE) u) = (SUCCESS, DataRole ?dt)"
    "fst (getCurrentRoleHelper E name (po \<noteq> None) (ModeRole MODE_NONE) u) = (SUCCESS, ModeRole ?md)"
    for u
  proof -
    show "fst (getCurrentRoleHelper E name (po \<noteq> None) (PowerRole POWER_NONE) u) =
        (SUCCESS, PowerRole ?pw)"
      using assms role_power [OF partner_filesD(1)]
      by (cases po) (simp_all add: role_disconnected port_files_def)
    show "fst (getCurrentRoleHelper E name (po \<noteq> None) (DataRole DATA_NONE) u) =
        (SUCCESS, DataRole ?dt)"
      using assms role_data [OF partner_filesD(2)]
      by (cases po) (simp_all add: role_disconnected port_files_def)
    show "fst (getCurrentRoleHelper E name (po \<noteq> None) (ModeRole MODE_NONE) u) =
        (SUCCESS, ModeRole ?md)"
      using assms role_mode
      by (cases po) (simp_all add: role_disconnected port_files_def)
  qed
  obtain t1 where t1: "getCurrentRoleHelper E name (po \<noteq> None) (PowerRole POWER_NONE) s =
      ((SUCCESS, PowerRole ?pw), t1)" "only_reads s t1"
    by (rule read_step [OF reads_only_role roles(1)])
  obtain t2 where t2: "getCurrentRoleHelper E name (po \<noteq> None) (DataRole DATA_NONE) t1 =
      ((SUCCESS, DataRole ?dt), t2)" "only_reads t1 t2"
    by (rule read_step [OF reads_only_role roles(2)])
  obtain t3 where t3: "getCurrentRoleHelper E name (po \<noteq> None) (ModeRole MODE_NONE) t2 =
      ((SUCCESS, ModeRole ?md), t3)" "only_reads t2 t3"
    by (rule read_step [OF reads_only_role roles(3)])
  let ?e = "(u_port E)\<lparr>portName := name, currentPowerRole := ?pw, currentDataRole := ?dt,
    currentMode := ?md\<rparr>"
  obtain t4 where t4: "only_reads t3 t4"
    "finish_port E name (po \<noteq> None) ?e t3 =
       (let pd = (case po of None \<Rightarrow> False | Some p \<Rightarrow> p_pd p) in
        (?e\<lparr>canChangeMode := True, canChangeDataRole := pd, canChangePowerRole := pd,
           supportedModes := supportedModes ?e @ [DRP],
           usbDataStatus := usbDataStatus ?e @
             [if \<not> mUsbDataEnabled t3 then DISABLED_FORCE else ENABLED],
           powerBrickStatus := BRICK_UNKNOWN\<rparr>, t4))"
    by (rule finish_port_spec [OF assms])
  have s3: "only_reads s t3" using t1(2) t2(2) t3(2) only_reads_trans by blast
  then have s4: "only_reads s t4" using t4(1) by (rule only_reads_trans)
  show ?thesis
    by (rule that [OF s4])
      (use t1(1) t2(1) t3(1) t4(2) only_reads_fields(2) [OF s3] in
       \<open>simp add: port_entry_def prog_simps get_power_def get_data_def get_mode_def
          expected_port_def Let_def\<close>)
qed

lemma port_loop_spec:
  assumes "\<And>n b. (n, b) \<in> set ports \<Longrightarrow> port_files E n (partner n) \<and> b = (partner n \<noteq> None)"
  shows "\<exists>t. only_reads s t \<and> port_loop E ports s =
    (Inr (SUCCESS, map (\<lambda>(n, b). expected_port E (mUsbDataEnabled s) n (partner n)) ports), t)"
  using assms
proof (induction ports arbitrary: s)
  case Nil
  then show ?case by (auto simp: prog_simps)
next
  case (Cons port ports)
  obtain n b where port: "port = (n, b)" by force
  then have files: "port_files E n (partner n)" "b = (partner n \<noteq> None)" using Cons(2) by auto
  obtain t where t: "only_reads s t" "port_entry E (n, partner n \<noteq> None) s =
      (Inr (True, expected_port E (mUsbDataEnabled s) n (partner n)), t)"
    by (rule port_entry_spec [OF files(1)])
  have "port_files E m (partner m) \<and> c = (partner m \<noteq> None)" if "(m, c) \<in> set ports" for m c
    using Cons(2) that by auto
  from Cons(1) [OF this, of t] obtain u where u: "only_reads t u" "port_loop E ports t =
      (Inr (SUCCESS, map (\<lambda>(n, b). expected_port E (mUsbDataEnabled t) n (partner n)) ports), u)"
    by blast
  have "only_reads s u" using t(1) u(1) by (rule only_reads_trans)
  then show ?case
    using t u port files only_reads_fields(2) [OF t(1)]
    by (auto simp: prog_simps)
qed

text \<open>
  The kernel's side of a report: the directory lists \<open>entries\<close>, and for every port in it
  \<open>partner\<close> says what is connected, in agreement with the files. The order in which the
  map is walked is any permutation.
\<close>

definition typec_files ::
    "usb_env \<Rightarrow> (string \<times> bool) list \<Rightarrow> (string \<Rightarrow> partner option) \<Rightarrow> bool" where
  "typec_files E entries partner \<longleftrightarrow>
     (\<forall>h. e_opendir E h kTypecPath = Some entries) \<and>
     (\<forall>names. mset (u_order E names) = mset names) \<and>
     (\<forall>n b. port_of entries n = Some b \<longrightarrow>
        port_files E n (partner n) \<and> b = (partner n \<noteq> None))"

definition ports_in :: "(string \<times> bool) list \<Rightarrow> string list \<Rightarrow> bool" where
  "ports_in entries names \<longleftrightarrow>
     distinct names \<and> (\<forall>n. n \<in> set names \<longleftrightarrow> port_of entries n \<noteq> None)"

lemma query_ports:
  assumes "typec_files E entries partner"
  obtains names t where "ports_in entries names" "only_reads s t"
    "getPortStatusHelper E s = (Inr (SUCCESS,
       map (\<lambda>n. expected_port E (mUsbDataEnabled s) n (partner n)) names), t)"
proof -
  obtain res where res: "add_names entries [] = Some res" "distinct (map fst res)"
    "\<And>n. map_of res n = port_of entries n"
    using add_names_spec [of "[]" entries] by auto
  let ?walk = "u_order E res"
  have walk: "mset ?walk = mset res" using assms by (simp add: typec_files_def)
  then have set: "set ?walk = set res" by (rule mset_eq_setD)
  have dist: "distinct (map fst ?walk)"
    using res(2) walk by (metis mset_map mset_eq_imp_distinct_iff)
  have entry: "port_of entries n = Some b" if "(n, b) \<in> set ?walk" for n b
    using that set res(2,3) by (metis map_of_is_SomeI)
  obtain t0 where t0: "open_dir E kTypecPath s = (Some entries, t0)" "only_reads s t0"
    using read_step [OF reads_only_os(2), of E kTypecPath s "Some entries"] assms
    by (auto simp: typec_files_def os_simps)
  have files: "port_files E n (partner n) \<and> b = (partner n \<noteq> None)" if "(n, b) \<in> set ?walk" for n b
    using entry [OF that] assms by (auto simp: typec_files_def)
  obtain t where t: "only_reads t0 t" "port_loop E ?walk t0 = (Inr (SUCCESS,
      map (\<lambda>(n, b). expected_port E (mUsbDataEnabled t0) n (partner n)) ?walk), t)"
    using port_loop_spec [OF files, of ?walk t0] by blast
  show ?thesis
  proof (rule that [of "map fst ?walk" t])
    show "ports_in entries (map fst ?walk)"
      using dist entry set res(3)
      by (auto simp: ports_in_def) (metis domI dom_map_of_conv_image_fst fst_conv image_eqI)+
    show "only_reads s t" using t0(2) t(1) by (rule only_reads_trans)
    show "getPortStatusHelper E s = (Inr (SUCCESS,
        map (\<lambda>n. expected_port E (mUsbDataEnabled s) n (partner n)) (map fst ?walk)), t)"
      using t0 t(2) res(1) only_reads_fields(2) [OF t0(2)]
      by (simp add: getPortStatusHelper_def getTypeCPortNamesHelper_def prog_simps case_prod_beta'
          comp_def)
  qed
qed

definition reported ::
    "usb_env \<Rightarrow> bool \<Rightarrow> (string \<Rightarrow> partner option) \<Rightarrow> string list \<Rightarrow> PortStatus list" where
  "reported E enabled partner names = snd (queryMoistureDetectionStatus
     (map (\<lambda>n. expected_port E enabled n (partner n)) names))"

lemma reported_names: "map portName (reported E b partner names) = names"
  by (cases names)
    (simp_all add: reported_def queryMoistureDetectionStatus_def expected_port_def comp_def)

lemma query_version:
  assumes "typec_files E entries partner"
  obtains names t where "ports_in entries names" "only_reads s t"
    "queryVersionHelper E s =
       (Inr (reported E (mUsbDataEnabled s) partner names),
        tell_callback E (NotifyPortStatusChange (reported E (mUsbDataEnabled s) partner names)
          SUCCESS) t)"
proof -
  obtain names t where "ports_in entries names" "only_reads s t"
    "getPortStatusHelper E s = (Inr (SUCCESS,
       map (\<lambda>n. expected_port E (mUsbDataEnabled s) n (partner n)) names), t)"
    by (rule query_ports [OF assms])
  then show ?thesis
    by (intro that [of names t])
      (simp_all add: queryVersionHelper_def prog_simps Let_def reported_def)
qed

section \<open>Kernel events\<close>

text \<open>The loop over the fields stops at the first one about a Type-C device.\<close>

lemma field_loop_skips:
  "list_all (\<lambda>f. \<not> strncmp_prefix f ''DEVTYPE=typec_'' \<or> partner_added f) before \<Longrightarrow>
   field_loop E (before @ rest) s =
     field_loop E rest (s\<lparr>mPartnerUp := mPartnerUp s \<or> list_ex partner_added before\<rparr>)"
proof (induction before arbitrary: s)
  case Nil
  then show ?case by simp
next
  case (Cons f fs)
  then show ?case by (cases "partner_added f") (simp_all add: prog_simps)
qed

lemma typec_not_partner:
  "strncmp_prefix f ''DEVTYPE=typec_'' \<Longrightarrow> \<not> partner_added f"
  by (cases f) (auto simp: strncmp_prefix_def partner_added_def)

text \<open>The partner directories, and what the loop over the ports writes.\<close>

definition partner_dirs :: "usb_env \<Rightarrow> (string \<Rightarrow> partner option) \<Rightarrow> string list \<Rightarrow> bool" where
  "partner_dirs E partner names \<longleftrightarrow> (\<forall>n \<in> set names. \<forall>h.
     (e_opendir E h (''/sys/class/typec/'' @ n @ ''-partner'') = None) = (partner n = None))"

definition port_type :: "string \<Rightarrow> string" where
  "port_type name = ''/sys/class/typec/'' @ name @ ''/port_type''"

definition writes_ok :: "usb_env \<Rightarrow> bool" where
  "writes_ok E \<longleftrightarrow> (\<forall>h c p. e_write E h c p)"

definition nodes_open :: "usb_env \<Rightarrow> bool" where
  "nodes_open E \<longleftrightarrow> (\<forall>h f. e_sys E h (''fopen '' @ f) \<noteq> 0)"

lemma switchToDrp_writes:
  "nodes_open E \<Longrightarrow> writes (hist (switchToDrp E name s)) = (port_type name, ''dual'') # writes (hist s)"
  by (simp add: switchToDrp_def appendRoleNodeHelper_def fopen_w_def os_simps port_type_def
      nodes_open_def split: prod.splits)

lemma drp_loop_writes:
  assumes "nodes_open E" and "partner_dirs E partner (map portName ps)"
  shows "writes (hist (drp_loop E ps s)) =
    rev (map (\<lambda>n. (port_type n, ''dual'')) (filter (\<lambda>n. partner n = None) (map portName ps))) @
    writes (hist s)"
  using assms(2)
proof (induction ps arbitrary: s)
  case Nil
  then show ?case by simp
next
  case (Cons p ps)
  let ?dir = "''/sys/class/typec/'' @ portName p @ ''-partner''"
  have dirs: "partner_dirs E partner (map portName ps)"
    using Cons(2) by (simp add: partner_dirs_def)
  have "(e_opendir E (hist s) ?dir = None) = (partner (portName p) = None)"
    using Cons(2) by (simp add: partner_dirs_def)
  then show ?case
    using Cons(1) [OF dirs] switchToDrp_writes [OF assms(1)]
    by (auto simp: open_dir_def ask_def Let_def split: option.splits)
qed

end
