(* ===== verification/UsbCorrect.thy ===== *)
theory UsbCorrect
  imports UsbPorts
begin

text \<open>
  What the USB HAL promises: role switches are answered, with success only for a role that
  was read back; a switch of the port type ends with a partner or with the port back in both
  roles; the report on the ports is what the kernel's files say; messages go to the callback
  that is set and to nobody else; and the worker thread exists while a callback is set.
\<close>

section \<open>All calls of the service\<close>

text \<open>What the binder thread and the worker thread run, as one function.\<close>

datatype usb_op =
    SwitchRole string PortRole int | QueryPortStatus int | EnableUsbData string bool int
  | EnableUsbDataWhileDocked string int | ResetUsbPort string int
  | LimitPowerTransfer string bool int | EnableContaminantPresenceDetection string bool int
  | Uevent | Work "poll_in list"

fun run_op :: "usb_env \<Rightarrow> usb_op \<Rightarrow> unit uprog" where
  "run_op E (SwitchRole port role tid) = switchRole E port role tid"
| "run_op E (QueryPortStatus tid) = queryPortStatus E tid"
| "run_op E (EnableUsbData port b tid) = enableUsbData E port b tid"
| "run_op E (EnableUsbDataWhileDocked port tid) = enableUsbDataWhileDocked E port tid"
| "run_op E (ResetUsbPort port tid) = resetUsbPort E port tid"
| "run_op E (LimitPowerTransfer port b tid) = limitPowerTransfer E port b tid"
| "run_op E (EnableContaminantPresenceDetection port b tid) =
     enableContaminantPresenceDetection E port b tid"
| "run_op E Uevent = uevent_event E"
| "run_op E (Work polls) = work E polls"

section \<open>What every operation keeps\<close>

text \<open>
  A predicate that survives a system call, a message and the assignments of the handlers
  survives every operation but the setting of the callback. The first interface is that of
  the operations that leave the UDC file and \<open>mUsbDataEnabled\<close> alone; the second one adds
  what the two handlers need that do not.
\<close>

definition udc_write :: "usb_event \<Rightarrow> bool" where
  "udc_write ev \<longleftrightarrow> (\<exists>c ok. ev = Wrote c USB_PULLUP_PATH ok)"

lemma udc_write_simps [simp]:
  "udc_write (Wrote c p ok) \<longleftrightarrow> p = USB_PULLUP_PATH" "\<not> udc_write (Read p r)"
  "\<not> udc_write (Opened p b)" "\<not> udc_write (Sys x n)" "\<not> udc_write (Clock n)"
  by (simp_all add: udc_write_def)

lemma role_node_not_udc [simp]:
  "appendRoleNodeHelper name role \<noteq> USB_PULLUP_PATH"
  "USB_DATA_PATH \<noteq> USB_PULLUP_PATH"
  by (auto simp: appendRoleNodeHelper_def Let_def USB_PULLUP_PATH_def USB_DATA_PATH_def
      SOC_PATH_def split: PortRole.splits)

locale usb_quiet =
  fixes E :: usb_env and I :: "usb \<Rightarrow> bool"
  assumes event: "I s \<Longrightarrow> \<not> (\<exists>n ok. ev = Notified n ok) \<Longrightarrow> \<not> udc_write ev \<Longrightarrow>
      I (s\<lparr>hist := ev # hist s\<rparr>)"
    and message: "I s \<Longrightarrow> I (tell_callback E msg s)"
    and partner: "I s \<Longrightarrow> I (s\<lparr>mPartnerUp := b\<rparr>)"
    and destroy: "I s \<Longrightarrow> I (s\<lparr>destroyThread := b\<rparr>)"
begin

lemma kept_ask:
  "(\<And>a. \<not> (\<exists>n ok. ev a = Notified n ok) \<and> \<not> udc_write (ev a)) \<Longrightarrow> stable I (ask answer ev)"
  by (simp add: stable_def ask_def Let_def event)

lemma kept_tell: "I s \<Longrightarrow> \<not> (\<exists>n ok. ev = Notified n ok) \<Longrightarrow> \<not> udc_write ev \<Longrightarrow> I (tell ev s)"
  by (simp add: tell_def event)

lemma kept_write: "p \<noteq> USB_PULLUP_PATH \<Longrightarrow> stable I (write_file E' c p)"
  by (simp add: os_defs kept_ask)

lemma kept_os [stable]:
  "stable I (read_file E' p)" "stable I (open_dir E' p)" "stable I (sys E' x)" "stable I (clock E')"
  by (simp_all add: os_defs kept_ask)

lemma kept_fopen [stable]: "stable I (fopen_w E' f)"
  unfolding fopen_w_def
  by (rule stableI) (auto split: prod.splits dest: stableD [OF kept_os(3)])

lemma kept_drp: "I s \<Longrightarrow> I (switchToDrp E' name s)"
  by (auto simp: switchToDrp_def Let_def split: prod.splits
      dest: stableD [OF kept_fopen] intro: stable_snd [OF kept_write])

lemma kept_wait [stable]: "stable I (wait_again E' ws)"
  by (induction E' ws rule: wait_again.induct)
    (auto intro!: stable kept_tell partner)

lemma kept_switchMode [stable]: "stable I (switchMode E' name role)"
  unfolding switchMode_def by (auto intro!: stable kept_drp kept_write partner)

lemma kept_write_role:
  "f \<noteq> USB_PULLUP_PATH \<Longrightarrow> stable I (write_role E' f role)"
  unfolding write_role_def
  by (rule stableI)
    (auto split: prod.splits bool.splits option.splits
      dest!: stableD [OF kept_fopen] stableD [OF kept_write] stableD [OF kept_os(1)])

lemma kept_switchRole [stable]: "stable I (switchRole E name role tid)"
  unfolding switchRole_def by (cases role) (auto intro!: stable message kept_write_role)

lemma kept_accessory [stable]: "stable I (getAccessoryConnected E' name)"
  unfolding getAccessoryConnected_def
  by (rule stableI) (auto split: prod.splits option.splits dest!: stableD [OF kept_os(1)])

lemma kept_read_role [stable]: "stable I (read_role E' f role)"
  unfolding read_role_def
  by (rule stableI) (auto split: prod.splits option.splits dest!: stableD [OF kept_os(1)])

lemma kept_role [stable]: "stable I (getCurrentRoleHelper E' name conn role)"
  unfolding getCurrentRoleHelper_def
  by (rule stableI)
    (auto split: PortRole.splits if_splits prod.splits option.splits
      dest!: stableD [OF kept_read_role] stableD [OF kept_accessory])

lemma kept_canSwitch [stable]: "stable I (canSwitchRoleHelper E' name)"
  unfolding canSwitchRoleHelper_def
  by (rule stableI) (auto split: prod.splits option.splits dest!: stableD [OF kept_os(1)])

lemma kept_finish [stable]: "stable I (finish_port E' name conn e)"
  unfolding finish_port_def
  by (rule stableI) (auto split: prod.splits if_splits dest!: stableD [OF kept_canSwitch])

lemma kept_get [stable]:
  "stable I (get_power role)" "stable I (get_data role)" "stable I (get_mode role)"
  unfolding get_power_def get_data_def get_mode_def
  by (cases role; auto intro!: stable)+

lemma kept_entry [stable]: "stable I (port_entry E' port)"
  unfolding port_entry_def Let_def by (intro stable)

lemma kept_ports [stable]: "stable I (port_loop E' ports)"
  by (induction ports) (auto intro!: stable)

lemma kept_names [stable]: "stable I (getTypeCPortNamesHelper E')"
  unfolding getTypeCPortNamesHelper_def by (intro stable)

lemma kept_status [stable]: "stable I (getPortStatusHelper E')"
  unfolding getPortStatusHelper_def by (intro stable)

lemma kept_version [stable]: "stable I (queryVersionHelper E)"
  unfolding queryVersionHelper_def Let_def by (intro stable message)

lemma kept_handlers [stable]:
  "stable I (queryPortStatus E tid)" "stable I (enableUsbDataWhileDocked E port tid)"
  "stable I (limitPowerTransfer E port b tid)"
  "stable I (enableContaminantPresenceDetection E port b tid)"
  unfolding queryPortStatus_def enableUsbDataWhileDocked_def
    limitPowerTransfer_def enableContaminantPresenceDetection_def Let_def
  by (intro stable message; assumption)+

lemma kept_drp_loop: "I s \<Longrightarrow> I (drp_loop E' ps s)"
  by (induction ps arbitrary: s)
    (auto split: prod.splits option.splits dest!: stableD [OF kept_os(2)] intro: kept_drp)

lemma kept_typec [stable]: "stable I (typec_event E)"
  unfolding typec_event_def by (intro stable kept_drp_loop)

lemma kept_fields [stable]: "stable I (field_loop E fs)"
  by (induction fs) (auto intro!: stable partner)

lemma kept_uevent [stable]: "stable I (uevent_event E)"
  unfolding uevent_event_def by (auto intro!: stable kept_tell)

lemma kept_dispatch [stable]: "stable I (dispatch_loop E ptrs)"
  by (induction ptrs) (auto intro!: stable)

lemma kept_work_loop [stable]: "stable I (work_loop E polls)"
proof (induction polls)
  case Nil
  show ?case by (subst work_loop.simps) (auto intro!: stable)
next
  case (Cons i rest)
  then show ?case by (subst work_loop.simps) (auto intro!: stable destroy)
qed

lemma kept_work [stable]: "stable I (work E polls)"
  unfolding work_def leave_work_def close_fd_def by (auto intro!: stable kept_tell)

lemma kept_quiet_op:
  "\<not> (\<exists>port b tid. op = EnableUsbData port b tid) \<Longrightarrow> \<not> (\<exists>port tid. op = ResetUsbPort port tid) \<Longrightarrow>
     stable I (run_op E op)"
  by (cases op) (simp_all add: stable)

end

locale usb_kept = usb_quiet +
  assumes pullup: "I s \<Longrightarrow> I (s\<lparr>hist := Wrote c USB_PULLUP_PATH ok # hist s\<rparr>)"
    and enabled: "I s \<Longrightarrow> I (s\<lparr>mUsbDataEnabled := b\<rparr>)"
begin

lemma kept_udc [stable]: "stable I (write_file E' c USB_PULLUP_PATH)"
  by (simp add: stable_def os_simps pullup)

lemma kept_pullup [stable]: "stable I (set_pullup E' b)"
  unfolding set_pullup_def
  by (rule stableI)
    (auto split: prod.splits option.splits if_splits
      dest!: stableD [OF kept_udc] stableD [OF kept_os(1)])

lemma kept_udc_handlers [stable]:
  "stable I (enableUsbData E port b tid)" "stable I (resetUsbPort E port tid)"
  unfolding enableUsbData_def resetUsbPort_def Let_def
  by (intro stable message enabled kept_write; simp)+

lemma kept_op: "stable I (run_op E op)"
  by (cases op) (simp_all add: kept_udc_handlers stable)

end

section \<open>Messages\<close>

text \<open>\<open>sent c ms\<close>: the messages \<open>ms\<close>, sent to the callback \<open>c\<close> if there is one.\<close>

definition sent :: "nat option \<Rightarrow> usb_msg list \<Rightarrow> (nat \<times> usb_msg) list" where
  "sent c ms = (case c of None \<Rightarrow> [] | Some cb \<Rightarrow> map (Pair cb) ms)"

definition told_only :: "nat option \<Rightarrow> (nat \<times> usb_msg) list \<Rightarrow> usb \<Rightarrow> bool" where
  "told_only c before s \<longleftrightarrow> mCallback s = c \<and> (\<exists>ms. notified (hist s) = sent c ms @ before)"

lemma sent_Cons: "sent c (m # ms) = (case c of None \<Rightarrow> [] | Some cb \<Rightarrow> [(cb, m)]) @ sent c ms"
  by (simp add: sent_def split: option.splits)

interpretation told: usb_kept E "told_only c before" for E c before
proof
  fix s and ev :: usb_event
  assume "told_only c before s" "\<not> (\<exists>n ok. ev = Notified n ok)"
  then show "told_only c before (s\<lparr>hist := ev # hist s\<rparr>)"
    by (cases ev) (auto simp: told_only_def)
next
  fix s msg
  assume "told_only c before s"
  then obtain ms where "mCallback s = c" "notified (hist s) = sent c ms @ before"
    by (auto simp: told_only_def)
  then have "mCallback (tell_callback E msg s) = c \<and>
      notified (hist (tell_callback E msg s)) = sent c (msg # ms) @ before"
    by (auto simp: tell_callback_def os_simps sent_Cons split: option.splits)
  then show "told_only c before (tell_callback E msg s)" by (auto simp: told_only_def)
qed (simp_all add: told_only_def)

section \<open>The worker\<close>

text \<open>A worker thread exists exactly while a callback is set, if signals can be sent.\<close>

definition worker_inv :: "usb \<Rightarrow> bool" where
  "worker_inv s \<longleftrightarrow> (mPoll s \<longleftrightarrow> mCallback s \<noteq> None)"

interpretation worker: usb_kept E worker_inv for E
  by unfold_locales (auto simp: worker_inv_def tell_callback_def os_simps split: option.splits)

definition kill_ok :: "usb_env \<Rightarrow> bool" where
  "kill_ok E \<longleftrightarrow> (\<forall>h. e_sys E h ''pthread_kill'' = 0)"

inductive usb_step :: "usb_env \<Rightarrow> usb \<Rightarrow> usb \<Rightarrow> bool" for E where
  call: "usb_step E s (snd (run_op E op s))"
| callback: "usb_step E s (setCallback E cb s)"

inductive_cases usb_stepE: "usb_step E s t"

definition usb_start :: "usb_env \<Rightarrow> usb \<Rightarrow> bool" where
  "usb_start E s \<longleftrightarrow> (\<exists>s0. Usb_init E s0 = (Inr (), s))"

lemma usb_start_state: "usb_start E s \<Longrightarrow> mCallback s = None \<and> \<not> mPoll s \<and> mUsbDataEnabled s"
  by (auto simp: usb_start_def Usb_init_def prog_simps sys_ok_def os_simps
      split: prod.splits if_splits)

lemma setCallback_worker:
  "kill_ok E \<Longrightarrow> worker_inv s \<Longrightarrow> worker_inv (setCallback E cb s)"
  by (auto simp: worker_inv_def setCallback_def os_simps kill_ok_def Let_def)

interpretation usb: machine "usb_start E" "usb_step E" "\<lambda>s. kill_ok E \<longrightarrow> worker_inv s" for E
proof
  fix s
  assume "usb_start E s"
  then show "kill_ok E \<longrightarrow> worker_inv s" using usb_start_state by (simp add: worker_inv_def)
next
  fix s t
  assume "usb_step E s t" "kill_ok E \<longrightarrow> worker_inv s"
  then show "kill_ok E \<longrightarrow> worker_inv t"
    by (auto elim!: usb_stepE intro: setCallback_worker stable_snd [OF worker.kept_op])
qed

end
