(* ===== verification/UsbService.thy ===== *)
theory UsbService
  imports UsbCorrect
begin

text \<open>
  The properties of the USB HAL, each with an instance of its hypotheses: an environment in
  which port0 is connected as a sink and a device, and port1 has no partner.
\<close>

section \<open>An instance of the environment\<close>

definition sample_files :: "string \<Rightarrow> string option" where
  "sample_files = map_of
     [(''/sys/class/typec/port0/power_role'', ''source [sink]'' @ [CHR 0x0A]),
      (''/sys/class/typec/port0/data_role'', ''host [device]'' @ [CHR 0x0A]),
      (''/sys/class/typec/port0-partner/accessory_mode'', ''none'' @ [CHR 0x0A]),
      (''/sys/class/typec/port0-partner/supports_usb_power_delivery'', ''yes'' @ [CHR 0x0A])]"

definition sample_entries :: "(string \<times> bool) list" where
  "sample_entries = [(''.'', False), (''..'', False), (''port0'', True), (''port0-partner'', True),
     (''port1'', True)]"

definition sample_msg :: string where
  "sample_msg = ''add@/port0-partner'' @ [NUL] @ ''DEVTYPE=typec_partner'' @ [NUL]"

definition usb_sample :: usb_env where
  "usb_sample = \<lparr>e_write = (\<lambda>h c p. True), e_read = (\<lambda>h. sample_files), e_access = (\<lambda>h p. True),
     e_symlink = (\<lambda>h t l. True), e_remove = (\<lambda>h p. True),
     e_opendir = (\<lambda>h p. if p = kTypecPath then Some sample_entries
        else if p = ''/sys/class/typec/port0-partner'' then Some [] else None),
     e_sys = (\<lambda>h x. if take 5 x = ''fopen'' then 1 else 0), e_prop = (\<lambda>h k d. d),
     e_clock = (\<lambda>h. 5), e_notify = (\<lambda>h n. True), e_trim = takeWhile (\<lambda>c. c \<noteq> CHR 0x0A),
     u_recv = (\<lambda>h. (int (length sample_msg), sample_msg)), u_wakes = (\<lambda>h. [(0, False), (0, True)]),
     u_order = id,
     u_port = \<lparr>portName = '''', currentPowerRole = POWER_NONE, currentDataRole = DATA_NONE,
        currentMode = MODE_NONE, canChangeMode = False, canChangeDataRole = False,
        canChangePowerRole = False, supportedModes = [], usbDataStatus = [],
        powerBrickStatus = BRICK_UNKNOWN, supportedContaminantProtectionModes = [],
        contaminantProtectionStatus = PROTECTION_NONE, contaminantDetectionStatus = NOT_DETECTED,
        supportsEnableContaminantPresenceDetection = False,
        supportsEnableContaminantPresenceProtection = False\<rparr>\<rparr>"

definition sample_usb :: usb where
  "sample_usb = \<lparr>hist = [], mCallback = Some 1, mPartnerUp = False, mUsbDataEnabled = True,
     mPoll = True, destroyThread = False\<rparr>"

definition sample_partner :: "string \<Rightarrow> partner option" where
  "sample_partner n = (if n = ''port0'' then
     Some \<lparr>p_power = SINK, p_data = DEVICE, p_accessory = None, p_pd = True\<rparr> else None)"

lemma sample_simps:
  "u_recv usb_sample h = (int (length sample_msg), sample_msg)"
  "e_sys usb_sample h x = (if take 5 x = ''fopen'' then 1 else 0)"
  by (simp_all add: usb_sample_def)


lemma sample_ports:
  "port_of sample_entries n =
     (if n = ''port0'' then Some True else if n = ''port1'' then Some False else None)"
proof -
  have c: "contains ''port0-partner'' ''-partner''" "\<not> contains ''port0'' ''-partner''"
    "\<not> contains ''port1'' ''-partner''"
    by (simp_all add: contains_def strncmp_prefix_def)
  have t: "strtok_first (CHR ''-'') ''port0-partner'' = Some ''port0''"
    by (simp add: strtok_first_def)
  show ?thesis using c t by (auto simp: sample_entries_def port_of_Cons merge_ports_def)
qed

lemma sample_port0_files:
  "partner_files usb_sample ''port0'' \<lparr>p_power = SINK, p_data = DEVICE, p_accessory = None, p_pd = True\<rparr>"
  by (simp add: partner_files_def holds_def usb_sample_def sample_files_def accessory_word_def
      convertRoletoString_def extractRole_def strncmp_prefix_def)

lemma sample_typec: "typec_files usb_sample sample_entries sample_partner"
  using sample_port0_files
  by (auto simp: typec_files_def sample_ports port_files_def sample_partner_def)
    (simp_all add: usb_sample_def)


section \<open>Role switches\<close>

lemma find_char:
  "str_find s [c] =
     (if c \<in> set s then Some (length (takeWhile (\<lambda>x. x \<noteq> c) s)) else None)"
  by (induction s) (auto simp: strncmp_prefix_def)

text \<open>
  The word of a role file that is current: the one in brackets, or all of the text if a bracket
  is missing. If a closing bracket precedes the first opening one, it is the rest of the text.
\<close>

definition current_word :: "string \<Rightarrow> string" where
  "current_word text =
     (if CHR ''['' \<in> set text \<and> CHR '']'' \<in> set text then
        (let rest = tl (dropWhile (\<lambda>c. c \<noteq> CHR ''['') text)
         in if CHR '']'' \<in> set (takeWhile (\<lambda>c. c \<noteq> CHR ''['') text) then rest
            else takeWhile (\<lambda>c. c \<noteq> CHR '']'') rest)
      else text)"

lemma extractRole_word: "extractRole s = current_word s"
proof (cases "CHR ''['' \<in> set s \<and> CHR '']'' \<in> set s")
  case brackets: True
  then obtain u rest where s: "s = u @ CHR ''['' # rest" and u: "CHR ''['' \<notin> set u"
    by (meson split_list_first)
  then have tw: "takeWhile (\<lambda>c. c \<noteq> CHR ''['') s = u" "dropWhile (\<lambda>c. c \<noteq> CHR ''['') s = CHR ''['' # rest"
    by (auto simp: takeWhile_append dropWhile_append)
  show ?thesis
  proof (cases "CHR '']'' \<in> set u")
    case True
    then obtain a b where u: "u = a @ CHR '']'' # b" "CHR '']'' \<notin> set a"
      by (meson split_list_first)
    then have "takeWhile (\<lambda>c. c \<noteq> CHR '']'') s = a" using s by (auto simp: takeWhile_append)
    with u have "length (takeWhile (\<lambda>c. c \<noteq> CHR '']'') s) < length u" by simp
    with brackets tw have "extractRole s = drop (length u + 1) s"
      by (simp add: extractRole_def find_char)
    with brackets True tw show ?thesis by (simp add: current_word_def s)
  next
    case False
    then have "takeWhile (\<lambda>c. c \<noteq> CHR '']'') s = u @ CHR ''['' # takeWhile (\<lambda>c. c \<noteq> CHR '']'') rest"
      using s by (auto simp: takeWhile_append)
    then have "extractRole s =
        take (length (takeWhile (\<lambda>c. c \<noteq> CHR '']'') rest)) (drop (length u + 1) s)"
      using tw brackets by (simp add: extractRole_def find_char)
    also have "drop (length u + 1) s = rest" by (simp add: s)
    finally have "extractRole s = takeWhile (\<lambda>c. c \<noteq> CHR '']'') rest"
      by (simp flip: takeWhile_eq_take)
    with brackets False tw show ?thesis by (simp add: current_word_def)
  qed
next
  case False
  then show ?thesis by (auto simp: extractRole_def find_char current_word_def)
qed

definition plain_role :: "PortRole \<Rightarrow> bool" where
  "plain_role role \<longleftrightarrow> (\<exists>r. role = PowerRole r) \<or> (\<exists>r. role = DataRole r)"

text \<open>
  What an attempt to write the word \<open>name\<close> to the node \<open>f\<close> does, newest event first, and whether
  it counts as done: the node cannot be opened; or it cannot be written; or it cannot be read;
  or its text, trimmed, has a current word, which must be \<open>name\<close>.
\<close>

definition role_attempt ::
    "string \<Rightarrow> string \<Rightarrow> (string \<Rightarrow> string) \<Rightarrow> usb_event list \<Rightarrow> bool \<Rightarrow> bool" where
  "role_attempt f name trim g ok \<longleftrightarrow>
     g = [Sys (''fopen '' @ f) 0] \<and> \<not> ok \<or>
     (\<exists>fp. fp \<noteq> 0 \<and>
        (g = [Wrote name f False, Sys (''fopen '' @ f) fp] \<and> \<not> ok \<or>
         g = [Read f None, Wrote name f True, Sys (''fopen '' @ f) fp] \<and> \<not> ok \<or>
         (\<exists>text. g = [Read f (Some text), Wrote name f True, Sys (''fopen '' @ f) fp] \<and>
            (ok \<longleftrightarrow> current_word (trim text) = name))))"

text \<open>The message to the callback, if there is one.\<close>

definition told_events :: "nat option \<Rightarrow> usb_msg \<Rightarrow> usb_event list \<Rightarrow> bool" where
  "told_events c m g \<longleftrightarrow> (case c of None \<Rightarrow> g = [] | Some cb \<Rightarrow> \<exists>ok. g = [Notified (cb, m) ok])"

lemma tell_callback_events:
  "\<exists>k. hist (tell_callback E m s) = k @ hist s \<and> told_events (mCallback s) m k"
  by (auto simp: tell_callback_def told_events_def os_simps split: option.splits)

lemma write_role_attempt:
  "\<exists>g. write_role E f role s = (ok, t) \<longrightarrow>
     mCallback t = mCallback s \<and> hist t = g @ hist s \<and>
     role_attempt f (convertRoletoString role) (e_trim E) g ok"
  by (intro exI [of _ "take (length (hist t) - length (hist s)) (hist t)"])
    (auto simp: write_role_def fopen_w_def os_simps role_attempt_def extractRole_word
      split: if_splits option.splits bool.splits)

text \<open>C17: A switch of the power or data role opens the node of the role, writes the name of the
  role to it and reads it back, and stops at the first of these steps that fails; then it
  answers the callback, if one is set, exactly once: with success if and only if every step
  worked and the current word of what it read back (the word in brackets, or the whole trimmed
  text if it has no brackets) is the name of the requested role, and with an error otherwise.\<close>

theorem role_switch_reads_back:
  assumes "plain_role role"
  shows "\<exists>t k g ok. switchRole E port role tid s = (Inr (), t) \<and> hist t = k @ g @ hist s \<and>
    role_attempt (''/sys/class/typec/'' @ port @
        (case role of PowerRole _ \<Rightarrow> ''/power_role'' | _ \<Rightarrow> ''/data_role''))
      (convertRoletoString role) (e_trim E) g ok \<and>
    told_events (mCallback s)
      (NotifyRoleSwitchStatus port role (if ok then SUCCESS else ERROR) tid) k"
proof -
  let ?f = "''/sys/class/typec/'' @ port @
    (case role of PowerRole _ \<Rightarrow> ''/power_role'' | _ \<Rightarrow> ''/data_role'')"
  have f: "appendRoleNodeHelper port role = ?f"
    using assms by (auto simp: plain_role_def appendRoleNodeHelper_def)
  obtain ok t where t: "write_role E ?f role s = (ok, t)" by force
  then obtain g where g: "mCallback t = mCallback s" "hist t = g @ hist s"
    "role_attempt ?f (convertRoletoString role) (e_trim E) g ok"
    using write_role_attempt by blast
  let ?m = "NotifyRoleSwitchStatus port role (if ok then SUCCESS else ERROR) tid"
  have "switchRole E port role tid s = (Inr (), tell_callback E ?m t)"
    using t f assms by (auto simp: switchRole_def prog_simps Let_def plain_role_def)
  moreover obtain k where "hist (tell_callback E ?m t) = k @ hist t"
    "told_events (mCallback t) ?m k" using tell_callback_events by blast
  ultimately show ?thesis using g
    by (intro exI [of _ "tell_callback E ?m t"] exI [of _ k] exI [of _ g] exI [of _ ok]) simp
qed

theorem role_switch_reads_back_witness:
  "notified (hist (snd (switchRole usb_sample ''port0'' (PowerRole SOURCE) 7 sample_usb))) =
     [(1, NotifyRoleSwitchStatus ''port0'' (PowerRole SOURCE) ERROR 7)]"
proof -
  obtain t k g ok where r: "switchRole usb_sample ''port0'' (PowerRole SOURCE) 7 sample_usb =
      (Inr (), t)" "hist t = k @ g @ hist sample_usb"
    "role_attempt ''/sys/class/typec/port0/power_role'' ''source'' (e_trim usb_sample) g ok"
    "told_events (Some 1)
      (NotifyRoleSwitchStatus ''port0'' (PowerRole SOURCE) (if ok then SUCCESS else ERROR) 7) k"
    using role_switch_reads_back [of "PowerRole SOURCE" usb_sample "''port0''" 7 sample_usb]
    by (auto simp: plain_role_def convertRoletoString_def sample_usb_def)
  moreover have "Read ''/sys/class/typec/port0/power_role'' (Some (''source [sink]'' @ [CHR 0x0A]))
      \<in> set (hist t)"
    using r(1)
    by (auto simp: switchRole_def prog_simps Let_def appendRoleNodeHelper_def write_role_def
        fopen_w_def os_simps tell_callback_def usb_sample_def sample_files_def sample_usb_def)
  ultimately show ?thesis
    by (auto simp: role_attempt_def told_events_def sample_usb_def current_word_def
        usb_sample_def)
qed

text \<open>The wait for the partner ends at the first wake-up that is a time-out or finds it.\<close>

definition settles :: "wake \<Rightarrow> bool" where
  "settles w \<longleftrightarrow> fst w = ETIMEDOUT \<or> snd w"

lemma wait_again_spec:
  assumes "\<not> mPartnerUp s"
  shows "\<exists>t g. wait_again E ws s =
      ((case find settles ws of None \<Rightarrow> Inl Waiting | Some w \<Rightarrow> Inr (fst w \<noteq> ETIMEDOUT)), t) \<and>
    mCallback t = mCallback s \<and> hist t = g @ hist s \<and> notified g = [] \<and> writes g = []"
  using assms
proof (induction ws arbitrary: s)
  case Nil
  then show ?case by (simp add: prog_simps)
next
  case (Cons w ws)
  obtain err up where w: "w = (err, up)" by force
  let ?s = "snd (clock E s)"
  let ?ev = "Sys (''pthread_cond_timedwait '' @ print_d (fst (clock E s) + PORT_TYPE_TIMEOUT)) err"
  let ?t = "tell ?ev (?s\<lparr>mPartnerUp := mPartnerUp ?s \<or> up\<rparr>)"
  have h: "hist ?t = [?ev, Clock (fst (clock E s))] @ hist s" "mCallback ?t = mCallback s"
    by (simp_all add: os_simps)
  show ?case
  proof (cases "settles w")
    case True
    have "wait_again E (w # ws) s = (Inr (fst w \<noteq> ETIMEDOUT), ?t)"
      using True w by (auto simp: prog_simps os_simps settles_def)
    with h True show ?thesis
      by (intro exI [of _ ?t] exI [of _ "[?ev, Clock (fst (clock E s))]"]) simp
  next
    case False
    have "\<not> mPartnerUp ?t" using False Cons(2) w by (simp add: os_simps settles_def)
    from Cons(1) [OF this] obtain t g where t: "wait_again E ws ?t =
      ((case find settles ws of None \<Rightarrow> Inl Waiting | Some w \<Rightarrow> Inr (fst w \<noteq> ETIMEDOUT)), t)"
      "mCallback t = mCallback ?t" "hist t = g @ hist ?t" "notified g = []" "writes g = []"
      by blast
    have "wait_again E (w # ws) s = wait_again E ws ?t"
      using False Cons(2) w by (cases s) (simp add: prog_simps os_simps settles_def)
    with t h False show ?thesis
      by (intro exI [of _ t] exI [of _ "g @ [?ev, Clock (fst (clock E s))]"]) simp
  qed
qed

text \<open>An attempt to put a port back into both roles.\<close>

definition drp_attempt :: "string \<Rightarrow> usb_event list \<Rightarrow> bool" where
  "drp_attempt f g \<longleftrightarrow> g = [Sys (''fopen '' @ f) 0] \<or>
     (\<exists>fp ok. fp \<noteq> 0 \<and> g = [Wrote ''dual'' f ok, Sys (''fopen '' @ f) fp])"

lemma switchToDrp_events:
  "\<exists>g. hist (switchToDrp E name s) = g @ hist s \<and> drp_attempt (port_type name) g \<and>
     mCallback (switchToDrp E name s) = mCallback s"
  by (auto simp: switchToDrp_def appendRoleNodeHelper_def fopen_w_def os_simps port_type_def
      drp_attempt_def)

text \<open>
  The course of a switch of the port type from the history \<open>h\<close>: whether the node could be
  opened, whether the word was written, and the wake-up that ended the wait.
\<close>

definition node_opened :: "usb_env \<Rightarrow> usb_event list \<Rightarrow> string \<Rightarrow> bool" where
  "node_opened E h f \<longleftrightarrow> e_sys E h (''fopen '' @ f) \<noteq> 0"

definition after_open :: "usb_env \<Rightarrow> usb_event list \<Rightarrow> string \<Rightarrow> usb_event list" where
  "after_open E h f = Sys (''fopen '' @ f) (e_sys E h (''fopen '' @ f)) # h"

definition word_written :: "usb_env \<Rightarrow> usb_event list \<Rightarrow> string \<Rightarrow> string \<Rightarrow> bool" where
  "word_written E h f w \<longleftrightarrow> node_opened E h f \<and> e_write E (after_open E h f) w f"

definition ending :: "usb_env \<Rightarrow> usb_event list \<Rightarrow> string \<Rightarrow> string \<Rightarrow> wake option" where
  "ending E h f w = find settles (u_wakes E (Wrote w f True # after_open E h f))"

definition partner_came :: "usb_env \<Rightarrow> usb_event list \<Rightarrow> string \<Rightarrow> string \<Rightarrow> bool" where
  "partner_came E h f w \<longleftrightarrow> word_written E h f w \<and>
     (\<exists>wake. ending E h f w = Some wake \<and> fst wake \<noteq> ETIMEDOUT)"

lemma switchMode_course:
  fixes E port m s
  shows "\<exists>t. switchMode E port (ModeRole m) s =
      (if word_written E (hist s) (port_type port) (convertRoletoString (ModeRole m)) \<and>
          ending E (hist s) (port_type port) (convertRoletoString (ModeRole m)) = None
       then Inl Waiting
       else Inr (partner_came E (hist s) (port_type port) (convertRoletoString (ModeRole m))), t) \<and>
    mCallback t = mCallback s \<and>
    (\<not> (word_written E (hist s) (port_type port) (convertRoletoString (ModeRole m)) \<and>
        ending E (hist s) (port_type port) (convertRoletoString (ModeRole m)) = None) \<longrightarrow>
     (\<exists>d g. hist t = d @ g @ hist s \<and> notified g = [] \<and>
        writes g = (if node_opened E (hist s) (port_type port)
          then [(port_type port, convertRoletoString (ModeRole m))] else []) \<and>
        (if partner_came E (hist s) (port_type port) (convertRoletoString (ModeRole m))
         then d = [] else drp_attempt (port_type port) d)))"
proof -
  let ?f = "port_type port" and ?w = "convertRoletoString (ModeRole m)"
  have f: "appendRoleNodeHelper port (ModeRole m) = ?f" "?f \<noteq> ''''"
    by (simp_all add: appendRoleNodeHelper_def port_type_def)
  obtain k where drp: "\<And>u. hist (switchToDrp E port u) = k u @ hist u" "\<And>u. drp_attempt ?f (k u)"
    "\<And>u. mCallback (switchToDrp E port u) = mCallback u"
    using switchToDrp_events [of E port] by metis
  let ?h1 = "after_open E (hist s) ?f"
  obtain s1 where s1: "fopen_w E ?f s = (node_opened E (hist s) ?f, s1)" "hist s1 = ?h1"
    "mCallback s1 = mCallback s"
    by (simp add: fopen_w_def os_simps node_opened_def after_open_def)
  show ?thesis
  proof (cases "word_written E (hist s) ?f ?w")
    case False
    let ?u = "if node_opened E (hist s) ?f
      then snd (write_file E ?w ?f (s1\<lparr>mPartnerUp := False\<rparr>)) else s1"
    have run: "switchMode E port (ModeRole m) s = (Inr False, switchToDrp E port ?u)"
      using False f s1 by (auto simp: switchMode_def prog_simps Let_def word_written_def os_simps)
    have u: "mCallback ?u = mCallback s" "\<exists>g. hist ?u = g @ hist s \<and> notified g = [] \<and>
        writes g = (if node_opened E (hist s) ?f then [(?f, ?w)] else [])"
      using s1 by (auto simp: os_simps after_open_def)
    have "\<not> partner_came E (hist s) ?f ?w" using False by (simp add: partner_came_def)
    moreover obtain g where "hist ?u = g @ hist s" "notified g = []"
        "writes g = (if node_opened E (hist s) ?f then [(?f, ?w)] else [])" using u(2) by blast
    ultimately show ?thesis using run u(1) drp [of ?u] False
      by (intro exI [of _ "switchToDrp E port ?u"] conjI impI exI [of _ "k ?u"] exI [of _ g])
        simp_all
  next
    case True
    let ?u = "snd (write_file E ?w ?f (s1\<lparr>mPartnerUp := False\<rparr>))"
    have u: "mCallback ?u = mCallback s" "hist ?u = Wrote ?w ?f True # ?h1" "\<not> mPartnerUp ?u"
      using True s1 by (simp_all add: os_simps word_written_def)
    obtain t g where t: "wait_again E (u_wakes E (hist ?u)) ?u =
        ((case ending E (hist s) ?f ?w of None \<Rightarrow> Inl Waiting | Some x \<Rightarrow> Inr (fst x \<noteq> ETIMEDOUT)), t)"
      "mCallback t = mCallback s" "hist t = g @ Wrote ?w ?f True # ?h1" "notified g = []" "writes g = []"
      using wait_again_spec [OF u(3), of E "u_wakes E (hist ?u)"] u(1,2)
      unfolding ending_def by auto
    have o: "node_opened E (hist s) ?f" using True by (simp add: word_written_def)
    have run: "switchMode E port (ModeRole m) s =
        bindE (wait_again E (u_wakes E (hist ?u))) (\<lambda>ok.
          bindE (whenE (\<not> ok) () (modifyE (switchToDrp E port))) (\<lambda>_. returnE ok)) ?u"
      using True f s1 o
      by (auto simp: switchMode_def prog_simps Let_def word_written_def os_simps)
    let ?g = "g @ [Wrote ?w ?f True, Sys (''fopen '' @ ?f) (e_sys E (hist s) (''fopen '' @ ?f))]"
    have g': "hist t = ?g @ hist s" using t(3) by (simp add: after_open_def)
    show ?thesis
    proof (cases "ending E (hist s) ?f ?w")
      case None
      with run t True show ?thesis by (simp add: prog_simps)
    next
      case (Some wake)
      show ?thesis
      proof (cases "fst wake = ETIMEDOUT")
        case timeout: True
        with run t Some have "switchMode E port (ModeRole m) s = (Inr False, switchToDrp E port t)"
          by (simp add: prog_simps)
        moreover have "\<not> partner_came E (hist s) ?f ?w"
          using timeout Some by (auto simp: partner_came_def)
        ultimately show ?thesis using Some t(2,4,5) g' o drp [of t]
          by (intro exI [of _ "switchToDrp E port t"] conjI impI exI [of _ "k t"] exI [of _ ?g])
            simp_all
      next
        case False
        with run t Some have "switchMode E port (ModeRole m) s = (Inr True, t)"
          by (simp add: prog_simps)
        moreover have "partner_came E (hist s) ?f ?w"
          using False Some True by (simp add: partner_came_def)
        ultimately show ?thesis using Some t(2,4,5) g' o
          by (intro exI [of _ t] conjI impI exI [of _ "[]"] exI [of _ ?g]) simp_all
      qed
    qed
  qed
qed

text \<open>C18: A switch of the port type opens the port's node and writes the word of the mode to it;
  if that works it waits, and each wake-up of the wait is an error code with "the partner was
  found by then". It does not end exactly if the word was written and no wake-up, of those that
  come while it waits, is a time-out or finds the partner. When it ends it answers the
  callback, if one is set, exactly once: with success if the word was written and the wake-up
  that ended the wait was no time-out (so the partner was there), and with an error if the node
  could not be opened, the word not be written, or the wait ended by a time-out, even if the
  partner had come by then. Before an answer of error, and only then, it tries to put the port
  back into both roles.\<close>

theorem mode_switch_ends:
  "case switchRole E port (ModeRole m) tid s of
     (Inl e, t) \<Rightarrow> e = Waiting \<and>
       word_written E (hist s) (port_type port) (convertRoletoString (ModeRole m)) \<and>
       ending E (hist s) (port_type port) (convertRoletoString (ModeRole m)) = None
   | (Inr _, t) \<Rightarrow>
       \<not> (word_written E (hist s) (port_type port) (convertRoletoString (ModeRole m)) \<and>
          ending E (hist s) (port_type port) (convertRoletoString (ModeRole m)) = None) \<and>
       (\<exists>k d g. hist t = k @ d @ g @ hist s \<and> notified g = [] \<and>
          told_events (mCallback s) (NotifyRoleSwitchStatus port (ModeRole m)
            (if partner_came E (hist s) (port_type port) (convertRoletoString (ModeRole m))
             then SUCCESS else ERROR) tid) k \<and>
          writes g = (if node_opened E (hist s) (port_type port)
            then [(port_type port, convertRoletoString (ModeRole m))] else []) \<and>
          (if partner_came E (hist s) (port_type port) (convertRoletoString (ModeRole m))
           then d = [] else drp_attempt (port_type port) d))"
proof -
  let ?f = "port_type port" and ?w = "convertRoletoString (ModeRole m)"
  let ?stuck = "word_written E (hist s) ?f ?w \<and> ending E (hist s) ?f ?w = None"
  let ?ok = "partner_came E (hist s) ?f ?w"
  let ?m = "NotifyRoleSwitchStatus port (ModeRole m) (if ?ok then SUCCESS else ERROR) tid"
  obtain t where t: "switchMode E port (ModeRole m) s = (if ?stuck then Inl Waiting else Inr ?ok, t)"
    "mCallback t = mCallback s" "\<not> ?stuck \<longrightarrow> (\<exists>d g. hist t = d @ g @ hist s \<and> notified g = [] \<and>
        writes g = (if node_opened E (hist s) ?f then [(?f, ?w)] else []) \<and>
        (if ?ok then d = [] else drp_attempt ?f d))"
    using switchMode_course [of E port m s] by blast
  have node: "appendRoleNodeHelper port (ModeRole m) \<noteq> ''''"
    by (simp add: appendRoleNodeHelper_def)
  show ?thesis
  proof (cases ?stuck)
    case True
    then have "switchMode E port (ModeRole m) s = (Inl Waiting, t)" using t(1) by simp
    then have "switchRole E port (ModeRole m) tid s = (Inl Waiting, t)"
      using node by (simp add: switchRole_def prog_simps Let_def)
    then show ?thesis using True by simp
  next
    case False
    obtain k where k: "hist (tell_callback E ?m t) = k @ hist t" "told_events (mCallback t) ?m k"
      using tell_callback_events by blast
    obtain d g where dg: "hist t = d @ g @ hist s" "notified g = []"
      "writes g = (if node_opened E (hist s) ?f then [(?f, ?w)] else [])"
      "if ?ok then d = [] else drp_attempt ?f d" using t(3) False by blast
    have "switchMode E port (ModeRole m) s = (Inr ?ok, t)" using t(1) False by simp
    then have run: "switchRole E port (ModeRole m) tid s = (Inr (), tell_callback E ?m t)"
      using node by (simp add: switchRole_def prog_simps Let_def)
    have "hist (tell_callback E ?m t) = k @ d @ g @ hist s" using k(1) dg(1) by simp
    moreover have "told_events (mCallback s) ?m k" using k(2) t(2) by simp
    ultimately show ?thesis unfolding run using False dg(2-4) by (simp only: prod.case sum.case) blast
  qed
qed

theorem mode_switch_ends_witness:
  "\<exists>t. switchRole usb_sample ''port0'' (ModeRole DFP) 8 sample_usb = (Inr (), t) \<and>
    notified (hist t) = [(1, NotifyRoleSwitchStatus ''port0'' (ModeRole DFP) SUCCESS 8)]"
proof -
  let ?f = "port_type ''port0''" and ?w = "convertRoletoString (ModeRole DFP)"
  have node: "node_opened usb_sample (hist sample_usb) ?f"
    by (simp add: node_opened_def sample_simps)
  then have w: "word_written usb_sample (hist sample_usb) ?f ?w"
    by (simp add: word_written_def usb_sample_def)
  have e: "ending usb_sample (hist sample_usb) ?f ?w = Some (0, True)"
    by (simp add: ending_def usb_sample_def settles_def ETIMEDOUT_def)
  with w have "partner_came usb_sample (hist sample_usb) ?f ?w"
    by (simp add: partner_came_def ETIMEDOUT_def)
  with mode_switch_ends [where E = usb_sample and s = sample_usb and port = "''port0''" and m = DFP
      and tid = 8] w e node show ?thesis
    by (auto split: prod.splits sum.splits
        simp: told_events_def sample_usb_def)
qed

section \<open>Reports\<close>

text \<open>C19: As long as the kernel's files are in order, the report on the ports lists every port of
  the directory exactly once, with the roles, the mode and the power delivery support that the
  files give for its partner, and nothing connected for the others; the call returns and
  reports success, and the callback, if there is one, gets this report and no other message.
  In order (\<open>typec_files\<close>) means: the directory of the class can be listed and lists the same
  entries whenever it is read, the map of the ports is walked in some order, and for every port
  with a partner its power\_role and data\_role files can be read and name a power and a data
  role, and the accessory and power delivery files of the partner can be read. Without it the
  report may fail, and a data\_role file with the word of a power role aborts the process.\<close>

theorem port_status_report:
  assumes "typec_files E entries partner"
  shows "\<exists>names t. queryVersionHelper E s =
      (Inr (reported E (mUsbDataEnabled s) partner names), t) \<and> ports_in entries names \<and>
    notified (hist t) = sent (mCallback s)
      [NotifyPortStatusChange (reported E (mUsbDataEnabled s) partner names) SUCCESS] @
      notified (hist s) \<and>
    writes (hist t) = writes (hist s)"
proof -
  obtain names t where "ports_in entries names" "only_reads s t"
    "queryVersionHelper E s = (Inr (reported E (mUsbDataEnabled s) partner names),
        tell_callback E (NotifyPortStatusChange (reported E (mUsbDataEnabled s) partner names)
          SUCCESS) t)"
    by (rule query_version [OF assms])
  then show ?thesis
    by (intro exI [of _ names])
      (auto simp: tell_callback_def os_simps sent_def only_reads_fields split: option.splits)
qed

theorem port_status_report_witness:
  "\<exists>names t. queryVersionHelper usb_sample sample_usb =
      (Inr (reported usb_sample True sample_partner names), t) \<and> ports_in sample_entries names"
  using port_status_report [OF sample_typec, of sample_usb]
  by (auto simp: sample_usb_def)




section \<open>The callback\<close>

text \<open>C21: Whatever the service or the worker runs, its messages all go to the callback that is
  set, and nobody is told anything while no callback is set; only \<open>setCallback\<close> changes it.\<close>

theorem messages_go_to_callback:
  "mCallback (snd (run_op E op s)) = mCallback s \<and>
   (\<exists>ms. notified (hist (snd (run_op E op s))) = sent (mCallback s) ms @ notified (hist s))"
proof -
  have "told_only (mCallback s) (notified (hist s)) s"
    by (auto simp: told_only_def sent_def intro: exI [of _ "[]"] split: option.splits)
  then have "told_only (mCallback s) (notified (hist s)) (snd (run_op E op s))"
    by (rule stable_snd [OF told.kept_op])
  then show ?thesis by (simp add: told_only_def)
qed




end
