(* ===== verification/UsbThreads.thy ===== *)
theory UsbThreads
  imports Prelude
begin

text \<open>
  The two threads of the USB HAL and its three locks (usb/usb/Usb.cpp, service.cpp). The
  service has a binder thread, which runs one handler after the other, and the worker. Each
  piece of code is given by what it does with locks and threads, in order; a wait on the
  condition variable gives its lock up and takes it again. The theory shows when the two can
  block each other.
\<close>

section \<open>Locks, actions and the code\<close>

datatype lock = MLock | RoleSwitchLock | PartnerLock

datatype act =
    Acq lock      \<comment> \<open>pthread\_mutex\_lock\<close>
  | Rel lock      \<comment> \<open>pthread\_mutex\_unlock\<close>
  | Try lock      \<comment> \<open>pthread\_mutex\_trylock, with the unlock at the end if it succeeds\<close>
  | Kill          \<comment> \<open>pthread\_kill(mPoll, SIGUSR1)\<close>
  | Join          \<comment> \<open>pthread\_join(mPoll)\<close>
  | Create        \<comment> \<open>pthread\_create(\&mPoll)\<close>

definition notify_locks :: "act list" where
  "notify_locks = [Acq MLock, Rel MLock]"

definition query_locks :: "act list" where
  "query_locks = [Acq MLock, Rel MLock]"

text \<open>\<open>switchMode\<close> with \<open>n\<close> waits; without any if the node cannot be opened.\<close>

definition mode_locks :: "bool \<Rightarrow> nat \<Rightarrow> act list" where
  "mode_locks opened n =
     (if opened then Acq PartnerLock # concat (replicate n [Rel PartnerLock, Acq PartnerLock]) @
        [Rel PartnerLock] else [])"

definition role_locks :: "act list \<Rightarrow> act list" where
  "role_locks switching = Acq RoleSwitchLock # switching @ [Acq MLock, Rel MLock, Rel RoleSwitchLock]"

datatype handler =
    H_enableUsbData | H_enableUsbDataWhileDocked | H_resetUsbPort | H_limitPowerTransfer
  | H_switchRole | H_switchMode bool nat | H_queryPortStatus
  | H_enableContaminantPresenceDetection | H_setCallback bool

text \<open>\<open>has\_cb\<close>: a callback is set; \<open>H\_setCallback b\<close>: it is set to something, or cleared.\<close>

definition callback_locks :: "bool \<Rightarrow> bool \<Rightarrow> act list" where
  "callback_locks has_cb new_cb =
     (if has_cb = new_cb then [Acq MLock, Rel MLock]
      else if \<not> new_cb then [Acq MLock, Kill, Join, Rel MLock]
      else [Acq MLock, Create, Rel MLock])"

fun handler_locks :: "bool \<Rightarrow> handler \<Rightarrow> act list" where
  "handler_locks has_cb H_enableUsbData = notify_locks @ query_locks"
| "handler_locks has_cb H_enableUsbDataWhileDocked = notify_locks @ query_locks"
| "handler_locks has_cb H_resetUsbPort = notify_locks"
| "handler_locks has_cb H_limitPowerTransfer = notify_locks @ query_locks"
| "handler_locks has_cb H_switchRole = role_locks []"
| "handler_locks has_cb (H_switchMode opened n) = role_locks (mode_locks opened n)"
| "handler_locks has_cb H_queryPortStatus = query_locks @ notify_locks"
| "handler_locks has_cb H_enableContaminantPresenceDetection = notify_locks @ query_locks"
| "handler_locks has_cb (H_setCallback new_cb) = callback_locks has_cb new_cb"

text \<open>A kernel message: some fields about partners, then perhaps one about a Type-C device.\<close>

definition uevent_locks :: "nat \<Rightarrow> bool \<Rightarrow> act list" where
  "uevent_locks partners typec =
     concat (replicate partners [Acq PartnerLock, Rel PartnerLock]) @
     (if typec then query_locks @ [Try RoleSwitchLock] else [])"

section \<open>The threads\<close>

datatype thread = Service | Worker

text \<open>
  Where the worker stands: it does not exist; it is about to look at \<open>destroyThread\<close>; it
  has looked and is about to call \<open>epoll\_wait\<close>; it waits there; it handles an event.
\<close>

datatype phase = Gone | AtCheck | ToPoll | Polling | Handling "act list"

record threads =
  service :: "act list"
  worker :: phase
  owner :: "lock \<Rightarrow> thread option"
  has_cb :: bool
  destroy :: bool

definition threads_init :: "threads \<Rightarrow> bool" where
  "threads_init s \<longleftrightarrow> service s = [] \<and> worker s = Gone \<and> owner s = (\<lambda>_. None) \<and>
     \<not> has_cb s \<and> \<not> destroy s"

text \<open>
  One step of either thread, and the arrival of a kernel message. A signal interrupts
  \<open>epoll\_wait\<close>; anywhere else it only sets \<open>destroyThread\<close>.
\<close>

inductive thread_step :: "threads \<Rightarrow> threads \<Rightarrow> bool" where
  call: "service s = [] \<Longrightarrow>
     thread_step s (s\<lparr>service := handler_locks (has_cb s) h,
       has_cb := (case h of H_setCallback b \<Rightarrow> b | _ \<Rightarrow> has_cb s)\<rparr>)"
| service_acq: "service s = Acq l # as \<Longrightarrow> owner s l = None \<Longrightarrow>
     thread_step s (s\<lparr>service := as, owner := (owner s)(l := Some Service)\<rparr>)"
| service_rel: "service s = Rel l # as \<Longrightarrow>
     thread_step s (s\<lparr>service := as, owner := (owner s)(l := None)\<rparr>)"
| service_kill: "service s = Kill # as \<Longrightarrow>
     thread_step s (s\<lparr>service := as, destroy := True,
       worker := (if worker s = Polling then AtCheck else worker s)\<rparr>)"
| service_join: "service s = Join # as \<Longrightarrow> worker s = Gone \<Longrightarrow> thread_step s (s\<lparr>service := as\<rparr>)"
| service_create: "service s = Create # as \<Longrightarrow>
     thread_step s (s\<lparr>service := as, destroy := False, worker := AtCheck\<rparr>)"
| worker_check: "worker s = AtCheck \<Longrightarrow>
     thread_step s (s\<lparr>worker := (if destroy s then Gone else ToPoll)\<rparr>)"
| worker_poll: "worker s = ToPoll \<Longrightarrow> thread_step s (s\<lparr>worker := Polling\<rparr>)"
| worker_event: "worker s = Polling \<Longrightarrow>
     thread_step s (s\<lparr>worker := Handling (uevent_locks partners typec)\<rparr>)"
| worker_fails: "worker s \<in> {AtCheck, Polling} \<Longrightarrow> thread_step s (s\<lparr>worker := Gone\<rparr>)"
| worker_acq: "worker s = Handling (Acq l # as) \<Longrightarrow> owner s l = None \<Longrightarrow>
     thread_step s (s\<lparr>worker := Handling as, owner := (owner s)(l := Some Worker)\<rparr>)"
| worker_rel: "worker s = Handling (Rel l # as) \<Longrightarrow>
     thread_step s (s\<lparr>worker := Handling as, owner := (owner s)(l := None)\<rparr>)"
| worker_try: "worker s = Handling (Try l # as) \<Longrightarrow> owner s l = None \<Longrightarrow>
     thread_step s (s\<lparr>worker := Handling (Rel l # as), owner := (owner s)(l := Some Worker)\<rparr>)"
| worker_busy: "worker s = Handling (Try l # as) \<Longrightarrow> owner s l \<noteq> None \<Longrightarrow>
     thread_step s (s\<lparr>worker := Handling as\<rparr>)"
| worker_idle: "worker s = Handling [] \<Longrightarrow> thread_step s (s\<lparr>worker := AtCheck\<rparr>)"

inductive_cases thread_stepE: "thread_step s t"

text \<open>What lets a thread go on: its next action is not blocked.\<close>

fun enabled :: "threads \<Rightarrow> act list \<Rightarrow> bool" where
  "enabled s [] = True"
| "enabled s (Acq l # as) = (owner s l = None)"
| "enabled s (Join # as) = (worker s = Gone)"
| "enabled s (a # as) = True"

section \<open>Lock discipline\<close>

text \<open>
  \<open>runs H as\<close>: a thread that holds the locks \<open>H\<close> can go through \<open>as\<close>: it never takes a
  lock it holds, gives back only what it holds, and holds nothing at the end. \<open>flat H as\<close>:
  and it never takes a lock while it holds one.
\<close>

fun runs :: "lock set \<Rightarrow> act list \<Rightarrow> bool" where
  "runs H [] = (H = {})"
| "runs H (Acq l # as) = (l \<notin> H \<and> runs (insert l H) as)"
| "runs H (Rel l # as) = (l \<in> H \<and> runs (H - {l}) as)"
| "runs H (Try l # as) = (l \<notin> H \<and> runs H as)"
| "runs H (a # as) = runs H as"

fun flat :: "lock set \<Rightarrow> act list \<Rightarrow> bool" where
  "flat H [] = True"
| "flat H (Acq l # as) = (H = {} \<and> flat {l} as)"
| "flat H (Rel l # as) = flat (H - {l}) as"
| "flat H (Try l # as) = (H = {} \<and> flat {} as)"
| "flat H (a # as) = False"

lemma runs_waits:
  "runs (insert PartnerLock H) as \<Longrightarrow> PartnerLock \<notin> H \<Longrightarrow>
   runs (insert PartnerLock H) (concat (replicate n [Rel PartnerLock, Acq PartnerLock]) @ as)"
  by (induction n) (auto simp: insert_Diff_if)

lemma runs_handler: "runs {} (handler_locks cb h)"
proof (cases h)
  case (H_switchMode opened n)
  have "runs {PartnerLock, RoleSwitchLock}
      (concat (replicate n [Rel PartnerLock, Acq PartnerLock]) @
       [Rel PartnerLock, Acq MLock, Rel MLock, Rel RoleSwitchLock])"
    by (rule runs_waits) (simp_all add: insert_Diff_if)
  then show ?thesis
    using H_switchMode by (simp add: role_locks_def mode_locks_def insert_Diff_if)
qed (simp_all add: notify_locks_def query_locks_def role_locks_def callback_locks_def)

lemma uevent_discipline: "runs {} (uevent_locks n typec) \<and> flat {} (uevent_locks n typec)"
  by (induction n) (simp_all add: uevent_locks_def query_locks_def)

lemma handler_create: "Create \<in> set (handler_locks cb h) \<Longrightarrow> \<not> cb \<and> h = H_setCallback True"
  by (cases h) (auto simp: notify_locks_def query_locks_def role_locks_def mode_locks_def
      callback_locks_def split: if_splits)

lemma handler_one_create: "length (filter ((=) Create) (handler_locks cb h)) \<le> 1"
  by (cases h) (auto simp: notify_locks_def query_locks_def role_locks_def mode_locks_def
      callback_locks_def filter_concat)

lemma handler_join: "Join \<notin> set (handler_locks cb (H_setCallback b)) \<Longrightarrow> b \<or> \<not> cb"
  by (auto simp: callback_locks_def split: if_splits)

lemma handler_no_try: "Try l \<notin> set (handler_locks cb h)"
  by (cases h) (auto simp: notify_locks_def query_locks_def role_locks_def mode_locks_def
      callback_locks_def)

definition held :: "threads \<Rightarrow> thread \<Rightarrow> lock set" where
  "held s t = {l. owner s l = Some t}"

definition worker_acts :: "threads \<Rightarrow> act list" where
  "worker_acts s = (case worker s of Handling as \<Rightarrow> as | _ \<Rightarrow> [])"

definition threads_inv :: "threads \<Rightarrow> bool" where
  "threads_inv s \<longleftrightarrow> runs (held s Service) (service s) \<and> (\<forall>l. Try l \<notin> set (service s)) \<and>
     runs (held s Worker) (worker_acts s) \<and> flat (held s Worker) (worker_acts s) \<and>
     (Create \<in> set (service s) \<longrightarrow> has_cb s \<and> worker s = Gone) \<and>
     length (filter ((=) Create) (service s)) \<le> 1 \<and>
     (\<not> has_cb s \<and> Join \<notin> set (service s) \<longrightarrow> worker s = Gone)"

lemma held_upd:
  "held (s\<lparr>owner := (owner s)(l := Some t)\<rparr>) t = insert l (held s t)"
  "owner s l = None \<Longrightarrow> t \<noteq> u \<Longrightarrow> held (s\<lparr>owner := (owner s)(l := Some t)\<rparr>) u = held s u"
  "held (s\<lparr>owner := (owner s)(l := None)\<rparr>) t = held s t - {l}"
  by (auto simp: held_def)

lemma held_other: "l \<in> held s t \<Longrightarrow> t \<noteq> u \<Longrightarrow> held s u - {l} = held s u"
  by (auto simp: held_def)

lemma held_frame [simp]:
  "held (s\<lparr>service := as\<rparr>) t = held s t" "held (s\<lparr>worker := w\<rparr>) t = held s t"
  "held (s\<lparr>has_cb := b\<rparr>) t = held s t" "held (s\<lparr>destroy := b\<rparr>) t = held s t"
  by (simp_all add: held_def)

lemma held_acq: "held (s\<lparr>service := as, owner := (owner s)(l := v)\<rparr>) t = held (s\<lparr>owner := (owner s)(l := v)\<rparr>) t"
  "held (s\<lparr>worker := w, owner := (owner s)(l := v)\<rparr>) t = held (s\<lparr>owner := (owner s)(l := v)\<rparr>) t"
  by (simp_all add: held_def)

lemma free_not_held: "owner s l = None \<Longrightarrow> l \<notin> held s t"
  by (simp add: held_def)

lemma thread_step_inv:
  assumes "thread_step s t" and "threads_inv s"
  shows "threads_inv t"
  using assms(1)
proof cases
  case (call h)
  then have "held s Service = {}" using assms(2) by (simp add: threads_inv_def)
  then show ?thesis
    using call assms(2) runs_handler [of "has_cb s" h] handler_no_try [of _ "has_cb s" h]
      handler_create [of "has_cb s" h] handler_one_create [of "has_cb s" h] handler_join [of "has_cb s"]
    by (auto simp: threads_inv_def worker_acts_def split: handler.splits)
next
  case (service_acq l as)
  then show ?thesis
    using assms(2) held_upd(1) [of s l Service] held_upd(2) [of s l Service Worker]
    by (simp add: threads_inv_def worker_acts_def held_acq)
next
  case (service_rel l as)
  then have "l \<in> held s Service" using assms(2) by (simp add: threads_inv_def)
  then show ?thesis
    using service_rel assms(2) held_other [of l s Service Worker]
    by (simp add: threads_inv_def worker_acts_def held_acq held_upd)
next
  case (worker_event partners typec)
  then have "held s Worker = {}" using assms(2) by (simp add: threads_inv_def worker_acts_def)
  then show ?thesis
    using worker_event assms(2) uevent_discipline by (simp add: threads_inv_def worker_acts_def)
next
  case (worker_acq l as)
  then have "held s Worker = {}" using assms(2) by (simp add: threads_inv_def worker_acts_def)
  then show ?thesis
    using worker_acq assms(2) held_upd(1) [of s l Worker] held_upd(2) [of s l Worker Service]
    by (simp add: threads_inv_def worker_acts_def held_acq)
next
  case (worker_rel l as)
  then have "l \<in> held s Worker" using assms(2) by (simp add: threads_inv_def worker_acts_def)
  then show ?thesis
    using worker_rel assms(2) held_other [of l s Worker Service]
    by (simp add: threads_inv_def worker_acts_def held_acq held_upd)
next
  case (worker_try l as)
  then have "held s Worker = {}" "l \<notin> held s Worker"
    using assms(2) by (simp_all add: threads_inv_def worker_acts_def)
  then show ?thesis
    using worker_try assms(2) held_upd(1) [of s l Worker] held_upd(2) [of s l Worker Service]
    by (simp add: threads_inv_def worker_acts_def held_acq)
next
  case (worker_busy l as)
  then show ?thesis using assms(2) by (auto simp: threads_inv_def worker_acts_def)
qed (use assms(2) in \<open>auto simp: threads_inv_def worker_acts_def filter_empty_conv
  split: phase.splits\<close>)

lemma threads_init_inv: "threads_init s \<Longrightarrow> threads_inv s"
  by (simp add: threads_init_def threads_inv_def held_def worker_acts_def)

interpretation threads: machine threads_init thread_step threads_inv
  by unfold_locales (auto intro: threads_init_inv thread_step_inv)

section \<open>Who can block whom\<close>

text \<open>A worker that holds a lock is about to give it back; it never waits while it holds one.\<close>

lemma worker_never_waits_holding:
  assumes "threads_inv s" and "held s Worker \<noteq> {}"
  shows "\<exists>l as. worker s = Handling (Rel l # as)"
proof -
  have w: "runs (held s Worker) (worker_acts s)" "flat (held s Worker) (worker_acts s)"
    using assms(1) by (simp_all add: threads_inv_def)
  then obtain a as where a: "worker_acts s = a # as"
    using assms(2) by (cases "worker_acts s") auto
  with w assms(2) obtain l where "a = Rel l" by (cases a) auto
  then show ?thesis using a by (auto simp: worker_acts_def split: phase.splits)
qed

lemma service_enabled:
  assumes "threads_inv s" and "Join \<notin> set (service s)" and "\<not> enabled s (service s)"
  shows "enabled s (worker_acts s) \<and> worker_acts s \<noteq> []"
proof -
  obtain a as where a: "service s = a # as" using assms(3) by (cases "service s") auto
  with assms obtain l where l: "a = Acq l" "owner s l \<noteq> None" by (cases a) auto
  have "l \<notin> held s Service" using assms(1) a l by (simp add: threads_inv_def)
  then have "owner s l = Some Worker" using l(2) by (cases "owner s l") (auto simp: held_def intro: thread.exhaust)
  then have "held s Worker \<noteq> {}" by (auto simp: held_def)
  then show ?thesis
    using worker_never_waits_holding [OF assms(1)] by (auto simp: worker_acts_def)
qed

lemma worker_enabled:
  assumes "threads_inv s" and "Join \<notin> set (service s)" and "\<not> enabled s (worker_acts s)"
  shows "enabled s (service s) \<and> service s \<noteq> []"
proof -
  have w: "runs (held s Worker) (worker_acts s)" "flat (held s Worker) (worker_acts s)"
    using assms(1) by (simp_all add: threads_inv_def)
  obtain a as where a: "worker_acts s = a # as" using assms(3) by (cases "worker_acts s") auto
  with w assms(3) obtain l where l: "a = Acq l" "owner s l \<noteq> None" by (cases a) auto
  have "l \<notin> held s Worker" using w(1) a l by simp
  then have "l \<in> held s Service"
    using l(2) by (cases "owner s l") (auto simp: held_def intro: thread.exhaust)
  then have "service s \<noteq> []" using assms(1) by (auto simp: threads_inv_def)
  moreover have "enabled s (service s)" using service_enabled [OF assms(1,2)] assms(3) by blast
  ultimately show ?thesis by blast
qed

text \<open>
  The work that is left: the actions of both threads, a \<open>Try\<close> counting twice. From a state
  in which the service does not wait for the worker to end, some thread can do a piece of it.
\<close>

fun weight :: "act \<Rightarrow> nat" where
  "weight (Try l) = 2"
| "weight a = 1"

lemma weight_pos [simp]: "0 < weight a" "weight a \<noteq> 0"
  by (cases a; simp)+

lemma no_weight [simp]: "sum_list (map weight as) = 0 \<longleftrightarrow> as = []"
  by (cases as) simp_all

definition work_left :: "threads \<Rightarrow> nat" where
  "work_left s = sum_list (map weight (service s)) + sum_list (map weight (worker_acts s))"

lemma step_to: "thread_step s t \<Longrightarrow> Q t \<Longrightarrow> \<exists>t. thread_step s t \<and> Q t"
  by blast

lemma service_steps:
  assumes "threads_inv s" and "service s = a # as" and "enabled s (service s)"
  shows "\<exists>t. thread_step s t \<and> service t = as \<and> worker_acts t = worker_acts s"
proof (cases a)
  case (Acq l)
  with assms have "service s = Acq l # as" "owner s l = None" by simp_all
  from step_to [OF service_acq [OF this]] show ?thesis by (simp add: worker_acts_def)
next
  case (Rel l)
  with assms have "service s = Rel l # as" by simp
  from step_to [OF service_rel [OF this]] show ?thesis by (simp add: worker_acts_def)
next
  case Kill
  with assms have "service s = Kill # as" by simp
  from step_to [OF service_kill [OF this]] show ?thesis by (simp add: worker_acts_def)
next
  case Join
  with assms have "service s = Join # as" "worker s = Gone" by simp_all
  from step_to [OF service_join [OF this]] show ?thesis by (simp add: worker_acts_def)
next
  case Create
  with assms have c: "service s = Create # as" and "worker s = Gone"
    by (simp_all add: threads_inv_def)
  with step_to [OF service_create [OF c]] show ?thesis by (simp add: worker_acts_def)
next
  case (Try l)
  then show ?thesis using assms by (auto simp: threads_inv_def)
qed

lemma worker_steps:
  assumes "threads_inv s" and "worker_acts s = a # as" and "enabled s (worker_acts s)"
  shows "\<exists>t. thread_step s t \<and> service t = service s \<and>
    sum_list (map weight (worker_acts t)) < sum_list (map weight (worker_acts s))"
proof -
  have w: "worker s = Handling (a # as)" using assms(2) by (simp add: worker_acts_def split: phase.splits)
  have flat: "flat (held s Worker) (a # as)" using assms(1,2) by (simp add: threads_inv_def)
  show ?thesis
  proof (cases a)
    case (Acq l)
    with w assms(2,3) have "worker s = Handling (Acq l # as)" "owner s l = None" by simp_all
    from step_to [OF worker_acq [OF this]] assms(2) show ?thesis by (simp add: worker_acts_def)
  next
    case (Rel l)
    with w have "worker s = Handling (Rel l # as)" by simp
    from step_to [OF worker_rel [OF this]] assms(2) show ?thesis by (simp add: worker_acts_def)
  next
    case (Try l)
    with w have t: "worker s = Handling (Try l # as)" by simp
    show ?thesis
    proof (cases "owner s l = None")
      case True
      from step_to [OF worker_try [OF t True]] assms(2) Try show ?thesis
        by (simp add: worker_acts_def)
    next
      case False
      from step_to [OF worker_busy [OF t False]] assms(2) Try show ?thesis
        by (simp add: worker_acts_def)
    qed
  qed (use flat in simp_all)
qed

lemma work_can_go_on:
  assumes inv: "threads_inv s" and nojoin: "Join \<notin> set (service s)"
    and "work_left s \<noteq> 0"
  shows "\<exists>t. thread_step s t \<and> work_left t < work_left s \<and> set (service t) \<subseteq> set (service s)"
proof (cases "service s \<noteq> [] \<and> enabled s (service s)")
  case True
  then obtain a as where a: "service s = a # as" by (cases "service s") auto
  obtain t where "thread_step s t" "service t = as" "worker_acts t = worker_acts s"
    using service_steps [OF inv a] True a nojoin by auto
  then show ?thesis using a by (intro exI [of _ t]) (cases a; auto simp: work_left_def)
next
  case False
  have "worker_acts s \<noteq> [] \<and> enabled s (worker_acts s)"
  proof (cases "service s = []")
    case True
    then have "worker_acts s \<noteq> []" using assms(3) by (auto simp: work_left_def)
    moreover have "enabled s (worker_acts s)"
      using worker_enabled [OF inv nojoin] True by blast
    ultimately show ?thesis by blast
  next
    case False
    then show ?thesis
      using service_enabled [OF inv nojoin] \<open>\<not> (service s \<noteq> [] \<and> enabled s (service s))\<close> by blast
  qed
  then obtain a as where "worker_acts s = a # as" "enabled s (worker_acts s)"
    by (cases "worker_acts s") auto
  then obtain t where "thread_step s t" "service t = service s"
      "sum_list (map weight (worker_acts t)) < sum_list (map weight (worker_acts s))"
    using worker_steps [OF inv] by blast
  then show ?thesis by (intro exI [of _ t]) (simp add: work_left_def)
qed

text \<open>From there all code that is running can be brought to its end, with every lock free.\<close>

definition quiet :: "threads \<Rightarrow> bool" where
  "quiet s \<longleftrightarrow> service s = [] \<and> worker_acts s = [] \<and> owner s = (\<lambda>_. None)"

lemma no_work_quiet:
  assumes "threads_inv s" and "work_left s = 0"
  shows "quiet s"
proof -
  have e: "service s = []" "worker_acts s = []"
    using assms(2) by (simp_all add: work_left_def)
  then have "held s Service = {}" "held s Worker = {}" using assms(1) by (simp_all add: threads_inv_def)
  then have "owner s l \<noteq> Some t" for l t by (cases t) (auto simp: held_def)
  then have "owner s l = None" for l by (cases "owner s l") auto
  with e show ?thesis by (auto simp: quiet_def)
qed

lemma can_become_quiet:
  assumes "threads_inv s" and "Join \<notin> set (service s)"
  shows "\<exists>t. thread_step\<^sup>*\<^sup>* s t \<and> quiet t"
  using assms
proof (induction "work_left s" arbitrary: s rule: less_induct)
  case less
  show ?case
  proof (cases "work_left s = 0")
    case True
    then show ?thesis using no_work_quiet [OF less(2)] by blast
  next
    case False
    obtain t where t: "thread_step s t" "work_left t < work_left s" "set (service t) \<subseteq> set (service s)"
      using work_can_go_on [OF less(2,3) False] by blast
    have "threads_inv t" using thread_step_inv [OF t(1) less(2)] .
    then obtain u where "thread_step\<^sup>*\<^sup>* t u" "quiet u" using less(1) [of t] t less(3) by blast
    then show ?thesis using t(1) by (meson converse_rtranclp_into_rtranclp)
  qed
qed

section \<open>Properties\<close>

text \<open>C23: The binder thread and the worker never block each other for good, except while a
  handler waits for the worker to end: from every reachable state in which no handler does,
  whatever code is running can be brought to its end, and then every lock is free.\<close>

theorem threads_can_finish:
  assumes "run_of threads_init thread_step s" and "Join \<notin> set (service s)"
  shows "\<exists>t. thread_step\<^sup>*\<^sup>* s t \<and> quiet t"
  using can_become_quiet [OF threads.reachable_inv [OF assms(1)] assms(2)] .

definition idle_threads :: threads where
  "idle_threads = \<lparr>service = [], worker = Gone, owner = (\<lambda>_. None), has_cb = False, destroy = False\<rparr>"

lemma idle_reached: "run_of threads_init thread_step idle_threads"
  by (rule run_start) (simp add: threads_init_def idle_threads_def)

theorem threads_can_finish_witness:
  "\<exists>t. thread_step\<^sup>*\<^sup>* (idle_threads\<lparr>service := handler_locks False (H_switchMode True 3)\<rparr>) t \<and> quiet t"
proof (rule threads_can_finish)
  have "thread_step idle_threads (idle_threads\<lparr>service := handler_locks (has_cb idle_threads)
      (H_switchMode True 3), has_cb := (case H_switchMode True 3 of H_setCallback b \<Rightarrow> b
      | _ \<Rightarrow> has_cb idle_threads)\<rparr>)"
    by (rule call) (simp add: idle_threads_def)
  then show "run_of threads_init thread_step
      (idle_threads\<lparr>service := handler_locks False (H_switchMode True 3)\<rparr>)"
    using run_step [OF idle_reached] by (simp add: idle_threads_def)
qed (simp add: role_locks_def mode_locks_def numeral_3_eq_3)

text \<open>
  The exception is real. Clearing the callback keeps \<open>mLock\<close> while it waits for the worker; a
  worker that has begun to handle a Type-C event needs \<open>mLock\<close> for its report.
\<close>

definition stuck_threads :: threads where
  "stuck_threads = \<lparr>service = [Join, Rel MLock], worker = Handling (uevent_locks 0 True),
     owner = (\<lambda>_. None)(MLock := Some Service), has_cb = False, destroy = True\<rparr>"

lemma stuck_no_step: "\<not> thread_step stuck_threads t"
  by (auto simp: stuck_threads_def uevent_locks_def query_locks_def elim: thread_stepE)

lemma reach_step: "run_of threads_init thread_step s \<Longrightarrow> thread_step s t \<Longrightarrow>
    run_of threads_init thread_step t"
  by (rule run_step)

text \<open>
  A run that ends there: the callback is set, the worker starts and receives a Type-C event,
  and the callback is cleared before the worker has taken the lock.
\<close>

lemma clearing_can_deadlock: "run_of threads_init thread_step stuck_threads"
proof -
  let ?o = "\<lambda>_ :: lock. None :: thread option"
  let ?m = "?o(MLock := Some Service)"
  let ?s = "\<lambda>as w ow cb d. \<lparr>service = as, worker = w, owner = ow, has_cb = cb, destroy = d\<rparr>"
  let ?ev = "Handling (uevent_locks 0 True)"
  have free: "?m(MLock := None) = ?o" by auto
  have "run_of threads_init thread_step (?s [] Gone ?o False False)"
    using idle_reached by (simp add: idle_threads_def)
  then have "run_of threads_init thread_step (?s [Acq MLock, Create, Rel MLock] Gone ?o True False)"
    by (rule reach_step) (use call [of "?s [] Gone ?o False False" "H_setCallback True"] in
      \<open>simp add: callback_locks_def\<close>)
  then have "run_of threads_init thread_step (?s [Create, Rel MLock] Gone ?m True False)"
    by (rule reach_step) (use service_acq [of "?s [Acq MLock, Create, Rel MLock] Gone ?o True False"]
      in simp)
  then have "run_of threads_init thread_step (?s [Rel MLock] AtCheck ?m True False)"
    by (rule reach_step) (use service_create [of "?s [Create, Rel MLock] Gone ?m True False"] in simp)
  then have "run_of threads_init thread_step (?s [] AtCheck ?o True False)"
    by (rule reach_step) (use service_rel [of "?s [Rel MLock] AtCheck ?m True False"] free in simp)
  then have "run_of threads_init thread_step (?s [] ToPoll ?o True False)"
    by (rule reach_step) (use worker_check [of "?s [] AtCheck ?o True False"] in simp)
  then have "run_of threads_init thread_step (?s [] Polling ?o True False)"
    by (rule reach_step) (use worker_poll [of "?s [] ToPoll ?o True False"] in simp)
  then have "run_of threads_init thread_step (?s [] ?ev ?o True False)"
    by (rule reach_step) (use worker_event [of "?s [] Polling ?o True False" 0 True] in simp)
  then have "run_of threads_init thread_step (?s [Acq MLock, Kill, Join, Rel MLock] ?ev ?o False False)"
    by (rule reach_step) (use call [of "?s [] ?ev ?o True False" "H_setCallback False"] in
      \<open>simp add: callback_locks_def\<close>)
  then have "run_of threads_init thread_step (?s [Kill, Join, Rel MLock] ?ev ?m False False)"
    by (rule reach_step)
      (use service_acq [of "?s [Acq MLock, Kill, Join, Rel MLock] ?ev ?o False False"] in simp)
  then have "run_of threads_init thread_step (?s [Join, Rel MLock] ?ev ?m False True)"
    by (rule reach_step)
      (use service_kill [of "?s [Kill, Join, Rel MLock] ?ev ?m False False"] in simp)
  then show ?thesis by (simp add: stuck_threads_def)
qed

end
