(* ===== verification/Tar.thy ===== *)
theory Tar
  imports CText
begin

text \<open>
  Tar archives as the dumpstate HAL writes them (dumpstate/DumpstateDevice.cpp): the header
  of a file, byte for byte, and its checksum. A reader of the format, which is not code of
  the repository, says what the bytes have to mean.
\<close>

section \<open>The header\<close>

definition NULL :: char where "NULL = CHR 0x00"

text \<open>The offsets and sizes of the fields of \<open>PosixTarHeader\<close>, in the order of the struct.\<close>

datatype tar_field =
    T_name | T_mode | T_uid | T_gid | T_size | T_mtime | T_chksum | T_typeflag | T_linkname
  | T_magic | T_version | T_uname | T_gname | T_devmajor | T_devminor | T_prefix | T_pad

definition PosixTarHeader :: "(tar_field \<times> nat) list" where
  "PosixTarHeader =
     [(T_name, 100), (T_mode, 8), (T_uid, 8), (T_gid, 8), (T_size, 12), (T_mtime, 12),
      (T_chksum, 8), (T_typeflag, 1), (T_linkname, 100), (T_magic, 6), (T_version, 2),
      (T_uname, 32), (T_gname, 32), (T_devmajor, 8), (T_devminor, 8), (T_prefix, 155),
      (T_pad, 12)]"

fun offset_in :: "(tar_field \<times> nat) list \<Rightarrow> tar_field \<Rightarrow> nat" where
  "offset_in [] f = 0"
| "offset_in ((g, n) # fs) f = (if f = g then 0 else n + offset_in fs f)"

definition offset :: "tar_field \<Rightarrow> nat" where
  "offset f = offset_in PosixTarHeader f"

definition sizeof_header :: nat where
  "sizeof_header = sum_list (map snd PosixTarHeader)"

text \<open>
  Writing bytes into the struct from a field on. \<open>strcpy\<close> and \<open>sprintf\<close> do not look at the
  size of the field: what is too long runs into the next fields.
\<close>

definition put_bytes :: "nat \<Rightarrow> string \<Rightarrow> string \<Rightarrow> string" where
  "put_bytes off bytes h = take off h @ bytes @ drop (off + length bytes) h"

definition put_cstr :: "tar_field \<Rightarrow> string \<Rightarrow> string \<Rightarrow> string" where
  "put_cstr f str h = put_bytes (offset f) (str @ [NULL]) h"

text \<open>\<open>sprintf("%0wo", n)\<close>.\<close>

definition oct :: "nat \<Rightarrow> nat \<Rightarrow> string" where
  "oct w n = replicate (w - length (num 8 n)) (CHR ''0'') @ num 8 n"

text \<open>The checksum, which also fills its own field with spaces.\<close>

definition tarCheckSum :: "string \<Rightarrow> nat \<times> string" where
  "tarCheckSum header =
     (let header' = put_bytes (offset T_chksum) (replicate 8 (CHR '' '')) header
      in (sum_list (map of_char header') mod 2 ^ 32, header'))"

definition tarHeader :: "string \<Rightarrow> int \<Rightarrow> string" where
  "tarHeader fileName fileSize =
     (let h0 = replicate sizeof_header NULL;
          h1 = put_cstr T_name fileName h0;
          h2 = put_cstr T_mode (oct 7 384) h1;
          h3 = put_cstr T_size (oct 11 (nat (fileSize mod 2 ^ 64))) h2;
          h4 = put_cstr T_mtime (oct 11 0) h3;
          h5 = put_bytes (offset T_typeflag) ''0'' h4;
          h6 = put_cstr T_magic ''ustar'' h5;
          h7 = put_cstr T_version '' '' h6
      in case tarCheckSum h7 of (chk, h8) \<Rightarrow> put_cstr T_chksum (oct 6 chk) h8)"

section \<open>A reader\<close>

text \<open>
  What the format says: names are text up to a zero byte, numbers are octal digits, the
  checksum is the sum of all bytes with the checksum field taken as spaces, and the contents
  follow in blocks of 512 bytes.
\<close>

definition field_bytes :: "tar_field \<Rightarrow> string \<Rightarrow> string" where
  "field_bytes f h = take (the (map_of PosixTarHeader f)) (drop (offset f) h)"

definition read_text :: "tar_field \<Rightarrow> string \<Rightarrow> string" where
  "read_text f h = takeWhile (\<lambda>c. c \<noteq> NULL) (field_bytes f h)"

definition read_oct :: "tar_field \<Rightarrow> string \<Rightarrow> nat" where
  "read_oct f h = digits_value 8 (takeWhile (is_digit 8) (field_bytes f h))"

definition header_sum :: "string \<Rightarrow> nat" where
  "header_sum h = sum_list (map of_char
     (take (offset T_chksum) h @ replicate 8 (CHR '' '') @ drop (offset T_chksum + 8) h))"

definition header_ok :: "string \<Rightarrow> bool" where
  "header_ok h \<longleftrightarrow> length h = 512 \<and> take 5 (field_bytes T_magic h) = ''ustar'' \<and>
     read_oct T_chksum h = header_sum h"

definition padding :: "nat \<Rightarrow> nat" where
  "padding n = (512 - n mod 512) mod 512"

text \<open>\<open>None\<close> is an archive that is damaged.\<close>

function untar :: "string \<Rightarrow> (string \<times> string) list option" where
  "untar bytes =
     (if length bytes < 512 then (if bytes = [] then Some [] else None)
      else if \<not> header_ok (take 512 bytes) then None
      else
        (let h = take 512 bytes; n = read_oct T_size h; rest = drop 512 bytes
         in if length rest < n + padding n then None
            else map_option (Cons (read_text T_name h, take n rest))
                   (untar (drop (n + padding n) rest))))"
  by pat_completeness auto
termination by (relation "measure length") auto

declare untar.simps [simp del]

section \<open>Octal numbers\<close>

lemma num_length:
  "2 \<le> b \<Longrightarrow> n < b ^ w \<Longrightarrow> 0 < w \<Longrightarrow> length (num b n) \<le> w"
proof (induction b n arbitrary: w rule: num.induct)
  case (1 b n)
  show ?case
  proof (cases "n < b")
    case True
    with 1 show ?thesis by (simp add: num.simps [of b n])
  next
    case False
    then obtain v where v: "w = Suc v" "0 < v" using 1 by (cases w; cases "w - 1") auto
    have "n div b < b ^ v" using 1(3) v by (simp add: less_mult_imp_div_less mult.commute)
    with 1 False v have "length (num b (n div b)) \<le> v" by simp
    then show ?thesis using False 1(2) v by (simp add: num.simps [of b n])
  qed
qed

lemma oct_length: "n < 8 ^ w \<Longrightarrow> 0 < w \<Longrightarrow> length (oct w n) = w"
  using num_length [of 8 n w] by (simp add: oct_def)

lemma digits_value_zeros: "digits_value 8 (replicate k (CHR ''0'') @ ds) = digits_value 8 ds"
proof -
  have "the (digit_val (CHR ''0'')) = 0" by code_simp
  then have "foldl (\<lambda>a c. a * 8 + the (digit_val c)) 0 (replicate k (CHR ''0'')) = 0"
    by (induction k) simp_all
  then show ?thesis by (simp add: digits_value_def)
qed

lemma oct_value: "digits_value 8 (oct w n) = n"
  using num_value [of 8 n] by (simp add: oct_def digits_value_zeros)

lemma oct_digits: "c \<in> set (oct w n) \<Longrightarrow> is_digit 8 c"
proof -
  have "is_digit 8 (CHR ''0'')" by code_simp
  then show "c \<in> set (oct w n) \<Longrightarrow> is_digit 8 c"
    using num_digits [of 8 c n] by (auto simp: oct_def)
qed

lemma read_oct_oct:
  assumes "field_bytes f h = oct w n @ c # rest" and "\<not> is_digit 8 c"
  shows "read_oct f h = n"
proof -
  have "takeWhile (is_digit 8) (oct w n @ c # rest) = oct w n"
    using oct_digits assms(2) by (simp add: takeWhile_append2)
  then show ?thesis using assms(1) by (simp add: read_oct_def oct_value)
qed

section \<open>What the header says\<close>

lemma offsets [simp]:
  "offset T_name = 0" "offset T_mode = 100" "offset T_size = 124" "offset T_mtime = 136"
  "offset T_chksum = 148" "offset T_typeflag = 156" "offset T_magic = 257"
  "offset T_version = 263" "sizeof_header = 512"
  by (simp_all add: offset_def PosixTarHeader_def sizeof_header_def)

lemma field_sizes [simp]:
  "map_of PosixTarHeader T_name = Some 100" "map_of PosixTarHeader T_size = Some 12"
  "map_of PosixTarHeader T_chksum = Some 8" "map_of PosixTarHeader T_magic = Some 6"
  by (simp_all add: PosixTarHeader_def)

lemma put_length [simp]: "off + length b \<le> length h \<Longrightarrow> length (put_bytes off b h) = length h"
  by (simp add: put_bytes_def)

lemma slice_after:
  "off + length b \<le> a \<Longrightarrow> off \<le> length h \<Longrightarrow> take n (drop a (put_bytes off b h)) = take n (drop a h)"
  by (simp add: put_bytes_def min_def)

lemma slice_at:
  "off \<le> length h \<Longrightarrow> length b \<le> n \<Longrightarrow>
   take n (drop off (put_bytes off b h)) = b @ take (n - length b) (drop (off + length b) h)"
  by (simp add: put_bytes_def)

lemma take_put: "n \<le> off \<Longrightarrow> off \<le> length h \<Longrightarrow> take n (put_bytes off b h) = take n h"
  by (simp add: put_bytes_def min_def)

lemma slice_before:
  "a + n \<le> off \<Longrightarrow> off \<le> length h \<Longrightarrow> take n (drop a (put_bytes off b h)) = take n (drop a h)"
  by (simp add: take_drop take_put add.commute)

lemma drop_put: "off + length b \<le> n \<Longrightarrow> off \<le> length h \<Longrightarrow> drop n (put_bytes off b h) = drop n h"
  by (simp add: put_bytes_def min_def)

lemma sum_bytes_bound: "sum_list (map (of_char :: char \<Rightarrow> nat) bs) \<le> 255 * length bs"
proof (induction bs)
  case (Cons b bs)
  have "(of_char b :: nat) < 256" by (metis mod_less_divisor of_char_mod_256 zero_less_numeral)
  then have "(of_char b :: nat) \<le> 255" by linarith
  with Cons show ?case by (simp add: add_mono)
qed simp

text \<open>The header before the checksum, for a name that fits into its field.\<close>

definition unsigned_header :: "string \<Rightarrow> nat \<Rightarrow> string" where
  "unsigned_header name n =
     put_cstr T_version '' '' (put_cstr T_magic ''ustar'' (put_bytes (offset T_typeflag) ''0''
       (put_cstr T_mtime (oct 11 0) (put_cstr T_size (oct 11 n) (put_cstr T_mode (oct 7 384)
         (put_cstr T_name name (replicate sizeof_header NULL)))))))"

lemma fixed_octs [simp]:
  "length (oct 7 384) = 7" "length (oct 11 0) = 11"
  by (simp_all add: oct_length)

lemma unsigned_header_length:
  assumes "length name < 100" and "n < 8 ^ 11"
  shows "length (unsigned_header name n) = 512"
  using assms oct_length [of n 11] by (simp add: unsigned_header_def put_cstr_def)

lemma tarHeader_eq:
  assumes "0 \<le> sz" and "sz < 8 ^ 11"
  shows "tarHeader name sz =
    (let (chk, h) = tarCheckSum (unsigned_header name (nat sz))
     in put_cstr T_chksum (oct 6 chk) h)"
  using assms by (simp add: tarHeader_def unsigned_header_def Let_def)

lemma unsigned_fields:
  assumes "length name < 100" and "n < 8 ^ 11"
  shows "take 100 (unsigned_header name n) = name @ replicate (100 - length name) NULL"
    and "take 12 (drop 124 (unsigned_header name n)) = oct 11 n @ [NULL]"
    and "take 6 (drop 257 (unsigned_header name n)) = ''ustar'' @ [NULL]"
proof -
  note len = oct_length [OF assms(2), simplified]
  show "take 100 (unsigned_header name n) = name @ replicate (100 - length name) NULL"
    using assms(1) len
    by (simp add: unsigned_header_def put_cstr_def take_put)
      (simp add: put_bytes_def min_def Suc_diff_Suc flip: replicate_Suc)
  show "take 12 (drop 124 (unsigned_header name n)) = oct 11 n @ [NULL]"
    using assms(1) len by (simp add: unsigned_header_def put_cstr_def slice_before slice_at)
  show "take 6 (drop 257 (unsigned_header name n)) = ''ustar'' @ [NULL]"
    using assms(1) len by (simp add: unsigned_header_def put_cstr_def slice_before slice_at)
qed

lemma header_facts:
  assumes "length name < 100" and "NULL \<notin> set name" and "0 \<le> sz" and "sz < 8 ^ 11"
  shows "length (tarHeader name sz) = 512" and "header_ok (tarHeader name sz)"
    and "read_text T_name (tarHeader name sz) = name"
    and "read_oct T_size (tarHeader name sz) = nat sz"
proof -
  let ?u = "unsigned_header name (nat sz)"
  let ?h = "put_bytes 148 (replicate 8 (CHR '' '')) ?u"
  let ?chk = "sum_list (map of_char ?h) :: nat"
  have bound: "nat sz < 8 ^ 11" using assms(3,4) by simp
  note u = unsigned_fields [OF assms(1) bound] unsigned_header_length [OF assms(1) bound]
  have lenh: "length ?h = 512" using u(4) by simp
  have chk: "?chk < 8 ^ 6" using sum_bytes_bound [of ?h] lenh by simp
  have hdr: "tarHeader name sz = put_bytes 148 (oct 6 ?chk @ [NULL]) ?h"
    using chk unfolding tarHeader_eq [OF assms(3,4)]
    by (simp add: tarCheckSum_def Let_def put_cstr_def)
  have oct6: "length (oct 6 ?chk) = 6" using oct_length [OF chk] by simp
  show len: "length (tarHeader name sz) = 512" using lenh oct6 by (simp add: hdr)
  have not_digit: "\<not> is_digit 8 NULL" unfolding NULL_def by code_simp
  have name: "field_bytes T_name (tarHeader name sz) = name @ replicate (100 - length name) NULL"
    using u(1,4) lenh by (simp add: field_bytes_def hdr take_put)
  show "read_text T_name (tarHeader name sz) = name"
    unfolding read_text_def name using assms(1,2) by (subst takeWhile_append2) auto
  have szf: "field_bytes T_size (tarHeader name sz) = oct 11 (nat sz) @ NULL # []"
    using u(2,4) lenh by (simp add: field_bytes_def hdr slice_before)
  show "read_oct T_size (tarHeader name sz) = nat sz"
    by (rule read_oct_oct [OF szf not_digit])
  have "take 8 (drop 148 (tarHeader name sz)) = oct 6 ?chk @ NULL # take 1 (drop 155 ?h)"
    using lenh oct6 by (simp add: hdr slice_at)
  then have "read_oct T_chksum (tarHeader name sz) = ?chk"
    by (intro read_oct_oct [OF _ not_digit]) (simp add: field_bytes_def)
  moreover have "header_sum (tarHeader name sz) = ?chk"
    using lenh oct6 u(4)
    by (simp add: header_sum_def hdr take_put drop_put) (simp add: put_bytes_def)
  moreover have "field_bytes T_magic (tarHeader name sz) = ''ustar'' @ [NULL]"
    using u(3,4) lenh oct6 by (simp add: field_bytes_def hdr slice_after)
  ultimately show "header_ok (tarHeader name sz)" using len by (simp add: header_ok_def)
qed

section \<open>Archives\<close>

text \<open>An archive as the format describes it: for each file its header, contents and padding.\<close>

definition tar_entry :: "string \<times> string \<Rightarrow> string" where
  "tar_entry f = tarHeader (fst f) (int (length (snd f))) @ snd f @
     replicate (padding (length (snd f))) NULL"

definition file_fits :: "string \<times> string \<Rightarrow> bool" where
  "file_fits f \<longleftrightarrow> length (fst f) < 100 \<and> NULL \<notin> set (fst f) \<and> length (snd f) < 8 ^ 11"

lemma untar_entry:
  assumes "file_fits f"
  shows "untar (tar_entry f @ bytes) = map_option (Cons f) (untar bytes)"
proof -
  let ?n = "length (snd f)"
  let ?h = "tarHeader (fst f) (int ?n)"
  have h: "length ?h = 512" "header_ok ?h" "read_text T_name ?h = fst f" "read_oct T_size ?h = ?n"
    using header_facts [of "fst f" "int ?n"] assms
    by (simp_all add: file_fits_def flip: of_nat_less_iff)
  have "take 512 (tar_entry f @ bytes) = ?h"
    "drop 512 (tar_entry f @ bytes) = snd f @ replicate (padding ?n) NULL @ bytes"
    using h(1) by (simp_all add: tar_entry_def)
  then show ?thesis
    using h by (subst untar.simps) (simp add: Let_def tar_entry_def)
qed

lemma untar_archive:
  "list_all file_fits files \<Longrightarrow> untar (concat (map tar_entry files)) = Some files"
proof (induction files)
  case Nil
  then show ?case by (simp add: untar.simps)
next
  case (Cons f files)
  then show ?case using untar_entry [of f "concat (map tar_entry files)"] by simp
qed

section \<open>Long names and large files\<close>

lemma put_cstr_length:
  "offset f + length str < length h \<Longrightarrow> length (put_cstr f str h) = length h"
  by (simp add: put_cstr_def)

lemma oct_length_le: "n < 8 ^ w \<Longrightarrow> 0 < w \<Longrightarrow> v \<le> w \<Longrightarrow> length (oct v n) \<le> w"
  using num_length [of 8 n w] by (simp add: oct_def)

lemma header_length_any:
  assumes "length name \<le> 255"
  shows "length (tarHeader name sz) = 512"
proof -
  have "nat (sz mod 2 ^ 64) < 8 ^ 22"
    by (rule order.strict_trans2 [of _ "2 ^ 64"]) (simp_all add: nat_less_iff)
  then have o11: "length (oct 11 (nat (sz mod 2 ^ 64))) \<le> 22" by (rule oct_length_le) simp_all
  have o6: "length (oct 6 (n mod 2 ^ 32)) \<le> 11" for n
    by (rule oct_length_le) (simp_all add: order.strict_trans2 [of _ "2 ^ 32"])
  let ?h1 = "put_cstr T_name name (replicate sizeof_header NULL)"
  let ?h3 = "put_cstr T_size (oct 11 (nat (sz mod 2 ^ 64))) (put_cstr T_mode (oct 7 384) ?h1)"
  let ?h7 = "put_cstr T_version '' '' (put_cstr T_magic ''ustar'' (put_bytes (offset T_typeflag) ''0''
    (put_cstr T_mtime (oct 11 0) ?h3)))"
  have "length ?h1 = 512" using assms by (simp add: put_cstr_length)
  then have "length ?h3 = 512" using o11 by (simp add: put_cstr_length)
  then have "length ?h7 = 512" by (simp add: put_cstr_length)
  then have "length (snd (tarCheckSum ?h7)) = 512" by (simp add: tarCheckSum_def Let_def)
  moreover have "length (oct 6 (fst (tarCheckSum ?h7))) \<le> 11"
    unfolding tarCheckSum_def Let_def fst_conv by (rule o6)
  ultimately have "length (put_cstr T_chksum (oct 6 (fst (tarCheckSum ?h7))) (snd (tarCheckSum ?h7))) = 512"
    by (simp add: put_cstr_length)
  then show ?thesis by (simp add: tarHeader_def Let_def case_prod_beta')
qed

end
