(* ===== verification/Dumpstate.thy ===== *)
theory Dumpstate
  imports Os Tar
begin

text \<open>
  The dumpstate HAL (dumpstate/DumpstateDevice.cpp): copying log files, writing the archive,
  choosing the newest logs, the modem thread that does all of this and streams the archive,
  and the board report. The dump utilities of the shared library are recorded as calls.
\<close>

section \<open>State and environment\<close>

text \<open>The calls of the shared library: a file or a command whose output goes to a descriptor.\<close>

datatype dump_call =
    DumpFileToFd int string string
  | RunCommandToFd int string "string list" "int option"

text \<open>
  The files are kept by path. The environment says what a read loop gets of a file in which
  pieces, how many bytes a \<open>write\<close> accepts, what \<open>fstat\<close> says, what a command does to the
  files, the sorted listing of \<open>scandir\<close>, and how a property is read as a bool or a number.
\<close>

type_synonym files = "string \<Rightarrow> string option"

record dump = "dump_call os" +
  files :: files
  modem_out :: string

record dump_env = "dump_call env" +
  d_chunks :: "dump_call event list \<Rightarrow> string \<Rightarrow> string \<Rightarrow> string list"
  d_write :: "dump_call event list \<Rightarrow> string \<Rightarrow> int"
  d_size :: "dump_call event list \<Rightarrow> string \<Rightarrow> string \<Rightarrow> int"
  d_run :: "dump_call event list \<Rightarrow> string list \<Rightarrow> files \<Rightarrow> files"
  d_scandir :: "dump_call event list \<Rightarrow> string \<Rightarrow> string list option"
  d_bool :: "string \<Rightarrow> bool \<Rightarrow> bool"
  d_int :: "string \<Rightarrow> int \<Rightarrow> int"
  d_user :: bool

definition GetBoolProperty :: "dump_env \<Rightarrow> string \<Rightarrow> bool \<Rightarrow> (dump, bool) st" where
  "GetBoolProperty E key dflt s = (case get_prop E key '''' s of (v, s1) \<Rightarrow> (d_bool E v dflt, s1))"

definition GetIntProperty :: "dump_env \<Rightarrow> string \<Rightarrow> int \<Rightarrow> (dump, int) st" where
  "GetIntProperty E key dflt s = (case get_prop E key '''' s of (v, s1) \<Rightarrow> (d_int E v dflt, s1))"

definition DumpFile :: "dump_env \<Rightarrow> int \<Rightarrow> string \<Rightarrow> string \<Rightarrow> dump \<Rightarrow> dump" where
  "DumpFile E fd title path s = snd (notify E (DumpFileToFd fd title path) s)"

definition RunCommand ::
    "dump_env \<Rightarrow> int \<Rightarrow> string \<Rightarrow> string list \<Rightarrow> int option \<Rightarrow> dump \<Rightarrow> dump" where
  "RunCommand E fd title cmd timeout s =
     (let s1 = snd (notify E (RunCommandToFd fd title cmd timeout) s)
      in s1\<lparr>files := d_run E (hist s) cmd (files s1)\<rparr>)"

section \<open>Files\<close>

definition open_read :: "dump_env \<Rightarrow> string \<Rightarrow> (dump, string option) st" where
  "open_read E path s =
     (case sys E (''open '' @ path) s of (r, s1) \<Rightarrow> (if r < 0 then None else files s1 path, s1))"

text \<open>\<open>open(path, O\_WRONLY | O\_CREAT)\<close>: a file that exists keeps its contents.\<close>

definition open_write :: "dump_env \<Rightarrow> string \<Rightarrow> (dump, bool) st" where
  "open_write E path s =
     (case sys E (''creat '' @ path) s of
        (r, s1) \<Rightarrow>
          if r < 0 then (False, s1)
          else (True, s1\<lparr>files := (files s1)(path \<mapsto>
                  (case files s1 path of None \<Rightarrow> '''' | Some c \<Rightarrow> c))\<rparr>))"

definition overwrite :: "nat \<Rightarrow> string \<Rightarrow> string \<Rightarrow> string" where
  "overwrite pos bytes old = take pos old @ bytes @ drop (pos + length bytes) old"

text \<open>One \<open>write\<close> at the position of the descriptor: its result, and the next position.\<close>

definition write_fd :: "dump_env \<Rightarrow> string \<Rightarrow> nat \<Rightarrow> string \<Rightarrow> (dump, int \<times> nat) st" where
  "write_fd E path pos bytes s =
     (case ask (\<lambda>h. d_write E h bytes) (Sys (''write '' @ path)) s of
        (r, s1) \<Rightarrow>
          if r \<le> 0 then ((r, pos), s1)
          else ((r, pos + nat r), s1\<lparr>files := (files s1)(path \<mapsto>
                  overwrite pos (take (nat r) bytes)
                    (case files s1 path of None \<Rightarrow> '''' | Some c \<Rightarrow> c))\<rparr>))"

text \<open>The loops over what \<open>read\<close> returns ignore how much was written.\<close>

fun write_all :: "dump_env \<Rightarrow> string \<Rightarrow> nat \<Rightarrow> string list \<Rightarrow> (dump, nat) st" where
  "write_all E path pos [] s = (pos, s)"
| "write_all E path pos (buffer # bs) s =
     (case write_fd E path pos buffer s of ((r, pos'), s1) \<Rightarrow> write_all E path pos' bs s1)"

definition copyFile :: "dump_env \<Rightarrow> string \<Rightarrow> string \<Rightarrow> dump \<Rightarrow> dump" where
  "copyFile E srcFile destFile s =
     (case open_read E srcFile s of
        (None, s1) \<Rightarrow> s1
      | (Some content, s1) \<Rightarrow>
          (case open_write E destFile s1 of
             (False, s2) \<Rightarrow> s2
           | (True, s2) \<Rightarrow>
               snd (write_all E destFile 0 (d_chunks E (hist s2) srcFile content) s2)))"

section \<open>The archive\<close>

definition blockSize :: nat where "blockSize = sizeof_header"

text \<open>One file of the archive, from the position and the length counted so far.\<close>

definition tar_file ::
    "dump_env \<Rightarrow> string \<Rightarrow> string \<Rightarrow> string \<Rightarrow> nat \<times> nat \<Rightarrow> (dump, nat \<times> nat) st" where
  "tar_file E tarFile srcDir d_name at s =
     (case at of (pos, tarLen) \<Rightarrow>
      let path = srcDir @ ''/'' @ d_name in
      case open_read E path s of
        (None, s1) \<Rightarrow> ((pos, tarLen), s1)
      | (Some content, s1) \<Rightarrow>
          (let st_size = d_size E (hist s1) path content in
           case write_fd E tarFile pos (tarHeader d_name st_size) s1 of
             ((r, pos1), s2) \<Rightarrow>
               if r \<le> 0 then ((pos1, tarLen), s2)
               else
                 (let bufs = d_chunks E (hist s2) path content;
                      tarLen1 = tarLen + blockSize + sum_list (map length bufs);
                      pad = (blockSize - tarLen1 mod blockSize) mod blockSize
                  in case write_all E tarFile pos1 bufs s2 of
                       (pos2, s3) \<Rightarrow>
                         (case write_all E tarFile pos2 (replicate pad [NULL]) s3 of
                            (pos3, s4) \<Rightarrow> ((pos3, tarLen1 + pad), s4)))))"

fun tar_loop ::
    "dump_env \<Rightarrow> string \<Rightarrow> string \<Rightarrow> string list \<Rightarrow> nat \<times> nat \<Rightarrow> (dump, nat \<times> nat) st" where
  "tar_loop E tarFile srcDir [] at s = (at, s)"
| "tar_loop E tarFile srcDir (d_name # ds) at s =
     (if take 1 d_name = ''.'' then tar_loop E tarFile srcDir ds at s
      else case tar_file E tarFile srcDir d_name at s of
             (at', s1) \<Rightarrow> tar_loop E tarFile srcDir ds at' s1)"

definition createTarFile :: "dump_env \<Rightarrow> string \<Rightarrow> string \<Rightarrow> dump \<Rightarrow> dump" where
  "createTarFile E tarFile srcDir s =
     (case open_dir E srcDir s of
        (None, s1) \<Rightarrow> s1
      | (Some entries, s1) \<Rightarrow>
          (case open_write E tarFile s1 of
             (False, s2) \<Rightarrow> s2
           | (True, s2) \<Rightarrow> snd (tar_loop E tarFile srcDir (map fst entries) (0, 0) s2)))"

section \<open>Choosing logs\<close>

text \<open>The loop from the last entry to the first; -1 stands for no limit.\<close>

fun log_loop ::
    "dump_env \<Rightarrow> string \<Rightarrow> string \<Rightarrow> int \<Rightarrow> string \<Rightarrow> int \<Rightarrow> string list \<Rightarrow> dump \<Rightarrow> dump" where
  "log_loop E srcDir destDir maxFileNum logPrefix copiedFiles [] s = s"
| "log_loop E srcDir destDir maxFileNum logPrefix copiedFiles (d_name # ds) s =
     (if \<not> strncmp_prefix d_name logPrefix then
        log_loop E srcDir destDir maxFileNum logPrefix copiedFiles ds s
      else if copiedFiles \<ge> maxFileNum \<and> maxFileNum \<noteq> -1 then
        log_loop E srcDir destDir maxFileNum logPrefix copiedFiles ds s
      else log_loop E srcDir destDir maxFileNum logPrefix (copiedFiles + 1) ds
             (copyFile E (srcDir @ ''/'' @ d_name) (destDir @ ''/'' @ d_name) s))"

definition dumpLogs ::
    "dump_env \<Rightarrow> string \<Rightarrow> string \<Rightarrow> int \<Rightarrow> string \<Rightarrow> dump \<Rightarrow> dump" where
  "dumpLogs E srcDir destDir maxFileNum logPrefix s =
     (case d_scandir E (hist s) srcDir of
        None \<Rightarrow> s
      | Some entries \<Rightarrow> log_loop E srcDir destDir maxFileNum logPrefix 0 (rev entries) s)"

section \<open>The modem thread\<close>

definition MODEM_LOG_PREFIX_PROPERTY :: string where
  "MODEM_LOG_PREFIX_PROPERTY = ''ro.radio.log_prefix''"
definition MODEM_LOG_LOC_PROPERTY :: string where
  "MODEM_LOG_LOC_PROPERTY = ''ro.radio.log_loc''"
definition DIAG_MDLOG_PERSIST_PROPERTY :: string where
  "DIAG_MDLOG_PERSIST_PROPERTY = ''persist.vendor.sys.modem.diag.mdlog''"
definition DIAG_MDLOG_PROPERTY :: string where
  "DIAG_MDLOG_PROPERTY = ''vendor.sys.modem.diag.mdlog''"
definition DIAG_MDLOG_STATUS_PROPERTY :: string where
  "DIAG_MDLOG_STATUS_PROPERTY = ''vendor.sys.modem.diag.mdlog_on''"
definition DIAG_MDLOG_NUMBER_BUGREPORT :: string where
  "DIAG_MDLOG_NUMBER_BUGREPORT = ''persist.vendor.sys.modem.diag.mdlog_br_num''"
definition EMMC_BOOTDEVICE :: string where "EMMC_BOOTDEVICE = ''ro.boot.bootdevice''"
definition TCPDUMP_NUMBER_BUGREPORT :: string where
  "TCPDUMP_NUMBER_BUGREPORT = ''persist.vendor.tcpdump.log.br_num''"
definition TCPDUMP_PERSIST_PROPERTY :: string where
  "TCPDUMP_PERSIST_PROPERTY = ''persist.vendor.tcpdump.log.alwayson''"
definition MODEM_EFS_DUMP_PROPERTY :: string where
  "MODEM_EFS_DUMP_PROPERTY = ''vendor.sys.modem.diag.efsdump''"
definition VENDOR_VERBOSE_LOGGING_ENABLED_PROPERTY :: string where
  "VENDOR_VERBOSE_LOGGING_ENABLED_PROPERTY = ''persist.vendor.verbose_logging_enabled''"
definition DIAG_LOG_PREFIX :: string where "DIAG_LOG_PREFIX = ''diag_log_''"
definition TCPDUMP_LOG_PREFIX :: string where "TCPDUMP_LOG_PREFIX = ''tcpdump''"
definition EXTENDED_LOG_PREFIX :: string where "EXTENDED_LOG_PREFIX = ''extended_log_''"
definition STDOUT_FILENO :: int where "STDOUT_FILENO = 1"

definition basename :: "string \<Rightarrow> string" where
  "basename path = rev (takeWhile (\<lambda>c. c \<noteq> CHR ''/'') (rev path))"

definition diagLogDir :: string where "diagLogDir = ''/data/vendor/radio/diag_logs/logs''"
definition diagPoweronLogPath :: string where
  "diagPoweronLogPath = ''/data/vendor/radio/diag_logs/logs/diag_poweron_log.qmdl''"
definition tcpdumpLogDir :: string where "tcpdumpLogDir = ''/data/vendor/tcpdump_logger/logs''"
definition extendedLogDir :: string where "extendedLogDir = ''/data/vendor/radio/extended_logs''"

definition rilAndNetmgrLogs :: "string list" where
  "rilAndNetmgrLogs =
     [''/data/vendor/radio/haldebug_ril0'', ''/data/vendor/radio/haldebug_ril1'',
      ''/data/vendor/radio/ril_log0'', ''/data/vendor/radio/ril_log0_old'',
      ''/data/vendor/radio/ril_log1'', ''/data/vendor/radio/ril_log1_old'',
      ''/data/vendor/radio/qmi_fw_log'', ''/data/vendor/radio/qmi_fw_log_old'',
      ''/data/vendor/radio/imsdatadaemon_log'', ''/data/vendor/radio/imsdatadaemon_log_old'',
      ''/data/vendor/netmgr/netmgr_log'', ''/data/vendor/netmgr/netmgr_log_old'',
      ''/data/vendor/radio/omadm_logs.txt'', ''/data/vendor/radio/power_anomaly_data.txt'',
      ''/data/vendor/radio/diag_logs/diag_trace.txt'',
      ''/data/vendor/radio/diag_logs/diag_trace_old.txt'', ''/data/vendor/radio/metrics_data'',
      ''/data/vendor/ssrlog/ssr_log.txt'', ''/data/vendor/ssrlog/ssr_log_old.txt'',
      ''/data/vendor/rfs/mpss/modem_efs'']"

text \<open>Stopping the diagnostics logger, if it is enabled and runs.\<close>

definition stop_diag :: "dump_env \<Rightarrow> bool \<Rightarrow> bool \<Rightarrow> dump \<Rightarrow> dump" where
  "stop_diag E diagLogEnabled diagLogStarted s =
     (if diagLogEnabled \<and> diagLogStarted
      then snd (sys E ''WaitForProperty mdlog_on false 10'' (set_prop DIAG_MDLOG_PROPERTY ''false'' s))
      else s)"

definition collect_diag :: "dump_env \<Rightarrow> string \<Rightarrow> bool \<Rightarrow> bool \<Rightarrow> dump \<Rightarrow> dump" where
  "collect_diag E modemLogAllDir diagLogEnabled diagLogStarted s =
     (if diagLogEnabled then
        (case GetIntProperty E DIAG_MDLOG_NUMBER_BUGREPORT 100 s of
           (n, s1) \<Rightarrow>
             (let s2 = dumpLogs E diagLogDir modemLogAllDir n DIAG_LOG_PREFIX s1
              in if diagLogStarted then set_prop DIAG_MDLOG_PROPERTY ''true'' s2 else s2))
      else s)"

text \<open>What only builds that are not user builds collect.\<close>

definition collect_debug :: "dump_env \<Rightarrow> string \<Rightarrow> dump \<Rightarrow> dump" where
  "collect_debug E modemLogAllDir s =
     (let s1 = set_prop MODEM_EFS_DUMP_PROPERTY ''true'' s in
      case GetBoolProperty E TCPDUMP_PERSIST_PROPERTY False s1 of
        (tcpdumpEnabled, s2) \<Rightarrow>
          (let s3 = (if tcpdumpEnabled then
                       (case GetIntProperty E TCPDUMP_NUMBER_BUGREPORT 5 s2 of
                          (n, t) \<Rightarrow> dumpLogs E tcpdumpLogDir modemLogAllDir n TCPDUMP_LOG_PREFIX t)
                     else s2);
               s4 = fold (\<lambda>logFile. copyFile E logFile (modemLogAllDir @ ''/'' @ basename logFile))
                      rilAndNetmgrLogs s3;
               s5 = dumpLogs E extendedLogDir modemLogAllDir 100 EXTENDED_LOG_PREFIX s4
           in set_prop MODEM_EFS_DUMP_PROPERTY ''false'' s5))"

text \<open>Streaming the archive: the loop ends at the first write that is not complete.\<close>

fun stream_loop :: "dump_env \<Rightarrow> string list \<Rightarrow> dump \<Rightarrow> dump" where
  "stream_loop E [] s = s"
| "stream_loop E (buffer # bs) s =
     (case ask (\<lambda>h. d_write E h buffer) (Sys ''write fdModem'') s of
        (result, s1) \<Rightarrow>
          (let s2 = s1\<lparr>modem_out := modem_out s1 @ take (nat result) buffer\<rparr>
           in if result \<noteq> int (length buffer) then s2 else stream_loop E bs s2))"

definition stream_archive :: "dump_env \<Rightarrow> string \<Rightarrow> dump \<Rightarrow> dump" where
  "stream_archive E modemLogCombined s =
     (case open_read E modemLogCombined s of
        (None, s1) \<Rightarrow> s1
      | (Some content, s1) \<Rightarrow> stream_loop E (d_chunks E (hist s1) modemLogCombined content) s1)"

definition dumpModemThread :: "dump_env \<Rightarrow> dump \<Rightarrow> dump" where
  "dumpModemThread E s =
     (case get_prop E MODEM_LOG_LOC_PROPERTY '''' s of (modemLogDir, s1) \<Rightarrow>
      if modemLogDir = '''' then s1 else
      case get_prop E MODEM_LOG_PREFIX_PROPERTY '''' s1 of (filePrefix, s2) \<Rightarrow>
      if filePrefix = '''' then s2 else
      case GetBoolProperty E DIAG_MDLOG_PERSIST_PROPERTY False s2 of (diagLogEnabled, s3) \<Rightarrow>
      case GetBoolProperty E DIAG_MDLOG_STATUS_PROPERTY False s3 of (diagLogStarted, s4) \<Rightarrow>
      let s5 = usleep 1000000 (stop_diag E diagLogEnabled diagLogStarted s4);
          modemLogCombined = modemLogDir @ ''/'' @ filePrefix @ ''all.tar'';
          modemLogAllDir = modemLogDir @ ''/modem_log'';
          s6 = RunCommand E STDOUT_FILENO ''MKDIR MODEM LOG''
                 [''/vendor/bin/mkdir'', ''-p'', modemLogAllDir] (Some 2) s5;
          s7 = collect_diag E modemLogAllDir diagLogEnabled diagLogStarted s6;
          s8 = copyFile E diagPoweronLogPath (modemLogAllDir @ ''/'' @ basename diagPoweronLogPath) s7;
          s9 = (if \<not> d_user E then collect_debug E modemLogAllDir s8 else s8);
          s10 = stream_archive E modemLogCombined (createTarFile E modemLogCombined modemLogAllDir s9);
          s11 = RunCommand E STDOUT_FILENO ''RM MODEM DIR''
                  [''/vendor/bin/rm'', ''-r'', modemLogAllDir] (Some 2) s10
      in RunCommand E STDOUT_FILENO ''RM LOG'' [''/vendor/bin/rm'', modemLogCombined] (Some 2) s11)"

end
