(* ===== verification/DumpstateBoard.thy ===== *)
theory DumpstateBoard
  imports Dumpstate
begin

text \<open>
  The board report of the dumpstate HAL (dumpstate/DumpstateDevice.cpp, DumpstateDevice.h):
  its sections, as data, in the order of the source, the handlers of the interface, and the
  main function of the service.
\<close>

section \<open>Sections\<close>

datatype dump_item = FileSec string string | CmdSec string "string list" "int option"

fun dump_section :: "dump_env \<Rightarrow> int \<Rightarrow> dump_item \<Rightarrow> dump \<Rightarrow> dump" where
  "dump_section E fd (FileSec title path) s = DumpFile E fd title path s"
| "dump_section E fd (CmdSec title cmd timeout) s = RunCommand E fd title cmd timeout s"

definition dump_sections :: "dump_env \<Rightarrow> int \<Rightarrow> dump_item list \<Rightarrow> dump \<Rightarrow> dump" where
  "dump_sections E fd secs s = fold (dump_section E fd) secs s"

definition notify_modem :: "dump_item list" where
  "notify_modem =
     [CmdSec ''Notify modem''
        [''/vendor/bin/modem_svc'', ''-s''] (Some 1)]"

definition board_start :: "dump_item list" where
  "board_start =
     [CmdSec ''VENDOR PROPERTIES''
        [''/vendor/bin/getprop''] None,
      FileSec ''CPU present'' ''/sys/devices/system/cpu/present'',
      FileSec ''CPU online'' ''/sys/devices/system/cpu/online'']"

definition perf_stats :: "dump_item list" where
  "perf_stats =
     [CmdSec ''Performance Stats History''
        [''/vendor/bin/perfstatsd'', ''-d''] None]"

definition DumpF2FS_secs :: "dump_item list" where
  "DumpF2FS_secs =
     [FileSec ''F2FS'' ''/sys/kernel/debug/f2fs/status'',
      CmdSec ''F2FS - fragmentation''
        [''/vendor/bin/sh'', ''-c'',
         ''for d in $(ls /proc/fs/f2fs/); do echo $d: /dev/block/mapper/`ls -l '' @
           ''/dev/block/mapper | grep $d | awk '{print $8,$9,$10}'`; cat '' @
           ''/proc/fs/f2fs/$d/segment_info; done''] None]"

definition DumpeMMC_secs :: "dump_item list" where
  "DumpeMMC_secs =
     [FileSec ''eMMC model'' ''/sys/block/mmcblk0/device/name'',
      FileSec ''eMMC prv'' ''/sys/block/mmcblk0/device/prv'',
      FileSec ''eMMC fwrev'' ''/sys/block/mmcblk0/device/fwrev'',
      FileSec ''eMMC size'' ''/sys/block/mmcblk0/size'',
      FileSec ''eMMC ext_csd'' ''/sys/kernel/debug/mmc0/mmc0:0001/ext_csd'',
      FileSec ''eMMC err_stats'' ''/sys/kernel/debug/mmc0/err_stats'',
      FileSec ''eMMC ring_buffer'' ''/sys/kernel/debug/mmc0/ring_buffer'',
      FileSec ''eMMC host status'' ''/sys/kernel/debug/mmc0/show_host'',
      FileSec ''eMMC io_stats'' ''/sys/kernel/debug/mmc0/io_stats'',
      FileSec ''eMMC req_stats'' ''/sys/kernel/debug/mmc0/req_stats'']"

definition DumpeMMC_boot :: "string \<Rightarrow> dump_item list" where
  "DumpeMMC_boot bootdev =
     [FileSec ''eMMC pre_eol_info'' (''/sys/devices/platform/soc/'' @ bootdev @
       ''/mmc_host/mmc0/mmc0:0001/pre_eol_info''),
      FileSec ''eMMC life_time'' (''/sys/devices/platform/soc/'' @ bootdev @
        ''/mmc_host/mmc0/mmc0:0001/life_time''),
      FileSec ''eMMC Slow IO Read'' (''/sys/devices/platform/soc/'' @ bootdev @
        ''/mmc_host/mmc0/slowio_read_cnt''),
      FileSec ''eMMC Slow IO Write'' (''/sys/devices/platform/soc/'' @ bootdev @
        ''/mmc_host/mmc0/slowio_write_cnt''),
      FileSec ''eMMC Slow IO Urgent Read'' (''/sys/devices/platform/soc/'' @ bootdev @
        ''/mmc_host/mmc0/slowio_urgent_read_cnt''),
      FileSec ''eMMC Slow IO Urgent Write'' (''/sys/devices/platform/soc/'' @ bootdev @
        ''/mmc_host/mmc0/slowio_urgent_write_cnt''),
      FileSec ''eMMC Slow IO Discard'' (''/sys/devices/platform/soc/'' @ bootdev @
        ''/mmc_host/mmc0/slowio_discard_cnt''),
      FileSec ''eMMC Slow IO Flush'' (''/sys/devices/platform/soc/'' @ bootdev @
        ''/mmc_host/mmc0/slowio_flush_cnt'')]"

definition DumpPower_secs :: "dump_item list" where
  "DumpPower_secs =
     [CmdSec ''Power Stats Times''
        [''/vendor/bin/sh'', ''-c'',
         ''echo -n \"Boot: \" && /vendor/bin/uptime -s &&echo -n \"Now: \" && date''] None,
      FileSec ''Sleep Stats'' ''/sys/power/system_sleep/stats'',
      FileSec ''Power Management Stats'' ''/sys/power/rpmh_stats/master_stats'',
      FileSec ''WLAN Power Stats'' ''/d/wlan0/power_stats'']"

definition interrupts :: "dump_item list" where
  "interrupts =
     [FileSec ''INTERRUPTS'' ''/proc/interrupts'']"

definition board_middle :: "dump_item list" where
  "board_middle =
     [FileSec ''LL-Stats'' ''/d/wlan0/ll_stats'',
      FileSec ''WLAN Connect Info'' ''/d/wlan0/connect_info'',
      FileSec ''WLAN Offload Info'' ''/d/wlan0/offload_info'',
      FileSec ''WLAN Roaming Stats'' ''/d/wlan0/roam_stats'',
      FileSec ''ICNSS Stats'' ''/d/icnss/stats'',
      FileSec ''SMD Log'' ''/d/ipc_logging/smd/log'',
      CmdSec ''ION HEAPS''
        [''/vendor/bin/sh'', ''-c'',
         ''for d in $(ls -d /d/ion/*); do for f in $(ls $d); do echo --- $d/$f; cat '' @
           ''$d/$f; done; done''] None,
      FileSec ''dmabuf info'' ''/d/dma_buf/bufinfo'',
      CmdSec ''Temperatures''
        [''/vendor/bin/sh'', ''-c'',
         ''for f in /sys/class/thermal/thermal* ; do type=`cat $f/type` ; temp=`cat '' @
           ''$f/temp` ; echo \"$type: $temp\" ; done''] None,
      CmdSec ''Cooling Device Current State''
        [''/vendor/bin/sh'', ''-c'',
         ''for f in /sys/class/thermal/cooling* ; do type=`cat $f/type` ; temp=`cat '' @
           ''$f/cur_state` ; echo \"$type: $temp\" ; done''] None,
      CmdSec ''LMH info''
        [''/vendor/bin/sh'', ''-c'',
         ''for f in '' @
           ''/sys/bus/platform/drivers/msm_lmh_dcvs/*qcom,limits-dcvs@*/lmh_freq_limit; do '' @
             ''state=`cat $f` ; echo \"$f: $state\" ; done''] None,
      CmdSec ''CPU time-in-state''
        [''/vendor/bin/sh'', ''-c'',
         ''for cpu in /sys/devices/system/cpu/cpu*; do '' @
           ''f=$cpu/cpufreq/stats/time_in_state; if [ ! -f $f ]; then continue; fi; echo '' @
           ''$f:; cat $f; done''] None,
      CmdSec ''CPU cpuidle''
        [''/vendor/bin/sh'', ''-c'',
         ''for cpu in /sys/devices/system/cpu/cpu*; do for d in $cpu/cpuidle/state*; do '' @
           ''if [ ! -d $d ]; then continue; fi; echo \"$d: `cat $d/name` `cat $d/desc` '' @
           ''`cat $d/time` `cat $d/usage`\"; done; done''] None,
      CmdSec ''Easel debug info''
        [''/vendor/bin/sh'', ''-c'',
         ''for f in `ls '' @
           ''/sys/devices/platform/soc/a88000.i2c/i2c-0/0-0066/@(*curr|temperature|vbat|tot'' @
             ''al_power)`; do echo \"$f: `cat $f`\" ; done; '' @
             ''file=/sys/devices/virtual/misc/mnh_sm/state; echo \"$file: `cat $file`\"''] None,
      FileSec ''MDP xlogs'' ''/data/vendor/display/mdp_xlog'',
      FileSec ''TCPM logs'' ''/d/tcpm/usbpd0'',
      FileSec ''PD Engine'' ''/d/logbuffer/usbpd'',
      FileSec ''smb-lib'' ''/d/logbuffer/smblib'',
      FileSec ''DWC3 logs'' ''/d/ipc_logging/a600000.dwc3/log'',
      FileSec ''ipc-local-ports'' ''/d/msm_ipc_router/dump_local_ports'']"

definition DumpIPCTRT_secs :: "dump_item list" where
  "DumpIPCTRT_secs =
     [FileSec ''MPSS IPCRTR Log'' ''/sys/kernel/debug/ipc_logging/mpss_IPCRTR/log'',
      FileSec ''Local IPCRTR Log'' ''/sys/kernel/debug/ipc_logging/local_IPCRTR/log'']"

definition touch_start :: "string \<Rightarrow> dump_item list" where
  "touch_start touch_sysfs_path =
     [FileSec ''Synaptics touch firmware version'' (touch_sysfs_path @ ''buildid''),
      FileSec ''Synaptics touch config version'' (touch_sysfs_path @ ''config''),
      CmdSec ''keep touch stay awake''
        [''/vendor/bin/sh'', ''-c'',
         ''echo 02 >'' @ touch_sysfs_path @ ''suspend''] None,
      FileSec ''Synaptics touch noise information'' (touch_sysfs_path @ ''noise_state'')]"

definition touch_round :: "string \<Rightarrow> dump_item list" where
  "touch_round touch_sysfs_path =
     [CmdSec ''Touch Cm Raw data''
        [''/vendor/bin/sh'', ''-c'',
         ''echo 20 >'' @ touch_sysfs_path @ ''read_report && cat '' @ touch_sysfs_path @
           ''read_report''] None,
      CmdSec ''Touch Cm Jitter''
        [''/vendor/bin/sh'', ''-c'',
         ''echo 02 >'' @ touch_sysfs_path @ ''read_report && cat '' @ touch_sysfs_path @
           ''read_report''] None,
      CmdSec ''Touch Cs Raw data''
        [''/vendor/bin/sh'', ''-c'',
         ''echo 63 >'' @ touch_sysfs_path @ ''read_report && cat '' @ touch_sysfs_path @
           ''read_report''] None,
      CmdSec ''Touch Cs Jitter''
        [''/vendor/bin/sh'', ''-c'',
         ''echo 59 >'' @ touch_sysfs_path @ ''read_report && cat '' @ touch_sysfs_path @
           ''read_report''] None]"

definition touch_end :: "string \<Rightarrow> dump_item list" where
  "touch_end touch_sysfs_path =
     [CmdSec ''keep touch stay awake disable''
        [''/vendor/bin/sh'', ''-c'',
         ''echo 00 >'' @ touch_sysfs_path @ ''suspend''] None]"

definition board_end :: "dump_item list" where
  "board_end =
     [CmdSec ''USB Device Descriptors''
        [''/vendor/bin/sh'', ''-c'',
         ''cd /sys/bus/usb/devices/1-1 && cat product && cat bcdDevice; cat descriptors '' @
           ''| od -t x1 -w16 -N96''] None,
      CmdSec ''QSEE logs''
        [''/vendor/bin/sh'', ''-c'',
         ''/vendor/bin/timeout 3 cat /d/tzdbg/qsee_log''] None,
      CmdSec ''Power supply properties''
        [''/vendor/bin/sh'', ''-c'',
         ''for f in `ls /sys/class/power_supply/*/uevent` ; do echo \"------ $f'' @ [CHR 0x5C] @
           ''n`cat $f`'' @ [CHR 0x5C] @ ''n\" ; done''] None,
      CmdSec ''PMIC Votables''
        [''/vendor/bin/sh'', ''-c'',
         ''cat /sys/kernel/debug/pmic-votable/*/status''] None,
      FileSec ''Battery cycle count'' ''/sys/class/power_supply/bms/device/cycle_counts_bins'',
      FileSec ''Maxim FG registers'' ''/d/regmap/4-0036/registers'',
      FileSec ''Maxim FG NV RAM'' ''/d/regmap/4-000b/registers'',
      FileSec ''PM670 PON registers'' (''/d/c440000.qcom,spmi:qcom,pm660@0:qcom,power-on@800/pmic_pon_dump''),
      FileSec ''PM670A PON registers'' (''/d/c440000.qcom,spmi:qcom,pm660l@2:qcom,power-on@800/pmic_pon_dump''),
      CmdSec ''QCOM FG SRAM''
        [''/vendor/bin/sh'', ''-c'',
         ''echo 0 > /d/fg/sram/address ; echo 500 > /d/fg/sram/count ; cat '' @
           ''/d/fg/sram/data''] None,
      CmdSec ''eSIM Status''
        [''/vendor/bin/sh'', ''-c'',
         ''od -t x1 /sys/firmware/devicetree/base/chosen/cdt/cdb2/esim''] None,
      FileSec ''Modem Stat'' ''/data/vendor/modem_stat/debug.txt'',
      FileSec ''Pixel trace'' ''/d/tracing/instances/pixel-trace/trace'',
      CmdSec ''TEMP-DEFEND Config''
        [''/vendor/bin/sh'', ''-c'',
         '' cd /sys/devices/platform/soc/soc:google,charger; for f in `ls bd_*` ; do '' @
           ''echo \"$f: `cat $f`\" ; done''] None,
      CmdSec ''DWELL-DEFEND Config''
        [''/vendor/bin/sh'', ''-c'',
         '' cd /sys/devices/platform/soc/soc:google,charger; for f in `ls charge_s*` ; '' @
           ''do echo \"$f: `cat $f`\" ; done''] None,
      CmdSec ''Citadel VERSION''
        [''/vendor/bin/hw/citadel_updater'', ''-lv''] None,
      CmdSec ''Citadel STATS''
        [''/vendor/bin/hw/citadel_updater'', ''--stats''] None,
      CmdSec ''Citadel BOARDID''
        [''/vendor/bin/hw/citadel_updater'', ''--board_id''] None,
      FileSec ''WLAN DP Trace'' ''/d/wlan/dpt_stats/dump_set_dpt_logs'',
      FileSec ''WLAN FW Log Symbol Table'' ''/vendor/firmware/Data.msc'',
      FileSec ''Fastrpc dma buffer'' ''/sys/kernel/fastrpc/total_dma_kb'']"

section \<open>Parts that look before they dump\<close>

definition DumpF2FS :: "dump_env \<Rightarrow> int \<Rightarrow> dump \<Rightarrow> dump" where
  "DumpF2FS E fd s = dump_sections E fd DumpF2FS_secs s"

definition DumpPower :: "dump_env \<Rightarrow> int \<Rightarrow> dump \<Rightarrow> dump" where
  "DumpPower E fd s = dump_sections E fd DumpPower_secs s"

definition DumpIPCTRT :: "dump_env \<Rightarrow> int \<Rightarrow> dump \<Rightarrow> dump" where
  "DumpIPCTRT E fd s = dump_sections E fd DumpIPCTRT_secs s"

definition DumpeMMC :: "dump_env \<Rightarrow> int \<Rightarrow> dump \<Rightarrow> dump" where
  "DumpeMMC E fd s =
     (case get_prop E EMMC_BOOTDEVICE '''' (dump_sections E fd DumpeMMC_secs s) of
        (bootdev, s1) \<Rightarrow>
          if bootdev \<noteq> '''' then dump_sections E fd (DumpeMMC_boot bootdev) s1 else s1)"

text \<open>\<open>if (!access(path, R\_OK))\<close>.\<close>

definition if_readable :: "dump_env \<Rightarrow> int \<Rightarrow> string \<Rightarrow> dump_item list \<Rightarrow> dump \<Rightarrow> dump" where
  "if_readable E fd path secs s =
     (case access_file E path s of (ok, s1) \<Rightarrow> if ok then dump_sections E fd secs s1 else s1)"

definition touch_path :: string where
  "touch_path = ''/sys/devices/platform/soc/a84000.i2c/i2c-2/2-0020/input/input2/''"

definition touch_secs :: "dump_item list" where
  "touch_secs = touch_start touch_path @ concat (replicate 5 (touch_round touch_path)) @
     touch_end touch_path"

definition DumpTouch :: "dump_env \<Rightarrow> int \<Rightarrow> dump \<Rightarrow> dump" where
  "DumpTouch E fd s = if_readable E fd touch_path touch_secs s"

definition logPath :: string where "logPath = ''/data/vendor/sensors/log/sensor_log.txt''"
definition lastlogPath :: string where
  "lastlogPath = ''/data/vendor/sensors/log/sensor_lastlog.txt''"

definition DumpSensorLog :: "dump_env \<Rightarrow> int \<Rightarrow> dump \<Rightarrow> dump" where
  "DumpSensorLog E fd s =
     if_readable E fd lastlogPath [FileSec ''sensor lastlog'' lastlogPath]
       (if_readable E fd logPath [FileSec ''sensor log'' logPath] s)"

section \<open>The handlers\<close>

datatype DumpstateStatus = D_OK | ILLEGAL_ARGUMENT | UNSUPPORTED_MODE

definition setVerboseLoggingEnabled :: "bool \<Rightarrow> dump \<Rightarrow> dump" where
  "setVerboseLoggingEnabled enable s =
     set_prop VENDOR_VERBOSE_LOGGING_ENABLED_PROPERTY (if enable then ''true'' else ''false'') s"

definition getVerboseLoggingEnabled :: "dump_env \<Rightarrow> (dump, bool) st" where
  "getVerboseLoggingEnabled E = GetBoolProperty E VENDOR_VERBOSE_LOGGING_ENABLED_PROPERTY False"

text \<open>The report between the creation of the modem thread and the wait for its end.\<close>

definition board_report :: "dump_env \<Rightarrow> int \<Rightarrow> (dump \<Rightarrow> dump) list" where
  "board_report E fd =
     [dump_sections E fd board_start,
      (\<lambda>s. if \<not> d_user E then dump_sections E fd perf_stats s else s),
      DumpF2FS E fd, DumpeMMC E fd, DumpSensorLog E fd, dump_sections E fd interrupts,
      DumpPower E fd, dump_sections E fd board_middle, DumpIPCTRT E fd, DumpTouch E fd,
      dump_sections E fd board_end]"

definition run_parts :: "(dump \<Rightarrow> dump) list \<Rightarrow> dump \<Rightarrow> dump" where
  "run_parts parts s = fold (\<lambda>part. part) parts s"

text \<open>
  The interface's modes are a parameter: the numbers of all modes, that of \<open>WEAR\<close> and that
  of \<open>DEFAULT\<close>. A handle is the list of its descriptors, or null. The modem thread runs
  somewhere between the parts of the report: \<open>before\<close> of them are done when it does.
\<close>

record modes =
  all_modes :: "int list"
  WEAR :: int
  DEFAULT :: int

definition start_modem :: "dump_env \<Rightarrow> int list \<Rightarrow> (dump, bool) st" where
  "start_modem E fds s =
     (case getVerboseLoggingEnabled E s of
        (False, s1) \<Rightarrow> (False, s1)
      | (True, s1) \<Rightarrow>
          if length fds < 2 then (False, s1)
          else (case sys E ''pthread_create'' s1 of (r, s2) \<Rightarrow> (r = 0, s2)))"

definition dumpstateBoard_1_1 ::
    "dump_env \<Rightarrow> modes \<Rightarrow> nat \<Rightarrow> int list option \<Rightarrow> int \<Rightarrow> (dump, DumpstateStatus) st" where
  "dumpstateBoard_1_1 E M before handle mode s =
     (case handle of
        None \<Rightarrow> (ILLEGAL_ARGUMENT, s)
      | Some [] \<Rightarrow> (ILLEGAL_ARGUMENT, s)
      | Some (fd # fds) \<Rightarrow>
          if fd < 0 then (ILLEGAL_ARGUMENT, s)
          else if mode \<notin> set (all_modes M) then (ILLEGAL_ARGUMENT, s)
          else if mode = WEAR M then (UNSUPPORTED_MODE, s)
          else
            (case start_modem E (fd # fds) (dump_sections E fd notify_modem s) of
               (started, s1) \<Rightarrow>
                 (let parts = board_report E fd;
                      thread = (if started then [dumpModemThread E] else [])
                  in (D_OK, run_parts (take before parts @ thread @ drop before parts) s1))))"

text \<open>The older method ignores the status.\<close>

definition dumpstateBoard :: "dump_env \<Rightarrow> modes \<Rightarrow> nat \<Rightarrow> int list option \<Rightarrow> dump \<Rightarrow> dump" where
  "dumpstateBoard E M before handle s = snd (dumpstateBoard_1_1 E M before handle (DEFAULT M) s)"

text \<open>The main function: -1 if the service cannot be registered, else it serves for ever.\<close>

definition dumpstate_main :: "dump_env \<Rightarrow> (dump, int option) st" where
  "dumpstate_main E s =
     (case sys E ''registerAsService'' s of
        (status, s1) \<Rightarrow> (if status \<noteq> 0 then Some (-1) else None, s1))"

end
