(* ===== verification/DumpstateCorrect.thy ===== *)
theory DumpstateCorrect
  imports DumpstateBoard
begin

text \<open>
  What the dumpstate HAL promises: the archive of a directory reads back as its files and
  reaches the modem's descriptor unchanged; the newest logs are the ones that are copied;
  the loggers that are stopped are started again; requests that are not valid do nothing;
  and the report has its sections once each, in order.
\<close>

section \<open>A file system that works\<close>

text \<open>No \<open>open\<close> fails, writes are complete, reads deliver the file, \<open>fstat\<close> tells its length.\<close>

definition disk_ok :: "dump_env \<Rightarrow> bool" where
  "disk_ok E \<longleftrightarrow> (\<forall>h x. e_sys E h x \<ge> 0) \<and> (\<forall>h b. d_write E h b = int (length b)) \<and>
     (\<forall>h p c. concat (d_chunks E h p c) = c) \<and> (\<forall>h p c. d_size E h p c = int (length c))"

lemma disk_okD:
  assumes "disk_ok E"
  shows "\<not> e_sys E h x < 0" "d_write E h b = int (length b)" "concat (d_chunks E h p c) = c"
    "d_size E h p c = int (length c)"
  using assms by (auto simp: disk_ok_def not_less)

text \<open>Two states that agree on everything but the history and one file.\<close>

definition wrote :: "dump \<Rightarrow> string \<Rightarrow> string \<Rightarrow> dump \<Rightarrow> bool" where
  "wrote s path content t \<longleftrightarrow>
     files t = (files s)(path \<mapsto> content) \<and> modem_out t = modem_out s \<and>
     puts (hist t) = puts (hist s) \<and> notified (hist t) = notified (hist s)"

lemma wrote_trans: "wrote s p c t \<Longrightarrow> wrote t p d u \<Longrightarrow> wrote s p d u"
  by (simp add: wrote_def)

lemma overwrite_end: "overwrite (length old) bytes old = old @ bytes"
  by (simp add: overwrite_def)

lemma write_fd_ok:
  assumes "disk_ok E" and "files s path = Some old" and "pos = length old"
  obtains t where "wrote s path (old @ bytes) t"
    "write_fd E path pos bytes s = ((int (length bytes), pos + length bytes), t)"
proof (cases "bytes = []")
  case True
  let ?t = "snd (write_fd E path pos bytes s)"
  have "wrote s path (old @ bytes) ?t"
    using True assms(2) by (auto simp: write_fd_def os_simps disk_okD [OF assms(1)] wrote_def)
  then show ?thesis
    by (rule that) (simp add: True write_fd_def os_simps disk_okD [OF assms(1)])
next
  case False
  then have pos: "\<not> int (length bytes) \<le> 0" by simp
  let ?t = "snd (write_fd E path pos bytes s)"
  have "wrote s path (old @ bytes) ?t"
    using pos assms(2,3)
    by (simp add: write_fd_def os_simps disk_okD [OF assms(1)] wrote_def overwrite_end)
  then show ?thesis
    by (rule that) (use pos in \<open>simp add: write_fd_def os_simps disk_okD [OF assms(1)]\<close>)
qed

lemma write_all_ok:
  assumes "disk_ok E" and "files s path = Some old" and "pos = length old"
  shows "\<exists>t. wrote s path (old @ concat bufs) t \<and>
    write_all E path pos bufs s = (length (old @ concat bufs), t)"
  using assms(2,3)
proof (induction bufs arbitrary: s old pos)
  case Nil
  then show ?case by (auto simp: wrote_def)
next
  case (Cons b bufs)
  obtain t where t: "wrote s path (old @ b) t"
    "write_fd E path pos b s = ((int (length b), pos + length b), t)"
    by (rule write_fd_ok [OF assms(1) Cons(2,3)])
  then have "files t path = Some (old @ b)" by (simp add: wrote_def)
  moreover have "pos + length b = length (old @ b)" using Cons(3) by simp
  ultimately obtain u where "wrote t path ((old @ b) @ concat bufs) u"
    "write_all E path (pos + length b) bufs t = (length ((old @ b) @ concat bufs), u)"
    using Cons(1) by blast
  then show ?case using t wrote_trans by (fastforce intro!: exI [of _ u])
qed

lemma open_read_ok:
  assumes "disk_ok E"
  obtains t where "open_read E path s = (files s path, t)" "files t = files s"
    "modem_out t = modem_out s" "puts (hist t) = puts (hist s)" "notified (hist t) = notified (hist s)"
  using assms by (auto simp: open_read_def os_simps disk_okD)

lemma open_write_ok:
  assumes "disk_ok E"
  obtains t where "open_write E path s = (True, t)"
    "wrote s path (case files s path of None \<Rightarrow> '''' | Some c \<Rightarrow> c) t"
  using assms by (auto simp: open_write_def os_simps disk_okD wrote_def)

text \<open>Writing over the contents of a file from its start: what is longer keeps its tail.\<close>

lemma write_all_over:
  assumes "disk_ok E" and "files s path = Some (new @ rest)" and "pos = length new"
  shows "\<exists>t. wrote s path (new @ concat bufs @ drop (length (concat bufs)) rest) t \<and>
    snd (write_all E path pos bufs s) = t"
  using assms(2,3)
proof (induction bufs arbitrary: s new rest pos)
  case Nil
  then show ?case by (auto simp: wrote_def)
next
  case (Cons b bufs)
  obtain t where step: "write_fd E path pos b s = ((int (length b), pos + length b), t)"
    "wrote s path ((new @ b) @ drop (length b) rest) t"
  proof
    show "write_fd E path pos b s =
        ((int (length b), pos + length b), snd (write_fd E path pos b s))"
      "wrote s path ((new @ b) @ drop (length b) rest) (snd (write_fd E path pos b s))"
      using Cons(2,3)
      by (cases "b = []"; simp add: write_fd_def os_simps disk_okD [OF assms(1)] wrote_def
          overwrite_def fun_upd_idem)+
  qed
  then have "files t path = Some ((new @ b) @ drop (length b) rest)" by (simp add: wrote_def)
  moreover have "pos + length b = length (new @ b)" using Cons(3) by simp
  ultimately obtain u where "wrote t path ((new @ b) @ concat bufs @
      drop (length (concat bufs)) (drop (length b) rest)) u"
    "snd (write_all E path (pos + length b) bufs t) = u"
    using Cons(1) by blast
  then show ?case using step wrote_trans [OF step(2)]
    by (auto simp: add.commute intro!: exI [of _ u])
qed

definition copied_over :: "string \<Rightarrow> string option \<Rightarrow> string" where
  "copied_over new old = new @ drop (length new) (case old of None \<Rightarrow> '''' | Some c \<Rightarrow> c)"

lemma copyFile_ok:
  assumes "disk_ok E" and "src \<noteq> dst"
  shows "files (copyFile E src dst s) =
    (case files s src of None \<Rightarrow> files s
     | Some c \<Rightarrow> (files s)(dst \<mapsto> copied_over c (files s dst)))"
proof -
  obtain t where t: "open_read E src s = (files s src, t)" "files t = files s"
    by (rule open_read_ok [OF assms(1)])
  show ?thesis
  proof (cases "files s src")
    case None
    then show ?thesis using t by (simp add: copyFile_def)
  next
    case (Some c)
    obtain u where u: "open_write E dst t = (True, u)"
      "wrote t dst (case files t dst of None \<Rightarrow> '''' | Some c \<Rightarrow> c) u"
      by (rule open_write_ok [OF assms(1)])
    then have f: "files u dst = Some ('''' @ (case files s dst of None \<Rightarrow> '''' | Some c \<Rightarrow> c))"
      using t(2) by (simp add: wrote_def)
    obtain v where "wrote u dst ('''' @ concat (d_chunks E (hist u) src c) @
        drop (length (concat (d_chunks E (hist u) src c)))
          (case files s dst of None \<Rightarrow> '''' | Some c \<Rightarrow> c)) v"
      "snd (write_all E dst 0 (d_chunks E (hist u) src c) u) = v"
      using write_all_over [OF assms(1) f] by auto
    then show ?thesis
      using Some t u disk_okD(3) [OF assms(1)]
      by (simp add: copyFile_def wrote_def copied_over_def)
  qed
qed

text \<open>
  Without truncation, copying onto a longer file leaves its tail: the copy of a shorter log
  over an older one is neither of them.
\<close>

lemma copy_keeps_old_tail:
  assumes "disk_ok E" and "files s src = Some new" and "files s dst = Some old"
    and "src \<noteq> dst" and "d_chunks E = (\<lambda>h p c. [c])" and "new \<noteq> []"
  shows "files (copyFile E src dst s) dst = Some (new @ drop (length new) old)"
  using assms disk_okD [OF assms(1)]
  by (simp add: copyFile_def open_read_def open_write_def write_fd_def os_simps overwrite_def)

section \<open>The archive\<close>

lemma tar_pad: "(512 - (512 * k + n) mod 512) mod 512 = padding n"
  by (simp add: padding_def)

lemma header_length: "file_fits (name, c) \<Longrightarrow> length (tarHeader name (int (length c))) = 512"
  using header_facts(1) [of name "int (length c)"]
  by (simp add: file_fits_def flip: of_nat_less_iff)

lemma pad_fills: "(n + padding n) mod 512 = 0"
proof (cases "n mod 512 = 0")
  case True
  then show ?thesis by (simp add: padding_def)
next
  case False
  define q r where "q = n div 512" and "r = n mod 512"
  have "n = 512 * q + r" "r < 512" by (simp_all add: q_def r_def)
  moreover have "padding n = 512 - r" using False by (simp add: padding_def r_def)
  ultimately have "n + padding n = 512 * (q + 1)" by simp
  then show ?thesis by (metis mod_mult_self1_is_0)
qed

lemma tar_entry_length: "file_fits f \<Longrightarrow> length (tar_entry f) mod 512 = 0"
proof -
  assume "file_fits f"
  then have "length (tar_entry f) = 512 + (length (snd f) + padding (length (snd f)))"
    using header_length [of "fst f" "snd f"] by (simp add: tar_entry_def)
  moreover have "(n + padding n) mod 512 = 0" for n
    by (rule pad_fills)
  ultimately show ?thesis by simp
qed

lemma tar_file_ok:
  assumes "disk_ok E" and "files s tar = Some old" and "length old mod 512 = 0"
    and "files s (dir @ ''/'' @ name) = Some c" and "file_fits (name, c)"
  shows "\<exists>t. wrote s tar (old @ tar_entry (name, c)) t \<and>
    tar_file E tar dir name (length old, length old) s =
      ((length (old @ tar_entry (name, c)), length (old @ tar_entry (name, c))), t)"
proof -
  let ?h = "tarHeader name (int (length c))"
  have len: "length ?h = 512" by (rule header_length [OF assms(5)])
  obtain s1 where s1: "open_read E (dir @ ''/'' @ name) s = (Some c, s1)" "files s1 = files s"
      "modem_out s1 = modem_out s" "puts (hist s1) = puts (hist s)"
      "notified (hist s1) = notified (hist s)"
    by (rule open_read_ok [OF assms(1), of "dir @ ''/'' @ name" s]) (use assms(4) in simp)
  have f1: "files s1 tar = Some old" using s1(2) assms(2) by simp
  obtain s2 where s2: "wrote s1 tar (old @ ?h) s2"
    "write_fd E tar (length old) ?h s1 = ((int (length ?h), length old + length ?h), s2)"
    by (rule write_fd_ok [OF assms(1) f1 refl])
  let ?bufs = "d_chunks E (hist s2) (dir @ ''/'' @ name) c"
  have f2: "files s2 tar = Some (old @ ?h)" using s2(1) by (simp add: wrote_def)
  obtain s3 where s3: "wrote s2 tar ((old @ ?h) @ concat ?bufs) s3"
    "write_all E tar (length (old @ ?h)) ?bufs s2 = (length ((old @ ?h) @ concat ?bufs), s3)"
    using write_all_ok [OF assms(1) f2 refl] by blast
  have bufs: "concat ?bufs = c" by (rule disk_okD(3) [OF assms(1)])
  then have total: "sum_list (map length ?bufs) = length c" by (metis length_concat)
  have f3: "files s3 tar = Some ((old @ ?h) @ c)" using s3(1) bufs by (simp add: wrote_def)
  let ?pad = "replicate (padding (length c)) [NULL]"
  obtain s4 where s4: "wrote s3 tar (((old @ ?h) @ c) @ concat ?pad) s4"
    "write_all E tar (length ((old @ ?h) @ c)) ?pad s3 =
      (length (((old @ ?h) @ c) @ concat ?pad), s4)"
    using write_all_ok [OF assms(1) f3 refl] by blast
  have pad: "concat ?pad = replicate (padding (length c)) NULL"
    by (induction "padding (length c)") (simp_all add: concat_replicate_trivial replicate_add)
  obtain k where k: "length old = 512 * k" using assms(3) by auto
  have count: "(512 - (length old + 512 + length c) mod 512) mod 512 = padding (length c)"
    using tar_pad [of "Suc k" "length c"] by (simp add: k add.commute)
  have "tar_file E tar dir name (length old, length old) s =
      ((length (old @ tar_entry (name, c)), length (old @ tar_entry (name, c))), s4)"
    using s1(1) s2(2) s3(2) s4(2) len bufs pad total count disk_okD(4) [OF assms(1)]
    by (simp add: tar_file_def Let_def blockSize_def tar_entry_def)
  moreover have "wrote s tar (old @ tar_entry (name, c)) s4"
    using s1(2-5) s2(1) s3(1) s4(1) pad bufs
    by (simp add: wrote_def tar_entry_def)
  ultimately show ?thesis by blast
qed

text \<open>The files of a directory that go into the archive.\<close>

definition archived :: "files \<Rightarrow> string \<Rightarrow> string list \<Rightarrow> (string \<times> string) list" where
  "archived fs dir names = List.map_filter (\<lambda>n. map_option (Pair n) (fs (dir @ ''/'' @ n)))
     (filter (\<lambda>n. take 1 n \<noteq> ''.'') names)"

lemma archived_Cons:
  "archived fs dir (n # ns) =
     (if take 1 n = ''.'' then archived fs dir ns
      else case fs (dir @ ''/'' @ n) of None \<Rightarrow> archived fs dir ns
           | Some c \<Rightarrow> (n, c) # archived fs dir ns)"
  by (simp add: archived_def List.map_filter_def split: option.splits)

lemma archived_cong:
  "(\<And>n. n \<in> set names \<Longrightarrow> fs (dir @ ''/'' @ n) = gs (dir @ ''/'' @ n)) \<Longrightarrow>
   archived fs dir names = archived gs dir names"
  by (induction names) (simp_all add: archived_Cons archived_def List.map_filter_def)

lemma tar_loop_ok:
  assumes "disk_ok E" and "files s tar = Some old" and "length old mod 512 = 0"
    and "list_all file_fits (archived (files s) dir names)"
    and "\<And>n. n \<in> set names \<Longrightarrow> dir @ ''/'' @ n \<noteq> tar"
  shows "\<exists>t. wrote s tar (old @ concat (map tar_entry (archived (files s) dir names))) t \<and>
    snd (tar_loop E tar dir names (length old, length old) s) = t"
  using assms(2-)
proof (induction names arbitrary: s old)
  case Nil
  then show ?case by (auto simp: wrote_def archived_def List.map_filter_def)
next
  case (Cons n names)
  let ?p = "dir @ ''/'' @ n"
  show ?case
  proof (cases "take 1 n = ''.''")
    case True
    then show ?thesis using Cons by (simp add: archived_Cons)
  next
    case visible: False
    show ?thesis
    proof (cases "files s ?p")
      case None
      obtain t where t: "open_read E ?p s = (files s ?p, t)" "files t = files s"
          "modem_out t = modem_out s" "puts (hist t) = puts (hist s)"
          "notified (hist t) = notified (hist s)"
        by (rule open_read_ok [OF assms(1)])
      then have skip: "tar_file E tar dir n (length old, length old) s = ((length old, length old), t)"
        using None by (simp add: tar_file_def Let_def)
      have "\<exists>u. wrote t tar (old @ concat (map tar_entry (archived (files t) dir names))) u \<and>
          snd (tar_loop E tar dir names (length old, length old) t) = u"
        by (rule Cons(1)) (use Cons(2-5) None visible t(2) in \<open>simp_all add: archived_Cons\<close>)
      then show ?thesis
        using skip visible None t by (simp add: archived_Cons wrote_def)
    next
      case (Some c)
      have fits: "file_fits (n, c)" using Cons(4) Some visible by (simp add: archived_Cons)
      obtain t where t: "wrote s tar (old @ tar_entry (n, c)) t"
        "tar_file E tar dir n (length old, length old) s =
          ((length (old @ tar_entry (n, c)), length (old @ tar_entry (n, c))), t)"
        using tar_file_ok [OF assms(1) Cons(2,3) Some fits] by blast
      have same: "archived (files t) dir names = archived (files s) dir names"
        by (rule archived_cong) (use t(1) Cons(5) in \<open>auto simp: wrote_def\<close>)
      have "\<exists>u. wrote t tar ((old @ tar_entry (n, c)) @
            concat (map tar_entry (archived (files t) dir names))) u \<and>
          snd (tar_loop E tar dir names (length (old @ tar_entry (n, c)),
            length (old @ tar_entry (n, c))) t) = u"
      proof (rule Cons(1))
        show "files t tar = Some (old @ tar_entry (n, c))" using t(1) by (simp add: wrote_def)
        show "length (old @ tar_entry (n, c)) mod 512 = 0"
          using Cons(3) tar_entry_length [OF fits] by (simp add: mod_add_eq [symmetric])
        show "list_all file_fits (archived (files t) dir names)"
          using Cons(4) Some visible by (simp add: same archived_Cons)
      qed (use Cons(5) in simp)
      then show ?thesis
        using t visible Some same wrote_trans [OF t(1)] by (auto simp: archived_Cons)
    qed
  qed
qed

lemma createTarFile_ok:
  assumes "disk_ok E" and "\<And>h. e_opendir E h dir = Some entries"
    and "files s tar = None" and "list_all file_fits (archived (files s) dir (map fst entries))"
    and "\<And>n. n \<in> fst ` set entries \<Longrightarrow> dir @ ''/'' @ n \<noteq> tar"
  shows "wrote s tar (concat (map tar_entry (archived (files s) dir (map fst entries))))
    (createTarFile E tar dir s)"
proof -
  let ?s1 = "s\<lparr>hist := Opened dir True # hist s\<rparr>"
  have s1: "open_dir E dir s = (Some entries, ?s1)" using assms(2) by (simp add: os_simps)
  obtain s2 where s2: "open_write E tar ?s1 = (True, s2)"
    "wrote ?s1 tar (case files ?s1 tar of None \<Rightarrow> '''' | Some c \<Rightarrow> c) s2"
    by (rule open_write_ok [OF assms(1)])
  then have w: "wrote s tar '''' s2" using assms(3) by (simp add: wrote_def)
  have same: "archived (files s2) dir (map fst entries) = archived (files s) dir (map fst entries)"
    by (rule archived_cong) (use w assms(5) in \<open>auto simp: wrote_def\<close>)
  have "files s2 tar = Some ''''" using w by (simp add: wrote_def)
  from tar_loop_ok [OF assms(1) this, of dir "map fst entries"] assms(4,5)
  obtain t where "wrote s2 tar (concat (map tar_entry (archived (files s) dir (map fst entries)))) t"
    "snd (tar_loop E tar dir (map fst entries) (0, 0) s2) = t"
    by (auto simp: same)
  then show ?thesis
    using s1 s2(1) wrote_trans [OF w] by (simp add: createTarFile_def)
qed

lemma stream_ok:
  assumes "disk_ok E"
  shows "modem_out (stream_loop E bufs s) = modem_out s @ concat bufs"
  by (induction bufs arbitrary: s) (simp_all add: os_simps disk_okD [OF assms])

section \<open>Choosing logs\<close>

text \<open>The names that are copied: of those with the pre, the last ones in the sorted order.\<close>

definition newest :: "int \<Rightarrow> string \<Rightarrow> string list \<Rightarrow> string list" where
  "newest n pre entries =
     (let found = filter (\<lambda>e. strncmp_prefix e pre) (rev entries)
      in take (if n = -1 then length found else nat n) found)"

definition copy_into :: "dump_env \<Rightarrow> string \<Rightarrow> string \<Rightarrow> string \<Rightarrow> dump \<Rightarrow> dump" where
  "copy_into E src dst name = copyFile E (src @ ''/'' @ name) (dst @ ''/'' @ name)"

lemma log_loop_spec:
  assumes "0 \<le> copied"
  shows "log_loop E src dst n pre copied ds s =
    fold (copy_into E src dst)
      (let found = filter (\<lambda>e. strncmp_prefix e pre) ds
       in take (if n = -1 then length found else nat (n - copied)) found) s"
  using assms
proof (induction ds arbitrary: copied s)
  case Nil
  then show ?case by simp
next
  case (Cons d ds)
  show ?case
  proof (cases "strncmp_prefix d pre \<and> (n = -1 \<or> copied < n)")
    case True
    have step: "log_loop E src dst n pre copied (d # ds) s =
        log_loop E src dst n pre (copied + 1) ds (copy_into E src dst d s)"
      using True by (auto simp: copy_into_def)
    show ?thesis
    proof (cases "n = -1")
      case True
      then show ?thesis
        using step Cons(1) [of "copied + 1" "copy_into E src dst d s"] Cons(2)
          \<open>strncmp_prefix d pre \<and> (n = -1 \<or> copied < n)\<close>
        by (simp add: Let_def)
    next
      case False
      then have "nat (n - copied) = Suc (nat (n - (copied + 1)))" using True by arith
      then show ?thesis
        using step Cons(1) [of "copied + 1" "copy_into E src dst d s"] Cons(2) False True
        by (simp add: Let_def)
    qed
  next
    case False
    then show ?thesis using Cons by (auto simp: Let_def)
  qed
qed

lemma dumpLogs_newest:
  "d_scandir E (hist s) src = Some entries \<Longrightarrow>
   dumpLogs E src dst n pre s = fold (copy_into E src dst) (newest n pre entries) s"
  by (simp add: dumpLogs_def log_loop_spec newest_def Let_def)

lemma copies_files:
  assumes "disk_ok E" and "distinct names"
    and "\<And>m k. m \<in> set names \<Longrightarrow> k \<in> set names \<Longrightarrow> src @ ''/'' @ m \<noteq> dst @ ''/'' @ k"
  shows "files (fold (copy_into E src dst) names s) p =
    (if \<exists>m \<in> set names. p = dst @ ''/'' @ m
     then (case files s (src @ ''/'' @ drop (length dst + 1) p) of None \<Rightarrow> files s p
           | Some c \<Rightarrow> Some (copied_over c (files s p)))
     else files s p)"
  using assms(2-)
proof (induction names arbitrary: s)
  case Nil
  then show ?case by simp
next
  case (Cons m names)
  let ?t = "copy_into E src dst m s"
  have t: "files ?t = (case files s (src @ ''/'' @ m) of None \<Rightarrow> files s
      | Some c \<Rightarrow> (files s)(dst @ ''/'' @ m \<mapsto> copied_over c (files s (dst @ ''/'' @ m))))"
    unfolding copy_into_def by (rule copyFile_ok [OF assms(1)]) (use Cons(3) [of m m] in simp)
  have other: "files ?t q = files s q" if "q \<noteq> dst @ ''/'' @ m" for q
    using that by (simp add: t split: option.splits)
  have this_one: "files ?t (dst @ ''/'' @ m) = (case files s (src @ ''/'' @ m) of
      None \<Rightarrow> files s (dst @ ''/'' @ m)
    | Some c \<Rightarrow> Some (copied_over c (files s (dst @ ''/'' @ m))))"
    by (simp add: t split: option.splits)
  have src: "files ?t (src @ ''/'' @ k) = files s (src @ ''/'' @ k)" if "k \<in> set (m # names)" for k
    using other Cons(3) that by simp
  have "files (fold (copy_into E src dst) names ?t) p =
    (if \<exists>k \<in> set names. p = dst @ ''/'' @ k
     then (case files ?t (src @ ''/'' @ drop (length dst + 1) p) of None \<Rightarrow> files ?t p
           | Some c \<Rightarrow> Some (copied_over c (files ?t p)))
     else files ?t p)"
    by (rule Cons(1)) (use Cons(2,3) in auto)
  note rest = this
  show ?case
  proof (cases "p = dst @ ''/'' @ m")
    case True
    then have "\<not> (\<exists>k \<in> set names. p = dst @ ''/'' @ k)" using Cons(2) by auto
    then have "files (fold (copy_into E src dst) (m # names) s) p = files ?t (dst @ ''/'' @ m)"
      using rest True by simp
    then show ?thesis using True by (simp only: this_one) simp
  next
    case False
    show ?thesis
    proof (cases "\<exists>k \<in> set names. p = dst @ ''/'' @ k")
      case True
      then obtain k where k: "k \<in> set names" "p = dst @ ''/'' @ k" by blast
      then have "src @ ''/'' @ drop (length dst + 1) p = src @ ''/'' @ k" by simp
      with rest True have "files (fold (copy_into E src dst) (m # names) s) p =
          (case files s (src @ ''/'' @ k) of None \<Rightarrow> files s p
           | Some c \<Rightarrow> Some (copied_over c (files s p)))"
        using src [of k] k(1) by (simp only: other [OF False]) simp
      then show ?thesis using True k by auto
    next
      case none: False
      then show ?thesis using rest other [OF False] False by simp
    qed
  qed
qed

section \<open>What leaves no trace in properties and calls\<close>

text \<open>The properties that decide about the switches, and what was read of them, newest first.\<close>

definition switch_keys :: "string set" where
  "switch_keys = {MODEM_LOG_LOC_PROPERTY, MODEM_LOG_PREFIX_PROPERTY,
     DIAG_MDLOG_PERSIST_PROPERTY, DIAG_MDLOG_STATUS_PROPERTY}"

definition switch_reads :: "dump_call event list \<Rightarrow> (string \<times> string) list" where
  "switch_reads h = filter (\<lambda>(k, v). k \<in> switch_keys) (gots h)"

lemmas switch_key_defs = switch_keys_def MODEM_LOG_LOC_PROPERTY_def MODEM_LOG_PREFIX_PROPERTY_def
  DIAG_MDLOG_PERSIST_PROPERTY_def DIAG_MDLOG_STATUS_PROPERTY_def

lemma other_keys [simp]:
  "DIAG_MDLOG_NUMBER_BUGREPORT \<notin> switch_keys" "TCPDUMP_NUMBER_BUGREPORT \<notin> switch_keys"
  "TCPDUMP_PERSIST_PROPERTY \<notin> switch_keys" "EMMC_BOOTDEVICE \<notin> switch_keys"
  "VENDOR_VERBOSE_LOGGING_ENABLED_PROPERTY \<notin> switch_keys"
  by (simp_all add: switch_key_defs DIAG_MDLOG_NUMBER_BUGREPORT_def TCPDUMP_NUMBER_BUGREPORT_def
      TCPDUMP_PERSIST_PROPERTY_def EMMC_BOOTDEVICE_def VENDOR_VERBOSE_LOGGING_ENABLED_PROPERTY_def)

definition obs ::
    "dump \<Rightarrow> ((string \<times> string) list \<times> (string \<times> string) list) \<times> dump_call list" where
  "obs s = ((puts (hist s), switch_reads (hist s)), notified (hist s))"

lemma obs_os [simp]:
  "obs (snd (sys E x s)) = obs s" "k \<notin> switch_keys \<Longrightarrow> obs (snd (get_prop E k d s)) = obs s"
  "obs (snd (open_dir E p s)) = obs s" "obs (snd (access_file E p s)) = obs s"
  "obs (s\<lparr>files := fs\<rparr>) = obs s" "obs (s\<lparr>modem_out := out\<rparr>) = obs s" "obs (usleep n s) = obs s"
  by (simp_all add: obs_def os_simps switch_reads_def)

lemma switch_keys_in:
  "MODEM_LOG_LOC_PROPERTY \<in> switch_keys" "MODEM_LOG_PREFIX_PROPERTY \<in> switch_keys"
  "DIAG_MDLOG_PERSIST_PROPERTY \<in> switch_keys" "DIAG_MDLOG_STATUS_PROPERTY \<in> switch_keys"
  by (simp_all add: switch_keys_def)

lemma obs_read:
  assumes "get_prop E k d s = (v, t)"
  shows "k \<in> switch_keys \<Longrightarrow> obs t = ((fst (fst (obs s)), (k, v) # snd (fst (obs s))), snd (obs s))"
  using assms by (auto simp: obs_def os_simps switch_reads_def)

lemma keeps_obs_write_fd: "keeps obs (write_fd E p pos b)"
  by (simp add: keeps_def write_fd_def os_simps obs_def switch_reads_def)

lemma keeps_obs_write_all: "keeps obs (write_all E p pos bs)"
proof (rule keepsI)
  fix s r s'
  show "write_all E p pos bs s = (r, s') \<Longrightarrow> obs s' = obs s"
    by (induction bs arbitrary: s pos)
      (auto split: prod.splits dest!: keepsD [OF keeps_obs_write_fd])
qed

lemma keeps_obs_open: "keeps obs (open_read E p)" "keeps obs (open_write E p)"
  by (simp_all add: keeps_def open_read_def open_write_def os_simps obs_def switch_reads_def)

lemma obs_copyFile [simp]: "obs (copyFile E src dst s) = obs s"
  using keeps_obs_write_all unfolding copyFile_def
  by (auto simp: keeps_def split: prod.splits option.splits bool.splits
      dest!: keepsD [OF keeps_obs_open(1)] keepsD [OF keeps_obs_open(2)])

lemma keeps_obs_tar_file: "keeps obs (tar_file E tar dir n at)"
  by (rule keepsI)
    (auto simp: tar_file_def Let_def split: prod.splits option.splits if_splits
      dest!: keepsD [OF keeps_obs_open(1)] keepsD [OF keeps_obs_write_fd]
        keepsD [OF keeps_obs_write_all])

lemma keeps_obs_tar_loop: "keeps obs (tar_loop E tar dir names at)"
proof (rule keepsI)
  fix s r s'
  show "tar_loop E tar dir names at s = (r, s') \<Longrightarrow> obs s' = obs s"
    by (induction names arbitrary: s at)
      (auto split: prod.splits if_splits dest!: keepsD [OF keeps_obs_tar_file])
qed

lemma obs_createTarFile [simp]: "obs (createTarFile E tar dir s) = obs s"
  using keeps_obs_tar_loop unfolding createTarFile_def
  by (auto simp: keeps_def split: prod.splits option.splits bool.splits
      dest!: keepsD [OF keeps_obs_open(2)])
    (metis obs_os(3) snd_conv)+

lemma obs_dumpLogs [simp]: "obs (dumpLogs E src dst n pre s) = obs s"
proof -
  have "obs (log_loop E src dst n pre c ds t) = obs t" for c ds t
    by (induction ds arbitrary: c t) simp_all
  then show ?thesis by (simp add: dumpLogs_def split: option.splits)
qed

lemma obs_stream [simp]: "obs (stream_archive E p s) = obs s"
proof -
  have "obs (stream_loop E bs t) = obs t" for bs t
    by (induction bs arbitrary: t) (simp_all add: os_simps obs_def switch_reads_def Let_def)
  then show ?thesis
    by (auto simp: stream_archive_def split: prod.splits option.splits
        dest!: keepsD [OF keeps_obs_open(1)])
qed

lemma keeps_obs_props:
  "k \<notin> switch_keys \<Longrightarrow> keeps obs (GetBoolProperty E k b)"
  "k \<notin> switch_keys \<Longrightarrow> keeps obs (GetIntProperty E k n)"
  by (simp_all add: keeps_def GetBoolProperty_def GetIntProperty_def os_simps obs_def
      switch_reads_def)

text \<open>One more property set, the reads as they were.\<close>

abbreviation put_more :: "(string \<times> string) list \<Rightarrow>
    ((string \<times> string) list \<times> (string \<times> string) list) \<times> dump_call list \<Rightarrow>
    ((string \<times> string) list \<times> (string \<times> string) list) \<times> dump_call list" where
  "put_more kvs ob \<equiv> ((kvs @ fst (fst ob), snd (fst ob)), snd ob)"

lemma obs_set_prop [simp]: "obs (set_prop k v s) = put_more [(k, v)] (obs s)"
  by (simp add: obs_def os_simps switch_reads_def)

lemma obs_RunCommand [simp]:
  "obs (RunCommand E fd t c to s) = (fst (obs s), RunCommandToFd fd t c to # snd (obs s))"
  by (simp add: obs_def RunCommand_def os_simps Let_def switch_reads_def)

lemma obs_DumpFile [simp]:
  "obs (DumpFile E fd t p s) = (fst (obs s), DumpFileToFd fd t p # snd (obs s))"
  by (simp add: obs_def DumpFile_def os_simps switch_reads_def)

lemma obs_stop_diag:
  "obs (stop_diag E en st s) =
     put_more (if en \<and> st then [(DIAG_MDLOG_PROPERTY, ''false'')] else []) (obs s)"
  by (simp add: stop_diag_def)

lemma obs_collect_diag:
  "obs (collect_diag E dir en st s) =
     put_more (if en \<and> st then [(DIAG_MDLOG_PROPERTY, ''true'')] else []) (obs s)"
  by (auto simp: collect_diag_def Let_def split: prod.splits
      dest!: keepsD [OF keeps_obs_props(2), rotated])

lemma obs_copies [simp]: "obs (fold (\<lambda>f. copyFile E f (dst f)) fs s) = obs s"
  by (induction fs arbitrary: s) simp_all

lemma obs_collect_debug:
  "obs (collect_debug E dir s) =
     put_more [(MODEM_EFS_DUMP_PROPERTY, ''false''), (MODEM_EFS_DUMP_PROPERTY, ''true'')] (obs s)"
  by (auto simp: collect_debug_def Let_def split: prod.splits
      dest!: keepsD [OF keeps_obs_props(1), rotated] keepsD [OF keeps_obs_props(2), rotated])

end
