(* ===== verification/DumpstateService.thy ===== *)
theory DumpstateService
  imports DumpstateCorrect
begin

text \<open>The properties of the dumpstate HAL, with a small file system as an instance.\<close>

section \<open>An instance\<close>

definition sample_dump_env :: dump_env where
  "sample_dump_env = \<lparr>e_write = (\<lambda>h c p. True), e_read = (\<lambda>h p. None), e_access = (\<lambda>h p. False),
     e_symlink = (\<lambda>h t l. True), e_remove = (\<lambda>h p. True),
     e_opendir = (\<lambda>h p. Some [(''.'', False), (''a'', False), (''b.txt'', False)]),
     e_sys = (\<lambda>h x. 0),
     e_prop = (\<lambda>h k d. if k = MODEM_LOG_LOC_PROPERTY then ''/logs''
        else if k = MODEM_LOG_PREFIX_PROPERTY then ''m_''
        else case map_of (puts h) k of None \<Rightarrow> d | Some v \<Rightarrow> v),
     e_clock = (\<lambda>h. 0), e_notify = (\<lambda>h n. True), e_trim = id,
     d_chunks = (\<lambda>h p c. [c]), d_write = (\<lambda>h b. int (length b)),
     d_size = (\<lambda>h p c. int (length c)), d_run = (\<lambda>h c fs. fs),
     d_scandir = (\<lambda>h p. Some [''diag_log_1'', ''diag_log_2'', ''x'']),
     d_bool = (\<lambda>v d. if v = ''true'' then True else if v = ''false'' then False else d),
     d_int = (\<lambda>v d. d), d_user = False\<rparr>"

definition sample_dump :: dump where
  "sample_dump = \<lparr>hist = [],
     files = [''/d/a'' \<mapsto> ''abc'', ''/d/b.txt'' \<mapsto> '''', ''/src/diag_log_1'' \<mapsto> ''one'',
       ''/src/diag_log_2'' \<mapsto> ''two'', ''/src/x'' \<mapsto> ''three''],
     modem_out = ''''\<rparr>"

lemma sample_disk: "disk_ok sample_dump_env"
  by (simp add: disk_ok_def sample_dump_env_def)

section \<open>The archive\<close>

text \<open>C25: On a file system that works, what the modem's descriptor receives is an archive that
  reads back as the files of the directory, in its order: every file whose name does not begin
  with a dot, under its name and with its contents, provided that names are shorter than 100
  bytes, files are smaller than 8 GiB, the archive is a new file outside the directory, the
  directory opens, and nothing was sent to the descriptor before.
  A file system that works (\<open>disk_ok\<close>) opens every file that exists, writes completely, delivers
  the contents when read, and tells their length by \<open>fstat\<close>; so the directory has files only,
  and none of them changes meanwhile. The reader (\<open>untar\<close>) checks the magic and the checksum of
  each header and takes the end of the data for the end of the archive: the blocks of zeros that
  the format has there are not written, and neither is the version of the format.\<close>

theorem archive_reads_back:
  assumes "disk_ok E" and "\<And>h. e_opendir E h dir = Some entries"
    and "files s tar = None" and "modem_out s = ''''"
    and "list_all file_fits (archived (files s) dir (map fst entries))"
    and "\<And>n. n \<in> fst ` set entries \<Longrightarrow> dir @ ''/'' @ n \<noteq> tar"
  shows "untar (modem_out (stream_archive E tar (createTarFile E tar dir s))) =
    Some (archived (files s) dir (map fst entries))"
proof -
  let ?t = "createTarFile E tar dir s"
  have t: "wrote s tar (concat (map tar_entry (archived (files s) dir (map fst entries)))) ?t"
    by (rule createTarFile_ok [OF assms(1-3,5,6)])
  obtain u where u: "open_read E tar ?t = (files ?t tar, u)" "modem_out u = modem_out ?t"
    by (rule open_read_ok [OF assms(1)])
  have "modem_out (stream_archive E tar ?t) =
      concat (map tar_entry (archived (files s) dir (map fst entries)))"
    using t u assms(4) stream_ok [OF assms(1)] disk_okD(3) [OF assms(1)]
    by (simp add: stream_archive_def wrote_def)
  then show ?thesis using untar_archive [OF assms(5)] by simp
qed

theorem archive_reads_back_witness:
  "untar (modem_out (stream_archive sample_dump_env ''/t.tar''
     (createTarFile sample_dump_env ''/t.tar'' ''/d'' sample_dump))) =
   Some [(''a'', ''abc''), (''b.txt'', '''')]"
proof -
  have a: "archived (files sample_dump) ''/d'' (map fst [(''.'', False), (''a'', False), (''b.txt'', False)])
      = [(''a'', ''abc''), (''b.txt'', '''')]"
    by (simp add: archived_Cons sample_dump_def) (simp add: archived_def List.map_filter_def)
  have "untar (modem_out (stream_archive sample_dump_env ''/t.tar''
      (createTarFile sample_dump_env ''/t.tar'' ''/d'' sample_dump))) =
    Some (archived (files sample_dump) ''/d'' (map fst [(''.'', False), (''a'', False), (''b.txt'', False)]))"
  proof (rule archive_reads_back [OF sample_disk])
    show "list_all file_fits (archived (files sample_dump) ''/d''
        (map fst [(''.'', False), (''a'', False), (''b.txt'', False)]))"
      unfolding a by (simp add: file_fits_def NULL_def)
  qed (auto simp: sample_dump_env_def, auto simp: sample_dump_def)
  then show ?thesis by (simp only: a)
qed

section \<open>Logs\<close>

text \<open>C26: On a file system that works, of the logs with the prefix exactly the last ones in the
  sorted listing, up to the limit (all of them for a limit of -1), are copied to the directory,
  and nothing else changes. A copy has the contents of the log; but if a file of that name is
  already there and longer, its old tail follows them (\<open>copied_over\<close>). A file system that works
  (\<open>disk_ok\<close>) opens every file that exists, writes completely and delivers the contents when
  read; the listing has no name twice, and no log is at the same time a destination.\<close>

theorem newest_logs_arrive:
  assumes "disk_ok E" and "d_scandir E (hist s) src = Some entries" and "distinct entries"
    and "\<And>m k. m \<in> set entries \<Longrightarrow> k \<in> set entries \<Longrightarrow> src @ ''/'' @ m \<noteq> dst @ ''/'' @ k"
  shows "files (dumpLogs E src dst n pre s) p =
    (if \<exists>m \<in> set (newest n pre entries). p = dst @ ''/'' @ m
     then (case files s (src @ ''/'' @ drop (length dst + 1) p) of None \<Rightarrow> files s p
           | Some c \<Rightarrow> Some (copied_over c (files s p)))
     else files s p)"
proof -
  have sub: "set (newest n pre entries) \<subseteq> set entries"
    using set_take_subset by (fastforce simp: newest_def Let_def)
  have dist: "distinct (newest n pre entries)"
    using assms(3) by (simp add: newest_def Let_def)
  show ?thesis
    unfolding dumpLogs_newest [of E s src, OF assms(2)]
    by (rule copies_files [OF assms(1) dist]) (use sub assms(4) in blast)+
qed

theorem newest_logs_arrive_witness:
  "files (dumpLogs sample_dump_env ''/src'' ''/out'' 1 ''diag_log_'' sample_dump)
     ''/out/diag_log_2'' = Some ''two'' \<and>
   files (dumpLogs sample_dump_env ''/src'' ''/out'' 1 ''diag_log_'' sample_dump)
     ''/out/diag_log_1'' = None"
proof -
  have n: "newest 1 ''diag_log_'' [''diag_log_1'', ''diag_log_2'', ''x''] = [''diag_log_2'']"
    by (simp add: newest_def strncmp_prefix_def)
  have r: "files (dumpLogs sample_dump_env ''/src'' ''/out'' 1 ''diag_log_'' sample_dump) p =
    (if \<exists>m \<in> set (newest 1 ''diag_log_'' [''diag_log_1'', ''diag_log_2'', ''x'']).
        p = ''/out'' @ ''/'' @ m
     then (case files sample_dump (''/src'' @ ''/'' @ drop (length ''/out'' + 1) p) of
         None \<Rightarrow> files sample_dump p
       | Some c \<Rightarrow> Some (copied_over c (files sample_dump p)))
     else files sample_dump p)" for p
    by (rule newest_logs_arrive [OF sample_disk]) (auto simp: sample_dump_env_def)
  show ?thesis unfolding r n by (simp add: sample_dump_def copied_over_def)
qed

section \<open>Switches\<close>

lemma modem_thread_obs:
  assumes s1: "get_prop E MODEM_LOG_LOC_PROPERTY '''' s = (loc, s1)"
    and s2: "get_prop E MODEM_LOG_PREFIX_PROPERTY '''' s1 = (name, s2)"
    and s3: "get_prop E DIAG_MDLOG_PERSIST_PROPERTY '''' s2 = (v3, s3)"
    and s4: "get_prop E DIAG_MDLOG_STATUS_PROPERTY '''' s3 = (v4, s4)"
    and set: "loc \<noteq> ''''" "name \<noteq> ''''"
  shows "fst (obs (dumpModemThread E s)) =
      ((if d_user E then []
        else [(MODEM_EFS_DUMP_PROPERTY, ''false''), (MODEM_EFS_DUMP_PROPERTY, ''true'')]) @
       (if d_bool E v3 False \<and> d_bool E v4 False
        then [(DIAG_MDLOG_PROPERTY, ''true''), (DIAG_MDLOG_PROPERTY, ''false'')] else []) @
       puts (hist s),
       [(DIAG_MDLOG_STATUS_PROPERTY, v4), (DIAG_MDLOG_PERSIST_PROPERTY, v3),
        (MODEM_LOG_PREFIX_PROPERTY, name), (MODEM_LOG_LOC_PROPERTY, loc)] @
       switch_reads (hist s))"
  using set obs_read [OF s1 switch_keys_in(1)] obs_read [OF s2 switch_keys_in(2)]
    obs_read [OF s3 switch_keys_in(3)] obs_read [OF s4 switch_keys_in(4)]
  by (simp add: dumpModemThread_def GetBoolProperty_def s1 s2 s3 s4 Let_def obs_stop_diag
      obs_collect_diag obs_collect_debug) (simp add: obs_def)

text \<open>C27: What the modem thread does with its switches, judged by the values \<open>r\<close> that it read
  itself (newest first). If the location or the prefix of the logs is empty it sets no property.
  Otherwise it stops the diagnostics logger and starts it again exactly if it read that the
  logger is enabled and runs, in this order, and it switches the dump of the modem file system
  on and then off exactly on builds that are not user builds, so that this switch ends as
  \<open>false\<close> whatever it was before; it sets no other property.\<close>

theorem switches_are_restored:
  "\<exists>r. switch_reads (hist (dumpModemThread E s)) = r @ switch_reads (hist s) \<and>
    puts (hist (dumpModemThread E s)) =
      (if last_read r MODEM_LOG_LOC_PROPERTY = '''' \<or> last_read r MODEM_LOG_PREFIX_PROPERTY = ''''
       then []
       else (if d_user E then []
             else [(MODEM_EFS_DUMP_PROPERTY, ''false''), (MODEM_EFS_DUMP_PROPERTY, ''true'')]) @
            (if d_bool E (last_read r DIAG_MDLOG_PERSIST_PROPERTY) False \<and>
                d_bool E (last_read r DIAG_MDLOG_STATUS_PROPERTY) False
             then [(DIAG_MDLOG_PROPERTY, ''true''), (DIAG_MDLOG_PROPERTY, ''false'')] else [])) @
      puts (hist s)"
proof -
  obtain loc s1 where s1: "get_prop E MODEM_LOG_LOC_PROPERTY '''' s = (loc, s1)" by force
  obtain name s2 where s2: "get_prop E MODEM_LOG_PREFIX_PROPERTY '''' s1 = (name, s2)" by force
  obtain v3 s3 where s3: "get_prop E DIAG_MDLOG_PERSIST_PROPERTY '''' s2 = (v3, s3)" by force
  obtain v4 s4 where s4: "get_prop E DIAG_MDLOG_STATUS_PROPERTY '''' s3 = (v4, s4)" by force
  note o1 = obs_read [OF s1 switch_keys_in(1)] and o2 = obs_read [OF s2 switch_keys_in(2)]
  show ?thesis
  proof (cases "loc = '''' \<or> name = ''''")
    case True
    define r where "r = (if loc = '''' then [] else [(MODEM_LOG_PREFIX_PROPERTY, name)]) @
      [(MODEM_LOG_LOC_PROPERTY, loc)]"
    have "obs (dumpModemThread E s) =
        ((puts (hist s), r @ switch_reads (hist s)), notified (hist s))"
      using True s1 s2 o1 o2 by (auto simp: dumpModemThread_def r_def obs_def)
    moreover have "last_read r MODEM_LOG_LOC_PROPERTY = '''' \<or>
        last_read r MODEM_LOG_PREFIX_PROPERTY = ''''"
      using True by (auto simp: r_def last_read_def switch_key_defs)
    ultimately show ?thesis by (intro exI [of _ r]) (simp add: obs_def)
  next
    case False
    let ?r = "[(DIAG_MDLOG_STATUS_PROPERTY, v4), (DIAG_MDLOG_PERSIST_PROPERTY, v3),
      (MODEM_LOG_PREFIX_PROPERTY, name), (MODEM_LOG_LOC_PROPERTY, loc)]"
    have r: "last_read ?r MODEM_LOG_LOC_PROPERTY = loc" "last_read ?r MODEM_LOG_PREFIX_PROPERTY = name"
      "last_read ?r DIAG_MDLOG_PERSIST_PROPERTY = v3" "last_read ?r DIAG_MDLOG_STATUS_PROPERTY = v4"
      by (simp_all add: last_read_def switch_key_defs)
    from False have set: "loc \<noteq> ''''" "name \<noteq> ''''" by simp_all
    show ?thesis using modem_thread_obs [OF s1 s2 s3 s4 set] set
      by (intro exI [of _ ?r]) (simp add: r, simp add: obs_def)
  qed
qed

lemma sample_props:
  "e_prop sample_dump_env h MODEM_LOG_LOC_PROPERTY d = ''/logs''"
  "e_prop sample_dump_env h MODEM_LOG_PREFIX_PROPERTY d = ''m_''"
  "d_user sample_dump_env = False" "puts (hist sample_dump) = []"
  by (simp_all add: sample_dump_env_def sample_dump_def MODEM_LOG_LOC_PROPERTY_def
      MODEM_LOG_PREFIX_PROPERTY_def)

text \<open>The same environment with a logger that is enabled and runs.\<close>

definition logging_env :: dump_env where
  "logging_env = sample_dump_env\<lparr>d_bool := (\<lambda>v d. True)\<rparr>"

theorem switches_are_restored_witness:
  "puts (hist (dumpModemThread logging_env sample_dump)) =
    [(MODEM_EFS_DUMP_PROPERTY, ''false''), (MODEM_EFS_DUMP_PROPERTY, ''true''),
     (DIAG_MDLOG_PROPERTY, ''true''), (DIAG_MDLOG_PROPERTY, ''false'')]"
proof -
  obtain r where r: "switch_reads (hist (dumpModemThread logging_env sample_dump)) =
      r @ switch_reads (hist sample_dump)"
    "puts (hist (dumpModemThread logging_env sample_dump)) =
      (if last_read r MODEM_LOG_LOC_PROPERTY = '''' \<or> last_read r MODEM_LOG_PREFIX_PROPERTY = ''''
       then []
       else (if d_user logging_env then []
             else [(MODEM_EFS_DUMP_PROPERTY, ''false''), (MODEM_EFS_DUMP_PROPERTY, ''true'')]) @
            (if d_bool logging_env (last_read r DIAG_MDLOG_PERSIST_PROPERTY) False \<and>
                d_bool logging_env (last_read r DIAG_MDLOG_STATUS_PROPERTY) False
             then [(DIAG_MDLOG_PROPERTY, ''true''), (DIAG_MDLOG_PROPERTY, ''false'')] else [])) @
      puts (hist sample_dump)"
    using switches_are_restored [of logging_env sample_dump] by blast
  have loc: "fst (get_prop logging_env MODEM_LOG_LOC_PROPERTY '''' t) = ''/logs''" for t
    by (simp add: logging_env_def sample_props os_simps)
  have name: "fst (get_prop logging_env MODEM_LOG_PREFIX_PROPERTY '''' t) = ''m_''" for t
    by (simp add: logging_env_def sample_props os_simps)
  obtain s1 where s1: "get_prop logging_env MODEM_LOG_LOC_PROPERTY '''' sample_dump =
      (''/logs'', s1)" by (metis loc prod.collapse)
  obtain s2 where s2: "get_prop logging_env MODEM_LOG_PREFIX_PROPERTY '''' s1 = (''m_'', s2)"
    by (metis name prod.collapse)
  obtain v3 s3 where s3: "get_prop logging_env DIAG_MDLOG_PERSIST_PROPERTY '''' s2 = (v3, s3)"
    by force
  obtain v4 s4 where s4: "get_prop logging_env DIAG_MDLOG_STATUS_PROPERTY '''' s3 = (v4, s4)"
    by force
  have "r = [(DIAG_MDLOG_STATUS_PROPERTY, v4), (DIAG_MDLOG_PERSIST_PROPERTY, v3),
        (MODEM_LOG_PREFIX_PROPERTY, ''m_''), (MODEM_LOG_LOC_PROPERTY, ''/logs'')]"
    using modem_thread_obs [OF s1 s2 s3 s4] r(1) by (simp add: obs_def)
  then show ?thesis using r(2)
    by (simp add: last_read_def switch_key_defs logging_env_def sample_props)
qed

section \<open>Requests\<close>

text \<open>C28: A request is answered with OK exactly if it has a descriptor that is not negative and
  a mode of the interface other than that of watches; any other request is answered with
  the error for its cause and does nothing at all.\<close>

theorem board_request_checked:
  "(fst (dumpstateBoard_1_1 E M k handle mode s) = D_OK \<longleftrightarrow>
      (\<exists>fd fds. handle = Some (fd # fds) \<and> 0 \<le> fd) \<and> mode \<in> set (all_modes M) \<and> mode \<noteq> WEAR M) \<and>
   (fst (dumpstateBoard_1_1 E M k handle mode s) = UNSUPPORTED_MODE \<longleftrightarrow>
      (\<exists>fd fds. handle = Some (fd # fds) \<and> 0 \<le> fd) \<and> mode \<in> set (all_modes M) \<and> mode = WEAR M) \<and>
   (fst (dumpstateBoard_1_1 E M k handle mode s) = D_OK \<or>
      snd (dumpstateBoard_1_1 E M k handle mode s) = s)"
  by (auto simp: dumpstateBoard_1_1_def Let_def split: option.splits list.splits prod.splits)

text \<open>
  The report as it is meant to be, section by section with title and file or command, and with
  what it depends on. The list is written out here independently of the model of the code.
\<close>

fun item_call :: "int \<Rightarrow> dump_item \<Rightarrow> dump_call" where
  "item_call fd (FileSec title path) = DumpFileToFd fd title path"
| "item_call fd (CmdSec title cmd timeout) = RunCommandToFd fd title cmd timeout"

definition shell :: "string \<Rightarrow> string \<Rightarrow> dump_item" where
  "shell title command = CmdSec title [''/vendor/bin/sh'', ''-c'', command] None"

definition touch_dir :: string where
  "touch_dir = ''/sys/devices/platform/soc/a84000.i2c/i2c-2/2-0020/input/input2/''"

definition report_items :: "bool \<Rightarrow> string \<Rightarrow> (string \<Rightarrow> bool) \<Rightarrow> dump_item list" where
  "report_items user bootdev readable =
     [CmdSec ''VENDOR PROPERTIES'' [''/vendor/bin/getprop''] None,
      FileSec ''CPU present'' ''/sys/devices/system/cpu/present'',
      FileSec ''CPU online'' ''/sys/devices/system/cpu/online''] @
     (if user then [] else
       [CmdSec ''Performance Stats History'' [''/vendor/bin/perfstatsd'', ''-d''] None]) @
     [FileSec ''F2FS'' ''/sys/kernel/debug/f2fs/status'',
      shell ''F2FS - fragmentation''
          (''for d in $(ls /proc/fs/f2fs/); do echo $d: /dev/block/mapper/`ls -l '' @
          ''/dev/block/mapper | grep $d | awk '{print $8,$9,$10}'`; cat '' @
          ''/proc/fs/f2fs/$d/segment_info; done''),
      FileSec ''eMMC model'' ''/sys/block/mmcblk0/device/name'',
      FileSec ''eMMC prv'' ''/sys/block/mmcblk0/device/prv'',
      FileSec ''eMMC fwrev'' ''/sys/block/mmcblk0/device/fwrev'',
      FileSec ''eMMC size'' ''/sys/block/mmcblk0/size'',
      FileSec ''eMMC ext_csd'' ''/sys/kernel/debug/mmc0/mmc0:0001/ext_csd'',
      FileSec ''eMMC err_stats'' ''/sys/kernel/debug/mmc0/err_stats'',
      FileSec ''eMMC ring_buffer'' ''/sys/kernel/debug/mmc0/ring_buffer'',
      FileSec ''eMMC host status'' ''/sys/kernel/debug/mmc0/show_host'',
      FileSec ''eMMC io_stats'' ''/sys/kernel/debug/mmc0/io_stats'',
      FileSec ''eMMC req_stats'' ''/sys/kernel/debug/mmc0/req_stats''] @
     (if bootdev = '''' then [] else
       [FileSec ''eMMC pre_eol_info'' (''/sys/devices/platform/soc/'' @ bootdev @
            ''/mmc_host/mmc0/mmc0:0001/pre_eol_info''),
        FileSec ''eMMC life_time'' (''/sys/devices/platform/soc/'' @ bootdev @
            ''/mmc_host/mmc0/mmc0:0001/life_time''),
        FileSec ''eMMC Slow IO Read'' (''/sys/devices/platform/soc/'' @ bootdev @
            ''/mmc_host/mmc0/slowio_read_cnt''),
        FileSec ''eMMC Slow IO Write'' (''/sys/devices/platform/soc/'' @ bootdev @
            ''/mmc_host/mmc0/slowio_write_cnt''),
        FileSec ''eMMC Slow IO Urgent Read'' (''/sys/devices/platform/soc/'' @ bootdev @
            ''/mmc_host/mmc0/slowio_urgent_read_cnt''),
        FileSec ''eMMC Slow IO Urgent Write'' (''/sys/devices/platform/soc/'' @ bootdev @
            ''/mmc_host/mmc0/slowio_urgent_write_cnt''),
        FileSec ''eMMC Slow IO Discard'' (''/sys/devices/platform/soc/'' @ bootdev @
            ''/mmc_host/mmc0/slowio_discard_cnt''),
        FileSec ''eMMC Slow IO Flush'' (''/sys/devices/platform/soc/'' @ bootdev @
            ''/mmc_host/mmc0/slowio_flush_cnt'')]) @
     (if readable ''/data/vendor/sensors/log/sensor_log.txt''
      then [FileSec ''sensor log'' ''/data/vendor/sensors/log/sensor_log.txt''] else []) @
     (if readable ''/data/vendor/sensors/log/sensor_lastlog.txt''
      then [FileSec ''sensor lastlog'' ''/data/vendor/sensors/log/sensor_lastlog.txt''] else []) @
     [FileSec ''INTERRUPTS'' ''/proc/interrupts'',
      shell ''Power Stats Times'' ''echo -n \"Boot: \" && /vendor/bin/uptime -s &&echo -n \"Now: \" && date'',
      FileSec ''Sleep Stats'' ''/sys/power/system_sleep/stats'',
      FileSec ''Power Management Stats'' ''/sys/power/rpmh_stats/master_stats'',
      FileSec ''WLAN Power Stats'' ''/d/wlan0/power_stats'',
      FileSec ''LL-Stats'' ''/d/wlan0/ll_stats'',
      FileSec ''WLAN Connect Info'' ''/d/wlan0/connect_info'',
      FileSec ''WLAN Offload Info'' ''/d/wlan0/offload_info'',
      FileSec ''WLAN Roaming Stats'' ''/d/wlan0/roam_stats'',
      FileSec ''ICNSS Stats'' ''/d/icnss/stats'',
      FileSec ''SMD Log'' ''/d/ipc_logging/smd/log'',
      shell ''ION HEAPS''
          (''for d in $(ls -d /d/ion/*); do for f in $(ls $d); do echo --- $d/$f; cat '' @
          ''$d/$f; done; done''),
      FileSec ''dmabuf info'' ''/d/dma_buf/bufinfo'',
      shell ''Temperatures''
          (''for f in /sys/class/thermal/thermal* ; do type=`cat $f/type` ; temp=`cat '' @
          ''$f/temp` ; echo \"$type: $temp\" ; done''),
      shell ''Cooling Device Current State''
          (''for f in /sys/class/thermal/cooling* ; do type=`cat $f/type` ; temp=`cat '' @
          ''$f/cur_state` ; echo \"$type: $temp\" ; done''),
      shell ''LMH info'' (''for f in '' @
          ''/sys/bus/platform/drivers/msm_lmh_dcvs/*qcom,limits-dcvs@*/lmh_freq_limit; do '' @
          ''state=`cat $f` ; echo \"$f: $state\" ; done''),
      shell ''CPU time-in-state'' (''for cpu in /sys/devices/system/cpu/cpu*; do '' @
          ''f=$cpu/cpufreq/stats/time_in_state; if [ ! -f $f ]; then continue; fi; echo '' @
          ''$f:; cat $f; done''),
      shell ''CPU cpuidle''
          (''for cpu in /sys/devices/system/cpu/cpu*; do for d in $cpu/cpuidle/state*; do '' @
          ''if [ ! -d $d ]; then continue; fi; echo \"$d: `cat $d/name` `cat $d/desc` '' @
          ''`cat $d/time` `cat $d/usage`\"; done; done''),
      shell ''Easel debug info'' (''for f in `ls '' @
          ''/sys/devices/platform/soc/a88000.i2c/i2c-0/0-0066/@(*curr|temperature|vbat|tot'' @
          ''al_power)`; do echo \"$f: `cat $f`\" ; done; '' @
          ''file=/sys/devices/virtual/misc/mnh_sm/state; echo \"$file: `cat $file`\"''),
      FileSec ''MDP xlogs'' ''/data/vendor/display/mdp_xlog'',
      FileSec ''TCPM logs'' ''/d/tcpm/usbpd0'',
      FileSec ''PD Engine'' ''/d/logbuffer/usbpd'',
      FileSec ''smb-lib'' ''/d/logbuffer/smblib'',
      FileSec ''DWC3 logs'' ''/d/ipc_logging/a600000.dwc3/log'',
      FileSec ''ipc-local-ports'' ''/d/msm_ipc_router/dump_local_ports'',
      FileSec ''MPSS IPCRTR Log'' ''/sys/kernel/debug/ipc_logging/mpss_IPCRTR/log'',
      FileSec ''Local IPCRTR Log'' ''/sys/kernel/debug/ipc_logging/local_IPCRTR/log''] @
     (if readable touch_dir then
       [FileSec ''Synaptics touch firmware version'' (touch_dir @ ''buildid''),
        FileSec ''Synaptics touch config version'' (touch_dir @ ''config''),
        shell ''keep touch stay awake'' (''echo 02 >'' @ touch_dir @ ''suspend''),
        FileSec ''Synaptics touch noise information'' (touch_dir @ ''noise_state'')] @
       concat (replicate 5
         [shell ''Touch Cm Raw data'' (''echo 20 >'' @ touch_dir @ ''read_report && cat '' @
              touch_dir @ ''read_report''),
          shell ''Touch Cm Jitter'' (''echo 02 >'' @ touch_dir @ ''read_report && cat '' @
              touch_dir @ ''read_report''),
          shell ''Touch Cs Raw data'' (''echo 63 >'' @ touch_dir @ ''read_report && cat '' @
              touch_dir @ ''read_report''),
          shell ''Touch Cs Jitter'' (''echo 59 >'' @ touch_dir @ ''read_report && cat '' @
              touch_dir @ ''read_report'')]) @
       [shell ''keep touch stay awake disable'' (''echo 00 >'' @ touch_dir @ ''suspend'')]
      else []) @
     [shell ''USB Device Descriptors''
          (''cd /sys/bus/usb/devices/1-1 && cat product && cat bcdDevice; cat descriptors '' @
          ''| od -t x1 -w16 -N96''),
      shell ''QSEE logs'' ''/vendor/bin/timeout 3 cat /d/tzdbg/qsee_log'',
      shell ''Power supply properties''
          (''for f in `ls /sys/class/power_supply/*/uevent` ; do echo \"------ $f'' @
          [CHR 0x5C] @ ''n`cat $f`'' @ [CHR 0x5C] @ ''n\" ; done''),
      shell ''PMIC Votables'' ''cat /sys/kernel/debug/pmic-votable/*/status'',
      FileSec ''Battery cycle count'' ''/sys/class/power_supply/bms/device/cycle_counts_bins'',
      FileSec ''Maxim FG registers'' ''/d/regmap/4-0036/registers'',
      FileSec ''Maxim FG NV RAM'' ''/d/regmap/4-000b/registers'',
      FileSec ''PM670 PON registers''
          (''/d/c440000.qcom,spmi:qcom,pm660@0:qcom,power-on@800/pmic_pon_dump''),
      FileSec ''PM670A PON registers''
          (''/d/c440000.qcom,spmi:qcom,pm660l@2:qcom,power-on@800/pmic_pon_dump''),
      shell ''QCOM FG SRAM''
          (''echo 0 > /d/fg/sram/address ; echo 500 > /d/fg/sram/count ; cat '' @
          ''/d/fg/sram/data''),
      shell ''eSIM Status'' ''od -t x1 /sys/firmware/devicetree/base/chosen/cdt/cdb2/esim'',
      FileSec ''Modem Stat'' ''/data/vendor/modem_stat/debug.txt'',
      FileSec ''Pixel trace'' ''/d/tracing/instances/pixel-trace/trace'',
      shell ''TEMP-DEFEND Config''
          ('' cd /sys/devices/platform/soc/soc:google,charger; for f in `ls bd_*` ; do '' @
          ''echo \"$f: `cat $f`\" ; done''),
      shell ''DWELL-DEFEND Config''
          ('' cd /sys/devices/platform/soc/soc:google,charger; for f in `ls charge_s*` ; '' @
          ''do echo \"$f: `cat $f`\" ; done''),
      CmdSec ''Citadel VERSION'' [''/vendor/bin/hw/citadel_updater'', ''-lv''] None,
      CmdSec ''Citadel STATS'' [''/vendor/bin/hw/citadel_updater'', ''--stats''] None,
      CmdSec ''Citadel BOARDID'' [''/vendor/bin/hw/citadel_updater'', ''--board_id''] None,
      FileSec ''WLAN DP Trace'' ''/d/wlan/dpt_stats/dump_set_dpt_logs'',
      FileSec ''WLAN FW Log Symbol Table'' ''/vendor/firmware/Data.msc'',
      FileSec ''Fastrpc dma buffer'' ''/sys/kernel/fastrpc/total_dma_kb'']"

text \<open>The model of the code, part by part, makes just these sections.\<close>

lemma report_items_parts:
  "report_items user bootdev readable =
     board_start @ (if user then [] else perf_stats) @ DumpF2FS_secs @ DumpeMMC_secs @
     (if bootdev = '''' then [] else DumpeMMC_boot bootdev) @
     (if readable logPath then [FileSec ''sensor log'' logPath] else []) @
     (if readable lastlogPath then [FileSec ''sensor lastlog'' lastlogPath] else []) @
     interrupts @ DumpPower_secs @ board_middle @ DumpIPCTRT_secs @
     (if readable touch_path then touch_secs else []) @ board_end"
  by (simp only: report_items_def shell_def touch_dir_def board_start_def perf_stats_def
      DumpF2FS_secs_def DumpeMMC_secs_def DumpeMMC_boot_def logPath_def lastlogPath_def
      interrupts_def DumpPower_secs_def board_middle_def DumpIPCTRT_secs_def touch_path_def
      touch_secs_def touch_start_def touch_round_def touch_end_def board_end_def
      append.simps append_assoc)

lemma obs_sections:
  "obs (dump_sections E fd secs s) = (fst (obs s), rev (map (item_call fd) secs) @ snd (obs s))"
proof -
  have one: "obs (dump_section E fd i t) = (fst (obs t), item_call fd i # snd (obs t))" for i t
    by (cases i) simp_all
  show ?thesis
    unfolding dump_sections_def by (induction secs arbitrary: s) (simp_all add: one)
qed

lemma obs_if_readable:
  "(\<And>h. e_access E h path = ok) \<Longrightarrow> obs (if_readable E fd path secs s) =
     (fst (obs s), rev (map (item_call fd) (if ok then secs else [])) @ snd (obs s))"
  using obs_os(4) [of E path s]
  by (cases ok) (simp_all add: if_readable_def access_file_def ask_def Let_def obs_sections)

lemma obs_eMMC:
  "(\<And>h. e_prop E h EMMC_BOOTDEVICE '''' = dev) \<Longrightarrow> obs (DumpeMMC E fd s) =
     (fst (obs s), rev (map (item_call fd) (DumpeMMC_secs @
        (if dev = '''' then [] else DumpeMMC_boot dev))) @ snd (obs s))"
  using obs_os(2) [of EMMC_BOOTDEVICE E "''''" "dump_sections E fd DumpeMMC_secs s"]
  by (cases "dev = ''''") (simp_all add: DumpeMMC_def get_prop_def ask_def Let_def obs_sections)

text \<open>C29: A valid request with verbose logging off has the modem notified and then makes the
  sections that \<open>report_items\<close> lists with title and file or command, in that order, and no
  others: each section once, but the four measurements of the touch sensor five times, between
  the commands that keep it awake and that let it sleep again. The performance history is left
  out on user builds, the eight counters of the boot device without one, and the sensor logs
  and the touch sections when their file cannot be read. The answers to these questions are
  assumed to be the same at all times of the request.\<close>

theorem board_report_complete:
  assumes "0 \<le> fd" and "mode \<in> set (all_modes M)" and "mode \<noteq> WEAR M"
    and "\<And>h. \<not> d_bool E (e_prop E h VENDOR_VERBOSE_LOGGING_ENABLED_PROPERTY '''') False"
    and "\<And>h. e_prop E h EMMC_BOOTDEVICE '''' = dev" and "\<And>h p. e_access E h p = readable p"
  shows "notified (hist (snd (dumpstateBoard_1_1 E M k (Some (fd # fds)) mode s))) =
    rev (map (item_call fd) (notify_modem @ report_items (d_user E) dev readable)) @
    notified (hist s)"
proof -
  let ?s1 = "dump_sections E fd notify_modem s"
  let ?s2 = "snd (getVerboseLoggingEnabled E ?s1)"
  have start: "start_modem E (fd # fds) ?s1 = (False, ?s2)"
    using assms(4)
    by (simp add: start_modem_def getVerboseLoggingEnabled_def GetBoolProperty_def os_simps)
  have s2: "obs ?s2 = obs ?s1"
    unfolding getVerboseLoggingEnabled_def using keeps_obs_props(1) [OF other_keys(5)]
    by (simp add: keeps_def)
  have run: "run_parts (take k (board_report E fd) @ drop k (board_report E fd)) t =
      run_parts (board_report E fd) t" for t by simp
  have "snd (dumpstateBoard_1_1 E M k (Some (fd # fds)) mode s) = run_parts (board_report E fd) ?s2"
    using assms(1-3) start by (simp add: dumpstateBoard_1_1_def Let_def)
  moreover have "obs (run_parts (board_report E fd) ?s2) =
      (fst (obs s), rev (map (item_call fd) (notify_modem @ report_items (d_user E) dev readable)) @
        snd (obs s))"
    by (simp add: run_parts_def board_report_def s2 obs_sections obs_if_readable [OF assms(6)]
        obs_eMMC [OF assms(5)] DumpF2FS_def DumpPower_def DumpIPCTRT_def DumpTouch_def
        DumpSensorLog_def report_items_parts)
  ultimately show ?thesis by (simp add: obs_def)
qed

definition sample_modes :: modes where
  "sample_modes = \<lparr>all_modes = [0, 1, 2], WEAR = 2, DEFAULT = 1\<rparr>"

definition plain_env :: dump_env where
  "plain_env = sample_dump_env\<lparr>e_prop := (\<lambda>h k d. d)\<rparr>"

theorem board_report_complete_witness:
  "length (notified (hist (snd (dumpstateBoard_1_1 plain_env sample_modes 3 (Some [5]) 1 sample_dump)))) =
   1 + length (report_items False '''' (\<lambda>p. False))"
  using board_report_complete [of 5 1 sample_modes plain_env "''''" "\<lambda>p. False" 3 "[]" sample_dump]
  by (simp add: sample_modes_def plain_env_def sample_dump_env_def sample_dump_def notify_modem_def)

text \<open>Verbose logging reads as it was set, if properties read as they were set last.\<close>

lemma verbose_logging_reads_back:
  assumes "\<And>h k v. e_prop E (PutProp k v # h) k '''' = v"
    and "\<And>d. d_bool E ''true'' d" and "\<And>d. \<not> d_bool E ''false'' d"
  shows "fst (getVerboseLoggingEnabled E (setVerboseLoggingEnabled b s)) = b"
  using assms
  by (simp add: getVerboseLoggingEnabled_def setVerboseLoggingEnabled_def GetBoolProperty_def
      os_simps)


text \<open>The fields of a header lie one after the other and fill exactly one block of 512 bytes; and
  what \<open>tarHeader\<close> builds is such a block for every name a directory entry can have and for
  every size: a name too long for its field still stays inside the header.\<close>

theorem header_is_one_block:
  assumes "length fileName \<le> 255"
  shows "length (tarHeader fileName fileSize) = sizeof_header \<and> sizeof_header = 512 \<and>
    sizeof_header = sum_list (map snd PosixTarHeader)"
  by (simp add: header_length_any [OF assms] sizeof_header_def PosixTarHeader_def)

theorem header_is_one_block_witness:
  "length (tarHeader (replicate 200 (CHR ''a'')) (- 1)) = 512"
  using header_is_one_block [of "replicate 200 (CHR ''a'')" "- 1"] by simp

end
