(* ===== verification/Services.thy ===== *)
theory Services
  imports CText
begin

text \<open>
  The small programs of the repository: the wait for the key stores at boot
  (keymaster/wait\_for\_strongbox.cpp), the registration of the power statistics
  (powerstats/service.cpp), the descriptors of the audio effects
  (voice\_processing/voice\_processing\_descriptors.c) and the main functions of the USB
  services (usb/usb/service.cpp, usb/gadget/service\_gadget.cpp).
\<close>

section \<open>Waiting for the key stores\<close>

datatype SecurityLevel = SOFTWARE | TRUSTED_ENVIRONMENT | STRONGBOX

type_synonym device = "SecurityLevel \<times> 8 word"

definition found :: "SecurityLevel \<Rightarrow> device list \<Rightarrow> bool" where
  "found level keymasters \<longleftrightarrow> list_ex (\<lambda>(securityLevel, majorVersion).
     securityLevel = level \<and> majorVersion = 4) keymasters"

text \<open>\<open>polls n\<close> are the devices the \<open>n\<close>-th enumeration finds. The result counts the polls that
  were made before the last and the microseconds slept, and lists the warnings, newest first.\<close>

record waited =
  w_polls :: nat
  w_slept :: nat
  w_warnings :: "string list"

definition kWaitTimeMicroseconds :: nat where "kWaitTimeMicroseconds = 1 * 1000"

definition wait_warnings :: "32 word \<Rightarrow> device list \<Rightarrow> string list" where
  "wait_warnings cycleCount keymasters =
     (if cycleCount mod 10 = 1 then
        (if \<not> found TRUSTED_ENVIRONMENT keymasters then [''Still waiting for TEE Keymaster''] else []) @
        (if \<not> found STRONGBOX keymasters then [''Still waiting for StrongBox Keymaster''] else [])
      else [])"

partial_function (option) wait_loop ::
    "(nat \<Rightarrow> device list) \<Rightarrow> 32 word \<Rightarrow> waited \<Rightarrow> waited option" where
  "wait_loop polls cycleCount w =
     (let keymasters = polls (w_polls w) in
      if found TRUSTED_ENVIRONMENT keymasters \<and> found STRONGBOX keymasters then Some w
      else wait_loop polls (cycleCount + 1)
             (w\<lparr>w_polls := Suc (w_polls w),
                w_slept := w_slept w + kWaitTimeMicroseconds,
                w_warnings := wait_warnings cycleCount keymasters @ w_warnings w\<rparr>))"

text \<open>The main function: \<open>None\<close> if it never returns, else the exit code and the polls made.\<close>

definition wait_for_strongbox :: "(nat \<Rightarrow> device list) \<Rightarrow> (int \<times> waited) option" where
  "wait_for_strongbox polls =
     map_option (Pair 0) (wait_loop polls 0 \<lparr>w_polls = 0, w_slept = 0, w_warnings = []\<rparr>)"

definition ready :: "device list \<Rightarrow> bool" where
  "ready keymasters \<longleftrightarrow> (TRUSTED_ENVIRONMENT, 4) \<in> set keymasters \<and> (STRONGBOX, 4) \<in> set keymasters"

lemma found_ready:
  "found TRUSTED_ENVIRONMENT ks \<and> found STRONGBOX ks \<longleftrightarrow> ready ks"
  by (auto simp: found_def ready_def list_ex_iff)

lemma wait_loop_returns:
  assumes "ready (polls (w_polls w + d))" and "\<And>e. e < d \<Longrightarrow> \<not> ready (polls (w_polls w + e))"
  shows "\<exists>t. wait_loop polls c w = Some t \<and> w_polls t = w_polls w + d \<and>
    w_slept t = w_slept w + d * kWaitTimeMicroseconds"
  using assms
proof (induction d arbitrary: w c)
  case 0
  then show ?case by (subst wait_loop.simps) (simp add: found_ready Let_def)
next
  case (Suc d)
  let ?v = "w\<lparr>w_polls := Suc (w_polls w), w_slept := w_slept w + kWaitTimeMicroseconds,
    w_warnings := wait_warnings c (polls (w_polls w)) @ w_warnings w\<rparr>"
  have "\<not> ready (polls (w_polls w))" using Suc(3) [of 0] by simp
  then have "wait_loop polls c w = wait_loop polls (c + 1) ?v"
    by (subst wait_loop.simps) (simp add: found_ready Let_def)
  moreover have "\<exists>t. wait_loop polls (c + 1) ?v = Some t \<and> w_polls t = w_polls ?v + d \<and>
    w_slept t = w_slept ?v + d * kWaitTimeMicroseconds"
    by (rule Suc(1)) (use Suc(2) Suc(3) [of "Suc e" for e] in auto)
  ultimately show ?case by (simp add: add.assoc)
qed

lemma wait_loop_found:
  assumes "wait_loop polls c w = Some t"
  shows "ready (polls (w_polls t))"
proof (rule wait_loop.raw_induct [OF _ assms])
  fix wait polls c w t
  assume rec: "\<And>polls c w t. wait polls c w = Some t \<Longrightarrow> ready (polls (w_polls t))"
    and run: "(let keymasters = polls (w_polls w) in
      if found TRUSTED_ENVIRONMENT keymasters \<and> found STRONGBOX keymasters then Some w
      else wait polls (c + 1)
             (w\<lparr>w_polls := Suc (w_polls w),
                w_slept := w_slept w + kWaitTimeMicroseconds,
                w_warnings := wait_warnings c keymasters @ w_warnings w\<rparr>)) = Some t"
  from run show "ready (polls (w_polls t))"
    by (auto simp: found_ready Let_def split: if_splits dest: rec)
qed

text \<open>C34: The wait returns, with code 0, if and only if some enumeration finds both a trusted
  environment and a StrongBox of major version 4; and it returns at the first that does, having
  slept a millisecond after each of those before.\<close>

theorem wait_returns_when_ready:
  "case wait_for_strongbox polls of
     None \<Rightarrow> \<forall>n. \<not> ready (polls n)
   | Some (code, w) \<Rightarrow> code = 0 \<and> ready (polls (w_polls w)) \<and> w_slept w = w_polls w * 1000 \<and>
       (\<forall>n < w_polls w. \<not> ready (polls n))"
proof (cases "\<exists>n. ready (polls n)")
  case True
  define d where "d = (LEAST n. ready (polls n))"
  have "ready (polls d)" unfolding d_def using True by (rule LeastI_ex)
  moreover have "\<not> ready (polls e)" if "e < d" for e
    using that not_less_Least unfolding d_def by blast
  ultimately show ?thesis
    using wait_loop_returns [of polls "\<lparr>w_polls = 0, w_slept = 0, w_warnings = []\<rparr>" d 0]
    by (auto simp: wait_for_strongbox_def kWaitTimeMicroseconds_def)
next
  case False
  have "wait_loop polls 0 \<lparr>w_polls = 0, w_slept = 0, w_warnings = []\<rparr> = None"
  proof (rule ccontr)
    assume "wait_loop polls 0 \<lparr>w_polls = 0, w_slept = 0, w_warnings = []\<rparr> \<noteq> None"
    with wait_loop_found [of polls 0 "\<lparr>w_polls = 0, w_slept = 0, w_warnings = []\<rparr>"] False show False by auto
  qed
  with False show ?thesis by (simp add: wait_for_strongbox_def)
qed

theorem wait_returns_when_ready_witness:
  "\<exists>w. wait_for_strongbox (\<lambda>n. if n < 2 then [(STRONGBOX, 4)]
      else [(TRUSTED_ENVIRONMENT, 4), (STRONGBOX, 4)]) = Some (0, w) \<and> w_polls w = 2"
proof -
  let ?p = "\<lambda>n :: nat. if n < 2 then [(STRONGBOX, 4 :: 8 word)]
    else [(TRUSTED_ENVIRONMENT, 4), (STRONGBOX, 4)]"
  have r: "ready (?p n) \<longleftrightarrow> \<not> n < 2" for n by (simp add: ready_def)
  have t: "case wait_for_strongbox ?p of None \<Rightarrow> \<forall>n. \<not> ready (?p n)
    | Some (code, w) \<Rightarrow> code = 0 \<and> ready (?p (w_polls w)) \<and>
        w_slept w = w_polls w * 1000 \<and> (\<forall>n < w_polls w. \<not> ready (?p n))"
    by (rule wait_returns_when_ready)
  show ?thesis
  proof (cases "wait_for_strongbox ?p")
    case None
    with t have "\<not> ready (?p 2)" by (simp only: option.case) blast
    then show ?thesis by (simp add: ready_def)
  next
    case (Some cw)
    obtain code w where cw: "cw = (code, w)" by force
    with t Some have "code = 0" "\<not> w_polls w < 2" "\<forall>n < w_polls w. n < 2" by (auto simp: r)
    moreover from this have "w_polls w = 2" by (meson less_irrefl linorder_neqE_nat)
    ultimately show ?thesis using Some cw by auto
  qed
qed


section \<open>Audio effect descriptors\<close>

text \<open>The structures are those of \<open>hardware/audio_effect.h\<close>, by position: a UUID has words of 32,
  16, 16 and 16 bits and a node of six bytes. The version of the interface and the flags come
  from the same header and are arguments.\<close>

type_synonym effect_uuid = "32 word \<times> 16 word \<times> 16 word \<times> 16 word \<times> 8 word list"

record effect_descriptor =
  eff_type :: effect_uuid
  eff_uuid :: effect_uuid
  eff_apiVersion :: "32 word"
  eff_flags :: "32 word"
  eff_cpuLoad :: "16 word"
  eff_memoryUsage :: "16 word"
  eff_name :: string
  eff_implementor :: string

record effect_header =
  EFFECT_CONTROL_API_VERSION :: "32 word"
  EFFECT_FLAG_TYPE_PRE_PROC :: "32 word"
  EFFECT_FLAG_DEVICE_IND :: "32 word"
  EFFECT_FLAG_HW_ACC_TUNNEL :: "32 word"

definition effect_flags :: "effect_header \<Rightarrow> 32 word" where
  "effect_flags h = or (or (EFFECT_FLAG_TYPE_PRE_PROC h) (EFFECT_FLAG_DEVICE_IND h))
     (EFFECT_FLAG_HW_ACC_TUNNEL h)"

definition qcom_product_aec_descriptor :: "effect_header \<Rightarrow> effect_descriptor" where
  "qcom_product_aec_descriptor h =
     \<lparr>eff_type = (0x7b491460, 0x8d4d, 0x11e0, 0xbd61, [0x00, 0x02, 0xa5, 0xd5, 0xc5, 0x1b]),
      eff_uuid = (0x27dab416, 0x23f8, 0x11e8, 0xb467, [0x0e, 0xd5, 0xf8, 0x9f, 0x71, 0x8b]),
      eff_apiVersion = EFFECT_CONTROL_API_VERSION h,
      eff_flags = effect_flags h,
      eff_cpuLoad = 0,
      eff_memoryUsage = 0,
      eff_name = ''Acoustic Echo Canceler'',
      eff_implementor = ''Qualcomm Fluence for Sargo/Bonito''\<rparr>"

definition qcom_product_ns_descriptor :: "effect_header \<Rightarrow> effect_descriptor" where
  "qcom_product_ns_descriptor h =
     \<lparr>eff_type = (0x58b4b260, 0x8e06, 0x11e0, 0xaa8e, [0x00, 0x02, 0xa5, 0xd5, 0xc5, 0x1b]),
      eff_uuid = (0x27dab6d2, 0x23f8, 0x11e8, 0xb467, [0x0e, 0xd5, 0xf8, 0x9f, 0x71, 0x8b]),
      eff_apiVersion = EFFECT_CONTROL_API_VERSION h,
      eff_flags = effect_flags h,
      eff_cpuLoad = 0,
      eff_memoryUsage = 0,
      eff_name = ''Noise Suppression'',
      eff_implementor = ''Qualcomm Fluence for Sargo/Bonito''\<rparr>"

text \<open>A UUID as text, as the comments of the file give it.\<close>

definition hex_digits :: "nat \<Rightarrow> nat \<Rightarrow> string" where
  "hex_digits n v = map (\<lambda>i. xdigit (v div 16 ^ (n - 1 - i) mod 16)) [0..<n]"

fun uuid_text :: "effect_uuid \<Rightarrow> string" where
  "uuid_text (a, b, c, d, node) =
     hex_digits 8 (unat a) @ ''-'' @ hex_digits 4 (unat b) @ ''-'' @ hex_digits 4 (unat c) @ ''-'' @
     hex_digits 4 (unat d) @ ''-'' @ concat (map (\<lambda>x. hex_digits 2 (unat x)) node)"

lemma aec_uuid_as_documented:
  "uuid_text (eff_uuid (qcom_product_aec_descriptor h)) = ''27dab416-23f8-11e8-b467-0ed5f89f718b''"
  by (simp add: qcom_product_aec_descriptor_def hex_digits_def xdigit_def upt_rec char_of_def bit_Suc_0_iff)

lemma ns_uuid_as_documented:
  "uuid_text (eff_uuid (qcom_product_ns_descriptor h)) = ''27dab6d2-23f8-11e8-b467-0ed5f89f718b''"
  by (simp add: qcom_product_ns_descriptor_def hex_digits_def xdigit_def upt_rec char_of_def bit_Suc_0_iff)

lemma effects_differ:
  "eff_uuid (qcom_product_aec_descriptor h) \<noteq> eff_uuid (qcom_product_ns_descriptor h)"
  "eff_type (qcom_product_aec_descriptor h) \<noteq> eff_type (qcom_product_ns_descriptor h)"
  by (simp_all add: qcom_product_aec_descriptor_def qcom_product_ns_descriptor_def)

section \<open>The main functions of the USB services\<close>

text \<open>How a service ends: it aborts on a failed check, or returns a code. \<open>status\<close> is the result of
  the registration; a thread pool that is joined may never return, and the code is that of the
  return.\<close>

datatype service_end = Aborted | Returned int

definition usb_main :: "int \<Rightarrow> service_end" where
  "usb_main status = (if status \<noteq> 0 then Aborted else Returned (- 1))"

definition gadget_main :: "int \<Rightarrow> service_end \<times> bool" where
  "gadget_main status = (if status \<noteq> 0 then (Returned 1, False) else (Returned 1, True))"

end
