(* ===== verification/PowerStats.thy ===== *)
theory PowerStats
  imports Prelude
begin

text \<open>
  The registration of the power statistics (powerstats/service.cpp): the entities the service
  announces, the providers of their residency data and the order in which both are given to
  the service. The service itself and the binder calls are outside the repository: the
  identifiers \<open>addPowerEntity\<close> returns, the status of \<open>addService\<close> and that of
  \<open>registerAsService\<close> are inputs.
\<close>

section \<open>Entities, providers and the service\<close>

datatype PowerEntityType = SUBSYSTEM | POWER_DOMAIN

text \<open>A configuration of a state; a member the initialiser leaves out is empty.\<close>

record state_config =
  st_name :: string
  st_header :: string
  entryCountSupported :: bool
  entryCountPrefix :: string
  totalTimeSupported :: bool
  totalTimePrefix :: string
  totalTimeTransform :: "(64 word \<Rightarrow> 64 word) option"
  lastEntrySupported :: bool
  lastEntryPrefix :: string
  lastEntryTransform :: "(64 word \<Rightarrow> 64 word) option"

text \<open>A provider: the generic one reads a file and knows the header and the states of each of
  its entities, the WLAN one has a single entity, the AIDL one knows names of states.\<close>

datatype provider =
    Generic string "(32 word \<times> string \<times> state_config list) list"
  | Wlan "32 word" string
  | Aidl "(32 word \<times> string \<times> string list) list"

record stats =
  st_entities :: "(32 word \<times> string \<times> PowerEntityType) list"
  st_providers :: "provider list"

definition RPM_CLK :: "64 word" where "RPM_CLK = 19200"

definition rpmConvertToMs :: "64 word \<Rightarrow> 64 word" where
  "rpmConvertToMs a = a div RPM_CLK"

definition rpmStateResidencyConfigs :: "state_config list" where
  "rpmStateResidencyConfigs =
     [\<lparr>st_name = ''Sleep'', st_header = '''',
        entryCountSupported = True, entryCountPrefix = ''Sleep Count:'',
        totalTimeSupported = True, totalTimePrefix = ''Sleep Accumulated Duration:'',
        totalTimeTransform = Some rpmConvertToMs,
        lastEntrySupported = True, lastEntryPrefix = ''Sleep Last Entered At:'',
        lastEntryTransform = Some rpmConvertToMs\<rparr>]"

definition socStateResidencyConfigs :: "state_config list" where
  "socStateResidencyConfigs =
     [\<lparr>st_name = ''AOSD'', st_header = ''RPM Mode:aosd'',
        entryCountSupported = True, entryCountPrefix = ''count:'',
        totalTimeSupported = True, totalTimePrefix = ''actual last sleep(msec):'',
        totalTimeTransform = None,
        lastEntrySupported = False, lastEntryPrefix = '''', lastEntryTransform = None\<rparr>,
      \<lparr>st_name = ''CXSD'', st_header = ''RPM Mode:cxsd'',
        entryCountSupported = True, entryCountPrefix = ''count:'',
        totalTimeSupported = True, totalTimePrefix = ''actual last sleep(msec):'',
        totalTimeTransform = None,
        lastEntrySupported = False, lastEntryPrefix = '''', lastEntryTransform = None\<rparr>]"

text \<open>\<open>ids n\<close> is the identifier the \<open>n\<close>-th call of \<open>addPowerEntity\<close> returns.\<close>

definition add_entity ::
    "(nat \<Rightarrow> 32 word) \<Rightarrow> string \<Rightarrow> PowerEntityType \<Rightarrow> stats \<Rightarrow> 32 word \<times> stats" where
  "add_entity ids name type s =
     (let i = ids (length (st_entities s))
      in (i, s\<lparr>st_entities := st_entities s @ [(i, name, type)]\<rparr>))"

definition add_provider :: "provider \<Rightarrow> stats \<Rightarrow> stats" where
  "add_provider p s = s\<lparr>st_providers := st_providers s @ [p]\<rparr>"

fun addEntity :: "32 word \<Rightarrow> string \<Rightarrow> state_config list \<Rightarrow> provider \<Rightarrow> provider" where
  "addEntity i header states (Generic path es) = Generic path (es @ [(i, header, states)])"
| "addEntity i header states p = p"

section \<open>The main function\<close>

definition add_rpm :: "(nat \<Rightarrow> 32 word) \<Rightarrow> stats \<Rightarrow> stats" where
  "add_rpm ids s =
     (let rpmSdp = Generic ''/sys/power/rpmh_stats/master_stats'' [];
          (apssId, s) = add_entity ids ''APSS'' SUBSYSTEM s;
          rpmSdp = addEntity apssId ''APSS'' rpmStateResidencyConfigs rpmSdp;
          (mpssId, s) = add_entity ids ''MPSS'' SUBSYSTEM s;
          rpmSdp = addEntity mpssId ''MPSS'' rpmStateResidencyConfigs rpmSdp;
          (adspId, s) = add_entity ids ''ADSP'' SUBSYSTEM s;
          rpmSdp = addEntity adspId ''ADSP'' rpmStateResidencyConfigs rpmSdp;
          (cdspId, s) = add_entity ids ''CDSP'' SUBSYSTEM s;
          rpmSdp = addEntity cdspId ''CDSP'' rpmStateResidencyConfigs rpmSdp
      in add_provider rpmSdp s)"

definition add_soc :: "(nat \<Rightarrow> 32 word) \<Rightarrow> stats \<Rightarrow> stats" where
  "add_soc ids s =
     (let socSdp = Generic ''/sys/power/system_sleep/stats'' [];
          (socId, s) = add_entity ids ''SoC'' POWER_DOMAIN s;
          socSdp = addEntity socId '''' socStateResidencyConfigs socSdp
      in add_provider socSdp s)"

definition add_wlan :: "(nat \<Rightarrow> 32 word) \<Rightarrow> bool \<Rightarrow> stats \<Rightarrow> stats" where
  "add_wlan ids isDebuggable s =
     (if isDebuggable then
        let (wlanId, s) = add_entity ids ''WLAN'' SUBSYSTEM s
        in add_provider (Wlan wlanId ''/d/wlan0/power_stats'') s
      else s)"

text \<open>The exit code, the service as it is then, and whether it was registered.\<close>

definition powerstats_main ::
    "(nat \<Rightarrow> 32 word) \<Rightarrow> bool \<Rightarrow> int \<Rightarrow> int \<Rightarrow> int \<times> stats \<times> bool" where
  "powerstats_main ids isDebuggable serviceStatus status =
     (let s = add_wlan ids isDebuggable
                (add_soc ids (add_rpm ids \<lparr>st_entities = [], st_providers = []\<rparr>));
          (citadelId, s) = add_entity ids ''Citadel'' SUBSYSTEM s;
          aidlSdp = Aidl [(citadelId, ''Citadel'', [''Last-Reset'', ''Active'', ''Deep-Sleep''])]
      in if serviceStatus \<noteq> 0 then (1, s, False)
         else let s = add_provider aidlSdp s
              in if status \<noteq> 0 then (1, s, False) else (1, s, True))"

section \<open>Every entity has its data\<close>

fun provided :: "provider \<Rightarrow> 32 word list" where
  "provided (Generic path es) = map fst es"
| "provided (Wlan i path) = [i]"
| "provided (Aidl es) = map fst es"

text \<open>What each step adds: entities, and providers of exactly these.\<close>

definition serves :: "stats \<Rightarrow> bool" where
  "serves s \<longleftrightarrow> map fst (st_entities s) = concat (map provided (st_providers s))"

lemmas stats_steps = add_entity_def add_provider_def Let_def

lemma serves_add_rpm: "serves s \<Longrightarrow> serves (add_rpm ids s)"
  by (simp add: serves_def add_rpm_def stats_steps)

lemma serves_add_soc: "serves s \<Longrightarrow> serves (add_soc ids s)"
  by (simp add: serves_def add_soc_def stats_steps)

lemma serves_add_wlan: "serves s \<Longrightarrow> serves (add_wlan ids b s)"
  by (simp add: serves_def add_wlan_def stats_steps)

lemma serves_citadel:
  "serves s \<Longrightarrow> serves (add_provider (Aidl [(ids (length (st_entities s)), n, ss)])
     (snd (add_entity ids n t s)))"
  by (simp add: serves_def stats_steps)

lemma entity_names:
  "map (fst \<circ> snd) (st_entities (fst (snd (powerstats_main ids dbg st1 st2)))) =
     [''APSS'', ''MPSS'', ''ADSP'', ''CDSP'', ''SoC''] @ (if dbg then [''WLAN''] else []) @ [''Citadel'']"
  by (simp add: powerstats_main_def add_rpm_def add_soc_def add_wlan_def stats_steps)

lemma entity_ids:
  "map fst (st_entities (fst (snd (powerstats_main ids dbg st1 st2)))) =
     map ids [0..<if dbg then 7 else 6]"
  by (simp add: powerstats_main_def add_rpm_def add_soc_def add_wlan_def stats_steps
      upt_rec [of 0] upt_rec [of "Suc n" for n])

lemma main_serves:
  assumes "powerstats_main ids dbg 0 st2 = (code, s, up)"
  shows "serves s"
proof -
  let ?t = "add_wlan ids dbg (add_soc ids (add_rpm ids \<lparr>st_entities = [], st_providers = []\<rparr>))"
  have "serves ?t"
    by (intro serves_add_wlan serves_add_soc serves_add_rpm) (simp add: serves_def)
  then have "serves (add_provider (Aidl [(ids (length (st_entities ?t)), ''Citadel'',
      [''Last-Reset'', ''Active'', ''Deep-Sleep''])]) (snd (add_entity ids ''Citadel'' SUBSYSTEM ?t)))"
    by (rule serves_citadel)
  with assms show ?thesis
    by (auto simp: powerstats_main_def stats_steps split: if_splits)
qed

lemma one_block:
  "distinct (concat (map f ps)) \<Longrightarrow> i \<in> set (concat (map f ps)) \<Longrightarrow>
    \<exists>!k. k < length ps \<and> i \<in> set (f (ps ! k))"
proof (induction ps)
  case (Cons p ps)
  show ?case
  proof (cases "i \<in> set (f p)")
    case True
    with Cons(2) have "\<forall>q \<in> set ps. i \<notin> set (f q)" by auto
    with True show ?thesis by (intro ex1I [of _ 0]) (auto simp: nth_Cons split: nat.splits)
  next
    case False
    with Cons have "\<exists>!k. k < length ps \<and> i \<in> set (f (ps ! k))" by simp
    then obtain k where k: "k < length ps" "i \<in> set (f (ps ! k))"
      and only: "\<And>j. j < length ps \<and> i \<in> set (f (ps ! j)) \<Longrightarrow> j = k" by blast
    show ?thesis
    proof (intro ex1I [of _ "Suc k"])
      fix j assume j: "j < length (p # ps) \<and> i \<in> set (f ((p # ps) ! j))"
      with False obtain m where "j = Suc m" by (cases j) auto
      with j only [of m] show "j = Suc k" by simp
    qed (use k in simp)
  qed
qed simp

text \<open>If the identifiers the service hands out differ from each other, and the AIDL provider
  could be added, then every entity announced gets its data from exactly one provider, and
  the WLAN entity is announced exactly on a debuggable build; the service is up exactly if it
  could be registered.\<close>

theorem entities_have_providers:
  assumes "inj_on ids {..<7}" and "powerstats_main ids isDebuggable 0 status = (code, s, up)"
  shows "map (fst \<circ> snd) (st_entities s) =
           [''APSS'', ''MPSS'', ''ADSP'', ''CDSP'', ''SoC''] @
           (if isDebuggable then [''WLAN''] else []) @ [''Citadel''] \<and>
         (\<forall>i \<in> fst ` set (st_entities s). \<exists>!k. k < length (st_providers s) \<and>
           i \<in> set (provided (st_providers s ! k))) \<and>
         (up \<longleftrightarrow> status = 0) \<and> code = 1"
proof -
  have s: "s = fst (snd (powerstats_main ids isDebuggable 0 status))" using assms(2) by simp
  have "serves s" using main_serves assms(2) by blast
  moreover have "distinct (map fst (st_entities s))"
    unfolding s entity_ids using assms(1) by (auto simp: distinct_map inj_on_def)
  ultimately have "\<exists>!k. k < length (st_providers s) \<and> i \<in> set (provided (st_providers s ! k))"
    if "i \<in> fst ` set (st_entities s)" for i
    using that by (intro one_block) (simp_all add: serves_def flip: set_map)
  moreover have "(up \<longleftrightarrow> status = 0) \<and> code = 1"
    using assms(2) by (auto simp: powerstats_main_def stats_steps split: if_splits prod.splits)
  ultimately show ?thesis unfolding s entity_names by (simp add: s)
qed

theorem entities_have_providers_witness:
  "\<exists>code s. powerstats_main of_nat True 0 0 = (code, s, True) \<and> code = 1 \<and>
     (\<exists>!k. k < length (st_providers s) \<and> 5 \<in> set (provided (st_providers s ! k)))"
proof -
  have ids: "inj_on (of_nat :: nat \<Rightarrow> 32 word) {..<7}"
    by (auto simp: inj_on_def lessThan_nat_numeral lessThan_Suc)
  obtain code s up where run: "powerstats_main of_nat True 0 0 = (code, s, up)"
    by (cases "powerstats_main of_nat True 0 0") auto
  have five: "5 \<in> fst ` set (st_entities s)"
  proof -
    have "fst ` set (st_entities s) = set (map of_nat [0..<7])"
      using entity_ids [of of_nat True 0 0] run by (simp flip: set_map)
    moreover have "5 = (of_nat 5 :: 32 word)" by simp
    moreover have "(5 :: nat) \<in> set [0..<7]" by simp
    ultimately show ?thesis by (metis imageI list.set_map)
  qed
  from entities_have_providers [OF ids run] five run show ?thesis by auto
qed

end
