(* ===== verification/PackedFields.thy ===== *)
theory PackedFields
  imports Prelude
begin

unbundle bit_operations_syntax

text \<open>
  The numbers of the kernel interface that hold several fields, with the macros that build and
  read them: the buffer handles of the camera (media/msm\_camera.h) and of its memory manager
  (media/cam\_req\_mgr.h), the codec register writes (linux/mfd/msm-adie-codec.h and
  linux/mfd/wcd9xxx/wcd9320\_registers.h), the display revisions (linux/msm\_mdp.h) and the sound
  protocol version (sound/asound.h). All are computed on 32 bits.
\<close>

type_synonym u32 = "32 word"

section \<open>A field of a word\<close>

definition field_mask :: "nat \<Rightarrow> nat \<Rightarrow> u32" where
  "field_mask pos width = push_bit pos (mask width)"

definition get_field :: "nat \<Rightarrow> nat \<Rightarrow> u32 \<Rightarrow> u32" where
  "get_field pos width h = take_bit width (drop_bit pos h)"

definition clear_field :: "nat \<Rightarrow> nat \<Rightarrow> u32 \<Rightarrow> u32" where
  "clear_field pos width h = h AND NOT (field_mask pos width)"

definition add_field :: "nat \<Rightarrow> nat \<Rightarrow> u32 \<Rightarrow> u32 \<Rightarrow> u32" where
  "add_field pos width v h = h OR push_bit pos (take_bit width v)"

named_theorems fields

lemma bit_get_field [fields]:
  "bit (get_field pos width h) n \<longleftrightarrow> n < width \<and> pos + n < 32 \<and> bit h (pos + n)"
  by (auto simp: get_field_def bit_take_bit_iff bit_drop_bit_eq dest: bit_imp_le_length)

lemma bit_clear_field [fields]:
  "bit (clear_field pos width h) n \<longleftrightarrow> bit h n \<and> (n < pos \<or> pos + width \<le> n)"
  by (auto simp: clear_field_def field_mask_def bit_and_iff bit_not_iff bit_push_bit_iff bit_mask_iff
      dest: bit_imp_le_length)

lemma bit_add_field [fields]:
  "bit (add_field pos width v h) n \<longleftrightarrow>
     bit h n \<or> n < 32 \<and> pos \<le> n \<and> n < pos + width \<and> bit v (n - pos)"
  by (auto simp: add_field_def bit_or_iff bit_push_bit_iff bit_take_bit_iff dest: bit_imp_le_length)

lemma get_clear_same [simp]: "get_field pos width (clear_field pos width h) = 0"
  by (rule bit_word_eqI) (auto simp: fields)

lemma get_clear_other:
  "pos + width \<le> pos' \<or> pos' + width' \<le> pos \<Longrightarrow>
     get_field pos width (clear_field pos' width' h) = get_field pos width h"
  by (rule bit_word_eqI) (auto simp: fields)

lemma get_add_same:
  "pos + width \<le> 32 \<Longrightarrow> get_field pos width (add_field pos width v h) =
     get_field pos width h OR take_bit width v"
  by (rule bit_word_eqI) (auto simp: fields bit_or_iff bit_take_bit_iff)

lemma get_add_other:
  "pos + width \<le> pos' \<or> pos' + width' \<le> pos \<Longrightarrow>
     get_field pos width (add_field pos' width' v h) = get_field pos width h"
  by (rule bit_word_eqI) (auto simp: fields)


section \<open>Buffer handles of the camera\<close>

text \<open>Four bytes: each a bit that says whether the number in the other seven is valid. A macro
  that assigns to its argument is a function to the new value.\<close>

definition CLR_DEVID_MODE :: "u32 \<Rightarrow> u32" where
  "CLR_DEVID_MODE handle = handle AND 0x00FFFFFF"

definition SET_DEVID_MODE :: "u32 \<Rightarrow> u32 \<Rightarrow> u32" where
  "SET_DEVID_MODE handle data = handle OR (push_bit 31 1 OR push_bit 24 (data AND 0x7F))"

definition GET_DEVID_MODE :: "u32 \<Rightarrow> u32" where
  "GET_DEVID_MODE handle =
     (if handle AND 0x80000000 \<noteq> 0 then drop_bit 24 (handle AND 0x7F000000) else 0xFF)"

definition CLR_IMG_MODE :: "u32 \<Rightarrow> u32" where
  "CLR_IMG_MODE handle = handle AND 0xFF00FFFF"

definition SET_IMG_MODE :: "u32 \<Rightarrow> u32 \<Rightarrow> u32" where
  "SET_IMG_MODE handle data = handle OR (push_bit 23 1 OR push_bit 16 (data AND 0x7F))"

definition GET_IMG_MODE :: "u32 \<Rightarrow> u32" where
  "GET_IMG_MODE handle =
     (if handle AND 0x800000 \<noteq> 0 then drop_bit 16 (handle AND 0x7F0000) else 0xFF)"

definition CLR_MCTLPP_INST_IDX :: "u32 \<Rightarrow> u32" where
  "CLR_MCTLPP_INST_IDX handle = handle AND 0xFFFF00FF"

definition SET_MCTLPP_INST_IDX :: "u32 \<Rightarrow> u32 \<Rightarrow> u32" where
  "SET_MCTLPP_INST_IDX handle data = handle OR (push_bit 15 1 OR push_bit 8 (data AND 0x7F))"

definition GET_MCTLPP_INST_IDX :: "u32 \<Rightarrow> u32" where
  "GET_MCTLPP_INST_IDX handle =
     (if handle AND 0x8000 \<noteq> 0 then drop_bit 8 (handle AND 0x7F00) else 0xFF)"

definition CLR_VIDEO_INST_IDX :: "u32 \<Rightarrow> u32" where
  "CLR_VIDEO_INST_IDX handle = handle AND 0xFFFFFF00"

definition GET_VIDEO_INST_IDX :: "u32 \<Rightarrow> u32" where
  "GET_VIDEO_INST_IDX handle =
     (if handle AND 0x80 \<noteq> 0 then handle AND 0x7F else 0xFF)"

definition SET_VIDEO_INST_IDX :: "u32 \<Rightarrow> u32 \<Rightarrow> u32" where
  "SET_VIDEO_INST_IDX handle data = handle OR push_bit 7 1 OR (data AND 0x7F)"

text \<open>What the three macros of a field at bit \<open>pos\<close> have in common.\<close>

locale handle_field =
  fixes pos :: nat and clr :: "u32 \<Rightarrow> u32" and upd :: "u32 \<Rightarrow> u32 \<Rightarrow> u32" and get :: "u32 \<Rightarrow> u32"
  assumes in_word: "pos + 8 \<le> 32"
    and clr: "clr h = clear_field pos 8 h"
    and upd: "upd h d = add_field pos 7 d (add_field (pos + 7) 1 1 h)"
    and get: "get h = (if get_field (pos + 7) 1 h \<noteq> 0 then get_field pos 7 h else 0xFF)"
begin

lemma part_clear: "pos \<le> p \<Longrightarrow> p + w \<le> pos + 8 \<Longrightarrow> get_field p w (clear_field pos 8 h) = 0"
  by (rule bit_word_eqI) (auto simp: fields)

lemma get_clr: "get (clr h) = 0xFF"
  by (simp add: get clr part_clear)

lemma get_upd: "get (upd (clr h) d) = d AND 0x7F"
proof -
  have "take_bit 7 d = d AND 0x7F" by (simp add: take_bit_eq_mask mask_eq_exp_minus_1)
  moreover have "take_bit (Suc 0) (1 :: u32) = 1" by simp
  ultimately show ?thesis
    using in_word by (simp add: get upd clr get_add_same get_add_other part_clear)
qed

lemma get_other:
  "q + 8 \<le> pos \<or> pos + 8 \<le> q \<Longrightarrow>
     get (add_field q 7 d (add_field (q + 7) 1 1 (clear_field q 8 h))) = get h"
  by (auto simp: get get_add_other get_clear_other)

end

lemma masked_get: "drop_bit p (h AND push_bit p (mask w)) = get_field p w h"
  by (rule bit_word_eqI) (auto simp: fields bit_drop_bit_eq bit_and_iff bit_push_bit_iff bit_mask_iff
    dest: bit_imp_le_length)

lemma flag_bit: "get_field p (Suc 0) (h :: u32) \<noteq> 0 \<longleftrightarrow> bit h p"
proof
  assume "get_field p (Suc 0) h \<noteq> 0"
  then obtain n where "bit (get_field p (Suc 0) h) n" by (auto simp: bit_eq_iff)
  then show "bit h p" by (auto simp: fields)
next
  assume b: "bit h p"
  then have "bit (get_field p (Suc 0) h) 0" by (auto simp: fields dest: bit_imp_le_length)
  then show "get_field p (Suc 0) h \<noteq> 0" by auto
qed

lemma masked_flag: "h AND push_bit p 1 \<noteq> 0 \<longleftrightarrow> get_field p (Suc 0) (h :: u32) \<noteq> 0"
  by (simp add: flag_bit push_bit_of_1 and_exp_eq_0_iff_not_bit)

lemma clear_by_mask: "m = NOT (push_bit p (mask w)) \<Longrightarrow> h AND m = clear_field p w h"
  by (simp add: clear_field_def field_mask_def)

lemma upd_by_or:
  "q = p + 7 \<Longrightarrow> h OR (push_bit q 1 OR push_bit p (d AND 0x7F)) = add_field p 7 d (add_field (p + 7) 1 1 h)"
proof -
  have "d AND 0x7F = take_bit 7 d" by (simp add: take_bit_eq_mask mask_eq_exp_minus_1)
  then show "q = p + 7 \<Longrightarrow> ?thesis"
    by (simp add: add_field_def ac_simps)
qed

interpretation devid: handle_field 24 CLR_DEVID_MODE SET_DEVID_MODE GET_DEVID_MODE
proof
  fix h d
  show "CLR_DEVID_MODE h = clear_field 24 8 h"
    unfolding CLR_DEVID_MODE_def by (rule clear_by_mask) code_simp
  show "SET_DEVID_MODE h d = add_field 24 7 d (add_field (24 + 7) 1 1 h)"
    unfolding SET_DEVID_MODE_def by (rule upd_by_or) simp
  show "GET_DEVID_MODE h = (if get_field (24 + 7) 1 h \<noteq> 0 then get_field 24 7 h else 0xFF)"
    using masked_flag [of h 31] masked_get [of 24 h 7]
    by (simp add: GET_DEVID_MODE_def mask_eq_exp_minus_1)
qed simp

interpretation img: handle_field 16 CLR_IMG_MODE SET_IMG_MODE GET_IMG_MODE
proof
  fix h d
  show "CLR_IMG_MODE h = clear_field 16 8 h"
    unfolding CLR_IMG_MODE_def by (rule clear_by_mask) code_simp
  show "SET_IMG_MODE h d = add_field 16 7 d (add_field (16 + 7) 1 1 h)"
    unfolding SET_IMG_MODE_def by (rule upd_by_or) simp
  show "GET_IMG_MODE h = (if get_field (16 + 7) 1 h \<noteq> 0 then get_field 16 7 h else 0xFF)"
    using masked_flag [of h 23] masked_get [of 16 h 7]
    by (simp add: GET_IMG_MODE_def mask_eq_exp_minus_1)
qed simp

interpretation mctlpp: handle_field 8 CLR_MCTLPP_INST_IDX SET_MCTLPP_INST_IDX GET_MCTLPP_INST_IDX
proof
  fix h d
  show "CLR_MCTLPP_INST_IDX h = clear_field 8 8 h"
    unfolding CLR_MCTLPP_INST_IDX_def by (rule clear_by_mask) code_simp
  show "SET_MCTLPP_INST_IDX h d = add_field 8 7 d (add_field (8 + 7) 1 1 h)"
    unfolding SET_MCTLPP_INST_IDX_def by (rule upd_by_or) simp
  show "GET_MCTLPP_INST_IDX h = (if get_field (8 + 7) 1 h \<noteq> 0 then get_field 8 7 h else 0xFF)"
    using masked_flag [of h 15] masked_get [of 8 h 7]
    by (simp add: GET_MCTLPP_INST_IDX_def mask_eq_exp_minus_1)
qed simp

interpretation video: handle_field 0 CLR_VIDEO_INST_IDX SET_VIDEO_INST_IDX GET_VIDEO_INST_IDX
proof
  fix h d
  show "CLR_VIDEO_INST_IDX h = clear_field 0 8 h"
    unfolding CLR_VIDEO_INST_IDX_def by (rule clear_by_mask) code_simp
  show "SET_VIDEO_INST_IDX h d = add_field 0 7 d (add_field (0 + 7) 1 1 h)"
    using upd_by_or [of 7 0 h d] by (simp add: SET_VIDEO_INST_IDX_def)
  show "GET_VIDEO_INST_IDX h = (if get_field (0 + 7) 1 h \<noteq> 0 then get_field 0 7 h else 0xFF)"
    using masked_flag [of h 7] masked_get [of 0 h 7]
    by (simp add: GET_VIDEO_INST_IDX_def mask_eq_exp_minus_1)
qed simp

text \<open>The four fields by name, to say what holds of any two of them.\<close>

datatype handle_part = DEVID | IMG | MCTLPP | VIDEO

fun handle_get :: "handle_part \<Rightarrow> u32 \<Rightarrow> u32" where
  "handle_get DEVID = GET_DEVID_MODE"
| "handle_get IMG = GET_IMG_MODE"
| "handle_get MCTLPP = GET_MCTLPP_INST_IDX"
| "handle_get VIDEO = GET_VIDEO_INST_IDX"

fun handle_clr :: "handle_part \<Rightarrow> u32 \<Rightarrow> u32" where
  "handle_clr DEVID = CLR_DEVID_MODE"
| "handle_clr IMG = CLR_IMG_MODE"
| "handle_clr MCTLPP = CLR_MCTLPP_INST_IDX"
| "handle_clr VIDEO = CLR_VIDEO_INST_IDX"

fun handle_set :: "handle_part \<Rightarrow> u32 \<Rightarrow> u32 \<Rightarrow> u32" where
  "handle_set DEVID = SET_DEVID_MODE"
| "handle_set IMG = SET_IMG_MODE"
| "handle_set MCTLPP = SET_MCTLPP_INST_IDX"
| "handle_set VIDEO = SET_VIDEO_INST_IDX"

fun part_pos :: "handle_part \<Rightarrow> nat" where
  "part_pos DEVID = 24"
| "part_pos IMG = 16"
| "part_pos MCTLPP = 8"
| "part_pos VIDEO = 0"

lemma handle_upd_clr:
  "handle_set f (handle_clr f h) d =
     add_field (part_pos f) 7 d (add_field (part_pos f + 7) 1 1 (clear_field (part_pos f) 8 h))"
  by (cases f) (simp_all only: handle_set.simps handle_clr.simps part_pos.simps devid.upd devid.clr
      img.upd img.clr mctlpp.upd mctlpp.clr video.upd video.clr)

lemma handle_get_upd: "handle_get f (handle_set f (handle_clr f h) d) = d AND 0x7F"
  by (cases f) (simp_all add: devid.get_upd img.get_upd mctlpp.get_upd video.get_upd)

lemma handle_get_clr: "handle_get f (handle_clr f h) = 0xFF"
  by (cases f) (simp_all add: devid.get_clr img.get_clr mctlpp.get_clr video.get_clr)

lemma handle_get_other:
  assumes "g \<noteq> f"
  shows "handle_get g (handle_set f (handle_clr f h) d) = handle_get g h"
proof -
  have apart: "part_pos f + 8 \<le> part_pos g \<or> part_pos g + 8 \<le> part_pos f"
    using assms by (cases f; cases g) simp_all
  show ?thesis unfolding handle_upd_clr using apart
    by (cases g) (simp_all only: handle_get.simps part_pos.simps devid.get_other img.get_other
        mctlpp.get_other video.get_other)
qed

text \<open>Without clearing first the new number is mixed with the old one.\<close>

lemma set_without_clear:
  "GET_DEVID_MODE (SET_DEVID_MODE (SET_DEVID_MODE 0 1) 2) = 3"
  by (simp add: GET_DEVID_MODE_def SET_DEVID_MODE_def)


section \<open>Handles of the camera's memory manager\<close>

definition CAM_REQ_MGR_HDL_IDX_POS :: nat where "CAM_REQ_MGR_HDL_IDX_POS = 8"
definition CAM_REQ_MGR_HDL_IDX_MASK :: u32 where
  "CAM_REQ_MGR_HDL_IDX_MASK = push_bit CAM_REQ_MGR_HDL_IDX_POS 1 - 1"
definition CAM_REQ_MGR_GET_HDL_IDX :: "u32 \<Rightarrow> u32" where
  "CAM_REQ_MGR_GET_HDL_IDX hdl = hdl AND CAM_REQ_MGR_HDL_IDX_MASK"

definition CAM_MEM_MGR_SECURE_BIT_POS :: nat where "CAM_MEM_MGR_SECURE_BIT_POS = 15"
definition CAM_MEM_MGR_HDL_IDX_SIZE :: nat where "CAM_MEM_MGR_HDL_IDX_SIZE = 15"
definition CAM_MEM_MGR_HDL_FD_SIZE :: nat where "CAM_MEM_MGR_HDL_FD_SIZE = 16"
definition CAM_MEM_MGR_HDL_FD_END_POS :: nat where "CAM_MEM_MGR_HDL_FD_END_POS = 32"

definition CAM_MEM_MGR_HDL_IDX_MASK :: u32 where
  "CAM_MEM_MGR_HDL_IDX_MASK = push_bit CAM_MEM_MGR_HDL_IDX_SIZE 1 - 1"

definition GET_MEM_HANDLE :: "u32 \<Rightarrow> u32 \<Rightarrow> u32" where
  "GET_MEM_HANDLE idx fd =
     (idx AND CAM_MEM_MGR_HDL_IDX_MASK) OR
     push_bit (CAM_MEM_MGR_HDL_FD_END_POS - CAM_MEM_MGR_HDL_FD_SIZE) fd"

definition CAM_MEM_MGR_GET_HDL_IDX :: "u32 \<Rightarrow> u32" where
  "CAM_MEM_MGR_GET_HDL_IDX hdl = hdl AND CAM_MEM_MGR_HDL_IDX_MASK"

definition CAM_MEM_MGR_SET_SECURE_HDL :: "u32 \<Rightarrow> u32 \<Rightarrow> u32" where
  "CAM_MEM_MGR_SET_SECURE_HDL hdl flag =
     (if flag \<noteq> 0 then hdl OR push_bit CAM_MEM_MGR_SECURE_BIT_POS 1
      else hdl AND NOT (push_bit CAM_MEM_MGR_SECURE_BIT_POS 1))"

definition CAM_MEM_MGR_IS_SECURE_HDL :: "u32 \<Rightarrow> u32" where
  "CAM_MEM_MGR_IS_SECURE_HDL hdl =
     drop_bit CAM_MEM_MGR_SECURE_BIT_POS (hdl AND push_bit CAM_MEM_MGR_SECURE_BIT_POS 1)"

lemmas mem_consts = CAM_MEM_MGR_SECURE_BIT_POS_def CAM_MEM_MGR_HDL_IDX_SIZE_def
  CAM_MEM_MGR_HDL_FD_SIZE_def CAM_MEM_MGR_HDL_FD_END_POS_def

lemma mask_15: "CAM_MEM_MGR_HDL_IDX_MASK = mask 15"
  by (simp add: CAM_MEM_MGR_HDL_IDX_MASK_def mem_consts mask_eq_exp_minus_1)

lemma mem_handle_fields: "GET_MEM_HANDLE idx fd = add_field 16 16 fd (add_field 0 15 idx 0)"
proof -
  have "idx AND mask 15 = take_bit 15 idx" by (simp add: take_bit_eq_mask)
  moreover have "push_bit 16 fd = push_bit 16 (take_bit 16 fd)"
    by (rule bit_word_eqI) (auto simp: bit_push_bit_iff bit_take_bit_iff dest: bit_imp_le_length)
  ultimately show ?thesis
    by (simp add: GET_MEM_HANDLE_def mem_consts mask_15 add_field_def ac_simps)
qed

lemma mem_idx_field: "CAM_MEM_MGR_GET_HDL_IDX hdl = get_field 0 15 hdl"
  by (simp add: CAM_MEM_MGR_GET_HDL_IDX_def mem_consts mask_15 get_field_def take_bit_eq_mask)

lemma mem_secure_field: "CAM_MEM_MGR_IS_SECURE_HDL hdl = get_field 15 1 hdl"
  using masked_get [of 15 hdl 1] by (simp add: CAM_MEM_MGR_IS_SECURE_HDL_def mem_consts)

lemma mem_set_secure_field:
  "CAM_MEM_MGR_SET_SECURE_HDL hdl flag =
     (if flag \<noteq> 0 then add_field 15 1 1 hdl else clear_field 15 1 hdl)"
  by (simp add: CAM_MEM_MGR_SET_SECURE_HDL_def mem_consts add_field_def clear_field_def field_mask_def)

section \<open>Register writes in one word\<close>

definition ADIE_CODEC_PACK_ENTRY :: "u32 \<Rightarrow> u32 \<Rightarrow> u32 \<Rightarrow> u32" where
  "ADIE_CODEC_PACK_ENTRY reg msk val = val OR push_bit 8 msk OR push_bit 16 reg"

definition ADIE_CODEC_UNPACK_ENTRY :: "u32 \<Rightarrow> u32 \<times> u32 \<times> u32" where
  "ADIE_CODEC_UNPACK_ENTRY packed =
     (drop_bit 16 packed AND 0xff, drop_bit 8 packed AND 0xff, packed AND 0xff)"

definition TAIKO_CODEC_PACK_ENTRY :: "u32 \<Rightarrow> u32 \<Rightarrow> u32 \<Rightarrow> u32" where
  "TAIKO_CODEC_PACK_ENTRY reg msk val =
     (val AND 0xff) OR push_bit 8 (msk AND 0xff) OR push_bit 16 (reg AND 0xffff)"

definition TAIKO_CODEC_UNPACK_ENTRY :: "u32 \<Rightarrow> u32 \<times> u32 \<times> u32" where
  "TAIKO_CODEC_UNPACK_ENTRY packed =
     (drop_bit 16 packed AND 0xffff, drop_bit 8 packed AND 0xff, packed AND 0xff)"

lemma and_byte: "(v :: u32) AND 0xff = take_bit 8 v" "v AND 0xffff = take_bit 16 v"
  by (simp_all add: take_bit_eq_mask mask_eq_exp_minus_1)

lemma taiko_pack_fields:
  "TAIKO_CODEC_PACK_ENTRY reg msk val = add_field 16 16 reg (add_field 8 8 msk (add_field 0 8 val 0))"
  by (simp add: TAIKO_CODEC_PACK_ENTRY_def and_byte add_field_def ac_simps)

lemma taiko_unpack_fields:
  "TAIKO_CODEC_UNPACK_ENTRY packed =
     (get_field 16 16 packed, get_field 8 8 packed, get_field 0 8 packed)"
  by (simp add: TAIKO_CODEC_UNPACK_ENTRY_def and_byte get_field_def)

lemma get_zero [simp]: "get_field p w 0 = 0"
  by (simp add: get_field_def)

lemma taiko_unpack_pack:
  "TAIKO_CODEC_UNPACK_ENTRY (TAIKO_CODEC_PACK_ENTRY reg msk val) =
     (reg AND 0xffff, msk AND 0xff, val AND 0xff)"
  by (simp add: taiko_pack_fields taiko_unpack_fields get_add_same get_add_other and_byte)

lemma add_get_next: "p + w \<le> 32 \<Longrightarrow> add_field p w (get_field p w h) (take_bit p h) = take_bit (p + w) h"
proof (rule bit_word_eqI)
  fix n assume "p + w \<le> 32" "n < LENGTH(32)"
  then show "bit (add_field p w (get_field p w h) (take_bit p h)) n = bit (take_bit (p + w) h) n"
    by (cases "p \<le> n") (auto simp: fields bit_take_bit_iff less_diff_conv2 add.commute)
qed

lemma taiko_pack_unpack:
  "case TAIKO_CODEC_UNPACK_ENTRY packed of (reg, msk, val) \<Rightarrow>
     TAIKO_CODEC_PACK_ENTRY reg msk val = packed"
  using add_get_next [of 0 8 packed] add_get_next [of 8 8 packed] add_get_next [of 16 16 packed]
    take_bit_length_eq [of packed]
  by (simp add: taiko_pack_fields taiko_unpack_fields)

text \<open>The older macro does not mask: it agrees on bytes.\<close>

lemma adie_pack_bytes:
  assumes "reg AND 0xff = reg" and "msk AND 0xff = msk" and "val AND 0xff = val"
  shows "ADIE_CODEC_UNPACK_ENTRY (ADIE_CODEC_PACK_ENTRY reg msk val) = (reg, msk, val)"
proof -
  have "reg AND 0xffff = (reg AND 0xff) AND 0xffff" by (simp only: assms(1))
  also have "\<dots> = reg" by (simp only: and.assoc) (simp add: assms(1))
  finally have wide: "reg AND 0xffff = reg" .
  have "ADIE_CODEC_PACK_ENTRY reg msk val = TAIKO_CODEC_PACK_ENTRY reg msk val"
    using assms wide by (simp add: ADIE_CODEC_PACK_ENTRY_def TAIKO_CODEC_PACK_ENTRY_def)
  moreover have "ADIE_CODEC_UNPACK_ENTRY p =
      (case TAIKO_CODEC_UNPACK_ENTRY p of (r, m, v) \<Rightarrow> (r AND 0xff, m, v))" for p
    by (simp add: ADIE_CODEC_UNPACK_ENTRY_def TAIKO_CODEC_UNPACK_ENTRY_def and.assoc)
  ultimately show ?thesis using taiko_unpack_pack [of reg msk val] assms wide by simp
qed


section \<open>Versions and revisions\<close>

definition SNDRV_PROTOCOL_VERSION :: "u32 \<Rightarrow> u32 \<Rightarrow> u32 \<Rightarrow> u32" where
  "SNDRV_PROTOCOL_VERSION major minor subminor = push_bit 16 major OR push_bit 8 minor OR subminor"

definition SNDRV_PROTOCOL_MAJOR :: "u32 \<Rightarrow> u32" where
  "SNDRV_PROTOCOL_MAJOR version = drop_bit 16 version AND 0xffff"

definition SNDRV_PROTOCOL_MINOR :: "u32 \<Rightarrow> u32" where
  "SNDRV_PROTOCOL_MINOR version = drop_bit 8 version AND 0xff"

definition SNDRV_PROTOCOL_MICRO :: "u32 \<Rightarrow> u32" where
  "SNDRV_PROTOCOL_MICRO version = version AND 0xff"

definition SNDRV_PROTOCOL_INCOMPATIBLE :: "u32 \<Rightarrow> u32 \<Rightarrow> bool" where
  "SNDRV_PROTOCOL_INCOMPATIBLE kversion uversion \<longleftrightarrow>
     SNDRV_PROTOCOL_MAJOR kversion \<noteq> SNDRV_PROTOCOL_MAJOR uversion \<or>
     (SNDRV_PROTOCOL_MAJOR kversion = SNDRV_PROTOCOL_MAJOR uversion \<and>
      SNDRV_PROTOCOL_MINOR kversion \<noteq> SNDRV_PROTOCOL_MINOR uversion)"

definition SNDRV_HWDEP_VERSION :: u32 where "SNDRV_HWDEP_VERSION = SNDRV_PROTOCOL_VERSION 1 0 1"
definition SNDRV_PCM_VERSION :: u32 where "SNDRV_PCM_VERSION = SNDRV_PROTOCOL_VERSION 2 0 13"
definition SNDRV_RAWMIDI_VERSION :: u32 where "SNDRV_RAWMIDI_VERSION = SNDRV_PROTOCOL_VERSION 2 0 0"
definition SNDRV_TIMER_VERSION :: u32 where "SNDRV_TIMER_VERSION = SNDRV_PROTOCOL_VERSION 2 0 6"
definition SNDRV_CTL_VERSION :: u32 where "SNDRV_CTL_VERSION = SNDRV_PROTOCOL_VERSION 2 0 7"

text \<open>Two versions are compatible exactly if they differ in the last byte only.\<close>

lemma incompatible_upper_bytes:
  "SNDRV_PROTOCOL_INCOMPATIBLE k u \<longleftrightarrow> drop_bit 8 k \<noteq> drop_bit 8 u"
proof -
  have maj: "SNDRV_PROTOCOL_MAJOR v = get_field 16 16 v"
    and mnr: "SNDRV_PROTOCOL_MINOR v = get_field 8 8 v" for v
    by (simp_all add: SNDRV_PROTOCOL_MAJOR_def SNDRV_PROTOCOL_MINOR_def and_byte get_field_def)
  have parts: "drop_bit 8 v = add_field 8 16 (SNDRV_PROTOCOL_MAJOR v) (add_field 0 8 (SNDRV_PROTOCOL_MINOR v) 0)"
    for v unfolding maj mnr
  proof (rule bit_word_eqI)
    fix n assume n: "n < LENGTH(32)"
    show "bit (drop_bit 8 v) n =
      bit (add_field 8 16 (get_field 16 16 v) (add_field 0 8 (get_field 8 8 v) 0)) n"
    proof (cases "n < 8")
      case True
      then show ?thesis by (simp add: fields bit_drop_bit_eq)
    next
      case False
      then obtain m where "n = 8 + m" using le_Suc_ex linorder_not_less by blast
      then show ?thesis by (auto simp: fields bit_drop_bit_eq dest: bit_imp_le_length)
    qed
  qed
  have "SNDRV_PROTOCOL_MAJOR k = SNDRV_PROTOCOL_MAJOR u \<and> SNDRV_PROTOCOL_MINOR k = SNDRV_PROTOCOL_MINOR u"
    if "drop_bit 8 k = drop_bit 8 u"
    using that drop_bit_drop_bit [of 8 8 k] drop_bit_drop_bit [of 8 8 u]
    by (simp add: SNDRV_PROTOCOL_MAJOR_def SNDRV_PROTOCOL_MINOR_def)
  with parts [of k] parts [of u] show ?thesis unfolding SNDRV_PROTOCOL_INCOMPATIBLE_def by metis
qed

definition MDSS_GET_MAJOR :: "u32 \<Rightarrow> u32" where "MDSS_GET_MAJOR r = drop_bit 28 r"
definition MDSS_GET_MINOR :: "u32 \<Rightarrow> u32" where
  "MDSS_GET_MINOR r = drop_bit 16 r AND 0xFFF"
definition MDSS_GET_STEP :: "u32 \<Rightarrow> u32" where "MDSS_GET_STEP r = r AND 0xFFFF"
definition MDSS_GET_MAJOR_MINOR :: "u32 \<Rightarrow> u32" where
  "MDSS_GET_MAJOR_MINOR r = drop_bit 16 r"

definition IS_MDSS_MAJOR_MINOR_SAME :: "u32 \<Rightarrow> u32 \<Rightarrow> bool" where
  "IS_MDSS_MAJOR_MINOR_SAME rev1 rev2 \<longleftrightarrow> MDSS_GET_MAJOR_MINOR rev1 = MDSS_GET_MAJOR_MINOR rev2"

definition MDSS_MDP_REV :: "u32 \<Rightarrow> u32 \<Rightarrow> u32 \<Rightarrow> u32" where
  "MDSS_MDP_REV major minor step =
     push_bit 28 (major AND 0x000F) OR push_bit 16 (minor AND 0x0FFF) OR (step AND 0xFFFF)"

definition mdss_revisions :: "u32 list" where
  "mdss_revisions =
     [MDSS_MDP_REV 1 0 0, MDSS_MDP_REV 1 1 0, MDSS_MDP_REV 1 1 1, MDSS_MDP_REV 1 1 2,
      MDSS_MDP_REV 1 2 0, MDSS_MDP_REV 1 2 1, MDSS_MDP_REV 1 3 0, MDSS_MDP_REV 1 3 1,
      MDSS_MDP_REV 1 5 0, MDSS_MDP_REV 1 6 0, MDSS_MDP_REV 1 7 0, MDSS_MDP_REV 1 7 1,
      MDSS_MDP_REV 1 7 2, MDSS_MDP_REV 1 8 0, MDSS_MDP_REV 1 9 0, MDSS_MDP_REV 1 10 0,
      MDSS_MDP_REV 2 0 0, MDSS_MDP_REV 1 12 0, MDSS_MDP_REV 1 14 0, MDSS_MDP_REV 1 15 0,
      MDSS_MDP_REV 1 16 0, MDSS_MDP_REV 3 0 0, MDSS_MDP_REV 3 0 1]"

lemma mdss_rev_fields:
  "MDSS_MDP_REV major minor step = add_field 28 4 major (add_field 16 12 minor (add_field 0 16 step 0))"
proof -
  have "major AND 0x000F = take_bit 4 major" "minor AND 0x0FFF = take_bit 12 minor"
    by (simp_all add: take_bit_eq_mask mask_eq_exp_minus_1)
  then show ?thesis by (simp add: MDSS_MDP_REV_def and_byte add_field_def ac_simps)
qed

lemma mdss_get_fields:
  "MDSS_GET_MAJOR r = get_field 28 4 r" "MDSS_GET_MINOR r = get_field 16 12 r"
  "MDSS_GET_STEP r = get_field 0 16 r"
proof -
  show "MDSS_GET_MAJOR r = get_field 28 4 r"
    by (rule bit_word_eqI) (auto simp: MDSS_GET_MAJOR_def fields bit_drop_bit_eq dest: bit_imp_le_length)
  show "MDSS_GET_MINOR r = get_field 16 12 r" "MDSS_GET_STEP r = get_field 0 16 r"
    by (simp_all add: MDSS_GET_MINOR_def MDSS_GET_STEP_def get_field_def take_bit_eq_mask
        mask_eq_exp_minus_1)
qed

lemma mdss_rev_parts:
  "MDSS_GET_MAJOR (MDSS_MDP_REV major minor step) = major AND 0x000F"
  "MDSS_GET_MINOR (MDSS_MDP_REV major minor step) = minor AND 0x0FFF"
  "MDSS_GET_STEP (MDSS_MDP_REV major minor step) = step AND 0xFFFF"
  by (simp_all add: mdss_get_fields mdss_rev_fields get_add_same get_add_other take_bit_eq_mask
      mask_eq_exp_minus_1)

lemma mdss_revisions_distinct: "distinct mdss_revisions"
  by (simp add: mdss_revisions_def MDSS_MDP_REV_def)


section \<open>Properties\<close>

text \<open>C40: Clearing and then setting a field of a buffer handle gives the seven bits stored and
  changes none of the other three fields, and a cleared field reads as not valid.\<close>

theorem handle_fields_independent:
  "handle_get g (handle_set f (handle_clr f h) d) = (if g = f then d AND 0x7F else handle_get g h) \<and>
   handle_get f (handle_clr f h) = 0xFF"
  by (simp add: handle_get_upd handle_get_other handle_get_clr)

text \<open>A memory handle gives back the low 15 bits of the index and the low 16 bits of the
  descriptor, it is not secure until it is marked, and marking changes neither of them.\<close>

theorem mem_handle_reads_back:
  "CAM_MEM_MGR_GET_HDL_IDX (CAM_MEM_MGR_SET_SECURE_HDL (GET_MEM_HANDLE idx fd) flag) = idx AND 0x7FFF \<and>
   drop_bit 16 (CAM_MEM_MGR_SET_SECURE_HDL (GET_MEM_HANDLE idx fd) flag) = fd AND 0xFFFF \<and>
   CAM_MEM_MGR_IS_SECURE_HDL (GET_MEM_HANDLE idx fd) = 0 \<and>
   CAM_MEM_MGR_IS_SECURE_HDL (CAM_MEM_MGR_SET_SECURE_HDL (GET_MEM_HANDLE idx fd) flag) =
     (if flag \<noteq> 0 then 1 else 0)"
proof -
  have idx: "take_bit 15 idx = idx AND 0x7FFF"
    by (simp add: take_bit_eq_mask mask_eq_exp_minus_1)
  have upper: "drop_bit 16 h = get_field 16 16 h" for h :: u32
    by (rule bit_word_eqI) (auto simp: fields bit_drop_bit_eq dest: bit_imp_le_length)
  show ?thesis
    by (simp add: mem_idx_field mem_secure_field mem_set_secure_field mem_handle_fields upper
        get_add_same get_add_other get_clear_other get_clear_same [where width = "Suc 0"] idx and_byte)
qed

text \<open>Packing a codec register write and unpacking it gives the register's low 16 bits and the
  low bytes of mask and value; and every 32-bit word is the packing of what it unpacks to, so
  nothing is lost in either direction.\<close>

theorem codec_entry_reads_back:
  "TAIKO_CODEC_UNPACK_ENTRY (TAIKO_CODEC_PACK_ENTRY reg msk val) =
     (reg AND 0xffff, msk AND 0xff, val AND 0xff) \<and>
   (case TAIKO_CODEC_UNPACK_ENTRY packed of (reg, msk, val) \<Rightarrow>
      TAIKO_CODEC_PACK_ENTRY reg msk val = packed)"
  using taiko_unpack_pack taiko_pack_unpack by simp

end
