(* ===== verification/VideoFormats.thy ===== *)
theory VideoFormats
  imports PackedFields
begin

unbundle bit_operations_syntax

text \<open>
  The code of linux/videodev2.h: the fields of an interlaced frame and the kinds of buffers with
  the macros that classify them, the colour spaces with the macros that choose the defaults, the
  blanking of a digital video timing, and the four-character codes of the pixel formats.
\<close>

section \<open>Four-character codes\<close>

definition v4l2_fourcc :: "char \<Rightarrow> char \<Rightarrow> char \<Rightarrow> char \<Rightarrow> u32" where
  "v4l2_fourcc a b c d =
     of_char a OR push_bit 8 (of_char b) OR push_bit 16 (of_char c) OR push_bit 24 (of_char d)"

definition v4l2_fourcc_be :: "char \<Rightarrow> char \<Rightarrow> char \<Rightarrow> char \<Rightarrow> u32" where
  "v4l2_fourcc_be a b c d = v4l2_fourcc a b c d OR push_bit 31 1"

section \<open>Fields and buffers\<close>

datatype v4l2_field =
    V4L2_FIELD_ANY
  | V4L2_FIELD_NONE
  | V4L2_FIELD_TOP
  | V4L2_FIELD_BOTTOM
  | V4L2_FIELD_INTERLACED
  | V4L2_FIELD_SEQ_TB
  | V4L2_FIELD_SEQ_BT
  | V4L2_FIELD_ALTERNATE
  | V4L2_FIELD_INTERLACED_TB
  | V4L2_FIELD_INTERLACED_BT

fun v4l2_field_num :: "v4l2_field \<Rightarrow> u32" where
  "v4l2_field_num V4L2_FIELD_ANY = 0"
| "v4l2_field_num V4L2_FIELD_NONE = 1"
| "v4l2_field_num V4L2_FIELD_TOP = 2"
| "v4l2_field_num V4L2_FIELD_BOTTOM = 3"
| "v4l2_field_num V4L2_FIELD_INTERLACED = 4"
| "v4l2_field_num V4L2_FIELD_SEQ_TB = 5"
| "v4l2_field_num V4L2_FIELD_SEQ_BT = 6"
| "v4l2_field_num V4L2_FIELD_ALTERNATE = 7"
| "v4l2_field_num V4L2_FIELD_INTERLACED_TB = 8"
| "v4l2_field_num V4L2_FIELD_INTERLACED_BT = 9"

definition V4L2_FIELD_HAS_TOP :: "v4l2_field \<Rightarrow> bool" where
  "V4L2_FIELD_HAS_TOP field \<longleftrightarrow>
     field = V4L2_FIELD_TOP \<or>
     field = V4L2_FIELD_INTERLACED \<or>
     field = V4L2_FIELD_INTERLACED_TB \<or>
     field = V4L2_FIELD_INTERLACED_BT \<or>
     field = V4L2_FIELD_SEQ_TB \<or>
     field = V4L2_FIELD_SEQ_BT"

definition V4L2_FIELD_HAS_BOTTOM :: "v4l2_field \<Rightarrow> bool" where
  "V4L2_FIELD_HAS_BOTTOM field \<longleftrightarrow>
     field = V4L2_FIELD_BOTTOM \<or>
     field = V4L2_FIELD_INTERLACED \<or>
     field = V4L2_FIELD_INTERLACED_TB \<or>
     field = V4L2_FIELD_INTERLACED_BT \<or>
     field = V4L2_FIELD_SEQ_TB \<or>
     field = V4L2_FIELD_SEQ_BT"

definition V4L2_FIELD_HAS_BOTH :: "v4l2_field \<Rightarrow> bool" where
  "V4L2_FIELD_HAS_BOTH field \<longleftrightarrow>
     field = V4L2_FIELD_INTERLACED \<or>
     field = V4L2_FIELD_INTERLACED_TB \<or>
     field = V4L2_FIELD_INTERLACED_BT \<or>
     field = V4L2_FIELD_SEQ_TB \<or>
     field = V4L2_FIELD_SEQ_BT"

definition V4L2_FIELD_HAS_T_OR_B :: "v4l2_field \<Rightarrow> bool" where
  "V4L2_FIELD_HAS_T_OR_B field \<longleftrightarrow>
     field = V4L2_FIELD_BOTTOM \<or>
     field = V4L2_FIELD_TOP \<or>
     field = V4L2_FIELD_ALTERNATE"

datatype v4l2_buf_type =
    V4L2_BUF_TYPE_VIDEO_CAPTURE
  | V4L2_BUF_TYPE_VIDEO_OUTPUT
  | V4L2_BUF_TYPE_VIDEO_OVERLAY
  | V4L2_BUF_TYPE_VBI_CAPTURE
  | V4L2_BUF_TYPE_VBI_OUTPUT
  | V4L2_BUF_TYPE_SLICED_VBI_CAPTURE
  | V4L2_BUF_TYPE_SLICED_VBI_OUTPUT
  | V4L2_BUF_TYPE_VIDEO_OUTPUT_OVERLAY
  | V4L2_BUF_TYPE_VIDEO_CAPTURE_MPLANE
  | V4L2_BUF_TYPE_VIDEO_OUTPUT_MPLANE
  | V4L2_BUF_TYPE_SDR_CAPTURE
  | V4L2_BUF_TYPE_SDR_OUTPUT
  | V4L2_BUF_TYPE_PRIVATE

fun v4l2_buf_type_num :: "v4l2_buf_type \<Rightarrow> u32" where
  "v4l2_buf_type_num V4L2_BUF_TYPE_VIDEO_CAPTURE = 1"
| "v4l2_buf_type_num V4L2_BUF_TYPE_VIDEO_OUTPUT = 2"
| "v4l2_buf_type_num V4L2_BUF_TYPE_VIDEO_OVERLAY = 3"
| "v4l2_buf_type_num V4L2_BUF_TYPE_VBI_CAPTURE = 4"
| "v4l2_buf_type_num V4L2_BUF_TYPE_VBI_OUTPUT = 5"
| "v4l2_buf_type_num V4L2_BUF_TYPE_SLICED_VBI_CAPTURE = 6"
| "v4l2_buf_type_num V4L2_BUF_TYPE_SLICED_VBI_OUTPUT = 7"
| "v4l2_buf_type_num V4L2_BUF_TYPE_VIDEO_OUTPUT_OVERLAY = 8"
| "v4l2_buf_type_num V4L2_BUF_TYPE_VIDEO_CAPTURE_MPLANE = 9"
| "v4l2_buf_type_num V4L2_BUF_TYPE_VIDEO_OUTPUT_MPLANE = 10"
| "v4l2_buf_type_num V4L2_BUF_TYPE_SDR_CAPTURE = 11"
| "v4l2_buf_type_num V4L2_BUF_TYPE_SDR_OUTPUT = 12"
| "v4l2_buf_type_num V4L2_BUF_TYPE_PRIVATE = 0x80"

definition V4L2_TYPE_IS_MULTIPLANAR :: "v4l2_buf_type \<Rightarrow> bool" where
  "V4L2_TYPE_IS_MULTIPLANAR typ \<longleftrightarrow>
     typ = V4L2_BUF_TYPE_VIDEO_CAPTURE_MPLANE \<or>
     typ = V4L2_BUF_TYPE_VIDEO_OUTPUT_MPLANE"

definition V4L2_TYPE_IS_OUTPUT :: "v4l2_buf_type \<Rightarrow> bool" where
  "V4L2_TYPE_IS_OUTPUT typ \<longleftrightarrow>
     typ = V4L2_BUF_TYPE_VIDEO_OUTPUT \<or>
     typ = V4L2_BUF_TYPE_VIDEO_OUTPUT_MPLANE \<or>
     typ = V4L2_BUF_TYPE_VIDEO_OVERLAY \<or>
     typ = V4L2_BUF_TYPE_VIDEO_OUTPUT_OVERLAY \<or>
     typ = V4L2_BUF_TYPE_VBI_OUTPUT \<or>
     typ = V4L2_BUF_TYPE_SLICED_VBI_OUTPUT \<or>
     typ = V4L2_BUF_TYPE_SDR_OUTPUT"

section \<open>Colours\<close>

datatype v4l2_colorspace =
    V4L2_COLORSPACE_DEFAULT
  | V4L2_COLORSPACE_SMPTE170M
  | V4L2_COLORSPACE_SMPTE240M
  | V4L2_COLORSPACE_REC709
  | V4L2_COLORSPACE_BT878
  | V4L2_COLORSPACE_470_SYSTEM_M
  | V4L2_COLORSPACE_470_SYSTEM_BG
  | V4L2_COLORSPACE_JPEG
  | V4L2_COLORSPACE_SRGB
  | V4L2_COLORSPACE_ADOBERGB
  | V4L2_COLORSPACE_BT2020
  | V4L2_COLORSPACE_RAW
  | V4L2_COLORSPACE_DCI_P3

fun v4l2_colorspace_num :: "v4l2_colorspace \<Rightarrow> u32" where
  "v4l2_colorspace_num V4L2_COLORSPACE_DEFAULT = 0"
| "v4l2_colorspace_num V4L2_COLORSPACE_SMPTE170M = 1"
| "v4l2_colorspace_num V4L2_COLORSPACE_SMPTE240M = 2"
| "v4l2_colorspace_num V4L2_COLORSPACE_REC709 = 3"
| "v4l2_colorspace_num V4L2_COLORSPACE_BT878 = 4"
| "v4l2_colorspace_num V4L2_COLORSPACE_470_SYSTEM_M = 5"
| "v4l2_colorspace_num V4L2_COLORSPACE_470_SYSTEM_BG = 6"
| "v4l2_colorspace_num V4L2_COLORSPACE_JPEG = 7"
| "v4l2_colorspace_num V4L2_COLORSPACE_SRGB = 8"
| "v4l2_colorspace_num V4L2_COLORSPACE_ADOBERGB = 9"
| "v4l2_colorspace_num V4L2_COLORSPACE_BT2020 = 10"
| "v4l2_colorspace_num V4L2_COLORSPACE_RAW = 11"
| "v4l2_colorspace_num V4L2_COLORSPACE_DCI_P3 = 12"

datatype v4l2_xfer_func =
    V4L2_XFER_FUNC_DEFAULT
  | V4L2_XFER_FUNC_709
  | V4L2_XFER_FUNC_SRGB
  | V4L2_XFER_FUNC_ADOBERGB
  | V4L2_XFER_FUNC_SMPTE240M
  | V4L2_XFER_FUNC_NONE
  | V4L2_XFER_FUNC_DCI_P3
  | V4L2_XFER_FUNC_SMPTE2084

fun v4l2_xfer_func_num :: "v4l2_xfer_func \<Rightarrow> u32" where
  "v4l2_xfer_func_num V4L2_XFER_FUNC_DEFAULT = 0"
| "v4l2_xfer_func_num V4L2_XFER_FUNC_709 = 1"
| "v4l2_xfer_func_num V4L2_XFER_FUNC_SRGB = 2"
| "v4l2_xfer_func_num V4L2_XFER_FUNC_ADOBERGB = 3"
| "v4l2_xfer_func_num V4L2_XFER_FUNC_SMPTE240M = 4"
| "v4l2_xfer_func_num V4L2_XFER_FUNC_NONE = 5"
| "v4l2_xfer_func_num V4L2_XFER_FUNC_DCI_P3 = 6"
| "v4l2_xfer_func_num V4L2_XFER_FUNC_SMPTE2084 = 7"

datatype v4l2_ycbcr_encoding =
    V4L2_YCBCR_ENC_DEFAULT
  | V4L2_YCBCR_ENC_601
  | V4L2_YCBCR_ENC_709
  | V4L2_YCBCR_ENC_XV601
  | V4L2_YCBCR_ENC_XV709
  | V4L2_YCBCR_ENC_SYCC
  | V4L2_YCBCR_ENC_BT2020
  | V4L2_YCBCR_ENC_BT2020_CONST_LUM
  | V4L2_YCBCR_ENC_SMPTE240M

fun v4l2_ycbcr_encoding_num :: "v4l2_ycbcr_encoding \<Rightarrow> u32" where
  "v4l2_ycbcr_encoding_num V4L2_YCBCR_ENC_DEFAULT = 0"
| "v4l2_ycbcr_encoding_num V4L2_YCBCR_ENC_601 = 1"
| "v4l2_ycbcr_encoding_num V4L2_YCBCR_ENC_709 = 2"
| "v4l2_ycbcr_encoding_num V4L2_YCBCR_ENC_XV601 = 3"
| "v4l2_ycbcr_encoding_num V4L2_YCBCR_ENC_XV709 = 4"
| "v4l2_ycbcr_encoding_num V4L2_YCBCR_ENC_SYCC = 5"
| "v4l2_ycbcr_encoding_num V4L2_YCBCR_ENC_BT2020 = 6"
| "v4l2_ycbcr_encoding_num V4L2_YCBCR_ENC_BT2020_CONST_LUM = 7"
| "v4l2_ycbcr_encoding_num V4L2_YCBCR_ENC_SMPTE240M = 8"

datatype v4l2_quantization =
    V4L2_QUANTIZATION_DEFAULT
  | V4L2_QUANTIZATION_FULL_RANGE
  | V4L2_QUANTIZATION_LIM_RANGE

fun v4l2_quantization_num :: "v4l2_quantization \<Rightarrow> u32" where
  "v4l2_quantization_num V4L2_QUANTIZATION_DEFAULT = 0"
| "v4l2_quantization_num V4L2_QUANTIZATION_FULL_RANGE = 1"
| "v4l2_quantization_num V4L2_QUANTIZATION_LIM_RANGE = 2"

definition V4L2_MAP_COLORSPACE_DEFAULT :: "bool \<Rightarrow> bool \<Rightarrow> v4l2_colorspace" where
  "V4L2_MAP_COLORSPACE_DEFAULT is_sdtv is_hdtv =
     (if is_sdtv then V4L2_COLORSPACE_SMPTE170M
      else if is_hdtv then V4L2_COLORSPACE_REC709 else V4L2_COLORSPACE_SRGB)"

definition V4L2_MAP_XFER_FUNC_DEFAULT :: "v4l2_colorspace \<Rightarrow> v4l2_xfer_func" where
  "V4L2_MAP_XFER_FUNC_DEFAULT colsp =
     (if colsp = V4L2_COLORSPACE_ADOBERGB then V4L2_XFER_FUNC_ADOBERGB
      else if colsp = V4L2_COLORSPACE_SMPTE240M then V4L2_XFER_FUNC_SMPTE240M
      else if colsp = V4L2_COLORSPACE_DCI_P3 then V4L2_XFER_FUNC_DCI_P3
      else if colsp = V4L2_COLORSPACE_RAW then V4L2_XFER_FUNC_NONE
      else if colsp = V4L2_COLORSPACE_SRGB \<or> colsp = V4L2_COLORSPACE_JPEG
      then V4L2_XFER_FUNC_SRGB else V4L2_XFER_FUNC_709)"

definition V4L2_MAP_YCBCR_ENC_DEFAULT :: "v4l2_colorspace \<Rightarrow> v4l2_ycbcr_encoding" where
  "V4L2_MAP_YCBCR_ENC_DEFAULT colsp =
     (if colsp = V4L2_COLORSPACE_REC709 \<or> colsp = V4L2_COLORSPACE_DCI_P3 then V4L2_YCBCR_ENC_709
      else if colsp = V4L2_COLORSPACE_BT2020 then V4L2_YCBCR_ENC_BT2020
      else if colsp = V4L2_COLORSPACE_SMPTE240M then V4L2_YCBCR_ENC_SMPTE240M
      else V4L2_YCBCR_ENC_601)"

definition V4L2_MAP_QUANTIZATION_DEFAULT ::
    "bool \<Rightarrow> v4l2_colorspace \<Rightarrow> v4l2_ycbcr_encoding \<Rightarrow> v4l2_quantization" where
  "V4L2_MAP_QUANTIZATION_DEFAULT is_rgb colsp ycbcr_enc =
     (if is_rgb \<and> colsp = V4L2_COLORSPACE_BT2020 then V4L2_QUANTIZATION_LIM_RANGE
      else if is_rgb \<or> ycbcr_enc = V4L2_YCBCR_ENC_XV601 \<or> ycbcr_enc = V4L2_YCBCR_ENC_XV709 \<or>
        colsp = V4L2_COLORSPACE_JPEG
      then V4L2_QUANTIZATION_FULL_RANGE else V4L2_QUANTIZATION_LIM_RANGE)"

section \<open>Timings\<close>

record v4l2_bt_timings =
  bt_width :: u32
  bt_height :: u32
  bt_interlaced :: u32
  bt_polarities :: u32
  bt_pixelclock :: "64 word"
  bt_hfrontporch :: u32
  bt_hsync :: u32
  bt_hbackporch :: u32
  bt_vfrontporch :: u32
  bt_vsync :: u32
  bt_vbackporch :: u32
  bt_il_vfrontporch :: u32
  bt_il_vsync :: u32
  bt_il_vbackporch :: u32
  bt_standards :: u32
  bt_flags :: u32

definition V4L2_DV_BT_BLANKING_WIDTH :: "v4l2_bt_timings \<Rightarrow> u32" where
  "V4L2_DV_BT_BLANKING_WIDTH bt = bt_hfrontporch bt + bt_hsync bt + bt_hbackporch bt"

definition V4L2_DV_BT_FRAME_WIDTH :: "v4l2_bt_timings \<Rightarrow> u32" where
  "V4L2_DV_BT_FRAME_WIDTH bt = bt_width bt + V4L2_DV_BT_BLANKING_WIDTH bt"

definition V4L2_DV_BT_BLANKING_HEIGHT :: "v4l2_bt_timings \<Rightarrow> u32" where
  "V4L2_DV_BT_BLANKING_HEIGHT bt =
     bt_vfrontporch bt + bt_vsync bt + bt_vbackporch bt +
     bt_il_vfrontporch bt + bt_il_vsync bt + bt_il_vbackporch bt"

definition V4L2_DV_BT_FRAME_HEIGHT :: "v4l2_bt_timings \<Rightarrow> u32" where
  "V4L2_DV_BT_FRAME_HEIGHT bt = bt_height bt + V4L2_DV_BT_BLANKING_HEIGHT bt"

section \<open>Control identifiers\<close>

definition V4L2_CTRL_ID2CLASS :: "u32 \<Rightarrow> u32" where
  "V4L2_CTRL_ID2CLASS ident = ident AND 0x0fff0000"

definition V4L2_CTRL_ID2WHICH :: "u32 \<Rightarrow> u32" where
  "V4L2_CTRL_ID2WHICH ident = ident AND 0x0fff0000"

definition V4L2_CTRL_DRIVER_PRIV :: "u32 \<Rightarrow> bool" where
  "V4L2_CTRL_DRIVER_PRIV ident \<longleftrightarrow> ident AND 0xffff \<ge> 0x1000"

section \<open>Pixel formats\<close>

text \<open>Each format with its code, in the order of the header.\<close>

type_synonym formats = "(string \<times> u32) list"

definition rgb_formats :: formats where
  "rgb_formats =
     [(''V4L2_PIX_FMT_RGB332'', v4l2_fourcc (CHR ''R'') (CHR ''G'') (CHR ''B'') (CHR ''1'')),
      (''V4L2_PIX_FMT_RGB444'', v4l2_fourcc (CHR ''R'') (CHR ''4'') (CHR ''4'') (CHR ''4'')),
      (''V4L2_PIX_FMT_ARGB444'', v4l2_fourcc (CHR ''A'') (CHR ''R'') (CHR ''1'') (CHR ''2'')),
      (''V4L2_PIX_FMT_XRGB444'', v4l2_fourcc (CHR ''X'') (CHR ''R'') (CHR ''1'') (CHR ''2'')),
      (''V4L2_PIX_FMT_RGB555'', v4l2_fourcc (CHR ''R'') (CHR ''G'') (CHR ''B'') (CHR ''O'')),
      (''V4L2_PIX_FMT_ARGB555'', v4l2_fourcc (CHR ''A'') (CHR ''R'') (CHR ''1'') (CHR ''5'')),
      (''V4L2_PIX_FMT_XRGB555'', v4l2_fourcc (CHR ''X'') (CHR ''R'') (CHR ''1'') (CHR ''5'')),
      (''V4L2_PIX_FMT_RGB565'', v4l2_fourcc (CHR ''R'') (CHR ''G'') (CHR ''B'') (CHR ''P'')),
      (''V4L2_PIX_FMT_RGB555X'', v4l2_fourcc (CHR ''R'') (CHR ''G'') (CHR ''B'') (CHR ''Q'')),
      (''V4L2_PIX_FMT_ARGB555X'', v4l2_fourcc_be (CHR ''A'') (CHR ''R'') (CHR ''1'') (CHR ''5'')),
      (''V4L2_PIX_FMT_XRGB555X'', v4l2_fourcc_be (CHR ''X'') (CHR ''R'') (CHR ''1'') (CHR ''5'')),
      (''V4L2_PIX_FMT_RGB565X'', v4l2_fourcc (CHR ''R'') (CHR ''G'') (CHR ''B'') (CHR ''R'')),
      (''V4L2_PIX_FMT_BGR666'', v4l2_fourcc (CHR ''B'') (CHR ''G'') (CHR ''R'') (CHR ''H'')),
      (''V4L2_PIX_FMT_BGR24'', v4l2_fourcc (CHR ''B'') (CHR ''G'') (CHR ''R'') (CHR ''3'')),
      (''V4L2_PIX_FMT_RGB24'', v4l2_fourcc (CHR ''R'') (CHR ''G'') (CHR ''B'') (CHR ''3'')),
      (''V4L2_PIX_FMT_BGR32'', v4l2_fourcc (CHR ''B'') (CHR ''G'') (CHR ''R'') (CHR ''4'')),
      (''V4L2_PIX_FMT_ABGR32'', v4l2_fourcc (CHR ''A'') (CHR ''R'') (CHR ''2'') (CHR ''4'')),
      (''V4L2_PIX_FMT_XBGR32'', v4l2_fourcc (CHR ''X'') (CHR ''R'') (CHR ''2'') (CHR ''4'')),
      (''V4L2_PIX_FMT_RGB32'', v4l2_fourcc (CHR ''R'') (CHR ''G'') (CHR ''B'') (CHR ''4'')),
      (''V4L2_PIX_FMT_ARGB32'', v4l2_fourcc (CHR ''B'') (CHR ''A'') (CHR ''2'') (CHR ''4'')),
      (''V4L2_PIX_FMT_XRGB32'', v4l2_fourcc (CHR ''B'') (CHR ''X'') (CHR ''2'') (CHR ''4'')),
      (''V4L2_PIX_FMT_RGBA8888_UBWC'', v4l2_fourcc (CHR ''Q'') (CHR ''R'') (CHR ''G'') (CHR ''B''))]"

definition grey_formats :: formats where
  "grey_formats =
     [(''V4L2_PIX_FMT_GREY'', v4l2_fourcc (CHR ''G'') (CHR ''R'') (CHR ''E'') (CHR ''Y'')),
      (''V4L2_PIX_FMT_Y4'', v4l2_fourcc (CHR ''Y'') (CHR ''0'') (CHR ''4'') (CHR '' '')),
      (''V4L2_PIX_FMT_Y6'', v4l2_fourcc (CHR ''Y'') (CHR ''0'') (CHR ''6'') (CHR '' '')),
      (''V4L2_PIX_FMT_Y10'', v4l2_fourcc (CHR ''Y'') (CHR ''1'') (CHR ''0'') (CHR '' '')),
      (''V4L2_PIX_FMT_Y12'', v4l2_fourcc (CHR ''Y'') (CHR ''1'') (CHR ''2'') (CHR '' '')),
      (''V4L2_PIX_FMT_Y16'', v4l2_fourcc (CHR ''Y'') (CHR ''1'') (CHR ''6'') (CHR '' '')),
      (''V4L2_PIX_FMT_Y16_BE'', v4l2_fourcc_be (CHR ''Y'') (CHR ''1'') (CHR ''6'') (CHR '' '')),
      (''V4L2_PIX_FMT_Y10BPACK'', v4l2_fourcc (CHR ''Y'') (CHR ''1'') (CHR ''0'') (CHR ''B'')),
      (''V4L2_PIX_FMT_PAL8'', v4l2_fourcc (CHR ''P'') (CHR ''A'') (CHR ''L'') (CHR ''8'')),
      (''V4L2_PIX_FMT_UV8'', v4l2_fourcc (CHR ''U'') (CHR ''V'') (CHR ''8'') (CHR '' ''))]"

definition yuv_formats :: formats where
  "yuv_formats =
     [(''V4L2_PIX_FMT_YUYV'', v4l2_fourcc (CHR ''Y'') (CHR ''U'') (CHR ''Y'') (CHR ''V'')),
      (''V4L2_PIX_FMT_YYUV'', v4l2_fourcc (CHR ''Y'') (CHR ''Y'') (CHR ''U'') (CHR ''V'')),
      (''V4L2_PIX_FMT_YVYU'', v4l2_fourcc (CHR ''Y'') (CHR ''V'') (CHR ''Y'') (CHR ''U'')),
      (''V4L2_PIX_FMT_UYVY'', v4l2_fourcc (CHR ''U'') (CHR ''Y'') (CHR ''V'') (CHR ''Y'')),
      (''V4L2_PIX_FMT_VYUY'', v4l2_fourcc (CHR ''V'') (CHR ''Y'') (CHR ''U'') (CHR ''Y'')),
      (''V4L2_PIX_FMT_Y41P'', v4l2_fourcc (CHR ''Y'') (CHR ''4'') (CHR ''1'') (CHR ''P'')),
      (''V4L2_PIX_FMT_YUV444'', v4l2_fourcc (CHR ''Y'') (CHR ''4'') (CHR ''4'') (CHR ''4'')),
      (''V4L2_PIX_FMT_YUV555'', v4l2_fourcc (CHR ''Y'') (CHR ''U'') (CHR ''V'') (CHR ''O'')),
      (''V4L2_PIX_FMT_YUV565'', v4l2_fourcc (CHR ''Y'') (CHR ''U'') (CHR ''V'') (CHR ''P'')),
      (''V4L2_PIX_FMT_YUV32'', v4l2_fourcc (CHR ''Y'') (CHR ''U'') (CHR ''V'') (CHR ''4'')),
      (''V4L2_PIX_FMT_HI240'', v4l2_fourcc (CHR ''H'') (CHR ''I'') (CHR ''2'') (CHR ''4'')),
      (''V4L2_PIX_FMT_HM12'', v4l2_fourcc (CHR ''H'') (CHR ''M'') (CHR ''1'') (CHR ''2'')),
      (''V4L2_PIX_FMT_M420'', v4l2_fourcc (CHR ''M'') (CHR ''4'') (CHR ''2'') (CHR ''0''))]"

definition plane_formats :: formats where
  "plane_formats =
     [(''V4L2_PIX_FMT_NV12'', v4l2_fourcc (CHR ''N'') (CHR ''V'') (CHR ''1'') (CHR ''2'')),
      (''V4L2_PIX_FMT_NV21'', v4l2_fourcc (CHR ''N'') (CHR ''V'') (CHR ''2'') (CHR ''1'')),
      (''V4L2_PIX_FMT_NV16'', v4l2_fourcc (CHR ''N'') (CHR ''V'') (CHR ''1'') (CHR ''6'')),
      (''V4L2_PIX_FMT_NV61'', v4l2_fourcc (CHR ''N'') (CHR ''V'') (CHR ''6'') (CHR ''1'')),
      (''V4L2_PIX_FMT_NV24'', v4l2_fourcc (CHR ''N'') (CHR ''V'') (CHR ''2'') (CHR ''4'')),
      (''V4L2_PIX_FMT_NV42'', v4l2_fourcc (CHR ''N'') (CHR ''V'') (CHR ''4'') (CHR ''2'')),
      (''V4L2_PIX_FMT_NV12_UBWC'', v4l2_fourcc (CHR ''Q'') (CHR ''1'') (CHR ''2'') (CHR ''8'')),
      (''V4L2_PIX_FMT_NV12_TP10_UBWC'', v4l2_fourcc (CHR ''Q'') (CHR ''1'') (CHR ''2'') (CHR ''A'')),
      (''V4L2_PIX_FMT_NV12_P010_UBWC'', v4l2_fourcc (CHR ''Q'') (CHR ''1'') (CHR ''2'') (CHR ''B'')),
      (''V4L2_PIX_FMT_NV12M'', v4l2_fourcc (CHR ''N'') (CHR ''M'') (CHR ''1'') (CHR ''2'')),
      (''V4L2_PIX_FMT_NV21M'', v4l2_fourcc (CHR ''N'') (CHR ''M'') (CHR ''2'') (CHR ''1'')),
      (''V4L2_PIX_FMT_NV16M'', v4l2_fourcc (CHR ''N'') (CHR ''M'') (CHR ''1'') (CHR ''6'')),
      (''V4L2_PIX_FMT_NV61M'', v4l2_fourcc (CHR ''N'') (CHR ''M'') (CHR ''6'') (CHR ''1'')),
      (''V4L2_PIX_FMT_NV12MT'', v4l2_fourcc (CHR ''T'') (CHR ''M'') (CHR ''1'') (CHR ''2'')),
      (''V4L2_PIX_FMT_NV12MT_16X16'', v4l2_fourcc (CHR ''V'') (CHR ''M'') (CHR ''1'') (CHR ''2'')),
      (''V4L2_PIX_FMT_YUV410'', v4l2_fourcc (CHR ''Y'') (CHR ''U'') (CHR ''V'') (CHR ''9'')),
      (''V4L2_PIX_FMT_YVU410'', v4l2_fourcc (CHR ''Y'') (CHR ''V'') (CHR ''U'') (CHR ''9'')),
      (''V4L2_PIX_FMT_YUV411P'', v4l2_fourcc (CHR ''4'') (CHR ''1'') (CHR ''1'') (CHR ''P'')),
      (''V4L2_PIX_FMT_YUV420'', v4l2_fourcc (CHR ''Y'') (CHR ''U'') (CHR ''1'') (CHR ''2'')),
      (''V4L2_PIX_FMT_YVU420'', v4l2_fourcc (CHR ''Y'') (CHR ''V'') (CHR ''1'') (CHR ''2'')),
      (''V4L2_PIX_FMT_YUV422P'', v4l2_fourcc (CHR ''4'') (CHR ''2'') (CHR ''2'') (CHR ''P'')),
      (''V4L2_PIX_FMT_YUV420M'', v4l2_fourcc (CHR ''Y'') (CHR ''M'') (CHR ''1'') (CHR ''2'')),
      (''V4L2_PIX_FMT_YVU420M'', v4l2_fourcc (CHR ''Y'') (CHR ''M'') (CHR ''2'') (CHR ''1'')),
      (''V4L2_PIX_FMT_YUV422M'', v4l2_fourcc (CHR ''Y'') (CHR ''M'') (CHR ''1'') (CHR ''6'')),
      (''V4L2_PIX_FMT_YVU422M'', v4l2_fourcc (CHR ''Y'') (CHR ''M'') (CHR ''6'') (CHR ''1'')),
      (''V4L2_PIX_FMT_YUV444M'', v4l2_fourcc (CHR ''Y'') (CHR ''M'') (CHR ''2'') (CHR ''4'')),
      (''V4L2_PIX_FMT_YVU444M'', v4l2_fourcc (CHR ''Y'') (CHR ''M'') (CHR ''4'') (CHR ''2''))]"

definition bayer_formats :: formats where
  "bayer_formats =
     [(''V4L2_PIX_FMT_SBGGR8'', v4l2_fourcc (CHR ''B'') (CHR ''A'') (CHR ''8'') (CHR ''1'')),
      (''V4L2_PIX_FMT_SGBRG8'', v4l2_fourcc (CHR ''G'') (CHR ''B'') (CHR ''R'') (CHR ''G'')),
      (''V4L2_PIX_FMT_SGRBG8'', v4l2_fourcc (CHR ''G'') (CHR ''R'') (CHR ''B'') (CHR ''G'')),
      (''V4L2_PIX_FMT_SRGGB8'', v4l2_fourcc (CHR ''R'') (CHR ''G'') (CHR ''G'') (CHR ''B'')),
      (''V4L2_PIX_FMT_SBGGR10'', v4l2_fourcc (CHR ''B'') (CHR ''G'') (CHR ''1'') (CHR ''0'')),
      (''V4L2_PIX_FMT_SGBRG10'', v4l2_fourcc (CHR ''G'') (CHR ''B'') (CHR ''1'') (CHR ''0'')),
      (''V4L2_PIX_FMT_SGRBG10'', v4l2_fourcc (CHR ''B'') (CHR ''A'') (CHR ''1'') (CHR ''0'')),
      (''V4L2_PIX_FMT_SRGGB10'', v4l2_fourcc (CHR ''R'') (CHR ''G'') (CHR ''1'') (CHR ''0'')),
      (''V4L2_PIX_FMT_SBGGR10P'', v4l2_fourcc (CHR ''p'') (CHR ''B'') (CHR ''A'') (CHR ''A'')),
      (''V4L2_PIX_FMT_SGBRG10P'', v4l2_fourcc (CHR ''p'') (CHR ''G'') (CHR ''A'') (CHR ''A'')),
      (''V4L2_PIX_FMT_SGRBG10P'', v4l2_fourcc (CHR ''p'') (CHR ''g'') (CHR ''A'') (CHR ''A'')),
      (''V4L2_PIX_FMT_SRGGB10P'', v4l2_fourcc (CHR ''p'') (CHR ''R'') (CHR ''A'') (CHR ''A'')),
      (''V4L2_PIX_FMT_SBGGR10ALAW8'', v4l2_fourcc (CHR ''a'') (CHR ''B'') (CHR ''A'') (CHR ''8'')),
      (''V4L2_PIX_FMT_SGBRG10ALAW8'', v4l2_fourcc (CHR ''a'') (CHR ''G'') (CHR ''A'') (CHR ''8'')),
      (''V4L2_PIX_FMT_SGRBG10ALAW8'', v4l2_fourcc (CHR ''a'') (CHR ''g'') (CHR ''A'') (CHR ''8'')),
      (''V4L2_PIX_FMT_SRGGB10ALAW8'', v4l2_fourcc (CHR ''a'') (CHR ''R'') (CHR ''A'') (CHR ''8'')),
      (''V4L2_PIX_FMT_SBGGR10DPCM8'', v4l2_fourcc (CHR ''b'') (CHR ''B'') (CHR ''A'') (CHR ''8'')),
      (''V4L2_PIX_FMT_SGBRG10DPCM8'', v4l2_fourcc (CHR ''b'') (CHR ''G'') (CHR ''A'') (CHR ''8'')),
      (''V4L2_PIX_FMT_SGRBG10DPCM8'', v4l2_fourcc (CHR ''B'') (CHR ''D'') (CHR ''1'') (CHR ''0'')),
      (''V4L2_PIX_FMT_SRGGB10DPCM8'', v4l2_fourcc (CHR ''b'') (CHR ''R'') (CHR ''A'') (CHR ''8'')),
      (''V4L2_PIX_FMT_SBGGR12'', v4l2_fourcc (CHR ''B'') (CHR ''G'') (CHR ''1'') (CHR ''2'')),
      (''V4L2_PIX_FMT_SGBRG12'', v4l2_fourcc (CHR ''G'') (CHR ''B'') (CHR ''1'') (CHR ''2'')),
      (''V4L2_PIX_FMT_SGRBG12'', v4l2_fourcc (CHR ''B'') (CHR ''A'') (CHR ''1'') (CHR ''2'')),
      (''V4L2_PIX_FMT_SRGGB12'', v4l2_fourcc (CHR ''R'') (CHR ''G'') (CHR ''1'') (CHR ''2'')),
      (''V4L2_PIX_FMT_SBGGR16'', v4l2_fourcc (CHR ''B'') (CHR ''Y'') (CHR ''R'') (CHR ''2'')),
      (''V4L2_PIX_FMT_SBGGR10DPCM6'', v4l2_fourcc (CHR ''b'') (CHR ''B'') (CHR ''A'') (CHR ''6'')),
      (''V4L2_PIX_FMT_SGBRG10DPCM6'', v4l2_fourcc (CHR ''b'') (CHR ''G'') (CHR ''A'') (CHR ''6'')),
      (''V4L2_PIX_FMT_SGRBG10DPCM6'', v4l2_fourcc (CHR ''B'') (CHR ''D'') (CHR ''1'') (CHR ''6'')),
      (''V4L2_PIX_FMT_SRGGB10DPCM6'', v4l2_fourcc (CHR ''b'') (CHR ''R'') (CHR ''A'') (CHR ''6'')),
      (''V4L2_PIX_FMT_SBGGRPLAIN16'', v4l2_fourcc (CHR ''B'') (CHR ''G'') (CHR ''1'') (CHR ''6'')),
      (''V4L2_PIX_FMT_SGBRGPLAIN16'', v4l2_fourcc (CHR ''G'') (CHR ''B'') (CHR ''1'') (CHR ''6'')),
      (''V4L2_PIX_FMT_SGRBGPLAIN16'', v4l2_fourcc (CHR ''G'') (CHR ''R'') (CHR ''1'') (CHR ''6'')),
      (''V4L2_PIX_FMT_SRGGBPLAIN16'', v4l2_fourcc (CHR ''R'') (CHR ''G'') (CHR ''1'') (CHR ''6''))]"

definition compressed_formats :: formats where
  "compressed_formats =
     [(''V4L2_PIX_FMT_MJPEG'', v4l2_fourcc (CHR ''M'') (CHR ''J'') (CHR ''P'') (CHR ''G'')),
      (''V4L2_PIX_FMT_JPEG'', v4l2_fourcc (CHR ''J'') (CHR ''P'') (CHR ''E'') (CHR ''G'')),
      (''V4L2_PIX_FMT_DV'', v4l2_fourcc (CHR ''d'') (CHR ''v'') (CHR ''s'') (CHR ''d'')),
      (''V4L2_PIX_FMT_MPEG'', v4l2_fourcc (CHR ''M'') (CHR ''P'') (CHR ''E'') (CHR ''G'')),
      (''V4L2_PIX_FMT_H264'', v4l2_fourcc (CHR ''H'') (CHR ''2'') (CHR ''6'') (CHR ''4'')),
      (''V4L2_PIX_FMT_H264_NO_SC'', v4l2_fourcc (CHR ''A'') (CHR ''V'') (CHR ''C'') (CHR ''1'')),
      (''V4L2_PIX_FMT_H264_MVC'', v4l2_fourcc (CHR ''M'') (CHR ''2'') (CHR ''6'') (CHR ''4'')),
      (''V4L2_PIX_FMT_H263'', v4l2_fourcc (CHR ''H'') (CHR ''2'') (CHR ''6'') (CHR ''3'')),
      (''V4L2_PIX_FMT_MPEG1'', v4l2_fourcc (CHR ''M'') (CHR ''P'') (CHR ''G'') (CHR ''1'')),
      (''V4L2_PIX_FMT_MPEG2'', v4l2_fourcc (CHR ''M'') (CHR ''P'') (CHR ''G'') (CHR ''2'')),
      (''V4L2_PIX_FMT_MPEG4'', v4l2_fourcc (CHR ''M'') (CHR ''P'') (CHR ''G'') (CHR ''4'')),
      (''V4L2_PIX_FMT_XVID'', v4l2_fourcc (CHR ''X'') (CHR ''V'') (CHR ''I'') (CHR ''D'')),
      (''V4L2_PIX_FMT_VC1_ANNEX_G'', v4l2_fourcc (CHR ''V'') (CHR ''C'') (CHR ''1'') (CHR ''G'')),
      (''V4L2_PIX_FMT_VC1_ANNEX_L'', v4l2_fourcc (CHR ''V'') (CHR ''C'') (CHR ''1'') (CHR ''L'')),
      (''V4L2_PIX_FMT_VP8'', v4l2_fourcc (CHR ''V'') (CHR ''P'') (CHR ''8'') (CHR ''0'')),
      (''V4L2_PIX_FMT_VP9'', v4l2_fourcc (CHR ''V'') (CHR ''P'') (CHR ''9'') (CHR ''0'')),
      (''V4L2_PIX_FMT_DIVX_311'', v4l2_fourcc (CHR ''D'') (CHR ''I'') (CHR ''V'') (CHR ''3'')),
      (''V4L2_PIX_FMT_DIVX'', v4l2_fourcc (CHR ''D'') (CHR ''I'') (CHR ''V'') (CHR ''X'')),
      (''V4L2_PIX_FMT_HEVC'', v4l2_fourcc (CHR ''H'') (CHR ''E'') (CHR ''V'') (CHR ''C'')),
      (''V4L2_PIX_FMT_HEVC_HYBRID'', v4l2_fourcc (CHR ''H'') (CHR ''V'') (CHR ''C'') (CHR ''H'')),
      (''V4L2_PIX_FMT_TME'', v4l2_fourcc (CHR ''T'') (CHR ''M'') (CHR ''E'') (CHR ''0''))]"

definition vendor_formats :: formats where
  "vendor_formats =
     [(''V4L2_PIX_FMT_CPIA1'', v4l2_fourcc (CHR ''C'') (CHR ''P'') (CHR ''I'') (CHR ''A'')),
      (''V4L2_PIX_FMT_WNVA'', v4l2_fourcc (CHR ''W'') (CHR ''N'') (CHR ''V'') (CHR ''A'')),
      (''V4L2_PIX_FMT_SN9C10X'', v4l2_fourcc (CHR ''S'') (CHR ''9'') (CHR ''1'') (CHR ''0'')),
      (''V4L2_PIX_FMT_SN9C20X_I420'', v4l2_fourcc (CHR ''S'') (CHR ''9'') (CHR ''2'') (CHR ''0'')),
      (''V4L2_PIX_FMT_PWC1'', v4l2_fourcc (CHR ''P'') (CHR ''W'') (CHR ''C'') (CHR ''1'')),
      (''V4L2_PIX_FMT_PWC2'', v4l2_fourcc (CHR ''P'') (CHR ''W'') (CHR ''C'') (CHR ''2'')),
      (''V4L2_PIX_FMT_ET61X251'', v4l2_fourcc (CHR ''E'') (CHR ''6'') (CHR ''2'') (CHR ''5'')),
      (''V4L2_PIX_FMT_SPCA501'', v4l2_fourcc (CHR ''S'') (CHR ''5'') (CHR ''0'') (CHR ''1'')),
      (''V4L2_PIX_FMT_SPCA505'', v4l2_fourcc (CHR ''S'') (CHR ''5'') (CHR ''0'') (CHR ''5'')),
      (''V4L2_PIX_FMT_SPCA508'', v4l2_fourcc (CHR ''S'') (CHR ''5'') (CHR ''0'') (CHR ''8'')),
      (''V4L2_PIX_FMT_SPCA561'', v4l2_fourcc (CHR ''S'') (CHR ''5'') (CHR ''6'') (CHR ''1'')),
      (''V4L2_PIX_FMT_PAC207'', v4l2_fourcc (CHR ''P'') (CHR ''2'') (CHR ''0'') (CHR ''7'')),
      (''V4L2_PIX_FMT_MR97310A'', v4l2_fourcc (CHR ''M'') (CHR ''3'') (CHR ''1'') (CHR ''0'')),
      (''V4L2_PIX_FMT_JL2005BCD'', v4l2_fourcc (CHR ''J'') (CHR ''L'') (CHR ''2'') (CHR ''0'')),
      (''V4L2_PIX_FMT_SN9C2028'', v4l2_fourcc (CHR ''S'') (CHR ''O'') (CHR ''N'') (CHR ''X'')),
      (''V4L2_PIX_FMT_SQ905C'', v4l2_fourcc (CHR ''9'') (CHR ''0'') (CHR ''5'') (CHR ''C'')),
      (''V4L2_PIX_FMT_PJPG'', v4l2_fourcc (CHR ''P'') (CHR ''J'') (CHR ''P'') (CHR ''G'')),
      (''V4L2_PIX_FMT_OV511'', v4l2_fourcc (CHR ''O'') (CHR ''5'') (CHR ''1'') (CHR ''1'')),
      (''V4L2_PIX_FMT_OV518'', v4l2_fourcc (CHR ''O'') (CHR ''5'') (CHR ''1'') (CHR ''8'')),
      (''V4L2_PIX_FMT_STV0680'', v4l2_fourcc (CHR ''S'') (CHR ''6'') (CHR ''8'') (CHR ''0'')),
      (''V4L2_PIX_FMT_TM6000'', v4l2_fourcc (CHR ''T'') (CHR ''M'') (CHR ''6'') (CHR ''0'')),
      (''V4L2_PIX_FMT_CIT_YYVYUY'', v4l2_fourcc (CHR ''C'') (CHR ''I'') (CHR ''T'') (CHR ''V'')),
      (''V4L2_PIX_FMT_KONICA420'', v4l2_fourcc (CHR ''K'') (CHR ''O'') (CHR ''N'') (CHR ''I'')),
      (''V4L2_PIX_FMT_JPGL'', v4l2_fourcc (CHR ''J'') (CHR ''P'') (CHR ''G'') (CHR ''L'')),
      (''V4L2_PIX_FMT_SE401'', v4l2_fourcc (CHR ''S'') (CHR ''4'') (CHR ''0'') (CHR ''1'')),
      (''V4L2_PIX_FMT_S5C_UYVY_JPG'', v4l2_fourcc (CHR ''S'') (CHR ''5'') (CHR ''C'') (CHR ''I'')),
      (''V4L2_PIX_FMT_Y8I'', v4l2_fourcc (CHR ''Y'') (CHR ''8'') (CHR ''I'') (CHR '' '')),
      (''V4L2_PIX_FMT_Y12I'', v4l2_fourcc (CHR ''Y'') (CHR ''1'') (CHR ''2'') (CHR ''I'')),
      (''V4L2_PIX_FMT_Z16'', v4l2_fourcc (CHR ''Z'') (CHR ''1'') (CHR ''6'') (CHR '' ''))]"

definition display_formats :: formats where
  "display_formats =
     [(''V4L2_PIX_FMT_SDE_ABGR_8888'', v4l2_fourcc (CHR ''R'') (CHR ''A'') (CHR ''2'') (CHR ''4'')),
      (''V4L2_PIX_FMT_SDE_RGBA_8888'', v4l2_fourcc (CHR ''A'') (CHR ''B'') (CHR ''2'') (CHR ''4'')),
      (''V4L2_PIX_FMT_SDE_RGBX_8888'', v4l2_fourcc (CHR ''X'') (CHR ''B'') (CHR ''2'') (CHR ''4'')),
      (''V4L2_PIX_FMT_SDE_XBGR_8888'', v4l2_fourcc (CHR ''R'') (CHR ''X'') (CHR ''2'') (CHR ''4'')),
      (''V4L2_PIX_FMT_SDE_RGBA_5551'', v4l2_fourcc (CHR ''R'') (CHR ''A'') (CHR ''1'') (CHR ''5'')),
      (''V4L2_PIX_FMT_SDE_ABGR_1555'', v4l2_fourcc (CHR ''A'') (CHR ''B'') (CHR ''1'') (CHR ''5'')),
      (''V4L2_PIX_FMT_SDE_BGRA_5551'', v4l2_fourcc (CHR ''B'') (CHR ''A'') (CHR ''1'') (CHR ''5'')),
      (''V4L2_PIX_FMT_SDE_BGRX_5551'', v4l2_fourcc (CHR ''B'') (CHR ''X'') (CHR ''1'') (CHR ''5'')),
      (''V4L2_PIX_FMT_SDE_RGBX_5551'', v4l2_fourcc (CHR ''R'') (CHR ''X'') (CHR ''1'') (CHR ''5'')),
      (''V4L2_PIX_FMT_SDE_XBGR_1555'', v4l2_fourcc (CHR ''X'') (CHR ''B'') (CHR ''1'') (CHR ''5'')),
      (''V4L2_PIX_FMT_SDE_RGBA_4444'', v4l2_fourcc (CHR ''R'') (CHR ''A'') (CHR ''1'') (CHR ''2'')),
      (''V4L2_PIX_FMT_SDE_BGRA_4444'', v4l2_fourcc (CHR ''b'') (CHR ''A'') (CHR ''1'') (CHR ''2'')),
      (''V4L2_PIX_FMT_SDE_ABGR_4444'', v4l2_fourcc (CHR ''A'') (CHR ''B'') (CHR ''1'') (CHR ''2'')),
      (''V4L2_PIX_FMT_SDE_RGBX_4444'', v4l2_fourcc (CHR ''R'') (CHR ''X'') (CHR ''1'') (CHR ''2'')),
      (''V4L2_PIX_FMT_SDE_BGRX_4444'', v4l2_fourcc (CHR ''B'') (CHR ''X'') (CHR ''1'') (CHR ''2'')),
      (''V4L2_PIX_FMT_SDE_XBGR_4444'', v4l2_fourcc (CHR ''X'') (CHR ''B'') (CHR ''1'') (CHR ''2'')),
      (''V4L2_PIX_FMT_SDE_BGR_565'', v4l2_fourcc (CHR ''B'') (CHR ''G'') (CHR ''1'') (CHR ''6'')),
      (''V4L2_PIX_FMT_SDE_Y_CR_CB_GH2V2'', v4l2_fourcc (CHR ''Y'') (CHR ''U'') (CHR ''4'') (CHR ''2'')),
      (''V4L2_PIX_FMT_SDE_Y_CBCR_H1V2'', v4l2_fourcc (CHR ''N'') (CHR ''H'') (CHR ''1'') (CHR ''6'')),
      (''V4L2_PIX_FMT_SDE_Y_CRCB_H1V2'', v4l2_fourcc (CHR ''N'') (CHR ''H'') (CHR ''6'') (CHR ''1'')),
      (''V4L2_PIX_FMT_SDE_Y_CBCR_H2V2_VENUS'', v4l2_fourcc (CHR ''Q'') (CHR ''N'') (CHR ''V'') (CHR ''2'')),
      (''V4L2_PIX_FMT_SDE_Y_CRCB_H2V2_VENUS'', v4l2_fourcc (CHR ''Q'') (CHR ''N'') (CHR ''V'') (CHR ''1'')),
      (''V4L2_PIX_FMT_SDE_RGBX_8888_UBWC'', v4l2_fourcc (CHR ''Q'') (CHR ''X'') (CHR ''B'') (CHR ''4'')),
      (''V4L2_PIX_FMT_SDE_RGB_565_UBWC'', v4l2_fourcc (CHR ''Q'') (CHR ''R'') (CHR ''G'') (CHR ''6'')),
      (''V4L2_PIX_FMT_SDE_RGBA_1010102'', v4l2_fourcc (CHR ''A'') (CHR ''B'') (CHR ''3'') (CHR ''0'')),
      (''V4L2_PIX_FMT_SDE_RGBX_1010102'', v4l2_fourcc (CHR ''X'') (CHR ''B'') (CHR ''3'') (CHR ''0'')),
      (''V4L2_PIX_FMT_SDE_ARGB_2101010'', v4l2_fourcc (CHR ''A'') (CHR ''R'') (CHR ''3'') (CHR ''0'')),
      (''V4L2_PIX_FMT_SDE_XRGB_2101010'', v4l2_fourcc (CHR ''X'') (CHR ''R'') (CHR ''3'') (CHR ''0'')),
      (''V4L2_PIX_FMT_SDE_BGRA_1010102'', v4l2_fourcc (CHR ''B'') (CHR ''A'') (CHR ''3'') (CHR ''0'')),
      (''V4L2_PIX_FMT_SDE_BGRX_1010102'', v4l2_fourcc (CHR ''B'') (CHR ''X'') (CHR ''3'') (CHR ''0'')),
      (''V4L2_PIX_FMT_SDE_ABGR_2101010'', v4l2_fourcc (CHR ''R'') (CHR ''A'') (CHR ''3'') (CHR ''0'')),
      (''V4L2_PIX_FMT_SDE_XBGR_2101010'', v4l2_fourcc (CHR ''R'') (CHR ''X'') (CHR ''3'') (CHR ''0'')),
      (''V4L2_PIX_FMT_SDE_RGBA_1010102_UBWC'', v4l2_fourcc (CHR ''Q'') (CHR ''R'') (CHR ''B'') (CHR ''A'')),
      (''V4L2_PIX_FMT_SDE_RGBX_1010102_UBWC'', v4l2_fourcc (CHR ''Q'') (CHR ''X'') (CHR ''B'') (CHR ''A'')),
      (''V4L2_PIX_FMT_SDE_Y_CBCR_H2V2_TP10'', v4l2_fourcc (CHR ''T'') (CHR ''P'') (CHR ''1'') (CHR ''0'')),
      (''V4L2_PIX_FMT_SDE_Y_CBCR_H2V2_P010'', v4l2_fourcc (CHR ''P'') (CHR ''0'') (CHR ''1'') (CHR ''0'')),
      (''V4L2_PIX_FMT_SDE_Y_CBCR_H2V2_P010_VENUS'', v4l2_fourcc (CHR ''Q'') (CHR ''P'') (CHR ''1'') (CHR ''0''))]"

definition sdr_formats :: formats where
  "sdr_formats =
     [(''V4L2_SDR_FMT_CU8'', v4l2_fourcc (CHR ''C'') (CHR ''U'') (CHR ''0'') (CHR ''8'')),
      (''V4L2_SDR_FMT_CU16LE'', v4l2_fourcc (CHR ''C'') (CHR ''U'') (CHR ''1'') (CHR ''6'')),
      (''V4L2_SDR_FMT_CS8'', v4l2_fourcc (CHR ''C'') (CHR ''S'') (CHR ''0'') (CHR ''8'')),
      (''V4L2_SDR_FMT_CS14LE'', v4l2_fourcc (CHR ''C'') (CHR ''S'') (CHR ''1'') (CHR ''4'')),
      (''V4L2_SDR_FMT_RU12LE'', v4l2_fourcc (CHR ''R'') (CHR ''U'') (CHR ''1'') (CHR ''2''))]"

definition touch_formats :: formats where
  "touch_formats =
     [(''V4L2_TCH_FMT_DELTA_TD16'', v4l2_fourcc (CHR ''T'') (CHR ''D'') (CHR ''1'') (CHR ''6'')),
      (''V4L2_TCH_FMT_DELTA_TD08'', v4l2_fourcc (CHR ''T'') (CHR ''D'') (CHR ''0'') (CHR ''8'')),
      (''V4L2_TCH_FMT_TU16'', v4l2_fourcc (CHR ''T'') (CHR ''U'') (CHR ''1'') (CHR ''6'')),
      (''V4L2_TCH_FMT_TU08'', v4l2_fourcc (CHR ''T'') (CHR ''U'') (CHR ''0'') (CHR ''8''))]"

definition pixel_formats :: formats where
  "pixel_formats = rgb_formats @ grey_formats @ yuv_formats @ plane_formats @ bayer_formats @ compressed_formats @ vendor_formats @ display_formats @ sdr_formats @ touch_formats"

end
