(* ===== verification/VideoFormatsCorrect.thy ===== *)
theory VideoFormatsCorrect
  imports VideoFormats
begin

unbundle bit_operations_syntax

text \<open>
  The codes of linux/videodev2.h: what the classifying macros say of each other, that the default
  colours are those the comments document, that a frame is its picture and its blanking, and
  which pixel formats share a code.
\<close>

section \<open>Codes as text\<close>

definition code_text :: "u32 \<Rightarrow> string" where
  "code_text v = map (\<lambda>i. char_of (unat (get_field (8 * i) 8 v))) [0, 1, 2, 3]"

lemma of_char_less: "(of_char c :: nat) < 256"
  using of_char_mod_256 [of c, where 'a = nat] by (metis mod_less_divisor zero_less_numeral)

lemma take_byte_of_char: "take_bit 8 (of_char c :: u32) = of_char c"
proof -
  have "take_bit 8 (of_nat (of_char c) :: u32) = of_nat (of_char c)"
    using of_char_less [of c] by (simp add: take_bit_of_nat take_bit_nat_eq_self del: of_nat_of_char)
  then show ?thesis by (simp only: of_nat_of_char)
qed

lemma unat_byte: "n < 256 \<Longrightarrow> unat (of_nat n :: u32) = n"
  by (simp add: unat_of_nat take_bit_nat_eq_self)

lemma unat_of_char: "unat (of_char c :: u32) = of_char c"
  using unat_byte [OF of_char_less [of c]] by (simp only: of_nat_of_char)

lemma fourcc_fields:
  "v4l2_fourcc a b c d = add_field 24 8 (of_char d) (add_field 16 8 (of_char c)
     (add_field 8 8 (of_char b) (add_field 0 8 (of_char a) 0)))"
  by (simp add: v4l2_fourcc_def add_field_def take_byte_of_char ac_simps)

lemma text_of_fourcc [simp]: "code_text (v4l2_fourcc a b c d) = [a, b, c, d]"
  by (simp add: code_text_def fourcc_fields get_add_same get_add_other take_byte_of_char unat_of_char)

text \<open>The big-endian mark is the top bit of the last byte.\<close>

lemma fourcc_be_codes:
  "v4l2_fourcc_be a b c (CHR ''5'') = v4l2_fourcc a b c (CHR 0xB5)"
  "v4l2_fourcc_be a b c (CHR '' '') = v4l2_fourcc a b c (CHR 0xA0)"
  by (simp_all add: v4l2_fourcc_be_def v4l2_fourcc_def or.assoc)

text \<open>
  That a long list has no duplicate is computed by splitting it along a few predicates.
\<close>

fun distinct_along :: "('a \<Rightarrow> bool) list \<Rightarrow> 'a list \<Rightarrow> bool" where
  "distinct_along [] xs = distinct xs"
| "distinct_along (p # ps) xs =
     (distinct_along ps (filter p xs) \<and> distinct_along ps (filter (\<lambda>x. \<not> p x) xs))"

lemma distinct_parts:
  "distinct (filter p xs) \<Longrightarrow> distinct (filter (\<lambda>x. \<not> p x) xs) \<Longrightarrow> distinct xs"
  by (induction xs) (auto split: if_splits)

lemma distinct_along: "distinct_along ps xs \<Longrightarrow> distinct xs"
  by (induction ps xs rule: distinct_along.induct) (auto intro: distinct_parts)

definition text_bits :: "(string \<Rightarrow> bool) list" where
  "text_bits = [\<lambda>x. digit0 (hd x), \<lambda>x. digit1 (hd x), \<lambda>x. digit2 (hd x), \<lambda>x. digit3 (hd x),
     \<lambda>x. digit4 (hd x), \<lambda>x. digit0 (hd (rev x)), \<lambda>x. digit1 (hd (rev x)), \<lambda>x. digit2 (hd (rev x))]"

lemmas format_lists = rgb_formats_def grey_formats_def yuv_formats_def plane_formats_def
  bayer_formats_def compressed_formats_def vendor_formats_def display_formats_def sdr_formats_def
  touch_formats_def

lemmas literals = list.inject char.inject simp_thms list.distinct if_True if_False

definition single_formats :: formats where
  "single_formats = filter (\<lambda>f. fst f \<noteq> ''V4L2_PIX_FMT_SDE_BGR_565'') pixel_formats"

definition format_texts :: "string list" where
  "format_texts = map (code_text \<circ> snd) single_formats"

lemma format_texts_distinct: "distinct format_texts"
  apply (rule distinct_along [of text_bits])
  apply (simp only: format_texts_def single_formats_def pixel_formats_def append.simps format_lists filter.simps fst_conv literals cong: if_weak_cong)
  apply (simp only: list.map o_def snd_conv fourcc_be_codes text_of_fourcc)
  apply (simp only: text_bits_def distinct_along.simps filter.simps list.sel char.sel rev.simps append.simps literals cong: if_weak_cong)
  apply (simp only: distinct.simps list.set insert_iff empty_iff literals)
  done


section \<open>Fields, buffers and frames\<close>

lemma has_both_fields:
  "V4L2_FIELD_HAS_BOTH f \<longleftrightarrow> V4L2_FIELD_HAS_TOP f \<and> V4L2_FIELD_HAS_BOTTOM f"
  by (cases f) (simp_all add: V4L2_FIELD_HAS_BOTH_def V4L2_FIELD_HAS_TOP_def V4L2_FIELD_HAS_BOTTOM_def)

lemma one_or_both_fields:
  "V4L2_FIELD_HAS_T_OR_B f \<longleftrightarrow>
     \<not> V4L2_FIELD_HAS_BOTH f \<and> f \<noteq> V4L2_FIELD_ANY \<and> f \<noteq> V4L2_FIELD_NONE"
  by (cases f) (simp_all add: V4L2_FIELD_HAS_BOTH_def V4L2_FIELD_HAS_T_OR_B_def)

lemma frame_width_unwrapped:
  assumes "unat (bt_width bt) + unat (bt_hfrontporch bt) + unat (bt_hsync bt) +
    unat (bt_hbackporch bt) < 2 ^ 32"
  shows "unat (V4L2_DV_BT_FRAME_WIDTH bt) = unat (bt_width bt) + unat (bt_hfrontporch bt) +
    unat (bt_hsync bt) + unat (bt_hbackporch bt)"
  using assms unfolding V4L2_DV_BT_FRAME_WIDTH_def V4L2_DV_BT_BLANKING_WIDTH_def
  by (subst unat_add_lem [THEN iffD1]; (subst unat_add_lem [THEN iffD1])?;
      (subst unat_add_lem [THEN iffD1])?; simp)

section \<open>The documented defaults\<close>

text \<open>The tables of the comments: each colour space that is listed with its default.\<close>

definition documented_xfer :: "(v4l2_colorspace \<times> v4l2_xfer_func) list" where
  "documented_xfer =
     [(V4L2_COLORSPACE_SMPTE170M, V4L2_XFER_FUNC_709), (V4L2_COLORSPACE_470_SYSTEM_M, V4L2_XFER_FUNC_709),
      (V4L2_COLORSPACE_470_SYSTEM_BG, V4L2_XFER_FUNC_709), (V4L2_COLORSPACE_REC709, V4L2_XFER_FUNC_709),
      (V4L2_COLORSPACE_BT2020, V4L2_XFER_FUNC_709), (V4L2_COLORSPACE_SRGB, V4L2_XFER_FUNC_SRGB),
      (V4L2_COLORSPACE_JPEG, V4L2_XFER_FUNC_SRGB), (V4L2_COLORSPACE_ADOBERGB, V4L2_XFER_FUNC_ADOBERGB),
      (V4L2_COLORSPACE_SMPTE240M, V4L2_XFER_FUNC_SMPTE240M), (V4L2_COLORSPACE_RAW, V4L2_XFER_FUNC_NONE),
      (V4L2_COLORSPACE_DCI_P3, V4L2_XFER_FUNC_DCI_P3)]"

definition documented_ycbcr :: "(v4l2_colorspace \<times> v4l2_ycbcr_encoding) list" where
  "documented_ycbcr =
     [(V4L2_COLORSPACE_SMPTE170M, V4L2_YCBCR_ENC_601), (V4L2_COLORSPACE_470_SYSTEM_M, V4L2_YCBCR_ENC_601),
      (V4L2_COLORSPACE_470_SYSTEM_BG, V4L2_YCBCR_ENC_601), (V4L2_COLORSPACE_SRGB, V4L2_YCBCR_ENC_601),
      (V4L2_COLORSPACE_ADOBERGB, V4L2_YCBCR_ENC_601), (V4L2_COLORSPACE_JPEG, V4L2_YCBCR_ENC_601),
      (V4L2_COLORSPACE_REC709, V4L2_YCBCR_ENC_709), (V4L2_COLORSPACE_DCI_P3, V4L2_YCBCR_ENC_709),
      (V4L2_COLORSPACE_BT2020, V4L2_YCBCR_ENC_BT2020), (V4L2_COLORSPACE_SMPTE240M, V4L2_YCBCR_ENC_SMPTE240M)]"

text \<open>"Full range for RGB, except for BT.2020; limited for Y'CbCr, except for JPEG, XV601 and XV709."\<close>

definition documented_full_range :: "bool \<Rightarrow> v4l2_colorspace \<Rightarrow> v4l2_ycbcr_encoding \<Rightarrow> bool" where
  "documented_full_range is_rgb colsp enc =
     (if is_rgb then colsp \<noteq> V4L2_COLORSPACE_BT2020
      else colsp = V4L2_COLORSPACE_JPEG \<or> enc \<in> {V4L2_YCBCR_ENC_XV601, V4L2_YCBCR_ENC_XV709})"

section \<open>Properties\<close>

text \<open>The default transfer function, encoding and quantization of every colour space are those
  the comments of the header list, and the JPEG colour space has the defaults it is documented
  to stand for: the transfer function of sRGB, the 601 encoding and the full range.\<close>

theorem colour_defaults_as_documented:
  "list_all (\<lambda>(c, x). V4L2_MAP_XFER_FUNC_DEFAULT c = x) documented_xfer \<and>
   list_all (\<lambda>(c, e). V4L2_MAP_YCBCR_ENC_DEFAULT c = e) documented_ycbcr \<and>
   (V4L2_MAP_QUANTIZATION_DEFAULT is_rgb colsp enc = V4L2_QUANTIZATION_FULL_RANGE \<longleftrightarrow>
      documented_full_range is_rgb colsp enc) \<and>
   V4L2_MAP_XFER_FUNC_DEFAULT V4L2_COLORSPACE_JPEG = V4L2_MAP_XFER_FUNC_DEFAULT V4L2_COLORSPACE_SRGB \<and>
   V4L2_MAP_YCBCR_ENC_DEFAULT V4L2_COLORSPACE_JPEG = V4L2_YCBCR_ENC_601 \<and>
   V4L2_MAP_QUANTIZATION_DEFAULT is_rgb V4L2_COLORSPACE_JPEG enc = V4L2_QUANTIZATION_FULL_RANGE"
  by (simp add: documented_xfer_def documented_ycbcr_def documented_full_range_def
      V4L2_MAP_XFER_FUNC_DEFAULT_def V4L2_MAP_YCBCR_ENC_DEFAULT_def V4L2_MAP_QUANTIZATION_DEFAULT_def)

lemma texts_of_codes: "format_texts = map code_text (map snd single_formats)"
  by (simp add: format_texts_def)

lemma shared_code:
  "(''V4L2_PIX_FMT_SDE_BGR_565'', v4l2_fourcc (CHR ''B'') (CHR ''G'') (CHR ''1'') (CHR ''6'')) \<in> set display_formats"
  "(''V4L2_PIX_FMT_SBGGRPLAIN16'', v4l2_fourcc (CHR ''B'') (CHR ''G'') (CHR ''1'') (CHR ''6'')) \<in> set bayer_formats"
  by (simp_all only: display_formats_def bayer_formats_def list.set insert_iff prod.inject literals)

text \<open>A four-character code reads back as its characters, and the codes of the pixel formats
  differ from each other, with one exception: the 16-bit BGR format of the display has the code
  of a Bayer format.\<close>

theorem format_codes_distinct:
  "code_text (v4l2_fourcc a b c d) = [a, b, c, d] \<and>
   distinct (map snd (filter (\<lambda>f. fst f \<noteq> ''V4L2_PIX_FMT_SDE_BGR_565'') pixel_formats)) \<and>
   (\<exists>code. (''V4L2_PIX_FMT_SDE_BGR_565'', code) \<in> set pixel_formats \<and>
      (''V4L2_PIX_FMT_SBGGRPLAIN16'', code) \<in> set pixel_formats)"
proof -
  have "distinct (map snd single_formats)"
    using format_texts_distinct by (simp only: texts_of_codes distinct_map [of code_text])
  then show ?thesis
    using shared_code by (auto simp: single_formats_def pixel_formats_def)
qed

end
