(* ===== verification/IpaClients.thy ===== *)
theory IpaClients
  imports Main
begin

text \<open>
  The clients of the IP accelerator (linux/msm\_ipa.h): the enumeration with its numbers, which are
  even for producers and odd for consumers, and the macros that put clients into classes.
\<close>

section \<open>The clients\<close>

text \<open>The macros compare numbers, so a client is its number.\<close>

type_synonym ipa_client_type = nat

definition IPA_CLIENT_HSIC1_PROD :: ipa_client_type where "IPA_CLIENT_HSIC1_PROD = 0"
definition IPA_CLIENT_HSIC1_CONS :: ipa_client_type where "IPA_CLIENT_HSIC1_CONS = 1"
definition IPA_CLIENT_HSIC2_PROD :: ipa_client_type where "IPA_CLIENT_HSIC2_PROD = 2"
definition IPA_CLIENT_HSIC2_CONS :: ipa_client_type where "IPA_CLIENT_HSIC2_CONS = 3"
definition IPA_CLIENT_HSIC3_PROD :: ipa_client_type where "IPA_CLIENT_HSIC3_PROD = 4"
definition IPA_CLIENT_HSIC3_CONS :: ipa_client_type where "IPA_CLIENT_HSIC3_CONS = 5"
definition IPA_CLIENT_HSIC4_PROD :: ipa_client_type where "IPA_CLIENT_HSIC4_PROD = 6"
definition IPA_CLIENT_HSIC4_CONS :: ipa_client_type where "IPA_CLIENT_HSIC4_CONS = 7"
definition IPA_CLIENT_HSIC5_PROD :: ipa_client_type where "IPA_CLIENT_HSIC5_PROD = 8"
definition IPA_CLIENT_HSIC5_CONS :: ipa_client_type where "IPA_CLIENT_HSIC5_CONS = 9"
definition IPA_CLIENT_WLAN1_PROD :: ipa_client_type where "IPA_CLIENT_WLAN1_PROD = 10"
definition IPA_CLIENT_WLAN1_CONS :: ipa_client_type where "IPA_CLIENT_WLAN1_CONS = 11"
definition IPA_CLIENT_A5_WLAN_AMPDU_PROD :: ipa_client_type where "IPA_CLIENT_A5_WLAN_AMPDU_PROD = 12"
definition IPA_CLIENT_WLAN2_CONS :: ipa_client_type where "IPA_CLIENT_WLAN2_CONS = 13"
definition IPA_CLIENT_WLAN3_CONS :: ipa_client_type where "IPA_CLIENT_WLAN3_CONS = 15"
definition IPA_CLIENT_WLAN4_CONS :: ipa_client_type where "IPA_CLIENT_WLAN4_CONS = 17"
definition IPA_CLIENT_USB_PROD :: ipa_client_type where "IPA_CLIENT_USB_PROD = 18"
definition IPA_CLIENT_USB_CONS :: ipa_client_type where "IPA_CLIENT_USB_CONS = 19"
definition IPA_CLIENT_USB2_PROD :: ipa_client_type where "IPA_CLIENT_USB2_PROD = 20"
definition IPA_CLIENT_USB2_CONS :: ipa_client_type where "IPA_CLIENT_USB2_CONS = 21"
definition IPA_CLIENT_USB3_PROD :: ipa_client_type where "IPA_CLIENT_USB3_PROD = 22"
definition IPA_CLIENT_USB3_CONS :: ipa_client_type where "IPA_CLIENT_USB3_CONS = 23"
definition IPA_CLIENT_USB4_PROD :: ipa_client_type where "IPA_CLIENT_USB4_PROD = 24"
definition IPA_CLIENT_USB4_CONS :: ipa_client_type where "IPA_CLIENT_USB4_CONS = 25"
definition IPA_CLIENT_UC_USB_PROD :: ipa_client_type where "IPA_CLIENT_UC_USB_PROD = 26"
definition IPA_CLIENT_USB_DPL_CONS :: ipa_client_type where "IPA_CLIENT_USB_DPL_CONS = 27"
definition IPA_CLIENT_A2_EMBEDDED_PROD :: ipa_client_type where "IPA_CLIENT_A2_EMBEDDED_PROD = 28"
definition IPA_CLIENT_A2_EMBEDDED_CONS :: ipa_client_type where "IPA_CLIENT_A2_EMBEDDED_CONS = 29"
definition IPA_CLIENT_A2_TETHERED_PROD :: ipa_client_type where "IPA_CLIENT_A2_TETHERED_PROD = 30"
definition IPA_CLIENT_A2_TETHERED_CONS :: ipa_client_type where "IPA_CLIENT_A2_TETHERED_CONS = 31"
definition IPA_CLIENT_APPS_LAN_PROD :: ipa_client_type where "IPA_CLIENT_APPS_LAN_PROD = 32"
definition IPA_CLIENT_APPS_LAN_CONS :: ipa_client_type where "IPA_CLIENT_APPS_LAN_CONS = 33"
definition IPA_CLIENT_APPS_WAN_PROD :: ipa_client_type where "IPA_CLIENT_APPS_WAN_PROD = 34"
definition IPA_CLIENT_APPS_WAN_CONS :: ipa_client_type where "IPA_CLIENT_APPS_WAN_CONS = 35"
definition IPA_CLIENT_APPS_CMD_PROD :: ipa_client_type where "IPA_CLIENT_APPS_CMD_PROD = 36"
definition IPA_CLIENT_A5_LAN_WAN_CONS :: ipa_client_type where "IPA_CLIENT_A5_LAN_WAN_CONS = 37"
definition IPA_CLIENT_ODU_PROD :: ipa_client_type where "IPA_CLIENT_ODU_PROD = 38"
definition IPA_CLIENT_ODU_EMB_CONS :: ipa_client_type where "IPA_CLIENT_ODU_EMB_CONS = 39"
definition IPA_CLIENT_ODU_TETH_CONS :: ipa_client_type where "IPA_CLIENT_ODU_TETH_CONS = 41"
definition IPA_CLIENT_MHI_PROD :: ipa_client_type where "IPA_CLIENT_MHI_PROD = 42"
definition IPA_CLIENT_MHI_CONS :: ipa_client_type where "IPA_CLIENT_MHI_CONS = 43"
definition IPA_CLIENT_MEMCPY_DMA_SYNC_PROD :: ipa_client_type where "IPA_CLIENT_MEMCPY_DMA_SYNC_PROD = 44"
definition IPA_CLIENT_MEMCPY_DMA_SYNC_CONS :: ipa_client_type where "IPA_CLIENT_MEMCPY_DMA_SYNC_CONS = 45"
definition IPA_CLIENT_MEMCPY_DMA_ASYNC_PROD :: ipa_client_type where "IPA_CLIENT_MEMCPY_DMA_ASYNC_PROD = 46"
definition IPA_CLIENT_MEMCPY_DMA_ASYNC_CONS :: ipa_client_type where "IPA_CLIENT_MEMCPY_DMA_ASYNC_CONS = 47"
definition IPA_CLIENT_ETHERNET_PROD :: ipa_client_type where "IPA_CLIENT_ETHERNET_PROD = 48"
definition IPA_CLIENT_ETHERNET_CONS :: ipa_client_type where "IPA_CLIENT_ETHERNET_CONS = 49"
definition IPA_CLIENT_Q6_LAN_PROD :: ipa_client_type where "IPA_CLIENT_Q6_LAN_PROD = 50"
definition IPA_CLIENT_Q6_LAN_CONS :: ipa_client_type where "IPA_CLIENT_Q6_LAN_CONS = 51"
definition IPA_CLIENT_Q6_WAN_PROD :: ipa_client_type where "IPA_CLIENT_Q6_WAN_PROD = 52"
definition IPA_CLIENT_Q6_WAN_CONS :: ipa_client_type where "IPA_CLIENT_Q6_WAN_CONS = 53"
definition IPA_CLIENT_Q6_CMD_PROD :: ipa_client_type where "IPA_CLIENT_Q6_CMD_PROD = 54"
definition IPA_CLIENT_Q6_DUN_CONS :: ipa_client_type where "IPA_CLIENT_Q6_DUN_CONS = 55"
definition IPA_CLIENT_Q6_DECOMP_PROD :: ipa_client_type where "IPA_CLIENT_Q6_DECOMP_PROD = 56"
definition IPA_CLIENT_Q6_DECOMP_CONS :: ipa_client_type where "IPA_CLIENT_Q6_DECOMP_CONS = 57"
definition IPA_CLIENT_Q6_DECOMP2_PROD :: ipa_client_type where "IPA_CLIENT_Q6_DECOMP2_PROD = 58"
definition IPA_CLIENT_Q6_DECOMP2_CONS :: ipa_client_type where "IPA_CLIENT_Q6_DECOMP2_CONS = 59"
definition IPA_CLIENT_Q6_LTE_WIFI_AGGR_CONS :: ipa_client_type where "IPA_CLIENT_Q6_LTE_WIFI_AGGR_CONS = 61"
definition IPA_CLIENT_TEST_PROD :: ipa_client_type where "IPA_CLIENT_TEST_PROD = 62"
definition IPA_CLIENT_TEST_CONS :: ipa_client_type where "IPA_CLIENT_TEST_CONS = 63"
definition IPA_CLIENT_TEST1_PROD :: ipa_client_type where "IPA_CLIENT_TEST1_PROD = 64"
definition IPA_CLIENT_TEST1_CONS :: ipa_client_type where "IPA_CLIENT_TEST1_CONS = 65"
definition IPA_CLIENT_TEST2_PROD :: ipa_client_type where "IPA_CLIENT_TEST2_PROD = 66"
definition IPA_CLIENT_TEST2_CONS :: ipa_client_type where "IPA_CLIENT_TEST2_CONS = 67"
definition IPA_CLIENT_TEST3_PROD :: ipa_client_type where "IPA_CLIENT_TEST3_PROD = 68"
definition IPA_CLIENT_TEST3_CONS :: ipa_client_type where "IPA_CLIENT_TEST3_CONS = 69"
definition IPA_CLIENT_TEST4_PROD :: ipa_client_type where "IPA_CLIENT_TEST4_PROD = 70"
definition IPA_CLIENT_TEST4_CONS :: ipa_client_type where "IPA_CLIENT_TEST4_CONS = 71"
definition IPA_CLIENT_DUMMY_CONS :: ipa_client_type where "IPA_CLIENT_DUMMY_CONS = 73"

definition IPA_CLIENT_APPS_LAN_WAN_PROD :: ipa_client_type where
  "IPA_CLIENT_APPS_LAN_WAN_PROD = IPA_CLIENT_APPS_WAN_PROD"

text \<open>All of them in the order of the enumeration, with their names, of which the ending says
  which side the client is on.\<close>

definition clients :: "(string \<times> ipa_client_type) list" where
  "clients =
     [(''IPA_CLIENT_HSIC1_PROD'', IPA_CLIENT_HSIC1_PROD),
      (''IPA_CLIENT_HSIC1_CONS'', IPA_CLIENT_HSIC1_CONS),
      (''IPA_CLIENT_HSIC2_PROD'', IPA_CLIENT_HSIC2_PROD),
      (''IPA_CLIENT_HSIC2_CONS'', IPA_CLIENT_HSIC2_CONS),
      (''IPA_CLIENT_HSIC3_PROD'', IPA_CLIENT_HSIC3_PROD),
      (''IPA_CLIENT_HSIC3_CONS'', IPA_CLIENT_HSIC3_CONS),
      (''IPA_CLIENT_HSIC4_PROD'', IPA_CLIENT_HSIC4_PROD),
      (''IPA_CLIENT_HSIC4_CONS'', IPA_CLIENT_HSIC4_CONS),
      (''IPA_CLIENT_HSIC5_PROD'', IPA_CLIENT_HSIC5_PROD),
      (''IPA_CLIENT_HSIC5_CONS'', IPA_CLIENT_HSIC5_CONS),
      (''IPA_CLIENT_WLAN1_PROD'', IPA_CLIENT_WLAN1_PROD),
      (''IPA_CLIENT_WLAN1_CONS'', IPA_CLIENT_WLAN1_CONS),
      (''IPA_CLIENT_A5_WLAN_AMPDU_PROD'', IPA_CLIENT_A5_WLAN_AMPDU_PROD),
      (''IPA_CLIENT_WLAN2_CONS'', IPA_CLIENT_WLAN2_CONS),
      (''IPA_CLIENT_WLAN3_CONS'', IPA_CLIENT_WLAN3_CONS),
      (''IPA_CLIENT_WLAN4_CONS'', IPA_CLIENT_WLAN4_CONS),
      (''IPA_CLIENT_USB_PROD'', IPA_CLIENT_USB_PROD),
      (''IPA_CLIENT_USB_CONS'', IPA_CLIENT_USB_CONS),
      (''IPA_CLIENT_USB2_PROD'', IPA_CLIENT_USB2_PROD),
      (''IPA_CLIENT_USB2_CONS'', IPA_CLIENT_USB2_CONS),
      (''IPA_CLIENT_USB3_PROD'', IPA_CLIENT_USB3_PROD),
      (''IPA_CLIENT_USB3_CONS'', IPA_CLIENT_USB3_CONS),
      (''IPA_CLIENT_USB4_PROD'', IPA_CLIENT_USB4_PROD),
      (''IPA_CLIENT_USB4_CONS'', IPA_CLIENT_USB4_CONS),
      (''IPA_CLIENT_UC_USB_PROD'', IPA_CLIENT_UC_USB_PROD),
      (''IPA_CLIENT_USB_DPL_CONS'', IPA_CLIENT_USB_DPL_CONS),
      (''IPA_CLIENT_A2_EMBEDDED_PROD'', IPA_CLIENT_A2_EMBEDDED_PROD),
      (''IPA_CLIENT_A2_EMBEDDED_CONS'', IPA_CLIENT_A2_EMBEDDED_CONS),
      (''IPA_CLIENT_A2_TETHERED_PROD'', IPA_CLIENT_A2_TETHERED_PROD),
      (''IPA_CLIENT_A2_TETHERED_CONS'', IPA_CLIENT_A2_TETHERED_CONS),
      (''IPA_CLIENT_APPS_LAN_PROD'', IPA_CLIENT_APPS_LAN_PROD),
      (''IPA_CLIENT_APPS_LAN_CONS'', IPA_CLIENT_APPS_LAN_CONS),
      (''IPA_CLIENT_APPS_WAN_PROD'', IPA_CLIENT_APPS_WAN_PROD),
      (''IPA_CLIENT_APPS_WAN_CONS'', IPA_CLIENT_APPS_WAN_CONS),
      (''IPA_CLIENT_APPS_CMD_PROD'', IPA_CLIENT_APPS_CMD_PROD),
      (''IPA_CLIENT_A5_LAN_WAN_CONS'', IPA_CLIENT_A5_LAN_WAN_CONS),
      (''IPA_CLIENT_ODU_PROD'', IPA_CLIENT_ODU_PROD),
      (''IPA_CLIENT_ODU_EMB_CONS'', IPA_CLIENT_ODU_EMB_CONS),
      (''IPA_CLIENT_ODU_TETH_CONS'', IPA_CLIENT_ODU_TETH_CONS),
      (''IPA_CLIENT_MHI_PROD'', IPA_CLIENT_MHI_PROD),
      (''IPA_CLIENT_MHI_CONS'', IPA_CLIENT_MHI_CONS),
      (''IPA_CLIENT_MEMCPY_DMA_SYNC_PROD'', IPA_CLIENT_MEMCPY_DMA_SYNC_PROD),
      (''IPA_CLIENT_MEMCPY_DMA_SYNC_CONS'', IPA_CLIENT_MEMCPY_DMA_SYNC_CONS),
      (''IPA_CLIENT_MEMCPY_DMA_ASYNC_PROD'', IPA_CLIENT_MEMCPY_DMA_ASYNC_PROD),
      (''IPA_CLIENT_MEMCPY_DMA_ASYNC_CONS'', IPA_CLIENT_MEMCPY_DMA_ASYNC_CONS),
      (''IPA_CLIENT_ETHERNET_PROD'', IPA_CLIENT_ETHERNET_PROD),
      (''IPA_CLIENT_ETHERNET_CONS'', IPA_CLIENT_ETHERNET_CONS),
      (''IPA_CLIENT_Q6_LAN_PROD'', IPA_CLIENT_Q6_LAN_PROD),
      (''IPA_CLIENT_Q6_LAN_CONS'', IPA_CLIENT_Q6_LAN_CONS),
      (''IPA_CLIENT_Q6_WAN_PROD'', IPA_CLIENT_Q6_WAN_PROD),
      (''IPA_CLIENT_Q6_WAN_CONS'', IPA_CLIENT_Q6_WAN_CONS),
      (''IPA_CLIENT_Q6_CMD_PROD'', IPA_CLIENT_Q6_CMD_PROD),
      (''IPA_CLIENT_Q6_DUN_CONS'', IPA_CLIENT_Q6_DUN_CONS),
      (''IPA_CLIENT_Q6_DECOMP_PROD'', IPA_CLIENT_Q6_DECOMP_PROD),
      (''IPA_CLIENT_Q6_DECOMP_CONS'', IPA_CLIENT_Q6_DECOMP_CONS),
      (''IPA_CLIENT_Q6_DECOMP2_PROD'', IPA_CLIENT_Q6_DECOMP2_PROD),
      (''IPA_CLIENT_Q6_DECOMP2_CONS'', IPA_CLIENT_Q6_DECOMP2_CONS),
      (''IPA_CLIENT_Q6_LTE_WIFI_AGGR_CONS'', IPA_CLIENT_Q6_LTE_WIFI_AGGR_CONS),
      (''IPA_CLIENT_TEST_PROD'', IPA_CLIENT_TEST_PROD),
      (''IPA_CLIENT_TEST_CONS'', IPA_CLIENT_TEST_CONS),
      (''IPA_CLIENT_TEST1_PROD'', IPA_CLIENT_TEST1_PROD),
      (''IPA_CLIENT_TEST1_CONS'', IPA_CLIENT_TEST1_CONS),
      (''IPA_CLIENT_TEST2_PROD'', IPA_CLIENT_TEST2_PROD),
      (''IPA_CLIENT_TEST2_CONS'', IPA_CLIENT_TEST2_CONS),
      (''IPA_CLIENT_TEST3_PROD'', IPA_CLIENT_TEST3_PROD),
      (''IPA_CLIENT_TEST3_CONS'', IPA_CLIENT_TEST3_CONS),
      (''IPA_CLIENT_TEST4_PROD'', IPA_CLIENT_TEST4_PROD),
      (''IPA_CLIENT_TEST4_CONS'', IPA_CLIENT_TEST4_CONS),
      (''IPA_CLIENT_DUMMY_CONS'', IPA_CLIENT_DUMMY_CONS)]"

lemmas client_numbers =
  IPA_CLIENT_HSIC1_PROD_def
  IPA_CLIENT_HSIC1_CONS_def
  IPA_CLIENT_HSIC2_PROD_def
  IPA_CLIENT_HSIC2_CONS_def
  IPA_CLIENT_HSIC3_PROD_def
  IPA_CLIENT_HSIC3_CONS_def
  IPA_CLIENT_HSIC4_PROD_def
  IPA_CLIENT_HSIC4_CONS_def
  IPA_CLIENT_HSIC5_PROD_def
  IPA_CLIENT_HSIC5_CONS_def
  IPA_CLIENT_WLAN1_PROD_def
  IPA_CLIENT_WLAN1_CONS_def
  IPA_CLIENT_A5_WLAN_AMPDU_PROD_def
  IPA_CLIENT_WLAN2_CONS_def
  IPA_CLIENT_WLAN3_CONS_def
  IPA_CLIENT_WLAN4_CONS_def
  IPA_CLIENT_USB_PROD_def
  IPA_CLIENT_USB_CONS_def
  IPA_CLIENT_USB2_PROD_def
  IPA_CLIENT_USB2_CONS_def
  IPA_CLIENT_USB3_PROD_def
  IPA_CLIENT_USB3_CONS_def
  IPA_CLIENT_USB4_PROD_def
  IPA_CLIENT_USB4_CONS_def
  IPA_CLIENT_UC_USB_PROD_def
  IPA_CLIENT_USB_DPL_CONS_def
  IPA_CLIENT_A2_EMBEDDED_PROD_def
  IPA_CLIENT_A2_EMBEDDED_CONS_def
  IPA_CLIENT_A2_TETHERED_PROD_def
  IPA_CLIENT_A2_TETHERED_CONS_def
  IPA_CLIENT_APPS_LAN_PROD_def
  IPA_CLIENT_APPS_LAN_CONS_def
  IPA_CLIENT_APPS_WAN_PROD_def
  IPA_CLIENT_APPS_WAN_CONS_def
  IPA_CLIENT_APPS_CMD_PROD_def
  IPA_CLIENT_A5_LAN_WAN_CONS_def
  IPA_CLIENT_ODU_PROD_def
  IPA_CLIENT_ODU_EMB_CONS_def
  IPA_CLIENT_ODU_TETH_CONS_def
  IPA_CLIENT_MHI_PROD_def
  IPA_CLIENT_MHI_CONS_def
  IPA_CLIENT_MEMCPY_DMA_SYNC_PROD_def
  IPA_CLIENT_MEMCPY_DMA_SYNC_CONS_def
  IPA_CLIENT_MEMCPY_DMA_ASYNC_PROD_def
  IPA_CLIENT_MEMCPY_DMA_ASYNC_CONS_def
  IPA_CLIENT_ETHERNET_PROD_def
  IPA_CLIENT_ETHERNET_CONS_def
  IPA_CLIENT_Q6_LAN_PROD_def
  IPA_CLIENT_Q6_LAN_CONS_def
  IPA_CLIENT_Q6_WAN_PROD_def
  IPA_CLIENT_Q6_WAN_CONS_def
  IPA_CLIENT_Q6_CMD_PROD_def
  IPA_CLIENT_Q6_DUN_CONS_def
  IPA_CLIENT_Q6_DECOMP_PROD_def
  IPA_CLIENT_Q6_DECOMP_CONS_def
  IPA_CLIENT_Q6_DECOMP2_PROD_def
  IPA_CLIENT_Q6_DECOMP2_CONS_def
  IPA_CLIENT_Q6_LTE_WIFI_AGGR_CONS_def
  IPA_CLIENT_TEST_PROD_def
  IPA_CLIENT_TEST_CONS_def
  IPA_CLIENT_TEST1_PROD_def
  IPA_CLIENT_TEST1_CONS_def
  IPA_CLIENT_TEST2_PROD_def
  IPA_CLIENT_TEST2_CONS_def
  IPA_CLIENT_TEST3_PROD_def
  IPA_CLIENT_TEST3_CONS_def
  IPA_CLIENT_TEST4_PROD_def
  IPA_CLIENT_TEST4_CONS_def
  IPA_CLIENT_DUMMY_CONS_def

definition IPA_CLIENT_MAX :: nat where
  "IPA_CLIENT_MAX = IPA_CLIENT_DUMMY_CONS + 1"

section \<open>The classes\<close>

definition IPA_CLIENT_IS_APPS_CONS :: "ipa_client_type \<Rightarrow> bool" where
  "IPA_CLIENT_IS_APPS_CONS client \<longleftrightarrow>
     client = IPA_CLIENT_APPS_LAN_CONS \<or>
     client = IPA_CLIENT_APPS_WAN_CONS"

definition IPA_CLIENT_IS_USB_CONS :: "ipa_client_type \<Rightarrow> bool" where
  "IPA_CLIENT_IS_USB_CONS client \<longleftrightarrow>
     client = IPA_CLIENT_USB_CONS \<or>
     client = IPA_CLIENT_USB2_CONS \<or>
     client = IPA_CLIENT_USB3_CONS \<or>
     client = IPA_CLIENT_USB_DPL_CONS \<or>
     client = IPA_CLIENT_USB4_CONS"

definition IPA_CLIENT_IS_WLAN_CONS :: "ipa_client_type \<Rightarrow> bool" where
  "IPA_CLIENT_IS_WLAN_CONS client \<longleftrightarrow>
     client = IPA_CLIENT_WLAN1_CONS \<or>
     client = IPA_CLIENT_WLAN2_CONS \<or>
     client = IPA_CLIENT_WLAN3_CONS \<or>
     client = IPA_CLIENT_WLAN4_CONS"

definition IPA_CLIENT_IS_ODU_CONS :: "ipa_client_type \<Rightarrow> bool" where
  "IPA_CLIENT_IS_ODU_CONS client \<longleftrightarrow>
     client = IPA_CLIENT_ODU_EMB_CONS \<or>
     client = IPA_CLIENT_ODU_TETH_CONS"

definition IPA_CLIENT_IS_Q6_CONS :: "ipa_client_type \<Rightarrow> bool" where
  "IPA_CLIENT_IS_Q6_CONS client \<longleftrightarrow>
     client = IPA_CLIENT_Q6_LAN_CONS \<or>
     client = IPA_CLIENT_Q6_WAN_CONS \<or>
     client = IPA_CLIENT_Q6_DUN_CONS \<or>
     client = IPA_CLIENT_Q6_DECOMP_CONS \<or>
     client = IPA_CLIENT_Q6_DECOMP2_CONS \<or>
     client = IPA_CLIENT_Q6_LTE_WIFI_AGGR_CONS"

definition IPA_CLIENT_IS_Q6_PROD :: "ipa_client_type \<Rightarrow> bool" where
  "IPA_CLIENT_IS_Q6_PROD client \<longleftrightarrow>
     client = IPA_CLIENT_Q6_LAN_PROD \<or>
     client = IPA_CLIENT_Q6_WAN_PROD \<or>
     client = IPA_CLIENT_Q6_CMD_PROD \<or>
     client = IPA_CLIENT_Q6_DECOMP_PROD \<or>
     client = IPA_CLIENT_Q6_DECOMP2_PROD"

definition IPA_CLIENT_IS_Q6_NON_ZIP_CONS :: "ipa_client_type \<Rightarrow> bool" where
  "IPA_CLIENT_IS_Q6_NON_ZIP_CONS client \<longleftrightarrow>
     client = IPA_CLIENT_Q6_LAN_CONS \<or>
     client = IPA_CLIENT_Q6_WAN_CONS \<or>
     client = IPA_CLIENT_Q6_DUN_CONS \<or>
     client = IPA_CLIENT_Q6_LTE_WIFI_AGGR_CONS"

definition IPA_CLIENT_IS_Q6_ZIP_CONS :: "ipa_client_type \<Rightarrow> bool" where
  "IPA_CLIENT_IS_Q6_ZIP_CONS client \<longleftrightarrow>
     client = IPA_CLIENT_Q6_DECOMP_CONS \<or>
     client = IPA_CLIENT_Q6_DECOMP2_CONS"

definition IPA_CLIENT_IS_Q6_NON_ZIP_PROD :: "ipa_client_type \<Rightarrow> bool" where
  "IPA_CLIENT_IS_Q6_NON_ZIP_PROD client \<longleftrightarrow>
     client = IPA_CLIENT_Q6_LAN_PROD \<or>
     client = IPA_CLIENT_Q6_WAN_PROD \<or>
     client = IPA_CLIENT_Q6_CMD_PROD"

definition IPA_CLIENT_IS_Q6_ZIP_PROD :: "ipa_client_type \<Rightarrow> bool" where
  "IPA_CLIENT_IS_Q6_ZIP_PROD client \<longleftrightarrow>
     client = IPA_CLIENT_Q6_DECOMP_PROD \<or>
     client = IPA_CLIENT_Q6_DECOMP2_PROD"

definition IPA_CLIENT_IS_MEMCPY_DMA_CONS :: "ipa_client_type \<Rightarrow> bool" where
  "IPA_CLIENT_IS_MEMCPY_DMA_CONS client \<longleftrightarrow>
     client = IPA_CLIENT_MEMCPY_DMA_SYNC_CONS \<or>
     client = IPA_CLIENT_MEMCPY_DMA_ASYNC_CONS"

definition IPA_CLIENT_IS_MEMCPY_DMA_PROD :: "ipa_client_type \<Rightarrow> bool" where
  "IPA_CLIENT_IS_MEMCPY_DMA_PROD client \<longleftrightarrow>
     client = IPA_CLIENT_MEMCPY_DMA_SYNC_PROD \<or>
     client = IPA_CLIENT_MEMCPY_DMA_ASYNC_PROD"

definition IPA_CLIENT_IS_MHI_CONS :: "ipa_client_type \<Rightarrow> bool" where
  "IPA_CLIENT_IS_MHI_CONS client \<longleftrightarrow>
     client = IPA_CLIENT_MHI_CONS"

definition IPA_CLIENT_IS_MHI :: "ipa_client_type \<Rightarrow> bool" where
  "IPA_CLIENT_IS_MHI client \<longleftrightarrow>
     client = IPA_CLIENT_MHI_CONS \<or>
     client = IPA_CLIENT_MHI_PROD"

definition IPA_CLIENT_IS_TEST_PROD :: "ipa_client_type \<Rightarrow> bool" where
  "IPA_CLIENT_IS_TEST_PROD client \<longleftrightarrow>
     client = IPA_CLIENT_TEST_PROD \<or>
     client = IPA_CLIENT_TEST1_PROD \<or>
     client = IPA_CLIENT_TEST2_PROD \<or>
     client = IPA_CLIENT_TEST3_PROD \<or>
     client = IPA_CLIENT_TEST4_PROD"

definition IPA_CLIENT_IS_TEST_CONS :: "ipa_client_type \<Rightarrow> bool" where
  "IPA_CLIENT_IS_TEST_CONS client \<longleftrightarrow>
     client = IPA_CLIENT_TEST_CONS \<or>
     client = IPA_CLIENT_TEST1_CONS \<or>
     client = IPA_CLIENT_TEST2_CONS \<or>
     client = IPA_CLIENT_TEST3_CONS \<or>
     client = IPA_CLIENT_TEST4_CONS"

definition IPA_CLIENT_IS_TEST :: "ipa_client_type \<Rightarrow> bool" where
  "IPA_CLIENT_IS_TEST client \<longleftrightarrow>
     IPA_CLIENT_IS_TEST_PROD client \<or> IPA_CLIENT_IS_TEST_CONS client"

lemmas client_classes =
  IPA_CLIENT_IS_APPS_CONS_def
  IPA_CLIENT_IS_USB_CONS_def
  IPA_CLIENT_IS_WLAN_CONS_def
  IPA_CLIENT_IS_ODU_CONS_def
  IPA_CLIENT_IS_Q6_CONS_def
  IPA_CLIENT_IS_Q6_PROD_def
  IPA_CLIENT_IS_Q6_NON_ZIP_CONS_def
  IPA_CLIENT_IS_Q6_ZIP_CONS_def
  IPA_CLIENT_IS_Q6_NON_ZIP_PROD_def
  IPA_CLIENT_IS_Q6_ZIP_PROD_def
  IPA_CLIENT_IS_MEMCPY_DMA_CONS_def
  IPA_CLIENT_IS_MEMCPY_DMA_PROD_def
  IPA_CLIENT_IS_MHI_CONS_def
  IPA_CLIENT_IS_MHI_def
  IPA_CLIENT_IS_TEST_PROD_def
  IPA_CLIENT_IS_TEST_CONS_def
  IPA_CLIENT_IS_TEST_def

section \<open>Properties\<close>

definition name_ends :: "string \<Rightarrow> string \<Rightarrow> bool" where
  "name_ends name ending \<longleftrightarrow> take (length ending) (rev name) = rev ending"

definition consumer_classes :: "(ipa_client_type \<Rightarrow> bool) list" where
  "consumer_classes =
     [IPA_CLIENT_IS_APPS_CONS, IPA_CLIENT_IS_USB_CONS, IPA_CLIENT_IS_WLAN_CONS,
      IPA_CLIENT_IS_ODU_CONS, IPA_CLIENT_IS_Q6_CONS, IPA_CLIENT_IS_MEMCPY_DMA_CONS,
      IPA_CLIENT_IS_MHI_CONS, IPA_CLIENT_IS_TEST_CONS]"

definition producer_classes :: "(ipa_client_type \<Rightarrow> bool) list" where
  "producer_classes =
     [IPA_CLIENT_IS_Q6_PROD, IPA_CLIENT_IS_MEMCPY_DMA_PROD, IPA_CLIENT_IS_TEST_PROD]"

text \<open>The numbers ascend, and are even or odd as the name says producer or consumer.\<close>

lemma clients_ascend: "sorted_wrt (<) (map snd clients)"
proof -
  have "successively (<) (map snd clients)" unfolding clients_def client_numbers by simp
  then show ?thesis by (simp add: successively_conv_sorted_wrt)
qed

lemma parity_of_name:
  "list_all (\<lambda>(name, c). (even c \<longleftrightarrow> name_ends name ''_PROD'') \<and> (odd c \<longleftrightarrow> name_ends name ''_CONS''))
     clients"
  unfolding clients_def client_numbers by (simp add: name_ends_def)

text \<open>A client is in at most one class of consumers if it is one and in none if not, and likewise
  for producers; and the Q6 classes are split into the compressing clients and the others.\<close>

lemma consumer_class_of:
  "list_all (\<lambda>(name, c). length (filter (\<lambda>is_class. is_class c) consumer_classes) \<le>
     (if odd c then 1 else 0)) clients"
  unfolding clients_def consumer_classes_def client_classes client_numbers by simp

lemma producer_class_of:
  "list_all (\<lambda>(name, c). length (filter (\<lambda>is_class. is_class c) producer_classes) \<le>
     (if odd c then 0 else 1)) clients"
  unfolding clients_def producer_classes_def client_classes client_numbers by simp

lemma q6_classes_split:
  "IPA_CLIENT_IS_Q6_CONS c = (IPA_CLIENT_IS_Q6_ZIP_CONS c \<noteq> IPA_CLIENT_IS_Q6_NON_ZIP_CONS c)"
  "IPA_CLIENT_IS_Q6_PROD c = (IPA_CLIENT_IS_Q6_ZIP_PROD c \<noteq> IPA_CLIENT_IS_Q6_NON_ZIP_PROD c)"
  unfolding client_classes client_numbers by auto

end
