(* ===== verification/CodecRegisters.thy ===== *)
theory CodecRegisters
  imports PackedFields
begin

text \<open>
  The registers of the WCD9320 codec (linux/mfd/wcd9xxx/wcd9320\_registers.h) and the ones common to
  its family (wcd9xxx\_registers.h): each with its address and, where the header gives one, the
  value it has after a reset. Some registers of the WCD9320 are defined as one of the family's.
\<close>

type_synonym register = "string \<times> nat \<times> nat option"

section \<open>The family\<close>

definition wcd9xxx_registers_1 :: "register list" where
  "wcd9xxx_registers_1 =
     [(''WCD9XXX_A_CHIP_CTL'', 0x0, Some 0x0),
      (''WCD9XXX_A_CHIP_STATUS'', 0x1, Some 0x0),
      (''WCD9XXX_A_CHIP_ID_BYTE_0'', 0x4, Some 0x0),
      (''WCD9XXX_A_CHIP_ID_BYTE_1'', 0x5, Some 0x0),
      (''WCD9XXX_A_CHIP_ID_BYTE_2'', 0x6, Some 0x0),
      (''WCD9XXX_A_CHIP_ID_BYTE_3'', 0x7, Some 0x1),
      (''WCD9XXX_A_CHIP_VERSION'', 0x8, Some 0x20),
      (''WCD9XXX_A_SB_VERSION'', 0x9, Some 0x10),
      (''WCD9XXX_A_SLAVE_ID_1'', 0xC, Some 0x77),
      (''WCD9XXX_A_SLAVE_ID_2'', 0xD, Some 0x66),
      (''WCD9XXX_A_SLAVE_ID_3'', 0xE, Some 0x55),
      (''WCD9XXX_A_CDC_CTL'', 0x80, Some 0x0),
      (''WCD9XXX_A_LEAKAGE_CTL'', 0x88, Some 0x4),
      (''WCD9XXX_A_INTR_MODE'', 0x90, None),
      (''WCD9XXX_A_INTR_MASK0'', 0x94, None),
      (''WCD9XXX_A_INTR_STATUS0'', 0x98, None),
      (''WCD9XXX_A_INTR_CLEAR0'', 0x9C, None),
      (''WCD9XXX_A_INTR_LEVEL0'', 0xA0, None),
      (''WCD9XXX_A_INTR_LEVEL1'', 0xA1, None),
      (''WCD9XXX_A_INTR_LEVEL2'', 0xA2, None),
      (''WCD9XXX_A_RX_HPH_CNP_EN'', 0x1AB, Some 0x80),
      (''WCD9XXX_A_RX_HPH_CNP_EN'', 0x1AB, Some 0x80),
      (''WCD9XXX_A_BIAS_CENTRAL_BG_CTL'', 0x101, Some 0x50),
      (''WCD9XXX_A_CLK_BUFF_EN1'', 0x108, Some 0x4),
      (''WCD9XXX_A_CLK_BUFF_EN2'', 0x109, Some 0x2),
      (''WCD9XXX_A_RX_COM_BIAS'', 0x1A2, Some 0x0),
      (''WCD9XXX_A_RC_OSC_FREQ'', 0x1FA, Some 0x46),
      (''WCD9XXX_A_BIAS_OSC_BG_CTL'', 0x105, Some 0x16),
      (''WCD9XXX_A_RC_OSC_TEST'', 0x1FB, Some 0xA),
      (''WCD9XXX_A_CDC_CLK_MCLK_CTL'', 0x311, Some 0x0),
      (''WCD9XXX_A_CDC_MBHC_EN_CTL'', 0x3C0, Some 0x0),
      (''WCD9XXX_A_CDC_MBHC_FIR_B1_CFG'', 0x3C1, Some 0x0),
      (''WCD9XXX_A_CDC_MBHC_FIR_B2_CFG'', 0x3C2, Some 0x6),
      (''WCD9XXX_A_CDC_MBHC_TIMER_B1_CTL'', 0x3C3, Some 0x3),
      (''WCD9XXX_A_CDC_MBHC_TIMER_B2_CTL'', 0x3C4, Some 0x9),
      (''WCD9XXX_A_CDC_MBHC_TIMER_B3_CTL'', 0x3C5, Some 0x1E),
      (''WCD9XXX_A_CDC_MBHC_TIMER_B4_CTL'', 0x3C6, Some 0x45),
      (''WCD9XXX_A_CDC_MBHC_TIMER_B5_CTL'', 0x3C7, Some 0x4),
      (''WCD9XXX_A_CDC_MBHC_TIMER_B6_CTL'', 0x3C8, Some 0x78),
      (''WCD9XXX_A_CDC_MBHC_B1_STATUS'', 0x3C9, Some 0x0),
      (''WCD9XXX_A_CDC_MBHC_B2_STATUS'', 0x3CA, Some 0x0),
      (''WCD9XXX_A_CDC_MBHC_B3_STATUS'', 0x3CB, Some 0x0),
      (''WCD9XXX_A_CDC_MBHC_B4_STATUS'', 0x3CC, Some 0x0),
      (''WCD9XXX_A_CDC_MBHC_B5_STATUS'', 0x3CD, Some 0x0),
      (''WCD9XXX_A_CDC_MBHC_B1_CTL'', 0x3CE, Some 0xC0),
      (''WCD9XXX_A_CDC_MBHC_B2_CTL'', 0x3CF, Some 0x5D),
      (''WCD9XXX_A_CDC_MBHC_VOLT_B1_CTL'', 0x3D0, Some 0x0),
      (''WCD9XXX_A_CDC_MBHC_VOLT_B2_CTL'', 0x3D1, Some 0x0),
      (''WCD9XXX_A_CDC_MBHC_VOLT_B3_CTL'', 0x3D2, Some 0x0),
      (''WCD9XXX_A_CDC_MBHC_VOLT_B4_CTL'', 0x3D3, Some 0x0),
      (''WCD9XXX_A_CDC_MBHC_VOLT_B5_CTL'', 0x3D4, Some 0x0),
      (''WCD9XXX_A_CDC_MBHC_VOLT_B6_CTL'', 0x3D5, Some 0x0),
      (''WCD9XXX_A_CDC_MBHC_VOLT_B7_CTL'', 0x3D6, Some 0xFF),
      (''WCD9XXX_A_CDC_MBHC_VOLT_B8_CTL'', 0x3D7, Some 0x7),
      (''WCD9XXX_A_CDC_MBHC_VOLT_B9_CTL'', 0x3D8, Some 0xFF),
      (''WCD9XXX_A_CDC_MBHC_VOLT_B10_CTL'', 0x3D9, Some 0x7F),
      (''WCD9XXX_A_CDC_MBHC_VOLT_B11_CTL'', 0x3DA, Some 0x0),
      (''WCD9XXX_A_CDC_MBHC_VOLT_B12_CTL'', 0x3DB, Some 0x80),
      (''WCD9XXX_A_CDC_MBHC_CLK_CTL'', 0x3DC, Some 0x0),
      (''WCD9XXX_A_CDC_MBHC_INT_CTL'', 0x3DD, Some 0x0),
      (''WCD9XXX_A_CDC_MBHC_DEBUG_CTL'', 0x3DE, Some 0x0),
      (''WCD9XXX_A_CDC_MBHC_SPARE'', 0x3DF, Some 0x0),
      (''WCD9XXX_A_MBHC_SCALING_MUX_1'', 0x14E, Some 0x0),
      (''WCD9XXX_A_RX_HPH_OCP_CTL'', 0x1AA, Some 0x68),
      (''WCD9XXX_A_MICB_1_CTL'', 0x12B, Some 0x16),
      (''WCD9XXX_A_MICB_1_INT_RBIAS'', 0x12C, Some 0x24),
      (''WCD9XXX_A_MICB_1_MBHC'', 0x12D, Some 0x1),
      (''WCD9XXX_A_MICB_CFILT_2_CTL'', 0x12E, Some 0x40),
      (''WCD9XXX_A_MICB_CFILT_2_VAL'', 0x12F, Some 0x80),
      (''WCD9XXX_A_MICB_CFILT_2_PRECHRG'', 0x130, Some 0x38)]"

definition wcd9xxx_registers_2 :: "register list" where
  "wcd9xxx_registers_2 =
     [(''WCD9XXX_A_MICB_2_CTL'', 0x131, Some 0x16),
      (''WCD9XXX_A_MICB_2_INT_RBIAS'', 0x132, Some 0x24),
      (''WCD9XXX_A_MICB_2_MBHC'', 0x133, Some 0x2),
      (''WCD9XXX_A_MICB_CFILT_3_CTL'', 0x134, Some 0x40),
      (''WCD9XXX_A_MICB_CFILT_3_VAL'', 0x135, Some 0x80),
      (''WCD9XXX_A_MICB_CFILT_3_PRECHRG'', 0x136, Some 0x38),
      (''WCD9XXX_A_MICB_3_CTL'', 0x137, Some 0x16),
      (''WCD9XXX_A_MICB_3_INT_RBIAS'', 0x138, Some 0x24),
      (''WCD9XXX_A_MICB_3_MBHC'', 0x139, Some 0x0),
      (''WCD9XXX_A_MICB_4_CTL'', 0x13D, Some 0x16),
      (''WCD9XXX_A_MICB_4_INT_RBIAS'', 0x13E, Some 0x24),
      (''WCD9XXX_A_MICB_4_MBHC'', 0x13F, Some 0x1),
      (''WCD9XXX_A_MICB_CFILT_1_VAL'', 0x129, Some 0x80),
      (''WCD9XXX_A_RX_HPH_L_STATUS'', 0x1B3, Some 0x0),
      (''WCD9XXX_A_MBHC_HPH'', 0x1FE, Some 0x44),
      (''WCD9XXX_A_RX_HPH_CNP_WG_TIME'', 0x1AD, Some 0x2A),
      (''WCD9XXX_A_RX_HPH_R_DAC_CTL'', 0x1B7, Some 0x0),
      (''WCD9XXX_A_RX_HPH_L_DAC_CTL'', 0x1B1, Some 0x0),
      (''WCD9XXX_A_TX_7_MBHC_EN'', 0x171, Some 0xC),
      (''WCD9XXX_A_PIN_CTL_OE0'', 0x10, Some 0x0),
      (''WCD9XXX_A_PIN_CTL_OE1'', 0x11, Some 0x0),
      (''WCD9XXX_A_MICB_CFILT_1_CTL'', 0x128, Some 0x40),
      (''WCD9XXX_A_LDO_H_MODE_1'', 0x110, Some 0x65),
      (''WCD9XXX_A_TX_7_MBHC_TEST_CTL'', 0x174, Some 0x38),
      (''WCD9XXX_A_MBHC_SCALING_MUX_2'', 0x14F, Some 0x80),
      (''WCD9XXX_A_TX_COM_BIAS'', 0x14C, Some 0xF0),
      (''WCD9XXX_A_MBHC_INSERT_DETECT'', 0x14A, Some 0x0),
      (''WCD9XXX_A_MBHC_INSERT_DET_STATUS'', 0x14B, Some 0x0),
      (''WCD9XXX_A_MAD_ANA_CTRL'', 0x150, Some 0xF1),
      (''WCD9XXX_A_CDC_CLK_OTHR_CTL'', 0x30C, Some 0x0),
      (''WCD9XXX_A_BUCK_MODE_1'', 0x181, Some 0x21),
      (''WCD9XXX_A_BUCK_MODE_2'', 0x182, Some 0xFF),
      (''WCD9XXX_A_BUCK_MODE_3'', 0x183, Some 0xCC),
      (''WCD9XXX_A_BUCK_MODE_4'', 0x184, Some 0x3A),
      (''WCD9XXX_A_BUCK_MODE_5'', 0x185, Some 0x0),
      (''WCD9XXX_A_BUCK_CTRL_VCL_1'', 0x186, Some 0x48),
      (''WCD9XXX_A_BUCK_CTRL_VCL_2'', 0x187, Some 0xA3),
      (''WCD9XXX_A_BUCK_CTRL_VCL_3'', 0x188, Some 0x82),
      (''WCD9XXX_A_BUCK_CTRL_CCL_1'', 0x189, Some 0xAB),
      (''WCD9XXX_A_BUCK_CTRL_CCL_2'', 0x18A, Some 0xDC),
      (''WCD9XXX_A_BUCK_CTRL_CCL_3'', 0x18B, Some 0x6A),
      (''WCD9XXX_A_BUCK_CTRL_CCL_4'', 0x18C, Some 0x58),
      (''WCD9XXX_A_BUCK_CTRL_PWM_DRVR_1'', 0x18D, Some 0x50),
      (''WCD9XXX_A_BUCK_CTRL_PWM_DRVR_2'', 0x18E, Some 0x64),
      (''WCD9XXX_A_BUCK_CTRL_PWM_DRVR_3'', 0x18F, Some 0x77),
      (''WCD9XXX_A_BUCK_TMUX_A_D'', 0x190, Some 0x0),
      (''WCD9XXX_A_NCP_EN'', 0x192, Some 0xFE),
      (''WCD9XXX_A_NCP_STATIC'', 0x194, Some 0x28),
      (''WCD9XXX_A_NCP_BUCKREF'', 0x191, Some 0x0),
      (''WCD9XXX_A_CDC_CLSH_B1_CTL'', 0x320, Some 0xE4),
      (''WCD9XXX_A_CDC_CLSH_B2_CTL'', 0x321, Some 0x0),
      (''WCD9XXX_A_CDC_CLSH_B3_CTL'', 0x322, Some 0x0),
      (''WCD9XXX_A_CDC_CLSH_BUCK_NCP_VARS'', 0x323, Some 0x0),
      (''WCD9XXX_A_CDC_CLSH_IDLE_HPH_THSD'', 0x324, Some 0x12),
      (''WCD9XXX_A_CDC_CLSH_IDLE_EAR_THSD'', 0x325, Some 0xC),
      (''WCD9XXX_A_CDC_CLSH_FCLKONLY_HPH_THSD'', 0x326, Some 0x18),
      (''WCD9XXX_A_CDC_CLSH_FCLKONLY_EAR_THSD'', 0x327, Some 0x23),
      (''WCD9XXX_A_CDC_CLSH_K_ADDR'', 0x328, Some 0x0),
      (''WCD9XXX_A_CDC_CLSH_K_DATA'', 0x329, Some 0xA4),
      (''WCD9XXX_A_CDC_CLSH_I_PA_FACT_HPH_L'', 0x32A, Some 0xD7),
      (''WCD9XXX_A_CDC_CLSH_I_PA_FACT_HPH_U'', 0x32B, Some 0x5),
      (''WCD9XXX_A_CDC_CLSH_I_PA_FACT_EAR_L'', 0x32C, Some 0x60),
      (''WCD9XXX_A_CDC_CLSH_I_PA_FACT_EAR_U'', 0x32D, Some 0x9),
      (''WCD9XXX_A_CDC_CLSH_V_PA_HD_EAR'', 0x32E, Some 0x0),
      (''WCD9XXX_A_CDC_CLSH_V_PA_HD_HPH'', 0x32F, Some 0x0),
      (''WCD9XXX_A_CDC_CLSH_V_PA_MIN_EAR'', 0x330, Some 0x0),
      (''WCD9XXX_A_CDC_CLSH_V_PA_MIN_HPH'', 0x331, Some 0x0),
      (''WCD9XXX_A_CDC_RX1_B6_CTL'', 0x2B5, Some 0x80),
      (''WCD9XXX_A_CDC_RX2_B6_CTL'', 0x2BD, Some 0x80),
      (''WCD9XXX_A_RX_HPH_L_GAIN'', 0x1AE, Some 0x0)]"

definition wcd9xxx_registers_3 :: "register list" where
  "wcd9xxx_registers_3 =
     [(''WCD9XXX_A_RX_HPH_R_GAIN'', 0x1B4, Some 0x0),
      (''WCD9XXX_A_RX_HPH_CHOP_CTL'', 0x1A5, Some 0xB4),
      (''WCD9XXX_A_RX_HPH_BIAS_PA'', 0x1A6, Some 0x7A),
      (''WCD9XXX_A_RX_HPH_L_TEST'', 0x1AF, Some 0x0),
      (''WCD9XXX_A_RX_HPH_R_TEST'', 0x1B5, Some 0x0),
      (''WCD9XXX_A_CDC_CLK_RX_B1_CTL'', 0x30F, Some 0x0),
      (''WCD9XXX_A_NCP_CLK'', 0x193, Some 0x94),
      (''WCD9XXX_A_RX_HPH_BIAS_WG_OCP'', 0x1A9, Some 0x2A),
      (''WCD9XXX_A_RX_HPH_CNP_WG_CTL'', 0x1AC, Some 0xDE),
      (''WCD9XXX_A_RX_HPH_L_PA_CTL'', 0x1B0, Some 0x42),
      (''WCD9XXX_A_RX_HPH_R_PA_CTL'', 0x1B6, Some 0x42),
      (''WCD9XXX_A_CDC_CONN_RX2_B1_CTL'', 0x383, Some 0x0),
      (''WCD9XXX_A_CDC_PA_RAMP_B1_CTL'', 0x361, Some 0x0),
      (''WCD9XXX_A_CDC_PA_RAMP_B2_CTL'', 0x362, Some 0x0),
      (''WCD9XXX_A_CDC_PA_RAMP_B3_CTL'', 0x363, Some 0x0),
      (''WCD9XXX_A_CDC_PA_RAMP_B4_CTL'', 0x364, Some 0x0),
      (''WCD9330_A_LEAKAGE_CTL'', 0x3C, Some 0x4),
      (''WCD9330_A_CDC_CTL'', 0x34, Some 0x0),
      (''WCD9XXX_A_CDC_RX0_RX_PATH_CFG0'', 0xB42, None),
      (''WCD9XXX_A_CDC_RX1_RX_PATH_CFG0'', 0xB56, None),
      (''WCD9XXX_A_CDC_RX2_RX_PATH_CFG0'', 0xB6A, None),
      (''WCD9XXX_A_CDC_CLSH_K1_MSB'', 0xC08, None),
      (''WCD9XXX_A_CDC_CLSH_K1_LSB'', 0xC09, None),
      (''WCD9XXX_A_ANA_RX_SUPPLIES'', 0x608, None),
      (''WCD9XXX_A_ANA_HPH'', 0x609, None),
      (''WCD9XXX_A_CDC_CLSH_CRC'', 0xC01, None),
      (''WCD9XXX_FLYBACK_EN'', 0x6A4, None),
      (''WCD9XXX_FLYBACK_VNEG_CTRL_1'', 0x6A5, None),
      (''WCD9XXX_FLYBACK_VNEGDAC_CTRL_2'', 0x6AF, None),
      (''WCD9XXX_RX_BIAS_FLYB_BUFF'', 0x6C7, None),
      (''WCD9XXX_HPH_L_EN'', 0x6D3, None),
      (''WCD9XXX_HPH_R_EN'', 0x6D6, None),
      (''WCD9XXX_HPH_REFBUFF_UHQA_CTL'', 0x6DD, None),
      (''WCD9XXX_CLASSH_CTRL_VCL_2'', 0x69B, None),
      (''WCD9XXX_CDC_CLSH_HPH_V_PA'', 0xC04, None),
      (''WCD9XXX_CDC_RX0_RX_PATH_SEC0'', 0xB49, None),
      (''WCD9XXX_CDC_RX1_RX_PATH_CTL'', 0xB55, None),
      (''WCD9XXX_CDC_RX2_RX_PATH_CTL'', 0xB69, None),
      (''WCD9XXX_CDC_CLK_RST_CTRL_MCLK_CONTROL'', 0xD41, None),
      (''WCD9XXX_CLASSH_CTRL_CCL_1'', 0x69C, None),
      (''WCD9XXX_CDC_RX1_RX_VOL_CTL'', 0xB59, None),
      (''WCD9XXX_CDC_RX1_RX_VOL_MIX_CTL'', 0xB5C, None),
      (''WCD9XXX_CDC_RX1_RX_PATH_SEC1'', 0xB5E, None),
      (''WCD9XXX_CDC_RX2_RX_VOL_CTL'', 0xB6D, None),
      (''WCD9XXX_CDC_RX2_RX_VOL_MIX_CTL'', 0xB70, None),
      (''WCD9XXX_CDC_RX2_RX_PATH_SEC1'', 0xB72, None),
      (''WCD9XXX_HPH_CNP_WG_CTL'', 0x6CC, None),
      (''WCD9XXX_FLYBACK_VNEG_CTRL_4'', 0x6A8, None),
      (''WCD9XXX_HPH_NEW_INT_PA_MISC2'', 0x738, None),
      (''WCD9XXX_RX_BIAS_HPH_LOWPOWER'', 0x6BF, None),
      (''WCD9XXX_HPH_PA_CTL1'', 0x6D1, None)]"

definition wcd9xxx_registers :: "register list" where
  "wcd9xxx_registers = wcd9xxx_registers_1 @ wcd9xxx_registers_2 @ wcd9xxx_registers_3"

definition family_address :: "string \<Rightarrow> nat" where
  "family_address name = fst (the (map_of wcd9xxx_registers name))"

definition family_reset :: "string \<Rightarrow> nat option" where
  "family_reset name = snd (the (map_of wcd9xxx_registers name))"

section \<open>The WCD9320\<close>

definition taiko_registers_1 :: "register list" where
  "taiko_registers_1 =
     [(''TAIKO_A_CHIP_CTL'', family_address ''WCD9XXX_A_CHIP_CTL'', family_reset ''WCD9XXX_A_CHIP_CTL''),
      (''TAIKO_A_CHIP_STATUS'', family_address ''WCD9XXX_A_CHIP_STATUS'', family_reset ''WCD9XXX_A_CHIP_STATUS''),
      (''TAIKO_A_CHIP_ID_BYTE_0'', family_address ''WCD9XXX_A_CHIP_ID_BYTE_0'', family_reset ''WCD9XXX_A_CHIP_ID_BYTE_0''),
      (''TAIKO_A_CHIP_ID_BYTE_1'', family_address ''WCD9XXX_A_CHIP_ID_BYTE_1'', family_reset ''WCD9XXX_A_CHIP_ID_BYTE_1''),
      (''TAIKO_A_CHIP_ID_BYTE_2'', family_address ''WCD9XXX_A_CHIP_ID_BYTE_2'', family_reset ''WCD9XXX_A_CHIP_ID_BYTE_2''),
      (''TAIKO_A_CHIP_ID_BYTE_3'', family_address ''WCD9XXX_A_CHIP_ID_BYTE_3'', family_reset ''WCD9XXX_A_CHIP_ID_BYTE_3''),
      (''TAIKO_A_CHIP_VERSION'', family_address ''WCD9XXX_A_CHIP_VERSION'', family_reset ''WCD9XXX_A_CHIP_VERSION''),
      (''TAIKO_A_SB_VERSION'', family_address ''WCD9XXX_A_SB_VERSION'', family_reset ''WCD9XXX_A_SB_VERSION''),
      (''TAIKO_A_SLAVE_ID_1'', family_address ''WCD9XXX_A_SLAVE_ID_1'', family_reset ''WCD9XXX_A_SLAVE_ID_1''),
      (''TAIKO_A_SLAVE_ID_2'', family_address ''WCD9XXX_A_SLAVE_ID_2'', family_reset ''WCD9XXX_A_SLAVE_ID_2''),
      (''TAIKO_A_SLAVE_ID_3'', family_address ''WCD9XXX_A_SLAVE_ID_3'', family_reset ''WCD9XXX_A_SLAVE_ID_3''),
      (''TAIKO_A_PIN_CTL_OE0'', 0x10, Some 0x0),
      (''TAIKO_A_PIN_CTL_OE1'', 0x11, Some 0x0),
      (''TAIKO_A_PIN_CTL_DATA0'', 0x12, Some 0x0),
      (''TAIKO_A_PIN_CTL_DATA1'', 0x13, Some 0x0),
      (''TAIKO_A_HDRIVE_GENERIC'', 0x18, Some 0x0),
      (''TAIKO_A_HDRIVE_OVERRIDE'', 0x19, Some 0x8),
      (''TAIKO_A_ANA_CSR_WAIT_STATE'', 0x20, Some 0x44),
      (''TAIKO_A_PROCESS_MONITOR_CTL0'', 0x40, Some 0x80),
      (''TAIKO_A_PROCESS_MONITOR_CTL1'', 0x41, Some 0x0),
      (''TAIKO_A_PROCESS_MONITOR_CTL2'', 0x42, Some 0x0),
      (''TAIKO_A_PROCESS_MONITOR_CTL3'', 0x43, Some 0x1),
      (''TAIKO_A_QFUSE_CTL'', 0x48, Some 0x0),
      (''TAIKO_A_QFUSE_STATUS'', 0x49, Some 0x0),
      (''TAIKO_A_QFUSE_DATA_OUT0'', 0x4A, Some 0x0),
      (''TAIKO_A_QFUSE_DATA_OUT1'', 0x4B, Some 0x0),
      (''TAIKO_A_QFUSE_DATA_OUT2'', 0x4C, Some 0x0),
      (''TAIKO_A_QFUSE_DATA_OUT3'', 0x4D, Some 0x0),
      (''TAIKO_A_QFUSE_DATA_OUT4'', 0x4E, Some 0x0),
      (''TAIKO_A_QFUSE_DATA_OUT5'', 0x4F, Some 0x0),
      (''TAIKO_A_QFUSE_DATA_OUT6'', 0x50, Some 0x0),
      (''TAIKO_A_QFUSE_DATA_OUT7'', 0x51, Some 0x0),
      (''TAIKO_A_CDC_CTL'', family_address ''WCD9XXX_A_CDC_CTL'', family_reset ''WCD9XXX_A_CDC_CTL''),
      (''TAIKO_A_LEAKAGE_CTL'', family_address ''WCD9XXX_A_LEAKAGE_CTL'', family_reset ''WCD9XXX_A_LEAKAGE_CTL''),
      (''TAIKO_A_INTR_MODE'', 0x90, Some 0x0),
      (''TAIKO_A_INTR_MASK0'', 0x94, Some 0xFF),
      (''TAIKO_A_INTR_MASK1'', 0x95, Some 0xFF),
      (''TAIKO_A_INTR_MASK2'', 0x96, Some 0x3F),
      (''TAIKO_A_INTR_MASK3'', 0x97, Some 0x3F),
      (''TAIKO_A_INTR_STATUS0'', 0x98, Some 0x0),
      (''TAIKO_A_INTR_STATUS1'', 0x99, Some 0x0),
      (''TAIKO_A_INTR_STATUS2'', 0x9A, Some 0x0),
      (''TAIKO_A_INTR_STATUS3'', 0x9B, Some 0x0),
      (''TAIKO_A_INTR_CLEAR0'', 0x9C, Some 0x0),
      (''TAIKO_A_INTR_CLEAR1'', 0x9D, Some 0x0),
      (''TAIKO_A_INTR_CLEAR2'', 0x9E, Some 0x0),
      (''TAIKO_A_INTR_CLEAR3'', 0x9F, Some 0x0),
      (''TAIKO_A_INTR_LEVEL0'', 0xA0, Some 0x1),
      (''TAIKO_A_INTR_LEVEL1'', 0xA1, Some 0x0),
      (''TAIKO_A_INTR_LEVEL2'', 0xA2, Some 0x0),
      (''TAIKO_A_INTR_LEVEL3'', 0xA3, Some 0x0),
      (''TAIKO_A_INTR_TEST0'', 0xA4, Some 0x0),
      (''TAIKO_A_INTR_TEST1'', 0xA5, Some 0x0),
      (''TAIKO_A_INTR_TEST2'', 0xA6, Some 0x0),
      (''TAIKO_A_INTR_TEST3'', 0xA7, Some 0x0),
      (''TAIKO_A_INTR_SET0'', 0xA8, Some 0x0),
      (''TAIKO_A_INTR_SET1'', 0xA9, Some 0x0),
      (''TAIKO_A_INTR_SET2'', 0xAA, Some 0x0),
      (''TAIKO_A_INTR_SET3'', 0xAB, Some 0x0),
      (''TAIKO_A_INTR_DESTN0'', 0xAC, Some 0x0),
      (''TAIKO_A_INTR_DESTN1'', 0xAD, Some 0x0),
      (''TAIKO_A_INTR_DESTN2'', 0xAE, Some 0x0),
      (''TAIKO_A_INTR_DESTN3'', 0xAF, Some 0x0),
      (''TAIKO_A_CDC_TX_I2S_SCK_MODE'', 0xC0, Some 0x0),
      (''TAIKO_A_CDC_TX_I2S_WS_MODE'', 0xC1, Some 0x0),
      (''TAIKO_A_CDC_DMIC_DATA0_MODE'', 0xC4, Some 0x0),
      (''TAIKO_A_CDC_DMIC_CLK0_MODE'', 0xC5, Some 0x0),
      (''TAIKO_A_CDC_DMIC_DATA1_MODE'', 0xC6, Some 0x0),
      (''TAIKO_A_CDC_DMIC_CLK1_MODE'', 0xC7, Some 0x0),
      (''TAIKO_A_CDC_RX_I2S_SCK_MODE'', 0xC8, Some 0x0)]"

definition taiko_registers_2 :: "register list" where
  "taiko_registers_2 =
     [(''TAIKO_A_CDC_RX_I2S_WS_MODE'', 0xC9, Some 0x0),
      (''TAIKO_A_CDC_DMIC_DATA2_MODE'', 0xCA, Some 0x0),
      (''TAIKO_A_CDC_DMIC_CLK2_MODE'', 0xCB, Some 0x0),
      (''TAIKO_A_CDC_INTR1_MODE'', 0xCC, Some 0x0),
      (''TAIKO_A_CDC_SB_NRZ_SEL_MODE'', 0xCD, Some 0x0),
      (''TAIKO_A_CDC_INTR2_MODE'', 0xCE, Some 0x0),
      (''TAIKO_A_CDC_RF_PA_ON_MODE'', 0xCF, Some 0x0),
      (''TAIKO_A_BIAS_REF_CTL'', 0x100, Some 0x1C),
      (''TAIKO_A_BIAS_CENTRAL_BG_CTL'', 0x101, Some 0x50),
      (''TAIKO_A_BIAS_PRECHRG_CTL'', 0x102, Some 0x7),
      (''TAIKO_A_BIAS_CURR_CTL_1'', 0x103, Some 0x52),
      (''TAIKO_A_BIAS_CURR_CTL_2'', 0x104, Some 0x0),
      (''TAIKO_A_BIAS_OSC_BG_CTL'', 0x105, Some 0x16),
      (''TAIKO_A_CLK_BUFF_EN1'', 0x108, Some 0x4),
      (''TAIKO_A_CLK_BUFF_EN2'', 0x109, Some 0x2),
      (''TAIKO_A_LDO_H_MODE_1'', 0x110, Some 0x65),
      (''TAIKO_A_LDO_H_MODE_2'', 0x111, Some 0xA8),
      (''TAIKO_A_LDO_H_LOOP_CTL'', 0x112, Some 0x6B),
      (''TAIKO_A_LDO_H_COMP_1'', 0x113, Some 0x84),
      (''TAIKO_A_LDO_H_COMP_2'', 0x114, Some 0xE0),
      (''TAIKO_A_LDO_H_BIAS_1'', 0x115, Some 0x6D),
      (''TAIKO_A_LDO_H_BIAS_2'', 0x116, Some 0xA5),
      (''TAIKO_A_LDO_H_BIAS_3'', 0x117, Some 0x60),
      (''TAIKO_A_VBAT_CLK'', 0x118, Some 0x3),
      (''TAIKO_A_VBAT_LOOP'', 0x119, Some 0x2),
      (''TAIKO_A_VBAT_REF'', 0x11A, Some 0x20),
      (''TAIKO_A_VBAT_ADC_TEST'', 0x11B, Some 0x0),
      (''TAIKO_A_VBAT_FE'', 0x11C, Some 0x48),
      (''TAIKO_A_VBAT_BIAS_1'', 0x11D, Some 0x3),
      (''TAIKO_A_VBAT_BIAS_2'', 0x11E, Some 0x0),
      (''TAIKO_A_VBAT_ADC_DATA_MSB'', 0x11F, Some 0x0),
      (''TAIKO_A_VBAT_ADC_DATA_LSB'', 0x120, Some 0x0),
      (''TAIKO_A_MICB_CFILT_1_CTL'', 0x128, Some 0x40),
      (''TAIKO_A_MICB_CFILT_1_VAL'', 0x129, Some 0x80),
      (''TAIKO_A_MICB_CFILT_1_PRECHRG'', 0x12A, Some 0x38),
      (''TAIKO_A_MICB_1_CTL'', 0x12B, Some 0x16),
      (''TAIKO_A_MICB_1_INT_RBIAS'', 0x12C, Some 0x24),
      (''TAIKO_A_MICB_1_MBHC'', 0x12D, Some 0x1),
      (''TAIKO_A_MICB_CFILT_2_CTL'', 0x12E, Some 0x40),
      (''TAIKO_A_MICB_CFILT_2_VAL'', 0x12F, Some 0x80),
      (''TAIKO_A_MICB_CFILT_2_PRECHRG'', 0x130, Some 0x38),
      (''TAIKO_A_MICB_2_CTL'', 0x131, Some 0x16),
      (''TAIKO_A_MICB_2_INT_RBIAS'', 0x132, Some 0x24),
      (''TAIKO_A_MICB_2_MBHC'', 0x133, Some 0x2),
      (''TAIKO_A_MICB_CFILT_3_CTL'', 0x134, Some 0x40),
      (''TAIKO_A_MICB_CFILT_3_VAL'', 0x135, Some 0x80),
      (''TAIKO_A_MICB_CFILT_3_PRECHRG'', 0x136, Some 0x38),
      (''TAIKO_A_MICB_3_CTL'', 0x137, Some 0x16),
      (''TAIKO_A_MICB_3_INT_RBIAS'', 0x138, Some 0x24),
      (''TAIKO_A_MICB_3_MBHC'', 0x139, Some 0x0),
      (''TAIKO_A_MICB_4_CTL'', 0x13D, Some 0x16),
      (''TAIKO_A_MICB_4_INT_RBIAS'', 0x13E, Some 0x24),
      (''TAIKO_A_MICB_4_MBHC'', 0x13F, Some 0x1),
      (''TAIKO_A_MBHC_INSERT_DETECT'', 0x14A, Some 0x0),
      (''TAIKO_A_MBHC_INSERT_DET_STATUS'', 0x14B, Some 0x0),
      (''TAIKO_A_TX_COM_BIAS'', 0x14C, Some 0xF0),
      (''TAIKO_A_MBHC_SCALING_MUX_1'', 0x14E, Some 0x0),
      (''TAIKO_A_MBHC_SCALING_MUX_2'', 0x14F, Some 0x80),
      (''TAIKO_A_MAD_ANA_CTRL'', 0x150, Some 0xF1),
      (''TAIKO_A_TX_SUP_SWITCH_CTRL_1'', 0x151, Some 0x0),
      (''TAIKO_A_TX_SUP_SWITCH_CTRL_2'', 0x152, Some 0x80),
      (''TAIKO_A_TX_1_2_EN'', 0x153, Some 0x0),
      (''TAIKO_A_TX_1_2_TEST_EN'', 0x154, Some 0xCC),
      (''TAIKO_A_TX_1_2_ADC_CH1'', 0x155, Some 0x44),
      (''TAIKO_A_TX_1_2_ADC_CH2'', 0x156, Some 0x44),
      (''TAIKO_A_TX_1_2_ATEST_REFCTRL'', 0x157, Some 0x0),
      (''TAIKO_A_TX_1_2_TEST_CTL'', 0x158, Some 0x38),
      (''TAIKO_A_TX_1_2_TEST_BLOCK_EN'', 0x159, Some 0xFC),
      (''TAIKO_A_TX_1_2_TXFE_CLKDIV'', 0x15A, Some 0x55),
      (''TAIKO_A_TX_1_2_SAR_ERR_CH1'', 0x15B, Some 0x0)]"

definition taiko_registers_3 :: "register list" where
  "taiko_registers_3 =
     [(''TAIKO_A_TX_1_2_SAR_ERR_CH2'', 0x15C, Some 0x0),
      (''TAIKO_A_TX_3_4_EN'', 0x15D, Some 0x0),
      (''TAIKO_A_TX_3_4_TEST_EN'', 0x15E, Some 0xCC),
      (''TAIKO_A_TX_3_4_ADC_CH3'', 0x15F, Some 0x44),
      (''TAIKO_A_TX_3_4_ADC_CH4'', 0x160, Some 0x44),
      (''TAIKO_A_TX_3_4_ATEST_REFCTRL'', 0x161, Some 0x0),
      (''TAIKO_A_TX_3_4_TEST_CTL'', 0x162, Some 0x38),
      (''TAIKO_A_TX_3_4_TEST_BLOCK_EN'', 0x163, Some 0xFC),
      (''TAIKO_A_TX_3_4_TXFE_CKDIV'', 0x164, Some 0x55),
      (''TAIKO_A_TX_3_4_SAR_ERR_CH3'', 0x165, Some 0x0),
      (''TAIKO_A_TX_3_4_SAR_ERR_CH4'', 0x166, Some 0x0),
      (''TAIKO_A_TX_5_6_EN'', 0x167, Some 0x11),
      (''TAIKO_A_TX_5_6_TEST_EN'', 0x168, Some 0xCC),
      (''TAIKO_A_TX_5_6_ADC_CH5'', 0x169, Some 0x44),
      (''TAIKO_A_TX_5_6_ADC_CH6'', 0x16A, Some 0x44),
      (''TAIKO_A_TX_5_6_ATEST_REFCTRL'', 0x16B, Some 0x0),
      (''TAIKO_A_TX_5_6_TEST_CTL'', 0x16C, Some 0x38),
      (''TAIKO_A_TX_5_6_TEST_BLOCK_EN'', 0x16D, Some 0xFC),
      (''TAIKO_A_TX_5_6_TXFE_CKDIV'', 0x16E, Some 0x55),
      (''TAIKO_A_TX_5_6_SAR_ERR_CH5'', 0x16F, Some 0x0),
      (''TAIKO_A_TX_5_6_SAR_ERR_CH6'', 0x170, Some 0x0),
      (''TAIKO_A_TX_7_MBHC_EN'', 0x171, Some 0xC),
      (''TAIKO_A_TX_7_MBHC_ATEST_REFCTRL'', 0x172, Some 0x0),
      (''TAIKO_A_TX_7_MBHC_ADC'', 0x173, Some 0x44),
      (''TAIKO_A_TX_7_MBHC_TEST_CTL'', 0x174, Some 0x38),
      (''TAIKO_A_TX_7_MBHC_SAR_ERR'', 0x175, Some 0x0),
      (''TAIKO_A_TX_7_TXFE_CLKDIV'', 0x176, Some 0xB),
      (''TAIKO_A_BUCK_MODE_1'', 0x181, Some 0x21),
      (''TAIKO_A_BUCK_MODE_2'', 0x182, Some 0xFF),
      (''TAIKO_A_BUCK_MODE_3'', 0x183, Some 0xCC),
      (''TAIKO_A_BUCK_MODE_4'', 0x184, Some 0x3A),
      (''TAIKO_A_BUCK_MODE_5'', 0x185, Some 0x0),
      (''TAIKO_A_BUCK_CTRL_VCL_1'', 0x186, Some 0x48),
      (''TAIKO_A_BUCK_CTRL_VCL_2'', 0x187, Some 0xA3),
      (''TAIKO_A_BUCK_CTRL_VCL_3'', 0x188, Some 0x82),
      (''TAIKO_A_BUCK_CTRL_CCL_1'', 0x189, Some 0xAB),
      (''TAIKO_A_BUCK_CTRL_CCL_2'', 0x18A, Some 0xDC),
      (''TAIKO_A_BUCK_CTRL_CCL_3'', 0x18B, Some 0x6A),
      (''TAIKO_A_BUCK_CTRL_CCL_4'', 0x18C, Some 0x58),
      (''TAIKO_A_BUCK_CTRL_PWM_DRVR_1'', 0x18D, Some 0x50),
      (''TAIKO_A_BUCK_CTRL_PWM_DRVR_2'', 0x18E, Some 0x64),
      (''TAIKO_A_BUCK_CTRL_PWM_DRVR_3'', 0x18F, Some 0x77),
      (''TAIKO_A_BUCK_TMUX_A_D'', 0x190, Some 0x0),
      (''TAIKO_A_NCP_BUCKREF'', 0x191, Some 0x0),
      (''TAIKO_A_NCP_EN'', 0x192, Some 0xFE),
      (''TAIKO_A_NCP_CLK'', 0x193, Some 0x94),
      (''TAIKO_A_NCP_STATIC'', 0x194, Some 0x28),
      (''TAIKO_A_NCP_VTH_LOW'', 0x195, Some 0x88),
      (''TAIKO_A_NCP_VTH_HIGH'', 0x196, Some 0xA0),
      (''TAIKO_A_NCP_ATEST'', 0x197, Some 0x0),
      (''TAIKO_A_NCP_DTEST'', 0x198, Some 0x0),
      (''TAIKO_A_NCP_DLY1'', 0x199, Some 0x6),
      (''TAIKO_A_NCP_DLY2'', 0x19A, Some 0x6),
      (''TAIKO_A_RX_AUX_SW_CTL'', 0x19B, Some 0x0),
      (''TAIKO_A_RX_PA_AUX_IN_CONN'', 0x19C, Some 0x0),
      (''TAIKO_A_RX_COM_TIMER_DIV'', 0x19E, Some 0xE8),
      (''TAIKO_A_RX_COM_OCP_CTL'', 0x19F, Some 0x1F),
      (''TAIKO_A_RX_COM_OCP_COUNT'', 0x1A0, Some 0x77),
      (''TAIKO_A_RX_COM_DAC_CTL'', 0x1A1, Some 0x0),
      (''TAIKO_A_RX_COM_BIAS'', 0x1A2, Some 0x0),
      (''TAIKO_A_RX_HPH_AUTO_CHOP'', 0x1A4, Some 0x38),
      (''TAIKO_A_RX_HPH_CHOP_CTL'', 0x1A5, Some 0xB4),
      (''TAIKO_A_RX_HPH_BIAS_PA'', 0x1A6, Some 0xAA),
      (''TAIKO_A_RX_HPH_BIAS_LDO'', 0x1A7, Some 0x87),
      (''TAIKO_A_RX_HPH_BIAS_CNP'', 0x1A8, Some 0x8A),
      (''TAIKO_A_RX_HPH_BIAS_WG_OCP'', 0x1A9, Some 0x2A),
      (''TAIKO_A_RX_HPH_OCP_CTL'', 0x1AA, Some 0x68),
      (''TAIKO_A_RX_HPH_CNP_EN'', 0x1AB, Some 0x80),
      (''TAIKO_A_RX_HPH_CNP_WG_CTL'', 0x1AC, Some 0xDE),
      (''TAIKO_A_RX_HPH_CNP_WG_TIME'', 0x1AD, Some 0x2A)]"

definition taiko_registers_4 :: "register list" where
  "taiko_registers_4 =
     [(''TAIKO_A_RX_HPH_L_GAIN'', 0x1AE, Some 0x0),
      (''TAIKO_A_RX_HPH_L_TEST'', 0x1AF, Some 0x0),
      (''TAIKO_A_RX_HPH_L_PA_CTL'', 0x1B0, Some 0x40),
      (''TAIKO_A_RX_HPH_L_DAC_CTL'', 0x1B1, Some 0x0),
      (''TAIKO_A_RX_HPH_L_ATEST'', 0x1B2, Some 0x0),
      (''TAIKO_A_RX_HPH_L_STATUS'', 0x1B3, Some 0x0),
      (''TAIKO_A_RX_HPH_R_GAIN'', 0x1B4, Some 0x0),
      (''TAIKO_A_RX_HPH_R_TEST'', 0x1B5, Some 0x0),
      (''TAIKO_A_RX_HPH_R_PA_CTL'', 0x1B6, Some 0x40),
      (''TAIKO_A_RX_HPH_R_DAC_CTL'', 0x1B7, Some 0x0),
      (''TAIKO_A_RX_HPH_R_ATEST'', 0x1B8, Some 0x0),
      (''TAIKO_A_RX_HPH_R_STATUS'', 0x1B9, Some 0x0),
      (''TAIKO_A_RX_EAR_BIAS_PA'', 0x1BA, Some 0xA6),
      (''TAIKO_A_RX_EAR_BIAS_CMBUFF'', 0x1BB, Some 0xA0),
      (''TAIKO_A_RX_EAR_EN'', 0x1BC, Some 0x0),
      (''TAIKO_A_RX_EAR_GAIN'', 0x1BD, Some 0x2),
      (''TAIKO_A_RX_EAR_CMBUFF'', 0x1BE, Some 0x4),
      (''TAIKO_A_RX_EAR_ICTL'', 0x1BF, Some 0x40),
      (''TAIKO_A_RX_EAR_CCOMP'', 0x1C0, Some 0x8),
      (''TAIKO_A_RX_EAR_VCM'', 0x1C1, Some 0x3),
      (''TAIKO_A_RX_EAR_CNP'', 0x1C2, Some 0xF2),
      (''TAIKO_A_RX_EAR_DAC_CTL_ATEST'', 0x1C3, Some 0x0),
      (''TAIKO_A_RX_EAR_STATUS'', 0x1C5, Some 0x4),
      (''TAIKO_A_RX_LINE_BIAS_PA'', 0x1C6, Some 0xA8),
      (''TAIKO_A_RX_BUCK_BIAS1'', 0x1C7, Some 0x42),
      (''TAIKO_A_RX_BUCK_BIAS2'', 0x1C8, Some 0x84),
      (''TAIKO_A_RX_LINE_COM'', 0x1C9, Some 0x80),
      (''TAIKO_A_RX_LINE_CNP_EN'', 0x1CA, Some 0x0),
      (''TAIKO_A_RX_LINE_CNP_WG_CTL'', 0x1CB, Some 0x0),
      (''TAIKO_A_RX_LINE_CNP_WG_TIME'', 0x1CC, Some 0x4),
      (''TAIKO_A_RX_LINE_1_GAIN'', 0x1CD, Some 0x0),
      (''TAIKO_A_RX_LINE_1_TEST'', 0x1CE, Some 0x0),
      (''TAIKO_A_RX_LINE_1_DAC_CTL'', 0x1CF, Some 0x0),
      (''TAIKO_A_RX_LINE_1_STATUS'', 0x1D0, Some 0x0),
      (''TAIKO_A_RX_LINE_2_GAIN'', 0x1D1, Some 0x0),
      (''TAIKO_A_RX_LINE_2_TEST'', 0x1D2, Some 0x0),
      (''TAIKO_A_RX_LINE_2_DAC_CTL'', 0x1D3, Some 0x0),
      (''TAIKO_A_RX_LINE_2_STATUS'', 0x1D4, Some 0x0),
      (''TAIKO_A_RX_LINE_3_GAIN'', 0x1D5, Some 0x0),
      (''TAIKO_A_RX_LINE_3_TEST'', 0x1D6, Some 0x0),
      (''TAIKO_A_RX_LINE_3_DAC_CTL'', 0x1D7, Some 0x0),
      (''TAIKO_A_RX_LINE_3_STATUS'', 0x1D8, Some 0x0),
      (''TAIKO_A_RX_LINE_4_GAIN'', 0x1D9, Some 0x0),
      (''TAIKO_A_RX_LINE_4_TEST'', 0x1DA, Some 0x0),
      (''TAIKO_A_RX_LINE_4_DAC_CTL'', 0x1DB, Some 0x0),
      (''TAIKO_A_RX_LINE_4_STATUS'', 0x1DC, Some 0x0),
      (''TAIKO_A_RX_LINE_CNP_DBG'', 0x1DD, Some 0x0),
      (''TAIKO_A_SPKR_DRV_EN'', 0x1DF, Some 0x6F),
      (''TAIKO_A_SPKR_DRV_GAIN'', 0x1E0, Some 0x0),
      (''TAIKO_A_SPKR_DRV_DAC_CTL'', 0x1E1, Some 0x4),
      (''TAIKO_A_SPKR_DRV_OCP_CTL'', 0x1E2, Some 0x98),
      (''TAIKO_A_SPKR_DRV_CLIP_DET'', 0x1E3, Some 0x48),
      (''TAIKO_A_SPKR_DRV_IEC'', 0x1E4, Some 0x20),
      (''TAIKO_A_SPKR_DRV_DBG_DAC'', 0x1E5, Some 0x5),
      (''TAIKO_A_SPKR_DRV_DBG_PA'', 0x1E6, Some 0x18),
      (''TAIKO_A_SPKR_DRV_DBG_PWRSTG'', 0x1E7, Some 0x0),
      (''TAIKO_A_SPKR_DRV_BIAS_LDO'', 0x1E8, Some 0x45),
      (''TAIKO_A_SPKR_DRV_BIAS_INT'', 0x1E9, Some 0xA5),
      (''TAIKO_A_SPKR_DRV_BIAS_PA'', 0x1EA, Some 0x55),
      (''TAIKO_A_SPKR_DRV_STATUS_OCP'', 0x1EB, Some 0x0),
      (''TAIKO_A_SPKR_DRV_STATUS_PA'', 0x1EC, Some 0x0),
      (''TAIKO_A_SPKR_PROT_EN'', 0x1ED, Some 0x0),
      (''TAIKO_A_SPKR_PROT_ADC_EN'', 0x1EE, Some 0x44),
      (''TAIKO_A_SPKR_PROT_ISENSE_BIAS'', 0x1EF, Some 0x44),
      (''TAIKO_A_SPKR_PROT_VSENSE_BIAS'', 0x1F0, Some 0x44),
      (''TAIKO_A_SPKR_PROT_ADC_ATEST_REFCTRL'', 0x1F1, Some 0x0),
      (''TAIKO_A_SPKR_PROT_ADC_TEST_CTL'', 0x1F2, Some 0x38),
      (''TAIKO_A_SPKR_PROT_TEST_BLOCK_EN'', 0x1F3, Some 0xFC),
      (''TAIKO_A_SPKR_PROT_ATEST'', 0x1F4, Some 0x0),
      (''TAIKO_A_SPKR_PROT_V_SAR_ERR'', 0x1F5, Some 0x0)]"

definition taiko_registers_5 :: "register list" where
  "taiko_registers_5 =
     [(''TAIKO_A_SPKR_PROT_I_SAR_ERR'', 0x1F6, Some 0x0),
      (''TAIKO_A_SPKR_PROT_LDO_CTRL'', 0x1F7, Some 0x0),
      (''TAIKO_A_SPKR_PROT_ISENSE_CTRL'', 0x1F8, Some 0x0),
      (''TAIKO_A_SPKR_PROT_VSENSE_CTRL'', 0x1F9, Some 0x0),
      (''TAIKO_A_RC_OSC_FREQ'', 0x1FA, Some 0x46),
      (''TAIKO_A_RC_OSC_TEST'', 0x1FB, Some 0xA),
      (''TAIKO_A_RC_OSC_STATUS'', 0x1FC, Some 0x18),
      (''TAIKO_A_RC_OSC_TUNER'', 0x1FD, Some 0x0),
      (''TAIKO_A_MBHC_HPH'', 0x1FE, Some 0x44),
      (''TAIKO_A_CDC_ANC1_B1_CTL'', 0x200, Some 0x0),
      (''TAIKO_A_CDC_ANC2_B1_CTL'', 0x280, Some 0x0),
      (''TAIKO_A_CDC_ANC1_SHIFT'', 0x201, Some 0x0),
      (''TAIKO_A_CDC_ANC2_SHIFT'', 0x281, Some 0x0),
      (''TAIKO_A_CDC_ANC1_IIR_B1_CTL'', 0x202, Some 0x0),
      (''TAIKO_A_CDC_ANC2_IIR_B1_CTL'', 0x282, Some 0x0),
      (''TAIKO_A_CDC_ANC1_IIR_B2_CTL'', 0x203, Some 0x0),
      (''TAIKO_A_CDC_ANC2_IIR_B2_CTL'', 0x283, Some 0x0),
      (''TAIKO_A_CDC_ANC1_IIR_B3_CTL'', 0x204, Some 0x0),
      (''TAIKO_A_CDC_ANC2_IIR_B3_CTL'', 0x284, Some 0x0),
      (''TAIKO_A_CDC_ANC1_LPF_B1_CTL'', 0x206, Some 0x0),
      (''TAIKO_A_CDC_ANC2_LPF_B1_CTL'', 0x286, Some 0x0),
      (''TAIKO_A_CDC_ANC1_LPF_B2_CTL'', 0x207, Some 0x0),
      (''TAIKO_A_CDC_ANC2_LPF_B2_CTL'', 0x287, Some 0x0),
      (''TAIKO_A_CDC_ANC1_SPARE'', 0x209, Some 0x0),
      (''TAIKO_A_CDC_ANC2_SPARE'', 0x289, Some 0x0),
      (''TAIKO_A_CDC_ANC1_SMLPF_CTL'', 0x20A, Some 0x0),
      (''TAIKO_A_CDC_ANC2_SMLPF_CTL'', 0x28A, Some 0x0),
      (''TAIKO_A_CDC_ANC1_DCFLT_CTL'', 0x20B, Some 0x0),
      (''TAIKO_A_CDC_ANC2_DCFLT_CTL'', 0x28B, Some 0x0),
      (''TAIKO_A_CDC_ANC1_GAIN_CTL'', 0x20C, Some 0x0),
      (''TAIKO_A_CDC_ANC2_GAIN_CTL'', 0x28C, Some 0x0),
      (''TAIKO_A_CDC_ANC1_B2_CTL'', 0x20D, Some 0x0),
      (''TAIKO_A_CDC_ANC2_B2_CTL'', 0x28D, Some 0x0),
      (''TAIKO_A_CDC_TX1_VOL_CTL_TIMER'', 0x220, Some 0x0),
      (''TAIKO_A_CDC_TX2_VOL_CTL_TIMER'', 0x228, Some 0x0),
      (''TAIKO_A_CDC_TX3_VOL_CTL_TIMER'', 0x230, Some 0x0),
      (''TAIKO_A_CDC_TX4_VOL_CTL_TIMER'', 0x238, Some 0x0),
      (''TAIKO_A_CDC_TX5_VOL_CTL_TIMER'', 0x240, Some 0x0),
      (''TAIKO_A_CDC_TX6_VOL_CTL_TIMER'', 0x248, Some 0x0),
      (''TAIKO_A_CDC_TX7_VOL_CTL_TIMER'', 0x250, Some 0x0),
      (''TAIKO_A_CDC_TX8_VOL_CTL_TIMER'', 0x258, Some 0x0),
      (''TAIKO_A_CDC_TX9_VOL_CTL_TIMER'', 0x260, Some 0x0),
      (''TAIKO_A_CDC_TX10_VOL_CTL_TIMER'', 0x268, Some 0x0),
      (''TAIKO_A_CDC_TX1_VOL_CTL_GAIN'', 0x221, Some 0x0),
      (''TAIKO_A_CDC_TX2_VOL_CTL_GAIN'', 0x229, Some 0x0),
      (''TAIKO_A_CDC_TX3_VOL_CTL_GAIN'', 0x231, Some 0x0),
      (''TAIKO_A_CDC_TX4_VOL_CTL_GAIN'', 0x239, Some 0x0),
      (''TAIKO_A_CDC_TX5_VOL_CTL_GAIN'', 0x241, Some 0x0),
      (''TAIKO_A_CDC_TX6_VOL_CTL_GAIN'', 0x249, Some 0x0),
      (''TAIKO_A_CDC_TX7_VOL_CTL_GAIN'', 0x251, Some 0x0),
      (''TAIKO_A_CDC_TX8_VOL_CTL_GAIN'', 0x259, Some 0x0),
      (''TAIKO_A_CDC_TX9_VOL_CTL_GAIN'', 0x261, Some 0x0),
      (''TAIKO_A_CDC_TX10_VOL_CTL_GAIN'', 0x269, Some 0x0),
      (''TAIKO_A_CDC_TX1_VOL_CTL_CFG'', 0x222, Some 0x0),
      (''TAIKO_A_CDC_TX2_VOL_CTL_CFG'', 0x22A, Some 0x0),
      (''TAIKO_A_CDC_TX3_VOL_CTL_CFG'', 0x232, Some 0x0),
      (''TAIKO_A_CDC_TX4_VOL_CTL_CFG'', 0x23A, Some 0x0),
      (''TAIKO_A_CDC_TX5_VOL_CTL_CFG'', 0x242, Some 0x0),
      (''TAIKO_A_CDC_TX6_VOL_CTL_CFG'', 0x24A, Some 0x0),
      (''TAIKO_A_CDC_TX7_VOL_CTL_CFG'', 0x252, Some 0x0),
      (''TAIKO_A_CDC_TX8_VOL_CTL_CFG'', 0x25A, Some 0x0),
      (''TAIKO_A_CDC_TX9_VOL_CTL_CFG'', 0x262, Some 0x0),
      (''TAIKO_A_CDC_TX10_VOL_CTL_CFG'', 0x26A, Some 0x0),
      (''TAIKO_A_CDC_TX1_MUX_CTL'', 0x223, Some 0x8),
      (''TAIKO_A_CDC_TX2_MUX_CTL'', 0x22B, Some 0x8),
      (''TAIKO_A_CDC_TX3_MUX_CTL'', 0x233, Some 0x8),
      (''TAIKO_A_CDC_TX4_MUX_CTL'', 0x23B, Some 0x8),
      (''TAIKO_A_CDC_TX5_MUX_CTL'', 0x243, Some 0x8),
      (''TAIKO_A_CDC_TX6_MUX_CTL'', 0x24B, Some 0x8),
      (''TAIKO_A_CDC_TX7_MUX_CTL'', 0x253, Some 0x8)]"

definition taiko_registers_6 :: "register list" where
  "taiko_registers_6 =
     [(''TAIKO_A_CDC_TX8_MUX_CTL'', 0x25B, Some 0x8),
      (''TAIKO_A_CDC_TX9_MUX_CTL'', 0x263, Some 0x8),
      (''TAIKO_A_CDC_TX10_MUX_CTL'', 0x26B, Some 0x8),
      (''TAIKO_A_CDC_TX1_CLK_FS_CTL'', 0x224, Some 0x3),
      (''TAIKO_A_CDC_TX2_CLK_FS_CTL'', 0x22C, Some 0x3),
      (''TAIKO_A_CDC_TX3_CLK_FS_CTL'', 0x234, Some 0x3),
      (''TAIKO_A_CDC_TX4_CLK_FS_CTL'', 0x23C, Some 0x3),
      (''TAIKO_A_CDC_TX5_CLK_FS_CTL'', 0x244, Some 0x3),
      (''TAIKO_A_CDC_TX6_CLK_FS_CTL'', 0x24C, Some 0x3),
      (''TAIKO_A_CDC_TX7_CLK_FS_CTL'', 0x254, Some 0x3),
      (''TAIKO_A_CDC_TX8_CLK_FS_CTL'', 0x25C, Some 0x3),
      (''TAIKO_A_CDC_TX9_CLK_FS_CTL'', 0x264, Some 0x3),
      (''TAIKO_A_CDC_TX10_CLK_FS_CTL'', 0x26C, Some 0x3),
      (''TAIKO_A_CDC_TX1_DMIC_CTL'', 0x225, Some 0x0),
      (''TAIKO_A_CDC_TX2_DMIC_CTL'', 0x22D, Some 0x0),
      (''TAIKO_A_CDC_TX3_DMIC_CTL'', 0x235, Some 0x0),
      (''TAIKO_A_CDC_TX4_DMIC_CTL'', 0x23D, Some 0x0),
      (''TAIKO_A_CDC_TX5_DMIC_CTL'', 0x245, Some 0x0),
      (''TAIKO_A_CDC_TX6_DMIC_CTL'', 0x24D, Some 0x0),
      (''TAIKO_A_CDC_TX7_DMIC_CTL'', 0x255, Some 0x0),
      (''TAIKO_A_CDC_TX8_DMIC_CTL'', 0x25D, Some 0x0),
      (''TAIKO_A_CDC_TX9_DMIC_CTL'', 0x265, Some 0x0),
      (''TAIKO_A_CDC_TX10_DMIC_CTL'', 0x26D, Some 0x0),
      (''TAIKO_A_CDC_DEBUG_B1_CTL'', 0x278, Some 0x0),
      (''TAIKO_A_CDC_DEBUG_B2_CTL'', 0x279, Some 0x0),
      (''TAIKO_A_CDC_DEBUG_B3_CTL'', 0x27A, Some 0x0),
      (''TAIKO_A_CDC_DEBUG_B4_CTL'', 0x27B, Some 0x0),
      (''TAIKO_A_CDC_DEBUG_B5_CTL'', 0x27C, Some 0x0),
      (''TAIKO_A_CDC_DEBUG_B6_CTL'', 0x27D, Some 0x0),
      (''TAIKO_A_CDC_DEBUG_B7_CTL'', 0x27E, Some 0x0),
      (''TAIKO_A_CDC_SRC1_PDA_CFG'', 0x2A0, Some 0x0),
      (''TAIKO_A_CDC_SRC2_PDA_CFG'', 0x2A8, Some 0x0),
      (''TAIKO_A_CDC_SRC1_FS_CTL'', 0x2A1, Some 0x1B),
      (''TAIKO_A_CDC_SRC2_FS_CTL'', 0x2A9, Some 0x1B),
      (''TAIKO_A_CDC_RX1_B1_CTL'', 0x2B0, Some 0x0),
      (''TAIKO_A_CDC_RX2_B1_CTL'', 0x2B8, Some 0x0),
      (''TAIKO_A_CDC_RX3_B1_CTL'', 0x2C0, Some 0x0),
      (''TAIKO_A_CDC_RX4_B1_CTL'', 0x2C8, Some 0x0),
      (''TAIKO_A_CDC_RX5_B1_CTL'', 0x2D0, Some 0x0),
      (''TAIKO_A_CDC_RX6_B1_CTL'', 0x2D8, Some 0x0),
      (''TAIKO_A_CDC_RX7_B1_CTL'', 0x2E0, Some 0x0),
      (''TAIKO_A_CDC_RX1_B2_CTL'', 0x2B1, Some 0x0),
      (''TAIKO_A_CDC_RX2_B2_CTL'', 0x2B9, Some 0x0),
      (''TAIKO_A_CDC_RX3_B2_CTL'', 0x2C1, Some 0x0),
      (''TAIKO_A_CDC_RX4_B2_CTL'', 0x2C9, Some 0x0),
      (''TAIKO_A_CDC_RX5_B2_CTL'', 0x2D1, Some 0x0),
      (''TAIKO_A_CDC_RX6_B2_CTL'', 0x2D9, Some 0x0),
      (''TAIKO_A_CDC_RX7_B2_CTL'', 0x2E1, Some 0x0),
      (''TAIKO_A_CDC_RX1_B3_CTL'', 0x2B2, Some 0x0),
      (''TAIKO_A_CDC_RX2_B3_CTL'', 0x2BA, Some 0x0),
      (''TAIKO_A_CDC_RX3_B3_CTL'', 0x2C2, Some 0x0),
      (''TAIKO_A_CDC_RX4_B3_CTL'', 0x2CA, Some 0x0),
      (''TAIKO_A_CDC_RX5_B3_CTL'', 0x2D2, Some 0x0),
      (''TAIKO_A_CDC_RX6_B3_CTL'', 0x2DA, Some 0x0),
      (''TAIKO_A_CDC_RX7_B3_CTL'', 0x2E2, Some 0x0),
      (''TAIKO_A_CDC_RX1_B4_CTL'', 0x2B3, Some 0x0),
      (''TAIKO_A_CDC_RX2_B4_CTL'', 0x2BB, Some 0x0),
      (''TAIKO_A_CDC_RX3_B4_CTL'', 0x2C3, Some 0x0),
      (''TAIKO_A_CDC_RX4_B4_CTL'', 0x2CB, Some 0x0),
      (''TAIKO_A_CDC_RX5_B4_CTL'', 0x2D3, Some 0x0),
      (''TAIKO_A_CDC_RX6_B4_CTL'', 0x2DB, Some 0x0),
      (''TAIKO_A_CDC_RX7_B4_CTL'', 0x2E3, Some 0x0),
      (''TAIKO_A_CDC_RX1_B5_CTL'', 0x2B4, Some 0x78),
      (''TAIKO_A_CDC_RX2_B5_CTL'', 0x2BC, Some 0x78),
      (''TAIKO_A_CDC_RX3_B5_CTL'', 0x2C4, Some 0x78),
      (''TAIKO_A_CDC_RX4_B5_CTL'', 0x2CC, Some 0x78),
      (''TAIKO_A_CDC_RX5_B5_CTL'', 0x2D4, Some 0x78),
      (''TAIKO_A_CDC_RX6_B5_CTL'', 0x2DC, Some 0x78),
      (''TAIKO_A_CDC_RX7_B5_CTL'', 0x2E4, Some 0x78),
      (''TAIKO_A_CDC_RX1_B6_CTL'', 0x2B5, Some 0x80)]"

definition taiko_registers_7 :: "register list" where
  "taiko_registers_7 =
     [(''TAIKO_A_CDC_RX2_B6_CTL'', 0x2BD, Some 0x80),
      (''TAIKO_A_CDC_RX3_B6_CTL'', 0x2C5, Some 0x80),
      (''TAIKO_A_CDC_RX4_B6_CTL'', 0x2CD, Some 0x80),
      (''TAIKO_A_CDC_RX5_B6_CTL'', 0x2D5, Some 0x80),
      (''TAIKO_A_CDC_RX6_B6_CTL'', 0x2DD, Some 0x80),
      (''TAIKO_A_CDC_RX7_B6_CTL'', 0x2E5, Some 0x80),
      (''TAIKO_A_CDC_RX1_VOL_CTL_B1_CTL'', 0x2B6, Some 0x0),
      (''TAIKO_A_CDC_RX2_VOL_CTL_B1_CTL'', 0x2BE, Some 0x0),
      (''TAIKO_A_CDC_RX3_VOL_CTL_B1_CTL'', 0x2C6, Some 0x0),
      (''TAIKO_A_CDC_RX4_VOL_CTL_B1_CTL'', 0x2CE, Some 0x0),
      (''TAIKO_A_CDC_RX5_VOL_CTL_B1_CTL'', 0x2D6, Some 0x0),
      (''TAIKO_A_CDC_RX6_VOL_CTL_B1_CTL'', 0x2DE, Some 0x0),
      (''TAIKO_A_CDC_RX7_VOL_CTL_B1_CTL'', 0x2E6, Some 0x0),
      (''TAIKO_A_CDC_RX1_VOL_CTL_B2_CTL'', 0x2B7, Some 0x0),
      (''TAIKO_A_CDC_RX2_VOL_CTL_B2_CTL'', 0x2BF, Some 0x0),
      (''TAIKO_A_CDC_RX3_VOL_CTL_B2_CTL'', 0x2C7, Some 0x0),
      (''TAIKO_A_CDC_RX4_VOL_CTL_B2_CTL'', 0x2CF, Some 0x0),
      (''TAIKO_A_CDC_RX5_VOL_CTL_B2_CTL'', 0x2D7, Some 0x0),
      (''TAIKO_A_CDC_RX6_VOL_CTL_B2_CTL'', 0x2DF, Some 0x0),
      (''TAIKO_A_CDC_RX7_VOL_CTL_B2_CTL'', 0x2E7, Some 0x0),
      (''TAIKO_A_CDC_VBAT_CFG'', 0x2E8, Some 0x1A),
      (''TAIKO_A_CDC_VBAT_ADC_CAL1'', 0x2E9, Some 0x0),
      (''TAIKO_A_CDC_VBAT_ADC_CAL2'', 0x2EA, Some 0x0),
      (''TAIKO_A_CDC_VBAT_ADC_CAL3'', 0x2EB, Some 0x4),
      (''TAIKO_A_CDC_VBAT_PK_EST1'', 0x2EC, Some 0xE0),
      (''TAIKO_A_CDC_VBAT_PK_EST2'', 0x2ED, Some 0x1),
      (''TAIKO_A_CDC_VBAT_PK_EST3'', 0x2EE, Some 0x40),
      (''TAIKO_A_CDC_VBAT_RF_PROC1'', 0x2EF, Some 0x2A),
      (''TAIKO_A_CDC_VBAT_RF_PROC2'', 0x2F0, Some 0x86),
      (''TAIKO_A_CDC_VBAT_TAC1'', 0x2F1, Some 0x70),
      (''TAIKO_A_CDC_VBAT_TAC2'', 0x2F2, Some 0x18),
      (''TAIKO_A_CDC_VBAT_TAC3'', 0x2F3, Some 0x18),
      (''TAIKO_A_CDC_VBAT_TAC4'', 0x2F4, Some 0x3),
      (''TAIKO_A_CDC_VBAT_GAIN_UPD1'', 0x2F5, Some 0x1),
      (''TAIKO_A_CDC_VBAT_GAIN_UPD2'', 0x2F6, Some 0x0),
      (''TAIKO_A_CDC_VBAT_GAIN_UPD3'', 0x2F7, Some 0x64),
      (''TAIKO_A_CDC_VBAT_GAIN_UPD4'', 0x2F8, Some 0x1),
      (''TAIKO_A_CDC_VBAT_DEBUG1'', 0x2F9, Some 0x0),
      (''TAIKO_A_CDC_CLK_ANC_RESET_CTL'', 0x300, Some 0x0),
      (''TAIKO_A_CDC_CLK_RX_RESET_CTL'', 0x301, Some 0x0),
      (''TAIKO_A_CDC_CLK_TX_RESET_B1_CTL'', 0x302, Some 0x0),
      (''TAIKO_A_CDC_CLK_TX_RESET_B2_CTL'', 0x303, Some 0x0),
      (''TAIKO_A_CDC_CLK_DMIC_B1_CTL'', 0x304, Some 0x0),
      (''TAIKO_A_CDC_CLK_DMIC_B2_CTL'', 0x305, Some 0x0),
      (''TAIKO_A_CDC_CLK_RX_I2S_CTL'', 0x306, Some 0x3),
      (''TAIKO_A_CDC_CLK_TX_I2S_CTL'', 0x307, Some 0x3),
      (''TAIKO_A_CDC_CLK_OTHR_RESET_B1_CTL'', 0x308, Some 0x0),
      (''TAIKO_A_CDC_CLK_OTHR_RESET_B2_CTL'', 0x309, Some 0x0),
      (''TAIKO_A_CDC_CLK_TX_CLK_EN_B1_CTL'', 0x30A, Some 0x0),
      (''TAIKO_A_CDC_CLK_TX_CLK_EN_B2_CTL'', 0x30B, Some 0x0),
      (''TAIKO_A_CDC_CLK_OTHR_CTL'', 0x30C, Some 0x0),
      (''TAIKO_A_CDC_CLK_RDAC_CLK_EN_CTL'', 0x30D, Some 0x0),
      (''TAIKO_A_CDC_CLK_ANC_CLK_EN_CTL'', 0x30E, Some 0x0),
      (''TAIKO_A_CDC_CLK_RX_B1_CTL'', 0x30F, Some 0x0),
      (''TAIKO_A_CDC_CLK_RX_B2_CTL'', 0x310, Some 0x0),
      (''TAIKO_A_CDC_CLK_MCLK_CTL'', 0x311, Some 0x0),
      (''TAIKO_A_CDC_CLK_PDM_CTL'', 0x312, Some 0x0),
      (''TAIKO_A_CDC_CLK_SD_CTL'', 0x313, Some 0x0),
      (''TAIKO_A_CDC_CLK_POWER_CTL'', 0x314, Some 0x0),
      (''TAIKO_A_CDC_CLSH_B1_CTL'', 0x320, Some 0xE4),
      (''TAIKO_A_CDC_CLSH_B2_CTL'', 0x321, Some 0x0),
      (''TAIKO_A_CDC_CLSH_B3_CTL'', 0x322, Some 0x0),
      (''TAIKO_A_CDC_CLSH_BUCK_NCP_VARS'', 0x323, Some 0x0),
      (''TAIKO_A_CDC_CLSH_IDLE_HPH_THSD'', 0x324, Some 0x12),
      (''TAIKO_A_CDC_CLSH_IDLE_EAR_THSD'', 0x325, Some 0xC),
      (''TAIKO_A_CDC_CLSH_FCLKONLY_HPH_THSD'', 0x326, Some 0x18),
      (''TAIKO_A_CDC_CLSH_FCLKONLY_EAR_THSD'', 0x327, Some 0x23),
      (''TAIKO_A_CDC_CLSH_K_ADDR'', 0x328, Some 0x0),
      (''TAIKO_A_CDC_CLSH_K_DATA'', 0x329, Some 0xA4),
      (''TAIKO_A_CDC_CLSH_I_PA_FACT_HPH_L'', 0x32A, Some 0xD7)]"

definition taiko_registers_8 :: "register list" where
  "taiko_registers_8 =
     [(''TAIKO_A_CDC_CLSH_I_PA_FACT_HPH_U'', 0x32B, Some 0x5),
      (''TAIKO_A_CDC_CLSH_I_PA_FACT_EAR_L'', 0x32C, Some 0x60),
      (''TAIKO_A_CDC_CLSH_I_PA_FACT_EAR_U'', 0x32D, Some 0x9),
      (''TAIKO_A_CDC_CLSH_V_PA_HD_EAR'', 0x32E, Some 0x0),
      (''TAIKO_A_CDC_CLSH_V_PA_HD_HPH'', 0x32F, Some 0x0),
      (''TAIKO_A_CDC_CLSH_V_PA_MIN_EAR'', 0x330, Some 0x0),
      (''TAIKO_A_CDC_CLSH_V_PA_MIN_HPH'', 0x331, Some 0x0),
      (''TAIKO_A_CDC_IIR1_GAIN_B1_CTL'', 0x340, Some 0x0),
      (''TAIKO_A_CDC_IIR2_GAIN_B1_CTL'', 0x350, Some 0x0),
      (''TAIKO_A_CDC_IIR1_GAIN_B2_CTL'', 0x341, Some 0x0),
      (''TAIKO_A_CDC_IIR2_GAIN_B2_CTL'', 0x351, Some 0x0),
      (''TAIKO_A_CDC_IIR1_GAIN_B3_CTL'', 0x342, Some 0x0),
      (''TAIKO_A_CDC_IIR2_GAIN_B3_CTL'', 0x352, Some 0x0),
      (''TAIKO_A_CDC_IIR1_GAIN_B4_CTL'', 0x343, Some 0x0),
      (''TAIKO_A_CDC_IIR2_GAIN_B4_CTL'', 0x353, Some 0x0),
      (''TAIKO_A_CDC_IIR1_GAIN_B5_CTL'', 0x344, Some 0x0),
      (''TAIKO_A_CDC_IIR2_GAIN_B5_CTL'', 0x354, Some 0x0),
      (''TAIKO_A_CDC_IIR1_GAIN_B6_CTL'', 0x345, Some 0x0),
      (''TAIKO_A_CDC_IIR2_GAIN_B6_CTL'', 0x355, Some 0x0),
      (''TAIKO_A_CDC_IIR1_GAIN_B7_CTL'', 0x346, Some 0x0),
      (''TAIKO_A_CDC_IIR2_GAIN_B7_CTL'', 0x356, Some 0x0),
      (''TAIKO_A_CDC_IIR1_GAIN_B8_CTL'', 0x347, Some 0x0),
      (''TAIKO_A_CDC_IIR2_GAIN_B8_CTL'', 0x357, Some 0x0),
      (''TAIKO_A_CDC_IIR1_CTL'', 0x348, Some 0x40),
      (''TAIKO_A_CDC_IIR2_CTL'', 0x358, Some 0x40),
      (''TAIKO_A_CDC_IIR1_GAIN_TIMER_CTL'', 0x349, Some 0x0),
      (''TAIKO_A_CDC_IIR2_GAIN_TIMER_CTL'', 0x359, Some 0x0),
      (''TAIKO_A_CDC_IIR1_COEF_B1_CTL'', 0x34A, Some 0x0),
      (''TAIKO_A_CDC_IIR2_COEF_B1_CTL'', 0x35A, Some 0x0),
      (''TAIKO_A_CDC_IIR1_COEF_B2_CTL'', 0x34B, Some 0x0),
      (''TAIKO_A_CDC_IIR2_COEF_B2_CTL'', 0x35B, Some 0x0),
      (''TAIKO_A_CDC_TOP_GAIN_UPDATE'', 0x360, Some 0x0),
      (''TAIKO_A_CDC_COMP0_B1_CTL'', 0x368, Some 0x30),
      (''TAIKO_A_CDC_COMP1_B1_CTL'', 0x370, Some 0x30),
      (''TAIKO_A_CDC_COMP2_B1_CTL'', 0x378, Some 0x30),
      (''TAIKO_A_CDC_COMP0_B2_CTL'', 0x369, Some 0xB5),
      (''TAIKO_A_CDC_COMP1_B2_CTL'', 0x371, Some 0xB5),
      (''TAIKO_A_CDC_COMP2_B2_CTL'', 0x379, Some 0xB5),
      (''TAIKO_A_CDC_COMP0_B3_CTL'', 0x36A, Some 0x28),
      (''TAIKO_A_CDC_COMP1_B3_CTL'', 0x372, Some 0x28),
      (''TAIKO_A_CDC_COMP2_B3_CTL'', 0x37A, Some 0x28),
      (''TAIKO_A_CDC_COMP0_B4_CTL'', 0x36B, Some 0x3C),
      (''TAIKO_A_CDC_COMP1_B4_CTL'', 0x373, Some 0x3C),
      (''TAIKO_A_CDC_COMP2_B4_CTL'', 0x37B, Some 0x3C),
      (''TAIKO_A_CDC_COMP0_B5_CTL'', 0x36C, Some 0x1F),
      (''TAIKO_A_CDC_COMP1_B5_CTL'', 0x374, Some 0x1F),
      (''TAIKO_A_CDC_COMP2_B5_CTL'', 0x37C, Some 0x1F),
      (''TAIKO_A_CDC_COMP0_B6_CTL'', 0x36D, Some 0x0),
      (''TAIKO_A_CDC_COMP1_B6_CTL'', 0x375, Some 0x0),
      (''TAIKO_A_CDC_COMP2_B6_CTL'', 0x37D, Some 0x0),
      (''TAIKO_A_CDC_COMP0_SHUT_DOWN_STATUS'', 0x36E, Some 0x3),
      (''TAIKO_A_CDC_COMP1_SHUT_DOWN_STATUS'', 0x376, Some 0x3),
      (''TAIKO_A_CDC_COMP2_SHUT_DOWN_STATUS'', 0x37E, Some 0x3),
      (''TAIKO_A_CDC_COMP0_FS_CFG'', 0x36F, Some 0x3),
      (''TAIKO_A_CDC_COMP1_FS_CFG'', 0x377, Some 0x3),
      (''TAIKO_A_CDC_COMP2_FS_CFG'', 0x37F, Some 0x3),
      (''TAIKO_A_CDC_CONN_RX1_B1_CTL'', 0x380, Some 0x0),
      (''TAIKO_A_CDC_CONN_RX1_B2_CTL'', 0x381, Some 0x0),
      (''TAIKO_A_CDC_CONN_RX1_B3_CTL'', 0x382, Some 0x0),
      (''TAIKO_A_CDC_CONN_RX2_B1_CTL'', 0x383, Some 0x0),
      (''TAIKO_A_CDC_CONN_RX2_B2_CTL'', 0x384, Some 0x0),
      (''TAIKO_A_CDC_CONN_RX2_B3_CTL'', 0x385, Some 0x0),
      (''TAIKO_A_CDC_CONN_RX3_B1_CTL'', 0x386, Some 0x0),
      (''TAIKO_A_CDC_CONN_RX3_B2_CTL'', 0x387, Some 0x0),
      (''TAIKO_A_CDC_CONN_RX4_B1_CTL'', 0x388, Some 0x0),
      (''TAIKO_A_CDC_CONN_RX4_B2_CTL'', 0x389, Some 0x0),
      (''TAIKO_A_CDC_CONN_RX5_B1_CTL'', 0x38A, Some 0x0),
      (''TAIKO_A_CDC_CONN_RX5_B2_CTL'', 0x38B, Some 0x0),
      (''TAIKO_A_CDC_CONN_RX6_B1_CTL'', 0x38C, Some 0x0),
      (''TAIKO_A_CDC_CONN_RX6_B2_CTL'', 0x38D, Some 0x0)]"

definition taiko_registers_9 :: "register list" where
  "taiko_registers_9 =
     [(''TAIKO_A_CDC_CONN_RX7_B1_CTL'', 0x38E, Some 0x0),
      (''TAIKO_A_CDC_CONN_RX7_B2_CTL'', 0x38F, Some 0x0),
      (''TAIKO_A_CDC_CONN_RX7_B3_CTL'', 0x390, Some 0x0),
      (''TAIKO_A_CDC_CONN_ANC_B1_CTL'', 0x391, Some 0x0),
      (''TAIKO_A_CDC_CONN_ANC_B2_CTL'', 0x392, Some 0x0),
      (''TAIKO_A_CDC_CONN_TX_B1_CTL'', 0x393, Some 0x0),
      (''TAIKO_A_CDC_CONN_TX_B2_CTL'', 0x394, Some 0x0),
      (''TAIKO_A_CDC_CONN_TX_B3_CTL'', 0x395, Some 0x0),
      (''TAIKO_A_CDC_CONN_TX_B4_CTL'', 0x396, Some 0x0),
      (''TAIKO_A_CDC_CONN_EQ1_B1_CTL'', 0x397, Some 0x0),
      (''TAIKO_A_CDC_CONN_EQ1_B2_CTL'', 0x398, Some 0x0),
      (''TAIKO_A_CDC_CONN_EQ1_B3_CTL'', 0x399, Some 0x0),
      (''TAIKO_A_CDC_CONN_EQ1_B4_CTL'', 0x39A, Some 0x0),
      (''TAIKO_A_CDC_CONN_EQ2_B1_CTL'', 0x39B, Some 0x0),
      (''TAIKO_A_CDC_CONN_EQ2_B2_CTL'', 0x39C, Some 0x0),
      (''TAIKO_A_CDC_CONN_EQ2_B3_CTL'', 0x39D, Some 0x0),
      (''TAIKO_A_CDC_CONN_EQ2_B4_CTL'', 0x39E, Some 0x0),
      (''TAIKO_A_CDC_CONN_SRC1_B1_CTL'', 0x39F, Some 0x0),
      (''TAIKO_A_CDC_CONN_SRC1_B2_CTL'', 0x3A0, Some 0x0),
      (''TAIKO_A_CDC_CONN_SRC2_B1_CTL'', 0x3A1, Some 0x0),
      (''TAIKO_A_CDC_CONN_SRC2_B2_CTL'', 0x3A2, Some 0x0),
      (''TAIKO_A_CDC_CONN_TX_SB_B1_CTL'', 0x3A3, Some 0x0),
      (''TAIKO_A_CDC_CONN_TX_SB_B2_CTL'', 0x3A4, Some 0x0),
      (''TAIKO_A_CDC_CONN_TX_SB_B3_CTL'', 0x3A5, Some 0x0),
      (''TAIKO_A_CDC_CONN_TX_SB_B4_CTL'', 0x3A6, Some 0x0),
      (''TAIKO_A_CDC_CONN_TX_SB_B5_CTL'', 0x3A7, Some 0x0),
      (''TAIKO_A_CDC_CONN_TX_SB_B6_CTL'', 0x3A8, Some 0x0),
      (''TAIKO_A_CDC_CONN_TX_SB_B7_CTL'', 0x3A9, Some 0x0),
      (''TAIKO_A_CDC_CONN_TX_SB_B8_CTL'', 0x3AA, Some 0x0),
      (''TAIKO_A_CDC_CONN_TX_SB_B9_CTL'', 0x3AB, Some 0x0),
      (''TAIKO_A_CDC_CONN_TX_SB_B10_CTL'', 0x3AC, Some 0x0),
      (''TAIKO_A_CDC_CONN_TX_SB_B11_CTL'', 0x3AD, Some 0x0),
      (''TAIKO_A_CDC_CONN_RX_SB_B1_CTL'', 0x3AE, Some 0x0),
      (''TAIKO_A_CDC_CONN_RX_SB_B2_CTL'', 0x3AF, Some 0x0),
      (''TAIKO_A_CDC_CONN_CLSH_CTL'', 0x3B0, Some 0x0),
      (''TAIKO_A_CDC_CONN_MISC'', 0x3B1, Some 0x1),
      (''TAIKO_A_CDC_CONN_MAD'', 0x3B2, Some 0x1),
      (''TAIKO_A_CDC_MBHC_EN_CTL'', 0x3C0, Some 0x0),
      (''TAIKO_A_CDC_MBHC_FIR_B1_CFG'', 0x3C1, Some 0x0),
      (''TAIKO_A_CDC_MBHC_FIR_B2_CFG'', 0x3C2, Some 0x6),
      (''TAIKO_A_CDC_MBHC_TIMER_B1_CTL'', 0x3C3, Some 0x3),
      (''TAIKO_A_CDC_MBHC_TIMER_B2_CTL'', 0x3C4, Some 0x9),
      (''TAIKO_A_CDC_MBHC_TIMER_B3_CTL'', 0x3C5, Some 0x1E),
      (''TAIKO_A_CDC_MBHC_TIMER_B4_CTL'', 0x3C6, Some 0x45),
      (''TAIKO_A_CDC_MBHC_TIMER_B5_CTL'', 0x3C7, Some 0x4),
      (''TAIKO_A_CDC_MBHC_TIMER_B6_CTL'', 0x3C8, Some 0x78),
      (''TAIKO_A_CDC_MBHC_B1_STATUS'', 0x3C9, Some 0x0),
      (''TAIKO_A_CDC_MBHC_B2_STATUS'', 0x3CA, Some 0x0),
      (''TAIKO_A_CDC_MBHC_B3_STATUS'', 0x3CB, Some 0x0),
      (''TAIKO_A_CDC_MBHC_B4_STATUS'', 0x3CC, Some 0x0),
      (''TAIKO_A_CDC_MBHC_B5_STATUS'', 0x3CD, Some 0x0),
      (''TAIKO_A_CDC_MBHC_B1_CTL'', 0x3CE, Some 0xC0),
      (''TAIKO_A_CDC_MBHC_B2_CTL'', 0x3CF, Some 0x5D),
      (''TAIKO_A_CDC_MBHC_VOLT_B1_CTL'', 0x3D0, Some 0x0),
      (''TAIKO_A_CDC_MBHC_VOLT_B2_CTL'', 0x3D1, Some 0x0),
      (''TAIKO_A_CDC_MBHC_VOLT_B3_CTL'', 0x3D2, Some 0x0),
      (''TAIKO_A_CDC_MBHC_VOLT_B4_CTL'', 0x3D3, Some 0x0),
      (''TAIKO_A_CDC_MBHC_VOLT_B5_CTL'', 0x3D4, Some 0x0),
      (''TAIKO_A_CDC_MBHC_VOLT_B6_CTL'', 0x3D5, Some 0x0),
      (''TAIKO_A_CDC_MBHC_VOLT_B7_CTL'', 0x3D6, Some 0xFF),
      (''TAIKO_A_CDC_MBHC_VOLT_B8_CTL'', 0x3D7, Some 0x7),
      (''TAIKO_A_CDC_MBHC_VOLT_B9_CTL'', 0x3D8, Some 0xFF),
      (''TAIKO_A_CDC_MBHC_VOLT_B10_CTL'', 0x3D9, Some 0x7F),
      (''TAIKO_A_CDC_MBHC_VOLT_B11_CTL'', 0x3DA, Some 0x0),
      (''TAIKO_A_CDC_MBHC_VOLT_B12_CTL'', 0x3DB, Some 0x80),
      (''TAIKO_A_CDC_MBHC_CLK_CTL'', 0x3DC, Some 0x0),
      (''TAIKO_A_CDC_MBHC_INT_CTL'', 0x3DD, Some 0x0),
      (''TAIKO_A_CDC_MBHC_DEBUG_CTL'', 0x3DE, Some 0x0),
      (''TAIKO_A_CDC_MBHC_SPARE'', 0x3DF, Some 0x0),
      (''TAIKO_A_CDC_MAD_MAIN_CTL_1'', 0x3E0, Some 0x0)]"

definition taiko_registers_10 :: "register list" where
  "taiko_registers_10 =
     [(''TAIKO_A_CDC_MAD_MAIN_CTL_2'', 0x3E1, Some 0x0),
      (''TAIKO_A_CDC_MAD_AUDIO_CTL_1'', 0x3E2, Some 0x0),
      (''TAIKO_A_CDC_MAD_AUDIO_CTL_2'', 0x3E3, Some 0x0),
      (''TAIKO_A_CDC_MAD_AUDIO_CTL_3'', 0x3E4, Some 0x0),
      (''TAIKO_A_CDC_MAD_AUDIO_CTL_4'', 0x3E5, Some 0x0),
      (''TAIKO_A_CDC_MAD_AUDIO_CTL_5'', 0x3E6, Some 0x0),
      (''TAIKO_A_CDC_MAD_AUDIO_CTL_6'', 0x3E7, Some 0x0),
      (''TAIKO_A_CDC_MAD_AUDIO_CTL_7'', 0x3E8, Some 0x0),
      (''TAIKO_A_CDC_MAD_AUDIO_CTL_8'', 0x3E9, Some 0x0),
      (''TAIKO_A_CDC_MAD_AUDIO_IIR_CTL_PTR'', 0x3EA, Some 0x0),
      (''TAIKO_A_CDC_MAD_AUDIO_IIR_CTL_VAL'', 0x3EB, Some 0x40),
      (''TAIKO_A_CDC_MAD_ULTR_CTL_1'', 0x3EC, Some 0x0),
      (''TAIKO_A_CDC_MAD_ULTR_CTL_2'', 0x3ED, Some 0x0),
      (''TAIKO_A_CDC_MAD_ULTR_CTL_3'', 0x3EE, Some 0x0),
      (''TAIKO_A_CDC_MAD_ULTR_CTL_4'', 0x3EF, Some 0x0),
      (''TAIKO_A_CDC_MAD_ULTR_CTL_5'', 0x3F0, Some 0x0),
      (''TAIKO_A_CDC_MAD_ULTR_CTL_6'', 0x3F1, Some 0x0),
      (''TAIKO_A_CDC_MAD_ULTR_CTL_7'', 0x3F2, Some 0x0),
      (''TAIKO_A_CDC_MAD_BEACON_CTL_1'', 0x3F3, Some 0x0),
      (''TAIKO_A_CDC_MAD_BEACON_CTL_2'', 0x3F4, Some 0x0),
      (''TAIKO_A_CDC_MAD_BEACON_CTL_3'', 0x3F5, Some 0x0),
      (''TAIKO_A_CDC_MAD_BEACON_CTL_4'', 0x3F6, Some 0x0),
      (''TAIKO_A_CDC_MAD_BEACON_CTL_5'', 0x3F7, Some 0x0),
      (''TAIKO_A_CDC_MAD_BEACON_CTL_6'', 0x3F8, Some 0x0),
      (''TAIKO_A_CDC_MAD_BEACON_CTL_7'', 0x3F9, Some 0x0),
      (''TAIKO_A_CDC_MAD_BEACON_CTL_8'', 0x3FA, Some 0x0),
      (''TAIKO_A_CDC_MAD_BEACON_IIR_CTL_PTR'', 0x3FB, Some 0x0),
      (''TAIKO_A_CDC_MAD_BEACON_IIR_CTL_VAL'', 0x3FC, Some 0x0),
      (''TAIKO_A_CDC_TX_1_GAIN'', 0x153, Some 0x2),
      (''TAIKO_A_CDC_TX_2_GAIN'', 0x155, Some 0x2),
      (''TAIKO_A_CDC_TX_1_2_ADC_IB'', 0x156, Some 0x44),
      (''TAIKO_A_CDC_TX_3_GAIN'', 0x15D, Some 0x2),
      (''TAIKO_A_CDC_TX_4_GAIN'', 0x15F, Some 0x2),
      (''TAIKO_A_CDC_TX_3_4_ADC_IB'', 0x160, Some 0x44),
      (''TAIKO_A_CDC_TX_5_GAIN'', 0x167, Some 0x2),
      (''TAIKO_A_CDC_TX_6_GAIN'', 0x169, Some 0x2),
      (''TAIKO_A_CDC_TX_5_6_ADC_IB'', 0x16A, Some 0x44),
      (''TAIKO_A_CDC_SPKR_CLIPDET_VAL0'', 0x270, Some 0x0),
      (''TAIKO_A_CDC_SPKR_CLIPDET_VAL1'', 0x271, Some 0x0),
      (''TAIKO_A_CDC_SPKR_CLIPDET_VAL2'', 0x272, Some 0x0),
      (''TAIKO_A_CDC_SPKR_CLIPDET_VAL3'', 0x273, Some 0x0),
      (''TAIKO_A_CDC_SPKR_CLIPDET_VAL4'', 0x274, Some 0x0),
      (''TAIKO_A_CDC_SPKR_CLIPDET_VAL5'', 0x275, Some 0x0),
      (''TAIKO_A_CDC_SPKR_CLIPDET_VAL6'', 0x276, Some 0x0),
      (''TAIKO_A_CDC_SPKR_CLIPDET_VAL7'', 0x277, Some 0x0),
      (''TAIKO_A_CDC_VBAT_GAIN_UPD_MON'', 0x2FA, Some 0x0),
      (''TAIKO_A_CDC_VBAT_GAIN_MON_VAL'', 0x2FB, Some 0x0),
      (''TAIKO_A_CDC_PA_RAMP_B1_CTL'', 0x361, Some 0x0),
      (''TAIKO_A_CDC_PA_RAMP_B2_CTL'', 0x362, Some 0x0),
      (''TAIKO_A_CDC_PA_RAMP_B3_CTL'', 0x363, Some 0x0),
      (''TAIKO_A_CDC_PA_RAMP_B4_CTL'', 0x364, Some 0x0),
      (''TAIKO_A_CDC_SPKR_CLIPDET_B1_CTL'', 0x365, Some 0x0)]"

definition taiko_slim_registers :: "register list" where
  "taiko_slim_registers =
     [(''TAIKO_SLIM_PGD_PORT_INT_EN0'', 0x30, None),
      (''TAIKO_SLIM_PGD_PORT_INT_STATUS_RX_0'', 0x34, None),
      (''TAIKO_SLIM_PGD_PORT_INT_STATUS_RX_1'', 0x35, None),
      (''TAIKO_SLIM_PGD_PORT_INT_STATUS_TX_0'', 0x36, None),
      (''TAIKO_SLIM_PGD_PORT_INT_STATUS_TX_1'', 0x37, None),
      (''TAIKO_SLIM_PGD_PORT_INT_CLR_RX_0'', 0x38, None),
      (''TAIKO_SLIM_PGD_PORT_INT_CLR_RX_1'', 0x39, None),
      (''TAIKO_SLIM_PGD_PORT_INT_CLR_TX_0'', 0x3A, None),
      (''TAIKO_SLIM_PGD_PORT_INT_CLR_TX_1'', 0x3B, None),
      (''TAIKO_SLIM_PGD_PORT_INT_RX_SOURCE0'', 0x60, None),
      (''TAIKO_SLIM_PGD_PORT_INT_TX_SOURCE0'', 0x70, None)]"

definition taiko_registers :: "register list" where
  "taiko_registers = taiko_registers_1 @ taiko_registers_2 @ taiko_registers_3 @ taiko_registers_4 @ taiko_registers_5 @ taiko_registers_6 @ taiko_registers_7 @ taiko_registers_8 @ taiko_registers_9 @ taiko_registers_10"

lemmas taiko_blocks =
  taiko_registers_1_def
  taiko_registers_2_def
  taiko_registers_3_def
  taiko_registers_4_def
  taiko_registers_5_def
  taiko_registers_6_def
  taiko_registers_7_def
  taiko_registers_8_def
  taiko_registers_9_def
  taiko_registers_10_def

lemmas wcd9xxx_blocks =
  wcd9xxx_registers_1_def
  wcd9xxx_registers_2_def
  wcd9xxx_registers_3_def

section \<open>What holds of every register\<close>

text \<open>The address is in the codec's page and the value after a reset is a byte.\<close>

fun in_page :: "register \<Rightarrow> bool" where
  "in_page (name, address, reset) \<longleftrightarrow>
     address < 0x400 \<and> (case reset of None \<Rightarrow> False | Some v \<Rightarrow> v < 0x100)"

lemma family_lookup:
  "map_of wcd9xxx_registers_1 name = Some r \<Longrightarrow> family_address name = fst r"
  "map_of wcd9xxx_registers_1 name = Some r \<Longrightarrow> family_reset name = snd r"
  by (simp_all add: family_address_def family_reset_def wcd9xxx_registers_def)

lemma family_entries_1:
  "map_of wcd9xxx_registers_1 ''WCD9XXX_A_CHIP_CTL'' = Some (0x00, Some 0)"
  "map_of wcd9xxx_registers_1 ''WCD9XXX_A_CHIP_STATUS'' = Some (0x01, Some 0)"
  "map_of wcd9xxx_registers_1 ''WCD9XXX_A_CHIP_ID_BYTE_0'' = Some (0x04, Some 0)"
  "map_of wcd9xxx_registers_1 ''WCD9XXX_A_CHIP_ID_BYTE_1'' = Some (0x05, Some 0)"
  by (simp_all add: wcd9xxx_registers_1_def)

lemma family_entries_2:
  "map_of wcd9xxx_registers_1 ''WCD9XXX_A_CHIP_ID_BYTE_2'' = Some (0x06, Some 0)"
  "map_of wcd9xxx_registers_1 ''WCD9XXX_A_CHIP_ID_BYTE_3'' = Some (0x07, Some 1)"
  "map_of wcd9xxx_registers_1 ''WCD9XXX_A_CHIP_VERSION'' = Some (0x08, Some 0x20)"
  "map_of wcd9xxx_registers_1 ''WCD9XXX_A_SB_VERSION'' = Some (0x09, Some 0x10)"
  by (simp_all add: wcd9xxx_registers_1_def)

lemma family_entries_3:
  "map_of wcd9xxx_registers_1 ''WCD9XXX_A_SLAVE_ID_1'' = Some (0x0C, Some 0x77)"
  "map_of wcd9xxx_registers_1 ''WCD9XXX_A_SLAVE_ID_2'' = Some (0x0D, Some 0x66)"
  "map_of wcd9xxx_registers_1 ''WCD9XXX_A_SLAVE_ID_3'' = Some (0x0E, Some 0x55)"
  "map_of wcd9xxx_registers_1 ''WCD9XXX_A_CDC_CTL'' = Some (0x80, Some 0)"
  by (simp_all add: wcd9xxx_registers_1_def)

lemma family_entries_4:
  "map_of wcd9xxx_registers_1 ''WCD9XXX_A_LEAKAGE_CTL'' = Some (0x88, Some 4)"
  by (simp_all add: wcd9xxx_registers_1_def)

lemmas family_entries = family_entries_1 family_entries_2 family_entries_3 family_entries_4

lemmas family_values =
  family_entries [THEN family_lookup(1)] family_entries [THEN family_lookup(2)]

lemma first_block_in_page: "list_all in_page taiko_registers_1"
  by (simp add: taiko_registers_1_def family_values)

lemma blocks_in_page:
  "list_all in_page taiko_registers_2" "list_all in_page taiko_registers_3"
  "list_all in_page taiko_registers_4" "list_all in_page taiko_registers_5"
  "list_all in_page taiko_registers_6" "list_all in_page taiko_registers_7"
  "list_all in_page taiko_registers_8" "list_all in_page taiko_registers_9"
  "list_all in_page taiko_registers_10"
  by (simp_all add: taiko_blocks)

lemma registers_in_page: "list_all in_page taiko_registers"
  by (simp only: taiko_registers_def list_all_append first_block_in_page blocks_in_page simp_thms)

text \<open>Two names for one address, with different values after a reset.\<close>

lemma reset_disagrees:
  "(''TAIKO_A_TX_1_2_EN'', 0x153, Some 0) \<in> set taiko_registers_2"
  "(''TAIKO_A_CDC_TX_1_GAIN'', 0x153, Some 2) \<in> set taiko_registers_10"
  by (simp_all only: taiko_registers_2_def taiko_registers_10_def list.set insert_iff simp_thms)

section \<open>Properties\<close>

text \<open>The reset value of every register of the WCD9320 can be written with a packed entry: with a
  mask of a whole byte, the entry unpacks to the register's address, the mask and the value.\<close>

theorem reset_writes_pack:
  "list_all (\<lambda>(name, address, reset). case reset of None \<Rightarrow> False
     | Some v \<Rightarrow> unat (fst (TAIKO_CODEC_UNPACK_ENTRY
           (TAIKO_CODEC_PACK_ENTRY (of_nat address) 0xff (of_nat v)))) = address \<and>
         snd (TAIKO_CODEC_UNPACK_ENTRY (TAIKO_CODEC_PACK_ENTRY (of_nat address) 0xff (of_nat v))) =
           (0xff, of_nat v)) taiko_registers"
proof -
  have byte: "(of_nat v :: u32) AND 0xff = of_nat v" if "v < 0x100" for v
    using that by (simp add: and_byte take_bit_of_nat take_bit_nat_eq_self)
  have address: "unat ((of_nat a :: u32) AND 0xffff) = a" if "a < 0x400" for a
    using that by (simp add: and_byte take_bit_of_nat take_bit_nat_eq_self unat_of_nat)
  have "in_page r \<Longrightarrow> (case r of (name, address, reset) \<Rightarrow> case reset of None \<Rightarrow> False
     | Some v \<Rightarrow> unat (fst (TAIKO_CODEC_UNPACK_ENTRY
           (TAIKO_CODEC_PACK_ENTRY (of_nat address) 0xff (of_nat v)))) = address \<and>
         snd (TAIKO_CODEC_UNPACK_ENTRY (TAIKO_CODEC_PACK_ENTRY (of_nat address) 0xff (of_nat v))) =
           (0xff, of_nat v))" for r
    by (cases r) (auto simp: taiko_unpack_pack byte address split: option.splits)
  then show ?thesis by (rule list.pred_mono_strong [OF registers_in_page])
qed

end
