(* ===== verification/UsbShared.thy ===== *)
theory UsbShared
  imports GadgetService UsbService
begin

text \<open>
  The two USB services run at the same time and share one file: the UDC file, which the
  gadget HAL writes to pull the gadget up (PULLUP_PATH of usb/gadget/UsbGadget.h) and the
  port HAL reads and writes to switch data signalling (PULLUP_PATH of usb/usb/Usb.cpp). This
  theory puts the calls of both into one log, in any order, and shows who can have connected
  the controller while the port HAL counts data signalling as switched off.
\<close>

section \<open>The shared file\<close>

lemma same_file: "USB_PULLUP_PATH = PULLUP_PATH" "kUsbGadgetName = GADGET_NAME"
  by (simp_all add: USB_PULLUP_PATH_def PULLUP_PATH_def GADGET_PATH_def kUsbGadgetName_def
      GADGET_NAME_def)

datatype shared_event = ByGadget "gadget_msg event" | ByUsb usb_event

text \<open>The log of the system, newest event first, and what each service contributed to it.\<close>

type_synonym shared_log = "shared_event list"

fun gadget_part :: "shared_log \<Rightarrow> gadget_msg event list" where
  "gadget_part [] = []"
| "gadget_part (ByGadget ev # l) = ev # gadget_part l"
| "gadget_part (ByUsb ev # l) = gadget_part l"

fun usb_part :: "shared_log \<Rightarrow> usb_event list" where
  "usb_part [] = []"
| "usb_part (ByGadget ev # l) = usb_part l"
| "usb_part (ByUsb ev # l) = ev # usb_part l"

text \<open>What a call stores in the UDC file, if it does and is accepted.\<close>

fun udc_content :: "'n event \<Rightarrow> string option" where
  "udc_content (Wrote c p ok) = (if ok \<and> p = PULLUP_PATH then Some c else None)"
| "udc_content _ = None"

text \<open>The controller is connected: the name was the last content stored.\<close>

fun bound :: "bool \<Rightarrow> shared_log \<Rightarrow> bool" where
  "bound b [] = b"
| "bound b (ByGadget ev # l) =
     (case udc_content ev of None \<Rightarrow> bound b l | Some c \<Rightarrow> c = GADGET_NAME)"
| "bound b (ByUsb ev # l) =
     (case udc_content ev of None \<Rightarrow> bound b l | Some c \<Rightarrow> c = GADGET_NAME)"

text \<open>
  The kernel's side: a read of the UDC file gives the name of the controller exactly while
  it is connected. Nothing is asked of any other file.
\<close>

fun coherent :: "(string \<Rightarrow> string) \<Rightarrow> bool \<Rightarrow> shared_log \<Rightarrow> bool" where
  "coherent trim b [] = True"
| "coherent trim b (ByUsb (Read p r) # l) =
     (coherent trim b l \<and>
      (p = PULLUP_PATH \<longrightarrow>
         (case r of None \<Rightarrow> False | Some c \<Rightarrow> (trim c = GADGET_NAME) = bound b l)))"
| "coherent trim b (_ # l) = coherent trim b l"

section \<open>What the port HAL's own calls say\<close>

text \<open>
  \<open>settled\<close>: since the port HAL last saw the file without the name, or stored something
  else in it, it has not stored the name.
\<close>

fun settled :: "(string \<Rightarrow> string) \<Rightarrow> usb_event list \<Rightarrow> bool" where
  "settled trim [] = False"
| "settled trim (Wrote c p ok # h) =
     (if ok \<and> p = PULLUP_PATH then c \<noteq> GADGET_NAME else settled trim h)"
| "settled trim (Read p r # h) =
     (p = PULLUP_PATH \<and> (case r of None \<Rightarrow> True | Some c \<Rightarrow> trim c \<noteq> GADGET_NAME) \<or>
      settled trim h)"
| "settled trim (_ # h) = settled trim h"

definition gate :: "usb_env \<Rightarrow> usb \<Rightarrow> bool" where
  "gate E s \<longleftrightarrow> mUsbDataEnabled s \<or> settled (e_trim E) (hist s)"

lemma settled_event:
  "settled trim h \<Longrightarrow> \<not> udc_write ev \<Longrightarrow> settled trim (ev # h)"
  by (cases ev) (auto simp: udc_write_def same_file)

interpretation gate: usb_quiet E "gate E" for E
  by unfold_locales
    (auto simp: gate_def tell_callback_def os_simps settled_event split: option.splits)

text \<open>The hypothesis on the other file of the handler: data signalling can be switched on.\<close>

definition switch_on_ok :: "usb_env \<Rightarrow> bool" where
  "switch_on_ok E \<longleftrightarrow> (\<forall>h. e_write E h ''1'' USB_DATA_PATH)"

lemma data_path [simp]: "USB_DATA_PATH \<noteq> PULLUP_PATH"
  using role_node_not_udc(2) by (simp add: same_file)

lemma gate_reset: "gate E s \<Longrightarrow> gate E (snd (resetUsbPort E port tid s))"
  unfolding resetUsbPort_def
  by (auto simp: prog_simps os_simps gate_def tell_callback_def same_file split: option.splits)

text \<open>The first half of the handler: the two files, then the flag.\<close>

definition switch_data :: "usb_env \<Rightarrow> bool \<Rightarrow> usb \<Rightarrow> usb" where
  "switch_data E enable s =
     (case set_pullup E enable s of (pulled, s1) \<Rightarrow>
      case write_file E (if enable then ''1'' else ''0'') USB_DATA_PATH s1 of (written, s2) \<Rightarrow>
      if pulled \<and> written then s2\<lparr>mUsbDataEnabled := enable\<rparr> else s2)"

lemma gate_switch_data: "switch_on_ok E \<Longrightarrow> gate E s \<Longrightarrow> gate E (switch_data E enable s)"
  by (auto simp: switch_data_def set_pullup_def os_simps gate_def switch_on_ok_def same_file
      split: option.splits if_splits)

lemma bind_lift: "bindE (liftE m) k s = (case m s of (a, t) \<Rightarrow> k a t)"
  by (simp add: bindE_def liftE_def split: prod.splits)

lemma bind_modify: "bindE (modifyE f) k s = k () (f s)"
  by (simp add: bindE_def modifyE_def)

lemma bind_when: "bindE (whenE c () (modifyE f)) k s = k () (if c then f s else s)"
  by (simp add: bindE_def modifyE_def whenE_def returnE_def)

lemma bind_return: "snd (bindE m (\<lambda>a. returnE ()) s) = snd (m s)"
  by (simp add: bindE_def returnE_def split: prod.split sum.split)

lemma enableUsbData_split:
  "snd (enableUsbData E port enable tid s) =
     snd (queryVersionHelper E (tell_callback E (NotifyEnableUsbDataStatus port enable
       (result_status (fst (set_pullup E enable s) \<and>
          fst (write_file E (if enable then ''1'' else ''0'') USB_DATA_PATH
                 (snd (set_pullup E enable s))))) tid) (switch_data E enable s)))"
proof -
  obtain pulled s1 where p: "set_pullup E enable s = (pulled, s1)" by force
  obtain written s2
    where w: "write_file E (if enable then ''1'' else ''0'') USB_DATA_PATH s1 = (written, s2)"
    by force
  show ?thesis
    by (simp add: enableUsbData_def switch_data_def bind_lift p w bind_when bind_modify
        bind_return Let_def)
qed

lemma gate_enable:
  "switch_on_ok E \<Longrightarrow> gate E s \<Longrightarrow> gate E (snd (enableUsbData E port enable tid s))"
  unfolding enableUsbData_split
  by (intro stable_snd [OF gate.kept_version] gate.message gate_switch_data)

lemma gate_callback: "gate E s \<Longrightarrow> gate E (setCallback E cb s)"
  by (auto simp: gate_def setCallback_def os_simps)

lemma gate_op:
  assumes "switch_on_ok E" and "gate E s"
  shows "gate E (snd (run_op E op s))"
proof -
  consider (enable) port b tid where "op = EnableUsbData port b tid"
    | (reset) port tid where "op = ResetUsbPort port tid"
    | (quiet) "\<not> (\<exists>port b tid. op = EnableUsbData port b tid)"
        "\<not> (\<exists>port tid. op = ResetUsbPort port tid)"
    by blast
  then show ?thesis
  proof cases
    case quiet
    then show ?thesis using assms(2) stable_snd [OF gate.kept_quiet_op] by blast
  qed (use assms gate_enable gate_reset in simp_all)
qed

interpretation gated: machine "usb_start E" "usb_step E" "\<lambda>s. switch_on_ok E \<longrightarrow> gate E s" for E
proof
  fix s
  assume "usb_start E s"
  then show "switch_on_ok E \<longrightarrow> gate E s" using usb_start_state by (simp add: gate_def)
next
  fix s t
  assume "usb_step E s t" "switch_on_ok E \<longrightarrow> gate E s"
  then show "switch_on_ok E \<longrightarrow> gate E t"
    by (auto elim!: usb_stepE intro: gate_op gate_callback)
qed

text \<open>
  The hypothesis matters: switching on pulls the gadget up first, and when the write to the
  data switch then fails, the name stays in the UDC file while the flag still says off.
\<close>

lemma half_switched_on:
  assumes "mUsbDataEnabled s = False" and "e_read E (hist s) PULLUP_PATH = Some c"
    and "e_trim E c \<noteq> GADGET_NAME" and "\<And>h. e_write E h GADGET_NAME PULLUP_PATH"
    and "\<And>h. \<not> e_write E h ''1'' USB_DATA_PATH"
  shows "\<not> mUsbDataEnabled (switch_data E True s)"
    and "stored PULLUP_PATH (hist (switch_data E True s)) = GADGET_NAME # stored PULLUP_PATH (hist s)"
  using assms
  by (simp_all add: switch_data_def set_pullup_def os_simps same_file)

section \<open>Both services together\<close>

text \<open>If the port HAL has settled and the controller is connected, the gadget HAL did it.\<close>

lemma bound_by_gadget:
  "coherent trim b l \<Longrightarrow> settled trim (usb_part l) \<Longrightarrow> bound b l \<Longrightarrow>
     \<exists>rest. stored PULLUP_PATH (gadget_part l) = GADGET_NAME # rest"
proof (induction l)
  case Nil
  then show ?case by simp
next
  case (Cons e l)
  show ?case
  proof (cases e)
    case (ByGadget ev)
    with Cons show ?thesis by (cases ev) (auto split: if_splits)
  next
    case (ByUsb ev)
    with Cons show ?thesis by (cases ev) (auto split: if_splits option.splits)
  qed
qed

text \<open>C24: While the port HAL counts data signalling as switched off, only the gadget HAL can
  have connected the controller: in every order in which the calls of the two services can
  interleave (their calls into the file system, not only whole requests), if the port HAL
  has reached a state with \<open>mUsbDataEnabled\<close> false and the controller is connected, then the
  last content the gadget HAL stored in the UDC file is the controller's name. The kernel's
  file reads as the controller's name exactly while it is connected, and the write of "1"
  to the data switch succeeds.\<close>

theorem only_gadget_reconnects:
  assumes "run_of (usb_start E) (usb_step E) u"
    and "usb_part log = hist u" and "gadget_part log = hist g"
    and "coherent (e_trim E) b log" and "switch_on_ok E"
    and "\<not> mUsbDataEnabled u" and "bound b log"
  shows "udc g = Some GADGET_NAME"
proof -
  have "gate E u" using gated.reachable_inv [OF assms(1)] assms(5) by simp
  with assms(2,6) have "settled (e_trim E) (usb_part log)" by (simp add: gate_def)
  from bound_by_gadget [OF assms(4) this assms(7)] assms(3) show ?thesis
    by (auto simp: udc_def)
qed

text \<open>
  And it can: the port HAL switches data signalling off, then a request for the RNDIS
  function reaches the gadget HAL, which never asks the port HAL.
\<close>

definition off_env :: usb_env where
  "off_env = usb_sample\<lparr>e_read := \<lambda>h p. Some (GADGET_NAME @ [CHR 0x0A]), e_opendir := \<lambda>h p. None\<rparr>"

definition off_usb :: usb where
  "off_usb = snd (run_op off_env (EnableUsbData ''port0'' False 1)
     (snd (Usb_init off_env sample_usb)))"

definition on_gadget :: gadget where
  "on_gadget = snd (setCurrentUsbFunctions sample_env 32 False sample_gadget)"

lemma off_usb_state:
  "mUsbDataEnabled off_usb = False" "settled (e_trim off_env) (hist off_usb)"
  "bound True (map ByUsb (hist off_usb)) = False"
  "coherent (e_trim off_env) True (map ByUsb (hist off_usb))"
  by code_simp+

lemma on_gadget_state:
  "stored PULLUP_PATH (hist on_gadget) = [GADGET_NAME, ''none'']"
  by (simp add: on_gadget_def gadget_eval)

lemma split_log:
  "usb_part (map ByGadget g @ map ByUsb h) = h" "gadget_part (map ByGadget g @ map ByUsb h) = g"
  "coherent trim b (map ByGadget g @ l) = coherent trim b l"
  "bound b (map ByGadget g @ l) =
     (case stored PULLUP_PATH g of [] \<Rightarrow> bound b l | c # _ \<Rightarrow> c = GADGET_NAME)"
proof -
  have *: "usb_part (map ByUsb h) = h" "gadget_part (map ByUsb h) = []"
    by (induction h) simp_all
  show "usb_part (map ByGadget g @ map ByUsb h) = h"
    "gadget_part (map ByGadget g @ map ByUsb h) = g"
    "coherent trim b (map ByGadget g @ l) = coherent trim b l"
    by (induction g) (simp_all add: *)
  show "bound b (map ByGadget g @ l) =
     (case stored PULLUP_PATH g of [] \<Rightarrow> bound b l | c # _ \<Rightarrow> c = GADGET_NAME)"
  proof (induction g)
    case (Cons ev g)
    then show ?case by (cases ev) (auto split: list.splits)
  qed simp
qed

theorem only_gadget_reconnects_witness:
  "udc on_gadget = Some GADGET_NAME \<and> \<not> mUsbDataEnabled off_usb \<and>
   bound True (map ByGadget (hist on_gadget) @ map ByUsb (hist off_usb))"
proof -
  let ?log = "map ByGadget (hist on_gadget) @ map ByUsb (hist off_usb)"
  have "Usb_init off_env sample_usb = (Inr (), snd (Usb_init off_env sample_usb))"
    by code_simp
  then have "usb_start off_env (snd (Usb_init off_env sample_usb))"
    unfolding usb_start_def by blast
  then have run: "run_of (usb_start off_env) (usb_step off_env) off_usb"
    unfolding off_usb_def by (metis run_of.intros usb_step.call)
  have "switch_on_ok off_env" by (simp add: switch_on_ok_def off_env_def usb_sample_def)
  moreover have "coherent (e_trim off_env) True ?log" "bound True ?log"
    by (simp_all add: split_log off_usb_state on_gadget_state)
  ultimately show ?thesis
    using only_gadget_reconnects [OF run, of ?log on_gadget True]
    by (simp add: split_log off_usb_state)
qed

end
