(* ===== verification/CLayout.thy ===== *)
theory CLayout
  imports Prelude
begin

text \<open>
  The types of the C headers of this repository (sdm710/original-kernel-headers and
  sdm710/kernel-headers) and where the compiler puts their fields: sizes, alignments and
  offsets by the rules of the ARM procedure call standard, which both the 32-bit and the
  64-bit ABI of the device use. The ABI is a parameter: the width of a \<open>long\<close> and of a
  pointer, and the size and alignment of the few types the headers take from elsewhere.
\<close>

section \<open>Types\<close>

text \<open>
  \<open>IntT signed n\<close> is an integer of \<open>n\<close> bytes, \<open>LongT\<close> a \<open>long\<close> (or \<open>size_t\<close>),
  \<open>ForeignT\<close> a type whose declaration is not in the repository, \<open>BitsT t w\<close> a bit-field of
  \<open>w\<close> bits declared with type \<open>t\<close>. An enumeration is known by its tag; its values are four
  bytes wide. An array whose length is left out has length 0.
\<close>

datatype attr = Natural | Packed | PackedTo nat

datatype ctype =
    IntT bool nat | CharT | EnumT string | LongT bool | PtrT | ForeignT string
  | ArrT ctype nat | BitsT ctype nat
  | StructT attr "(string \<times> ctype) list" | UnionT attr "(string \<times> ctype) list"

type_synonym fields = "(string \<times> ctype) list"

abbreviation "u8 \<equiv> IntT False 1"
abbreviation "u16 \<equiv> IntT False 2"
abbreviation "u32 \<equiv> IntT False 4"
abbreviation "u64 \<equiv> IntT False 8"
abbreviation "s8 \<equiv> IntT True 1"
abbreviation "s16 \<equiv> IntT True 2"
abbreviation "s32 \<equiv> IntT True 4"
abbreviation "s64 \<equiv> IntT True 8"
abbreviation "ulongT \<equiv> LongT False"
abbreviation "slongT \<equiv> LongT True"

record abi =
  word_bytes :: nat
  foreign :: "string \<Rightarrow> nat \<times> nat"   \<comment> \<open>size and alignment\<close>

definition abi_ok :: "abi \<Rightarrow> bool" where
  "abi_ok E \<longleftrightarrow> word_bytes E \<in> {4, 8} \<and>
     (\<forall>n. 0 < snd (foreign E n) \<and> snd (foreign E n) dvd fst (foreign E n))"

section \<open>Sizes, alignments and offsets\<close>

definition round_up :: "nat \<Rightarrow> nat \<Rightarrow> nat" where
  "round_up a n = (n + a - 1) div a * a"

fun attr_align :: "attr \<Rightarrow> nat \<Rightarrow> nat" where
  "attr_align Natural m = m"
| "attr_align Packed m = 1"
| "attr_align (PackedTo n) m = n"

fun align_of :: "abi \<Rightarrow> ctype \<Rightarrow> nat" and max_align :: "abi \<Rightarrow> fields \<Rightarrow> nat" where
  "align_of E (IntT s n) = n"
| "align_of E CharT = 1"
| "align_of E (EnumT n) = 4"
| "align_of E (LongT s) = word_bytes E"
| "align_of E PtrT = word_bytes E"
| "align_of E (ForeignT n) = snd (foreign E n)"
| "align_of E (ArrT t n) = align_of E t"
| "align_of E (BitsT t w) = align_of E t"
| "align_of E (StructT a fs) = attr_align a (max_align E fs)"
| "align_of E (UnionT a fs) = attr_align a (max_align E fs)"
| "max_align E [] = 1"
| "max_align E ((n, t) # fs) = max (align_of E t) (max_align E fs)"

text \<open>
  Where a field of alignment \<open>al\<close> and size \<open>sz\<close> starts, in bits, when the ones before it
  end at \<open>off\<close>, and how many bits it takes. A bit-field stays in the container of its
  declared type that is begun, if it fits there.
\<close>

definition field_start :: "attr \<Rightarrow> nat \<Rightarrow> nat \<Rightarrow> nat \<Rightarrow> ctype \<Rightarrow> nat" where
  "field_start a al sz off t =
     (case t of
        BitsT b w \<Rightarrow>
          if a \<noteq> Natural \<or> off mod (8 * sz) + w \<le> 8 * sz then off else round_up (8 * sz) off
      | _ \<Rightarrow> round_up (8 * (if a = Natural then al else 1)) off)"

definition field_bits :: "nat \<Rightarrow> ctype \<Rightarrow> nat" where
  "field_bits sz t = (case t of BitsT b w \<Rightarrow> w | _ \<Rightarrow> 8 * sz)"

fun size_of :: "abi \<Rightarrow> ctype \<Rightarrow> nat"
  and end_of :: "abi \<Rightarrow> attr \<Rightarrow> nat \<Rightarrow> fields \<Rightarrow> nat"
  and max_size :: "abi \<Rightarrow> fields \<Rightarrow> nat" where
  "size_of E (IntT s n) = n"
| "size_of E CharT = 1"
| "size_of E (EnumT n) = 4"
| "size_of E (LongT s) = word_bytes E"
| "size_of E PtrT = word_bytes E"
| "size_of E (ForeignT n) = fst (foreign E n)"
| "size_of E (ArrT t n) = n * size_of E t"
| "size_of E (BitsT t w) = size_of E t"
| "size_of E (StructT a fs) =
     round_up (8 * align_of E (StructT a fs)) (end_of E a 0 fs) div 8"
| "size_of E (UnionT a fs) = round_up (align_of E (UnionT a fs)) (max_size E fs)"
| "end_of E a off [] = off"
| "end_of E a off ((n, t) # fs) =
     end_of E a (field_start a (align_of E t) (size_of E t) off t + field_bits (size_of E t) t) fs"
| "max_size E [] = 0"
| "max_size E ((n, t) # fs) = max (size_of E t) (max_size E fs)"

text \<open>The fields with their types, the bits at which they start and the bits they take.\<close>

type_synonym place = "string \<times> ctype \<times> nat \<times> nat"

fun layout :: "abi \<Rightarrow> attr \<Rightarrow> nat \<Rightarrow> fields \<Rightarrow> place list" where
  "layout E a off [] = []"
| "layout E a off ((n, t) # fs) =
     (let start = field_start a (align_of E t) (size_of E t) off t;
          bits = field_bits (size_of E t) t
      in (n, t, start, bits) # layout E a (start + bits) fs)"

fun layout_of :: "abi \<Rightarrow> ctype \<Rightarrow> place list" where
  "layout_of E (StructT a fs) = layout E a 0 fs"
| "layout_of E (UnionT a fs) = map (\<lambda>(n, t). (n, t, 0, field_bits (size_of E t) t)) fs"
| "layout_of E _ = []"

text \<open>\<open>offsetof\<close>, in bytes.\<close>

definition offset_of :: "abi \<Rightarrow> ctype \<Rightarrow> string \<Rightarrow> nat option" where
  "offset_of E t n = map_option (\<lambda>p. fst (snd p) div 8) (map_of (layout_of E t) n)"

section \<open>Well-formed types\<close>

fun wf_type :: "ctype \<Rightarrow> bool" and wf_fields :: "fields \<Rightarrow> bool" where
  "wf_type (IntT s n) \<longleftrightarrow> n = 1 \<or> n = 2 \<or> n = 4 \<or> n = 8"
| "wf_type CharT \<longleftrightarrow> True"
| "wf_type (EnumT n) \<longleftrightarrow> True"
| "wf_type (LongT s) \<longleftrightarrow> True"
| "wf_type PtrT \<longleftrightarrow> True"
| "wf_type (ForeignT n) \<longleftrightarrow> True"
| "wf_type (ArrT t n) \<longleftrightarrow> wf_type t"
| "wf_type (BitsT t w) \<longleftrightarrow>
     wf_type t \<and> (case t of IntT s n \<Rightarrow> w \<le> 8 * n | _ \<Rightarrow> False)"
| "wf_type (StructT a fs) \<longleftrightarrow> (case a of PackedTo n \<Rightarrow> 0 < n | _ \<Rightarrow> True) \<and> wf_fields fs"
| "wf_type (UnionT a fs) \<longleftrightarrow> (case a of PackedTo n \<Rightarrow> 0 < n | _ \<Rightarrow> True) \<and> wf_fields fs"
| "wf_fields [] \<longleftrightarrow> True"
| "wf_fields ((n, t) # fs) \<longleftrightarrow> wf_type t \<and> wf_fields fs"

section \<open>Rounding\<close>

lemma round_up_dvd [simp]: "a dvd round_up a n"
  by (simp add: round_up_def)

lemma round_up_ge: "0 < a \<Longrightarrow> n \<le> round_up a n"
proof -
  assume "0 < a"
  moreover have "(n + a - 1) mod a + (n + a - 1) div a * a = n + a - 1" by simp
  moreover from \<open>0 < a\<close> have "(n + a - 1) mod a < a" by simp
  ultimately show ?thesis unfolding round_up_def by linarith
qed

lemma round_up_less: "0 < a \<Longrightarrow> round_up a n < n + a"
proof -
  assume "0 < a"
  moreover have "(n + a - 1) mod a + (n + a - 1) div a * a = n + a - 1" by simp
  ultimately show ?thesis unfolding round_up_def by linarith
qed

lemma round_up_of_dvd: "0 < a \<Longrightarrow> a dvd n \<Longrightarrow> round_up a n = n"
proof -
  assume "0 < a" and "a dvd n"
  then obtain k where n: "n = k * a" by (metis dvd_def mult.commute)
  have "(k * a + (a - 1)) div a = k + (a - 1) div a"
    using \<open>0 < a\<close> by (intro div_mult_self3) simp
  also have "(a - 1) div a = 0" using \<open>0 < a\<close> by simp
  finally have "(k * a + (a - 1)) div a = k" by simp
  moreover have "k * a + a - 1 = k * a + (a - 1)" using \<open>0 < a\<close> by simp
  ultimately show ?thesis unfolding round_up_def n by simp
qed

lemma round_up_least: "0 < a \<Longrightarrow> a dvd m \<Longrightarrow> n \<le> m \<Longrightarrow> round_up a n \<le> m"
proof (rule ccontr)
  assume a: "0 < a" "a dvd m" "n \<le> m" and "\<not> round_up a n \<le> m"
  then have "m < round_up a n" by simp
  with a(2) obtain d where "round_up a n = m + d" "0 < d" by (metis less_imp_add_positive)
  moreover from this a(2) have "a dvd d" by (metis dvd_add_right_iff round_up_dvd)
  ultimately have "m + a \<le> round_up a n" by (simp add: dvd_imp_le)
  with round_up_less [OF a(1), of n] a(3) show False by simp
qed

section \<open>What a layout guarantees\<close>

lemma ctype_align_pos:
  "abi_ok E \<Longrightarrow> wf_type t \<Longrightarrow> 0 < align_of E t"
  "abi_ok E \<Longrightarrow> wf_fields fs \<Longrightarrow> 0 < max_align E fs"
  by (induction t and fs rule: wf_type_wf_fields.induct)
    (auto simp: abi_ok_def split: ctype.splits attr.splits)

text \<open>Every field starts after the ones before it, aligned as its type asks.\<close>

lemma field_start_ge:
  assumes "abi_ok E" and "wf_type t"
  shows "off \<le> field_start a (align_of E t) (size_of E t) off t"
  using ctype_align_pos(1) [OF assms] assms(2)
  by (cases t) (auto simp: field_start_def round_up_ge split: ctype.splits)

definition is_bits :: "ctype \<Rightarrow> bool" where
  "is_bits t \<longleftrightarrow> (case t of BitsT b w \<Rightarrow> True | _ \<Rightarrow> False)"

lemma field_start_aligned:
  "\<not> is_bits t \<Longrightarrow> 8 * align_of E t dvd field_start Natural (align_of E t) (size_of E t) off t"
  by (cases t) (simp_all add: field_start_def is_bits_def)

definition before :: "place \<Rightarrow> place \<Rightarrow> bool" where
  "before p q \<longleftrightarrow> fst (snd (snd p)) + snd (snd (snd p)) \<le> fst (snd (snd q))"

definition inside :: "nat \<Rightarrow> nat \<Rightarrow> place \<Rightarrow> bool" where
  "inside lo hi p \<longleftrightarrow> lo \<le> fst (snd (snd p)) \<and> fst (snd (snd p)) + snd (snd (snd p)) \<le> hi"

lemma end_of_ge: "abi_ok E \<Longrightarrow> wf_fields fs \<Longrightarrow> off \<le> end_of E a off fs"
proof (induction fs arbitrary: off)
  case (Cons f fs)
  obtain n t where f: "f = (n, t)" by force
  let ?s = "field_start a (align_of E t) (size_of E t) off t"
  have "off \<le> ?s" using Cons.prems by (intro field_start_ge) (simp_all add: f)
  also have "?s \<le> end_of E a (?s + field_bits (size_of E t) t) fs"
    using Cons.IH [of "?s + field_bits (size_of E t) t"] Cons.prems by (simp add: f)
  finally show ?case by (simp add: f)
qed simp

lemma layout_inside:
  "abi_ok E \<Longrightarrow> wf_fields fs \<Longrightarrow> p \<in> set (layout E a off fs) \<Longrightarrow> inside off (end_of E a off fs) p"
proof (induction fs arbitrary: off)
  case (Cons f fs)
  obtain n t where f: "f = (n, t)" by force
  let ?s = "field_start a (align_of E t) (size_of E t) off t"
  let ?e = "?s + field_bits (size_of E t) t"
  have s: "off \<le> ?s" using Cons.prems by (intro field_start_ge) (simp_all add: f)
  have e: "?e \<le> end_of E a ?e fs" using Cons.prems by (intro end_of_ge) (simp_all add: f)
  show ?case
  proof (cases "p = (n, t, ?s, field_bits (size_of E t) t)")
    case True
    with s e show ?thesis by (simp add: inside_def f)
  next
    case False
    with Cons.prems have "p \<in> set (layout E a ?e fs)" by (simp add: f Let_def)
    with Cons have "inside ?e (end_of E a ?e fs) p" by (simp add: f)
    with s show ?thesis by (simp add: inside_def f)
  qed
qed simp

lemma layout_ordered: "abi_ok E \<Longrightarrow> wf_fields fs \<Longrightarrow> sorted_wrt before (layout E a off fs)"
proof (induction fs arbitrary: off)
  case (Cons f fs)
  obtain n t where f: "f = (n, t)" by force
  let ?s = "field_start a (align_of E t) (size_of E t) off t"
  let ?e = "?s + field_bits (size_of E t) t"
  have "before (n, t, ?s, field_bits (size_of E t) t) q" if "q \<in> set (layout E a ?e fs)" for q
    using layout_inside [OF _ _ that] Cons.prems by (simp add: before_def inside_def f)
  with Cons show ?case by (simp add: f Let_def)
qed simp

lemma layout_aligned:
  "(n, t, s, w) \<in> set (layout E Natural off fs) \<Longrightarrow> \<not> is_bits t \<Longrightarrow> 8 * align_of E t dvd s"
  by (induction fs arbitrary: off) (auto simp: Let_def field_start_aligned)

lemma layout_names: "map fst (layout E a off fs) = map fst fs"
  by (induction fs arbitrary: off) (auto simp: Let_def)

lemma struct_size:
  assumes "abi_ok E" and "wf_type (StructT a fs)"
  shows "end_of E a 0 fs \<le> 8 * size_of E (StructT a fs)"
    and "align_of E (StructT a fs) dvd size_of E (StructT a fs)"
proof -
  let ?al = "align_of E (StructT a fs)" and ?r = "round_up (8 * align_of E (StructT a fs)) (end_of E a 0 fs)"
  have "0 < ?al" by (rule ctype_align_pos(1) [OF assms])
  then have ge: "end_of E a 0 fs \<le> ?r" by (intro round_up_ge) simp
  have dvd: "8 * ?al dvd ?r" by simp
  then have "?r = 8 * (?r div 8)" by (metis dvd_mult_div_cancel dvd_mult_left)
  then show "end_of E a 0 fs \<le> 8 * size_of E (StructT a fs)"
    using ge unfolding size_of.simps by linarith
  from dvd obtain k where "?r = 8 * (?al * k)" by (metis dvd_def mult.assoc)
  then have "?r div 8 = ?al * k" by simp
  then show "?al dvd size_of E (StructT a fs)" unfolding size_of.simps by simp
qed

lemma max_size_ge: "(n, t) \<in> set fs \<Longrightarrow> size_of E t \<le> max_size E fs"
  by (induction fs) (auto simp: max.coboundedI2)

lemma union_size:
  assumes "abi_ok E" and "wf_type (UnionT a fs)" and "(n, t) \<in> set fs"
  shows "size_of E t \<le> size_of E (UnionT a fs)"
  using max_size_ge [OF assms(3)] round_up_ge [OF ctype_align_pos(1) [OF assms(1,2)]]
  by (metis le_trans size_of.simps(10))

section \<open>Types whose layout does not depend on the ABI\<close>

text \<open>No \<open>long\<close>, no pointer, and foreign types only from a list the ABIs agree on.\<close>

fun portable :: "string list \<Rightarrow> ctype \<Rightarrow> bool" and portable_fields :: "string list \<Rightarrow> fields \<Rightarrow> bool" where
  "portable F (LongT s) \<longleftrightarrow> False"
| "portable F PtrT \<longleftrightarrow> False"
| "portable F (ForeignT n) \<longleftrightarrow> n \<in> set F"
| "portable F (ArrT t n) \<longleftrightarrow> portable F t"
| "portable F (BitsT t w) \<longleftrightarrow> portable F t"
| "portable F (StructT a fs) \<longleftrightarrow> portable_fields F fs"
| "portable F (UnionT a fs) \<longleftrightarrow> portable_fields F fs"
| "portable F _ \<longleftrightarrow> True"
| "portable_fields F [] \<longleftrightarrow> True"
| "portable_fields F ((n, t) # fs) \<longleftrightarrow> portable F t \<and> portable_fields F fs"

definition agree_on :: "string list \<Rightarrow> abi \<Rightarrow> abi \<Rightarrow> bool" where
  "agree_on F E E' \<longleftrightarrow> (\<forall>n\<in>set F. foreign E n = foreign E' n)"

lemma portable_align:
  "agree_on F E E' \<Longrightarrow> portable F t \<Longrightarrow> align_of E t = align_of E' t"
  "agree_on F E E' \<Longrightarrow> portable_fields F fs \<Longrightarrow> max_align E fs = max_align E' fs"
proof (induction t and fs rule: wf_type_wf_fields.induct)
  case (6 n)
  then show ?case by (simp add: agree_on_def)
qed auto

lemma portable_size_step:
  "agree_on F E E' \<Longrightarrow> portable F t \<Longrightarrow> size_of E t = size_of E' t"
  "agree_on F E E' \<Longrightarrow> portable_fields F fs \<Longrightarrow>
     (\<forall>a off. end_of E a off fs = end_of E' a off fs) \<and> max_size E fs = max_size E' fs"
proof (induction t and fs rule: wf_type_wf_fields.induct)
  case (6 n)
  then show ?case by (simp add: agree_on_def)
next
  case (9 a fs)
  then show ?case using portable_align(2) [of F E E' fs] by simp
next
  case (10 a fs)
  then show ?case using portable_align(2) [of F E E' fs] by simp
next
  case (12 n t fs)
  then show ?case using portable_align(1) [of F E E' t] by simp
qed auto

lemma portable_layout:
  "agree_on F E E' \<Longrightarrow> portable_fields F fs \<Longrightarrow> layout E a off fs = layout E' a off fs"
  by (induction fs arbitrary: off)
    (auto simp: Let_def portable_align [of F E E'] portable_size_step(1) [of F E E'])

lemma portable_layout_of:
  assumes "agree_on F E E'" and "portable F t"
  shows "layout_of E t = layout_of E' t"
proof (cases t)
  case (UnionT a fs)
  have "portable_fields F fs \<Longrightarrow> (n, u) \<in> set fs \<Longrightarrow> portable F u" for n u
    by (induction fs) auto
  with assms UnionT show ?thesis
    by (auto intro!: portable_size_step(1) [THEN arg_cong])
qed (use assms portable_layout in auto)

section \<open>Device requests\<close>

text \<open>
  \<open>_IO\<close>, \<open>_IOR\<close>, \<open>_IOW\<close> and \<open>_IOWR\<close> with the letter of the device, the number of the
  command and the type of the argument. How the kernel packs them into a word is not part of
  the repository; it uses the size of the type and not its name.
\<close>

datatype ioctl = IO nat nat | IOR nat nat ctype | IOW nat nat ctype | IOWR nat nat ctype

fun ioc_key :: "ioctl \<Rightarrow> nat \<times> nat" where
  "ioc_key (IO ty nr) = (ty, nr)"
| "ioc_key (IOR ty nr t) = (ty, nr)"
| "ioc_key (IOW ty nr t) = (ty, nr)"
| "ioc_key (IOWR ty nr t) = (ty, nr)"

fun ioc_dir :: "ioctl \<Rightarrow> nat" where
  "ioc_dir (IO ty nr) = 0"
| "ioc_dir (IOR ty nr t) = 1"
| "ioc_dir (IOW ty nr t) = 2"
| "ioc_dir (IOWR ty nr t) = 3"

fun ioc_size :: "abi \<Rightarrow> ioctl \<Rightarrow> nat" where
  "ioc_size E (IO ty nr) = 0"
| "ioc_size E (IOR ty nr t) = size_of E t"
| "ioc_size E (IOW ty nr t) = size_of E t"
| "ioc_size E (IOWR ty nr t) = size_of E t"

text \<open>All the kernel gets to see of a request.\<close>

definition ioc_code :: "abi \<Rightarrow> ioctl \<Rightarrow> nat \<times> (nat \<times> nat) \<times> nat" where
  "ioc_code E i = (ioc_dir i, ioc_key i, ioc_size E i)"

lemma keys_distinct_codes: "distinct (map ioc_key reqs) \<Longrightarrow> distinct (map (ioc_code E) reqs)"
proof -
  have "map ioc_key reqs = map (fst \<circ> snd) (map (ioc_code E) reqs)" by (simp add: ioc_code_def)
  then show "distinct (map ioc_key reqs) \<Longrightarrow> distinct (map (ioc_code E) reqs)"
    by (metis distinct_map)
qed

section \<open>Headers\<close>

text \<open>
  A header is the list of what it declares: structures and unions by tag or type name, other
  type names, enumerations with the value of every enumerator, macros for a number, for a text
  and for the size of a type, macros for a request, and macros that are only defined. Macros
  with arguments and functions are not in the list.
\<close>

datatype decl =
    Struct string ctype
  | Typedef string ctype
  | Enum string "(string \<times> int) list"
  | Const string int
  | Text string string
  | SizeOf string ctype
  | Request string ioctl
  | Flag string

fun requests :: "decl list \<Rightarrow> (string \<times> ioctl) list" where
  "requests [] = []"
| "requests (Request n i # ds) = (n, i) # requests ds"
| "requests (_ # ds) = requests ds"

text \<open>Evaluating them does not look into the declarations that are passed over.\<close>

lemma requests_cong: "requests ds = requests ds" by (rule refl)

lemma requests_append [simp]: "requests (ds @ es) = requests ds @ requests es"
  by (induction ds rule: requests.induct) simp_all

end
