(* ===== verification/LayoutDrm.thy ===== *)
theory LayoutDrm
  imports CLayout
begin

text \<open>
  The headers the kernel is built with (under sdm710/original-kernel-headers) of the display
  controller (drm/msm\_drm.h, msm\_drm\_pp.h, sde\_drm.h): every structure and union with
  its fields in order; then, for every file, the list of its declarations, in blocks:
  structures, enumerations, number macros and device requests. A type of the C library or of
  a header that is not in the repository is a foreign type.
\<close>

subsection \<open>drm/msm_drm.h\<close>

definition drm_msm_timespec :: ctype where
  "drm_msm_timespec =
     StructT Natural [(''tv_sec'', s64), (''tv_nsec'', s64)]"

abbreviation HDR_PRIMARIES_COUNT :: nat where "HDR_PRIMARIES_COUNT \<equiv> 3"

definition drm_msm_ext_hdr_metadata :: ctype where
  "drm_msm_ext_hdr_metadata =
     StructT Natural [(''hdr_state'', u32), (''eotf'', u32), (''hdr_supported'', u32),
      (''display_primaries_x'', ArrT u32 HDR_PRIMARIES_COUNT),
      (''display_primaries_y'', ArrT u32 HDR_PRIMARIES_COUNT), (''white_point_x'', u32),
      (''white_point_y'', u32), (''max_luminance'', u32), (''min_luminance'', u32),
      (''max_content_light_level'', u32), (''max_average_light_level'', u32)]"

definition drm_msm_ext_hdr_properties :: ctype where
  "drm_msm_ext_hdr_properties =
     StructT Natural [(''hdr_metadata_type_one'', u8), (''hdr_supported'', u32),
      (''hdr_eotf'', u32), (''hdr_max_luminance'', u32), (''hdr_avg_luminance'', u32),
      (''hdr_min_luminance'', u32)]"

definition drm_msm_param :: ctype where
  "drm_msm_param =
     StructT Natural [(''pipe'', u32), (''param'', u32), (''value'', u64)]"

definition drm_msm_gem_new :: ctype where
  "drm_msm_gem_new =
     StructT Natural [(''size'', u64), (''flags'', u32), (''handle'', u32)]"

definition drm_msm_gem_info :: ctype where
  "drm_msm_gem_info =
     StructT Natural [(''handle'', u32), (''pad'', u32), (''offset'', u64)]"

definition drm_msm_gem_cpu_prep :: ctype where
  "drm_msm_gem_cpu_prep =
     StructT Natural [(''handle'', u32), (''op'', u32), (''timeout'', drm_msm_timespec)]"

definition drm_msm_gem_cpu_fini :: ctype where
  "drm_msm_gem_cpu_fini =
     StructT Natural [(''handle'', u32)]"

definition drm_msm_gem_submit_reloc :: ctype where
  "drm_msm_gem_submit_reloc =
     StructT Natural [(''submit_offset'', u32), (''or'', u32), (''shift'', s32),
      (''reloc_idx'', u32), (''reloc_offset'', u64)]"

definition drm_msm_gem_submit_cmd :: ctype where
  "drm_msm_gem_submit_cmd =
     StructT Natural [(''type'', u32), (''submit_idx'', u32), (''submit_offset'', u32),
      (''size'', u32), (''pad'', u32), (''nr_relocs'', u32), (''relocs'', u64)]"

definition drm_msm_gem_submit_bo :: ctype where
  "drm_msm_gem_submit_bo =
     StructT Natural [(''flags'', u32), (''handle'', u32), (''presumed'', u64)]"

definition drm_msm_gem_submit :: ctype where
  "drm_msm_gem_submit =
     StructT Natural [(''flags'', u32), (''fence'', u32), (''nr_bos'', u32), (''nr_cmds'', u32),
      (''bos'', u64), (''cmds'', u64), (''fence_fd'', s32)]"

definition drm_msm_wait_fence :: ctype where
  "drm_msm_wait_fence =
     StructT Natural [(''fence'', u32), (''pad'', u32), (''timeout'', drm_msm_timespec)]"

definition drm_msm_gem_madvise :: ctype where
  "drm_msm_gem_madvise =
     StructT Natural [(''handle'', u32), (''madv'', u32), (''retained'', u32)]"

abbreviation DISPLAY_PRIMARIES_MAX :: nat where "DISPLAY_PRIMARIES_MAX \<equiv> 8"

definition drm_panel_hdr_properties :: ctype where
  "drm_panel_hdr_properties =
     StructT Natural [(''hdr_enabled'', u32),
      (''display_primaries'', ArrT u32 DISPLAY_PRIMARIES_MAX), (''peak_brightness'', u32),
      (''blackness_level'', u32)]"

definition drm_msm_event_req :: ctype where
  "drm_msm_event_req =
     StructT Natural [(''object_id'', u32), (''object_type'', u32), (''event'', u32),
      (''client_context'', u64), (''index'', u32)]"

definition drm_msm_event_resp :: ctype where
  "drm_msm_event_resp =
     StructT Natural [(''base'', ForeignT ''struct drm_event''), (''info'', drm_msm_event_req),
      (''data'', ArrT u8 0)]"

definition msm_drm_1 :: "decl list" where
  "msm_drm_1 =
    [Flag ''__MSM_DRM_H__'']"

definition msm_drm_2 :: "decl list" where
  "msm_drm_2 =
    [Const ''MSM_PIPE_NONE'' 0x00, Const ''MSM_PIPE_2D0'' 0x01, Const ''MSM_PIPE_2D1'' 0x02,
     Const ''MSM_PIPE_3D0'' 0x10, Const ''MSM_PIPE_ID_MASK'' 0xffff]"

definition msm_drm_3 :: "decl list" where
  "msm_drm_3 =
    [Struct ''drm_msm_timespec'' drm_msm_timespec, Const ''HDR_PRIMARIES_COUNT'' 3,
     Const ''HDR_EOTF_SDR_LUM_RANGE'' 0x0, Const ''HDR_EOTF_HDR_LUM_RANGE'' 0x1,
     Const ''HDR_EOTF_SMTPE_ST2084'' 0x2, Const ''HDR_EOTF_HLG'' 0x3,
     Flag ''DRM_MSM_EXT_HDR_METADATA'',
     Struct ''drm_msm_ext_hdr_metadata'' drm_msm_ext_hdr_metadata,
     Flag ''DRM_MSM_EXT_HDR_PROPERTIES'',
     Struct ''drm_msm_ext_hdr_properties'' drm_msm_ext_hdr_properties,
     Const ''MSM_PARAM_GPU_ID'' 0x01, Const ''MSM_PARAM_GMEM_SIZE'' 0x02,
     Const ''MSM_PARAM_CHIP_ID'' 0x03, Const ''MSM_PARAM_MAX_FREQ'' 0x04,
     Const ''MSM_PARAM_TIMESTAMP'' 0x05, Struct ''drm_msm_param'' drm_msm_param,
     Const ''MSM_BO_SCANOUT'' 0x00000001, Const ''MSM_BO_GPU_READONLY'' 0x00000002,
     Const ''MSM_BO_CACHE_MASK'' 0x000f0000, Const ''MSM_BO_CACHED'' 0x00010000,
     Const ''MSM_BO_WC'' 0x00020000, Const ''MSM_BO_UNCACHED'' 0x00040000,
     Const ''MSM_BO_FLAGS'' 458755, Struct ''drm_msm_gem_new'' drm_msm_gem_new,
     Struct ''drm_msm_gem_info'' drm_msm_gem_info, Const ''MSM_PREP_READ'' 0x01,
     Const ''MSM_PREP_WRITE'' 0x02, Const ''MSM_PREP_NOSYNC'' 0x04, Const ''MSM_PREP_FLAGS'' 7,
     Struct ''drm_msm_gem_cpu_prep'' drm_msm_gem_cpu_prep,
     Struct ''drm_msm_gem_cpu_fini'' drm_msm_gem_cpu_fini]"

definition msm_drm_4 :: "decl list" where
  "msm_drm_4 =
    [Struct ''drm_msm_gem_submit_reloc'' drm_msm_gem_submit_reloc,
     Const ''MSM_SUBMIT_CMD_BUF'' 0x0001, Const ''MSM_SUBMIT_CMD_IB_TARGET_BUF'' 0x0002,
     Const ''MSM_SUBMIT_CMD_CTX_RESTORE_BUF'' 0x0003,
     Struct ''drm_msm_gem_submit_cmd'' drm_msm_gem_submit_cmd]"

definition msm_drm_5 :: "decl list" where
  "msm_drm_5 =
    [Const ''MSM_SUBMIT_BO_READ'' 0x0001, Const ''MSM_SUBMIT_BO_WRITE'' 0x0002,
     Const ''MSM_SUBMIT_BO_FLAGS'' 3, Struct ''drm_msm_gem_submit_bo'' drm_msm_gem_submit_bo,
     Const ''MSM_SUBMIT_NO_IMPLICIT'' 0x80000000, Const ''MSM_SUBMIT_FENCE_FD_IN'' 0x40000000,
     Const ''MSM_SUBMIT_FENCE_FD_OUT'' 0x20000000, Const ''MSM_SUBMIT_FLAGS'' 3758096384,
     Struct ''drm_msm_gem_submit'' drm_msm_gem_submit,
     Struct ''drm_msm_wait_fence'' drm_msm_wait_fence]"

definition msm_drm_6 :: "decl list" where
  "msm_drm_6 =
    [Const ''MSM_MADV_WILLNEED'' 0, Const ''MSM_MADV_DONTNEED'' 1,
     Const ''__MSM_MADV_PURGED'' 2, Struct ''drm_msm_gem_madvise'' drm_msm_gem_madvise,
     Const ''DISPLAY_PRIMARIES_WX'' 0, Const ''DISPLAY_PRIMARIES_WY'' 1,
     Const ''DISPLAY_PRIMARIES_RX'' 2, Const ''DISPLAY_PRIMARIES_RY'' 3,
     Const ''DISPLAY_PRIMARIES_GX'' 4, Const ''DISPLAY_PRIMARIES_GY'' 5,
     Const ''DISPLAY_PRIMARIES_BX'' 6, Const ''DISPLAY_PRIMARIES_BY'' 7,
     Const ''DISPLAY_PRIMARIES_MAX'' 8,
     Struct ''drm_panel_hdr_properties'' drm_panel_hdr_properties]"

abbreviation DRM_MSM_GET_PARAM :: nat where "DRM_MSM_GET_PARAM \<equiv> 0"

abbreviation DRM_MSM_GEM_NEW :: nat where "DRM_MSM_GEM_NEW \<equiv> 2"

abbreviation DRM_MSM_GEM_INFO :: nat where "DRM_MSM_GEM_INFO \<equiv> 3"

abbreviation DRM_MSM_GEM_CPU_PREP :: nat where "DRM_MSM_GEM_CPU_PREP \<equiv> 4"

abbreviation DRM_MSM_GEM_CPU_FINI :: nat where "DRM_MSM_GEM_CPU_FINI \<equiv> 5"

abbreviation DRM_MSM_GEM_SUBMIT :: nat where "DRM_MSM_GEM_SUBMIT \<equiv> 6"

abbreviation DRM_MSM_WAIT_FENCE :: nat where "DRM_MSM_WAIT_FENCE \<equiv> 7"

abbreviation DRM_MSM_GEM_MADVISE :: nat where "DRM_MSM_GEM_MADVISE \<equiv> 8"

abbreviation DRM_SDE_WB_CONFIG :: nat where "DRM_SDE_WB_CONFIG \<equiv> 64"

definition sde_drm_wb_cfg :: ctype where
  "sde_drm_wb_cfg =
     StructT Natural [(''flags'', u32), (''connector_id'', u32), (''count_modes'', u32),
      (''modes'', u64)]"

abbreviation DRM_MSM_REGISTER_EVENT :: nat where "DRM_MSM_REGISTER_EVENT \<equiv> 65"

abbreviation DRM_MSM_DEREGISTER_EVENT :: nat where "DRM_MSM_DEREGISTER_EVENT \<equiv> 66"

abbreviation DRM_MSM_RMFB2 :: nat where "DRM_MSM_RMFB2 \<equiv> 67"

definition msm_drm_7 :: "nat \<Rightarrow> nat \<Rightarrow> decl list" where
  "msm_drm_7 DRM_COMMAND_BASE DRM_IOCTL_BASE =
    [Struct ''drm_msm_event_req'' drm_msm_event_req,
     Struct ''drm_msm_event_resp'' drm_msm_event_resp, Const ''DRM_MSM_GET_PARAM'' 0x00,
     Const ''DRM_MSM_GEM_NEW'' 0x02, Const ''DRM_MSM_GEM_INFO'' 0x03,
     Const ''DRM_MSM_GEM_CPU_PREP'' 0x04, Const ''DRM_MSM_GEM_CPU_FINI'' 0x05,
     Const ''DRM_MSM_GEM_SUBMIT'' 0x06, Const ''DRM_MSM_WAIT_FENCE'' 0x07,
     Const ''DRM_MSM_GEM_MADVISE'' 0x08, Const ''DRM_SDE_WB_CONFIG'' 0x40,
     Const ''DRM_MSM_REGISTER_EVENT'' 0x41, Const ''DRM_MSM_DEREGISTER_EVENT'' 0x42,
     Const ''DRM_MSM_RMFB2'' 0x43, Const ''DRM_EVENT_HISTOGRAM'' 0x80000000,
     Const ''DRM_EVENT_AD_BACKLIGHT'' 0x80000001, Const ''DRM_EVENT_CRTC_POWER'' 0x80000002,
     Const ''DRM_EVENT_SYS_BACKLIGHT'' 0x80000003, Const ''DRM_EVENT_SDE_POWER'' 0x80000004,
     Const ''DRM_EVENT_IDLE_NOTIFY'' 0x80000005, Const ''DRM_EVENT_PANEL_DEAD'' 0x80000006,
     Request ''DRM_IOCTL_MSM_GET_PARAM'' (IOWR DRM_IOCTL_BASE (DRM_COMMAND_BASE + DRM_MSM_GET_PARAM) drm_msm_param),
     Request ''DRM_IOCTL_MSM_GEM_NEW'' (IOWR DRM_IOCTL_BASE (DRM_COMMAND_BASE + DRM_MSM_GEM_NEW) drm_msm_gem_new),
     Request ''DRM_IOCTL_MSM_GEM_INFO'' (IOWR DRM_IOCTL_BASE (DRM_COMMAND_BASE + DRM_MSM_GEM_INFO) drm_msm_gem_info),
     Request ''DRM_IOCTL_MSM_GEM_CPU_PREP'' (IOW DRM_IOCTL_BASE (DRM_COMMAND_BASE + DRM_MSM_GEM_CPU_PREP) drm_msm_gem_cpu_prep),
     Request ''DRM_IOCTL_MSM_GEM_CPU_FINI'' (IOW DRM_IOCTL_BASE (DRM_COMMAND_BASE + DRM_MSM_GEM_CPU_FINI) drm_msm_gem_cpu_fini),
     Request ''DRM_IOCTL_MSM_GEM_SUBMIT'' (IOWR DRM_IOCTL_BASE (DRM_COMMAND_BASE + DRM_MSM_GEM_SUBMIT) drm_msm_gem_submit),
     Request ''DRM_IOCTL_MSM_WAIT_FENCE'' (IOW DRM_IOCTL_BASE (DRM_COMMAND_BASE + DRM_MSM_WAIT_FENCE) drm_msm_wait_fence),
     Request ''DRM_IOCTL_MSM_GEM_MADVISE'' (IOWR DRM_IOCTL_BASE (DRM_COMMAND_BASE + DRM_MSM_GEM_MADVISE) drm_msm_gem_madvise),
     Request ''DRM_IOCTL_SDE_WB_CONFIG'' (IOW DRM_IOCTL_BASE (DRM_COMMAND_BASE + DRM_SDE_WB_CONFIG) sde_drm_wb_cfg),
     Request ''DRM_IOCTL_MSM_REGISTER_EVENT'' (IOW DRM_IOCTL_BASE (DRM_COMMAND_BASE + DRM_MSM_REGISTER_EVENT) drm_msm_event_req),
     Request ''DRM_IOCTL_MSM_DEREGISTER_EVENT'' (IOW DRM_IOCTL_BASE (DRM_COMMAND_BASE + DRM_MSM_DEREGISTER_EVENT) drm_msm_event_req),
     Request ''DRM_IOCTL_MSM_RMFB2'' (IOW DRM_IOCTL_BASE (DRM_COMMAND_BASE + DRM_MSM_RMFB2) u32)]"

definition msm_drm_h :: "nat \<Rightarrow> nat \<Rightarrow> decl list" where
  "msm_drm_h DRM_COMMAND_BASE DRM_IOCTL_BASE = msm_drm_1 @ msm_drm_2 @ msm_drm_3 @ msm_drm_4 @ msm_drm_5 @ msm_drm_6 @
     msm_drm_7 DRM_COMMAND_BASE DRM_IOCTL_BASE"

subsection \<open>drm/msm_drm_pp.h\<close>

definition drm_msm_pcc_coeff :: ctype where
  "drm_msm_pcc_coeff =
     StructT Natural [(''c'', u32), (''r'', u32), (''g'', u32), (''b'', u32), (''rg'', u32),
      (''gb'', u32), (''rb'', u32), (''rgb'', u32)]"

definition drm_msm_pcc :: ctype where
  "drm_msm_pcc =
     StructT Natural [(''flags'', u64), (''r'', drm_msm_pcc_coeff), (''g'', drm_msm_pcc_coeff),
      (''b'', drm_msm_pcc_coeff), (''r_rr'', u32), (''r_gg'', u32), (''r_bb'', u32),
      (''g_rr'', u32), (''g_gg'', u32), (''g_bb'', u32), (''b_rr'', u32), (''b_gg'', u32),
      (''b_bb'', u32)]"

abbreviation PA_VLUT_SIZE :: nat where "PA_VLUT_SIZE \<equiv> 256"

definition drm_msm_pa_vlut :: ctype where
  "drm_msm_pa_vlut =
     StructT Natural [(''flags'', u64), (''val'', ArrT u32 PA_VLUT_SIZE)]"

definition drm_msm_pa_hsic :: ctype where
  "drm_msm_pa_hsic =
     StructT Natural [(''flags'', u64), (''hue'', u32), (''saturation'', u32), (''value'', u32),
      (''contrast'', u32)]"

definition drm_msm_memcol :: ctype where
  "drm_msm_memcol =
     StructT Natural [(''prot_flags'', u64), (''color_adjust_p0'', u32),
      (''color_adjust_p1'', u32), (''color_adjust_p2'', u32), (''blend_gain'', u32),
      (''sat_hold'', u32), (''val_hold'', u32), (''hue_region'', u32), (''sat_region'', u32),
      (''val_region'', u32)]"

definition drm_msm_sixzone_curve :: ctype where
  "drm_msm_sixzone_curve =
     StructT Natural [(''p1'', u32), (''p0'', u32)]"

abbreviation SIXZONE_LUT_SIZE :: nat where "SIXZONE_LUT_SIZE \<equiv> 384"

definition drm_msm_sixzone :: ctype where
  "drm_msm_sixzone =
     StructT Natural [(''flags'', u64), (''threshold'', u32), (''adjust_p0'', u32),
      (''adjust_p1'', u32), (''sat_hold'', u32), (''val_hold'', u32),
      (''curve'', ArrT drm_msm_sixzone_curve SIXZONE_LUT_SIZE)]"

definition drm_msm_3d_col :: ctype where
  "drm_msm_3d_col =
     StructT Natural [(''c2_c1'', u32), (''c0'', u32)]"

abbreviation GAMUT_3D_SCALE_OFF_TBL_NUM :: nat where "GAMUT_3D_SCALE_OFF_TBL_NUM \<equiv> 3"

abbreviation GAMUT_3D_SCALE_OFF_SZ :: nat where "GAMUT_3D_SCALE_OFF_SZ \<equiv> 16"

abbreviation GAMUT_3D_TBL_NUM :: nat where "GAMUT_3D_TBL_NUM \<equiv> 4"

abbreviation GAMUT_3D_MODE17_TBL_SZ :: nat where "GAMUT_3D_MODE17_TBL_SZ \<equiv> 1229"

definition drm_msm_3d_gamut :: ctype where
  "drm_msm_3d_gamut =
     StructT Natural [(''flags'', u64), (''mode'', u32),
      (''scale_off'', ArrT (ArrT u32 GAMUT_3D_SCALE_OFF_SZ) GAMUT_3D_SCALE_OFF_TBL_NUM),
      (''col'', ArrT (ArrT drm_msm_3d_col GAMUT_3D_MODE17_TBL_SZ) GAMUT_3D_TBL_NUM)]"

abbreviation PGC_TBL_LEN :: nat where "PGC_TBL_LEN \<equiv> 512"

definition drm_msm_pgc_lut :: ctype where
  "drm_msm_pgc_lut =
     StructT Natural [(''flags'', u64), (''c0'', ArrT u32 PGC_TBL_LEN),
      (''c1'', ArrT u32 PGC_TBL_LEN), (''c2'', ArrT u32 PGC_TBL_LEN)]"

abbreviation IGC_TBL_LEN :: nat where "IGC_TBL_LEN \<equiv> 256"

definition drm_msm_igc_lut :: ctype where
  "drm_msm_igc_lut =
     StructT Natural [(''flags'', u64), (''c0'', ArrT u32 IGC_TBL_LEN),
      (''c1'', ArrT u32 IGC_TBL_LEN), (''c2'', ArrT u32 IGC_TBL_LEN), (''strength'', u32)]"

abbreviation HIST_V_SIZE :: nat where "HIST_V_SIZE \<equiv> 256"

definition drm_msm_hist :: ctype where
  "drm_msm_hist =
     StructT Natural [(''flags'', u64), (''data'', ArrT u32 HIST_V_SIZE)]"

abbreviation AD4_LUT_GRP0_SIZE :: nat where "AD4_LUT_GRP0_SIZE \<equiv> 33"

abbreviation AD4_LUT_GRP1_SIZE :: nat where "AD4_LUT_GRP1_SIZE \<equiv> 32"

definition drm_msm_ad4_init :: ctype where
  "drm_msm_ad4_init =
     StructT Natural [(''init_param_001'', ArrT u32 AD4_LUT_GRP0_SIZE),
      (''init_param_002'', ArrT u32 AD4_LUT_GRP0_SIZE),
      (''init_param_003'', ArrT u32 AD4_LUT_GRP0_SIZE),
      (''init_param_004'', ArrT u32 AD4_LUT_GRP0_SIZE),
      (''init_param_005'', ArrT u32 AD4_LUT_GRP1_SIZE),
      (''init_param_006'', ArrT u32 AD4_LUT_GRP1_SIZE),
      (''init_param_007'', ArrT u32 AD4_LUT_GRP0_SIZE),
      (''init_param_008'', ArrT u32 AD4_LUT_GRP0_SIZE), (''init_param_009'', u32),
      (''init_param_010'', u32), (''init_param_011'', u32), (''init_param_012'', u32),
      (''init_param_013'', u32), (''init_param_014'', u32), (''init_param_015'', u32),
      (''init_param_016'', u32), (''init_param_017'', u32), (''init_param_018'', u32),
      (''init_param_019'', u32), (''init_param_020'', u32), (''init_param_021'', u32),
      (''init_param_022'', u32), (''init_param_023'', u32), (''init_param_024'', u32),
      (''init_param_025'', u32), (''init_param_026'', u32), (''init_param_027'', u32),
      (''init_param_028'', u32), (''init_param_029'', u32), (''init_param_030'', u32),
      (''init_param_031'', u32), (''init_param_032'', u32), (''init_param_033'', u32),
      (''init_param_034'', u32), (''init_param_035'', u32), (''init_param_036'', u32),
      (''init_param_037'', u32), (''init_param_038'', u32), (''init_param_039'', u32),
      (''init_param_040'', u32), (''init_param_041'', u32), (''init_param_042'', u32),
      (''init_param_043'', u32), (''init_param_044'', u32), (''init_param_045'', u32),
      (''init_param_046'', u32), (''init_param_047'', u32), (''init_param_048'', u32),
      (''init_param_049'', u32), (''init_param_050'', u32), (''init_param_051'', u32),
      (''init_param_052'', u32), (''init_param_053'', u32), (''init_param_054'', u32),
      (''init_param_055'', u32), (''init_param_056'', u32), (''init_param_057'', u32),
      (''init_param_058'', u32), (''init_param_059'', u32), (''init_param_060'', u32),
      (''init_param_061'', u32), (''init_param_062'', u32), (''init_param_063'', u32),
      (''init_param_064'', u32), (''init_param_065'', u32), (''init_param_066'', u32),
      (''init_param_067'', u32), (''init_param_068'', u32), (''init_param_069'', u32),
      (''init_param_070'', u32), (''init_param_071'', u32), (''init_param_072'', u32),
      (''init_param_073'', u32), (''init_param_074'', u32), (''init_param_075'', u32)]"

definition drm_msm_ad4_cfg :: ctype where
  "drm_msm_ad4_cfg =
     StructT Natural [(''cfg_param_001'', u32), (''cfg_param_002'', u32),
      (''cfg_param_003'', u32), (''cfg_param_004'', u32), (''cfg_param_005'', u32),
      (''cfg_param_006'', u32), (''cfg_param_007'', u32), (''cfg_param_008'', u32),
      (''cfg_param_009'', u32), (''cfg_param_010'', u32), (''cfg_param_011'', u32),
      (''cfg_param_012'', u32), (''cfg_param_013'', u32), (''cfg_param_014'', u32),
      (''cfg_param_015'', u32), (''cfg_param_016'', u32), (''cfg_param_017'', u32),
      (''cfg_param_018'', u32), (''cfg_param_019'', u32), (''cfg_param_020'', u32),
      (''cfg_param_021'', u32), (''cfg_param_022'', u32), (''cfg_param_023'', u32),
      (''cfg_param_024'', u32), (''cfg_param_025'', u32), (''cfg_param_026'', u32),
      (''cfg_param_027'', u32), (''cfg_param_028'', u32), (''cfg_param_029'', u32),
      (''cfg_param_030'', u32), (''cfg_param_031'', u32), (''cfg_param_032'', u32),
      (''cfg_param_033'', u32), (''cfg_param_034'', u32), (''cfg_param_035'', u32),
      (''cfg_param_036'', u32), (''cfg_param_037'', u32), (''cfg_param_038'', u32),
      (''cfg_param_039'', u32), (''cfg_param_040'', u32), (''cfg_param_041'', u32),
      (''cfg_param_042'', u32), (''cfg_param_043'', u32), (''cfg_param_044'', u32),
      (''cfg_param_045'', u32), (''cfg_param_046'', u32), (''cfg_param_047'', u32),
      (''cfg_param_048'', u32), (''cfg_param_049'', u32), (''cfg_param_050'', u32),
      (''cfg_param_051'', u32), (''cfg_param_052'', u32), (''cfg_param_053'', u32)]"

abbreviation DITHER_MATRIX_SZ :: nat where "DITHER_MATRIX_SZ \<equiv> 16"

definition drm_msm_dither :: ctype where
  "drm_msm_dither =
     StructT Natural [(''flags'', u64), (''temporal_en'', u32), (''c0_bitdepth'', u32),
      (''c1_bitdepth'', u32), (''c2_bitdepth'', u32), (''c3_bitdepth'', u32),
      (''matrix'', ArrT u32 DITHER_MATRIX_SZ)]"

definition drm_msm_pa_dither :: ctype where
  "drm_msm_pa_dither =
     StructT Natural [(''flags'', u64), (''strength'', u32), (''offset_en'', u32),
      (''matrix'', ArrT u32 DITHER_MATRIX_SZ)]"

definition msm_drm_pp_1 :: "decl list" where
  "msm_drm_pp_1 =
    [Flag ''_MSM_DRM_PP_H_'']"

definition msm_drm_pp_2 :: "decl list" where
  "msm_drm_pp_2 =
    [Struct ''drm_msm_pcc_coeff'' drm_msm_pcc_coeff]"

definition msm_drm_pp_3 :: "decl list" where
  "msm_drm_pp_3 =
    [Flag ''DRM_MSM_PCC3'', Struct ''drm_msm_pcc'' drm_msm_pcc, Const ''PA_VLUT_SIZE'' 256,
     Struct ''drm_msm_pa_vlut'' drm_msm_pa_vlut, Const ''PA_HSIC_HUE_ENABLE'' (2 ^ 0),
     Const ''PA_HSIC_SAT_ENABLE'' (2 ^ 1), Const ''PA_HSIC_VAL_ENABLE'' (2 ^ 2),
     Const ''PA_HSIC_CONT_ENABLE'' (2 ^ 3)]"

definition msm_drm_pp_4 :: "decl list" where
  "msm_drm_pp_4 =
    [Flag ''DRM_MSM_PA_HSIC'', Struct ''drm_msm_pa_hsic'' drm_msm_pa_hsic,
     Const ''MEMCOL_PROT_HUE'' (2 ^ 0), Const ''MEMCOL_PROT_SAT'' (2 ^ 1),
     Const ''MEMCOL_PROT_VAL'' (2 ^ 2), Const ''MEMCOL_PROT_CONT'' (2 ^ 3),
     Const ''MEMCOL_PROT_SIXZONE'' (2 ^ 4), Const ''MEMCOL_PROT_BLEND'' (2 ^ 5)]"

definition msm_drm_pp_5 :: "decl list" where
  "msm_drm_pp_5 =
    [Flag ''DRM_MSM_MEMCOL'', Struct ''drm_msm_memcol'' drm_msm_memcol,
     Flag ''DRM_MSM_SIXZONE'', Const ''SIXZONE_LUT_SIZE'' 384,
     Const ''SIXZONE_HUE_ENABLE'' (2 ^ 0), Const ''SIXZONE_SAT_ENABLE'' (2 ^ 1),
     Const ''SIXZONE_VAL_ENABLE'' (2 ^ 2),
     Struct ''drm_msm_sixzone_curve'' drm_msm_sixzone_curve]"

definition msm_drm_pp_6 :: "decl list" where
  "msm_drm_pp_6 =
    [Struct ''drm_msm_sixzone'' drm_msm_sixzone, Const ''GAMUT_3D_MODE_17'' 1,
     Const ''GAMUT_3D_MODE_5'' 2, Const ''GAMUT_3D_MODE_13'' 3,
     Const ''GAMUT_3D_MODE17_TBL_SZ'' 1229, Const ''GAMUT_3D_MODE5_TBL_SZ'' 32,
     Const ''GAMUT_3D_MODE13_TBL_SZ'' 550, Const ''GAMUT_3D_SCALE_OFF_SZ'' 16,
     Const ''GAMUT_3D_SCALEB_OFF_SZ'' 12, Const ''GAMUT_3D_TBL_NUM'' 4,
     Const ''GAMUT_3D_SCALE_OFF_TBL_NUM'' 3, Const ''GAMUT_3D_MAP_EN'' (2 ^ 0),
     Struct ''drm_msm_3d_col'' drm_msm_3d_col]"

definition msm_drm_pp_7 :: "decl list" where
  "msm_drm_pp_7 =
    [Struct ''drm_msm_3d_gamut'' drm_msm_3d_gamut, Const ''PGC_TBL_LEN'' 512,
     Const ''PGC_8B_ROUND'' (2 ^ 0), Struct ''drm_msm_pgc_lut'' drm_msm_pgc_lut,
     Const ''IGC_TBL_LEN'' 256, Const ''IGC_DITHER_ENABLE'' (2 ^ 0),
     Struct ''drm_msm_igc_lut'' drm_msm_igc_lut, Const ''HIST_V_SIZE'' 256,
     Struct ''drm_msm_hist'' drm_msm_hist, Const ''AD4_LUT_GRP0_SIZE'' 33,
     Const ''AD4_LUT_GRP1_SIZE'' 32, Struct ''drm_msm_ad4_init'' drm_msm_ad4_init]"

definition msm_drm_pp_8 :: "decl list" where
  "msm_drm_pp_8 =
    [Struct ''drm_msm_ad4_cfg'' drm_msm_ad4_cfg, Const ''DITHER_MATRIX_SZ'' 16]"

definition msm_drm_pp_9 :: "decl list" where
  "msm_drm_pp_9 =
    [Struct ''drm_msm_dither'' drm_msm_dither, Flag ''DRM_MSM_PA_DITHER'',
     Struct ''drm_msm_pa_dither'' drm_msm_pa_dither]"

definition msm_drm_pp_h :: "decl list" where
  "msm_drm_pp_h = msm_drm_pp_1 @ msm_drm_pp_2 @ msm_drm_pp_3 @ msm_drm_pp_4 @ msm_drm_pp_5 @ msm_drm_pp_6 @
     msm_drm_pp_7 @ msm_drm_pp_8 @ msm_drm_pp_9"

subsection \<open>drm/sde_drm.h\<close>

abbreviation SDE_MAX_PLANES :: nat where "SDE_MAX_PLANES \<equiv> 4"

definition sde_drm_pix_ext_v1 :: ctype where
  "sde_drm_pix_ext_v1 =
     StructT Natural [(''num_ext_pxls_lr'', ArrT s32 SDE_MAX_PLANES),
      (''num_ext_pxls_tb'', ArrT s32 SDE_MAX_PLANES), (''left_ftch'', ArrT s32 SDE_MAX_PLANES),
      (''right_ftch'', ArrT s32 SDE_MAX_PLANES), (''top_ftch'', ArrT s32 SDE_MAX_PLANES),
      (''btm_ftch'', ArrT s32 SDE_MAX_PLANES), (''left_rpt'', ArrT s32 SDE_MAX_PLANES),
      (''right_rpt'', ArrT s32 SDE_MAX_PLANES), (''top_rpt'', ArrT s32 SDE_MAX_PLANES),
      (''btm_rpt'', ArrT s32 SDE_MAX_PLANES)]"

definition sde_drm_scaler_v1 :: ctype where
  "sde_drm_scaler_v1 =
     StructT Natural [(''pe'', sde_drm_pix_ext_v1), (''init_phase_x'', ArrT s32 SDE_MAX_PLANES),
      (''phase_step_x'', ArrT s32 SDE_MAX_PLANES), (''init_phase_y'', ArrT s32 SDE_MAX_PLANES),
      (''phase_step_y'', ArrT s32 SDE_MAX_PLANES), (''horz_filter'', ArrT u32 SDE_MAX_PLANES),
      (''vert_filter'', ArrT u32 SDE_MAX_PLANES)]"

abbreviation SDE_MAX_DE_CURVES :: nat where "SDE_MAX_DE_CURVES \<equiv> 3"

definition sde_drm_de_v1 :: ctype where
  "sde_drm_de_v1 =
     StructT Natural [(''enable'', u32), (''sharpen_level1'', s16), (''sharpen_level2'', s16),
      (''clip'', u16), (''limit'', u16), (''thr_quiet'', u16), (''thr_dieout'', u16),
      (''thr_low'', u16), (''thr_high'', u16), (''prec_shift'', u16),
      (''adjust_a'', ArrT s16 SDE_MAX_DE_CURVES), (''adjust_b'', ArrT s16 SDE_MAX_DE_CURVES),
      (''adjust_c'', ArrT s16 SDE_MAX_DE_CURVES)]"

definition sde_drm_scaler_v2 :: ctype where
  "sde_drm_scaler_v2 =
     StructT Natural [(''enable'', u32), (''dir_en'', u32), (''pe'', sde_drm_pix_ext_v1),
      (''horz_decimate'', u32), (''vert_decimate'', u32),
      (''init_phase_x'', ArrT s32 SDE_MAX_PLANES), (''phase_step_x'', ArrT s32 SDE_MAX_PLANES),
      (''init_phase_y'', ArrT s32 SDE_MAX_PLANES), (''phase_step_y'', ArrT s32 SDE_MAX_PLANES),
      (''preload_x'', ArrT u32 SDE_MAX_PLANES), (''preload_y'', ArrT u32 SDE_MAX_PLANES),
      (''src_width'', ArrT u32 SDE_MAX_PLANES), (''src_height'', ArrT u32 SDE_MAX_PLANES),
      (''dst_width'', u32), (''dst_height'', u32), (''y_rgb_filter_cfg'', u32),
      (''uv_filter_cfg'', u32), (''alpha_filter_cfg'', u32), (''blend_cfg'', u32),
      (''lut_flag'', u32), (''dir_lut_idx'', u32), (''y_rgb_cir_lut_idx'', u32),
      (''uv_cir_lut_idx'', u32), (''y_rgb_sep_lut_idx'', u32), (''uv_sep_lut_idx'', u32),
      (''de'', sde_drm_de_v1)]"

definition sde_drm_dest_scaler_cfg :: ctype where
  "sde_drm_dest_scaler_cfg =
     StructT Natural [(''flags'', u32), (''index'', u32), (''lm_width'', u32),
      (''lm_height'', u32), (''scaler_cfg'', u64)]"

abbreviation SDE_MAX_DS_COUNT :: nat where "SDE_MAX_DS_COUNT \<equiv> 2"

definition sde_drm_dest_scaler_data :: ctype where
  "sde_drm_dest_scaler_data =
     StructT Natural [(''num_dest_scaler'', u32),
      (''ds_cfg'', ArrT sde_drm_dest_scaler_cfg SDE_MAX_DS_COUNT)]"

abbreviation SDE_CSC_MATRIX_COEFF_SIZE :: nat where "SDE_CSC_MATRIX_COEFF_SIZE \<equiv> 9"

abbreviation SDE_CSC_BIAS_SIZE :: nat where "SDE_CSC_BIAS_SIZE \<equiv> 3"

abbreviation SDE_CSC_CLAMP_SIZE :: nat where "SDE_CSC_CLAMP_SIZE \<equiv> 6"

definition sde_drm_csc_v1 :: ctype where
  "sde_drm_csc_v1 =
     StructT Natural [(''ctm_coeff'', ArrT s64 SDE_CSC_MATRIX_COEFF_SIZE),
      (''pre_bias'', ArrT u32 SDE_CSC_BIAS_SIZE), (''post_bias'', ArrT u32 SDE_CSC_BIAS_SIZE),
      (''pre_clamp'', ArrT u32 SDE_CSC_CLAMP_SIZE),
      (''post_clamp'', ArrT u32 SDE_CSC_CLAMP_SIZE)]"

definition sde_drm_color :: ctype where
  "sde_drm_color =
     StructT Natural [(''color_0'', u32), (''color_1'', u32), (''color_2'', u32),
      (''color_3'', u32)]"

definition sde_drm_dim_layer_cfg :: ctype where
  "sde_drm_dim_layer_cfg =
     StructT Natural [(''flags'', u32), (''stage'', u32), (''color_fill'', sde_drm_color),
      (''rect'', ForeignT ''struct drm_clip_rect'')]"

abbreviation SDE_MAX_DIM_LAYERS :: nat where "SDE_MAX_DIM_LAYERS \<equiv> 7"

definition sde_drm_dim_layer_v1 :: ctype where
  "sde_drm_dim_layer_v1 =
     StructT Natural [(''num_layers'', u32),
      (''layer_cfg'', ArrT sde_drm_dim_layer_cfg SDE_MAX_DIM_LAYERS)]"

abbreviation SDE_MAX_ROI_V1 :: nat where "SDE_MAX_ROI_V1 \<equiv> 4"

definition sde_drm_roi_v1 :: ctype where
  "sde_drm_roi_v1 =
     StructT Natural [(''num_rects'', u32),
      (''roi'', ArrT (ForeignT ''struct drm_clip_rect'') SDE_MAX_ROI_V1)]"

definition sde_drm_1 :: "decl list" where
  "sde_drm_1 =
    [Flag ''_SDE_DRM_H_'']"

definition sde_drm_2 :: "decl list" where
  "sde_drm_2 =
    [Const ''SDE_MAX_PLANES'' 4, Const ''SDE_MAX_DE_CURVES'' 3,
     Const ''FILTER_EDGE_DIRECTED_2D'' 0x0, Const ''FILTER_CIRCULAR_2D'' 0x1,
     Const ''FILTER_SEPARABLE_1D'' 0x2, Const ''FILTER_BILINEAR'' 0x3,
     Const ''FILTER_ALPHA_DROP_REPEAT'' 0x0, Const ''FILTER_ALPHA_BILINEAR'' 0x1,
     Const ''FILTER_ALPHA_2D'' 0x3, Const ''FILTER_BLEND_CIRCULAR_2D'' 0x0,
     Const ''FILTER_BLEND_SEPARABLE_1D'' 0x1, Const ''SCALER_LUT_SWAP'' 0x1,
     Const ''SCALER_LUT_DIR_WR'' 0x2, Const ''SCALER_LUT_Y_CIR_WR'' 0x4,
     Const ''SCALER_LUT_UV_CIR_WR'' 0x8, Const ''SCALER_LUT_Y_SEP_WR'' 0x10,
     Const ''SCALER_LUT_UV_SEP_WR'' 0x20]"

definition sde_drm_3 :: "decl list" where
  "sde_drm_3 =
    [Const ''SDE_DRM_BLEND_OP_NOT_DEFINED'' 0, Const ''SDE_DRM_BLEND_OP_OPAQUE'' 1,
     Const ''SDE_DRM_BLEND_OP_PREMULTIPLIED'' 2, Const ''SDE_DRM_BLEND_OP_COVERAGE'' 3,
     Const ''SDE_DRM_BLEND_OP_MAX'' 4, Const ''SDE_DRM_DEINTERLACE'' 0,
     Const ''SDE_DRM_BITMASK_COUNT'' 64]"

definition sde_drm_4 :: "decl list" where
  "sde_drm_4 =
    [Const ''SDE_DRM_FB_NON_SEC'' 0, Const ''SDE_DRM_FB_SEC'' 1,
     Const ''SDE_DRM_FB_NON_SEC_DIR_TRANS'' 2, Const ''SDE_DRM_FB_SEC_DIR_TRANS'' 3]"

definition sde_drm_5 :: "decl list" where
  "sde_drm_5 =
    [Const ''SDE_DRM_SEC_NON_SEC'' 0, Const ''SDE_DRM_SEC_ONLY'' 1]"

definition sde_drm_6 :: "decl list" where
  "sde_drm_6 =
    [Struct ''sde_drm_pix_ext_v1'' sde_drm_pix_ext_v1]"

definition sde_drm_7 :: "decl list" where
  "sde_drm_7 =
    [Struct ''sde_drm_scaler_v1'' sde_drm_scaler_v1]"

definition sde_drm_8 :: "decl list" where
  "sde_drm_8 =
    [Struct ''sde_drm_de_v1'' sde_drm_de_v1]"

definition sde_drm_9 :: "decl list" where
  "sde_drm_9 =
    [Struct ''sde_drm_scaler_v2'' sde_drm_scaler_v2, Const ''SDE_MAX_DS_COUNT'' 2,
     Const ''SDE_DRM_DESTSCALER_ENABLE'' 0x1, Const ''SDE_DRM_DESTSCALER_SCALE_UPDATE'' 0x2,
     Const ''SDE_DRM_DESTSCALER_ENHANCER_UPDATE'' 0x4,
     Const ''SDE_DRM_DESTSCALER_PU_ENABLE'' 0x8]"

definition sde_drm_10 :: "decl list" where
  "sde_drm_10 =
    [Struct ''sde_drm_dest_scaler_cfg'' sde_drm_dest_scaler_cfg,
     Struct ''sde_drm_dest_scaler_data'' sde_drm_dest_scaler_data,
     Const ''SDE_CSC_MATRIX_COEFF_SIZE'' 9, Const ''SDE_CSC_CLAMP_SIZE'' 6,
     Const ''SDE_CSC_BIAS_SIZE'' 3, Struct ''sde_drm_csc_v1'' sde_drm_csc_v1,
     Struct ''sde_drm_color'' sde_drm_color, Const ''SDE_MAX_DIM_LAYERS'' 7,
     Const ''SDE_DRM_DIM_LAYER_INCLUSIVE'' 0x1, Const ''SDE_DRM_DIM_LAYER_EXCLUSIVE'' 0x2,
     Struct ''sde_drm_dim_layer_cfg'' sde_drm_dim_layer_cfg,
     Struct ''sde_drm_dim_layer_v1'' sde_drm_dim_layer_v1, Const ''SDE_DRM_WB_CFG'' 0x1,
     Const ''SDE_DRM_WB_CFG_FLAGS_CONNECTED'' (2 ^ 0), Struct ''sde_drm_wb_cfg'' sde_drm_wb_cfg,
     Const ''SDE_MAX_ROI_V1'' 4, Struct ''sde_drm_roi_v1'' sde_drm_roi_v1,
     Const ''SDE_MODE_DPMS_ON'' 0, Const ''SDE_MODE_DPMS_LP1'' 1, Const ''SDE_MODE_DPMS_LP2'' 2,
     Const ''SDE_MODE_DPMS_STANDBY'' 3, Const ''SDE_MODE_DPMS_SUSPEND'' 4,
     Const ''SDE_MODE_DPMS_OFF'' 5]"

definition sde_drm_h :: "decl list" where
  "sde_drm_h = sde_drm_1 @ sde_drm_2 @ sde_drm_3 @ sde_drm_4 @ sde_drm_5 @ sde_drm_6 @ sde_drm_7 @
     sde_drm_8 @ sde_drm_9 @ sde_drm_10"

lemmas drm_structs =
  drm_msm_timespec_def drm_msm_ext_hdr_metadata_def drm_msm_ext_hdr_properties_def
  drm_msm_param_def drm_msm_gem_new_def drm_msm_gem_info_def drm_msm_gem_cpu_prep_def
  drm_msm_gem_cpu_fini_def drm_msm_gem_submit_reloc_def drm_msm_gem_submit_cmd_def
  drm_msm_gem_submit_bo_def drm_msm_gem_submit_def drm_msm_wait_fence_def drm_msm_gem_madvise_def
  drm_panel_hdr_properties_def drm_msm_event_req_def drm_msm_event_resp_def sde_drm_wb_cfg_def
  drm_msm_pcc_coeff_def drm_msm_pcc_def drm_msm_pa_vlut_def drm_msm_pa_hsic_def
  drm_msm_memcol_def drm_msm_sixzone_curve_def drm_msm_sixzone_def drm_msm_3d_col_def
  drm_msm_3d_gamut_def drm_msm_pgc_lut_def drm_msm_igc_lut_def drm_msm_hist_def
  drm_msm_ad4_init_def drm_msm_ad4_cfg_def drm_msm_dither_def drm_msm_pa_dither_def
  sde_drm_pix_ext_v1_def sde_drm_scaler_v1_def sde_drm_de_v1_def sde_drm_scaler_v2_def
  sde_drm_dest_scaler_cfg_def sde_drm_dest_scaler_data_def sde_drm_csc_v1_def sde_drm_color_def
  sde_drm_dim_layer_cfg_def sde_drm_dim_layer_v1_def sde_drm_roi_v1_def

lemmas drm_decls =
  msm_drm_1_def msm_drm_2_def msm_drm_3_def msm_drm_4_def msm_drm_5_def msm_drm_6_def
  msm_drm_7_def msm_drm_pp_1_def msm_drm_pp_2_def msm_drm_pp_3_def msm_drm_pp_4_def
  msm_drm_pp_5_def msm_drm_pp_6_def msm_drm_pp_7_def msm_drm_pp_8_def msm_drm_pp_9_def
  sde_drm_1_def sde_drm_2_def sde_drm_3_def sde_drm_4_def sde_drm_5_def sde_drm_6_def
  sde_drm_7_def sde_drm_8_def sde_drm_9_def sde_drm_10_def msm_drm_h_def msm_drm_pp_h_def
  sde_drm_h_def

text \<open>All structures and unions, in the order of the files.\<close>

definition drm_types :: "ctype list" where
  "drm_types =
    [drm_msm_timespec, drm_msm_ext_hdr_metadata, drm_msm_ext_hdr_properties, drm_msm_param,
     drm_msm_gem_new, drm_msm_gem_info, drm_msm_gem_cpu_prep, drm_msm_gem_cpu_fini,
     drm_msm_gem_submit_reloc, drm_msm_gem_submit_cmd, drm_msm_gem_submit_bo,
     drm_msm_gem_submit, drm_msm_wait_fence, drm_msm_gem_madvise, drm_panel_hdr_properties,
     drm_msm_event_req, drm_msm_event_resp, sde_drm_wb_cfg, drm_msm_pcc_coeff, drm_msm_pcc,
     drm_msm_pa_vlut, drm_msm_pa_hsic, drm_msm_memcol, drm_msm_sixzone_curve, drm_msm_sixzone,
     drm_msm_3d_col, drm_msm_3d_gamut, drm_msm_pgc_lut, drm_msm_igc_lut, drm_msm_hist,
     drm_msm_ad4_init, drm_msm_ad4_cfg, drm_msm_dither, drm_msm_pa_dither, sde_drm_pix_ext_v1,
     sde_drm_scaler_v1, sde_drm_de_v1, sde_drm_scaler_v2, sde_drm_dest_scaler_cfg,
     sde_drm_dest_scaler_data, sde_drm_csc_v1, sde_drm_color, sde_drm_dim_layer_cfg,
     sde_drm_dim_layer_v1, sde_drm_roi_v1]"

text \<open>The structures made to look the same to 32-bit and 64-bit processes.\<close>

definition drm_portable :: "ctype list" where
  "drm_portable =
    [drm_msm_timespec, drm_msm_ext_hdr_metadata, drm_msm_ext_hdr_properties, drm_msm_param,
     drm_msm_gem_new, drm_msm_gem_info, drm_msm_gem_cpu_prep, drm_msm_gem_cpu_fini,
     drm_msm_gem_submit_reloc, drm_msm_gem_submit_cmd, drm_msm_gem_submit_bo,
     drm_msm_gem_submit, drm_msm_wait_fence, drm_msm_gem_madvise, drm_panel_hdr_properties,
     drm_msm_event_req, drm_msm_event_resp, sde_drm_wb_cfg, drm_msm_pcc_coeff, drm_msm_pcc,
     drm_msm_pa_vlut, drm_msm_pa_hsic, drm_msm_memcol, drm_msm_sixzone_curve, drm_msm_sixzone,
     drm_msm_3d_col, drm_msm_3d_gamut, drm_msm_pgc_lut, drm_msm_igc_lut, drm_msm_hist,
     drm_msm_ad4_init, drm_msm_ad4_cfg, drm_msm_dither, drm_msm_pa_dither, sde_drm_pix_ext_v1,
     sde_drm_scaler_v1, sde_drm_de_v1, sde_drm_scaler_v2, sde_drm_dest_scaler_cfg,
     sde_drm_dest_scaler_data, sde_drm_csc_v1, sde_drm_color, sde_drm_dim_layer_cfg,
     sde_drm_dim_layer_v1, sde_drm_roi_v1]"

end
