(* ===== verification/LayoutIpa.thy ===== *)
theory LayoutIpa
  imports LayoutQmi
begin

text \<open>
  The headers the kernel is built with (under sdm710/original-kernel-headers) of the IP
  accelerator and the modem network devices (linux/msm\_ipa.h and others): every structure
  and union with its fields in order; then, for every file, the list of its declarations, in
  blocks: structures, enumerations, number macros and device requests. A type of the C
  library or of a header that is not in the repository is a foreign type. Numbers from such
  headers are arguments.
\<close>

subsection \<open>linux/msm_ipa.h\<close>

definition ipa_rule_attrib :: "nat \<Rightarrow> ctype" where
  "ipa_rule_attrib ETH_ALEN =
     StructT Natural [(''attrib_mask'', u32), (''src_port_lo'', u16), (''src_port_hi'', u16),
      (''dst_port_lo'', u16), (''dst_port_hi'', u16), (''type'', u8), (''code'', u8),
      (''tos_value'', u8), (''tos_mask'', u8), (''spi'', u32), (''src_port'', u16),
      (''dst_port'', u16), (''meta_data'', u32), (''meta_data_mask'', u32),
      (''src_mac_addr'', ArrT u8 ETH_ALEN), (''src_mac_addr_mask'', ArrT u8 ETH_ALEN),
      (''dst_mac_addr'', ArrT u8 ETH_ALEN), (''dst_mac_addr_mask'', ArrT u8 ETH_ALEN),
      (''ether_type'', u16), (''u'', UnionT Natural [(''v4'', StructT Natural [(''tos'', u8),
      (''protocol'', u8), (''src_addr'', u32), (''src_addr_mask'', u32), (''dst_addr'', u32),
      (''dst_addr_mask'', u32)]), (''v6'', StructT Natural [(''tc'', u8), (''flow_label'', u32),
      (''next_hdr'', u8), (''src_addr'', ArrT u32 4), (''src_addr_mask'', ArrT u32 4),
      (''dst_addr'', ArrT u32 4), (''dst_addr_mask'', ArrT u32 4)])])]"

definition ipa_ipfltr_eq_16 :: ctype where
  "ipa_ipfltr_eq_16 =
     StructT Natural [(''offset'', s8), (''value'', u16)]"

definition ipa_ipfltr_eq_32 :: ctype where
  "ipa_ipfltr_eq_32 =
     StructT Natural [(''offset'', s8), (''value'', u32)]"

definition ipa_ipfltr_mask_eq_128 :: ctype where
  "ipa_ipfltr_mask_eq_128 =
     StructT Natural [(''offset'', s8), (''mask'', ArrT u8 16), (''value'', ArrT u8 16)]"

definition ipa_ipfltr_mask_eq_32 :: ctype where
  "ipa_ipfltr_mask_eq_32 =
     StructT Natural [(''offset'', s8), (''mask'', u32), (''value'', u32)]"

definition ipa_ipfltr_range_eq_16 :: ctype where
  "ipa_ipfltr_range_eq_16 =
     StructT Natural [(''offset'', s8), (''range_low'', u16), (''range_high'', u16)]"

abbreviation IPA_IPFLTR_NUM_IHL_RANGE_16_EQNS :: nat where "IPA_IPFLTR_NUM_IHL_RANGE_16_EQNS \<equiv> 2"

abbreviation IPA_IPFLTR_NUM_MEQ_32_EQNS :: nat where "IPA_IPFLTR_NUM_MEQ_32_EQNS \<equiv> 2"

abbreviation IPA_IPFLTR_NUM_IHL_MEQ_32_EQNS :: nat where "IPA_IPFLTR_NUM_IHL_MEQ_32_EQNS \<equiv> 2"

abbreviation IPA_IPFLTR_NUM_MEQ_128_EQNS :: nat where "IPA_IPFLTR_NUM_MEQ_128_EQNS \<equiv> 2"

definition ipa_ipfltri_rule_eq :: ctype where
  "ipa_ipfltri_rule_eq =
     StructT Natural [(''rule_eq_bitmap'', u16), (''tos_eq_present'', u8), (''tos_eq'', u8),
      (''protocol_eq_present'', u8), (''protocol_eq'', u8), (''num_ihl_offset_range_16'', u8),
      (''ihl_offset_range_16'', ArrT ipa_ipfltr_range_eq_16 IPA_IPFLTR_NUM_IHL_RANGE_16_EQNS),
      (''num_offset_meq_32'', u8),
      (''offset_meq_32'', ArrT ipa_ipfltr_mask_eq_32 IPA_IPFLTR_NUM_MEQ_32_EQNS),
      (''tc_eq_present'', u8), (''tc_eq'', u8), (''fl_eq_present'', u8), (''fl_eq'', u32),
      (''ihl_offset_eq_16_present'', u8), (''ihl_offset_eq_16'', ipa_ipfltr_eq_16),
      (''ihl_offset_eq_32_present'', u8), (''ihl_offset_eq_32'', ipa_ipfltr_eq_32),
      (''num_ihl_offset_meq_32'', u8),
      (''ihl_offset_meq_32'', ArrT ipa_ipfltr_mask_eq_32 IPA_IPFLTR_NUM_IHL_MEQ_32_EQNS),
      (''num_offset_meq_128'', u8),
      (''offset_meq_128'', ArrT ipa_ipfltr_mask_eq_128 IPA_IPFLTR_NUM_MEQ_128_EQNS),
      (''metadata_meq32_present'', u8), (''metadata_meq32'', ipa_ipfltr_mask_eq_32),
      (''ipv4_frag_eq_present'', u8)]"

definition ipa_flt_rule :: "nat \<Rightarrow> ctype" where
  "ipa_flt_rule ETH_ALEN =
     StructT Natural [(''retain_hdr'', u8), (''to_uc'', u8),
      (''action'', EnumT ''ipa_flt_action''), (''rt_tbl_hdl'', u32),
      (''attrib'', ipa_rule_attrib ETH_ALEN), (''eq_attrib'', ipa_ipfltri_rule_eq),
      (''rt_tbl_idx'', u32), (''eq_attrib_type'', u8), (''max_prio'', u8), (''hashable'', u8),
      (''rule_id'', u16), (''set_metadata'', u8), (''pdn_idx'', u8)]"

definition ipa_rt_rule :: "nat \<Rightarrow> ctype" where
  "ipa_rt_rule ETH_ALEN =
     StructT Natural [(''dst'', EnumT ''ipa_client_type''), (''hdr_hdl'', u32),
      (''hdr_proc_ctx_hdl'', u32), (''attrib'', ipa_rule_attrib ETH_ALEN), (''max_prio'', u8),
      (''hashable'', u8), (''retain_hdr'', u8)]"

abbreviation IPA_RESOURCE_NAME_MAX :: nat where "IPA_RESOURCE_NAME_MAX \<equiv> 32"

abbreviation IPA_HDR_MAX_SIZE :: nat where "IPA_HDR_MAX_SIZE \<equiv> 64"

definition ipa_hdr_add :: ctype where
  "ipa_hdr_add =
     StructT Natural [(''name'', ArrT CharT IPA_RESOURCE_NAME_MAX),
      (''hdr'', ArrT u8 IPA_HDR_MAX_SIZE), (''hdr_len'', u8),
      (''type'', EnumT ''ipa_hdr_l2_type''), (''is_partial'', u8), (''hdr_hdl'', u32),
      (''status'', s32), (''is_eth2_ofst_valid'', u8), (''eth2_ofst'', u16)]"

definition ipa_ioc_add_hdr :: ctype where
  "ipa_ioc_add_hdr =
     StructT Natural [(''commit'', u8), (''num_hdrs'', u8), (''hdr'', ArrT ipa_hdr_add 0)]"

definition ipa_l2tp_header_add_procparams :: ctype where
  "ipa_l2tp_header_add_procparams =
     StructT Natural [(''eth_hdr_retained'', BitsT u32 1), (''input_ip_version'', BitsT u32 1),
      (''output_ip_version'', BitsT u32 1), (''reserved'', BitsT u32 29)]"

definition ipa_l2tp_header_remove_procparams :: ctype where
  "ipa_l2tp_header_remove_procparams =
     StructT Natural [(''hdr_len_remove'', BitsT u32 8), (''eth_hdr_retained'', BitsT u32 1),
      (''hdr_ofst_pkt_size_valid'', BitsT u32 1), (''hdr_ofst_pkt_size'', BitsT u32 6),
      (''hdr_endianness'', BitsT u32 1), (''reserved'', BitsT u32 15)]"

definition ipa_l2tp_hdr_proc_ctx_params :: ctype where
  "ipa_l2tp_hdr_proc_ctx_params =
     StructT Natural [(''hdr_add_param'', ipa_l2tp_header_add_procparams),
      (''hdr_remove_param'', ipa_l2tp_header_remove_procparams), (''is_dst_pipe_valid'', u8),
      (''dst_pipe'', EnumT ''ipa_client_type'')]"

definition ipa_hdr_proc_ctx_add :: ctype where
  "ipa_hdr_proc_ctx_add =
     StructT Natural [(''type'', EnumT ''ipa_hdr_proc_type''), (''hdr_hdl'', u32),
      (''proc_ctx_hdl'', u32), (''status'', s32),
      (''l2tp_params'', ipa_l2tp_hdr_proc_ctx_params)]"

definition ipa_ioc_add_hdr_proc_ctx :: ctype where
  "ipa_ioc_add_hdr_proc_ctx =
     StructT Natural [(''commit'', u8), (''num_proc_ctxs'', u8),
      (''proc_ctx'', ArrT ipa_hdr_proc_ctx_add 0)]"

definition ipa_ioc_copy_hdr :: ctype where
  "ipa_ioc_copy_hdr =
     StructT Natural [(''name'', ArrT CharT IPA_RESOURCE_NAME_MAX),
      (''hdr'', ArrT u8 IPA_HDR_MAX_SIZE), (''hdr_len'', u8),
      (''type'', EnumT ''ipa_hdr_l2_type''), (''is_partial'', u8), (''is_eth2_ofst_valid'', u8),
      (''eth2_ofst'', u16)]"

definition ipa_ioc_get_hdr :: ctype where
  "ipa_ioc_get_hdr =
     StructT Natural [(''name'', ArrT CharT IPA_RESOURCE_NAME_MAX), (''hdl'', u32)]"

definition ipa_hdr_del :: ctype where
  "ipa_hdr_del =
     StructT Natural [(''hdl'', u32), (''status'', s32)]"

definition ipa_ioc_del_hdr :: ctype where
  "ipa_ioc_del_hdr =
     StructT Natural [(''commit'', u8), (''num_hdls'', u8), (''hdl'', ArrT ipa_hdr_del 0)]"

definition ipa_hdr_proc_ctx_del :: ctype where
  "ipa_hdr_proc_ctx_del =
     StructT Natural [(''hdl'', u32), (''status'', s32)]"

definition ipa_ioc_del_hdr_proc_ctx :: ctype where
  "ipa_ioc_del_hdr_proc_ctx =
     StructT Natural [(''commit'', u8), (''num_hdls'', u8),
      (''hdl'', ArrT ipa_hdr_proc_ctx_del 0)]"

definition ipa_rt_rule_add :: "nat \<Rightarrow> ctype" where
  "ipa_rt_rule_add ETH_ALEN =
     StructT Natural [(''rule'', ipa_rt_rule ETH_ALEN), (''at_rear'', u8),
      (''rt_rule_hdl'', u32), (''status'', s32)]"

definition ipa_ioc_add_rt_rule :: "nat \<Rightarrow> ctype" where
  "ipa_ioc_add_rt_rule ETH_ALEN =
     StructT Natural [(''commit'', u8), (''ip'', EnumT ''ipa_ip_type''),
      (''rt_tbl_name'', ArrT CharT IPA_RESOURCE_NAME_MAX), (''num_rules'', u8),
      (''rules'', ArrT (ipa_rt_rule_add ETH_ALEN) 0)]"

definition ipa_ioc_add_rt_rule_after :: "nat \<Rightarrow> ctype" where
  "ipa_ioc_add_rt_rule_after ETH_ALEN =
     StructT Natural [(''commit'', u8), (''ip'', EnumT ''ipa_ip_type''),
      (''rt_tbl_name'', ArrT CharT IPA_RESOURCE_NAME_MAX), (''num_rules'', u8),
      (''add_after_hdl'', u32), (''rules'', ArrT (ipa_rt_rule_add ETH_ALEN) 0)]"

definition ipa_rt_rule_mdfy :: "nat \<Rightarrow> ctype" where
  "ipa_rt_rule_mdfy ETH_ALEN =
     StructT Natural [(''rule'', ipa_rt_rule ETH_ALEN), (''rt_rule_hdl'', u32),
      (''status'', s32)]"

definition ipa_ioc_mdfy_rt_rule :: "nat \<Rightarrow> ctype" where
  "ipa_ioc_mdfy_rt_rule ETH_ALEN =
     StructT Natural [(''commit'', u8), (''ip'', EnumT ''ipa_ip_type''), (''num_rules'', u8),
      (''rules'', ArrT (ipa_rt_rule_mdfy ETH_ALEN) 0)]"

definition ipa_rt_rule_del :: ctype where
  "ipa_rt_rule_del =
     StructT Natural [(''hdl'', u32), (''status'', s32)]"

definition ipa_rt_rule_add_ext :: "nat \<Rightarrow> ctype" where
  "ipa_rt_rule_add_ext ETH_ALEN =
     StructT Natural [(''rule'', ipa_rt_rule ETH_ALEN), (''at_rear'', u8),
      (''rt_rule_hdl'', u32), (''status'', s32), (''rule_id'', u16)]"

definition ipa_ioc_add_rt_rule_ext :: "nat \<Rightarrow> ctype" where
  "ipa_ioc_add_rt_rule_ext ETH_ALEN =
     StructT Natural [(''commit'', u8), (''ip'', EnumT ''ipa_ip_type''),
      (''rt_tbl_name'', ArrT CharT IPA_RESOURCE_NAME_MAX), (''num_rules'', u8),
      (''rules'', ArrT (ipa_rt_rule_add_ext ETH_ALEN) 0)]"

definition ipa_ioc_del_rt_rule :: ctype where
  "ipa_ioc_del_rt_rule =
     StructT Natural [(''commit'', u8), (''ip'', EnumT ''ipa_ip_type''), (''num_hdls'', u8),
      (''hdl'', ArrT ipa_rt_rule_del 0)]"

definition ipa_ioc_get_rt_tbl_indx :: ctype where
  "ipa_ioc_get_rt_tbl_indx =
     StructT Natural [(''ip'', EnumT ''ipa_ip_type''),
      (''name'', ArrT CharT IPA_RESOURCE_NAME_MAX), (''idx'', u32)]"

definition ipa_flt_rule_add :: "nat \<Rightarrow> ctype" where
  "ipa_flt_rule_add ETH_ALEN =
     StructT Natural [(''rule'', ipa_flt_rule ETH_ALEN), (''at_rear'', u8),
      (''flt_rule_hdl'', u32), (''status'', s32)]"

definition ipa_ioc_add_flt_rule :: "nat \<Rightarrow> ctype" where
  "ipa_ioc_add_flt_rule ETH_ALEN =
     StructT Natural [(''commit'', u8), (''ip'', EnumT ''ipa_ip_type''),
      (''ep'', EnumT ''ipa_client_type''), (''global'', u8), (''num_rules'', u8),
      (''rules'', ArrT (ipa_flt_rule_add ETH_ALEN) 0)]"

definition ipa_ioc_add_flt_rule_after :: "nat \<Rightarrow> ctype" where
  "ipa_ioc_add_flt_rule_after ETH_ALEN =
     StructT Natural [(''commit'', u8), (''ip'', EnumT ''ipa_ip_type''),
      (''ep'', EnumT ''ipa_client_type''), (''num_rules'', u8), (''add_after_hdl'', u32),
      (''rules'', ArrT (ipa_flt_rule_add ETH_ALEN) 0)]"

definition ipa_flt_rule_mdfy :: "nat \<Rightarrow> ctype" where
  "ipa_flt_rule_mdfy ETH_ALEN =
     StructT Natural [(''rule'', ipa_flt_rule ETH_ALEN), (''rule_hdl'', u32), (''status'', s32)]"

definition ipa_ioc_mdfy_flt_rule :: "nat \<Rightarrow> ctype" where
  "ipa_ioc_mdfy_flt_rule ETH_ALEN =
     StructT Natural [(''commit'', u8), (''ip'', EnumT ''ipa_ip_type''), (''num_rules'', u8),
      (''rules'', ArrT (ipa_flt_rule_mdfy ETH_ALEN) 0)]"

definition ipa_flt_rule_del :: ctype where
  "ipa_flt_rule_del =
     StructT Natural [(''hdl'', u32), (''status'', s32)]"

definition ipa_ioc_del_flt_rule :: ctype where
  "ipa_ioc_del_flt_rule =
     StructT Natural [(''commit'', u8), (''ip'', EnumT ''ipa_ip_type''), (''num_hdls'', u8),
      (''hdl'', ArrT ipa_flt_rule_del 0)]"

definition ipa_ioc_get_rt_tbl :: ctype where
  "ipa_ioc_get_rt_tbl =
     StructT Natural [(''ip'', EnumT ''ipa_ip_type''),
      (''name'', ArrT CharT IPA_RESOURCE_NAME_MAX), (''hdl'', u32)]"

definition ipa_ioc_query_intf :: ctype where
  "ipa_ioc_query_intf =
     StructT Natural [(''name'', ArrT CharT IPA_RESOURCE_NAME_MAX), (''num_tx_props'', u32),
      (''num_rx_props'', u32), (''num_ext_props'', u32),
      (''excp_pipe'', EnumT ''ipa_client_type'')]"

definition ipa_ioc_tx_intf_prop :: "nat \<Rightarrow> ctype" where
  "ipa_ioc_tx_intf_prop ETH_ALEN =
     StructT Natural [(''ip'', EnumT ''ipa_ip_type''), (''attrib'', ipa_rule_attrib ETH_ALEN),
      (''dst_pipe'', EnumT ''ipa_client_type''), (''alt_dst_pipe'', EnumT ''ipa_client_type''),
      (''hdr_name'', ArrT CharT IPA_RESOURCE_NAME_MAX),
      (''hdr_l2_type'', EnumT ''ipa_hdr_l2_type'')]"

definition ipa_ioc_query_intf_tx_props :: "nat \<Rightarrow> ctype" where
  "ipa_ioc_query_intf_tx_props ETH_ALEN =
     StructT Natural [(''name'', ArrT CharT IPA_RESOURCE_NAME_MAX), (''num_tx_props'', u32),
      (''tx'', ArrT (ipa_ioc_tx_intf_prop ETH_ALEN) 0)]"

definition ipa_ioc_ext_intf_prop :: ctype where
  "ipa_ioc_ext_intf_prop =
     StructT Natural [(''ip'', EnumT ''ipa_ip_type''), (''eq_attrib'', ipa_ipfltri_rule_eq),
      (''action'', EnumT ''ipa_flt_action''), (''rt_tbl_idx'', u32), (''mux_id'', u8),
      (''filter_hdl'', u32), (''is_xlat_rule'', u8), (''rule_id'', u32),
      (''is_rule_hashable'', u8)]"

definition ipa_ioc_query_intf_ext_props :: ctype where
  "ipa_ioc_query_intf_ext_props =
     StructT Natural [(''name'', ArrT CharT IPA_RESOURCE_NAME_MAX), (''num_ext_props'', u32),
      (''ext'', ArrT ipa_ioc_ext_intf_prop 0)]"

definition ipa_ioc_rx_intf_prop :: "nat \<Rightarrow> ctype" where
  "ipa_ioc_rx_intf_prop ETH_ALEN =
     StructT Natural [(''ip'', EnumT ''ipa_ip_type''), (''attrib'', ipa_rule_attrib ETH_ALEN),
      (''src_pipe'', EnumT ''ipa_client_type''), (''hdr_l2_type'', EnumT ''ipa_hdr_l2_type'')]"

definition ipa_ioc_query_intf_rx_props :: "nat \<Rightarrow> ctype" where
  "ipa_ioc_query_intf_rx_props ETH_ALEN =
     StructT Natural [(''name'', ArrT CharT IPA_RESOURCE_NAME_MAX), (''num_rx_props'', u32),
      (''rx'', ArrT (ipa_ioc_rx_intf_prop ETH_ALEN) 0)]"

definition ipa_ioc_nat_alloc_mem :: ctype where
  "ipa_ioc_nat_alloc_mem =
     StructT Natural [(''dev_name'', ArrT CharT IPA_RESOURCE_NAME_MAX), (''size'', ulongT),
      (''offset'', ForeignT ''off_t'')]"

definition ipa_ioc_nat_ipv6ct_table_alloc :: ctype where
  "ipa_ioc_nat_ipv6ct_table_alloc =
     StructT Natural [(''size'', ulongT), (''offset'', ForeignT ''off_t'')]"

definition ipa_ioc_v4_nat_init :: ctype where
  "ipa_ioc_v4_nat_init =
     StructT Natural [(''tbl_index'', u8), (''ipv4_rules_offset'', u32),
      (''expn_rules_offset'', u32), (''index_offset'', u32), (''index_expn_offset'', u32),
      (''table_entries'', u16), (''expn_table_entries'', u16), (''ip_addr'', u32)]"

definition ipa_ioc_ipv6ct_init :: ctype where
  "ipa_ioc_ipv6ct_init =
     StructT Natural [(''base_table_offset'', u32), (''expn_table_offset'', u32),
      (''table_entries'', u16), (''expn_table_entries'', u16), (''tbl_index'', u8)]"

definition ipa_ioc_v4_nat_del :: ctype where
  "ipa_ioc_v4_nat_del =
     StructT Natural [(''table_index'', u8), (''public_ip_addr'', u32)]"

definition ipa_ioc_nat_ipv6ct_table_del :: ctype where
  "ipa_ioc_nat_ipv6ct_table_del =
     StructT Natural [(''table_index'', u8)]"

definition ipa_ioc_nat_dma_one :: ctype where
  "ipa_ioc_nat_dma_one =
     StructT Natural [(''table_index'', u8), (''base_addr'', u8), (''offset'', u32),
      (''data'', u16)]"

definition ipa_ioc_nat_dma_cmd :: ctype where
  "ipa_ioc_nat_dma_cmd =
     StructT Natural [(''entries'', u8), (''dma'', ArrT ipa_ioc_nat_dma_one 0)]"

definition ipa_ioc_nat_pdn_entry :: ctype where
  "ipa_ioc_nat_pdn_entry =
     StructT Natural [(''pdn_index'', u8), (''public_ip'', u32), (''src_metadata'', u32),
      (''dst_metadata'', u32)]"

definition ipa_ioc_vlan_iface_info :: ctype where
  "ipa_ioc_vlan_iface_info =
     StructT Natural [(''name'', ArrT CharT IPA_RESOURCE_NAME_MAX), (''vlan_id'', u8)]"

definition ipa_ioc_l2tp_vlan_mapping_info :: ctype where
  "ipa_ioc_l2tp_vlan_mapping_info =
     StructT Natural [(''iptype'', EnumT ''ipa_ip_type''),
      (''l2tp_iface_name'', ArrT CharT IPA_RESOURCE_NAME_MAX), (''l2tp_session_id'', u8),
      (''vlan_iface_name'', ArrT CharT IPA_RESOURCE_NAME_MAX)]"

definition ipa_msg_meta :: ctype where
  "ipa_msg_meta =
     StructT Natural [(''msg_type'', u8), (''rsvd'', u8), (''msg_len'', u16)]"

abbreviation IPA_MAC_ADDR_SIZE :: nat where "IPA_MAC_ADDR_SIZE \<equiv> 6"

definition ipa_wlan_msg :: ctype where
  "ipa_wlan_msg =
     StructT Natural [(''name'', ArrT CharT IPA_RESOURCE_NAME_MAX),
      (''mac_addr'', ArrT u8 IPA_MAC_ADDR_SIZE)]"

definition ipa_wlan_hdr_attrib_val :: ctype where
  "ipa_wlan_hdr_attrib_val =
     StructT Natural [(''attrib_type'', EnumT ''ipa_wlan_hdr_attrib_type''), (''offset'', u8),
      (''u'', UnionT Natural [(''mac_addr'', ArrT u8 IPA_MAC_ADDR_SIZE), (''sta_id'', u8)])]"

definition ipa_wlan_msg_ex :: ctype where
  "ipa_wlan_msg_ex =
     StructT Natural [(''name'', ArrT CharT IPA_RESOURCE_NAME_MAX), (''num_of_attribs'', u8),
      (''attribs'', ArrT ipa_wlan_hdr_attrib_val 0)]"

definition ipa_ecm_msg :: ctype where
  "ipa_ecm_msg =
     StructT Natural [(''name'', ArrT CharT IPA_RESOURCE_NAME_MAX), (''ifindex'', s32)]"

abbreviation IPA_WAN_MSG_IPv6_ADDR_GW_LEN :: nat where "IPA_WAN_MSG_IPv6_ADDR_GW_LEN \<equiv> 4"

definition ipa_wan_msg :: ctype where
  "ipa_wan_msg =
     StructT Natural [(''upstream_ifname'', ArrT CharT IPA_RESOURCE_NAME_MAX),
      (''tethered_ifname'', ArrT CharT IPA_RESOURCE_NAME_MAX), (''ip'', EnumT ''ipa_ip_type''),
      (''ipv4_addr_gw'', u32), (''ipv6_addr_gw'', ArrT u32 IPA_WAN_MSG_IPv6_ADDR_GW_LEN)]"

definition ipa_ioc_rm_dependency :: ctype where
  "ipa_ioc_rm_dependency =
     StructT Natural [(''resource_name'', EnumT ''ipa_rm_resource_name''),
      (''depends_on_name'', EnumT ''ipa_rm_resource_name'')]"

definition ipa_ioc_generate_flt_eq :: "nat \<Rightarrow> ctype" where
  "ipa_ioc_generate_flt_eq ETH_ALEN =
     StructT Natural [(''ip'', EnumT ''ipa_ip_type''), (''attrib'', ipa_rule_attrib ETH_ALEN),
      (''eq_attrib'', ipa_ipfltri_rule_eq)]"

definition ipa_ioc_write_qmapid :: ctype where
  "ipa_ioc_write_qmapid =
     StructT Natural [(''client'', EnumT ''ipa_client_type''), (''qmap_id'', u8)]"

definition ipa_lan_client_msg :: ctype where
  "ipa_lan_client_msg =
     StructT Natural [(''lanIface'', ArrT CharT IPA_RESOURCE_NAME_MAX),
      (''mac'', ArrT u8 IPA_MAC_ADDR_SIZE)]"

definition ipa_lan_client :: ctype where
  "ipa_lan_client =
     StructT Natural [(''mac'', ArrT u8 IPA_MAC_ADDR_SIZE), (''client_idx'', s8),
      (''inited'', u8)]"

abbreviation IPA_MAX_NUM_HW_PATH_CLIENTS :: nat where "IPA_MAX_NUM_HW_PATH_CLIENTS \<equiv> 16"

definition ipa_tether_device_info :: ctype where
  "ipa_tether_device_info =
     StructT Natural [(''ul_src_pipe'', s32), (''hdr_len'', u8), (''num_clients'', u32),
      (''lan_client'', ArrT ipa_lan_client IPA_MAX_NUM_HW_PATH_CLIENTS)]"

definition ipa_ioc_get_vlan_mode :: ctype where
  "ipa_ioc_get_vlan_mode =
     StructT Natural [(''iface'', EnumT ''ipa_vlan_ifaces''), (''is_vlan_mode'', u32)]"

definition teth_aggr_params_link :: ctype where
  "teth_aggr_params_link =
     StructT Natural [(''aggr_prot'', EnumT ''teth_aggr_protocol_type''),
      (''max_transfer_size_byte'', u32), (''max_datagrams'', u32)]"

definition teth_aggr_params :: ctype where
  "teth_aggr_params =
     StructT Natural [(''ul'', teth_aggr_params_link), (''dl'', teth_aggr_params_link)]"

definition teth_aggr_capabilities :: ctype where
  "teth_aggr_capabilities =
     StructT Natural [(''num_protocols'', u16), (''prot_caps'', ArrT teth_aggr_params_link 0)]"

definition teth_ioc_set_bridge_mode :: ctype where
  "teth_ioc_set_bridge_mode =
     StructT Natural [(''link_protocol'', EnumT ''teth_link_protocol_type''), (''lcid'', u16)]"

definition teth_ioc_aggr_params :: ctype where
  "teth_ioc_aggr_params =
     StructT Natural [(''aggr_params'', teth_aggr_params), (''lcid'', u16)]"

definition msm_ipa_1 :: "decl list" where
  "msm_ipa_1 =
    [Flag ''_MSM_IPA_H_'']"

definition msm_ipa_2 :: "decl list" where
  "msm_ipa_2 =
    [Const ''IPA_IOC_MAGIC'' 0xCF, Text ''IPA_DEV_NAME'' ''/dev/ipa'',
     Text ''IPA_NAT_DEV_NAME'' ''ipaNatTable'', Text ''IPA_IPV6CT_DEV_NAME'' ''ipaIpv6CTTable'',
     Text ''IPA_DFLT_RT_TBL_NAME'' ''ipa_dflt_rt'', Const ''IPA_IOCTL_ADD_HDR'' 0,
     Const ''IPA_IOCTL_DEL_HDR'' 1, Const ''IPA_IOCTL_ADD_RT_RULE'' 2,
     Const ''IPA_IOCTL_DEL_RT_RULE'' 3, Const ''IPA_IOCTL_ADD_FLT_RULE'' 4,
     Const ''IPA_IOCTL_DEL_FLT_RULE'' 5, Const ''IPA_IOCTL_COMMIT_HDR'' 6,
     Const ''IPA_IOCTL_RESET_HDR'' 7, Const ''IPA_IOCTL_COMMIT_RT'' 8,
     Const ''IPA_IOCTL_RESET_RT'' 9, Const ''IPA_IOCTL_COMMIT_FLT'' 10,
     Const ''IPA_IOCTL_RESET_FLT'' 11, Const ''IPA_IOCTL_DUMP'' 12,
     Const ''IPA_IOCTL_GET_RT_TBL'' 13, Const ''IPA_IOCTL_PUT_RT_TBL'' 14,
     Const ''IPA_IOCTL_COPY_HDR'' 15, Const ''IPA_IOCTL_QUERY_INTF'' 16,
     Const ''IPA_IOCTL_QUERY_INTF_TX_PROPS'' 17, Const ''IPA_IOCTL_QUERY_INTF_RX_PROPS'' 18,
     Const ''IPA_IOCTL_GET_HDR'' 19, Const ''IPA_IOCTL_PUT_HDR'' 20,
     Const ''IPA_IOCTL_SET_FLT'' 21, Const ''IPA_IOCTL_ALLOC_NAT_MEM'' 22,
     Const ''IPA_IOCTL_V4_INIT_NAT'' 23, Const ''IPA_IOCTL_TABLE_DMA_CMD'' 24,
     Const ''IPA_IOCTL_NAT_DMA'' 24, Const ''IPA_IOCTL_INIT_IPV6CT_TABLE'' 25,
     Const ''IPA_IOCTL_V4_DEL_NAT'' 26, Const ''IPA_IOCTL_PULL_MSG'' 27,
     Const ''IPA_IOCTL_GET_NAT_OFFSET'' 28, Const ''IPA_IOCTL_RM_ADD_DEPENDENCY'' 29,
     Const ''IPA_IOCTL_RM_DEL_DEPENDENCY'' 30, Const ''IPA_IOCTL_GENERATE_FLT_EQ'' 31,
     Const ''IPA_IOCTL_QUERY_INTF_EXT_PROPS'' 32, Const ''IPA_IOCTL_QUERY_EP_MAPPING'' 33,
     Const ''IPA_IOCTL_QUERY_RT_TBL_INDEX'' 34, Const ''IPA_IOCTL_WRITE_QMAPID'' 35,
     Const ''IPA_IOCTL_MDFY_FLT_RULE'' 36, Const ''IPA_IOCTL_NOTIFY_WAN_UPSTREAM_ROUTE_ADD'' 37,
     Const ''IPA_IOCTL_NOTIFY_WAN_UPSTREAM_ROUTE_DEL'' 38,
     Const ''IPA_IOCTL_NOTIFY_WAN_EMBMS_CONNECTED'' 39, Const ''IPA_IOCTL_ADD_HDR_PROC_CTX'' 40,
     Const ''IPA_IOCTL_DEL_HDR_PROC_CTX'' 41, Const ''IPA_IOCTL_MDFY_RT_RULE'' 42,
     Const ''IPA_IOCTL_ADD_RT_RULE_AFTER'' 43, Const ''IPA_IOCTL_ADD_FLT_RULE_AFTER'' 44,
     Const ''IPA_IOCTL_GET_HW_VERSION'' 45, Const ''IPA_IOCTL_ADD_RT_RULE_EXT'' 46,
     Const ''IPA_IOCTL_ADD_VLAN_IFACE'' 47, Const ''IPA_IOCTL_DEL_VLAN_IFACE'' 48,
     Const ''IPA_IOCTL_ADD_L2TP_VLAN_MAPPING'' 49, Const ''IPA_IOCTL_DEL_L2TP_VLAN_MAPPING'' 50,
     Const ''IPA_IOCTL_NAT_MODIFY_PDN'' 51, Const ''IPA_IOCTL_ALLOC_NAT_TABLE'' 52,
     Const ''IPA_IOCTL_ALLOC_IPV6CT_TABLE'' 53, Const ''IPA_IOCTL_DEL_NAT_TABLE'' 54,
     Const ''IPA_IOCTL_DEL_IPV6CT_TABLE'' 55, Const ''IPA_IOCTL_CLEANUP'' 56,
     Const ''IPA_IOCTL_QUERY_WLAN_CLIENT'' 57, Const ''IPA_IOCTL_GET_VLAN_MODE'' 58,
     Const ''IPA_HDR_MAX_SIZE'' 64, Const ''IPA_RESOURCE_NAME_MAX'' 32,
     Const ''IPA_NUM_PROPS_MAX'' 35, Const ''IPA_MAC_ADDR_SIZE'' 6,
     Const ''IPA_MBIM_MAX_STREAM_NUM'' 8, Const ''IPA_WAN_MSG_IPv6_ADDR_GW_LEN'' 4,
     Const ''IPA_MAX_NUM_HW_PATH_CLIENTS'' 16, Const ''QMI_IPA_MAX_CLIENT_DST_PIPES'' 4,
     Const ''IPA_FLT_TOS'' (2 ^ 0), Const ''IPA_FLT_PROTOCOL'' (2 ^ 1),
     Const ''IPA_FLT_SRC_ADDR'' (2 ^ 2), Const ''IPA_FLT_DST_ADDR'' (2 ^ 3),
     Const ''IPA_FLT_SRC_PORT_RANGE'' (2 ^ 4), Const ''IPA_FLT_DST_PORT_RANGE'' (2 ^ 5),
     Const ''IPA_FLT_TYPE'' (2 ^ 6), Const ''IPA_FLT_CODE'' (2 ^ 7),
     Const ''IPA_FLT_SPI'' (2 ^ 8), Const ''IPA_FLT_SRC_PORT'' (2 ^ 9),
     Const ''IPA_FLT_DST_PORT'' (2 ^ 10), Const ''IPA_FLT_TC'' (2 ^ 11),
     Const ''IPA_FLT_FLOW_LABEL'' (2 ^ 12), Const ''IPA_FLT_NEXT_HDR'' (2 ^ 13),
     Const ''IPA_FLT_META_DATA'' (2 ^ 14), Const ''IPA_FLT_FRAGMENT'' (2 ^ 15),
     Const ''IPA_FLT_TOS_MASKED'' (2 ^ 16), Const ''IPA_FLT_MAC_SRC_ADDR_ETHER_II'' (2 ^ 17),
     Const ''IPA_FLT_MAC_DST_ADDR_ETHER_II'' (2 ^ 18),
     Const ''IPA_FLT_MAC_SRC_ADDR_802_3'' (2 ^ 19)]"

definition msm_ipa_3 :: "decl list" where
  "msm_ipa_3 =
    [Const ''IPA_FLT_MAC_DST_ADDR_802_3'' (2 ^ 20), Const ''IPA_FLT_MAC_ETHER_TYPE'' (2 ^ 21),
     Const ''IPA_FLT_MAC_DST_ADDR_L2TP'' (2 ^ 22), Const ''IPA_FLT_TCP_SYN'' (2 ^ 23),
     Const ''IPA_FLT_TCP_SYN_L2TP'' (2 ^ 24), Const ''IPA_FLT_L2TP_INNER_IP_TYPE'' (2 ^ 25),
     Const ''IPA_FLT_L2TP_INNER_IPV4_DST_ADDR'' (2 ^ 26), Const ''IPA_MAX_PDN_NUM'' 5,
     Enum ''ipa_client_type'' [(''IPA_CLIENT_HSIC1_PROD'', 0), (''IPA_CLIENT_HSIC1_CONS'', 1),
       (''IPA_CLIENT_HSIC2_PROD'', 2), (''IPA_CLIENT_HSIC2_CONS'', 3),
       (''IPA_CLIENT_HSIC3_PROD'', 4), (''IPA_CLIENT_HSIC3_CONS'', 5),
       (''IPA_CLIENT_HSIC4_PROD'', 6), (''IPA_CLIENT_HSIC4_CONS'', 7),
       (''IPA_CLIENT_HSIC5_PROD'', 8), (''IPA_CLIENT_HSIC5_CONS'', 9),
       (''IPA_CLIENT_WLAN1_PROD'', 10), (''IPA_CLIENT_WLAN1_CONS'', 11),
       (''IPA_CLIENT_A5_WLAN_AMPDU_PROD'', 12), (''IPA_CLIENT_WLAN2_CONS'', 13),
       (''IPA_CLIENT_WLAN3_CONS'', 15), (''IPA_CLIENT_WLAN4_CONS'', 17),
       (''IPA_CLIENT_USB_PROD'', 18), (''IPA_CLIENT_USB_CONS'', 19),
       (''IPA_CLIENT_USB2_PROD'', 20), (''IPA_CLIENT_USB2_CONS'', 21),
       (''IPA_CLIENT_USB3_PROD'', 22), (''IPA_CLIENT_USB3_CONS'', 23),
       (''IPA_CLIENT_USB4_PROD'', 24), (''IPA_CLIENT_USB4_CONS'', 25),
       (''IPA_CLIENT_UC_USB_PROD'', 26), (''IPA_CLIENT_USB_DPL_CONS'', 27),
       (''IPA_CLIENT_A2_EMBEDDED_PROD'', 28), (''IPA_CLIENT_A2_EMBEDDED_CONS'', 29),
       (''IPA_CLIENT_A2_TETHERED_PROD'', 30), (''IPA_CLIENT_A2_TETHERED_CONS'', 31),
       (''IPA_CLIENT_APPS_LAN_PROD'', 32), (''IPA_CLIENT_APPS_LAN_CONS'', 33),
       (''IPA_CLIENT_APPS_WAN_PROD'', 34), (''IPA_CLIENT_APPS_LAN_WAN_PROD'', 34),
       (''IPA_CLIENT_APPS_WAN_CONS'', 35), (''IPA_CLIENT_APPS_CMD_PROD'', 36),
       (''IPA_CLIENT_A5_LAN_WAN_CONS'', 37), (''IPA_CLIENT_ODU_PROD'', 38),
       (''IPA_CLIENT_ODU_EMB_CONS'', 39), (''IPA_CLIENT_ODU_TETH_CONS'', 41),
       (''IPA_CLIENT_MHI_PROD'', 42), (''IPA_CLIENT_MHI_CONS'', 43),
       (''IPA_CLIENT_MEMCPY_DMA_SYNC_PROD'', 44), (''IPA_CLIENT_MEMCPY_DMA_SYNC_CONS'', 45),
       (''IPA_CLIENT_MEMCPY_DMA_ASYNC_PROD'', 46), (''IPA_CLIENT_MEMCPY_DMA_ASYNC_CONS'', 47),
       (''IPA_CLIENT_ETHERNET_PROD'', 48), (''IPA_CLIENT_ETHERNET_CONS'', 49),
       (''IPA_CLIENT_Q6_LAN_PROD'', 50), (''IPA_CLIENT_Q6_LAN_CONS'', 51),
       (''IPA_CLIENT_Q6_WAN_PROD'', 52), (''IPA_CLIENT_Q6_WAN_CONS'', 53),
       (''IPA_CLIENT_Q6_CMD_PROD'', 54), (''IPA_CLIENT_Q6_DUN_CONS'', 55),
       (''IPA_CLIENT_Q6_DECOMP_PROD'', 56), (''IPA_CLIENT_Q6_DECOMP_CONS'', 57),
       (''IPA_CLIENT_Q6_DECOMP2_PROD'', 58), (''IPA_CLIENT_Q6_DECOMP2_CONS'', 59),
       (''IPA_CLIENT_Q6_LTE_WIFI_AGGR_CONS'', 61), (''IPA_CLIENT_TEST_PROD'', 62),
       (''IPA_CLIENT_TEST_CONS'', 63), (''IPA_CLIENT_TEST1_PROD'', 64),
       (''IPA_CLIENT_TEST1_CONS'', 65), (''IPA_CLIENT_TEST2_PROD'', 66),
       (''IPA_CLIENT_TEST2_CONS'', 67), (''IPA_CLIENT_TEST3_PROD'', 68),
       (''IPA_CLIENT_TEST3_CONS'', 69), (''IPA_CLIENT_TEST4_PROD'', 70),
       (''IPA_CLIENT_TEST4_CONS'', 71), (''IPA_CLIENT_DUMMY_CONS'', 73)],
     Const ''IPA_CLIENT_MAX'' (73 + 1)]"

definition msm_ipa_4 :: "decl list" where
  "msm_ipa_4 =
    [Enum ''ipa_ip_type'' [(''IPA_IP_v4'', 0), (''IPA_IP_v6'', 1), (''IPA_IP_MAX'', 2)],
     Enum ''ipa_rule_type'' [(''IPA_RULE_HASHABLE'', 0), (''IPA_RULE_NON_HASHABLE'', 1)],
     Const ''IPA_RULE_TYPE_MAX'' (1 + 1),
     Enum ''ipa_flt_action'' [(''IPA_PASS_TO_ROUTING'', 0), (''IPA_PASS_TO_SRC_NAT'', 1),
       (''IPA_PASS_TO_DST_NAT'', 2), (''IPA_PASS_TO_EXCEPTION'', 3)]]"

definition msm_ipa_5 :: "decl list" where
  "msm_ipa_5 =
    [Enum ''ipa_wlan_event'' [(''WLAN_CLIENT_CONNECT'', 0), (''WLAN_CLIENT_DISCONNECT'', 1),
       (''WLAN_CLIENT_POWER_SAVE_MODE'', 2), (''WLAN_CLIENT_NORMAL_MODE'', 3),
       (''SW_ROUTING_ENABLE'', 4), (''SW_ROUTING_DISABLE'', 5), (''WLAN_AP_CONNECT'', 6),
       (''WLAN_AP_DISCONNECT'', 7), (''WLAN_STA_CONNECT'', 8), (''WLAN_STA_DISCONNECT'', 9),
       (''WLAN_CLIENT_CONNECT_EX'', 10), (''WLAN_SWITCH_TO_SCC'', 11),
       (''WLAN_SWITCH_TO_MCC'', 12), (''WLAN_WDI_ENABLE'', 13), (''WLAN_WDI_DISABLE'', 14),
       (''IPA_WLAN_EVENT_MAX'', 15)],
     Enum ''ipa_wan_event'' [(''WAN_UPSTREAM_ROUTE_ADD'', 15), (''WAN_UPSTREAM_ROUTE_DEL'', 16),
       (''WAN_EMBMS_CONNECT'', 17), (''WAN_XLAT_CONNECT'', 18), (''IPA_WAN_EVENT_MAX'', 19)],
     Enum ''ipa_ecm_event'' [(''ECM_CONNECT'', 19), (''ECM_DISCONNECT'', 20),
       (''IPA_ECM_EVENT_MAX'', 21)],
     Enum ''ipa_tethering_stats_event'' [(''IPA_TETHERING_STATS_UPDATE_STATS'', 21),
       (''IPA_TETHERING_STATS_UPDATE_NETWORK_STATS'', 22),
       (''IPA_TETHERING_STATS_EVENT_MAX'', 23)],
     Enum ''ipa_quota_event'' [(''IPA_QUOTA_REACH'', 23), (''IPA_QUOTA_EVENT_MAX'', 24)],
     Enum ''ipa_ssr_event'' [(''IPA_SSR_BEFORE_SHUTDOWN'', 24), (''IPA_SSR_AFTER_POWERUP'', 25),
       (''IPA_SSR_EVENT_MAX'', 26)],
     Enum ''ipa_vlan_l2tp_event'' [(''ADD_VLAN_IFACE'', 26), (''DEL_VLAN_IFACE'', 27),
       (''ADD_L2TP_VLAN_MAPPING'', 28), (''DEL_L2TP_VLAN_MAPPING'', 29),
       (''IPA_VLAN_L2TP_EVENT_MAX'', 30)],
     Enum ''ipa_per_client_stats_event'' [(''IPA_PER_CLIENT_STATS_CONNECT_EVENT'', 30),
       (''IPA_PER_CLIENT_STATS_DISCONNECT_EVENT'', 31), (''IPA_PER_CLIENT_STATS_EVENT_MAX'', 32)],
     Enum ''ipa_wlan_fw_ssr_event'' [(''WLAN_FWR_SSR_BEFORE_SHUTDOWN'', 32),
       (''IPA_WLAN_FW_SSR_EVENT_MAX'', 33)],
     Const ''IPA_WLAN_FW_SSR_EVENT_MAX'' 33, Const ''IPA_EVENT_MAX_NUM'' 33,
     Const ''IPA_EVENT_MAX'' 33,
     Enum ''ipa_rm_resource_name'' [(''IPA_RM_RESOURCE_Q6_PROD'', 0),
       (''IPA_RM_RESOURCE_Q6_CONS'', 1), (''IPA_RM_RESOURCE_USB_PROD'', 2),
       (''IPA_RM_RESOURCE_USB_CONS'', 3), (''IPA_RM_RESOURCE_USB_DPL_DUMMY_PROD'', 4),
       (''IPA_RM_RESOURCE_USB_DPL_CONS'', 5), (''IPA_RM_RESOURCE_HSIC_PROD'', 6),
       (''IPA_RM_RESOURCE_HSIC_CONS'', 7), (''IPA_RM_RESOURCE_STD_ECM_PROD'', 8),
       (''IPA_RM_RESOURCE_APPS_CONS'', 9), (''IPA_RM_RESOURCE_RNDIS_PROD'', 10),
       (''IPA_RM_RESOURCE_WWAN_0_PROD'', 12), (''IPA_RM_RESOURCE_WLAN_PROD'', 14),
       (''IPA_RM_RESOURCE_WLAN_CONS'', 15), (''IPA_RM_RESOURCE_ODU_ADAPT_PROD'', 16),
       (''IPA_RM_RESOURCE_ODU_ADAPT_CONS'', 17), (''IPA_RM_RESOURCE_MHI_PROD'', 18),
       (''IPA_RM_RESOURCE_MHI_CONS'', 19), (''IPA_RM_RESOURCE_ETHERNET_PROD'', 20),
       (''IPA_RM_RESOURCE_ETHERNET_CONS'', 21)],
     Const ''IPA_RM_RESOURCE_MAX'' (21 + 1)]"

definition msm_ipa_6 :: "decl list" where
  "msm_ipa_6 =
    [Enum ''ipa_hw_type'' [(''IPA_HW_None'', 0), (''IPA_HW_v1_0'', 1), (''IPA_HW_v1_1'', 2),
       (''IPA_HW_v2_0'', 3), (''IPA_HW_v2_1'', 4), (''IPA_HW_v2_5'', 5), (''IPA_HW_v2_6'', 5),
       (''IPA_HW_v2_6L'', 6), (''IPA_HW_v3_0'', 10), (''IPA_HW_v3_1'', 11),
       (''IPA_HW_v3_5'', 12), (''IPA_HW_v3_5_1'', 13), (''IPA_HW_v4_0'', 14)],
     Const ''IPA_HW_MAX'' (14 + 1), Const ''IPA_HW_v4_0'' 14]"

definition msm_ipa_7 :: "nat \<Rightarrow> decl list" where
  "msm_ipa_7 ETH_ALEN =
    [Struct ''ipa_rule_attrib'' (ipa_rule_attrib ETH_ALEN),
     Const ''IPA_IPFLTR_NUM_MEQ_32_EQNS'' 2, Const ''IPA_IPFLTR_NUM_IHL_MEQ_32_EQNS'' 2,
     Const ''IPA_IPFLTR_NUM_MEQ_128_EQNS'' 2, Const ''IPA_IPFLTR_NUM_IHL_RANGE_16_EQNS'' 2,
     Struct ''ipa_ipfltr_eq_16'' ipa_ipfltr_eq_16, Struct ''ipa_ipfltr_eq_32'' ipa_ipfltr_eq_32,
     Struct ''ipa_ipfltr_mask_eq_128'' ipa_ipfltr_mask_eq_128,
     Struct ''ipa_ipfltr_mask_eq_32'' ipa_ipfltr_mask_eq_32,
     Struct ''ipa_ipfltr_range_eq_16'' ipa_ipfltr_range_eq_16]"

definition msm_ipa_8 :: "decl list" where
  "msm_ipa_8 =
    [Struct ''ipa_ipfltri_rule_eq'' ipa_ipfltri_rule_eq]"

definition msm_ipa_9 :: "nat \<Rightarrow> decl list" where
  "msm_ipa_9 ETH_ALEN =
    [Struct ''ipa_flt_rule'' (ipa_flt_rule ETH_ALEN),
     Enum ''ipa_hdr_l2_type'' [(''IPA_HDR_L2_NONE'', 0), (''IPA_HDR_L2_ETHERNET_II'', 1),
       (''IPA_HDR_L2_802_3'', 2), (''IPA_HDR_L2_802_1Q'', 3)],
     Const ''IPA_HDR_L2_MAX'' (3 + 1), Const ''IPA_HDR_L2_802_1Q'' 3,
     Enum ''ipa_hdr_proc_type'' [(''IPA_HDR_PROC_NONE'', 0),
       (''IPA_HDR_PROC_ETHII_TO_ETHII'', 1), (''IPA_HDR_PROC_ETHII_TO_802_3'', 2),
       (''IPA_HDR_PROC_802_3_TO_ETHII'', 3), (''IPA_HDR_PROC_802_3_TO_802_3'', 4),
       (''IPA_HDR_PROC_L2TP_HEADER_ADD'', 5), (''IPA_HDR_PROC_L2TP_HEADER_REMOVE'', 6)],
     Const ''IPA_HDR_PROC_MAX'' (6 + 1)]"

definition msm_ipa_10 :: "nat \<Rightarrow> decl list" where
  "msm_ipa_10 ETH_ALEN =
    [Struct ''ipa_rt_rule'' (ipa_rt_rule ETH_ALEN)]"

definition msm_ipa_11 :: "decl list" where
  "msm_ipa_11 =
    [Struct ''ipa_hdr_add'' ipa_hdr_add, Struct ''ipa_ioc_add_hdr'' ipa_ioc_add_hdr,
     Struct ''ipa_l2tp_header_add_procparams'' ipa_l2tp_header_add_procparams]"

definition msm_ipa_12 :: "decl list" where
  "msm_ipa_12 =
    [Struct ''ipa_l2tp_header_remove_procparams'' ipa_l2tp_header_remove_procparams,
     Struct ''ipa_l2tp_hdr_proc_ctx_params'' ipa_l2tp_hdr_proc_ctx_params,
     Flag ''L2TP_USER_SPACE_SPECIFY_DST_PIPE'']"

definition msm_ipa_13 :: "decl list" where
  "msm_ipa_13 =
    [Struct ''ipa_hdr_proc_ctx_add'' ipa_hdr_proc_ctx_add, Flag ''IPA_L2TP_HDR_PROC_SUPPORT'',
     Struct ''ipa_ioc_add_hdr_proc_ctx'' ipa_ioc_add_hdr_proc_ctx]"

definition msm_ipa_14 :: "decl list" where
  "msm_ipa_14 =
    [Struct ''ipa_ioc_copy_hdr'' ipa_ioc_copy_hdr, Struct ''ipa_ioc_get_hdr'' ipa_ioc_get_hdr,
     Struct ''ipa_hdr_del'' ipa_hdr_del, Struct ''ipa_ioc_del_hdr'' ipa_ioc_del_hdr,
     Struct ''ipa_hdr_proc_ctx_del'' ipa_hdr_proc_ctx_del,
     Struct ''ipa_ioc_del_hdr_proc_ctx'' ipa_ioc_del_hdr_proc_ctx]"

definition msm_ipa_15 :: "nat \<Rightarrow> decl list" where
  "msm_ipa_15 ETH_ALEN =
    [Struct ''ipa_rt_rule_add'' (ipa_rt_rule_add ETH_ALEN)]"

definition msm_ipa_16 :: "nat \<Rightarrow> decl list" where
  "msm_ipa_16 ETH_ALEN =
    [Struct ''ipa_ioc_add_rt_rule'' (ipa_ioc_add_rt_rule ETH_ALEN)]"

definition msm_ipa_17 :: "nat \<Rightarrow> decl list" where
  "msm_ipa_17 ETH_ALEN =
    [Struct ''ipa_ioc_add_rt_rule_after'' (ipa_ioc_add_rt_rule_after ETH_ALEN)]"

definition msm_ipa_18 :: "nat \<Rightarrow> decl list" where
  "msm_ipa_18 ETH_ALEN =
    [Struct ''ipa_rt_rule_mdfy'' (ipa_rt_rule_mdfy ETH_ALEN),
     Struct ''ipa_ioc_mdfy_rt_rule'' (ipa_ioc_mdfy_rt_rule ETH_ALEN),
     Struct ''ipa_rt_rule_del'' ipa_rt_rule_del]"

definition msm_ipa_19 :: "nat \<Rightarrow> decl list" where
  "msm_ipa_19 ETH_ALEN =
    [Struct ''ipa_rt_rule_add_ext'' (ipa_rt_rule_add_ext ETH_ALEN)]"

definition msm_ipa_20 :: "nat \<Rightarrow> decl list" where
  "msm_ipa_20 ETH_ALEN =
    [Struct ''ipa_ioc_add_rt_rule_ext'' (ipa_ioc_add_rt_rule_ext ETH_ALEN),
     Struct ''ipa_ioc_del_rt_rule'' ipa_ioc_del_rt_rule,
     Struct ''ipa_ioc_get_rt_tbl_indx'' ipa_ioc_get_rt_tbl_indx]"

definition msm_ipa_21 :: "nat \<Rightarrow> decl list" where
  "msm_ipa_21 ETH_ALEN =
    [Struct ''ipa_flt_rule_add'' (ipa_flt_rule_add ETH_ALEN)]"

definition msm_ipa_22 :: "nat \<Rightarrow> decl list" where
  "msm_ipa_22 ETH_ALEN =
    [Struct ''ipa_ioc_add_flt_rule'' (ipa_ioc_add_flt_rule ETH_ALEN)]"

definition msm_ipa_23 :: "nat \<Rightarrow> decl list" where
  "msm_ipa_23 ETH_ALEN =
    [Struct ''ipa_ioc_add_flt_rule_after'' (ipa_ioc_add_flt_rule_after ETH_ALEN)]"

definition msm_ipa_24 :: "nat \<Rightarrow> decl list" where
  "msm_ipa_24 ETH_ALEN =
    [Struct ''ipa_flt_rule_mdfy'' (ipa_flt_rule_mdfy ETH_ALEN),
     Struct ''ipa_ioc_mdfy_flt_rule'' (ipa_ioc_mdfy_flt_rule ETH_ALEN),
     Struct ''ipa_flt_rule_del'' ipa_flt_rule_del,
     Struct ''ipa_ioc_del_flt_rule'' ipa_ioc_del_flt_rule,
     Struct ''ipa_ioc_get_rt_tbl'' ipa_ioc_get_rt_tbl]"

definition msm_ipa_25 :: "nat \<Rightarrow> decl list" where
  "msm_ipa_25 ETH_ALEN =
    [Struct ''ipa_ioc_query_intf'' ipa_ioc_query_intf,
     Struct ''ipa_ioc_tx_intf_prop'' (ipa_ioc_tx_intf_prop ETH_ALEN),
     Struct ''ipa_ioc_query_intf_tx_props'' (ipa_ioc_query_intf_tx_props ETH_ALEN)]"

definition msm_ipa_26 :: "nat \<Rightarrow> decl list" where
  "msm_ipa_26 ETH_ALEN =
    [Struct ''ipa_ioc_ext_intf_prop'' ipa_ioc_ext_intf_prop,
     Struct ''ipa_ioc_query_intf_ext_props'' ipa_ioc_query_intf_ext_props,
     Struct ''ipa_ioc_rx_intf_prop'' (ipa_ioc_rx_intf_prop ETH_ALEN),
     Struct ''ipa_ioc_query_intf_rx_props'' (ipa_ioc_query_intf_rx_props ETH_ALEN),
     Struct ''ipa_ioc_nat_alloc_mem'' ipa_ioc_nat_alloc_mem,
     Struct ''ipa_ioc_nat_ipv6ct_table_alloc'' ipa_ioc_nat_ipv6ct_table_alloc]"

definition msm_ipa_27 :: "decl list" where
  "msm_ipa_27 =
    [Struct ''ipa_ioc_v4_nat_init'' ipa_ioc_v4_nat_init,
     Struct ''ipa_ioc_ipv6ct_init'' ipa_ioc_ipv6ct_init,
     Struct ''ipa_ioc_v4_nat_del'' ipa_ioc_v4_nat_del,
     Struct ''ipa_ioc_nat_ipv6ct_table_del'' ipa_ioc_nat_ipv6ct_table_del,
     Struct ''ipa_ioc_nat_dma_one'' ipa_ioc_nat_dma_one,
     Struct ''ipa_ioc_nat_dma_cmd'' ipa_ioc_nat_dma_cmd,
     Struct ''ipa_ioc_nat_pdn_entry'' ipa_ioc_nat_pdn_entry,
     Struct ''ipa_ioc_vlan_iface_info'' ipa_ioc_vlan_iface_info,
     Struct ''ipa_ioc_l2tp_vlan_mapping_info'' ipa_ioc_l2tp_vlan_mapping_info]"

definition msm_ipa_28 :: "decl list" where
  "msm_ipa_28 =
    [Struct ''ipa_msg_meta'' ipa_msg_meta, Struct ''ipa_wlan_msg'' ipa_wlan_msg,
     Enum ''ipa_wlan_hdr_attrib_type'' [(''WLAN_HDR_ATTRIB_MAC_ADDR'', 0),
       (''WLAN_HDR_ATTRIB_STA_ID'', 1)],
     Struct ''ipa_wlan_hdr_attrib_val'' ipa_wlan_hdr_attrib_val]"

abbreviation IPA_IOC_MAGIC :: nat where "IPA_IOC_MAGIC \<equiv> 207"

abbreviation IPA_IOCTL_ADD_HDR :: nat where "IPA_IOCTL_ADD_HDR \<equiv> 0"

abbreviation IPA_IOCTL_DEL_HDR :: nat where "IPA_IOCTL_DEL_HDR \<equiv> 1"

abbreviation IPA_IOCTL_ADD_RT_RULE :: nat where "IPA_IOCTL_ADD_RT_RULE \<equiv> 2"

abbreviation IPA_IOCTL_ADD_RT_RULE_EXT :: nat where "IPA_IOCTL_ADD_RT_RULE_EXT \<equiv> 46"

abbreviation IPA_IOCTL_ADD_RT_RULE_AFTER :: nat where "IPA_IOCTL_ADD_RT_RULE_AFTER \<equiv> 43"

abbreviation IPA_IOCTL_DEL_RT_RULE :: nat where "IPA_IOCTL_DEL_RT_RULE \<equiv> 3"

abbreviation IPA_IOCTL_ADD_FLT_RULE :: nat where "IPA_IOCTL_ADD_FLT_RULE \<equiv> 4"

definition msm_ipa_29 :: "nat \<Rightarrow> decl list" where
  "msm_ipa_29 ETH_ALEN =
    [Struct ''ipa_wlan_msg_ex'' ipa_wlan_msg_ex, Struct ''ipa_ecm_msg'' ipa_ecm_msg,
     Struct ''ipa_wan_msg'' ipa_wan_msg, Struct ''ipa_ioc_rm_dependency'' ipa_ioc_rm_dependency,
     Struct ''ipa_ioc_generate_flt_eq'' (ipa_ioc_generate_flt_eq ETH_ALEN),
     Struct ''ipa_ioc_write_qmapid'' ipa_ioc_write_qmapid,
     Enum ''ipacm_client_enum'' [(''IPACM_CLIENT_USB'', 1), (''IPACM_CLIENT_WLAN'', 2),
       (''IPACM_CLIENT_MAX'', 3)],
     Enum ''ipacm_per_client_device_type'' [(''IPACM_CLIENT_DEVICE_TYPE_USB'', 0),
       (''IPACM_CLIENT_DEVICE_TYPE_WLAN'', 1), (''IPACM_CLIENT_DEVICE_TYPE_ETH'', 2)],
     Const ''IPACM_MAX_CLIENT_DEVICE_TYPES'' 3,
     Struct ''ipa_lan_client_msg'' ipa_lan_client_msg, Struct ''ipa_lan_client'' ipa_lan_client,
     Struct ''ipa_tether_device_info'' ipa_tether_device_info,
     Enum ''ipa_vlan_ifaces'' [(''IPA_VLAN_IF_ETH'', 0), (''IPA_VLAN_IF_RNDIS'', 1),
       (''IPA_VLAN_IF_ECM'', 2)],
     Const ''IPA_VLAN_IF_EMAC'' 0, Const ''IPA_VLAN_IF_MAX'' (2 + 1),
     Struct ''ipa_ioc_get_vlan_mode'' ipa_ioc_get_vlan_mode,
     Request ''IPA_IOC_ADD_HDR'' (IOWR IPA_IOC_MAGIC IPA_IOCTL_ADD_HDR PtrT),
     Request ''IPA_IOC_DEL_HDR'' (IOWR IPA_IOC_MAGIC IPA_IOCTL_DEL_HDR PtrT),
     Request ''IPA_IOC_ADD_RT_RULE'' (IOWR IPA_IOC_MAGIC IPA_IOCTL_ADD_RT_RULE PtrT),
     Request ''IPA_IOC_ADD_RT_RULE_EXT'' (IOWR IPA_IOC_MAGIC IPA_IOCTL_ADD_RT_RULE_EXT PtrT),
     Request ''IPA_IOC_ADD_RT_RULE_AFTER'' (IOWR IPA_IOC_MAGIC IPA_IOCTL_ADD_RT_RULE_AFTER PtrT),
     Request ''IPA_IOC_DEL_RT_RULE'' (IOWR IPA_IOC_MAGIC IPA_IOCTL_DEL_RT_RULE PtrT),
     Request ''IPA_IOC_ADD_FLT_RULE'' (IOWR IPA_IOC_MAGIC IPA_IOCTL_ADD_FLT_RULE PtrT)]"

abbreviation IPA_IOCTL_ADD_FLT_RULE_AFTER :: nat where "IPA_IOCTL_ADD_FLT_RULE_AFTER \<equiv> 44"

abbreviation IPA_IOCTL_DEL_FLT_RULE :: nat where "IPA_IOCTL_DEL_FLT_RULE \<equiv> 5"

abbreviation IPA_IOCTL_COMMIT_HDR :: nat where "IPA_IOCTL_COMMIT_HDR \<equiv> 6"

abbreviation IPA_IOCTL_RESET_HDR :: nat where "IPA_IOCTL_RESET_HDR \<equiv> 7"

abbreviation IPA_IOCTL_COMMIT_RT :: nat where "IPA_IOCTL_COMMIT_RT \<equiv> 8"

abbreviation IPA_IOCTL_RESET_RT :: nat where "IPA_IOCTL_RESET_RT \<equiv> 9"

abbreviation IPA_IOCTL_COMMIT_FLT :: nat where "IPA_IOCTL_COMMIT_FLT \<equiv> 10"

abbreviation IPA_IOCTL_RESET_FLT :: nat where "IPA_IOCTL_RESET_FLT \<equiv> 11"

abbreviation IPA_IOCTL_DUMP :: nat where "IPA_IOCTL_DUMP \<equiv> 12"

abbreviation IPA_IOCTL_GET_RT_TBL :: nat where "IPA_IOCTL_GET_RT_TBL \<equiv> 13"

abbreviation IPA_IOCTL_PUT_RT_TBL :: nat where "IPA_IOCTL_PUT_RT_TBL \<equiv> 14"

abbreviation IPA_IOCTL_COPY_HDR :: nat where "IPA_IOCTL_COPY_HDR \<equiv> 15"

abbreviation IPA_IOCTL_QUERY_INTF :: nat where "IPA_IOCTL_QUERY_INTF \<equiv> 16"

abbreviation IPA_IOCTL_QUERY_INTF_TX_PROPS :: nat where "IPA_IOCTL_QUERY_INTF_TX_PROPS \<equiv> 17"

abbreviation IPA_IOCTL_QUERY_INTF_RX_PROPS :: nat where "IPA_IOCTL_QUERY_INTF_RX_PROPS \<equiv> 18"

abbreviation IPA_IOCTL_QUERY_INTF_EXT_PROPS :: nat where "IPA_IOCTL_QUERY_INTF_EXT_PROPS \<equiv> 32"

abbreviation IPA_IOCTL_GET_HDR :: nat where "IPA_IOCTL_GET_HDR \<equiv> 19"

abbreviation IPA_IOCTL_PUT_HDR :: nat where "IPA_IOCTL_PUT_HDR \<equiv> 20"

abbreviation IPA_IOCTL_ALLOC_NAT_MEM :: nat where "IPA_IOCTL_ALLOC_NAT_MEM \<equiv> 22"

abbreviation IPA_IOCTL_ALLOC_NAT_TABLE :: nat where "IPA_IOCTL_ALLOC_NAT_TABLE \<equiv> 52"

abbreviation IPA_IOCTL_ALLOC_IPV6CT_TABLE :: nat where "IPA_IOCTL_ALLOC_IPV6CT_TABLE \<equiv> 53"

abbreviation IPA_IOCTL_V4_INIT_NAT :: nat where "IPA_IOCTL_V4_INIT_NAT \<equiv> 23"

abbreviation IPA_IOCTL_INIT_IPV6CT_TABLE :: nat where "IPA_IOCTL_INIT_IPV6CT_TABLE \<equiv> 25"

abbreviation IPA_IOCTL_TABLE_DMA_CMD :: nat where "IPA_IOCTL_TABLE_DMA_CMD \<equiv> 24"

abbreviation IPA_IOCTL_NAT_DMA :: nat where "IPA_IOCTL_NAT_DMA \<equiv> IPA_IOCTL_TABLE_DMA_CMD"

abbreviation IPA_IOCTL_V4_DEL_NAT :: nat where "IPA_IOCTL_V4_DEL_NAT \<equiv> 26"

abbreviation IPA_IOCTL_DEL_NAT_TABLE :: nat where "IPA_IOCTL_DEL_NAT_TABLE \<equiv> 54"

abbreviation IPA_IOCTL_DEL_IPV6CT_TABLE :: nat where "IPA_IOCTL_DEL_IPV6CT_TABLE \<equiv> 55"

abbreviation IPA_IOCTL_GET_NAT_OFFSET :: nat where "IPA_IOCTL_GET_NAT_OFFSET \<equiv> 28"

abbreviation IPA_IOCTL_NAT_MODIFY_PDN :: nat where "IPA_IOCTL_NAT_MODIFY_PDN \<equiv> 51"

abbreviation IPA_IOCTL_SET_FLT :: nat where "IPA_IOCTL_SET_FLT \<equiv> 21"

abbreviation IPA_IOCTL_PULL_MSG :: nat where "IPA_IOCTL_PULL_MSG \<equiv> 27"

abbreviation IPA_IOCTL_RM_ADD_DEPENDENCY :: nat where "IPA_IOCTL_RM_ADD_DEPENDENCY \<equiv> 29"

abbreviation IPA_IOCTL_RM_DEL_DEPENDENCY :: nat where "IPA_IOCTL_RM_DEL_DEPENDENCY \<equiv> 30"

abbreviation IPA_IOCTL_GENERATE_FLT_EQ :: nat where "IPA_IOCTL_GENERATE_FLT_EQ \<equiv> 31"

abbreviation IPA_IOCTL_QUERY_EP_MAPPING :: nat where "IPA_IOCTL_QUERY_EP_MAPPING \<equiv> 33"

abbreviation IPA_IOCTL_QUERY_RT_TBL_INDEX :: nat where "IPA_IOCTL_QUERY_RT_TBL_INDEX \<equiv> 34"

abbreviation IPA_IOCTL_WRITE_QMAPID :: nat where "IPA_IOCTL_WRITE_QMAPID \<equiv> 35"

abbreviation IPA_IOCTL_MDFY_FLT_RULE :: nat where "IPA_IOCTL_MDFY_FLT_RULE \<equiv> 36"

abbreviation IPA_IOCTL_MDFY_RT_RULE :: nat where "IPA_IOCTL_MDFY_RT_RULE \<equiv> 42"

abbreviation IPA_IOCTL_NOTIFY_WAN_UPSTREAM_ROUTE_ADD :: nat where "IPA_IOCTL_NOTIFY_WAN_UPSTREAM_ROUTE_ADD \<equiv> 37"

abbreviation IPA_IOCTL_NOTIFY_WAN_UPSTREAM_ROUTE_DEL :: nat where "IPA_IOCTL_NOTIFY_WAN_UPSTREAM_ROUTE_DEL \<equiv> 38"

abbreviation IPA_IOCTL_NOTIFY_WAN_EMBMS_CONNECTED :: nat where "IPA_IOCTL_NOTIFY_WAN_EMBMS_CONNECTED \<equiv> 39"

abbreviation IPA_IOCTL_ADD_HDR_PROC_CTX :: nat where "IPA_IOCTL_ADD_HDR_PROC_CTX \<equiv> 40"

abbreviation IPA_IOCTL_DEL_HDR_PROC_CTX :: nat where "IPA_IOCTL_DEL_HDR_PROC_CTX \<equiv> 41"

abbreviation IPA_IOCTL_GET_HW_VERSION :: nat where "IPA_IOCTL_GET_HW_VERSION \<equiv> 45"

abbreviation IPA_IOCTL_ADD_VLAN_IFACE :: nat where "IPA_IOCTL_ADD_VLAN_IFACE \<equiv> 47"

abbreviation IPA_IOCTL_DEL_VLAN_IFACE :: nat where "IPA_IOCTL_DEL_VLAN_IFACE \<equiv> 48"

abbreviation IPA_IOCTL_ADD_L2TP_VLAN_MAPPING :: nat where "IPA_IOCTL_ADD_L2TP_VLAN_MAPPING \<equiv> 49"

definition msm_ipa_30 :: "decl list" where
  "msm_ipa_30 =
    [Request ''IPA_IOC_ADD_FLT_RULE_AFTER'' (IOWR IPA_IOC_MAGIC IPA_IOCTL_ADD_FLT_RULE_AFTER PtrT),
     Request ''IPA_IOC_DEL_FLT_RULE'' (IOWR IPA_IOC_MAGIC IPA_IOCTL_DEL_FLT_RULE PtrT),
     Request ''IPA_IOC_COMMIT_HDR'' (IO IPA_IOC_MAGIC IPA_IOCTL_COMMIT_HDR),
     Request ''IPA_IOC_RESET_HDR'' (IO IPA_IOC_MAGIC IPA_IOCTL_RESET_HDR),
     Request ''IPA_IOC_COMMIT_RT'' (IOW IPA_IOC_MAGIC IPA_IOCTL_COMMIT_RT (EnumT ''ipa_ip_type'')),
     Request ''IPA_IOC_RESET_RT'' (IOW IPA_IOC_MAGIC IPA_IOCTL_RESET_RT (EnumT ''ipa_ip_type'')),
     Request ''IPA_IOC_COMMIT_FLT'' (IOW IPA_IOC_MAGIC IPA_IOCTL_COMMIT_FLT (EnumT ''ipa_ip_type'')),
     Request ''IPA_IOC_RESET_FLT'' (IOW IPA_IOC_MAGIC IPA_IOCTL_RESET_FLT (EnumT ''ipa_ip_type'')),
     Request ''IPA_IOC_DUMP'' (IO IPA_IOC_MAGIC IPA_IOCTL_DUMP),
     Request ''IPA_IOC_GET_RT_TBL'' (IOWR IPA_IOC_MAGIC IPA_IOCTL_GET_RT_TBL PtrT),
     Request ''IPA_IOC_PUT_RT_TBL'' (IOW IPA_IOC_MAGIC IPA_IOCTL_PUT_RT_TBL u32),
     Request ''IPA_IOC_COPY_HDR'' (IOWR IPA_IOC_MAGIC IPA_IOCTL_COPY_HDR PtrT),
     Request ''IPA_IOC_QUERY_INTF'' (IOWR IPA_IOC_MAGIC IPA_IOCTL_QUERY_INTF PtrT),
     Request ''IPA_IOC_QUERY_INTF_TX_PROPS'' (IOWR IPA_IOC_MAGIC IPA_IOCTL_QUERY_INTF_TX_PROPS PtrT),
     Request ''IPA_IOC_QUERY_INTF_RX_PROPS'' (IOWR IPA_IOC_MAGIC IPA_IOCTL_QUERY_INTF_RX_PROPS PtrT),
     Request ''IPA_IOC_QUERY_INTF_EXT_PROPS'' (IOWR IPA_IOC_MAGIC IPA_IOCTL_QUERY_INTF_EXT_PROPS PtrT),
     Request ''IPA_IOC_GET_HDR'' (IOWR IPA_IOC_MAGIC IPA_IOCTL_GET_HDR PtrT),
     Request ''IPA_IOC_PUT_HDR'' (IOW IPA_IOC_MAGIC IPA_IOCTL_PUT_HDR u32),
     Request ''IPA_IOC_ALLOC_NAT_MEM'' (IOWR IPA_IOC_MAGIC IPA_IOCTL_ALLOC_NAT_MEM PtrT),
     Request ''IPA_IOC_ALLOC_NAT_TABLE'' (IOWR IPA_IOC_MAGIC IPA_IOCTL_ALLOC_NAT_TABLE PtrT),
     Request ''IPA_IOC_ALLOC_IPV6CT_TABLE'' (IOWR IPA_IOC_MAGIC IPA_IOCTL_ALLOC_IPV6CT_TABLE PtrT),
     Request ''IPA_IOC_V4_INIT_NAT'' (IOWR IPA_IOC_MAGIC IPA_IOCTL_V4_INIT_NAT PtrT),
     Request ''IPA_IOC_INIT_IPV6CT_TABLE'' (IOWR IPA_IOC_MAGIC IPA_IOCTL_INIT_IPV6CT_TABLE PtrT),
     Request ''IPA_IOC_NAT_DMA'' (IOWR IPA_IOC_MAGIC IPA_IOCTL_NAT_DMA PtrT),
     Request ''IPA_IOC_TABLE_DMA_CMD'' (IOWR IPA_IOC_MAGIC IPA_IOCTL_TABLE_DMA_CMD PtrT),
     Request ''IPA_IOC_V4_DEL_NAT'' (IOWR IPA_IOC_MAGIC IPA_IOCTL_V4_DEL_NAT PtrT),
     Request ''IPA_IOC_DEL_NAT_TABLE'' (IOWR IPA_IOC_MAGIC IPA_IOCTL_DEL_NAT_TABLE PtrT),
     Request ''IPA_IOC_DEL_IPV6CT_TABLE'' (IOWR IPA_IOC_MAGIC IPA_IOCTL_DEL_IPV6CT_TABLE PtrT),
     Request ''IPA_IOC_GET_NAT_OFFSET'' (IOWR IPA_IOC_MAGIC IPA_IOCTL_GET_NAT_OFFSET PtrT),
     Request ''IPA_IOC_NAT_MODIFY_PDN'' (IOWR IPA_IOC_MAGIC IPA_IOCTL_NAT_MODIFY_PDN PtrT),
     Request ''IPA_IOC_SET_FLT'' (IOW IPA_IOC_MAGIC IPA_IOCTL_SET_FLT u32),
     Request ''IPA_IOC_PULL_MSG'' (IOWR IPA_IOC_MAGIC IPA_IOCTL_PULL_MSG PtrT),
     Request ''IPA_IOC_RM_ADD_DEPENDENCY'' (IOWR IPA_IOC_MAGIC IPA_IOCTL_RM_ADD_DEPENDENCY PtrT),
     Request ''IPA_IOC_RM_DEL_DEPENDENCY'' (IOWR IPA_IOC_MAGIC IPA_IOCTL_RM_DEL_DEPENDENCY PtrT),
     Request ''IPA_IOC_GENERATE_FLT_EQ'' (IOWR IPA_IOC_MAGIC IPA_IOCTL_GENERATE_FLT_EQ PtrT),
     Request ''IPA_IOC_QUERY_EP_MAPPING'' (IOR IPA_IOC_MAGIC IPA_IOCTL_QUERY_EP_MAPPING u32),
     Request ''IPA_IOC_QUERY_RT_TBL_INDEX'' (IOWR IPA_IOC_MAGIC IPA_IOCTL_QUERY_RT_TBL_INDEX PtrT),
     Request ''IPA_IOC_WRITE_QMAPID'' (IOWR IPA_IOC_MAGIC IPA_IOCTL_WRITE_QMAPID PtrT),
     Request ''IPA_IOC_MDFY_FLT_RULE'' (IOWR IPA_IOC_MAGIC IPA_IOCTL_MDFY_FLT_RULE PtrT),
     Request ''IPA_IOC_MDFY_RT_RULE'' (IOWR IPA_IOC_MAGIC IPA_IOCTL_MDFY_RT_RULE PtrT),
     Request ''IPA_IOC_NOTIFY_WAN_UPSTREAM_ROUTE_ADD'' (IOWR IPA_IOC_MAGIC IPA_IOCTL_NOTIFY_WAN_UPSTREAM_ROUTE_ADD PtrT),
     Request ''IPA_IOC_NOTIFY_WAN_UPSTREAM_ROUTE_DEL'' (IOWR IPA_IOC_MAGIC IPA_IOCTL_NOTIFY_WAN_UPSTREAM_ROUTE_DEL PtrT),
     Request ''IPA_IOC_NOTIFY_WAN_EMBMS_CONNECTED'' (IOWR IPA_IOC_MAGIC IPA_IOCTL_NOTIFY_WAN_EMBMS_CONNECTED PtrT),
     Request ''IPA_IOC_ADD_HDR_PROC_CTX'' (IOWR IPA_IOC_MAGIC IPA_IOCTL_ADD_HDR_PROC_CTX PtrT),
     Request ''IPA_IOC_DEL_HDR_PROC_CTX'' (IOWR IPA_IOC_MAGIC IPA_IOCTL_DEL_HDR_PROC_CTX PtrT),
     Request ''IPA_IOC_GET_HW_VERSION'' (IOWR IPA_IOC_MAGIC IPA_IOCTL_GET_HW_VERSION PtrT),
     Request ''IPA_IOC_ADD_VLAN_IFACE'' (IOWR IPA_IOC_MAGIC IPA_IOCTL_ADD_VLAN_IFACE PtrT),
     Request ''IPA_IOC_DEL_VLAN_IFACE'' (IOWR IPA_IOC_MAGIC IPA_IOCTL_DEL_VLAN_IFACE PtrT),
     Request ''IPA_IOC_ADD_L2TP_VLAN_MAPPING'' (IOWR IPA_IOC_MAGIC IPA_IOCTL_ADD_L2TP_VLAN_MAPPING PtrT)]"

abbreviation IPA_IOCTL_DEL_L2TP_VLAN_MAPPING :: nat where "IPA_IOCTL_DEL_L2TP_VLAN_MAPPING \<equiv> 50"

abbreviation IPA_IOCTL_CLEANUP :: nat where "IPA_IOCTL_CLEANUP \<equiv> 56"

abbreviation IPA_IOCTL_QUERY_WLAN_CLIENT :: nat where "IPA_IOCTL_QUERY_WLAN_CLIENT \<equiv> 57"

abbreviation IPA_IOCTL_GET_VLAN_MODE :: nat where "IPA_IOCTL_GET_VLAN_MODE \<equiv> 58"

abbreviation TETH_BRIDGE_IOC_MAGIC :: nat where "TETH_BRIDGE_IOC_MAGIC \<equiv> 206"

abbreviation TETH_BRIDGE_IOCTL_SET_BRIDGE_MODE :: nat where "TETH_BRIDGE_IOCTL_SET_BRIDGE_MODE \<equiv> 0"

abbreviation TETH_BRIDGE_IOCTL_SET_AGGR_PARAMS :: nat where "TETH_BRIDGE_IOCTL_SET_AGGR_PARAMS \<equiv> 1"

abbreviation TETH_BRIDGE_IOCTL_GET_AGGR_PARAMS :: nat where "TETH_BRIDGE_IOCTL_GET_AGGR_PARAMS \<equiv> 2"

abbreviation TETH_BRIDGE_IOCTL_GET_AGGR_CAPABILITIES :: nat where "TETH_BRIDGE_IOCTL_GET_AGGR_CAPABILITIES \<equiv> 3"

abbreviation ODU_BRIDGE_IOC_MAGIC :: nat where "ODU_BRIDGE_IOC_MAGIC \<equiv> 205"

abbreviation ODU_BRIDGE_IOCTL_SET_MODE :: nat where "ODU_BRIDGE_IOCTL_SET_MODE \<equiv> 0"

abbreviation ODU_BRIDGE_IOCTL_SET_LLV6_ADDR :: nat where "ODU_BRIDGE_IOCTL_SET_LLV6_ADDR \<equiv> 1"

definition msm_ipa_31 :: "decl list" where
  "msm_ipa_31 =
    [Request ''IPA_IOC_DEL_L2TP_VLAN_MAPPING'' (IOWR IPA_IOC_MAGIC IPA_IOCTL_DEL_L2TP_VLAN_MAPPING PtrT),
     Request ''IPA_IOC_CLEANUP'' (IO IPA_IOC_MAGIC IPA_IOCTL_CLEANUP),
     Request ''IPA_IOC_QUERY_WLAN_CLIENT'' (IO IPA_IOC_MAGIC IPA_IOCTL_QUERY_WLAN_CLIENT),
     Request ''IPA_IOC_GET_VLAN_MODE'' (IOWR IPA_IOC_MAGIC IPA_IOCTL_GET_VLAN_MODE PtrT),
     Const ''TETH_BRIDGE_IOC_MAGIC'' 0xCE, Const ''TETH_BRIDGE_IOCTL_SET_BRIDGE_MODE'' 0,
     Const ''TETH_BRIDGE_IOCTL_SET_AGGR_PARAMS'' 1,
     Const ''TETH_BRIDGE_IOCTL_GET_AGGR_PARAMS'' 2,
     Const ''TETH_BRIDGE_IOCTL_GET_AGGR_CAPABILITIES'' 3, Const ''TETH_BRIDGE_IOCTL_MAX'' 4,
     Enum ''teth_link_protocol_type'' [(''TETH_LINK_PROTOCOL_IP'', 0),
       (''TETH_LINK_PROTOCOL_ETHERNET'', 1), (''TETH_LINK_PROTOCOL_MAX'', 2)],
     Enum ''teth_aggr_protocol_type'' [(''TETH_AGGR_PROTOCOL_NONE'', 0),
       (''TETH_AGGR_PROTOCOL_MBIM'', 1), (''TETH_AGGR_PROTOCOL_TLP'', 2),
       (''TETH_AGGR_PROTOCOL_MAX'', 3)],
     Struct ''teth_aggr_params_link'' teth_aggr_params_link,
     Struct ''teth_aggr_params'' teth_aggr_params,
     Struct ''teth_aggr_capabilities'' teth_aggr_capabilities,
     Struct ''teth_ioc_set_bridge_mode'' teth_ioc_set_bridge_mode,
     Struct ''teth_ioc_aggr_params'' teth_ioc_aggr_params,
     Request ''TETH_BRIDGE_IOC_SET_BRIDGE_MODE'' (IOW TETH_BRIDGE_IOC_MAGIC TETH_BRIDGE_IOCTL_SET_BRIDGE_MODE PtrT),
     Request ''TETH_BRIDGE_IOC_SET_AGGR_PARAMS'' (IOW TETH_BRIDGE_IOC_MAGIC TETH_BRIDGE_IOCTL_SET_AGGR_PARAMS PtrT),
     Request ''TETH_BRIDGE_IOC_GET_AGGR_PARAMS'' (IOR TETH_BRIDGE_IOC_MAGIC TETH_BRIDGE_IOCTL_GET_AGGR_PARAMS PtrT),
     Request ''TETH_BRIDGE_IOC_GET_AGGR_CAPABILITIES'' (IOWR TETH_BRIDGE_IOC_MAGIC TETH_BRIDGE_IOCTL_GET_AGGR_CAPABILITIES PtrT),
     Const ''ODU_BRIDGE_IOC_MAGIC'' 0xCD, Const ''ODU_BRIDGE_IOCTL_SET_MODE'' 0,
     Const ''ODU_BRIDGE_IOCTL_SET_LLV6_ADDR'' 1, Const ''ODU_BRIDGE_IOCTL_MAX'' 2,
     Enum ''odu_bridge_mode'' [(''ODU_BRIDGE_MODE_ROUTER'', 0), (''ODU_BRIDGE_MODE_BRIDGE'', 1),
       (''ODU_BRIDGE_MODE_MAX'', 2)],
     Request ''ODU_BRIDGE_IOC_SET_MODE'' (IOW ODU_BRIDGE_IOC_MAGIC ODU_BRIDGE_IOCTL_SET_MODE (EnumT ''odu_bridge_mode'')),
     Request ''ODU_BRIDGE_IOC_SET_LLV6_ADDR'' (IOW ODU_BRIDGE_IOC_MAGIC ODU_BRIDGE_IOCTL_SET_LLV6_ADDR PtrT)]"

definition msm_ipa_h :: "nat \<Rightarrow> decl list" where
  "msm_ipa_h ETH_ALEN = msm_ipa_1 @ msm_ipa_2 @ msm_ipa_3 @ msm_ipa_4 @ msm_ipa_5 @ msm_ipa_6 @
     msm_ipa_7 ETH_ALEN @ msm_ipa_8 @ msm_ipa_9 ETH_ALEN @ msm_ipa_10 ETH_ALEN @ msm_ipa_11 @
     msm_ipa_12 @ msm_ipa_13 @ msm_ipa_14 @ msm_ipa_15 ETH_ALEN @ msm_ipa_16 ETH_ALEN @
     msm_ipa_17 ETH_ALEN @ msm_ipa_18 ETH_ALEN @ msm_ipa_19 ETH_ALEN @ msm_ipa_20 ETH_ALEN @
     msm_ipa_21 ETH_ALEN @ msm_ipa_22 ETH_ALEN @ msm_ipa_23 ETH_ALEN @ msm_ipa_24 ETH_ALEN @
     msm_ipa_25 ETH_ALEN @ msm_ipa_26 ETH_ALEN @ msm_ipa_27 @ msm_ipa_28 @ msm_ipa_29 ETH_ALEN @
     msm_ipa_30 @ msm_ipa_31"

subsection \<open>linux/rmnet_ipa_fd_ioctl.h\<close>

definition wan_ioctl_poll_tethering_stats :: ctype where
  "wan_ioctl_poll_tethering_stats =
     StructT Natural [(''polling_interval_secs'', u64), (''reset_stats'', u8)]"

abbreviation IFNAMSIZ :: nat where "IFNAMSIZ \<equiv> 16"

definition wan_ioctl_set_data_quota :: ctype where
  "wan_ioctl_set_data_quota =
     StructT Natural [(''interface_name'', ArrT CharT IFNAMSIZ), (''quota_mbytes'', u64),
      (''set_quota'', u8)]"

definition wan_ioctl_set_tether_client_pipe :: ctype where
  "wan_ioctl_set_tether_client_pipe =
     StructT Natural [(''ipa_client'', EnumT ''ipacm_client_enum''), (''reset_client'', u8),
      (''ul_src_pipe_len'', u32), (''ul_src_pipe_list'', ArrT u32 20),
      (''dl_dst_pipe_len'', u32), (''dl_dst_pipe_list'', ArrT u32 20)]"

definition wan_ioctl_query_tether_stats :: ctype where
  "wan_ioctl_query_tether_stats =
     StructT Natural [(''upstreamIface'', ArrT CharT IFNAMSIZ),
      (''tetherIface'', ArrT CharT IFNAMSIZ), (''ipa_client'', EnumT ''ipacm_client_enum''),
      (''ipv4_tx_packets'', u64), (''ipv4_tx_bytes'', u64), (''ipv4_rx_packets'', u64),
      (''ipv4_rx_bytes'', u64), (''ipv6_tx_packets'', u64), (''ipv6_tx_bytes'', u64),
      (''ipv6_rx_packets'', u64), (''ipv6_rx_bytes'', u64)]"

definition wan_ioctl_query_tether_stats_all :: ctype where
  "wan_ioctl_query_tether_stats_all =
     StructT Natural [(''upstreamIface'', ArrT CharT IFNAMSIZ),
      (''ipa_client'', EnumT ''ipacm_client_enum''), (''reset_stats'', u8), (''tx_bytes'', u64),
      (''rx_bytes'', u64)]"

definition wan_ioctl_reset_tether_stats :: ctype where
  "wan_ioctl_reset_tether_stats =
     StructT Natural [(''upstreamIface'', ArrT CharT IFNAMSIZ), (''reset_stats'', u8)]"

definition wan_ioctl_query_dl_filter_stats :: ctype where
  "wan_ioctl_query_dl_filter_stats =
     StructT Natural [(''reset_stats'', u8),
      (''stats_resp'', LayoutQmi.ipa_get_data_stats_resp_msg_v01), (''index'', u32)]"

definition wan_ioctl_notify_wan_state :: ctype where
  "wan_ioctl_notify_wan_state =
     StructT Natural [(''up'', u8)]"

definition wan_ioctl_send_lan_client_msg :: ctype where
  "wan_ioctl_send_lan_client_msg =
     StructT Natural [(''lan_client'', ipa_lan_client_msg),
      (''client_event'', EnumT ''ipa_per_client_stats_event'')]"

definition wan_ioctl_lan_client_info :: ctype where
  "wan_ioctl_lan_client_info =
     StructT Natural [(''device_type'', EnumT ''ipacm_per_client_device_type''),
      (''mac'', ArrT u8 IPA_MAC_ADDR_SIZE), (''client_init'', u8), (''client_idx'', s8),
      (''hdr_len'', u8), (''ul_src_pipe'', EnumT ''ipa_client_type'')]"

definition wan_ioctl_per_client_info :: ctype where
  "wan_ioctl_per_client_info =
     StructT Natural [(''mac'', ArrT u8 IPA_MAC_ADDR_SIZE), (''ipv4_tx_bytes'', u64),
      (''ipv4_rx_bytes'', u64), (''ipv6_tx_bytes'', u64), (''ipv6_rx_bytes'', u64)]"

definition wan_ioctl_query_per_client_stats :: ctype where
  "wan_ioctl_query_per_client_stats =
     StructT Natural [(''device_type'', EnumT ''ipacm_per_client_device_type''),
      (''reset_stats'', u8), (''disconnect_clnt'', u8), (''num_clients'', u8),
      (''client_info'', ArrT wan_ioctl_per_client_info IPA_MAX_NUM_HW_PATH_CLIENTS)]"

definition rmnet_ipa_fd_ioctl_1 :: "decl list" where
  "rmnet_ipa_fd_ioctl_1 =
    [Flag ''_RMNET_IPA_FD_IOCTL_H'']"

definition rmnet_ipa_fd_ioctl_2 :: "decl list" where
  "rmnet_ipa_fd_ioctl_2 =
    [Const ''WAN_IOC_MAGIC'' 0x69, Const ''WAN_IOCTL_ADD_FLT_RULE'' 0,
     Const ''WAN_IOCTL_ADD_FLT_INDEX'' 1, Const ''WAN_IOCTL_VOTE_FOR_BW_MBPS'' 2,
     Const ''WAN_IOCTL_POLL_TETHERING_STATS'' 3, Const ''WAN_IOCTL_SET_DATA_QUOTA'' 4,
     Const ''WAN_IOCTL_SET_TETHER_CLIENT_PIPE'' 5, Const ''WAN_IOCTL_QUERY_TETHER_STATS'' 6,
     Const ''WAN_IOCTL_RESET_TETHER_STATS'' 7, Const ''WAN_IOCTL_QUERY_DL_FILTER_STATS'' 8,
     Const ''WAN_IOCTL_ADD_FLT_RULE_EX'' 9, Const ''WAN_IOCTL_QUERY_TETHER_STATS_ALL'' 10,
     Const ''WAN_IOCTL_NOTIFY_WAN_STATE'' 11, Const ''WAN_IOCTL_ADD_UL_FLT_RULE'' 12,
     Const ''WAN_IOCTL_ENABLE_PER_CLIENT_STATS'' 13,
     Const ''WAN_IOCTL_QUERY_PER_CLIENT_STATS'' 14, Const ''WAN_IOCTL_SET_LAN_CLIENT_INFO'' 15,
     Const ''WAN_IOCTL_CLEAR_LAN_CLIENT_INFO'' 16, Const ''WAN_IOCTL_SEND_LAN_CLIENT_MSG'' 17]"

definition rmnet_ipa_fd_ioctl_3 :: "decl list" where
  "rmnet_ipa_fd_ioctl_3 =
    [Const ''IFNAMSIZ'' 16]"

definition rmnet_ipa_fd_ioctl_4 :: "decl list" where
  "rmnet_ipa_fd_ioctl_4 =
    [Struct ''wan_ioctl_poll_tethering_stats'' wan_ioctl_poll_tethering_stats]"

abbreviation WAN_IOC_MAGIC :: nat where "WAN_IOC_MAGIC \<equiv> 105"

abbreviation WAN_IOCTL_ADD_FLT_RULE :: nat where "WAN_IOCTL_ADD_FLT_RULE \<equiv> 0"

abbreviation WAN_IOCTL_ADD_FLT_INDEX :: nat where "WAN_IOCTL_ADD_FLT_INDEX \<equiv> 1"

abbreviation WAN_IOCTL_VOTE_FOR_BW_MBPS :: nat where "WAN_IOCTL_VOTE_FOR_BW_MBPS \<equiv> 2"

abbreviation WAN_IOCTL_POLL_TETHERING_STATS :: nat where "WAN_IOCTL_POLL_TETHERING_STATS \<equiv> 3"

abbreviation WAN_IOCTL_SET_DATA_QUOTA :: nat where "WAN_IOCTL_SET_DATA_QUOTA \<equiv> 4"

abbreviation WAN_IOCTL_SET_TETHER_CLIENT_PIPE :: nat where "WAN_IOCTL_SET_TETHER_CLIENT_PIPE \<equiv> 5"

abbreviation WAN_IOCTL_QUERY_TETHER_STATS :: nat where "WAN_IOCTL_QUERY_TETHER_STATS \<equiv> 6"

abbreviation WAN_IOCTL_RESET_TETHER_STATS :: nat where "WAN_IOCTL_RESET_TETHER_STATS \<equiv> 7"

abbreviation WAN_IOCTL_QUERY_DL_FILTER_STATS :: nat where "WAN_IOCTL_QUERY_DL_FILTER_STATS \<equiv> 8"

definition rmnet_ipa_fd_ioctl_5 :: "decl list" where
  "rmnet_ipa_fd_ioctl_5 =
    [Struct ''wan_ioctl_set_data_quota'' wan_ioctl_set_data_quota,
     Struct ''wan_ioctl_set_tether_client_pipe'' wan_ioctl_set_tether_client_pipe,
     Struct ''wan_ioctl_query_tether_stats'' wan_ioctl_query_tether_stats,
     Struct ''wan_ioctl_query_tether_stats_all'' wan_ioctl_query_tether_stats_all,
     Struct ''wan_ioctl_reset_tether_stats'' wan_ioctl_reset_tether_stats,
     Struct ''wan_ioctl_query_dl_filter_stats'' wan_ioctl_query_dl_filter_stats,
     Struct ''wan_ioctl_notify_wan_state'' wan_ioctl_notify_wan_state,
     Struct ''wan_ioctl_send_lan_client_msg'' wan_ioctl_send_lan_client_msg,
     Struct ''wan_ioctl_lan_client_info'' wan_ioctl_lan_client_info,
     Struct ''wan_ioctl_per_client_info'' wan_ioctl_per_client_info,
     Struct ''wan_ioctl_query_per_client_stats'' wan_ioctl_query_per_client_stats,
     Request ''WAN_IOC_ADD_FLT_RULE'' (IOWR WAN_IOC_MAGIC WAN_IOCTL_ADD_FLT_RULE PtrT),
     Request ''WAN_IOC_ADD_FLT_RULE_INDEX'' (IOWR WAN_IOC_MAGIC WAN_IOCTL_ADD_FLT_INDEX PtrT),
     Request ''WAN_IOC_VOTE_FOR_BW_MBPS'' (IOWR WAN_IOC_MAGIC WAN_IOCTL_VOTE_FOR_BW_MBPS PtrT),
     Request ''WAN_IOC_POLL_TETHERING_STATS'' (IOWR WAN_IOC_MAGIC WAN_IOCTL_POLL_TETHERING_STATS PtrT),
     Request ''WAN_IOC_SET_DATA_QUOTA'' (IOWR WAN_IOC_MAGIC WAN_IOCTL_SET_DATA_QUOTA PtrT),
     Request ''WAN_IOC_SET_TETHER_CLIENT_PIPE'' (IOWR WAN_IOC_MAGIC WAN_IOCTL_SET_TETHER_CLIENT_PIPE PtrT),
     Request ''WAN_IOC_QUERY_TETHER_STATS'' (IOWR WAN_IOC_MAGIC WAN_IOCTL_QUERY_TETHER_STATS PtrT),
     Request ''WAN_IOC_RESET_TETHER_STATS'' (IOWR WAN_IOC_MAGIC WAN_IOCTL_RESET_TETHER_STATS PtrT),
     Request ''WAN_IOC_QUERY_DL_FILTER_STATS'' (IOWR WAN_IOC_MAGIC WAN_IOCTL_QUERY_DL_FILTER_STATS PtrT)]"

abbreviation WAN_IOCTL_ADD_FLT_RULE_EX :: nat where "WAN_IOCTL_ADD_FLT_RULE_EX \<equiv> 9"

abbreviation WAN_IOCTL_QUERY_TETHER_STATS_ALL :: nat where "WAN_IOCTL_QUERY_TETHER_STATS_ALL \<equiv> 10"

abbreviation WAN_IOCTL_NOTIFY_WAN_STATE :: nat where "WAN_IOCTL_NOTIFY_WAN_STATE \<equiv> 11"

abbreviation WAN_IOCTL_ADD_UL_FLT_RULE :: nat where "WAN_IOCTL_ADD_UL_FLT_RULE \<equiv> 12"

abbreviation WAN_IOCTL_ENABLE_PER_CLIENT_STATS :: nat where "WAN_IOCTL_ENABLE_PER_CLIENT_STATS \<equiv> 13"

abbreviation WAN_IOCTL_QUERY_PER_CLIENT_STATS :: nat where "WAN_IOCTL_QUERY_PER_CLIENT_STATS \<equiv> 14"

abbreviation WAN_IOCTL_SET_LAN_CLIENT_INFO :: nat where "WAN_IOCTL_SET_LAN_CLIENT_INFO \<equiv> 15"

abbreviation WAN_IOCTL_SEND_LAN_CLIENT_MSG :: nat where "WAN_IOCTL_SEND_LAN_CLIENT_MSG \<equiv> 17"

abbreviation WAN_IOCTL_CLEAR_LAN_CLIENT_INFO :: nat where "WAN_IOCTL_CLEAR_LAN_CLIENT_INFO \<equiv> 16"

definition rmnet_ipa_fd_ioctl_6 :: "decl list" where
  "rmnet_ipa_fd_ioctl_6 =
    [Request ''WAN_IOC_ADD_FLT_RULE_EX'' (IOWR WAN_IOC_MAGIC WAN_IOCTL_ADD_FLT_RULE_EX PtrT),
     Request ''WAN_IOC_QUERY_TETHER_STATS_ALL'' (IOWR WAN_IOC_MAGIC WAN_IOCTL_QUERY_TETHER_STATS_ALL PtrT),
     Request ''WAN_IOC_NOTIFY_WAN_STATE'' (IOWR WAN_IOC_MAGIC WAN_IOCTL_NOTIFY_WAN_STATE PtrT),
     Request ''WAN_IOC_ADD_UL_FLT_RULE'' (IOWR WAN_IOC_MAGIC WAN_IOCTL_ADD_UL_FLT_RULE PtrT),
     Request ''WAN_IOC_ENABLE_PER_CLIENT_STATS'' (IOWR WAN_IOC_MAGIC WAN_IOCTL_ENABLE_PER_CLIENT_STATS PtrT),
     Request ''WAN_IOC_QUERY_PER_CLIENT_STATS'' (IOWR WAN_IOC_MAGIC WAN_IOCTL_QUERY_PER_CLIENT_STATS PtrT),
     Request ''WAN_IOC_SET_LAN_CLIENT_INFO'' (IOWR WAN_IOC_MAGIC WAN_IOCTL_SET_LAN_CLIENT_INFO PtrT),
     Request ''WAN_IOC_SEND_LAN_CLIENT_MSG'' (IOWR WAN_IOC_MAGIC WAN_IOCTL_SEND_LAN_CLIENT_MSG PtrT),
     Request ''WAN_IOC_CLEAR_LAN_CLIENT_INFO'' (IOWR WAN_IOC_MAGIC WAN_IOCTL_CLEAR_LAN_CLIENT_INFO PtrT)]"

definition rmnet_ipa_fd_ioctl_h :: "decl list" where
  "rmnet_ipa_fd_ioctl_h = rmnet_ipa_fd_ioctl_1 @ rmnet_ipa_fd_ioctl_2 @ rmnet_ipa_fd_ioctl_3 @ rmnet_ipa_fd_ioctl_4 @
     rmnet_ipa_fd_ioctl_5 @ rmnet_ipa_fd_ioctl_6"

subsection \<open>linux/rmnet_data.h\<close>

abbreviation RMNET_NL_DATA_MAX_LEN :: nat where "RMNET_NL_DATA_MAX_LEN \<equiv> 64"

abbreviation RMNET_MAX_STR_LEN :: nat where "RMNET_MAX_STR_LEN \<equiv> 16"

definition rmnet_nl_msg_s :: ctype where
  "rmnet_nl_msg_s =
     StructT Natural [(''reserved'', u16), (''message_type'', u16),
      (''reserved2'', BitsT u16 14), (''crd'', BitsT u16 2),
      ('''', UnionT Natural [(''arg_length'', u16), (''return_code'', u16)]),
      ('''', UnionT Natural [(''data'', ArrT u8 RMNET_NL_DATA_MAX_LEN),
      (''data_format'', StructT Natural [(''dev'', ArrT u8 RMNET_MAX_STR_LEN), (''flags'', u32),
      (''agg_size'', u16), (''agg_count'', u16), (''tail_spacing'', u8)]),
      (''local_ep_config'', StructT Natural [(''dev'', ArrT u8 RMNET_MAX_STR_LEN),
      (''ep_id'', s32), (''operating_mode'', u8), (''next_dev'', ArrT u8 RMNET_MAX_STR_LEN)]),
      (''vnd'', StructT Natural [(''id'', u32), (''vnd_name'', ArrT u8 RMNET_MAX_STR_LEN)]),
      (''flow_control'', StructT Natural [(''id'', u32), (''map_flow_id'', u32),
      (''tc_flow_id'', u32)])])]"

definition rmnet_data_1 :: "decl list" where
  "rmnet_data_1 =
    [Flag ''_RMNET_DATA_H_'', Const ''RMNET_LOCAL_LOGICAL_ENDPOINT'' (- 1),
     Const ''RMNET_EGRESS_FORMAT__RESERVED__'' (2 ^ 0),
     Const ''RMNET_EGRESS_FORMAT_MAP'' (2 ^ 1),
     Const ''RMNET_EGRESS_FORMAT_AGGREGATION'' (2 ^ 2),
     Const ''RMNET_EGRESS_FORMAT_MUXING'' (2 ^ 3),
     Const ''RMNET_EGRESS_FORMAT_MAP_CKSUMV3'' (2 ^ 4),
     Const ''RMNET_EGRESS_FORMAT_MAP_CKSUMV4'' (2 ^ 5),
     Const ''RMNET_INGRESS_FIX_ETHERNET'' (2 ^ 0), Const ''RMNET_INGRESS_FORMAT_MAP'' (2 ^ 1),
     Const ''RMNET_INGRESS_FORMAT_DEAGGREGATION'' (2 ^ 2),
     Const ''RMNET_INGRESS_FORMAT_DEMUXING'' (2 ^ 3),
     Const ''RMNET_INGRESS_FORMAT_MAP_COMMANDS'' (2 ^ 4),
     Const ''RMNET_INGRESS_FORMAT_MAP_CKSUMV3'' (2 ^ 5),
     Const ''RMNET_INGRESS_FORMAT_MAP_CKSUMV4'' (2 ^ 6), Const ''RMNET_NETLINK_PROTO'' 31,
     Const ''RMNET_MAX_STR_LEN'' 16, Const ''RMNET_NL_DATA_MAX_LEN'' 64,
     Const ''RMNET_NETLINK_MSG_COMMAND'' 0, Const ''RMNET_NETLINK_MSG_RETURNCODE'' 1,
     Const ''RMNET_NETLINK_MSG_RETURNDATA'' 2, Struct ''rmnet_nl_msg_s'' rmnet_nl_msg_s]"

definition rmnet_data_2 :: "decl list" where
  "rmnet_data_2 =
    [Enum ''rmnet_netlink_message_types_e'' [(''RMNET_NETLINK_ASSOCIATE_NETWORK_DEVICE'', 0),
       (''RMNET_NETLINK_UNASSOCIATE_NETWORK_DEVICE'', 1),
       (''RMNET_NETLINK_GET_NETWORK_DEVICE_ASSOCIATED'', 2),
       (''RMNET_NETLINK_SET_LINK_EGRESS_DATA_FORMAT'', 3),
       (''RMNET_NETLINK_GET_LINK_EGRESS_DATA_FORMAT'', 4),
       (''RMNET_NETLINK_SET_LINK_INGRESS_DATA_FORMAT'', 5),
       (''RMNET_NETLINK_GET_LINK_INGRESS_DATA_FORMAT'', 6),
       (''RMNET_NETLINK_SET_LOGICAL_EP_CONFIG'', 7),
       (''RMNET_NETLINK_UNSET_LOGICAL_EP_CONFIG'', 8),
       (''RMNET_NETLINK_GET_LOGICAL_EP_CONFIG'', 9), (''RMNET_NETLINK_NEW_VND'', 10),
       (''RMNET_NETLINK_NEW_VND_WITH_PREFIX'', 11), (''RMNET_NETLINK_GET_VND_NAME'', 12),
       (''RMNET_NETLINK_FREE_VND'', 13), (''RMNET_NETLINK_ADD_VND_TC_FLOW'', 14),
       (''RMNET_NETLINK_DEL_VND_TC_FLOW'', 15), (''RMNET_NETLINK_NEW_VND_WITH_NAME'', 16)],
     Const ''RMNET_NETLINK_NEW_VND_WITH_NAME'' 16]"

definition rmnet_data_3 :: "decl list" where
  "rmnet_data_3 =
    [Enum ''rmnet_config_endpoint_modes_e'' [(''RMNET_EPMODE_NONE'', 0),
       (''RMNET_EPMODE_VND'', 1), (''RMNET_EPMODE_BRIDGE'', 2), (''RMNET_EPMODE_LENGTH'', 3)],
     Enum ''rmnet_config_return_codes_e'' [(''RMNET_CONFIG_OK'', 0),
       (''RMNET_CONFIG_UNKNOWN_MESSAGE'', 1), (''RMNET_CONFIG_UNKNOWN_ERROR'', 2),
       (''RMNET_CONFIG_NOMEM'', 3), (''RMNET_CONFIG_DEVICE_IN_USE'', 4),
       (''RMNET_CONFIG_INVALID_REQUEST'', 5), (''RMNET_CONFIG_NO_SUCH_DEVICE'', 6),
       (''RMNET_CONFIG_BAD_ARGUMENTS'', 7), (''RMNET_CONFIG_BAD_EGRESS_DEVICE'', 8),
       (''RMNET_CONFIG_TC_HANDLE_FULL'', 9)]]"

definition rmnet_data_h :: "decl list" where
  "rmnet_data_h = rmnet_data_1 @ rmnet_data_2 @ rmnet_data_3"

subsection \<open>linux/msm_rmnet.h\<close>

definition rmnet_ioctl_extended_s :: ctype where
  "rmnet_ioctl_extended_s =
     StructT Natural [(''extended_ioctl'', u32), (''u'', UnionT Natural [(''data'', u32),
      (''if_name'', ArrT s8 16), (''rmnet_mux_val'', StructT Natural [(''mux_id'', u32),
      (''vchannel_name'', ArrT s8 16)]),
      (''flow_control_prop'', StructT Natural [(''flow_mode'', u8), (''mux_id'', u8)]),
      (''ipa_ep_pair'', StructT Natural [(''consumer_pipe_num'', u32),
      (''producer_pipe_num'', u32)]), (''ingress_format'', StructT Natural [(''__data'', u32),
      (''agg_size'', u32), (''agg_count'', u32)])])]"

definition rmnet_ioctl_data_s :: ctype where
  "rmnet_ioctl_data_s =
     StructT Natural [(''u'', UnionT Natural [(''operation_mode'', u32), (''tcm_handle'', u32)])]"

definition QMI_QOS_HDR_S :: ctype where
  "QMI_QOS_HDR_S =
     StructT Natural [(''version'', u8), (''flags'', u8), (''flow_id'', u32)]"

definition qmi_qos_hdr8_s :: ctype where
  "qmi_qos_hdr8_s =
     StructT Natural [(''hdr'', QMI_QOS_HDR_S), (''reserved'', ArrT u8 2)]"

definition msm_rmnet_1 :: "decl list" where
  "msm_rmnet_1 =
    [Flag ''_MSM_RMNET_H_'', Const ''RMNET_MODE_NONE'' 0x00, Const ''RMNET_MODE_LLP_ETH'' 0x01,
     Const ''RMNET_MODE_LLP_IP'' 0x02, Const ''RMNET_MODE_QOS'' 0x04,
     Const ''RMNET_MODE_MASK'' 7]"

definition msm_rmnet_2 :: "decl list" where
  "msm_rmnet_2 =
    [Const ''RMNET_IOCTL_SET_LLP_ETHERNET'' 0x000089F1,
     Const ''RMNET_IOCTL_SET_LLP_IP'' 0x000089F2, Const ''RMNET_IOCTL_GET_LLP'' 0x000089F3,
     Const ''RMNET_IOCTL_SET_QOS_ENABLE'' 0x000089F4,
     Const ''RMNET_IOCTL_SET_QOS_DISABLE'' 0x000089F5, Const ''RMNET_IOCTL_GET_QOS'' 0x000089F6,
     Const ''RMNET_IOCTL_GET_OPMODE'' 0x000089F7, Const ''RMNET_IOCTL_OPEN'' 0x000089F8,
     Const ''RMNET_IOCTL_CLOSE'' 0x000089F9, Const ''RMNET_IOCTL_FLOW_ENABLE'' 0x000089FA,
     Const ''RMNET_IOCTL_FLOW_DISABLE'' 0x000089FB,
     Const ''RMNET_IOCTL_FLOW_SET_HNDL'' 0x000089FC, Const ''RMNET_IOCTL_EXTENDED'' 0x000089FD,
     Const ''RMNET_IOCTL_GET_SUPPORTED_FEATURES'' 0x0000, Const ''RMNET_IOCTL_SET_MRU'' 0x0001,
     Const ''RMNET_IOCTL_GET_MRU'' 0x0002, Const ''RMNET_IOCTL_GET_EPID'' 0x0003,
     Const ''RMNET_IOCTL_GET_DRIVER_NAME'' 0x0004, Const ''RMNET_IOCTL_ADD_MUX_CHANNEL'' 0x0005,
     Const ''RMNET_IOCTL_SET_EGRESS_DATA_FORMAT'' 0x0006,
     Const ''RMNET_IOCTL_SET_INGRESS_DATA_FORMAT'' 0x0007,
     Const ''RMNET_IOCTL_SET_AGGREGATION_COUNT'' 0x0008,
     Const ''RMNET_IOCTL_GET_AGGREGATION_COUNT'' 0x0009,
     Const ''RMNET_IOCTL_SET_AGGREGATION_SIZE'' 0x000A,
     Const ''RMNET_IOCTL_GET_AGGREGATION_SIZE'' 0x000B,
     Const ''RMNET_IOCTL_FLOW_CONTROL'' 0x000C,
     Const ''RMNET_IOCTL_GET_DFLT_CONTROL_CHANNEL'' 0x000D,
     Const ''RMNET_IOCTL_GET_HWSW_MAP'' 0x000E, Const ''RMNET_IOCTL_SET_RX_HEADROOM'' 0x000F,
     Const ''RMNET_IOCTL_GET_EP_PAIR'' 0x0010, Const ''RMNET_IOCTL_SET_QOS_VERSION'' 0x0011,
     Const ''RMNET_IOCTL_GET_QOS_VERSION'' 0x0012,
     Const ''RMNET_IOCTL_GET_SUPPORTED_QOS_MODES'' 0x0013,
     Const ''RMNET_IOCTL_SET_SLEEP_STATE'' 0x0014,
     Const ''RMNET_IOCTL_SET_XLAT_DEV_INFO'' 0x0015,
     Const ''RMNET_IOCTL_DEREGISTER_DEV'' 0x0016, Const ''RMNET_IOCTL_GET_SG_SUPPORT'' 0x0017,
     Const ''RMNET_IOCTL_FEAT_NOTIFY_MUX_CHANNEL'' (2 ^ 0),
     Const ''RMNET_IOCTL_FEAT_SET_EGRESS_DATA_FORMAT'' (2 ^ 1),
     Const ''RMNET_IOCTL_FEAT_SET_INGRESS_DATA_FORMAT'' (2 ^ 2),
     Const ''RMNET_IOCTL_FEAT_SET_AGGREGATION_COUNT'' (2 ^ 3),
     Const ''RMNET_IOCTL_FEAT_GET_AGGREGATION_COUNT'' (2 ^ 4),
     Const ''RMNET_IOCTL_FEAT_SET_AGGREGATION_SIZE'' (2 ^ 5),
     Const ''RMNET_IOCTL_FEAT_GET_AGGREGATION_SIZE'' (2 ^ 6),
     Const ''RMNET_IOCTL_FEAT_FLOW_CONTROL'' (2 ^ 7),
     Const ''RMNET_IOCTL_FEAT_GET_DFLT_CONTROL_CHANNEL'' (2 ^ 8),
     Const ''RMNET_IOCTL_FEAT_GET_HWSW_MAP'' (2 ^ 9),
     Const ''RMNET_IOCTL_EGRESS_FORMAT_MAP'' (2 ^ 1),
     Const ''RMNET_IOCTL_EGRESS_FORMAT_AGGREGATION'' (2 ^ 2),
     Const ''RMNET_IOCTL_EGRESS_FORMAT_MUXING'' (2 ^ 3),
     Const ''RMNET_IOCTL_EGRESS_FORMAT_CHECKSUM'' (2 ^ 4),
     Const ''RMNET_IOCTL_INGRESS_FORMAT_MAP'' (2 ^ 1),
     Const ''RMNET_IOCTL_INGRESS_FORMAT_DEAGGREGATION'' (2 ^ 2),
     Const ''RMNET_IOCTL_INGRESS_FORMAT_DEMUXING'' (2 ^ 3),
     Const ''RMNET_IOCTL_INGRESS_FORMAT_CHECKSUM'' (2 ^ 4),
     Const ''RMNET_IOCTL_INGRESS_FORMAT_AGG_DATA'' (2 ^ 5)]"

definition msm_rmnet_3 :: "decl list" where
  "msm_rmnet_3 =
    [Const ''IFNAMSIZ'' 16]"

definition msm_rmnet_4 :: "decl list" where
  "msm_rmnet_4 =
    [Struct ''rmnet_ioctl_extended_s'' rmnet_ioctl_extended_s,
     Struct ''rmnet_ioctl_data_s'' rmnet_ioctl_data_s, Const ''RMNET_IOCTL_QOS_MODE_6'' (2 ^ 0),
     Const ''RMNET_IOCTL_QOS_MODE_8'' (2 ^ 1), Struct ''QMI_QOS_HDR_S'' QMI_QOS_HDR_S,
     Struct ''qmi_qos_hdr8_s'' qmi_qos_hdr8_s]"

definition msm_rmnet_h :: "decl list" where
  "msm_rmnet_h = msm_rmnet_1 @ msm_rmnet_2 @ msm_rmnet_3 @ msm_rmnet_4"

lemmas ipa_structs =
  ipa_rule_attrib_def ipa_ipfltr_eq_16_def ipa_ipfltr_eq_32_def ipa_ipfltr_mask_eq_128_def
  ipa_ipfltr_mask_eq_32_def ipa_ipfltr_range_eq_16_def ipa_ipfltri_rule_eq_def ipa_flt_rule_def
  ipa_rt_rule_def ipa_hdr_add_def ipa_ioc_add_hdr_def ipa_l2tp_header_add_procparams_def
  ipa_l2tp_header_remove_procparams_def ipa_l2tp_hdr_proc_ctx_params_def ipa_hdr_proc_ctx_add_def
  ipa_ioc_add_hdr_proc_ctx_def ipa_ioc_copy_hdr_def ipa_ioc_get_hdr_def ipa_hdr_del_def
  ipa_ioc_del_hdr_def ipa_hdr_proc_ctx_del_def ipa_ioc_del_hdr_proc_ctx_def ipa_rt_rule_add_def
  ipa_ioc_add_rt_rule_def ipa_ioc_add_rt_rule_after_def ipa_rt_rule_mdfy_def
  ipa_ioc_mdfy_rt_rule_def ipa_rt_rule_del_def ipa_rt_rule_add_ext_def
  ipa_ioc_add_rt_rule_ext_def ipa_ioc_del_rt_rule_def ipa_ioc_get_rt_tbl_indx_def
  ipa_flt_rule_add_def ipa_ioc_add_flt_rule_def ipa_ioc_add_flt_rule_after_def
  ipa_flt_rule_mdfy_def ipa_ioc_mdfy_flt_rule_def ipa_flt_rule_del_def ipa_ioc_del_flt_rule_def
  ipa_ioc_get_rt_tbl_def ipa_ioc_query_intf_def ipa_ioc_tx_intf_prop_def
  ipa_ioc_query_intf_tx_props_def ipa_ioc_ext_intf_prop_def ipa_ioc_query_intf_ext_props_def
  ipa_ioc_rx_intf_prop_def ipa_ioc_query_intf_rx_props_def ipa_ioc_nat_alloc_mem_def
  ipa_ioc_nat_ipv6ct_table_alloc_def ipa_ioc_v4_nat_init_def ipa_ioc_ipv6ct_init_def
  ipa_ioc_v4_nat_del_def ipa_ioc_nat_ipv6ct_table_del_def ipa_ioc_nat_dma_one_def
  ipa_ioc_nat_dma_cmd_def ipa_ioc_nat_pdn_entry_def ipa_ioc_vlan_iface_info_def
  ipa_ioc_l2tp_vlan_mapping_info_def ipa_msg_meta_def ipa_wlan_msg_def
  ipa_wlan_hdr_attrib_val_def ipa_wlan_msg_ex_def ipa_ecm_msg_def ipa_wan_msg_def
  ipa_ioc_rm_dependency_def ipa_ioc_generate_flt_eq_def ipa_ioc_write_qmapid_def
  ipa_lan_client_msg_def ipa_lan_client_def ipa_tether_device_info_def ipa_ioc_get_vlan_mode_def
  teth_aggr_params_link_def teth_aggr_params_def teth_aggr_capabilities_def
  teth_ioc_set_bridge_mode_def teth_ioc_aggr_params_def wan_ioctl_poll_tethering_stats_def
  wan_ioctl_set_data_quota_def wan_ioctl_set_tether_client_pipe_def
  wan_ioctl_query_tether_stats_def wan_ioctl_query_tether_stats_all_def
  wan_ioctl_reset_tether_stats_def wan_ioctl_query_dl_filter_stats_def
  wan_ioctl_notify_wan_state_def wan_ioctl_send_lan_client_msg_def wan_ioctl_lan_client_info_def
  wan_ioctl_per_client_info_def wan_ioctl_query_per_client_stats_def rmnet_nl_msg_s_def
  rmnet_ioctl_extended_s_def rmnet_ioctl_data_s_def QMI_QOS_HDR_S_def qmi_qos_hdr8_s_def

lemmas ipa_decls =
  msm_ipa_1_def msm_ipa_2_def msm_ipa_3_def msm_ipa_4_def msm_ipa_5_def msm_ipa_6_def
  msm_ipa_7_def msm_ipa_8_def msm_ipa_9_def msm_ipa_10_def msm_ipa_11_def msm_ipa_12_def
  msm_ipa_13_def msm_ipa_14_def msm_ipa_15_def msm_ipa_16_def msm_ipa_17_def msm_ipa_18_def
  msm_ipa_19_def msm_ipa_20_def msm_ipa_21_def msm_ipa_22_def msm_ipa_23_def msm_ipa_24_def
  msm_ipa_25_def msm_ipa_26_def msm_ipa_27_def msm_ipa_28_def msm_ipa_29_def msm_ipa_30_def
  msm_ipa_31_def rmnet_ipa_fd_ioctl_1_def rmnet_ipa_fd_ioctl_2_def rmnet_ipa_fd_ioctl_3_def
  rmnet_ipa_fd_ioctl_4_def rmnet_ipa_fd_ioctl_5_def rmnet_ipa_fd_ioctl_6_def rmnet_data_1_def
  rmnet_data_2_def rmnet_data_3_def msm_rmnet_1_def msm_rmnet_2_def msm_rmnet_3_def
  msm_rmnet_4_def msm_ipa_h_def rmnet_ipa_fd_ioctl_h_def rmnet_data_h_def msm_rmnet_h_def

text \<open>All structures and unions, in the order of the files.\<close>

definition ipa_types :: "nat \<Rightarrow> ctype list" where
  "ipa_types ETH_ALEN =
    [ipa_rule_attrib ETH_ALEN, ipa_ipfltr_eq_16, ipa_ipfltr_eq_32, ipa_ipfltr_mask_eq_128,
     ipa_ipfltr_mask_eq_32, ipa_ipfltr_range_eq_16, ipa_ipfltri_rule_eq, ipa_flt_rule ETH_ALEN,
     ipa_rt_rule ETH_ALEN, ipa_hdr_add, ipa_ioc_add_hdr, ipa_l2tp_header_add_procparams,
     ipa_l2tp_header_remove_procparams, ipa_l2tp_hdr_proc_ctx_params, ipa_hdr_proc_ctx_add,
     ipa_ioc_add_hdr_proc_ctx, ipa_ioc_copy_hdr, ipa_ioc_get_hdr, ipa_hdr_del, ipa_ioc_del_hdr,
     ipa_hdr_proc_ctx_del, ipa_ioc_del_hdr_proc_ctx, ipa_rt_rule_add ETH_ALEN,
     ipa_ioc_add_rt_rule ETH_ALEN, ipa_ioc_add_rt_rule_after ETH_ALEN,
     ipa_rt_rule_mdfy ETH_ALEN, ipa_ioc_mdfy_rt_rule ETH_ALEN, ipa_rt_rule_del,
     ipa_rt_rule_add_ext ETH_ALEN, ipa_ioc_add_rt_rule_ext ETH_ALEN, ipa_ioc_del_rt_rule,
     ipa_ioc_get_rt_tbl_indx, ipa_flt_rule_add ETH_ALEN, ipa_ioc_add_flt_rule ETH_ALEN,
     ipa_ioc_add_flt_rule_after ETH_ALEN, ipa_flt_rule_mdfy ETH_ALEN,
     ipa_ioc_mdfy_flt_rule ETH_ALEN, ipa_flt_rule_del, ipa_ioc_del_flt_rule, ipa_ioc_get_rt_tbl,
     ipa_ioc_query_intf, ipa_ioc_tx_intf_prop ETH_ALEN, ipa_ioc_query_intf_tx_props ETH_ALEN,
     ipa_ioc_ext_intf_prop, ipa_ioc_query_intf_ext_props, ipa_ioc_rx_intf_prop ETH_ALEN,
     ipa_ioc_query_intf_rx_props ETH_ALEN, ipa_ioc_nat_alloc_mem,
     ipa_ioc_nat_ipv6ct_table_alloc, ipa_ioc_v4_nat_init, ipa_ioc_ipv6ct_init,
     ipa_ioc_v4_nat_del, ipa_ioc_nat_ipv6ct_table_del, ipa_ioc_nat_dma_one, ipa_ioc_nat_dma_cmd,
     ipa_ioc_nat_pdn_entry, ipa_ioc_vlan_iface_info, ipa_ioc_l2tp_vlan_mapping_info,
     ipa_msg_meta, ipa_wlan_msg, ipa_wlan_hdr_attrib_val, ipa_wlan_msg_ex, ipa_ecm_msg,
     ipa_wan_msg, ipa_ioc_rm_dependency, ipa_ioc_generate_flt_eq ETH_ALEN, ipa_ioc_write_qmapid,
     ipa_lan_client_msg, ipa_lan_client, ipa_tether_device_info, ipa_ioc_get_vlan_mode,
     teth_aggr_params_link, teth_aggr_params, teth_aggr_capabilities, teth_ioc_set_bridge_mode,
     teth_ioc_aggr_params, wan_ioctl_poll_tethering_stats, wan_ioctl_set_data_quota,
     wan_ioctl_set_tether_client_pipe, wan_ioctl_query_tether_stats,
     wan_ioctl_query_tether_stats_all, wan_ioctl_reset_tether_stats,
     wan_ioctl_query_dl_filter_stats, wan_ioctl_notify_wan_state, wan_ioctl_send_lan_client_msg,
     wan_ioctl_lan_client_info, wan_ioctl_per_client_info, wan_ioctl_query_per_client_stats,
     rmnet_nl_msg_s, rmnet_ioctl_extended_s, rmnet_ioctl_data_s, QMI_QOS_HDR_S, qmi_qos_hdr8_s]"

text \<open>The structures made to look the same to 32-bit and 64-bit processes.\<close>

definition ipa_portable :: "ctype list" where
  "ipa_portable =
    [wan_ioctl_poll_tethering_stats, wan_ioctl_set_data_quota, wan_ioctl_set_tether_client_pipe,
     wan_ioctl_query_tether_stats, wan_ioctl_query_tether_stats_all,
     wan_ioctl_reset_tether_stats, wan_ioctl_query_dl_filter_stats, wan_ioctl_notify_wan_state,
     wan_ioctl_send_lan_client_msg, wan_ioctl_lan_client_info, wan_ioctl_per_client_info,
     wan_ioctl_query_per_client_stats, rmnet_nl_msg_s, rmnet_ioctl_extended_s,
     rmnet_ioctl_data_s, QMI_QOS_HDR_S, qmi_qos_hdr8_s]"

end
