(* ===== verification/LayoutCal.thy ===== *)
theory LayoutCal
  imports CLayout
begin

text \<open>
  The headers the kernel is built with (under sdm710/original-kernel-headers) of audio
  calibration (linux/msm\_audio\_calibration.h): every structure and union with its fields
  in order; then, for every file, the list of its declarations, in blocks: structures,
  enumerations, number macros and device requests. A type of the C library or of a header
  that is not in the repository is a foreign type.
\<close>

subsection \<open>linux/msm_audio_calibration.h\<close>

definition MAX_IOCTL_CMD_SIZE :: nat where "MAX_IOCTL_CMD_SIZE = 512"

definition audio_cal_header :: ctype where
  "audio_cal_header =
     StructT Natural [(''data_size'', s32), (''version'', s32), (''cal_type'', s32),
      (''cal_type_size'', s32)]"

definition audio_cal_type_header :: ctype where
  "audio_cal_type_header =
     StructT Natural [(''version'', s32), (''buffer_number'', s32)]"

definition audio_cal_data :: ctype where
  "audio_cal_data =
     StructT Natural [(''cal_size'', s32), (''mem_handle'', s32)]"

definition audio_cal_type_alloc :: ctype where
  "audio_cal_type_alloc =
     StructT Natural [(''cal_hdr'', audio_cal_type_header), (''cal_data'', audio_cal_data)]"

definition audio_cal_alloc :: ctype where
  "audio_cal_alloc =
     StructT Natural [(''hdr'', audio_cal_header), (''cal_type'', audio_cal_type_alloc)]"

definition audio_cal_type_dealloc :: ctype where
  "audio_cal_type_dealloc =
     StructT Natural [(''cal_hdr'', audio_cal_type_header), (''cal_data'', audio_cal_data)]"

definition audio_cal_dealloc :: ctype where
  "audio_cal_dealloc =
     StructT Natural [(''hdr'', audio_cal_header), (''cal_type'', audio_cal_type_dealloc)]"

definition audio_cal_type_prepare :: ctype where
  "audio_cal_type_prepare =
     StructT Natural [(''cal_hdr'', audio_cal_type_header), (''cal_data'', audio_cal_data)]"

definition audio_cal_prepare :: ctype where
  "audio_cal_prepare =
     StructT Natural [(''hdr'', audio_cal_header), (''cal_type'', audio_cal_type_prepare)]"

definition audio_cal_type_post :: ctype where
  "audio_cal_type_post =
     StructT Natural [(''cal_hdr'', audio_cal_type_header), (''cal_data'', audio_cal_data)]"

definition audio_cal_post :: ctype where
  "audio_cal_post =
     StructT Natural [(''hdr'', audio_cal_header), (''cal_type'', audio_cal_type_post)]"

definition audio_cal_info_metainfo :: ctype where
  "audio_cal_info_metainfo =
     StructT Natural [(''nKey'', u32)]"

definition audio_cal_info_adm_top :: ctype where
  "audio_cal_info_adm_top =
     StructT Natural [(''topology'', s32), (''acdb_id'', s32), (''path'', s32),
      (''app_type'', s32), (''sample_rate'', s32)]"

definition audio_cal_info_audproc :: ctype where
  "audio_cal_info_audproc =
     StructT Natural [(''acdb_id'', s32), (''path'', s32), (''app_type'', s32),
      (''sample_rate'', s32)]"

definition audio_cal_info_audvol :: ctype where
  "audio_cal_info_audvol =
     StructT Natural [(''acdb_id'', s32), (''path'', s32), (''app_type'', s32),
      (''vol_index'', s32)]"

definition audio_cal_info_afe :: ctype where
  "audio_cal_info_afe =
     StructT Natural [(''acdb_id'', s32), (''path'', s32), (''sample_rate'', s32)]"

definition audio_cal_info_afe_top :: ctype where
  "audio_cal_info_afe_top =
     StructT Natural [(''topology'', s32), (''acdb_id'', s32), (''path'', s32),
      (''sample_rate'', s32)]"

definition audio_cal_info_asm_top :: ctype where
  "audio_cal_info_asm_top =
     StructT Natural [(''topology'', s32), (''app_type'', s32)]"

definition audio_cal_info_audstrm :: ctype where
  "audio_cal_info_audstrm =
     StructT Natural [(''app_type'', s32)]"

definition audio_cal_info_aanc :: ctype where
  "audio_cal_info_aanc =
     StructT Natural [(''acdb_id'', s32)]"

definition audio_cal_hw_delay_entry :: ctype where
  "audio_cal_hw_delay_entry =
     StructT Natural [(''sample_rate'', u32), (''delay_usec'', u32)]"

abbreviation MAX_HW_DELAY_ENTRIES :: nat where "MAX_HW_DELAY_ENTRIES \<equiv> 25"

definition audio_cal_hw_delay_data :: ctype where
  "audio_cal_hw_delay_data =
     StructT Natural [(''num_entries'', u32),
      (''entry'', ArrT audio_cal_hw_delay_entry MAX_HW_DELAY_ENTRIES)]"

definition audio_cal_info_hw_delay :: ctype where
  "audio_cal_info_hw_delay =
     StructT Natural [(''acdb_id'', s32), (''path'', s32), (''property_type'', s32),
      (''data'', audio_cal_hw_delay_data)]"

abbreviation SP_V2_NUM_MAX_SPKRS :: nat where "SP_V2_NUM_MAX_SPKRS \<equiv> 2"

definition audio_cal_info_spk_prot_cfg :: ctype where
  "audio_cal_info_spk_prot_cfg =
     StructT Natural [(''r0'', ArrT s32 SP_V2_NUM_MAX_SPKRS),
      (''t0'', ArrT s32 SP_V2_NUM_MAX_SPKRS), (''quick_calib_flag'', u32), (''mode'', u32),
      (''sp_version'', u32), (''limiter_th'', ArrT s32 SP_V2_NUM_MAX_SPKRS)]"

definition audio_cal_info_sp_th_vi_ftm_cfg :: ctype where
  "audio_cal_info_sp_th_vi_ftm_cfg =
     StructT Natural [(''wait_time'', ArrT u32 SP_V2_NUM_MAX_SPKRS),
      (''ftm_time'', ArrT u32 SP_V2_NUM_MAX_SPKRS), (''mode'', u32)]"

definition audio_cal_info_sp_ex_vi_ftm_cfg :: ctype where
  "audio_cal_info_sp_ex_vi_ftm_cfg =
     StructT Natural [(''wait_time'', ArrT u32 SP_V2_NUM_MAX_SPKRS),
      (''ftm_time'', ArrT u32 SP_V2_NUM_MAX_SPKRS), (''mode'', u32)]"

definition audio_cal_info_sp_ex_vi_param :: ctype where
  "audio_cal_info_sp_ex_vi_param =
     StructT Natural [(''freq_q20'', ArrT s32 SP_V2_NUM_MAX_SPKRS),
      (''resis_q24'', ArrT s32 SP_V2_NUM_MAX_SPKRS),
      (''qmct_q24'', ArrT s32 SP_V2_NUM_MAX_SPKRS), (''status'', ArrT s32 SP_V2_NUM_MAX_SPKRS)]"

definition audio_cal_info_sp_th_vi_param :: ctype where
  "audio_cal_info_sp_th_vi_param =
     StructT Natural [(''r_dc_q24'', ArrT s32 SP_V2_NUM_MAX_SPKRS),
      (''temp_q22'', ArrT s32 SP_V2_NUM_MAX_SPKRS), (''status'', ArrT s32 SP_V2_NUM_MAX_SPKRS)]"

definition audio_cal_info_msm_spk_prot_status :: ctype where
  "audio_cal_info_msm_spk_prot_status =
     StructT Natural [(''r0'', ArrT s32 SP_V2_NUM_MAX_SPKRS), (''status'', s32)]"

definition audio_cal_info_sidetone :: ctype where
  "audio_cal_info_sidetone =
     StructT Natural [(''enable'', u16), (''gain'', u16), (''tx_acdb_id'', s32),
      (''rx_acdb_id'', s32), (''mid'', s32), (''pid'', s32)]"

abbreviation MAX_SIDETONE_IIR_DATA_SIZE :: nat where "MAX_SIDETONE_IIR_DATA_SIZE \<equiv> 224"

definition audio_cal_info_sidetone_iir :: ctype where
  "audio_cal_info_sidetone_iir =
     StructT Natural [(''iir_enable'', u16), (''num_biquad_stages'', u16), (''pregain'', u16),
      (''tx_acdb_id'', s32), (''rx_acdb_id'', s32), (''mid'', s32), (''pid'', s32),
      (''iir_config'', ArrT u8 MAX_SIDETONE_IIR_DATA_SIZE)]"

definition audio_cal_info_lsm_top :: ctype where
  "audio_cal_info_lsm_top =
     StructT Natural [(''topology'', s32), (''acdb_id'', s32), (''app_type'', s32)]"

definition audio_cal_info_lsm :: ctype where
  "audio_cal_info_lsm =
     StructT Natural [(''acdb_id'', s32), (''path'', s32), (''app_type'', s32)]"

abbreviation VSS_NUM_CHANNELS_MAX :: nat where "VSS_NUM_CHANNELS_MAX \<equiv> 8"

definition audio_cal_info_voc_top :: ctype where
  "audio_cal_info_voc_top =
     StructT Natural [(''topology'', s32), (''acdb_id'', s32), (''num_channels'', u32),
      (''channel_mapping'', ArrT u8 VSS_NUM_CHANNELS_MAX)]"

definition audio_cal_info_vocproc :: ctype where
  "audio_cal_info_vocproc =
     StructT Natural [(''tx_acdb_id'', s32), (''rx_acdb_id'', s32), (''tx_sample_rate'', s32),
      (''rx_sample_rate'', s32)]"

definition audio_cal_info_vocvol :: ctype where
  "audio_cal_info_vocvol =
     StructT Natural [(''tx_acdb_id'', s32), (''rx_acdb_id'', s32), (''feature_set'', s32)]"

definition audio_cal_info_vocdev_cfg :: ctype where
  "audio_cal_info_vocdev_cfg =
     StructT Natural [(''tx_acdb_id'', s32), (''rx_acdb_id'', s32)]"

definition audio_cal_col_na :: ctype where
  "audio_cal_col_na =
     UnionT Packed [(''val8'', u8), (''val16'', u16), (''val32'', u32), (''val64'', u64)]"

definition audio_cal_col :: ctype where
  "audio_cal_col =
     StructT Packed [(''id'', u32), (''type'', u32), (''na_value'', audio_cal_col_na)]"

abbreviation MAX_VOICE_COLUMNS :: nat where "MAX_VOICE_COLUMNS \<equiv> 20"

definition audio_cal_col_data :: ctype where
  "audio_cal_col_data =
     StructT Packed [(''num_columns'', u32), (''column'', ArrT audio_cal_col MAX_VOICE_COLUMNS)]"

definition audio_cal_info_voc_col :: ctype where
  "audio_cal_info_voc_col =
     StructT Natural [(''table_id'', s32), (''tx_acdb_id'', s32), (''rx_acdb_id'', s32),
      (''data'', audio_cal_col_data)]"

definition audio_cal_type_basic :: ctype where
  "audio_cal_type_basic =
     StructT Natural [(''cal_hdr'', audio_cal_type_header), (''cal_data'', audio_cal_data)]"

definition audio_cal_basic :: ctype where
  "audio_cal_basic =
     StructT Natural [(''hdr'', audio_cal_header), (''cal_type'', audio_cal_type_basic)]"

definition audio_cal_type_adm_top :: ctype where
  "audio_cal_type_adm_top =
     StructT Natural [(''cal_hdr'', audio_cal_type_header), (''cal_data'', audio_cal_data),
      (''cal_info'', audio_cal_info_adm_top)]"

definition audio_cal_adm_top :: ctype where
  "audio_cal_adm_top =
     StructT Natural [(''hdr'', audio_cal_header), (''cal_type'', audio_cal_type_adm_top)]"

definition audio_cal_type_metainfo :: ctype where
  "audio_cal_type_metainfo =
     StructT Natural [(''cal_hdr'', audio_cal_type_header), (''cal_data'', audio_cal_data),
      (''cal_info'', audio_cal_info_metainfo)]"

definition audio_core_metainfo :: ctype where
  "audio_core_metainfo =
     StructT Natural [(''hdr'', audio_cal_header), (''cal_type'', audio_cal_type_metainfo)]"

definition audio_cal_type_audproc :: ctype where
  "audio_cal_type_audproc =
     StructT Natural [(''cal_hdr'', audio_cal_type_header), (''cal_data'', audio_cal_data),
      (''cal_info'', audio_cal_info_audproc)]"

definition audio_cal_audproc :: ctype where
  "audio_cal_audproc =
     StructT Natural [(''hdr'', audio_cal_header), (''cal_type'', audio_cal_type_audproc)]"

definition audio_cal_type_audvol :: ctype where
  "audio_cal_type_audvol =
     StructT Natural [(''cal_hdr'', audio_cal_type_header), (''cal_data'', audio_cal_data),
      (''cal_info'', audio_cal_info_audvol)]"

definition audio_cal_audvol :: ctype where
  "audio_cal_audvol =
     StructT Natural [(''hdr'', audio_cal_header), (''cal_type'', audio_cal_type_audvol)]"

definition audio_cal_type_asm_top :: ctype where
  "audio_cal_type_asm_top =
     StructT Natural [(''cal_hdr'', audio_cal_type_header), (''cal_data'', audio_cal_data),
      (''cal_info'', audio_cal_info_asm_top)]"

definition audio_cal_asm_top :: ctype where
  "audio_cal_asm_top =
     StructT Natural [(''hdr'', audio_cal_header), (''cal_type'', audio_cal_type_asm_top)]"

definition audio_cal_type_audstrm :: ctype where
  "audio_cal_type_audstrm =
     StructT Natural [(''cal_hdr'', audio_cal_type_header), (''cal_data'', audio_cal_data),
      (''cal_info'', audio_cal_info_audstrm)]"

definition audio_cal_audstrm :: ctype where
  "audio_cal_audstrm =
     StructT Natural [(''hdr'', audio_cal_header), (''cal_type'', audio_cal_type_audstrm)]"

definition audio_cal_type_afe :: ctype where
  "audio_cal_type_afe =
     StructT Natural [(''cal_hdr'', audio_cal_type_header), (''cal_data'', audio_cal_data),
      (''cal_info'', audio_cal_info_afe)]"

definition audio_cal_afe :: ctype where
  "audio_cal_afe =
     StructT Natural [(''hdr'', audio_cal_header), (''cal_type'', audio_cal_type_afe)]"

definition audio_cal_type_afe_top :: ctype where
  "audio_cal_type_afe_top =
     StructT Natural [(''cal_hdr'', audio_cal_type_header), (''cal_data'', audio_cal_data),
      (''cal_info'', audio_cal_info_afe_top)]"

definition audio_cal_afe_top :: ctype where
  "audio_cal_afe_top =
     StructT Natural [(''hdr'', audio_cal_header), (''cal_type'', audio_cal_type_afe_top)]"

definition audio_cal_type_aanc :: ctype where
  "audio_cal_type_aanc =
     StructT Natural [(''cal_hdr'', audio_cal_type_header), (''cal_data'', audio_cal_data),
      (''cal_info'', audio_cal_info_aanc)]"

definition audio_cal_aanc :: ctype where
  "audio_cal_aanc =
     StructT Natural [(''hdr'', audio_cal_header), (''cal_type'', audio_cal_type_aanc)]"

definition audio_cal_type_fb_spk_prot_cfg :: ctype where
  "audio_cal_type_fb_spk_prot_cfg =
     StructT Natural [(''cal_hdr'', audio_cal_type_header), (''cal_data'', audio_cal_data),
      (''cal_info'', audio_cal_info_spk_prot_cfg)]"

definition audio_cal_fb_spk_prot_cfg :: ctype where
  "audio_cal_fb_spk_prot_cfg =
     StructT Natural [(''hdr'', audio_cal_header),
      (''cal_type'', audio_cal_type_fb_spk_prot_cfg)]"

definition audio_cal_type_sp_th_vi_ftm_cfg :: ctype where
  "audio_cal_type_sp_th_vi_ftm_cfg =
     StructT Natural [(''cal_hdr'', audio_cal_type_header), (''cal_data'', audio_cal_data),
      (''cal_info'', audio_cal_info_sp_th_vi_ftm_cfg)]"

definition audio_cal_sp_th_vi_ftm_cfg :: ctype where
  "audio_cal_sp_th_vi_ftm_cfg =
     StructT Natural [(''hdr'', audio_cal_header),
      (''cal_type'', audio_cal_type_sp_th_vi_ftm_cfg)]"

definition audio_cal_type_sp_ex_vi_ftm_cfg :: ctype where
  "audio_cal_type_sp_ex_vi_ftm_cfg =
     StructT Natural [(''cal_hdr'', audio_cal_type_header), (''cal_data'', audio_cal_data),
      (''cal_info'', audio_cal_info_sp_ex_vi_ftm_cfg)]"

definition audio_cal_sp_ex_vi_ftm_cfg :: ctype where
  "audio_cal_sp_ex_vi_ftm_cfg =
     StructT Natural [(''hdr'', audio_cal_header),
      (''cal_type'', audio_cal_type_sp_ex_vi_ftm_cfg)]"

definition audio_cal_type_hw_delay :: ctype where
  "audio_cal_type_hw_delay =
     StructT Natural [(''cal_hdr'', audio_cal_type_header), (''cal_data'', audio_cal_data),
      (''cal_info'', audio_cal_info_hw_delay)]"

definition audio_cal_hw_delay :: ctype where
  "audio_cal_hw_delay =
     StructT Natural [(''hdr'', audio_cal_header), (''cal_type'', audio_cal_type_hw_delay)]"

definition audio_cal_type_sidetone :: ctype where
  "audio_cal_type_sidetone =
     StructT Natural [(''cal_hdr'', audio_cal_type_header), (''cal_data'', audio_cal_data),
      (''cal_info'', audio_cal_info_sidetone)]"

definition audio_cal_sidetone :: ctype where
  "audio_cal_sidetone =
     StructT Natural [(''hdr'', audio_cal_header), (''cal_type'', audio_cal_type_sidetone)]"

definition audio_cal_type_sidetone_iir :: ctype where
  "audio_cal_type_sidetone_iir =
     StructT Natural [(''cal_hdr'', audio_cal_type_header), (''cal_data'', audio_cal_data),
      (''cal_info'', audio_cal_info_sidetone_iir)]"

definition audio_cal_sidetone_iir :: ctype where
  "audio_cal_sidetone_iir =
     StructT Natural [(''hdr'', audio_cal_header), (''cal_type'', audio_cal_type_sidetone_iir)]"

definition audio_cal_type_lsm_top :: ctype where
  "audio_cal_type_lsm_top =
     StructT Natural [(''cal_hdr'', audio_cal_type_header), (''cal_data'', audio_cal_data),
      (''cal_info'', audio_cal_info_lsm_top)]"

definition audio_cal_lsm_top :: ctype where
  "audio_cal_lsm_top =
     StructT Natural [(''hdr'', audio_cal_header), (''cal_type'', audio_cal_type_lsm_top)]"

definition audio_cal_type_lsm :: ctype where
  "audio_cal_type_lsm =
     StructT Natural [(''cal_hdr'', audio_cal_type_header), (''cal_data'', audio_cal_data),
      (''cal_info'', audio_cal_info_lsm)]"

definition audio_cal_lsm :: ctype where
  "audio_cal_lsm =
     StructT Natural [(''hdr'', audio_cal_header), (''cal_type'', audio_cal_type_lsm)]"

definition audio_cal_type_voc_top :: ctype where
  "audio_cal_type_voc_top =
     StructT Natural [(''cal_hdr'', audio_cal_type_header), (''cal_data'', audio_cal_data),
      (''cal_info'', audio_cal_info_voc_top)]"

definition audio_cal_voc_top :: ctype where
  "audio_cal_voc_top =
     StructT Natural [(''hdr'', audio_cal_header), (''cal_type'', audio_cal_type_voc_top)]"

definition audio_cal_type_vocproc :: ctype where
  "audio_cal_type_vocproc =
     StructT Natural [(''cal_hdr'', audio_cal_type_header), (''cal_data'', audio_cal_data),
      (''cal_info'', audio_cal_info_vocproc)]"

definition audio_cal_vocproc :: ctype where
  "audio_cal_vocproc =
     StructT Natural [(''hdr'', audio_cal_header), (''cal_type'', audio_cal_type_vocproc)]"

definition audio_cal_type_vocvol :: ctype where
  "audio_cal_type_vocvol =
     StructT Natural [(''cal_hdr'', audio_cal_type_header), (''cal_data'', audio_cal_data),
      (''cal_info'', audio_cal_info_vocvol)]"

definition audio_cal_vocvol :: ctype where
  "audio_cal_vocvol =
     StructT Natural [(''hdr'', audio_cal_header), (''cal_type'', audio_cal_type_vocvol)]"

definition audio_cal_type_vocdev_cfg :: ctype where
  "audio_cal_type_vocdev_cfg =
     StructT Natural [(''cal_hdr'', audio_cal_type_header), (''cal_data'', audio_cal_data),
      (''cal_info'', audio_cal_info_vocdev_cfg)]"

definition audio_cal_vocdev_cfg :: ctype where
  "audio_cal_vocdev_cfg =
     StructT Natural [(''hdr'', audio_cal_header), (''cal_type'', audio_cal_type_vocdev_cfg)]"

definition audio_cal_type_voc_col :: ctype where
  "audio_cal_type_voc_col =
     StructT Natural [(''cal_hdr'', audio_cal_type_header), (''cal_data'', audio_cal_data),
      (''cal_info'', audio_cal_info_voc_col)]"

definition audio_cal_voc_col :: ctype where
  "audio_cal_voc_col =
     StructT Natural [(''hdr'', audio_cal_header), (''cal_type'', audio_cal_type_voc_col)]"

definition audio_cal_type_fb_spk_prot_status :: ctype where
  "audio_cal_type_fb_spk_prot_status =
     StructT Natural [(''cal_hdr'', audio_cal_type_header), (''cal_data'', audio_cal_data),
      (''cal_info'', audio_cal_info_msm_spk_prot_status)]"

definition audio_cal_fb_spk_prot_status :: ctype where
  "audio_cal_fb_spk_prot_status =
     StructT Natural [(''hdr'', audio_cal_header),
      (''cal_type'', audio_cal_type_fb_spk_prot_status)]"

definition audio_cal_type_sp_th_vi_param :: ctype where
  "audio_cal_type_sp_th_vi_param =
     StructT Natural [(''cal_hdr'', audio_cal_type_header), (''cal_data'', audio_cal_data),
      (''cal_info'', audio_cal_info_sp_th_vi_param)]"

definition audio_cal_sp_th_vi_param :: ctype where
  "audio_cal_sp_th_vi_param =
     StructT Natural [(''hdr'', audio_cal_header), (''cal_type'', audio_cal_type_sp_th_vi_param)]"

definition audio_cal_type_sp_ex_vi_param :: ctype where
  "audio_cal_type_sp_ex_vi_param =
     StructT Natural [(''cal_hdr'', audio_cal_type_header), (''cal_data'', audio_cal_data),
      (''cal_info'', audio_cal_info_sp_ex_vi_param)]"

definition audio_cal_sp_ex_vi_param :: ctype where
  "audio_cal_sp_ex_vi_param =
     StructT Natural [(''hdr'', audio_cal_header), (''cal_type'', audio_cal_type_sp_ex_vi_param)]"

definition msm_audio_calibration_1 :: "decl list" where
  "msm_audio_calibration_1 =
    [Flag ''_MSM_AUDIO_CALIBRATION_H'']"

abbreviation CAL_IOCTL_MAGIC :: nat where "CAL_IOCTL_MAGIC \<equiv> 97"

definition msm_audio_calibration_2 :: "decl list" where
  "msm_audio_calibration_2 =
    [Const ''CAL_IOCTL_MAGIC'' 97,
     Request ''AUDIO_ALLOCATE_CALIBRATION'' (IOWR CAL_IOCTL_MAGIC 200 PtrT),
     Request ''AUDIO_DEALLOCATE_CALIBRATION'' (IOWR CAL_IOCTL_MAGIC 201 PtrT),
     Request ''AUDIO_PREPARE_CALIBRATION'' (IOWR CAL_IOCTL_MAGIC 202 PtrT),
     Request ''AUDIO_SET_CALIBRATION'' (IOWR CAL_IOCTL_MAGIC 203 PtrT),
     Request ''AUDIO_GET_CALIBRATION'' (IOWR CAL_IOCTL_MAGIC 204 PtrT),
     Request ''AUDIO_POST_CALIBRATION'' (IOWR CAL_IOCTL_MAGIC 205 PtrT),
     Request ''AUDIO_GET_RTAC_ADM_INFO'' (IOR CAL_IOCTL_MAGIC 207 PtrT),
     Request ''AUDIO_GET_RTAC_VOICE_INFO'' (IOR CAL_IOCTL_MAGIC 208 PtrT),
     Request ''AUDIO_GET_RTAC_ADM_CAL'' (IOWR CAL_IOCTL_MAGIC 209 PtrT),
     Request ''AUDIO_SET_RTAC_ADM_CAL'' (IOWR CAL_IOCTL_MAGIC 210 PtrT),
     Request ''AUDIO_GET_RTAC_ASM_CAL'' (IOWR CAL_IOCTL_MAGIC 211 PtrT),
     Request ''AUDIO_SET_RTAC_ASM_CAL'' (IOWR CAL_IOCTL_MAGIC 212 PtrT),
     Request ''AUDIO_GET_RTAC_CVS_CAL'' (IOWR CAL_IOCTL_MAGIC 213 PtrT),
     Request ''AUDIO_SET_RTAC_CVS_CAL'' (IOWR CAL_IOCTL_MAGIC 214 PtrT),
     Request ''AUDIO_GET_RTAC_CVP_CAL'' (IOWR CAL_IOCTL_MAGIC 215 PtrT),
     Request ''AUDIO_SET_RTAC_CVP_CAL'' (IOWR CAL_IOCTL_MAGIC 216 PtrT),
     Request ''AUDIO_GET_RTAC_AFE_CAL'' (IOWR CAL_IOCTL_MAGIC 217 PtrT),
     Request ''AUDIO_SET_RTAC_AFE_CAL'' (IOWR CAL_IOCTL_MAGIC 218 PtrT),
     Enum '''' [(''CVP_VOC_RX_TOPOLOGY_CAL_TYPE'', 0), (''CVP_VOC_TX_TOPOLOGY_CAL_TYPE'', 1),
       (''CVP_VOCPROC_STATIC_CAL_TYPE'', 2), (''CVP_VOCPROC_DYNAMIC_CAL_TYPE'', 3),
       (''CVS_VOCSTRM_STATIC_CAL_TYPE'', 4), (''CVP_VOCDEV_CFG_CAL_TYPE'', 5),
       (''CVP_VOCPROC_STATIC_COL_CAL_TYPE'', 6), (''CVP_VOCPROC_DYNAMIC_COL_CAL_TYPE'', 7),
       (''CVS_VOCSTRM_STATIC_COL_CAL_TYPE'', 8), (''ADM_TOPOLOGY_CAL_TYPE'', 9),
       (''ADM_CUST_TOPOLOGY_CAL_TYPE'', 10), (''ADM_AUDPROC_CAL_TYPE'', 11),
       (''ADM_AUDVOL_CAL_TYPE'', 12), (''ASM_TOPOLOGY_CAL_TYPE'', 13),
       (''ASM_CUST_TOPOLOGY_CAL_TYPE'', 14), (''ASM_AUDSTRM_CAL_TYPE'', 15),
       (''AFE_COMMON_RX_CAL_TYPE'', 16), (''AFE_COMMON_TX_CAL_TYPE'', 17),
       (''AFE_ANC_CAL_TYPE'', 18), (''AFE_AANC_CAL_TYPE'', 19),
       (''AFE_FB_SPKR_PROT_CAL_TYPE'', 20), (''AFE_HW_DELAY_CAL_TYPE'', 21),
       (''AFE_SIDETONE_CAL_TYPE'', 22), (''AFE_TOPOLOGY_CAL_TYPE'', 23),
       (''AFE_CUST_TOPOLOGY_CAL_TYPE'', 24), (''LSM_CUST_TOPOLOGY_CAL_TYPE'', 25),
       (''LSM_TOPOLOGY_CAL_TYPE'', 26), (''LSM_CAL_TYPE'', 27), (''ADM_RTAC_INFO_CAL_TYPE'', 28),
       (''VOICE_RTAC_INFO_CAL_TYPE'', 29), (''ADM_RTAC_APR_CAL_TYPE'', 30),
       (''ASM_RTAC_APR_CAL_TYPE'', 31), (''VOICE_RTAC_APR_CAL_TYPE'', 32),
       (''MAD_CAL_TYPE'', 33), (''ULP_AFE_CAL_TYPE'', 34), (''ULP_LSM_CAL_TYPE'', 35),
       (''DTS_EAGLE_CAL_TYPE'', 36), (''AUDIO_CORE_METAINFO_CAL_TYPE'', 37),
       (''SRS_TRUMEDIA_CAL_TYPE'', 38), (''CORE_CUSTOM_TOPOLOGIES_CAL_TYPE'', 39),
       (''ADM_RTAC_AUDVOL_CAL_TYPE'', 40), (''ULP_LSM_TOPOLOGY_ID_CAL_TYPE'', 41),
       (''AFE_FB_SPKR_PROT_TH_VI_CAL_TYPE'', 42), (''AFE_FB_SPKR_PROT_EX_VI_CAL_TYPE'', 43),
       (''AFE_SIDETONE_IIR_CAL_TYPE'', 44), (''AFE_LSM_TOPOLOGY_CAL_TYPE'', 45),
       (''AFE_LSM_TX_CAL_TYPE'', 46), (''ADM_LSM_TOPOLOGY_CAL_TYPE'', 47),
       (''ADM_LSM_AUDPROC_CAL_TYPE'', 48), (''MAX_CAL_TYPES'', 49)],
     Const ''AFE_FB_SPKR_PROT_TH_VI_CAL_TYPE'' 42, Const ''AFE_FB_SPKR_PROT_EX_VI_CAL_TYPE'' 43,
     Const ''AFE_SIDETONE_IIR_CAL_TYPE'' 44, Const ''AFE_LSM_TOPOLOGY_CAL_TYPE'' 45,
     Const ''AFE_LSM_TX_CAL_TYPE'' 46, Const ''ADM_LSM_TOPOLOGY_CAL_TYPE'' 47,
     Const ''ADM_LSM_AUDPROC_CAL_TYPE'' 48, Flag ''LSM_CAL_TYPES'',
     Flag ''TOPOLOGY_SPECIFIC_CHANNEL_INFO'', Flag ''MSM_SPKR_PROT_SPV3'',
     Enum '''' [(''VERSION_0_0'', 0)], Enum '''' [(''PER_VOCODER_CAL_BIT_MASK'', 65536)],
     Const ''MAX_IOCTL_CMD_SIZE'' 512, Struct ''audio_cal_header'' audio_cal_header,
     Struct ''audio_cal_type_header'' audio_cal_type_header,
     Struct ''audio_cal_data'' audio_cal_data]"

definition msm_audio_calibration_3 :: "decl list" where
  "msm_audio_calibration_3 =
    [Struct ''audio_cal_type_alloc'' audio_cal_type_alloc,
     Struct ''audio_cal_alloc'' audio_cal_alloc,
     Struct ''audio_cal_type_dealloc'' audio_cal_type_dealloc,
     Struct ''audio_cal_dealloc'' audio_cal_dealloc,
     Struct ''audio_cal_type_prepare'' audio_cal_type_prepare,
     Struct ''audio_cal_prepare'' audio_cal_prepare,
     Struct ''audio_cal_type_post'' audio_cal_type_post,
     Struct ''audio_cal_post'' audio_cal_post,
     Struct ''audio_cal_info_metainfo'' audio_cal_info_metainfo,
     Enum '''' [(''RX_DEVICE'', 0), (''TX_DEVICE'', 1), (''MAX_PATH_TYPE'', 2)],
     Struct ''audio_cal_info_adm_top'' audio_cal_info_adm_top,
     Struct ''audio_cal_info_audproc'' audio_cal_info_audproc,
     Struct ''audio_cal_info_audvol'' audio_cal_info_audvol,
     Struct ''audio_cal_info_afe'' audio_cal_info_afe,
     Struct ''audio_cal_info_afe_top'' audio_cal_info_afe_top,
     Struct ''audio_cal_info_asm_top'' audio_cal_info_asm_top,
     Struct ''audio_cal_info_audstrm'' audio_cal_info_audstrm,
     Struct ''audio_cal_info_aanc'' audio_cal_info_aanc, Const ''MAX_HW_DELAY_ENTRIES'' 25,
     Struct ''audio_cal_hw_delay_entry'' audio_cal_hw_delay_entry,
     Struct ''audio_cal_hw_delay_data'' audio_cal_hw_delay_data,
     Struct ''audio_cal_info_hw_delay'' audio_cal_info_hw_delay,
     Enum ''msm_spkr_prot_states'' [(''MSM_SPKR_PROT_CALIBRATED'', 0),
       (''MSM_SPKR_PROT_CALIBRATION_IN_PROGRESS'', 1), (''MSM_SPKR_PROT_DISABLED'', 2),
       (''MSM_SPKR_PROT_NOT_CALIBRATED'', 3), (''MSM_SPKR_PROT_PRE_CALIBRATED'', 4),
       (''MSM_SPKR_PROT_IN_FTM_MODE'', 5)],
     Const ''MSM_SPKR_PROT_IN_FTM_MODE'' 5,
     Enum ''msm_spkr_count'' [(''SP_V2_SPKR_1'', 0), (''SP_V2_SPKR_2'', 1),
       (''SP_V2_NUM_MAX_SPKRS'', 2)]]"

definition msm_audio_calibration_4 :: "decl list" where
  "msm_audio_calibration_4 =
    [Struct ''audio_cal_info_spk_prot_cfg'' audio_cal_info_spk_prot_cfg,
     Struct ''audio_cal_info_sp_th_vi_ftm_cfg'' audio_cal_info_sp_th_vi_ftm_cfg,
     Struct ''audio_cal_info_sp_ex_vi_ftm_cfg'' audio_cal_info_sp_ex_vi_ftm_cfg,
     Struct ''audio_cal_info_sp_ex_vi_param'' audio_cal_info_sp_ex_vi_param,
     Struct ''audio_cal_info_sp_th_vi_param'' audio_cal_info_sp_th_vi_param,
     Struct ''audio_cal_info_msm_spk_prot_status'' audio_cal_info_msm_spk_prot_status,
     Struct ''audio_cal_info_sidetone'' audio_cal_info_sidetone,
     Const ''MAX_SIDETONE_IIR_DATA_SIZE'' 224, Const ''MAX_NO_IIR_FILTER_STAGE'' 10,
     Struct ''audio_cal_info_sidetone_iir'' audio_cal_info_sidetone_iir,
     Struct ''audio_cal_info_lsm_top'' audio_cal_info_lsm_top,
     Struct ''audio_cal_info_lsm'' audio_cal_info_lsm, Const ''VSS_NUM_CHANNELS_MAX'' 8,
     Struct ''audio_cal_info_voc_top'' audio_cal_info_voc_top,
     Struct ''audio_cal_info_vocproc'' audio_cal_info_vocproc,
     Enum '''' [(''DEFAULT_FEATURE_SET'', 0), (''VOL_BOOST_FEATURE_SET'', 1)],
     Struct ''audio_cal_info_vocvol'' audio_cal_info_vocvol,
     Struct ''audio_cal_info_vocdev_cfg'' audio_cal_info_vocdev_cfg,
     Const ''MAX_VOICE_COLUMNS'' 20, Struct ''audio_cal_col_na'' audio_cal_col_na,
     Struct ''audio_cal_col'' audio_cal_col, Struct ''audio_cal_col_data'' audio_cal_col_data]"

definition msm_audio_calibration_5 :: "decl list" where
  "msm_audio_calibration_5 =
    [Struct ''audio_cal_info_voc_col'' audio_cal_info_voc_col,
     Struct ''audio_cal_type_basic'' audio_cal_type_basic,
     Struct ''audio_cal_basic'' audio_cal_basic,
     Struct ''audio_cal_type_adm_top'' audio_cal_type_adm_top,
     Struct ''audio_cal_adm_top'' audio_cal_adm_top,
     Struct ''audio_cal_type_metainfo'' audio_cal_type_metainfo,
     Struct ''audio_core_metainfo'' audio_core_metainfo,
     Struct ''audio_cal_type_audproc'' audio_cal_type_audproc,
     Struct ''audio_cal_audproc'' audio_cal_audproc,
     Struct ''audio_cal_type_audvol'' audio_cal_type_audvol,
     Struct ''audio_cal_audvol'' audio_cal_audvol,
     Struct ''audio_cal_type_asm_top'' audio_cal_type_asm_top,
     Struct ''audio_cal_asm_top'' audio_cal_asm_top,
     Struct ''audio_cal_type_audstrm'' audio_cal_type_audstrm,
     Struct ''audio_cal_audstrm'' audio_cal_audstrm,
     Struct ''audio_cal_type_afe'' audio_cal_type_afe, Struct ''audio_cal_afe'' audio_cal_afe,
     Struct ''audio_cal_type_afe_top'' audio_cal_type_afe_top,
     Struct ''audio_cal_afe_top'' audio_cal_afe_top,
     Struct ''audio_cal_type_aanc'' audio_cal_type_aanc,
     Struct ''audio_cal_aanc'' audio_cal_aanc,
     Struct ''audio_cal_type_fb_spk_prot_cfg'' audio_cal_type_fb_spk_prot_cfg,
     Struct ''audio_cal_fb_spk_prot_cfg'' audio_cal_fb_spk_prot_cfg,
     Struct ''audio_cal_type_sp_th_vi_ftm_cfg'' audio_cal_type_sp_th_vi_ftm_cfg,
     Struct ''audio_cal_sp_th_vi_ftm_cfg'' audio_cal_sp_th_vi_ftm_cfg,
     Struct ''audio_cal_type_sp_ex_vi_ftm_cfg'' audio_cal_type_sp_ex_vi_ftm_cfg,
     Struct ''audio_cal_sp_ex_vi_ftm_cfg'' audio_cal_sp_ex_vi_ftm_cfg]"

definition msm_audio_calibration_6 :: "decl list" where
  "msm_audio_calibration_6 =
    [Struct ''audio_cal_type_hw_delay'' audio_cal_type_hw_delay,
     Struct ''audio_cal_hw_delay'' audio_cal_hw_delay,
     Struct ''audio_cal_type_sidetone'' audio_cal_type_sidetone,
     Struct ''audio_cal_sidetone'' audio_cal_sidetone,
     Struct ''audio_cal_type_sidetone_iir'' audio_cal_type_sidetone_iir,
     Struct ''audio_cal_sidetone_iir'' audio_cal_sidetone_iir,
     Struct ''audio_cal_type_lsm_top'' audio_cal_type_lsm_top,
     Struct ''audio_cal_lsm_top'' audio_cal_lsm_top,
     Struct ''audio_cal_type_lsm'' audio_cal_type_lsm, Struct ''audio_cal_lsm'' audio_cal_lsm,
     Struct ''audio_cal_type_voc_top'' audio_cal_type_voc_top,
     Struct ''audio_cal_voc_top'' audio_cal_voc_top,
     Struct ''audio_cal_type_vocproc'' audio_cal_type_vocproc,
     Struct ''audio_cal_vocproc'' audio_cal_vocproc,
     Struct ''audio_cal_type_vocvol'' audio_cal_type_vocvol,
     Struct ''audio_cal_vocvol'' audio_cal_vocvol,
     Struct ''audio_cal_type_vocdev_cfg'' audio_cal_type_vocdev_cfg,
     Struct ''audio_cal_vocdev_cfg'' audio_cal_vocdev_cfg,
     Struct ''audio_cal_type_voc_col'' audio_cal_type_voc_col,
     Struct ''audio_cal_voc_col'' audio_cal_voc_col,
     Struct ''audio_cal_type_fb_spk_prot_status'' audio_cal_type_fb_spk_prot_status,
     Struct ''audio_cal_fb_spk_prot_status'' audio_cal_fb_spk_prot_status,
     Struct ''audio_cal_type_sp_th_vi_param'' audio_cal_type_sp_th_vi_param,
     Struct ''audio_cal_sp_th_vi_param'' audio_cal_sp_th_vi_param,
     Struct ''audio_cal_type_sp_ex_vi_param'' audio_cal_type_sp_ex_vi_param,
     Struct ''audio_cal_sp_ex_vi_param'' audio_cal_sp_ex_vi_param]"

definition msm_audio_calibration_h :: "decl list" where
  "msm_audio_calibration_h = msm_audio_calibration_1 @ msm_audio_calibration_2 @ msm_audio_calibration_3 @
     msm_audio_calibration_4 @ msm_audio_calibration_5 @ msm_audio_calibration_6"

subsection \<open>sound/msmcal-hwdep.h\<close>

definition wcdcal_ioctl_buffer :: ctype where
  "wcdcal_ioctl_buffer =
     StructT Natural [(''size'', u32), (''buffer'', PtrT),
      (''cal_type'', EnumT ''wcd_cal_type'')]"

definition msmcal_hwdep_1 :: "decl list" where
  "msmcal_hwdep_1 =
    [Flag ''_CALIB_HWDEP_H'', Const ''WCD9XXX_CODEC_HWDEP_NODE'' 1000,
     Enum ''wcd_cal_type'' [(''WCD9XXX_MIN_CAL'', 0), (''WCD9XXX_ANC_CAL'', 0),
       (''WCD9XXX_MAD_CAL'', 1), (''WCD9XXX_MBHC_CAL'', 2), (''WCD9XXX_VBAT_CAL'', 3),
       (''WCD9XXX_MAX_CAL'', 4)],
     Struct ''wcdcal_ioctl_buffer'' wcdcal_ioctl_buffer,
     Request ''SNDRV_CTL_IOCTL_HWDEP_CAL_TYPE'' (IOW 85 1 wcdcal_ioctl_buffer)]"

definition msmcal_hwdep_h :: "decl list" where
  "msmcal_hwdep_h = msmcal_hwdep_1"

lemmas cal_structs =
  audio_cal_header_def audio_cal_type_header_def audio_cal_data_def audio_cal_type_alloc_def
  audio_cal_alloc_def audio_cal_type_dealloc_def audio_cal_dealloc_def audio_cal_type_prepare_def
  audio_cal_prepare_def audio_cal_type_post_def audio_cal_post_def audio_cal_info_metainfo_def
  audio_cal_info_adm_top_def audio_cal_info_audproc_def audio_cal_info_audvol_def
  audio_cal_info_afe_def audio_cal_info_afe_top_def audio_cal_info_asm_top_def
  audio_cal_info_audstrm_def audio_cal_info_aanc_def audio_cal_hw_delay_entry_def
  audio_cal_hw_delay_data_def audio_cal_info_hw_delay_def audio_cal_info_spk_prot_cfg_def
  audio_cal_info_sp_th_vi_ftm_cfg_def audio_cal_info_sp_ex_vi_ftm_cfg_def
  audio_cal_info_sp_ex_vi_param_def audio_cal_info_sp_th_vi_param_def
  audio_cal_info_msm_spk_prot_status_def audio_cal_info_sidetone_def
  audio_cal_info_sidetone_iir_def audio_cal_info_lsm_top_def audio_cal_info_lsm_def
  audio_cal_info_voc_top_def audio_cal_info_vocproc_def audio_cal_info_vocvol_def
  audio_cal_info_vocdev_cfg_def audio_cal_col_na_def audio_cal_col_def audio_cal_col_data_def
  audio_cal_info_voc_col_def audio_cal_type_basic_def audio_cal_basic_def
  audio_cal_type_adm_top_def audio_cal_adm_top_def audio_cal_type_metainfo_def
  audio_core_metainfo_def audio_cal_type_audproc_def audio_cal_audproc_def
  audio_cal_type_audvol_def audio_cal_audvol_def audio_cal_type_asm_top_def audio_cal_asm_top_def
  audio_cal_type_audstrm_def audio_cal_audstrm_def audio_cal_type_afe_def audio_cal_afe_def
  audio_cal_type_afe_top_def audio_cal_afe_top_def audio_cal_type_aanc_def audio_cal_aanc_def
  audio_cal_type_fb_spk_prot_cfg_def audio_cal_fb_spk_prot_cfg_def
  audio_cal_type_sp_th_vi_ftm_cfg_def audio_cal_sp_th_vi_ftm_cfg_def
  audio_cal_type_sp_ex_vi_ftm_cfg_def audio_cal_sp_ex_vi_ftm_cfg_def audio_cal_type_hw_delay_def
  audio_cal_hw_delay_def audio_cal_type_sidetone_def audio_cal_sidetone_def
  audio_cal_type_sidetone_iir_def audio_cal_sidetone_iir_def audio_cal_type_lsm_top_def
  audio_cal_lsm_top_def audio_cal_type_lsm_def audio_cal_lsm_def audio_cal_type_voc_top_def
  audio_cal_voc_top_def audio_cal_type_vocproc_def audio_cal_vocproc_def
  audio_cal_type_vocvol_def audio_cal_vocvol_def audio_cal_type_vocdev_cfg_def
  audio_cal_vocdev_cfg_def audio_cal_type_voc_col_def audio_cal_voc_col_def
  audio_cal_type_fb_spk_prot_status_def audio_cal_fb_spk_prot_status_def
  audio_cal_type_sp_th_vi_param_def audio_cal_sp_th_vi_param_def
  audio_cal_type_sp_ex_vi_param_def audio_cal_sp_ex_vi_param_def wcdcal_ioctl_buffer_def

lemmas cal_decls =
  msm_audio_calibration_1_def msm_audio_calibration_2_def msm_audio_calibration_3_def
  msm_audio_calibration_4_def msm_audio_calibration_5_def msm_audio_calibration_6_def
  msmcal_hwdep_1_def msm_audio_calibration_h_def msmcal_hwdep_h_def

text \<open>All structures and unions, in the order of the files.\<close>

definition cal_types :: "ctype list" where
  "cal_types =
    [audio_cal_header, audio_cal_type_header, audio_cal_data, audio_cal_type_alloc,
     audio_cal_alloc, audio_cal_type_dealloc, audio_cal_dealloc, audio_cal_type_prepare,
     audio_cal_prepare, audio_cal_type_post, audio_cal_post, audio_cal_info_metainfo,
     audio_cal_info_adm_top, audio_cal_info_audproc, audio_cal_info_audvol, audio_cal_info_afe,
     audio_cal_info_afe_top, audio_cal_info_asm_top, audio_cal_info_audstrm,
     audio_cal_info_aanc, audio_cal_hw_delay_entry, audio_cal_hw_delay_data,
     audio_cal_info_hw_delay, audio_cal_info_spk_prot_cfg, audio_cal_info_sp_th_vi_ftm_cfg,
     audio_cal_info_sp_ex_vi_ftm_cfg, audio_cal_info_sp_ex_vi_param,
     audio_cal_info_sp_th_vi_param, audio_cal_info_msm_spk_prot_status, audio_cal_info_sidetone,
     audio_cal_info_sidetone_iir, audio_cal_info_lsm_top, audio_cal_info_lsm,
     audio_cal_info_voc_top, audio_cal_info_vocproc, audio_cal_info_vocvol,
     audio_cal_info_vocdev_cfg, audio_cal_col_na, audio_cal_col, audio_cal_col_data,
     audio_cal_info_voc_col, audio_cal_type_basic, audio_cal_basic, audio_cal_type_adm_top,
     audio_cal_adm_top, audio_cal_type_metainfo, audio_core_metainfo, audio_cal_type_audproc,
     audio_cal_audproc, audio_cal_type_audvol, audio_cal_audvol, audio_cal_type_asm_top,
     audio_cal_asm_top, audio_cal_type_audstrm, audio_cal_audstrm, audio_cal_type_afe,
     audio_cal_afe, audio_cal_type_afe_top, audio_cal_afe_top, audio_cal_type_aanc,
     audio_cal_aanc, audio_cal_type_fb_spk_prot_cfg, audio_cal_fb_spk_prot_cfg,
     audio_cal_type_sp_th_vi_ftm_cfg, audio_cal_sp_th_vi_ftm_cfg,
     audio_cal_type_sp_ex_vi_ftm_cfg, audio_cal_sp_ex_vi_ftm_cfg, audio_cal_type_hw_delay,
     audio_cal_hw_delay, audio_cal_type_sidetone, audio_cal_sidetone,
     audio_cal_type_sidetone_iir, audio_cal_sidetone_iir, audio_cal_type_lsm_top,
     audio_cal_lsm_top, audio_cal_type_lsm, audio_cal_lsm, audio_cal_type_voc_top,
     audio_cal_voc_top, audio_cal_type_vocproc, audio_cal_vocproc, audio_cal_type_vocvol,
     audio_cal_vocvol, audio_cal_type_vocdev_cfg, audio_cal_vocdev_cfg, audio_cal_type_voc_col,
     audio_cal_voc_col, audio_cal_type_fb_spk_prot_status, audio_cal_fb_spk_prot_status,
     audio_cal_type_sp_th_vi_param, audio_cal_sp_th_vi_param, audio_cal_type_sp_ex_vi_param,
     audio_cal_sp_ex_vi_param, wcdcal_ioctl_buffer]"

text \<open>The structures made to look the same to 32-bit and 64-bit processes.\<close>

definition cal_portable :: "ctype list" where
  "cal_portable =
    [audio_cal_header, audio_cal_type_header, audio_cal_data, audio_cal_type_alloc,
     audio_cal_alloc, audio_cal_type_dealloc, audio_cal_dealloc, audio_cal_type_prepare,
     audio_cal_prepare, audio_cal_type_post, audio_cal_post, audio_cal_info_metainfo,
     audio_cal_info_adm_top, audio_cal_info_audproc, audio_cal_info_audvol, audio_cal_info_afe,
     audio_cal_info_afe_top, audio_cal_info_asm_top, audio_cal_info_audstrm,
     audio_cal_info_aanc, audio_cal_hw_delay_entry, audio_cal_hw_delay_data,
     audio_cal_info_hw_delay, audio_cal_info_spk_prot_cfg, audio_cal_info_sp_th_vi_ftm_cfg,
     audio_cal_info_sp_ex_vi_ftm_cfg, audio_cal_info_sp_ex_vi_param,
     audio_cal_info_sp_th_vi_param, audio_cal_info_msm_spk_prot_status, audio_cal_info_sidetone,
     audio_cal_info_sidetone_iir, audio_cal_info_lsm_top, audio_cal_info_lsm,
     audio_cal_info_voc_top, audio_cal_info_vocproc, audio_cal_info_vocvol,
     audio_cal_info_vocdev_cfg, audio_cal_col_na, audio_cal_col, audio_cal_col_data,
     audio_cal_info_voc_col, audio_cal_type_basic, audio_cal_basic, audio_cal_type_adm_top,
     audio_cal_adm_top, audio_cal_type_metainfo, audio_core_metainfo, audio_cal_type_audproc,
     audio_cal_audproc, audio_cal_type_audvol, audio_cal_audvol, audio_cal_type_asm_top,
     audio_cal_asm_top, audio_cal_type_audstrm, audio_cal_audstrm, audio_cal_type_afe,
     audio_cal_afe, audio_cal_type_afe_top, audio_cal_afe_top, audio_cal_type_aanc,
     audio_cal_aanc, audio_cal_type_fb_spk_prot_cfg, audio_cal_fb_spk_prot_cfg,
     audio_cal_type_sp_th_vi_ftm_cfg, audio_cal_sp_th_vi_ftm_cfg,
     audio_cal_type_sp_ex_vi_ftm_cfg, audio_cal_sp_ex_vi_ftm_cfg, audio_cal_type_hw_delay,
     audio_cal_hw_delay, audio_cal_type_sidetone, audio_cal_sidetone,
     audio_cal_type_sidetone_iir, audio_cal_sidetone_iir, audio_cal_type_lsm_top,
     audio_cal_lsm_top, audio_cal_type_lsm, audio_cal_lsm, audio_cal_type_voc_top,
     audio_cal_voc_top, audio_cal_type_vocproc, audio_cal_vocproc, audio_cal_type_vocvol,
     audio_cal_vocvol, audio_cal_type_vocdev_cfg, audio_cal_vocdev_cfg, audio_cal_type_voc_col,
     audio_cal_voc_col, audio_cal_type_fb_spk_prot_status, audio_cal_fb_spk_prot_status,
     audio_cal_type_sp_th_vi_param, audio_cal_sp_th_vi_param, audio_cal_type_sp_ex_vi_param,
     audio_cal_sp_ex_vi_param]"

end
