(* ===== verification/LayoutAudio.thy ===== *)
theory LayoutAudio
  imports CLayout
begin

text \<open>
  The headers the kernel is built with (under sdm710/original-kernel-headers) of audio
  devices, effects and voice (linux/msm\_audio.h and others): every structure and union with
  its fields in order; then, for every file, the list of its declarations, in blocks:
  structures, enumerations, number macros and device requests. A type of the C library or of
  a header that is not in the repository is a foreign type.
\<close>

subsection \<open>linux/msm_audio.h\<close>

definition msm_audio_config :: ctype where
  "msm_audio_config =
     StructT Natural [(''buffer_size'', u32), (''buffer_count'', u32), (''channel_count'', u32),
      (''sample_rate'', u32), (''type'', u32), (''meta_field'', u32), (''bits'', u32),
      (''unused'', ArrT u32 3)]"

definition msm_audio_stream_config :: ctype where
  "msm_audio_stream_config =
     StructT Natural [(''buffer_size'', u32), (''buffer_count'', u32)]"

definition msm_audio_buf_cfg :: ctype where
  "msm_audio_buf_cfg =
     StructT Natural [(''meta_info_enable'', u32), (''frames_per_buf'', u32)]"

definition msm_audio_stats :: ctype where
  "msm_audio_stats =
     StructT Natural [(''byte_count'', u32), (''sample_count'', u32), (''unused'', ArrT u32 2)]"

definition msm_audio_ion_info :: ctype where
  "msm_audio_ion_info =
     StructT Natural [(''fd'', s32), (''vaddr'', PtrT)]"

definition msm_audio_pmem_info :: ctype where
  "msm_audio_pmem_info =
     StructT Natural [(''fd'', s32), (''vaddr'', PtrT)]"

definition msm_audio_aio_buf :: ctype where
  "msm_audio_aio_buf =
     StructT Natural [(''buf_addr'', PtrT), (''buf_len'', u32), (''data_len'', u32),
      (''private_data'', PtrT), (''mfield_sz'', u16)]"

definition msm_mute_info :: ctype where
  "msm_mute_info =
     StructT Natural [(''mute'', u32), (''path'', u32)]"

definition msm_vol_info :: ctype where
  "msm_vol_info =
     StructT Natural [(''vol'', u32), (''path'', u32)]"

definition msm_voicerec_mode :: ctype where
  "msm_voicerec_mode =
     StructT Natural [(''rec_mode'', u32)]"

definition msm_snd_device_config :: ctype where
  "msm_snd_device_config =
     StructT Natural [(''device'', u32), (''ear_mute'', u32), (''mic_mute'', u32)]"

definition cad_devices_type :: ctype where
  "cad_devices_type =
     StructT Natural [(''rx_device'', u32), (''tx_device'', u32),
      (''pathtype'', EnumT ''cad_device_path_type'')]"

definition msm_cad_device_config :: ctype where
  "msm_cad_device_config =
     StructT Natural [(''device'', cad_devices_type), (''ear_mute'', u32), (''mic_mute'', u32)]"

definition msm_snd_volume_config :: ctype where
  "msm_snd_volume_config =
     StructT Natural [(''device'', u32), (''method'', u32), (''volume'', u32)]"

definition msm_cad_volume_config :: ctype where
  "msm_cad_volume_config =
     StructT Natural [(''device'', cad_devices_type), (''method'', u32), (''volume'', u32)]"

definition msm_snd_endpoint :: ctype where
  "msm_snd_endpoint =
     StructT Natural [(''id'', s32), (''name'', ArrT CharT 64)]"

definition msm_cad_endpoint :: ctype where
  "msm_cad_endpoint =
     StructT Natural [(''id'', s32), (''name'', ArrT CharT 64)]"

definition msm_audio_pcm_config :: ctype where
  "msm_audio_pcm_config =
     StructT Natural [(''pcm_feedback'', u32), (''buffer_count'', u32), (''buffer_size'', u32)]"

definition msm_audio_bitstream_info :: ctype where
  "msm_audio_bitstream_info =
     StructT Natural [(''codec_type'', u32), (''chan_info'', u32), (''sample_rate'', u32),
      (''bit_stream_info'', u32), (''bit_rate'', u32), (''unused'', ArrT u32 3)]"

definition msm_audio_bitstream_error_info :: ctype where
  "msm_audio_bitstream_error_info =
     StructT Natural [(''dec_id'', u32), (''err_msg_indicator'', u32), (''err_type'', u32)]"

definition msm_audio_event_payload :: ctype where
  "msm_audio_event_payload =
     UnionT Natural [(''aio_buf'', msm_audio_aio_buf),
      (''stream_info'', msm_audio_bitstream_info),
      (''error_info'', msm_audio_bitstream_error_info), (''reserved'', s32)]"

definition msm_audio_event :: ctype where
  "msm_audio_event =
     StructT Natural [(''event_type'', s32), (''timeout_ms'', s32),
      (''event_payload'', msm_audio_event_payload)]"

definition msm_snd_device_info :: ctype where
  "msm_snd_device_info =
     StructT Natural [(''dev_id'', u32), (''dev_cap'', u32), (''dev_name'', ArrT CharT 64)]"

definition msm_snd_device_list :: ctype where
  "msm_snd_device_list =
     StructT Natural [(''num_dev'', u32), (''list'', PtrT)]"

definition msm_dtmf_config :: ctype where
  "msm_dtmf_config =
     StructT Natural [(''path'', u16), (''dtmf_hi'', u16), (''dtmf_low'', u16),
      (''duration'', u16), (''tx_gain'', u16), (''rx_gain'', u16), (''mixing'', u16)]"

definition msm_audio_route_config :: ctype where
  "msm_audio_route_config =
     StructT Natural [(''stream_type'', u32), (''stream_id'', u32), (''dev_id'', u32)]"

definition msm_audio_eq_band :: ctype where
  "msm_audio_eq_band =
     StructT Packed [(''band_idx'', u16), (''filter_type'', u32), (''center_freq_hz'', u32),
      (''filter_gain'', u32), (''q_factor'', u32)]"

abbreviation AUDIO_MAX_EQ_BANDS :: nat where "AUDIO_MAX_EQ_BANDS \<equiv> 12"

definition msm_audio_eq_stream_config :: ctype where
  "msm_audio_eq_stream_config =
     StructT Packed [(''enable'', u32), (''num_bands'', u32),
      (''eq_bands'', ArrT msm_audio_eq_band AUDIO_MAX_EQ_BANDS)]"

definition msm_acdb_cmd_device :: ctype where
  "msm_acdb_cmd_device =
     StructT Natural [(''command_id'', u32), (''device_id'', u32), (''network_id'', u32),
      (''sample_rate_id'', u32), (''interface_id'', u32), (''algorithm_block_id'', u32),
      (''total_bytes'', u32), (''phys_buf'', PtrT)]"

definition msm_hwacc_data_config :: ctype where
  "msm_hwacc_data_config =
     StructT Natural [(''buf_size'', u32), (''num_buf'', u32), (''num_channels'', u32),
      (''channel_map'', ArrT u8 8), (''sample_rate'', u32), (''bits_per_sample'', u32)]"

definition msm_hwacc_buf_cfg :: ctype where
  "msm_hwacc_buf_cfg =
     StructT Natural [(''input_len'', u32), (''output_len'', u32)]"

definition msm_hwacc_buf_avail :: ctype where
  "msm_hwacc_buf_avail =
     StructT Natural [(''input_num_avail'', u32), (''output_num_avail'', u32)]"

definition msm_hwacc_effects_config :: ctype where
  "msm_hwacc_effects_config =
     StructT Natural [(''input'', msm_hwacc_data_config), (''output'', msm_hwacc_data_config),
      (''buf_cfg'', msm_hwacc_buf_cfg), (''meta_mode_enabled'', u32),
      (''overwrite_topology'', u32), (''topology'', s32)]"

definition msm_adsp_event_data :: ctype where
  "msm_adsp_event_data =
     StructT Natural [(''event_type'', u32), (''payload_len'', u32), (''payload'', ArrT u8 0)]"

definition msm_audio_1 :: "decl list" where
  "msm_audio_1 =
    [Flag ''_LINUX_MSM_AUDIO_H'']"

abbreviation AUDIO_IOCTL_MAGIC :: nat where "AUDIO_IOCTL_MAGIC \<equiv> 97"

definition msm_audio_2 :: "decl list" where
  "msm_audio_2 =
    [Const ''AUDIO_IOCTL_MAGIC'' 97, Request ''AUDIO_START'' (IOW AUDIO_IOCTL_MAGIC 0 u32),
     Request ''AUDIO_STOP'' (IOW AUDIO_IOCTL_MAGIC 1 u32),
     Request ''AUDIO_FLUSH'' (IOW AUDIO_IOCTL_MAGIC 2 u32),
     Request ''AUDIO_GET_CONFIG'' (IOR AUDIO_IOCTL_MAGIC 3 msm_audio_config),
     Request ''AUDIO_SET_CONFIG'' (IOW AUDIO_IOCTL_MAGIC 4 msm_audio_config),
     Request ''AUDIO_GET_STATS'' (IOR AUDIO_IOCTL_MAGIC 5 msm_audio_stats),
     Request ''AUDIO_ENABLE_AUDPP'' (IOW AUDIO_IOCTL_MAGIC 6 u32),
     Request ''AUDIO_SET_ADRC'' (IOW AUDIO_IOCTL_MAGIC 7 u32),
     Request ''AUDIO_SET_EQ'' (IOW AUDIO_IOCTL_MAGIC 8 u32),
     Request ''AUDIO_SET_RX_IIR'' (IOW AUDIO_IOCTL_MAGIC 9 u32),
     Request ''AUDIO_SET_VOLUME'' (IOW AUDIO_IOCTL_MAGIC 10 u32),
     Request ''AUDIO_PAUSE'' (IOW AUDIO_IOCTL_MAGIC 11 u32),
     Request ''AUDIO_PLAY_DTMF'' (IOW AUDIO_IOCTL_MAGIC 12 u32),
     Request ''AUDIO_GET_EVENT'' (IOR AUDIO_IOCTL_MAGIC 13 msm_audio_event),
     Request ''AUDIO_ABORT_GET_EVENT'' (IOW AUDIO_IOCTL_MAGIC 14 u32),
     Request ''AUDIO_REGISTER_PMEM'' (IOW AUDIO_IOCTL_MAGIC 15 u32),
     Request ''AUDIO_DEREGISTER_PMEM'' (IOW AUDIO_IOCTL_MAGIC 16 u32),
     Request ''AUDIO_ASYNC_WRITE'' (IOW AUDIO_IOCTL_MAGIC 17 msm_audio_aio_buf),
     Request ''AUDIO_ASYNC_READ'' (IOW AUDIO_IOCTL_MAGIC 18 msm_audio_aio_buf),
     Request ''AUDIO_SET_INCALL'' (IOW AUDIO_IOCTL_MAGIC 19 msm_voicerec_mode),
     Request ''AUDIO_GET_NUM_SND_DEVICE'' (IOR AUDIO_IOCTL_MAGIC 20 u32),
     Request ''AUDIO_GET_SND_DEVICES'' (IOWR AUDIO_IOCTL_MAGIC 21 msm_snd_device_list),
     Request ''AUDIO_ENABLE_SND_DEVICE'' (IOW AUDIO_IOCTL_MAGIC 22 u32),
     Request ''AUDIO_DISABLE_SND_DEVICE'' (IOW AUDIO_IOCTL_MAGIC 23 u32),
     Request ''AUDIO_ROUTE_STREAM'' (IOW AUDIO_IOCTL_MAGIC 24 msm_audio_route_config),
     Request ''AUDIO_GET_PCM_CONFIG'' (IOR AUDIO_IOCTL_MAGIC 30 u32),
     Request ''AUDIO_SET_PCM_CONFIG'' (IOW AUDIO_IOCTL_MAGIC 31 u32),
     Request ''AUDIO_SWITCH_DEVICE'' (IOW AUDIO_IOCTL_MAGIC 32 u32),
     Request ''AUDIO_SET_MUTE'' (IOW AUDIO_IOCTL_MAGIC 33 u32),
     Request ''AUDIO_UPDATE_ACDB'' (IOW AUDIO_IOCTL_MAGIC 34 u32),
     Request ''AUDIO_START_VOICE'' (IOW AUDIO_IOCTL_MAGIC 35 u32),
     Request ''AUDIO_STOP_VOICE'' (IOW AUDIO_IOCTL_MAGIC 36 u32),
     Request ''AUDIO_REINIT_ACDB'' (IOW AUDIO_IOCTL_MAGIC 39 u32),
     Request ''AUDIO_OUTPORT_FLUSH'' (IOW AUDIO_IOCTL_MAGIC 40 u16),
     Request ''AUDIO_SET_ERR_THRESHOLD_VALUE'' (IOW AUDIO_IOCTL_MAGIC 41 u16),
     Request ''AUDIO_GET_BITSTREAM_ERROR_INFO'' (IOR AUDIO_IOCTL_MAGIC 42 msm_audio_bitstream_error_info),
     Request ''AUDIO_SET_SRS_TRUMEDIA_PARAM'' (IOW AUDIO_IOCTL_MAGIC 43 u32),
     Request ''AUDIO_SET_STREAM_CONFIG'' (IOW AUDIO_IOCTL_MAGIC 80 msm_audio_stream_config),
     Request ''AUDIO_GET_STREAM_CONFIG'' (IOR AUDIO_IOCTL_MAGIC 81 msm_audio_stream_config),
     Request ''AUDIO_GET_SESSION_ID'' (IOR AUDIO_IOCTL_MAGIC 82 u16),
     Request ''AUDIO_GET_STREAM_INFO'' (IOR AUDIO_IOCTL_MAGIC 83 msm_audio_bitstream_info),
     Request ''AUDIO_SET_PAN'' (IOW AUDIO_IOCTL_MAGIC 84 u32),
     Request ''AUDIO_SET_QCONCERT_PLUS'' (IOW AUDIO_IOCTL_MAGIC 85 u32),
     Request ''AUDIO_SET_MBADRC'' (IOW AUDIO_IOCTL_MAGIC 86 u32),
     Request ''AUDIO_SET_VOLUME_PATH'' (IOW AUDIO_IOCTL_MAGIC 87 msm_vol_info),
     Request ''AUDIO_SET_MAX_VOL_ALL'' (IOW AUDIO_IOCTL_MAGIC 88 u32),
     Request ''AUDIO_ENABLE_AUDPRE'' (IOW AUDIO_IOCTL_MAGIC 89 u32),
     Request ''AUDIO_SET_AGC'' (IOW AUDIO_IOCTL_MAGIC 90 u32),
     Request ''AUDIO_SET_NS'' (IOW AUDIO_IOCTL_MAGIC 91 u32),
     Request ''AUDIO_SET_TX_IIR'' (IOW AUDIO_IOCTL_MAGIC 92 u32),
     Request ''AUDIO_GET_BUF_CFG'' (IOW AUDIO_IOCTL_MAGIC 93 msm_audio_buf_cfg),
     Request ''AUDIO_SET_BUF_CFG'' (IOW AUDIO_IOCTL_MAGIC 94 msm_audio_buf_cfg),
     Request ''AUDIO_SET_ACDB_BLK'' (IOW AUDIO_IOCTL_MAGIC 95 msm_acdb_cmd_device),
     Request ''AUDIO_GET_ACDB_BLK'' (IOW AUDIO_IOCTL_MAGIC 96 msm_acdb_cmd_device),
     Request ''AUDIO_REGISTER_ION'' (IOW AUDIO_IOCTL_MAGIC 97 msm_audio_ion_info),
     Request ''AUDIO_DEREGISTER_ION'' (IOW AUDIO_IOCTL_MAGIC 98 msm_audio_ion_info),
     Request ''AUDIO_SET_EFFECTS_CONFIG'' (IOW AUDIO_IOCTL_MAGIC 99 msm_hwacc_effects_config),
     Request ''AUDIO_EFFECTS_SET_BUF_LEN'' (IOW AUDIO_IOCTL_MAGIC 100 msm_hwacc_buf_cfg),
     Request ''AUDIO_EFFECTS_GET_BUF_AVAIL'' (IOW AUDIO_IOCTL_MAGIC 101 msm_hwacc_buf_avail),
     Request ''AUDIO_EFFECTS_WRITE'' (IOW AUDIO_IOCTL_MAGIC 102 PtrT),
     Request ''AUDIO_EFFECTS_READ'' (IOWR AUDIO_IOCTL_MAGIC 103 PtrT),
     Request ''AUDIO_EFFECTS_SET_PP_PARAMS'' (IOW AUDIO_IOCTL_MAGIC 104 PtrT),
     Request ''AUDIO_PM_AWAKE'' (IOW AUDIO_IOCTL_MAGIC 105 u32),
     Request ''AUDIO_PM_RELAX'' (IOW AUDIO_IOCTL_MAGIC 106 u32),
     Const ''AUDIO_MAX_COMMON_IOCTL_NUM'' 107, Const ''HANDSET_MIC'' 0x01,
     Const ''HANDSET_SPKR'' 0x02, Const ''HEADSET_MIC'' 0x03, Const ''HEADSET_SPKR_MONO'' 0x04,
     Const ''HEADSET_SPKR_STEREO'' 0x05, Const ''SPKR_PHONE_MIC'' 0x06,
     Const ''SPKR_PHONE_MONO'' 0x07, Const ''SPKR_PHONE_STEREO'' 0x08,
     Const ''BT_SCO_MIC'' 0x09, Const ''BT_SCO_SPKR'' 0x0A, Const ''BT_A2DP_SPKR'' 0x0B,
     Const ''TTY_HEADSET_MIC'' 0x0C, Const ''TTY_HEADSET_SPKR'' 0x0D, Const ''DEFAULT_TX'' 0x0E,
     Const ''DEFAULT_RX'' 0x0F, Const ''BT_A2DP_TX'' 0x10,
     Const ''HEADSET_MONO_PLUS_SPKR_MONO_RX'' 0x11,
     Const ''HEADSET_MONO_PLUS_SPKR_STEREO_RX'' 0x12,
     Const ''HEADSET_STEREO_PLUS_SPKR_MONO_RX'' 0x13,
     Const ''HEADSET_STEREO_PLUS_SPKR_STEREO_RX'' 0x14, Const ''I2S_RX'' 0x20,
     Const ''I2S_TX'' 0x21, Const ''ADRC_ENABLE'' 0x0001, Const ''EQUALIZER_ENABLE'' 0x0002,
     Const ''IIR_ENABLE'' 0x0004, Const ''QCONCERT_PLUS_ENABLE'' 0x0008,
     Const ''MBADRC_ENABLE'' 0x0010, Const ''SRS_ENABLE'' 0x0020, Const ''SRS_DISABLE'' 0x0040,
     Const ''AGC_ENABLE'' 0x0001, Const ''NS_ENABLE'' 0x0002, Const ''TX_IIR_ENABLE'' 0x0004,
     Const ''FLUENCE_ENABLE'' 0x0008, Const ''VOC_REC_UPLINK'' 0x00,
     Const ''VOC_REC_DOWNLINK'' 0x01, Const ''VOC_REC_BOTH'' 0x02]"

abbreviation SND_IOCTL_MAGIC :: nat where "SND_IOCTL_MAGIC \<equiv> 115"

definition msm_audio_3 :: "decl list" where
  "msm_audio_3 =
    [Struct ''msm_audio_config'' msm_audio_config,
     Struct ''msm_audio_stream_config'' msm_audio_stream_config,
     Struct ''msm_audio_buf_cfg'' msm_audio_buf_cfg, Struct ''msm_audio_stats'' msm_audio_stats,
     Struct ''msm_audio_ion_info'' msm_audio_ion_info,
     Struct ''msm_audio_pmem_info'' msm_audio_pmem_info,
     Struct ''msm_audio_aio_buf'' msm_audio_aio_buf, Const ''SND_IOCTL_MAGIC'' 115,
     Const ''SND_MUTE_UNMUTED'' 0, Const ''SND_MUTE_MUTED'' 1,
     Struct ''msm_mute_info'' msm_mute_info, Struct ''msm_vol_info'' msm_vol_info,
     Struct ''msm_voicerec_mode'' msm_voicerec_mode,
     Struct ''msm_snd_device_config'' msm_snd_device_config,
     Request ''SND_SET_DEVICE'' (IOW SND_IOCTL_MAGIC 2 PtrT),
     Enum ''cad_device_path_type'' [(''CAD_DEVICE_PATH_RX'', 0), (''CAD_DEVICE_PATH_TX'', 1),
       (''CAD_DEVICE_PATH_RX_TX'', 2), (''CAD_DEVICE_PATH_LB'', 3), (''CAD_DEVICE_PATH_MAX'', 4)],
     Struct ''cad_devices_type'' cad_devices_type,
     Struct ''msm_cad_device_config'' msm_cad_device_config,
     Request ''CAD_SET_DEVICE'' (IOW SND_IOCTL_MAGIC 2 PtrT), Const ''SND_METHOD_VOICE'' 0,
     Const ''SND_METHOD_MIDI'' 4, Struct ''msm_snd_volume_config'' msm_snd_volume_config,
     Request ''SND_SET_VOLUME'' (IOW SND_IOCTL_MAGIC 3 PtrT),
     Struct ''msm_cad_volume_config'' msm_cad_volume_config,
     Request ''CAD_SET_VOLUME'' (IOW SND_IOCTL_MAGIC 3 PtrT),
     Request ''SND_GET_NUM_ENDPOINTS'' (IOR SND_IOCTL_MAGIC 4 PtrT),
     Struct ''msm_snd_endpoint'' msm_snd_endpoint,
     Request ''SND_GET_ENDPOINT'' (IOWR SND_IOCTL_MAGIC 5 PtrT),
     Request ''SND_AVC_CTL'' (IOW SND_IOCTL_MAGIC 6 PtrT),
     Request ''SND_AGC_CTL'' (IOW SND_IOCTL_MAGIC 7 PtrT),
     Request ''CAD_GET_NUM_ENDPOINTS'' (IOR SND_IOCTL_MAGIC 4 PtrT),
     Struct ''msm_cad_endpoint'' msm_cad_endpoint]"

definition msm_audio_4 :: "decl list" where
  "msm_audio_4 =
    [Request ''CAD_GET_ENDPOINT'' (IOWR SND_IOCTL_MAGIC 5 PtrT),
     Struct ''msm_audio_pcm_config'' msm_audio_pcm_config, Const ''AUDIO_EVENT_SUSPEND'' 0,
     Const ''AUDIO_EVENT_RESUME'' 1, Const ''AUDIO_EVENT_WRITE_DONE'' 2,
     Const ''AUDIO_EVENT_READ_DONE'' 3, Const ''AUDIO_EVENT_STREAM_INFO'' 4,
     Const ''AUDIO_EVENT_BITSTREAM_ERROR_INFO'' 5, Const ''AUDIO_CODEC_TYPE_MP3'' 0,
     Const ''AUDIO_CODEC_TYPE_AAC'' 1,
     Struct ''msm_audio_bitstream_info'' msm_audio_bitstream_info,
     Struct ''msm_audio_bitstream_error_info'' msm_audio_bitstream_error_info,
     Struct ''msm_audio_event_payload'' msm_audio_event_payload,
     Struct ''msm_audio_event'' msm_audio_event, Const ''MSM_SNDDEV_CAP_RX'' 0x1,
     Const ''MSM_SNDDEV_CAP_TX'' 0x2, Const ''MSM_SNDDEV_CAP_VOICE'' 0x4,
     Struct ''msm_snd_device_info'' msm_snd_device_info,
     Struct ''msm_snd_device_list'' msm_snd_device_list,
     Struct ''msm_dtmf_config'' msm_dtmf_config, Const ''AUDIO_ROUTE_STREAM_VOICE_RX'' 0,
     Const ''AUDIO_ROUTE_STREAM_VOICE_TX'' 1, Const ''AUDIO_ROUTE_STREAM_PLAYBACK'' 2,
     Const ''AUDIO_ROUTE_STREAM_REC'' 3,
     Struct ''msm_audio_route_config'' msm_audio_route_config, Const ''AUDIO_MAX_EQ_BANDS'' 12,
     Struct ''msm_audio_eq_band'' msm_audio_eq_band,
     Struct ''msm_audio_eq_stream_config'' msm_audio_eq_stream_config,
     Struct ''msm_acdb_cmd_device'' msm_acdb_cmd_device,
     Struct ''msm_hwacc_data_config'' msm_hwacc_data_config,
     Struct ''msm_hwacc_buf_cfg'' msm_hwacc_buf_cfg,
     Struct ''msm_hwacc_buf_avail'' msm_hwacc_buf_avail,
     Struct ''msm_hwacc_effects_config'' msm_hwacc_effects_config,
     Const ''ADSP_STREAM_PP_EVENT'' 0, Const ''ADSP_STREAM_ENCDEC_EVENT'' 1,
     Const ''ADSP_STREAM_IEC_61937_FMT_UPDATE_EVENT'' 2, Const ''ADSP_STREAM_EVENT_MAX'' 3,
     Struct ''msm_adsp_event_data'' msm_adsp_event_data]"

definition msm_audio_h :: "decl list" where
  "msm_audio_h = msm_audio_1 @ msm_audio_2 @ msm_audio_3 @ msm_audio_4"

subsection \<open>linux/msm_audio_aac.h\<close>

definition msm_audio_aac_config :: ctype where
  "msm_audio_aac_config =
     StructT Natural [(''format'', s16), (''audio_object'', u16), (''ep_config'', u16),
      (''aac_section_data_resilience_flag'', u16),
      (''aac_scalefactor_data_resilience_flag'', u16),
      (''aac_spectral_data_resilience_flag'', u16), (''sbr_on_flag'', u16),
      (''sbr_ps_on_flag'', u16), (''dual_mono_mode'', u16), (''channel_configuration'', u16),
      (''sample_rate'', u16)]"

definition msm_audio_aac_enc_config :: ctype where
  "msm_audio_aac_enc_config =
     StructT Natural [(''channels'', u32), (''sample_rate'', u32), (''bit_rate'', u32),
      (''stream_format'', u32)]"

definition msm_audio_aac_1 :: "decl list" where
  "msm_audio_aac_1 =
    [Flag ''_MSM_AUDIO_AAC_H'']"

abbreviation AUDIO_MAX_COMMON_IOCTL_NUM :: nat where "AUDIO_MAX_COMMON_IOCTL_NUM \<equiv> 107"

definition msm_audio_aac_2 :: "decl list" where
  "msm_audio_aac_2 =
    [Request ''AUDIO_SET_AAC_CONFIG'' (IOW AUDIO_IOCTL_MAGIC (AUDIO_MAX_COMMON_IOCTL_NUM + 0) msm_audio_aac_config),
     Request ''AUDIO_GET_AAC_CONFIG'' (IOR AUDIO_IOCTL_MAGIC (AUDIO_MAX_COMMON_IOCTL_NUM + 1) msm_audio_aac_config),
     Request ''AUDIO_SET_AAC_ENC_CONFIG'' (IOW AUDIO_IOCTL_MAGIC (AUDIO_MAX_COMMON_IOCTL_NUM + 3) msm_audio_aac_enc_config),
     Request ''AUDIO_GET_AAC_ENC_CONFIG'' (IOR AUDIO_IOCTL_MAGIC (AUDIO_MAX_COMMON_IOCTL_NUM + 4) msm_audio_aac_enc_config),
     Request ''AUDIO_SET_AAC_MIX_CONFIG'' (IOR AUDIO_IOCTL_MAGIC (AUDIO_MAX_COMMON_IOCTL_NUM + 5) u32),
     Const ''AUDIO_AAC_FORMAT_ADTS'' (- 1), Const ''AUDIO_AAC_FORMAT_RAW'' 0x0000,
     Const ''AUDIO_AAC_FORMAT_PSUEDO_RAW'' 0x0001, Const ''AUDIO_AAC_FORMAT_LOAS'' 0x0002,
     Const ''AUDIO_AAC_FORMAT_ADIF'' 0x0003, Const ''AUDIO_AAC_OBJECT_LC'' 0x0002,
     Const ''AUDIO_AAC_OBJECT_LTP'' 0x0004, Const ''AUDIO_AAC_OBJECT_ERLC'' 0x0011,
     Const ''AUDIO_AAC_OBJECT_BSAC'' 0x0016, Const ''AUDIO_AAC_SEC_DATA_RES_ON'' 0x0001,
     Const ''AUDIO_AAC_SEC_DATA_RES_OFF'' 0x0000, Const ''AUDIO_AAC_SCA_DATA_RES_ON'' 0x0001,
     Const ''AUDIO_AAC_SCA_DATA_RES_OFF'' 0x0000, Const ''AUDIO_AAC_SPEC_DATA_RES_ON'' 0x0001,
     Const ''AUDIO_AAC_SPEC_DATA_RES_OFF'' 0x0000, Const ''AUDIO_AAC_SBR_ON_FLAG_ON'' 0x0001,
     Const ''AUDIO_AAC_SBR_ON_FLAG_OFF'' 0x0000, Const ''AUDIO_AAC_SBR_PS_ON_FLAG_ON'' 0x0001,
     Const ''AUDIO_AAC_SBR_PS_ON_FLAG_OFF'' 0x0000, Const ''AUDIO_AAC_DUAL_MONO_PL_PR'' 0,
     Const ''AUDIO_AAC_DUAL_MONO_SL_SR'' 1, Const ''AUDIO_AAC_DUAL_MONO_SL_PR'' 2,
     Const ''AUDIO_AAC_DUAL_MONO_PL_SR'' 3,
     Struct ''msm_audio_aac_config'' msm_audio_aac_config,
     Struct ''msm_audio_aac_enc_config'' msm_audio_aac_enc_config]"

definition msm_audio_aac_h :: "decl list" where
  "msm_audio_aac_h = msm_audio_aac_1 @ msm_audio_aac_2"

subsection \<open>linux/msm_audio_ac3.h\<close>

definition msm_audio_ac3_config :: ctype where
  "msm_audio_ac3_config =
     StructT Natural [(''numChans'', u16), (''wordSize'', u16), (''kCapableMode'', u16),
      (''compMode'', u16), (''outLfeOn'', u16), (''outputMode'', u16), (''stereoMode'', u16),
      (''dualMonoMode'', u16), (''fsCod'', u16), (''pcmScaleFac'', u16),
      (''dynRngScaleHi'', u16), (''dynRngScaleLow'', u16), (''user_downmix_flag'', u16),
      (''user_karaoke_flag'', u16), (''dm_address_high'', u16), (''dm_address_low'', u16),
      (''ko_address_high'', u16), (''ko_address_low'', u16), (''error_concealment'', u16),
      (''max_rep_count'', u16), (''channel_routing_mode'', ArrT u16 6)]"

definition msm_audio_ac3_1 :: "decl list" where
  "msm_audio_ac3_1 =
    [Flag ''_MSM_AUDIO_AC3_H'']"

definition msm_audio_ac3_2 :: "decl list" where
  "msm_audio_ac3_2 =
    [Request ''AUDIO_SET_AC3_CONFIG'' (IOW AUDIO_IOCTL_MAGIC (AUDIO_MAX_COMMON_IOCTL_NUM + 0) u32),
     Request ''AUDIO_GET_AC3_CONFIG'' (IOR AUDIO_IOCTL_MAGIC (AUDIO_MAX_COMMON_IOCTL_NUM + 1) u32),
     Const ''AUDAC3_DEF_WORDSIZE'' 0, Const ''AUDAC3_DEF_USER_DOWNMIX_FLAG'' 0x0,
     Const ''AUDAC3_DEF_USER_KARAOKE_FLAG'' 0x0, Const ''AUDAC3_DEF_ERROR_CONCEALMENT'' 0,
     Const ''AUDAC3_DEF_MAX_REPEAT_COUNT'' 0,
     Struct ''msm_audio_ac3_config'' msm_audio_ac3_config]"

definition msm_audio_ac3_h :: "decl list" where
  "msm_audio_ac3_h = msm_audio_ac3_1 @ msm_audio_ac3_2"

subsection \<open>linux/msm_audio_alac.h\<close>

definition msm_audio_alac_config :: ctype where
  "msm_audio_alac_config =
     StructT Natural [(''frameLength'', u32), (''compatVersion'', u8), (''bitDepth'', u8),
      (''pb'', u8), (''mb'', u8), (''kb'', u8), (''channelCount'', u8), (''maxRun'', u16),
      (''maxSize'', u32), (''averageBitRate'', u32), (''sampleRate'', u32),
      (''channelLayout'', u32)]"

definition msm_audio_alac_1 :: "decl list" where
  "msm_audio_alac_1 =
    [Flag ''_MSM_AUDIO_ALAC_H'',
     Request ''AUDIO_GET_ALAC_CONFIG'' (IOR AUDIO_IOCTL_MAGIC (AUDIO_MAX_COMMON_IOCTL_NUM + 0) msm_audio_alac_config),
     Request ''AUDIO_SET_ALAC_CONFIG'' (IOW AUDIO_IOCTL_MAGIC (AUDIO_MAX_COMMON_IOCTL_NUM + 1) msm_audio_alac_config),
     Struct ''msm_audio_alac_config'' msm_audio_alac_config]"

definition msm_audio_alac_h :: "decl list" where
  "msm_audio_alac_h = msm_audio_alac_1"

subsection \<open>linux/msm_audio_amrnb.h\<close>

definition msm_audio_amrnb_enc_config :: ctype where
  "msm_audio_amrnb_enc_config =
     StructT Natural [(''voicememoencweight1'', u16), (''voicememoencweight2'', u16),
      (''voicememoencweight3'', u16), (''voicememoencweight4'', u16),
      (''dtx_mode_enable'', u16), (''test_mode_enable'', u16), (''enc_mode'', u16)]"

definition msm_audio_amrnb_enc_config_v2 :: ctype where
  "msm_audio_amrnb_enc_config_v2 =
     StructT Natural [(''band_mode'', u32), (''dtx_enable'', u32), (''frame_format'', u32)]"

definition msm_audio_amrnb_1 :: "decl list" where
  "msm_audio_amrnb_1 =
    [Flag ''_MSM_AUDIO_AMRNB_H'']"

definition msm_audio_amrnb_2 :: "decl list" where
  "msm_audio_amrnb_2 =
    [Request ''AUDIO_GET_AMRNB_ENC_CONFIG'' (IOW AUDIO_IOCTL_MAGIC (AUDIO_MAX_COMMON_IOCTL_NUM + 0) u32),
     Request ''AUDIO_SET_AMRNB_ENC_CONFIG'' (IOR AUDIO_IOCTL_MAGIC (AUDIO_MAX_COMMON_IOCTL_NUM + 1) u32),
     Request ''AUDIO_GET_AMRNB_ENC_CONFIG_V2'' (IOW AUDIO_IOCTL_MAGIC (AUDIO_MAX_COMMON_IOCTL_NUM + 2) msm_audio_amrnb_enc_config_v2),
     Request ''AUDIO_SET_AMRNB_ENC_CONFIG_V2'' (IOR AUDIO_IOCTL_MAGIC (AUDIO_MAX_COMMON_IOCTL_NUM + 3) msm_audio_amrnb_enc_config_v2),
     Struct ''msm_audio_amrnb_enc_config'' msm_audio_amrnb_enc_config,
     Struct ''msm_audio_amrnb_enc_config_v2'' msm_audio_amrnb_enc_config_v2]"

definition msm_audio_amrnb_h :: "decl list" where
  "msm_audio_amrnb_h = msm_audio_amrnb_1 @ msm_audio_amrnb_2"

subsection \<open>linux/msm_audio_amrwb.h\<close>

definition msm_audio_amrwb_enc_config :: ctype where
  "msm_audio_amrwb_enc_config =
     StructT Natural [(''band_mode'', u32), (''dtx_enable'', u32), (''frame_format'', u32)]"

definition msm_audio_amrwb_1 :: "decl list" where
  "msm_audio_amrwb_1 =
    [Flag ''_MSM_AUDIO_AMRWB_H'']"

definition msm_audio_amrwb_2 :: "decl list" where
  "msm_audio_amrwb_2 =
    [Request ''AUDIO_GET_AMRWB_ENC_CONFIG'' (IOW AUDIO_IOCTL_MAGIC (AUDIO_MAX_COMMON_IOCTL_NUM + 0) msm_audio_amrwb_enc_config),
     Request ''AUDIO_SET_AMRWB_ENC_CONFIG'' (IOR AUDIO_IOCTL_MAGIC (AUDIO_MAX_COMMON_IOCTL_NUM + 1) msm_audio_amrwb_enc_config),
     Struct ''msm_audio_amrwb_enc_config'' msm_audio_amrwb_enc_config]"

definition msm_audio_amrwb_h :: "decl list" where
  "msm_audio_amrwb_h = msm_audio_amrwb_1 @ msm_audio_amrwb_2"

subsection \<open>linux/msm_audio_amrwbplus.h\<close>

definition msm_audio_amrwbplus_config_v2 :: ctype where
  "msm_audio_amrwbplus_config_v2 =
     StructT Natural [(''size_bytes'', u32), (''version'', u32), (''num_channels'', u32),
      (''amr_band_mode'', u32), (''amr_dtx_mode'', u32), (''amr_frame_fmt'', u32),
      (''amr_lsf_idx'', u32)]"

definition msm_audio_amrwbplus_1 :: "decl list" where
  "msm_audio_amrwbplus_1 =
    [Flag ''_MSM_AUDIO_AMR_WB_PLUS_H'',
     Request ''AUDIO_GET_AMRWBPLUS_CONFIG_V2'' (IOR AUDIO_IOCTL_MAGIC (AUDIO_MAX_COMMON_IOCTL_NUM + 2) msm_audio_amrwbplus_config_v2),
     Request ''AUDIO_SET_AMRWBPLUS_CONFIG_V2'' (IOW AUDIO_IOCTL_MAGIC (AUDIO_MAX_COMMON_IOCTL_NUM + 3) msm_audio_amrwbplus_config_v2),
     Struct ''msm_audio_amrwbplus_config_v2'' msm_audio_amrwbplus_config_v2]"

definition msm_audio_amrwbplus_h :: "decl list" where
  "msm_audio_amrwbplus_h = msm_audio_amrwbplus_1"

subsection \<open>linux/msm_audio_ape.h\<close>

definition msm_audio_ape_config :: ctype where
  "msm_audio_ape_config =
     StructT Natural [(''compatibleVersion'', u16), (''compressionLevel'', u16),
      (''formatFlags'', u32), (''blocksPerFrame'', u32), (''finalFrameBlocks'', u32),
      (''totalFrames'', u32), (''bitsPerSample'', u16), (''numChannels'', u16),
      (''sampleRate'', u32), (''seekTablePresent'', u32)]"

definition msm_audio_ape_1 :: "decl list" where
  "msm_audio_ape_1 =
    [Flag ''_MSM_AUDIO_APE_H'',
     Request ''AUDIO_GET_APE_CONFIG'' (IOR AUDIO_IOCTL_MAGIC (AUDIO_MAX_COMMON_IOCTL_NUM + 0) msm_audio_ape_config),
     Request ''AUDIO_SET_APE_CONFIG'' (IOW AUDIO_IOCTL_MAGIC (AUDIO_MAX_COMMON_IOCTL_NUM + 1) msm_audio_ape_config),
     Struct ''msm_audio_ape_config'' msm_audio_ape_config]"

definition msm_audio_ape_h :: "decl list" where
  "msm_audio_ape_h = msm_audio_ape_1"

subsection \<open>linux/msm_audio_mvs.h\<close>

definition min_max_rate :: ctype where
  "min_max_rate =
     StructT Natural [(''min_rate'', u32), (''max_rate'', u32)]"

definition msm_audio_mvs_config :: ctype where
  "msm_audio_mvs_config =
     StructT Natural [(''mvs_mode'', u32), (''rate_type'', u32),
      (''min_max_rate'', min_max_rate), (''dtx_mode'', u32)]"

definition gsm_header :: ctype where
  "gsm_header =
     StructT Natural [(''bfi'', u8), (''sid'', u8), (''taf'', u8), (''ufi'', u8)]"

abbreviation MVS_MAX_VOC_PKT_SIZE :: nat where "MVS_MAX_VOC_PKT_SIZE \<equiv> 640"

definition q6_msm_audio_mvs_frame :: ctype where
  "q6_msm_audio_mvs_frame =
     StructT Natural [(''header'', UnionT Natural [(''frame_type'', u32),
      (''packet_rate'', u32), (''gsm_frame_type'', gsm_header)]), (''len'', u32),
      (''voc_pkt'', ArrT u8 MVS_MAX_VOC_PKT_SIZE)]"

definition msm_audio_mvs_frame :: ctype where
  "msm_audio_mvs_frame =
     StructT Natural [(''frame_type'', u32), (''len'', u32),
      (''voc_pkt'', ArrT u8 MVS_MAX_VOC_PKT_SIZE)]"

abbreviation Q5V2_MVS_MAX_VOC_PKT_SIZE :: nat where "Q5V2_MVS_MAX_VOC_PKT_SIZE \<equiv> 320"

definition q5v2_msm_audio_mvs_frame :: ctype where
  "q5v2_msm_audio_mvs_frame =
     StructT Natural [(''frame_type'', u32), (''len'', u32),
      (''voc_pkt'', ArrT u8 Q5V2_MVS_MAX_VOC_PKT_SIZE)]"

definition msm_audio_mvs_1 :: "decl list" where
  "msm_audio_mvs_1 =
    [Flag ''_MSM_AUDIO_MVS_H'']"

definition msm_audio_mvs_2 :: "decl list" where
  "msm_audio_mvs_2 =
    [Request ''AUDIO_GET_MVS_CONFIG'' (IOW AUDIO_IOCTL_MAGIC (AUDIO_MAX_COMMON_IOCTL_NUM + 0) u32),
     Request ''AUDIO_SET_MVS_CONFIG'' (IOR AUDIO_IOCTL_MAGIC (AUDIO_MAX_COMMON_IOCTL_NUM + 1) u32),
     Const ''MVS_MODE_IS733'' 0x1, Const ''MVS_MODE_IS127'' 0x2, Const ''MVS_MODE_4GV_NB'' 0x3,
     Const ''MVS_MODE_4GV_WB'' 0x4, Const ''MVS_MODE_AMR'' 0x5, Const ''MVS_MODE_EFR'' 0x6,
     Const ''MVS_MODE_FR'' 0x7, Const ''MVS_MODE_HR'' 0x8, Const ''MVS_MODE_LINEAR_PCM'' 0x9,
     Const ''MVS_MODE_G711'' 0xA, Const ''MVS_MODE_PCM'' 0xC, Const ''MVS_MODE_AMR_WB'' 0xD,
     Const ''MVS_MODE_G729A'' 0xE, Const ''MVS_MODE_G711A'' 0xF, Const ''MVS_MODE_G722'' 0x10,
     Const ''MVS_MODE_PCM_WB'' 0x12,
     Enum ''msm_audio_amr_mode'' [(''MVS_AMR_MODE_0475'', 0), (''MVS_AMR_MODE_0515'', 1),
       (''MVS_AMR_MODE_0590'', 2), (''MVS_AMR_MODE_0670'', 3), (''MVS_AMR_MODE_0740'', 4),
       (''MVS_AMR_MODE_0795'', 5), (''MVS_AMR_MODE_1020'', 6), (''MVS_AMR_MODE_1220'', 7),
       (''MVS_AMR_MODE_0660'', 8), (''MVS_AMR_MODE_0885'', 9), (''MVS_AMR_MODE_1265'', 10),
       (''MVS_AMR_MODE_1425'', 11), (''MVS_AMR_MODE_1585'', 12), (''MVS_AMR_MODE_1825'', 13),
       (''MVS_AMR_MODE_1985'', 14), (''MVS_AMR_MODE_2305'', 15), (''MVS_AMR_MODE_2385'', 16),
       (''MVS_AMR_MODE_UNDEF'', 17)],
     Enum ''msm_audio_voc_rate'' [(''MVS_VOC_0_RATE'', 0), (''MVS_VOC_8_RATE'', 1),
       (''MVS_VOC_4_RATE'', 2), (''MVS_VOC_2_RATE'', 3), (''MVS_VOC_1_RATE'', 4),
       (''MVS_VOC_ERASURE'', 5), (''MVS_VOC_RATE_MAX'', 6), (''MVS_VOC_RATE_UNDEF'', 6)],
     Enum ''msm_audio_amr_frame_type'' [(''MVS_AMR_SPEECH_GOOD'', 0),
       (''MVS_AMR_SPEECH_DEGRADED'', 1), (''MVS_AMR_ONSET'', 2), (''MVS_AMR_SPEECH_BAD'', 3),
       (''MVS_AMR_SID_FIRST'', 4), (''MVS_AMR_SID_UPDATE'', 5), (''MVS_AMR_SID_BAD'', 6),
       (''MVS_AMR_NO_DATA'', 7), (''MVS_AMR_SPEECH_LOST'', 8)],
     Enum ''msm_audio_g711a_mode'' [(''MVS_G711A_MODE_MULAW'', 0), (''MVS_G711A_MODE_ALAW'', 1)],
     Enum ''msm_audio_g711_mode'' [(''MVS_G711_MODE_MULAW'', 0), (''MVS_G711_MODE_ALAW'', 1)],
     Enum ''mvs_g722_mode_type'' [(''MVS_G722_MODE_01'', 0), (''MVS_G722_MODE_02'', 1),
       (''MVS_G722_MODE_03'', 2), (''MVS_G722_MODE_MAX'', 3), (''MVS_G722_MODE_UNDEF'', 4)],
     Enum ''msm_audio_g711a_frame_type'' [(''MVS_G711A_SPEECH_GOOD'', 0), (''MVS_G711A_SID'', 1),
       (''MVS_G711A_NO_DATA'', 2), (''MVS_G711A_ERASURE'', 3)],
     Enum ''msm_audio_g729a_frame_type'' [(''MVS_G729A_NO_DATA'', 0),
       (''MVS_G729A_SPEECH_GOOD'', 1), (''MVS_G729A_SID'', 2), (''MVS_G729A_ERASURE'', 3)],
     Struct ''min_max_rate'' min_max_rate, Struct ''msm_audio_mvs_config'' msm_audio_mvs_config,
     Const ''MVS_MAX_VOC_PKT_SIZE'' 640, Struct ''gsm_header'' gsm_header,
     Struct ''q6_msm_audio_mvs_frame'' q6_msm_audio_mvs_frame,
     Struct ''msm_audio_mvs_frame'' msm_audio_mvs_frame,
     Const ''Q5V2_MVS_MAX_VOC_PKT_SIZE'' 320,
     Struct ''q5v2_msm_audio_mvs_frame'' q5v2_msm_audio_mvs_frame]"

definition msm_audio_mvs_h :: "decl list" where
  "msm_audio_mvs_h = msm_audio_mvs_1 @ msm_audio_mvs_2"

subsection \<open>linux/msm_audio_qcp.h\<close>

definition msm_audio_qcelp_enc_config :: ctype where
  "msm_audio_qcelp_enc_config =
     StructT Natural [(''cdma_rate'', u32), (''min_bit_rate'', u32), (''max_bit_rate'', u32)]"

definition msm_audio_evrc_enc_config :: ctype where
  "msm_audio_evrc_enc_config =
     StructT Natural [(''cdma_rate'', u32), (''min_bit_rate'', u32), (''max_bit_rate'', u32)]"

definition msm_audio_qcp_1 :: "decl list" where
  "msm_audio_qcp_1 =
    [Flag ''_MSM_AUDIO_QCP_H'']"

definition msm_audio_qcp_2 :: "decl list" where
  "msm_audio_qcp_2 =
    [Request ''AUDIO_SET_QCELP_ENC_CONFIG'' (IOW AUDIO_IOCTL_MAGIC 0 msm_audio_qcelp_enc_config),
     Request ''AUDIO_GET_QCELP_ENC_CONFIG'' (IOR AUDIO_IOCTL_MAGIC 1 msm_audio_qcelp_enc_config),
     Request ''AUDIO_SET_EVRC_ENC_CONFIG'' (IOW AUDIO_IOCTL_MAGIC 2 msm_audio_evrc_enc_config),
     Request ''AUDIO_GET_EVRC_ENC_CONFIG'' (IOR AUDIO_IOCTL_MAGIC 3 msm_audio_evrc_enc_config),
     Const ''CDMA_RATE_BLANK'' 0x00, Const ''CDMA_RATE_EIGHTH'' 0x01,
     Const ''CDMA_RATE_QUARTER'' 0x02, Const ''CDMA_RATE_HALF'' 0x03,
     Const ''CDMA_RATE_FULL'' 0x04, Const ''CDMA_RATE_ERASURE'' 0x05,
     Struct ''msm_audio_qcelp_enc_config'' msm_audio_qcelp_enc_config,
     Struct ''msm_audio_evrc_enc_config'' msm_audio_evrc_enc_config]"

definition msm_audio_qcp_h :: "decl list" where
  "msm_audio_qcp_h = msm_audio_qcp_1 @ msm_audio_qcp_2"

subsection \<open>linux/msm_audio_sbc.h\<close>

definition msm_audio_sbc_enc_config :: ctype where
  "msm_audio_sbc_enc_config =
     StructT Natural [(''channels'', u32), (''sample_rate'', u32), (''bit_allocation'', u32),
      (''number_of_subbands'', u32), (''number_of_blocks'', u32), (''bit_rate'', u32),
      (''mode'', u32)]"

definition msm_audio_sbc_1 :: "decl list" where
  "msm_audio_sbc_1 =
    [Flag ''_MSM_AUDIO_SBC_H'']"

definition msm_audio_sbc_2 :: "decl list" where
  "msm_audio_sbc_2 =
    [Request ''AUDIO_SET_SBC_ENC_CONFIG'' (IOW AUDIO_IOCTL_MAGIC (AUDIO_MAX_COMMON_IOCTL_NUM + 0) msm_audio_sbc_enc_config),
     Request ''AUDIO_GET_SBC_ENC_CONFIG'' (IOR AUDIO_IOCTL_MAGIC (AUDIO_MAX_COMMON_IOCTL_NUM + 1) msm_audio_sbc_enc_config),
     Const ''AUDIO_SBC_BA_LOUDNESS'' 0x0, Const ''AUDIO_SBC_BA_SNR'' 0x1,
     Const ''AUDIO_SBC_MODE_MONO'' 0x0, Const ''AUDIO_SBC_MODE_DUAL'' 0x1,
     Const ''AUDIO_SBC_MODE_STEREO'' 0x2, Const ''AUDIO_SBC_MODE_JSTEREO'' 0x3,
     Const ''AUDIO_SBC_BANDS_8'' 0x1, Const ''AUDIO_SBC_BLOCKS_4'' 0x0,
     Const ''AUDIO_SBC_BLOCKS_8'' 0x1, Const ''AUDIO_SBC_BLOCKS_12'' 0x2,
     Const ''AUDIO_SBC_BLOCKS_16'' 0x3,
     Struct ''msm_audio_sbc_enc_config'' msm_audio_sbc_enc_config]"

definition msm_audio_sbc_h :: "decl list" where
  "msm_audio_sbc_h = msm_audio_sbc_1 @ msm_audio_sbc_2"

subsection \<open>linux/msm_audio_voicememo.h\<close>

definition msm_audio_voicememo_config :: ctype where
  "msm_audio_voicememo_config =
     StructT Natural [(''rec_type'', u32), (''rec_interval_ms'', u32), (''auto_stop_ms'', u32),
      (''capability'', u32), (''max_rate'', u32), (''min_rate'', u32), (''frame_format'', u32),
      (''dtx_enable'', u32), (''data_req_ms'', u32)]"

definition msm_audio_voicememo_1 :: "decl list" where
  "msm_audio_voicememo_1 =
    [Flag ''_MSM_AUDIO_VOICEMEMO_H'']"

definition msm_audio_voicememo_2 :: "decl list" where
  "msm_audio_voicememo_2 =
    [Request ''AUDIO_GET_VOICEMEMO_CONFIG'' (IOW AUDIO_IOCTL_MAGIC (AUDIO_MAX_COMMON_IOCTL_NUM + 0) u32),
     Request ''AUDIO_SET_VOICEMEMO_CONFIG'' (IOR AUDIO_IOCTL_MAGIC (AUDIO_MAX_COMMON_IOCTL_NUM + 1) u32),
     Enum ''rpc_voc_rec_dir_type'' [(''RPC_VOC_REC_NONE'', 0), (''RPC_VOC_REC_FORWARD'', 1),
       (''RPC_VOC_REC_REVERSE'', 2), (''RPC_VOC_REC_BOTH'', 3), (''RPC_VOC_MAX_REC_TYPE'', 4)],
     Enum ''rpc_voc_capability_type'' [(''RPC_VOC_CAP_IS733'', 4), (''RPC_VOC_CAP_IS127'', 8),
       (''RPC_VOC_CAP_AMR'', 64), (''RPC_VOC_CAP_32BIT_DUMMY'', 2147483647)],
     Enum ''rpc_voc_rate_type'' [(''RPC_VOC_0_RATE'', 0), (''RPC_VOC_8_RATE'', 1),
       (''RPC_VOC_4_RATE'', 2), (''RPC_VOC_2_RATE'', 3), (''RPC_VOC_1_RATE'', 4),
       (''RPC_VOC_ERASURE'', 5), (''RPC_VOC_ERR_RATE'', 6), (''RPC_VOC_AMR_RATE_475'', 0),
       (''RPC_VOC_AMR_RATE_515'', 1), (''RPC_VOC_AMR_RATE_590'', 2),
       (''RPC_VOC_AMR_RATE_670'', 3), (''RPC_VOC_AMR_RATE_740'', 4),
       (''RPC_VOC_AMR_RATE_795'', 5), (''RPC_VOC_AMR_RATE_1020'', 6),
       (''RPC_VOC_AMR_RATE_1220'', 7)],
     Enum ''rpc_voc_pb_len_rate_var_type'' [(''RPC_VOC_PB_NATIVE_QCP'', 3),
       (''RPC_VOC_PB_AMR'', 4), (''RPC_VOC_PB_EVB'', 5)],
     Struct ''msm_audio_voicememo_config'' msm_audio_voicememo_config]"

definition msm_audio_voicememo_h :: "decl list" where
  "msm_audio_voicememo_h = msm_audio_voicememo_1 @ msm_audio_voicememo_2"

subsection \<open>linux/msm_audio_wma.h\<close>

definition msm_audio_wma_config :: ctype where
  "msm_audio_wma_config =
     StructT Natural [(''armdatareqthr'', u16), (''channelsdecoded'', u16),
      (''wmabytespersec'', u16), (''wmasamplingfreq'', u16), (''wmaencoderopts'', u16)]"

definition msm_audio_wma_config_v2 :: ctype where
  "msm_audio_wma_config_v2 =
     StructT Natural [(''format_tag'', u16), (''numchannels'', u16), (''samplingrate'', u32),
      (''avgbytespersecond'', u32), (''block_align'', u16), (''validbitspersample'', u16),
      (''channelmask'', u32), (''encodeopt'', u16)]"

definition msm_audio_wma_1 :: "decl list" where
  "msm_audio_wma_1 =
    [Flag ''_MSM_AUDIO_WMA_H'',
     Request ''AUDIO_GET_WMA_CONFIG'' (IOR AUDIO_IOCTL_MAGIC (AUDIO_MAX_COMMON_IOCTL_NUM + 0) u32),
     Request ''AUDIO_SET_WMA_CONFIG'' (IOW AUDIO_IOCTL_MAGIC (AUDIO_MAX_COMMON_IOCTL_NUM + 1) u32),
     Request ''AUDIO_GET_WMA_CONFIG_V2'' (IOR AUDIO_IOCTL_MAGIC (AUDIO_MAX_COMMON_IOCTL_NUM + 2) msm_audio_wma_config_v2),
     Request ''AUDIO_SET_WMA_CONFIG_V2'' (IOW AUDIO_IOCTL_MAGIC (AUDIO_MAX_COMMON_IOCTL_NUM + 3) msm_audio_wma_config_v2),
     Struct ''msm_audio_wma_config'' msm_audio_wma_config,
     Struct ''msm_audio_wma_config_v2'' msm_audio_wma_config_v2]"

definition msm_audio_wma_h :: "decl list" where
  "msm_audio_wma_h = msm_audio_wma_1"

subsection \<open>linux/msm_audio_wmapro.h\<close>

definition msm_audio_wmapro_config :: ctype where
  "msm_audio_wmapro_config =
     StructT Natural [(''armdatareqthr'', u16), (''validbitspersample'', u8),
      (''numchannels'', u8), (''formattag'', u16), (''samplingrate'', u32),
      (''avgbytespersecond'', u32), (''asfpacketlength'', u16), (''channelmask'', u32),
      (''encodeopt'', u16), (''advancedencodeopt'', u16), (''advancedencodeopt2'', u32)]"

definition msm_audio_wmapro_1 :: "decl list" where
  "msm_audio_wmapro_1 =
    [Flag ''_MSM_AUDIO_WMAPRO_H'',
     Request ''AUDIO_GET_WMAPRO_CONFIG'' (IOR AUDIO_IOCTL_MAGIC (AUDIO_MAX_COMMON_IOCTL_NUM + 0) msm_audio_wmapro_config),
     Request ''AUDIO_SET_WMAPRO_CONFIG'' (IOW AUDIO_IOCTL_MAGIC (AUDIO_MAX_COMMON_IOCTL_NUM + 1) msm_audio_wmapro_config),
     Struct ''msm_audio_wmapro_config'' msm_audio_wmapro_config]"

definition msm_audio_wmapro_h :: "decl list" where
  "msm_audio_wmapro_h = msm_audio_wmapro_1"

subsection \<open>linux/mfd/msm-adie-codec.h\<close>

definition adie_codec_action_unit :: ctype where
  "adie_codec_action_unit =
     StructT Natural [(''type'', u32), (''action'', u32)]"

definition adie_codec_hwsetting_entry :: ctype where
  "adie_codec_hwsetting_entry =
     StructT Natural [(''actions'', PtrT), (''action_sz'', u32), (''freq_plan'', u32),
      (''osr'', u32)]"

definition adie_codec_dev_profile :: ctype where
  "adie_codec_dev_profile =
     StructT Natural [(''path_type'', u32), (''setting_sz'', u32), (''settings'', PtrT)]"

definition adie_codec_register :: ctype where
  "adie_codec_register =
     StructT Natural [(''reg'', u8), (''mask'', u8), (''val'', u8)]"

definition adie_codec_register_image :: ctype where
  "adie_codec_register_image =
     StructT Natural [(''regs'', PtrT), (''img_sz'', u32)]"

definition adie_codec_anc_data :: ctype where
  "adie_codec_anc_data =
     StructT Natural [(''size'', u32), (''writes'', ArrT u32 0)]"

definition adie_codec_operations :: ctype where
  "adie_codec_operations =
     StructT Natural [(''codec_id'', s32), (''codec_open'', PtrT), (''codec_close'', PtrT),
      (''codec_setpath'', PtrT), (''codec_proceed_stage'', PtrT),
      (''codec_freq_supported'', PtrT), (''codec_enable_sidetone'', PtrT),
      (''codec_enable_anc'', PtrT), (''codec_set_device_digital_volume'', PtrT),
      (''codec_set_device_analog_volume'', PtrT), (''codec_set_master_mode'', PtrT)]"

definition msm_adie_codec_1 :: "decl list" where
  "msm_adie_codec_1 =
    [Flag ''__UAPI_MFD_MSM_ADIE_CODEC_H'']"

definition msm_adie_codec_2 :: "decl list" where
  "msm_adie_codec_2 =
    [Const ''ADIE_CODEC_ACTION_ENTRY'' 0x1, Const ''ADIE_CODEC_ACTION_DELAY_WAIT'' 0x2,
     Const ''ADIE_CODEC_ACTION_STAGE_REACHED'' 0x3, Const ''ADIE_CODEC_PATH_OFF'' 0x0050,
     Const ''ADIE_CODEC_DIGITAL_READY'' 0x0100,
     Const ''ADIE_CODEC_DIGITAL_ANALOG_READY'' 0x1000, Const ''ADIE_CODEC_ANALOG_OFF'' 0x0750,
     Const ''ADIE_CODEC_DIGITAL_OFF'' 0x0600, Const ''ADIE_CODEC_FLASH_IMAGE'' 0x0001,
     Const ''ADIE_CODEC_RX'' 0, Const ''ADIE_CODEC_TX'' 1, Const ''ADIE_CODEC_LB'' 3,
     Const ''ADIE_CODEC_MAX'' 4]"

definition msm_adie_codec_3 :: "decl list" where
  "msm_adie_codec_3 =
    [Struct ''adie_codec_action_unit'' adie_codec_action_unit,
     Struct ''adie_codec_hwsetting_entry'' adie_codec_hwsetting_entry,
     Struct ''adie_codec_dev_profile'' adie_codec_dev_profile,
     Struct ''adie_codec_register'' adie_codec_register,
     Struct ''adie_codec_register_image'' adie_codec_register_image]"

definition msm_adie_codec_4 :: "decl list" where
  "msm_adie_codec_4 =
    [Struct ''adie_codec_anc_data'' adie_codec_anc_data,
     Struct ''adie_codec_operations'' adie_codec_operations]"

definition msm_adie_codec_h :: "decl list" where
  "msm_adie_codec_h = msm_adie_codec_1 @ msm_adie_codec_2 @ msm_adie_codec_3 @ msm_adie_codec_4"

subsection \<open>linux/wcd-spi-ac-params.h\<close>

abbreviation WCD_SPI_AC_MAX_CH_PER_BUF :: nat where "WCD_SPI_AC_MAX_CH_PER_BUF \<equiv> 8"

definition wcd_spi_ac_buf_data :: ctype where
  "wcd_spi_ac_buf_data =
     StructT Packed [(''addr'', ArrT u32 WCD_SPI_AC_MAX_CH_PER_BUF)]"

definition wcd_spi_ac_write_cmd :: ctype where
  "wcd_spi_ac_write_cmd =
     StructT Packed [(''cmd_type'', u32), (''payload'', ArrT u8 0)]"

definition wcd_spi_ac_params_1 :: "decl list" where
  "wcd_spi_ac_params_1 =
    [Flag ''__UAPI_WCD_SPI_AC_PARAMS_H__'']"

definition wcd_spi_ac_params_2 :: "decl list" where
  "wcd_spi_ac_params_2 =
    [Const ''WCD_SPI_AC_CMD_CONC_BEGIN'' 0x01, Const ''WCD_SPI_AC_CMD_CONC_END'' 0x02,
     Const ''WCD_SPI_AC_CMD_BUF_DATA'' 0x03, Const ''WCD_SPI_AC_MAX_BUFFERS'' 2,
     Const ''WCD_SPI_AC_MAX_CH_PER_BUF'' 8,
     Text ''WCD_SPI_AC_CLIENT_CDEV_NAME'' ''wcd-spi-ac-client'',
     Text ''WCD_SPI_AC_PROCFS_DIR_NAME'' ''wcd-spi-ac'',
     Text ''WCD_SPI_AC_PROCFS_STATE_NAME'' ''svc-state'',
     Struct ''wcd_spi_ac_buf_data'' wcd_spi_ac_buf_data]"

definition wcd_spi_ac_params_3 :: "decl list" where
  "wcd_spi_ac_params_3 =
    [Struct ''wcd_spi_ac_write_cmd'' wcd_spi_ac_write_cmd]"

definition wcd_spi_ac_params_h :: "decl list" where
  "wcd_spi_ac_params_h = wcd_spi_ac_params_1 @ wcd_spi_ac_params_2 @ wcd_spi_ac_params_3"

subsection \<open>sound/wcd-dsp-glink.h\<close>

definition wdsp_reg_pkt :: ctype where
  "wdsp_reg_pkt =
     StructT Natural [(''no_of_channels'', u8), (''payload'', ArrT u8 0)]"

abbreviation WDSP_CH_NAME_MAX_LEN :: nat where "WDSP_CH_NAME_MAX_LEN \<equiv> 50"

definition wdsp_cmd_pkt :: ctype where
  "wdsp_cmd_pkt =
     StructT Natural [(''ch_name'', ArrT CharT WDSP_CH_NAME_MAX_LEN), (''payload_size'', u32),
      (''payload'', ArrT u8 0)]"

definition wdsp_write_pkt :: ctype where
  "wdsp_write_pkt =
     StructT Natural [(''pkt_type'', u8), (''payload'', ArrT u8 0)]"

definition wdsp_glink_ch_cfg :: ctype where
  "wdsp_glink_ch_cfg =
     StructT Natural [(''name'', ArrT CharT WDSP_CH_NAME_MAX_LEN), (''latency_in_us'', u32),
      (''no_of_intents'', u32), (''intents_size'', ArrT u32 0)]"

definition wcd_dsp_glink_1 :: "decl list" where
  "wcd_dsp_glink_1 =
    [Flag ''_WCD_DSP_GLINK_H'']"

definition wcd_dsp_glink_2 :: "decl list" where
  "wcd_dsp_glink_2 =
    [Const ''WDSP_CH_NAME_MAX_LEN'' 50,
     Enum '''' [(''WDSP_REG_PKT'', 1), (''WDSP_CMD_PKT'', 2), (''WDSP_READY_PKT'', 3)],
     Const ''WDSP_READY_PKT'' 3, Struct ''wdsp_reg_pkt'' wdsp_reg_pkt,
     Struct ''wdsp_cmd_pkt'' wdsp_cmd_pkt, Struct ''wdsp_write_pkt'' wdsp_write_pkt,
     Struct ''wdsp_glink_ch_cfg'' wdsp_glink_ch_cfg]"

definition wcd_dsp_glink_h :: "decl list" where
  "wcd_dsp_glink_h = wcd_dsp_glink_1 @ wcd_dsp_glink_2"

subsection \<open>sound/voice_svc.h\<close>

definition voice_svc_write_msg :: ctype where
  "voice_svc_write_msg =
     StructT Natural [(''msg_type'', u32), (''payload'', ArrT u8 0)]"

abbreviation MAX_APR_SERVICE_NAME_LEN :: nat where "MAX_APR_SERVICE_NAME_LEN \<equiv> 64"

definition voice_svc_register :: ctype where
  "voice_svc_register =
     StructT Natural [(''svc_name'', ArrT CharT MAX_APR_SERVICE_NAME_LEN), (''src_port'', u32),
      (''reg_flag'', u8)]"

definition voice_svc_cmd_response :: ctype where
  "voice_svc_cmd_response =
     StructT Natural [(''src_port'', u32), (''dest_port'', u32), (''token'', u32),
      (''opcode'', u32), (''payload_size'', u32), (''payload'', ArrT u8 0)]"

definition voice_svc_cmd_request :: ctype where
  "voice_svc_cmd_request =
     StructT Natural [(''svc_name'', ArrT CharT MAX_APR_SERVICE_NAME_LEN), (''src_port'', u32),
      (''dest_port'', u32), (''token'', u32), (''opcode'', u32), (''payload_size'', u32),
      (''payload'', ArrT u8 0)]"

definition voice_svc_1 :: "decl list" where
  "voice_svc_1 =
    [Flag ''__VOICE_SVC_H__'']"

definition voice_svc_2 :: "decl list" where
  "voice_svc_2 =
    [Text ''VOICE_SVC_DRIVER_NAME'' ''voice_svc'', Text ''VOICE_SVC_MVM_STR'' ''MVM'',
     Text ''VOICE_SVC_CVS_STR'' ''CVS'', Const ''MAX_APR_SERVICE_NAME_LEN'' 64,
     Const ''MSG_REGISTER'' 0x1, Const ''MSG_REQUEST'' 0x2, Const ''MSG_RESPONSE'' 0x3,
     Struct ''voice_svc_write_msg'' voice_svc_write_msg,
     Struct ''voice_svc_register'' voice_svc_register,
     Struct ''voice_svc_cmd_response'' voice_svc_cmd_response,
     Struct ''voice_svc_cmd_request'' voice_svc_cmd_request]"

definition voice_svc_h :: "decl list" where
  "voice_svc_h = voice_svc_1 @ voice_svc_2"

subsection \<open>sound/devdep_params.h\<close>

definition dolby_param_data :: ctype where
  "dolby_param_data =
     StructT Natural [(''version'', s32), (''device_id'', s32), (''be_id'', s32),
      (''param_id'', s32), (''length'', s32), (''data'', PtrT)]"

definition dolby_param_license :: ctype where
  "dolby_param_license =
     StructT Natural [(''dmid'', s32), (''license_key'', s32)]"

definition dts_eagle_param_desc :: ctype where
  "dts_eagle_param_desc =
     StructT Packed [(''id'', u32), (''size'', u32), (''offset'', s32), (''device'', u32)]"

definition snd_pcm_mmap_fd :: ctype where
  "snd_pcm_mmap_fd =
     StructT Natural [(''dir'', s32), (''fd'', s32), (''size'', s32), (''actual_size'', s32)]"

abbreviation EAGLE_DRIVER_ID :: nat where "EAGLE_DRIVER_ID \<equiv> 242"

definition devdep_params_1 :: "decl list" where
  "devdep_params_1 =
    [Flag ''_DEV_DEP_H'', Struct ''dolby_param_data'' dolby_param_data,
     Struct ''dolby_param_license'' dolby_param_license,
     Request ''SNDRV_DEVDEP_DAP_IOCTL_SET_PARAM'' (IOWR 85 16 dolby_param_data),
     Request ''SNDRV_DEVDEP_DAP_IOCTL_GET_PARAM'' (IOR 85 17 dolby_param_data),
     Request ''SNDRV_DEVDEP_DAP_IOCTL_DAP_COMMAND'' (IOWR 85 19 dolby_param_data),
     Request ''SNDRV_DEVDEP_DAP_IOCTL_DAP_LICENSE'' (IOWR 85 20 dolby_param_license),
     Request ''SNDRV_DEVDEP_DAP_IOCTL_GET_VISUALIZER'' (IOR 85 21 dolby_param_data),
     Const ''DTS_EAGLE_MODULE'' 0x00005000, Const ''DTS_EAGLE_MODULE_ENABLE'' 0x00005001,
     Const ''EAGLE_DRIVER_ID'' 0xF2,
     Request ''DTS_EAGLE_IOCTL_GET_CACHE_SIZE'' (IOR EAGLE_DRIVER_ID 0 s32),
     Request ''DTS_EAGLE_IOCTL_SET_CACHE_SIZE'' (IOW EAGLE_DRIVER_ID 1 s32),
     Request ''DTS_EAGLE_IOCTL_GET_PARAM'' (IOR EAGLE_DRIVER_ID 2 PtrT),
     Request ''DTS_EAGLE_IOCTL_SET_PARAM'' (IOW EAGLE_DRIVER_ID 3 PtrT),
     Request ''DTS_EAGLE_IOCTL_SET_CACHE_BLOCK'' (IOW EAGLE_DRIVER_ID 4 PtrT),
     Request ''DTS_EAGLE_IOCTL_SET_ACTIVE_DEVICE'' (IOW EAGLE_DRIVER_ID 5 PtrT),
     Request ''DTS_EAGLE_IOCTL_GET_LICENSE'' (IOR EAGLE_DRIVER_ID 6 PtrT),
     Request ''DTS_EAGLE_IOCTL_SET_LICENSE'' (IOW EAGLE_DRIVER_ID 7 PtrT),
     Request ''DTS_EAGLE_IOCTL_SEND_LICENSE'' (IOW EAGLE_DRIVER_ID 8 s32),
     Request ''DTS_EAGLE_IOCTL_SET_VOLUME_COMMANDS'' (IOW EAGLE_DRIVER_ID 9 PtrT),
     Const ''DTS_EAGLE_FLAG_IOCTL_PRE'' (2 ^ 30),
     Const ''DTS_EAGLE_FLAG_IOCTL_JUSTSETCACHE'' (- (2 ^ 31)),
     Const ''DTS_EAGLE_FLAG_IOCTL_GETFROMCORE'' (- 2147483648),
     Const ''DTS_EAGLE_FLAG_IOCTL_MASK'' 1073741823,
     Const ''DTS_EAGLE_FLAG_ALSA_GET'' (- (2 ^ 31)),
     Struct ''dts_eagle_param_desc'' dts_eagle_param_desc, Const ''HWDEP_FE_BASE'' 3000,
     Struct ''snd_pcm_mmap_fd'' snd_pcm_mmap_fd,
     Request ''SNDRV_PCM_IOCTL_MMAP_DATA_FD'' (IOWR 85 210 snd_pcm_mmap_fd)]"

definition devdep_params_h :: "decl list" where
  "devdep_params_h = devdep_params_1"

subsection \<open>sound/audio_effects.h\<close>

definition virtualizer_params :: ctype where
  "virtualizer_params =
     StructT Natural [(''device'', u32), (''enable_flag'', u32), (''strength'', u32),
      (''out_type'', u32), (''gain_adjust'', s32)]"

definition reverb_params :: ctype where
  "reverb_params =
     StructT Natural [(''device'', u32), (''enable_flag'', u32), (''mode'', u32),
      (''preset'', u32), (''wet_mix'', u32), (''gain_adjust'', s32), (''room_level'', s32),
      (''room_hf_level'', s32), (''decay_time'', u32), (''decay_hf_ratio'', u32),
      (''reflections_level'', s32), (''reflections_delay'', u32), (''level'', s32),
      (''delay'', u32), (''diffusion'', u32), (''density'', u32)]"

definition bass_boost_params :: ctype where
  "bass_boost_params =
     StructT Natural [(''device'', u32), (''enable_flag'', u32), (''mode'', u32),
      (''strength'', u32)]"

definition eq_config_t :: ctype where
  "eq_config_t =
     StructT Natural [(''eq_pregain'', s32), (''preset_id'', s32), (''num_bands'', u32)]"

definition eq_per_band_config_t :: ctype where
  "eq_per_band_config_t =
     StructT Natural [(''band_idx'', s32), (''filter_type'', u32), (''freq_millihertz'', u32),
      (''gain_millibels'', s32), (''quality_factor'', u32)]"

definition eq_per_band_freq_range_t :: ctype where
  "eq_per_band_freq_range_t =
     StructT Natural [(''band_index'', u32), (''min_freq_millihertz'', u32),
      (''max_freq_millihertz'', u32)]"

abbreviation MAX_EQ_BANDS :: nat where "MAX_EQ_BANDS \<equiv> 12"

definition eq_params :: ctype where
  "eq_params =
     StructT Natural [(''device'', u32), (''enable_flag'', u32), (''config'', eq_config_t),
      (''per_band_cfg'', ArrT eq_per_band_config_t MAX_EQ_BANDS),
      (''per_band_freq_range'', ArrT eq_per_band_freq_range_t MAX_EQ_BANDS),
      (''band_index'', u32), (''freq_millihertz'', u32)]"

definition pbe_config_t :: ctype where
  "pbe_config_t =
     StructT Packed [(''real_bass_mix'', s16), (''bass_color_control'', s16),
      (''main_chain_delay'', u16), (''xover_filter_order'', u16),
      (''bandpass_filter_order'', u16), (''drc_delay'', s16), (''rms_tav'', u16),
      (''exp_threshold'', s16), (''exp_slope'', u16), (''comp_threshold'', s16),
      (''comp_slope'', u16), (''makeup_gain'', u16), (''comp_attack'', u32),
      (''comp_release'', u32), (''exp_attack'', u32), (''exp_release'', u32),
      (''limiter_bass_threshold'', s16), (''limiter_high_threshold'', s16),
      (''limiter_bass_makeup_gain'', s16), (''limiter_high_makeup_gain'', s16),
      (''limiter_bass_gc'', s16), (''limiter_high_gc'', s16), (''limiter_delay'', s16),
      (''reserved'', u16), (''p1LowPassCoeffs'', ArrT s32 (5 * 2)),
      (''p1HighPassCoeffs'', ArrT s32 (5 * 2)), (''p1BandPassCoeffs'', ArrT s32 (5 * 3)),
      (''p1BassShelfCoeffs'', ArrT s32 5), (''p1TrebleShelfCoeffs'', ArrT s32 5)]"

definition pbe_params :: ctype where
  "pbe_params =
     StructT Natural [(''device'', u32), (''enable_flag'', u32), (''cfg_len'', u32),
      (''config'', pbe_config_t)]"

definition soft_volume_params :: ctype where
  "soft_volume_params =
     StructT Natural [(''device'', u32), (''enable_flag'', u32), (''master_gain'', u32),
      (''left_gain'', u32), (''right_gain'', u32)]"

definition msm_nt_eff_all_config :: ctype where
  "msm_nt_eff_all_config =
     StructT Natural [(''bass_boost'', bass_boost_params), (''pbe'', pbe_params),
      (''virtualizer'', virtualizer_params), (''reverb'', reverb_params),
      (''equalizer'', eq_params), (''saplus_vol'', soft_volume_params),
      (''topo_switch_vol'', soft_volume_params)]"

definition audio_effects_1 :: "decl list" where
  "audio_effects_1 =
    [Flag ''_AUDIO_EFFECTS_H'', Const ''CONFIG_CACHE'' 0, Const ''CONFIG_SET'' 1,
     Const ''CONFIG_GET'' 2]"

definition audio_effects_2 :: "decl list" where
  "audio_effects_2 =
    [Const ''VIRTUALIZER_MODULE'' 0x00001000, Const ''VIRTUALIZER_ENABLE'' 0x00001001,
     Const ''VIRTUALIZER_STRENGTH'' 0x00001002, Const ''VIRTUALIZER_OUT_TYPE'' 0x00001003,
     Const ''VIRTUALIZER_GAIN_ADJUST'' 0x00001004, Const ''VIRTUALIZER_ENABLE_PARAM_LEN'' 1,
     Const ''VIRTUALIZER_STRENGTH_PARAM_LEN'' 1, Const ''VIRTUALIZER_OUT_TYPE_PARAM_LEN'' 1,
     Const ''VIRTUALIZER_GAIN_ADJUST_PARAM_LEN'' 1, Const ''REVERB_MODULE'' 0x00002000,
     Const ''REVERB_ENABLE'' 0x00002001, Const ''REVERB_MODE'' 0x00002002,
     Const ''REVERB_PRESET'' 0x00002003, Const ''REVERB_WET_MIX'' 0x00002004,
     Const ''REVERB_GAIN_ADJUST'' 0x00002005, Const ''REVERB_ROOM_LEVEL'' 0x00002006,
     Const ''REVERB_ROOM_HF_LEVEL'' 0x00002007, Const ''REVERB_DECAY_TIME'' 0x00002008,
     Const ''REVERB_DECAY_HF_RATIO'' 0x00002009, Const ''REVERB_REFLECTIONS_LEVEL'' 0x0000200a,
     Const ''REVERB_REFLECTIONS_DELAY'' 0x0000200b, Const ''REVERB_LEVEL'' 0x0000200c,
     Const ''REVERB_DELAY'' 0x0000200d, Const ''REVERB_DIFFUSION'' 0x0000200e,
     Const ''REVERB_DENSITY'' 0x0000200f, Const ''REVERB_ENABLE_PARAM_LEN'' 1,
     Const ''REVERB_MODE_PARAM_LEN'' 1, Const ''REVERB_PRESET_PARAM_LEN'' 1,
     Const ''REVERB_WET_MIX_PARAM_LEN'' 1, Const ''REVERB_GAIN_ADJUST_PARAM_LEN'' 1,
     Const ''REVERB_ROOM_LEVEL_PARAM_LEN'' 1, Const ''REVERB_ROOM_HF_LEVEL_PARAM_LEN'' 1,
     Const ''REVERB_DECAY_TIME_PARAM_LEN'' 1, Const ''REVERB_DECAY_HF_RATIO_PARAM_LEN'' 1,
     Const ''REVERB_REFLECTIONS_LEVEL_PARAM_LEN'' 1,
     Const ''REVERB_REFLECTIONS_DELAY_PARAM_LEN'' 1, Const ''REVERB_LEVEL_PARAM_LEN'' 1,
     Const ''REVERB_DELAY_PARAM_LEN'' 1, Const ''REVERB_DIFFUSION_PARAM_LEN'' 1,
     Const ''REVERB_DENSITY_PARAM_LEN'' 1, Const ''BASS_BOOST_MODULE'' 0x00003000,
     Const ''BASS_BOOST_ENABLE'' 0x00003001, Const ''BASS_BOOST_MODE'' 0x00003002,
     Const ''BASS_BOOST_STRENGTH'' 0x00003003, Const ''BASS_BOOST_ENABLE_PARAM_LEN'' 1,
     Const ''BASS_BOOST_MODE_PARAM_LEN'' 1, Const ''BASS_BOOST_STRENGTH_PARAM_LEN'' 1,
     Const ''EQ_MODULE'' 0x00004000, Const ''EQ_ENABLE'' 0x00004001,
     Const ''EQ_CONFIG'' 0x00004002, Const ''EQ_NUM_BANDS'' 0x00004003,
     Const ''EQ_BAND_LEVELS'' 0x00004004, Const ''EQ_BAND_LEVEL_RANGE'' 0x00004005,
     Const ''EQ_BAND_FREQS'' 0x00004006, Const ''EQ_SINGLE_BAND_FREQ_RANGE'' 0x00004007,
     Const ''EQ_SINGLE_BAND_FREQ'' 0x00004008, Const ''EQ_BAND_INDEX'' 0x00004009,
     Const ''EQ_PRESET_ID'' 0x0000400a, Const ''EQ_NUM_PRESETS'' 0x0000400b,
     Const ''EQ_PRESET_NAME'' 0x0000400c, Const ''EQ_ENABLE_PARAM_LEN'' 1,
     Const ''EQ_CONFIG_PARAM_LEN'' 3, Const ''EQ_CONFIG_PER_BAND_PARAM_LEN'' 5,
     Const ''EQ_NUM_BANDS_PARAM_LEN'' 1, Const ''EQ_BAND_LEVELS_PARAM_LEN'' 13,
     Const ''EQ_BAND_LEVEL_RANGE_PARAM_LEN'' 2, Const ''EQ_BAND_FREQS_PARAM_LEN'' 13,
     Const ''EQ_SINGLE_BAND_FREQ_RANGE_PARAM_LEN'' 2, Const ''EQ_SINGLE_BAND_FREQ_PARAM_LEN'' 1,
     Const ''EQ_BAND_INDEX_PARAM_LEN'' 1, Const ''EQ_PRESET_ID_PARAM_LEN'' 1,
     Const ''EQ_NUM_PRESETS_PARAM_LEN'' 1, Const ''EQ_PRESET_NAME_PARAM_LEN'' 32,
     Const ''EQ_TYPE_NONE'' 0, Const ''EQ_BASS_BOOST'' 1, Const ''EQ_BASS_CUT'' 2,
     Const ''EQ_TREBLE_BOOST'' 3, Const ''EQ_TREBLE_CUT'' 4, Const ''EQ_BAND_BOOST'' 5,
     Const ''EQ_BAND_CUT'' 6, Const ''SOFT_VOLUME_MODULE'' 0x00006000,
     Const ''SOFT_VOLUME_ENABLE'' 0x00006001, Const ''SOFT_VOLUME_GAIN_2CH'' 0x00006002,
     Const ''SOFT_VOLUME_GAIN_MASTER'' 0x00006003, Const ''SOFT_VOLUME_ENABLE_PARAM_LEN'' 1,
     Const ''SOFT_VOLUME_GAIN_2CH_PARAM_LEN'' 2, Const ''SOFT_VOLUME_GAIN_MASTER_PARAM_LEN'' 1,
     Const ''SOFT_VOLUME2_MODULE'' 0x00007000, Const ''SOFT_VOLUME2_ENABLE'' 0x00007001,
     Const ''SOFT_VOLUME2_GAIN_2CH'' 0x00007002, Const ''SOFT_VOLUME2_GAIN_MASTER'' 0x00007003,
     Const ''SOFT_VOLUME2_ENABLE_PARAM_LEN'' 1, Const ''SOFT_VOLUME2_GAIN_2CH_PARAM_LEN'' 2,
     Const ''SOFT_VOLUME2_GAIN_MASTER_PARAM_LEN'' 1, Const ''PBE_CONF_MODULE_ID'' 0x00010C2A,
     Const ''PBE_CONF_PARAM_ID'' 0x00010C49, Const ''PBE_MODULE'' 0x00008000,
     Const ''PBE_ENABLE'' 0x00008001, Const ''PBE_CONFIG'' 0x00008002,
     Const ''PBE_ENABLE_PARAM_LEN'' 1, Const ''PBE_CONFIG_PARAM_LEN'' 28,
     Const ''COMMAND_PAYLOAD_LEN'' 3, Const ''COMMAND_PAYLOAD_SZ'' 12,
     Const ''MAX_INBAND_PARAM_SZ'' 4096, Const ''Q27_UNITY'' (2 ^ 27),
     Const ''Q8_UNITY'' (2 ^ 8), Const ''CUSTOM_OPENSL_PRESET'' 18,
     Const ''VIRTUALIZER_ENABLE_PARAM_SZ'' 4, Const ''VIRTUALIZER_STRENGTH_PARAM_SZ'' 4,
     Const ''VIRTUALIZER_OUT_TYPE_PARAM_SZ'' 4, Const ''VIRTUALIZER_GAIN_ADJUST_PARAM_SZ'' 4,
     Struct ''virtualizer_params'' virtualizer_params,
     Const ''NUM_OSL_REVERB_PRESETS_SUPPORTED'' 6, Const ''REVERB_ENABLE_PARAM_SZ'' 4,
     Const ''REVERB_MODE_PARAM_SZ'' 4, Const ''REVERB_PRESET_PARAM_SZ'' 4,
     Const ''REVERB_WET_MIX_PARAM_SZ'' 4, Const ''REVERB_GAIN_ADJUST_PARAM_SZ'' 4,
     Const ''REVERB_ROOM_LEVEL_PARAM_SZ'' 4, Const ''REVERB_ROOM_HF_LEVEL_PARAM_SZ'' 4]"

definition audio_effects_3 :: "decl list" where
  "audio_effects_3 =
    [Const ''REVERB_DECAY_TIME_PARAM_SZ'' 4, Const ''REVERB_DECAY_HF_RATIO_PARAM_SZ'' 4,
     Const ''REVERB_REFLECTIONS_LEVEL_PARAM_SZ'' 4,
     Const ''REVERB_REFLECTIONS_DELAY_PARAM_SZ'' 4, Const ''REVERB_LEVEL_PARAM_SZ'' 4,
     Const ''REVERB_DELAY_PARAM_SZ'' 4, Const ''REVERB_DIFFUSION_PARAM_SZ'' 4,
     Const ''REVERB_DENSITY_PARAM_SZ'' 4, Struct ''reverb_params'' reverb_params,
     Const ''BASS_BOOST_ENABLE_PARAM_SZ'' 4, Const ''BASS_BOOST_MODE_PARAM_SZ'' 4,
     Const ''BASS_BOOST_STRENGTH_PARAM_SZ'' 4, Struct ''bass_boost_params'' bass_boost_params,
     Const ''MAX_EQ_BANDS'' 12, Const ''MAX_OSL_EQ_BANDS'' 5, Const ''EQ_ENABLE_PARAM_SZ'' 4,
     Const ''EQ_CONFIG_PARAM_SZ'' 12, Const ''EQ_CONFIG_PER_BAND_PARAM_SZ'' 20,
     Const ''EQ_CONFIG_PARAM_MAX_LEN'' 63, Const ''EQ_CONFIG_PARAM_MAX_SZ'' 252,
     Const ''EQ_NUM_BANDS_PARAM_SZ'' 4, Const ''EQ_BAND_LEVELS_PARAM_SZ'' 52,
     Const ''EQ_BAND_LEVEL_RANGE_PARAM_SZ'' 8, Const ''EQ_BAND_FREQS_PARAM_SZ'' 52,
     Const ''EQ_SINGLE_BAND_FREQ_RANGE_PARAM_SZ'' 8, Const ''EQ_SINGLE_BAND_FREQ_PARAM_SZ'' 4,
     Const ''EQ_BAND_INDEX_PARAM_SZ'' 4, Const ''EQ_PRESET_ID_PARAM_SZ'' 4,
     Const ''EQ_NUM_PRESETS_PARAM_SZ'' 1, Struct ''eq_config_t'' eq_config_t,
     Struct ''eq_per_band_config_t'' eq_per_band_config_t,
     Struct ''eq_per_band_freq_range_t'' eq_per_band_freq_range_t,
     Struct ''eq_params'' eq_params, Const ''PBE_ENABLE_PARAM_SZ'' 4,
     Const ''PBE_CONFIG_PARAM_SZ'' 56, Struct ''pbe_config_t'' pbe_config_t,
     Struct ''pbe_params'' pbe_params]"

definition audio_effects_4 :: "decl list" where
  "audio_effects_4 =
    [Const ''SOFT_VOLUME_ENABLE_PARAM_SZ'' 4, Const ''SOFT_VOLUME_GAIN_MASTER_PARAM_SZ'' 4,
     Const ''SOFT_VOLUME_GAIN_2CH_PARAM_SZ'' 4,
     Struct ''soft_volume_params'' soft_volume_params,
     Struct ''msm_nt_eff_all_config'' msm_nt_eff_all_config]"

definition audio_effects_h :: "decl list" where
  "audio_effects_h = audio_effects_1 @ audio_effects_2 @ audio_effects_3 @ audio_effects_4"

subsection \<open>sound/lsm_params.h\<close>

definition snd_lsm_ep_det_thres :: ctype where
  "snd_lsm_ep_det_thres =
     StructT Natural [(''epd_begin'', u32), (''epd_end'', u32)]"

definition snd_lsm_detect_mode :: ctype where
  "snd_lsm_detect_mode =
     StructT Natural [(''mode'', EnumT ''lsm_detection_mode''), (''detect_failure'', u8)]"

definition snd_lsm_gain :: ctype where
  "snd_lsm_gain =
     StructT Natural [(''gain'', u16)]"

definition snd_lsm_poll_enable :: ctype where
  "snd_lsm_poll_enable =
     StructT Natural [(''poll_en'', u8)]"

definition snd_lsm_sound_model_v2 :: ctype where
  "snd_lsm_sound_model_v2 =
     StructT Natural [(''data'', PtrT), (''confidence_level'', PtrT), (''data_size'', u32),
      (''detection_mode'', EnumT ''lsm_detection_mode''), (''num_confidence_levels'', u8),
      (''detect_failure'', u8)]"

definition snd_lsm_session_data :: ctype where
  "snd_lsm_session_data =
     StructT Natural [(''app_id'', EnumT ''lsm_app_id'')]"

definition snd_lsm_event_status :: ctype where
  "snd_lsm_event_status =
     StructT Natural [(''status'', u16), (''payload_size'', u16), (''payload'', ArrT u8 0)]"

definition snd_lsm_event_status_v3 :: ctype where
  "snd_lsm_event_status_v3 =
     StructT Natural [(''timestamp_lsw'', u32), (''timestamp_msw'', u32), (''status'', u16),
      (''payload_size'', u16), (''payload'', ArrT u8 0)]"

definition snd_lsm_detection_params :: ctype where
  "snd_lsm_detection_params =
     StructT Natural [(''conf_level'', PtrT), (''detect_mode'', EnumT ''lsm_detection_mode''),
      (''num_confidence_levels'', u8), (''detect_failure'', u8), (''poll_enable'', u8)]"

definition lsm_params_info :: ctype where
  "lsm_params_info =
     StructT Natural [(''module_id'', u32), (''param_id'', u32), (''param_size'', u32),
      (''param_data'', PtrT), (''param_type'', u32)]"

definition snd_lsm_module_params :: ctype where
  "snd_lsm_module_params =
     StructT Natural [(''params'', PtrT), (''num_params'', u32), (''data_size'', u32)]"

definition snd_lsm_output_format_cfg :: ctype where
  "snd_lsm_output_format_cfg =
     StructT Natural [(''format'', u8), (''packing'', u8), (''events'', u8), (''mode'', u8)]"

definition lsm_params_1 :: "decl list" where
  "lsm_params_1 =
    [Flag ''_LSM_PARAMS_H__'', Flag ''LSM_POLLING_ENABLE_SUPPORT'',
     Flag ''LSM_EVENT_TIMESTAMP_MODE_SUPPORT'']"

definition lsm_params_2 :: "decl list" where
  "lsm_params_2 =
    [Const ''SNDRV_LSM_VERSION'' 256, Const ''LSM_OUT_FORMAT_PCM'' 0,
     Const ''LSM_OUT_FORMAT_ADPCM'' (2 ^ 0), Const ''LSM_OUT_DATA_RAW'' 0,
     Const ''LSM_OUT_DATA_PACKED'' 1, Const ''LSM_OUT_DATA_EVENTS_DISABLED'' 0,
     Const ''LSM_OUT_DATA_EVENTS_ENABLED'' 1, Const ''LSM_OUT_TRANSFER_MODE_RT'' 0,
     Const ''LSM_OUT_TRANSFER_MODE_FTRT'' 1, Const ''LSM_ENDPOINT_DETECT_THRESHOLD'' 0,
     Const ''LSM_OPERATION_MODE'' 1, Const ''LSM_GAIN'' 2,
     Const ''LSM_MIN_CONFIDENCE_LEVELS'' 3, Const ''LSM_REG_SND_MODEL'' 4,
     Const ''LSM_DEREG_SND_MODEL'' 5, Const ''LSM_CUSTOM_PARAMS'' 6,
     Const ''LSM_POLLING_ENABLE'' 7, Const ''LSM_PARAMS_MAX'' (7 + 1),
     Const ''LSM_EVENT_NON_TIME_STAMP_MODE'' 0, Const ''LSM_EVENT_TIME_STAMP_MODE'' 1,
     Enum ''lsm_app_id'' [(''LSM_VOICE_WAKEUP_APP_ID'', 1), (''LSM_VOICE_WAKEUP_APP_ID_V2'', 2)],
     Enum ''lsm_detection_mode'' [(''LSM_MODE_KEYWORD_ONLY_DETECTION'', 1),
       (''LSM_MODE_USER_KEYWORD_DETECTION'', 2)],
     Enum ''lsm_vw_status'' [(''LSM_VOICE_WAKEUP_STATUS_RUNNING'', 1),
       (''LSM_VOICE_WAKEUP_STATUS_DETECTED'', 2), (''LSM_VOICE_WAKEUP_STATUS_END_SPEECH'', 3),
       (''LSM_VOICE_WAKEUP_STATUS_REJECTED'', 4)],
     Struct ''snd_lsm_ep_det_thres'' snd_lsm_ep_det_thres,
     Struct ''snd_lsm_detect_mode'' snd_lsm_detect_mode, Struct ''snd_lsm_gain'' snd_lsm_gain,
     Struct ''snd_lsm_poll_enable'' snd_lsm_poll_enable,
     Struct ''snd_lsm_sound_model_v2'' snd_lsm_sound_model_v2,
     Struct ''snd_lsm_session_data'' snd_lsm_session_data,
     Struct ''snd_lsm_event_status'' snd_lsm_event_status,
     Struct ''snd_lsm_event_status_v3'' snd_lsm_event_status_v3,
     Struct ''snd_lsm_detection_params'' snd_lsm_detection_params]"

definition lsm_params_3 :: "decl list" where
  "lsm_params_3 =
    [Struct ''lsm_params_info'' lsm_params_info]"

definition lsm_params_4 :: "decl list" where
  "lsm_params_4 =
    [Struct ''snd_lsm_module_params'' snd_lsm_module_params,
     Struct ''snd_lsm_output_format_cfg'' snd_lsm_output_format_cfg,
     Request ''SNDRV_LSM_DEREG_SND_MODEL'' (IOW 85 1 s32),
     Request ''SNDRV_LSM_EVENT_STATUS'' (IOW 85 2 snd_lsm_event_status),
     Request ''SNDRV_LSM_ABORT_EVENT'' (IOW 85 3 s32),
     Request ''SNDRV_LSM_START'' (IOW 85 4 s32), Request ''SNDRV_LSM_STOP'' (IOW 85 5 s32),
     Request ''SNDRV_LSM_SET_SESSION_DATA'' (IOW 85 6 snd_lsm_session_data),
     Request ''SNDRV_LSM_REG_SND_MODEL_V2'' (IOW 85 7 snd_lsm_sound_model_v2),
     Request ''SNDRV_LSM_LAB_CONTROL'' (IOW 85 8 u32), Request ''SNDRV_LSM_STOP_LAB'' (IO 85 9),
     Request ''SNDRV_LSM_SET_PARAMS'' (IOW 85 10 snd_lsm_detection_params),
     Request ''SNDRV_LSM_SET_MODULE_PARAMS'' (IOW 85 11 snd_lsm_module_params),
     Request ''SNDRV_LSM_OUT_FORMAT_CFG'' (IOW 85 12 snd_lsm_output_format_cfg),
     Request ''SNDRV_LSM_SET_PORT'' (IO 85 13),
     Request ''SNDRV_LSM_SET_FWK_MODE_CONFIG'' (IOW 85 14 u32),
     Request ''SNDRV_LSM_EVENT_STATUS_V3'' (IOW 85 15 snd_lsm_event_status_v3)]"

definition lsm_params_h :: "decl list" where
  "lsm_params_h = lsm_params_1 @ lsm_params_2 @ lsm_params_3 @ lsm_params_4"

lemmas audio_structs =
  msm_audio_config_def msm_audio_stream_config_def msm_audio_buf_cfg_def msm_audio_stats_def
  msm_audio_ion_info_def msm_audio_pmem_info_def msm_audio_aio_buf_def msm_mute_info_def
  msm_vol_info_def msm_voicerec_mode_def msm_snd_device_config_def cad_devices_type_def
  msm_cad_device_config_def msm_snd_volume_config_def msm_cad_volume_config_def
  msm_snd_endpoint_def msm_cad_endpoint_def msm_audio_pcm_config_def msm_audio_bitstream_info_def
  msm_audio_bitstream_error_info_def msm_audio_event_payload_def msm_audio_event_def
  msm_snd_device_info_def msm_snd_device_list_def msm_dtmf_config_def msm_audio_route_config_def
  msm_audio_eq_band_def msm_audio_eq_stream_config_def msm_acdb_cmd_device_def
  msm_hwacc_data_config_def msm_hwacc_buf_cfg_def msm_hwacc_buf_avail_def
  msm_hwacc_effects_config_def msm_adsp_event_data_def msm_audio_aac_config_def
  msm_audio_aac_enc_config_def msm_audio_ac3_config_def msm_audio_alac_config_def
  msm_audio_amrnb_enc_config_def msm_audio_amrnb_enc_config_v2_def msm_audio_amrwb_enc_config_def
  msm_audio_amrwbplus_config_v2_def msm_audio_ape_config_def min_max_rate_def
  msm_audio_mvs_config_def gsm_header_def q6_msm_audio_mvs_frame_def msm_audio_mvs_frame_def
  q5v2_msm_audio_mvs_frame_def msm_audio_qcelp_enc_config_def msm_audio_evrc_enc_config_def
  msm_audio_sbc_enc_config_def msm_audio_voicememo_config_def msm_audio_wma_config_def
  msm_audio_wma_config_v2_def msm_audio_wmapro_config_def adie_codec_action_unit_def
  adie_codec_hwsetting_entry_def adie_codec_dev_profile_def adie_codec_register_def
  adie_codec_register_image_def adie_codec_anc_data_def adie_codec_operations_def
  wcd_spi_ac_buf_data_def wcd_spi_ac_write_cmd_def wdsp_reg_pkt_def wdsp_cmd_pkt_def
  wdsp_write_pkt_def wdsp_glink_ch_cfg_def voice_svc_write_msg_def voice_svc_register_def
  voice_svc_cmd_response_def voice_svc_cmd_request_def dolby_param_data_def
  dolby_param_license_def dts_eagle_param_desc_def snd_pcm_mmap_fd_def virtualizer_params_def
  reverb_params_def bass_boost_params_def eq_config_t_def eq_per_band_config_t_def
  eq_per_band_freq_range_t_def eq_params_def pbe_config_t_def pbe_params_def
  soft_volume_params_def msm_nt_eff_all_config_def snd_lsm_ep_det_thres_def
  snd_lsm_detect_mode_def snd_lsm_gain_def snd_lsm_poll_enable_def snd_lsm_sound_model_v2_def
  snd_lsm_session_data_def snd_lsm_event_status_def snd_lsm_event_status_v3_def
  snd_lsm_detection_params_def lsm_params_info_def snd_lsm_module_params_def
  snd_lsm_output_format_cfg_def

lemmas audio_decls =
  msm_audio_1_def msm_audio_2_def msm_audio_3_def msm_audio_4_def msm_audio_aac_1_def
  msm_audio_aac_2_def msm_audio_ac3_1_def msm_audio_ac3_2_def msm_audio_alac_1_def
  msm_audio_amrnb_1_def msm_audio_amrnb_2_def msm_audio_amrwb_1_def msm_audio_amrwb_2_def
  msm_audio_amrwbplus_1_def msm_audio_ape_1_def msm_audio_mvs_1_def msm_audio_mvs_2_def
  msm_audio_qcp_1_def msm_audio_qcp_2_def msm_audio_sbc_1_def msm_audio_sbc_2_def
  msm_audio_voicememo_1_def msm_audio_voicememo_2_def msm_audio_wma_1_def msm_audio_wmapro_1_def
  msm_adie_codec_1_def msm_adie_codec_2_def msm_adie_codec_3_def msm_adie_codec_4_def
  wcd_spi_ac_params_1_def wcd_spi_ac_params_2_def wcd_spi_ac_params_3_def wcd_dsp_glink_1_def
  wcd_dsp_glink_2_def voice_svc_1_def voice_svc_2_def devdep_params_1_def audio_effects_1_def
  audio_effects_2_def audio_effects_3_def audio_effects_4_def lsm_params_1_def lsm_params_2_def
  lsm_params_3_def lsm_params_4_def msm_audio_h_def msm_audio_aac_h_def msm_audio_ac3_h_def
  msm_audio_alac_h_def msm_audio_amrnb_h_def msm_audio_amrwb_h_def msm_audio_amrwbplus_h_def
  msm_audio_ape_h_def msm_audio_mvs_h_def msm_audio_qcp_h_def msm_audio_sbc_h_def
  msm_audio_voicememo_h_def msm_audio_wma_h_def msm_audio_wmapro_h_def msm_adie_codec_h_def
  wcd_spi_ac_params_h_def wcd_dsp_glink_h_def voice_svc_h_def devdep_params_h_def
  audio_effects_h_def lsm_params_h_def

text \<open>All structures and unions, in the order of the files.\<close>

definition audio_types :: "ctype list" where
  "audio_types =
    [msm_audio_config, msm_audio_stream_config, msm_audio_buf_cfg, msm_audio_stats,
     msm_audio_ion_info, msm_audio_pmem_info, msm_audio_aio_buf, msm_mute_info, msm_vol_info,
     msm_voicerec_mode, msm_snd_device_config, cad_devices_type, msm_cad_device_config,
     msm_snd_volume_config, msm_cad_volume_config, msm_snd_endpoint, msm_cad_endpoint,
     msm_audio_pcm_config, msm_audio_bitstream_info, msm_audio_bitstream_error_info,
     msm_audio_event_payload, msm_audio_event, msm_snd_device_info, msm_snd_device_list,
     msm_dtmf_config, msm_audio_route_config, msm_audio_eq_band, msm_audio_eq_stream_config,
     msm_acdb_cmd_device, msm_hwacc_data_config, msm_hwacc_buf_cfg, msm_hwacc_buf_avail,
     msm_hwacc_effects_config, msm_adsp_event_data, msm_audio_aac_config,
     msm_audio_aac_enc_config, msm_audio_ac3_config, msm_audio_alac_config,
     msm_audio_amrnb_enc_config, msm_audio_amrnb_enc_config_v2, msm_audio_amrwb_enc_config,
     msm_audio_amrwbplus_config_v2, msm_audio_ape_config, min_max_rate, msm_audio_mvs_config,
     gsm_header, q6_msm_audio_mvs_frame, msm_audio_mvs_frame, q5v2_msm_audio_mvs_frame,
     msm_audio_qcelp_enc_config, msm_audio_evrc_enc_config, msm_audio_sbc_enc_config,
     msm_audio_voicememo_config, msm_audio_wma_config, msm_audio_wma_config_v2,
     msm_audio_wmapro_config, adie_codec_action_unit, adie_codec_hwsetting_entry,
     adie_codec_dev_profile, adie_codec_register, adie_codec_register_image,
     adie_codec_anc_data, adie_codec_operations, wcd_spi_ac_buf_data, wcd_spi_ac_write_cmd,
     wdsp_reg_pkt, wdsp_cmd_pkt, wdsp_write_pkt, wdsp_glink_ch_cfg, voice_svc_write_msg,
     voice_svc_register, voice_svc_cmd_response, voice_svc_cmd_request, dolby_param_data,
     dolby_param_license, dts_eagle_param_desc, snd_pcm_mmap_fd, virtualizer_params,
     reverb_params, bass_boost_params, eq_config_t, eq_per_band_config_t,
     eq_per_band_freq_range_t, eq_params, pbe_config_t, pbe_params, soft_volume_params,
     msm_nt_eff_all_config, snd_lsm_ep_det_thres, snd_lsm_detect_mode, snd_lsm_gain,
     snd_lsm_poll_enable, snd_lsm_sound_model_v2, snd_lsm_session_data, snd_lsm_event_status,
     snd_lsm_event_status_v3, snd_lsm_detection_params, lsm_params_info, snd_lsm_module_params,
     snd_lsm_output_format_cfg]"

text \<open>The structures made to look the same to 32-bit and 64-bit processes.\<close>

definition audio_portable :: "ctype list" where
  "audio_portable =
    [wcd_spi_ac_buf_data, wcd_spi_ac_write_cmd, wdsp_reg_pkt, wdsp_cmd_pkt, wdsp_write_pkt,
     wdsp_glink_ch_cfg, voice_svc_write_msg, voice_svc_register, voice_svc_cmd_response,
     voice_svc_cmd_request, virtualizer_params, reverb_params, bass_boost_params, eq_config_t,
     eq_per_band_config_t, eq_per_band_freq_range_t, eq_params, pbe_config_t, pbe_params,
     soft_volume_params, msm_nt_eff_all_config]"

end
