(* ===== verification/LayoutSound.thy ===== *)
theory LayoutSound
  imports CLayout
begin

text \<open>
  The headers the kernel is built with (under sdm710/original-kernel-headers) of the sound
  core (sound/asound.h, compress\_params.h, compress\_offload.h): every structure and union
  with its fields in order; then, for every file, the list of its declarations, in blocks:
  structures, enumerations, number macros and device requests. A type of the C library or of
  a header that is not in the repository is a foreign type. Numbers from such headers are
  arguments.
\<close>

subsection \<open>sound/compress_params.h\<close>

definition snd_enc_wma :: ctype where
  "snd_enc_wma =
     StructT Natural [(''super_block_align'', u32), (''bits_per_sample'', u32),
      (''channelmask'', u32), (''encodeopt'', u32), (''encodeopt1'', u32),
      (''encodeopt2'', u32), (''avg_bit_rate'', u32)]"

definition snd_enc_vorbis :: ctype where
  "snd_enc_vorbis =
     StructT (PackedTo 4) [(''quality'', s32), (''managed'', u32), (''max_bit_rate'', u32),
      (''min_bit_rate'', u32), (''downmix'', u32)]"

definition snd_enc_real :: ctype where
  "snd_enc_real =
     StructT (PackedTo 4) [(''quant_bits'', u32), (''start_region'', u32),
      (''num_regions'', u32)]"

definition snd_enc_flac :: ctype where
  "snd_enc_flac =
     StructT (PackedTo 4) [(''num'', u32), (''gain'', u32)]"

definition snd_enc_generic :: ctype where
  "snd_enc_generic =
     StructT (PackedTo 4) [(''bw'', u32), (''reserved'', ArrT s32 15)]"

abbreviation SND_DEC_DDP_MAX_PARAMS :: nat where "SND_DEC_DDP_MAX_PARAMS \<equiv> 18"

definition snd_dec_ddp :: ctype where
  "snd_dec_ddp =
     StructT (PackedTo 4) [(''params_length'', u32),
      (''params_id'', ArrT u32 SND_DEC_DDP_MAX_PARAMS),
      (''params_value'', ArrT u32 SND_DEC_DDP_MAX_PARAMS)]"

definition snd_dec_flac :: ctype where
  "snd_dec_flac =
     StructT (PackedTo 4) [(''sample_size'', u16), (''min_blk_size'', u16),
      (''max_blk_size'', u16), (''min_frame_size'', u16), (''max_frame_size'', u16)]"

definition snd_dec_vorbis :: ctype where
  "snd_dec_vorbis =
     StructT Natural [(''bit_stream_fmt'', u32)]"

definition snd_dec_alac :: ctype where
  "snd_dec_alac =
     StructT Natural [(''frame_length'', u32), (''compatible_version'', u8),
      (''bit_depth'', u8), (''pb'', u8), (''mb'', u8), (''kb'', u8), (''num_channels'', u8),
      (''max_run'', u16), (''max_frame_bytes'', u32), (''avg_bit_rate'', u32),
      (''sample_rate'', u32), (''channel_layout_tag'', u32)]"

definition snd_dec_ape :: ctype where
  "snd_dec_ape =
     StructT Natural [(''compatible_version'', u16), (''compression_level'', u16),
      (''format_flags'', u32), (''blocks_per_frame'', u32), (''final_frame_blocks'', u32),
      (''total_frames'', u32), (''bits_per_sample'', u16), (''num_channels'', u16),
      (''sample_rate'', u32), (''seek_table_present'', u32)]"

definition snd_dec_aptx :: ctype where
  "snd_dec_aptx =
     StructT Natural [(''lap'', u32), (''uap'', u32), (''nap'', u32)]"

definition snd_dec_amrwb_plus :: ctype where
  "snd_dec_amrwb_plus =
     StructT Natural [(''bit_stream_fmt'', u32)]"

definition snd_codec_options :: ctype where
  "snd_codec_options =
     UnionT Natural [(''wma'', snd_enc_wma), (''vorbis'', snd_enc_vorbis),
      (''real'', snd_enc_real), (''flac'', snd_enc_flac), (''generic'', snd_enc_generic),
      (''ddp'', snd_dec_ddp), (''flac_dec'', snd_dec_flac), (''vorbis_dec'', snd_dec_vorbis),
      (''alac'', snd_dec_alac), (''ape'', snd_dec_ape), (''aptx_dec'', snd_dec_aptx),
      (''amrwbplus'', snd_dec_amrwb_plus)]"

abbreviation MAX_NUM_SAMPLE_RATES :: nat where "MAX_NUM_SAMPLE_RATES \<equiv> 32"

abbreviation MAX_NUM_BITRATES :: nat where "MAX_NUM_BITRATES \<equiv> 32"

definition snd_codec_desc :: ctype where
  "snd_codec_desc =
     StructT (PackedTo 4) [(''max_ch'', u32), (''sample_rates'', ArrT u32 MAX_NUM_SAMPLE_RATES),
      (''num_sample_rates'', u32), (''bit_rate'', ArrT u32 MAX_NUM_BITRATES),
      (''num_bitrates'', u32), (''rate_control'', u32), (''profiles'', u32), (''modes'', u32),
      (''formats'', u32), (''min_buffer'', u32), (''reserved'', ArrT u32 15)]"

definition snd_codec :: ctype where
  "snd_codec =
     StructT (PackedTo 4) [(''id'', u32), (''ch_in'', u32), (''ch_out'', u32),
      (''sample_rate'', u32), (''bit_rate'', u32), (''rate_control'', u32), (''profile'', u32),
      (''level'', u32), (''ch_mode'', u32), (''format'', u32), (''align'', u32),
      (''compr_passthr'', u32), (''options'', snd_codec_options), (''flags'', u32),
      (''reserved'', ArrT u32 2)]"

definition snd_codec_metadata :: ctype where
  "snd_codec_metadata =
     StructT Natural [(''length'', u32), (''offset'', u32), (''timestamp'', u64),
      (''reserved'', ArrT u32 4)]"

definition compress_params_1 :: "decl list" where
  "compress_params_1 =
    [Flag ''__SND_COMPRESS_PARAMS_H'']"

definition compress_params_2 :: "decl list" where
  "compress_params_2 =
    [Const ''SND_DEC_DDP_MAX_PARAMS'' 18, Const ''MAX_NUM_CODECS'' 32,
     Const ''MAX_NUM_CODEC_DESCRIPTORS'' 32, Const ''MAX_NUM_BITRATES'' 32,
     Const ''MAX_NUM_SAMPLE_RATES'' 32, Const ''MAX_NUM_FRAMES_PER_BUFFER'' 1,
     Const ''COMPRESSED_META_DATA_MODE'' 0x10, Const ''META_DATA_LEN_BYTES'' 36,
     Const ''Q6_AC3_DECODER'' 0x00010BF6, Const ''Q6_EAC3_DECODER'' 0x00010C3C,
     Const ''Q6_DTS'' 0x00010D88, Const ''Q6_DTS_LBR'' 0x00010DBB,
     Const ''COMPRESSED_TIMESTAMP_FLAG'' 0x0001, Const ''SND_AUDIOCODEC_PCM'' 0x00000001,
     Const ''SND_AUDIOCODEC_MP3'' 0x00000002, Const ''SND_AUDIOCODEC_AMR'' 0x00000003,
     Const ''SND_AUDIOCODEC_AMRWB'' 0x00000004, Const ''SND_AUDIOCODEC_AMRWBPLUS'' 0x00000005,
     Const ''SND_AUDIOCODEC_AAC'' 0x00000006, Const ''SND_AUDIOCODEC_WMA'' 0x00000007,
     Const ''SND_AUDIOCODEC_REAL'' 0x00000008, Const ''SND_AUDIOCODEC_VORBIS'' 0x00000009,
     Const ''SND_AUDIOCODEC_FLAC'' 0x0000000A, Const ''SND_AUDIOCODEC_IEC61937'' 0x0000000B,
     Const ''SND_AUDIOCODEC_G723_1'' 0x0000000C, Const ''SND_AUDIOCODEC_G729'' 0x0000000D,
     Const ''SND_AUDIOCODEC_BESPOKE'' 0x0000000E,
     Const ''SND_AUDIOCODEC_DTS_PASS_THROUGH'' 0x0000000F,
     Const ''SND_AUDIOCODEC_DTS_LBR'' 0x00000010,
     Const ''SND_AUDIOCODEC_DTS_TRANSCODE_LOOPBACK'' 0x00000011,
     Const ''SND_AUDIOCODEC_PASS_THROUGH'' 0x00000012, Const ''SND_AUDIOCODEC_MP2'' 0x00000013,
     Const ''SND_AUDIOCODEC_DTS_LBR_PASS_THROUGH'' 0x00000014,
     Const ''SND_AUDIOCODEC_AC3'' 0x00000015,
     Const ''SND_AUDIOCODEC_AC3_PASS_THROUGH'' 0x00000016,
     Const ''SND_AUDIOCODEC_WMA_PRO'' 0x00000017, Const ''SND_AUDIOCODEC_DTS'' 0x00000018,
     Const ''SND_AUDIOCODEC_EAC3'' 0x00000019, Const ''SND_AUDIOCODEC_ALAC'' 0x00000020,
     Const ''SND_AUDIOCODEC_APE'' 0x00000021, Const ''SND_AUDIOCODEC_DSD'' 0x00000022,
     Const ''SND_AUDIOCODEC_APTX'' 0x00000023, Const ''SND_AUDIOCODEC_TRUEHD'' 0x00000024,
     Const ''SND_AUDIOCODEC_MAX'' 36, Const ''SND_AUDIOPROFILE_PCM'' 0x00000001,
     Const ''SND_AUDIOCHANMODE_MP3_MONO'' 0x00000001,
     Const ''SND_AUDIOCHANMODE_MP3_STEREO'' 0x00000002,
     Const ''SND_AUDIOCHANMODE_MP3_JOINTSTEREO'' 0x00000004,
     Const ''SND_AUDIOCHANMODE_MP3_DUAL'' 0x00000008, Const ''SND_AUDIOPROFILE_AMR'' 0x00000001,
     Const ''SND_AUDIOMODE_AMR_DTX_OFF'' 0x00000001,
     Const ''SND_AUDIOMODE_AMR_VAD1'' 0x00000002, Const ''SND_AUDIOMODE_AMR_VAD2'' 0x00000004,
     Const ''SND_AUDIOSTREAMFORMAT_UNDEFINED'' 0x00000000,
     Const ''SND_AUDIOSTREAMFORMAT_CONFORMANCE'' 0x00000001,
     Const ''SND_AUDIOSTREAMFORMAT_IF1'' 0x00000002,
     Const ''SND_AUDIOSTREAMFORMAT_IF2'' 0x00000004,
     Const ''SND_AUDIOSTREAMFORMAT_FSF'' 0x00000008,
     Const ''SND_AUDIOSTREAMFORMAT_RTPPAYLOAD'' 0x00000010,
     Const ''SND_AUDIOSTREAMFORMAT_ITU'' 0x00000020,
     Const ''SND_AUDIOPROFILE_AMRWB'' 0x00000001,
     Const ''SND_AUDIOMODE_AMRWB_DTX_OFF'' 0x00000001,
     Const ''SND_AUDIOMODE_AMRWB_VAD1'' 0x00000002,
     Const ''SND_AUDIOMODE_AMRWB_VAD2'' 0x00000004,
     Const ''SND_AUDIOPROFILE_AMRWBPLUS'' 0x00000001, Const ''SND_AUDIOPROFILE_AAC'' 0x00000001,
     Const ''SND_AUDIOMODE_AAC_MAIN'' 0x00000001, Const ''SND_AUDIOMODE_AAC_LC'' 0x00000002,
     Const ''SND_AUDIOMODE_AAC_SSR'' 0x00000004, Const ''SND_AUDIOMODE_AAC_LTP'' 0x00000008,
     Const ''SND_AUDIOMODE_AAC_HE'' 0x00000010, Const ''SND_AUDIOMODE_AAC_SCALABLE'' 0x00000020,
     Const ''SND_AUDIOMODE_AAC_ERLC'' 0x00000040, Const ''SND_AUDIOMODE_AAC_LD'' 0x00000080,
     Const ''SND_AUDIOMODE_AAC_HE_PS'' 0x00000100,
     Const ''SND_AUDIOMODE_AAC_HE_MPS'' 0x00000200,
     Const ''SND_AUDIOSTREAMFORMAT_MP2ADTS'' 0x00000001,
     Const ''SND_AUDIOSTREAMFORMAT_MP4ADTS'' 0x00000002,
     Const ''SND_AUDIOSTREAMFORMAT_MP4LOAS'' 0x00000004,
     Const ''SND_AUDIOSTREAMFORMAT_MP4LATM'' 0x00000008,
     Const ''SND_AUDIOSTREAMFORMAT_ADIF'' 0x00000010,
     Const ''SND_AUDIOSTREAMFORMAT_MP4FF'' 0x00000020,
     Const ''SND_AUDIOSTREAMFORMAT_RAW'' 0x00000040, Const ''SND_AUDIOPROFILE_WMA7'' 0x00000001,
     Const ''SND_AUDIOPROFILE_WMA8'' 0x00000002, Const ''SND_AUDIOPROFILE_WMA9'' 0x00000004,
     Const ''SND_AUDIOPROFILE_WMA10'' 0x00000008, Const ''SND_AUDIOMODE_WMA_LEVEL1'' 0x00000001,
     Const ''SND_AUDIOMODE_WMA_LEVEL2'' 0x00000002,
     Const ''SND_AUDIOMODE_WMA_LEVEL3'' 0x00000004,
     Const ''SND_AUDIOMODE_WMA_LEVEL4'' 0x00000008,
     Const ''SND_AUDIOMODE_WMAPRO_LEVELM0'' 0x00000010,
     Const ''SND_AUDIOMODE_WMAPRO_LEVELM1'' 0x00000020,
     Const ''SND_AUDIOMODE_WMAPRO_LEVELM2'' 0x00000040,
     Const ''SND_AUDIOMODE_WMAPRO_LEVELM3'' 0x00000080,
     Const ''SND_AUDIOSTREAMFORMAT_WMA_ASF'' 0x00000001,
     Const ''SND_AUDIOSTREAMFORMAT_WMA_NOASF_HDR'' 0x00000002,
     Const ''SND_AUDIOPROFILE_REALAUDIO'' 0x00000001,
     Const ''SND_AUDIOMODE_REALAUDIO_G2'' 0x00000001,
     Const ''SND_AUDIOMODE_REALAUDIO_8'' 0x00000002,
     Const ''SND_AUDIOMODE_REALAUDIO_10'' 0x00000004,
     Const ''SND_AUDIOMODE_REALAUDIO_SURROUND'' 0x00000008,
     Const ''SND_AUDIOPROFILE_VORBIS'' 0x00000001, Const ''SND_AUDIOMODE_VORBIS'' 0x00000001,
     Const ''SND_AUDIOPROFILE_FLAC'' 0x00000001]"

definition compress_params_3 :: "decl list" where
  "compress_params_3 =
    [Const ''SND_AUDIOMODE_FLAC_LEVEL0'' 0x00000001,
     Const ''SND_AUDIOMODE_FLAC_LEVEL1'' 0x00000002,
     Const ''SND_AUDIOMODE_FLAC_LEVEL2'' 0x00000004,
     Const ''SND_AUDIOMODE_FLAC_LEVEL3'' 0x00000008,
     Const ''SND_AUDIOMODE_FLAC_LEVEL4'' 0x00000010,
     Const ''SND_AUDIOMODE_FLAC_LEVEL5'' 0x00000020,
     Const ''SND_AUDIOMODE_FLAC_LEVEL6'' 0x00000040,
     Const ''SND_AUDIOMODE_FLAC_LEVEL7'' 0x00000080,
     Const ''SND_AUDIOMODE_FLAC_LEVEL8'' 0x00000100,
     Const ''SND_AUDIOSTREAMFORMAT_FLAC'' 0x00000001,
     Const ''SND_AUDIOSTREAMFORMAT_FLAC_OGG'' 0x00000002,
     Const ''SND_AUDIOPROFILE_IEC61937'' 0x00000001,
     Const ''SND_AUDIOPROFILE_IEC61937_SPDIF'' 0x00000002,
     Const ''SND_AUDIOMODE_IEC_REF_STREAM_HEADER'' 0x00000000,
     Const ''SND_AUDIOMODE_IEC_LPCM'' 0x00000001, Const ''SND_AUDIOMODE_IEC_AC3'' 0x00000002,
     Const ''SND_AUDIOMODE_IEC_MPEG1'' 0x00000004, Const ''SND_AUDIOMODE_IEC_MP3'' 0x00000008,
     Const ''SND_AUDIOMODE_IEC_MPEG2'' 0x00000010, Const ''SND_AUDIOMODE_IEC_AACLC'' 0x00000020,
     Const ''SND_AUDIOMODE_IEC_DTS'' 0x00000040, Const ''SND_AUDIOMODE_IEC_ATRAC'' 0x00000080,
     Const ''SND_AUDIOMODE_IEC_SACD'' 0x00000100, Const ''SND_AUDIOMODE_IEC_EAC3'' 0x00000200,
     Const ''SND_AUDIOMODE_IEC_DTS_HD'' 0x00000400, Const ''SND_AUDIOMODE_IEC_MLP'' 0x00000800,
     Const ''SND_AUDIOMODE_IEC_DST'' 0x00001000, Const ''SND_AUDIOMODE_IEC_WMAPRO'' 0x00002000,
     Const ''SND_AUDIOMODE_IEC_REF_CXT'' 0x00004000,
     Const ''SND_AUDIOMODE_IEC_HE_AAC'' 0x00008000,
     Const ''SND_AUDIOMODE_IEC_HE_AAC2'' 0x00010000,
     Const ''SND_AUDIOMODE_IEC_MPEG_SURROUND'' 0x00020000,
     Const ''SND_AUDIOPROFILE_G723_1'' 0x00000001,
     Const ''SND_AUDIOMODE_G723_1_ANNEX_A'' 0x00000001,
     Const ''SND_AUDIOMODE_G723_1_ANNEX_B'' 0x00000002,
     Const ''SND_AUDIOMODE_G723_1_ANNEX_C'' 0x00000004,
     Const ''SND_AUDIOPROFILE_G729'' 0x00000001,
     Const ''SND_AUDIOMODE_G729_ANNEX_A'' 0x00000001,
     Const ''SND_AUDIOMODE_G729_ANNEX_B'' 0x00000002,
     Const ''SND_RATECONTROLMODE_CONSTANTBITRATE'' 0x00000001,
     Const ''SND_RATECONTROLMODE_VARIABLEBITRATE'' 0x00000002,
     Struct ''snd_enc_wma'' snd_enc_wma]"

definition compress_params_4 :: "decl list" where
  "compress_params_4 =
    [Struct ''snd_enc_vorbis'' snd_enc_vorbis]"

definition compress_params_5 :: "decl list" where
  "compress_params_5 =
    [Struct ''snd_enc_real'' snd_enc_real]"

definition compress_params_6 :: "decl list" where
  "compress_params_6 =
    [Struct ''snd_enc_flac'' snd_enc_flac, Struct ''snd_enc_generic'' snd_enc_generic,
     Struct ''snd_dec_ddp'' snd_dec_ddp, Struct ''snd_dec_flac'' snd_dec_flac,
     Struct ''snd_dec_vorbis'' snd_dec_vorbis, Struct ''snd_dec_alac'' snd_dec_alac,
     Struct ''snd_dec_ape'' snd_dec_ape, Struct ''snd_dec_aptx'' snd_dec_aptx,
     Struct ''snd_dec_amrwb_plus'' snd_dec_amrwb_plus,
     Struct ''snd_codec_options'' snd_codec_options]"

definition compress_params_7 :: "decl list" where
  "compress_params_7 =
    [Struct ''snd_codec_desc'' snd_codec_desc]"

definition compress_params_8 :: "decl list" where
  "compress_params_8 =
    [Struct ''snd_codec'' snd_codec, Struct ''snd_codec_metadata'' snd_codec_metadata]"

definition compress_params_h :: "decl list" where
  "compress_params_h = compress_params_1 @ compress_params_2 @ compress_params_3 @ compress_params_4 @
     compress_params_5 @ compress_params_6 @ compress_params_7 @ compress_params_8"

subsection \<open>sound/compress_offload.h\<close>

definition snd_compressed_buffer :: ctype where
  "snd_compressed_buffer =
     StructT (PackedTo 4) [(''fragment_size'', u32), (''fragments'', u32)]"

definition snd_compr_params :: ctype where
  "snd_compr_params =
     StructT (PackedTo 4) [(''buffer'', snd_compressed_buffer), (''codec'', snd_codec),
      (''no_wake_mode'', u8)]"

definition snd_compr_tstamp :: ctype where
  "snd_compr_tstamp =
     StructT (PackedTo 4) [(''byte_offset'', u32), (''copied_total'', u64),
      (''pcm_frames'', u32), (''pcm_io_frames'', u32), (''sampling_rate'', u32),
      (''timestamp'', u64)]"

definition snd_compr_avail :: ctype where
  "snd_compr_avail =
     StructT (PackedTo 4) [(''avail'', u64), (''tstamp'', snd_compr_tstamp)]"

abbreviation MAX_NUM_CODECS :: nat where "MAX_NUM_CODECS \<equiv> 32"

definition snd_compr_caps :: ctype where
  "snd_compr_caps =
     StructT (PackedTo 4) [(''num_codecs'', u32), (''direction'', u32),
      (''min_fragment_size'', u32), (''max_fragment_size'', u32), (''min_fragments'', u32),
      (''max_fragments'', u32), (''codecs'', ArrT u32 MAX_NUM_CODECS),
      (''reserved'', ArrT u32 11)]"

abbreviation MAX_NUM_CODEC_DESCRIPTORS :: nat where "MAX_NUM_CODEC_DESCRIPTORS \<equiv> 32"

definition snd_compr_codec_caps :: ctype where
  "snd_compr_codec_caps =
     StructT (PackedTo 4) [(''codec'', u32), (''num_descriptors'', u32),
      (''descriptor'', ArrT snd_codec_desc MAX_NUM_CODEC_DESCRIPTORS)]"

definition snd_compr_audio_info :: ctype where
  "snd_compr_audio_info =
     StructT (PackedTo 4) [(''frame_size'', u32), (''reserved'', ArrT u32 15)]"

definition snd_compr_metadata :: ctype where
  "snd_compr_metadata =
     StructT (PackedTo 4) [(''key'', u32), (''value'', ArrT u32 8)]"

definition compress_offload_1 :: "decl list" where
  "compress_offload_1 =
    [Flag ''__COMPRESS_OFFLOAD_H'']"

definition compress_offload_2 :: "decl list" where
  "compress_offload_2 =
    [Const ''SNDRV_COMPRESS_VERSION'' 258,
     Struct ''snd_compressed_buffer'' snd_compressed_buffer,
     Struct ''snd_compr_params'' snd_compr_params]"

definition compress_offload_3 :: "decl list" where
  "compress_offload_3 =
    [Struct ''snd_compr_tstamp'' snd_compr_tstamp, Struct ''snd_compr_avail'' snd_compr_avail,
     Enum ''snd_compr_direction'' [(''SND_COMPRESS_PLAYBACK'', 0),
      (''SND_COMPRESS_CAPTURE'', 1)]]"

definition compress_offload_4 :: "decl list" where
  "compress_offload_4 =
    [Struct ''snd_compr_caps'' snd_compr_caps,
     Struct ''snd_compr_codec_caps'' snd_compr_codec_caps,
     Struct ''snd_compr_audio_info'' snd_compr_audio_info,
     Const ''SNDRV_COMPRESS_RENDER_MODE_AUDIO_MASTER'' 0,
     Const ''SNDRV_COMPRESS_RENDER_MODE_STC_MASTER'' 1,
     Const ''SNDRV_COMPRESS_CLK_REC_MODE_NONE'' 0, Const ''SNDRV_COMPRESS_CLK_REC_MODE_AUTO'' 1]"

definition compress_offload_5 :: "decl list" where
  "compress_offload_5 =
    [Enum ''sndrv_compress_encoder'' [(''SNDRV_COMPRESS_ENCODER_PADDING'', 1),
       (''SNDRV_COMPRESS_ENCODER_DELAY'', 2), (''SNDRV_COMPRESS_MIN_BLK_SIZE'', 3),
       (''SNDRV_COMPRESS_MAX_BLK_SIZE'', 4), (''SNDRV_COMPRESS_PATH_DELAY'', 5),
       (''SNDRV_COMPRESS_RENDER_MODE'', 6), (''SNDRV_COMPRESS_CLK_REC_MODE'', 7),
       (''SNDRV_COMPRESS_RENDER_WINDOW'', 8), (''SNDRV_COMPRESS_START_DELAY'', 9),
       (''SNDRV_COMPRESS_ENABLE_ADJUST_SESSION_CLOCK'', 10),
       (''SNDRV_COMPRESS_ADJUST_SESSION_CLOCK'', 11)],
     Const ''SNDRV_COMPRESS_PATH_DELAY'' 5, Const ''SNDRV_COMPRESS_RENDER_MODE'' 6,
     Const ''SNDRV_COMPRESS_CLK_REC_MODE'' 7, Const ''SNDRV_COMPRESS_RENDER_WINDOW'' 8,
     Const ''SNDRV_COMPRESS_START_DELAY'' 9,
     Const ''SNDRV_COMPRESS_ENABLE_ADJUST_SESSION_CLOCK'' 10,
     Const ''SNDRV_COMPRESS_ADJUST_SESSION_CLOCK'' 11,
     Struct ''snd_compr_metadata'' snd_compr_metadata]"

definition compress_offload_6 :: "decl list" where
  "compress_offload_6 =
    [Request ''SNDRV_COMPRESS_IOCTL_VERSION'' (IOR 67 0 s32),
     Request ''SNDRV_COMPRESS_GET_CAPS'' (IOWR 67 16 snd_compr_caps),
     Request ''SNDRV_COMPRESS_GET_CODEC_CAPS'' (IOWR 67 17 snd_compr_codec_caps),
     Request ''SNDRV_COMPRESS_SET_PARAMS'' (IOW 67 18 snd_compr_params),
     Request ''SNDRV_COMPRESS_GET_PARAMS'' (IOR 67 19 snd_codec),
     Request ''SNDRV_COMPRESS_SET_METADATA'' (IOW 67 20 snd_compr_metadata),
     Request ''SNDRV_COMPRESS_GET_METADATA'' (IOWR 67 21 snd_compr_metadata),
     Request ''SNDRV_COMPRESS_TSTAMP'' (IOR 67 32 snd_compr_tstamp),
     Request ''SNDRV_COMPRESS_AVAIL'' (IOR 67 33 snd_compr_avail),
     Request ''SNDRV_COMPRESS_PAUSE'' (IO 67 48), Request ''SNDRV_COMPRESS_RESUME'' (IO 67 49),
     Request ''SNDRV_COMPRESS_START'' (IO 67 50), Request ''SNDRV_COMPRESS_STOP'' (IO 67 51),
     Request ''SNDRV_COMPRESS_DRAIN'' (IO 67 52),
     Request ''SNDRV_COMPRESS_NEXT_TRACK'' (IO 67 53),
     Request ''SNDRV_COMPRESS_PARTIAL_DRAIN'' (IO 67 54),
     Request ''SNDRV_COMPRESS_SET_NEXT_TRACK_PARAM'' (IOW 67 128 snd_codec_options),
     Const ''SND_COMPR_TRIGGER_DRAIN'' 7, Const ''SND_COMPR_TRIGGER_NEXT_TRACK'' 8,
     Const ''SND_COMPR_TRIGGER_PARTIAL_DRAIN'' 9]"

definition compress_offload_h :: "decl list" where
  "compress_offload_h = compress_offload_1 @ compress_offload_2 @ compress_offload_3 @ compress_offload_4 @
     compress_offload_5 @ compress_offload_6"

subsection \<open>sound/asound.h\<close>

definition snd_aes_iec958 :: ctype where
  "snd_aes_iec958 =
     StructT Natural [(''status'', ArrT u8 24), (''subcode'', ArrT u8 147), (''pad'', u8),
      (''dig_subframe'', ArrT u8 4)]"

definition snd_cea_861_aud_if :: ctype where
  "snd_cea_861_aud_if =
     StructT Natural [(''db1_ct_cc'', u8), (''db2_sf_ss'', u8), (''db3'', u8), (''db4_ca'', u8),
      (''db5_dminh_lsv'', u8)]"

definition snd_hwdep_info :: ctype where
  "snd_hwdep_info =
     StructT Natural [(''device'', u32), (''card'', s32), (''id'', ArrT u8 64),
      (''name'', ArrT u8 80), (''iface'', s32), (''reserved'', ArrT u8 64)]"

definition snd_hwdep_dsp_status :: ctype where
  "snd_hwdep_dsp_status =
     StructT Natural [(''version'', u32), (''id'', ArrT u8 32), (''num_dsps'', u32),
      (''dsp_loaded'', u32), (''chip_ready'', u32), (''reserved'', ArrT u8 16)]"

definition snd_hwdep_dsp_image :: ctype where
  "snd_hwdep_dsp_image =
     StructT Natural [(''index'', u32), (''name'', ArrT u8 64), (''image'', PtrT),
      (''length'', ulongT), (''driver_data'', ulongT)]"

definition snd_pcm_sync_id :: ctype where
  "snd_pcm_sync_id =
     UnionT Natural [(''id'', ArrT u8 16), (''id16'', ArrT u16 8), (''id32'', ArrT u32 4)]"

definition snd_pcm_info :: ctype where
  "snd_pcm_info =
     StructT Natural [(''device'', u32), (''subdevice'', u32), (''stream'', s32),
      (''card'', s32), (''id'', ArrT u8 64), (''name'', ArrT u8 80), (''subname'', ArrT u8 32),
      (''dev_class'', s32), (''dev_subclass'', s32), (''subdevices_count'', u32),
      (''subdevices_avail'', u32), (''sync'', snd_pcm_sync_id), (''reserved'', ArrT u8 64)]"

definition snd_interval :: ctype where
  "snd_interval =
     StructT Natural [(''min'', u32), (''max'', u32), (''openmin'', BitsT u32 1),
      (''openmax'', BitsT u32 1), (''integer'', BitsT u32 1), (''empty'', BitsT u32 1)]"

abbreviation SNDRV_MASK_MAX :: nat where "SNDRV_MASK_MAX \<equiv> 256"

definition snd_mask :: ctype where
  "snd_mask =
     StructT Natural [(''bits'', ArrT u32 ((SNDRV_MASK_MAX + 31) div 32))]"

abbreviation SNDRV_PCM_HW_PARAM_SUBFORMAT :: nat where "SNDRV_PCM_HW_PARAM_SUBFORMAT \<equiv> 2"

abbreviation SNDRV_PCM_HW_PARAM_LAST_MASK :: nat where "SNDRV_PCM_HW_PARAM_LAST_MASK \<equiv> SNDRV_PCM_HW_PARAM_SUBFORMAT"

abbreviation SNDRV_PCM_HW_PARAM_ACCESS :: nat where "SNDRV_PCM_HW_PARAM_ACCESS \<equiv> 0"

abbreviation SNDRV_PCM_HW_PARAM_FIRST_MASK :: nat where "SNDRV_PCM_HW_PARAM_FIRST_MASK \<equiv> SNDRV_PCM_HW_PARAM_ACCESS"

abbreviation SNDRV_PCM_HW_PARAM_TICK_TIME :: nat where "SNDRV_PCM_HW_PARAM_TICK_TIME \<equiv> 19"

abbreviation SNDRV_PCM_HW_PARAM_LAST_INTERVAL :: nat where "SNDRV_PCM_HW_PARAM_LAST_INTERVAL \<equiv> SNDRV_PCM_HW_PARAM_TICK_TIME"

abbreviation SNDRV_PCM_HW_PARAM_SAMPLE_BITS :: nat where "SNDRV_PCM_HW_PARAM_SAMPLE_BITS \<equiv> 8"

abbreviation SNDRV_PCM_HW_PARAM_FIRST_INTERVAL :: nat where "SNDRV_PCM_HW_PARAM_FIRST_INTERVAL \<equiv> SNDRV_PCM_HW_PARAM_SAMPLE_BITS"

definition snd_pcm_hw_params :: ctype where
  "snd_pcm_hw_params =
     StructT Natural [(''flags'', u32),
      (''masks'', ArrT snd_mask (SNDRV_PCM_HW_PARAM_LAST_MASK - SNDRV_PCM_HW_PARAM_FIRST_MASK + 1)), (''mres'', ArrT snd_mask 5), (''intervals'', ArrT snd_interval (SNDRV_PCM_HW_PARAM_LAST_INTERVAL - SNDRV_PCM_HW_PARAM_FIRST_INTERVAL + 1)), (''ires'', ArrT snd_interval 9), (''rmask'', u32), (''cmask'', u32), (''info'', u32), (''msbits'', u32), (''rate_num'', u32), (''rate_den'', u32), (''fifo_size'', ulongT), (''reserved'', ArrT u8 64)]"

definition snd_pcm_sw_params :: ctype where
  "snd_pcm_sw_params =
     StructT Natural [(''tstamp_mode'', s32), (''period_step'', u32), (''sleep_min'', u32),
      (''avail_min'', ulongT), (''xfer_align'', ulongT), (''start_threshold'', ulongT),
      (''stop_threshold'', ulongT), (''silence_threshold'', ulongT), (''silence_size'', ulongT),
      (''boundary'', ulongT), (''proto'', u32), (''tstamp_type'', u32),
      (''reserved'', ArrT u8 56)]"

definition snd_pcm_channel_info :: ctype where
  "snd_pcm_channel_info =
     StructT Natural [(''channel'', u32), (''offset'', ForeignT ''__kernel_off_t''),
      (''first'', u32), (''step'', u32)]"

definition snd_pcm_status :: "nat \<Rightarrow> ctype" where
  "snd_pcm_status timespec_size =
     StructT Natural [(''state'', s32), (''trigger_tstamp'', ForeignT ''struct timespec''),
      (''tstamp'', ForeignT ''struct timespec''), (''appl_ptr'', ulongT), (''hw_ptr'', ulongT),
      (''delay'', slongT), (''avail'', ulongT), (''avail_max'', ulongT),
      (''overrange'', ulongT), (''suspended_state'', s32), (''audio_tstamp_data'', u32),
      (''audio_tstamp'', ForeignT ''struct timespec''),
      (''driver_tstamp'', ForeignT ''struct timespec''), (''audio_tstamp_accuracy'', u32),
      (''reserved'', ArrT u8 (52 - 2 * timespec_size))]"

definition snd_pcm_mmap_status :: ctype where
  "snd_pcm_mmap_status =
     StructT Natural [(''state'', s32), (''pad1'', s32), (''hw_ptr'', ulongT),
      (''tstamp'', ForeignT ''struct timespec''), (''suspended_state'', s32),
      (''audio_tstamp'', ForeignT ''struct timespec'')]"

definition snd_pcm_mmap_control :: ctype where
  "snd_pcm_mmap_control =
     StructT Natural [(''appl_ptr'', ulongT), (''avail_min'', ulongT)]"

definition snd_pcm_sync_ptr :: ctype where
  "snd_pcm_sync_ptr =
     StructT Natural [(''flags'', u32),
      (''s'', UnionT Natural [(''status'', snd_pcm_mmap_status), (''reserved'', ArrT u8 64)]),
      (''c'', UnionT Natural [(''control'', snd_pcm_mmap_control), (''reserved'', ArrT u8 64)])]"

definition snd_xferi :: ctype where
  "snd_xferi =
     StructT Natural [(''result'', slongT), (''buf'', PtrT), (''frames'', ulongT)]"

definition snd_xfern :: ctype where
  "snd_xfern =
     StructT Natural [(''result'', slongT), (''bufs'', PtrT), (''frames'', ulongT)]"

definition snd_rawmidi_info :: ctype where
  "snd_rawmidi_info =
     StructT Natural [(''device'', u32), (''subdevice'', u32), (''stream'', s32),
      (''card'', s32), (''flags'', u32), (''id'', ArrT u8 64), (''name'', ArrT u8 80),
      (''subname'', ArrT u8 32), (''subdevices_count'', u32), (''subdevices_avail'', u32),
      (''reserved'', ArrT u8 64)]"

definition snd_rawmidi_params :: ctype where
  "snd_rawmidi_params =
     StructT Natural [(''stream'', s32), (''buffer_size'', ulongT), (''avail_min'', ulongT),
      (''no_active_sensing'', BitsT u32 1), (''reserved'', ArrT u8 16)]"

definition snd_rawmidi_status :: ctype where
  "snd_rawmidi_status =
     StructT Natural [(''stream'', s32), (''tstamp'', ForeignT ''struct timespec''),
      (''avail'', ulongT), (''xruns'', ulongT), (''reserved'', ArrT u8 16)]"

definition snd_timer_id :: ctype where
  "snd_timer_id =
     StructT Natural [(''dev_class'', s32), (''dev_sclass'', s32), (''card'', s32),
      (''device'', s32), (''subdevice'', s32)]"

definition snd_timer_ginfo :: ctype where
  "snd_timer_ginfo =
     StructT Natural [(''tid'', snd_timer_id), (''flags'', u32), (''card'', s32),
      (''id'', ArrT u8 64), (''name'', ArrT u8 80), (''reserved0'', ulongT),
      (''resolution'', ulongT), (''resolution_min'', ulongT), (''resolution_max'', ulongT),
      (''clients'', u32), (''reserved'', ArrT u8 32)]"

definition snd_timer_gparams :: ctype where
  "snd_timer_gparams =
     StructT Natural [(''tid'', snd_timer_id), (''period_num'', ulongT),
      (''period_den'', ulongT), (''reserved'', ArrT u8 32)]"

definition snd_timer_gstatus :: ctype where
  "snd_timer_gstatus =
     StructT Natural [(''tid'', snd_timer_id), (''resolution'', ulongT),
      (''resolution_num'', ulongT), (''resolution_den'', ulongT), (''reserved'', ArrT u8 32)]"

definition snd_timer_select :: ctype where
  "snd_timer_select =
     StructT Natural [(''id'', snd_timer_id), (''reserved'', ArrT u8 32)]"

definition snd_timer_info :: ctype where
  "snd_timer_info =
     StructT Natural [(''flags'', u32), (''card'', s32), (''id'', ArrT u8 64),
      (''name'', ArrT u8 80), (''reserved0'', ulongT), (''resolution'', ulongT),
      (''reserved'', ArrT u8 64)]"

definition snd_timer_params :: ctype where
  "snd_timer_params =
     StructT Natural [(''flags'', u32), (''ticks'', u32), (''queue_size'', u32),
      (''reserved0'', u32), (''filter'', u32), (''reserved'', ArrT u8 60)]"

definition snd_timer_status :: ctype where
  "snd_timer_status =
     StructT Natural [(''tstamp'', ForeignT ''struct timespec''), (''resolution'', u32),
      (''lost'', u32), (''overrun'', u32), (''queue'', u32), (''reserved'', ArrT u8 64)]"

definition snd_timer_read :: ctype where
  "snd_timer_read =
     StructT Natural [(''resolution'', u32), (''ticks'', u32)]"

definition snd_timer_tread :: ctype where
  "snd_timer_tread =
     StructT Natural [(''event'', s32), (''tstamp'', ForeignT ''struct timespec''),
      (''val'', u32)]"

definition snd_ctl_card_info :: ctype where
  "snd_ctl_card_info =
     StructT Natural [(''card'', s32), (''pad'', s32), (''id'', ArrT u8 16),
      (''driver'', ArrT u8 16), (''name'', ArrT u8 32), (''longname'', ArrT u8 80),
      (''reserved_'', ArrT u8 16), (''mixername'', ArrT u8 80), (''components'', ArrT u8 128)]"

abbreviation SNDRV_CTL_ELEM_ID_NAME_MAXLEN :: nat where "SNDRV_CTL_ELEM_ID_NAME_MAXLEN \<equiv> 44"

definition snd_ctl_elem_id :: ctype where
  "snd_ctl_elem_id =
     StructT Natural [(''numid'', u32), (''iface'', s32), (''device'', u32),
      (''subdevice'', u32), (''name'', ArrT u8 SNDRV_CTL_ELEM_ID_NAME_MAXLEN), (''index'', u32)]"

definition snd_ctl_elem_list :: ctype where
  "snd_ctl_elem_list =
     StructT Natural [(''offset'', u32), (''space'', u32), (''used'', u32), (''count'', u32),
      (''pids'', PtrT), (''reserved'', ArrT u8 50)]"

definition snd_ctl_elem_info :: ctype where
  "snd_ctl_elem_info =
     StructT Natural [(''id'', snd_ctl_elem_id), (''type'', s32), (''access'', u32),
      (''count'', u32), (''owner'', ForeignT ''__kernel_pid_t''),
      (''value'', UnionT Natural [(''integer'', StructT Natural [(''min'', slongT),
      (''max'', slongT), (''step'', slongT)]), (''integer64'', StructT Natural [(''min'', s64),
      (''max'', s64), (''step'', s64)]), (''enumerated'', StructT Natural [(''items'', u32),
      (''item'', u32), (''name'', ArrT CharT 64), (''names_ptr'', u64),
      (''names_length'', u32)]), (''reserved'', ArrT u8 128)]),
      (''dimen'', UnionT Natural [(''d'', ArrT u16 4), (''d_ptr'', PtrT)]),
      (''reserved'', ArrT u8 56)]"

definition snd_ctl_elem_value :: "nat \<Rightarrow> ctype" where
  "snd_ctl_elem_value timespec_size =
     StructT Natural [(''id'', snd_ctl_elem_id), (''indirect'', BitsT u32 1),
      (''value'', UnionT Natural [(''integer'', UnionT Natural [(''value'', ArrT slongT 128),
      (''value_ptr'', PtrT)]), (''integer64'', UnionT Natural [(''value'', ArrT s64 64),
      (''value_ptr'', PtrT)]), (''enumerated'', UnionT Natural [(''item'', ArrT u32 128),
      (''item_ptr'', PtrT)]), (''bytes'', UnionT Natural [(''data'', ArrT u8 512),
      (''data_ptr'', PtrT)]), (''iec958'', snd_aes_iec958)]),
      (''tstamp'', ForeignT ''struct timespec''), (''reserved'', ArrT u8 (128 - timespec_size))]"

definition snd_ctl_tlv :: ctype where
  "snd_ctl_tlv =
     StructT Natural [(''numid'', u32), (''length'', u32), (''tlv'', ArrT u32 0)]"

definition snd_ctl_event :: ctype where
  "snd_ctl_event =
     StructT Natural [(''type'', s32),
      (''data'', UnionT Natural [(''elem'', StructT Natural [(''mask'', u32),
      (''id'', snd_ctl_elem_id)]), (''data8'', ArrT u8 60)])]"

definition asound_1 :: "decl list" where
  "asound_1 =
    [Flag ''__SOUND_ASOUND_H'']"

definition asound_2 :: "decl list" where
  "asound_2 =
    [Struct ''snd_aes_iec958'' snd_aes_iec958, Struct ''snd_cea_861_aud_if'' snd_cea_861_aud_if,
     Const ''SNDRV_HWDEP_VERSION'' 65537,
     Enum '''' [(''SNDRV_HWDEP_IFACE_OPL2'', 0), (''SNDRV_HWDEP_IFACE_OPL3'', 1),
       (''SNDRV_HWDEP_IFACE_OPL4'', 2), (''SNDRV_HWDEP_IFACE_SB16CSP'', 3),
       (''SNDRV_HWDEP_IFACE_EMU10K1'', 4), (''SNDRV_HWDEP_IFACE_YSS225'', 5),
       (''SNDRV_HWDEP_IFACE_ICS2115'', 6), (''SNDRV_HWDEP_IFACE_SSCAPE'', 7),
       (''SNDRV_HWDEP_IFACE_VX'', 8), (''SNDRV_HWDEP_IFACE_MIXART'', 9),
       (''SNDRV_HWDEP_IFACE_USX2Y'', 10), (''SNDRV_HWDEP_IFACE_EMUX_WAVETABLE'', 11),
       (''SNDRV_HWDEP_IFACE_BLUETOOTH'', 12), (''SNDRV_HWDEP_IFACE_USX2Y_PCM'', 13),
       (''SNDRV_HWDEP_IFACE_PCXHR'', 14), (''SNDRV_HWDEP_IFACE_SB_RC'', 15),
       (''SNDRV_HWDEP_IFACE_HDA'', 16), (''SNDRV_HWDEP_IFACE_USB_STREAM'', 17),
       (''SNDRV_HWDEP_IFACE_FW_DICE'', 18), (''SNDRV_HWDEP_IFACE_FW_FIREWORKS'', 19),
       (''SNDRV_HWDEP_IFACE_FW_BEBOB'', 20), (''SNDRV_HWDEP_IFACE_FW_OXFW'', 21),
       (''SNDRV_HWDEP_IFACE_FW_DIGI00X'', 22), (''SNDRV_HWDEP_IFACE_FW_TASCAM'', 23),
       (''SNDRV_HWDEP_IFACE_LINE6'', 24), (''SNDRV_HWDEP_IFACE_AUDIO_BE'', 25),
       (''SNDRV_HWDEP_IFACE_AUDIO_CODEC'', 26), (''SNDRV_HWDEP_IFACE_LAST'', 26)],
     Struct ''snd_hwdep_info'' snd_hwdep_info,
     Struct ''snd_hwdep_dsp_status'' snd_hwdep_dsp_status,
     Struct ''snd_hwdep_dsp_image'' snd_hwdep_dsp_image,
     Request ''SNDRV_HWDEP_IOCTL_PVERSION'' (IOR 72 0 s32),
     Request ''SNDRV_HWDEP_IOCTL_INFO'' (IOR 72 1 snd_hwdep_info),
     Request ''SNDRV_HWDEP_IOCTL_DSP_STATUS'' (IOR 72 2 snd_hwdep_dsp_status),
     Request ''SNDRV_HWDEP_IOCTL_DSP_LOAD'' (IOW 72 3 snd_hwdep_dsp_image),
     Const ''SNDRV_PCM_VERSION'' 131085, Typedef ''snd_pcm_uframes_t'' ulongT,
     Typedef ''snd_pcm_sframes_t'' slongT,
     Enum '''' [(''SNDRV_PCM_CLASS_GENERIC'', 0), (''SNDRV_PCM_CLASS_MULTI'', 1),
       (''SNDRV_PCM_CLASS_MODEM'', 2), (''SNDRV_PCM_CLASS_DIGITIZER'', 3),
       (''SNDRV_PCM_CLASS_LAST'', 3)],
     Enum '''' [(''SNDRV_PCM_SUBCLASS_GENERIC_MIX'', 0), (''SNDRV_PCM_SUBCLASS_MULTI_MIX'', 1),
       (''SNDRV_PCM_SUBCLASS_LAST'', 1)],
     Enum '''' [(''SNDRV_PCM_STREAM_PLAYBACK'', 0), (''SNDRV_PCM_STREAM_CAPTURE'', 1),
       (''SNDRV_PCM_STREAM_LAST'', 1)],
     Typedef ''snd_pcm_access_t'' s32, Const ''SNDRV_PCM_ACCESS_MMAP_INTERLEAVED'' 0,
     Const ''SNDRV_PCM_ACCESS_MMAP_NONINTERLEAVED'' 1,
     Const ''SNDRV_PCM_ACCESS_MMAP_COMPLEX'' 2, Const ''SNDRV_PCM_ACCESS_RW_INTERLEAVED'' 3,
     Const ''SNDRV_PCM_ACCESS_RW_NONINTERLEAVED'' 4, Const ''SNDRV_PCM_ACCESS_LAST'' 4,
     Typedef ''snd_pcm_format_t'' s32, Const ''SNDRV_PCM_FORMAT_S8'' 0,
     Const ''SNDRV_PCM_FORMAT_U8'' 1, Const ''SNDRV_PCM_FORMAT_S16_LE'' 2,
     Const ''SNDRV_PCM_FORMAT_S16_BE'' 3, Const ''SNDRV_PCM_FORMAT_U16_LE'' 4,
     Const ''SNDRV_PCM_FORMAT_U16_BE'' 5, Const ''SNDRV_PCM_FORMAT_S24_LE'' 6,
     Const ''SNDRV_PCM_FORMAT_S24_BE'' 7, Const ''SNDRV_PCM_FORMAT_U24_LE'' 8,
     Const ''SNDRV_PCM_FORMAT_U24_BE'' 9, Const ''SNDRV_PCM_FORMAT_S32_LE'' 10,
     Const ''SNDRV_PCM_FORMAT_S32_BE'' 11, Const ''SNDRV_PCM_FORMAT_U32_LE'' 12,
     Const ''SNDRV_PCM_FORMAT_U32_BE'' 13]"

definition asound_3 :: "decl list" where
  "asound_3 =
    [Const ''SNDRV_PCM_FORMAT_FLOAT_LE'' 14, Const ''SNDRV_PCM_FORMAT_FLOAT_BE'' 15,
     Const ''SNDRV_PCM_FORMAT_FLOAT64_LE'' 16, Const ''SNDRV_PCM_FORMAT_FLOAT64_BE'' 17,
     Const ''SNDRV_PCM_FORMAT_IEC958_SUBFRAME_LE'' 18,
     Const ''SNDRV_PCM_FORMAT_IEC958_SUBFRAME_BE'' 19, Const ''SNDRV_PCM_FORMAT_MU_LAW'' 20,
     Const ''SNDRV_PCM_FORMAT_A_LAW'' 21, Const ''SNDRV_PCM_FORMAT_IMA_ADPCM'' 22,
     Const ''SNDRV_PCM_FORMAT_MPEG'' 23, Const ''SNDRV_PCM_FORMAT_GSM'' 24,
     Const ''SNDRV_PCM_FORMAT_SPECIAL'' 31, Const ''SNDRV_PCM_FORMAT_S24_3LE'' 32,
     Const ''SNDRV_PCM_FORMAT_S24_3BE'' 33, Const ''SNDRV_PCM_FORMAT_U24_3LE'' 34,
     Const ''SNDRV_PCM_FORMAT_U24_3BE'' 35, Const ''SNDRV_PCM_FORMAT_S20_3LE'' 36,
     Const ''SNDRV_PCM_FORMAT_S20_3BE'' 37, Const ''SNDRV_PCM_FORMAT_U20_3LE'' 38,
     Const ''SNDRV_PCM_FORMAT_U20_3BE'' 39, Const ''SNDRV_PCM_FORMAT_S18_3LE'' 40,
     Const ''SNDRV_PCM_FORMAT_S18_3BE'' 41, Const ''SNDRV_PCM_FORMAT_U18_3LE'' 42,
     Const ''SNDRV_PCM_FORMAT_U18_3BE'' 43, Const ''SNDRV_PCM_FORMAT_G723_24'' 44,
     Const ''SNDRV_PCM_FORMAT_G723_24_1B'' 45, Const ''SNDRV_PCM_FORMAT_G723_40'' 46,
     Const ''SNDRV_PCM_FORMAT_G723_40_1B'' 47, Const ''SNDRV_PCM_FORMAT_DSD_U8'' 48,
     Const ''SNDRV_PCM_FORMAT_DSD_U16_LE'' 49, Const ''SNDRV_PCM_FORMAT_DSD_U32_LE'' 50,
     Const ''SNDRV_PCM_FORMAT_DSD_U16_BE'' 51, Const ''SNDRV_PCM_FORMAT_DSD_U32_BE'' 52,
     Const ''SNDRV_PCM_FORMAT_LAST'' 52]"

definition asound_4 :: "decl list" where
  "asound_4 =
    [Typedef ''snd_pcm_subformat_t'' s32, Const ''SNDRV_PCM_SUBFORMAT_STD'' 0,
     Const ''SNDRV_PCM_SUBFORMAT_LAST'' 0, Const ''SNDRV_PCM_INFO_MMAP'' 0x00000001,
     Const ''SNDRV_PCM_INFO_MMAP_VALID'' 0x00000002, Const ''SNDRV_PCM_INFO_DOUBLE'' 0x00000004,
     Const ''SNDRV_PCM_INFO_BATCH'' 0x00000010, Const ''SNDRV_PCM_INFO_INTERLEAVED'' 0x00000100,
     Const ''SNDRV_PCM_INFO_NONINTERLEAVED'' 0x00000200,
     Const ''SNDRV_PCM_INFO_COMPLEX'' 0x00000400,
     Const ''SNDRV_PCM_INFO_BLOCK_TRANSFER'' 0x00010000,
     Const ''SNDRV_PCM_INFO_OVERRANGE'' 0x00020000, Const ''SNDRV_PCM_INFO_RESUME'' 0x00040000,
     Const ''SNDRV_PCM_INFO_PAUSE'' 0x00080000, Const ''SNDRV_PCM_INFO_HALF_DUPLEX'' 0x00100000,
     Const ''SNDRV_PCM_INFO_JOINT_DUPLEX'' 0x00200000,
     Const ''SNDRV_PCM_INFO_SYNC_START'' 0x00400000,
     Const ''SNDRV_PCM_INFO_NO_PERIOD_WAKEUP'' 0x00800000,
     Const ''SNDRV_PCM_INFO_HAS_WALL_CLOCK'' 0x01000000,
     Const ''SNDRV_PCM_INFO_HAS_LINK_ATIME'' 0x01000000,
     Const ''SNDRV_PCM_INFO_HAS_LINK_ABSOLUTE_ATIME'' 0x02000000,
     Const ''SNDRV_PCM_INFO_HAS_LINK_ESTIMATED_ATIME'' 0x04000000,
     Const ''SNDRV_PCM_INFO_HAS_LINK_SYNCHRONIZED_ATIME'' 0x08000000,
     Const ''SNDRV_PCM_INFO_DRAIN_TRIGGER'' 0x40000000,
     Const ''SNDRV_PCM_INFO_FIFO_IN_FRAMES'' 0x80000000, Typedef ''snd_pcm_state_t'' s32,
     Const ''SNDRV_PCM_STATE_OPEN'' 0, Const ''SNDRV_PCM_STATE_SETUP'' 1,
     Const ''SNDRV_PCM_STATE_PREPARED'' 2, Const ''SNDRV_PCM_STATE_RUNNING'' 3,
     Const ''SNDRV_PCM_STATE_XRUN'' 4, Const ''SNDRV_PCM_STATE_DRAINING'' 5,
     Const ''SNDRV_PCM_STATE_PAUSED'' 6, Const ''SNDRV_PCM_STATE_SUSPENDED'' 7,
     Const ''SNDRV_PCM_STATE_DISCONNECTED'' 8, Const ''SNDRV_PCM_STATE_LAST'' 8,
     Enum '''' [(''SNDRV_PCM_MMAP_OFFSET_DATA'', 0),
       (''SNDRV_PCM_MMAP_OFFSET_STATUS'', 2147483648),
       (''SNDRV_PCM_MMAP_OFFSET_CONTROL'', 2164260864)],
     Struct ''snd_pcm_sync_id'' snd_pcm_sync_id, Struct ''snd_pcm_info'' snd_pcm_info,
     Typedef ''snd_pcm_hw_param_t'' s32, Const ''SNDRV_PCM_HW_PARAM_ACCESS'' 0,
     Const ''SNDRV_PCM_HW_PARAM_FORMAT'' 1, Const ''SNDRV_PCM_HW_PARAM_SUBFORMAT'' 2,
     Const ''SNDRV_PCM_HW_PARAM_FIRST_MASK'' 0, Const ''SNDRV_PCM_HW_PARAM_LAST_MASK'' 2,
     Const ''SNDRV_PCM_HW_PARAM_SAMPLE_BITS'' 8, Const ''SNDRV_PCM_HW_PARAM_FRAME_BITS'' 9,
     Const ''SNDRV_PCM_HW_PARAM_CHANNELS'' 10, Const ''SNDRV_PCM_HW_PARAM_RATE'' 11,
     Const ''SNDRV_PCM_HW_PARAM_PERIOD_TIME'' 12, Const ''SNDRV_PCM_HW_PARAM_PERIOD_SIZE'' 13,
     Const ''SNDRV_PCM_HW_PARAM_PERIOD_BYTES'' 14, Const ''SNDRV_PCM_HW_PARAM_PERIODS'' 15,
     Const ''SNDRV_PCM_HW_PARAM_BUFFER_TIME'' 16, Const ''SNDRV_PCM_HW_PARAM_BUFFER_SIZE'' 17,
     Const ''SNDRV_PCM_HW_PARAM_BUFFER_BYTES'' 18, Const ''SNDRV_PCM_HW_PARAM_TICK_TIME'' 19,
     Const ''SNDRV_PCM_HW_PARAM_FIRST_INTERVAL'' 8,
     Const ''SNDRV_PCM_HW_PARAM_LAST_INTERVAL'' 19,
     Const ''SNDRV_PCM_HW_PARAMS_NORESAMPLE'' (2 ^ 0),
     Const ''SNDRV_PCM_HW_PARAMS_EXPORT_BUFFER'' (2 ^ 1),
     Const ''SNDRV_PCM_HW_PARAMS_NO_PERIOD_WAKEUP'' (2 ^ 2),
     Struct ''snd_interval'' snd_interval, Const ''SNDRV_MASK_MAX'' 256,
     Struct ''snd_mask'' snd_mask, Struct ''snd_pcm_hw_params'' snd_pcm_hw_params,
     Enum '''' [(''SNDRV_PCM_TSTAMP_NONE'', 0), (''SNDRV_PCM_TSTAMP_ENABLE'', 1),
       (''SNDRV_PCM_TSTAMP_LAST'', 1)]]"

definition asound_5 :: "nat \<Rightarrow> decl list" where
  "asound_5 timespec_size =
    [Struct ''snd_pcm_sw_params'' snd_pcm_sw_params,
     Struct ''snd_pcm_channel_info'' snd_pcm_channel_info,
     Enum '''' [(''SNDRV_PCM_AUDIO_TSTAMP_TYPE_COMPAT'', 0),
       (''SNDRV_PCM_AUDIO_TSTAMP_TYPE_DEFAULT'', 1), (''SNDRV_PCM_AUDIO_TSTAMP_TYPE_LINK'', 2),
       (''SNDRV_PCM_AUDIO_TSTAMP_TYPE_LINK_ABSOLUTE'', 3),
       (''SNDRV_PCM_AUDIO_TSTAMP_TYPE_LINK_ESTIMATED'', 4),
       (''SNDRV_PCM_AUDIO_TSTAMP_TYPE_LINK_SYNCHRONIZED'', 5),
       (''SNDRV_PCM_AUDIO_TSTAMP_TYPE_LAST'', 5)],
     Struct ''snd_pcm_status'' (snd_pcm_status timespec_size),
     Struct ''snd_pcm_mmap_status'' snd_pcm_mmap_status,
     Struct ''snd_pcm_mmap_control'' snd_pcm_mmap_control,
     Const ''SNDRV_PCM_SYNC_PTR_HWSYNC'' (2 ^ 0), Const ''SNDRV_PCM_SYNC_PTR_APPL'' (2 ^ 1),
     Const ''SNDRV_PCM_SYNC_PTR_AVAIL_MIN'' (2 ^ 2),
     Struct ''snd_pcm_sync_ptr'' snd_pcm_sync_ptr, Struct ''snd_xferi'' snd_xferi,
     Struct ''snd_xfern'' snd_xfern,
     Enum '''' [(''SNDRV_PCM_TSTAMP_TYPE_GETTIMEOFDAY'', 0),
       (''SNDRV_PCM_TSTAMP_TYPE_MONOTONIC'', 1), (''SNDRV_PCM_TSTAMP_TYPE_MONOTONIC_RAW'', 2),
       (''SNDRV_PCM_TSTAMP_TYPE_LAST'', 2)],
     Enum '''' [(''SNDRV_CHMAP_UNKNOWN'', 0), (''SNDRV_CHMAP_NA'', 1), (''SNDRV_CHMAP_MONO'', 2),
       (''SNDRV_CHMAP_FL'', 3), (''SNDRV_CHMAP_FR'', 4), (''SNDRV_CHMAP_RL'', 5),
       (''SNDRV_CHMAP_RR'', 6), (''SNDRV_CHMAP_FC'', 7), (''SNDRV_CHMAP_LFE'', 8),
       (''SNDRV_CHMAP_SL'', 9), (''SNDRV_CHMAP_SR'', 10), (''SNDRV_CHMAP_RC'', 11),
       (''SNDRV_CHMAP_FLC'', 12), (''SNDRV_CHMAP_FRC'', 13), (''SNDRV_CHMAP_RLC'', 14),
       (''SNDRV_CHMAP_RRC'', 15), (''SNDRV_CHMAP_FLW'', 16), (''SNDRV_CHMAP_FRW'', 17),
       (''SNDRV_CHMAP_FLH'', 18), (''SNDRV_CHMAP_FCH'', 19), (''SNDRV_CHMAP_FRH'', 20),
       (''SNDRV_CHMAP_TC'', 21), (''SNDRV_CHMAP_TFL'', 22), (''SNDRV_CHMAP_TFR'', 23),
       (''SNDRV_CHMAP_TFC'', 24), (''SNDRV_CHMAP_TRL'', 25), (''SNDRV_CHMAP_TRR'', 26),
       (''SNDRV_CHMAP_TRC'', 27), (''SNDRV_CHMAP_TFLC'', 28), (''SNDRV_CHMAP_TFRC'', 29),
       (''SNDRV_CHMAP_TSL'', 30), (''SNDRV_CHMAP_TSR'', 31), (''SNDRV_CHMAP_LLFE'', 32),
       (''SNDRV_CHMAP_RLFE'', 33), (''SNDRV_CHMAP_BC'', 34), (''SNDRV_CHMAP_BLC'', 35),
       (''SNDRV_CHMAP_BRC'', 36), (''SNDRV_CHMAP_LAST'', 36)]]"

definition asound_6 :: "nat \<Rightarrow> decl list" where
  "asound_6 timespec_size =
    [Const ''SNDRV_CHMAP_POSITION_MASK'' 0xffff, Const ''SNDRV_CHMAP_PHASE_INVERSE'' 65536,
     Const ''SNDRV_CHMAP_DRIVER_SPEC'' 131072,
     Request ''SNDRV_PCM_IOCTL_PVERSION'' (IOR 65 0 s32),
     Request ''SNDRV_PCM_IOCTL_INFO'' (IOR 65 1 snd_pcm_info),
     Request ''SNDRV_PCM_IOCTL_TSTAMP'' (IOW 65 2 s32),
     Request ''SNDRV_PCM_IOCTL_TTSTAMP'' (IOW 65 3 s32),
     Request ''SNDRV_PCM_IOCTL_HW_REFINE'' (IOWR 65 16 snd_pcm_hw_params),
     Request ''SNDRV_PCM_IOCTL_HW_PARAMS'' (IOWR 65 17 snd_pcm_hw_params),
     Request ''SNDRV_PCM_IOCTL_HW_FREE'' (IO 65 18),
     Request ''SNDRV_PCM_IOCTL_SW_PARAMS'' (IOWR 65 19 snd_pcm_sw_params),
     Request ''SNDRV_PCM_IOCTL_STATUS'' (IOR 65 32 (snd_pcm_status timespec_size)),
     Request ''SNDRV_PCM_IOCTL_DELAY'' (IOR 65 33 slongT),
     Request ''SNDRV_PCM_IOCTL_HWSYNC'' (IO 65 34),
     Request ''SNDRV_PCM_IOCTL_SYNC_PTR'' (IOWR 65 35 snd_pcm_sync_ptr),
     Request ''SNDRV_PCM_IOCTL_STATUS_EXT'' (IOWR 65 36 (snd_pcm_status timespec_size)),
     Request ''SNDRV_PCM_IOCTL_CHANNEL_INFO'' (IOR 65 50 snd_pcm_channel_info),
     Request ''SNDRV_PCM_IOCTL_PREPARE'' (IO 65 64),
     Request ''SNDRV_PCM_IOCTL_RESET'' (IO 65 65), Request ''SNDRV_PCM_IOCTL_START'' (IO 65 66),
     Request ''SNDRV_PCM_IOCTL_DROP'' (IO 65 67), Request ''SNDRV_PCM_IOCTL_DRAIN'' (IO 65 68),
     Request ''SNDRV_PCM_IOCTL_PAUSE'' (IOW 65 69 s32),
     Request ''SNDRV_PCM_IOCTL_REWIND'' (IOW 65 70 ulongT),
     Request ''SNDRV_PCM_IOCTL_RESUME'' (IO 65 71), Request ''SNDRV_PCM_IOCTL_XRUN'' (IO 65 72),
     Request ''SNDRV_PCM_IOCTL_FORWARD'' (IOW 65 73 ulongT),
     Request ''SNDRV_PCM_IOCTL_WRITEI_FRAMES'' (IOW 65 80 snd_xferi),
     Request ''SNDRV_PCM_IOCTL_READI_FRAMES'' (IOR 65 81 snd_xferi),
     Request ''SNDRV_PCM_IOCTL_WRITEN_FRAMES'' (IOW 65 82 snd_xfern),
     Request ''SNDRV_PCM_IOCTL_READN_FRAMES'' (IOR 65 83 snd_xfern),
     Request ''SNDRV_PCM_IOCTL_LINK'' (IOW 65 96 s32),
     Request ''SNDRV_PCM_IOCTL_UNLINK'' (IO 65 97)]"

definition asound_7 :: "decl list" where
  "asound_7 =
    [Const ''SNDRV_RAWMIDI_VERSION'' 131072,
     Enum '''' [(''SNDRV_RAWMIDI_STREAM_OUTPUT'', 0), (''SNDRV_RAWMIDI_STREAM_INPUT'', 1),
       (''SNDRV_RAWMIDI_STREAM_LAST'', 1)],
     Const ''SNDRV_RAWMIDI_INFO_OUTPUT'' 0x00000001,
     Const ''SNDRV_RAWMIDI_INFO_INPUT'' 0x00000002,
     Const ''SNDRV_RAWMIDI_INFO_DUPLEX'' 0x00000004,
     Struct ''snd_rawmidi_info'' snd_rawmidi_info,
     Struct ''snd_rawmidi_params'' snd_rawmidi_params,
     Struct ''snd_rawmidi_status'' snd_rawmidi_status,
     Request ''SNDRV_RAWMIDI_IOCTL_PVERSION'' (IOR 87 0 s32),
     Request ''SNDRV_RAWMIDI_IOCTL_INFO'' (IOR 87 1 snd_rawmidi_info),
     Request ''SNDRV_RAWMIDI_IOCTL_PARAMS'' (IOWR 87 16 snd_rawmidi_params),
     Request ''SNDRV_RAWMIDI_IOCTL_STATUS'' (IOWR 87 32 snd_rawmidi_status),
     Request ''SNDRV_RAWMIDI_IOCTL_DROP'' (IOW 87 48 s32),
     Request ''SNDRV_RAWMIDI_IOCTL_DRAIN'' (IOW 87 49 s32),
     Const ''SNDRV_TIMER_VERSION'' 131078,
     Enum '''' [(''SNDRV_TIMER_CLASS_NONE'', -1), (''SNDRV_TIMER_CLASS_SLAVE'', 0),
       (''SNDRV_TIMER_CLASS_GLOBAL'', 1), (''SNDRV_TIMER_CLASS_CARD'', 2),
       (''SNDRV_TIMER_CLASS_PCM'', 3), (''SNDRV_TIMER_CLASS_LAST'', 3)],
     Enum '''' [(''SNDRV_TIMER_SCLASS_NONE'', 0), (''SNDRV_TIMER_SCLASS_APPLICATION'', 1),
       (''SNDRV_TIMER_SCLASS_SEQUENCER'', 2), (''SNDRV_TIMER_SCLASS_OSS_SEQUENCER'', 3),
       (''SNDRV_TIMER_SCLASS_LAST'', 3)],
     Const ''SNDRV_TIMER_GLOBAL_SYSTEM'' 0, Const ''SNDRV_TIMER_GLOBAL_RTC'' 1,
     Const ''SNDRV_TIMER_GLOBAL_HPET'' 2, Const ''SNDRV_TIMER_GLOBAL_HRTIMER'' 3,
     Const ''SNDRV_TIMER_FLG_SLAVE'' (2 ^ 0), Struct ''snd_timer_id'' snd_timer_id,
     Struct ''snd_timer_ginfo'' snd_timer_ginfo, Struct ''snd_timer_gparams'' snd_timer_gparams,
     Struct ''snd_timer_gstatus'' snd_timer_gstatus,
     Struct ''snd_timer_select'' snd_timer_select, Struct ''snd_timer_info'' snd_timer_info,
     Const ''SNDRV_TIMER_PSFLG_AUTO'' (2 ^ 0), Const ''SNDRV_TIMER_PSFLG_EXCLUSIVE'' (2 ^ 1),
     Const ''SNDRV_TIMER_PSFLG_EARLY_EVENT'' (2 ^ 2),
     Struct ''snd_timer_params'' snd_timer_params]"

definition asound_8 :: "decl list" where
  "asound_8 =
    [Struct ''snd_timer_status'' snd_timer_status,
     Request ''SNDRV_TIMER_IOCTL_PVERSION'' (IOR 84 0 s32),
     Request ''SNDRV_TIMER_IOCTL_NEXT_DEVICE'' (IOWR 84 1 snd_timer_id),
     Request ''SNDRV_TIMER_IOCTL_TREAD'' (IOW 84 2 s32),
     Request ''SNDRV_TIMER_IOCTL_GINFO'' (IOWR 84 3 snd_timer_ginfo),
     Request ''SNDRV_TIMER_IOCTL_GPARAMS'' (IOW 84 4 snd_timer_gparams),
     Request ''SNDRV_TIMER_IOCTL_GSTATUS'' (IOWR 84 5 snd_timer_gstatus),
     Request ''SNDRV_TIMER_IOCTL_SELECT'' (IOW 84 16 snd_timer_select),
     Request ''SNDRV_TIMER_IOCTL_INFO'' (IOR 84 17 snd_timer_info),
     Request ''SNDRV_TIMER_IOCTL_PARAMS'' (IOW 84 18 snd_timer_params),
     Request ''SNDRV_TIMER_IOCTL_STATUS'' (IOR 84 20 snd_timer_status),
     Request ''SNDRV_TIMER_IOCTL_START'' (IO 84 160),
     Request ''SNDRV_TIMER_IOCTL_STOP'' (IO 84 161),
     Request ''SNDRV_TIMER_IOCTL_CONTINUE'' (IO 84 162),
     Request ''SNDRV_TIMER_IOCTL_PAUSE'' (IO 84 163), Struct ''snd_timer_read'' snd_timer_read,
     Enum '''' [(''SNDRV_TIMER_EVENT_RESOLUTION'', 0), (''SNDRV_TIMER_EVENT_TICK'', 1),
       (''SNDRV_TIMER_EVENT_START'', 2), (''SNDRV_TIMER_EVENT_STOP'', 3),
       (''SNDRV_TIMER_EVENT_CONTINUE'', 4), (''SNDRV_TIMER_EVENT_PAUSE'', 5),
       (''SNDRV_TIMER_EVENT_EARLY'', 6), (''SNDRV_TIMER_EVENT_SUSPEND'', 7),
       (''SNDRV_TIMER_EVENT_RESUME'', 8), (''SNDRV_TIMER_EVENT_MSTART'', 12),
       (''SNDRV_TIMER_EVENT_MSTOP'', 13), (''SNDRV_TIMER_EVENT_MCONTINUE'', 14),
       (''SNDRV_TIMER_EVENT_MPAUSE'', 15), (''SNDRV_TIMER_EVENT_MSUSPEND'', 17),
       (''SNDRV_TIMER_EVENT_MRESUME'', 18)],
     Struct ''snd_timer_tread'' snd_timer_tread, Const ''SNDRV_CTL_VERSION'' 131079,
     Struct ''snd_ctl_card_info'' snd_ctl_card_info, Typedef ''snd_ctl_elem_type_t'' s32,
     Const ''SNDRV_CTL_ELEM_TYPE_NONE'' 0, Const ''SNDRV_CTL_ELEM_TYPE_BOOLEAN'' 1,
     Const ''SNDRV_CTL_ELEM_TYPE_INTEGER'' 2, Const ''SNDRV_CTL_ELEM_TYPE_ENUMERATED'' 3,
     Const ''SNDRV_CTL_ELEM_TYPE_BYTES'' 4, Const ''SNDRV_CTL_ELEM_TYPE_IEC958'' 5,
     Const ''SNDRV_CTL_ELEM_TYPE_INTEGER64'' 6, Const ''SNDRV_CTL_ELEM_TYPE_LAST'' 6,
     Typedef ''snd_ctl_elem_iface_t'' s32, Const ''SNDRV_CTL_ELEM_IFACE_CARD'' 0,
     Const ''SNDRV_CTL_ELEM_IFACE_HWDEP'' 1, Const ''SNDRV_CTL_ELEM_IFACE_MIXER'' 2,
     Const ''SNDRV_CTL_ELEM_IFACE_PCM'' 3, Const ''SNDRV_CTL_ELEM_IFACE_RAWMIDI'' 4,
     Const ''SNDRV_CTL_ELEM_IFACE_TIMER'' 5, Const ''SNDRV_CTL_ELEM_IFACE_SEQUENCER'' 6,
     Const ''SNDRV_CTL_ELEM_IFACE_LAST'' 6, Const ''SNDRV_CTL_ELEM_ACCESS_READ'' (2 ^ 0),
     Const ''SNDRV_CTL_ELEM_ACCESS_WRITE'' (2 ^ 1), Const ''SNDRV_CTL_ELEM_ACCESS_READWRITE'' 3,
     Const ''SNDRV_CTL_ELEM_ACCESS_VOLATILE'' (2 ^ 2),
     Const ''SNDRV_CTL_ELEM_ACCESS_TIMESTAMP'' (2 ^ 3),
     Const ''SNDRV_CTL_ELEM_ACCESS_TLV_READ'' (2 ^ 4),
     Const ''SNDRV_CTL_ELEM_ACCESS_TLV_WRITE'' (2 ^ 5),
     Const ''SNDRV_CTL_ELEM_ACCESS_TLV_READWRITE'' 48,
     Const ''SNDRV_CTL_ELEM_ACCESS_TLV_COMMAND'' (2 ^ 6),
     Const ''SNDRV_CTL_ELEM_ACCESS_INACTIVE'' (2 ^ 8),
     Const ''SNDRV_CTL_ELEM_ACCESS_LOCK'' (2 ^ 9),
     Const ''SNDRV_CTL_ELEM_ACCESS_OWNER'' (2 ^ 10),
     Const ''SNDRV_CTL_ELEM_ACCESS_TLV_CALLBACK'' (2 ^ 28),
     Const ''SNDRV_CTL_ELEM_ACCESS_USER'' (2 ^ 29), Const ''SNDRV_CTL_POWER_D0'' 0x0000,
     Const ''SNDRV_CTL_POWER_D1'' 0x0100, Const ''SNDRV_CTL_POWER_D2'' 0x0200,
     Const ''SNDRV_CTL_POWER_D3'' 0x0300, Const ''SNDRV_CTL_POWER_D3hot'' 768,
     Const ''SNDRV_CTL_POWER_D3cold'' 769, Const ''SNDRV_CTL_ELEM_ID_NAME_MAXLEN'' 44,
     Struct ''snd_ctl_elem_id'' snd_ctl_elem_id, Struct ''snd_ctl_elem_list'' snd_ctl_elem_list]"

definition asound_9 :: "nat \<Rightarrow> decl list" where
  "asound_9 timespec_size =
    [Struct ''snd_ctl_elem_info'' snd_ctl_elem_info,
     Struct ''snd_ctl_elem_value'' (snd_ctl_elem_value timespec_size),
     Struct ''snd_ctl_tlv'' snd_ctl_tlv, Request ''SNDRV_CTL_IOCTL_PVERSION'' (IOR 85 0 s32),
     Request ''SNDRV_CTL_IOCTL_CARD_INFO'' (IOR 85 1 snd_ctl_card_info),
     Request ''SNDRV_CTL_IOCTL_ELEM_LIST'' (IOWR 85 16 snd_ctl_elem_list),
     Request ''SNDRV_CTL_IOCTL_ELEM_INFO'' (IOWR 85 17 snd_ctl_elem_info),
     Request ''SNDRV_CTL_IOCTL_ELEM_READ'' (IOWR 85 18 (snd_ctl_elem_value timespec_size)),
     Request ''SNDRV_CTL_IOCTL_ELEM_WRITE'' (IOWR 85 19 (snd_ctl_elem_value timespec_size)),
     Request ''SNDRV_CTL_IOCTL_ELEM_LOCK'' (IOW 85 20 snd_ctl_elem_id),
     Request ''SNDRV_CTL_IOCTL_ELEM_UNLOCK'' (IOW 85 21 snd_ctl_elem_id),
     Request ''SNDRV_CTL_IOCTL_SUBSCRIBE_EVENTS'' (IOWR 85 22 s32),
     Request ''SNDRV_CTL_IOCTL_ELEM_ADD'' (IOWR 85 23 snd_ctl_elem_info),
     Request ''SNDRV_CTL_IOCTL_ELEM_REPLACE'' (IOWR 85 24 snd_ctl_elem_info),
     Request ''SNDRV_CTL_IOCTL_ELEM_REMOVE'' (IOWR 85 25 snd_ctl_elem_id),
     Request ''SNDRV_CTL_IOCTL_TLV_READ'' (IOWR 85 26 snd_ctl_tlv),
     Request ''SNDRV_CTL_IOCTL_TLV_WRITE'' (IOWR 85 27 snd_ctl_tlv),
     Request ''SNDRV_CTL_IOCTL_TLV_COMMAND'' (IOWR 85 28 snd_ctl_tlv),
     Request ''SNDRV_CTL_IOCTL_HWDEP_NEXT_DEVICE'' (IOWR 85 32 s32),
     Request ''SNDRV_CTL_IOCTL_HWDEP_INFO'' (IOR 85 33 snd_hwdep_info),
     Request ''SNDRV_CTL_IOCTL_PCM_NEXT_DEVICE'' (IOR 85 48 s32),
     Request ''SNDRV_CTL_IOCTL_PCM_INFO'' (IOWR 85 49 snd_pcm_info),
     Request ''SNDRV_CTL_IOCTL_PCM_PREFER_SUBDEVICE'' (IOW 85 50 s32),
     Request ''SNDRV_CTL_IOCTL_RAWMIDI_NEXT_DEVICE'' (IOWR 85 64 s32),
     Request ''SNDRV_CTL_IOCTL_RAWMIDI_INFO'' (IOWR 85 65 snd_rawmidi_info),
     Request ''SNDRV_CTL_IOCTL_RAWMIDI_PREFER_SUBDEVICE'' (IOW 85 66 s32),
     Request ''SNDRV_CTL_IOCTL_POWER'' (IOWR 85 208 s32),
     Request ''SNDRV_CTL_IOCTL_POWER_STATE'' (IOR 85 209 s32),
     Enum ''sndrv_ctl_event_type'' [(''SNDRV_CTL_EVENT_ELEM'', 0), (''SNDRV_CTL_EVENT_LAST'', 0)],
     Const ''SNDRV_CTL_EVENT_MASK_VALUE'' (2 ^ 0), Const ''SNDRV_CTL_EVENT_MASK_INFO'' (2 ^ 1),
     Const ''SNDRV_CTL_EVENT_MASK_ADD'' (2 ^ 2), Const ''SNDRV_CTL_EVENT_MASK_TLV'' (2 ^ 3),
     Const ''SNDRV_CTL_EVENT_MASK_REMOVE'' 4294967295, Struct ''snd_ctl_event'' snd_ctl_event,
     Text ''SNDRV_CTL_NAME_NONE'' '''', Text ''SNDRV_CTL_NAME_PLAYBACK'' ''Playback '',
     Text ''SNDRV_CTL_NAME_CAPTURE'' ''Capture '', Text ''SNDRV_CTL_NAME_IEC958_NONE'' '''',
     Text ''SNDRV_CTL_NAME_IEC958_SWITCH'' ''Switch'',
     Text ''SNDRV_CTL_NAME_IEC958_VOLUME'' ''Volume'',
     Text ''SNDRV_CTL_NAME_IEC958_DEFAULT'' ''Default'',
     Text ''SNDRV_CTL_NAME_IEC958_MASK'' ''Mask'',
     Text ''SNDRV_CTL_NAME_IEC958_CON_MASK'' ''Con Mask'',
     Text ''SNDRV_CTL_NAME_IEC958_PRO_MASK'' ''Pro Mask'',
     Text ''SNDRV_CTL_NAME_IEC958_PCM_STREAM'' ''PCM Stream'']"

definition asound_h :: "nat \<Rightarrow> decl list" where
  "asound_h timespec_size = asound_1 @ asound_2 @ asound_3 @ asound_4 @ asound_5 timespec_size @
     asound_6 timespec_size @ asound_7 @ asound_8 @ asound_9 timespec_size"

lemmas sound_structs =
  snd_enc_wma_def snd_enc_vorbis_def snd_enc_real_def snd_enc_flac_def snd_enc_generic_def
  snd_dec_ddp_def snd_dec_flac_def snd_dec_vorbis_def snd_dec_alac_def snd_dec_ape_def
  snd_dec_aptx_def snd_dec_amrwb_plus_def snd_codec_options_def snd_codec_desc_def snd_codec_def
  snd_codec_metadata_def snd_compressed_buffer_def snd_compr_params_def snd_compr_tstamp_def
  snd_compr_avail_def snd_compr_caps_def snd_compr_codec_caps_def snd_compr_audio_info_def
  snd_compr_metadata_def snd_aes_iec958_def snd_cea_861_aud_if_def snd_hwdep_info_def
  snd_hwdep_dsp_status_def snd_hwdep_dsp_image_def snd_pcm_sync_id_def snd_pcm_info_def
  snd_interval_def snd_mask_def snd_pcm_hw_params_def snd_pcm_sw_params_def
  snd_pcm_channel_info_def snd_pcm_status_def snd_pcm_mmap_status_def snd_pcm_mmap_control_def
  snd_pcm_sync_ptr_def snd_xferi_def snd_xfern_def snd_rawmidi_info_def snd_rawmidi_params_def
  snd_rawmidi_status_def snd_timer_id_def snd_timer_ginfo_def snd_timer_gparams_def
  snd_timer_gstatus_def snd_timer_select_def snd_timer_info_def snd_timer_params_def
  snd_timer_status_def snd_timer_read_def snd_timer_tread_def snd_ctl_card_info_def
  snd_ctl_elem_id_def snd_ctl_elem_list_def snd_ctl_elem_info_def snd_ctl_elem_value_def
  snd_ctl_tlv_def snd_ctl_event_def

lemmas sound_decls =
  compress_params_1_def compress_params_2_def compress_params_3_def compress_params_4_def
  compress_params_5_def compress_params_6_def compress_params_7_def compress_params_8_def
  compress_offload_1_def compress_offload_2_def compress_offload_3_def compress_offload_4_def
  compress_offload_5_def compress_offload_6_def asound_1_def asound_2_def asound_3_def
  asound_4_def asound_5_def asound_6_def asound_7_def asound_8_def asound_9_def
  compress_params_h_def compress_offload_h_def asound_h_def

text \<open>All structures and unions, in the order of the files.\<close>

definition sound_types :: "nat \<Rightarrow> ctype list" where
  "sound_types timespec_size =
    [snd_enc_wma, snd_enc_vorbis, snd_enc_real, snd_enc_flac, snd_enc_generic, snd_dec_ddp,
     snd_dec_flac, snd_dec_vorbis, snd_dec_alac, snd_dec_ape, snd_dec_aptx, snd_dec_amrwb_plus,
     snd_codec_options, snd_codec_desc, snd_codec, snd_codec_metadata, snd_compressed_buffer,
     snd_compr_params, snd_compr_tstamp, snd_compr_avail, snd_compr_caps, snd_compr_codec_caps,
     snd_compr_audio_info, snd_compr_metadata, snd_aes_iec958, snd_cea_861_aud_if,
     snd_hwdep_info, snd_hwdep_dsp_status, snd_hwdep_dsp_image, snd_pcm_sync_id, snd_pcm_info,
     snd_interval, snd_mask, snd_pcm_hw_params, snd_pcm_sw_params, snd_pcm_channel_info,
     snd_pcm_status timespec_size, snd_pcm_mmap_status, snd_pcm_mmap_control, snd_pcm_sync_ptr,
     snd_xferi, snd_xfern, snd_rawmidi_info, snd_rawmidi_params, snd_rawmidi_status,
     snd_timer_id, snd_timer_ginfo, snd_timer_gparams, snd_timer_gstatus, snd_timer_select,
     snd_timer_info, snd_timer_params, snd_timer_status, snd_timer_read, snd_timer_tread,
     snd_ctl_card_info, snd_ctl_elem_id, snd_ctl_elem_list, snd_ctl_elem_info,
     snd_ctl_elem_value timespec_size, snd_ctl_tlv, snd_ctl_event]"

text \<open>The structures made to look the same to 32-bit and 64-bit processes.\<close>

definition sound_portable :: "ctype list" where
  "sound_portable =
    [snd_enc_wma, snd_enc_vorbis, snd_enc_real, snd_enc_flac, snd_enc_generic, snd_dec_ddp,
     snd_dec_flac, snd_dec_vorbis, snd_dec_alac, snd_dec_ape, snd_dec_aptx, snd_dec_amrwb_plus,
     snd_codec_options, snd_codec_desc, snd_codec, snd_codec_metadata, snd_compressed_buffer,
     snd_compr_params, snd_compr_tstamp, snd_compr_avail, snd_compr_caps, snd_compr_codec_caps,
     snd_compr_audio_info, snd_compr_metadata]"

end
