(* ===== verification/LayoutCamera.thy ===== *)
theory LayoutCamera
  imports LayoutKgsl LayoutVideo
begin

text \<open>
  The headers the kernel is built with (under sdm710/original-kernel-headers) of the first
  camera driver and the still-image devices (media/msm\_camera.h and others): every
  structure and union with its fields in order; then, for every file, the list of its
  declarations, in blocks: structures, enumerations, number macros and device requests. A
  type of the C library or of a header that is not in the repository is a foreign type.
\<close>

subsection \<open>media/msm_camera.h\<close>

definition v4l2_event_and_payload :: ctype where
  "v4l2_event_and_payload =
     StructT Natural [(''evt'', LayoutVideo.v4l2_event), (''payload_length'', u32),
      (''transaction_id'', u32), (''payload'', PtrT)]"

definition msm_stats_reqbuf :: ctype where
  "msm_stats_reqbuf =
     StructT Natural [(''num_buf'', s32), (''stats_type'', s32)]"

definition msm_stats_flush_bufq :: ctype where
  "msm_stats_flush_bufq =
     StructT Natural [(''stats_type'', s32)]"

definition msm_mctl_pp_cmd :: ctype where
  "msm_mctl_pp_cmd =
     StructT Natural [(''id'', s32), (''length'', u16), (''value'', PtrT)]"

definition msm_mctl_post_proc_cmd :: ctype where
  "msm_mctl_post_proc_cmd =
     StructT Natural [(''type'', s32), (''cmd'', msm_mctl_pp_cmd)]"

definition msm_ctrl_cmd :: ctype where
  "msm_ctrl_cmd =
     StructT Natural [(''type'', u16), (''length'', u16), (''value'', PtrT), (''status'', u16),
      (''timeout_ms'', u32), (''resp_fd'', s32), (''vnode_id'', s32), (''queue_idx'', s32),
      (''evt_id'', u32), (''stream_type'', u32), (''config_ident'', s32)]"

definition msm_cam_evt_msg :: ctype where
  "msm_cam_evt_msg =
     StructT Natural [(''type'', u16), (''msg_id'', u16), (''len'', u32), (''frame_id'', u32),
      (''data'', PtrT), (''timestamp'', ForeignT ''struct timespec'')]"

definition msm_pp_frame_sp :: ctype where
  "msm_pp_frame_sp =
     StructT Natural [(''phy_addr'', ulongT), (''y_off'', u32), (''cbcr_off'', u32),
      (''length'', u32), (''fd'', s32), (''addr_offset'', u32), (''vaddr'', ulongT)]"

definition msm_pp_frame_mp :: ctype where
  "msm_pp_frame_mp =
     StructT Natural [(''phy_addr'', ulongT), (''data_offset'', u32), (''length'', u32),
      (''fd'', s32), (''addr_offset'', u32), (''vaddr'', ulongT)]"

abbreviation MAX_PLANES :: nat where "MAX_PLANES \<equiv> 8"

definition msm_pp_frame :: ctype where
  "msm_pp_frame =
     StructT Natural [(''handle'', u32), (''frame_id'', u32), (''buf_idx'', u16),
      (''path'', s32), (''image_type'', u16), (''num_planes'', u16),
      (''timestamp'', ForeignT ''struct timeval''),
      ('''', UnionT Natural [(''sp'', msm_pp_frame_sp),
      (''mp'', ArrT msm_pp_frame_mp MAX_PLANES)]), (''node_type'', s32), (''inst_handle'', u32)]"

definition msm_pp_crop :: ctype where
  "msm_pp_crop =
     StructT Natural [(''src_x'', u32), (''src_y'', u32), (''src_w'', u32), (''src_h'', u32),
      (''dst_x'', u32), (''dst_y'', u32), (''dst_w'', u32), (''dst_h'', u32),
      (''update_flag'', u8)]"

definition msm_mctl_pp_frame_cmd :: ctype where
  "msm_mctl_pp_frame_cmd =
     StructT Natural [(''cookie'', u32), (''vpe_output_action'', u8),
      (''src_frame'', msm_pp_frame), (''dest_frame'', msm_pp_frame), (''crop'', msm_pp_crop),
      (''path'', s32)]"

definition msm_cam_evt_divert_frame :: ctype where
  "msm_cam_evt_divert_frame =
     StructT Natural [(''image_mode'', u16), (''op_mode'', u16), (''inst_idx'', u16),
      (''node_idx'', u16), (''frame'', msm_pp_frame), (''do_pp'', s32)]"

definition msm_mctl_pp_cmd_ack_event :: ctype where
  "msm_mctl_pp_cmd_ack_event =
     StructT Natural [(''cmd'', u32), (''status'', s32), (''cookie'', u32)]"

definition msm_mctl_pp_event_info :: ctype where
  "msm_mctl_pp_event_info =
     StructT Natural [(''event'', s32),
      ('''', UnionT Natural [(''ack'', msm_mctl_pp_cmd_ack_event)])]"

definition msm_isp_event_ctrl :: ctype where
  "msm_isp_event_ctrl =
     StructT Natural [(''resptype'', u16),
      (''isp_data'', UnionT Natural [(''isp_msg'', msm_cam_evt_msg), (''ctrl'', msm_ctrl_cmd),
      (''div_frame'', msm_cam_evt_divert_frame), (''pp_event_info'', msm_mctl_pp_event_info)])]"

definition msm_stats_event_ctrl :: ctype where
  "msm_stats_event_ctrl =
     StructT Natural [(''resptype'', s32), (''timeout_ms'', s32), (''ctrl_cmd'', msm_ctrl_cmd),
      (''stats_event'', msm_cam_evt_msg)]"

definition msm_camera_cfg_cmd :: ctype where
  "msm_camera_cfg_cmd =
     StructT Natural [(''cfg_type'', u16), (''cmd_type'', u16), (''queue'', u16),
      (''length'', u16), (''value'', PtrT)]"

definition msm_vfe_cfg_cmd :: ctype where
  "msm_vfe_cfg_cmd =
     StructT Natural [(''cmd_type'', s32), (''length'', u16), (''value'', PtrT)]"

definition msm_vpe_cfg_cmd :: ctype where
  "msm_vpe_cfg_cmd =
     StructT Natural [(''cmd_type'', s32), (''length'', u16), (''value'', PtrT)]"

abbreviation MAX_CAMERA_ENABLE_NAME_LEN :: nat where "MAX_CAMERA_ENABLE_NAME_LEN \<equiv> 32"

definition camera_enable_cmd :: ctype where
  "camera_enable_cmd =
     StructT Natural [(''name'', ArrT CharT MAX_CAMERA_ENABLE_NAME_LEN)]"

definition msm_stats_buf_info :: ctype where
  "msm_stats_buf_info =
     StructT Natural [(''type'', s32), (''fd'', s32), (''vaddr'', PtrT), (''offset'', u32),
      (''len'', u32), (''y_off'', u32), (''cbcr_off'', u32), (''planar0_off'', u32),
      (''planar1_off'', u32), (''planar2_off'', u32), (''active'', u8), (''buf_idx'', s32)]"

definition msm_pmem_info :: ctype where
  "msm_pmem_info =
     StructT Natural [(''type'', s32), (''fd'', s32), (''vaddr'', PtrT), (''offset'', u32),
      (''len'', u32), (''y_off'', u32), (''cbcr_off'', u32), (''planar0_off'', u32),
      (''planar1_off'', u32), (''planar2_off'', u32), (''active'', u8)]"

definition outputCfg :: ctype where
  "outputCfg =
     StructT Natural [(''height'', u32), (''width'', u32), (''window_height_firstline'', u32),
      (''window_height_lastline'', u32)]"

definition fd_roi_info :: ctype where
  "fd_roi_info =
     StructT Natural [(''info'', PtrT), (''info_len'', s32)]"

definition msm_mem_map_info :: ctype where
  "msm_mem_map_info =
     StructT Natural [(''cookie'', u32), (''length'', u32), (''mem_type'', u32)]"

definition msm_frame :: ctype where
  "msm_frame =
     StructT Natural [(''ts'', ForeignT ''struct timespec''), (''path'', s32), (''type'', s32),
      (''buffer'', ulongT), (''phy_offset'', u32), (''y_off'', u32), (''cbcr_off'', u32),
      (''planar0_off'', u32), (''planar1_off'', u32), (''planar2_off'', u32), (''fd'', s32),
      (''cropinfo'', PtrT), (''croplen'', s32), (''error_code'', u32),
      (''roi_info'', fd_roi_info), (''frame_id'', u32), (''stcam_quality_ind'', s32),
      (''stcam_conv_value'', u32), (''ion_alloc'', LayoutKgsl.ion_allocation_data),
      (''fd_data'', LayoutKgsl.ion_fd_data), (''ion_dev_fd'', s32)]"

definition msm_st_crop :: ctype where
  "msm_st_crop =
     StructT Natural [(''in_w'', u32), (''in_h'', u32), (''out_w'', u32), (''out_h'', u32)]"

definition msm_st_half :: ctype where
  "msm_st_half =
     StructT Natural [(''buf_p0_off'', u32), (''buf_p1_off'', u32), (''buf_p0_stride'', u32),
      (''buf_p1_stride'', u32), (''pix_x_off'', u32), (''pix_y_off'', u32),
      (''stCropInfo'', msm_st_crop)]"

definition msm_st_frame :: ctype where
  "msm_st_frame =
     StructT Natural [(''buf_info'', msm_frame), (''type'', s32),
      (''packing'', EnumT ''msm_st_frame_packing''), (''L'', msm_st_half), (''R'', msm_st_half),
      (''frame_id'', s32)]"

definition stats_buff :: ctype where
  "stats_buff =
     StructT Natural [(''buff'', ulongT), (''fd'', s32)]"

definition msm_stats_buf :: ctype where
  "msm_stats_buf =
     StructT Natural [(''awb_ymin'', u8), (''aec'', stats_buff), (''awb'', stats_buff),
      (''af'', stats_buff), (''be'', stats_buff), (''ihist'', stats_buff), (''rs'', stats_buff),
      (''cs'', stats_buff), (''skin'', stats_buff), (''type'', s32), (''status_bits'', u32),
      (''buffer'', ulongT), (''fd'', s32), (''length'', s32), (''handle'', PtrT),
      (''frame_id'', u32), (''buf_idx'', s32)]"

definition crop_info :: ctype where
  "crop_info =
     StructT Natural [(''info'', PtrT), (''len'', s32)]"

definition msm_postproc :: ctype where
  "msm_postproc =
     StructT Natural [(''ftnum'', s32), (''fthumnail'', msm_frame), (''fmnum'', s32),
      (''fmain'', msm_frame)]"

definition msm_snapshot_pp_status :: ctype where
  "msm_snapshot_pp_status =
     StructT Natural [(''status'', PtrT)]"

definition sensor_pict_fps :: ctype where
  "sensor_pict_fps =
     StructT Natural [(''prevfps'', u16), (''pictfps'', u16)]"

definition exp_gain_cfg :: ctype where
  "exp_gain_cfg =
     StructT Natural [(''gain'', u16), (''line'', u32)]"

definition focus_cfg :: ctype where
  "focus_cfg =
     StructT Natural [(''steps'', s32), (''dir'', s32)]"

definition fps_cfg :: ctype where
  "fps_cfg =
     StructT Natural [(''f_mult'', u16), (''fps_div'', u16), (''pict_fps_div'', u32)]"

definition wb_info_cfg :: ctype where
  "wb_info_cfg =
     StructT Natural [(''red_gain'', u16), (''green_gain'', u16), (''blue_gain'', u16)]"

definition sensor_3d_exp_cfg :: ctype where
  "sensor_3d_exp_cfg =
     StructT Natural [(''gain'', u16), (''line'', u32), (''r_gain'', u16), (''b_gain'', u16),
      (''gr_gain'', u16), (''gb_gain'', u16), (''gain_adjust'', u16)]"

definition sensor_3d_cali_data_t :: ctype where
  "sensor_3d_cali_data_t =
     StructT Natural [(''left_p_matrix'', ArrT (ArrT (ArrT u8 8) 4) 3),
      (''right_p_matrix'', ArrT (ArrT (ArrT u8 8) 4) 3), (''square_len'', ArrT u8 8),
      (''focal_len'', ArrT u8 8), (''pixel_pitch'', ArrT u8 8), (''left_r'', u16),
      (''left_b'', u16), (''left_gb'', u16), (''left_af_far'', u16), (''left_af_mid'', u16),
      (''left_af_short'', u16), (''left_af_5um'', u16), (''left_af_50up'', u16),
      (''left_af_50down'', u16), (''right_r'', u16), (''right_b'', u16), (''right_gb'', u16),
      (''right_af_far'', u16), (''right_af_mid'', u16), (''right_af_short'', u16),
      (''right_af_5um'', u16), (''right_af_50up'', u16), (''right_af_50down'', u16)]"

definition sensor_init_cfg :: ctype where
  "sensor_init_cfg =
     StructT Natural [(''prev_res'', u8), (''pict_res'', u8)]"

definition sensor_calib_data :: ctype where
  "sensor_calib_data =
     StructT Natural [(''r_over_g'', u16), (''b_over_g'', u16), (''gr_over_gb'', u16),
      (''macro_2_inf'', u16), (''inf_2_macro'', u16), (''stroke_amt'', u16),
      (''af_pos_1m'', u16), (''af_pos_inf'', u16)]"

definition msm_sensor_output_info_t :: ctype where
  "msm_sensor_output_info_t =
     StructT Natural [(''x_output'', u16), (''y_output'', u16), (''line_length_pclk'', u16),
      (''frame_length_lines'', u16), (''vt_pixel_clk'', u32), (''op_pixel_clk'', u32),
      (''binning_factor'', u16)]"

definition sensor_output_info_t :: ctype where
  "sensor_output_info_t =
     StructT Natural [(''output_info'', PtrT), (''num_info'', u16)]"

definition msm_sensor_exp_gain_info_t :: ctype where
  "msm_sensor_exp_gain_info_t =
     StructT Natural [(''coarse_int_time_addr'', u16), (''global_gain_addr'', u16),
      (''vert_offset'', u16)]"

definition msm_sensor_output_reg_addr_t :: ctype where
  "msm_sensor_output_reg_addr_t =
     StructT Natural [(''x_output'', u16), (''y_output'', u16), (''line_length_pclk'', u16),
      (''frame_length_lines'', u16)]"

definition sensor_driver_params_type :: ctype where
  "sensor_driver_params_type =
     StructT Natural [(''init_settings'', PtrT), (''init_settings_size'', u16),
      (''mode_settings'', PtrT), (''mode_settings_size'', u16),
      (''sensor_output_reg_addr'', PtrT), (''start_settings'', PtrT), (''stop_settings'', PtrT),
      (''groupon_settings'', PtrT), (''groupoff_settings'', PtrT),
      (''sensor_exp_gain_info'', PtrT), (''output_info'', PtrT)]"

definition mirror_flip :: ctype where
  "mirror_flip =
     StructT Natural [(''x_mirror'', s32), (''y_flip'', s32)]"

definition cord :: ctype where
  "cord =
     StructT Natural [(''x'', u32), (''y'', u32)]"

definition msm_eeprom_data_t :: ctype where
  "msm_eeprom_data_t =
     StructT Natural [(''eeprom_data'', PtrT), (''index'', u16)]"

definition msm_camera_csid_vc_cfg :: ctype where
  "msm_camera_csid_vc_cfg =
     StructT Natural [(''cid'', u8), (''dt'', u8), (''decode_format'', u8)]"

definition csi_lane_params_t :: ctype where
  "csi_lane_params_t =
     StructT Natural [(''csi_lane_assign'', u16), (''csi_lane_mask'', u8), (''csi_if'', u8),
      (''csid_core'', ArrT u8 2), (''csi_phy_sel'', u8)]"

definition msm_camera_csid_lut_params :: ctype where
  "msm_camera_csid_lut_params =
     StructT Natural [(''num_cid'', u8), (''vc_cfg'', PtrT)]"

definition msm_camera_csid_params :: ctype where
  "msm_camera_csid_params =
     StructT Natural [(''lane_cnt'', u8), (''lane_assign'', u16), (''phy_sel'', u8),
      (''lut_params'', msm_camera_csid_lut_params)]"

definition msm_camera_csiphy_params :: ctype where
  "msm_camera_csiphy_params =
     StructT Natural [(''lane_cnt'', u8), (''settle_cnt'', u8), (''lane_mask'', u16),
      (''combo_mode'', u8), (''csid_core'', u8), (''data_rate'', u64)]"

definition msm_camera_csi2_params :: ctype where
  "msm_camera_csi2_params =
     StructT Natural [(''csid_params'', msm_camera_csid_params),
      (''csiphy_params'', msm_camera_csiphy_params)]"

definition msm_camera_csi_params :: ctype where
  "msm_camera_csi_params =
     StructT Natural [(''data_format'', EnumT ''msm_camera_csi_data_format''),
      (''lane_cnt'', u8), (''lane_assign'', u8), (''settle_cnt'', u8), (''dpcm_scheme'', u8)]"

definition csic_cfg_data :: ctype where
  "csic_cfg_data =
     StructT Natural [(''cfgtype'', EnumT ''csic_cfg_type_t''), (''csic_params'', PtrT)]"

definition csid_cfg_data :: ctype where
  "csid_cfg_data =
     StructT Natural [(''cfgtype'', EnumT ''csid_cfg_type_t''),
      (''cfg'', UnionT Natural [(''csid_version'', u32), (''csid_params'', PtrT)])]"

definition csiphy_cfg_data :: ctype where
  "csiphy_cfg_data =
     StructT Natural [(''cfgtype'', EnumT ''csiphy_cfg_type_t''), (''csiphy_params'', PtrT)]"

definition msm_ispif_params :: ctype where
  "msm_ispif_params =
     StructT Natural [(''intftype'', u8), (''cid_mask'', u16), (''csid'', u8),
      (''vfe_intf'', u8)]"

definition msm_ispif_params_list :: ctype where
  "msm_ispif_params_list =
     StructT Natural [(''len'', u32), (''params'', ArrT msm_ispif_params 4)]"

definition ispif_cfg_data :: ctype where
  "ispif_cfg_data =
     StructT Natural [(''cfgtype'', EnumT ''ispif_cfg_type_t''),
      (''cfg'', UnionT Natural [(''csid_version'', u32), (''cmd'', s32),
      (''ispif_params'', msm_ispif_params_list)])]"

definition msm_camera_i2c_reg_array :: ctype where
  "msm_camera_i2c_reg_array =
     StructT Natural [(''reg_addr'', u16), (''reg_data'', u16)]"

definition msm_camera_i2c_reg_setting :: ctype where
  "msm_camera_i2c_reg_setting =
     StructT Natural [(''reg_setting'', PtrT), (''size'', u16),
      (''addr_type'', EnumT ''msm_camera_i2c_reg_addr_type''),
      (''data_type'', EnumT ''msm_camera_i2c_data_type''), (''delay'', u16)]"

definition sensor_oem_setting :: ctype where
  "sensor_oem_setting =
     StructT Natural [(''type'', EnumT ''oem_setting_type''), (''data'', PtrT)]"

definition msm_camera_csi_lane_params :: ctype where
  "msm_camera_csi_lane_params =
     StructT Natural [(''csi_lane_assign'', u16), (''csi_lane_mask'', u16)]"

definition camera_vreg_t :: ctype where
  "camera_vreg_t =
     StructT Natural [(''reg_name'', PtrT), (''min_voltage'', s32), (''max_voltage'', s32),
      (''op_mode'', s32), (''delay'', u32)]"

definition msm_camera_vreg_setting :: ctype where
  "msm_camera_vreg_setting =
     StructT Natural [(''cam_vreg'', PtrT), (''num_vreg'', u16), (''enable'', u8)]"

definition msm_cam_clk_info :: ctype where
  "msm_cam_clk_info =
     StructT Natural [(''clk_name'', PtrT), (''clk_rate'', slongT), (''delay'', u32)]"

definition msm_cam_clk_setting :: ctype where
  "msm_cam_clk_setting =
     StructT Natural [(''clk_info'', PtrT), (''num_clk_info'', u16), (''enable'', u8)]"

definition sensor_cfg_data :: ctype where
  "sensor_cfg_data =
     StructT Natural [(''cfgtype'', s32), (''mode'', s32), (''rs'', s32), (''max_steps'', u8),
      (''cfg'', UnionT Natural [(''effect'', s8), (''lens_shading'', u8), (''prevl_pf'', u16),
      (''prevp_pl'', u16), (''pictl_pf'', u16), (''pictp_pl'', u16), (''pict_max_exp_lc'', u32),
      (''p_fps'', u16), (''iso_type'', u8), (''init_info'', sensor_init_cfg),
      (''gfps'', sensor_pict_fps), (''exp_gain'', exp_gain_cfg), (''focus'', focus_cfg),
      (''fps'', fps_cfg), (''wb_info'', wb_info_cfg), (''sensor_3d_exp'', sensor_3d_exp_cfg),
      (''calib_info'', sensor_calib_data), (''output_info'', sensor_output_info_t),
      (''eeprom_data'', msm_eeprom_data_t), (''csi_lane_params'', csi_lane_params_t),
      (''antibanding'', u16), (''contrast'', u8), (''saturation'', u8), (''sharpness'', u8),
      (''brightness'', s8), (''ae_mode'', s32), (''wb_val'', u8), (''exp_compensation'', s8),
      (''pclk'', u32), (''aec_cord'', cord), (''is_autoflash'', s32),
      (''mirror_flip'', mirror_flip), (''setting'', PtrT)])]"

definition msm_cam_gpio_operation :: ctype where
  "msm_cam_gpio_operation =
     StructT Natural [(''op_type'', EnumT ''gpio_operation_type''), (''address'', u32),
      (''value'', s32), (''tag'', PtrT)]"

definition damping_params_t :: ctype where
  "damping_params_t =
     StructT Natural [(''damping_step'', u32), (''damping_delay'', u32), (''hw_params'', u32)]"

definition msm_actuator_reg_params_t :: ctype where
  "msm_actuator_reg_params_t =
     StructT Natural [(''reg_write_type'', EnumT ''msm_actuator_write_type''),
      (''hw_mask'', u32), (''reg_addr'', u16), (''hw_shift'', u16), (''data_type'', u16),
      (''addr_type'', u16), (''reg_data'', u16), (''delay'', u16)]"

definition reg_settings_t :: ctype where
  "reg_settings_t =
     StructT Natural [(''reg_addr'', u16), (''reg_data'', u16)]"

definition region_params_t :: ctype where
  "region_params_t =
     StructT Natural [(''step_bound'', ArrT u16 2), (''code_per_step'', u16)]"

definition msm_actuator_move_params_t :: ctype where
  "msm_actuator_move_params_t =
     StructT Natural [(''dir'', s8), (''sign_dir'', s8), (''dest_step_pos'', s16),
      (''num_steps'', s32), (''ringing_params'', PtrT)]"

definition msm_actuator_tuning_params_t :: ctype where
  "msm_actuator_tuning_params_t =
     StructT Natural [(''initial_code'', s16), (''pwd_step'', u16), (''region_size'', u16),
      (''total_steps'', u32), (''region_params'', PtrT)]"

definition msm_actuator_params_t :: ctype where
  "msm_actuator_params_t =
     StructT Natural [(''act_type'', EnumT ''actuator_type''), (''reg_tbl_size'', u8),
      (''data_size'', u16), (''init_setting_size'', u16), (''i2c_addr'', u32),
      (''i2c_addr_type'', EnumT ''msm_actuator_addr_type''),
      (''i2c_data_type'', EnumT ''msm_actuator_data_type''), (''reg_tbl_params'', PtrT),
      (''init_settings'', PtrT)]"

definition msm_actuator_set_info_t :: ctype where
  "msm_actuator_set_info_t =
     StructT Natural [(''actuator_params'', msm_actuator_params_t),
      (''af_tuning_params'', msm_actuator_tuning_params_t)]"

definition msm_actuator_get_info_t :: ctype where
  "msm_actuator_get_info_t =
     StructT Natural [(''focal_length_num'', u32), (''focal_length_den'', u32),
      (''f_number_num'', u32), (''f_number_den'', u32), (''f_pix_num'', u32),
      (''f_pix_den'', u32), (''total_f_dist_num'', u32), (''total_f_dist_den'', u32),
      (''hor_view_angle_num'', u32), (''hor_view_angle_den'', u32),
      (''ver_view_angle_num'', u32), (''ver_view_angle_den'', u32)]"

definition msm_actuator_cfg_data :: ctype where
  "msm_actuator_cfg_data =
     StructT Natural [(''cfgtype'', s32), (''is_af_supported'', u8),
      (''cfg'', UnionT Natural [(''move'', msm_actuator_move_params_t),
      (''set_info'', msm_actuator_set_info_t), (''get_info'', msm_actuator_get_info_t),
      (''cam_name'', EnumT ''af_camera_name'')])]"

definition msm_eeprom_support :: ctype where
  "msm_eeprom_support =
     StructT Natural [(''is_supported'', u16), (''size'', u16), (''index'', u16),
      (''qvalue'', u16)]"

definition msm_calib_wb :: ctype where
  "msm_calib_wb =
     StructT Natural [(''r_over_g'', u16), (''b_over_g'', u16), (''gr_over_gb'', u16)]"

definition msm_calib_af :: ctype where
  "msm_calib_af =
     StructT Natural [(''macro_dac'', u16), (''inf_dac'', u16), (''start_dac'', u16)]"

definition msm_calib_lsc :: ctype where
  "msm_calib_lsc =
     StructT Natural [(''r_gain'', ArrT u16 221), (''b_gain'', ArrT u16 221),
      (''gr_gain'', ArrT u16 221), (''gb_gain'', ArrT u16 221)]"

definition pixel_t :: ctype where
  "pixel_t =
     StructT Natural [(''x'', s32), (''y'', s32)]"

definition msm_calib_dpc :: ctype where
  "msm_calib_dpc =
     StructT Natural [(''validcount'', u16), (''snapshot_coord'', ArrT pixel_t 128),
      (''preview_coord'', ArrT pixel_t 128), (''video_coord'', ArrT pixel_t 128)]"

definition msm_calib_raw :: ctype where
  "msm_calib_raw =
     StructT Natural [(''data'', PtrT), (''size'', u32)]"

definition msm_camera_eeprom_info_t :: ctype where
  "msm_camera_eeprom_info_t =
     StructT Natural [(''af'', msm_eeprom_support), (''wb'', msm_eeprom_support),
      (''lsc'', msm_eeprom_support), (''dpc'', msm_eeprom_support),
      (''raw'', msm_eeprom_support)]"

definition msm_eeprom_cfg_data :: ctype where
  "msm_eeprom_cfg_data =
     StructT Natural [(''cfgtype'', s32), (''is_eeprom_supported'', u8),
      (''cfg'', UnionT Natural [(''get_data'', msm_eeprom_data_t),
      (''get_info'', msm_camera_eeprom_info_t)])]"

definition sensor_large_data :: ctype where
  "sensor_large_data =
     StructT Natural [(''cfgtype'', s32),
      (''data'', UnionT Natural [(''sensor_3d_cali_data'', sensor_3d_cali_data_t)])]"

definition strobe_flash_ctrl_data :: ctype where
  "strobe_flash_ctrl_data =
     StructT Natural [(''type'', EnumT ''strobe_flash_ctrl_type''), (''charge_en'', s32)]"

abbreviation MSM_MAX_CAMERA_SENSORS :: nat where "MSM_MAX_CAMERA_SENSORS \<equiv> 5"

definition msm_camera_info :: ctype where
  "msm_camera_info =
     StructT Natural [(''num_cameras'', s32),
      (''has_3d_support'', ArrT u8 MSM_MAX_CAMERA_SENSORS),
      (''is_internal_cam'', ArrT u8 MSM_MAX_CAMERA_SENSORS),
      (''s_mount_angle'', ArrT u32 MSM_MAX_CAMERA_SENSORS),
      (''video_dev_name'', ArrT PtrT MSM_MAX_CAMERA_SENSORS),
      (''sensor_type'', ArrT (EnumT ''sensor_type_t'') MSM_MAX_CAMERA_SENSORS)]"

abbreviation MSM_MAX_CAMERA_CONFIGS :: nat where "MSM_MAX_CAMERA_CONFIGS \<equiv> 2"

definition msm_cam_config_dev_info :: ctype where
  "msm_cam_config_dev_info =
     StructT Natural [(''num_config_nodes'', s32),
      (''config_dev_name'', ArrT PtrT MSM_MAX_CAMERA_CONFIGS),
      (''config_dev_id'', ArrT s32 MSM_MAX_CAMERA_CONFIGS)]"

definition msm_mctl_node_info :: ctype where
  "msm_mctl_node_info =
     StructT Natural [(''num_mctl_nodes'', s32),
      (''mctl_node_name'', ArrT PtrT MSM_MAX_CAMERA_SENSORS)]"

definition flash_ctrl_data :: ctype where
  "flash_ctrl_data =
     StructT Natural [(''flashtype'', s32),
      (''ctrl_data'', UnionT Natural [(''led_state'', s32),
      (''strobe_ctrl'', strobe_flash_ctrl_data)])]"

abbreviation MAX_SENSOR_NAME :: nat where "MAX_SENSOR_NAME \<equiv> 32"

definition msm_camsensor_info :: ctype where
  "msm_camsensor_info =
     StructT Natural [(''name'', ArrT CharT MAX_SENSOR_NAME), (''flash_enabled'', u8),
      (''strobe_flash_enabled'', u8), (''actuator_enabled'', u8), (''ispif_supported'', u8),
      (''total_steps'', s8), (''support_3d'', u8), (''flashtype'', EnumT ''flash_type''),
      (''sensor_type'', EnumT ''sensor_type_t''), (''pxlcode'', u32), (''camera_type'', u32),
      (''mount_angle'', s32), (''max_width'', u32), (''max_height'', u32)]"

definition plane_data :: ctype where
  "plane_data =
     StructT Natural [(''plane_id'', s32), (''offset'', u32), (''size'', ulongT)]"

definition img_plane_info :: ctype where
  "img_plane_info =
     StructT Natural [(''width'', u32), (''height'', u32), (''pixelformat'', u32),
      (''buffer_type'', u8), (''output_port'', u8), (''ext_mode'', u32), (''num_planes'', u8),
      (''plane'', ArrT plane_data MAX_PLANES), (''sp_y_offset'', u32), (''inst_handle'', u32)]"

definition msm_mctl_set_sdev_data :: ctype where
  "msm_mctl_set_sdev_data =
     StructT Natural [(''revision'', u32), (''sdev_type'', EnumT ''msm_cam_subdev_type'')]"

definition msm_camera_v4l2_ioctl_t :: ctype where
  "msm_camera_v4l2_ioctl_t =
     StructT Natural [(''id'', u32), (''len'', u32), (''trans_code'', u32),
      (''ioctl_ptr'', PtrT)]"

definition msm_camera_vfe_params_t :: ctype where
  "msm_camera_vfe_params_t =
     StructT Natural [(''operation_mode'', u32), (''capture_count'', u32), (''skip_reset'', u8),
      (''stop_immediately'', u8), (''port_info'', u16), (''inst_handle'', u32),
      (''cmd_type'', u16)]"

definition msm_camera_irq_cfg :: ctype where
  "msm_camera_irq_cfg =
     StructT Natural [(''cam_hw_mask'', u32), (''irq_idx'', u8), (''num_hwcore'', u8)]"

definition msm_cpp_frame_info_t :: ctype where
  "msm_cpp_frame_info_t =
     StructT Natural [(''frame_id'', s32), (''inst_id'', u32), (''client_id'', u32),
      (''frame_type'', EnumT ''msm_cpp_frame_type''), (''num_strips'', u32)]"

definition msm_ver_num_info :: ctype where
  "msm_ver_num_info =
     StructT Natural [(''main'', u32), (''minor'', u32), (''rev'', u32)]"

definition msm_camera_1 :: "decl list" where
  "msm_camera_1 =
    [Flag ''__UAPI_MSM_CAMERA_H'', Flag ''CAM_API_V1'']"

abbreviation MSM_CAM_IOCTL_MAGIC :: nat where "MSM_CAM_IOCTL_MAGIC \<equiv> 109"

definition msm_camera_2 :: "decl list" where
  "msm_camera_2 =
    [Const ''MSM_CAM_IOCTL_MAGIC'' 109, Const ''MAX_SERVER_PAYLOAD_LENGTH'' 8192,
     Request ''MSM_CAM_IOCTL_GET_SENSOR_INFO'' (IOR MSM_CAM_IOCTL_MAGIC 1 PtrT),
     Request ''MSM_CAM_IOCTL_REGISTER_PMEM'' (IOW MSM_CAM_IOCTL_MAGIC 2 PtrT),
     Request ''MSM_CAM_IOCTL_UNREGISTER_PMEM'' (IOW MSM_CAM_IOCTL_MAGIC 3 u32),
     Request ''MSM_CAM_IOCTL_CTRL_COMMAND'' (IOW MSM_CAM_IOCTL_MAGIC 4 PtrT),
     Request ''MSM_CAM_IOCTL_CONFIG_VFE'' (IOW MSM_CAM_IOCTL_MAGIC 5 PtrT),
     Request ''MSM_CAM_IOCTL_GET_STATS'' (IOR MSM_CAM_IOCTL_MAGIC 6 PtrT),
     Request ''MSM_CAM_IOCTL_GETFRAME'' (IOR MSM_CAM_IOCTL_MAGIC 7 PtrT),
     Request ''MSM_CAM_IOCTL_ENABLE_VFE'' (IOW MSM_CAM_IOCTL_MAGIC 8 PtrT),
     Request ''MSM_CAM_IOCTL_CTRL_CMD_DONE'' (IOW MSM_CAM_IOCTL_MAGIC 9 PtrT),
     Request ''MSM_CAM_IOCTL_CONFIG_CMD'' (IOW MSM_CAM_IOCTL_MAGIC 10 PtrT),
     Request ''MSM_CAM_IOCTL_DISABLE_VFE'' (IOW MSM_CAM_IOCTL_MAGIC 11 PtrT),
     Request ''MSM_CAM_IOCTL_PAD_REG_RESET2'' (IOW MSM_CAM_IOCTL_MAGIC 12 PtrT),
     Request ''MSM_CAM_IOCTL_VFE_APPS_RESET'' (IOW MSM_CAM_IOCTL_MAGIC 13 PtrT),
     Request ''MSM_CAM_IOCTL_RELEASE_FRAME_BUFFER'' (IOW MSM_CAM_IOCTL_MAGIC 14 PtrT),
     Request ''MSM_CAM_IOCTL_RELEASE_STATS_BUFFER'' (IOW MSM_CAM_IOCTL_MAGIC 15 PtrT),
     Request ''MSM_CAM_IOCTL_AXI_CONFIG'' (IOW MSM_CAM_IOCTL_MAGIC 16 PtrT),
     Request ''MSM_CAM_IOCTL_GET_PICTURE'' (IOW MSM_CAM_IOCTL_MAGIC 17 PtrT),
     Request ''MSM_CAM_IOCTL_SET_CROP'' (IOW MSM_CAM_IOCTL_MAGIC 18 PtrT),
     Request ''MSM_CAM_IOCTL_PICT_PP'' (IOW MSM_CAM_IOCTL_MAGIC 19 PtrT),
     Request ''MSM_CAM_IOCTL_PICT_PP_DONE'' (IOW MSM_CAM_IOCTL_MAGIC 20 PtrT),
     Request ''MSM_CAM_IOCTL_SENSOR_IO_CFG'' (IOW MSM_CAM_IOCTL_MAGIC 21 PtrT),
     Request ''MSM_CAM_IOCTL_FLASH_LED_CFG'' (IOW MSM_CAM_IOCTL_MAGIC 22 PtrT),
     Request ''MSM_CAM_IOCTL_UNBLOCK_POLL_FRAME'' (IO MSM_CAM_IOCTL_MAGIC 23),
     Request ''MSM_CAM_IOCTL_CTRL_COMMAND_2'' (IOW MSM_CAM_IOCTL_MAGIC 24 PtrT),
     Request ''MSM_CAM_IOCTL_AF_CTRL'' (IOR MSM_CAM_IOCTL_MAGIC 25 PtrT),
     Request ''MSM_CAM_IOCTL_AF_CTRL_DONE'' (IOW MSM_CAM_IOCTL_MAGIC 26 PtrT),
     Request ''MSM_CAM_IOCTL_CONFIG_VPE'' (IOW MSM_CAM_IOCTL_MAGIC 27 PtrT),
     Request ''MSM_CAM_IOCTL_AXI_VPE_CONFIG'' (IOW MSM_CAM_IOCTL_MAGIC 28 PtrT),
     Request ''MSM_CAM_IOCTL_STROBE_FLASH_CFG'' (IOW MSM_CAM_IOCTL_MAGIC 29 PtrT),
     Request ''MSM_CAM_IOCTL_STROBE_FLASH_CHARGE'' (IOW MSM_CAM_IOCTL_MAGIC 30 PtrT),
     Request ''MSM_CAM_IOCTL_STROBE_FLASH_RELEASE'' (IO MSM_CAM_IOCTL_MAGIC 31),
     Request ''MSM_CAM_IOCTL_FLASH_CTRL'' (IOW MSM_CAM_IOCTL_MAGIC 32 PtrT),
     Request ''MSM_CAM_IOCTL_ERROR_CONFIG'' (IOW MSM_CAM_IOCTL_MAGIC 33 PtrT),
     Request ''MSM_CAM_IOCTL_ABORT_CAPTURE'' (IO MSM_CAM_IOCTL_MAGIC 34),
     Request ''MSM_CAM_IOCTL_SET_FD_ROI'' (IOW MSM_CAM_IOCTL_MAGIC 35 PtrT),
     Request ''MSM_CAM_IOCTL_GET_CAMERA_INFO'' (IOR MSM_CAM_IOCTL_MAGIC 36 PtrT),
     Request ''MSM_CAM_IOCTL_UNBLOCK_POLL_PIC_FRAME'' (IO MSM_CAM_IOCTL_MAGIC 37),
     Request ''MSM_CAM_IOCTL_RELEASE_PIC_BUFFER'' (IOW MSM_CAM_IOCTL_MAGIC 38 PtrT),
     Request ''MSM_CAM_IOCTL_PUT_ST_FRAME'' (IOW MSM_CAM_IOCTL_MAGIC 39 PtrT),
     Request ''MSM_CAM_IOCTL_V4L2_EVT_NOTIFY'' (IOW MSM_CAM_IOCTL_MAGIC 40 v4l2_event_and_payload),
     Request ''MSM_CAM_IOCTL_SET_MEM_MAP_INFO'' (IOR MSM_CAM_IOCTL_MAGIC 41 PtrT),
     Request ''MSM_CAM_IOCTL_ACTUATOR_IO_CFG'' (IOW MSM_CAM_IOCTL_MAGIC 42 PtrT),
     Request ''MSM_CAM_IOCTL_MCTL_POST_PROC'' (IOW MSM_CAM_IOCTL_MAGIC 43 PtrT),
     Request ''MSM_CAM_IOCTL_RESERVE_FREE_FRAME'' (IOW MSM_CAM_IOCTL_MAGIC 44 PtrT),
     Request ''MSM_CAM_IOCTL_RELEASE_FREE_FRAME'' (IOR MSM_CAM_IOCTL_MAGIC 45 PtrT),
     Request ''MSM_CAM_IOCTL_PICT_PP_DIVERT_DONE'' (IOR MSM_CAM_IOCTL_MAGIC 46 PtrT),
     Request ''MSM_CAM_IOCTL_SENSOR_V4l2_S_CTRL'' (IOR MSM_CAM_IOCTL_MAGIC 47 LayoutVideo.v4l2_control),
     Request ''MSM_CAM_IOCTL_SENSOR_V4l2_QUERY_CTRL'' (IOR MSM_CAM_IOCTL_MAGIC 48 LayoutVideo.v4l2_queryctrl),
     Request ''MSM_CAM_IOCTL_GET_KERNEL_SYSTEM_TIME'' (IOW MSM_CAM_IOCTL_MAGIC 49 PtrT)]"

definition msm_camera_3 :: "decl list" where
  "msm_camera_3 =
    [Request ''MSM_CAM_IOCTL_SET_VFE_OUTPUT_TYPE'' (IOW MSM_CAM_IOCTL_MAGIC 50 PtrT),
     Request ''MSM_CAM_IOCTL_MCTL_DIVERT_DONE'' (IOR MSM_CAM_IOCTL_MAGIC 51 PtrT),
     Request ''MSM_CAM_IOCTL_GET_ACTUATOR_INFO'' (IOW MSM_CAM_IOCTL_MAGIC 52 PtrT),
     Request ''MSM_CAM_IOCTL_EEPROM_IO_CFG'' (IOW MSM_CAM_IOCTL_MAGIC 53 PtrT),
     Request ''MSM_CAM_IOCTL_ISPIF_IO_CFG'' (IOR MSM_CAM_IOCTL_MAGIC 54 PtrT),
     Request ''MSM_CAM_IOCTL_STATS_REQBUF'' (IOR MSM_CAM_IOCTL_MAGIC 55 PtrT),
     Request ''MSM_CAM_IOCTL_STATS_ENQUEUEBUF'' (IOR MSM_CAM_IOCTL_MAGIC 56 PtrT),
     Request ''MSM_CAM_IOCTL_STATS_FLUSH_BUFQ'' (IOR MSM_CAM_IOCTL_MAGIC 57 PtrT),
     Request ''MSM_CAM_IOCTL_SET_MCTL_SDEV'' (IOW MSM_CAM_IOCTL_MAGIC 58 PtrT),
     Request ''MSM_CAM_IOCTL_UNSET_MCTL_SDEV'' (IOW MSM_CAM_IOCTL_MAGIC 59 PtrT),
     Request ''MSM_CAM_IOCTL_GET_INST_HANDLE'' (IOR MSM_CAM_IOCTL_MAGIC 60 PtrT),
     Request ''MSM_CAM_IOCTL_STATS_UNREG_BUF'' (IOR MSM_CAM_IOCTL_MAGIC 61 PtrT),
     Request ''MSM_CAM_IOCTL_CSIC_IO_CFG'' (IOWR MSM_CAM_IOCTL_MAGIC 62 PtrT),
     Request ''MSM_CAM_IOCTL_CSID_IO_CFG'' (IOWR MSM_CAM_IOCTL_MAGIC 63 PtrT),
     Request ''MSM_CAM_IOCTL_CSIPHY_IO_CFG'' (IOR MSM_CAM_IOCTL_MAGIC 64 PtrT),
     Request ''MSM_CAM_IOCTL_OEM'' (IOW MSM_CAM_IOCTL_MAGIC 65 PtrT),
     Request ''MSM_CAM_IOCTL_AXI_INIT'' (IOWR MSM_CAM_IOCTL_MAGIC 66 PtrT),
     Request ''MSM_CAM_IOCTL_AXI_RELEASE'' (IO MSM_CAM_IOCTL_MAGIC 67),
     Struct ''v4l2_event_and_payload'' v4l2_event_and_payload,
     Struct ''msm_stats_reqbuf'' msm_stats_reqbuf,
     Struct ''msm_stats_flush_bufq'' msm_stats_flush_bufq,
     Struct ''msm_mctl_pp_cmd'' msm_mctl_pp_cmd,
     Struct ''msm_mctl_post_proc_cmd'' msm_mctl_post_proc_cmd, Const ''MSM_CAMERA_LED_OFF'' 0,
     Const ''MSM_CAMERA_LED_LOW'' 1, Const ''MSM_CAMERA_LED_HIGH'' 2,
     Const ''MSM_CAMERA_LED_INIT'' 3, Const ''MSM_CAMERA_LED_RELEASE'' 4,
     Const ''MSM_CAMERA_STROBE_FLASH_NONE'' 0, Const ''MSM_CAMERA_STROBE_FLASH_XENON'' 1,
     Const ''MSM_MAX_CAMERA_SENSORS'' 5, Const ''MAX_SENSOR_NAME'' 32,
     Const ''MAX_CAM_NAME_SIZE'' 32, Const ''MAX_ACT_MOD_NAME_SIZE'' 32,
     Const ''MAX_ACT_NAME_SIZE'' 32, Const ''NUM_ACTUATOR_DIR'' 2,
     Const ''MAX_ACTUATOR_SCENARIO'' 8, Const ''MAX_ACTUATOR_REGION'' 5,
     Const ''MAX_ACTUATOR_INIT_SET'' 12, Const ''MAX_ACTUATOR_TYPE_SIZE'' 32,
     Const ''MAX_ACTUATOR_REG_TBL_SIZE'' 8, Const ''MSM_MAX_CAMERA_CONFIGS'' 2,
     Const ''PP_SNAP'' 0x01, Const ''PP_RAW_SNAP'' 2, Const ''PP_PREV'' 4, Const ''PP_THUMB'' 8,
     Const ''PP_MASK'' 15, Const ''MSM_CAM_CTRL_CMD_DONE'' 0,
     Const ''MSM_CAM_SENSOR_VFE_CMD'' 1, Const ''MAX_PLANES'' 8]"

definition msm_camera_4 :: "decl list" where
  "msm_camera_4 =
    [Struct ''msm_ctrl_cmd'' msm_ctrl_cmd, Struct ''msm_cam_evt_msg'' msm_cam_evt_msg,
     Struct ''msm_pp_frame_sp'' msm_pp_frame_sp, Struct ''msm_pp_frame_mp'' msm_pp_frame_mp,
     Struct ''msm_pp_frame'' msm_pp_frame, Struct ''msm_pp_crop'' msm_pp_crop,
     Struct ''msm_mctl_pp_frame_cmd'' msm_mctl_pp_frame_cmd,
     Struct ''msm_cam_evt_divert_frame'' msm_cam_evt_divert_frame,
     Struct ''msm_mctl_pp_cmd_ack_event'' msm_mctl_pp_cmd_ack_event,
     Struct ''msm_mctl_pp_event_info'' msm_mctl_pp_event_info,
     Struct ''msm_isp_event_ctrl'' msm_isp_event_ctrl, Const ''MSM_CAM_RESP_CTRL'' 0,
     Const ''MSM_CAM_RESP_STAT_EVT_MSG'' 1, Const ''MSM_CAM_RESP_STEREO_OP_1'' 2,
     Const ''MSM_CAM_RESP_STEREO_OP_2'' 3, Const ''MSM_CAM_RESP_V4L2'' 4,
     Const ''MSM_CAM_RESP_DIV_FRAME_EVT_MSG'' 5, Const ''MSM_CAM_RESP_DONE_EVENT'' 6,
     Const ''MSM_CAM_RESP_MCTL_PP_EVENT'' 7, Const ''MSM_CAM_RESP_MAX'' 8,
     Const ''MSM_CAM_APP_NOTIFY_EVENT'' 0, Const ''MSM_CAM_APP_NOTIFY_ERROR_EVENT'' 1,
     Struct ''msm_stats_event_ctrl'' msm_stats_event_ctrl]"

definition msm_camera_5 :: "decl list" where
  "msm_camera_5 =
    [Struct ''msm_camera_cfg_cmd'' msm_camera_cfg_cmd, Const ''CMD_GENERAL'' 0,
     Const ''CMD_AXI_CFG_OUT1'' 1, Const ''CMD_AXI_CFG_SNAP_O1_AND_O2'' 2,
     Const ''CMD_AXI_CFG_OUT2'' 3, Const ''CMD_PICT_T_AXI_CFG'' 4,
     Const ''CMD_PICT_M_AXI_CFG'' 5, Const ''CMD_RAW_PICT_AXI_CFG'' 6,
     Const ''CMD_FRAME_BUF_RELEASE'' 7, Const ''CMD_PREV_BUF_CFG'' 8,
     Const ''CMD_SNAP_BUF_RELEASE'' 9, Const ''CMD_SNAP_BUF_CFG'' 10,
     Const ''CMD_STATS_DISABLE'' 11, Const ''CMD_STATS_AEC_AWB_ENABLE'' 12,
     Const ''CMD_STATS_AF_ENABLE'' 13, Const ''CMD_STATS_AEC_ENABLE'' 14,
     Const ''CMD_STATS_AWB_ENABLE'' 15, Const ''CMD_STATS_ENABLE'' 16,
     Const ''CMD_STATS_AXI_CFG'' 17, Const ''CMD_STATS_AEC_AXI_CFG'' 18,
     Const ''CMD_STATS_AF_AXI_CFG'' 19, Const ''CMD_STATS_AWB_AXI_CFG'' 20,
     Const ''CMD_STATS_RS_AXI_CFG'' 21, Const ''CMD_STATS_CS_AXI_CFG'' 22,
     Const ''CMD_STATS_IHIST_AXI_CFG'' 23, Const ''CMD_STATS_SKIN_AXI_CFG'' 24,
     Const ''CMD_STATS_BUF_RELEASE'' 25, Const ''CMD_STATS_AEC_BUF_RELEASE'' 26,
     Const ''CMD_STATS_AF_BUF_RELEASE'' 27, Const ''CMD_STATS_AWB_BUF_RELEASE'' 28,
     Const ''CMD_STATS_RS_BUF_RELEASE'' 29, Const ''CMD_STATS_CS_BUF_RELEASE'' 30,
     Const ''CMD_STATS_IHIST_BUF_RELEASE'' 31, Const ''CMD_STATS_SKIN_BUF_RELEASE'' 32,
     Const ''UPDATE_STATS_INVALID'' 33, Const ''CMD_AXI_CFG_SNAP_GEMINI'' 34,
     Const ''CMD_AXI_CFG_SNAP'' 35, Const ''CMD_AXI_CFG_PREVIEW'' 36,
     Const ''CMD_AXI_CFG_VIDEO'' 37, Const ''CMD_STATS_IHIST_ENABLE'' 38,
     Const ''CMD_STATS_RS_ENABLE'' 39, Const ''CMD_STATS_CS_ENABLE'' 40, Const ''CMD_VPE'' 41,
     Const ''CMD_AXI_CFG_VPE'' 42, Const ''CMD_AXI_CFG_ZSL'' 43,
     Const ''CMD_AXI_CFG_SNAP_VPE'' 44, Const ''CMD_AXI_CFG_SNAP_THUMB_VPE'' 45,
     Const ''CMD_CONFIG_PING_ADDR'' 46, Const ''CMD_CONFIG_PONG_ADDR'' 47,
     Const ''CMD_CONFIG_FREE_BUF_ADDR'' 48, Const ''CMD_AXI_CFG_ZSL_ALL_CHNLS'' 49,
     Const ''CMD_AXI_CFG_VIDEO_ALL_CHNLS'' 50, Const ''CMD_VFE_BUFFER_RELEASE'' 51,
     Const ''CMD_VFE_PROCESS_IRQ'' 52, Const ''CMD_STATS_BG_ENABLE'' 53,
     Const ''CMD_STATS_BF_ENABLE'' 54, Const ''CMD_STATS_BHIST_ENABLE'' 55,
     Const ''CMD_STATS_BG_BUF_RELEASE'' 56, Const ''CMD_STATS_BF_BUF_RELEASE'' 57,
     Const ''CMD_STATS_BHIST_BUF_RELEASE'' 58, Const ''CMD_VFE_PIX_SOF_COUNT_UPDATE'' 59,
     Const ''CMD_VFE_COUNT_PIX_SOF_ENABLE'' 60, Const ''CMD_STATS_BE_ENABLE'' 61,
     Const ''CMD_STATS_BE_BUF_RELEASE'' 62, Const ''CMD_AXI_CFG_PRIM'' 256,
     Const ''CMD_AXI_CFG_PRIM_ALL_CHNLS'' 512, Const ''CMD_AXI_CFG_SEC'' 1024,
     Const ''CMD_AXI_CFG_SEC_ALL_CHNLS'' 2048, Const ''CMD_AXI_CFG_TERT1'' 4096,
     Const ''CMD_AXI_CFG_TERT2'' 8192, Const ''CMD_AXI_START'' 0xE1,
     Const ''CMD_AXI_STOP'' 0xE2, Const ''CMD_AXI_RESET'' 0xE3, Const ''CMD_AXI_ABORT'' 0xE4,
     Const ''AXI_CMD_PREVIEW'' 1, Const ''AXI_CMD_CAPTURE'' 2, Const ''AXI_CMD_RECORD'' 4,
     Const ''AXI_CMD_ZSL'' 8, Const ''AXI_CMD_RAW_CAPTURE'' 16, Const ''AXI_CMD_LIVESHOT'' 32,
     Struct ''msm_vfe_cfg_cmd'' msm_vfe_cfg_cmd, Struct ''msm_vpe_cfg_cmd'' msm_vpe_cfg_cmd,
     Const ''MAX_CAMERA_ENABLE_NAME_LEN'' 32, Struct ''camera_enable_cmd'' camera_enable_cmd,
     Const ''MSM_PMEM_OUTPUT1'' 0, Const ''MSM_PMEM_OUTPUT2'' 1,
     Const ''MSM_PMEM_OUTPUT1_OUTPUT2'' 2, Const ''MSM_PMEM_THUMBNAIL'' 3,
     Const ''MSM_PMEM_MAINIMG'' 4, Const ''MSM_PMEM_RAW_MAINIMG'' 5,
     Const ''MSM_PMEM_AEC_AWB'' 6, Const ''MSM_PMEM_AF'' 7, Const ''MSM_PMEM_AEC'' 8,
     Const ''MSM_PMEM_AWB'' 9, Const ''MSM_PMEM_RS'' 10, Const ''MSM_PMEM_CS'' 11,
     Const ''MSM_PMEM_IHIST'' 12, Const ''MSM_PMEM_SKIN'' 13, Const ''MSM_PMEM_VIDEO'' 14,
     Const ''MSM_PMEM_PREVIEW'' 15, Const ''MSM_PMEM_VIDEO_VPE'' 16, Const ''MSM_PMEM_C2D'' 17,
     Const ''MSM_PMEM_MAINIMG_VPE'' 18, Const ''MSM_PMEM_THUMBNAIL_VPE'' 19,
     Const ''MSM_PMEM_BAYER_GRID'' 20, Const ''MSM_PMEM_BAYER_FOCUS'' 21,
     Const ''MSM_PMEM_BAYER_HIST'' 22, Const ''MSM_PMEM_BAYER_EXPOSURE'' 23,
     Const ''MSM_PMEM_MAX'' 24, Const ''STAT_AEAW'' 0, Const ''STAT_AEC'' 1]"

definition msm_camera_6 :: "decl list" where
  "msm_camera_6 =
    [Const ''STAT_AF'' 2, Const ''STAT_AWB'' 3, Const ''STAT_RS'' 4, Const ''STAT_CS'' 5,
     Const ''STAT_IHIST'' 6, Const ''STAT_SKIN'' 7, Const ''STAT_BG'' 8, Const ''STAT_BF'' 9,
     Const ''STAT_BE'' 10, Const ''STAT_BHIST'' 11, Const ''STAT_MAX'' 12,
     Const ''FRAME_PREVIEW_OUTPUT1'' 0, Const ''FRAME_PREVIEW_OUTPUT2'' 1,
     Const ''FRAME_SNAPSHOT'' 2, Const ''FRAME_THUMBNAIL'' 3, Const ''FRAME_RAW_SNAPSHOT'' 4,
     Const ''FRAME_MAX'' 5,
     Enum ''msm_stats_enum_type'' [(''MSM_STATS_TYPE_AEC'', 0), (''MSM_STATS_TYPE_AF'', 1),
       (''MSM_STATS_TYPE_AWB'', 2), (''MSM_STATS_TYPE_RS'', 3), (''MSM_STATS_TYPE_CS'', 4),
       (''MSM_STATS_TYPE_IHIST'', 5), (''MSM_STATS_TYPE_SKIN'', 6), (''MSM_STATS_TYPE_BG'', 7),
       (''MSM_STATS_TYPE_BF'', 8), (''MSM_STATS_TYPE_BE'', 9), (''MSM_STATS_TYPE_BHIST'', 10),
       (''MSM_STATS_TYPE_AE_AW'', 11), (''MSM_STATS_TYPE_COMP'', 12),
       (''MSM_STATS_TYPE_MAX'', 13)],
     Struct ''msm_stats_buf_info'' msm_stats_buf_info, Struct ''msm_pmem_info'' msm_pmem_info,
     Struct ''outputCfg'' outputCfg, Const ''VIDEO_NODE'' 0, Const ''MCTL_NODE'' 1,
     Const ''OUTPUT_1'' 0, Const ''OUTPUT_2'' 1, Const ''OUTPUT_1_AND_2'' 2,
     Const ''OUTPUT_1_AND_3'' 3, Const ''CAMIF_TO_AXI_VIA_OUTPUT_2'' 4,
     Const ''OUTPUT_1_AND_CAMIF_TO_AXI_VIA_OUTPUT_2'' 5,
     Const ''OUTPUT_2_AND_CAMIF_TO_AXI_VIA_OUTPUT_1'' 6, Const ''OUTPUT_1_2_AND_3'' 7,
     Const ''OUTPUT_ALL_CHNLS'' 8, Const ''OUTPUT_VIDEO_ALL_CHNLS'' 9,
     Const ''OUTPUT_ZSL_ALL_CHNLS'' 10, Const ''LAST_AXI_OUTPUT_MODE_ENUM'' 10,
     Const ''OUTPUT_PRIM'' 256, Const ''OUTPUT_PRIM_ALL_CHNLS'' 512, Const ''OUTPUT_SEC'' 1024,
     Const ''OUTPUT_SEC_ALL_CHNLS'' 2048, Const ''OUTPUT_TERT1'' 4096,
     Const ''OUTPUT_TERT2'' 8192, Const ''MSM_FRAME_PREV_1'' 0, Const ''MSM_FRAME_PREV_2'' 1,
     Const ''MSM_FRAME_ENC'' 2, Const ''OUTPUT_TYPE_P'' 1, Const ''OUTPUT_TYPE_T'' 2,
     Const ''OUTPUT_TYPE_S'' 4, Const ''OUTPUT_TYPE_V'' 8, Const ''OUTPUT_TYPE_L'' 16,
     Const ''OUTPUT_TYPE_ST_L'' 32, Const ''OUTPUT_TYPE_ST_R'' 64,
     Const ''OUTPUT_TYPE_ST_D'' 128, Const ''OUTPUT_TYPE_R'' 256, Const ''OUTPUT_TYPE_R1'' 512,
     Const ''OUTPUT_TYPE_SAEC'' 1024, Const ''OUTPUT_TYPE_SAFC'' 2048,
     Const ''OUTPUT_TYPE_SAWB'' 4096, Const ''OUTPUT_TYPE_IHST'' 8192,
     Const ''OUTPUT_TYPE_CSTA'' 16384, Struct ''fd_roi_info'' fd_roi_info,
     Struct ''msm_mem_map_info'' msm_mem_map_info, Const ''MSM_MEM_MMAP'' 0,
     Const ''MSM_MEM_USERPTR'' 1, Const ''MSM_PLANE_MAX'' 8, Const ''MSM_PLANE_Y'' 0,
     Const ''MSM_PLANE_UV'' 1]"

definition msm_camera_7 :: "decl list" where
  "msm_camera_7 =
    [Struct ''msm_frame'' msm_frame,
     Enum ''msm_st_frame_packing'' [(''SIDE_BY_SIDE_HALF'', 0), (''SIDE_BY_SIDE_FULL'', 1),
       (''TOP_DOWN_HALF'', 2), (''TOP_DOWN_FULL'', 3)],
     Struct ''msm_st_crop'' msm_st_crop, Struct ''msm_st_half'' msm_st_half,
     Struct ''msm_st_frame'' msm_st_frame, Const ''MSM_CAMERA_ERR_MASK'' 1,
     Struct ''stats_buff'' stats_buff, Struct ''msm_stats_buf'' msm_stats_buf,
     Const ''MSM_V4L2_EXT_CAPTURE_MODE_DEFAULT'' 0,
     Const ''MSM_V4L2_EXT_CAPTURE_MODE_PREVIEW'' 1, Const ''MSM_V4L2_EXT_CAPTURE_MODE_VIDEO'' 2,
     Const ''MSM_V4L2_EXT_CAPTURE_MODE_MAIN'' 3,
     Const ''MSM_V4L2_EXT_CAPTURE_MODE_THUMBNAIL'' 4,
     Const ''MSM_V4L2_EXT_CAPTURE_MODE_ISP_PIX_OUTPUT1'' 5,
     Const ''MSM_V4L2_EXT_CAPTURE_MODE_ISP_PIX_OUTPUT2'' 6,
     Const ''MSM_V4L2_EXT_CAPTURE_MODE_RAW'' 7, Const ''MSM_V4L2_EXT_CAPTURE_MODE_RDI'' 8,
     Const ''MSM_V4L2_EXT_CAPTURE_MODE_RDI1'' 9, Const ''MSM_V4L2_EXT_CAPTURE_MODE_RDI2'' 10,
     Const ''MSM_V4L2_EXT_CAPTURE_MODE_AEC'' 11, Const ''MSM_V4L2_EXT_CAPTURE_MODE_AWB'' 12,
     Const ''MSM_V4L2_EXT_CAPTURE_MODE_AF'' 13, Const ''MSM_V4L2_EXT_CAPTURE_MODE_IHIST'' 14,
     Const ''MSM_V4L2_EXT_CAPTURE_MODE_CS'' 15, Const ''MSM_V4L2_EXT_CAPTURE_MODE_RS'' 16,
     Const ''MSM_V4L2_EXT_CAPTURE_MODE_CSTA'' 17,
     Const ''MSM_V4L2_EXT_CAPTURE_MODE_V2X_LIVESHOT'' 18,
     Const ''MSM_V4L2_EXT_CAPTURE_MODE_MAX'' 19, Const ''MSM_V4L2_PID_MOTION_ISO'' 134217728,
     Const ''MSM_V4L2_PID_EFFECT'' (0x8000000 + 1), Const ''MSM_V4L2_PID_HJR'' (0x8000000 + 2),
     Const ''MSM_V4L2_PID_LED_MODE'' (0x8000000 + 3),
     Const ''MSM_V4L2_PID_PREP_SNAPSHOT'' (0x8000000 + 4),
     Const ''MSM_V4L2_PID_EXP_METERING'' (0x8000000 + 5),
     Const ''MSM_V4L2_PID_ISO'' (0x8000000 + 6),
     Const ''MSM_V4L2_PID_CAM_MODE'' (0x8000000 + 7),
     Const ''MSM_V4L2_PID_LUMA_ADAPTATION'' (0x8000000 + 8),
     Const ''MSM_V4L2_PID_BEST_SHOT'' (0x8000000 + 9),
     Const ''MSM_V4L2_PID_FOCUS_MODE'' (0x8000000 + 10),
     Const ''MSM_V4L2_PID_BL_DETECTION'' (0x8000000 + 11),
     Const ''MSM_V4L2_PID_SNOW_DETECTION'' (0x8000000 + 12),
     Const ''MSM_V4L2_PID_CTRL_CMD'' (0x8000000 + 13),
     Const ''MSM_V4L2_PID_EVT_SUB_INFO'' (0x8000000 + 14),
     Const ''MSM_V4L2_PID_STROBE_FLASH'' (0x8000000 + 15)]"

definition msm_camera_8 :: "decl list" where
  "msm_camera_8 =
    [Const ''MSM_V4L2_PID_INST_HANDLE'' (0x8000000 + 16),
     Const ''MSM_V4L2_PID_MMAP_INST'' (0x8000000 + 17),
     Const ''MSM_V4L2_PID_PP_PLANE_INFO'' (0x8000000 + 18),
     Const ''MSM_V4L2_PID_MAX'' 134217746, Const ''MSM_V4L2_CAM_OP_DEFAULT'' 0,
     Const ''MSM_V4L2_CAM_OP_PREVIEW'' 1, Const ''MSM_V4L2_CAM_OP_VIDEO'' 2,
     Const ''MSM_V4L2_CAM_OP_CAPTURE'' 3, Const ''MSM_V4L2_CAM_OP_ZSL'' 4,
     Const ''MSM_V4L2_CAM_OP_RAW'' 5, Const ''MSM_V4L2_CAM_OP_JPEG_CAPTURE'' 6,
     Const ''MSM_V4L2_VID_CAP_TYPE'' 0, Const ''MSM_V4L2_STREAM_ON'' 1,
     Const ''MSM_V4L2_STREAM_OFF'' 2, Const ''MSM_V4L2_SNAPSHOT'' 3,
     Const ''MSM_V4L2_QUERY_CTRL'' 4, Const ''MSM_V4L2_GET_CTRL'' 5,
     Const ''MSM_V4L2_SET_CTRL'' 6, Const ''MSM_V4L2_QUERY'' 7, Const ''MSM_V4L2_GET_CROP'' 8,
     Const ''MSM_V4L2_SET_CROP'' 9, Const ''MSM_V4L2_OPEN'' 10, Const ''MSM_V4L2_CLOSE'' 11,
     Const ''MSM_V4L2_SET_CTRL_CMD'' 12, Const ''MSM_V4L2_EVT_SUB_MASK'' 13,
     Const ''MSM_V4L2_PRIVATE_CMD'' 14, Const ''MSM_V4L2_MAX'' 15,
     Const ''V4L2_CAMERA_EXIT'' 43, Struct ''crop_info'' crop_info,
     Struct ''msm_postproc'' msm_postproc,
     Struct ''msm_snapshot_pp_status'' msm_snapshot_pp_status, Const ''CFG_SET_MODE'' 0,
     Const ''CFG_SET_EFFECT'' 1, Const ''CFG_START'' 2, Const ''CFG_PWR_UP'' 3,
     Const ''CFG_PWR_DOWN'' 4, Const ''CFG_WRITE_EXPOSURE_GAIN'' 5,
     Const ''CFG_SET_DEFAULT_FOCUS'' 6, Const ''CFG_MOVE_FOCUS'' 7,
     Const ''CFG_REGISTER_TO_REAL_GAIN'' 8, Const ''CFG_REAL_TO_REGISTER_GAIN'' 9,
     Const ''CFG_SET_FPS'' 10, Const ''CFG_SET_PICT_FPS'' 11, Const ''CFG_SET_BRIGHTNESS'' 12,
     Const ''CFG_SET_CONTRAST'' 13, Const ''CFG_SET_ZOOM'' 14,
     Const ''CFG_SET_EXPOSURE_MODE'' 15, Const ''CFG_SET_WB'' 16,
     Const ''CFG_SET_ANTIBANDING'' 17, Const ''CFG_SET_EXP_GAIN'' 18,
     Const ''CFG_SET_PICT_EXP_GAIN'' 19, Const ''CFG_SET_LENS_SHADING'' 20,
     Const ''CFG_GET_PICT_FPS'' 21, Const ''CFG_GET_PREV_L_PF'' 22,
     Const ''CFG_GET_PREV_P_PL'' 23, Const ''CFG_GET_PICT_L_PF'' 24,
     Const ''CFG_GET_PICT_P_PL'' 25, Const ''CFG_GET_AF_MAX_STEPS'' 26,
     Const ''CFG_GET_PICT_MAX_EXP_LC'' 27, Const ''CFG_SEND_WB_INFO'' 28,
     Const ''CFG_SENSOR_INIT'' 29, Const ''CFG_GET_3D_CALI_DATA'' 30,
     Const ''CFG_GET_CALIB_DATA'' 31, Const ''CFG_GET_OUTPUT_INFO'' 32,
     Const ''CFG_GET_EEPROM_INFO'' 33, Const ''CFG_GET_EEPROM_DATA'' 34,
     Const ''CFG_SET_ACTUATOR_INFO'' 35, Const ''CFG_GET_ACTUATOR_INFO'' 36,
     Const ''CFG_SET_SATURATION'' 37, Const ''CFG_SET_SHARPNESS'' 38,
     Const ''CFG_SET_TOUCHAEC'' 39, Const ''CFG_SET_AUTO_FOCUS'' 40,
     Const ''CFG_SET_AUTOFLASH'' 41, Const ''CFG_SET_EXPOSURE_COMPENSATION'' 42,
     Const ''CFG_SET_ISO'' 43, Const ''CFG_START_STREAM'' 44, Const ''CFG_STOP_STREAM'' 45,
     Const ''CFG_GET_CSI_PARAMS'' 46, Const ''CFG_POWER_UP'' 47, Const ''CFG_POWER_DOWN'' 48,
     Const ''CFG_WRITE_I2C_ARRAY'' 49, Const ''CFG_READ_I2C_ARRAY'' 50,
     Const ''CFG_PCLK_CHANGE'' 51, Const ''CFG_CONFIG_VREG_ARRAY'' 52,
     Const ''CFG_CONFIG_CLK_ARRAY'' 53, Const ''CFG_GPIO_OP'' 54, Const ''CFG_MAX'' 55,
     Const ''MOVE_NEAR'' 0, Const ''MOVE_FAR'' 1, Const ''SENSOR_PREVIEW_MODE'' 0,
     Const ''SENSOR_SNAPSHOT_MODE'' 1, Const ''SENSOR_RAW_SNAPSHOT_MODE'' 2,
     Const ''SENSOR_HFR_60FPS_MODE'' 3, Const ''SENSOR_HFR_90FPS_MODE'' 4,
     Const ''SENSOR_HFR_120FPS_MODE'' 5, Const ''SENSOR_QTR_SIZE'' 0,
     Const ''SENSOR_FULL_SIZE'' 1, Const ''SENSOR_QVGA_SIZE'' 2,
     Const ''SENSOR_INVALID_SIZE'' 3, Const ''CAMERA_EFFECT_OFF'' 0,
     Const ''CAMERA_EFFECT_MONO'' 1, Const ''CAMERA_EFFECT_NEGATIVE'' 2,
     Const ''CAMERA_EFFECT_SOLARIZE'' 3, Const ''CAMERA_EFFECT_SEPIA'' 4,
     Const ''CAMERA_EFFECT_POSTERIZE'' 5, Const ''CAMERA_EFFECT_WHITEBOARD'' 6,
     Const ''CAMERA_EFFECT_BLACKBOARD'' 7, Const ''CAMERA_EFFECT_AQUA'' 8,
     Const ''CAMERA_EFFECT_EMBOSS'' 9, Const ''CAMERA_EFFECT_SKETCH'' 10,
     Const ''CAMERA_EFFECT_NEON'' 11, Const ''CAMERA_EFFECT_FADED'' 12,
     Const ''CAMERA_EFFECT_VINTAGECOOL'' 13, Const ''CAMERA_EFFECT_VINTAGEWARM'' 14,
     Const ''CAMERA_EFFECT_ACCENT_BLUE'' 15, Const ''CAMERA_EFFECT_ACCENT_GREEN'' 16,
     Const ''CAMERA_EFFECT_ACCENT_ORANGE'' 17, Const ''CAMERA_EFFECT_MAX'' 18]"

definition msm_camera_9 :: "decl list" where
  "msm_camera_9 =
    [Const ''CAMERA_EFFECT_BW'' 10, Const ''CAMERA_EFFECT_BLUISH'' 12,
     Const ''CAMERA_EFFECT_REDDISH'' 13, Const ''CAMERA_EFFECT_GREENISH'' 14,
     Const ''CAMERA_ANTIBANDING_OFF'' 0, Const ''CAMERA_ANTIBANDING_50HZ'' 2,
     Const ''CAMERA_ANTIBANDING_60HZ'' 1, Const ''CAMERA_ANTIBANDING_AUTO'' 3,
     Const ''CAMERA_CONTRAST_LV0'' 0, Const ''CAMERA_CONTRAST_LV1'' 1,
     Const ''CAMERA_CONTRAST_LV2'' 2, Const ''CAMERA_CONTRAST_LV3'' 3,
     Const ''CAMERA_CONTRAST_LV4'' 4, Const ''CAMERA_CONTRAST_LV5'' 5,
     Const ''CAMERA_CONTRAST_LV6'' 6, Const ''CAMERA_CONTRAST_LV7'' 7,
     Const ''CAMERA_CONTRAST_LV8'' 8, Const ''CAMERA_CONTRAST_LV9'' 9,
     Const ''CAMERA_BRIGHTNESS_LV0'' 0, Const ''CAMERA_BRIGHTNESS_LV1'' 1,
     Const ''CAMERA_BRIGHTNESS_LV2'' 2, Const ''CAMERA_BRIGHTNESS_LV3'' 3,
     Const ''CAMERA_BRIGHTNESS_LV4'' 4, Const ''CAMERA_BRIGHTNESS_LV5'' 5,
     Const ''CAMERA_BRIGHTNESS_LV6'' 6, Const ''CAMERA_BRIGHTNESS_LV7'' 7,
     Const ''CAMERA_BRIGHTNESS_LV8'' 8, Const ''CAMERA_SATURATION_LV0'' 0,
     Const ''CAMERA_SATURATION_LV1'' 1, Const ''CAMERA_SATURATION_LV2'' 2,
     Const ''CAMERA_SATURATION_LV3'' 3, Const ''CAMERA_SATURATION_LV4'' 4,
     Const ''CAMERA_SATURATION_LV5'' 5, Const ''CAMERA_SATURATION_LV6'' 6,
     Const ''CAMERA_SATURATION_LV7'' 7, Const ''CAMERA_SATURATION_LV8'' 8,
     Const ''CAMERA_SHARPNESS_LV0'' 0, Const ''CAMERA_SHARPNESS_LV1'' 3,
     Const ''CAMERA_SHARPNESS_LV2'' 6, Const ''CAMERA_SHARPNESS_LV3'' 9,
     Const ''CAMERA_SHARPNESS_LV4'' 12, Const ''CAMERA_SHARPNESS_LV5'' 15,
     Const ''CAMERA_SHARPNESS_LV6'' 18, Const ''CAMERA_SHARPNESS_LV7'' 21,
     Const ''CAMERA_SHARPNESS_LV8'' 24, Const ''CAMERA_SHARPNESS_LV9'' 27,
     Const ''CAMERA_SHARPNESS_LV10'' 30, Const ''CAMERA_SETAE_AVERAGE'' 0,
     Const ''CAMERA_SETAE_CENWEIGHT'' 1, Const ''CAMERA_WB_AUTO'' 1,
     Const ''CAMERA_WB_CUSTOM'' 2, Const ''CAMERA_WB_INCANDESCENT'' 3,
     Const ''CAMERA_WB_FLUORESCENT'' 4, Const ''CAMERA_WB_DAYLIGHT'' 5,
     Const ''CAMERA_WB_CLOUDY_DAYLIGHT'' 6, Const ''CAMERA_WB_TWILIGHT'' 7,
     Const ''CAMERA_WB_SHADE'' 8, Const ''CAMERA_EXPOSURE_COMPENSATION_LV0'' 12,
     Const ''CAMERA_EXPOSURE_COMPENSATION_LV1'' 6, Const ''CAMERA_EXPOSURE_COMPENSATION_LV2'' 0,
     Const ''CAMERA_EXPOSURE_COMPENSATION_LV3'' (- 6),
     Const ''CAMERA_EXPOSURE_COMPENSATION_LV4'' (- 12),
     Enum ''msm_v4l2_saturation_level'' [(''MSM_V4L2_SATURATION_L0'', 0),
       (''MSM_V4L2_SATURATION_L1'', 1), (''MSM_V4L2_SATURATION_L2'', 2),
       (''MSM_V4L2_SATURATION_L3'', 3), (''MSM_V4L2_SATURATION_L4'', 4),
       (''MSM_V4L2_SATURATION_L5'', 5), (''MSM_V4L2_SATURATION_L6'', 6),
       (''MSM_V4L2_SATURATION_L7'', 7), (''MSM_V4L2_SATURATION_L8'', 8),
       (''MSM_V4L2_SATURATION_L9'', 9), (''MSM_V4L2_SATURATION_L10'', 10)],
     Enum ''msm_v4l2_contrast_level'' [(''MSM_V4L2_CONTRAST_L0'', 0),
       (''MSM_V4L2_CONTRAST_L1'', 1), (''MSM_V4L2_CONTRAST_L2'', 2),
       (''MSM_V4L2_CONTRAST_L3'', 3), (''MSM_V4L2_CONTRAST_L4'', 4),
       (''MSM_V4L2_CONTRAST_L5'', 5), (''MSM_V4L2_CONTRAST_L6'', 6),
       (''MSM_V4L2_CONTRAST_L7'', 7), (''MSM_V4L2_CONTRAST_L8'', 8),
       (''MSM_V4L2_CONTRAST_L9'', 9), (''MSM_V4L2_CONTRAST_L10'', 10)],
     Enum ''msm_v4l2_exposure_level'' [(''MSM_V4L2_EXPOSURE_N2'', 0),
       (''MSM_V4L2_EXPOSURE_N1'', 1), (''MSM_V4L2_EXPOSURE_D'', 2),
       (''MSM_V4L2_EXPOSURE_P1'', 3), (''MSM_V4L2_EXPOSURE_P2'', 4)],
     Enum ''msm_v4l2_sharpness_level'' [(''MSM_V4L2_SHARPNESS_L0'', 0),
       (''MSM_V4L2_SHARPNESS_L1'', 1), (''MSM_V4L2_SHARPNESS_L2'', 2),
       (''MSM_V4L2_SHARPNESS_L3'', 3), (''MSM_V4L2_SHARPNESS_L4'', 4),
       (''MSM_V4L2_SHARPNESS_L5'', 5), (''MSM_V4L2_SHARPNESS_L6'', 6)],
     Enum ''msm_v4l2_expo_metering_mode'' [(''MSM_V4L2_EXP_FRAME_AVERAGE'', 0),
       (''MSM_V4L2_EXP_CENTER_WEIGHTED'', 1), (''MSM_V4L2_EXP_SPOT_METERING'', 2)],
     Enum ''msm_v4l2_iso_mode'' [(''MSM_V4L2_ISO_AUTO'', 0), (''MSM_V4L2_ISO_DEBLUR'', 1),
       (''MSM_V4L2_ISO_100'', 2), (''MSM_V4L2_ISO_200'', 3), (''MSM_V4L2_ISO_400'', 4),
       (''MSM_V4L2_ISO_800'', 5), (''MSM_V4L2_ISO_1600'', 6)],
     Enum ''msm_v4l2_wb_mode'' [(''MSM_V4L2_WB_OFF'', 0), (''MSM_V4L2_WB_AUTO'', 1),
       (''MSM_V4L2_WB_CUSTOM'', 2), (''MSM_V4L2_WB_INCANDESCENT'', 3),
       (''MSM_V4L2_WB_FLUORESCENT'', 4), (''MSM_V4L2_WB_DAYLIGHT'', 5),
       (''MSM_V4L2_WB_CLOUDY_DAYLIGHT'', 6)]]"

definition msm_camera_10 :: "decl list" where
  "msm_camera_10 =
    [Enum ''msm_v4l2_special_effect'' [(''MSM_V4L2_EFFECT_OFF'', 0),
       (''MSM_V4L2_EFFECT_MONO'', 1), (''MSM_V4L2_EFFECT_NEGATIVE'', 2),
       (''MSM_V4L2_EFFECT_SOLARIZE'', 3), (''MSM_V4L2_EFFECT_SEPIA'', 4),
       (''MSM_V4L2_EFFECT_POSTERAIZE'', 5), (''MSM_V4L2_EFFECT_WHITEBOARD'', 6),
       (''MSM_V4L2_EFFECT_BLACKBOARD'', 7), (''MSM_V4L2_EFFECT_AQUA'', 8),
       (''MSM_V4L2_EFFECT_EMBOSS'', 9), (''MSM_V4L2_EFFECT_SKETCH'', 10),
       (''MSM_V4L2_EFFECT_NEON'', 11), (''MSM_V4L2_EFFECT_MAX'', 12)],
     Enum ''msm_v4l2_power_line_frequency'' [(''MSM_V4L2_POWER_LINE_OFF'', 0),
       (''MSM_V4L2_POWER_LINE_60HZ'', 1), (''MSM_V4L2_POWER_LINE_50HZ'', 2),
       (''MSM_V4L2_POWER_LINE_AUTO'', 3)],
     Const ''CAMERA_ISO_TYPE_AUTO'' 0, Const ''CAMEAR_ISO_TYPE_HJR'' 1,
     Const ''CAMEAR_ISO_TYPE_100'' 2, Const ''CAMERA_ISO_TYPE_200'' 3,
     Const ''CAMERA_ISO_TYPE_400'' 4, Const ''CAMEAR_ISO_TYPE_800'' 5,
     Const ''CAMERA_ISO_TYPE_1600'' 6, Struct ''sensor_pict_fps'' sensor_pict_fps,
     Struct ''exp_gain_cfg'' exp_gain_cfg, Struct ''focus_cfg'' focus_cfg,
     Struct ''fps_cfg'' fps_cfg, Struct ''wb_info_cfg'' wb_info_cfg,
     Struct ''sensor_3d_exp_cfg'' sensor_3d_exp_cfg,
     Struct ''sensor_3d_cali_data_t'' sensor_3d_cali_data_t,
     Struct ''sensor_init_cfg'' sensor_init_cfg, Struct ''sensor_calib_data'' sensor_calib_data,
     Enum ''msm_sensor_resolution_t'' [(''MSM_SENSOR_RES_FULL'', 0), (''MSM_SENSOR_RES_QTR'', 1),
       (''MSM_SENSOR_RES_2'', 2), (''MSM_SENSOR_RES_3'', 3), (''MSM_SENSOR_RES_4'', 4),
       (''MSM_SENSOR_RES_5'', 5), (''MSM_SENSOR_RES_6'', 6), (''MSM_SENSOR_RES_7'', 7),
       (''MSM_SENSOR_INVALID_RES'', 8)],
     Struct ''msm_sensor_output_info_t'' msm_sensor_output_info_t,
     Struct ''sensor_output_info_t'' sensor_output_info_t,
     Struct ''msm_sensor_exp_gain_info_t'' msm_sensor_exp_gain_info_t,
     Struct ''msm_sensor_output_reg_addr_t'' msm_sensor_output_reg_addr_t]"

definition msm_camera_11 :: "decl list" where
  "msm_camera_11 =
    [Struct ''sensor_driver_params_type'' sensor_driver_params_type,
     Struct ''mirror_flip'' mirror_flip, Struct ''cord'' cord,
     Struct ''msm_eeprom_data_t'' msm_eeprom_data_t,
     Struct ''msm_camera_csid_vc_cfg'' msm_camera_csid_vc_cfg,
     Struct ''csi_lane_params_t'' csi_lane_params_t,
     Struct ''msm_camera_csid_lut_params'' msm_camera_csid_lut_params,
     Struct ''msm_camera_csid_params'' msm_camera_csid_params,
     Struct ''msm_camera_csiphy_params'' msm_camera_csiphy_params,
     Struct ''msm_camera_csi2_params'' msm_camera_csi2_params,
     Enum ''msm_camera_csi_data_format'' [(''CSI_8BIT'', 0), (''CSI_10BIT'', 1),
       (''CSI_12BIT'', 2)],
     Struct ''msm_camera_csi_params'' msm_camera_csi_params,
     Enum ''csic_cfg_type_t'' [(''CSIC_INIT'', 0), (''CSIC_CFG'', 1)],
     Struct ''csic_cfg_data'' csic_cfg_data,
     Enum ''csid_cfg_type_t'' [(''CSID_INIT'', 0), (''CSID_CFG'', 1)],
     Struct ''csid_cfg_data'' csid_cfg_data,
     Enum ''csiphy_cfg_type_t'' [(''CSIPHY_INIT'', 0), (''CSIPHY_CFG'', 1)],
     Struct ''csiphy_cfg_data'' csiphy_cfg_data, Const ''CSI_EMBED_DATA'' 0x12,
     Const ''CSI_RESERVED_DATA_0'' 0x13, Const ''CSI_YUV422_8'' 0x1E, Const ''CSI_RAW8'' 0x2A,
     Const ''CSI_RAW10'' 0x2B, Const ''CSI_RAW12'' 0x2C, Const ''CSI_DECODE_6BIT'' 0,
     Const ''CSI_DECODE_8BIT'' 1, Const ''CSI_DECODE_10BIT'' 2,
     Const ''CSI_DECODE_DPCM_10_8_10'' 5]"

definition msm_camera_12 :: "decl list" where
  "msm_camera_12 =
    [Const ''ISPIF_ON_FRAME_BOUNDARY'' 1, Const ''ISPIF_OFF_FRAME_BOUNDARY'' 2,
     Const ''ISPIF_OFF_IMMEDIATELY'' 4, Const ''ISPIF_S_STREAM_SHIFT'' 4,
     Const ''ISPIF_VFE_INTF_SHIFT'' 12, Const ''PIX_0'' 1, Const ''RDI_0'' 2, Const ''PIX_1'' 4,
     Const ''RDI_1'' 8, Const ''RDI_2'' 16,
     Enum ''msm_ispif_vfe_intf'' [(''VFE0'', 0), (''VFE1'', 1), (''VFE_MAX'', 2)],
     Enum ''msm_ispif_intftype'' [(''PIX0'', 0), (''RDI0'', 1), (''PIX1'', 2), (''RDI1'', 3),
       (''RDI2'', 4), (''INTF_MAX'', 5)],
     Enum ''msm_ispif_vc'' [(''VC0'', 0), (''VC1'', 1), (''VC2'', 2), (''VC3'', 3)],
     Enum ''msm_ispif_cid'' [(''CID0'', 0), (''CID1'', 1), (''CID2'', 2), (''CID3'', 3),
       (''CID4'', 4), (''CID5'', 5), (''CID6'', 6), (''CID7'', 7), (''CID8'', 8), (''CID9'', 9),
       (''CID10'', 10), (''CID11'', 11), (''CID12'', 12), (''CID13'', 13), (''CID14'', 14),
       (''CID15'', 15)],
     Struct ''msm_ispif_params'' msm_ispif_params,
     Struct ''msm_ispif_params_list'' msm_ispif_params_list,
     Enum ''ispif_cfg_type_t'' [(''ISPIF_INIT'', 0), (''ISPIF_SET_CFG'', 1),
       (''ISPIF_SET_ON_FRAME_BOUNDARY'', 2), (''ISPIF_SET_OFF_FRAME_BOUNDARY'', 3),
       (''ISPIF_SET_OFF_IMMEDIATELY'', 4), (''ISPIF_RELEASE'', 5)],
     Struct ''ispif_cfg_data'' ispif_cfg_data,
     Enum ''msm_camera_i2c_reg_addr_type'' [(''MSM_CAMERA_I2C_BYTE_ADDR'', 1),
       (''MSM_CAMERA_I2C_WORD_ADDR'', 2), (''MSM_CAMERA_I2C_3B_ADDR'', 3),
       (''MSM_CAMERA_I2C_DWORD_ADDR'', 4)],
     Const ''MSM_CAMERA_I2C_DWORD_ADDR'' 4,
     Struct ''msm_camera_i2c_reg_array'' msm_camera_i2c_reg_array,
     Enum ''msm_camera_i2c_data_type'' [(''MSM_CAMERA_I2C_BYTE_DATA'', 1),
       (''MSM_CAMERA_I2C_WORD_DATA'', 2), (''MSM_CAMERA_I2C_SET_BYTE_MASK'', 3),
       (''MSM_CAMERA_I2C_UNSET_BYTE_MASK'', 4), (''MSM_CAMERA_I2C_SET_WORD_MASK'', 5),
       (''MSM_CAMERA_I2C_UNSET_WORD_MASK'', 6), (''MSM_CAMERA_I2C_SET_BYTE_WRITE_MASK_DATA'', 7)],
     Struct ''msm_camera_i2c_reg_setting'' msm_camera_i2c_reg_setting,
     Enum ''oem_setting_type'' [(''I2C_READ'', 1), (''I2C_WRITE'', 2), (''GPIO_OP'', 3),
       (''EEPROM_READ'', 4), (''VREG_SET'', 5), (''CLK_SET'', 6)],
     Struct ''sensor_oem_setting'' sensor_oem_setting,
     Enum ''camera_vreg_type'' [(''REG_LDO'', 0), (''REG_VS'', 1), (''REG_GPIO'', 2)],
     Enum ''msm_camera_vreg_name_t'' [(''CAM_VDIG'', 0), (''CAM_VIO'', 1), (''CAM_VANA'', 2),
       (''CAM_VAF'', 3), (''CAM_VREG_MAX'', 4)],
     Struct ''msm_camera_csi_lane_params'' msm_camera_csi_lane_params]"

definition msm_camera_13 :: "decl list" where
  "msm_camera_13 =
    [Struct ''camera_vreg_t'' camera_vreg_t,
     Struct ''msm_camera_vreg_setting'' msm_camera_vreg_setting,
     Struct ''msm_cam_clk_info'' msm_cam_clk_info,
     Struct ''msm_cam_clk_setting'' msm_cam_clk_setting,
     Struct ''sensor_cfg_data'' sensor_cfg_data,
     Enum ''gpio_operation_type'' [(''GPIO_REQUEST'', 0), (''GPIO_FREE'', 1),
       (''GPIO_SET_DIRECTION_OUTPUT'', 2), (''GPIO_SET_DIRECTION_INPUT'', 3),
       (''GPIO_GET_VALUE'', 4), (''GPIO_SET_VALUE'', 5)],
     Struct ''msm_cam_gpio_operation'' msm_cam_gpio_operation,
     Struct ''damping_params_t'' damping_params_t,
     Enum ''actuator_type'' [(''ACTUATOR_VCM'', 0), (''ACTUATOR_PIEZO'', 1),
       (''ACTUATOR_HVCM'', 2), (''ACTUATOR_BIVCM'', 3)],
     Enum ''msm_actuator_data_type'' [(''MSM_ACTUATOR_BYTE_DATA'', 1),
       (''MSM_ACTUATOR_WORD_DATA'', 2)],
     Enum ''msm_actuator_addr_type'' [(''MSM_ACTUATOR_BYTE_ADDR'', 1),
       (''MSM_ACTUATOR_WORD_ADDR'', 2)],
     Enum ''msm_actuator_write_type'' [(''MSM_ACTUATOR_WRITE_HW_DAMP'', 0),
       (''MSM_ACTUATOR_WRITE_DAC'', 1), (''MSM_ACTUATOR_WRITE'', 2),
       (''MSM_ACTUATOR_WRITE_DIR_REG'', 3), (''MSM_ACTUATOR_POLL'', 4),
       (''MSM_ACTUATOR_READ_WRITE'', 5)],
     Struct ''msm_actuator_reg_params_t'' msm_actuator_reg_params_t,
     Struct ''reg_settings_t'' reg_settings_t, Struct ''region_params_t'' region_params_t,
     Struct ''msm_actuator_move_params_t'' msm_actuator_move_params_t]"

definition msm_camera_14 :: "decl list" where
  "msm_camera_14 =
    [Struct ''msm_actuator_tuning_params_t'' msm_actuator_tuning_params_t,
     Struct ''msm_actuator_params_t'' msm_actuator_params_t,
     Struct ''msm_actuator_set_info_t'' msm_actuator_set_info_t,
     Struct ''msm_actuator_get_info_t'' msm_actuator_get_info_t,
     Enum ''af_camera_name'' [(''ACTUATOR_MAIN_CAM_0'', 0), (''ACTUATOR_MAIN_CAM_1'', 1),
       (''ACTUATOR_MAIN_CAM_2'', 2), (''ACTUATOR_MAIN_CAM_3'', 3), (''ACTUATOR_MAIN_CAM_4'', 4),
       (''ACTUATOR_MAIN_CAM_5'', 5), (''ACTUATOR_WEB_CAM_0'', 6), (''ACTUATOR_WEB_CAM_1'', 7),
       (''ACTUATOR_WEB_CAM_2'', 8)],
     Struct ''msm_actuator_cfg_data'' msm_actuator_cfg_data,
     Struct ''msm_eeprom_support'' msm_eeprom_support, Struct ''msm_calib_wb'' msm_calib_wb,
     Struct ''msm_calib_af'' msm_calib_af, Struct ''msm_calib_lsc'' msm_calib_lsc,
     Struct ''pixel_t'' pixel_t, Struct ''msm_calib_dpc'' msm_calib_dpc,
     Struct ''msm_calib_raw'' msm_calib_raw,
     Struct ''msm_camera_eeprom_info_t'' msm_camera_eeprom_info_t,
     Struct ''msm_eeprom_cfg_data'' msm_eeprom_cfg_data,
     Struct ''sensor_large_data'' sensor_large_data,
     Enum ''sensor_type_t'' [(''BAYER'', 0), (''YUV'', 1), (''JPEG_SOC'', 2)],
     Enum ''flash_type'' [(''LED_FLASH'', 0), (''STROBE_FLASH'', 1)],
     Enum ''strobe_flash_ctrl_type'' [(''STROBE_FLASH_CTRL_INIT'', 0),
       (''STROBE_FLASH_CTRL_CHARGE'', 1), (''STROBE_FLASH_CTRL_RELEASE'', 2)]]"

definition msm_camera_15 :: "nat \<Rightarrow> decl list" where
  "msm_camera_15 MEDIA_ENT_F_IO_V4L =
    [Struct ''strobe_flash_ctrl_data'' strobe_flash_ctrl_data,
     Struct ''msm_camera_info'' msm_camera_info,
     Struct ''msm_cam_config_dev_info'' msm_cam_config_dev_info,
     Struct ''msm_mctl_node_info'' msm_mctl_node_info,
     Struct ''flash_ctrl_data'' flash_ctrl_data, Const ''GET_NAME'' 0,
     Const ''GET_PREVIEW_LINE_PER_FRAME'' 1, Const ''GET_PREVIEW_PIXELS_PER_LINE'' 2,
     Const ''GET_SNAPSHOT_LINE_PER_FRAME'' 3, Const ''GET_SNAPSHOT_PIXELS_PER_LINE'' 4,
     Const ''GET_SNAPSHOT_FPS'' 5, Const ''GET_SNAPSHOT_MAX_EP_LINE_CNT'' 6,
     Struct ''msm_camsensor_info'' msm_camsensor_info, Const ''V4L2_SINGLE_PLANE'' 0,
     Const ''V4L2_MULTI_PLANE_Y'' 0, Const ''V4L2_MULTI_PLANE_CBCR'' 1,
     Const ''V4L2_MULTI_PLANE_CB'' 1, Const ''V4L2_MULTI_PLANE_CR'' 2,
     Struct ''plane_data'' plane_data, Struct ''img_plane_info'' img_plane_info,
     Text ''QCAMERA_NAME'' ''qcamera'', Text ''QCAMERA_SERVER_NAME'' ''qcamera_server'',
     Const ''QCAMERA_VNODE_GROUP_ID'' (int MEDIA_ENT_F_IO_V4L),
     Enum ''msm_cam_subdev_type'' [(''CSIPHY_DEV'', 0), (''CSID_DEV'', 1), (''CSIC_DEV'', 2),
       (''ISPIF_DEV'', 3), (''VFE_DEV'', 4), (''AXI_DEV'', 5), (''VPE_DEV'', 6),
       (''SENSOR_DEV'', 7), (''ACTUATOR_DEV'', 8), (''EEPROM_DEV'', 9), (''GESTURE_DEV'', 10),
       (''IRQ_ROUTER_DEV'', 11), (''CPP_DEV'', 12), (''CCI_DEV'', 13), (''FLASH_DEV'', 14)],
     Struct ''msm_mctl_set_sdev_data'' msm_mctl_set_sdev_data,
     Request ''MSM_CAM_V4L2_IOCTL_GET_CAMERA_INFO'' (IOWR 86 (192 + 1) msm_camera_v4l2_ioctl_t),
     Request ''MSM_CAM_V4L2_IOCTL_GET_CONFIG_INFO'' (IOWR 86 (192 + 2) msm_camera_v4l2_ioctl_t),
     Request ''MSM_CAM_V4L2_IOCTL_GET_MCTL_INFO'' (IOWR 86 (192 + 3) msm_camera_v4l2_ioctl_t),
     Request ''MSM_CAM_V4L2_IOCTL_CTRL_CMD_DONE'' (IOWR 86 (192 + 4) msm_camera_v4l2_ioctl_t),
     Request ''MSM_CAM_V4L2_IOCTL_GET_EVENT_PAYLOAD'' (IOWR 86 (192 + 5) msm_camera_v4l2_ioctl_t),
     Request ''MSM_CAM_IOCTL_SEND_EVENT'' (IOWR 86 (192 + 6) LayoutVideo.v4l2_event),
     Request ''MSM_CAM_V4L2_IOCTL_CFG_VPE'' (IOWR 86 (192 + 7) msm_vpe_cfg_cmd),
     Request ''MSM_CAM_V4L2_IOCTL_PRIVATE_S_CTRL'' (IOWR 86 (192 + 8) msm_camera_v4l2_ioctl_t),
     Request ''MSM_CAM_V4L2_IOCTL_PRIVATE_G_CTRL'' (IOWR 86 (192 + 9) msm_camera_v4l2_ioctl_t),
     Request ''MSM_CAM_V4L2_IOCTL_PRIVATE_GENERAL'' (IOW 86 (192 + 10) msm_camera_v4l2_ioctl_t),
     Request ''VIDIOC_MSM_VPE_INIT'' (IO 86 (192 + 15)),
     Request ''VIDIOC_MSM_VPE_RELEASE'' (IO 86 (192 + 16)),
     Request ''VIDIOC_MSM_VPE_CFG'' (IOWR 86 (192 + 17) PtrT)]"

definition msm_camera_16 :: "decl list" where
  "msm_camera_16 =
    [Request ''VIDIOC_MSM_AXI_INIT'' (IOWR 86 (192 + 18) PtrT),
     Request ''VIDIOC_MSM_AXI_RELEASE'' (IO 86 (192 + 19)),
     Request ''VIDIOC_MSM_AXI_CFG'' (IOWR 86 (192 + 20) PtrT),
     Request ''VIDIOC_MSM_AXI_IRQ'' (IOWR 86 (192 + 21) PtrT),
     Request ''VIDIOC_MSM_AXI_BUF_CFG'' (IOWR 86 (192 + 22) PtrT),
     Request ''VIDIOC_MSM_AXI_RDI_COUNT_UPDATE'' (IOWR 86 (192 + 23) PtrT),
     Request ''VIDIOC_MSM_VFE_INIT'' (IO 86 (192 + 24)),
     Request ''VIDIOC_MSM_VFE_RELEASE'' (IO 86 (192 + 25)),
     Struct ''msm_camera_v4l2_ioctl_t'' msm_camera_v4l2_ioctl_t,
     Struct ''msm_camera_vfe_params_t'' msm_camera_vfe_params_t,
     Enum ''msm_camss_irq_idx'' [(''CAMERA_SS_IRQ_0'', 0), (''CAMERA_SS_IRQ_1'', 1),
       (''CAMERA_SS_IRQ_2'', 2), (''CAMERA_SS_IRQ_3'', 3), (''CAMERA_SS_IRQ_4'', 4),
       (''CAMERA_SS_IRQ_5'', 5), (''CAMERA_SS_IRQ_6'', 6), (''CAMERA_SS_IRQ_7'', 7),
       (''CAMERA_SS_IRQ_8'', 8), (''CAMERA_SS_IRQ_9'', 9), (''CAMERA_SS_IRQ_10'', 10),
       (''CAMERA_SS_IRQ_11'', 11), (''CAMERA_SS_IRQ_12'', 12), (''CAMERA_SS_IRQ_MAX'', 13)],
     Enum ''msm_cam_hw_idx'' [(''MSM_CAM_HW_MICRO'', 0), (''MSM_CAM_HW_CCI'', 1),
       (''MSM_CAM_HW_CSI0'', 2), (''MSM_CAM_HW_CSI1'', 3), (''MSM_CAM_HW_CSI2'', 4),
       (''MSM_CAM_HW_CSI3'', 5), (''MSM_CAM_HW_ISPIF'', 6), (''MSM_CAM_HW_CPP'', 7),
       (''MSM_CAM_HW_VFE0'', 8), (''MSM_CAM_HW_VFE1'', 9), (''MSM_CAM_HW_JPEG0'', 10),
       (''MSM_CAM_HW_JPEG1'', 11), (''MSM_CAM_HW_JPEG2'', 12), (''MSM_CAM_HW_MAX'', 13)],
     Struct ''msm_camera_irq_cfg'' msm_camera_irq_cfg,
     Request ''MSM_IRQROUTER_CFG_COMPIRQ'' (IOWR 86 192 PtrT), Const ''MAX_NUM_CPP_STRIPS'' 8,
     Enum ''msm_cpp_frame_type'' [(''MSM_CPP_OFFLINE_FRAME'', 0),
      (''MSM_CPP_REALTIME_FRAME'', 1)],
     Struct ''msm_cpp_frame_info_t'' msm_cpp_frame_info_t,
     Struct ''msm_ver_num_info'' msm_ver_num_info,
     Request ''VIDIOC_MSM_CPP_CFG'' (IOWR 86 192 msm_camera_v4l2_ioctl_t),
     Request ''VIDIOC_MSM_CPP_GET_EVENTPAYLOAD'' (IOWR 86 (192 + 1) msm_camera_v4l2_ioctl_t),
     Request ''VIDIOC_MSM_CPP_GET_INST_INFO'' (IOWR 86 (192 + 2) msm_camera_v4l2_ioctl_t),
     Const ''V4L2_EVENT_CPP_FRAME_DONE'' (0x8000000 + 0)]"

definition msm_camera_h :: "nat \<Rightarrow> decl list" where
  "msm_camera_h MEDIA_ENT_F_IO_V4L = msm_camera_1 @ msm_camera_2 @ msm_camera_3 @ msm_camera_4 @ msm_camera_5 @ msm_camera_6 @
     msm_camera_7 @ msm_camera_8 @ msm_camera_9 @ msm_camera_10 @ msm_camera_11 @
     msm_camera_12 @ msm_camera_13 @ msm_camera_14 @ msm_camera_15 MEDIA_ENT_F_IO_V4L @
     msm_camera_16"

subsection \<open>media/msm_isp.h\<close>

definition msm_isp_cmd :: ctype where
  "msm_isp_cmd =
     StructT Natural [(''id'', s32), (''length'', u16), (''value'', PtrT)]"

abbreviation VPE_OPERATION_MODE_CFG_LEN :: nat where "VPE_OPERATION_MODE_CFG_LEN \<equiv> 4"

definition msm_vpe_op_mode_cfg :: ctype where
  "msm_vpe_op_mode_cfg =
     StructT Natural [(''op_mode_cfg'', ArrT u8 VPE_OPERATION_MODE_CFG_LEN)]"

abbreviation VPE_INPUT_PLANE_CFG_LEN :: nat where "VPE_INPUT_PLANE_CFG_LEN \<equiv> 24"

definition msm_vpe_input_plane_cfg :: ctype where
  "msm_vpe_input_plane_cfg =
     StructT Natural [(''input_plane_cfg'', ArrT u8 VPE_INPUT_PLANE_CFG_LEN)]"

abbreviation VPE_OUTPUT_PLANE_CFG_LEN :: nat where "VPE_OUTPUT_PLANE_CFG_LEN \<equiv> 20"

definition msm_vpe_output_plane_cfg :: ctype where
  "msm_vpe_output_plane_cfg =
     StructT Natural [(''output_plane_cfg'', ArrT u8 VPE_OUTPUT_PLANE_CFG_LEN)]"

abbreviation VPE_INPUT_PLANE_UPDATE_LEN :: nat where "VPE_INPUT_PLANE_UPDATE_LEN \<equiv> 12"

definition msm_vpe_input_plane_update_cfg :: ctype where
  "msm_vpe_input_plane_update_cfg =
     StructT Natural [(''input_plane_update_cfg'', ArrT u8 VPE_INPUT_PLANE_UPDATE_LEN)]"

abbreviation VPE_SCALER_CONFIG_LEN :: nat where "VPE_SCALER_CONFIG_LEN \<equiv> 260"

definition msm_vpe_scaler_cfg :: ctype where
  "msm_vpe_scaler_cfg =
     StructT Natural [(''scaler_cfg'', ArrT u8 VPE_SCALER_CONFIG_LEN)]"

definition msm_vpe_flush_frame_buffer :: ctype where
  "msm_vpe_flush_frame_buffer =
     StructT Natural [(''src_buf_handle'', u32), (''dest_buf_handle'', u32), (''path'', s32)]"

definition msm_mctl_pp_frame_buffer :: ctype where
  "msm_mctl_pp_frame_buffer =
     StructT Natural [(''buf_handle'', u32), (''path'', s32)]"

definition msm_mctl_pp_divert_pp :: ctype where
  "msm_mctl_pp_divert_pp =
     StructT Natural [(''path'', s32), (''enable'', s32)]"

definition msm_vpe_clock_rate :: ctype where
  "msm_vpe_clock_rate =
     StructT Natural [(''rate'', u32)]"

definition msm_frame_info :: ctype where
  "msm_frame_info =
     StructT Natural [(''inst_handle'', u32), (''path'', u32)]"

definition msm_isp_1 :: "decl list" where
  "msm_isp_1 =
    [Flag ''__UAPI_MSM_ISP_H__'']"

definition msm_isp_2 :: "decl list" where
  "msm_isp_2 =
    [Const ''MSG_ID_RESET_ACK'' 0, Const ''MSG_ID_START_ACK'' 1, Const ''MSG_ID_STOP_ACK'' 2,
     Const ''MSG_ID_UPDATE_ACK'' 3, Const ''MSG_ID_OUTPUT_P'' 4, Const ''MSG_ID_OUTPUT_T'' 5,
     Const ''MSG_ID_OUTPUT_S'' 6, Const ''MSG_ID_OUTPUT_V'' 7, Const ''MSG_ID_SNAPSHOT_DONE'' 8,
     Const ''MSG_ID_STATS_AEC'' 9, Const ''MSG_ID_STATS_AF'' 10, Const ''MSG_ID_STATS_AWB'' 11,
     Const ''MSG_ID_STATS_RS'' 12, Const ''MSG_ID_STATS_CS'' 13,
     Const ''MSG_ID_STATS_IHIST'' 14, Const ''MSG_ID_STATS_SKIN'' 15,
     Const ''MSG_ID_EPOCH1'' 16, Const ''MSG_ID_EPOCH2'' 17,
     Const ''MSG_ID_SYNC_TIMER0_DONE'' 18, Const ''MSG_ID_SYNC_TIMER1_DONE'' 19,
     Const ''MSG_ID_SYNC_TIMER2_DONE'' 20, Const ''MSG_ID_ASYNC_TIMER0_DONE'' 21,
     Const ''MSG_ID_ASYNC_TIMER1_DONE'' 22, Const ''MSG_ID_ASYNC_TIMER2_DONE'' 23,
     Const ''MSG_ID_ASYNC_TIMER3_DONE'' 24, Const ''MSG_ID_AE_OVERFLOW'' 25,
     Const ''MSG_ID_AF_OVERFLOW'' 26, Const ''MSG_ID_AWB_OVERFLOW'' 27,
     Const ''MSG_ID_RS_OVERFLOW'' 28, Const ''MSG_ID_CS_OVERFLOW'' 29,
     Const ''MSG_ID_IHIST_OVERFLOW'' 30, Const ''MSG_ID_SKIN_OVERFLOW'' 31,
     Const ''MSG_ID_AXI_ERROR'' 32, Const ''MSG_ID_CAMIF_OVERFLOW'' 33,
     Const ''MSG_ID_VIOLATION'' 34, Const ''MSG_ID_CAMIF_ERROR'' 35,
     Const ''MSG_ID_BUS_OVERFLOW'' 36, Const ''MSG_ID_SOF_ACK'' 37,
     Const ''MSG_ID_STOP_REC_ACK'' 38, Const ''MSG_ID_STATS_AWB_AEC'' 39,
     Const ''MSG_ID_OUTPUT_PRIMARY'' 40, Const ''MSG_ID_OUTPUT_SECONDARY'' 41,
     Const ''MSG_ID_STATS_COMPOSITE'' 42, Const ''MSG_ID_OUTPUT_TERTIARY1'' 43,
     Const ''MSG_ID_STOP_LS_ACK'' 44, Const ''MSG_ID_OUTPUT_TERTIARY2'' 45,
     Const ''MSG_ID_STATS_BG'' 46, Const ''MSG_ID_STATS_BF'' 47,
     Const ''MSG_ID_STATS_BHIST'' 48, Const ''MSG_ID_RDI0_UPDATE_ACK'' 49,
     Const ''MSG_ID_RDI1_UPDATE_ACK'' 50, Const ''MSG_ID_RDI2_UPDATE_ACK'' 51,
     Const ''MSG_ID_PIX0_UPDATE_ACK'' 52, Const ''MSG_ID_PREV_STOP_ACK'' 53,
     Const ''MSG_ID_STATS_BE'' 54, Const ''VFE_CMD_DUMMY_0'' 0, Const ''VFE_CMD_SET_CLK'' 1,
     Const ''VFE_CMD_RESET'' 2, Const ''VFE_CMD_START'' 3, Const ''VFE_CMD_TEST_GEN_START'' 4,
     Const ''VFE_CMD_OPERATION_CFG'' 5, Const ''VFE_CMD_AXI_OUT_CFG'' 6,
     Const ''VFE_CMD_CAMIF_CFG'' 7, Const ''VFE_CMD_AXI_INPUT_CFG'' 8,
     Const ''VFE_CMD_BLACK_LEVEL_CFG'' 9, Const ''VFE_CMD_MESH_ROLL_OFF_CFG'' 10,
     Const ''VFE_CMD_DEMUX_CFG'' 11, Const ''VFE_CMD_FOV_CFG'' 12,
     Const ''VFE_CMD_MAIN_SCALER_CFG'' 13, Const ''VFE_CMD_WB_CFG'' 14,
     Const ''VFE_CMD_COLOR_COR_CFG'' 15, Const ''VFE_CMD_RGB_G_CFG'' 16,
     Const ''VFE_CMD_LA_CFG'' 17, Const ''VFE_CMD_CHROMA_EN_CFG'' 18,
     Const ''VFE_CMD_CHROMA_SUP_CFG'' 19, Const ''VFE_CMD_MCE_CFG'' 20,
     Const ''VFE_CMD_SK_ENHAN_CFG'' 21, Const ''VFE_CMD_ASF_CFG'' 22,
     Const ''VFE_CMD_S2Y_CFG'' 23, Const ''VFE_CMD_S2CbCr_CFG'' 24,
     Const ''VFE_CMD_CHROMA_SUBS_CFG'' 25, Const ''VFE_CMD_OUT_CLAMP_CFG'' 26,
     Const ''VFE_CMD_FRAME_SKIP_CFG'' 27, Const ''VFE_CMD_DUMMY_1'' 28,
     Const ''VFE_CMD_DUMMY_2'' 29, Const ''VFE_CMD_DUMMY_3'' 30, Const ''VFE_CMD_UPDATE'' 31,
     Const ''VFE_CMD_BL_LVL_UPDATE'' 32, Const ''VFE_CMD_DEMUX_UPDATE'' 33,
     Const ''VFE_CMD_FOV_UPDATE'' 34, Const ''VFE_CMD_MAIN_SCALER_UPDATE'' 35,
     Const ''VFE_CMD_WB_UPDATE'' 36, Const ''VFE_CMD_COLOR_COR_UPDATE'' 37,
     Const ''VFE_CMD_RGB_G_UPDATE'' 38, Const ''VFE_CMD_LA_UPDATE'' 39,
     Const ''VFE_CMD_CHROMA_EN_UPDATE'' 40, Const ''VFE_CMD_CHROMA_SUP_UPDATE'' 41,
     Const ''VFE_CMD_MCE_UPDATE'' 42, Const ''VFE_CMD_SK_ENHAN_UPDATE'' 43,
     Const ''VFE_CMD_S2CbCr_UPDATE'' 44, Const ''VFE_CMD_S2Y_UPDATE'' 45,
     Const ''VFE_CMD_ASF_UPDATE'' 46, Const ''VFE_CMD_FRAME_SKIP_UPDATE'' 47,
     Const ''VFE_CMD_CAMIF_FRAME_UPDATE'' 48, Const ''VFE_CMD_STATS_AF_UPDATE'' 49,
     Const ''VFE_CMD_STATS_AE_UPDATE'' 50, Const ''VFE_CMD_STATS_AWB_UPDATE'' 51,
     Const ''VFE_CMD_STATS_RS_UPDATE'' 52, Const ''VFE_CMD_STATS_CS_UPDATE'' 53,
     Const ''VFE_CMD_STATS_SKIN_UPDATE'' 54, Const ''VFE_CMD_STATS_IHIST_UPDATE'' 55,
     Const ''VFE_CMD_DUMMY_4'' 56, Const ''VFE_CMD_EPOCH1_ACK'' 57,
     Const ''VFE_CMD_EPOCH2_ACK'' 58, Const ''VFE_CMD_START_RECORDING'' 59,
     Const ''VFE_CMD_STOP_RECORDING'' 60, Const ''VFE_CMD_DUMMY_5'' 61,
     Const ''VFE_CMD_DUMMY_6'' 62, Const ''VFE_CMD_CAPTURE'' 63, Const ''VFE_CMD_DUMMY_7'' 64,
     Const ''VFE_CMD_STOP'' 65, Const ''VFE_CMD_GET_HW_VERSION'' 66,
     Const ''VFE_CMD_GET_FRAME_SKIP_COUNTS'' 67, Const ''VFE_CMD_OUTPUT1_BUFFER_ENQ'' 68,
     Const ''VFE_CMD_OUTPUT2_BUFFER_ENQ'' 69, Const ''VFE_CMD_OUTPUT3_BUFFER_ENQ'' 70,
     Const ''VFE_CMD_JPEG_OUT_BUF_ENQ'' 71, Const ''VFE_CMD_RAW_OUT_BUF_ENQ'' 72,
     Const ''VFE_CMD_RAW_IN_BUF_ENQ'' 73, Const ''VFE_CMD_STATS_AF_ENQ'' 74,
     Const ''VFE_CMD_STATS_AE_ENQ'' 75, Const ''VFE_CMD_STATS_AWB_ENQ'' 76,
     Const ''VFE_CMD_STATS_RS_ENQ'' 77, Const ''VFE_CMD_STATS_CS_ENQ'' 78,
     Const ''VFE_CMD_STATS_SKIN_ENQ'' 79, Const ''VFE_CMD_STATS_IHIST_ENQ'' 80,
     Const ''VFE_CMD_DUMMY_8'' 81, Const ''VFE_CMD_JPEG_ENC_CFG'' 82,
     Const ''VFE_CMD_DUMMY_9'' 83, Const ''VFE_CMD_STATS_AF_START'' 84,
     Const ''VFE_CMD_STATS_AF_STOP'' 85, Const ''VFE_CMD_STATS_AE_START'' 86,
     Const ''VFE_CMD_STATS_AE_STOP'' 87, Const ''VFE_CMD_STATS_AWB_START'' 88,
     Const ''VFE_CMD_STATS_AWB_STOP'' 89, Const ''VFE_CMD_STATS_RS_START'' 90,
     Const ''VFE_CMD_STATS_RS_STOP'' 91]"

definition msm_isp_3 :: "decl list" where
  "msm_isp_3 =
    [Const ''VFE_CMD_STATS_CS_START'' 92, Const ''VFE_CMD_STATS_CS_STOP'' 93,
     Const ''VFE_CMD_STATS_SKIN_START'' 94, Const ''VFE_CMD_STATS_SKIN_STOP'' 95,
     Const ''VFE_CMD_STATS_IHIST_START'' 96, Const ''VFE_CMD_STATS_IHIST_STOP'' 97,
     Const ''VFE_CMD_DUMMY_10'' 98, Const ''VFE_CMD_SYNC_TIMER_SETTING'' 99,
     Const ''VFE_CMD_ASYNC_TIMER_SETTING'' 100, Const ''VFE_CMD_LIVESHOT'' 101,
     Const ''VFE_CMD_LA_SETUP'' 102, Const ''VFE_CMD_LINEARIZATION_CFG'' 103,
     Const ''VFE_CMD_DEMOSAICV3'' 104, Const ''VFE_CMD_DEMOSAICV3_ABCC_CFG'' 105,
     Const ''VFE_CMD_DEMOSAICV3_DBCC_CFG'' 106, Const ''VFE_CMD_DEMOSAICV3_DBPC_CFG'' 107,
     Const ''VFE_CMD_DEMOSAICV3_ABF_CFG'' 108, Const ''VFE_CMD_DEMOSAICV3_ABCC_UPDATE'' 109,
     Const ''VFE_CMD_DEMOSAICV3_DBCC_UPDATE'' 110, Const ''VFE_CMD_DEMOSAICV3_DBPC_UPDATE'' 111,
     Const ''VFE_CMD_XBAR_CFG'' 112, Const ''VFE_CMD_MODULE_CFG'' 113,
     Const ''VFE_CMD_ZSL'' 114, Const ''VFE_CMD_LINEARIZATION_UPDATE'' 115,
     Const ''VFE_CMD_DEMOSAICV3_ABF_UPDATE'' 116, Const ''VFE_CMD_CLF_CFG'' 117,
     Const ''VFE_CMD_CLF_LUMA_UPDATE'' 118, Const ''VFE_CMD_CLF_CHROMA_UPDATE'' 119,
     Const ''VFE_CMD_PCA_ROLL_OFF_CFG'' 120, Const ''VFE_CMD_PCA_ROLL_OFF_UPDATE'' 121,
     Const ''VFE_CMD_GET_REG_DUMP'' 122, Const ''VFE_CMD_GET_LINEARIZATON_TABLE'' 123,
     Const ''VFE_CMD_GET_MESH_ROLLOFF_TABLE'' 124, Const ''VFE_CMD_GET_PCA_ROLLOFF_TABLE'' 125,
     Const ''VFE_CMD_GET_RGB_G_TABLE'' 126, Const ''VFE_CMD_GET_LA_TABLE'' 127,
     Const ''VFE_CMD_DEMOSAICV3_UPDATE'' 128, Const ''VFE_CMD_ACTIVE_REGION_CFG'' 129,
     Const ''VFE_CMD_COLOR_PROCESSING_CONFIG'' 130, Const ''VFE_CMD_STATS_WB_AEC_CONFIG'' 131,
     Const ''VFE_CMD_STATS_WB_AEC_UPDATE'' 132, Const ''VFE_CMD_Y_GAMMA_CONFIG'' 133,
     Const ''VFE_CMD_SCALE_OUTPUT1_CONFIG'' 134, Const ''VFE_CMD_SCALE_OUTPUT2_CONFIG'' 135,
     Const ''VFE_CMD_CAPTURE_RAW'' 136, Const ''VFE_CMD_STOP_LIVESHOT'' 137,
     Const ''VFE_CMD_RECONFIG_VFE'' 138, Const ''VFE_CMD_STATS_REQBUF'' 139,
     Const ''VFE_CMD_STATS_ENQUEUEBUF'' 140, Const ''VFE_CMD_STATS_FLUSH_BUFQ'' 141,
     Const ''VFE_CMD_STATS_UNREGBUF'' 142, Const ''VFE_CMD_STATS_BG_START'' 143,
     Const ''VFE_CMD_STATS_BG_STOP'' 144, Const ''VFE_CMD_STATS_BF_START'' 145,
     Const ''VFE_CMD_STATS_BF_STOP'' 146, Const ''VFE_CMD_STATS_BHIST_START'' 147,
     Const ''VFE_CMD_STATS_BHIST_STOP'' 148, Const ''VFE_CMD_RESET_2'' 149,
     Const ''VFE_CMD_FOV_ENC_CFG'' 150, Const ''VFE_CMD_FOV_VIEW_CFG'' 151,
     Const ''VFE_CMD_FOV_ENC_UPDATE'' 152, Const ''VFE_CMD_FOV_VIEW_UPDATE'' 153,
     Const ''VFE_CMD_SCALER_ENC_CFG'' 154, Const ''VFE_CMD_SCALER_VIEW_CFG'' 155,
     Const ''VFE_CMD_SCALER_ENC_UPDATE'' 156, Const ''VFE_CMD_SCALER_VIEW_UPDATE'' 157,
     Const ''VFE_CMD_COLORXFORM_ENC_CFG'' 158, Const ''VFE_CMD_COLORXFORM_VIEW_CFG'' 159,
     Const ''VFE_CMD_COLORXFORM_ENC_UPDATE'' 160, Const ''VFE_CMD_COLORXFORM_VIEW_UPDATE'' 161,
     Const ''VFE_CMD_TEST_GEN_CFG'' 162, Const ''VFE_CMD_STATS_BE_START'' 163,
     Const ''VFE_CMD_STATS_BE_STOP'' 164, Struct ''msm_isp_cmd'' msm_isp_cmd,
     Const ''VPE_CMD_DUMMY_0'' 0, Const ''VPE_CMD_INIT'' 1, Const ''VPE_CMD_DEINIT'' 2,
     Const ''VPE_CMD_ENABLE'' 3, Const ''VPE_CMD_DISABLE'' 4, Const ''VPE_CMD_RESET'' 5,
     Const ''VPE_CMD_FLUSH'' 6, Const ''VPE_CMD_OPERATION_MODE_CFG'' 7,
     Const ''VPE_CMD_INPUT_PLANE_CFG'' 8, Const ''VPE_CMD_OUTPUT_PLANE_CFG'' 9,
     Const ''VPE_CMD_INPUT_PLANE_UPDATE'' 10, Const ''VPE_CMD_SCALE_CFG_TYPE'' 11,
     Const ''VPE_CMD_ZOOM'' 13, Const ''VPE_CMD_MAX'' 14, Const ''MSM_PP_CMD_TYPE_NOT_USED'' 0,
     Const ''MSM_PP_CMD_TYPE_VPE'' 1, Const ''MSM_PP_CMD_TYPE_MCTL'' 2,
     Const ''MCTL_CMD_DUMMY_0'' 0, Const ''MCTL_CMD_GET_FRAME_BUFFER'' 1,
     Const ''MCTL_CMD_PUT_FRAME_BUFFER'' 2, Const ''MCTL_CMD_DIVERT_FRAME_PP_PATH'' 3,
     Const ''MCTL_PP_EVENT_NOTUSED'' 0, Const ''MCTL_PP_EVENT_CMD_ACK'' 1,
     Const ''VPE_OPERATION_MODE_CFG_LEN'' 4, Const ''VPE_INPUT_PLANE_CFG_LEN'' 24,
     Const ''VPE_OUTPUT_PLANE_CFG_LEN'' 20, Const ''VPE_INPUT_PLANE_UPDATE_LEN'' 12,
     Const ''VPE_SCALER_CONFIG_LEN'' 260, Const ''VPE_DIS_OFFSET_CFG_LEN'' 12,
     Const ''CAPTURE_WIDTH'' 1280, Const ''IMEM_Y_SIZE'' 20480, Const ''IMEM_CBCR_SIZE'' 10240,
     Const ''IMEM_Y_PING_OFFSET'' 0x2E000000, Const ''IMEM_CBCR_PING_OFFSET'' 771772416,
     Const ''IMEM_Y_PONG_OFFSET'' 771782656, Const ''IMEM_CBCR_PONG_OFFSET'' 771803136,
     Struct ''msm_vpe_op_mode_cfg'' msm_vpe_op_mode_cfg,
     Struct ''msm_vpe_input_plane_cfg'' msm_vpe_input_plane_cfg,
     Struct ''msm_vpe_output_plane_cfg'' msm_vpe_output_plane_cfg,
     Struct ''msm_vpe_input_plane_update_cfg'' msm_vpe_input_plane_update_cfg,
     Struct ''msm_vpe_scaler_cfg'' msm_vpe_scaler_cfg]"

definition msm_isp_4 :: "decl list" where
  "msm_isp_4 =
    [Struct ''msm_vpe_flush_frame_buffer'' msm_vpe_flush_frame_buffer,
     Struct ''msm_mctl_pp_frame_buffer'' msm_mctl_pp_frame_buffer,
     Struct ''msm_mctl_pp_divert_pp'' msm_mctl_pp_divert_pp,
     Struct ''msm_vpe_clock_rate'' msm_vpe_clock_rate,
     Const ''MSM_MCTL_PP_VPE_FRAME_ACK'' (2 ^ 0),
     Const ''MSM_MCTL_PP_VPE_FRAME_TO_APP'' (2 ^ 1), Const ''VFE_OUTPUTS_MAIN_AND_PREVIEW'' 1,
     Const ''VFE_OUTPUTS_MAIN_AND_VIDEO'' 2, Const ''VFE_OUTPUTS_MAIN_AND_THUMB'' 4,
     Const ''VFE_OUTPUTS_THUMB_AND_MAIN'' 8, Const ''VFE_OUTPUTS_PREVIEW_AND_VIDEO'' 16,
     Const ''VFE_OUTPUTS_VIDEO_AND_PREVIEW'' 32, Const ''VFE_OUTPUTS_PREVIEW'' 64,
     Const ''VFE_OUTPUTS_VIDEO'' 128, Const ''VFE_OUTPUTS_RAW'' 256,
     Const ''VFE_OUTPUTS_JPEG_AND_THUMB'' 512, Const ''VFE_OUTPUTS_THUMB_AND_JPEG'' 1024,
     Const ''VFE_OUTPUTS_RDI0'' 2048, Const ''VFE_OUTPUTS_RDI1'' 4096,
     Struct ''msm_frame_info'' msm_frame_info]"

definition msm_isp_h :: "decl list" where
  "msm_isp_h = msm_isp_1 @ msm_isp_2 @ msm_isp_3 @ msm_isp_4"

subsection \<open>media/msm_mercury.h\<close>

definition msm_mercury_ctrl_cmd :: ctype where
  "msm_mercury_ctrl_cmd =
     StructT Natural [(''type'', u32), (''len'', u32), (''value'', PtrT)]"

definition msm_mercury_buf :: ctype where
  "msm_mercury_buf =
     StructT Natural [(''type'', u32), (''fd'', s32), (''vaddr'', PtrT), (''y_off'', u32),
      (''y_len'', u32), (''framedone_len'', u32), (''cbcr_off'', u32), (''cbcr_len'', u32),
      (''num_of_mcu_rows'', u32), (''offset'', u32)]"

definition msm_mercury_hw_cmd :: ctype where
  "msm_mercury_hw_cmd =
     StructT Natural [(''type'', BitsT u32 4), (''n'', BitsT u32 12),
      (''offset'', BitsT u32 16), (''mask'', u32), ('''', UnionT Natural [(''data'', u32),
      (''pdata'', PtrT)])]"

definition msm_mercury_hw_cmds :: ctype where
  "msm_mercury_hw_cmds =
     StructT Natural [(''m'', u32), (''hw_cmd'', ArrT msm_mercury_hw_cmd 1)]"

definition msm_mercury_1 :: "decl list" where
  "msm_mercury_1 =
    [Flag ''__UAPI_MSM_MERCURY_H'']"

abbreviation MSM_MCR_IOCTL_MAGIC :: nat where "MSM_MCR_IOCTL_MAGIC \<equiv> 103"

definition msm_mercury_2 :: "decl list" where
  "msm_mercury_2 =
    [Const ''MSM_MERCURY_HW_VERSION_REG'' 0x0004, Const ''OUTPUT_H2V1'' 0,
     Const ''OUTPUT_H2V2'' 1, Const ''OUTPUT_BYTE'' 6,
     Const ''MSM_MERCURY_MODE_REALTIME_ENCODE'' 0, Const ''MSM_MERCURY_MODE_OFFLINE_ENCODE'' 1,
     Const ''MSM_MERCURY_MODE_REALTIME_ROTATION'' 2,
     Const ''MSM_MERCURY_MODE_OFFLINE_ROTATION'' 3, Const ''MSM_MERCURY_EVT_RESET'' 1,
     Const ''MSM_MERCURY_EVT_FRAMEDONE'' 2, Const ''MSM_MERCURY_EVT_ERR'' 3,
     Const ''MSM_MERCURY_EVT_UNBLOCK'' 4, Const ''MSM_MERCURY_HW_CMD_TYPE_READ'' 0,
     Const ''MSM_MERCURY_HW_CMD_TYPE_WRITE'' 1, Const ''MSM_MERCURY_HW_CMD_TYPE_WRITE_OR'' 2,
     Const ''MSM_MERCURY_HW_CMD_TYPE_UWAIT'' 3, Const ''MSM_MERCURY_HW_CMD_TYPE_MWAIT'' 4,
     Const ''MSM_MERCURY_HW_CMD_TYPE_MDELAY'' 5, Const ''MSM_MERCURY_HW_CMD_TYPE_UDELAY'' 6,
     Const ''MSM_MCR_IOCTL_MAGIC'' 103,
     Request ''MSM_MCR_IOCTL_GET_HW_VERSION'' (IOW MSM_MCR_IOCTL_MAGIC 1 PtrT),
     Request ''MSM_MCR_IOCTL_RESET'' (IOW MSM_MCR_IOCTL_MAGIC 2 PtrT),
     Request ''MSM_MCR_IOCTL_STOP'' (IOW MSM_MCR_IOCTL_MAGIC 3 PtrT),
     Request ''MSM_MCR_IOCTL_START'' (IOW MSM_MCR_IOCTL_MAGIC 4 PtrT),
     Request ''MSM_MCR_IOCTL_INPUT_BUF_CFG'' (IOW MSM_MCR_IOCTL_MAGIC 5 PtrT),
     Request ''MSM_MCR_IOCTL_INPUT_GET'' (IOW MSM_MCR_IOCTL_MAGIC 6 PtrT),
     Request ''MSM_MCR_IOCTL_INPUT_GET_UNBLOCK'' (IOW MSM_MCR_IOCTL_MAGIC 7 s32),
     Request ''MSM_MCR_IOCTL_OUTPUT_BUF_CFG'' (IOW MSM_MCR_IOCTL_MAGIC 8 PtrT),
     Request ''MSM_MCR_IOCTL_OUTPUT_GET'' (IOW MSM_MCR_IOCTL_MAGIC 9 PtrT),
     Request ''MSM_MCR_IOCTL_OUTPUT_GET_UNBLOCK'' (IOW MSM_MCR_IOCTL_MAGIC 10 s32),
     Request ''MSM_MCR_IOCTL_EVT_GET'' (IOW MSM_MCR_IOCTL_MAGIC 11 PtrT),
     Request ''MSM_MCR_IOCTL_EVT_GET_UNBLOCK'' (IOW MSM_MCR_IOCTL_MAGIC 12 s32),
     Request ''MSM_MCR_IOCTL_HW_CMD'' (IOW MSM_MCR_IOCTL_MAGIC 13 PtrT),
     Request ''MSM_MCR_IOCTL_HW_CMDS'' (IOW MSM_MCR_IOCTL_MAGIC 14 PtrT),
     Request ''MSM_MCR_IOCTL_TEST_DUMP_REGION'' (IOW MSM_MCR_IOCTL_MAGIC 15 ulongT),
     Struct ''msm_mercury_ctrl_cmd'' msm_mercury_ctrl_cmd,
     Struct ''msm_mercury_buf'' msm_mercury_buf,
     Struct ''msm_mercury_hw_cmd'' msm_mercury_hw_cmd,
     Struct ''msm_mercury_hw_cmds'' msm_mercury_hw_cmds]"

definition msm_mercury_h :: "decl list" where
  "msm_mercury_h = msm_mercury_1 @ msm_mercury_2"

subsection \<open>media/msm_gemini.h\<close>

definition msm_gemini_ctrl_cmd :: ctype where
  "msm_gemini_ctrl_cmd =
     StructT Natural [(''type'', u32), (''len'', u32), (''value'', PtrT)]"

definition msm_gemini_buf :: ctype where
  "msm_gemini_buf =
     StructT Natural [(''type'', u32), (''fd'', s32), (''vaddr'', PtrT), (''y_off'', u32),
      (''y_len'', u32), (''framedone_len'', u32), (''cbcr_off'', u32), (''cbcr_len'', u32),
      (''num_of_mcu_rows'', u32), (''offset'', u32)]"

definition msm_gemini_hw_cmd :: ctype where
  "msm_gemini_hw_cmd =
     StructT Natural [(''type'', BitsT u32 4), (''n'', BitsT u32 12),
      (''offset'', BitsT u32 16), (''mask'', u32), ('''', UnionT Natural [(''data'', u32),
      (''pdata'', PtrT)])]"

definition msm_gemini_hw_cmds :: ctype where
  "msm_gemini_hw_cmds =
     StructT Natural [(''m'', u32), (''hw_cmd'', ArrT msm_gemini_hw_cmd 1)]"

definition msm_gemini_1 :: "decl list" where
  "msm_gemini_1 =
    [Flag ''__UAPI_MSM_GEMINI_H'']"

abbreviation MSM_GMN_IOCTL_MAGIC :: nat where "MSM_GMN_IOCTL_MAGIC \<equiv> 103"

definition msm_gemini_2 :: "decl list" where
  "msm_gemini_2 =
    [Const ''MSM_GMN_IOCTL_MAGIC'' 103,
     Request ''MSM_GMN_IOCTL_GET_HW_VERSION'' (IOW MSM_GMN_IOCTL_MAGIC 1 PtrT),
     Request ''MSM_GMN_IOCTL_RESET'' (IOW MSM_GMN_IOCTL_MAGIC 2 PtrT),
     Request ''MSM_GMN_IOCTL_STOP'' (IOW MSM_GMN_IOCTL_MAGIC 3 PtrT),
     Request ''MSM_GMN_IOCTL_START'' (IOW MSM_GMN_IOCTL_MAGIC 4 PtrT),
     Request ''MSM_GMN_IOCTL_INPUT_BUF_ENQUEUE'' (IOW MSM_GMN_IOCTL_MAGIC 5 PtrT),
     Request ''MSM_GMN_IOCTL_INPUT_GET'' (IOW MSM_GMN_IOCTL_MAGIC 6 PtrT),
     Request ''MSM_GMN_IOCTL_INPUT_GET_UNBLOCK'' (IOW MSM_GMN_IOCTL_MAGIC 7 s32),
     Request ''MSM_GMN_IOCTL_OUTPUT_BUF_ENQUEUE'' (IOW MSM_GMN_IOCTL_MAGIC 8 PtrT),
     Request ''MSM_GMN_IOCTL_OUTPUT_GET'' (IOW MSM_GMN_IOCTL_MAGIC 9 PtrT),
     Request ''MSM_GMN_IOCTL_OUTPUT_GET_UNBLOCK'' (IOW MSM_GMN_IOCTL_MAGIC 10 s32),
     Request ''MSM_GMN_IOCTL_EVT_GET'' (IOW MSM_GMN_IOCTL_MAGIC 11 PtrT),
     Request ''MSM_GMN_IOCTL_EVT_GET_UNBLOCK'' (IOW MSM_GMN_IOCTL_MAGIC 12 s32),
     Request ''MSM_GMN_IOCTL_HW_CMD'' (IOW MSM_GMN_IOCTL_MAGIC 13 PtrT),
     Request ''MSM_GMN_IOCTL_HW_CMDS'' (IOW MSM_GMN_IOCTL_MAGIC 14 PtrT),
     Request ''MSM_GMN_IOCTL_TEST_DUMP_REGION'' (IOW MSM_GMN_IOCTL_MAGIC 15 ulongT),
     Request ''MSM_GMN_IOCTL_SET_MODE'' (IOW MSM_GMN_IOCTL_MAGIC 16 (EnumT ''msm_gmn_out_mode'')),
     Const ''MSM_GEMINI_MODE_REALTIME_ENCODE'' 0, Const ''MSM_GEMINI_MODE_OFFLINE_ENCODE'' 1,
     Const ''MSM_GEMINI_MODE_REALTIME_ROTATION'' 2,
     Const ''MSM_GEMINI_MODE_OFFLINE_ROTATION'' 3,
     Enum ''msm_gmn_out_mode'' [(''MSM_GMN_OUTMODE_FRAGMENTED'', 0),
       (''MSM_GMN_OUTMODE_SINGLE'', 1)],
     Struct ''msm_gemini_ctrl_cmd'' msm_gemini_ctrl_cmd, Const ''MSM_GEMINI_EVT_RESET'' 0,
     Const ''MSM_GEMINI_EVT_FRAMEDONE'' 1, Const ''MSM_GEMINI_EVT_ERR'' 2,
     Struct ''msm_gemini_buf'' msm_gemini_buf, Const ''MSM_GEMINI_HW_CMD_TYPE_READ'' 0,
     Const ''MSM_GEMINI_HW_CMD_TYPE_WRITE'' 1, Const ''MSM_GEMINI_HW_CMD_TYPE_WRITE_OR'' 2,
     Const ''MSM_GEMINI_HW_CMD_TYPE_UWAIT'' 3, Const ''MSM_GEMINI_HW_CMD_TYPE_MWAIT'' 4,
     Const ''MSM_GEMINI_HW_CMD_TYPE_MDELAY'' 5, Const ''MSM_GEMINI_HW_CMD_TYPE_UDELAY'' 6,
     Struct ''msm_gemini_hw_cmd'' msm_gemini_hw_cmd,
     Struct ''msm_gemini_hw_cmds'' msm_gemini_hw_cmds]"

definition msm_gemini_h :: "decl list" where
  "msm_gemini_h = msm_gemini_1 @ msm_gemini_2"

subsection \<open>media/msm_jpeg.h\<close>

definition msm_jpeg_ctrl_cmd :: ctype where
  "msm_jpeg_ctrl_cmd =
     StructT Natural [(''type'', u32), (''len'', u32), (''value'', PtrT)]"

definition msm_jpeg_buf :: ctype where
  "msm_jpeg_buf =
     StructT Natural [(''type'', u32), (''fd'', s32), (''vaddr'', PtrT), (''y_off'', u32),
      (''y_len'', u32), (''framedone_len'', u32), (''cbcr_off'', u32), (''cbcr_len'', u32),
      (''num_of_mcu_rows'', u32), (''offset'', u32), (''pln2_off'', u32), (''pln2_len'', u32)]"

definition msm_jpeg_hw_cmd :: ctype where
  "msm_jpeg_hw_cmd =
     StructT Natural [(''type'', BitsT u32 4), (''n'', BitsT u32 12),
      (''offset'', BitsT u32 16), (''mask'', u32), ('''', UnionT Natural [(''data'', u32),
      (''pdata'', PtrT)])]"

definition msm_jpeg_hw_cmds :: ctype where
  "msm_jpeg_hw_cmds =
     StructT Natural [(''m'', u32), (''hw_cmd'', ArrT msm_jpeg_hw_cmd 1)]"

definition msm_jpeg_1 :: "decl list" where
  "msm_jpeg_1 =
    [Flag ''__UAPI_LINUX_MSM_JPEG_H'']"

abbreviation MSM_JPEG_IOCTL_MAGIC :: nat where "MSM_JPEG_IOCTL_MAGIC \<equiv> 103"

definition msm_jpeg_2 :: "decl list" where
  "msm_jpeg_2 =
    [Const ''OUTPUT_H2V1'' 0, Const ''OUTPUT_H2V2'' 1, Const ''OUTPUT_BYTE'' 6,
     Const ''MSM_JPEG_IOCTL_MAGIC'' 103,
     Request ''MSM_JPEG_IOCTL_GET_HW_VERSION'' (IOW MSM_JPEG_IOCTL_MAGIC 1 msm_jpeg_hw_cmd),
     Request ''MSM_JPEG_IOCTL_RESET'' (IOW MSM_JPEG_IOCTL_MAGIC 2 msm_jpeg_ctrl_cmd),
     Request ''MSM_JPEG_IOCTL_STOP'' (IOW MSM_JPEG_IOCTL_MAGIC 3 msm_jpeg_hw_cmds),
     Request ''MSM_JPEG_IOCTL_START'' (IOW MSM_JPEG_IOCTL_MAGIC 4 msm_jpeg_hw_cmds),
     Request ''MSM_JPEG_IOCTL_INPUT_BUF_ENQUEUE'' (IOW MSM_JPEG_IOCTL_MAGIC 5 msm_jpeg_buf),
     Request ''MSM_JPEG_IOCTL_INPUT_GET'' (IOW MSM_JPEG_IOCTL_MAGIC 6 msm_jpeg_buf),
     Request ''MSM_JPEG_IOCTL_INPUT_GET_UNBLOCK'' (IOW MSM_JPEG_IOCTL_MAGIC 7 s32),
     Request ''MSM_JPEG_IOCTL_OUTPUT_BUF_ENQUEUE'' (IOW MSM_JPEG_IOCTL_MAGIC 8 msm_jpeg_buf),
     Request ''MSM_JPEG_IOCTL_OUTPUT_GET'' (IOW MSM_JPEG_IOCTL_MAGIC 9 msm_jpeg_buf),
     Request ''MSM_JPEG_IOCTL_OUTPUT_GET_UNBLOCK'' (IOW MSM_JPEG_IOCTL_MAGIC 10 s32),
     Request ''MSM_JPEG_IOCTL_EVT_GET'' (IOW MSM_JPEG_IOCTL_MAGIC 11 msm_jpeg_ctrl_cmd),
     Request ''MSM_JPEG_IOCTL_EVT_GET_UNBLOCK'' (IOW MSM_JPEG_IOCTL_MAGIC 12 s32),
     Request ''MSM_JPEG_IOCTL_HW_CMD'' (IOW MSM_JPEG_IOCTL_MAGIC 13 msm_jpeg_hw_cmd),
     Request ''MSM_JPEG_IOCTL_HW_CMDS'' (IOW MSM_JPEG_IOCTL_MAGIC 14 msm_jpeg_hw_cmds),
     Request ''MSM_JPEG_IOCTL_TEST_DUMP_REGION'' (IOW MSM_JPEG_IOCTL_MAGIC 15 ulongT),
     Request ''MSM_JPEG_IOCTL_SET_CLK_RATE'' (IOW MSM_JPEG_IOCTL_MAGIC 16 u32),
     Const ''MSM_JPEG_MODE_REALTIME_ENCODE'' 0, Const ''MSM_JPEG_MODE_OFFLINE_ENCODE'' 1,
     Const ''MSM_JPEG_MODE_REALTIME_ROTATION'' 2, Const ''MSM_JPEG_MODE_OFFLINE_ROTATION'' 3,
     Struct ''msm_jpeg_ctrl_cmd'' msm_jpeg_ctrl_cmd, Const ''MSM_JPEG_EVT_RESET'' 0,
     Const ''MSM_JPEG_EVT_SESSION_DONE'' 1, Const ''MSM_JPEG_EVT_ERR'' 2,
     Struct ''msm_jpeg_buf'' msm_jpeg_buf, Const ''MSM_JPEG_HW_CMD_TYPE_READ'' 0,
     Const ''MSM_JPEG_HW_CMD_TYPE_WRITE'' 1, Const ''MSM_JPEG_HW_CMD_TYPE_WRITE_OR'' 2,
     Const ''MSM_JPEG_HW_CMD_TYPE_UWAIT'' 3, Const ''MSM_JPEG_HW_CMD_TYPE_MWAIT'' 4,
     Const ''MSM_JPEG_HW_CMD_TYPE_MDELAY'' 5, Const ''MSM_JPEG_HW_CMD_TYPE_UDELAY'' 6,
     Struct ''msm_jpeg_hw_cmd'' msm_jpeg_hw_cmd, Struct ''msm_jpeg_hw_cmds'' msm_jpeg_hw_cmds]"

definition msm_jpeg_h :: "decl list" where
  "msm_jpeg_h = msm_jpeg_1 @ msm_jpeg_2"

lemmas camera_structs =
  v4l2_event_and_payload_def msm_stats_reqbuf_def msm_stats_flush_bufq_def msm_mctl_pp_cmd_def
  msm_mctl_post_proc_cmd_def msm_ctrl_cmd_def msm_cam_evt_msg_def msm_pp_frame_sp_def
  msm_pp_frame_mp_def msm_pp_frame_def msm_pp_crop_def msm_mctl_pp_frame_cmd_def
  msm_cam_evt_divert_frame_def msm_mctl_pp_cmd_ack_event_def msm_mctl_pp_event_info_def
  msm_isp_event_ctrl_def msm_stats_event_ctrl_def msm_camera_cfg_cmd_def msm_vfe_cfg_cmd_def
  msm_vpe_cfg_cmd_def camera_enable_cmd_def msm_stats_buf_info_def msm_pmem_info_def
  outputCfg_def fd_roi_info_def msm_mem_map_info_def msm_frame_def msm_st_crop_def
  msm_st_half_def msm_st_frame_def stats_buff_def msm_stats_buf_def crop_info_def
  msm_postproc_def msm_snapshot_pp_status_def sensor_pict_fps_def exp_gain_cfg_def focus_cfg_def
  fps_cfg_def wb_info_cfg_def sensor_3d_exp_cfg_def sensor_3d_cali_data_t_def sensor_init_cfg_def
  sensor_calib_data_def msm_sensor_output_info_t_def sensor_output_info_t_def
  msm_sensor_exp_gain_info_t_def msm_sensor_output_reg_addr_t_def sensor_driver_params_type_def
  mirror_flip_def cord_def msm_eeprom_data_t_def msm_camera_csid_vc_cfg_def csi_lane_params_t_def
  msm_camera_csid_lut_params_def msm_camera_csid_params_def msm_camera_csiphy_params_def
  msm_camera_csi2_params_def msm_camera_csi_params_def csic_cfg_data_def csid_cfg_data_def
  csiphy_cfg_data_def msm_ispif_params_def msm_ispif_params_list_def ispif_cfg_data_def
  msm_camera_i2c_reg_array_def msm_camera_i2c_reg_setting_def sensor_oem_setting_def
  msm_camera_csi_lane_params_def camera_vreg_t_def msm_camera_vreg_setting_def
  msm_cam_clk_info_def msm_cam_clk_setting_def sensor_cfg_data_def msm_cam_gpio_operation_def
  damping_params_t_def msm_actuator_reg_params_t_def reg_settings_t_def region_params_t_def
  msm_actuator_move_params_t_def msm_actuator_tuning_params_t_def msm_actuator_params_t_def
  msm_actuator_set_info_t_def msm_actuator_get_info_t_def msm_actuator_cfg_data_def
  msm_eeprom_support_def msm_calib_wb_def msm_calib_af_def msm_calib_lsc_def pixel_t_def
  msm_calib_dpc_def msm_calib_raw_def msm_camera_eeprom_info_t_def msm_eeprom_cfg_data_def
  sensor_large_data_def strobe_flash_ctrl_data_def msm_camera_info_def
  msm_cam_config_dev_info_def msm_mctl_node_info_def flash_ctrl_data_def msm_camsensor_info_def
  plane_data_def img_plane_info_def msm_mctl_set_sdev_data_def msm_camera_v4l2_ioctl_t_def
  msm_camera_vfe_params_t_def msm_camera_irq_cfg_def msm_cpp_frame_info_t_def
  msm_ver_num_info_def msm_isp_cmd_def msm_vpe_op_mode_cfg_def msm_vpe_input_plane_cfg_def
  msm_vpe_output_plane_cfg_def msm_vpe_input_plane_update_cfg_def msm_vpe_scaler_cfg_def
  msm_vpe_flush_frame_buffer_def msm_mctl_pp_frame_buffer_def msm_mctl_pp_divert_pp_def
  msm_vpe_clock_rate_def msm_frame_info_def msm_mercury_ctrl_cmd_def msm_mercury_buf_def
  msm_mercury_hw_cmd_def msm_mercury_hw_cmds_def msm_gemini_ctrl_cmd_def msm_gemini_buf_def
  msm_gemini_hw_cmd_def msm_gemini_hw_cmds_def msm_jpeg_ctrl_cmd_def msm_jpeg_buf_def
  msm_jpeg_hw_cmd_def msm_jpeg_hw_cmds_def

lemmas camera_decls =
  msm_camera_1_def msm_camera_2_def msm_camera_3_def msm_camera_4_def msm_camera_5_def
  msm_camera_6_def msm_camera_7_def msm_camera_8_def msm_camera_9_def msm_camera_10_def
  msm_camera_11_def msm_camera_12_def msm_camera_13_def msm_camera_14_def msm_camera_15_def
  msm_camera_16_def msm_isp_1_def msm_isp_2_def msm_isp_3_def msm_isp_4_def msm_mercury_1_def
  msm_mercury_2_def msm_gemini_1_def msm_gemini_2_def msm_jpeg_1_def msm_jpeg_2_def
  msm_camera_h_def msm_isp_h_def msm_mercury_h_def msm_gemini_h_def msm_jpeg_h_def

text \<open>All structures and unions, in the order of the files.\<close>

definition camera_types :: "ctype list" where
  "camera_types =
    [v4l2_event_and_payload, msm_stats_reqbuf, msm_stats_flush_bufq, msm_mctl_pp_cmd,
     msm_mctl_post_proc_cmd, msm_ctrl_cmd, msm_cam_evt_msg, msm_pp_frame_sp, msm_pp_frame_mp,
     msm_pp_frame, msm_pp_crop, msm_mctl_pp_frame_cmd, msm_cam_evt_divert_frame,
     msm_mctl_pp_cmd_ack_event, msm_mctl_pp_event_info, msm_isp_event_ctrl,
     msm_stats_event_ctrl, msm_camera_cfg_cmd, msm_vfe_cfg_cmd, msm_vpe_cfg_cmd,
     camera_enable_cmd, msm_stats_buf_info, msm_pmem_info, outputCfg, fd_roi_info,
     msm_mem_map_info, msm_frame, msm_st_crop, msm_st_half, msm_st_frame, stats_buff,
     msm_stats_buf, crop_info, msm_postproc, msm_snapshot_pp_status, sensor_pict_fps,
     exp_gain_cfg, focus_cfg, fps_cfg, wb_info_cfg, sensor_3d_exp_cfg, sensor_3d_cali_data_t,
     sensor_init_cfg, sensor_calib_data, msm_sensor_output_info_t, sensor_output_info_t,
     msm_sensor_exp_gain_info_t, msm_sensor_output_reg_addr_t, sensor_driver_params_type,
     mirror_flip, cord, msm_eeprom_data_t, msm_camera_csid_vc_cfg, csi_lane_params_t,
     msm_camera_csid_lut_params, msm_camera_csid_params, msm_camera_csiphy_params,
     msm_camera_csi2_params, msm_camera_csi_params, csic_cfg_data, csid_cfg_data,
     csiphy_cfg_data, msm_ispif_params, msm_ispif_params_list, ispif_cfg_data,
     msm_camera_i2c_reg_array, msm_camera_i2c_reg_setting, sensor_oem_setting,
     msm_camera_csi_lane_params, camera_vreg_t, msm_camera_vreg_setting, msm_cam_clk_info,
     msm_cam_clk_setting, sensor_cfg_data, msm_cam_gpio_operation, damping_params_t,
     msm_actuator_reg_params_t, reg_settings_t, region_params_t, msm_actuator_move_params_t,
     msm_actuator_tuning_params_t, msm_actuator_params_t, msm_actuator_set_info_t,
     msm_actuator_get_info_t, msm_actuator_cfg_data, msm_eeprom_support, msm_calib_wb,
     msm_calib_af, msm_calib_lsc, pixel_t, msm_calib_dpc, msm_calib_raw,
     msm_camera_eeprom_info_t, msm_eeprom_cfg_data, sensor_large_data, strobe_flash_ctrl_data,
     msm_camera_info, msm_cam_config_dev_info, msm_mctl_node_info, flash_ctrl_data,
     msm_camsensor_info, plane_data, img_plane_info, msm_mctl_set_sdev_data,
     msm_camera_v4l2_ioctl_t, msm_camera_vfe_params_t, msm_camera_irq_cfg, msm_cpp_frame_info_t,
     msm_ver_num_info, msm_isp_cmd, msm_vpe_op_mode_cfg, msm_vpe_input_plane_cfg,
     msm_vpe_output_plane_cfg, msm_vpe_input_plane_update_cfg, msm_vpe_scaler_cfg,
     msm_vpe_flush_frame_buffer, msm_mctl_pp_frame_buffer, msm_mctl_pp_divert_pp,
     msm_vpe_clock_rate, msm_frame_info, msm_mercury_ctrl_cmd, msm_mercury_buf,
     msm_mercury_hw_cmd, msm_mercury_hw_cmds, msm_gemini_ctrl_cmd, msm_gemini_buf,
     msm_gemini_hw_cmd, msm_gemini_hw_cmds, msm_jpeg_ctrl_cmd, msm_jpeg_buf, msm_jpeg_hw_cmd,
     msm_jpeg_hw_cmds]"

end
