(* ===== verification/LayoutMisc.thy ===== *)
theory LayoutMisc
  imports CLayout
begin

text \<open>
  The headers the kernel is built with (under sdm710/original-kernel-headers) of the secure
  environment, thermal control and other small devices (linux/qseecom.h and others): every
  structure and union with its fields in order; then, for every file, the list of its
  declarations, in blocks: structures, enumerations, number macros and device requests. A
  type of the C library or of a header that is not in the repository is a foreign type.
\<close>

subsection \<open>linux/qseecom.h\<close>

definition qseecom_register_listener_req :: ctype where
  "qseecom_register_listener_req =
     StructT Natural [(''listener_id'', u32), (''ifd_data_fd'', s32), (''virt_sb_base'', PtrT),
      (''sb_size'', u32)]"

definition qseecom_send_cmd_req :: ctype where
  "qseecom_send_cmd_req =
     StructT Natural [(''cmd_req_buf'', PtrT), (''cmd_req_len'', u32), (''resp_buf'', PtrT),
      (''resp_len'', u32)]"

definition qseecom_ion_fd_info :: ctype where
  "qseecom_ion_fd_info =
     StructT Natural [(''fd'', s32), (''cmd_buf_offset'', u32)]"

abbreviation MAX_ION_FD :: nat where "MAX_ION_FD \<equiv> 4"

definition qseecom_send_modfd_cmd_req :: ctype where
  "qseecom_send_modfd_cmd_req =
     StructT Natural [(''cmd_req_buf'', PtrT), (''cmd_req_len'', u32), (''resp_buf'', PtrT),
      (''resp_len'', u32), (''ifd_data'', ArrT qseecom_ion_fd_info MAX_ION_FD)]"

definition qseecom_send_resp_req :: ctype where
  "qseecom_send_resp_req =
     StructT Natural [(''resp_buf'', PtrT), (''resp_len'', u32)]"

abbreviation MAX_APP_NAME_SIZE :: nat where "MAX_APP_NAME_SIZE \<equiv> 64"

definition qseecom_load_img_req :: ctype where
  "qseecom_load_img_req =
     StructT Natural [(''mdt_len'', u32), (''img_len'', u32), (''ifd_data_fd'', s32),
      (''img_name'', ArrT CharT MAX_APP_NAME_SIZE), (''app_arch'', u32), (''app_id'', u32)]"

definition qseecom_set_sb_mem_param_req :: ctype where
  "qseecom_set_sb_mem_param_req =
     StructT Natural [(''ifd_data_fd'', s32), (''virt_sb_base'', PtrT), (''sb_len'', u32)]"

definition qseecom_qseos_version_req :: ctype where
  "qseecom_qseos_version_req =
     StructT Natural [(''qseos_version'', u32)]"

definition qseecom_qseos_app_load_query :: ctype where
  "qseecom_qseos_app_load_query =
     StructT Natural [(''app_name'', ArrT CharT MAX_APP_NAME_SIZE), (''app_id'', u32),
      (''app_arch'', u32)]"

definition qseecom_send_svc_cmd_req :: ctype where
  "qseecom_send_svc_cmd_req =
     StructT Natural [(''cmd_id'', u32), (''cmd_req_buf'', PtrT), (''cmd_req_len'', u32),
      (''resp_buf'', PtrT), (''resp_len'', u32)]"

abbreviation QSEECOM_HASH_SIZE :: nat where "QSEECOM_HASH_SIZE \<equiv> 32"

definition qseecom_create_key_req :: ctype where
  "qseecom_create_key_req =
     StructT Natural [(''hash32'', ArrT u8 QSEECOM_HASH_SIZE),
      (''usage'', EnumT ''qseecom_key_management_usage_type'')]"

definition qseecom_wipe_key_req :: ctype where
  "qseecom_wipe_key_req =
     StructT Natural [(''usage'', EnumT ''qseecom_key_management_usage_type''),
      (''wipe_key_flag'', s32)]"

definition qseecom_update_key_userinfo_req :: ctype where
  "qseecom_update_key_userinfo_req =
     StructT Natural [(''current_hash32'', ArrT u8 QSEECOM_HASH_SIZE),
      (''new_hash32'', ArrT u8 QSEECOM_HASH_SIZE),
      (''usage'', EnumT ''qseecom_key_management_usage_type'')]"

abbreviation SHA256_DIGEST_LENGTH :: nat where "SHA256_DIGEST_LENGTH \<equiv> 256 div 8"

definition qseecom_save_partition_hash_req :: ctype where
  "qseecom_save_partition_hash_req =
     StructT Natural [(''partition_id'', s32), (''digest'', ArrT CharT SHA256_DIGEST_LENGTH)]"

definition qseecom_is_es_activated_req :: ctype where
  "qseecom_is_es_activated_req =
     StructT Natural [(''is_activated'', s32)]"

definition qseecom_mdtp_cipher_dip_req :: ctype where
  "qseecom_mdtp_cipher_dip_req =
     StructT Natural [(''in_buf'', PtrT), (''in_buf_size'', u32), (''out_buf'', PtrT),
      (''out_buf_size'', u32), (''direction'', u32)]"

definition qseecom_send_modfd_listener_resp :: ctype where
  "qseecom_send_modfd_listener_resp =
     StructT Natural [(''resp_buf_ptr'', PtrT), (''resp_len'', u32),
      (''ifd_data'', ArrT qseecom_ion_fd_info MAX_ION_FD)]"

definition qseecom_qteec_req :: ctype where
  "qseecom_qteec_req =
     StructT Natural [(''req_ptr'', PtrT), (''req_len'', u32), (''resp_ptr'', PtrT),
      (''resp_len'', u32)]"

definition qseecom_qteec_modfd_req :: ctype where
  "qseecom_qteec_modfd_req =
     StructT Natural [(''req_ptr'', PtrT), (''req_len'', u32), (''resp_ptr'', PtrT),
      (''resp_len'', u32), (''ifd_data'', ArrT qseecom_ion_fd_info MAX_ION_FD)]"

definition qseecom_sg_entry :: ctype where
  "qseecom_sg_entry =
     StructT Natural [(''phys_addr'', u32), (''len'', u32)]"

definition qseecom_sg_entry_64bit :: ctype where
  "qseecom_sg_entry_64bit =
     StructT Packed [(''phys_addr'', u64), (''len'', u32)]"

definition qseecom_sg_list_buf_hdr_64bit :: ctype where
  "qseecom_sg_list_buf_hdr_64bit =
     StructT Packed [(''blank_entry'', qseecom_sg_entry_64bit), (''version'', u32),
      (''new_buf_phys_addr'', u64), (''nents_total'', u32)]"

definition qseecom_ce_pipe_entry :: ctype where
  "qseecom_ce_pipe_entry =
     StructT Natural [(''valid'', s32), (''ce_num'', u32), (''ce_pipe_pair'', u32)]"

abbreviation MAX_CE_INFO_HANDLE_SIZE :: nat where "MAX_CE_INFO_HANDLE_SIZE \<equiv> 32"

abbreviation MAX_CE_PIPE_PAIR_PER_UNIT :: nat where "MAX_CE_PIPE_PAIR_PER_UNIT \<equiv> 3"

definition qseecom_ce_info_req :: ctype where
  "qseecom_ce_info_req =
     StructT Natural [(''handle'', ArrT u8 MAX_CE_INFO_HANDLE_SIZE), (''usage'', u32),
      (''unit_num'', u32), (''num_ce_pipe_entries'', u32),
      (''ce_pipe_entry'', ArrT qseecom_ce_pipe_entry MAX_CE_PIPE_PAIR_PER_UNIT)]"

definition qseecom_1 :: "decl list" where
  "qseecom_1 =
    [Flag ''_QSEECOM_H_'']"

definition qseecom_2 :: "decl list" where
  "qseecom_2 =
    [Const ''MAX_ION_FD'' 4, Const ''MAX_APP_NAME_SIZE'' 64, Const ''QSEECOM_HASH_SIZE'' 32,
     Const ''QSEECOM_TA_ION_ALLOCATE_DELAY'' 50,
     Const ''QSEECOM_TA_ION_ALLOCATE_MAX_ATTEMP'' 20,
     Struct ''qseecom_register_listener_req'' qseecom_register_listener_req,
     Struct ''qseecom_send_cmd_req'' qseecom_send_cmd_req,
     Struct ''qseecom_ion_fd_info'' qseecom_ion_fd_info,
     Struct ''qseecom_send_modfd_cmd_req'' qseecom_send_modfd_cmd_req,
     Struct ''qseecom_send_resp_req'' qseecom_send_resp_req]"

definition qseecom_3 :: "decl list" where
  "qseecom_3 =
    [Struct ''qseecom_load_img_req'' qseecom_load_img_req,
     Struct ''qseecom_set_sb_mem_param_req'' qseecom_set_sb_mem_param_req,
     Struct ''qseecom_qseos_version_req'' qseecom_qseos_version_req,
     Struct ''qseecom_qseos_app_load_query'' qseecom_qseos_app_load_query,
     Struct ''qseecom_send_svc_cmd_req'' qseecom_send_svc_cmd_req,
     Enum ''qseecom_key_management_usage_type'' [(''QSEOS_KM_USAGE_DISK_ENCRYPTION'', 1),
       (''QSEOS_KM_USAGE_FILE_ENCRYPTION'', 2), (''QSEOS_KM_USAGE_UFS_ICE_DISK_ENCRYPTION'', 3),
       (''QSEOS_KM_USAGE_SDCC_ICE_DISK_ENCRYPTION'', 4), (''QSEOS_KM_USAGE_MAX'', 5)],
     Struct ''qseecom_create_key_req'' qseecom_create_key_req,
     Struct ''qseecom_wipe_key_req'' qseecom_wipe_key_req,
     Struct ''qseecom_update_key_userinfo_req'' qseecom_update_key_userinfo_req,
     Const ''SHA256_DIGEST_LENGTH'' 32,
     Struct ''qseecom_save_partition_hash_req'' qseecom_save_partition_hash_req,
     Struct ''qseecom_is_es_activated_req'' qseecom_is_es_activated_req,
     Struct ''qseecom_mdtp_cipher_dip_req'' qseecom_mdtp_cipher_dip_req,
     Enum ''qseecom_bandwidth_request_mode'' [(''INACTIVE'', 0), (''LOW'', 1), (''MEDIUM'', 2),
       (''HIGH'', 3)],
     Struct ''qseecom_send_modfd_listener_resp'' qseecom_send_modfd_listener_resp,
     Struct ''qseecom_qteec_req'' qseecom_qteec_req,
     Struct ''qseecom_qteec_modfd_req'' qseecom_qteec_modfd_req,
     Struct ''qseecom_sg_entry'' qseecom_sg_entry,
     Struct ''qseecom_sg_entry_64bit'' qseecom_sg_entry_64bit]"

definition qseecom_4 :: "decl list" where
  "qseecom_4 =
    [Const ''QSEECOM_SG_LIST_BUF_FORMAT_VERSION_1'' 1,
     Const ''QSEECOM_SG_LIST_BUF_FORMAT_VERSION_2'' 2,
     Struct ''qseecom_sg_list_buf_hdr_64bit'' qseecom_sg_list_buf_hdr_64bit,
     SizeOf ''QSEECOM_SG_LIST_BUF_HDR_SZ_64BIT'' qseecom_sg_list_buf_hdr_64bit,
     Const ''MAX_CE_PIPE_PAIR_PER_UNIT'' 3, Const ''INVALID_CE_INFO_UNIT_NUM'' 0xffffffff,
     Const ''CE_PIPE_PAIR_USE_TYPE_FDE'' 0, Const ''CE_PIPE_PAIR_USE_TYPE_PFE'' 1,
     Struct ''qseecom_ce_pipe_entry'' qseecom_ce_pipe_entry,
     Const ''MAX_CE_INFO_HANDLE_SIZE'' 32, Struct ''qseecom_ce_info_req'' qseecom_ce_info_req,
     SizeOf ''SG_ENTRY_SZ'' qseecom_sg_entry,
     SizeOf ''SG_ENTRY_SZ_64BIT'' qseecom_sg_entry_64bit]"

abbreviation QSEECOM_IOC_MAGIC :: nat where "QSEECOM_IOC_MAGIC \<equiv> 151"

definition qseecom_5 :: "decl list" where
  "qseecom_5 =
    [Const ''QSEECOM_IOC_MAGIC'' 0x97,
     Request ''QSEECOM_IOCTL_REGISTER_LISTENER_REQ'' (IOWR QSEECOM_IOC_MAGIC 1 qseecom_register_listener_req),
     Request ''QSEECOM_IOCTL_UNREGISTER_LISTENER_REQ'' (IO QSEECOM_IOC_MAGIC 2),
     Request ''QSEECOM_IOCTL_SEND_CMD_REQ'' (IOWR QSEECOM_IOC_MAGIC 3 qseecom_send_cmd_req),
     Request ''QSEECOM_IOCTL_SEND_MODFD_CMD_REQ'' (IOWR QSEECOM_IOC_MAGIC 4 qseecom_send_modfd_cmd_req),
     Request ''QSEECOM_IOCTL_RECEIVE_REQ'' (IO QSEECOM_IOC_MAGIC 5),
     Request ''QSEECOM_IOCTL_SEND_RESP_REQ'' (IO QSEECOM_IOC_MAGIC 6),
     Request ''QSEECOM_IOCTL_LOAD_APP_REQ'' (IOWR QSEECOM_IOC_MAGIC 7 qseecom_load_img_req),
     Request ''QSEECOM_IOCTL_SET_MEM_PARAM_REQ'' (IOWR QSEECOM_IOC_MAGIC 8 qseecom_set_sb_mem_param_req),
     Request ''QSEECOM_IOCTL_UNLOAD_APP_REQ'' (IO QSEECOM_IOC_MAGIC 9),
     Request ''QSEECOM_IOCTL_GET_QSEOS_VERSION_REQ'' (IOWR QSEECOM_IOC_MAGIC 10 qseecom_qseos_version_req),
     Request ''QSEECOM_IOCTL_PERF_ENABLE_REQ'' (IO QSEECOM_IOC_MAGIC 11),
     Request ''QSEECOM_IOCTL_PERF_DISABLE_REQ'' (IO QSEECOM_IOC_MAGIC 12),
     Request ''QSEECOM_IOCTL_LOAD_EXTERNAL_ELF_REQ'' (IOWR QSEECOM_IOC_MAGIC 13 qseecom_load_img_req),
     Request ''QSEECOM_IOCTL_UNLOAD_EXTERNAL_ELF_REQ'' (IO QSEECOM_IOC_MAGIC 14),
     Request ''QSEECOM_IOCTL_APP_LOADED_QUERY_REQ'' (IOWR QSEECOM_IOC_MAGIC 15 qseecom_qseos_app_load_query),
     Request ''QSEECOM_IOCTL_SEND_CMD_SERVICE_REQ'' (IOWR QSEECOM_IOC_MAGIC 16 qseecom_send_svc_cmd_req),
     Request ''QSEECOM_IOCTL_CREATE_KEY_REQ'' (IOWR QSEECOM_IOC_MAGIC 17 qseecom_create_key_req),
     Request ''QSEECOM_IOCTL_WIPE_KEY_REQ'' (IOWR QSEECOM_IOC_MAGIC 18 qseecom_wipe_key_req),
     Request ''QSEECOM_IOCTL_SAVE_PARTITION_HASH_REQ'' (IOWR QSEECOM_IOC_MAGIC 19 qseecom_save_partition_hash_req),
     Request ''QSEECOM_IOCTL_IS_ES_ACTIVATED_REQ'' (IOWR QSEECOM_IOC_MAGIC 20 qseecom_is_es_activated_req),
     Request ''QSEECOM_IOCTL_SEND_MODFD_RESP'' (IOWR QSEECOM_IOC_MAGIC 21 qseecom_send_modfd_listener_resp),
     Request ''QSEECOM_IOCTL_SET_BUS_SCALING_REQ'' (IOWR QSEECOM_IOC_MAGIC 23 s32),
     Request ''QSEECOM_IOCTL_UPDATE_KEY_USER_INFO_REQ'' (IOWR QSEECOM_IOC_MAGIC 24 qseecom_update_key_userinfo_req),
     Request ''QSEECOM_QTEEC_IOCTL_OPEN_SESSION_REQ'' (IOWR QSEECOM_IOC_MAGIC 30 qseecom_qteec_modfd_req),
     Request ''QSEECOM_QTEEC_IOCTL_CLOSE_SESSION_REQ'' (IOWR QSEECOM_IOC_MAGIC 31 qseecom_qteec_req),
     Request ''QSEECOM_QTEEC_IOCTL_INVOKE_MODFD_CMD_REQ'' (IOWR QSEECOM_IOC_MAGIC 32 qseecom_qteec_modfd_req),
     Request ''QSEECOM_QTEEC_IOCTL_REQUEST_CANCELLATION_REQ'' (IOWR QSEECOM_IOC_MAGIC 33 qseecom_qteec_modfd_req),
     Request ''QSEECOM_IOCTL_MDTP_CIPHER_DIP_REQ'' (IOWR QSEECOM_IOC_MAGIC 34 qseecom_mdtp_cipher_dip_req),
     Request ''QSEECOM_IOCTL_SEND_MODFD_CMD_64_REQ'' (IOWR QSEECOM_IOC_MAGIC 35 qseecom_send_modfd_cmd_req),
     Request ''QSEECOM_IOCTL_SEND_MODFD_RESP_64'' (IOWR QSEECOM_IOC_MAGIC 36 qseecom_send_modfd_listener_resp),
     Request ''QSEECOM_IOCTL_GET_CE_PIPE_INFO'' (IOWR QSEECOM_IOC_MAGIC 40 qseecom_ce_info_req),
     Request ''QSEECOM_IOCTL_FREE_CE_PIPE_INFO'' (IOWR QSEECOM_IOC_MAGIC 41 qseecom_ce_info_req),
     Request ''QSEECOM_IOCTL_QUERY_CE_PIPE_INFO'' (IOWR QSEECOM_IOC_MAGIC 42 qseecom_ce_info_req)]"

definition qseecom_h :: "decl list" where
  "qseecom_h = qseecom_1 @ qseecom_2 @ qseecom_3 @ qseecom_4 @ qseecom_5"

subsection \<open>asm-generic/ioctls.h\<close>

definition ioctls_1 :: "decl list" where
  "ioctls_1 =
    [Flag ''__ASM_GENERIC_IOCTLS_H'']"

definition ioctls_2 :: "decl list" where
  "ioctls_2 =
    [Const ''TCGETS'' 0x5401, Const ''TCSETS'' 0x5402, Const ''TCSETSW'' 0x5403,
     Const ''TCSETSF'' 0x5404, Const ''TCGETA'' 0x5405, Const ''TCSETA'' 0x5406,
     Const ''TCSETAW'' 0x5407, Const ''TCSETAF'' 0x5408, Const ''TCSBRK'' 0x5409,
     Const ''TCXONC'' 0x540A, Const ''TCFLSH'' 0x540B, Const ''TIOCEXCL'' 0x540C,
     Const ''TIOCNXCL'' 0x540D, Const ''TIOCSCTTY'' 0x540E, Const ''TIOCGPGRP'' 0x540F,
     Const ''TIOCSPGRP'' 0x5410, Const ''TIOCOUTQ'' 0x5411, Const ''TIOCSTI'' 0x5412,
     Const ''TIOCGWINSZ'' 0x5413, Const ''TIOCSWINSZ'' 0x5414, Const ''TIOCMGET'' 0x5415,
     Const ''TIOCMBIS'' 0x5416, Const ''TIOCMBIC'' 0x5417, Const ''TIOCMSET'' 0x5418,
     Const ''TIOCGSOFTCAR'' 0x5419, Const ''TIOCSSOFTCAR'' 0x541A, Const ''FIONREAD'' 0x541B,
     Const ''TIOCINQ'' 21531, Const ''TIOCLINUX'' 0x541C, Const ''TIOCCONS'' 0x541D,
     Const ''TIOCGSERIAL'' 0x541E, Const ''TIOCSSERIAL'' 0x541F, Const ''TIOCPKT'' 0x5420,
     Const ''FIONBIO'' 0x5421, Const ''TIOCNOTTY'' 0x5422, Const ''TIOCSETD'' 0x5423,
     Const ''TIOCGETD'' 0x5424, Const ''TCSBRKP'' 0x5425, Const ''TIOCSBRK'' 0x5427,
     Const ''TIOCCBRK'' 0x5428, Const ''TIOCGSID'' 0x5429,
     Request ''TCGETS2'' (IOR 84 42 (ForeignT ''struct termios2'')),
     Request ''TCSETS2'' (IOW 84 43 (ForeignT ''struct termios2'')),
     Request ''TCSETSW2'' (IOW 84 44 (ForeignT ''struct termios2'')),
     Request ''TCSETSF2'' (IOW 84 45 (ForeignT ''struct termios2'')),
     Const ''TIOCGRS485'' 0x542E]"

definition ioctls_3 :: "decl list" where
  "ioctls_3 =
    [Const ''TIOCSRS485'' 0x542F]"

definition ioctls_4 :: "decl list" where
  "ioctls_4 =
    [Request ''TIOCGPTN'' (IOR 84 48 u32), Request ''TIOCSPTLCK'' (IOW 84 49 s32),
     Request ''TIOCGDEV'' (IOR 84 50 u32), Const ''TCGETX'' 0x5432, Const ''TCSETX'' 0x5433,
     Const ''TCSETXF'' 0x5434, Const ''TCSETXW'' 0x5435, Request ''TIOCSIG'' (IOW 84 54 s32),
     Const ''TIOCVHANGUP'' 0x5437, Request ''TIOCGPKT'' (IOR 84 56 s32),
     Request ''TIOCGPTLCK'' (IOR 84 57 s32), Request ''TIOCGEXCL'' (IOR 84 64 s32),
     Const ''TIOCPMGET'' 0x5441, Const ''TIOCPMPUT'' 0x5442, Const ''TIOCPMACT'' 0x5443,
     Const ''FIONCLEX'' 0x5450, Const ''FIOCLEX'' 0x5451, Const ''FIOASYNC'' 0x5452,
     Const ''TIOCSERCONFIG'' 0x5453, Const ''TIOCSERGWILD'' 0x5454,
     Const ''TIOCSERSWILD'' 0x5455, Const ''TIOCGLCKTRMIOS'' 0x5456,
     Const ''TIOCSLCKTRMIOS'' 0x5457, Const ''TIOCSERGSTRUCT'' 0x5458,
     Const ''TIOCSERGETLSR'' 0x5459, Const ''TIOCSERGETMULTI'' 0x545A,
     Const ''TIOCSERSETMULTI'' 0x545B, Const ''TIOCMIWAIT'' 0x545C,
     Const ''TIOCGICOUNT'' 0x545D]"

definition ioctls_5 :: "decl list" where
  "ioctls_5 =
    [Const ''FIOQSIZE'' 0x5460]"

definition ioctls_6 :: "decl list" where
  "ioctls_6 =
    [Const ''TIOCPKT_DATA'' 0, Const ''TIOCPKT_FLUSHREAD'' 1, Const ''TIOCPKT_FLUSHWRITE'' 2,
     Const ''TIOCPKT_STOP'' 4, Const ''TIOCPKT_START'' 8, Const ''TIOCPKT_NOSTOP'' 16,
     Const ''TIOCPKT_DOSTOP'' 32, Const ''TIOCPKT_IOCTL'' 64, Const ''TIOCSER_TEMT'' 0x01]"

definition ioctls_h :: "decl list" where
  "ioctls_h = ioctls_1 @ ioctls_2 @ ioctls_3 @ ioctls_4 @ ioctls_5 @ ioctls_6"

subsection \<open>linux/sockios.h\<close>

definition sockios_1 :: "decl list" where
  "sockios_1 =
    [Flag ''_LINUX_SOCKIOS_H'']"

definition sockios_2 :: "decl list" where
  "sockios_2 =
    [Const ''SIOCINQ'' 21531, Const ''SIOCOUTQ'' 21521, Const ''SIOCADDRT'' 0x890B,
     Const ''SIOCDELRT'' 0x890C, Const ''SIOCRTMSG'' 0x890D, Const ''SIOCGIFNAME'' 0x8910,
     Const ''SIOCSIFLINK'' 0x8911, Const ''SIOCGIFCONF'' 0x8912, Const ''SIOCGIFFLAGS'' 0x8913,
     Const ''SIOCSIFFLAGS'' 0x8914, Const ''SIOCGIFADDR'' 0x8915, Const ''SIOCSIFADDR'' 0x8916,
     Const ''SIOCGIFDSTADDR'' 0x8917, Const ''SIOCSIFDSTADDR'' 0x8918,
     Const ''SIOCGIFBRDADDR'' 0x8919, Const ''SIOCSIFBRDADDR'' 0x891a,
     Const ''SIOCGIFNETMASK'' 0x891b, Const ''SIOCSIFNETMASK'' 0x891c,
     Const ''SIOCGIFMETRIC'' 0x891d, Const ''SIOCSIFMETRIC'' 0x891e,
     Const ''SIOCGIFMEM'' 0x891f, Const ''SIOCSIFMEM'' 0x8920, Const ''SIOCGIFMTU'' 0x8921,
     Const ''SIOCSIFMTU'' 0x8922, Const ''SIOCSIFNAME'' 0x8923, Const ''SIOCSIFHWADDR'' 0x8924,
     Const ''SIOCGIFENCAP'' 0x8925, Const ''SIOCSIFENCAP'' 0x8926,
     Const ''SIOCGIFHWADDR'' 0x8927, Const ''SIOCGIFSLAVE'' 0x8929,
     Const ''SIOCSIFSLAVE'' 0x8930, Const ''SIOCADDMULTI'' 0x8931,
     Const ''SIOCDELMULTI'' 0x8932, Const ''SIOCGIFINDEX'' 0x8933, Const ''SIOGIFINDEX'' 35123,
     Const ''SIOCSIFPFLAGS'' 0x8934, Const ''SIOCGIFPFLAGS'' 0x8935,
     Const ''SIOCDIFADDR'' 0x8936, Const ''SIOCSIFHWBROADCAST'' 0x8937,
     Const ''SIOCGIFCOUNT'' 0x8938, Const ''SIOCGIFBR'' 0x8940, Const ''SIOCSIFBR'' 0x8941,
     Const ''SIOCGIFTXQLEN'' 0x8942, Const ''SIOCSIFTXQLEN'' 0x8943,
     Const ''SIOCETHTOOL'' 0x8946, Const ''SIOCGMIIPHY'' 0x8947, Const ''SIOCGMIIREG'' 0x8948,
     Const ''SIOCSMIIREG'' 0x8949, Const ''SIOCWANDEV'' 0x894A, Const ''SIOCOUTQNSD'' 0x894B,
     Const ''SIOCDARP'' 0x8953, Const ''SIOCGARP'' 0x8954, Const ''SIOCSARP'' 0x8955,
     Const ''SIOCDRARP'' 0x8960, Const ''SIOCGRARP'' 0x8961, Const ''SIOCSRARP'' 0x8962,
     Const ''SIOCGIFMAP'' 0x8970, Const ''SIOCSIFMAP'' 0x8971, Const ''SIOCADDDLCI'' 0x8980,
     Const ''SIOCDELDLCI'' 0x8981, Const ''SIOCGIFVLAN'' 0x8982, Const ''SIOCSIFVLAN'' 0x8983,
     Const ''SIOCBONDENSLAVE'' 0x8990, Const ''SIOCBONDRELEASE'' 0x8991,
     Const ''SIOCBONDSETHWADDR'' 0x8992, Const ''SIOCBONDSLAVEINFOQUERY'' 0x8993,
     Const ''SIOCBONDINFOQUERY'' 0x8994, Const ''SIOCBONDCHANGEACTIVE'' 0x8995,
     Const ''SIOCBRADDBR'' 0x89a0, Const ''SIOCBRDELBR'' 0x89a1, Const ''SIOCBRADDIF'' 0x89a2,
     Const ''SIOCBRDELIF'' 0x89a3, Const ''SIOCSHWTSTAMP'' 0x89b0,
     Const ''SIOCGHWTSTAMP'' 0x89b1]"

definition sockios_3 :: "decl list" where
  "sockios_3 =
    [Const ''SIOCDEVPRIVATE'' 0x89F0, Const ''SIOCPROTOPRIVATE'' 0x89E0]"

definition sockios_h :: "decl list" where
  "sockios_h = sockios_1 @ sockios_2 @ sockios_3"

subsection \<open>scsi/ufs/ufs.h\<close>

definition ufs_1 :: "decl list" where
  "ufs_1 =
    [Flag ''UAPI_UFS_H_'', Const ''MAX_QUERY_IDN'' 0x18,
     Enum ''flag_idn'' [(''QUERY_FLAG_IDN_FDEVICEINIT'', 1),
       (''QUERY_FLAG_IDN_PERMANENT_WPE'', 2), (''QUERY_FLAG_IDN_PWR_ON_WPE'', 3),
       (''QUERY_FLAG_IDN_BKOPS_EN'', 4), (''QUERY_FLAG_IDN_RESERVED1'', 5),
       (''QUERY_FLAG_IDN_PURGE_ENABLE'', 6), (''QUERY_FLAG_IDN_RESERVED2'', 7),
       (''QUERY_FLAG_IDN_FPHYRESOURCEREMOVAL'', 8), (''QUERY_FLAG_IDN_BUSY_RTC'', 9),
       (''QUERY_FLAG_IDN_MANUAL_GC_CONT'', 14)],
     Enum ''attr_idn'' [(''QUERY_ATTR_IDN_BOOT_LU_EN'', 0), (''QUERY_ATTR_IDN_RESERVED'', 1),
       (''QUERY_ATTR_IDN_POWER_MODE'', 2), (''QUERY_ATTR_IDN_ACTIVE_ICC_LVL'', 3),
       (''QUERY_ATTR_IDN_OOO_DATA_EN'', 4), (''QUERY_ATTR_IDN_BKOPS_STATUS'', 5),
       (''QUERY_ATTR_IDN_PURGE_STATUS'', 6), (''QUERY_ATTR_IDN_MAX_DATA_IN'', 7),
       (''QUERY_ATTR_IDN_MAX_DATA_OUT'', 8), (''QUERY_ATTR_IDN_DYN_CAP_NEEDED'', 9),
       (''QUERY_ATTR_IDN_REF_CLK_FREQ'', 10), (''QUERY_ATTR_IDN_CONF_DESC_LOCK'', 11),
       (''QUERY_ATTR_IDN_MAX_NUM_OF_RTT'', 12), (''QUERY_ATTR_IDN_EE_CONTROL'', 13),
       (''QUERY_ATTR_IDN_EE_STATUS'', 14), (''QUERY_ATTR_IDN_SECONDS_PASSED'', 15),
       (''QUERY_ATTR_IDN_CNTX_CONF'', 16), (''QUERY_ATTR_IDN_CORR_PRG_BLK_NUM'', 17),
       (''QUERY_ATTR_IDN_MANUAL_GC_STATUS'', 23)],
     Const ''QUERY_ATTR_IDN_BOOT_LU_EN_MAX'' 0x02,
     Enum ''desc_idn'' [(''QUERY_DESC_IDN_DEVICE'', 0), (''QUERY_DESC_IDN_CONFIGURAION'', 1),
       (''QUERY_DESC_IDN_UNIT'', 2), (''QUERY_DESC_IDN_RFU_0'', 3),
       (''QUERY_DESC_IDN_INTERCONNECT'', 4), (''QUERY_DESC_IDN_STRING'', 5),
       (''QUERY_DESC_IDN_RFU_1'', 6), (''QUERY_DESC_IDN_GEOMETRY'', 7),
       (''QUERY_DESC_IDN_POWER'', 8), (''QUERY_DESC_IDN_HEALTH'', 9),
       (''QUERY_DESC_IDN_RFU_2'', 10), (''QUERY_DESC_IDN_MAX'', 11)],
     Enum ''query_opcode'' [(''UPIU_QUERY_OPCODE_NOP'', 0), (''UPIU_QUERY_OPCODE_READ_DESC'', 1),
       (''UPIU_QUERY_OPCODE_WRITE_DESC'', 2), (''UPIU_QUERY_OPCODE_READ_ATTR'', 3),
       (''UPIU_QUERY_OPCODE_WRITE_ATTR'', 4), (''UPIU_QUERY_OPCODE_READ_FLAG'', 5),
       (''UPIU_QUERY_OPCODE_SET_FLAG'', 6), (''UPIU_QUERY_OPCODE_CLEAR_FLAG'', 7),
       (''UPIU_QUERY_OPCODE_TOGGLE_FLAG'', 8), (''UPIU_QUERY_OPCODE_MAX'', 9)],
     Const ''UPIU_QUERY_OPCODE_HIGH_HPB'' 0x5500]"

definition ufs_h :: "decl list" where
  "ufs_h = ufs_1"

subsection \<open>sound/voice_params.h\<close>

definition voice_params_1 :: "decl list" where
  "voice_params_1 =
    [Flag ''__VOICE_PARAMS_H__'']"

definition voice_params_2 :: "decl list" where
  "voice_params_2 =
    [Enum ''voice_lch_mode'' [(''VOICE_LCH_START'', 1), (''VOICE_LCH_STOP'', 2)],
     Request ''SNDRV_VOICE_IOCTL_LCH'' (IOW 85 0 (EnumT ''voice_lch_mode''))]"

definition voice_params_h :: "decl list" where
  "voice_params_h = voice_params_1 @ voice_params_2"

subsection \<open>media/cam_isp_ife.h\<close>

definition cam_isp_ife_1 :: "decl list" where
  "cam_isp_ife_1 =
    [Flag ''__UAPI_CAM_ISP_IFE_H__'', Const ''CAM_ISP_IFE_OUT_RES_BASE'' 0x3000,
     Const ''CAM_ISP_IFE_OUT_RES_FULL'' (0x3000 + 0),
     Const ''CAM_ISP_IFE_OUT_RES_DS4'' (0x3000 + 1),
     Const ''CAM_ISP_IFE_OUT_RES_DS16'' (0x3000 + 2),
     Const ''CAM_ISP_IFE_OUT_RES_RAW_DUMP'' (0x3000 + 3),
     Const ''CAM_ISP_IFE_OUT_RES_FD'' (0x3000 + 4),
     Const ''CAM_ISP_IFE_OUT_RES_PDAF'' (0x3000 + 5),
     Const ''CAM_ISP_IFE_OUT_RES_RDI_0'' (0x3000 + 6),
     Const ''CAM_ISP_IFE_OUT_RES_RDI_1'' (0x3000 + 7),
     Const ''CAM_ISP_IFE_OUT_RES_RDI_2'' (0x3000 + 8),
     Const ''CAM_ISP_IFE_OUT_RES_RDI_3'' (0x3000 + 9),
     Const ''CAM_ISP_IFE_OUT_RES_STATS_HDR_BE'' (0x3000 + 10),
     Const ''CAM_ISP_IFE_OUT_RES_STATS_HDR_BHIST'' (0x3000 + 11),
     Const ''CAM_ISP_IFE_OUT_RES_STATS_TL_BG'' (0x3000 + 12),
     Const ''CAM_ISP_IFE_OUT_RES_STATS_BF'' (0x3000 + 13),
     Const ''CAM_ISP_IFE_OUT_RES_STATS_AWB_BG'' (0x3000 + 14),
     Const ''CAM_ISP_IFE_OUT_RES_STATS_BHIST'' (0x3000 + 15),
     Const ''CAM_ISP_IFE_OUT_RES_STATS_RS'' (0x3000 + 16),
     Const ''CAM_ISP_IFE_OUT_RES_STATS_CS'' (0x3000 + 17),
     Const ''CAM_ISP_IFE_OUT_RES_STATS_IHIST'' (0x3000 + 18),
     Const ''CAM_ISP_IFE_OUT_RES_MAX'' (0x3000 + 19), Const ''CAM_ISP_IFE_IN_RES_BASE'' 0x4000,
     Const ''CAM_ISP_IFE_IN_RES_TPG'' (0x4000 + 0),
     Const ''CAM_ISP_IFE_IN_RES_PHY_0'' (0x4000 + 1),
     Const ''CAM_ISP_IFE_IN_RES_PHY_1'' (0x4000 + 2),
     Const ''CAM_ISP_IFE_IN_RES_PHY_2'' (0x4000 + 3),
     Const ''CAM_ISP_IFE_IN_RES_PHY_3'' (0x4000 + 4),
     Const ''CAM_ISP_IFE_IN_RES_MAX'' (0x4000 + 5)]"

definition cam_isp_ife_h :: "decl list" where
  "cam_isp_ife_h = cam_isp_ife_1"

subsection \<open>media/cam_isp_vfe.h\<close>

definition cam_isp_vfe_1 :: "decl list" where
  "cam_isp_vfe_1 =
    [Flag ''__UAPI_CAM_ISP_VFE_H__'', Const ''CAM_ISP_VFE_OUT_RES_BASE'' 0x1000,
     Const ''CAM_ISP_VFE_OUT_RES_ENC'' (0x1000 + 0),
     Const ''CAM_ISP_VFE_OUT_RES_VIEW'' (0x1000 + 1),
     Const ''CAM_ISP_VFE_OUT_RES_VID'' (0x1000 + 2),
     Const ''CAM_ISP_VFE_OUT_RES_RDI_0'' (0x1000 + 3),
     Const ''CAM_ISP_VFE_OUT_RES_RDI_1'' (0x1000 + 4),
     Const ''CAM_ISP_VFE_OUT_RES_RDI_2'' (0x1000 + 5),
     Const ''CAM_ISP_VFE_OUT_RES_RDI_3'' (0x1000 + 6),
     Const ''CAM_ISP_VFE_OUT_RES_STATS_AEC'' (0x1000 + 7),
     Const ''CAM_ISP_VFE_OUT_RES_STATS_AF'' (0x1000 + 8),
     Const ''CAM_ISP_VFE_OUT_RES_STATS_AWB'' (0x1000 + 9),
     Const ''CAM_ISP_VFE_OUT_RES_STATS_RS'' (0x1000 + 10),
     Const ''CAM_ISP_VFE_OUT_RES_STATS_CS'' (0x1000 + 11),
     Const ''CAM_ISP_VFE_OUT_RES_STATS_IHIST'' (0x1000 + 12),
     Const ''CAM_ISP_VFE_OUT_RES_STATS_SKIN'' (0x1000 + 13),
     Const ''CAM_ISP_VFE_OUT_RES_STATS_BG'' (0x1000 + 14),
     Const ''CAM_ISP_VFE_OUT_RES_STATS_BF'' (0x1000 + 15),
     Const ''CAM_ISP_VFE_OUT_RES_STATS_BE'' (0x1000 + 16),
     Const ''CAM_ISP_VFE_OUT_RES_STATS_BHIST'' (0x1000 + 17),
     Const ''CAM_ISP_VFE_OUT_RES_STATS_BF_SCALE'' (0x1000 + 18),
     Const ''CAM_ISP_VFE_OUT_RES_STATS_HDR_BE'' (0x1000 + 19),
     Const ''CAM_ISP_VFE_OUT_RES_STATS_HDR_BHIST'' (0x1000 + 20),
     Const ''CAM_ISP_VFE_OUT_RES_STATS_AEC_BG'' (0x1000 + 21),
     Const ''CAM_ISP_VFE_OUT_RES_CAMIF_RAW'' (0x1000 + 22),
     Const ''CAM_ISP_VFE_OUT_RES_IDEAL_RAW'' (0x1000 + 23),
     Const ''CAM_ISP_VFE_OUT_RES_MAX'' (0x1000 + 24), Const ''CAM_ISP_VFE_IN_RES_BASE'' 0x2000,
     Const ''CAM_ISP_VFE_IN_RES_TPG'' (0x2000 + 0),
     Const ''CAM_ISP_VFE_IN_RES_PHY_0'' (0x2000 + 1),
     Const ''CAM_ISP_VFE_IN_RES_PHY_1'' (0x2000 + 2),
     Const ''CAM_ISP_VFE_IN_RES_PHY_2'' (0x2000 + 3),
     Const ''CAM_ISP_VFE_IN_RES_PHY_3'' (0x2000 + 4),
     Const ''CAM_ISP_VFE_IN_RES_FE'' (0x2000 + 5),
     Const ''CAM_ISP_VFE_IN_RES_MAX'' (0x2000 + 6)]"

definition cam_isp_vfe_h :: "decl list" where
  "cam_isp_vfe_h = cam_isp_vfe_1"

subsection \<open>linux/spcom.h\<close>

definition spcom_user_command :: ctype where
  "spcom_user_command =
     StructT Packed [(''cmd_id'', EnumT ''spcom_cmd_id''), (''arg'', u32)]"

definition spcom_send_command :: ctype where
  "spcom_send_command =
     StructT Packed [(''cmd_id'', EnumT ''spcom_cmd_id''), (''timeout_msec'', u32),
      (''buf_size'', u32), (''buf'', ArrT CharT 0)]"

abbreviation SPCOM_CHANNEL_NAME_SIZE :: nat where "SPCOM_CHANNEL_NAME_SIZE \<equiv> 32"

definition spcom_user_create_channel_command :: ctype where
  "spcom_user_create_channel_command =
     StructT Packed [(''cmd_id'', EnumT ''spcom_cmd_id''),
      (''ch_name'', ArrT CharT SPCOM_CHANNEL_NAME_SIZE)]"

definition spcom_ion_info :: ctype where
  "spcom_ion_info =
     StructT Natural [(''fd'', s32), (''buf_offset'', u32)]"

definition spcom_ion_handle :: ctype where
  "spcom_ion_handle =
     StructT Natural [(''fd'', s32)]"

abbreviation SPCOM_MAX_ION_BUF :: nat where "SPCOM_MAX_ION_BUF \<equiv> 4"

definition spcom_user_send_modified_command :: ctype where
  "spcom_user_send_modified_command =
     StructT Packed [(''cmd_id'', EnumT ''spcom_cmd_id''),
      (''ion_info'', ArrT spcom_ion_info SPCOM_MAX_ION_BUF), (''timeout_msec'', u32),
      (''buf_size'', u32), (''buf'', ArrT CharT 0)]"

definition spcom_1 :: "decl list" where
  "spcom_1 =
    [Flag ''_SPCOM_H_'']"

definition spcom_2 :: "decl list" where
  "spcom_2 =
    [Const ''PAGE_SIZE'' 4096]"

definition spcom_3 :: "decl list" where
  "spcom_3 =
    [Const ''SPCOM_MAX_CHANNELS'' 0x20, Const ''SPCOM_CHANNEL_NAME_SIZE'' 32,
     Const ''SPCOM_GET_NEXT_REQUEST_SIZE'' 4095,
     Enum ''spcom_cmd_id'' [(''SPCOM_CMD_LOAD_APP'', 1280262468),
       (''SPCOM_CMD_RESET_SP'', 1380275028), (''SPCOM_CMD_SEND'', 1397050948),
       (''SPCOM_CMD_SEND_MODIFIED'', 1397638221), (''SPCOM_CMD_LOCK_ION_BUF'', 1280262987),
       (''SPCOM_CMD_UNLOCK_ION_BUF'', 1431061323), (''SPCOM_CMD_FSSR'', 1179865938),
       (''SPCOM_CMD_CREATE_CHANNEL'', 1129465172)],
     Enum ''spcom_poll_events'' [(''SPCOM_POLL_LINK_STATE'', 2), (''SPCOM_POLL_CH_CONNECT'', 4),
       (''SPCOM_POLL_READY_FLAG'', 16384), (''SPCOM_POLL_WAIT_FLAG'', 32768)],
     Struct ''spcom_user_command'' spcom_user_command,
     Struct ''spcom_send_command'' spcom_send_command,
     Struct ''spcom_user_create_channel_command'' spcom_user_create_channel_command,
     Const ''SPCOM_MAX_ION_BUF'' 4, Struct ''spcom_ion_info'' spcom_ion_info,
     Const ''SPCOM_ION_FD_UNLOCK_ALL'' 0xFFFF, Struct ''spcom_ion_handle'' spcom_ion_handle,
     Struct ''spcom_user_send_modified_command'' spcom_user_send_modified_command]"

definition spcom_h :: "decl list" where
  "spcom_h = spcom_1 @ spcom_2 @ spcom_3"

subsection \<open>linux/msm_thermal_ioctl.h\<close>

definition cpu_freq_arg :: ctype where
  "cpu_freq_arg =
     StructT Packed [(''cpu_num'', u32), (''freq_req'', u32)]"

abbreviation MSM_IOCTL_FREQ_SIZE :: nat where "MSM_IOCTL_FREQ_SIZE \<equiv> 16"

definition clock_plan_arg :: ctype where
  "clock_plan_arg =
     StructT Packed [(''cluster_num'', u32), (''freq_table_len'', u32), (''set_idx'', u32),
      (''freq_table'', ArrT u32 MSM_IOCTL_FREQ_SIZE)]"

definition voltage_plan_arg :: ctype where
  "voltage_plan_arg =
     StructT Packed [(''cluster_num'', u32), (''voltage_table_len'', u32), (''set_idx'', u32),
      (''voltage_table'', ArrT u32 MSM_IOCTL_FREQ_SIZE)]"

definition msm_thermal_ioctl :: ctype where
  "msm_thermal_ioctl =
     StructT Packed [(''size'', u32), ('''', UnionT Natural [(''cpu_freq'', cpu_freq_arg),
      (''clock_freq'', clock_plan_arg), (''voltage'', voltage_plan_arg)])]"

definition msm_thermal_ioctl_1 :: "decl list" where
  "msm_thermal_ioctl_1 =
    [Flag ''_MSM_THERMAL_IOCTL_H'']"

abbreviation MSM_THERMAL_MAGIC_NUM :: nat where "MSM_THERMAL_MAGIC_NUM \<equiv> 202"

abbreviation MSM_SET_CPU_MAX_FREQ :: nat where "MSM_SET_CPU_MAX_FREQ \<equiv> 0"

abbreviation MSM_SET_CPU_MIN_FREQ :: nat where "MSM_SET_CPU_MIN_FREQ \<equiv> 1"

abbreviation MSM_SET_CLUSTER_MAX_FREQ :: nat where "MSM_SET_CLUSTER_MAX_FREQ \<equiv> 2"

abbreviation MSM_SET_CLUSTER_MIN_FREQ :: nat where "MSM_SET_CLUSTER_MIN_FREQ \<equiv> 3"

abbreviation MSM_GET_CLUSTER_FREQ_PLAN :: nat where "MSM_GET_CLUSTER_FREQ_PLAN \<equiv> 4"

abbreviation MSM_GET_CLUSTER_VOLTAGE_PLAN :: nat where "MSM_GET_CLUSTER_VOLTAGE_PLAN \<equiv> 5"

definition msm_thermal_ioctl_2 :: "decl list" where
  "msm_thermal_ioctl_2 =
    [Text ''MSM_THERMAL_IOCTL_NAME'' ''msm_thermal_query'', Const ''MSM_IOCTL_FREQ_SIZE'' 16,
     Struct ''cpu_freq_arg'' cpu_freq_arg, Struct ''clock_plan_arg'' clock_plan_arg,
     Struct ''voltage_plan_arg'' voltage_plan_arg,
     Struct ''msm_thermal_ioctl'' msm_thermal_ioctl,
     Enum '''' [(''MSM_SET_CPU_MAX_FREQ'', 0), (''MSM_SET_CPU_MIN_FREQ'', 1),
       (''MSM_SET_CLUSTER_MAX_FREQ'', 2), (''MSM_SET_CLUSTER_MIN_FREQ'', 3),
       (''MSM_GET_CLUSTER_FREQ_PLAN'', 4), (''MSM_GET_CLUSTER_VOLTAGE_PLAN'', 5),
       (''MSM_CMD_MAX_NR'', 6)],
     Const ''MSM_THERMAL_MAGIC_NUM'' 0xCA,
     Request ''MSM_THERMAL_SET_CPU_MAX_FREQUENCY'' (IOW MSM_THERMAL_MAGIC_NUM MSM_SET_CPU_MAX_FREQ msm_thermal_ioctl),
     Request ''MSM_THERMAL_SET_CPU_MIN_FREQUENCY'' (IOW MSM_THERMAL_MAGIC_NUM MSM_SET_CPU_MIN_FREQ msm_thermal_ioctl),
     Request ''MSM_THERMAL_SET_CLUSTER_MAX_FREQUENCY'' (IOW MSM_THERMAL_MAGIC_NUM MSM_SET_CLUSTER_MAX_FREQ msm_thermal_ioctl),
     Request ''MSM_THERMAL_SET_CLUSTER_MIN_FREQUENCY'' (IOW MSM_THERMAL_MAGIC_NUM MSM_SET_CLUSTER_MIN_FREQ msm_thermal_ioctl),
     Request ''MSM_THERMAL_GET_CLUSTER_FREQUENCY_PLAN'' (IOR MSM_THERMAL_MAGIC_NUM MSM_GET_CLUSTER_FREQ_PLAN msm_thermal_ioctl),
     Request ''MSM_THERMAL_GET_CLUSTER_VOLTAGE_PLAN'' (IOR MSM_THERMAL_MAGIC_NUM MSM_GET_CLUSTER_VOLTAGE_PLAN msm_thermal_ioctl)]"

definition msm_thermal_ioctl_h :: "decl list" where
  "msm_thermal_ioctl_h = msm_thermal_ioctl_1 @ msm_thermal_ioctl_2"

subsection \<open>linux/msm_pft.h\<close>

definition pft_command_response :: ctype where
  "pft_command_response =
     StructT Natural [(''command_id'', u32), (''error_code'', u32)]"

definition pft_command :: ctype where
  "pft_command =
     StructT Natural [(''opcode'', u32),
      ('''', UnionT Natural [(''set_state'', StructT Natural [(''state'', u32)]),
      (''update_app_list'', StructT Natural [(''items_count'', u32),
      (''table'', ArrT (ForeignT ''uid_t'') 0)]),
      (''preform_in_place_file_enc'', StructT Natural [(''file_descriptor'', u32)])])]"

definition msm_pft_1 :: "decl list" where
  "msm_pft_1 =
    [Flag ''MSM_PFT_H_'']"

definition msm_pft_2 :: "decl list" where
  "msm_pft_2 =
    [Enum ''pft_command_opcode'' [(''PFT_CMD_OPCODE_SET_STATE'', 0),
       (''PFT_CMD_OPCODE_UPDATE_REG_APP_UID'', 1),
       (''PFT_CMD_OPCODE_PERFORM_IN_PLACE_FILE_ENC'', 2),
       (''PFT_CMD_OPCODE_MAX_COMMAND_INDEX'', 3)]]"

definition msm_pft_3 :: "decl list" where
  "msm_pft_3 =
    [Enum ''pft_state'' [(''PFT_STATE_DEACTIVATED'', 0), (''PFT_STATE_DEACTIVATING'', 1),
       (''PFT_STATE_KEY_REMOVED'', 2), (''PFT_STATE_REMOVING_KEY'', 3),
       (''PFT_STATE_KEY_LOADED'', 4), (''PFT_STATE_MAX_INDEX'', 5)]]"

definition msm_pft_4 :: "decl list" where
  "msm_pft_4 =
    [Enum ''pft_command_response_code'' [(''PFT_CMD_RESP_SUCCESS'', 0),
       (''PFT_CMD_RESP_GENERAL_ERROR'', 1), (''PFT_CMD_RESP_INVALID_COMMAND'', 2),
       (''PFT_CMD_RESP_INVALID_CMD_PARAMS'', 3), (''PFT_CMD_RESP_INVALID_STATE'', 4),
       (''PFT_CMD_RESP_ALREADY_IN_STATE'', 5), (''PFT_CMD_RESP_INPLACE_FILE_IS_OPEN'', 6),
       (''PFT_CMD_RESP_ENT_FILES_CLOSING_FAILURE'', 7), (''PFT_CMD_RESP_MAX_INDEX'', 8)],
     Struct ''pft_command_response'' pft_command_response]"

definition msm_pft_5 :: "decl list" where
  "msm_pft_5 =
    [Struct ''pft_command'' pft_command]"

definition msm_pft_h :: "decl list" where
  "msm_pft_h = msm_pft_1 @ msm_pft_2 @ msm_pft_3 @ msm_pft_4 @ msm_pft_5"

subsection \<open>linux/msm-core-interface.h\<close>

abbreviation TEMP_DATA_POINTS :: nat where "TEMP_DATA_POINTS \<equiv> 13"

abbreviation MAX_NUM_FREQ :: nat where "MAX_NUM_FREQ \<equiv> 200"

definition sched_params :: ctype where
  "sched_params =
     StructT Natural [(''cpumask'', u32), (''cluster'', u32),
      (''power'', ArrT (ArrT u32 MAX_NUM_FREQ) TEMP_DATA_POINTS),
      (''voltage'', ArrT u32 MAX_NUM_FREQ), (''freq'', ArrT u32 MAX_NUM_FREQ)]"

definition msm_core_interface_1 :: "decl list" where
  "msm_core_interface_1 =
    [Flag ''__MSM_CORE_LIB_H__'']"

abbreviation MSM_CORE_MAGIC :: nat where "MSM_CORE_MAGIC \<equiv> 157"

abbreviation MSM_CORE_LEAKAGE :: nat where "MSM_CORE_LEAKAGE \<equiv> 0"

abbreviation MSM_CORE_VOLTAGE :: nat where "MSM_CORE_VOLTAGE \<equiv> 1"

definition msm_core_interface_2 :: "decl list" where
  "msm_core_interface_2 =
    [Const ''TEMP_DATA_POINTS'' 13, Const ''MAX_NUM_FREQ'' 200,
     Enum ''msm_core_ioctl_params'' [(''MSM_CORE_LEAKAGE'', 0), (''MSM_CORE_VOLTAGE'', 1)],
     Const ''MSM_CORE_MAGIC'' 0x9D, Struct ''sched_params'' sched_params,
     Request ''EA_LEAKAGE'' (IOWR MSM_CORE_MAGIC MSM_CORE_LEAKAGE sched_params),
     Request ''EA_VOLT'' (IOWR MSM_CORE_MAGIC MSM_CORE_VOLTAGE sched_params)]"

definition msm_core_interface_h :: "decl list" where
  "msm_core_interface_h = msm_core_interface_1 @ msm_core_interface_2"

subsection \<open>scsi/ufs/ioctl.h\<close>

definition ufs_ioctl_query_data :: ctype where
  "ufs_ioctl_query_data =
     StructT Natural [(''opcode'', u32), (''idn'', u8), (''buf_size'', u16),
      (''buffer'', ArrT u8 0)]"

definition ioctl_1 :: "decl list" where
  "ioctl_1 =
    [Flag ''UAPI_UFS_IOCTL_H_'']"

definition ioctl_2 :: "decl list" where
  "ioctl_2 =
    [Const ''UFS_IOCTL_QUERY'' 0x5388]"

definition ioctl_3 :: "decl list" where
  "ioctl_3 =
    [Struct ''ufs_ioctl_query_data'' ufs_ioctl_query_data]"

definition ioctl_h :: "decl list" where
  "ioctl_h = ioctl_1 @ ioctl_2 @ ioctl_3"

subsection \<open>linux/avtimer.h\<close>

definition avtimer_1 :: "decl list" where
  "avtimer_1 =
    [Flag ''_AVTIMER_H'']"

abbreviation MAJOR_NUM :: nat where "MAJOR_NUM \<equiv> 100"

definition avtimer_2 :: "decl list" where
  "avtimer_2 =
    [Const ''MAJOR_NUM'' 100, Request ''IOCTL_GET_AVTIMER_TICK'' (IOR MAJOR_NUM 0 u64)]"

definition avtimer_h :: "decl list" where
  "avtimer_h = avtimer_1 @ avtimer_2"

subsection \<open>linux/msm_dsps.h\<close>

definition msm_dsps_1 :: "decl list" where
  "msm_dsps_1 =
    [Flag ''_DSPS_H_'']"

abbreviation DSPS_IOCTL_MAGIC :: nat where "DSPS_IOCTL_MAGIC \<equiv> 100"

definition msm_dsps_2 :: "decl list" where
  "msm_dsps_2 =
    [Const ''DSPS_IOCTL_MAGIC'' 100, Request ''DSPS_IOCTL_ON'' (IO DSPS_IOCTL_MAGIC 1),
     Request ''DSPS_IOCTL_OFF'' (IO DSPS_IOCTL_MAGIC 2),
     Request ''DSPS_IOCTL_READ_SLOW_TIMER'' (IOR DSPS_IOCTL_MAGIC 3 PtrT),
     Request ''DSPS_IOCTL_READ_FAST_TIMER'' (IOR DSPS_IOCTL_MAGIC 4 PtrT),
     Request ''DSPS_IOCTL_RESET'' (IO DSPS_IOCTL_MAGIC 5)]"

definition msm_dsps_h :: "decl list" where
  "msm_dsps_h = msm_dsps_1 @ msm_dsps_2"

subsection \<open>linux/msm_adsp.h\<close>

definition adsp_command_t :: ctype where
  "adsp_command_t =
     StructT Natural [(''queue'', u16), (''len'', u32), (''data'', PtrT)]"

definition adsp_event_t :: ctype where
  "adsp_event_t =
     StructT Natural [(''type'', u16), (''timeout_ms'', u32), (''msg_id'', u16),
      (''flags'', u16), (''len'', u32), (''data'', PtrT)]"

definition msm_adsp_1 :: "decl list" where
  "msm_adsp_1 =
    [Flag ''_LINUX_MSM_ADSP_H'']"

abbreviation ADSP_IOCTL_MAGIC :: nat where "ADSP_IOCTL_MAGIC \<equiv> 113"

definition msm_adsp_2 :: "decl list" where
  "msm_adsp_2 =
    [Const ''ADSP_IOCTL_MAGIC'' 113, Struct ''adsp_command_t'' adsp_command_t,
     Struct ''adsp_event_t'' adsp_event_t,
     Request ''ADSP_IOCTL_ENABLE'' (IOR ADSP_IOCTL_MAGIC 1 u32),
     Request ''ADSP_IOCTL_DISABLE'' (IOR ADSP_IOCTL_MAGIC 2 u32),
     Request ''ADSP_IOCTL_DISABLE_ACK'' (IOR ADSP_IOCTL_MAGIC 3 u32),
     Request ''ADSP_IOCTL_WRITE_COMMAND'' (IOR ADSP_IOCTL_MAGIC 4 PtrT),
     Request ''ADSP_IOCTL_GET_EVENT'' (IOWR ADSP_IOCTL_MAGIC 5 PtrT),
     Request ''ADSP_IOCTL_SET_CLKRATE'' (IOR ADSP_IOCTL_MAGIC 6 u32),
     Request ''ADSP_IOCTL_DISABLE_EVENT_RSP'' (IOR ADSP_IOCTL_MAGIC 10 u32),
     Request ''ADSP_IOCTL_REGISTER_PMEM'' (IOW ADSP_IOCTL_MAGIC 13 u32),
     Request ''ADSP_IOCTL_UNREGISTER_PMEM'' (IOW ADSP_IOCTL_MAGIC 14 u32),
     Request ''ADSP_IOCTL_ABORT_EVENT_READ'' (IOW ADSP_IOCTL_MAGIC 15 u32),
     Request ''ADSP_IOCTL_LINK_TASK'' (IOW ADSP_IOCTL_MAGIC 16 u32)]"

definition msm_adsp_h :: "decl list" where
  "msm_adsp_h = msm_adsp_1 @ msm_adsp_2"

lemmas misc_structs =
  qseecom_register_listener_req_def qseecom_send_cmd_req_def qseecom_ion_fd_info_def
  qseecom_send_modfd_cmd_req_def qseecom_send_resp_req_def qseecom_load_img_req_def
  qseecom_set_sb_mem_param_req_def qseecom_qseos_version_req_def qseecom_qseos_app_load_query_def
  qseecom_send_svc_cmd_req_def qseecom_create_key_req_def qseecom_wipe_key_req_def
  qseecom_update_key_userinfo_req_def qseecom_save_partition_hash_req_def
  qseecom_is_es_activated_req_def qseecom_mdtp_cipher_dip_req_def
  qseecom_send_modfd_listener_resp_def qseecom_qteec_req_def qseecom_qteec_modfd_req_def
  qseecom_sg_entry_def qseecom_sg_entry_64bit_def qseecom_sg_list_buf_hdr_64bit_def
  qseecom_ce_pipe_entry_def qseecom_ce_info_req_def spcom_user_command_def spcom_send_command_def
  spcom_user_create_channel_command_def spcom_ion_info_def spcom_ion_handle_def
  spcom_user_send_modified_command_def cpu_freq_arg_def clock_plan_arg_def voltage_plan_arg_def
  msm_thermal_ioctl_def pft_command_response_def pft_command_def sched_params_def
  ufs_ioctl_query_data_def adsp_command_t_def adsp_event_t_def

lemmas misc_decls =
  qseecom_1_def qseecom_2_def qseecom_3_def qseecom_4_def qseecom_5_def ioctls_1_def ioctls_2_def
  ioctls_3_def ioctls_4_def ioctls_5_def ioctls_6_def sockios_1_def sockios_2_def sockios_3_def
  ufs_1_def voice_params_1_def voice_params_2_def cam_isp_ife_1_def cam_isp_vfe_1_def spcom_1_def
  spcom_2_def spcom_3_def msm_thermal_ioctl_1_def msm_thermal_ioctl_2_def msm_pft_1_def
  msm_pft_2_def msm_pft_3_def msm_pft_4_def msm_pft_5_def msm_core_interface_1_def
  msm_core_interface_2_def ioctl_1_def ioctl_2_def ioctl_3_def avtimer_1_def avtimer_2_def
  msm_dsps_1_def msm_dsps_2_def msm_adsp_1_def msm_adsp_2_def qseecom_h_def ioctls_h_def
  sockios_h_def ufs_h_def voice_params_h_def cam_isp_ife_h_def cam_isp_vfe_h_def spcom_h_def
  msm_thermal_ioctl_h_def msm_pft_h_def msm_core_interface_h_def ioctl_h_def avtimer_h_def
  msm_dsps_h_def msm_adsp_h_def

text \<open>All structures and unions, in the order of the files.\<close>

definition misc_types :: "ctype list" where
  "misc_types =
    [qseecom_register_listener_req, qseecom_send_cmd_req, qseecom_ion_fd_info,
     qseecom_send_modfd_cmd_req, qseecom_send_resp_req, qseecom_load_img_req,
     qseecom_set_sb_mem_param_req, qseecom_qseos_version_req, qseecom_qseos_app_load_query,
     qseecom_send_svc_cmd_req, qseecom_create_key_req, qseecom_wipe_key_req,
     qseecom_update_key_userinfo_req, qseecom_save_partition_hash_req,
     qseecom_is_es_activated_req, qseecom_mdtp_cipher_dip_req, qseecom_send_modfd_listener_resp,
     qseecom_qteec_req, qseecom_qteec_modfd_req, qseecom_sg_entry, qseecom_sg_entry_64bit,
     qseecom_sg_list_buf_hdr_64bit, qseecom_ce_pipe_entry, qseecom_ce_info_req,
     spcom_user_command, spcom_send_command, spcom_user_create_channel_command, spcom_ion_info,
     spcom_ion_handle, spcom_user_send_modified_command, cpu_freq_arg, clock_plan_arg,
     voltage_plan_arg, msm_thermal_ioctl, pft_command_response, pft_command, sched_params,
     ufs_ioctl_query_data, adsp_command_t, adsp_event_t]"

text \<open>The structures made to look the same to 32-bit and 64-bit processes.\<close>

definition misc_portable :: "ctype list" where
  "misc_portable =
    [spcom_user_command, spcom_send_command, spcom_user_create_channel_command, spcom_ion_info,
     spcom_ion_handle, spcom_user_send_modified_command, cpu_freq_arg, clock_plan_arg,
     voltage_plan_arg, msm_thermal_ioctl, sched_params, ufs_ioctl_query_data]"

end
