(* ===== verification/LayoutCorrect.thy ===== *)
theory LayoutCorrect
  imports LayoutDrm LayoutVideo LayoutIpa LayoutQmi LayoutKgsl LayoutMdp LayoutCal LayoutAudio
    LayoutSound LayoutCamera LayoutSensor LayoutCam LayoutControls LayoutMisc
begin

text \<open>
  The structures of the device interfaces that are meant for 32-bit and 64-bit processes
  alike, and the requests of every driver, with the lemmas that evaluate them.
\<close>

section \<open>The same layout for 32-bit and 64-bit processes\<close>

definition portable_types :: "ctype list" where
  "portable_types =
     drm_portable @ video_portable @ ipa_portable @ qmi_portable @ cal_portable @
     audio_portable @ sound_portable @ sensor_portable @ cam_portable @ misc_portable"

text \<open>
  Three structures of the display controller end with types of the kernel's own headers.
\<close>

definition drm_foreign :: "string list" where
  "drm_foreign = [''struct drm_event'', ''struct drm_clip_rect'']"

lemma drm_portable_ok: "list_all (portable drm_foreign) drm_portable"
  by (simp add: drm_portable_def drm_structs drm_foreign_def)

lemma video_portable_ok: "list_all (portable drm_foreign) video_portable"
  by (simp add: video_portable_def video_structs drm_foreign_def)

lemma ipa_portable_ok: "list_all (portable drm_foreign) ipa_portable"
  by (simp add: ipa_portable_def ipa_structs qmi_structs drm_foreign_def)

lemma qmi_portable_ok: "list_all (portable drm_foreign) qmi_portable"
  by (simp add: qmi_portable_def qmi_structs drm_foreign_def)

lemma cal_portable_ok: "list_all (portable drm_foreign) cal_portable"
  by (simp add: cal_portable_def cal_structs drm_foreign_def)

lemma audio_portable_ok: "list_all (portable drm_foreign) audio_portable"
  by (simp add: audio_portable_def audio_structs drm_foreign_def)

lemma sound_portable_ok: "list_all (portable drm_foreign) sound_portable"
  by (simp add: sound_portable_def sound_structs drm_foreign_def)

lemma sensor_portable_ok: "list_all (portable drm_foreign) sensor_portable"
  by (simp add: sensor_portable_def sensor_structs drm_foreign_def)

lemma cam_portable_ok: "list_all (portable drm_foreign) cam_portable"
  by (simp add: cam_portable_def cam_structs drm_foreign_def)

lemma misc_portable_ok: "list_all (portable drm_foreign) misc_portable"
  by (simp add: misc_portable_def misc_structs drm_foreign_def)

lemma portable_types_ok: "list_all (portable drm_foreign) portable_types"
  by (simp add: portable_types_def drm_portable_ok video_portable_ok ipa_portable_ok qmi_portable_ok cal_portable_ok
      audio_portable_ok sound_portable_ok sensor_portable_ok cam_portable_ok misc_portable_ok)

section \<open>Requests\<close>

text \<open>
  The requests of a driver, without those that are known to share a number with another: the
  older names of the graphics driver, the second names of a request of the IP accelerator and of
  the frame buffer, the infra-red lights of the camera, and the post-processor and the second
  audio device, which are devices of their own.
\<close>

definition driver_requests :: "string list \<Rightarrow> decl list \<Rightarrow> ioctl list" where
  "driver_requests shared ds =
     map snd (filter (\<lambda>(n, i). n \<notin> set shared) (requests ds))"

lemma all_requests: "driver_requests [] ds = map snd (requests ds)"
  by (simp add: driver_requests_def)

lemma msm_drm_h_distinct: "distinct (map ioc_key (driver_requests [] (msm_drm_h DRM_COMMAND_BASE DRM_IOCTL_BASE)))"
  unfolding all_requests drm_decls by (simp cong: requests_cong)

lemma videodev2_h_distinct: "distinct (map ioc_key (driver_requests [] videodev2_h))"
  unfolding all_requests video_decls by (simp cong: requests_cong)

lemma msm_vidc_dec_h_distinct: "distinct (map ioc_key (driver_requests [] msm_vidc_dec_h))"
  unfolding all_requests video_decls by (simp cong: requests_cong)

lemma msm_vidc_enc_h_distinct: "distinct (map ioc_key (driver_requests [] msm_vidc_enc_h))"
  unfolding all_requests video_decls by (simp cong: requests_cong)

lemma msm_vpu_h_distinct: "distinct (map ioc_key (driver_requests [] msm_vpu_h))"
  unfolding all_requests video_decls by (simp cong: requests_cong)

lemma msm_sde_rotator_h_distinct: "distinct (map ioc_key (driver_requests [] msm_sde_rotator_h))"
  unfolding all_requests video_decls by (simp cong: requests_cong)

lemma msm_fd_h_distinct: "distinct (map ioc_key (driver_requests [] msm_fd_h))"
  unfolding all_requests video_decls by (simp cong: requests_cong)

lemma msm_gestures_h_distinct: "distinct (map ioc_key (driver_requests [] msm_gestures_h))"
  unfolding all_requests video_decls by (simp cong: requests_cong)

lemma msm_ipa_h_distinct:
  "distinct (map ioc_key (driver_requests [''IPA_IOC_NAT_DMA''] (msm_ipa_h ETH_ALEN)))"
  unfolding driver_requests_def ipa_decls
  by (simp cong: requests_cong if_weak_cong)

lemma rmnet_ipa_fd_ioctl_h_distinct: "distinct (map ioc_key (driver_requests [] rmnet_ipa_fd_ioctl_h))"
  unfolding all_requests ipa_decls by (simp cong: requests_cong)

lemma msm_kgsl_h_distinct:
  "distinct (map ioc_key (driver_requests [''IOCTL_KGSL_CMDSTREAM_READTIMESTAMP_OLD'',
     ''IOCTL_KGSL_CMDSTREAM_FREEMEMONTIMESTAMP_OLD'', ''IOCTL_KGSL_TIMESTAMP_EVENT_OLD''] msm_kgsl_h))"
  unfolding driver_requests_def kgsl_decls
  by (simp cong: requests_cong if_weak_cong)

lemma ion_h_distinct: "distinct (map ioc_key (driver_requests [] ion_h))"
  unfolding all_requests kgsl_decls by (simp cong: requests_cong)

lemma msm_ion_h_distinct: "distinct (map ioc_key (driver_requests [] msm_ion_h))"
  unfolding all_requests kgsl_decls by (simp cong: requests_cong)

lemma msm_mdp_h_distinct:
  "distinct (map ioc_key (driver_requests [''MSMFB_OVERLAY_QUEUE''] msm_mdp_h))"
  unfolding driver_requests_def mdp_decls
  by (simp cong: requests_cong if_weak_cong)

lemma msm_mdp_ext_h_distinct: "distinct (map ioc_key (driver_requests [] msm_mdp_ext_h))"
  unfolding all_requests mdp_decls by (simp cong: requests_cong)

lemma mdss_rotator_h_distinct: "distinct (map ioc_key (driver_requests [] mdss_rotator_h))"
  unfolding all_requests mdp_decls by (simp cong: requests_cong)

lemma msm_rotator_h_distinct: "distinct (map ioc_key (driver_requests [] msm_rotator_h))"
  unfolding all_requests mdp_decls by (simp cong: requests_cong)

lemma msm_audio_calibration_h_distinct: "distinct (map ioc_key (driver_requests [] msm_audio_calibration_h))"
  unfolding all_requests cal_decls by (simp cong: requests_cong)

lemma msmcal_hwdep_h_distinct: "distinct (map ioc_key (driver_requests [] msmcal_hwdep_h))"
  unfolding all_requests cal_decls by (simp cong: requests_cong)

lemma msm_audio_h_distinct:
  "distinct (map ioc_key (driver_requests [''CAD_SET_DEVICE'', ''CAD_SET_VOLUME'', ''CAD_GET_NUM_ENDPOINTS'', ''CAD_GET_ENDPOINT''] msm_audio_h))"
  unfolding driver_requests_def audio_decls
  by (simp cong: requests_cong if_weak_cong)

lemma msm_audio_aac_h_distinct: "distinct (map ioc_key (driver_requests [] msm_audio_aac_h))"
  unfolding all_requests audio_decls by (simp cong: requests_cong)

lemma msm_audio_ac3_h_distinct: "distinct (map ioc_key (driver_requests [] msm_audio_ac3_h))"
  unfolding all_requests audio_decls by (simp cong: requests_cong)

lemma msm_audio_alac_h_distinct: "distinct (map ioc_key (driver_requests [] msm_audio_alac_h))"
  unfolding all_requests audio_decls by (simp cong: requests_cong)

lemma msm_audio_amrnb_h_distinct: "distinct (map ioc_key (driver_requests [] msm_audio_amrnb_h))"
  unfolding all_requests audio_decls by (simp cong: requests_cong)

lemma msm_audio_amrwb_h_distinct: "distinct (map ioc_key (driver_requests [] msm_audio_amrwb_h))"
  unfolding all_requests audio_decls by (simp cong: requests_cong)

lemma msm_audio_amrwbplus_h_distinct: "distinct (map ioc_key (driver_requests [] msm_audio_amrwbplus_h))"
  unfolding all_requests audio_decls by (simp cong: requests_cong)

lemma msm_audio_ape_h_distinct: "distinct (map ioc_key (driver_requests [] msm_audio_ape_h))"
  unfolding all_requests audio_decls by (simp cong: requests_cong)

lemma msm_audio_mvs_h_distinct: "distinct (map ioc_key (driver_requests [] msm_audio_mvs_h))"
  unfolding all_requests audio_decls by (simp cong: requests_cong)

lemma msm_audio_qcp_h_distinct: "distinct (map ioc_key (driver_requests [] msm_audio_qcp_h))"
  unfolding all_requests audio_decls by (simp cong: requests_cong)

lemma msm_audio_sbc_h_distinct: "distinct (map ioc_key (driver_requests [] msm_audio_sbc_h))"
  unfolding all_requests audio_decls by (simp cong: requests_cong)

lemma msm_audio_voicememo_h_distinct: "distinct (map ioc_key (driver_requests [] msm_audio_voicememo_h))"
  unfolding all_requests audio_decls by (simp cong: requests_cong)

lemma msm_audio_wma_h_distinct: "distinct (map ioc_key (driver_requests [] msm_audio_wma_h))"
  unfolding all_requests audio_decls by (simp cong: requests_cong)

lemma msm_audio_wmapro_h_distinct: "distinct (map ioc_key (driver_requests [] msm_audio_wmapro_h))"
  unfolding all_requests audio_decls by (simp cong: requests_cong)

lemma devdep_params_h_distinct: "distinct (map ioc_key (driver_requests [] devdep_params_h))"
  unfolding all_requests audio_decls by (simp cong: requests_cong)

lemma lsm_params_h_distinct: "distinct (map ioc_key (driver_requests [] lsm_params_h))"
  unfolding all_requests audio_decls by (simp cong: requests_cong)

lemma compress_offload_h_distinct: "distinct (map ioc_key (driver_requests [] compress_offload_h))"
  unfolding all_requests sound_decls by (simp cong: requests_cong)

lemma asound_h_distinct: "distinct (map ioc_key (driver_requests [] (asound_h timespec_size)))"
  unfolding all_requests sound_decls by (simp cong: requests_cong)

lemma msm_camera_h_distinct:
  "distinct (map ioc_key (driver_requests [''VIDIOC_MSM_CPP_CFG'', ''VIDIOC_MSM_CPP_GET_EVENTPAYLOAD'',
     ''VIDIOC_MSM_CPP_GET_INST_INFO''] (msm_camera_h MEDIA_ENT_F_IO_V4L)))"
  unfolding driver_requests_def camera_decls
  by (simp cong: requests_cong if_weak_cong)

lemma msm_mercury_h_distinct: "distinct (map ioc_key (driver_requests [] msm_mercury_h))"
  unfolding all_requests camera_decls by (simp cong: requests_cong)

lemma msm_gemini_h_distinct: "distinct (map ioc_key (driver_requests [] msm_gemini_h))"
  unfolding all_requests camera_decls by (simp cong: requests_cong)

lemma msm_jpeg_h_distinct: "distinct (map ioc_key (driver_requests [] msm_jpeg_h))"
  unfolding all_requests camera_decls by (simp cong: requests_cong)

lemma msm_cam_sensor_h_distinct:
  "distinct (map ioc_key (driver_requests [''VIDIOC_MSM_IR_LED_CFG'', ''VIDIOC_MSM_IR_CUT_CFG''] msm_cam_sensor_h))"
  unfolding driver_requests_def sensor_decls
  by (simp cong: requests_cong if_weak_cong)

lemma msmb_camera_h_distinct: "distinct (map ioc_key (driver_requests [] (msmb_camera_h MEDIA_ENT_F_IO_V4L MEDIA_ENT_F_OLD_BASE)))"
  unfolding all_requests sensor_decls by (simp cong: requests_cong)

lemma msmb_isp_h_distinct: "distinct (map ioc_key (driver_requests [] msmb_isp_h))"
  unfolding all_requests sensor_decls by (simp cong: requests_cong)

lemma msmb_ispif_h_distinct: "distinct (map ioc_key (driver_requests [] msmb_ispif_h))"
  unfolding all_requests sensor_decls by (simp cong: requests_cong)

lemma msmb_pproc_h_distinct:
  "distinct (map ioc_key (driver_requests [''VIDIOC_MSM_CPP_CFG'', ''VIDIOC_MSM_CPP_GET_EVENTPAYLOAD'',
     ''VIDIOC_MSM_CPP_GET_INST_INFO''] msmb_pproc_h))"
  unfolding driver_requests_def sensor_decls
  by (simp cong: requests_cong if_weak_cong)

lemma msmb_generic_buf_mgr_h_distinct: "distinct (map ioc_key (driver_requests [] msmb_generic_buf_mgr_h))"
  unfolding all_requests sensor_decls by (simp cong: requests_cong)

lemma cam_defs_h_distinct: "distinct (map ioc_key (driver_requests [] cam_defs_h))"
  unfolding all_requests cam_decls by (simp cong: requests_cong)

lemma cam_sync_h_distinct: "distinct (map ioc_key (driver_requests [] (cam_sync_h MEDIA_ENT_F_OLD_BASE)))"
  unfolding all_requests cam_decls by (simp cong: requests_cong)

lemma cam_sensor_h_distinct: "distinct (map ioc_key (driver_requests [] cam_sensor_h))"
  unfolding all_requests cam_decls by (simp cong: requests_cong)

lemma qseecom_h_distinct: "distinct (map ioc_key (driver_requests [] qseecom_h))"
  unfolding all_requests misc_decls by (simp cong: requests_cong)

lemma ioctls_h_distinct: "distinct (map ioc_key (driver_requests [] ioctls_h))"
  unfolding all_requests misc_decls by (simp cong: requests_cong)

lemma voice_params_h_distinct: "distinct (map ioc_key (driver_requests [] voice_params_h))"
  unfolding all_requests misc_decls by (simp cong: requests_cong)

lemma msm_thermal_ioctl_h_distinct: "distinct (map ioc_key (driver_requests [] msm_thermal_ioctl_h))"
  unfolding all_requests misc_decls by (simp cong: requests_cong)

lemma msm_core_interface_h_distinct: "distinct (map ioc_key (driver_requests [] msm_core_interface_h))"
  unfolding all_requests misc_decls by (simp cong: requests_cong)

lemma avtimer_h_distinct: "distinct (map ioc_key (driver_requests [] avtimer_h))"
  unfolding all_requests misc_decls by (simp cong: requests_cong)

lemma msm_dsps_h_distinct: "distinct (map ioc_key (driver_requests [] msm_dsps_h))"
  unfolding all_requests misc_decls by (simp cong: requests_cong)

lemma msm_adsp_h_distinct: "distinct (map ioc_key (driver_requests [] msm_adsp_h))"
  unfolding all_requests misc_decls by (simp cong: requests_cong)

definition device_headers :: "nat \<Rightarrow> nat \<Rightarrow> nat \<Rightarrow> nat \<Rightarrow> nat \<Rightarrow> nat \<Rightarrow> (string list \<times> decl list) list" where
  "device_headers DRM_COMMAND_BASE DRM_IOCTL_BASE ETH_ALEN MEDIA_ENT_F_IO_V4L MEDIA_ENT_F_OLD_BASE timespec_size =
    [([], msm_drm_h DRM_COMMAND_BASE DRM_IOCTL_BASE), ([], videodev2_h), ([], msm_vidc_dec_h),
     ([], msm_vidc_enc_h), ([], msm_vpu_h), ([], msm_sde_rotator_h), ([], msm_fd_h),
     ([], msm_gestures_h), ([''IPA_IOC_NAT_DMA''], msm_ipa_h ETH_ALEN),
     ([], rmnet_ipa_fd_ioctl_h),
     ([''IOCTL_KGSL_CMDSTREAM_READTIMESTAMP_OLD'',
     ''IOCTL_KGSL_CMDSTREAM_FREEMEMONTIMESTAMP_OLD'', ''IOCTL_KGSL_TIMESTAMP_EVENT_OLD''], msm_kgsl_h),
     ([], ion_h), ([], msm_ion_h), ([''MSMFB_OVERLAY_QUEUE''], msm_mdp_h), ([], msm_mdp_ext_h),
     ([], mdss_rotator_h), ([], msm_rotator_h), ([], msm_audio_calibration_h),
     ([], msmcal_hwdep_h),
     ([''CAD_SET_DEVICE'', ''CAD_SET_VOLUME'', ''CAD_GET_NUM_ENDPOINTS'', ''CAD_GET_ENDPOINT''], msm_audio_h),
     ([], msm_audio_aac_h), ([], msm_audio_ac3_h), ([], msm_audio_alac_h),
     ([], msm_audio_amrnb_h), ([], msm_audio_amrwb_h), ([], msm_audio_amrwbplus_h),
     ([], msm_audio_ape_h), ([], msm_audio_mvs_h), ([], msm_audio_qcp_h),
     ([], msm_audio_sbc_h), ([], msm_audio_voicememo_h), ([], msm_audio_wma_h),
     ([], msm_audio_wmapro_h), ([], devdep_params_h), ([], lsm_params_h),
     ([], compress_offload_h), ([], asound_h timespec_size),
     ([''VIDIOC_MSM_CPP_CFG'', ''VIDIOC_MSM_CPP_GET_EVENTPAYLOAD'',
     ''VIDIOC_MSM_CPP_GET_INST_INFO''], msm_camera_h MEDIA_ENT_F_IO_V4L),
     ([], msm_mercury_h), ([], msm_gemini_h), ([], msm_jpeg_h),
     ([''VIDIOC_MSM_IR_LED_CFG'', ''VIDIOC_MSM_IR_CUT_CFG''], msm_cam_sensor_h),
     ([], msmb_camera_h MEDIA_ENT_F_IO_V4L MEDIA_ENT_F_OLD_BASE), ([], msmb_isp_h),
     ([], msmb_ispif_h),
     ([''VIDIOC_MSM_CPP_CFG'', ''VIDIOC_MSM_CPP_GET_EVENTPAYLOAD'',
     ''VIDIOC_MSM_CPP_GET_INST_INFO''], msmb_pproc_h),
     ([], msmb_generic_buf_mgr_h), ([], cam_defs_h), ([], cam_sync_h MEDIA_ENT_F_OLD_BASE),
     ([], cam_sensor_h), ([], qseecom_h), ([], ioctls_h), ([], voice_params_h),
     ([], msm_thermal_ioctl_h), ([], msm_core_interface_h), ([], avtimer_h), ([], msm_dsps_h),
     ([], msm_adsp_h)]"

lemma device_requests_distinct:
  "list_all (\<lambda>(shared, h). distinct (map ioc_key (driver_requests shared h)))
     (device_headers DRM_COMMAND_BASE DRM_IOCTL_BASE ETH_ALEN MEDIA_ENT_F_IO_V4L MEDIA_ENT_F_OLD_BASE timespec_size)"
  by (simp add: device_headers_def msm_drm_h_distinct videodev2_h_distinct msm_vidc_dec_h_distinct msm_vidc_enc_h_distinct
      msm_vpu_h_distinct msm_sde_rotator_h_distinct msm_fd_h_distinct msm_gestures_h_distinct
      msm_ipa_h_distinct rmnet_ipa_fd_ioctl_h_distinct msm_kgsl_h_distinct ion_h_distinct
      msm_ion_h_distinct msm_mdp_h_distinct msm_mdp_ext_h_distinct mdss_rotator_h_distinct
      msm_rotator_h_distinct msm_audio_calibration_h_distinct msmcal_hwdep_h_distinct
      msm_audio_h_distinct msm_audio_aac_h_distinct msm_audio_ac3_h_distinct
      msm_audio_alac_h_distinct msm_audio_amrnb_h_distinct msm_audio_amrwb_h_distinct
      msm_audio_amrwbplus_h_distinct msm_audio_ape_h_distinct msm_audio_mvs_h_distinct
      msm_audio_qcp_h_distinct msm_audio_sbc_h_distinct msm_audio_voicememo_h_distinct
      msm_audio_wma_h_distinct msm_audio_wmapro_h_distinct devdep_params_h_distinct
      lsm_params_h_distinct compress_offload_h_distinct asound_h_distinct msm_camera_h_distinct
      msm_mercury_h_distinct msm_gemini_h_distinct msm_jpeg_h_distinct
      msm_cam_sensor_h_distinct msmb_camera_h_distinct msmb_isp_h_distinct
      msmb_ispif_h_distinct msmb_pproc_h_distinct msmb_generic_buf_mgr_h_distinct
      cam_defs_h_distinct cam_sync_h_distinct cam_sensor_h_distinct qseecom_h_distinct
      ioctls_h_distinct voice_params_h_distinct msm_thermal_ioctl_h_distinct
      msm_core_interface_h_distinct avtimer_h_distinct msm_dsps_h_distinct msm_adsp_h_distinct)


end
