(* ===== verification/QmiMessages.thy ===== *)
theory QmiMessages
  imports LayoutQmi
begin

text \<open>
  The messages between the drivers of the IP accelerator on the application processor and on
  the modem (linux/ipa\_qmi\_service\_v01.h): how the fields of a message structure stand for
  the elements of a message, as the comment at the head of the file explains, and how long a
  message can get. Every element is sent as a header and a value; the header and the widths
  the header file leaves to the encoder (enumerations, element counts) are parameters.
\<close>

section \<open>From a structure to the elements of a message\<close>

text \<open>
  An element is optional if a field \<open>x_valid\<close> comes before it, and a list of at most \<open>m\<close>
  values if a field \<open>x_len\<close> comes before it. The field \<open>__placeholder\<close> stands for nothing.
\<close>

datatype item = Item (optional: bool) (body: ctype) (limit: "nat option")

fun make_optional :: "item list \<Rightarrow> item list" where
  "make_optional [] = []"
| "make_optional (Item b t l # its) = Item True t l # its"

fun items :: "fields \<Rightarrow> item list" where
  "items [] = []"
| "items [(n, t)] = (if n = ''__placeholder'' then [] else [Item False t None])"
| "items ((n, t) # (n', t') # fs) =
     (if n = n' @ ''_valid'' then make_optional (items ((n', t') # fs))
      else if n = n' @ ''_len'' then
        (case t' of ArrT u m \<Rightarrow> Item False u (Some m) # items fs
         | _ \<Rightarrow> Item False t None # items ((n', t') # fs))
      else
        (case fs of
           [] \<Rightarrow> Item False t None # items ((n', t') # fs)
         | (n'', t'') # _ \<Rightarrow>
             if n = n'' @ ''_valid'' \<and> n' = n'' @ ''_len'' then
               make_optional (items ((n', t') # fs))
             else Item False t None # items ((n', t') # fs)))"

definition message_items :: "ctype \<Rightarrow> item list" where
  "message_items t = (case t of StructT a fs \<Rightarrow> items fs | _ \<Rightarrow> [])"

section \<open>Lengths\<close>

record qmi_wire =
  header_bytes :: nat
  enum_bytes :: "string \<Rightarrow> nat"
  count_bytes :: "nat \<Rightarrow> nat"

text \<open>
  What the encoder does: three bytes of type and length before every element, result and
  error codes of two bytes, other enumerations of four, and one byte for the number of
  elements of a list that has at most 255.
\<close>

definition result_enums :: "string list" where
  "result_enums = [''ipa_qmi_result_type_v01'', ''ipa_qmi_error_type_v01'']"

definition wire_ok :: "qmi_wire \<Rightarrow> bool" where
  "wire_ok W \<longleftrightarrow> header_bytes W = 3 \<and>
     (\<forall>e. enum_bytes W e = (if e \<in> set result_enums then 2 else 4)) \<and>
     (\<forall>m \<le> 255. count_bytes W m = 1)"

text \<open>Values are sent without padding.\<close>

fun wire_size :: "qmi_wire \<Rightarrow> ctype \<Rightarrow> nat" and wire_fields :: "qmi_wire \<Rightarrow> fields \<Rightarrow> nat" where
  "wire_size W (IntT s n) = n"
| "wire_size W CharT = 1"
| "wire_size W (EnumT e) = enum_bytes W e"
| "wire_size W (ArrT t n) = n * wire_size W t"
| "wire_size W (StructT a fs) = wire_fields W fs"
| "wire_size W _ = 0"
| "wire_fields W [] = 0"
| "wire_fields W ((n, t) # fs) = wire_size W t + wire_fields W fs"

text \<open>
  One choice per element says what a particular message contains: \<open>None\<close>, the element is
  left out; \<open>Some k\<close>, it is there, with \<open>k\<close> values if it is a list.
\<close>

fun choice_ok :: "item \<Rightarrow> nat option \<Rightarrow> bool" where
  "choice_ok i None = optional i"
| "choice_ok i (Some k) = (case limit i of None \<Rightarrow> k = 1 | Some m \<Rightarrow> k \<le> m)"

fun item_length :: "qmi_wire \<Rightarrow> item \<Rightarrow> nat option \<Rightarrow> nat" where
  "item_length W i None = 0"
| "item_length W i (Some k) =
     header_bytes W + (case limit i of None \<Rightarrow> 0 | Some m \<Rightarrow> count_bytes W m) +
     k * wire_size W (body i)"

definition admissible :: "item list \<Rightarrow> nat option list \<Rightarrow> bool" where
  "admissible its cs \<longleftrightarrow> list_all2 choice_ok its cs"

definition encoded_length :: "qmi_wire \<Rightarrow> item list \<Rightarrow> nat option list \<Rightarrow> nat" where
  "encoded_length W its cs = sum_list (map2 (item_length W) its cs)"

definition full_choice :: "item \<Rightarrow> nat option" where
  "full_choice i = Some (case limit i of None \<Rightarrow> 1 | Some m \<Rightarrow> m)"

definition max_length :: "qmi_wire \<Rightarrow> item list \<Rightarrow> nat" where
  "max_length W its = sum_list (map (\<lambda>i. item_length W i (full_choice i)) its)"

lemma item_length_le: "choice_ok i c \<Longrightarrow> item_length W i c \<le> item_length W i (full_choice i)"
  by (cases c) (auto simp: full_choice_def split: option.splits)

lemma encoded_length_le:
  "admissible its cs \<Longrightarrow> encoded_length W its cs \<le> max_length W its"
  unfolding admissible_def encoded_length_def max_length_def
  by (induction rule: list_all2_induct) (auto intro: add_mono item_length_le)

lemma full_admissible: "admissible its (map full_choice its)"
  unfolding admissible_def
  by (induction its) (auto simp: full_choice_def split: option.splits)

lemma full_length: "encoded_length W its (map full_choice its) = max_length W its"
  unfolding encoded_length_def max_length_def by (induction its) auto

section \<open>The declared lengths\<close>

definition QMI_IPA_INIT_MODEM_DRIVER_REQ_MAX_MSG_LEN_V01 :: nat where
  "QMI_IPA_INIT_MODEM_DRIVER_REQ_MAX_MSG_LEN_V01 = 162"

definition QMI_IPA_INIT_MODEM_DRIVER_RESP_MAX_MSG_LEN_V01 :: nat where
  "QMI_IPA_INIT_MODEM_DRIVER_RESP_MAX_MSG_LEN_V01 = 25"

definition QMI_IPA_INDICATION_REGISTER_REQ_MAX_MSG_LEN_V01 :: nat where
  "QMI_IPA_INDICATION_REGISTER_REQ_MAX_MSG_LEN_V01 = 8"

definition QMI_IPA_INDICATION_REGISTER_RESP_MAX_MSG_LEN_V01 :: nat where
  "QMI_IPA_INDICATION_REGISTER_RESP_MAX_MSG_LEN_V01 = 7"

definition QMI_IPA_INSTALL_FILTER_RULE_REQ_MAX_MSG_LEN_V01 :: nat where
  "QMI_IPA_INSTALL_FILTER_RULE_REQ_MAX_MSG_LEN_V01 = 22369"

definition QMI_IPA_INSTALL_FILTER_RULE_RESP_MAX_MSG_LEN_V01 :: nat where
  "QMI_IPA_INSTALL_FILTER_RULE_RESP_MAX_MSG_LEN_V01 = 783"

definition QMI_IPA_FILTER_INSTALLED_NOTIF_REQ_MAX_MSG_LEN_V01 :: nat where
  "QMI_IPA_FILTER_INSTALLED_NOTIF_REQ_MAX_MSG_LEN_V01 = 870"

definition QMI_IPA_FILTER_INSTALLED_NOTIF_RESP_MAX_MSG_LEN_V01 :: nat where
  "QMI_IPA_FILTER_INSTALLED_NOTIF_RESP_MAX_MSG_LEN_V01 = 7"

definition QMI_IPA_MASTER_DRIVER_INIT_COMPLETE_IND_MAX_MSG_LEN_V01 :: nat where
  "QMI_IPA_MASTER_DRIVER_INIT_COMPLETE_IND_MAX_MSG_LEN_V01 = 7"

definition QMI_IPA_DATA_USAGE_QUOTA_REACHED_IND_MAX_MSG_LEN_V01 :: nat where
  "QMI_IPA_DATA_USAGE_QUOTA_REACHED_IND_MAX_MSG_LEN_V01 = 15"

definition QMI_IPA_ENABLE_FORCE_CLEAR_DATAPATH_REQ_MAX_MSG_LEN_V01 :: nat where
  "QMI_IPA_ENABLE_FORCE_CLEAR_DATAPATH_REQ_MAX_MSG_LEN_V01 = 18"

definition QMI_IPA_DISABLE_FORCE_CLEAR_DATAPATH_REQ_MAX_MSG_LEN_V01 :: nat where
  "QMI_IPA_DISABLE_FORCE_CLEAR_DATAPATH_REQ_MAX_MSG_LEN_V01 = 7"

definition QMI_IPA_ENABLE_FORCE_CLEAR_DATAPATH_RESP_MAX_MSG_LEN_V01 :: nat where
  "QMI_IPA_ENABLE_FORCE_CLEAR_DATAPATH_RESP_MAX_MSG_LEN_V01 = 7"

definition QMI_IPA_DISABLE_FORCE_CLEAR_DATAPATH_RESP_MAX_MSG_LEN_V01 :: nat where
  "QMI_IPA_DISABLE_FORCE_CLEAR_DATAPATH_RESP_MAX_MSG_LEN_V01 = 7"

definition QMI_IPA_CONFIG_REQ_MAX_MSG_LEN_V01 :: nat where
  "QMI_IPA_CONFIG_REQ_MAX_MSG_LEN_V01 = 102"

definition QMI_IPA_CONFIG_RESP_MAX_MSG_LEN_V01 :: nat where
  "QMI_IPA_CONFIG_RESP_MAX_MSG_LEN_V01 = 7"

definition QMI_IPA_GET_DATA_STATS_REQ_MAX_MSG_LEN_V01 :: nat where
  "QMI_IPA_GET_DATA_STATS_REQ_MAX_MSG_LEN_V01 = 11"

definition QMI_IPA_GET_DATA_STATS_RESP_MAX_MSG_LEN_V01 :: nat where
  "QMI_IPA_GET_DATA_STATS_RESP_MAX_MSG_LEN_V01 = 2234"

definition QMI_IPA_GET_APN_DATA_STATS_REQ_MAX_MSG_LEN_V01 :: nat where
  "QMI_IPA_GET_APN_DATA_STATS_REQ_MAX_MSG_LEN_V01 = 36"

definition QMI_IPA_GET_APN_DATA_STATS_RESP_MAX_MSG_LEN_V01 :: nat where
  "QMI_IPA_GET_APN_DATA_STATS_RESP_MAX_MSG_LEN_V01 = 299"

definition QMI_IPA_SET_DATA_USAGE_QUOTA_REQ_MAX_MSG_LEN_V01 :: nat where
  "QMI_IPA_SET_DATA_USAGE_QUOTA_REQ_MAX_MSG_LEN_V01 = 100"

definition QMI_IPA_SET_DATA_USAGE_QUOTA_RESP_MAX_MSG_LEN_V01 :: nat where
  "QMI_IPA_SET_DATA_USAGE_QUOTA_RESP_MAX_MSG_LEN_V01 = 7"

definition QMI_IPA_STOP_DATA_USAGE_QUOTA_REQ_MAX_MSG_LEN_V01 :: nat where
  "QMI_IPA_STOP_DATA_USAGE_QUOTA_REQ_MAX_MSG_LEN_V01 = 0"

definition QMI_IPA_STOP_DATA_USAGE_QUOTA_RESP_MAX_MSG_LEN_V01 :: nat where
  "QMI_IPA_STOP_DATA_USAGE_QUOTA_RESP_MAX_MSG_LEN_V01 = 7"

definition QMI_IPA_INIT_MODEM_DRIVER_CMPLT_REQ_MAX_MSG_LEN_V01 :: nat where
  "QMI_IPA_INIT_MODEM_DRIVER_CMPLT_REQ_MAX_MSG_LEN_V01 = 4"

definition QMI_IPA_INIT_MODEM_DRIVER_CMPLT_RESP_MAX_MSG_LEN_V01 :: nat where
  "QMI_IPA_INIT_MODEM_DRIVER_CMPLT_RESP_MAX_MSG_LEN_V01 = 7"

definition QMI_IPA_INSTALL_FILTER_RULE_EX_REQ_MAX_MSG_LEN_V01 :: nat where
  "QMI_IPA_INSTALL_FILTER_RULE_EX_REQ_MAX_MSG_LEN_V01 = 22685"

definition QMI_IPA_INSTALL_FILTER_RULE_EX_RESP_MAX_MSG_LEN_V01 :: nat where
  "QMI_IPA_INSTALL_FILTER_RULE_EX_RESP_MAX_MSG_LEN_V01 = 523"

definition QMI_IPA_ENABLE_PER_CLIENT_STATS_REQ_MAX_MSG_LEN_V01 :: nat where
  "QMI_IPA_ENABLE_PER_CLIENT_STATS_REQ_MAX_MSG_LEN_V01 = 4"

definition QMI_IPA_ENABLE_PER_CLIENT_STATS_RESP_MAX_MSG_LEN_V01 :: nat where
  "QMI_IPA_ENABLE_PER_CLIENT_STATS_RESP_MAX_MSG_LEN_V01 = 7"

definition QMI_IPA_GET_STATS_PER_CLIENT_REQ_MAX_MSG_LEN_V01 :: nat where
  "QMI_IPA_GET_STATS_PER_CLIENT_REQ_MAX_MSG_LEN_V01 = 18"

definition QMI_IPA_GET_STATS_PER_CLIENT_RESP_MAX_MSG_LEN_V01 :: nat where
  "QMI_IPA_GET_STATS_PER_CLIENT_RESP_MAX_MSG_LEN_V01 = 3595"

definition QMI_IPA_INSTALL_UL_FIREWALL_RULES_REQ_MAX_MSG_LEN_V01 :: nat where
  "QMI_IPA_INSTALL_UL_FIREWALL_RULES_REQ_MAX_MSG_LEN_V01 = 9875"

definition QMI_IPA_INSTALL_UL_FIREWALL_RULES_RESP_MAX_MSG_LEN_V01 :: nat where
  "QMI_IPA_INSTALL_UL_FIREWALL_RULES_RESP_MAX_MSG_LEN_V01 = 7"

definition QMI_IPA_INSTALL_UL_FIREWALL_RULES_IND_MAX_MSG_LEN_V01 :: nat where
  "QMI_IPA_INSTALL_UL_FIREWALL_RULES_IND_MAX_MSG_LEN_V01 = 11"

definition qmi_messages_1 :: "(ctype \<times> nat) list" where
  "qmi_messages_1 =
     [(ipa_init_modem_driver_req_msg_v01, QMI_IPA_INIT_MODEM_DRIVER_REQ_MAX_MSG_LEN_V01),
      (ipa_init_modem_driver_resp_msg_v01, QMI_IPA_INIT_MODEM_DRIVER_RESP_MAX_MSG_LEN_V01),
      (ipa_indication_reg_req_msg_v01, QMI_IPA_INDICATION_REGISTER_REQ_MAX_MSG_LEN_V01),
      (ipa_indication_reg_resp_msg_v01, QMI_IPA_INDICATION_REGISTER_RESP_MAX_MSG_LEN_V01),
      (ipa_install_fltr_rule_req_msg_v01, QMI_IPA_INSTALL_FILTER_RULE_REQ_MAX_MSG_LEN_V01),
      (ipa_install_fltr_rule_resp_msg_v01, QMI_IPA_INSTALL_FILTER_RULE_RESP_MAX_MSG_LEN_V01),
      (ipa_fltr_installed_notif_req_msg_v01, QMI_IPA_FILTER_INSTALLED_NOTIF_REQ_MAX_MSG_LEN_V01),
      (ipa_fltr_installed_notif_resp_msg_v01, QMI_IPA_FILTER_INSTALLED_NOTIF_RESP_MAX_MSG_LEN_V01),
      (ipa_master_driver_init_complt_ind_msg_v01, QMI_IPA_MASTER_DRIVER_INIT_COMPLETE_IND_MAX_MSG_LEN_V01)]"

definition qmi_messages_2 :: "(ctype \<times> nat) list" where
  "qmi_messages_2 =
     [(ipa_data_usage_quota_reached_ind_msg_v01, QMI_IPA_DATA_USAGE_QUOTA_REACHED_IND_MAX_MSG_LEN_V01),
      (ipa_enable_force_clear_datapath_req_msg_v01, QMI_IPA_ENABLE_FORCE_CLEAR_DATAPATH_REQ_MAX_MSG_LEN_V01),
      (ipa_disable_force_clear_datapath_req_msg_v01, QMI_IPA_DISABLE_FORCE_CLEAR_DATAPATH_REQ_MAX_MSG_LEN_V01),
      (ipa_enable_force_clear_datapath_resp_msg_v01, QMI_IPA_ENABLE_FORCE_CLEAR_DATAPATH_RESP_MAX_MSG_LEN_V01),
      (ipa_disable_force_clear_datapath_resp_msg_v01, QMI_IPA_DISABLE_FORCE_CLEAR_DATAPATH_RESP_MAX_MSG_LEN_V01),
      (ipa_config_req_msg_v01, QMI_IPA_CONFIG_REQ_MAX_MSG_LEN_V01),
      (ipa_config_resp_msg_v01, QMI_IPA_CONFIG_RESP_MAX_MSG_LEN_V01),
      (ipa_get_data_stats_req_msg_v01, QMI_IPA_GET_DATA_STATS_REQ_MAX_MSG_LEN_V01),
      (ipa_get_data_stats_resp_msg_v01, QMI_IPA_GET_DATA_STATS_RESP_MAX_MSG_LEN_V01)]"

definition qmi_messages_3 :: "(ctype \<times> nat) list" where
  "qmi_messages_3 =
     [(ipa_get_apn_data_stats_req_msg_v01, QMI_IPA_GET_APN_DATA_STATS_REQ_MAX_MSG_LEN_V01),
      (ipa_get_apn_data_stats_resp_msg_v01, QMI_IPA_GET_APN_DATA_STATS_RESP_MAX_MSG_LEN_V01),
      (ipa_set_data_usage_quota_req_msg_v01, QMI_IPA_SET_DATA_USAGE_QUOTA_REQ_MAX_MSG_LEN_V01),
      (ipa_set_data_usage_quota_resp_msg_v01, QMI_IPA_SET_DATA_USAGE_QUOTA_RESP_MAX_MSG_LEN_V01),
      (ipa_stop_data_usage_quota_req_msg_v01, QMI_IPA_STOP_DATA_USAGE_QUOTA_REQ_MAX_MSG_LEN_V01),
      (ipa_stop_data_usage_quota_resp_msg_v01, QMI_IPA_STOP_DATA_USAGE_QUOTA_RESP_MAX_MSG_LEN_V01),
      (ipa_init_modem_driver_cmplt_req_msg_v01, QMI_IPA_INIT_MODEM_DRIVER_CMPLT_REQ_MAX_MSG_LEN_V01),
      (ipa_init_modem_driver_cmplt_resp_msg_v01, QMI_IPA_INIT_MODEM_DRIVER_CMPLT_RESP_MAX_MSG_LEN_V01),
      (ipa_install_fltr_rule_req_ex_msg_v01, QMI_IPA_INSTALL_FILTER_RULE_EX_REQ_MAX_MSG_LEN_V01)]"

definition qmi_messages_4 :: "(ctype \<times> nat) list" where
  "qmi_messages_4 =
     [(ipa_install_fltr_rule_resp_ex_msg_v01, QMI_IPA_INSTALL_FILTER_RULE_EX_RESP_MAX_MSG_LEN_V01),
      (ipa_enable_per_client_stats_req_msg_v01, QMI_IPA_ENABLE_PER_CLIENT_STATS_REQ_MAX_MSG_LEN_V01),
      (ipa_enable_per_client_stats_resp_msg_v01, QMI_IPA_ENABLE_PER_CLIENT_STATS_RESP_MAX_MSG_LEN_V01),
      (ipa_get_stats_per_client_req_msg_v01, QMI_IPA_GET_STATS_PER_CLIENT_REQ_MAX_MSG_LEN_V01),
      (ipa_get_stats_per_client_resp_msg_v01, QMI_IPA_GET_STATS_PER_CLIENT_RESP_MAX_MSG_LEN_V01),
      (ipa_configure_ul_firewall_rules_req_msg_v01, QMI_IPA_INSTALL_UL_FIREWALL_RULES_REQ_MAX_MSG_LEN_V01),
      (ipa_configure_ul_firewall_rules_resp_msg_v01, QMI_IPA_INSTALL_UL_FIREWALL_RULES_RESP_MAX_MSG_LEN_V01),
      (ipa_configure_ul_firewall_rules_ind_msg_v01, QMI_IPA_INSTALL_UL_FIREWALL_RULES_IND_MAX_MSG_LEN_V01)]"

definition qmi_messages :: "(ctype \<times> nat) list" where
  "qmi_messages = qmi_messages_1 @ qmi_messages_2 @ qmi_messages_3 @ qmi_messages_4"

lemmas qmi_length_defs =
  QMI_IPA_INIT_MODEM_DRIVER_REQ_MAX_MSG_LEN_V01_def
  QMI_IPA_INIT_MODEM_DRIVER_RESP_MAX_MSG_LEN_V01_def
  QMI_IPA_INDICATION_REGISTER_REQ_MAX_MSG_LEN_V01_def
  QMI_IPA_INDICATION_REGISTER_RESP_MAX_MSG_LEN_V01_def
  QMI_IPA_INSTALL_FILTER_RULE_REQ_MAX_MSG_LEN_V01_def
  QMI_IPA_INSTALL_FILTER_RULE_RESP_MAX_MSG_LEN_V01_def
  QMI_IPA_FILTER_INSTALLED_NOTIF_REQ_MAX_MSG_LEN_V01_def
  QMI_IPA_FILTER_INSTALLED_NOTIF_RESP_MAX_MSG_LEN_V01_def
  QMI_IPA_MASTER_DRIVER_INIT_COMPLETE_IND_MAX_MSG_LEN_V01_def
  QMI_IPA_DATA_USAGE_QUOTA_REACHED_IND_MAX_MSG_LEN_V01_def
  QMI_IPA_ENABLE_FORCE_CLEAR_DATAPATH_REQ_MAX_MSG_LEN_V01_def
  QMI_IPA_DISABLE_FORCE_CLEAR_DATAPATH_REQ_MAX_MSG_LEN_V01_def
  QMI_IPA_ENABLE_FORCE_CLEAR_DATAPATH_RESP_MAX_MSG_LEN_V01_def
  QMI_IPA_DISABLE_FORCE_CLEAR_DATAPATH_RESP_MAX_MSG_LEN_V01_def
  QMI_IPA_CONFIG_REQ_MAX_MSG_LEN_V01_def QMI_IPA_CONFIG_RESP_MAX_MSG_LEN_V01_def
  QMI_IPA_GET_DATA_STATS_REQ_MAX_MSG_LEN_V01_def QMI_IPA_GET_DATA_STATS_RESP_MAX_MSG_LEN_V01_def
  QMI_IPA_GET_APN_DATA_STATS_REQ_MAX_MSG_LEN_V01_def
  QMI_IPA_GET_APN_DATA_STATS_RESP_MAX_MSG_LEN_V01_def
  QMI_IPA_SET_DATA_USAGE_QUOTA_REQ_MAX_MSG_LEN_V01_def
  QMI_IPA_SET_DATA_USAGE_QUOTA_RESP_MAX_MSG_LEN_V01_def
  QMI_IPA_STOP_DATA_USAGE_QUOTA_REQ_MAX_MSG_LEN_V01_def
  QMI_IPA_STOP_DATA_USAGE_QUOTA_RESP_MAX_MSG_LEN_V01_def
  QMI_IPA_INIT_MODEM_DRIVER_CMPLT_REQ_MAX_MSG_LEN_V01_def
  QMI_IPA_INIT_MODEM_DRIVER_CMPLT_RESP_MAX_MSG_LEN_V01_def
  QMI_IPA_INSTALL_FILTER_RULE_EX_REQ_MAX_MSG_LEN_V01_def
  QMI_IPA_INSTALL_FILTER_RULE_EX_RESP_MAX_MSG_LEN_V01_def
  QMI_IPA_ENABLE_PER_CLIENT_STATS_REQ_MAX_MSG_LEN_V01_def
  QMI_IPA_ENABLE_PER_CLIENT_STATS_RESP_MAX_MSG_LEN_V01_def
  QMI_IPA_GET_STATS_PER_CLIENT_REQ_MAX_MSG_LEN_V01_def
  QMI_IPA_GET_STATS_PER_CLIENT_RESP_MAX_MSG_LEN_V01_def
  QMI_IPA_INSTALL_UL_FIREWALL_RULES_REQ_MAX_MSG_LEN_V01_def
  QMI_IPA_INSTALL_UL_FIREWALL_RULES_RESP_MAX_MSG_LEN_V01_def
  QMI_IPA_INSTALL_UL_FIREWALL_RULES_IND_MAX_MSG_LEN_V01_def

lemmas qmi_message_simps =
  wire_ok_def message_items_def max_length_def full_choice_def result_enums_def qmi_structs
  qmi_length_defs

lemma qmi_max_lengths_1:
  "wire_ok W \<Longrightarrow> list_all (\<lambda>(t, n). max_length W (message_items t) = n) qmi_messages_1"
  by (simp add: qmi_messages_1_def qmi_message_simps)

lemma qmi_max_lengths_2:
  "wire_ok W \<Longrightarrow> list_all (\<lambda>(t, n). max_length W (message_items t) = n) qmi_messages_2"
  by (simp add: qmi_messages_2_def qmi_message_simps)

lemma qmi_max_lengths_3:
  "wire_ok W \<Longrightarrow> list_all (\<lambda>(t, n). max_length W (message_items t) = n) qmi_messages_3"
  by (simp add: qmi_messages_3_def qmi_message_simps)

lemma qmi_max_lengths_4:
  "wire_ok W \<Longrightarrow> list_all (\<lambda>(t, n). max_length W (message_items t) = n) qmi_messages_4"
  by (simp add: qmi_messages_4_def qmi_message_simps)

lemma qmi_max_lengths:
  "wire_ok W \<Longrightarrow> list_all (\<lambda>(t, n). max_length W (message_items t) = n) qmi_messages"
  unfolding qmi_messages_def list_all_append
  by (intro conjI qmi_max_lengths_1 qmi_max_lengths_2 qmi_max_lengths_3 qmi_max_lengths_4)

end
