(* ===== verification/LayoutProperties.thy ===== *)
theory LayoutProperties
  imports LayoutCorrect QmiMessages
begin

text \<open>
  The properties of the device interfaces: the same
  layout for both ABIs where it is meant to be, requests that can be told apart, reserved
  areas that suffice, and calibration messages and modem messages of the declared shape.
\<close>

section \<open>Layouts\<close>

text \<open>
  The layout that these theories compute is a sound one for every structure: under the 32-bit
  and under the 64-bit ABI the fields lie in the order of their declaration without overlapping,
  all of them within the size of the structure, the size is a multiple of the alignment, and a
  field of a structure that is not packed starts at a multiple of its own alignment.
\<close>

lemma layout_sound:
  assumes "abi_ok E" and wf: "wf_type (StructT a fs)"
  shows "map fst (layout_of E (StructT a fs)) = map fst fs \<and>
    sorted_wrt before (layout_of E (StructT a fs)) \<and>
    list_all (inside 0 (8 * size_of E (StructT a fs))) (layout_of E (StructT a fs)) \<and>
    align_of E (StructT a fs) dvd size_of E (StructT a fs) \<and>
    list_all (\<lambda>(m, t, s, w). a \<noteq> Natural \<or> is_bits t \<or> 8 * align_of E t dvd s)
      (layout_of E (StructT a fs))"
proof -
  have "wf_fields fs" using wf by simp
  note lay = layout_ordered [OF assms(1) this] layout_inside [OF assms(1) this]
  have "list_all (inside 0 (8 * size_of E (StructT a fs))) (layout E a 0 fs)"
    using lay(2) [of _ a 0] struct_size(1) [OF assms(1) wf]
    unfolding list_all_iff inside_def by (meson le_trans)
  moreover have "list_all (\<lambda>(m, t, s, w). a \<noteq> Natural \<or> is_bits t \<or> 8 * align_of E t dvd s)
      (layout E a 0 fs)"
    using layout_aligned by (fastforce simp: list_all_iff)
  ultimately show ?thesis
    using lay(1) layout_names struct_size(2) [OF assms(1) wf] by simp
qed

text \<open>The 64-bit ABI, with the sizes the kernel's headers give the foreign types there.\<close>

definition sample_abi :: abi where
  "sample_abi = \<lparr>word_bytes = 8, foreign = (\<lambda>n.
     if n = ''struct drm_event'' then (8, 4) else if n = ''struct drm_clip_rect'' then (8, 2)
     else (16, 8))\<rparr>"

definition sample_abi32 :: abi where
  "sample_abi32 = sample_abi\<lparr>word_bytes := 4, foreign := (\<lambda>n.
     if n = ''struct drm_event'' then (8, 4) else if n = ''struct drm_clip_rect'' then (8, 2)
     else (8, 4))\<rparr>"

lemma sample_abi_ok: "abi_ok sample_abi" "abi_ok sample_abi32"
  by (simp_all add: abi_ok_def sample_abi_def sample_abi32_def)

section \<open>Interfaces for both kinds of processes\<close>



text \<open>Elsewhere it is not so: a structure with a pointer, for example, grows.\<close>

lemma kgsl_getproperty_differs:
  "size_of sample_abi kgsl_device_getproperty = 24" "size_of sample_abi32 kgsl_device_getproperty = 12"
  by (simp_all add: sample_abi_def sample_abi32_def kgsl_device_getproperty_def round_up_def
      field_start_def field_bits_def)

section \<open>Requests\<close>

text \<open>C36: The requests of one header are told apart by their letter and number alone, so their
  codes differ whatever the sizes of their arguments are: for each of the 58 headers under
  original-kernel-headers that declare a request with one of the macros of \<open>_IO\<close> (or of
  \<open>DRM_IO\<close>, which take their letter and a base for their numbers from a header that is not in the
  repository), leaving out the names known to share a number (older names of the graphics
  driver, the second names of a request of the IP accelerator and of the frame buffer, the
  infra-red lights, the post-processor and the second audio device).\<close>

theorem requests_told_apart:
  "list_all (\<lambda>(shared, h). distinct (map ioc_key (driver_requests shared h)) \<and>
       distinct (map (ioc_code E) (driver_requests shared h)))
     (device_headers DRM_COMMAND_BASE DRM_IOCTL_BASE ETH_ALEN MEDIA_ENT_F_IO_V4L MEDIA_ENT_F_OLD_BASE
       timespec_size)"
  using device_requests_distinct
  by (fastforce simp: list_all_iff intro: keys_distinct_codes)

text \<open>
  The ones left out: under the 64-bit ABI the old time-stamp event of the graphics driver has
  the code of the user event, and the flash query has the code of the infra-red light.
\<close>

definition code_of :: "abi \<Rightarrow> decl list \<Rightarrow> string \<Rightarrow> (nat \<times> (nat \<times> nat) \<times> nat) option" where
  "code_of E ds n = map_option (ioc_code E) (map_of (requests ds) n)"

lemmas size_simps = round_up_def field_start_def field_bits_def

lemma kgsl_codes_collide:
  "code_of sample_abi msm_kgsl_h ''IOCTL_KGSL_TIMESTAMP_EVENT_OLD'' =
     code_of sample_abi msm_kgsl_h ''IOCTL_KGSL_CFF_USER_EVENT'' \<and>
   code_of sample_abi msm_kgsl_h ''IOCTL_KGSL_CFF_USER_EVENT'' = Some (2, (9, 49), 32)"
  by (simp add: code_of_def ioc_code_def kgsl_decls kgsl_timestamp_event_def
      kgsl_cff_user_event_def sample_abi_def size_simps cong: requests_cong)

lemma flash_codes_collide:
  "code_of E msm_cam_sensor_h ''VIDIOC_MSM_FLASH_QUERY_DATA'' =
     code_of E msm_cam_sensor_h ''VIDIOC_MSM_IR_LED_CFG'' \<and>
   code_of E msm_cam_sensor_h ''VIDIOC_MSM_IR_LED_CFG'' = Some (3, (86, 207), 12)"
  by (simp add: code_of_def ioc_code_def sensor_decls msm_flash_query_data_t_def
      msm_ir_led_cfg_data_t_def size_simps cong: requests_cong)

section \<open>Reserved areas\<close>

definition field_bytes :: "abi \<Rightarrow> ctype \<Rightarrow> string \<Rightarrow> nat option" where
  "field_bytes E t n = map_option (\<lambda>p. snd (snd p) div 8) (map_of (layout_of E t) n)"

lemma abi_cases: "abi_ok E \<Longrightarrow> word_bytes E = 4 \<or> word_bytes E = 8"
  by (auto simp: abi_ok_def)

lemma map_of_layout:
  "map_option (\<lambda>p. snd (snd p)) (map_of (layout E a off fs) n) =
     map_option (\<lambda>t. field_bits (size_of E t) t) (map_of fs n)"
  by (induction fs arbitrary: off) (auto simp: Let_def)

lemma field_bytes_struct:
  "field_bytes E (StructT a fs) n =
     map_option (\<lambda>t. field_bits (size_of E t) t div 8) (map_of fs n)"
proof -
  have "field_bytes E (StructT a fs) n =
      map_option (\<lambda>w. w div 8) (map_option (\<lambda>p. snd (snd p)) (map_of (layout E a 0 fs) n))"
    by (simp add: field_bytes_def option.map_comp comp_def)
  then show ?thesis by (simp add: map_of_layout option.map_comp comp_def)
qed

lemma video_areas:
  assumes "word_bytes E = 4 \<or> word_bytes E = 8"
  shows "field_bytes E v4l2_format ''fmt'' = Some 200"
    and "field_bytes E v4l2_streamparm ''parm'' = Some 200"
    and "field_bytes E v4l2_event ''u'' = Some 64"
    and "field_bytes E v4l2_dv_timings '''' = Some 128"
    and "field_bytes E v4l2_dv_timings_cap '''' = Some 128"
  using assms
  by (elim disjE; simp add: field_bytes_struct size_simps video_structs)+

lemma sound_areas:
  assumes "word_bytes E = 4 \<or> word_bytes E = 8"
  shows "field_bytes E snd_ctl_elem_info ''value'' = Some 128"
    and "field_bytes E snd_pcm_sync_ptr ''c'' = Some 64"
  using assms
  by (elim disjE; simp add: field_bytes_struct size_simps sound_structs)+

lemma network_area: "snd (snd (snd (last (layout_of E rmnet_nl_msg_s)))) = 8 * 64"
  by (simp add: size_simps Let_def rmnet_nl_msg_s_def)

text \<open>C39: The unions that reserve room for later members do so: in both ABIs the format,
  stream and event unions of the video interface, the timing unions, the value of an element
  of the sound controls, the second half of the sound pointers and the union of a data
  network message are exactly as large as the reserved bytes in them, so no member makes
  them larger.\<close>

theorem reserved_areas_suffice:
  assumes "abi_ok E"
  shows "field_bytes E v4l2_format ''fmt'' = Some 200 \<and>
    field_bytes E v4l2_streamparm ''parm'' = Some 200 \<and>
    field_bytes E v4l2_event ''u'' = Some 64 \<and>
    field_bytes E v4l2_dv_timings '''' = Some 128 \<and>
    field_bytes E v4l2_dv_timings_cap '''' = Some 128 \<and>
    field_bytes E snd_ctl_elem_info ''value'' = Some 128 \<and>
    field_bytes E snd_pcm_sync_ptr ''c'' = Some 64 \<and>
    snd (snd (snd (last (layout_of E rmnet_nl_msg_s)))) = 8 * 64"
  using abi_cases [OF assms] by (intro conjI video_areas sound_areas network_area)

theorem reserved_areas_suffice_witness: "field_bytes sample_abi32 v4l2_format ''fmt'' = Some 200"
  using reserved_areas_suffice [OF sample_abi_ok(2)] by blast

section \<open>Calibration messages\<close>

text \<open>
  The messages of the calibration requests. The driver reads the part all of them begin with
  as an \<open>audio_cal_basic\<close> before it knows which one it got.
\<close>

definition begins_like_basic :: "abi \<Rightarrow> ctype \<Rightarrow> bool" where
  "begins_like_basic E t \<longleftrightarrow>
     (case layout_of E t of
        [hdr, (n, c, start, w)] \<Rightarrow>
          hdr = layout_of E audio_cal_basic ! 0 \<and> n = ''cal_type'' \<and>
          start = fst (snd (snd (layout_of E audio_cal_basic ! 1))) \<and>
          take 2 (layout_of E c) = layout_of E audio_cal_type_basic
      | _ \<Rightarrow> False)"

definition calibration_messages :: "ctype list" where
  "calibration_messages =
     [audio_cal_alloc, audio_cal_dealloc, audio_cal_prepare, audio_cal_post, audio_cal_basic,
      audio_cal_adm_top, audio_core_metainfo, audio_cal_audproc, audio_cal_audvol,
      audio_cal_asm_top, audio_cal_audstrm, audio_cal_afe, audio_cal_afe_top, audio_cal_aanc,
      audio_cal_fb_spk_prot_cfg, audio_cal_sp_th_vi_ftm_cfg, audio_cal_sp_ex_vi_ftm_cfg,
      audio_cal_hw_delay, audio_cal_sidetone, audio_cal_sidetone_iir, audio_cal_lsm_top,
      audio_cal_lsm, audio_cal_voc_top, audio_cal_vocproc, audio_cal_vocvol,
      audio_cal_vocdev_cfg, audio_cal_voc_col, audio_cal_fb_spk_prot_status,
      audio_cal_sp_th_vi_param, audio_cal_sp_ex_vi_param]"

text \<open>What follows the common part, if a message has it.\<close>

definition cal_rest :: "ctype \<Rightarrow> fields option" where
  "cal_rest t =
     (case t of
        StructT Natural [(h, ht), (c, StructT Natural ((ch, cht) # (cd, cdt) # rest))] \<Rightarrow>
          if h = ''hdr'' \<and> ht = audio_cal_header \<and> c = ''cal_type'' \<and> ch = ''cal_hdr'' \<and>
             cht = audio_cal_type_header \<and> cd = ''cal_data'' \<and> cdt = audio_cal_data
          then Some rest else None
      | _ \<Rightarrow> None)"

lemma cal_restD:
  assumes "cal_rest t = Some rest"
  shows "t = StructT Natural [(''hdr'', audio_cal_header), (''cal_type'', StructT Natural
           ((''cal_hdr'', audio_cal_type_header) # (''cal_data'', audio_cal_data) # rest))]"
  using assms unfolding cal_rest_def
  by (auto split: ctype.splits attr.splits list.splits prod.splits if_splits)

lemma cal_parts:
  "align_of E audio_cal_header = 4" "size_of E audio_cal_header = 16"
  "align_of E audio_cal_type_header = 4" "size_of E audio_cal_type_header = 8"
  "align_of E audio_cal_data = 4" "size_of E audio_cal_data = 8"
  "is_bits audio_cal_header = False" "is_bits audio_cal_type_header = False"
  "is_bits audio_cal_data = False"
  by (simp_all add: audio_cal_header_def audio_cal_type_header_def audio_cal_data_def size_simps
      is_bits_def)

lemma plain_field:
  "\<not> is_bits t \<Longrightarrow> field_start Natural al sz off t = round_up (8 * al) off"
  "\<not> is_bits t \<Longrightarrow> field_bits sz t = 8 * sz"
  by (cases t; simp add: field_start_def field_bits_def is_bits_def)+

abbreviation cal_second :: "fields \<Rightarrow> ctype" where
  "cal_second rest \<equiv> StructT Natural
     ((''cal_hdr'', audio_cal_type_header) # (''cal_data'', audio_cal_data) # rest)"

lemma cal_second_start:
  assumes "max_align E rest \<le> 4"
  shows "field_start Natural (align_of E (cal_second rest)) sz 128 (cal_second rest) = 128"
proof -
  have "align_of E (cal_second rest) = 4" using assms by (simp add: cal_parts)
  then show ?thesis unfolding plain_field(1) [of "cal_second rest", simplified is_bits_def, simplified]
    by (simp add: round_up_def)
qed

lemma cal_view:
  assumes "cal_rest t = Some rest" and "max_align E rest \<le> 4"
  shows "begins_like_basic E t"
  unfolding cal_restD [OF assms(1)] begins_like_basic_def audio_cal_basic_def
    audio_cal_type_basic_def
  by (simp add: Let_def plain_field cal_parts cal_second_start assms(2) round_up_def
      del: align_of.simps(9) size_of.simps(9))

lemma calibration_rests:
  "list_all (\<lambda>t. case cal_rest t of None \<Rightarrow> False | Some rest \<Rightarrow> max_align E rest \<le> 4)
     calibration_messages"
  by (simp add: calibration_messages_def cal_rest_def cal_structs)

lemma calibration_views: "list_all (begins_like_basic E) calibration_messages"
  using calibration_rests [of E] unfolding list_all_iff
  by (auto split: option.splits intro: cal_view)

lemma calibration_sizes:
  "list_all (\<lambda>t. size_of E t \<le> MAX_IOCTL_CMD_SIZE) calibration_messages"
  by (simp add: calibration_messages_def cal_structs MAX_IOCTL_CMD_SIZE_def size_simps)

text \<open>C38: Every calibration message can be read as an \<open>audio_cal_basic\<close> before its kind is
  known: its header, and the header and the data description of its second part, are the same
  fields at the same places, and no message is longer than the 512 bytes a request may have.\<close>

theorem calibration_messages_alike:
  "list_all (\<lambda>t. begins_like_basic E t \<and> size_of E t \<le> MAX_IOCTL_CMD_SIZE)
     calibration_messages"
  using calibration_views calibration_sizes unfolding list_all_iff by blast

section \<open>Messages of the modem\<close>

text \<open>C10: The declared maximum lengths of the modem's messages are right: for every message with
  a declared length and a structure, whatever optional elements it has and however many
  values its lists hold, its encoding is not longer than declared, and with everything in it,
  it is exactly that long. The encoder puts three bytes before an element, sends result codes
  in two bytes and other enumerations in four, and counts a list in one byte.\<close>

theorem modem_message_lengths:
  assumes "wire_ok W" and "(t, n) \<in> set qmi_messages"
  shows "(\<forall>cs. admissible (message_items t) cs \<longrightarrow> encoded_length W (message_items t) cs \<le> n) \<and>
    (\<exists>cs. admissible (message_items t) cs \<and> encoded_length W (message_items t) cs = n)"
proof -
  have "max_length W (message_items t) = n"
    using qmi_max_lengths [OF assms(1)] assms(2) by (fastforce simp: list_all_iff)
  then show ?thesis
    using encoded_length_le full_admissible full_length by metis
qed

definition sample_wire :: qmi_wire where
  "sample_wire = \<lparr>header_bytes = 3, enum_bytes = (\<lambda>e. if e \<in> set result_enums then 2 else 4),
     count_bytes = (\<lambda>m. if m \<le> 255 then 1 else 2)\<rparr>"

theorem modem_message_lengths_witness:
  "\<exists>cs. encoded_length sample_wire (message_items ipa_init_modem_driver_req_msg_v01) cs = 162"
proof -
  have "wire_ok sample_wire" by (simp add: wire_ok_def sample_wire_def)
  moreover have "(ipa_init_modem_driver_req_msg_v01, 162) \<in> set qmi_messages"
    by (simp add: qmi_messages_def qmi_messages_1_def QMI_IPA_INIT_MODEM_DRIVER_REQ_MAX_MSG_LEN_V01_def)
  ultimately show ?thesis using modem_message_lengths by blast
qed

end
