(* ===== verification/SanVideo.thy ===== *)
theory SanVideo
  imports CLayout
begin

text \<open>
  The headers programs are built with (under sdm710/kernel-headers, stripped of comments) of
  video capture, codecs and related devices (linux/videodev2.h, media/msm\_vidc.h and
  others): every structure and union with its fields in order; then, for every file, the
  list of its declarations, in blocks: structures, enumerations, number macros and device
  requests. A type of the C library or of a header that is not in the repository is a
  foreign type.
\<close>

subsection \<open>linux/videodev2.h\<close>

abbreviation v4l2_rect :: ctype where
  "v4l2_rect \<equiv>
     StructT Natural [(''left'', s32), (''top'', s32), (''width'', u32), (''height'', u32)]"

abbreviation v4l2_fract :: ctype where
  "v4l2_fract \<equiv>
     StructT Natural [(''numerator'', u32), (''denominator'', u32)]"

abbreviation v4l2_capability :: ctype where
  "v4l2_capability \<equiv>
     StructT Natural [(''driver'', ArrT u8 16), (''card'', ArrT u8 32),
      (''bus_info'', ArrT u8 32), (''version'', u32), (''capabilities'', u32),
      (''device_caps'', u32), (''reserved'', ArrT u32 3)]"

abbreviation v4l2_pix_format :: ctype where
  "v4l2_pix_format \<equiv>
     StructT Natural [(''width'', u32), (''height'', u32), (''pixelformat'', u32),
      (''field'', u32), (''bytesperline'', u32), (''sizeimage'', u32), (''colorspace'', u32),
      (''priv'', u32), (''flags'', u32), (''ycbcr_enc'', u32), (''quantization'', u32),
      (''xfer_func'', u32)]"

abbreviation v4l2_fmtdesc :: ctype where
  "v4l2_fmtdesc \<equiv>
     StructT Natural [(''index'', u32), (''type'', u32), (''flags'', u32),
      (''description'', ArrT u8 32), (''pixelformat'', u32), (''reserved'', ArrT u32 4)]"

abbreviation v4l2_frmsize_discrete :: ctype where
  "v4l2_frmsize_discrete \<equiv>
     StructT Natural [(''width'', u32), (''height'', u32)]"

abbreviation v4l2_frmsize_stepwise :: ctype where
  "v4l2_frmsize_stepwise \<equiv>
     StructT Natural [(''min_width'', u32), (''max_width'', u32), (''step_width'', u32),
      (''min_height'', u32), (''max_height'', u32), (''step_height'', u32)]"

abbreviation v4l2_frmsizeenum :: ctype where
  "v4l2_frmsizeenum \<equiv>
     StructT Natural [(''index'', u32), (''pixel_format'', u32), (''type'', u32),
      ('''', UnionT Natural [(''discrete'', v4l2_frmsize_discrete),
      (''stepwise'', v4l2_frmsize_stepwise)]), (''reserved'', ArrT u32 2)]"

abbreviation v4l2_frmival_stepwise :: ctype where
  "v4l2_frmival_stepwise \<equiv>
     StructT Natural [(''min'', v4l2_fract), (''max'', v4l2_fract), (''step'', v4l2_fract)]"

abbreviation v4l2_frmivalenum :: ctype where
  "v4l2_frmivalenum \<equiv>
     StructT Natural [(''index'', u32), (''pixel_format'', u32), (''width'', u32),
      (''height'', u32), (''type'', u32), ('''', UnionT Natural [(''discrete'', v4l2_fract),
      (''stepwise'', v4l2_frmival_stepwise)]), (''reserved'', ArrT u32 2)]"

abbreviation v4l2_timecode :: ctype where
  "v4l2_timecode \<equiv>
     StructT Natural [(''type'', u32), (''flags'', u32), (''frames'', u8), (''seconds'', u8),
      (''minutes'', u8), (''hours'', u8), (''userbits'', ArrT u8 4)]"

abbreviation v4l2_jpegcompression :: ctype where
  "v4l2_jpegcompression \<equiv>
     StructT Natural [(''quality'', s32), (''APPn'', s32), (''APP_len'', s32),
      (''APP_data'', ArrT CharT 60), (''COM_len'', s32), (''COM_data'', ArrT CharT 60),
      (''jpeg_markers'', u32)]"

abbreviation v4l2_requestbuffers :: ctype where
  "v4l2_requestbuffers \<equiv>
     StructT Natural [(''count'', u32), (''type'', u32), (''memory'', u32),
      (''reserved'', ArrT u32 2)]"

abbreviation v4l2_plane :: ctype where
  "v4l2_plane \<equiv>
     StructT Natural [(''bytesused'', u32), (''length'', u32),
      (''m'', UnionT Natural [(''mem_offset'', u32), (''userptr'', ulongT), (''fd'', s32)]),
      (''data_offset'', u32), (''reserved'', ArrT u32 11)]"

abbreviation v4l2_buffer :: ctype where
  "v4l2_buffer \<equiv>
     StructT Natural [(''index'', u32), (''type'', u32), (''bytesused'', u32), (''flags'', u32),
      (''field'', u32), (''timestamp'', ForeignT ''struct timeval''),
      (''timecode'', v4l2_timecode), (''sequence'', u32), (''memory'', u32),
      (''m'', UnionT Natural [(''offset'', u32), (''userptr'', ulongT), (''planes'', PtrT),
      (''fd'', s32)]), (''length'', u32), (''reserved2'', u32), (''reserved'', u32)]"

abbreviation v4l2_exportbuffer :: ctype where
  "v4l2_exportbuffer \<equiv>
     StructT Natural [(''type'', u32), (''index'', u32), (''plane'', u32), (''flags'', u32),
      (''fd'', s32), (''reserved'', ArrT u32 11)]"

abbreviation v4l2_framebuffer :: ctype where
  "v4l2_framebuffer \<equiv>
     StructT Natural [(''capability'', u32), (''flags'', u32), (''base'', PtrT),
      (''fmt'', StructT Natural [(''width'', u32), (''height'', u32), (''pixelformat'', u32),
      (''field'', u32), (''bytesperline'', u32), (''sizeimage'', u32), (''colorspace'', u32),
      (''priv'', u32)])]"

abbreviation v4l2_clip :: ctype where
  "v4l2_clip \<equiv>
     StructT Natural [(''c'', v4l2_rect), (''next'', PtrT)]"

abbreviation v4l2_window :: ctype where
  "v4l2_window \<equiv>
     StructT Natural [(''w'', v4l2_rect), (''field'', u32), (''chromakey'', u32),
      (''clips'', PtrT), (''clipcount'', u32), (''bitmap'', PtrT), (''global_alpha'', u8)]"

abbreviation v4l2_captureparm :: ctype where
  "v4l2_captureparm \<equiv>
     StructT Natural [(''capability'', u32), (''capturemode'', u32),
      (''timeperframe'', v4l2_fract), (''extendedmode'', u32), (''readbuffers'', u32),
      (''reserved'', ArrT u32 4)]"

abbreviation v4l2_outputparm :: ctype where
  "v4l2_outputparm \<equiv>
     StructT Natural [(''capability'', u32), (''outputmode'', u32),
      (''timeperframe'', v4l2_fract), (''extendedmode'', u32), (''writebuffers'', u32),
      (''reserved'', ArrT u32 4)]"

abbreviation v4l2_cropcap :: ctype where
  "v4l2_cropcap \<equiv>
     StructT Natural [(''type'', u32), (''bounds'', v4l2_rect), (''defrect'', v4l2_rect),
      (''pixelaspect'', v4l2_fract)]"

abbreviation v4l2_crop :: ctype where
  "v4l2_crop \<equiv>
     StructT Natural [(''type'', u32), (''c'', v4l2_rect)]"

abbreviation v4l2_selection :: ctype where
  "v4l2_selection \<equiv>
     StructT Natural [(''type'', u32), (''target'', u32), (''flags'', u32), (''r'', v4l2_rect),
      (''reserved'', ArrT u32 9)]"

abbreviation v4l2_standard :: ctype where
  "v4l2_standard \<equiv>
     StructT Natural [(''index'', u32), (''id'', u64), (''name'', ArrT u8 24),
      (''frameperiod'', v4l2_fract), (''framelines'', u32), (''reserved'', ArrT u32 4)]"

abbreviation v4l2_bt_timings_t :: ctype where
  "v4l2_bt_timings_t \<equiv>
     StructT Packed [(''width'', u32), (''height'', u32), (''interlaced'', u32),
      (''polarities'', u32), (''pixelclock'', u64), (''hfrontporch'', u32), (''hsync'', u32),
      (''hbackporch'', u32), (''vfrontporch'', u32), (''vsync'', u32), (''vbackporch'', u32),
      (''il_vfrontporch'', u32), (''il_vsync'', u32), (''il_vbackporch'', u32),
      (''standards'', u32), (''flags'', u32), (''reserved'', ArrT u32 14)]"

abbreviation v4l2_dv_timings :: ctype where
  "v4l2_dv_timings \<equiv>
     StructT Packed [(''type'', u32), ('''', UnionT Natural [(''bt'', v4l2_bt_timings_t),
      (''reserved'', ArrT u32 32)])]"

abbreviation v4l2_enum_dv_timings :: ctype where
  "v4l2_enum_dv_timings \<equiv>
     StructT Natural [(''index'', u32), (''pad'', u32), (''reserved'', ArrT u32 2),
      (''timings'', v4l2_dv_timings)]"

abbreviation v4l2_bt_timings_cap :: ctype where
  "v4l2_bt_timings_cap \<equiv>
     StructT Packed [(''min_width'', u32), (''max_width'', u32), (''min_height'', u32),
      (''max_height'', u32), (''min_pixelclock'', u64), (''max_pixelclock'', u64),
      (''standards'', u32), (''capabilities'', u32), (''reserved'', ArrT u32 16)]"

abbreviation v4l2_dv_timings_cap :: ctype where
  "v4l2_dv_timings_cap \<equiv>
     StructT Natural [(''type'', u32), (''pad'', u32), (''reserved'', ArrT u32 2),
      ('''', UnionT Natural [(''bt'', v4l2_bt_timings_cap), (''raw_data'', ArrT u32 32)])]"

abbreviation v4l2_input :: ctype where
  "v4l2_input \<equiv>
     StructT Natural [(''index'', u32), (''name'', ArrT u8 32), (''type'', u32),
      (''audioset'', u32), (''tuner'', u32), (''std'', u64), (''status'', u32),
      (''capabilities'', u32), (''reserved'', ArrT u32 3)]"

abbreviation v4l2_output :: ctype where
  "v4l2_output \<equiv>
     StructT Natural [(''index'', u32), (''name'', ArrT u8 32), (''type'', u32),
      (''audioset'', u32), (''modulator'', u32), (''std'', u64), (''capabilities'', u32),
      (''reserved'', ArrT u32 3)]"

abbreviation v4l2_control :: ctype where
  "v4l2_control \<equiv>
     StructT Natural [(''id'', u32), (''value'', s32)]"

abbreviation v4l2_ext_control :: ctype where
  "v4l2_ext_control \<equiv>
     StructT Packed [(''id'', u32), (''size'', u32), (''reserved2'', ArrT u32 1),
      ('''', UnionT Natural [(''value'', s32), (''value64'', s64), (''string'', PtrT),
      (''p_u8'', PtrT), (''p_u16'', PtrT), (''p_u32'', PtrT), (''ptr'', PtrT)])]"

abbreviation v4l2_ext_controls :: ctype where
  "v4l2_ext_controls \<equiv>
     StructT Natural [('''', UnionT Natural [(''ctrl_class'', u32), (''which'', u32)]),
      (''count'', u32), (''error_idx'', u32), (''reserved'', ArrT u32 2), (''controls'', PtrT)]"

abbreviation v4l2_queryctrl :: ctype where
  "v4l2_queryctrl \<equiv>
     StructT Natural [(''id'', u32), (''type'', u32), (''name'', ArrT u8 32),
      (''minimum'', s32), (''maximum'', s32), (''step'', s32), (''default_value'', s32),
      (''flags'', u32), (''reserved'', ArrT u32 2)]"

abbreviation V4L2_CTRL_MAX_DIMS :: nat where "V4L2_CTRL_MAX_DIMS \<equiv> 4"

abbreviation v4l2_query_ext_ctrl :: ctype where
  "v4l2_query_ext_ctrl \<equiv>
     StructT Natural [(''id'', u32), (''type'', u32), (''name'', ArrT CharT 32),
      (''minimum'', s64), (''maximum'', s64), (''step'', u64), (''default_value'', s64),
      (''flags'', u32), (''elem_size'', u32), (''elems'', u32), (''nr_of_dims'', u32),
      (''dims'', ArrT u32 V4L2_CTRL_MAX_DIMS), (''reserved'', ArrT u32 32)]"

abbreviation v4l2_querymenu :: ctype where
  "v4l2_querymenu \<equiv>
     StructT Packed [(''id'', u32), (''index'', u32),
      ('''', UnionT Natural [(''name'', ArrT u8 32), (''value'', s64)]), (''reserved'', u32)]"

abbreviation v4l2_tuner :: ctype where
  "v4l2_tuner \<equiv>
     StructT Natural [(''index'', u32), (''name'', ArrT u8 32), (''type'', u32),
      (''capability'', u32), (''rangelow'', u32), (''rangehigh'', u32), (''rxsubchans'', u32),
      (''audmode'', u32), (''signal'', s32), (''afc'', s32), (''reserved'', ArrT u32 4)]"

abbreviation v4l2_modulator :: ctype where
  "v4l2_modulator \<equiv>
     StructT Natural [(''index'', u32), (''name'', ArrT u8 32), (''capability'', u32),
      (''rangelow'', u32), (''rangehigh'', u32), (''txsubchans'', u32), (''type'', u32),
      (''reserved'', ArrT u32 3)]"

abbreviation v4l2_frequency :: ctype where
  "v4l2_frequency \<equiv>
     StructT Natural [(''tuner'', u32), (''type'', u32), (''frequency'', u32),
      (''reserved'', ArrT u32 8)]"

abbreviation v4l2_frequency_band :: ctype where
  "v4l2_frequency_band \<equiv>
     StructT Natural [(''tuner'', u32), (''type'', u32), (''index'', u32),
      (''capability'', u32), (''rangelow'', u32), (''rangehigh'', u32), (''modulation'', u32),
      (''reserved'', ArrT u32 9)]"

abbreviation v4l2_hw_freq_seek :: ctype where
  "v4l2_hw_freq_seek \<equiv>
     StructT Natural [(''tuner'', u32), (''type'', u32), (''seek_upward'', u32),
      (''wrap_around'', u32), (''spacing'', u32), (''rangelow'', u32), (''rangehigh'', u32),
      (''reserved'', ArrT u32 5)]"

abbreviation v4l2_rds_data :: ctype where
  "v4l2_rds_data \<equiv>
     StructT Packed [(''lsb'', u8), (''msb'', u8), (''block'', u8)]"

abbreviation v4l2_audio :: ctype where
  "v4l2_audio \<equiv>
     StructT Natural [(''index'', u32), (''name'', ArrT u8 32), (''capability'', u32),
      (''mode'', u32), (''reserved'', ArrT u32 2)]"

abbreviation v4l2_audioout :: ctype where
  "v4l2_audioout \<equiv>
     StructT Natural [(''index'', u32), (''name'', ArrT u8 32), (''capability'', u32),
      (''mode'', u32), (''reserved'', ArrT u32 2)]"

abbreviation v4l2_enc_idx_entry :: ctype where
  "v4l2_enc_idx_entry \<equiv>
     StructT Natural [(''offset'', u64), (''pts'', u64), (''length'', u32), (''flags'', u32),
      (''reserved'', ArrT u32 2)]"

abbreviation V4L2_ENC_IDX_ENTRIES :: nat where "V4L2_ENC_IDX_ENTRIES \<equiv> 64"

abbreviation v4l2_enc_idx :: ctype where
  "v4l2_enc_idx \<equiv>
     StructT Natural [(''entries'', u32), (''entries_cap'', u32), (''reserved'', ArrT u32 4),
      (''entry'', ArrT v4l2_enc_idx_entry V4L2_ENC_IDX_ENTRIES)]"

abbreviation v4l2_encoder_cmd :: ctype where
  "v4l2_encoder_cmd \<equiv>
     StructT Natural [(''cmd'', u32), (''flags'', u32),
      ('''', UnionT Natural [(''raw'', StructT Natural [(''data'', ArrT u32 8)])])]"

abbreviation v4l2_decoder_cmd :: ctype where
  "v4l2_decoder_cmd \<equiv>
     StructT Natural [(''cmd'', u32), (''flags'', u32),
      ('''', UnionT Natural [(''stop'', StructT Natural [(''pts'', u64)]),
      (''start'', StructT Natural [(''speed'', s32), (''format'', u32)]),
      (''raw'', StructT Natural [(''data'', ArrT u32 16)])])]"

abbreviation v4l2_vbi_format :: ctype where
  "v4l2_vbi_format \<equiv>
     StructT Natural [(''sampling_rate'', u32), (''offset'', u32), (''samples_per_line'', u32),
      (''sample_format'', u32), (''start'', ArrT s32 2), (''count'', ArrT u32 2),
      (''flags'', u32), (''reserved'', ArrT u32 2)]"

abbreviation v4l2_sliced_vbi_format :: ctype where
  "v4l2_sliced_vbi_format \<equiv>
     StructT Natural [(''service_set'', u16), (''service_lines'', ArrT (ArrT u16 24) 2),
      (''io_size'', u32), (''reserved'', ArrT u32 2)]"

abbreviation v4l2_sliced_vbi_cap :: ctype where
  "v4l2_sliced_vbi_cap \<equiv>
     StructT Natural [(''service_set'', u16), (''service_lines'', ArrT (ArrT u16 24) 2),
      (''type'', u32), (''reserved'', ArrT u32 3)]"

abbreviation v4l2_sliced_vbi_data :: ctype where
  "v4l2_sliced_vbi_data \<equiv>
     StructT Natural [(''id'', u32), (''field'', u32), (''line'', u32), (''reserved'', u32),
      (''data'', ArrT u8 48)]"

abbreviation v4l2_mpeg_vbi_itv0_line :: ctype where
  "v4l2_mpeg_vbi_itv0_line \<equiv>
     StructT Packed [(''id'', u8), (''data'', ArrT u8 42)]"

abbreviation v4l2_mpeg_vbi_itv0 :: ctype where
  "v4l2_mpeg_vbi_itv0 \<equiv>
     StructT Packed [(''linemask'', ArrT u32 2), (''line'', ArrT v4l2_mpeg_vbi_itv0_line 35)]"

abbreviation v4l2_mpeg_vbi_ITV0 :: ctype where
  "v4l2_mpeg_vbi_ITV0 \<equiv>
     StructT Packed [(''line'', ArrT v4l2_mpeg_vbi_itv0_line 36)]"

abbreviation v4l2_mpeg_vbi_fmt_ivtv :: ctype where
  "v4l2_mpeg_vbi_fmt_ivtv \<equiv>
     StructT Packed [(''magic'', ArrT u8 4),
      ('''', UnionT Natural [(''itv0'', v4l2_mpeg_vbi_itv0), (''ITV0'', v4l2_mpeg_vbi_ITV0)])]"

abbreviation v4l2_plane_pix_format :: ctype where
  "v4l2_plane_pix_format \<equiv>
     StructT Packed [(''sizeimage'', u32), (''bytesperline'', u32), (''reserved'', ArrT u16 6)]"

abbreviation VIDEO_MAX_PLANES :: nat where "VIDEO_MAX_PLANES \<equiv> 8"

abbreviation v4l2_pix_format_mplane :: ctype where
  "v4l2_pix_format_mplane \<equiv>
     StructT Packed [(''width'', u32), (''height'', u32), (''pixelformat'', u32),
      (''field'', u32), (''colorspace'', u32),
      (''plane_fmt'', ArrT v4l2_plane_pix_format VIDEO_MAX_PLANES), (''num_planes'', u8),
      (''flags'', u8), (''ycbcr_enc'', u8), (''quantization'', u8), (''xfer_func'', u8),
      (''reserved'', ArrT u8 7)]"

abbreviation v4l2_sdr_format :: ctype where
  "v4l2_sdr_format \<equiv>
     StructT Packed [(''pixelformat'', u32), (''buffersize'', u32), (''reserved'', ArrT u8 24)]"

abbreviation v4l2_format :: ctype where
  "v4l2_format \<equiv>
     StructT Natural [(''type'', u32), (''fmt'', UnionT Natural [(''pix'', v4l2_pix_format),
      (''pix_mp'', v4l2_pix_format_mplane), (''win'', v4l2_window), (''vbi'', v4l2_vbi_format),
      (''sliced'', v4l2_sliced_vbi_format), (''sdr'', v4l2_sdr_format),
      (''raw_data'', ArrT u8 200)])]"

abbreviation v4l2_streamparm :: ctype where
  "v4l2_streamparm \<equiv>
     StructT Natural [(''type'', u32),
      (''parm'', UnionT Natural [(''capture'', v4l2_captureparm), (''output'', v4l2_outputparm),
      (''raw_data'', ArrT u8 200)])]"

abbreviation v4l2_event_vsync :: ctype where
  "v4l2_event_vsync \<equiv>
     StructT Packed [(''field'', u8)]"

abbreviation v4l2_event_ctrl :: ctype where
  "v4l2_event_ctrl \<equiv>
     StructT Natural [(''changes'', u32), (''type'', u32),
      ('''', UnionT Natural [(''value'', s32), (''value64'', s64)]), (''flags'', u32),
      (''minimum'', s32), (''maximum'', s32), (''step'', s32), (''default_value'', s32)]"

abbreviation v4l2_event_frame_sync :: ctype where
  "v4l2_event_frame_sync \<equiv>
     StructT Natural [(''frame_sequence'', u32)]"

abbreviation v4l2_event_src_change :: ctype where
  "v4l2_event_src_change \<equiv>
     StructT Natural [(''changes'', u32)]"

abbreviation v4l2_event_motion_det :: ctype where
  "v4l2_event_motion_det \<equiv>
     StructT Natural [(''flags'', u32), (''frame_sequence'', u32), (''region_mask'', u32)]"

abbreviation v4l2_event :: ctype where
  "v4l2_event \<equiv>
     StructT Natural [(''type'', u32), (''u'', UnionT Natural [(''vsync'', v4l2_event_vsync),
      (''ctrl'', v4l2_event_ctrl), (''frame_sync'', v4l2_event_frame_sync),
      (''src_change'', v4l2_event_src_change), (''motion_det'', v4l2_event_motion_det),
      (''data'', ArrT u8 64)]), (''pending'', u32), (''sequence'', u32),
      (''timestamp'', ForeignT ''struct timespec''), (''id'', u32), (''reserved'', ArrT u32 8)]"

abbreviation v4l2_event_subscription :: ctype where
  "v4l2_event_subscription \<equiv>
     StructT Natural [(''type'', u32), (''id'', u32), (''flags'', u32),
      (''reserved'', ArrT u32 5)]"

abbreviation v4l2_dbg_match :: ctype where
  "v4l2_dbg_match \<equiv>
     StructT Packed [(''type'', u32), ('''', UnionT Natural [(''addr'', u32),
      (''name'', ArrT CharT 32)])]"

abbreviation v4l2_dbg_register :: ctype where
  "v4l2_dbg_register \<equiv>
     StructT Packed [(''match'', v4l2_dbg_match), (''size'', u32), (''reg'', u64),
      (''val'', u64)]"

abbreviation v4l2_dbg_chip_info :: ctype where
  "v4l2_dbg_chip_info \<equiv>
     StructT Packed [(''match'', v4l2_dbg_match), (''name'', ArrT CharT 32), (''flags'', u32),
      (''reserved'', ArrT u32 32)]"

abbreviation v4l2_create_buffers :: ctype where
  "v4l2_create_buffers \<equiv>
     StructT Natural [(''index'', u32), (''count'', u32), (''memory'', u32),
      (''format'', v4l2_format), (''reserved'', ArrT u32 8)]"

definition videodev2_1 :: "decl list" where
  "videodev2_1 =
    [Flag ''__LINUX_VIDEODEV2_H'']"

definition videodev2_2 :: "decl list" where
  "videodev2_2 =
    [Const ''VIDEO_MAX_FRAME'' 64, Const ''VIDEO_MAX_PLANES'' 8]"

definition videodev2_3 :: "decl list" where
  "videodev2_3 =
    [Enum ''v4l2_field'' [(''V4L2_FIELD_ANY'', 0), (''V4L2_FIELD_NONE'', 1),
       (''V4L2_FIELD_TOP'', 2), (''V4L2_FIELD_BOTTOM'', 3), (''V4L2_FIELD_INTERLACED'', 4),
       (''V4L2_FIELD_SEQ_TB'', 5), (''V4L2_FIELD_SEQ_BT'', 6), (''V4L2_FIELD_ALTERNATE'', 7),
       (''V4L2_FIELD_INTERLACED_TB'', 8), (''V4L2_FIELD_INTERLACED_BT'', 9)]]"

definition videodev2_4 :: "decl list" where
  "videodev2_4 =
    [Enum ''v4l2_buf_type'' [(''V4L2_BUF_TYPE_VIDEO_CAPTURE'', 1),
       (''V4L2_BUF_TYPE_VIDEO_OUTPUT'', 2), (''V4L2_BUF_TYPE_VIDEO_OVERLAY'', 3),
       (''V4L2_BUF_TYPE_VBI_CAPTURE'', 4), (''V4L2_BUF_TYPE_VBI_OUTPUT'', 5),
       (''V4L2_BUF_TYPE_SLICED_VBI_CAPTURE'', 6), (''V4L2_BUF_TYPE_SLICED_VBI_OUTPUT'', 7),
       (''V4L2_BUF_TYPE_VIDEO_OUTPUT_OVERLAY'', 8), (''V4L2_BUF_TYPE_VIDEO_CAPTURE_MPLANE'', 9),
       (''V4L2_BUF_TYPE_VIDEO_OUTPUT_MPLANE'', 10), (''V4L2_BUF_TYPE_SDR_CAPTURE'', 11),
       (''V4L2_BUF_TYPE_SDR_OUTPUT'', 12), (''V4L2_BUF_TYPE_PRIVATE'', 128)]]"

definition videodev2_5 :: "decl list" where
  "videodev2_5 =
    [Enum ''v4l2_tuner_type'' [(''V4L2_TUNER_RADIO'', 1), (''V4L2_TUNER_ANALOG_TV'', 2),
       (''V4L2_TUNER_DIGITAL_TV'', 3), (''V4L2_TUNER_SDR'', 4), (''V4L2_TUNER_RF'', 5)],
     Const ''V4L2_TUNER_ADC'' 4,
     Enum ''v4l2_memory'' [(''V4L2_MEMORY_MMAP'', 1), (''V4L2_MEMORY_USERPTR'', 2),
       (''V4L2_MEMORY_OVERLAY'', 3), (''V4L2_MEMORY_DMABUF'', 4)],
     Enum ''v4l2_colorspace'' [(''V4L2_COLORSPACE_DEFAULT'', 0),
       (''V4L2_COLORSPACE_SMPTE170M'', 1), (''V4L2_COLORSPACE_SMPTE240M'', 2),
       (''V4L2_COLORSPACE_REC709'', 3), (''V4L2_COLORSPACE_BT878'', 4),
       (''V4L2_COLORSPACE_470_SYSTEM_M'', 5), (''V4L2_COLORSPACE_470_SYSTEM_BG'', 6),
       (''V4L2_COLORSPACE_JPEG'', 7), (''V4L2_COLORSPACE_SRGB'', 8),
       (''V4L2_COLORSPACE_ADOBERGB'', 9), (''V4L2_COLORSPACE_BT2020'', 10),
       (''V4L2_COLORSPACE_RAW'', 11), (''V4L2_COLORSPACE_DCI_P3'', 12)]]"

definition videodev2_6 :: "decl list" where
  "videodev2_6 =
    [Enum ''v4l2_xfer_func'' [(''V4L2_XFER_FUNC_DEFAULT'', 0), (''V4L2_XFER_FUNC_709'', 1),
       (''V4L2_XFER_FUNC_SRGB'', 2), (''V4L2_XFER_FUNC_ADOBERGB'', 3),
       (''V4L2_XFER_FUNC_SMPTE240M'', 4), (''V4L2_XFER_FUNC_NONE'', 5),
       (''V4L2_XFER_FUNC_DCI_P3'', 6), (''V4L2_XFER_FUNC_SMPTE2084'', 7)]]"

definition videodev2_7 :: "decl list" where
  "videodev2_7 =
    [Enum ''v4l2_ycbcr_encoding'' [(''V4L2_YCBCR_ENC_DEFAULT'', 0), (''V4L2_YCBCR_ENC_601'', 1),
       (''V4L2_YCBCR_ENC_709'', 2), (''V4L2_YCBCR_ENC_XV601'', 3), (''V4L2_YCBCR_ENC_XV709'', 4),
       (''V4L2_YCBCR_ENC_SYCC'', 5), (''V4L2_YCBCR_ENC_BT2020'', 6),
       (''V4L2_YCBCR_ENC_BT2020_CONST_LUM'', 7), (''V4L2_YCBCR_ENC_SMPTE240M'', 8)]]"

definition videodev2_8 :: "decl list" where
  "videodev2_8 =
    [Enum ''v4l2_quantization'' [(''V4L2_QUANTIZATION_DEFAULT'', 0),
       (''V4L2_QUANTIZATION_FULL_RANGE'', 1), (''V4L2_QUANTIZATION_LIM_RANGE'', 2)]]"

definition videodev2_9 :: "decl list" where
  "videodev2_9 =
    [Enum ''v4l2_priority'' [(''V4L2_PRIORITY_UNSET'', 0), (''V4L2_PRIORITY_BACKGROUND'', 1),
       (''V4L2_PRIORITY_INTERACTIVE'', 2), (''V4L2_PRIORITY_RECORD'', 3),
       (''V4L2_PRIORITY_DEFAULT'', 2)],
     Struct ''v4l2_rect'' v4l2_rect, Struct ''v4l2_fract'' v4l2_fract,
     Struct ''v4l2_capability'' v4l2_capability, Const ''V4L2_CAP_VIDEO_CAPTURE'' 0x00000001,
     Const ''V4L2_CAP_VIDEO_OUTPUT'' 0x00000002, Const ''V4L2_CAP_VIDEO_OVERLAY'' 0x00000004,
     Const ''V4L2_CAP_VBI_CAPTURE'' 0x00000010, Const ''V4L2_CAP_VBI_OUTPUT'' 0x00000020,
     Const ''V4L2_CAP_SLICED_VBI_CAPTURE'' 0x00000040,
     Const ''V4L2_CAP_SLICED_VBI_OUTPUT'' 0x00000080, Const ''V4L2_CAP_RDS_CAPTURE'' 0x00000100,
     Const ''V4L2_CAP_VIDEO_OUTPUT_OVERLAY'' 0x00000200,
     Const ''V4L2_CAP_HW_FREQ_SEEK'' 0x00000400, Const ''V4L2_CAP_RDS_OUTPUT'' 0x00000800,
     Const ''V4L2_CAP_VIDEO_CAPTURE_MPLANE'' 0x00001000,
     Const ''V4L2_CAP_VIDEO_OUTPUT_MPLANE'' 0x00002000,
     Const ''V4L2_CAP_VIDEO_M2M_MPLANE'' 0x00004000, Const ''V4L2_CAP_VIDEO_M2M'' 0x00008000,
     Const ''V4L2_CAP_TUNER'' 0x00010000, Const ''V4L2_CAP_AUDIO'' 0x00020000,
     Const ''V4L2_CAP_RADIO'' 0x00040000, Const ''V4L2_CAP_MODULATOR'' 0x00080000,
     Const ''V4L2_CAP_SDR_CAPTURE'' 0x00100000, Const ''V4L2_CAP_EXT_PIX_FORMAT'' 0x00200000,
     Const ''V4L2_CAP_SDR_OUTPUT'' 0x00400000, Const ''V4L2_CAP_READWRITE'' 0x01000000,
     Const ''V4L2_CAP_ASYNCIO'' 0x02000000, Const ''V4L2_CAP_STREAMING'' 0x04000000,
     Const ''V4L2_CAP_TOUCH'' 0x10000000, Const ''V4L2_CAP_DEVICE_CAPS'' 0x80000000,
     Struct ''v4l2_pix_format'' v4l2_pix_format, Const ''V4L2_PIX_FMT_RGB332'' 826427218,
     Const ''V4L2_PIX_FMT_RGB444'' 875836498, Const ''V4L2_PIX_FMT_ARGB444'' 842093121,
     Const ''V4L2_PIX_FMT_XRGB444'' 842093144, Const ''V4L2_PIX_FMT_RGB555'' 1329743698,
     Const ''V4L2_PIX_FMT_ARGB555'' 892424769, Const ''V4L2_PIX_FMT_XRGB555'' 892424792,
     Const ''V4L2_PIX_FMT_RGB565'' 1346520914, Const ''V4L2_PIX_FMT_RGB555X'' 1363298130,
     Const ''V4L2_PIX_FMT_ARGB555X'' (- 1255058879),
     Const ''V4L2_PIX_FMT_XRGB555X'' (- 1255058856), Const ''V4L2_PIX_FMT_RGB565X'' 1380075346,
     Const ''V4L2_PIX_FMT_BGR666'' 1213351746, Const ''V4L2_PIX_FMT_BGR24'' 861030210,
     Const ''V4L2_PIX_FMT_RGB24'' 859981650, Const ''V4L2_PIX_FMT_BGR32'' 877807426,
     Const ''V4L2_PIX_FMT_ABGR32'' 875713089, Const ''V4L2_PIX_FMT_XBGR32'' 875713112,
     Const ''V4L2_PIX_FMT_RGB32'' 876758866, Const ''V4L2_PIX_FMT_ARGB32'' 875708738,
     Const ''V4L2_PIX_FMT_XRGB32'' 875714626, Const ''V4L2_PIX_FMT_RGBA8888_UBWC'' 1111970385,
     Const ''V4L2_PIX_FMT_GREY'' 1497715271, Const ''V4L2_PIX_FMT_Y4'' 540291161,
     Const ''V4L2_PIX_FMT_Y6'' 540422233, Const ''V4L2_PIX_FMT_Y10'' 540029273,
     Const ''V4L2_PIX_FMT_Y12'' 540160345, Const ''V4L2_PIX_FMT_Y16'' 540422489,
     Const ''V4L2_PIX_FMT_Y16_BE'' (- 1607061159), Const ''V4L2_PIX_FMT_Y10BPACK'' 1110454617,
     Const ''V4L2_PIX_FMT_PAL8'' 944521552, Const ''V4L2_PIX_FMT_UV8'' 540563029,
     Const ''V4L2_PIX_FMT_YUYV'' 1448695129, Const ''V4L2_PIX_FMT_YYUV'' 1448434009,
     Const ''V4L2_PIX_FMT_YVYU'' 1431918169, Const ''V4L2_PIX_FMT_UYVY'' 1498831189,
     Const ''V4L2_PIX_FMT_VYUY'' 1498765654, Const ''V4L2_PIX_FMT_Y41P'' 1345401945,
     Const ''V4L2_PIX_FMT_YUV444'' 875836505, Const ''V4L2_PIX_FMT_YUV555'' 1331058009,
     Const ''V4L2_PIX_FMT_YUV565'' 1347835225, Const ''V4L2_PIX_FMT_YUV32'' 878073177,
     Const ''V4L2_PIX_FMT_HI240'' 875710792, Const ''V4L2_PIX_FMT_HM12'' 842091848,
     Const ''V4L2_PIX_FMT_M420'' 808596557, Const ''V4L2_PIX_FMT_NV12'' 842094158,
     Const ''V4L2_PIX_FMT_NV21'' 825382478, Const ''V4L2_PIX_FMT_NV16'' 909203022,
     Const ''V4L2_PIX_FMT_NV61'' 825644622, Const ''V4L2_PIX_FMT_NV24'' 875714126,
     Const ''V4L2_PIX_FMT_NV42'' 842290766, Const ''V4L2_PIX_FMT_NV12_UBWC'' 942813521,
     Const ''V4L2_PIX_FMT_NV12_TP10_UBWC'' 1093808465,
     Const ''V4L2_PIX_FMT_NV12_P010_UBWC'' 1110585681, Const ''V4L2_PIX_FMT_NV12M'' 842091854,
     Const ''V4L2_PIX_FMT_NV21M'' 825380174, Const ''V4L2_PIX_FMT_NV16M'' 909200718,
     Const ''V4L2_PIX_FMT_NV61M'' 825642318, Const ''V4L2_PIX_FMT_NV12MT'' 842091860,
     Const ''V4L2_PIX_FMT_NV12MT_16X16'' 842091862, Const ''V4L2_PIX_FMT_YUV410'' 961959257,
     Const ''V4L2_PIX_FMT_YVU410'' 961893977, Const ''V4L2_PIX_FMT_YUV411P'' 1345401140,
     Const ''V4L2_PIX_FMT_YUV420'' 842093913, Const ''V4L2_PIX_FMT_YVU420'' 842094169,
     Const ''V4L2_PIX_FMT_YUV422P'' 1345466932, Const ''V4L2_PIX_FMT_YUV420M'' 842091865,
     Const ''V4L2_PIX_FMT_YVU420M'' 825380185, Const ''V4L2_PIX_FMT_YUV422M'' 909200729,
     Const ''V4L2_PIX_FMT_YVU422M'' 825642329, Const ''V4L2_PIX_FMT_YUV444M'' 875711833,
     Const ''V4L2_PIX_FMT_YVU444M'' 842288473, Const ''V4L2_PIX_FMT_SBGGR8'' 825770306,
     Const ''V4L2_PIX_FMT_SGBRG8'' 1196573255, Const ''V4L2_PIX_FMT_SGRBG8'' 1195528775,
     Const ''V4L2_PIX_FMT_SRGGB8'' 1111967570, Const ''V4L2_PIX_FMT_SBGGR10'' 808535874,
     Const ''V4L2_PIX_FMT_SGBRG10'' 808534599, Const ''V4L2_PIX_FMT_SGRBG10'' 808534338,
     Const ''V4L2_PIX_FMT_SRGGB10'' 808535890, Const ''V4L2_PIX_FMT_SBGGR10P'' 1094795888,
     Const ''V4L2_PIX_FMT_SGBRG10P'' 1094797168, Const ''V4L2_PIX_FMT_SGRBG10P'' 1094805360]"

definition videodev2_10 :: "decl list" where
  "videodev2_10 =
    [Const ''V4L2_PIX_FMT_SRGGB10P'' 1094799984, Const ''V4L2_PIX_FMT_SBGGR10ALAW8'' 943800929,
     Const ''V4L2_PIX_FMT_SGBRG10ALAW8'' 943802209,
     Const ''V4L2_PIX_FMT_SGRBG10ALAW8'' 943810401,
     Const ''V4L2_PIX_FMT_SRGGB10ALAW8'' 943805025,
     Const ''V4L2_PIX_FMT_SBGGR10DPCM8'' 943800930,
     Const ''V4L2_PIX_FMT_SGBRG10DPCM8'' 943802210,
     Const ''V4L2_PIX_FMT_SGRBG10DPCM8'' 808535106,
     Const ''V4L2_PIX_FMT_SRGGB10DPCM8'' 943805026, Const ''V4L2_PIX_FMT_SBGGR12'' 842090306,
     Const ''V4L2_PIX_FMT_SGBRG12'' 842089031, Const ''V4L2_PIX_FMT_SGRBG12'' 842088770,
     Const ''V4L2_PIX_FMT_SRGGB12'' 842090322, Const ''V4L2_PIX_FMT_SBGGR16'' 844257602,
     Const ''V4L2_PIX_FMT_SBGGR10DPCM6'' 910246498,
     Const ''V4L2_PIX_FMT_SGBRG10DPCM6'' 910247778,
     Const ''V4L2_PIX_FMT_SGRBG10DPCM6'' 909198402,
     Const ''V4L2_PIX_FMT_SRGGB10DPCM6'' 910250594,
     Const ''V4L2_PIX_FMT_SBGGRPLAIN16'' 909199170,
     Const ''V4L2_PIX_FMT_SGBRGPLAIN16'' 909197895,
     Const ''V4L2_PIX_FMT_SGRBGPLAIN16'' 909201991,
     Const ''V4L2_PIX_FMT_SRGGBPLAIN16'' 909199186, Const ''V4L2_PIX_FMT_MJPEG'' 1196444237,
     Const ''V4L2_PIX_FMT_JPEG'' 1195724874, Const ''V4L2_PIX_FMT_DV'' 1685288548,
     Const ''V4L2_PIX_FMT_MPEG'' 1195724877, Const ''V4L2_PIX_FMT_H264'' 875967048,
     Const ''V4L2_PIX_FMT_H264_NO_SC'' 826496577, Const ''V4L2_PIX_FMT_H264_MVC'' 875967053,
     Const ''V4L2_PIX_FMT_H263'' 859189832, Const ''V4L2_PIX_FMT_MPEG1'' 826757197,
     Const ''V4L2_PIX_FMT_MPEG2'' 843534413, Const ''V4L2_PIX_FMT_MPEG4'' 877088845,
     Const ''V4L2_PIX_FMT_XVID'' 1145656920, Const ''V4L2_PIX_FMT_VC1_ANNEX_G'' 1194410838,
     Const ''V4L2_PIX_FMT_VC1_ANNEX_L'' 1278296918, Const ''V4L2_PIX_FMT_VP8'' 808996950,
     Const ''V4L2_PIX_FMT_VP9'' 809062486, Const ''V4L2_PIX_FMT_DIVX_311'' 861292868,
     Const ''V4L2_PIX_FMT_DIVX'' 1482049860, Const ''V4L2_PIX_FMT_HEVC'' 1129727304,
     Const ''V4L2_PIX_FMT_HEVC_HYBRID'' 1212372552, Const ''V4L2_PIX_FMT_TME'' 809848148,
     Const ''V4L2_PIX_FMT_CPIA1'' 1095323715, Const ''V4L2_PIX_FMT_WNVA'' 1096175191,
     Const ''V4L2_PIX_FMT_SN9C10X'' 808532307, Const ''V4L2_PIX_FMT_SN9C20X_I420'' 808597843,
     Const ''V4L2_PIX_FMT_PWC1'' 826496848, Const ''V4L2_PIX_FMT_PWC2'' 843274064,
     Const ''V4L2_PIX_FMT_ET61X251'' 892483141, Const ''V4L2_PIX_FMT_SPCA501'' 825242963,
     Const ''V4L2_PIX_FMT_SPCA505'' 892351827, Const ''V4L2_PIX_FMT_SPCA508'' 942683475,
     Const ''V4L2_PIX_FMT_SPCA561'' 825636179, Const ''V4L2_PIX_FMT_PAC207'' 925905488,
     Const ''V4L2_PIX_FMT_MR97310A'' 808530765, Const ''V4L2_PIX_FMT_JL2005BCD'' 808602698,
     Const ''V4L2_PIX_FMT_SN9C2028'' 1481527123, Const ''V4L2_PIX_FMT_SQ905C'' 1127559225,
     Const ''V4L2_PIX_FMT_PJPG'' 1196444240, Const ''V4L2_PIX_FMT_OV511'' 825308495,
     Const ''V4L2_PIX_FMT_OV518'' 942749007, Const ''V4L2_PIX_FMT_STV0680'' 808990291,
     Const ''V4L2_PIX_FMT_TM6000'' 808865108, Const ''V4L2_PIX_FMT_CIT_YYVYUY'' 1448364355,
     Const ''V4L2_PIX_FMT_KONICA420'' 1229868875, Const ''V4L2_PIX_FMT_JPGL'' 1279742026,
     Const ''V4L2_PIX_FMT_SE401'' 825242707, Const ''V4L2_PIX_FMT_S5C_UYVY_JPG'' 1229141331,
     Const ''V4L2_PIX_FMT_Y8I'' 541669465, Const ''V4L2_PIX_FMT_Y12I'' 1228026201,
     Const ''V4L2_PIX_FMT_Z16'' 540422490, Const ''V4L2_PIX_FMT_SDE_ABGR_8888'' 875708754,
     Const ''V4L2_PIX_FMT_SDE_RGBA_8888'' 875708993,
     Const ''V4L2_PIX_FMT_SDE_RGBX_8888'' 875709016,
     Const ''V4L2_PIX_FMT_SDE_XBGR_8888'' 875714642,
     Const ''V4L2_PIX_FMT_SDE_RGBA_5551'' 892420434,
     Const ''V4L2_PIX_FMT_SDE_ABGR_1555'' 892420673,
     Const ''V4L2_PIX_FMT_SDE_BGRA_5551'' 892420418,
     Const ''V4L2_PIX_FMT_SDE_BGRX_5551'' 892426306,
     Const ''V4L2_PIX_FMT_SDE_RGBX_5551'' 892426322,
     Const ''V4L2_PIX_FMT_SDE_XBGR_1555'' 892420696,
     Const ''V4L2_PIX_FMT_SDE_RGBA_4444'' 842088786,
     Const ''V4L2_PIX_FMT_SDE_BGRA_4444'' 842088802,
     Const ''V4L2_PIX_FMT_SDE_ABGR_4444'' 842089025,
     Const ''V4L2_PIX_FMT_SDE_RGBX_4444'' 842094674,
     Const ''V4L2_PIX_FMT_SDE_BGRX_4444'' 842094658,
     Const ''V4L2_PIX_FMT_SDE_XBGR_4444'' 842089048,
     Const ''V4L2_PIX_FMT_SDE_BGR_565'' 909199170,
     Const ''V4L2_PIX_FMT_SDE_Y_CR_CB_GH2V2'' 842290521,
     Const ''V4L2_PIX_FMT_SDE_Y_CBCR_H1V2'' 909199438,
     Const ''V4L2_PIX_FMT_SDE_Y_CRCB_H1V2'' 825641038,
     Const ''V4L2_PIX_FMT_SDE_Y_CBCR_H2V2_VENUS'' 844516945,
     Const ''V4L2_PIX_FMT_SDE_Y_CRCB_H2V2_VENUS'' 827739729,
     Const ''V4L2_PIX_FMT_SDE_RGBX_8888_UBWC'' 876763217,
     Const ''V4L2_PIX_FMT_SDE_RGB_565_UBWC'' 910643793,
     Const ''V4L2_PIX_FMT_SDE_RGBA_1010102'' 808665665,
     Const ''V4L2_PIX_FMT_SDE_RGBX_1010102'' 808665688,
     Const ''V4L2_PIX_FMT_SDE_ARGB_2101010'' 808669761,
     Const ''V4L2_PIX_FMT_SDE_XRGB_2101010'' 808669784,
     Const ''V4L2_PIX_FMT_SDE_BGRA_1010102'' 808665410,
     Const ''V4L2_PIX_FMT_SDE_BGRX_1010102'' 808671298,
     Const ''V4L2_PIX_FMT_SDE_ABGR_2101010'' 808665426,
     Const ''V4L2_PIX_FMT_SDE_XBGR_2101010'' 808671314,
     Const ''V4L2_PIX_FMT_SDE_RGBA_1010102_UBWC'' 1094865489,
     Const ''V4L2_PIX_FMT_SDE_RGBX_1010102_UBWC'' 1094867025,
     Const ''V4L2_PIX_FMT_SDE_Y_CBCR_H2V2_TP10'' 808538196,
     Const ''V4L2_PIX_FMT_SDE_Y_CBCR_H2V2_P010'' 808530000,
     Const ''V4L2_PIX_FMT_SDE_Y_CBCR_H2V2_P010_VENUS'' 808538193,
     Const ''V4L2_SDR_FMT_CU8'' 942691651, Const ''V4L2_SDR_FMT_CU16LE'' 909202755,
     Const ''V4L2_SDR_FMT_CS8'' 942691139, Const ''V4L2_SDR_FMT_CS14LE'' 875647811,
     Const ''V4L2_SDR_FMT_RU12LE'' 842093906, Const ''V4L2_TCH_FMT_DELTA_TD16'' 909198420,
     Const ''V4L2_TCH_FMT_DELTA_TD08'' 942687316, Const ''V4L2_TCH_FMT_TU16'' 909202772,
     Const ''V4L2_TCH_FMT_TU08'' 942691668, Const ''V4L2_PIX_FMT_PRIV_MAGIC'' 0xfeedcafe,
     Const ''V4L2_PIX_FMT_FLAG_PREMUL_ALPHA'' 0x00000001, Struct ''v4l2_fmtdesc'' v4l2_fmtdesc,
     Const ''V4L2_FMT_FLAG_COMPRESSED'' 0x0001, Const ''V4L2_FMT_FLAG_EMULATED'' 0x0002,
     Enum ''v4l2_frmsizetypes'' [(''V4L2_FRMSIZE_TYPE_DISCRETE'', 1),
       (''V4L2_FRMSIZE_TYPE_CONTINUOUS'', 2), (''V4L2_FRMSIZE_TYPE_STEPWISE'', 3)],
     Struct ''v4l2_frmsize_discrete'' v4l2_frmsize_discrete,
     Struct ''v4l2_frmsize_stepwise'' v4l2_frmsize_stepwise]"

definition videodev2_11 :: "decl list" where
  "videodev2_11 =
    [Struct ''v4l2_frmsizeenum'' v4l2_frmsizeenum,
     Enum ''v4l2_frmivaltypes'' [(''V4L2_FRMIVAL_TYPE_DISCRETE'', 1),
       (''V4L2_FRMIVAL_TYPE_CONTINUOUS'', 2), (''V4L2_FRMIVAL_TYPE_STEPWISE'', 3)],
     Struct ''v4l2_frmival_stepwise'' v4l2_frmival_stepwise,
     Struct ''v4l2_frmivalenum'' v4l2_frmivalenum, Struct ''v4l2_timecode'' v4l2_timecode,
     Const ''V4L2_TC_TYPE_24FPS'' 1, Const ''V4L2_TC_TYPE_25FPS'' 2,
     Const ''V4L2_TC_TYPE_30FPS'' 3, Const ''V4L2_TC_TYPE_50FPS'' 4,
     Const ''V4L2_TC_TYPE_60FPS'' 5, Const ''V4L2_TC_FLAG_DROPFRAME'' 0x0001,
     Const ''V4L2_TC_FLAG_COLORFRAME'' 0x0002, Const ''V4L2_TC_USERBITS_field'' 0x000C,
     Const ''V4L2_TC_USERBITS_USERDEFINED'' 0x0000, Const ''V4L2_TC_USERBITS_8BITCHARS'' 0x0008,
     Struct ''v4l2_jpegcompression'' v4l2_jpegcompression,
     Const ''V4L2_JPEG_MARKER_DHT'' (2 ^ 3), Const ''V4L2_JPEG_MARKER_DQT'' (2 ^ 4),
     Const ''V4L2_JPEG_MARKER_DRI'' (2 ^ 5), Const ''V4L2_JPEG_MARKER_COM'' (2 ^ 6),
     Const ''V4L2_JPEG_MARKER_APP'' (2 ^ 7), Struct ''v4l2_requestbuffers'' v4l2_requestbuffers,
     Struct ''v4l2_plane'' v4l2_plane, Struct ''v4l2_buffer'' v4l2_buffer,
     Const ''V4L2_BUF_FLAG_MAPPED'' 0x00000001, Const ''V4L2_BUF_FLAG_QUEUED'' 0x00000002,
     Const ''V4L2_BUF_FLAG_DONE'' 0x00000004, Const ''V4L2_BUF_FLAG_KEYFRAME'' 0x00000008,
     Const ''V4L2_BUF_FLAG_PFRAME'' 0x00000010, Const ''V4L2_BUF_FLAG_BFRAME'' 0x00000020,
     Const ''V4L2_BUF_FLAG_ERROR'' 0x00000040, Const ''V4L2_BUF_FLAG_TIMECODE'' 0x00000100,
     Const ''V4L2_BUF_FLAG_PREPARED'' 0x00000400,
     Const ''V4L2_BUF_FLAG_NO_CACHE_INVALIDATE'' 0x00000800,
     Const ''V4L2_BUF_FLAG_NO_CACHE_CLEAN'' 0x00001000,
     Const ''V4L2_BUF_FLAG_TIMESTAMP_MASK'' 0x0000e000,
     Const ''V4L2_BUF_FLAG_TIMESTAMP_UNKNOWN'' 0x00000000,
     Const ''V4L2_BUF_FLAG_TIMESTAMP_MONOTONIC'' 0x00002000,
     Const ''V4L2_BUF_FLAG_TIMESTAMP_COPY'' 0x00004000,
     Const ''V4L2_BUF_FLAG_TSTAMP_SRC_MASK'' 0x00070000,
     Const ''V4L2_BUF_FLAG_TSTAMP_SRC_EOF'' 0x00000000,
     Const ''V4L2_BUF_FLAG_TSTAMP_SRC_SOE'' 0x00010000, Const ''V4L2_BUF_FLAG_LAST'' 0x00100000,
     Const ''V4L2_QCOM_BUF_END_OF_SUBFRAME'' 0x00000080,
     Const ''V4L2_QCOM_BUF_FLAG_CODECCONFIG'' 0x00020000,
     Const ''V4L2_QCOM_BUF_FLAG_EOSEQ'' 0x00040000,
     Const ''V4L2_QCOM_BUF_TIMESTAMP_INVALID'' 0x00080000,
     Const ''V4L2_MSM_BUF_FLAG_MBAFF'' 0x00000200,
     Const ''V4L2_QCOM_BUF_FLAG_DECODEONLY'' 0x00200000,
     Const ''V4L2_QCOM_BUF_DATA_CORRUPT'' 0x00400000,
     Const ''V4L2_QCOM_BUF_DROP_FRAME'' 0x00800000,
     Const ''V4L2_QCOM_BUF_INPUT_UNSUPPORTED'' 0x01000000,
     Const ''V4L2_QCOM_BUF_FLAG_EOS'' 0x02000000,
     Const ''V4L2_QCOM_BUF_FLAG_READONLY'' 0x04000000,
     Const ''V4L2_MSM_VIDC_BUF_START_CODE_NOT_FOUND'' 0x08000000,
     Const ''V4L2_MSM_BUF_FLAG_YUV_601_709_CLAMP'' 0x10000000,
     Const ''V4L2_QCOM_BUF_FLAG_PERF_MODE'' 0x20000000,
     Const ''V4L2_MSM_BUF_FLAG_DEFER'' 0x40000000,
     Const ''V4L2_QCOM_BUF_FLAG_IDRFRAME'' 0x80000000,
     Struct ''v4l2_exportbuffer'' v4l2_exportbuffer]"

definition videodev2_12 :: "decl list" where
  "videodev2_12 =
    [Struct ''v4l2_framebuffer'' v4l2_framebuffer, Const ''V4L2_FBUF_CAP_EXTERNOVERLAY'' 0x0001,
     Const ''V4L2_FBUF_CAP_CHROMAKEY'' 0x0002, Const ''V4L2_FBUF_CAP_LIST_CLIPPING'' 0x0004,
     Const ''V4L2_FBUF_CAP_BITMAP_CLIPPING'' 0x0008, Const ''V4L2_FBUF_CAP_LOCAL_ALPHA'' 0x0010,
     Const ''V4L2_FBUF_CAP_GLOBAL_ALPHA'' 0x0020,
     Const ''V4L2_FBUF_CAP_LOCAL_INV_ALPHA'' 0x0040,
     Const ''V4L2_FBUF_CAP_SRC_CHROMAKEY'' 0x0080, Const ''V4L2_FBUF_FLAG_PRIMARY'' 0x0001,
     Const ''V4L2_FBUF_FLAG_OVERLAY'' 0x0002, Const ''V4L2_FBUF_FLAG_CHROMAKEY'' 0x0004,
     Const ''V4L2_FBUF_FLAG_LOCAL_ALPHA'' 0x0008, Const ''V4L2_FBUF_FLAG_GLOBAL_ALPHA'' 0x0010,
     Const ''V4L2_FBUF_FLAG_LOCAL_INV_ALPHA'' 0x0020,
     Const ''V4L2_FBUF_FLAG_SRC_CHROMAKEY'' 0x0040, Struct ''v4l2_clip'' v4l2_clip,
     Struct ''v4l2_window'' v4l2_window, Struct ''v4l2_captureparm'' v4l2_captureparm,
     Const ''V4L2_MODE_HIGHQUALITY'' 0x0001, Const ''V4L2_CAP_TIMEPERFRAME'' 0x1000,
     Struct ''v4l2_outputparm'' v4l2_outputparm, Struct ''v4l2_cropcap'' v4l2_cropcap,
     Struct ''v4l2_crop'' v4l2_crop, Struct ''v4l2_selection'' v4l2_selection,
     Typedef ''v4l2_std_id'' u64, Const ''V4L2_STD_PAL_B'' 0x00000001,
     Const ''V4L2_STD_PAL_B1'' 0x00000002, Const ''V4L2_STD_PAL_G'' 0x00000004,
     Const ''V4L2_STD_PAL_H'' 0x00000008, Const ''V4L2_STD_PAL_I'' 0x00000010,
     Const ''V4L2_STD_PAL_D'' 0x00000020, Const ''V4L2_STD_PAL_D1'' 0x00000040,
     Const ''V4L2_STD_PAL_K'' 0x00000080, Const ''V4L2_STD_PAL_M'' 0x00000100,
     Const ''V4L2_STD_PAL_N'' 0x00000200, Const ''V4L2_STD_PAL_Nc'' 0x00000400,
     Const ''V4L2_STD_PAL_60'' 0x00000800, Const ''V4L2_STD_NTSC_M'' 0x00001000,
     Const ''V4L2_STD_NTSC_M_JP'' 0x00002000, Const ''V4L2_STD_NTSC_443'' 0x00004000,
     Const ''V4L2_STD_NTSC_M_KR'' 0x00008000, Const ''V4L2_STD_SECAM_B'' 0x00010000,
     Const ''V4L2_STD_SECAM_D'' 0x00020000, Const ''V4L2_STD_SECAM_G'' 0x00040000,
     Const ''V4L2_STD_SECAM_H'' 0x00080000, Const ''V4L2_STD_SECAM_K'' 0x00100000,
     Const ''V4L2_STD_SECAM_K1'' 0x00200000, Const ''V4L2_STD_SECAM_L'' 0x00400000,
     Const ''V4L2_STD_SECAM_LC'' 0x00800000, Const ''V4L2_STD_ATSC_8_VSB'' 0x01000000,
     Const ''V4L2_STD_ATSC_16_VSB'' 0x02000000, Const ''V4L2_STD_NTSC'' 45056,
     Const ''V4L2_STD_SECAM_DK'' 3276800, Const ''V4L2_STD_SECAM'' 16711680,
     Const ''V4L2_STD_PAL_BG'' 7, Const ''V4L2_STD_PAL_DK'' 224, Const ''V4L2_STD_PAL'' 255,
     Const ''V4L2_STD_B'' 65539, Const ''V4L2_STD_G'' 262148, Const ''V4L2_STD_H'' 524296,
     Const ''V4L2_STD_L'' 12582912, Const ''V4L2_STD_GH'' 786444, Const ''V4L2_STD_DK'' 3277024,
     Const ''V4L2_STD_BG'' 327687, Const ''V4L2_STD_MN'' 46848, Const ''V4L2_STD_MTS'' 5888,
     Const ''V4L2_STD_525_60'' 63744, Const ''V4L2_STD_625_50'' 16713471,
     Const ''V4L2_STD_ATSC'' 50331648, Const ''V4L2_STD_UNKNOWN'' 0,
     Const ''V4L2_STD_ALL'' 16777215, Struct ''v4l2_standard'' v4l2_standard]"

definition videodev2_13 :: "decl list" where
  "videodev2_13 =
    [Struct ''v4l2_bt_timings'' v4l2_bt_timings_t, Const ''V4L2_DV_PROGRESSIVE'' 0,
     Const ''V4L2_DV_INTERLACED'' 1, Const ''V4L2_DV_VSYNC_POS_POL'' 0x00000001,
     Const ''V4L2_DV_HSYNC_POS_POL'' 0x00000002, Const ''V4L2_DV_BT_STD_CEA861'' (2 ^ 0),
     Const ''V4L2_DV_BT_STD_DMT'' (2 ^ 1), Const ''V4L2_DV_BT_STD_CVT'' (2 ^ 2),
     Const ''V4L2_DV_BT_STD_GTF'' (2 ^ 3), Const ''V4L2_DV_BT_STD_SDI'' (2 ^ 4),
     Const ''V4L2_DV_FL_REDUCED_BLANKING'' (2 ^ 0), Const ''V4L2_DV_FL_CAN_REDUCE_FPS'' (2 ^ 1),
     Const ''V4L2_DV_FL_REDUCED_FPS'' (2 ^ 2), Const ''V4L2_DV_FL_HALF_LINE'' (2 ^ 3),
     Const ''V4L2_DV_FL_IS_CE_VIDEO'' (2 ^ 4),
     Const ''V4L2_DV_FL_FIRST_FIELD_EXTRA_LINE'' (2 ^ 5)]"

definition videodev2_14 :: "decl list" where
  "videodev2_14 =
    [Struct ''v4l2_dv_timings'' v4l2_dv_timings, Const ''V4L2_DV_BT_656_1120'' 0,
     Struct ''v4l2_enum_dv_timings'' v4l2_enum_dv_timings,
     Struct ''v4l2_bt_timings_cap'' v4l2_bt_timings_cap,
     Const ''V4L2_DV_BT_CAP_INTERLACED'' (2 ^ 0), Const ''V4L2_DV_BT_CAP_PROGRESSIVE'' (2 ^ 1),
     Const ''V4L2_DV_BT_CAP_REDUCED_BLANKING'' (2 ^ 2), Const ''V4L2_DV_BT_CAP_CUSTOM'' (2 ^ 3),
     Struct ''v4l2_dv_timings_cap'' v4l2_dv_timings_cap, Struct ''v4l2_input'' v4l2_input,
     Const ''V4L2_INPUT_TYPE_TUNER'' 1, Const ''V4L2_INPUT_TYPE_CAMERA'' 2,
     Const ''V4L2_INPUT_TYPE_TOUCH'' 3, Const ''V4L2_IN_ST_NO_POWER'' 0x00000001,
     Const ''V4L2_IN_ST_NO_SIGNAL'' 0x00000002, Const ''V4L2_IN_ST_NO_COLOR'' 0x00000004,
     Const ''V4L2_IN_ST_HFLIP'' 0x00000010, Const ''V4L2_IN_ST_VFLIP'' 0x00000020,
     Const ''V4L2_IN_ST_NO_H_LOCK'' 0x00000100, Const ''V4L2_IN_ST_COLOR_KILL'' 0x00000200,
     Const ''V4L2_IN_ST_NO_V_LOCK'' 0x00000400, Const ''V4L2_IN_ST_NO_STD_LOCK'' 0x00000800,
     Const ''V4L2_IN_ST_NO_SYNC'' 0x00010000, Const ''V4L2_IN_ST_NO_EQU'' 0x00020000,
     Const ''V4L2_IN_ST_NO_CARRIER'' 0x00040000, Const ''V4L2_IN_ST_MACROVISION'' 0x01000000,
     Const ''V4L2_IN_ST_NO_ACCESS'' 0x02000000, Const ''V4L2_IN_ST_VTR'' 0x04000000,
     Const ''V4L2_IN_CAP_DV_TIMINGS'' 0x00000002, Const ''V4L2_IN_CAP_CUSTOM_TIMINGS'' 2,
     Const ''V4L2_IN_CAP_STD'' 0x00000004, Const ''V4L2_IN_CAP_NATIVE_SIZE'' 0x00000008,
     Struct ''v4l2_output'' v4l2_output, Const ''V4L2_OUTPUT_TYPE_MODULATOR'' 1,
     Const ''V4L2_OUTPUT_TYPE_ANALOG'' 2, Const ''V4L2_OUTPUT_TYPE_ANALOGVGAOVERLAY'' 3,
     Const ''V4L2_OUT_CAP_DV_TIMINGS'' 0x00000002, Const ''V4L2_OUT_CAP_CUSTOM_TIMINGS'' 2,
     Const ''V4L2_OUT_CAP_STD'' 0x00000004, Const ''V4L2_OUT_CAP_NATIVE_SIZE'' 0x00000008,
     Struct ''v4l2_control'' v4l2_control, Struct ''v4l2_ext_control'' v4l2_ext_control,
     Struct ''v4l2_ext_controls'' v4l2_ext_controls, Const ''V4L2_CTRL_ID_MASK'' 0x0fffffff]"

definition videodev2_15 :: "decl list" where
  "videodev2_15 =
    [Const ''V4L2_CTRL_MAX_DIMS'' 4, Const ''V4L2_CTRL_WHICH_CUR_VAL'' 0,
     Const ''V4L2_CTRL_WHICH_DEF_VAL'' 0x0f000000,
     Enum ''v4l2_ctrl_type'' [(''V4L2_CTRL_TYPE_INTEGER'', 1), (''V4L2_CTRL_TYPE_BOOLEAN'', 2),
       (''V4L2_CTRL_TYPE_MENU'', 3), (''V4L2_CTRL_TYPE_BUTTON'', 4),
       (''V4L2_CTRL_TYPE_INTEGER64'', 5), (''V4L2_CTRL_TYPE_CTRL_CLASS'', 6),
       (''V4L2_CTRL_TYPE_STRING'', 7), (''V4L2_CTRL_TYPE_BITMASK'', 8),
       (''V4L2_CTRL_TYPE_INTEGER_MENU'', 9), (''V4L2_CTRL_COMPOUND_TYPES'', 256),
       (''V4L2_CTRL_TYPE_U8'', 256), (''V4L2_CTRL_TYPE_U16'', 257),
      (''V4L2_CTRL_TYPE_U32'', 258)],
     Struct ''v4l2_queryctrl'' v4l2_queryctrl,
     Struct ''v4l2_query_ext_ctrl'' v4l2_query_ext_ctrl,
     Struct ''v4l2_querymenu'' v4l2_querymenu, Const ''V4L2_CTRL_FLAG_DISABLED'' 0x0001,
     Const ''V4L2_CTRL_FLAG_GRABBED'' 0x0002, Const ''V4L2_CTRL_FLAG_READ_ONLY'' 0x0004,
     Const ''V4L2_CTRL_FLAG_UPDATE'' 0x0008, Const ''V4L2_CTRL_FLAG_INACTIVE'' 0x0010,
     Const ''V4L2_CTRL_FLAG_SLIDER'' 0x0020, Const ''V4L2_CTRL_FLAG_WRITE_ONLY'' 0x0040,
     Const ''V4L2_CTRL_FLAG_VOLATILE'' 0x0080, Const ''V4L2_CTRL_FLAG_HAS_PAYLOAD'' 0x0100,
     Const ''V4L2_CTRL_FLAG_EXECUTE_ON_WRITE'' 0x0200,
     Const ''V4L2_CTRL_FLAG_NEXT_CTRL'' 0x80000000,
     Const ''V4L2_CTRL_FLAG_NEXT_COMPOUND'' 0x40000000, Const ''V4L2_CID_MAX_CTRLS'' 1024,
     Const ''V4L2_CID_PRIVATE_BASE'' 0x08000000, Struct ''v4l2_tuner'' v4l2_tuner,
     Struct ''v4l2_modulator'' v4l2_modulator, Const ''V4L2_TUNER_CAP_LOW'' 0x0001,
     Const ''V4L2_TUNER_CAP_NORM'' 0x0002, Const ''V4L2_TUNER_CAP_HWSEEK_BOUNDED'' 0x0004,
     Const ''V4L2_TUNER_CAP_HWSEEK_WRAP'' 0x0008, Const ''V4L2_TUNER_CAP_STEREO'' 0x0010,
     Const ''V4L2_TUNER_CAP_LANG2'' 0x0020, Const ''V4L2_TUNER_CAP_SAP'' 0x0020,
     Const ''V4L2_TUNER_CAP_LANG1'' 0x0040, Const ''V4L2_TUNER_CAP_RDS'' 0x0080,
     Const ''V4L2_TUNER_CAP_RDS_BLOCK_IO'' 0x0100, Const ''V4L2_TUNER_CAP_RDS_CONTROLS'' 0x0200,
     Const ''V4L2_TUNER_CAP_FREQ_BANDS'' 0x0400,
     Const ''V4L2_TUNER_CAP_HWSEEK_PROG_LIM'' 0x0800, Const ''V4L2_TUNER_CAP_1HZ'' 0x1000,
     Const ''V4L2_TUNER_SUB_MONO'' 0x0001, Const ''V4L2_TUNER_SUB_STEREO'' 0x0002,
     Const ''V4L2_TUNER_SUB_LANG2'' 0x0004, Const ''V4L2_TUNER_SUB_SAP'' 0x0004,
     Const ''V4L2_TUNER_SUB_LANG1'' 0x0008, Const ''V4L2_TUNER_SUB_RDS'' 0x0010,
     Const ''V4L2_TUNER_MODE_MONO'' 0x0000, Const ''V4L2_TUNER_MODE_STEREO'' 0x0001,
     Const ''V4L2_TUNER_MODE_LANG2'' 0x0002, Const ''V4L2_TUNER_MODE_SAP'' 0x0002,
     Const ''V4L2_TUNER_MODE_LANG1'' 0x0003, Const ''V4L2_TUNER_MODE_LANG1_LANG2'' 0x0004,
     Struct ''v4l2_frequency'' v4l2_frequency, Const ''V4L2_BAND_MODULATION_VSB'' (2 ^ 1),
     Const ''V4L2_BAND_MODULATION_FM'' (2 ^ 2), Const ''V4L2_BAND_MODULATION_AM'' (2 ^ 3),
     Struct ''v4l2_frequency_band'' v4l2_frequency_band,
     Struct ''v4l2_hw_freq_seek'' v4l2_hw_freq_seek, Struct ''v4l2_rds_data'' v4l2_rds_data]"

definition videodev2_16 :: "decl list" where
  "videodev2_16 =
    [Const ''V4L2_RDS_BLOCK_MSK'' 0x7, Const ''V4L2_RDS_BLOCK_A'' 0,
     Const ''V4L2_RDS_BLOCK_B'' 1, Const ''V4L2_RDS_BLOCK_C'' 2, Const ''V4L2_RDS_BLOCK_D'' 3,
     Const ''V4L2_RDS_BLOCK_C_ALT'' 4, Const ''V4L2_RDS_BLOCK_INVALID'' 7,
     Const ''V4L2_RDS_BLOCK_CORRECTED'' 0x40, Const ''V4L2_RDS_BLOCK_ERROR'' 0x80,
     Struct ''v4l2_audio'' v4l2_audio, Const ''V4L2_AUDCAP_STEREO'' 0x00001,
     Const ''V4L2_AUDCAP_AVL'' 0x00002, Const ''V4L2_AUDMODE_AVL'' 0x00001,
     Struct ''v4l2_audioout'' v4l2_audioout, Const ''V4L2_ENC_IDX_FRAME_I'' 0,
     Const ''V4L2_ENC_IDX_FRAME_P'' 1, Const ''V4L2_ENC_IDX_FRAME_B'' 2,
     Const ''V4L2_ENC_IDX_FRAME_MASK'' 0xf, Struct ''v4l2_enc_idx_entry'' v4l2_enc_idx_entry,
     Const ''V4L2_ENC_IDX_ENTRIES'' 64, Struct ''v4l2_enc_idx'' v4l2_enc_idx,
     Const ''V4L2_ENC_CMD_START'' 0, Const ''V4L2_ENC_CMD_STOP'' 1,
     Const ''V4L2_ENC_CMD_PAUSE'' 2, Const ''V4L2_ENC_CMD_RESUME'' 3,
     Const ''V4L2_ENC_CMD_STOP_AT_GOP_END'' (2 ^ 0),
     Struct ''v4l2_encoder_cmd'' v4l2_encoder_cmd, Const ''V4L2_DEC_CMD_START'' 0,
     Const ''V4L2_DEC_CMD_STOP'' 1, Const ''V4L2_DEC_CMD_PAUSE'' 2,
     Const ''V4L2_DEC_CMD_RESUME'' 3, Const ''V4L2_QCOM_CMD_FLUSH'' 4,
     Const ''V4L2_DEC_QCOM_CMD_RECONFIG_HINT'' 5, Const ''V4L2_QCOM_CMD_SESSION_CONTINUE'' 6,
     Const ''V4L2_DEC_CMD_START_MUTE_AUDIO'' (2 ^ 0),
     Const ''V4L2_DEC_CMD_PAUSE_TO_BLACK'' (2 ^ 0),
     Const ''V4L2_DEC_CMD_STOP_TO_BLACK'' (2 ^ 0),
     Const ''V4L2_DEC_CMD_STOP_IMMEDIATELY'' (2 ^ 1),
     Const ''V4L2_QCOM_CMD_FLUSH_OUTPUT'' (2 ^ 0),
     Const ''V4L2_QCOM_CMD_FLUSH_CAPTURE'' (2 ^ 1), Const ''V4L2_DEC_START_FMT_NONE'' 0,
     Const ''V4L2_DEC_START_FMT_GOP'' 1, Struct ''v4l2_decoder_cmd'' v4l2_decoder_cmd,
     Struct ''v4l2_vbi_format'' v4l2_vbi_format, Const ''V4L2_VBI_UNSYNC'' (2 ^ 0),
     Const ''V4L2_VBI_INTERLACED'' (2 ^ 1), Const ''V4L2_VBI_ITU_525_F1_START'' 1,
     Const ''V4L2_VBI_ITU_525_F2_START'' 264, Const ''V4L2_VBI_ITU_625_F1_START'' 1,
     Const ''V4L2_VBI_ITU_625_F2_START'' 314,
     Struct ''v4l2_sliced_vbi_format'' v4l2_sliced_vbi_format,
     Const ''V4L2_SLICED_TELETEXT_B'' 0x0001, Const ''V4L2_SLICED_VPS'' 0x0400,
     Const ''V4L2_SLICED_CAPTION_525'' 0x1000, Const ''V4L2_SLICED_WSS_625'' 0x4000,
     Const ''V4L2_SLICED_VBI_525'' 4096, Const ''V4L2_SLICED_VBI_625'' 17409,
     Struct ''v4l2_sliced_vbi_cap'' v4l2_sliced_vbi_cap,
     Struct ''v4l2_sliced_vbi_data'' v4l2_sliced_vbi_data,
     Const ''V4L2_MPEG_VBI_IVTV_TELETEXT_B'' 1, Const ''V4L2_MPEG_VBI_IVTV_CAPTION_525'' 4,
     Const ''V4L2_MPEG_VBI_IVTV_WSS_625'' 5, Const ''V4L2_MPEG_VBI_IVTV_VPS'' 7,
     Struct ''v4l2_mpeg_vbi_itv0_line'' v4l2_mpeg_vbi_itv0_line,
     Struct ''v4l2_mpeg_vbi_itv0'' v4l2_mpeg_vbi_itv0,
     Struct ''v4l2_mpeg_vbi_ITV0'' v4l2_mpeg_vbi_ITV0,
     Text ''V4L2_MPEG_VBI_IVTV_MAGIC0'' ''itv0'', Text ''V4L2_MPEG_VBI_IVTV_MAGIC1'' ''ITV0'']"

definition videodev2_17 :: "decl list" where
  "videodev2_17 =
    [Struct ''v4l2_mpeg_vbi_fmt_ivtv'' v4l2_mpeg_vbi_fmt_ivtv,
     Struct ''v4l2_plane_pix_format'' v4l2_plane_pix_format,
     Struct ''v4l2_pix_format_mplane'' v4l2_pix_format_mplane,
     Struct ''v4l2_sdr_format'' v4l2_sdr_format, Struct ''v4l2_format'' v4l2_format,
     Struct ''v4l2_streamparm'' v4l2_streamparm, Const ''V4L2_EVENT_ALL'' 0,
     Const ''V4L2_EVENT_VSYNC'' 1, Const ''V4L2_EVENT_EOS'' 2, Const ''V4L2_EVENT_CTRL'' 3,
     Const ''V4L2_EVENT_FRAME_SYNC'' 4, Const ''V4L2_EVENT_SOURCE_CHANGE'' 5,
     Const ''V4L2_EVENT_MOTION_DET'' 6, Const ''V4L2_EVENT_PRIVATE_START'' 0x08000000,
     Const ''V4L2_EVENT_BITDEPTH_FLAG'' 0x1, Const ''V4L2_EVENT_PICSTRUCT_FLAG'' 0x2,
     Const ''V4L2_EVENT_COLOUR_SPACE_FLAG'' 0x4,
     Const ''V4L2_EVENT_MSM_VIDC_START'' (0x8000000 + 0x00001000),
     Const ''V4L2_EVENT_MSM_VIDC_FLUSH_DONE'' (0x8001000 + 1),
     Const ''V4L2_EVENT_MSM_VIDC_PORT_SETTINGS_CHANGED_SUFFICIENT'' (0x8001000 + 2),
     Const ''V4L2_EVENT_MSM_VIDC_PORT_SETTINGS_CHANGED_INSUFFICIENT'' (0x8001000 + 3),
     Const ''V4L2_EVENT_MSM_VIDC_PORT_SETTINGS_BITDEPTH_CHANGED_INSUFFICIENT'' (0x8001000 + 4),
     Const ''V4L2_EVENT_MSM_VIDC_SYS_ERROR'' (0x8001000 + 5),
     Const ''V4L2_EVENT_MSM_VIDC_RELEASE_BUFFER_REFERENCE'' (0x8001000 + 6),
     Const ''V4L2_EVENT_MSM_VIDC_RELEASE_UNQUEUED_BUFFER'' (0x8001000 + 7),
     Const ''V4L2_EVENT_MSM_VIDC_HW_OVERLOAD'' (0x8001000 + 8),
     Const ''V4L2_EVENT_MSM_VIDC_MAX_CLIENTS'' (0x8001000 + 9),
     Const ''V4L2_EVENT_MSM_VIDC_HW_UNSUPPORTED'' (0x8001000 + 10),
     Struct ''v4l2_event_vsync'' v4l2_event_vsync, Const ''V4L2_EVENT_CTRL_CH_VALUE'' (2 ^ 0),
     Const ''V4L2_EVENT_CTRL_CH_FLAGS'' (2 ^ 1), Const ''V4L2_EVENT_CTRL_CH_RANGE'' (2 ^ 2),
     Struct ''v4l2_event_ctrl'' v4l2_event_ctrl,
     Struct ''v4l2_event_frame_sync'' v4l2_event_frame_sync,
     Const ''V4L2_EVENT_SRC_CH_RESOLUTION'' (2 ^ 0),
     Struct ''v4l2_event_src_change'' v4l2_event_src_change,
     Const ''V4L2_EVENT_MD_FL_HAVE_FRAME_SEQ'' (2 ^ 0),
     Struct ''v4l2_event_motion_det'' v4l2_event_motion_det, Struct ''v4l2_event'' v4l2_event,
     Const ''V4L2_EVENT_SUB_FL_SEND_INITIAL'' (2 ^ 0),
     Const ''V4L2_EVENT_SUB_FL_ALLOW_FEEDBACK'' (2 ^ 1),
     Struct ''v4l2_event_subscription'' v4l2_event_subscription,
     Const ''V4L2_CHIP_MATCH_BRIDGE'' 0, Const ''V4L2_CHIP_MATCH_SUBDEV'' 4,
     Const ''V4L2_CHIP_MATCH_HOST'' 0, Const ''V4L2_CHIP_MATCH_I2C_DRIVER'' 1,
     Const ''V4L2_CHIP_MATCH_I2C_ADDR'' 2, Const ''V4L2_CHIP_MATCH_AC97'' 3,
     Struct ''v4l2_dbg_match'' v4l2_dbg_match, Struct ''v4l2_dbg_register'' v4l2_dbg_register,
     Const ''V4L2_CHIP_FL_READABLE'' (2 ^ 0), Const ''V4L2_CHIP_FL_WRITABLE'' (2 ^ 1)]"

definition videodev2_18 :: "decl list" where
  "videodev2_18 =
    [Struct ''v4l2_dbg_chip_info'' v4l2_dbg_chip_info,
     Struct ''v4l2_create_buffers'' v4l2_create_buffers,
     Request ''VIDIOC_QUERYCAP'' (IOR 86 0 v4l2_capability),
     Request ''VIDIOC_RESERVED'' (IO 86 1),
     Request ''VIDIOC_ENUM_FMT'' (IOWR 86 2 v4l2_fmtdesc),
     Request ''VIDIOC_G_FMT'' (IOWR 86 4 v4l2_format),
     Request ''VIDIOC_S_FMT'' (IOWR 86 5 v4l2_format),
     Request ''VIDIOC_REQBUFS'' (IOWR 86 8 v4l2_requestbuffers),
     Request ''VIDIOC_QUERYBUF'' (IOWR 86 9 v4l2_buffer),
     Request ''VIDIOC_G_FBUF'' (IOR 86 10 v4l2_framebuffer),
     Request ''VIDIOC_S_FBUF'' (IOW 86 11 v4l2_framebuffer),
     Request ''VIDIOC_OVERLAY'' (IOW 86 14 s32),
     Request ''VIDIOC_QBUF'' (IOWR 86 15 v4l2_buffer),
     Request ''VIDIOC_EXPBUF'' (IOWR 86 16 v4l2_exportbuffer),
     Request ''VIDIOC_DQBUF'' (IOWR 86 17 v4l2_buffer),
     Request ''VIDIOC_STREAMON'' (IOW 86 18 s32), Request ''VIDIOC_STREAMOFF'' (IOW 86 19 s32),
     Request ''VIDIOC_G_PARM'' (IOWR 86 21 v4l2_streamparm),
     Request ''VIDIOC_S_PARM'' (IOWR 86 22 v4l2_streamparm),
     Request ''VIDIOC_G_STD'' (IOR 86 23 u64), Request ''VIDIOC_S_STD'' (IOW 86 24 u64),
     Request ''VIDIOC_ENUMSTD'' (IOWR 86 25 v4l2_standard),
     Request ''VIDIOC_ENUMINPUT'' (IOWR 86 26 v4l2_input),
     Request ''VIDIOC_G_CTRL'' (IOWR 86 27 v4l2_control),
     Request ''VIDIOC_S_CTRL'' (IOWR 86 28 v4l2_control),
     Request ''VIDIOC_G_TUNER'' (IOWR 86 29 v4l2_tuner),
     Request ''VIDIOC_S_TUNER'' (IOW 86 30 v4l2_tuner),
     Request ''VIDIOC_G_AUDIO'' (IOR 86 33 v4l2_audio),
     Request ''VIDIOC_S_AUDIO'' (IOW 86 34 v4l2_audio),
     Request ''VIDIOC_QUERYCTRL'' (IOWR 86 36 v4l2_queryctrl),
     Request ''VIDIOC_QUERYMENU'' (IOWR 86 37 v4l2_querymenu),
     Request ''VIDIOC_G_INPUT'' (IOR 86 38 s32), Request ''VIDIOC_S_INPUT'' (IOWR 86 39 s32),
     Request ''VIDIOC_G_EDID'' (IOWR 86 40 (ForeignT ''struct v4l2_edid'')),
     Request ''VIDIOC_S_EDID'' (IOWR 86 41 (ForeignT ''struct v4l2_edid'')),
     Request ''VIDIOC_G_OUTPUT'' (IOR 86 46 s32), Request ''VIDIOC_S_OUTPUT'' (IOWR 86 47 s32),
     Request ''VIDIOC_ENUMOUTPUT'' (IOWR 86 48 v4l2_output),
     Request ''VIDIOC_G_AUDOUT'' (IOR 86 49 v4l2_audioout),
     Request ''VIDIOC_S_AUDOUT'' (IOW 86 50 v4l2_audioout),
     Request ''VIDIOC_G_MODULATOR'' (IOWR 86 54 v4l2_modulator),
     Request ''VIDIOC_S_MODULATOR'' (IOW 86 55 v4l2_modulator),
     Request ''VIDIOC_G_FREQUENCY'' (IOWR 86 56 v4l2_frequency),
     Request ''VIDIOC_S_FREQUENCY'' (IOW 86 57 v4l2_frequency),
     Request ''VIDIOC_CROPCAP'' (IOWR 86 58 v4l2_cropcap),
     Request ''VIDIOC_G_CROP'' (IOWR 86 59 v4l2_crop),
     Request ''VIDIOC_S_CROP'' (IOW 86 60 v4l2_crop),
     Request ''VIDIOC_G_JPEGCOMP'' (IOR 86 61 v4l2_jpegcompression),
     Request ''VIDIOC_S_JPEGCOMP'' (IOW 86 62 v4l2_jpegcompression),
     Request ''VIDIOC_QUERYSTD'' (IOR 86 63 u64),
     Request ''VIDIOC_TRY_FMT'' (IOWR 86 64 v4l2_format),
     Request ''VIDIOC_ENUMAUDIO'' (IOWR 86 65 v4l2_audio),
     Request ''VIDIOC_ENUMAUDOUT'' (IOWR 86 66 v4l2_audioout),
     Request ''VIDIOC_G_PRIORITY'' (IOR 86 67 u32),
     Request ''VIDIOC_S_PRIORITY'' (IOW 86 68 u32),
     Request ''VIDIOC_G_SLICED_VBI_CAP'' (IOWR 86 69 v4l2_sliced_vbi_cap),
     Request ''VIDIOC_LOG_STATUS'' (IO 86 70),
     Request ''VIDIOC_G_EXT_CTRLS'' (IOWR 86 71 v4l2_ext_controls),
     Request ''VIDIOC_S_EXT_CTRLS'' (IOWR 86 72 v4l2_ext_controls),
     Request ''VIDIOC_TRY_EXT_CTRLS'' (IOWR 86 73 v4l2_ext_controls),
     Request ''VIDIOC_ENUM_FRAMESIZES'' (IOWR 86 74 v4l2_frmsizeenum),
     Request ''VIDIOC_ENUM_FRAMEINTERVALS'' (IOWR 86 75 v4l2_frmivalenum),
     Request ''VIDIOC_G_ENC_INDEX'' (IOR 86 76 v4l2_enc_idx),
     Request ''VIDIOC_ENCODER_CMD'' (IOWR 86 77 v4l2_encoder_cmd),
     Request ''VIDIOC_TRY_ENCODER_CMD'' (IOWR 86 78 v4l2_encoder_cmd),
     Request ''VIDIOC_DBG_S_REGISTER'' (IOW 86 79 v4l2_dbg_register),
     Request ''VIDIOC_DBG_G_REGISTER'' (IOWR 86 80 v4l2_dbg_register),
     Request ''VIDIOC_S_HW_FREQ_SEEK'' (IOW 86 82 v4l2_hw_freq_seek),
     Request ''VIDIOC_S_DV_TIMINGS'' (IOWR 86 87 v4l2_dv_timings),
     Request ''VIDIOC_G_DV_TIMINGS'' (IOWR 86 88 v4l2_dv_timings),
     Request ''VIDIOC_DQEVENT'' (IOR 86 89 v4l2_event),
     Request ''VIDIOC_SUBSCRIBE_EVENT'' (IOW 86 90 v4l2_event_subscription),
     Request ''VIDIOC_UNSUBSCRIBE_EVENT'' (IOW 86 91 v4l2_event_subscription),
     Request ''VIDIOC_CREATE_BUFS'' (IOWR 86 92 v4l2_create_buffers),
     Request ''VIDIOC_PREPARE_BUF'' (IOWR 86 93 v4l2_buffer),
     Request ''VIDIOC_G_SELECTION'' (IOWR 86 94 v4l2_selection),
     Request ''VIDIOC_S_SELECTION'' (IOWR 86 95 v4l2_selection),
     Request ''VIDIOC_DECODER_CMD'' (IOWR 86 96 v4l2_decoder_cmd),
     Request ''VIDIOC_TRY_DECODER_CMD'' (IOWR 86 97 v4l2_decoder_cmd),
     Request ''VIDIOC_ENUM_DV_TIMINGS'' (IOWR 86 98 v4l2_enum_dv_timings),
     Request ''VIDIOC_QUERY_DV_TIMINGS'' (IOR 86 99 v4l2_dv_timings),
     Request ''VIDIOC_DV_TIMINGS_CAP'' (IOWR 86 100 v4l2_dv_timings_cap),
     Request ''VIDIOC_ENUM_FREQ_BANDS'' (IOWR 86 101 v4l2_frequency_band),
     Request ''VIDIOC_DBG_G_CHIP_INFO'' (IOWR 86 102 v4l2_dbg_chip_info),
     Request ''VIDIOC_QUERY_EXT_CTRL'' (IOWR 86 103 v4l2_query_ext_ctrl),
     Const ''BASE_VIDIOC_PRIVATE'' 192]"

definition videodev2_h :: "decl list" where
  "videodev2_h = videodev2_1 @ videodev2_2 @ videodev2_3 @ videodev2_4 @ videodev2_5 @ videodev2_6 @
     videodev2_7 @ videodev2_8 @ videodev2_9 @ videodev2_10 @ videodev2_11 @ videodev2_12 @
     videodev2_13 @ videodev2_14 @ videodev2_15 @ videodev2_16 @ videodev2_17 @ videodev2_18"

subsection \<open>media/msm_vidc.h\<close>

abbreviation msm_vidc_extradata_header :: ctype where
  "msm_vidc_extradata_header \<equiv>
     StructT Natural [(''size'', u32), ('''', BitsT u32 32), ('''', BitsT u32 32),
      (''type'', u32), (''data_size'', u32), (''data'', ArrT u8 1)]"

abbreviation msm_vidc_interlace_payload :: ctype where
  "msm_vidc_interlace_payload \<equiv>
     StructT Natural [(''format'', u32), (''color_format'', u32)]"

abbreviation msm_vidc_framerate_payload :: ctype where
  "msm_vidc_framerate_payload \<equiv>
     StructT Natural [(''frame_rate'', u32)]"

abbreviation msm_vidc_ts_payload :: ctype where
  "msm_vidc_ts_payload \<equiv>
     StructT Natural [(''timestamp_lo'', u32), (''timestamp_hi'', u32)]"

abbreviation msm_vidc_concealmb_payload :: ctype where
  "msm_vidc_concealmb_payload \<equiv>
     StructT Natural [(''num_mbs'', u32)]"

abbreviation msm_vidc_recoverysei_payload :: ctype where
  "msm_vidc_recoverysei_payload \<equiv>
     StructT Natural [(''flags'', u32)]"

abbreviation msm_vidc_aspect_ratio_payload :: ctype where
  "msm_vidc_aspect_ratio_payload \<equiv>
     StructT Natural [(''size'', u32), (''version'', u32), (''port_index'', u32),
      (''aspect_width'', u32), (''aspect_height'', u32)]"

abbreviation msm_vidc_mpeg2_seqdisp_payload :: ctype where
  "msm_vidc_mpeg2_seqdisp_payload \<equiv>
     StructT Natural [(''video_format'', u32), (''color_descp'', u32),
      (''color_primaries'', u32), (''transfer_char'', u32), (''matrix_coeffs'', u32),
      (''disp_width'', u32), (''disp_height'', u32)]"

abbreviation msm_vidc_vc1_seqdisp_payload :: ctype where
  "msm_vidc_vc1_seqdisp_payload \<equiv>
     StructT Natural [(''prog_seg_format'', u32), (''uv_sampl_fmt'', u32),
      (''color_format'', u32), (''color_primaries'', u32), (''transfer_char'', u32),
      (''matrix_coeffs'', u32), (''aspect_ratio'', u32), (''aspect_horiz'', u32),
      (''aspect_vert'', u32)]"

abbreviation msm_vidc_input_crop_payload :: ctype where
  "msm_vidc_input_crop_payload \<equiv>
     StructT Natural [(''size'', u32), (''version'', u32), (''port_index'', u32),
      (''left'', u32), (''top'', u32), (''width'', u32), (''height'', u32)]"

abbreviation msm_vidc_misr_info :: ctype where
  "msm_vidc_misr_info \<equiv>
     StructT Natural [(''misr_dpb_luma'', u32), (''misr_dpb_chroma'', u32),
      (''misr_opb_luma'', u32), (''misr_opb_chroma'', u32)]"

abbreviation msm_vidc_output_crop_payload :: ctype where
  "msm_vidc_output_crop_payload \<equiv>
     StructT Natural [(''size'', u32), (''version'', u32), (''port_index'', u32),
      (''left'', u32), (''top'', u32), (''display_width'', u32), (''display_height'', u32),
      (''width'', u32), (''height'', u32), (''frame_num'', u32), (''bit_depth_y'', u32),
      (''bit_depth_c'', u32), (''misr_info'', ArrT msm_vidc_misr_info 2)]"

abbreviation msm_vidc_digital_zoom_payload :: ctype where
  "msm_vidc_digital_zoom_payload \<equiv>
     StructT Natural [(''size'', u32), (''version'', u32), (''port_index'', u32),
      (''zoom_width'', u32), (''zoom_height'', u32)]"

abbreviation msm_vidc_extradata_index :: ctype where
  "msm_vidc_extradata_index \<equiv>
     StructT Natural [(''type'', u32),
      ('''', UnionT Natural [(''input_crop'', msm_vidc_input_crop_payload),
      (''digital_zoom'', msm_vidc_digital_zoom_payload),
      (''aspect_ratio'', msm_vidc_aspect_ratio_payload)])]"

abbreviation msm_vidc_panscan_window :: ctype where
  "msm_vidc_panscan_window \<equiv>
     StructT Natural [(''panscan_height_offset'', u32), (''panscan_width_offset'', u32),
      (''panscan_window_width'', u32), (''panscan_window_height'', u32)]"

abbreviation msm_vidc_panscan_window_payload :: ctype where
  "msm_vidc_panscan_window_payload \<equiv>
     StructT Natural [(''num_panscan_windows'', u32), (''wnd'', ArrT msm_vidc_panscan_window 1)]"

abbreviation msm_vidc_stream_userdata_payload :: ctype where
  "msm_vidc_stream_userdata_payload \<equiv>
     StructT Natural [(''type'', u32), (''data'', ArrT u32 1)]"

abbreviation msm_vidc_frame_qp_payload :: ctype where
  "msm_vidc_frame_qp_payload \<equiv>
     StructT Natural [(''frame_qp'', u32), (''qp_sum'', u32), (''skip_qp_sum'', u32),
      (''skip_num_blocks'', u32), (''total_num_blocks'', u32)]"

abbreviation msm_vidc_frame_bits_info_payload :: ctype where
  "msm_vidc_frame_bits_info_payload \<equiv>
     StructT Natural [(''frame_bits'', u32), (''header_bits'', u32)]"

abbreviation msm_vidc_s3d_frame_packing_payload :: ctype where
  "msm_vidc_s3d_frame_packing_payload \<equiv>
     StructT Natural [(''fpa_id'', u32), (''cancel_flag'', u32), (''fpa_type'', u32),
      (''quin_cunx_flag'', u32), (''content_interprtation_type'', u32),
      (''spatial_flipping_flag'', u32), (''frame0_flipped_flag'', u32),
      (''field_views_flag'', u32), (''current_frame_is_frame0_flag'', u32),
      (''frame0_self_contained_flag'', u32), (''frame1_self_contained_flag'', u32),
      (''frame0_graid_pos_x'', u32), (''frame0_graid_pos_y'', u32),
      (''frame1_graid_pos_x'', u32), (''frame1_graid_pos_y'', u32),
      (''fpa_reserved_byte'', u32), (''fpa_repetition_period'', u32),
      (''fpa_extension_flag'', u32)]"

abbreviation msm_vidc_vqzip_sei_payload :: ctype where
  "msm_vidc_vqzip_sei_payload \<equiv>
     StructT Natural [(''size'', u32), (''data'', ArrT u32 1)]"

abbreviation msm_vidc_ubwc_cr_stats_info :: ctype where
  "msm_vidc_ubwc_cr_stats_info \<equiv>
     StructT Natural [(''stats_tile_32'', u32), (''stats_tile_64'', u32),
      (''stats_tile_96'', u32), (''stats_tile_128'', u32), (''stats_tile_160'', u32),
      (''stats_tile_192'', u32), (''stats_tile_256'', u32)]"

abbreviation msm_vidc_yuv_stats_payload :: ctype where
  "msm_vidc_yuv_stats_payload \<equiv>
     StructT Natural [(''frame_qp'', u32), (''texture'', u32), (''luma_in_q16'', u32),
      (''frame_difference'', u32)]"

abbreviation msm_vidc_vpx_colorspace_payload :: ctype where
  "msm_vidc_vpx_colorspace_payload \<equiv>
     StructT Natural [(''color_space'', u32), (''yuv_range_flag'', u32),
      (''sumsampling_x'', u32), (''sumsampling_y'', u32)]"

abbreviation msm_vidc_roi_qp_payload :: ctype where
  "msm_vidc_roi_qp_payload \<equiv>
     StructT Natural [(''upper_qp_offset'', s32), (''lower_qp_offset'', s32),
      (''b_roi_info'', u32), (''mbi_info_size'', s32), (''data'', ArrT u32 1)]"

abbreviation msm_vidc_mastering_display_colour_sei_payload :: ctype where
  "msm_vidc_mastering_display_colour_sei_payload \<equiv>
     StructT Natural [(''nDisplayPrimariesX'', ArrT u32 3),
      (''nDisplayPrimariesY'', ArrT u32 3), (''nWhitePointX'', u32), (''nWhitePointY'', u32),
      (''nMaxDisplayMasteringLuminance'', u32), (''nMinDisplayMasteringLuminance'', u32)]"

abbreviation msm_vidc_content_light_level_sei_payload :: ctype where
  "msm_vidc_content_light_level_sei_payload \<equiv>
     StructT Natural [(''nMaxContentLight'', u32), (''nMaxPicAverageLight'', u32)]"

abbreviation msm_vidc_vui_display_info_payload :: ctype where
  "msm_vidc_vui_display_info_payload \<equiv>
     StructT Natural [(''video_signal_present_flag'', u32), (''video_format'', u32),
      (''bit_depth_y'', u32), (''bit_depth_c'', u32), (''video_full_range_flag'', u32),
      (''color_description_present_flag'', u32), (''color_primaries'', u32),
      (''transfer_characteristics'', u32), (''matrix_coefficients'', u32),
      (''chroma_location_info_present_flag'', u32), (''chroma_format_idc'', u32),
      (''separate_color_plane_flag'', u32), (''chroma_sample_loc_type_top_field'', u32),
      (''chroma_sample_loc_type_bottom_field'', u32)]"

definition msm_vidc_1 :: "decl list" where
  "msm_vidc_1 =
    [Flag ''__MSM_VIDC_H__'']"

definition msm_vidc_2 :: "decl list" where
  "msm_vidc_2 =
    [Const ''MSM_VIDC_HAL_INTERLACE_COLOR_FORMAT_NV12'' 0x2,
     Const ''MSM_VIDC_HAL_INTERLACE_COLOR_FORMAT_NV12_UBWC'' 0x8002,
     Const ''MSM_VIDC_4x_1'' 0x1, Const ''MSM_VIDC_EXTRADATA_FRAME_QP_ADV'' 0x1,
     Struct ''msm_vidc_extradata_header'' msm_vidc_extradata_header,
     Struct ''msm_vidc_interlace_payload'' msm_vidc_interlace_payload,
     Struct ''msm_vidc_framerate_payload'' msm_vidc_framerate_payload,
     Struct ''msm_vidc_ts_payload'' msm_vidc_ts_payload,
     Struct ''msm_vidc_concealmb_payload'' msm_vidc_concealmb_payload,
     Struct ''msm_vidc_recoverysei_payload'' msm_vidc_recoverysei_payload,
     Struct ''msm_vidc_aspect_ratio_payload'' msm_vidc_aspect_ratio_payload,
     Struct ''msm_vidc_mpeg2_seqdisp_payload'' msm_vidc_mpeg2_seqdisp_payload,
     Struct ''msm_vidc_vc1_seqdisp_payload'' msm_vidc_vc1_seqdisp_payload,
     Struct ''msm_vidc_input_crop_payload'' msm_vidc_input_crop_payload,
     Struct ''msm_vidc_misr_info'' msm_vidc_misr_info,
     Struct ''msm_vidc_output_crop_payload'' msm_vidc_output_crop_payload,
     Struct ''msm_vidc_digital_zoom_payload'' msm_vidc_digital_zoom_payload,
     Struct ''msm_vidc_extradata_index'' msm_vidc_extradata_index,
     Struct ''msm_vidc_panscan_window'' msm_vidc_panscan_window,
     Struct ''msm_vidc_panscan_window_payload'' msm_vidc_panscan_window_payload,
     Struct ''msm_vidc_stream_userdata_payload'' msm_vidc_stream_userdata_payload,
     Struct ''msm_vidc_frame_qp_payload'' msm_vidc_frame_qp_payload,
     Struct ''msm_vidc_frame_bits_info_payload'' msm_vidc_frame_bits_info_payload,
     Struct ''msm_vidc_s3d_frame_packing_payload'' msm_vidc_s3d_frame_packing_payload,
     Struct ''msm_vidc_vqzip_sei_payload'' msm_vidc_vqzip_sei_payload]"

definition msm_vidc_3 :: "decl list" where
  "msm_vidc_3 =
    [Struct ''msm_vidc_ubwc_cr_stats_info'' msm_vidc_ubwc_cr_stats_info,
     Struct ''msm_vidc_yuv_stats_payload'' msm_vidc_yuv_stats_payload,
     Struct ''msm_vidc_vpx_colorspace_payload'' msm_vidc_vpx_colorspace_payload,
     Struct ''msm_vidc_roi_qp_payload'' msm_vidc_roi_qp_payload,
     Struct ''msm_vidc_mastering_display_colour_sei_payload'' msm_vidc_mastering_display_colour_sei_payload,
     Struct ''msm_vidc_content_light_level_sei_payload'' msm_vidc_content_light_level_sei_payload,
     Struct ''msm_vidc_vui_display_info_payload'' msm_vidc_vui_display_info_payload,
     Enum ''msm_vidc_extradata_type'' [(''MSM_VIDC_EXTRADATA_NONE'', 0),
       (''MSM_VIDC_EXTRADATA_MB_QUANTIZATION'', 1), (''MSM_VIDC_EXTRADATA_INTERLACE_VIDEO'', 2),
       (''MSM_VIDC_EXTRADATA_VC1_FRAMEDISP'', 3), (''MSM_VIDC_EXTRADATA_VC1_SEQDISP'', 4),
       (''MSM_VIDC_EXTRADATA_TIMESTAMP'', 5), (''MSM_VIDC_EXTRADATA_S3D_FRAME_PACKING'', 6),
       (''MSM_VIDC_EXTRADATA_FRAME_RATE'', 7), (''MSM_VIDC_EXTRADATA_PANSCAN_WINDOW'', 8),
       (''MSM_VIDC_EXTRADATA_RECOVERY_POINT_SEI'', 9),
       (''MSM_VIDC_EXTRADATA_MPEG2_SEQDISP'', 13), (''MSM_VIDC_EXTRADATA_STREAM_USERDATA'', 14),
       (''MSM_VIDC_EXTRADATA_FRAME_QP'', 15), (''MSM_VIDC_EXTRADATA_FRAME_BITS_INFO'', 16),
       (''MSM_VIDC_EXTRADATA_VQZIP_SEI'', 17), (''MSM_VIDC_EXTRADATA_ROI_QP'', 19),
       (''MSM_VIDC_EXTRADATA_VPX_COLORSPACE_INFO'', 20),
       (''MSM_VIDC_EXTRADATA_MASTERING_DISPLAY_COLOUR_SEI'', 21),
       (''MSM_VIDC_EXTRADATA_CONTENT_LIGHT_LEVEL_SEI'', 22),
       (''MSM_VIDC_EXTRADATA_PQ_INFO'', 23),
       (''MSM_VIDC_EXTRADATA_COLOUR_REMAPPING_INFO_SEI'', 24),
       (''MSM_VIDC_EXTRADATA_UBWC_CR_STAT_INFO'', 25),
       (''MSM_VIDC_EXTRADATA_INPUT_CROP'', 117440526),
       (''MSM_VIDC_EXTRADATA_OUTPUT_CROP'', 117440527),
       (''MSM_VIDC_EXTRADATA_DIGITAL_ZOOM'', 117440528),
       (''MSM_VIDC_EXTRADATA_MULTISLICE_INFO'', 2131755008),
       (''MSM_VIDC_EXTRADATA_NUM_CONCEALED_MB'', 2131755009),
       (''MSM_VIDC_EXTRADATA_INDEX'', 2131755010),
       (''MSM_VIDC_EXTRADATA_ASPECT_RATIO'', 2131755011),
       (''MSM_VIDC_EXTRADATA_METADATA_LTR'', 2131755012),
       (''MSM_VIDC_EXTRADATA_METADATA_FILLER'', 2145386498),
       (''MSM_VIDC_EXTRADATA_METADATA_MBI'', 2131755013),
       (''MSM_VIDC_EXTRADATA_VUI_DISPLAY_INFO'', 2131755014),
       (''MSM_VIDC_EXTRADATA_YUVSTATS_INFO'', 2131755015)],
     Const ''MSM_VIDC_EXTRADATA_VPX_COLORSPACE_INFO'' 20,
     Const ''MSM_VIDC_EXTRADATA_MASTERING_DISPLAY_COLOUR_SEI'' 21,
     Const ''MSM_VIDC_EXTRADATA_CONTENT_LIGHT_LEVEL_SEI'' 22,
     Const ''MSM_VIDC_EXTRADATA_PQ_INFO'' 23,
     Const ''MSM_VIDC_EXTRADATA_COLOUR_REMAPPING_INFO_SEI'' 24,
     Const ''MSM_VIDC_EXTRADATA_UBWC_CR_STAT_INFO'' 25,
     Const ''MSM_VIDC_EXTRADATA_OUTPUT_CROP'' 117440527,
     Const ''MSM_VIDC_EXTRADATA_VUI_DISPLAY_INFO'' 2131755014,
     Enum ''msm_vidc_interlace_type'' [(''MSM_VIDC_INTERLACE_FRAME_PROGRESSIVE'', 1),
       (''MSM_VIDC_INTERLACE_INTERLEAVE_FRAME_TOPFIELDFIRST'', 2),
       (''MSM_VIDC_INTERLACE_INTERLEAVE_FRAME_BOTTOMFIELDFIRST'', 4),
       (''MSM_VIDC_INTERLACE_FRAME_TOPFIELDFIRST'', 8),
       (''MSM_VIDC_INTERLACE_FRAME_BOTTOMFIELDFIRST'', 16),
       (''MSM_VIDC_INTERLACE_FRAME_MBAFF'', 32)],
     Const ''MSM_VIDC_INTERLACE_FRAME_MBAFF'' 32,
     Const ''MSM_VIDC_FRAMEPACK_CHECKERBOARD'' 0x00,
     Const ''MSM_VIDC_FRAMEPACK_COLUMN_INTERLEAVE'' 0x01,
     Const ''MSM_VIDC_FRAMEPACK_ROW_INTERLEAVE'' 0x02,
     Const ''MSM_VIDC_FRAMEPACK_SIDE_BY_SIDE'' 0x03,
     Const ''MSM_VIDC_FRAMEPACK_TOP_BOTTOM'' 0x04,
     Const ''MSM_VIDC_FRAMEPACK_TEMPORAL_INTERLEAVE'' 0x05,
     Enum ''msm_vidc_recovery_sei'' [(''MSM_VIDC_FRAME_RECONSTRUCTION_INCORRECT'', 0),
       (''MSM_VIDC_FRAME_RECONSTRUCTION_CORRECT'', 1),
       (''MSM_VIDC_FRAME_RECONSTRUCTION_APPROXIMATELY_CORRECT'', 2)],
     Enum ''msm_vidc_userdata_type'' [(''MSM_VIDC_USERDATA_TYPE_FRAME'', 1),
       (''MSM_VIDC_USERDATA_TYPE_TOP_FIELD'', 2), (''MSM_VIDC_USERDATA_TYPE_BOTTOM_FIELD'', 3)],
     Enum ''msm_vidc_h264_color_primaries_values'' [(''MSM_VIDC_RESERVED_1'', 0),
       (''MSM_VIDC_BT709_5'', 1), (''MSM_VIDC_UNSPECIFIED'', 2), (''MSM_VIDC_RESERVED_2'', 3),
       (''MSM_VIDC_BT470_6_M'', 4), (''MSM_VIDC_BT601_6_625'', 5), (''MSM_VIDC_BT470_6_BG'', 5),
       (''MSM_VIDC_BT601_6_525'', 6), (''MSM_VIDC_SMPTE_240M'', 7),
       (''MSM_VIDC_GENERIC_FILM'', 8), (''MSM_VIDC_BT2020'', 9)],
     Enum ''msm_vidc_vp9_color_primaries_values'' [(''MSM_VIDC_CS_UNKNOWN'', 0),
       (''MSM_VIDC_CS_BT_601'', 1), (''MSM_VIDC_CS_BT_709'', 2), (''MSM_VIDC_CS_SMPTE_170'', 3),
       (''MSM_VIDC_CS_SMPTE_240'', 4), (''MSM_VIDC_CS_BT_2020'', 5),
       (''MSM_VIDC_CS_RESERVED'', 6), (''MSM_VIDC_CS_RGB'', 7)]]"

definition msm_vidc_4 :: "decl list" where
  "msm_vidc_4 =
    [Enum ''msm_vidc_h264_matrix_coeff_values'' [(''MSM_VIDC_MATRIX_RGB'', 0),
       (''MSM_VIDC_MATRIX_BT_709_5'', 1), (''MSM_VIDC_MATRIX_UNSPECIFIED'', 2),
       (''MSM_VIDC_MATRIX_RESERVED'', 3), (''MSM_VIDC_MATRIX_FCC_47'', 4),
       (''MSM_VIDC_MATRIX_601_6_625'', 5), (''MSM_VIDC_MATRIX_BT470_BG'', 5),
       (''MSM_VIDC_MATRIX_601_6_525'', 6), (''MSM_VIDC_MATRIX_SMPTE_170M'', 6),
       (''MSM_VIDC_MATRIX_SMPTE_240M'', 7), (''MSM_VIDC_MATRIX_Y_CG_CO'', 8),
       (''MSM_VIDC_MATRIX_BT_2020'', 9), (''MSM_VIDC_MATRIX_BT_2020_CONST'', 10)],
     Enum ''msm_vidc_h264_transfer_chars_values'' [(''MSM_VIDC_TRANSFER_RESERVED_1'', 0),
       (''MSM_VIDC_TRANSFER_BT709_5'', 1), (''MSM_VIDC_TRANSFER_UNSPECIFIED'', 2),
       (''MSM_VIDC_TRANSFER_RESERVED_2'', 3), (''MSM_VIDC_TRANSFER_BT_470_6_M'', 4),
       (''MSM_VIDC_TRANSFER_BT_470_6_BG'', 5), (''MSM_VIDC_TRANSFER_601_6_625'', 6),
       (''MSM_VIDC_TRANSFER_601_6_525'', 6), (''MSM_VIDC_TRANSFER_SMPTE_240M'', 7),
       (''MSM_VIDC_TRANSFER_LINEAR'', 8), (''MSM_VIDC_TRANSFER_LOG_100_1'', 9),
       (''MSM_VIDC_TRANSFER_LOG_100_SQRT10_1'', 10), (''MSM_VIDC_TRANSFER_IEC_61966'', 11),
       (''MSM_VIDC_TRANSFER_BT_1361'', 12), (''MSM_VIDC_TRANSFER_SRGB'', 13),
       (''MSM_VIDC_TRANSFER_BT_2020_10'', 14), (''MSM_VIDC_TRANSFER_BT_2020_12'', 15),
       (''MSM_VIDC_TRANSFER_SMPTE_ST2084'', 16), (''MSM_VIDC_TRANSFER_SMPTE_ST428_1'', 17),
       (''MSM_VIDC_TRANSFER_HLG'', 18)],
     Const ''MSM_VIDC_TRANSFER_SMPTE_ST2084'' 16, Const ''MSM_VIDC_TRANSFER_SMPTE_ST428_1'' 17,
     Const ''MSM_VIDC_TRANSFER_HLG'' 18,
     Enum ''msm_vidc_pixel_depth'' [(''MSM_VIDC_BIT_DEPTH_8'', 0),
       (''MSM_VIDC_BIT_DEPTH_10'', 1), (''MSM_VIDC_BIT_DEPTH_UNSUPPORTED'', 4294967295)],
     Enum ''msm_vidc_video_format'' [(''MSM_VIDC_COMPONENT'', 0), (''MSM_VIDC_PAL'', 1),
       (''MSM_VIDC_NTSC'', 2), (''MSM_VIDC_SECAM'', 3), (''MSM_VIDC_MAC'', 4),
       (''MSM_VIDC_UNSPECIFIED_FORMAT'', 5), (''MSM_VIDC_RESERVED_1_FORMAT'', 6),
       (''MSM_VIDC_RESERVED_2_FORMAT'', 7)],
     Enum ''msm_vidc_color_desc_flag'' [(''MSM_VIDC_COLOR_DESC_NOT_PRESENT'', 0),
       (''MSM_VIDC_COLOR_DESC_PRESENT'', 1)],
     Const ''MSM_VIDC_PIC_STRUCT_MAYBE_INTERLACED'' 0x0,
     Const ''MSM_VIDC_PIC_STRUCT_PROGRESSIVE'' 0x1,
     Const ''MSM_VIDC_PIC_STRUCT_UNKNOWN'' 0xFFFFFFFF, Const ''MSM_VIDC_ALL_LAYER_ID'' 0xFF]"

definition msm_vidc_h :: "decl list" where
  "msm_vidc_h = msm_vidc_1 @ msm_vidc_2 @ msm_vidc_3 @ msm_vidc_4"

subsection \<open>linux/msm_vidc_dec.h\<close>

abbreviation vdec_ioctl_msg :: ctype where
  "vdec_ioctl_msg \<equiv>
     StructT Natural [(''in'', PtrT), (''out'', PtrT)]"

abbreviation vdec_allocatorproperty :: ctype where
  "vdec_allocatorproperty \<equiv>
     StructT Natural [(''buffer_type'', EnumT ''vdec_buffer''), (''mincount'', u32),
      (''maxcount'', u32), (''actualcount'', u32), (''buffer_size'', ulongT),
      (''alignment'', u32), (''buf_poolid'', u32), (''meta_buffer_size'', ulongT)]"

abbreviation vdec_bufferpayload :: ctype where
  "vdec_bufferpayload \<equiv>
     StructT Natural [(''bufferaddr'', PtrT), (''buffer_len'', ulongT), (''pmem_fd'', s32),
      (''offset'', ulongT), (''mmaped_size'', ulongT)]"

abbreviation vdec_setbuffer_cmd :: ctype where
  "vdec_setbuffer_cmd \<equiv>
     StructT Natural [(''buffer_type'', EnumT ''vdec_buffer''), (''buffer'', vdec_bufferpayload)]"

abbreviation vdec_fillbuffer_cmd :: ctype where
  "vdec_fillbuffer_cmd \<equiv>
     StructT Natural [(''buffer'', vdec_bufferpayload), (''client_data'', PtrT)]"

abbreviation vdec_profile_level :: ctype where
  "vdec_profile_level \<equiv>
     StructT Natural [(''profiles'', u32), (''levels'', u32)]"

abbreviation vdec_picsize :: ctype where
  "vdec_picsize \<equiv>
     StructT Natural [(''frame_width'', u32), (''frame_height'', u32), (''stride'', u32),
      (''scan_lines'', u32)]"

abbreviation vdec_seqheader :: ctype where
  "vdec_seqheader \<equiv>
     StructT Natural [(''ptr_seqheader'', PtrT), (''seq_header_len'', ulongT),
      (''pmem_fd'', s32), (''pmem_offset'', ulongT)]"

abbreviation vdec_mberror :: ctype where
  "vdec_mberror \<equiv>
     StructT Natural [(''ptr_errormap'', PtrT), (''err_mapsize'', ulongT)]"

abbreviation vdec_input_frameinfo :: ctype where
  "vdec_input_frameinfo \<equiv>
     StructT Natural [(''bufferaddr'', PtrT), (''offset'', ulongT), (''datalen'', ulongT),
      (''flags'', u32), (''timestamp'', s64), (''client_data'', PtrT), (''pmem_fd'', s32),
      (''pmem_offset'', ulongT), (''desc_addr'', PtrT), (''desc_size'', u32)]"

abbreviation vdec_framesize :: ctype where
  "vdec_framesize \<equiv>
     StructT Natural [(''left'', u32), (''top'', u32), (''right'', u32), (''bottom'', u32)]"

abbreviation vdec_aspectratioinfo :: ctype where
  "vdec_aspectratioinfo \<equiv>
     StructT Natural [(''aspect_ratio'', u32), (''par_width'', u32), (''par_height'', u32)]"

abbreviation vdec_sep_metadatainfo :: ctype where
  "vdec_sep_metadatainfo \<equiv>
     StructT Natural [(''metabufaddr'', PtrT), (''size'', u32), (''fd'', s32),
      (''offset'', s32), (''buffer_size'', u32)]"

abbreviation vdec_output_frameinfo :: ctype where
  "vdec_output_frameinfo \<equiv>
     StructT Natural [(''bufferaddr'', PtrT), (''offset'', ulongT), (''len'', ulongT),
      (''flags'', u32), (''time_stamp'', s64), (''pic_type'', EnumT ''vdec_picture''),
      (''client_data'', PtrT), (''input_frame_clientdata'', PtrT), (''picsize'', vdec_picsize),
      (''framesize'', vdec_framesize),
      (''interlaced_format'', EnumT ''vdec_interlaced_format''),
      (''aspect_ratio_info'', vdec_aspectratioinfo), (''metadata_info'', vdec_sep_metadatainfo)]"

abbreviation vdec_msgdata :: ctype where
  "vdec_msgdata \<equiv>
     UnionT Natural [(''output_frame'', vdec_output_frameinfo),
      (''input_frame_clientdata'', PtrT)]"

abbreviation vdec_msginfo :: ctype where
  "vdec_msginfo \<equiv>
     StructT Natural [(''status_code'', u32), (''msgcode'', u32), (''msgdata'', vdec_msgdata),
      (''msgdatasize'', ulongT)]"

abbreviation vdec_framerate :: ctype where
  "vdec_framerate \<equiv>
     StructT Natural [(''fps_denominator'', ulongT), (''fps_numerator'', ulongT)]"

abbreviation vdec_h264_mv :: ctype where
  "vdec_h264_mv \<equiv>
     StructT Natural [(''size'', ulongT), (''count'', s32), (''pmem_fd'', s32),
      (''offset'', s32)]"

abbreviation vdec_mv_buff_size :: ctype where
  "vdec_mv_buff_size \<equiv>
     StructT Natural [(''width'', s32), (''height'', s32), (''size'', s32), (''alignment'', s32)]"

abbreviation vdec_meta_buffers :: ctype where
  "vdec_meta_buffers \<equiv>
     StructT Natural [(''size'', ulongT), (''count'', s32), (''pmem_fd'', s32),
      (''pmem_fd_iommu'', s32), (''offset'', s32)]"

definition msm_vidc_dec_1 :: "decl list" where
  "msm_vidc_dec_1 =
    [Flag ''_MSM_VIDC_DEC_H_'']"

abbreviation VDEC_IOCTL_MAGIC :: nat where "VDEC_IOCTL_MAGIC \<equiv> 118"

definition msm_vidc_dec_2 :: "decl list" where
  "msm_vidc_dec_2 =
    [Const ''VDEC_S_BASE'' 0x40000000, Const ''VDEC_S_SUCCESS'' 1073741824,
     Const ''VDEC_S_EFAIL'' (0x40000000 + 1), Const ''VDEC_S_EFATAL'' (0x40000000 + 2),
     Const ''VDEC_S_EBADPARAM'' (0x40000000 + 3), Const ''VDEC_S_EINVALSTATE'' (0x40000000 + 4),
     Const ''VDEC_S_ENOSWRES'' (0x40000000 + 5), Const ''VDEC_S_ENOHWRES'' (0x40000000 + 6),
     Const ''VDEC_S_EINVALCMD'' (0x40000000 + 7), Const ''VDEC_S_ETIMEOUT'' (0x40000000 + 8),
     Const ''VDEC_S_ENOPREREQ'' (0x40000000 + 9), Const ''VDEC_S_ECMDQFULL'' (0x40000000 + 10),
     Const ''VDEC_S_ENOTSUPP'' (0x40000000 + 11), Const ''VDEC_S_ENOTIMPL'' (0x40000000 + 12),
     Const ''VDEC_S_BUSY'' (0x40000000 + 13),
     Const ''VDEC_S_INPUT_BITSTREAM_ERR'' (0x40000000 + 14), Const ''VDEC_INTF_VER'' 1,
     Const ''VDEC_MSG_BASE'' 0x0000000, Const ''VDEC_MSG_INVALID'' 0,
     Const ''VDEC_MSG_RESP_INPUT_BUFFER_DONE'' 1, Const ''VDEC_MSG_RESP_OUTPUT_BUFFER_DONE'' 2,
     Const ''VDEC_MSG_RESP_INPUT_FLUSHED'' 3, Const ''VDEC_MSG_RESP_OUTPUT_FLUSHED'' 4,
     Const ''VDEC_MSG_RESP_FLUSH_INPUT_DONE'' 5, Const ''VDEC_MSG_RESP_FLUSH_OUTPUT_DONE'' 6,
     Const ''VDEC_MSG_RESP_START_DONE'' 7, Const ''VDEC_MSG_RESP_STOP_DONE'' 8,
     Const ''VDEC_MSG_RESP_PAUSE_DONE'' 9, Const ''VDEC_MSG_RESP_RESUME_DONE'' 10,
     Const ''VDEC_MSG_RESP_RESOURCE_LOADED'' 11, Const ''VDEC_EVT_RESOURCES_LOST'' 12,
     Const ''VDEC_MSG_EVT_CONFIG_CHANGED'' 13, Const ''VDEC_MSG_EVT_HW_ERROR'' 14,
     Const ''VDEC_MSG_EVT_INFO_CONFIG_CHANGED'' 15,
     Const ''VDEC_MSG_EVT_INFO_FIELD_DROPPED'' 16, Const ''VDEC_MSG_EVT_HW_OVERLOAD'' 17,
     Const ''VDEC_MSG_EVT_MAX_CLIENTS'' 18, Const ''VDEC_MSG_EVT_HW_UNSUPPORTED'' 19,
     Const ''VDEC_BUFFERFLAG_EOS'' 0x00000001, Const ''VDEC_BUFFERFLAG_DECODEONLY'' 0x00000004,
     Const ''VDEC_BUFFERFLAG_DATACORRUPT'' 0x00000008,
     Const ''VDEC_BUFFERFLAG_ENDOFFRAME'' 0x00000010,
     Const ''VDEC_BUFFERFLAG_SYNCFRAME'' 0x00000020,
     Const ''VDEC_BUFFERFLAG_EXTRADATA'' 0x00000040,
     Const ''VDEC_BUFFERFLAG_CODECCONFIG'' 0x00000080, Const ''VDEC_EXTRADATA_NONE'' 0x001,
     Const ''VDEC_EXTRADATA_QP'' 0x004, Const ''VDEC_EXTRADATA_MB_ERROR_MAP'' 0x008,
     Const ''VDEC_EXTRADATA_SEI'' 0x010, Const ''VDEC_EXTRADATA_VUI'' 0x020,
     Const ''VDEC_EXTRADATA_VC1'' 0x040, Const ''VDEC_EXTRADATA_EXT_DATA'' 0x0800,
     Const ''VDEC_EXTRADATA_USER_DATA'' 0x1000, Const ''VDEC_EXTRADATA_EXT_BUFFER'' 0x2000,
     Const ''VDEC_CMDBASE'' 0x800, Const ''VDEC_CMD_SET_INTF_VERSION'' 2048,
     Const ''VDEC_IOCTL_MAGIC'' 118, Struct ''vdec_ioctl_msg'' vdec_ioctl_msg,
     Request ''VDEC_IOCTL_GET_PROFILE_LEVEL_SUPPORTED'' (IOWR VDEC_IOCTL_MAGIC 0 vdec_ioctl_msg),
     Request ''VDEC_IOCTL_GET_INTERLACE_FORMAT'' (IOR VDEC_IOCTL_MAGIC 1 vdec_ioctl_msg),
     Request ''VDEC_IOCTL_GET_CURRENT_PROFILE_LEVEL'' (IOWR VDEC_IOCTL_MAGIC 2 vdec_ioctl_msg),
     Request ''VDEC_IOCTL_SET_OUTPUT_FORMAT'' (IOWR VDEC_IOCTL_MAGIC 3 vdec_ioctl_msg),
     Request ''VDEC_IOCTL_GET_OUTPUT_FORMAT'' (IOWR VDEC_IOCTL_MAGIC 4 vdec_ioctl_msg),
     Request ''VDEC_IOCTL_SET_CODEC'' (IOW VDEC_IOCTL_MAGIC 5 vdec_ioctl_msg),
     Request ''VDEC_IOCTL_GET_CODEC'' (IOR VDEC_IOCTL_MAGIC 6 vdec_ioctl_msg),
     Request ''VDEC_IOCTL_SET_PICRES'' (IOW VDEC_IOCTL_MAGIC 7 vdec_ioctl_msg),
     Request ''VDEC_IOCTL_GET_PICRES'' (IOR VDEC_IOCTL_MAGIC 8 vdec_ioctl_msg),
     Request ''VDEC_IOCTL_SET_EXTRADATA'' (IOW VDEC_IOCTL_MAGIC 9 vdec_ioctl_msg),
     Request ''VDEC_IOCTL_GET_EXTRADATA'' (IOR VDEC_IOCTL_MAGIC 10 vdec_ioctl_msg),
     Request ''VDEC_IOCTL_SET_SEQUENCE_HEADER'' (IOW VDEC_IOCTL_MAGIC 11 vdec_ioctl_msg),
     Request ''VDEC_IOCTL_SET_BUFFER_REQ'' (IOW VDEC_IOCTL_MAGIC 12 vdec_ioctl_msg),
     Request ''VDEC_IOCTL_GET_BUFFER_REQ'' (IOR VDEC_IOCTL_MAGIC 13 vdec_ioctl_msg),
     Request ''VDEC_IOCTL_ALLOCATE_BUFFER'' (IOWR VDEC_IOCTL_MAGIC 14 vdec_ioctl_msg),
     Request ''VDEC_IOCTL_FREE_BUFFER'' (IOW VDEC_IOCTL_MAGIC 15 vdec_ioctl_msg),
     Request ''VDEC_IOCTL_SET_BUFFER'' (IOW VDEC_IOCTL_MAGIC 16 vdec_ioctl_msg),
     Request ''VDEC_IOCTL_FILL_OUTPUT_BUFFER'' (IOW VDEC_IOCTL_MAGIC 17 vdec_ioctl_msg),
     Request ''VDEC_IOCTL_DECODE_FRAME'' (IOW VDEC_IOCTL_MAGIC 18 vdec_ioctl_msg),
     Request ''VDEC_IOCTL_LOAD_RESOURCES'' (IO VDEC_IOCTL_MAGIC 19),
     Request ''VDEC_IOCTL_CMD_START'' (IO VDEC_IOCTL_MAGIC 20),
     Request ''VDEC_IOCTL_CMD_STOP'' (IO VDEC_IOCTL_MAGIC 21),
     Request ''VDEC_IOCTL_CMD_PAUSE'' (IO VDEC_IOCTL_MAGIC 22),
     Request ''VDEC_IOCTL_CMD_RESUME'' (IO VDEC_IOCTL_MAGIC 23),
     Request ''VDEC_IOCTL_CMD_FLUSH'' (IOW VDEC_IOCTL_MAGIC 24 vdec_ioctl_msg),
     Request ''VDEC_IOCTL_GET_NEXT_MSG'' (IOR VDEC_IOCTL_MAGIC 25 vdec_ioctl_msg),
     Request ''VDEC_IOCTL_STOP_NEXT_MSG'' (IO VDEC_IOCTL_MAGIC 26),
     Request ''VDEC_IOCTL_GET_NUMBER_INSTANCES'' (IOR VDEC_IOCTL_MAGIC 27 vdec_ioctl_msg),
     Request ''VDEC_IOCTL_SET_PICTURE_ORDER'' (IOW VDEC_IOCTL_MAGIC 28 vdec_ioctl_msg),
     Request ''VDEC_IOCTL_SET_FRAME_RATE'' (IOW VDEC_IOCTL_MAGIC 29 vdec_ioctl_msg),
     Request ''VDEC_IOCTL_SET_H264_MV_BUFFER'' (IOW VDEC_IOCTL_MAGIC 30 vdec_ioctl_msg),
     Request ''VDEC_IOCTL_FREE_H264_MV_BUFFER'' (IOW VDEC_IOCTL_MAGIC 31 vdec_ioctl_msg),
     Request ''VDEC_IOCTL_GET_MV_BUFFER_SIZE'' (IOR VDEC_IOCTL_MAGIC 32 vdec_ioctl_msg),
     Request ''VDEC_IOCTL_SET_IDR_ONLY_DECODING'' (IO VDEC_IOCTL_MAGIC 33),
     Request ''VDEC_IOCTL_SET_CONT_ON_RECONFIG'' (IO VDEC_IOCTL_MAGIC 34),
     Request ''VDEC_IOCTL_SET_DISABLE_DMX'' (IOW VDEC_IOCTL_MAGIC 35 vdec_ioctl_msg),
     Request ''VDEC_IOCTL_GET_DISABLE_DMX'' (IOR VDEC_IOCTL_MAGIC 36 vdec_ioctl_msg),
     Request ''VDEC_IOCTL_GET_DISABLE_DMX_SUPPORT'' (IOR VDEC_IOCTL_MAGIC 37 vdec_ioctl_msg),
     Request ''VDEC_IOCTL_SET_PERF_CLK'' (IOR VDEC_IOCTL_MAGIC 38 vdec_ioctl_msg),
     Request ''VDEC_IOCTL_SET_META_BUFFERS'' (IOW VDEC_IOCTL_MAGIC 39 vdec_ioctl_msg),
     Request ''VDEC_IOCTL_FREE_META_BUFFERS'' (IO VDEC_IOCTL_MAGIC 40),
     Enum ''vdec_picture'' [(''PICTURE_TYPE_I'', 0), (''PICTURE_TYPE_P'', 1),
       (''PICTURE_TYPE_B'', 2), (''PICTURE_TYPE_BI'', 3), (''PICTURE_TYPE_SKIP'', 4),
       (''PICTURE_TYPE_IDR'', 5), (''PICTURE_TYPE_UNKNOWN'', 6)],
     Enum ''vdec_buffer'' [(''VDEC_BUFFER_TYPE_INPUT'', 0), (''VDEC_BUFFER_TYPE_OUTPUT'', 1)],
     Struct ''vdec_allocatorproperty'' vdec_allocatorproperty,
     Struct ''vdec_bufferpayload'' vdec_bufferpayload,
     Struct ''vdec_setbuffer_cmd'' vdec_setbuffer_cmd,
     Struct ''vdec_fillbuffer_cmd'' vdec_fillbuffer_cmd,
     Enum ''vdec_bufferflush'' [(''VDEC_FLUSH_TYPE_INPUT'', 0), (''VDEC_FLUSH_TYPE_OUTPUT'', 1),
       (''VDEC_FLUSH_TYPE_ALL'', 2)]]"

definition msm_vidc_dec_3 :: "decl list" where
  "msm_vidc_dec_3 =
    [Enum ''vdec_codec'' [(''VDEC_CODECTYPE_H264'', 1), (''VDEC_CODECTYPE_H263'', 2),
       (''VDEC_CODECTYPE_MPEG4'', 3), (''VDEC_CODECTYPE_DIVX_3'', 4),
       (''VDEC_CODECTYPE_DIVX_4'', 5), (''VDEC_CODECTYPE_DIVX_5'', 6),
       (''VDEC_CODECTYPE_DIVX_6'', 7), (''VDEC_CODECTYPE_XVID'', 8),
       (''VDEC_CODECTYPE_MPEG1'', 9), (''VDEC_CODECTYPE_MPEG2'', 10),
       (''VDEC_CODECTYPE_VC1'', 11), (''VDEC_CODECTYPE_VC1_RCV'', 12),
       (''VDEC_CODECTYPE_HEVC'', 13), (''VDEC_CODECTYPE_MVC'', 14), (''VDEC_CODECTYPE_VP8'', 15),
       (''VDEC_CODECTYPE_VP9'', 16)],
     Enum ''vdec_mpeg2_profile'' [(''VDEC_MPEG2ProfileSimple'', 1),
       (''VDEC_MPEG2ProfileMain'', 2), (''VDEC_MPEG2Profile422'', 4),
       (''VDEC_MPEG2ProfileSNR'', 8), (''VDEC_MPEG2ProfileSpatial'', 16),
       (''VDEC_MPEG2ProfileHigh'', 32), (''VDEC_MPEG2ProfileKhronosExtensions'', 1862270976),
       (''VDEC_MPEG2ProfileVendorStartUnused'', 2130706432),
       (''VDEC_MPEG2ProfileMax'', 2147483647)],
     Enum ''vdec_mpeg2_level'' [(''VDEC_MPEG2LevelLL'', 1), (''VDEC_MPEG2LevelML'', 2),
       (''VDEC_MPEG2LevelH14'', 4), (''VDEC_MPEG2LevelHL'', 8),
       (''VDEC_MPEG2LevelKhronosExtensions'', 1862270976),
       (''VDEC_MPEG2LevelVendorStartUnused'', 2130706432), (''VDEC_MPEG2LevelMax'', 2147483647)],
     Enum ''vdec_mpeg4_profile'' [(''VDEC_MPEG4ProfileSimple'', 1),
       (''VDEC_MPEG4ProfileSimpleScalable'', 2), (''VDEC_MPEG4ProfileCore'', 4),
       (''VDEC_MPEG4ProfileMain'', 8), (''VDEC_MPEG4ProfileNbit'', 16),
       (''VDEC_MPEG4ProfileScalableTexture'', 32), (''VDEC_MPEG4ProfileSimpleFace'', 64),
       (''VDEC_MPEG4ProfileSimpleFBA'', 128), (''VDEC_MPEG4ProfileBasicAnimated'', 256),
       (''VDEC_MPEG4ProfileHybrid'', 512), (''VDEC_MPEG4ProfileAdvancedRealTime'', 1024),
       (''VDEC_MPEG4ProfileCoreScalable'', 2048), (''VDEC_MPEG4ProfileAdvancedCoding'', 4096),
       (''VDEC_MPEG4ProfileAdvancedCore'', 8192), (''VDEC_MPEG4ProfileAdvancedScalable'', 16384),
       (''VDEC_MPEG4ProfileAdvancedSimple'', 32768),
       (''VDEC_MPEG4ProfileKhronosExtensions'', 1862270976),
       (''VDEC_MPEG4ProfileVendorStartUnused'', 2130706432),
       (''VDEC_MPEG4ProfileMax'', 2147483647)],
     Enum ''vdec_mpeg4_level'' [(''VDEC_MPEG4Level0'', 1), (''VDEC_MPEG4Level0b'', 2),
       (''VDEC_MPEG4Level1'', 4), (''VDEC_MPEG4Level2'', 8), (''VDEC_MPEG4Level3'', 16),
       (''VDEC_MPEG4Level4'', 32), (''VDEC_MPEG4Level4a'', 64), (''VDEC_MPEG4Level5'', 128),
       (''VDEC_MPEG4LevelKhronosExtensions'', 1862270976),
       (''VDEC_MPEG4LevelVendorStartUnused'', 2130706432), (''VDEC_MPEG4LevelMax'', 2147483647)],
     Enum ''vdec_avc_profile'' [(''VDEC_AVCProfileBaseline'', 1), (''VDEC_AVCProfileMain'', 2),
       (''VDEC_AVCProfileExtended'', 4), (''VDEC_AVCProfileHigh'', 8),
       (''VDEC_AVCProfileHigh10'', 16), (''VDEC_AVCProfileHigh422'', 32),
       (''VDEC_AVCProfileHigh444'', 64), (''VDEC_AVCProfileKhronosExtensions'', 1862270976),
       (''VDEC_AVCProfileVendorStartUnused'', 2130706432), (''VDEC_AVCProfileMax'', 2147483647)],
     Enum ''vdec_avc_level'' [(''VDEC_AVCLevel1'', 1), (''VDEC_AVCLevel1b'', 2),
       (''VDEC_AVCLevel11'', 4), (''VDEC_AVCLevel12'', 8), (''VDEC_AVCLevel13'', 16),
       (''VDEC_AVCLevel2'', 32), (''VDEC_AVCLevel21'', 64), (''VDEC_AVCLevel22'', 128),
       (''VDEC_AVCLevel3'', 256), (''VDEC_AVCLevel31'', 512), (''VDEC_AVCLevel32'', 1024),
       (''VDEC_AVCLevel4'', 2048), (''VDEC_AVCLevel41'', 4096), (''VDEC_AVCLevel42'', 8192),
       (''VDEC_AVCLevel5'', 16384), (''VDEC_AVCLevel51'', 32768),
       (''VDEC_AVCLevelKhronosExtensions'', 1862270976),
       (''VDEC_AVCLevelVendorStartUnused'', 2130706432), (''VDEC_AVCLevelMax'', 2147483647)],
     Enum ''vdec_divx_profile'' [(''VDEC_DIVXProfile_qMobile'', 1),
       (''VDEC_DIVXProfile_Mobile'', 2), (''VDEC_DIVXProfile_HD'', 4),
       (''VDEC_DIVXProfile_Handheld'', 8), (''VDEC_DIVXProfile_Portable'', 16),
       (''VDEC_DIVXProfile_HomeTheater'', 32)],
     Enum ''vdec_xvid_profile'' [(''VDEC_XVIDProfile_Simple'', 1),
       (''VDEC_XVIDProfile_Advanced_Realtime_Simple'', 2),
       (''VDEC_XVIDProfile_Advanced_Simple'', 4)],
     Enum ''vdec_xvid_level'' [(''VDEC_XVID_LEVEL_S_L0'', 1), (''VDEC_XVID_LEVEL_S_L1'', 2),
       (''VDEC_XVID_LEVEL_S_L2'', 4), (''VDEC_XVID_LEVEL_S_L3'', 8),
       (''VDEC_XVID_LEVEL_ARTS_L1'', 16), (''VDEC_XVID_LEVEL_ARTS_L2'', 32),
       (''VDEC_XVID_LEVEL_ARTS_L3'', 64), (''VDEC_XVID_LEVEL_ARTS_L4'', 128),
       (''VDEC_XVID_LEVEL_AS_L0'', 256), (''VDEC_XVID_LEVEL_AS_L1'', 512),
       (''VDEC_XVID_LEVEL_AS_L2'', 1024), (''VDEC_XVID_LEVEL_AS_L3'', 2048),
       (''VDEC_XVID_LEVEL_AS_L4'', 4096)],
     Enum ''vdec_h263profile'' [(''VDEC_H263ProfileBaseline'', 1),
       (''VDEC_H263ProfileH320Coding'', 2), (''VDEC_H263ProfileBackwardCompatible'', 4),
       (''VDEC_H263ProfileISWV2'', 8), (''VDEC_H263ProfileISWV3'', 16),
       (''VDEC_H263ProfileHighCompression'', 32), (''VDEC_H263ProfileInternet'', 64),
       (''VDEC_H263ProfileInterlace'', 128), (''VDEC_H263ProfileHighLatency'', 256),
       (''VDEC_H263ProfileKhronosExtensions'', 1862270976),
       (''VDEC_H263ProfileVendorStartUnused'', 2130706432),
       (''VDEC_H263ProfileMax'', 2147483647)]]"

definition msm_vidc_dec_4 :: "decl list" where
  "msm_vidc_dec_4 =
    [Enum ''vdec_h263level'' [(''VDEC_H263Level10'', 1), (''VDEC_H263Level20'', 2),
       (''VDEC_H263Level30'', 4), (''VDEC_H263Level40'', 8), (''VDEC_H263Level45'', 16),
       (''VDEC_H263Level50'', 32), (''VDEC_H263Level60'', 64), (''VDEC_H263Level70'', 128),
       (''VDEC_H263LevelKhronosExtensions'', 1862270976),
       (''VDEC_H263LevelVendorStartUnused'', 2130706432), (''VDEC_H263LevelMax'', 2147483647)],
     Enum ''vdec_wmv_format'' [(''VDEC_WMVFormatUnused'', 1), (''VDEC_WMVFormat7'', 2),
       (''VDEC_WMVFormat8'', 4), (''VDEC_WMVFormat9'', 8),
       (''VDEC_WMFFormatKhronosExtensions'', 1862270976),
       (''VDEC_WMFFormatVendorStartUnused'', 2130706432), (''VDEC_WMVFormatMax'', 2147483647)],
     Enum ''vdec_vc1_profile'' [(''VDEC_VC1ProfileSimple'', 1), (''VDEC_VC1ProfileMain'', 2),
       (''VDEC_VC1ProfileAdvanced'', 4)],
     Enum ''vdec_vc1_level'' [(''VDEC_VC1_LEVEL_S_Low'', 1), (''VDEC_VC1_LEVEL_S_Medium'', 2),
       (''VDEC_VC1_LEVEL_M_Low'', 4), (''VDEC_VC1_LEVEL_M_Medium'', 8),
       (''VDEC_VC1_LEVEL_M_High'', 16), (''VDEC_VC1_LEVEL_A_L0'', 32),
       (''VDEC_VC1_LEVEL_A_L1'', 64), (''VDEC_VC1_LEVEL_A_L2'', 128),
       (''VDEC_VC1_LEVEL_A_L3'', 256), (''VDEC_VC1_LEVEL_A_L4'', 512)],
     Struct ''vdec_profile_level'' vdec_profile_level,
     Enum ''vdec_interlaced_format'' [(''VDEC_InterlaceFrameProgressive'', 1),
       (''VDEC_InterlaceInterleaveFrameTopFieldFirst'', 2),
       (''VDEC_InterlaceInterleaveFrameBottomFieldFirst'', 4)],
     Const ''VDEC_YUV_FORMAT_NV12_TP10_UBWC'' 4,
     Enum ''vdec_output_fromat'' [(''VDEC_YUV_FORMAT_NV12'', 1),
       (''VDEC_YUV_FORMAT_TILE_4x2'', 2), (''VDEC_YUV_FORMAT_NV12_UBWC'', 3),
       (''VDEC_YUV_FORMAT_NV12_TP10_UBWC'', 4)],
     Enum ''vdec_output_order'' [(''VDEC_ORDER_DISPLAY'', 1), (''VDEC_ORDER_DECODE'', 2)],
     Struct ''vdec_picsize'' vdec_picsize, Struct ''vdec_seqheader'' vdec_seqheader,
     Struct ''vdec_mberror'' vdec_mberror, Struct ''vdec_input_frameinfo'' vdec_input_frameinfo,
     Struct ''vdec_framesize'' vdec_framesize,
     Struct ''vdec_aspectratioinfo'' vdec_aspectratioinfo,
     Struct ''vdec_sep_metadatainfo'' vdec_sep_metadatainfo,
     Struct ''vdec_output_frameinfo'' vdec_output_frameinfo,
     Struct ''vdec_msgdata'' vdec_msgdata, Struct ''vdec_msginfo'' vdec_msginfo,
     Struct ''vdec_framerate'' vdec_framerate, Struct ''vdec_h264_mv'' vdec_h264_mv,
     Struct ''vdec_mv_buff_size'' vdec_mv_buff_size]"

definition msm_vidc_dec_5 :: "decl list" where
  "msm_vidc_dec_5 =
    [Struct ''vdec_meta_buffers'' vdec_meta_buffers]"

definition msm_vidc_dec_h :: "decl list" where
  "msm_vidc_dec_h = msm_vidc_dec_1 @ msm_vidc_dec_2 @ msm_vidc_dec_3 @ msm_vidc_dec_4 @ msm_vidc_dec_5"

subsection \<open>linux/msm_vidc_enc.h\<close>

abbreviation venc_ioctl_msg :: ctype where
  "venc_ioctl_msg \<equiv>
     StructT Natural [(''in'', PtrT), (''out'', PtrT)]"

abbreviation venc_range :: ctype where
  "venc_range \<equiv>
     StructT Natural [(''max'', ulongT), (''min'', ulongT), (''step_size'', ulongT)]"

abbreviation venc_switch :: ctype where
  "venc_switch \<equiv>
     StructT Natural [(''status'', u8)]"

abbreviation venc_allocatorproperty :: ctype where
  "venc_allocatorproperty \<equiv>
     StructT Natural [(''mincount'', ulongT), (''maxcount'', ulongT), (''actualcount'', ulongT),
      (''datasize'', ulongT), (''suffixsize'', ulongT), (''alignment'', ulongT),
      (''bufpoolid'', ulongT)]"

abbreviation venc_bufferpayload :: ctype where
  "venc_bufferpayload \<equiv>
     StructT Natural [(''pbuffer'', PtrT), (''sz'', ulongT), (''fd'', s32), (''offset'', u32),
      (''maped_size'', u32), (''filled_len'', ulongT)]"

abbreviation venc_buffer :: ctype where
  "venc_buffer \<equiv>
     StructT Natural [(''ptrbuffer'', PtrT), (''sz'', ulongT), (''len'', ulongT),
      (''offset'', ulongT), (''timestamp'', s64), (''flags'', ulongT), (''clientdata'', PtrT)]"

abbreviation venc_basecfg :: ctype where
  "venc_basecfg \<equiv>
     StructT Natural [(''input_width'', ulongT), (''input_height'', ulongT),
      (''dvs_width'', ulongT), (''dvs_height'', ulongT), (''codectype'', ulongT),
      (''fps_num'', ulongT), (''fps_den'', ulongT), (''targetbitrate'', ulongT),
      (''inputformat'', ulongT)]"

abbreviation venc_profile :: ctype where
  "venc_profile \<equiv>
     StructT Natural [(''profile'', ulongT)]"

abbreviation ven_profilelevel :: ctype where
  "ven_profilelevel \<equiv>
     StructT Natural [(''level'', ulongT)]"

abbreviation venc_sessionqp :: ctype where
  "venc_sessionqp \<equiv>
     StructT Natural [(''iframeqp'', ulongT), (''pframqp'', ulongT)]"

abbreviation venc_qprange :: ctype where
  "venc_qprange \<equiv>
     StructT Natural [(''maxqp'', ulongT), (''minqp'', ulongT)]"

abbreviation venc_plusptype :: ctype where
  "venc_plusptype \<equiv>
     StructT Natural [(''plusptype_enable'', ulongT)]"

abbreviation venc_intraperiod :: ctype where
  "venc_intraperiod \<equiv>
     StructT Natural [(''num_pframes'', ulongT), (''num_bframes'', ulongT)]"

abbreviation venc_seqheader :: ctype where
  "venc_seqheader \<equiv>
     StructT Natural [(''hdrbufptr'', PtrT), (''bufsize'', ulongT), (''hdrlen'', ulongT)]"

abbreviation venc_capability :: ctype where
  "venc_capability \<equiv>
     StructT Natural [(''codec_types'', ulongT), (''maxframe_width'', ulongT),
      (''maxframe_height'', ulongT), (''maxtarget_bitrate'', ulongT),
      (''maxframe_rate'', ulongT), (''input_formats'', ulongT), (''dvs'', u8)]"

abbreviation venc_entropycfg :: ctype where
  "venc_entropycfg \<equiv>
     StructT Natural [(''longentropysel'', u32), (''cabacmodel'', ulongT)]"

abbreviation venc_dbcfg :: ctype where
  "venc_dbcfg \<equiv>
     StructT Natural [(''db_mode'', ulongT), (''slicealpha_offset'', ulongT),
      (''slicebeta_offset'', ulongT)]"

abbreviation venc_intrarefresh :: ctype where
  "venc_intrarefresh \<equiv>
     StructT Natural [(''irmode'', ulongT), (''mbcount'', ulongT)]"

abbreviation venc_multiclicecfg :: ctype where
  "venc_multiclicecfg \<equiv>
     StructT Natural [(''mslice_mode'', ulongT), (''mslice_size'', ulongT)]"

abbreviation venc_bufferflush :: ctype where
  "venc_bufferflush \<equiv>
     StructT Natural [(''flush_mode'', ulongT)]"

abbreviation venc_ratectrlcfg :: ctype where
  "venc_ratectrlcfg \<equiv>
     StructT Natural [(''rcmode'', ulongT)]"

abbreviation venc_voptimingcfg :: ctype where
  "venc_voptimingcfg \<equiv>
     StructT Natural [(''voptime_resolution'', ulongT)]"

abbreviation venc_framerate :: ctype where
  "venc_framerate \<equiv>
     StructT Natural [(''fps_denominator'', ulongT), (''fps_numerator'', ulongT)]"

abbreviation venc_targetbitrate :: ctype where
  "venc_targetbitrate \<equiv>
     StructT Natural [(''target_bitrate'', ulongT)]"

abbreviation venc_rotation :: ctype where
  "venc_rotation \<equiv>
     StructT Natural [(''rotation'', ulongT)]"

abbreviation venc_timeout :: ctype where
  "venc_timeout \<equiv>
     StructT Natural [(''millisec'', ulongT)]"

abbreviation venc_headerextension :: ctype where
  "venc_headerextension \<equiv>
     StructT Natural [(''header_extension'', ulongT)]"

abbreviation venc_msg :: ctype where
  "venc_msg \<equiv>
     StructT Natural [(''statuscode'', ulongT), (''msgcode'', ulongT), (''buf'', venc_buffer),
      (''msgdata_size'', ulongT)]"

abbreviation venc_recon_addr :: ctype where
  "venc_recon_addr \<equiv>
     StructT Natural [(''pbuffer'', PtrT), (''buffer_size'', ulongT), (''pmem_fd'', ulongT),
      (''offset'', ulongT)]"

abbreviation venc_recon_buff_size :: ctype where
  "venc_recon_buff_size \<equiv>
     StructT Natural [(''width'', s32), (''height'', s32), (''size'', s32), (''alignment'', s32)]"

abbreviation venc_ltrmode :: ctype where
  "venc_ltrmode \<equiv>
     StructT Natural [(''ltr_mode'', ulongT)]"

abbreviation venc_ltrcount :: ctype where
  "venc_ltrcount \<equiv>
     StructT Natural [(''ltr_count'', ulongT)]"

abbreviation venc_ltrperiod :: ctype where
  "venc_ltrperiod \<equiv>
     StructT Natural [(''ltr_period'', ulongT)]"

abbreviation venc_ltruse :: ctype where
  "venc_ltruse \<equiv>
     StructT Natural [(''ltr_id'', ulongT), (''ltr_frames'', ulongT)]"

definition msm_vidc_enc_1 :: "decl list" where
  "msm_vidc_enc_1 =
    [Flag ''_MSM_VIDC_ENC_H_'']"

abbreviation VEN_IOCTLBASE_NENC :: nat where "VEN_IOCTLBASE_NENC \<equiv> 2048"

abbreviation VEN_IOCTLBASE_ENC :: nat where "VEN_IOCTLBASE_ENC \<equiv> 2128"

definition msm_vidc_enc_2 :: "decl list" where
  "msm_vidc_enc_2 =
    [Const ''VEN_S_BASE'' 0x00000000, Const ''VEN_S_SUCCESS'' 0, Const ''VEN_S_EFAIL'' 1,
     Const ''VEN_S_EFATAL'' 2, Const ''VEN_S_EBADPARAM'' 3, Const ''VEN_S_EINVALSTATE'' 4,
     Const ''VEN_S_ENOSWRES'' 5, Const ''VEN_S_ENOHWRES'' 6, Const ''VEN_S_EBUFFREQ'' 7,
     Const ''VEN_S_EINVALCMD'' 8, Const ''VEN_S_ETIMEOUT'' 9, Const ''VEN_S_ENOREATMPT'' 10,
     Const ''VEN_S_ENOPREREQ'' 11, Const ''VEN_S_ECMDQFULL'' 12, Const ''VEN_S_ENOTSUPP'' 13,
     Const ''VEN_S_ENOTIMPL'' 14, Const ''VEN_S_ENOTPMEM'' 15, Const ''VEN_S_EFLUSHED'' 16,
     Const ''VEN_S_EINSUFBUF'' 17, Const ''VEN_S_ESAMESTATE'' 18,
     Const ''VEN_S_EINVALTRANS'' 19, Const ''VEN_INTF_VER'' 1, Const ''VEN_MSG_INDICATION'' 0,
     Const ''VEN_MSG_INPUT_BUFFER_DONE'' 1, Const ''VEN_MSG_OUTPUT_BUFFER_DONE'' 2,
     Const ''VEN_MSG_NEED_OUTPUT_BUFFER'' 3, Const ''VEN_MSG_FLUSH_INPUT_DONE'' 4,
     Const ''VEN_MSG_FLUSH_OUTPUT_DONE'' 5, Const ''VEN_MSG_START'' 6, Const ''VEN_MSG_STOP'' 7,
     Const ''VEN_MSG_PAUSE'' 8, Const ''VEN_MSG_RESUME'' 9,
     Const ''VEN_MSG_STOP_READING_MSG'' 10, Const ''VEN_MSG_LTRUSE_FAILED'' 11,
     Const ''VEN_MSG_HW_OVERLOAD'' 12, Const ''VEN_MSG_MAX_CLIENTS'' 13,
     Const ''VEN_BUFFLAG_EOS'' 0x00000001, Const ''VEN_BUFFLAG_ENDOFFRAME'' 0x00000010,
     Const ''VEN_BUFFLAG_SYNCFRAME'' 0x00000020, Const ''VEN_BUFFLAG_EXTRADATA'' 0x00000040,
     Const ''VEN_BUFFLAG_CODECCONFIG'' 0x00000080, Const ''VEN_EXTRADATA_NONE'' 0x001,
     Const ''VEN_EXTRADATA_QCOMFILLER'' 0x002, Const ''VEN_EXTRADATA_SLICEINFO'' 0x100,
     Const ''VEN_EXTRADATA_LTRINFO'' 0x200, Const ''VEN_EXTRADATA_MBINFO'' 0x400,
     Const ''VEN_FRAME_TYPE_I'' 1, Const ''VEN_FRAME_TYPE_P'' 2, Const ''VEN_FRAME_TYPE_B'' 3,
     Const ''VEN_CODEC_MPEG4'' 1, Const ''VEN_CODEC_H264'' 2, Const ''VEN_CODEC_H263'' 3,
     Const ''VEN_PROFILE_MPEG4_SP'' 1, Const ''VEN_PROFILE_MPEG4_ASP'' 2,
     Const ''VEN_PROFILE_H264_BASELINE'' 3, Const ''VEN_PROFILE_H264_MAIN'' 4,
     Const ''VEN_PROFILE_H264_HIGH'' 5, Const ''VEN_PROFILE_H263_BASELINE'' 6,
     Const ''VEN_LEVEL_MPEG4_0'' 0x1, Const ''VEN_LEVEL_MPEG4_1'' 0x2,
     Const ''VEN_LEVEL_MPEG4_2'' 0x3, Const ''VEN_LEVEL_MPEG4_3'' 0x4,
     Const ''VEN_LEVEL_MPEG4_4'' 0x5, Const ''VEN_LEVEL_MPEG4_5'' 0x6,
     Const ''VEN_LEVEL_MPEG4_3b'' 0x7, Const ''VEN_LEVEL_MPEG4_6'' 0x8,
     Const ''VEN_LEVEL_H264_1'' 0x9, Const ''VEN_LEVEL_H264_1b'' 0xA,
     Const ''VEN_LEVEL_H264_1p1'' 0xB, Const ''VEN_LEVEL_H264_1p2'' 0xC,
     Const ''VEN_LEVEL_H264_1p3'' 0xD, Const ''VEN_LEVEL_H264_2'' 0xE,
     Const ''VEN_LEVEL_H264_2p1'' 0xF, Const ''VEN_LEVEL_H264_2p2'' 0x10,
     Const ''VEN_LEVEL_H264_3'' 0x11, Const ''VEN_LEVEL_H264_3p1'' 0x12,
     Const ''VEN_LEVEL_H264_3p2'' 0x13, Const ''VEN_LEVEL_H264_4'' 0x14,
     Const ''VEN_LEVEL_H263_10'' 0x15, Const ''VEN_LEVEL_H263_20'' 0x16,
     Const ''VEN_LEVEL_H263_30'' 0x17, Const ''VEN_LEVEL_H263_40'' 0x18,
     Const ''VEN_LEVEL_H263_45'' 0x19, Const ''VEN_LEVEL_H263_50'' 0x1A,
     Const ''VEN_LEVEL_H263_60'' 0x1B, Const ''VEN_LEVEL_H263_70'' 0x1C,
     Const ''VEN_ENTROPY_MODEL_CAVLC'' 1, Const ''VEN_ENTROPY_MODEL_CABAC'' 2,
     Const ''VEN_CABAC_MODEL_0'' 1, Const ''VEN_CABAC_MODEL_1'' 2,
     Const ''VEN_CABAC_MODEL_2'' 3, Const ''VEN_DB_DISABLE'' 1,
     Const ''VEN_DB_ALL_BLKG_BNDRY'' 2, Const ''VEN_DB_SKIP_SLICE_BNDRY'' 3,
     Const ''VEN_MSLICE_OFF'' 1, Const ''VEN_MSLICE_CNT_MB'' 2, Const ''VEN_MSLICE_CNT_BYTE'' 3,
     Const ''VEN_MSLICE_GOB'' 4, Const ''VEN_RC_OFF'' 1, Const ''VEN_RC_VBR_VFR'' 2,
     Const ''VEN_RC_VBR_CFR'' 3, Const ''VEN_RC_CBR_VFR'' 4, Const ''VEN_RC_CBR_CFR'' 5,
     Const ''VEN_FLUSH_INPUT'' 1, Const ''VEN_FLUSH_OUTPUT'' 2, Const ''VEN_FLUSH_ALL'' 3,
     Const ''VEN_INPUTFMT_NV12'' 1, Const ''VEN_INPUTFMT_NV21'' 2,
     Const ''VEN_INPUTFMT_NV12_16M2KA'' 3, Const ''VEN_ROTATION_0'' 1,
     Const ''VEN_ROTATION_90'' 2, Const ''VEN_ROTATION_180'' 3, Const ''VEN_ROTATION_270'' 4,
     Const ''VEN_TIMEOUT_INFINITE'' 0xffffffff, Const ''VEN_IR_OFF'' 1,
     Const ''VEN_IR_CYCLIC'' 2, Const ''VEN_IR_RANDOM'' 3, Const ''VEN_IOCTLBASE_NENC'' 0x800,
     Const ''VEN_IOCTLBASE_ENC'' 0x850, Struct ''venc_ioctl_msg'' venc_ioctl_msg,
     Request ''VEN_IOCTL_SET_INTF_VERSION'' (IOW VEN_IOCTLBASE_NENC 0 venc_ioctl_msg),
     Request ''VEN_IOCTL_CMD_READ_NEXT_MSG'' (IOWR VEN_IOCTLBASE_NENC 1 venc_ioctl_msg),
     Request ''VEN_IOCTL_CMD_STOP_READ_MSG'' (IO VEN_IOCTLBASE_NENC 2),
     Request ''VEN_IOCTL_SET_INPUT_BUFFER_REQ'' (IOW VEN_IOCTLBASE_NENC 3 venc_ioctl_msg),
     Request ''VEN_IOCTL_GET_INPUT_BUFFER_REQ'' (IOR VEN_IOCTLBASE_NENC 4 venc_ioctl_msg),
     Request ''VEN_IOCTL_CMD_ALLOC_INPUT_BUFFER'' (IOW VEN_IOCTLBASE_NENC 5 venc_ioctl_msg),
     Request ''VEN_IOCTL_SET_INPUT_BUFFER'' (IOW VEN_IOCTLBASE_NENC 6 venc_ioctl_msg),
     Request ''VEN_IOCTL_CMD_FREE_INPUT_BUFFER'' (IOW VEN_IOCTLBASE_NENC 7 venc_ioctl_msg),
     Request ''VEN_IOCTL_SET_OUTPUT_BUFFER_REQ'' (IOW VEN_IOCTLBASE_NENC 8 venc_ioctl_msg),
     Request ''VEN_IOCTL_GET_OUTPUT_BUFFER_REQ'' (IOR VEN_IOCTLBASE_NENC 9 venc_ioctl_msg),
     Request ''VEN_IOCTL_CMD_ALLOC_OUTPUT_BUFFER'' (IOW VEN_IOCTLBASE_NENC 10 venc_ioctl_msg),
     Request ''VEN_IOCTL_SET_OUTPUT_BUFFER'' (IOW VEN_IOCTLBASE_NENC 11 venc_ioctl_msg),
     Request ''VEN_IOCTL_CMD_FREE_OUTPUT_BUFFER'' (IOW VEN_IOCTLBASE_NENC 12 venc_ioctl_msg),
     Request ''VEN_IOCTL_CMD_START'' (IO VEN_IOCTLBASE_NENC 13),
     Request ''VEN_IOCTL_CMD_ENCODE_FRAME'' (IOW VEN_IOCTLBASE_NENC 14 venc_ioctl_msg),
     Request ''VEN_IOCTL_CMD_FILL_OUTPUT_BUFFER'' (IOW VEN_IOCTLBASE_NENC 15 venc_ioctl_msg),
     Request ''VEN_IOCTL_CMD_FLUSH'' (IOW VEN_IOCTLBASE_NENC 16 venc_ioctl_msg),
     Request ''VEN_IOCTL_CMD_PAUSE'' (IO VEN_IOCTLBASE_NENC 17),
     Request ''VEN_IOCTL_CMD_RESUME'' (IO VEN_IOCTLBASE_NENC 18),
     Request ''VEN_IOCTL_CMD_STOP'' (IO VEN_IOCTLBASE_NENC 19),
     Request ''VEN_IOCTL_SET_RECON_BUFFER'' (IOW VEN_IOCTLBASE_NENC 20 venc_ioctl_msg),
     Request ''VEN_IOCTL_FREE_RECON_BUFFER'' (IOW VEN_IOCTLBASE_NENC 21 venc_ioctl_msg),
     Request ''VEN_IOCTL_GET_RECON_BUFFER_SIZE'' (IOW VEN_IOCTLBASE_NENC 22 venc_ioctl_msg),
     Request ''VEN_IOCTL_SET_BASE_CFG'' (IOW VEN_IOCTLBASE_ENC 1 venc_ioctl_msg),
     Request ''VEN_IOCTL_GET_BASE_CFG'' (IOR VEN_IOCTLBASE_ENC 2 venc_ioctl_msg),
     Request ''VEN_IOCTL_SET_LIVE_MODE'' (IOW VEN_IOCTLBASE_ENC 3 venc_ioctl_msg),
     Request ''VEN_IOCTL_GET_LIVE_MODE'' (IOR VEN_IOCTLBASE_ENC 4 venc_ioctl_msg)]"

definition msm_vidc_enc_3 :: "decl list" where
  "msm_vidc_enc_3 =
    [Request ''VEN_IOCTL_SET_CODEC_PROFILE'' (IOW VEN_IOCTLBASE_ENC 5 venc_ioctl_msg),
     Request ''VEN_IOCTL_GET_CODEC_PROFILE'' (IOR VEN_IOCTLBASE_ENC 6 venc_ioctl_msg),
     Request ''VEN_IOCTL_SET_PROFILE_LEVEL'' (IOW VEN_IOCTLBASE_ENC 7 venc_ioctl_msg),
     Request ''VEN_IOCTL_GET_PROFILE_LEVEL'' (IOR VEN_IOCTLBASE_ENC 8 venc_ioctl_msg),
     Request ''VEN_IOCTL_SET_SHORT_HDR'' (IOW VEN_IOCTLBASE_ENC 9 venc_ioctl_msg),
     Request ''VEN_IOCTL_GET_SHORT_HDR'' (IOR VEN_IOCTLBASE_ENC 10 venc_ioctl_msg),
     Request ''VEN_IOCTL_SET_SESSION_QP'' (IOW VEN_IOCTLBASE_ENC 11 venc_ioctl_msg),
     Request ''VEN_IOCTL_GET_SESSION_QP'' (IOR VEN_IOCTLBASE_ENC 12 venc_ioctl_msg),
     Request ''VEN_IOCTL_SET_INTRA_PERIOD'' (IOW VEN_IOCTLBASE_ENC 13 venc_ioctl_msg),
     Request ''VEN_IOCTL_GET_INTRA_PERIOD'' (IOR VEN_IOCTLBASE_ENC 14 venc_ioctl_msg),
     Request ''VEN_IOCTL_CMD_REQUEST_IFRAME'' (IO VEN_IOCTLBASE_ENC 15),
     Request ''VEN_IOCTL_GET_CAPABILITY'' (IOR VEN_IOCTLBASE_ENC 16 venc_ioctl_msg),
     Request ''VEN_IOCTL_GET_SEQUENCE_HDR'' (IOR VEN_IOCTLBASE_ENC 17 venc_ioctl_msg),
     Request ''VEN_IOCTL_SET_ENTROPY_CFG'' (IOW VEN_IOCTLBASE_ENC 18 venc_ioctl_msg),
     Request ''VEN_IOCTL_GET_ENTROPY_CFG'' (IOR VEN_IOCTLBASE_ENC 19 venc_ioctl_msg),
     Request ''VEN_IOCTL_SET_DEBLOCKING_CFG'' (IOW VEN_IOCTLBASE_ENC 20 venc_ioctl_msg),
     Request ''VEN_IOCTL_GET_DEBLOCKING_CFG'' (IOR VEN_IOCTLBASE_ENC 21 venc_ioctl_msg),
     Request ''VEN_IOCTL_SET_INTRA_REFRESH'' (IOW VEN_IOCTLBASE_ENC 22 venc_ioctl_msg),
     Request ''VEN_IOCTL_GET_INTRA_REFRESH'' (IOR VEN_IOCTLBASE_ENC 23 venc_ioctl_msg),
     Request ''VEN_IOCTL_SET_MULTI_SLICE_CFG'' (IOW VEN_IOCTLBASE_ENC 24 venc_ioctl_msg),
     Request ''VEN_IOCTL_GET_MULTI_SLICE_CFG'' (IOR VEN_IOCTLBASE_ENC 25 venc_ioctl_msg),
     Request ''VEN_IOCTL_SET_RATE_CTRL_CFG'' (IOW VEN_IOCTLBASE_ENC 26 venc_ioctl_msg),
     Request ''VEN_IOCTL_GET_RATE_CTRL_CFG'' (IOR VEN_IOCTLBASE_ENC 27 venc_ioctl_msg),
     Request ''VEN_IOCTL_SET_VOP_TIMING_CFG'' (IOW VEN_IOCTLBASE_ENC 28 venc_ioctl_msg),
     Request ''VEN_IOCTL_GET_VOP_TIMING_CFG'' (IOR VEN_IOCTLBASE_ENC 29 venc_ioctl_msg),
     Request ''VEN_IOCTL_SET_FRAME_RATE'' (IOW VEN_IOCTLBASE_ENC 30 venc_ioctl_msg),
     Request ''VEN_IOCTL_GET_FRAME_RATE'' (IOR VEN_IOCTLBASE_ENC 31 venc_ioctl_msg),
     Request ''VEN_IOCTL_SET_TARGET_BITRATE'' (IOW VEN_IOCTLBASE_ENC 32 venc_ioctl_msg),
     Request ''VEN_IOCTL_GET_TARGET_BITRATE'' (IOR VEN_IOCTLBASE_ENC 33 venc_ioctl_msg),
     Request ''VEN_IOCTL_SET_ROTATION'' (IOW VEN_IOCTLBASE_ENC 34 venc_ioctl_msg),
     Request ''VEN_IOCTL_GET_ROTATION'' (IOR VEN_IOCTLBASE_ENC 35 venc_ioctl_msg),
     Request ''VEN_IOCTL_SET_HEC'' (IOW VEN_IOCTLBASE_ENC 36 venc_ioctl_msg),
     Request ''VEN_IOCTL_GET_HEC'' (IOR VEN_IOCTLBASE_ENC 37 venc_ioctl_msg),
     Request ''VEN_IOCTL_SET_DATA_PARTITION'' (IOW VEN_IOCTLBASE_ENC 38 venc_ioctl_msg),
     Request ''VEN_IOCTL_GET_DATA_PARTITION'' (IOR VEN_IOCTLBASE_ENC 39 venc_ioctl_msg),
     Request ''VEN_IOCTL_SET_RVLC'' (IOW VEN_IOCTLBASE_ENC 40 venc_ioctl_msg),
     Request ''VEN_IOCTL_GET_RVLC'' (IOR VEN_IOCTLBASE_ENC 41 venc_ioctl_msg),
     Request ''VEN_IOCTL_SET_AC_PREDICTION'' (IOW VEN_IOCTLBASE_ENC 42 venc_ioctl_msg),
     Request ''VEN_IOCTL_GET_AC_PREDICTION'' (IOR VEN_IOCTLBASE_ENC 43 venc_ioctl_msg),
     Request ''VEN_IOCTL_SET_QP_RANGE'' (IOW VEN_IOCTLBASE_ENC 44 venc_ioctl_msg),
     Request ''VEN_IOCTL_GET_QP_RANGE'' (IOR VEN_IOCTLBASE_ENC 45 venc_ioctl_msg),
     Request ''VEN_IOCTL_GET_NUMBER_INSTANCES'' (IOR VEN_IOCTLBASE_ENC 46 venc_ioctl_msg),
     Request ''VEN_IOCTL_SET_METABUFFER_MODE'' (IOW VEN_IOCTLBASE_ENC 47 venc_ioctl_msg),
     Request ''VEN_IOCTL_SET_EXTRADATA'' (IOW VEN_IOCTLBASE_ENC 48 venc_ioctl_msg),
     Request ''VEN_IOCTL_GET_EXTRADATA'' (IOR VEN_IOCTLBASE_ENC 49 venc_ioctl_msg),
     Request ''VEN_IOCTL_SET_SLICE_DELIVERY_MODE'' (IO VEN_IOCTLBASE_ENC 50),
     Request ''VEN_IOCTL_SET_H263_PLUSPTYPE'' (IOW VEN_IOCTLBASE_ENC 51 venc_ioctl_msg),
     Request ''VEN_IOCTL_SET_CAPABILITY_LTRCOUNT'' (IOW VEN_IOCTLBASE_ENC 52 venc_ioctl_msg),
     Request ''VEN_IOCTL_GET_CAPABILITY_LTRCOUNT'' (IOR VEN_IOCTLBASE_ENC 53 venc_ioctl_msg),
     Request ''VEN_IOCTL_SET_LTRMODE'' (IOW VEN_IOCTLBASE_ENC 54 venc_ioctl_msg),
     Request ''VEN_IOCTL_GET_LTRMODE'' (IOR VEN_IOCTLBASE_ENC 55 venc_ioctl_msg),
     Request ''VEN_IOCTL_SET_LTRCOUNT'' (IOW VEN_IOCTLBASE_ENC 56 venc_ioctl_msg),
     Request ''VEN_IOCTL_GET_LTRCOUNT'' (IOR VEN_IOCTLBASE_ENC 57 venc_ioctl_msg),
     Request ''VEN_IOCTL_SET_LTRPERIOD'' (IOW VEN_IOCTLBASE_ENC 58 venc_ioctl_msg),
     Request ''VEN_IOCTL_GET_LTRPERIOD'' (IOR VEN_IOCTLBASE_ENC 59 venc_ioctl_msg),
     Request ''VEN_IOCTL_SET_LTRUSE'' (IOW VEN_IOCTLBASE_ENC 60 venc_ioctl_msg),
     Request ''VEN_IOCTL_GET_LTRUSE'' (IOR VEN_IOCTLBASE_ENC 61 venc_ioctl_msg),
     Request ''VEN_IOCTL_SET_LTRMARK'' (IOW VEN_IOCTLBASE_ENC 62 venc_ioctl_msg),
     Request ''VEN_IOCTL_GET_LTRMARK'' (IOR VEN_IOCTLBASE_ENC 63 venc_ioctl_msg),
     Request ''VEN_IOCTL_SET_SPS_PPS_FOR_IDR'' (IOW VEN_IOCTLBASE_ENC 64 venc_ioctl_msg),
     Struct ''venc_range'' venc_range, Struct ''venc_switch'' venc_switch,
     Struct ''venc_allocatorproperty'' venc_allocatorproperty,
     Struct ''venc_bufferpayload'' venc_bufferpayload, Struct ''venc_buffer'' venc_buffer,
     Struct ''venc_basecfg'' venc_basecfg, Struct ''venc_profile'' venc_profile,
     Struct ''ven_profilelevel'' ven_profilelevel, Struct ''venc_sessionqp'' venc_sessionqp,
     Struct ''venc_qprange'' venc_qprange, Struct ''venc_plusptype'' venc_plusptype,
     Struct ''venc_intraperiod'' venc_intraperiod, Struct ''venc_seqheader'' venc_seqheader,
     Struct ''venc_capability'' venc_capability, Struct ''venc_entropycfg'' venc_entropycfg,
     Struct ''venc_dbcfg'' venc_dbcfg]"

definition msm_vidc_enc_4 :: "decl list" where
  "msm_vidc_enc_4 =
    [Struct ''venc_intrarefresh'' venc_intrarefresh,
     Struct ''venc_multiclicecfg'' venc_multiclicecfg,
     Struct ''venc_bufferflush'' venc_bufferflush, Struct ''venc_ratectrlcfg'' venc_ratectrlcfg,
     Struct ''venc_voptimingcfg'' venc_voptimingcfg, Struct ''venc_framerate'' venc_framerate,
     Struct ''venc_targetbitrate'' venc_targetbitrate, Struct ''venc_rotation'' venc_rotation,
     Struct ''venc_timeout'' venc_timeout, Struct ''venc_headerextension'' venc_headerextension,
     Struct ''venc_msg'' venc_msg, Struct ''venc_recon_addr'' venc_recon_addr,
     Struct ''venc_recon_buff_size'' venc_recon_buff_size, Struct ''venc_ltrmode'' venc_ltrmode,
     Struct ''venc_ltrcount'' venc_ltrcount, Struct ''venc_ltrperiod'' venc_ltrperiod,
     Struct ''venc_ltruse'' venc_ltruse]"

definition msm_vidc_enc_h :: "decl list" where
  "msm_vidc_enc_h = msm_vidc_enc_1 @ msm_vidc_enc_2 @ msm_vidc_enc_3 @ msm_vidc_enc_4"

subsection \<open>media/msm_vpu.h\<close>

abbreviation v4l2_format_vpu_extension :: ctype where
  "v4l2_format_vpu_extension \<equiv>
     StructT Natural [(''flag'', u8), (''gap_in_lines'', u8)]"

abbreviation vpu_ctrl_standard :: ctype where
  "vpu_ctrl_standard \<equiv>
     StructT Natural [(''enable'', u32), (''value'', s32)]"

abbreviation vpu_ctrl_auto_manual :: ctype where
  "vpu_ctrl_auto_manual \<equiv>
     StructT Natural [(''enable'', u32), (''auto_mode'', u32), (''value'', s32)]"

abbreviation vpu_ctrl_range_mapping :: ctype where
  "vpu_ctrl_range_mapping \<equiv>
     StructT Natural [(''enable'', u32), (''y_range'', u32), (''uv_range'', u32)]"

abbreviation VPU_ACTIVE_REGION_N_EXCLUSIONS :: nat where "VPU_ACTIVE_REGION_N_EXCLUSIONS \<equiv> 1"

abbreviation vpu_ctrl_active_region_param :: ctype where
  "vpu_ctrl_active_region_param \<equiv>
     StructT Natural [(''enable'', u32), (''num_exclusions'', u32),
      (''detection_region'', v4l2_rect),
      (''excluded_regions'', ArrT v4l2_rect VPU_ACTIVE_REGION_N_EXCLUSIONS)]"

abbreviation vpu_ctrl_deinterlacing_mode :: ctype where
  "vpu_ctrl_deinterlacing_mode \<equiv>
     StructT Natural [(''field_polarity'', u32), (''mvp_mode'', u32)]"

abbreviation vpu_ctrl_hqv :: ctype where
  "vpu_ctrl_hqv \<equiv>
     StructT Natural [(''enable'', u32), (''sharpen_strength'', u32),
      (''auto_nr_strength'', u32)]"

abbreviation vpu_info_frame_timestamp :: ctype where
  "vpu_info_frame_timestamp \<equiv>
     StructT Natural [(''pts_low'', u32), (''pts_high'', u32), (''qtime_low'', u32),
      (''qtime_high'', u32)]"

abbreviation control_data :: ctype where
  "control_data \<equiv>
     UnionT Natural [(''value'', s32), (''standard'', vpu_ctrl_standard),
      (''auto_manual'', vpu_ctrl_auto_manual), (''range_mapping'', vpu_ctrl_range_mapping),
      (''active_region_param'', vpu_ctrl_active_region_param),
      (''active_region_result'', v4l2_rect),
      (''deinterlacing_mode'', vpu_ctrl_deinterlacing_mode), (''hqv'', vpu_ctrl_hqv),
      (''timestamp'', vpu_info_frame_timestamp), (''reserved'', ArrT u8 124)]"

abbreviation vpu_control :: ctype where
  "vpu_control \<equiv>
     StructT Natural [(''control_id'', u32), (''data'', control_data)]"

abbreviation vpu_control_extended :: ctype where
  "vpu_control_extended \<equiv>
     StructT Natural [(''type'', u32), (''data_len'', u32), (''data_ptr'', PtrT),
      (''buf_size'', u32), (''buf_ptr'', PtrT)]"

abbreviation control_port_data :: ctype where
  "control_port_data \<equiv>
     UnionT Natural [(''framerate'', u32)]"

abbreviation vpu_control_port :: ctype where
  "vpu_control_port \<equiv>
     StructT Natural [(''control_id'', u32), (''port'', u32), (''data'', control_port_data)]"

definition msm_vpu_1 :: "decl list" where
  "msm_vpu_1 =
    [Flag ''_H_MSM_VPU_H_'']"

abbreviation BASE_VIDIOC_PRIVATE :: nat where "BASE_VIDIOC_PRIVATE \<equiv> 192"

definition msm_vpu_2 :: "decl list" where
  "msm_vpu_2 =
    [Const ''V4L2_BUF_FLAG_CDS_ENABLE'' 0x10000000, Const ''V4L2_PLANE_MEM_OFFSET'' 0,
     Enum ''vpu_colorspace'' [(''VPU_CS_MIN'', 0), (''VPU_CS_RGB_FULL'', 1),
       (''VPU_CS_RGB_LIMITED'', 2), (''VPU_CS_REC601_FULL'', 3), (''VPU_CS_REC601_LIMITED'', 4),
       (''VPU_CS_REC709_FULL'', 5), (''VPU_CS_REC709_LIMITED'', 6),
       (''VPU_CS_SMPTE240_FULL'', 7), (''VPU_CS_SMPTE240_LIMITED'', 8), (''VPU_CS_MAX'', 9)],
     Const ''VPU_FMT_EXT_FLAG_BT'' 1, Const ''VPU_FMT_EXT_FLAG_TB'' 2,
     Const ''VPU_FMT_EXT_FLAG_3D'' 4,
     Struct ''v4l2_format_vpu_extension'' v4l2_format_vpu_extension,
     Const ''V4L2_PIX_FMT_XRGB2'' 843534936, Const ''V4L2_PIX_FMT_XBGR2'' 843530840,
     Const ''V4L2_PIX_FMT_YUYV10'' 1280922969, Const ''V4L2_PIX_FMT_YUV8'' 945182041,
     Const ''V4L2_PIX_FMT_YUV10'' 1280726361, Const ''V4L2_PIX_FMT_YUYV10BWC'' 1129792089,
     Const ''VPU_INPUT_TYPE_HOST'' 0, Const ''VPU_INPUT_TYPE_VCAP'' 1,
     Const ''VPU_OUTPUT_TYPE_HOST'' 0, Const ''VPU_OUTPUT_TYPE_DISPLAY'' 1,
     Const ''VPU_PIPE_VCAP0'' (2 ^ 16), Const ''VPU_PIPE_VCAP1'' (2 ^ 17),
     Const ''VPU_PIPE_DISPLAY0'' (2 ^ 18), Const ''VPU_PIPE_DISPLAY1'' (2 ^ 19),
     Const ''VPU_PIPE_DISPLAY2'' (2 ^ 20), Const ''VPU_PIPE_DISPLAY3'' (2 ^ 21),
     Const ''VPU_PRIVATE_EVENT_BASE'' 134223728,
     Enum ''VPU_PRIVATE_EVENT'' [(''VPU_EVENT_START'', 134223728),
       (''VPU_EVENT_FLUSH_DONE'', 134223729), (''VPU_EVENT_ACTIVE_REGION_CHANGED'', 134223730),
       (''VPU_EVENT_SESSION_TIMESTAMP'', 134223731), (''VPU_EVENT_SESSION_CREATED'', 134223732),
       (''VPU_EVENT_SESSION_FREED'', 134223733),
       (''VPU_EVENT_SESSION_CLIENT_EXITED'', 134223734), (''VPU_EVENT_HW_ERROR'', 134223739),
       (''VPU_EVENT_INVALID_CONFIG'', 134223740),
       (''VPU_EVENT_FAILED_SESSION_STREAMING'', 134223741), (''VPU_EVENT_END'', 134223742)],
     Struct ''vpu_ctrl_standard'' vpu_ctrl_standard,
     Struct ''vpu_ctrl_auto_manual'' vpu_ctrl_auto_manual,
     Struct ''vpu_ctrl_range_mapping'' vpu_ctrl_range_mapping,
     Const ''VPU_ACTIVE_REGION_N_EXCLUSIONS'' 1,
     Struct ''vpu_ctrl_active_region_param'' vpu_ctrl_active_region_param,
     Struct ''vpu_ctrl_deinterlacing_mode'' vpu_ctrl_deinterlacing_mode,
     Struct ''vpu_ctrl_hqv'' vpu_ctrl_hqv,
     Struct ''vpu_info_frame_timestamp'' vpu_info_frame_timestamp,
     Struct ''vpu_control'' vpu_control, Struct ''control_data'' control_data,
     Const ''VPU_CTRL_ID_MIN'' 0, Const ''VPU_CTRL_NOISE_REDUCTION'' 1,
     Const ''VPU_CTRL_IMAGE_ENHANCEMENT'' 2, Const ''VPU_CTRL_ANAMORPHIC_SCALING'' 3,
     Const ''VPU_CTRL_DIRECTIONAL_INTERPOLATION'' 4, Const ''VPU_CTRL_BACKGROUND_COLOR'' 5,
     Const ''VPU_CTRL_RANGE_MAPPING'' 6, Const ''VPU_CTRL_DEINTERLACING_MODE'' 7,
     Const ''VPU_CTRL_ACTIVE_REGION_PARAM'' 8, Const ''VPU_CTRL_ACTIVE_REGION_RESULT'' 9,
     Const ''VPU_CTRL_PRIORITY'' 10, Const ''VPU_CTRL_CONTENT_PROTECTION'' 11,
     Const ''VPU_CTRL_DISPLAY_REFRESH_RATE'' 12, Const ''VPU_CTRL_HQV'' 20,
     Const ''VPU_CTRL_HQV_SHARPEN'' 21, Const ''VPU_CTRL_HQV_AUTONR'' 22,
     Const ''VPU_CTRL_ACE'' 23, Const ''VPU_CTRL_ACE_BRIGHTNESS'' 24,
     Const ''VPU_CTRL_ACE_CONTRAST'' 25, Const ''VPU_CTRL_2D3D'' 26,
     Const ''VPU_CTRL_2D3D_DEPTH'' 27, Const ''VPU_CTRL_FRC'' 28,
     Const ''VPU_CTRL_FRC_MOTION_SMOOTHNESS'' 29, Const ''VPU_CTRL_FRC_MOTION_CLEAR'' 30,
     Const ''VPU_INFO_TIMESTAMP'' 35, Const ''VPU_CTRL_TIMESTAMP_INFO_MODE'' 36,
     Const ''VPU_INFO_STATISTICS'' 37, Const ''VPU_CTRL_LATENCY'' 38,
     Const ''VPU_CTRL_LATENCY_MODE'' 39, Const ''VPU_CTRL_ID_MAX'' 40,
     Const ''VPU_MAX_EXT_DATA_SIZE'' 720, Struct ''vpu_control_extended'' vpu_control_extended,
     Struct ''vpu_control_port'' vpu_control_port,
     Struct ''control_port_data'' control_port_data, Const ''VPU_CTRL_FPS'' 1000,
     Request ''VPU_ATTACH_TO_SESSION'' (IOW 86 (BASE_VIDIOC_PRIVATE + 1) s32),
     Request ''VPU_QUERY_SESSIONS'' (IOR 86 (BASE_VIDIOC_PRIVATE + 0) s32)]"

definition msm_vpu_3 :: "decl list" where
  "msm_vpu_3 =
    [Request ''VPU_CREATE_SESSION'' (IOR 86 (BASE_VIDIOC_PRIVATE + 2) s32),
     Request ''VPU_JOIN_SESSION'' (IOW 86 (BASE_VIDIOC_PRIVATE + 3) s32),
     Request ''VPU_CREATE_OUTPUT2'' (IO 86 (BASE_VIDIOC_PRIVATE + 5)),
     Request ''VPU_COMMIT_CONFIGURATION'' (IO 86 (BASE_VIDIOC_PRIVATE + 10)),
     Request ''VPU_FLUSH_BUFS'' (IOW 86 (BASE_VIDIOC_PRIVATE + 15) (EnumT ''v4l2_buf_type'')),
     Request ''VPU_G_CONTROL'' (IOWR 86 (BASE_VIDIOC_PRIVATE + 20) vpu_control),
     Request ''VPU_S_CONTROL'' (IOW 86 (BASE_VIDIOC_PRIVATE + 21) vpu_control),
     Request ''VPU_G_CONTROL_EXTENDED'' (IOWR 86 (BASE_VIDIOC_PRIVATE + 22) vpu_control_extended),
     Request ''VPU_S_CONTROL_EXTENDED'' (IOW 86 (BASE_VIDIOC_PRIVATE + 23) vpu_control_extended),
     Request ''VPU_G_CONTROL_PORT'' (IOWR 86 (BASE_VIDIOC_PRIVATE + 24) vpu_control_port),
     Request ''VPU_S_CONTROL_PORT'' (IOW 86 (BASE_VIDIOC_PRIVATE + 25) vpu_control_port)]"

definition msm_vpu_h :: "decl list" where
  "msm_vpu_h = msm_vpu_1 @ msm_vpu_2 @ msm_vpu_3"

subsection \<open>media/msm_sde_rotator.h\<close>

abbreviation msm_sde_rotator_fence :: ctype where
  "msm_sde_rotator_fence \<equiv>
     StructT Natural [(''index'', u32), (''type'', u32), (''fd'', s32),
      (''reserved'', ArrT u32 5)]"

abbreviation msm_sde_rotator_comp_ratio :: ctype where
  "msm_sde_rotator_comp_ratio \<equiv>
     StructT Natural [(''index'', u32), (''type'', u32), (''numer'', u32), (''denom'', u32),
      (''reserved'', ArrT u32 4)]"

definition msm_sde_rotator_1 :: "decl list" where
  "msm_sde_rotator_1 =
    [Flag ''__UAPI_MSM_SDE_ROTATOR_H__'']"

definition msm_sde_rotator_2 :: "decl list" where
  "msm_sde_rotator_2 =
    [Const ''SDE_PIX_FMT_XRGB_8888'' 875713112, Const ''SDE_PIX_FMT_ARGB_8888'' 875713089,
     Const ''SDE_PIX_FMT_ABGR_8888'' 875708754, Const ''SDE_PIX_FMT_RGBA_8888'' 875708993,
     Const ''SDE_PIX_FMT_BGRA_8888'' 875708738, Const ''SDE_PIX_FMT_RGBX_8888'' 875709016,
     Const ''SDE_PIX_FMT_BGRX_8888'' 875714626, Const ''SDE_PIX_FMT_XBGR_8888'' 875714642,
     Const ''SDE_PIX_FMT_RGBA_5551'' 892420434, Const ''SDE_PIX_FMT_ARGB_1555'' 892424769,
     Const ''SDE_PIX_FMT_ABGR_1555'' 892420673, Const ''SDE_PIX_FMT_BGRA_5551'' 892420418,
     Const ''SDE_PIX_FMT_BGRX_5551'' 892426306, Const ''SDE_PIX_FMT_RGBX_5551'' 892426322,
     Const ''SDE_PIX_FMT_XBGR_1555'' 892420696, Const ''SDE_PIX_FMT_XRGB_1555'' 892424792,
     Const ''SDE_PIX_FMT_ARGB_4444'' 842093121, Const ''SDE_PIX_FMT_RGBA_4444'' 842088786,
     Const ''SDE_PIX_FMT_BGRA_4444'' 842088802, Const ''SDE_PIX_FMT_ABGR_4444'' 842089025,
     Const ''SDE_PIX_FMT_RGBX_4444'' 842094674, Const ''SDE_PIX_FMT_XRGB_4444'' 842093144,
     Const ''SDE_PIX_FMT_BGRX_4444'' 842094658, Const ''SDE_PIX_FMT_XBGR_4444'' 842089048,
     Const ''SDE_PIX_FMT_RGB_888'' 859981650, Const ''SDE_PIX_FMT_BGR_888'' 861030210,
     Const ''SDE_PIX_FMT_RGB_565'' 1346520914, Const ''SDE_PIX_FMT_BGR_565'' 909199170,
     Const ''SDE_PIX_FMT_Y_CB_CR_H2V2'' 842093913, Const ''SDE_PIX_FMT_Y_CR_CB_H2V2'' 842094169,
     Const ''SDE_PIX_FMT_Y_CR_CB_GH2V2'' 842290521, Const ''SDE_PIX_FMT_Y_CBCR_H2V2'' 842094158,
     Const ''SDE_PIX_FMT_Y_CRCB_H2V2'' 825382478, Const ''SDE_PIX_FMT_Y_CBCR_H1V2'' 909199438,
     Const ''SDE_PIX_FMT_Y_CRCB_H1V2'' 825641038, Const ''SDE_PIX_FMT_Y_CBCR_H2V1'' 909203022,
     Const ''SDE_PIX_FMT_Y_CRCB_H2V1'' 825644622, Const ''SDE_PIX_FMT_YCBYCR_H2V1'' 1448695129,
     Const ''SDE_PIX_FMT_Y_CBCR_H2V2_VENUS'' 844516945,
     Const ''SDE_PIX_FMT_Y_CRCB_H2V2_VENUS'' 827739729,
     Const ''SDE_PIX_FMT_RGBA_8888_UBWC'' 1111970385,
     Const ''SDE_PIX_FMT_RGBX_8888_UBWC'' 876763217,
     Const ''SDE_PIX_FMT_RGB_565_UBWC'' 910643793,
     Const ''SDE_PIX_FMT_Y_CBCR_H2V2_UBWC'' 942813521,
     Const ''SDE_PIX_FMT_RGBA_1010102'' 808665665, Const ''SDE_PIX_FMT_RGBX_1010102'' 808665688,
     Const ''SDE_PIX_FMT_ARGB_2101010'' 808669761, Const ''SDE_PIX_FMT_XRGB_2101010'' 808669784,
     Const ''SDE_PIX_FMT_BGRA_1010102'' 808665410, Const ''SDE_PIX_FMT_BGRX_1010102'' 808671298,
     Const ''SDE_PIX_FMT_ABGR_2101010'' 808665426, Const ''SDE_PIX_FMT_XBGR_2101010'' 808671314,
     Const ''SDE_PIX_FMT_RGBA_1010102_UBWC'' 1094865489,
     Const ''SDE_PIX_FMT_RGBX_1010102_UBWC'' 1094867025,
     Const ''SDE_PIX_FMT_Y_CBCR_H2V2_P010'' 808530000,
     Const ''SDE_PIX_FMT_Y_CBCR_H2V2_P010_VENUS'' 808538193,
     Const ''SDE_PIX_FMT_Y_CBCR_H2V2_TP10'' 808538196,
     Const ''SDE_PIX_FMT_Y_CBCR_H2V2_TP10_UBWC'' 1093808465,
     Const ''SDE_PIX_FMT_Y_CBCR_H2V2_P010_UBWC'' 1110585681,
     Struct ''msm_sde_rotator_fence'' msm_sde_rotator_fence,
     Struct ''msm_sde_rotator_comp_ratio'' msm_sde_rotator_comp_ratio,
     Request ''VIDIOC_G_SDE_ROTATOR_FENCE'' (IOWR 86 (BASE_VIDIOC_PRIVATE + 10) msm_sde_rotator_fence),
     Request ''VIDIOC_S_SDE_ROTATOR_FENCE'' (IOWR 86 (BASE_VIDIOC_PRIVATE + 11) msm_sde_rotator_fence),
     Request ''VIDIOC_G_SDE_ROTATOR_COMP_RATIO'' (IOWR 86 (BASE_VIDIOC_PRIVATE + 12) msm_sde_rotator_comp_ratio),
     Request ''VIDIOC_S_SDE_ROTATOR_COMP_RATIO'' (IOWR 86 (BASE_VIDIOC_PRIVATE + 13) msm_sde_rotator_comp_ratio),
     Const ''V4L2_CID_SDE_ROTATOR_SECURE'' (0x980900 + 0x1000),
     Const ''V4L2_CID_SDE_ROTATOR_SECURE_CAMERA'' (0x980900 + 0x2000)]"

definition msm_sde_rotator_h :: "decl list" where
  "msm_sde_rotator_h = msm_sde_rotator_1 @ msm_sde_rotator_2"

subsection \<open>media/msm_fd.h\<close>

abbreviation msm_fd_event :: ctype where
  "msm_fd_event \<equiv>
     StructT Natural [(''buf_index'', u32), (''frame_id'', u32), (''face_cnt'', u32)]"

abbreviation msm_fd_face_data :: ctype where
  "msm_fd_face_data \<equiv>
     StructT Natural [(''pose'', u32), (''angle'', u32), (''confidence'', u32),
      (''reserved'', u32), (''face'', v4l2_rect)]"

abbreviation msm_fd_result :: ctype where
  "msm_fd_result \<equiv>
     StructT Natural [(''frame_id'', u32), (''face_cnt'', u32), (''face_data'', PtrT)]"

definition msm_fd_1 :: "decl list" where
  "msm_fd_1 =
    [Flag ''__UAPI_MSM_FD__'']"

definition msm_fd_2 :: "decl list" where
  "msm_fd_2 =
    [Struct ''msm_fd_event'' msm_fd_event,
     Enum ''msm_fd_pose'' [(''MSM_FD_POSE_FRONT'', 0), (''MSM_FD_POSE_RIGHT_DIAGONAL'', 1),
       (''MSM_FD_POSE_RIGHT'', 2), (''MSM_FD_POSE_LEFT_DIAGONAL'', 3), (''MSM_FD_POSE_LEFT'', 4)],
     Struct ''msm_fd_face_data'' msm_fd_face_data, Struct ''msm_fd_result'' msm_fd_result,
     Request ''VIDIOC_MSM_FD_GET_RESULT'' (IOWR 86 BASE_VIDIOC_PRIVATE msm_fd_result),
     Const ''MSM_EVENT_FD'' 134217728, Const ''V4L2_CID_FD_SPEED'' 134217728,
     Const ''V4L2_CID_FD_FACE_ANGLE'' (0x8000000 + 1),
     Const ''V4L2_CID_FD_MIN_FACE_SIZE'' (0x8000000 + 2),
     Const ''V4L2_CID_FD_FACE_DIRECTION'' (0x8000000 + 3),
     Const ''V4L2_CID_FD_DETECTION_THRESHOLD'' (0x8000000 + 4),
     Const ''V4L2_CID_FD_WORK_MEMORY_SIZE'' (0x8000000 + 5),
     Const ''V4L2_CID_FD_WORK_MEMORY_FD'' (0x8000000 + 6)]"

definition msm_fd_h :: "decl list" where
  "msm_fd_h = msm_fd_1 @ msm_fd_2"

subsection \<open>media/msm_gestures.h\<close>

abbreviation msm_ges_ctrl_cmd :: ctype where
  "msm_ges_ctrl_cmd \<equiv>
     StructT Natural [(''type'', s32), (''value'', PtrT), (''len'', s32), (''fd'', s32),
      (''cookie'', u32)]"

abbreviation msm_ges_evt :: ctype where
  "msm_ges_evt \<equiv>
     StructT Natural [(''evt_data'', PtrT), (''evt_len'', s32)]"

definition msm_gestures_1 :: "decl list" where
  "msm_gestures_1 =
    [Flag ''__UAPI_MSM_GESTURES_H'']"

definition msm_gestures_2 :: "decl list" where
  "msm_gestures_2 =
    [Request ''MSM_GES_IOCTL_CTRL_COMMAND'' (IOW 86 (BASE_VIDIOC_PRIVATE + 20) v4l2_control),
     Request ''VIDIOC_MSM_GESTURE_EVT'' (IOWR 86 (BASE_VIDIOC_PRIVATE + 21) v4l2_event),
     Request ''MSM_GES_GET_EVT_PAYLOAD'' (IOW 86 (BASE_VIDIOC_PRIVATE + 22) msm_ges_evt),
     Request ''VIDIOC_MSM_GESTURE_CAM_EVT'' (IOWR 86 (BASE_VIDIOC_PRIVATE + 23) s32),
     Const ''MSM_GES_RESP_V4L2'' 8, Const ''MSM_GES_RESP_MAX'' (8 + 1),
     Const ''MSM_SVR_RESP_MAX'' 9, Const ''MSM_V4L2_GES_BASE'' 100,
     Const ''MSM_V4L2_GES_OPEN'' (100 + 0), Const ''MSM_V4L2_GES_CLOSE'' (100 + 1),
     Const ''MSM_V4L2_GES_CAM_OPEN'' (100 + 2), Const ''MSM_V4L2_GES_CAM_CLOSE'' (100 + 3),
     Const ''MSM_GES_APP_EVT_MIN'' (0x8000000 + 0x14),
     Const ''MSM_GES_APP_NOTIFY_EVENT'' (0x8000014 + 0),
     Const ''MSM_GES_APP_NOTIFY_ERROR_EVENT'' (0x8000014 + 1),
     Const ''MSM_GES_APP_EVT_MAX'' (0x8000014 + 2), Const ''MSM_GESTURE_CID_CTRL_CMD'' 9963776,
     Const ''MAX_GES_EVENTS'' 25, Struct ''msm_ges_ctrl_cmd'' msm_ges_ctrl_cmd,
     Struct ''msm_ges_evt'' msm_ges_evt]"

definition msm_gestures_h :: "decl list" where
  "msm_gestures_h = msm_gestures_1 @ msm_gestures_2"

subsection \<open>media/msm_jpeg_dma.h\<close>

abbreviation msm_jpeg_dma_buff :: ctype where
  "msm_jpeg_dma_buff \<equiv>
     StructT Natural [(''fd'', s32), (''offset'', u32)]"

definition msm_jpeg_dma_1 :: "decl list" where
  "msm_jpeg_dma_1 =
    [Flag ''__UAPI_MSM_JPEG_DMA__'']"

definition msm_jpeg_dma_2 :: "decl list" where
  "msm_jpeg_dma_2 =
    [Const ''V4L2_CID_JPEG_DMA_SPEED'' 134217728,
     Const ''V4L2_CID_JPEG_DMA_MAX_DOWN_SCALE'' (0x8000000 + 1),
     Struct ''msm_jpeg_dma_buff'' msm_jpeg_dma_buff]"

definition msm_jpeg_dma_h :: "decl list" where
  "msm_jpeg_dma_h = msm_jpeg_dma_1 @ msm_jpeg_dma_2"

end
