(* ===== verification/SanQmi.thy ===== *)
theory SanQmi
  imports CLayout
begin

text \<open>
  The headers programs are built with (under sdm710/kernel-headers, stripped of comments) of
  the messages between the IP accelerator drivers (linux/ipa\_qmi\_service\_v01.h): every
  structure and union with its fields in order; then, for every file, the list of its
  declarations, in blocks: structures, enumerations, number macros and device requests. A
  type of the C library or of a header that is not in the repository is a foreign type.
\<close>

subsection \<open>linux/ipa_qmi_service_v01.h\<close>

abbreviation ipa_qmi_response_type_v01 :: ctype where
  "ipa_qmi_response_type_v01 \<equiv>
     StructT Natural [(''result'', EnumT ''ipa_qmi_result_type_v01''),
      (''error'', EnumT ''ipa_qmi_error_type_v01'')]"

abbreviation ipa_hdr_tbl_info_type_v01 :: ctype where
  "ipa_hdr_tbl_info_type_v01 \<equiv>
     StructT Natural [(''modem_offset_start'', u32), (''modem_offset_end'', u32)]"

abbreviation ipa_route_tbl_info_type_v01 :: ctype where
  "ipa_route_tbl_info_type_v01 \<equiv>
     StructT Natural [(''route_tbl_start_addr'', u32), (''num_indices'', u32)]"

abbreviation ipa_modem_mem_info_type_v01 :: ctype where
  "ipa_modem_mem_info_type_v01 \<equiv>
     StructT Natural [(''block_start_addr'', u32), (''size'', u32)]"

abbreviation ipa_hdr_proc_ctx_tbl_info_type_v01 :: ctype where
  "ipa_hdr_proc_ctx_tbl_info_type_v01 \<equiv>
     StructT Natural [(''modem_offset_start'', u32), (''modem_offset_end'', u32)]"

abbreviation ipa_zip_tbl_info_type_v01 :: ctype where
  "ipa_zip_tbl_info_type_v01 \<equiv>
     StructT Natural [(''modem_offset_start'', u32), (''modem_offset_end'', u32)]"

abbreviation ipa_init_modem_driver_req_msg_v01 :: ctype where
  "ipa_init_modem_driver_req_msg_v01 \<equiv>
     StructT Natural [(''platform_type_valid'', u8),
      (''platform_type'', EnumT ''ipa_platform_type_enum_v01''), (''hdr_tbl_info_valid'', u8),
      (''hdr_tbl_info'', ipa_hdr_tbl_info_type_v01), (''v4_route_tbl_info_valid'', u8),
      (''v4_route_tbl_info'', ipa_route_tbl_info_type_v01), (''v6_route_tbl_info_valid'', u8),
      (''v6_route_tbl_info'', ipa_route_tbl_info_type_v01),
      (''v4_filter_tbl_start_addr_valid'', u8), (''v4_filter_tbl_start_addr'', u32),
      (''v6_filter_tbl_start_addr_valid'', u8), (''v6_filter_tbl_start_addr'', u32),
      (''modem_mem_info_valid'', u8), (''modem_mem_info'', ipa_modem_mem_info_type_v01),
      (''ctrl_comm_dest_end_pt_valid'', u8), (''ctrl_comm_dest_end_pt'', u32),
      (''is_ssr_bootup_valid'', u8), (''is_ssr_bootup'', u8),
      (''hdr_proc_ctx_tbl_info_valid'', u8),
      (''hdr_proc_ctx_tbl_info'', ipa_hdr_proc_ctx_tbl_info_type_v01),
      (''zip_tbl_info_valid'', u8), (''zip_tbl_info'', ipa_zip_tbl_info_type_v01),
      (''v4_hash_route_tbl_info_valid'', u8),
      (''v4_hash_route_tbl_info'', ipa_route_tbl_info_type_v01),
      (''v6_hash_route_tbl_info_valid'', u8),
      (''v6_hash_route_tbl_info'', ipa_route_tbl_info_type_v01),
      (''v4_hash_filter_tbl_start_addr_valid'', u8), (''v4_hash_filter_tbl_start_addr'', u32),
      (''v6_hash_filter_tbl_start_addr_valid'', u8), (''v6_hash_filter_tbl_start_addr'', u32),
      (''hw_stats_quota_base_addr_valid'', u8), (''hw_stats_quota_base_addr'', u32),
      (''hw_stats_quota_size_valid'', u8), (''hw_stats_quota_size'', u32),
      (''hw_drop_stats_base_addr_valid'', u8), (''hw_drop_stats_base_addr'', u32),
      (''hw_drop_stats_table_size_valid'', u8), (''hw_drop_stats_table_size'', u32)]"

abbreviation ipa_init_modem_driver_resp_msg_v01 :: ctype where
  "ipa_init_modem_driver_resp_msg_v01 \<equiv>
     StructT Natural [(''resp'', ipa_qmi_response_type_v01),
      (''ctrl_comm_dest_end_pt_valid'', u8), (''ctrl_comm_dest_end_pt'', u32),
      (''default_end_pt_valid'', u8), (''default_end_pt'', u32),
      (''modem_driver_init_pending_valid'', u8), (''modem_driver_init_pending'', u8)]"

abbreviation ipa_init_modem_driver_cmplt_req_msg_v01 :: ctype where
  "ipa_init_modem_driver_cmplt_req_msg_v01 \<equiv>
     StructT Natural [(''status'', u8)]"

abbreviation ipa_init_modem_driver_cmplt_resp_msg_v01 :: ctype where
  "ipa_init_modem_driver_cmplt_resp_msg_v01 \<equiv>
     StructT Natural [(''resp'', ipa_qmi_response_type_v01)]"

abbreviation ipa_indication_reg_req_msg_v01 :: ctype where
  "ipa_indication_reg_req_msg_v01 \<equiv>
     StructT Natural [(''master_driver_init_complete_valid'', u8),
      (''master_driver_init_complete'', u8), (''data_usage_quota_reached_valid'', u8),
      (''data_usage_quota_reached'', u8)]"

abbreviation ipa_indication_reg_resp_msg_v01 :: ctype where
  "ipa_indication_reg_resp_msg_v01 \<equiv>
     StructT Natural [(''resp'', ipa_qmi_response_type_v01)]"

abbreviation ipa_master_driver_init_complt_ind_msg_v01 :: ctype where
  "ipa_master_driver_init_complt_ind_msg_v01 \<equiv>
     StructT Natural [(''master_driver_init_status'', ipa_qmi_response_type_v01)]"

abbreviation ipa_ipfltr_range_eq_16_type_v01 :: ctype where
  "ipa_ipfltr_range_eq_16_type_v01 \<equiv>
     StructT Natural [(''offset'', u8), (''range_low'', u16), (''range_high'', u16)]"

abbreviation ipa_ipfltr_mask_eq_32_type_v01 :: ctype where
  "ipa_ipfltr_mask_eq_32_type_v01 \<equiv>
     StructT Natural [(''offset'', u8), (''mask'', u32), (''value'', u32)]"

abbreviation ipa_ipfltr_eq_16_type_v01 :: ctype where
  "ipa_ipfltr_eq_16_type_v01 \<equiv>
     StructT Natural [(''offset'', u8), (''value'', u16)]"

abbreviation ipa_ipfltr_eq_32_type_v01 :: ctype where
  "ipa_ipfltr_eq_32_type_v01 \<equiv>
     StructT Natural [(''offset'', u8), (''value'', u32)]"

abbreviation ipa_ipfltr_mask_eq_128_type_v01 :: ctype where
  "ipa_ipfltr_mask_eq_128_type_v01 \<equiv>
     StructT Natural [(''offset'', u8), (''mask'', ArrT u8 16), (''value'', ArrT u8 16)]"

abbreviation QMI_IPA_IPFLTR_NUM_IHL_RANGE_16_EQNS_V01 :: nat where "QMI_IPA_IPFLTR_NUM_IHL_RANGE_16_EQNS_V01 \<equiv> 2"

abbreviation QMI_IPA_IPFLTR_NUM_MEQ_32_EQNS_V01 :: nat where "QMI_IPA_IPFLTR_NUM_MEQ_32_EQNS_V01 \<equiv> 2"

abbreviation QMI_IPA_IPFLTR_NUM_IHL_MEQ_32_EQNS_V01 :: nat where "QMI_IPA_IPFLTR_NUM_IHL_MEQ_32_EQNS_V01 \<equiv> 2"

abbreviation QMI_IPA_IPFLTR_NUM_MEQ_128_EQNS_V01 :: nat where "QMI_IPA_IPFLTR_NUM_MEQ_128_EQNS_V01 \<equiv> 2"

abbreviation ipa_filter_rule_type_v01 :: ctype where
  "ipa_filter_rule_type_v01 \<equiv>
     StructT Natural [(''rule_eq_bitmap'', u16), (''tos_eq_present'', u8), (''tos_eq'', u8),
      (''protocol_eq_present'', u8), (''protocol_eq'', u8), (''num_ihl_offset_range_16'', u8),
      (''ihl_offset_range_16'', ArrT ipa_ipfltr_range_eq_16_type_v01 QMI_IPA_IPFLTR_NUM_IHL_RANGE_16_EQNS_V01), (''num_offset_meq_32'', u8), (''offset_meq_32'', ArrT ipa_ipfltr_mask_eq_32_type_v01 QMI_IPA_IPFLTR_NUM_MEQ_32_EQNS_V01), (''tc_eq_present'', u8), (''tc_eq'', u8), (''flow_eq_present'', u8), (''flow_eq'', u32), (''ihl_offset_eq_16_present'', u8), (''ihl_offset_eq_16'', ipa_ipfltr_eq_16_type_v01), (''ihl_offset_eq_32_present'', u8), (''ihl_offset_eq_32'', ipa_ipfltr_eq_32_type_v01), (''num_ihl_offset_meq_32'', u8), (''ihl_offset_meq_32'', ArrT ipa_ipfltr_mask_eq_32_type_v01 QMI_IPA_IPFLTR_NUM_IHL_MEQ_32_EQNS_V01), (''num_offset_meq_128'', u8), (''offset_meq_128'', ArrT ipa_ipfltr_mask_eq_128_type_v01 QMI_IPA_IPFLTR_NUM_MEQ_128_EQNS_V01), (''metadata_meq32_present'', u8), (''metadata_meq32'', ipa_ipfltr_mask_eq_32_type_v01), (''ipv4_frag_eq_present'', u8)]"

abbreviation ipa_filter_spec_type_v01 :: ctype where
  "ipa_filter_spec_type_v01 \<equiv>
     StructT Natural [(''filter_spec_identifier'', u32),
      (''ip_type'', EnumT ''ipa_ip_type_enum_v01''),
      (''filter_rule'', ipa_filter_rule_type_v01),
      (''filter_action'', EnumT ''ipa_filter_action_enum_v01''),
      (''is_routing_table_index_valid'', u8), (''route_table_index'', u32),
      (''is_mux_id_valid'', u8), (''mux_id'', u32)]"

abbreviation ipa_filter_spec_ex_type_v01 :: ctype where
  "ipa_filter_spec_ex_type_v01 \<equiv>
     StructT Natural [(''ip_type'', EnumT ''ipa_ip_type_enum_v01''),
      (''filter_rule'', ipa_filter_rule_type_v01),
      (''filter_action'', EnumT ''ipa_filter_action_enum_v01''),
      (''is_routing_table_index_valid'', u8), (''route_table_index'', u32),
      (''is_mux_id_valid'', u8), (''mux_id'', u32), (''rule_id'', u32),
      (''is_rule_hashable'', u8)]"

abbreviation QMI_IPA_MAX_FILTERS_V01 :: nat where "QMI_IPA_MAX_FILTERS_V01 \<equiv> 64"

abbreviation ipa_install_fltr_rule_req_msg_v01 :: ctype where
  "ipa_install_fltr_rule_req_msg_v01 \<equiv>
     StructT Natural [(''filter_spec_list_valid'', u8), (''filter_spec_list_len'', u32),
      (''filter_spec_list'', ArrT ipa_filter_spec_type_v01 QMI_IPA_MAX_FILTERS_V01),
      (''source_pipe_index_valid'', u8), (''source_pipe_index'', u32),
      (''num_ipv4_filters_valid'', u8), (''num_ipv4_filters'', u32),
      (''num_ipv6_filters_valid'', u8), (''num_ipv6_filters'', u32),
      (''xlat_filter_indices_list_valid'', u8), (''xlat_filter_indices_list_len'', u32),
      (''xlat_filter_indices_list'', ArrT u32 QMI_IPA_MAX_FILTERS_V01),
      (''filter_spec_ex_list_valid'', u8), (''filter_spec_ex_list_len'', u32),
      (''filter_spec_ex_list'', ArrT ipa_filter_spec_ex_type_v01 QMI_IPA_MAX_FILTERS_V01)]"

abbreviation ipa_filter_rule_identifier_to_handle_map_v01 :: ctype where
  "ipa_filter_rule_identifier_to_handle_map_v01 \<equiv>
     StructT Natural [(''filter_spec_identifier'', u32), (''filter_handle'', u32)]"

abbreviation ipa_install_fltr_rule_resp_msg_v01 :: ctype where
  "ipa_install_fltr_rule_resp_msg_v01 \<equiv>
     StructT Natural [(''resp'', ipa_qmi_response_type_v01), (''filter_handle_list_valid'', u8),
      (''filter_handle_list_len'', u32),
      (''filter_handle_list'', ArrT ipa_filter_rule_identifier_to_handle_map_v01 QMI_IPA_MAX_FILTERS_V01), (''rule_id_valid'', u8), (''rule_id_len'', u32), (''rule_id'', ArrT u32 QMI_IPA_MAX_FILTERS_V01)]"

abbreviation ipa_filter_handle_to_index_map_v01 :: ctype where
  "ipa_filter_handle_to_index_map_v01 \<equiv>
     StructT Natural [(''filter_handle'', u32), (''filter_index'', u32)]"

abbreviation QMI_IPA_MAX_CLIENT_DST_PIPES_V01 :: nat where "QMI_IPA_MAX_CLIENT_DST_PIPES_V01 \<equiv> 8"

abbreviation ipa_fltr_installed_notif_req_msg_v01 :: ctype where
  "ipa_fltr_installed_notif_req_msg_v01 \<equiv>
     StructT Natural [(''source_pipe_index'', u32),
      (''install_status'', EnumT ''ipa_qmi_result_type_v01''), (''filter_index_list_len'', u32),
      (''filter_index_list'', ArrT ipa_filter_handle_to_index_map_v01 QMI_IPA_MAX_FILTERS_V01),
      (''embedded_pipe_index_valid'', u8), (''embedded_pipe_index'', u32),
      (''retain_header_valid'', u8), (''retain_header'', u8),
      (''embedded_call_mux_id_valid'', u8), (''embedded_call_mux_id'', u32),
      (''num_ipv4_filters_valid'', u8), (''num_ipv4_filters'', u32),
      (''num_ipv6_filters_valid'', u8), (''num_ipv6_filters'', u32),
      (''start_ipv4_filter_idx_valid'', u8), (''start_ipv4_filter_idx'', u32),
      (''start_ipv6_filter_idx_valid'', u8), (''start_ipv6_filter_idx'', u32),
      (''rule_id_valid'', u8), (''rule_id_len'', u32),
      (''rule_id'', ArrT u32 QMI_IPA_MAX_FILTERS_V01), (''dst_pipe_id_valid'', u8),
      (''dst_pipe_id_len'', u32), (''dst_pipe_id'', ArrT u32 QMI_IPA_MAX_CLIENT_DST_PIPES_V01)]"

abbreviation ipa_fltr_installed_notif_resp_msg_v01 :: ctype where
  "ipa_fltr_installed_notif_resp_msg_v01 \<equiv>
     StructT Natural [(''resp'', ipa_qmi_response_type_v01)]"

abbreviation ipa_enable_force_clear_datapath_req_msg_v01 :: ctype where
  "ipa_enable_force_clear_datapath_req_msg_v01 \<equiv>
     StructT Natural [(''source_pipe_bitmask'', u32), (''request_id'', u32),
      (''throttle_source_valid'', u8), (''throttle_source'', u8)]"

abbreviation ipa_enable_force_clear_datapath_resp_msg_v01 :: ctype where
  "ipa_enable_force_clear_datapath_resp_msg_v01 \<equiv>
     StructT Natural [(''resp'', ipa_qmi_response_type_v01)]"

abbreviation ipa_disable_force_clear_datapath_req_msg_v01 :: ctype where
  "ipa_disable_force_clear_datapath_req_msg_v01 \<equiv>
     StructT Natural [(''request_id'', u32)]"

abbreviation ipa_disable_force_clear_datapath_resp_msg_v01 :: ctype where
  "ipa_disable_force_clear_datapath_resp_msg_v01 \<equiv>
     StructT Natural [(''resp'', ipa_qmi_response_type_v01)]"

abbreviation ipa_config_req_msg_v01 :: ctype where
  "ipa_config_req_msg_v01 \<equiv>
     StructT Natural [(''peripheral_type_valid'', u8),
      (''peripheral_type'', EnumT ''ipa_peripheral_type_enum_v01''),
      (''hw_deaggr_supported_valid'', u8), (''hw_deaggr_supported'', u8),
      (''max_aggr_frame_size_valid'', u8), (''max_aggr_frame_size'', u32),
      (''ipa_ingress_pipe_mode_valid'', u8),
      (''ipa_ingress_pipe_mode'', EnumT ''ipa_pipe_mode_enum_v01''),
      (''peripheral_speed_info_valid'', u8),
      (''peripheral_speed_info'', EnumT ''ipa_peripheral_speed_enum_v01''),
      (''dl_accumulation_time_limit_valid'', u8), (''dl_accumulation_time_limit'', u32),
      (''dl_accumulation_pkt_limit_valid'', u8), (''dl_accumulation_pkt_limit'', u32),
      (''dl_accumulation_byte_limit_valid'', u8), (''dl_accumulation_byte_limit'', u32),
      (''ul_accumulation_time_limit_valid'', u8), (''ul_accumulation_time_limit'', u32),
      (''hw_control_flags_valid'', u8), (''hw_control_flags'', u32),
      (''ul_msi_event_threshold_valid'', u8), (''ul_msi_event_threshold'', u32),
      (''dl_msi_event_threshold_valid'', u8), (''dl_msi_event_threshold'', u32),
      (''ul_fifo_size_valid'', u8), (''ul_fifo_size'', u32), (''dl_fifo_size_valid'', u8),
      (''dl_fifo_size'', u32), (''dl_buf_size_valid'', u8), (''dl_buf_size'', u32)]"

abbreviation ipa_config_resp_msg_v01 :: ctype where
  "ipa_config_resp_msg_v01 \<equiv>
     StructT Natural [(''resp'', ipa_qmi_response_type_v01)]"

abbreviation ipa_pipe_stats_info_type_v01 :: ctype where
  "ipa_pipe_stats_info_type_v01 \<equiv>
     StructT Natural [(''pipe_index'', u32), (''num_ipv4_packets'', u64),
      (''num_ipv4_bytes'', u64), (''num_ipv6_packets'', u64), (''num_ipv6_bytes'', u64)]"

abbreviation ipa_stats_type_filter_rule_v01 :: ctype where
  "ipa_stats_type_filter_rule_v01 \<equiv>
     StructT Natural [(''filter_rule_index'', u32), (''num_packets'', u64)]"

abbreviation ipa_get_data_stats_req_msg_v01 :: ctype where
  "ipa_get_data_stats_req_msg_v01 \<equiv>
     StructT Natural [(''ipa_stats_type'', EnumT ''ipa_stats_type_enum_v01''),
      (''reset_stats_valid'', u8), (''reset_stats'', u8)]"

abbreviation QMI_IPA_MAX_PIPES_V01 :: nat where "QMI_IPA_MAX_PIPES_V01 \<equiv> 20"

abbreviation ipa_get_data_stats_resp_msg_v01 :: ctype where
  "ipa_get_data_stats_resp_msg_v01 \<equiv>
     StructT Natural [(''resp'', ipa_qmi_response_type_v01), (''ipa_stats_type_valid'', u8),
      (''ipa_stats_type'', EnumT ''ipa_stats_type_enum_v01''),
      (''ul_src_pipe_stats_list_valid'', u8), (''ul_src_pipe_stats_list_len'', u32),
      (''ul_src_pipe_stats_list'', ArrT ipa_pipe_stats_info_type_v01 QMI_IPA_MAX_PIPES_V01),
      (''dl_dst_pipe_stats_list_valid'', u8), (''dl_dst_pipe_stats_list_len'', u32),
      (''dl_dst_pipe_stats_list'', ArrT ipa_pipe_stats_info_type_v01 QMI_IPA_MAX_PIPES_V01),
      (''dl_filter_rule_stats_list_valid'', u8), (''dl_filter_rule_stats_list_len'', u32),
      (''dl_filter_rule_stats_list'', ArrT ipa_stats_type_filter_rule_v01 QMI_IPA_MAX_FILTERS_V01)]"

abbreviation ipa_apn_data_stats_info_type_v01 :: ctype where
  "ipa_apn_data_stats_info_type_v01 \<equiv>
     StructT Natural [(''mux_id'', u32), (''num_ul_packets'', u64), (''num_ul_bytes'', u64),
      (''num_dl_packets'', u64), (''num_dl_bytes'', u64)]"

abbreviation QMI_IPA_MAX_APN_V01 :: nat where "QMI_IPA_MAX_APN_V01 \<equiv> 8"

abbreviation ipa_get_apn_data_stats_req_msg_v01 :: ctype where
  "ipa_get_apn_data_stats_req_msg_v01 \<equiv>
     StructT Natural [(''mux_id_list_valid'', u8), (''mux_id_list_len'', u32),
      (''mux_id_list'', ArrT u32 QMI_IPA_MAX_APN_V01)]"

abbreviation ipa_get_apn_data_stats_resp_msg_v01 :: ctype where
  "ipa_get_apn_data_stats_resp_msg_v01 \<equiv>
     StructT Natural [(''resp'', ipa_qmi_response_type_v01),
      (''apn_data_stats_list_valid'', u8), (''apn_data_stats_list_len'', u32),
      (''apn_data_stats_list'', ArrT ipa_apn_data_stats_info_type_v01 QMI_IPA_MAX_APN_V01)]"

abbreviation ipa_data_usage_quota_info_type_v01 :: ctype where
  "ipa_data_usage_quota_info_type_v01 \<equiv>
     StructT Natural [(''mux_id'', u32), (''num_Mbytes'', u64)]"

abbreviation ipa_set_data_usage_quota_req_msg_v01 :: ctype where
  "ipa_set_data_usage_quota_req_msg_v01 \<equiv>
     StructT Natural [(''apn_quota_list_valid'', u8), (''apn_quota_list_len'', u32),
      (''apn_quota_list'', ArrT ipa_data_usage_quota_info_type_v01 QMI_IPA_MAX_APN_V01)]"

abbreviation ipa_set_data_usage_quota_resp_msg_v01 :: ctype where
  "ipa_set_data_usage_quota_resp_msg_v01 \<equiv>
     StructT Natural [(''resp'', ipa_qmi_response_type_v01)]"

abbreviation ipa_data_usage_quota_reached_ind_msg_v01 :: ctype where
  "ipa_data_usage_quota_reached_ind_msg_v01 \<equiv>
     StructT Natural [(''apn'', ipa_data_usage_quota_info_type_v01)]"

abbreviation ipa_stop_data_usage_quota_req_msg_v01 :: ctype where
  "ipa_stop_data_usage_quota_req_msg_v01 \<equiv>
     StructT Natural [(''__placeholder'', CharT)]"

abbreviation ipa_stop_data_usage_quota_resp_msg_v01 :: ctype where
  "ipa_stop_data_usage_quota_resp_msg_v01 \<equiv>
     StructT Natural [(''resp'', ipa_qmi_response_type_v01)]"

abbreviation QMI_IPA_MAX_FILTERS_EX_V01 :: nat where "QMI_IPA_MAX_FILTERS_EX_V01 \<equiv> 128"

abbreviation ipa_install_fltr_rule_req_ex_msg_v01 :: ctype where
  "ipa_install_fltr_rule_req_ex_msg_v01 \<equiv>
     StructT Natural [(''filter_spec_ex_list_valid'', u8), (''filter_spec_ex_list_len'', u32),
      (''filter_spec_ex_list'', ArrT ipa_filter_spec_ex_type_v01 QMI_IPA_MAX_FILTERS_EX_V01),
      (''source_pipe_index_valid'', u8), (''source_pipe_index'', u32),
      (''num_ipv4_filters_valid'', u8), (''num_ipv4_filters'', u32),
      (''num_ipv6_filters_valid'', u8), (''num_ipv6_filters'', u32),
      (''xlat_filter_indices_list_valid'', u8), (''xlat_filter_indices_list_len'', u32),
      (''xlat_filter_indices_list'', ArrT u32 QMI_IPA_MAX_FILTERS_EX_V01)]"

abbreviation ipa_install_fltr_rule_resp_ex_msg_v01 :: ctype where
  "ipa_install_fltr_rule_resp_ex_msg_v01 \<equiv>
     StructT Natural [(''resp'', ipa_qmi_response_type_v01), (''rule_id_valid'', u8),
      (''rule_id_len'', u32), (''rule_id'', ArrT u32 QMI_IPA_MAX_FILTERS_EX_V01)]"

abbreviation ipa_enable_per_client_stats_req_msg_v01 :: ctype where
  "ipa_enable_per_client_stats_req_msg_v01 \<equiv>
     StructT Natural [(''enable_per_client_stats'', u8)]"

abbreviation ipa_enable_per_client_stats_resp_msg_v01 :: ctype where
  "ipa_enable_per_client_stats_resp_msg_v01 \<equiv>
     StructT Natural [(''resp'', ipa_qmi_response_type_v01)]"

abbreviation ipa_per_client_stats_info_type_v01 :: ctype where
  "ipa_per_client_stats_info_type_v01 \<equiv>
     StructT Natural [(''client_id'', u32), (''src_pipe_id'', u32),
      (''num_ul_ipv4_bytes'', u64), (''num_ul_ipv6_bytes'', u64), (''num_dl_ipv4_bytes'', u64),
      (''num_dl_ipv6_bytes'', u64), (''num_ul_ipv4_pkts'', u32), (''num_ul_ipv6_pkts'', u32),
      (''num_dl_ipv4_pkts'', u32), (''num_dl_ipv6_pkts'', u32)]"

abbreviation ipa_get_stats_per_client_req_msg_v01 :: ctype where
  "ipa_get_stats_per_client_req_msg_v01 \<equiv>
     StructT Natural [(''client_id'', u32), (''src_pipe_id'', u32), (''reset_stats_valid'', u8),
      (''reset_stats'', u8)]"

abbreviation QMI_IPA_MAX_PER_CLIENTS_V01 :: nat where "QMI_IPA_MAX_PER_CLIENTS_V01 \<equiv> 64"

abbreviation ipa_get_stats_per_client_resp_msg_v01 :: ctype where
  "ipa_get_stats_per_client_resp_msg_v01 \<equiv>
     StructT Natural [(''resp'', ipa_qmi_response_type_v01),
      (''per_client_stats_list_valid'', u8), (''per_client_stats_list_len'', u32),
      (''per_client_stats_list'', ArrT ipa_per_client_stats_info_type_v01 QMI_IPA_MAX_PER_CLIENTS_V01)]"

abbreviation ipa_ul_firewall_rule_type_v01 :: ctype where
  "ipa_ul_firewall_rule_type_v01 \<equiv>
     StructT Natural [(''ip_type'', EnumT ''ipa_ip_type_enum_v01''),
      (''filter_rule'', ipa_filter_rule_type_v01)]"

abbreviation QMI_IPA_MAX_UL_FIREWALL_RULES_V01 :: nat where "QMI_IPA_MAX_UL_FIREWALL_RULES_V01 \<equiv> 64"

abbreviation ipa_configure_ul_firewall_rules_req_msg_v01 :: ctype where
  "ipa_configure_ul_firewall_rules_req_msg_v01 \<equiv>
     StructT Natural [(''firewall_rules_list_len'', u32),
      (''firewall_rules_list'', ArrT ipa_ul_firewall_rule_type_v01 QMI_IPA_MAX_UL_FIREWALL_RULES_V01), (''mux_id'', u32), (''disable_valid'', u8), (''disable'', u8), (''are_blacklist_filters_valid'', u8), (''are_blacklist_filters'', u8)]"

abbreviation ipa_configure_ul_firewall_rules_resp_msg_v01 :: ctype where
  "ipa_configure_ul_firewall_rules_resp_msg_v01 \<equiv>
     StructT Natural [(''resp'', ipa_qmi_response_type_v01)]"

abbreviation ipa_ul_firewall_config_result_type_v01 :: ctype where
  "ipa_ul_firewall_config_result_type_v01 \<equiv>
     StructT Natural [(''is_success'', EnumT ''ipa_ul_firewall_status_enum_v01''),
      (''mux_id'', u32)]"

abbreviation ipa_configure_ul_firewall_rules_ind_msg_v01 :: ctype where
  "ipa_configure_ul_firewall_rules_ind_msg_v01 \<equiv>
     StructT Natural [(''result'', ipa_ul_firewall_config_result_type_v01)]"

definition ipa_qmi_service_v01_1 :: "decl list" where
  "ipa_qmi_service_v01_1 =
    [Flag ''IPA_QMI_SERVICE_V01_H'', Const ''QMI_IPA_IPFLTR_NUM_IHL_RANGE_16_EQNS_V01'' 2,
     Const ''QMI_IPA_IPFLTR_NUM_MEQ_32_EQNS_V01'' 2,
     Const ''QMI_IPA_IPFLTR_NUM_IHL_MEQ_32_EQNS_V01'' 2,
     Const ''QMI_IPA_IPFLTR_NUM_MEQ_128_EQNS_V01'' 2, Const ''QMI_IPA_MAX_FILTERS_V01'' 64,
     Const ''QMI_IPA_MAX_FILTERS_EX_V01'' 128, Const ''QMI_IPA_MAX_PIPES_V01'' 20,
     Const ''QMI_IPA_MAX_APN_V01'' 8, Const ''QMI_IPA_MAX_PER_CLIENTS_V01'' 64,
     Const ''QMI_IPA_MAX_CLIENT_DST_PIPES_V01'' 8,
     Const ''QMI_IPA_MAX_UL_FIREWALL_RULES_V01'' 64, Flag ''IPA_QMI_SUPPORTS_STATS'',
     Const ''IPA_INT_MAX'' 2147483647, Const ''IPA_INT_MIN'' (- 2147483648),
     Enum ''ipa_qmi_result_type_v01'' [(''IPA_QMI_RESULT_TYPE_MIN_ENUM_VAL_V01'', -2147483648),
       (''IPA_QMI_RESULT_SUCCESS_V01'', 0), (''IPA_QMI_RESULT_FAILURE_V01'', 1),
       (''IPA_QMI_RESULT_TYPE_MAX_ENUM_VAL_V01'', 2147483647)],
     Enum ''ipa_qmi_error_type_v01'' [(''IPA_QMI_ERROR_TYPE_MIN_ENUM_VAL_V01'', -2147483648),
       (''IPA_QMI_ERR_NONE_V01'', 0), (''IPA_QMI_ERR_MALFORMED_MSG_V01'', 1),
       (''IPA_QMI_ERR_NO_MEMORY_V01'', 2), (''IPA_QMI_ERR_INTERNAL_V01'', 3),
       (''IPA_QMI_ERR_CLIENT_IDS_EXHAUSTED_V01'', 5), (''IPA_QMI_ERR_INVALID_ID_V01'', 41),
       (''IPA_QMI_ERR_ENCODING_V01'', 58), (''IPA_QMI_ERR_INCOMPATIBLE_STATE_V01'', 90),
       (''IPA_QMI_ERR_NOT_SUPPORTED_V01'', 94),
       (''IPA_QMI_ERROR_TYPE_MAX_ENUM_VAL_V01'', 2147483647)],
     Struct ''ipa_qmi_response_type_v01'' ipa_qmi_response_type_v01,
     Enum ''ipa_platform_type_enum_v01'' [(''IPA_PLATFORM_TYPE_ENUM_MIN_ENUM_VAL_V01'', -2147483647),
       (''QMI_IPA_PLATFORM_TYPE_INVALID_V01'', 0), (''QMI_IPA_PLATFORM_TYPE_TN_V01'', 1),
       (''QMI_IPA_PLATFORM_TYPE_LE_V01'', 2), (''QMI_IPA_PLATFORM_TYPE_MSM_ANDROID_V01'', 3),
       (''QMI_IPA_PLATFORM_TYPE_MSM_WINDOWS_V01'', 4),
       (''QMI_IPA_PLATFORM_TYPE_MSM_QNX_V01'', 5),
       (''IPA_PLATFORM_TYPE_ENUM_MAX_ENUM_VAL_V01'', 2147483647)],
     Struct ''ipa_hdr_tbl_info_type_v01'' ipa_hdr_tbl_info_type_v01,
     Struct ''ipa_route_tbl_info_type_v01'' ipa_route_tbl_info_type_v01,
     Struct ''ipa_modem_mem_info_type_v01'' ipa_modem_mem_info_type_v01,
     Struct ''ipa_hdr_proc_ctx_tbl_info_type_v01'' ipa_hdr_proc_ctx_tbl_info_type_v01,
     Struct ''ipa_zip_tbl_info_type_v01'' ipa_zip_tbl_info_type_v01,
     Struct ''ipa_init_modem_driver_req_msg_v01'' ipa_init_modem_driver_req_msg_v01,
     Struct ''ipa_init_modem_driver_resp_msg_v01'' ipa_init_modem_driver_resp_msg_v01,
     Struct ''ipa_init_modem_driver_cmplt_req_msg_v01'' ipa_init_modem_driver_cmplt_req_msg_v01,
     Struct ''ipa_init_modem_driver_cmplt_resp_msg_v01'' ipa_init_modem_driver_cmplt_resp_msg_v01,
     Struct ''ipa_indication_reg_req_msg_v01'' ipa_indication_reg_req_msg_v01,
     Struct ''ipa_indication_reg_resp_msg_v01'' ipa_indication_reg_resp_msg_v01,
     Struct ''ipa_master_driver_init_complt_ind_msg_v01'' ipa_master_driver_init_complt_ind_msg_v01,
     Struct ''ipa_ipfltr_range_eq_16_type_v01'' ipa_ipfltr_range_eq_16_type_v01,
     Struct ''ipa_ipfltr_mask_eq_32_type_v01'' ipa_ipfltr_mask_eq_32_type_v01,
     Struct ''ipa_ipfltr_eq_16_type_v01'' ipa_ipfltr_eq_16_type_v01]"

definition ipa_qmi_service_v01_2 :: "decl list" where
  "ipa_qmi_service_v01_2 =
    [Struct ''ipa_ipfltr_eq_32_type_v01'' ipa_ipfltr_eq_32_type_v01,
     Struct ''ipa_ipfltr_mask_eq_128_type_v01'' ipa_ipfltr_mask_eq_128_type_v01,
     Struct ''ipa_filter_rule_type_v01'' ipa_filter_rule_type_v01,
     Enum ''ipa_ip_type_enum_v01'' [(''IPA_IP_TYPE_ENUM_MIN_ENUM_VAL_V01'', -2147483647),
       (''QMI_IPA_IP_TYPE_INVALID_V01'', 0), (''QMI_IPA_IP_TYPE_V4_V01'', 1),
       (''QMI_IPA_IP_TYPE_V6_V01'', 2), (''QMI_IPA_IP_TYPE_V4V6_V01'', 3),
       (''IPA_IP_TYPE_ENUM_MAX_ENUM_VAL_V01'', 2147483647)],
     Enum ''ipa_filter_action_enum_v01'' [(''IPA_FILTER_ACTION_ENUM_MIN_ENUM_VAL_V01'', -2147483647),
       (''QMI_IPA_FILTER_ACTION_INVALID_V01'', 0), (''QMI_IPA_FILTER_ACTION_SRC_NAT_V01'', 1),
       (''QMI_IPA_FILTER_ACTION_DST_NAT_V01'', 2), (''QMI_IPA_FILTER_ACTION_ROUTING_V01'', 3),
       (''QMI_IPA_FILTER_ACTION_EXCEPTION_V01'', 4),
       (''IPA_FILTER_ACTION_ENUM_MAX_ENUM_VAL_V01'', 2147483647)],
     Struct ''ipa_filter_spec_type_v01'' ipa_filter_spec_type_v01,
     Struct ''ipa_filter_spec_ex_type_v01'' ipa_filter_spec_ex_type_v01,
     Struct ''ipa_install_fltr_rule_req_msg_v01'' ipa_install_fltr_rule_req_msg_v01,
     Struct ''ipa_filter_rule_identifier_to_handle_map_v01'' ipa_filter_rule_identifier_to_handle_map_v01,
     Struct ''ipa_install_fltr_rule_resp_msg_v01'' ipa_install_fltr_rule_resp_msg_v01,
     Struct ''ipa_filter_handle_to_index_map_v01'' ipa_filter_handle_to_index_map_v01,
     Struct ''ipa_fltr_installed_notif_req_msg_v01'' ipa_fltr_installed_notif_req_msg_v01,
     Struct ''ipa_fltr_installed_notif_resp_msg_v01'' ipa_fltr_installed_notif_resp_msg_v01,
     Struct ''ipa_enable_force_clear_datapath_req_msg_v01'' ipa_enable_force_clear_datapath_req_msg_v01,
     Struct ''ipa_enable_force_clear_datapath_resp_msg_v01'' ipa_enable_force_clear_datapath_resp_msg_v01,
     Struct ''ipa_disable_force_clear_datapath_req_msg_v01'' ipa_disable_force_clear_datapath_req_msg_v01]"

definition ipa_qmi_service_v01_3 :: "decl list" where
  "ipa_qmi_service_v01_3 =
    [Struct ''ipa_disable_force_clear_datapath_resp_msg_v01'' ipa_disable_force_clear_datapath_resp_msg_v01,
     Enum ''ipa_peripheral_speed_enum_v01'' [(''IPA_PERIPHERAL_SPEED_ENUM_MIN_ENUM_VAL_V01'', -2147483647),
       (''QMI_IPA_PER_USB_FS_V01'', 1), (''QMI_IPA_PER_USB_HS_V01'', 2),
       (''QMI_IPA_PER_USB_SS_V01'', 3), (''QMI_IPA_PER_WLAN_V01'', 4),
       (''IPA_PERIPHERAL_SPEED_ENUM_MAX_ENUM_VAL_V01'', 2147483647)],
     Enum ''ipa_pipe_mode_enum_v01'' [(''IPA_PIPE_MODE_ENUM_MIN_ENUM_VAL_V01'', -2147483647),
       (''QMI_IPA_PIPE_MODE_HW_V01'', 1), (''QMI_IPA_PIPE_MODE_SW_V01'', 2),
       (''IPA_PIPE_MODE_ENUM_MAX_ENUM_VAL_V01'', 2147483647)],
     Enum ''ipa_peripheral_type_enum_v01'' [(''IPA_PERIPHERAL_TYPE_ENUM_MIN_ENUM_VAL_V01'', -2147483647),
       (''QMI_IPA_PERIPHERAL_USB_V01'', 1), (''QMI_IPA_PERIPHERAL_HSIC_V01'', 2),
       (''QMI_IPA_PERIPHERAL_PCIE_V01'', 3),
       (''IPA_PERIPHERAL_TYPE_ENUM_MAX_ENUM_VAL_V01'', 2147483647)],
     Struct ''ipa_config_req_msg_v01'' ipa_config_req_msg_v01,
     Struct ''ipa_config_resp_msg_v01'' ipa_config_resp_msg_v01,
     Enum ''ipa_stats_type_enum_v01'' [(''IPA_STATS_TYPE_ENUM_MIN_ENUM_VAL_V01'', -2147483647),
       (''QMI_IPA_STATS_TYPE_INVALID_V01'', 0), (''QMI_IPA_STATS_TYPE_PIPE_V01'', 1),
       (''QMI_IPA_STATS_TYPE_FILTER_RULES_V01'', 2),
       (''IPA_STATS_TYPE_ENUM_MAX_ENUM_VAL_V01'', 2147483647)],
     Struct ''ipa_pipe_stats_info_type_v01'' ipa_pipe_stats_info_type_v01,
     Struct ''ipa_stats_type_filter_rule_v01'' ipa_stats_type_filter_rule_v01,
     Struct ''ipa_get_data_stats_req_msg_v01'' ipa_get_data_stats_req_msg_v01,
     Struct ''ipa_get_data_stats_resp_msg_v01'' ipa_get_data_stats_resp_msg_v01,
     Struct ''ipa_apn_data_stats_info_type_v01'' ipa_apn_data_stats_info_type_v01,
     Struct ''ipa_get_apn_data_stats_req_msg_v01'' ipa_get_apn_data_stats_req_msg_v01,
     Struct ''ipa_get_apn_data_stats_resp_msg_v01'' ipa_get_apn_data_stats_resp_msg_v01,
     Struct ''ipa_data_usage_quota_info_type_v01'' ipa_data_usage_quota_info_type_v01,
     Struct ''ipa_set_data_usage_quota_req_msg_v01'' ipa_set_data_usage_quota_req_msg_v01,
     Struct ''ipa_set_data_usage_quota_resp_msg_v01'' ipa_set_data_usage_quota_resp_msg_v01,
     Struct ''ipa_data_usage_quota_reached_ind_msg_v01'' ipa_data_usage_quota_reached_ind_msg_v01,
     Struct ''ipa_stop_data_usage_quota_req_msg_v01'' ipa_stop_data_usage_quota_req_msg_v01,
     Struct ''ipa_stop_data_usage_quota_resp_msg_v01'' ipa_stop_data_usage_quota_resp_msg_v01,
     Struct ''ipa_install_fltr_rule_req_ex_msg_v01'' ipa_install_fltr_rule_req_ex_msg_v01]"

definition ipa_qmi_service_v01_4 :: "decl list" where
  "ipa_qmi_service_v01_4 =
    [Struct ''ipa_install_fltr_rule_resp_ex_msg_v01'' ipa_install_fltr_rule_resp_ex_msg_v01,
     Struct ''ipa_enable_per_client_stats_req_msg_v01'' ipa_enable_per_client_stats_req_msg_v01,
     Struct ''ipa_enable_per_client_stats_resp_msg_v01'' ipa_enable_per_client_stats_resp_msg_v01,
     Struct ''ipa_per_client_stats_info_type_v01'' ipa_per_client_stats_info_type_v01,
     Struct ''ipa_get_stats_per_client_req_msg_v01'' ipa_get_stats_per_client_req_msg_v01,
     Struct ''ipa_get_stats_per_client_resp_msg_v01'' ipa_get_stats_per_client_resp_msg_v01,
     Struct ''ipa_ul_firewall_rule_type_v01'' ipa_ul_firewall_rule_type_v01,
     Struct ''ipa_configure_ul_firewall_rules_req_msg_v01'' ipa_configure_ul_firewall_rules_req_msg_v01,
     Struct ''ipa_configure_ul_firewall_rules_resp_msg_v01'' ipa_configure_ul_firewall_rules_resp_msg_v01,
     Enum ''ipa_ul_firewall_status_enum_v01'' [(''IPA_UL_FIREWALL_STATUS_ENUM_MIN_ENUM_VAL_V01'', -2147483647),
       (''QMI_IPA_UL_FIREWALL_STATUS_SUCCESS_V01'', 0),
       (''QMI_IPA_UL_FIREWALL_STATUS_FAILURE_V01'', 1),
       (''IPA_UL_FIREWALL_STATUS_ENUM_MAX_ENUM_VAL_V01'', 2147483647)],
     Struct ''ipa_ul_firewall_config_result_type_v01'' ipa_ul_firewall_config_result_type_v01,
     Struct ''ipa_configure_ul_firewall_rules_ind_msg_v01'' ipa_configure_ul_firewall_rules_ind_msg_v01,
     Const ''QMI_IPA_INDICATION_REGISTER_REQ_V01'' 0x0020,
     Const ''QMI_IPA_INDICATION_REGISTER_RESP_V01'' 0x0020,
     Const ''QMI_IPA_INIT_MODEM_DRIVER_REQ_V01'' 0x0021,
     Const ''QMI_IPA_INIT_MODEM_DRIVER_RESP_V01'' 0x0021,
     Const ''QMI_IPA_MASTER_DRIVER_INIT_COMPLETE_IND_V01'' 0x0022,
     Const ''QMI_IPA_INSTALL_FILTER_RULE_REQ_V01'' 0x0023,
     Const ''QMI_IPA_INSTALL_FILTER_RULE_RESP_V01'' 0x0023,
     Const ''QMI_IPA_FILTER_INSTALLED_NOTIF_REQ_V01'' 0x0024,
     Const ''QMI_IPA_FILTER_INSTALLED_NOTIF_RESP_V01'' 0x0024,
     Const ''QMI_IPA_ENABLE_FORCE_CLEAR_DATAPATH_REQ_V01'' 0x0025,
     Const ''QMI_IPA_ENABLE_FORCE_CLEAR_DATAPATH_RESP_V01'' 0x0025,
     Const ''QMI_IPA_DISABLE_FORCE_CLEAR_DATAPATH_REQ_V01'' 0x0026,
     Const ''QMI_IPA_DISABLE_FORCE_CLEAR_DATAPATH_RESP_V01'' 0x0026,
     Const ''QMI_IPA_CONFIG_REQ_V01'' 0x0027, Const ''QMI_IPA_CONFIG_RESP_V01'' 0x0027,
     Const ''QMI_IPA_DISABLE_LINK_LOW_PWR_STATE_REQ_V01'' 0x0028,
     Const ''QMI_IPA_DISABLE_LINK_LOW_PWR_STATE_RESP_V01'' 0x0028,
     Const ''QMI_IPA_ENABLE_LINK_LOW_PWR_STATE_REQ_V01'' 0x0029,
     Const ''QMI_IPA_ENABLE_LINK_LOW_PWR_STATE_RESP_V01'' 0x0029,
     Const ''QMI_IPA_GET_DATA_STATS_REQ_V01'' 0x0030,
     Const ''QMI_IPA_GET_DATA_STATS_RESP_V01'' 0x0030,
     Const ''QMI_IPA_GET_APN_DATA_STATS_REQ_V01'' 0x0031,
     Const ''QMI_IPA_GET_APN_DATA_STATS_RESP_V01'' 0x0031,
     Const ''QMI_IPA_SET_DATA_USAGE_QUOTA_REQ_V01'' 0x0032,
     Const ''QMI_IPA_SET_DATA_USAGE_QUOTA_RESP_V01'' 0x0032,
     Const ''QMI_IPA_DATA_USAGE_QUOTA_REACHED_IND_V01'' 0x0033,
     Const ''QMI_IPA_STOP_DATA_USAGE_QUOTA_REQ_V01'' 0x0034,
     Const ''QMI_IPA_STOP_DATA_USAGE_QUOTA_RESP_V01'' 0x0034,
     Const ''QMI_IPA_INIT_MODEM_DRIVER_CMPLT_REQ_V01'' 0x0035,
     Const ''QMI_IPA_INIT_MODEM_DRIVER_CMPLT_RESP_V01'' 0x0035,
     Const ''QMI_IPA_INSTALL_FILTER_RULE_EX_REQ_V01'' 0x0037,
     Const ''QMI_IPA_INSTALL_FILTER_RULE_EX_RESP_V01'' 0x0037,
     Const ''QMI_IPA_ENABLE_PER_CLIENT_STATS_REQ_V01'' 0x0038,
     Const ''QMI_IPA_ENABLE_PER_CLIENT_STATS_RESP_V01'' 0x0038,
     Const ''QMI_IPA_GET_STATS_PER_CLIENT_REQ_V01'' 0x0039,
     Const ''QMI_IPA_GET_STATS_PER_CLIENT_RESP_V01'' 0x0039,
     Const ''QMI_IPA_INSTALL_UL_FIREWALL_RULES_REQ_V01'' 0x003A,
     Const ''QMI_IPA_INSTALL_UL_FIREWALL_RULES_RESP_V01'' 0x003A,
     Const ''QMI_IPA_INSTALL_UL_FIREWALL_RULES_IND_V01'' 0x003A,
     Const ''QMI_IPA_INIT_MODEM_DRIVER_REQ_MAX_MSG_LEN_V01'' 162,
     Const ''QMI_IPA_INIT_MODEM_DRIVER_RESP_MAX_MSG_LEN_V01'' 25,
     Const ''QMI_IPA_INDICATION_REGISTER_REQ_MAX_MSG_LEN_V01'' 8,
     Const ''QMI_IPA_INDICATION_REGISTER_RESP_MAX_MSG_LEN_V01'' 7,
     Const ''QMI_IPA_INSTALL_FILTER_RULE_REQ_MAX_MSG_LEN_V01'' 22369,
     Const ''QMI_IPA_INSTALL_FILTER_RULE_RESP_MAX_MSG_LEN_V01'' 783,
     Const ''QMI_IPA_FILTER_INSTALLED_NOTIF_REQ_MAX_MSG_LEN_V01'' 870,
     Const ''QMI_IPA_FILTER_INSTALLED_NOTIF_RESP_MAX_MSG_LEN_V01'' 7,
     Const ''QMI_IPA_MASTER_DRIVER_INIT_COMPLETE_IND_MAX_MSG_LEN_V01'' 7,
     Const ''QMI_IPA_DATA_USAGE_QUOTA_REACHED_IND_MAX_MSG_LEN_V01'' 15,
     Const ''QMI_IPA_ENABLE_FORCE_CLEAR_DATAPATH_REQ_MAX_MSG_LEN_V01'' 18,
     Const ''QMI_IPA_DISABLE_FORCE_CLEAR_DATAPATH_REQ_MAX_MSG_LEN_V01'' 7,
     Const ''QMI_IPA_ENABLE_FORCE_CLEAR_DATAPATH_RESP_MAX_MSG_LEN_V01'' 7,
     Const ''QMI_IPA_DISABLE_FORCE_CLEAR_DATAPATH_RESP_MAX_MSG_LEN_V01'' 7,
     Const ''QMI_IPA_CONFIG_REQ_MAX_MSG_LEN_V01'' 102,
     Const ''QMI_IPA_CONFIG_RESP_MAX_MSG_LEN_V01'' 7,
     Const ''QMI_IPA_DISABLE_LINK_LOW_PWR_STATE_REQ_MAX_MSG_LEN_V01'' 18,
     Const ''QMI_IPA_DISABLE_LINK_LOW_PWR_STATE_RESP_MAX_MSG_LEN_V01'' 7,
     Const ''QMI_IPA_ENABLE_LINK_LOW_PWR_STATE_REQ_MAX_MSG_LEN_V01'' 7,
     Const ''QMI_IPA_ENABLE_LINK_LOW_PWR_STATE_RESP_MAX_MSG_LEN_V01'' 7,
     Const ''QMI_IPA_GET_DATA_STATS_REQ_MAX_MSG_LEN_V01'' 11,
     Const ''QMI_IPA_GET_DATA_STATS_RESP_MAX_MSG_LEN_V01'' 2234,
     Const ''QMI_IPA_GET_APN_DATA_STATS_REQ_MAX_MSG_LEN_V01'' 36,
     Const ''QMI_IPA_GET_APN_DATA_STATS_RESP_MAX_MSG_LEN_V01'' 299,
     Const ''QMI_IPA_SET_DATA_USAGE_QUOTA_REQ_MAX_MSG_LEN_V01'' 100,
     Const ''QMI_IPA_SET_DATA_USAGE_QUOTA_RESP_MAX_MSG_LEN_V01'' 7,
     Const ''QMI_IPA_STOP_DATA_USAGE_QUOTA_REQ_MAX_MSG_LEN_V01'' 0,
     Const ''QMI_IPA_STOP_DATA_USAGE_QUOTA_RESP_MAX_MSG_LEN_V01'' 7,
     Const ''QMI_IPA_INIT_MODEM_DRIVER_CMPLT_REQ_MAX_MSG_LEN_V01'' 4,
     Const ''QMI_IPA_INIT_MODEM_DRIVER_CMPLT_RESP_MAX_MSG_LEN_V01'' 7,
     Const ''QMI_IPA_INSTALL_FILTER_RULE_EX_REQ_MAX_MSG_LEN_V01'' 22685,
     Const ''QMI_IPA_INSTALL_FILTER_RULE_EX_RESP_MAX_MSG_LEN_V01'' 523,
     Const ''QMI_IPA_ENABLE_PER_CLIENT_STATS_REQ_MAX_MSG_LEN_V01'' 4,
     Const ''QMI_IPA_ENABLE_PER_CLIENT_STATS_RESP_MAX_MSG_LEN_V01'' 7,
     Const ''QMI_IPA_GET_STATS_PER_CLIENT_REQ_MAX_MSG_LEN_V01'' 18,
     Const ''QMI_IPA_GET_STATS_PER_CLIENT_RESP_MAX_MSG_LEN_V01'' 3595,
     Const ''QMI_IPA_INSTALL_UL_FIREWALL_RULES_REQ_MAX_MSG_LEN_V01'' 9875,
     Const ''QMI_IPA_INSTALL_UL_FIREWALL_RULES_RESP_MAX_MSG_LEN_V01'' 7,
     Const ''QMI_IPA_INSTALL_UL_FIREWALL_RULES_IND_MAX_MSG_LEN_V01'' 11]"

definition ipa_qmi_service_v01_h :: "decl list" where
  "ipa_qmi_service_v01_h = ipa_qmi_service_v01_1 @ ipa_qmi_service_v01_2 @ ipa_qmi_service_v01_3 @
     ipa_qmi_service_v01_4"

end
