(* ===== verification/SanKgsl.thy ===== *)
theory SanKgsl
  imports CLayout
begin

text \<open>
  The headers programs are built with (under sdm710/kernel-headers, stripped of comments) of
  the graphics driver and the memory allocator (linux/msm\_kgsl.h, ion.h, msm\_ion.h): every
  structure and union with its fields in order; then, for every file, the list of its
  declarations, in blocks: structures, enumerations, number macros and device requests. A
  type of the C library or of a header that is not in the repository is a foreign type.
\<close>

subsection \<open>linux/msm_kgsl.h\<close>

abbreviation kgsl_devinfo :: ctype where
  "kgsl_devinfo \<equiv>
     StructT Natural [(''device_id'', u32), (''chip_id'', u32), (''mmu_enabled'', u32),
      (''gmem_gpubaseaddr'', ulongT), (''gpu_id'', u32), (''gmem_sizebytes'', ulongT)]"

abbreviation kgsl_devmemstore :: ctype where
  "kgsl_devmemstore \<equiv>
     StructT Natural [(''soptimestamp'', u32), (''sbz'', u32), (''eoptimestamp'', u32),
      (''sbz2'', u32), (''preempted'', u32), (''sbz3'', u32), (''ref_wait_ts'', u32),
      (''sbz4'', u32), (''current_context'', u32), (''sbz5'', u32)]"

abbreviation kgsl_shadowprop :: ctype where
  "kgsl_shadowprop \<equiv>
     StructT Natural [(''gpuaddr'', ulongT), (''size'', ulongT), (''flags'', u32)]"

abbreviation kgsl_qdss_stm_prop :: ctype where
  "kgsl_qdss_stm_prop \<equiv>
     StructT Natural [(''gpuaddr'', u64), (''size'', u64)]"

abbreviation kgsl_qtimer_prop :: ctype where
  "kgsl_qtimer_prop \<equiv>
     StructT Natural [(''gpuaddr'', u64), (''size'', u64)]"

abbreviation kgsl_version :: ctype where
  "kgsl_version \<equiv>
     StructT Natural [(''drv_major'', u32), (''drv_minor'', u32), (''dev_major'', u32),
      (''dev_minor'', u32)]"

abbreviation kgsl_sp_generic_mem :: ctype where
  "kgsl_sp_generic_mem \<equiv>
     StructT Natural [(''local'', u64), (''pvt'', u64)]"

abbreviation kgsl_ucode_version :: ctype where
  "kgsl_ucode_version \<equiv>
     StructT Natural [(''pfp'', u32), (''pm4'', u32)]"

abbreviation kgsl_gpmu_version :: ctype where
  "kgsl_gpmu_version \<equiv>
     StructT Natural [(''major'', u32), (''minor'', u32), (''features'', u32)]"

abbreviation kgsl_ibdesc :: ctype where
  "kgsl_ibdesc \<equiv>
     StructT Natural [(''gpuaddr'', ulongT), (''__pad'', ulongT), (''sizedwords'', ulongT),
      (''ctrl'', u32)]"

abbreviation kgsl_cmdbatch_profiling_buffer :: ctype where
  "kgsl_cmdbatch_profiling_buffer \<equiv>
     StructT Natural [(''wall_clock_s'', u64), (''wall_clock_ns'', u64),
      (''gpu_ticks_queued'', u64), (''gpu_ticks_submitted'', u64), (''gpu_ticks_retired'', u64)]"

abbreviation kgsl_device_getproperty :: ctype where
  "kgsl_device_getproperty \<equiv>
     StructT Natural [(''type'', u32), (''value'', PtrT), (''sizebytes'', ulongT)]"

abbreviation kgsl_device_waittimestamp :: ctype where
  "kgsl_device_waittimestamp \<equiv>
     StructT Natural [(''timestamp'', u32), (''timeout'', u32)]"

abbreviation kgsl_device_waittimestamp_ctxtid :: ctype where
  "kgsl_device_waittimestamp_ctxtid \<equiv>
     StructT Natural [(''context_id'', u32), (''timestamp'', u32), (''timeout'', u32)]"

abbreviation kgsl_ringbuffer_issueibcmds :: ctype where
  "kgsl_ringbuffer_issueibcmds \<equiv>
     StructT Natural [(''drawctxt_id'', u32), (''ibdesc_addr'', ulongT), (''numibs'', u32),
      (''timestamp'', u32), (''flags'', u32)]"

abbreviation kgsl_cmdstream_readtimestamp :: ctype where
  "kgsl_cmdstream_readtimestamp \<equiv>
     StructT Natural [(''type'', u32), (''timestamp'', u32)]"

abbreviation kgsl_cmdstream_freememontimestamp :: ctype where
  "kgsl_cmdstream_freememontimestamp \<equiv>
     StructT Natural [(''gpuaddr'', ulongT), (''type'', u32), (''timestamp'', u32)]"

abbreviation kgsl_drawctxt_create :: ctype where
  "kgsl_drawctxt_create \<equiv>
     StructT Natural [(''flags'', u32), (''drawctxt_id'', u32)]"

abbreviation kgsl_drawctxt_destroy :: ctype where
  "kgsl_drawctxt_destroy \<equiv>
     StructT Natural [(''drawctxt_id'', u32)]"

abbreviation kgsl_map_user_mem :: ctype where
  "kgsl_map_user_mem \<equiv>
     StructT Natural [(''fd'', s32), (''gpuaddr'', ulongT), (''len'', ulongT),
      (''offset'', ulongT), (''hostptr'', ulongT), (''memtype'', EnumT ''kgsl_user_mem_type''),
      (''flags'', u32)]"

abbreviation kgsl_cmdstream_readtimestamp_ctxtid :: ctype where
  "kgsl_cmdstream_readtimestamp_ctxtid \<equiv>
     StructT Natural [(''context_id'', u32), (''type'', u32), (''timestamp'', u32)]"

abbreviation kgsl_cmdstream_freememontimestamp_ctxtid :: ctype where
  "kgsl_cmdstream_freememontimestamp_ctxtid \<equiv>
     StructT Natural [(''context_id'', u32), (''gpuaddr'', ulongT), (''type'', u32),
      (''timestamp'', u32)]"

abbreviation kgsl_sharedmem_from_pmem :: ctype where
  "kgsl_sharedmem_from_pmem \<equiv>
     StructT Natural [(''pmem_fd'', s32), (''gpuaddr'', ulongT), (''len'', u32),
      (''offset'', u32)]"

abbreviation kgsl_sharedmem_free :: ctype where
  "kgsl_sharedmem_free \<equiv>
     StructT Natural [(''gpuaddr'', ulongT)]"

abbreviation kgsl_cff_user_event :: ctype where
  "kgsl_cff_user_event \<equiv>
     StructT Natural [(''cff_opcode'', u8), (''op1'', u32), (''op2'', u32), (''op3'', u32),
      (''op4'', u32), (''op5'', u32), (''__pad'', ArrT u32 2)]"

abbreviation kgsl_gmem_desc :: ctype where
  "kgsl_gmem_desc \<equiv>
     StructT Natural [(''x'', u32), (''y'', u32), (''width'', u32), (''height'', u32),
      (''pitch'', u32)]"

abbreviation kgsl_buffer_desc :: ctype where
  "kgsl_buffer_desc \<equiv>
     StructT Natural [(''hostptr'', PtrT), (''gpuaddr'', ulongT), (''size'', s32),
      (''format'', u32), (''pitch'', u32), (''enabled'', u32)]"

abbreviation kgsl_bind_gmem_shadow :: ctype where
  "kgsl_bind_gmem_shadow \<equiv>
     StructT Natural [(''drawctxt_id'', u32), (''gmem_desc'', kgsl_gmem_desc),
      (''shadow_x'', u32), (''shadow_y'', u32), (''shadow_buffer'', kgsl_buffer_desc),
      (''buffer_id'', u32)]"

abbreviation kgsl_sharedmem_from_vmalloc :: ctype where
  "kgsl_sharedmem_from_vmalloc \<equiv>
     StructT Natural [(''gpuaddr'', ulongT), (''hostptr'', u32), (''flags'', u32)]"

abbreviation kgsl_drawctxt_set_bin_base_offset :: ctype where
  "kgsl_drawctxt_set_bin_base_offset \<equiv>
     StructT Natural [(''drawctxt_id'', u32), (''offset'', u32)]"

abbreviation kgsl_cmdwindow_write :: ctype where
  "kgsl_cmdwindow_write \<equiv>
     StructT Natural [(''target'', EnumT ''kgsl_cmdwindow_type''), (''addr'', u32),
      (''data'', u32)]"

abbreviation kgsl_gpumem_alloc :: ctype where
  "kgsl_gpumem_alloc \<equiv>
     StructT Natural [(''gpuaddr'', ulongT), (''size'', ulongT), (''flags'', u32)]"

abbreviation kgsl_cff_syncmem :: ctype where
  "kgsl_cff_syncmem \<equiv>
     StructT Natural [(''gpuaddr'', ulongT), (''len'', ulongT), (''__pad'', ArrT u32 2)]"

abbreviation kgsl_timestamp_event :: ctype where
  "kgsl_timestamp_event \<equiv>
     StructT Natural [(''type'', s32), (''timestamp'', u32), (''context_id'', u32),
      (''priv'', PtrT), (''len'', ulongT)]"

abbreviation kgsl_timestamp_event_genlock :: ctype where
  "kgsl_timestamp_event_genlock \<equiv>
     StructT Natural [(''handle'', s32)]"

abbreviation kgsl_timestamp_event_fence :: ctype where
  "kgsl_timestamp_event_fence \<equiv>
     StructT Natural [(''fence_fd'', s32)]"

abbreviation kgsl_gpumem_alloc_id :: ctype where
  "kgsl_gpumem_alloc_id \<equiv>
     StructT Natural [(''id'', u32), (''flags'', u32), (''size'', ulongT),
      (''mmapsize'', ulongT), (''gpuaddr'', ulongT), (''__pad'', ArrT ulongT 2)]"

abbreviation kgsl_gpumem_free_id :: ctype where
  "kgsl_gpumem_free_id \<equiv>
     StructT Natural [(''id'', u32), (''__pad'', u32)]"

abbreviation kgsl_gpumem_get_info :: ctype where
  "kgsl_gpumem_get_info \<equiv>
     StructT Natural [(''gpuaddr'', ulongT), (''id'', u32), (''flags'', u32),
      (''size'', ulongT), (''mmapsize'', ulongT), (''useraddr'', ulongT),
      (''__pad'', ArrT ulongT 4)]"

abbreviation kgsl_gpumem_sync_cache :: ctype where
  "kgsl_gpumem_sync_cache \<equiv>
     StructT Natural [(''gpuaddr'', ulongT), (''id'', u32), (''op'', u32), (''offset'', ulongT),
      (''length'', ulongT)]"

abbreviation kgsl_perfcounter_get :: ctype where
  "kgsl_perfcounter_get \<equiv>
     StructT Natural [(''groupid'', u32), (''countable'', u32), (''offset'', u32),
      (''offset_hi'', u32), (''__pad'', u32)]"

abbreviation kgsl_perfcounter_put :: ctype where
  "kgsl_perfcounter_put \<equiv>
     StructT Natural [(''groupid'', u32), (''countable'', u32), (''__pad'', ArrT u32 2)]"

abbreviation kgsl_perfcounter_query :: ctype where
  "kgsl_perfcounter_query \<equiv>
     StructT Natural [(''groupid'', u32), (''countables'', PtrT), (''count'', u32),
      (''max_counters'', u32), (''__pad'', ArrT u32 2)]"

abbreviation kgsl_perfcounter_read_group :: ctype where
  "kgsl_perfcounter_read_group \<equiv>
     StructT Natural [(''groupid'', u32), (''countable'', u32), (''value'', u64)]"

abbreviation kgsl_perfcounter_read :: ctype where
  "kgsl_perfcounter_read \<equiv>
     StructT Natural [(''reads'', PtrT), (''count'', u32), (''__pad'', ArrT u32 2)]"

abbreviation kgsl_gpumem_sync_cache_bulk :: ctype where
  "kgsl_gpumem_sync_cache_bulk \<equiv>
     StructT Natural [(''id_list'', PtrT), (''count'', u32), (''op'', u32),
      (''__pad'', ArrT u32 2)]"

abbreviation kgsl_cmd_syncpoint_timestamp :: ctype where
  "kgsl_cmd_syncpoint_timestamp \<equiv>
     StructT Natural [(''context_id'', u32), (''timestamp'', u32)]"

abbreviation kgsl_cmd_syncpoint_fence :: ctype where
  "kgsl_cmd_syncpoint_fence \<equiv>
     StructT Natural [(''fd'', s32)]"

abbreviation kgsl_cmd_syncpoint :: ctype where
  "kgsl_cmd_syncpoint \<equiv>
     StructT Natural [(''type'', s32), (''priv'', PtrT), (''size'', ulongT)]"

abbreviation kgsl_submit_commands :: ctype where
  "kgsl_submit_commands \<equiv>
     StructT Natural [(''context_id'', u32), (''flags'', u32), (''cmdlist'', PtrT),
      (''numcmds'', u32), (''synclist'', PtrT), (''numsyncs'', u32), (''timestamp'', u32),
      (''__pad'', ArrT u32 4)]"

abbreviation kgsl_device_constraint :: ctype where
  "kgsl_device_constraint \<equiv>
     StructT Natural [(''type'', u32), (''context_id'', u32), (''data'', PtrT),
      (''size'', ulongT)]"

abbreviation kgsl_device_constraint_pwrlevel :: ctype where
  "kgsl_device_constraint_pwrlevel \<equiv>
     StructT Natural [(''level'', u32)]"

abbreviation kgsl_syncsource_create :: ctype where
  "kgsl_syncsource_create \<equiv>
     StructT Natural [(''id'', u32), (''__pad'', ArrT u32 3)]"

abbreviation kgsl_syncsource_destroy :: ctype where
  "kgsl_syncsource_destroy \<equiv>
     StructT Natural [(''id'', u32), (''__pad'', ArrT u32 3)]"

abbreviation kgsl_syncsource_create_fence :: ctype where
  "kgsl_syncsource_create_fence \<equiv>
     StructT Natural [(''id'', u32), (''fence_fd'', s32), (''__pad'', ArrT u32 4)]"

abbreviation kgsl_syncsource_signal_fence :: ctype where
  "kgsl_syncsource_signal_fence \<equiv>
     StructT Natural [(''id'', u32), (''fence_fd'', s32), (''__pad'', ArrT u32 4)]"

abbreviation kgsl_cff_sync_gpuobj :: ctype where
  "kgsl_cff_sync_gpuobj \<equiv>
     StructT Natural [(''offset'', u64), (''length'', u64), (''id'', u32)]"

abbreviation kgsl_gpuobj_alloc :: ctype where
  "kgsl_gpuobj_alloc \<equiv>
     StructT Natural [(''size'', u64), (''flags'', u64), (''va_len'', u64), (''mmapsize'', u64),
      (''id'', u32), (''metadata_len'', u32), (''metadata'', u64)]"

abbreviation kgsl_gpuobj_free :: ctype where
  "kgsl_gpuobj_free \<equiv>
     StructT Natural [(''flags'', u64), (''priv'', u64), (''id'', u32), (''type'', u32),
      (''len'', u32)]"

abbreviation kgsl_gpu_event_timestamp :: ctype where
  "kgsl_gpu_event_timestamp \<equiv>
     StructT Natural [(''context_id'', u32), (''timestamp'', u32)]"

abbreviation kgsl_gpu_event_fence :: ctype where
  "kgsl_gpu_event_fence \<equiv>
     StructT Natural [(''fd'', s32)]"

abbreviation kgsl_gpuobj_info :: ctype where
  "kgsl_gpuobj_info \<equiv>
     StructT Natural [(''gpuaddr'', u64), (''flags'', u64), (''size'', u64), (''va_len'', u64),
      (''va_addr'', u64), (''id'', u32)]"

abbreviation kgsl_gpuobj_import :: ctype where
  "kgsl_gpuobj_import \<equiv>
     StructT Natural [(''priv'', u64), (''priv_len'', u64), (''flags'', u64), (''type'', u32),
      (''id'', u32)]"

abbreviation kgsl_gpuobj_import_dma_buf :: ctype where
  "kgsl_gpuobj_import_dma_buf \<equiv>
     StructT Natural [(''fd'', s32)]"

abbreviation kgsl_gpuobj_import_useraddr :: ctype where
  "kgsl_gpuobj_import_useraddr \<equiv>
     StructT Natural [(''virtaddr'', u64)]"

abbreviation kgsl_gpuobj_sync_obj :: ctype where
  "kgsl_gpuobj_sync_obj \<equiv>
     StructT Natural [(''offset'', u64), (''length'', u64), (''id'', u32), (''op'', u32)]"

abbreviation kgsl_gpuobj_sync :: ctype where
  "kgsl_gpuobj_sync \<equiv>
     StructT Natural [(''objs'', u64), (''obj_len'', u32), (''count'', u32)]"

abbreviation kgsl_command_object :: ctype where
  "kgsl_command_object \<equiv>
     StructT Natural [(''offset'', u64), (''gpuaddr'', u64), (''size'', u64), (''flags'', u32),
      (''id'', u32)]"

abbreviation kgsl_command_syncpoint :: ctype where
  "kgsl_command_syncpoint \<equiv>
     StructT Natural [(''priv'', u64), (''size'', u64), (''type'', u32)]"

abbreviation kgsl_gpu_command :: ctype where
  "kgsl_gpu_command \<equiv>
     StructT Natural [(''flags'', u64), (''cmdlist'', u64), (''cmdsize'', u32),
      (''numcmds'', u32), (''objlist'', u64), (''objsize'', u32), (''numobjs'', u32),
      (''synclist'', u64), (''syncsize'', u32), (''numsyncs'', u32), (''context_id'', u32),
      (''timestamp'', u32)]"

abbreviation kgsl_preemption_counters_query :: ctype where
  "kgsl_preemption_counters_query \<equiv>
     StructT Natural [(''counters'', u64), (''size_user'', u32), (''size_priority_level'', u32),
      (''max_priority_level'', u32)]"

abbreviation kgsl_gpuobj_set_info :: ctype where
  "kgsl_gpuobj_set_info \<equiv>
     StructT Natural [(''flags'', u64), (''metadata'', u64), (''id'', u32),
      (''metadata_len'', u32), (''type'', u32)]"

abbreviation kgsl_sparse_phys_alloc :: ctype where
  "kgsl_sparse_phys_alloc \<equiv>
     StructT Natural [(''size'', u64), (''pagesize'', u64), (''flags'', u64), (''id'', u32)]"

abbreviation kgsl_sparse_phys_free :: ctype where
  "kgsl_sparse_phys_free \<equiv>
     StructT Natural [(''id'', u32)]"

abbreviation kgsl_sparse_virt_alloc :: ctype where
  "kgsl_sparse_virt_alloc \<equiv>
     StructT Natural [(''size'', u64), (''pagesize'', u64), (''flags'', u64),
      (''gpuaddr'', u64), (''id'', u32)]"

abbreviation kgsl_sparse_virt_free :: ctype where
  "kgsl_sparse_virt_free \<equiv>
     StructT Natural [(''id'', u32)]"

abbreviation kgsl_sparse_binding_object :: ctype where
  "kgsl_sparse_binding_object \<equiv>
     StructT Natural [(''virtoffset'', u64), (''physoffset'', u64), (''size'', u64),
      (''flags'', u64), (''id'', u32)]"

abbreviation kgsl_sparse_bind :: ctype where
  "kgsl_sparse_bind \<equiv>
     StructT Natural [(''list'', u64), (''id'', u32), (''size'', u32), (''count'', u32)]"

abbreviation kgsl_gpu_sparse_command :: ctype where
  "kgsl_gpu_sparse_command \<equiv>
     StructT Natural [(''flags'', u64), (''sparselist'', u64), (''synclist'', u64),
      (''sparsesize'', u32), (''numsparse'', u32), (''syncsize'', u32), (''numsyncs'', u32),
      (''context_id'', u32), (''timestamp'', u32), (''id'', u32)]"

definition msm_kgsl_1 :: "decl list" where
  "msm_kgsl_1 =
    [Flag ''_MSM_KGSL_H'']"

definition msm_kgsl_2 :: "decl list" where
  "msm_kgsl_2 =
    [Const ''KGSL_VERSION_MAJOR'' 3, Const ''KGSL_VERSION_MINOR'' 14,
     Const ''KGSL_CONTEXT_SAVE_GMEM'' 0x00000001,
     Const ''KGSL_CONTEXT_NO_GMEM_ALLOC'' 0x00000002,
     Const ''KGSL_CONTEXT_SUBMIT_IB_LIST'' 0x00000004,
     Const ''KGSL_CONTEXT_CTX_SWITCH'' 0x00000008, Const ''KGSL_CONTEXT_PREAMBLE'' 0x00000010,
     Const ''KGSL_CONTEXT_TRASH_STATE'' 0x00000020,
     Const ''KGSL_CONTEXT_PER_CONTEXT_TS'' 0x00000040,
     Const ''KGSL_CONTEXT_USER_GENERATED_TS'' 0x00000080,
     Const ''KGSL_CONTEXT_END_OF_FRAME'' 0x00000100,
     Const ''KGSL_CONTEXT_NO_FAULT_TOLERANCE'' 0x00000200,
     Const ''KGSL_CONTEXT_SYNC'' 0x00000400, Const ''KGSL_CONTEXT_PWR_CONSTRAINT'' 0x00000800,
     Const ''KGSL_CONTEXT_PRIORITY_MASK'' 0x0000F000, Const ''KGSL_CONTEXT_PRIORITY_SHIFT'' 12,
     Const ''KGSL_CONTEXT_PRIORITY_UNDEF'' 0, Const ''KGSL_CONTEXT_IFH_NOP'' 0x00010000,
     Const ''KGSL_CONTEXT_SECURE'' 0x00020000, Const ''KGSL_CONTEXT_NO_SNAPSHOT'' 0x00040000,
     Const ''KGSL_CONTEXT_SPARSE'' 0x00080000,
     Const ''KGSL_CONTEXT_PREEMPT_STYLE_MASK'' 0x0E000000,
     Const ''KGSL_CONTEXT_PREEMPT_STYLE_SHIFT'' 25,
     Const ''KGSL_CONTEXT_PREEMPT_STYLE_DEFAULT'' 0x0,
     Const ''KGSL_CONTEXT_PREEMPT_STYLE_RINGBUFFER'' 0x1,
     Const ''KGSL_CONTEXT_PREEMPT_STYLE_FINEGRAIN'' 0x2,
     Const ''KGSL_CONTEXT_TYPE_MASK'' 0x01F00000, Const ''KGSL_CONTEXT_TYPE_SHIFT'' 20,
     Const ''KGSL_CONTEXT_TYPE_ANY'' 0, Const ''KGSL_CONTEXT_TYPE_GL'' 1,
     Const ''KGSL_CONTEXT_TYPE_CL'' 2, Const ''KGSL_CONTEXT_TYPE_C2D'' 3,
     Const ''KGSL_CONTEXT_TYPE_RS'' 4, Const ''KGSL_CONTEXT_TYPE_UNKNOWN'' 0x1E,
     Const ''KGSL_CONTEXT_INVALIDATE_ON_FAULT'' 0x10000000,
     Const ''KGSL_CONTEXT_INVALID'' 0xffffffff, Const ''KGSL_CMDBATCH_MEMLIST'' 0x00000001,
     Const ''KGSL_CMDBATCH_MARKER'' 0x00000002, Const ''KGSL_CMDBATCH_SUBMIT_IB_LIST'' 4,
     Const ''KGSL_CMDBATCH_CTX_SWITCH'' 8, Const ''KGSL_CMDBATCH_PROFILING'' 0x00000010,
     Const ''KGSL_CMDBATCH_PROFILING_KTIME'' 0x00000020,
     Const ''KGSL_CMDBATCH_END_OF_FRAME'' 256, Const ''KGSL_CMDBATCH_SYNC'' 1024,
     Const ''KGSL_CMDBATCH_PWR_CONSTRAINT'' 2048, Const ''KGSL_CMDBATCH_SPARSE'' 0x1000,
     Const ''KGSL_CMDLIST_IB'' 0x00000001,
     Const ''KGSL_CMDLIST_CTXTSWITCH_PREAMBLE'' 0x00000002,
     Const ''KGSL_CMDLIST_IB_PREAMBLE'' 0x00000004, Const ''KGSL_OBJLIST_MEMOBJ'' 0x00000008,
     Const ''KGSL_OBJLIST_PROFILE'' 0x00000010, Const ''KGSL_CMD_SYNCPOINT_TYPE_TIMESTAMP'' 0,
     Const ''KGSL_CMD_SYNCPOINT_TYPE_FENCE'' 1, Const ''KGSL_MEMFLAGS_SECURE'' 0x00000008,
     Const ''KGSL_MEMFLAGS_GPUREADONLY'' 0x01000000,
     Const ''KGSL_MEMFLAGS_GPUWRITEONLY'' 0x02000000,
     Const ''KGSL_MEMFLAGS_FORCE_32BIT'' 0x100000000,
     Const ''KGSL_SPARSE_BIND_MULTIPLE_TO_PHYS'' 0x400000000, Const ''KGSL_SPARSE_BIND'' 0x1,
     Const ''KGSL_SPARSE_UNBIND'' 0x2, Const ''KGSL_CACHEMODE_MASK'' 0x0C000000,
     Const ''KGSL_CACHEMODE_SHIFT'' 26, Const ''KGSL_CACHEMODE_WRITECOMBINE'' 0,
     Const ''KGSL_CACHEMODE_UNCACHED'' 1, Const ''KGSL_CACHEMODE_WRITETHROUGH'' 2,
     Const ''KGSL_CACHEMODE_WRITEBACK'' 3, Const ''KGSL_MEMFLAGS_USE_CPU_MAP'' 0x10000000,
     Const ''KGSL_MEMFLAGS_SPARSE_PHYS'' 0x20000000,
     Const ''KGSL_MEMFLAGS_SPARSE_VIRT'' 0x40000000,
     Const ''KGSL_MEMFLAGS_IOCOHERENT'' 0x80000000, Const ''KGSL_MEMTYPE_MASK'' 0x0000FF00,
     Const ''KGSL_MEMTYPE_SHIFT'' 8, Const ''KGSL_MEMTYPE_OBJECTANY'' 0,
     Const ''KGSL_MEMTYPE_FRAMEBUFFER'' 1, Const ''KGSL_MEMTYPE_RENDERBUFFER'' 2,
     Const ''KGSL_MEMTYPE_ARRAYBUFFER'' 3, Const ''KGSL_MEMTYPE_ELEMENTARRAYBUFFER'' 4,
     Const ''KGSL_MEMTYPE_VERTEXARRAYBUFFER'' 5, Const ''KGSL_MEMTYPE_TEXTURE'' 6,
     Const ''KGSL_MEMTYPE_SURFACE'' 7, Const ''KGSL_MEMTYPE_EGL_SURFACE'' 8,
     Const ''KGSL_MEMTYPE_GL'' 9, Const ''KGSL_MEMTYPE_CL'' 10,
     Const ''KGSL_MEMTYPE_CL_BUFFER_MAP'' 11, Const ''KGSL_MEMTYPE_CL_BUFFER_NOMAP'' 12,
     Const ''KGSL_MEMTYPE_CL_IMAGE_MAP'' 13, Const ''KGSL_MEMTYPE_CL_IMAGE_NOMAP'' 14,
     Const ''KGSL_MEMTYPE_CL_KERNEL_STACK'' 15, Const ''KGSL_MEMTYPE_COMMAND'' 16,
     Const ''KGSL_MEMTYPE_2D'' 17, Const ''KGSL_MEMTYPE_EGL_IMAGE'' 18,
     Const ''KGSL_MEMTYPE_EGL_SHADOW'' 19, Const ''KGSL_MEMTYPE_MULTISAMPLE'' 20,
     Const ''KGSL_MEMTYPE_KERNEL'' 255, Const ''KGSL_MEMALIGN_MASK'' 0x00FF0000,
     Const ''KGSL_MEMALIGN_SHIFT'' 16,
     Enum ''kgsl_user_mem_type'' [(''KGSL_USER_MEM_TYPE_PMEM'', 0),
       (''KGSL_USER_MEM_TYPE_ASHMEM'', 1), (''KGSL_USER_MEM_TYPE_ADDR'', 2),
       (''KGSL_USER_MEM_TYPE_ION'', 3), (''KGSL_USER_MEM_TYPE_DMABUF'', 3),
       (''KGSL_USER_MEM_TYPE_MAX'', 7)],
     Const ''KGSL_MEMFLAGS_USERMEM_MASK'' 0x000000e0, Const ''KGSL_MEMFLAGS_USERMEM_SHIFT'' 5]"

definition msm_kgsl_3 :: "decl list" where
  "msm_kgsl_3 =
    [Const ''KGSL_MEMFLAGS_NOT_USERMEM'' 0, Const ''KGSL_MEMFLAGS_USERMEM_PMEM'' 32,
     Const ''KGSL_MEMFLAGS_USERMEM_ASHMEM'' 64, Const ''KGSL_MEMFLAGS_USERMEM_ADDR'' 96,
     Const ''KGSL_MEMFLAGS_USERMEM_ION'' 128, Const ''KGSL_FLAGS_NORMALMODE'' 0x00000000,
     Const ''KGSL_FLAGS_SAFEMODE'' 0x00000001, Const ''KGSL_FLAGS_INITIALIZED0'' 0x00000002,
     Const ''KGSL_FLAGS_INITIALIZED'' 0x00000004, Const ''KGSL_FLAGS_STARTED'' 0x00000008,
     Const ''KGSL_FLAGS_ACTIVE'' 0x00000010, Const ''KGSL_FLAGS_RESERVED0'' 0x00000020,
     Const ''KGSL_FLAGS_RESERVED1'' 0x00000040, Const ''KGSL_FLAGS_RESERVED2'' 0x00000080,
     Const ''KGSL_FLAGS_SOFT_RESET'' 0x00000100,
     Const ''KGSL_FLAGS_PER_CONTEXT_TIMESTAMPS'' 0x00000200,
     Const ''KGSL_SYNCOBJ_SERVER_TIMEOUT'' 2000, Const ''KGSL_UBWC_NONE'' 0,
     Const ''KGSL_UBWC_1_0'' 1, Const ''KGSL_UBWC_2_0'' 2, Const ''KGSL_UBWC_3_0'' 3,
     Enum ''kgsl_ctx_reset_stat'' [(''KGSL_CTX_STAT_NO_ERROR'', 0),
       (''KGSL_CTX_STAT_GUILTY_CONTEXT_RESET_EXT'', 1),
       (''KGSL_CTX_STAT_INNOCENT_CONTEXT_RESET_EXT'', 2),
       (''KGSL_CTX_STAT_UNKNOWN_CONTEXT_RESET_EXT'', 3)]]"

definition msm_kgsl_4 :: "decl list" where
  "msm_kgsl_4 =
    [Enum ''kgsl_deviceid'' [(''KGSL_DEVICE_3D0'', 0), (''KGSL_DEVICE_MAX'', 1)],
     Struct ''kgsl_devinfo'' kgsl_devinfo, Struct ''kgsl_devmemstore'' kgsl_devmemstore]"

abbreviation KGSL_IOC_TYPE :: nat where "KGSL_IOC_TYPE \<equiv> 9"

definition msm_kgsl_5 :: "decl list" where
  "msm_kgsl_5 =
    [Enum ''kgsl_timestamp_type'' [(''KGSL_TIMESTAMP_CONSUMED'', 1),
       (''KGSL_TIMESTAMP_RETIRED'', 2), (''KGSL_TIMESTAMP_QUEUED'', 3)],
     Const ''KGSL_PROP_DEVICE_INFO'' 0x1, Const ''KGSL_PROP_DEVICE_SHADOW'' 0x2,
     Const ''KGSL_PROP_DEVICE_POWER'' 0x3, Const ''KGSL_PROP_SHMEM'' 0x4,
     Const ''KGSL_PROP_SHMEM_APERTURES'' 0x5, Const ''KGSL_PROP_MMU_ENABLE'' 0x6,
     Const ''KGSL_PROP_INTERRUPT_WAITS'' 0x7, Const ''KGSL_PROP_VERSION'' 0x8,
     Const ''KGSL_PROP_GPU_RESET_STAT'' 0x9, Const ''KGSL_PROP_PWRCTRL'' 0xE,
     Const ''KGSL_PROP_PWR_CONSTRAINT'' 0x12, Const ''KGSL_PROP_UCHE_GMEM_VADDR'' 0x13,
     Const ''KGSL_PROP_SP_GENERIC_MEM'' 0x14, Const ''KGSL_PROP_UCODE_VERSION'' 0x15,
     Const ''KGSL_PROP_GPMU_VERSION'' 0x16, Const ''KGSL_PROP_HIGHEST_BANK_BIT'' 0x17,
     Const ''KGSL_PROP_DEVICE_BITNESS'' 0x18, Const ''KGSL_PROP_DEVICE_QDSS_STM'' 0x19,
     Const ''KGSL_PROP_MIN_ACCESS_LENGTH'' 0x1A, Const ''KGSL_PROP_UBWC_MODE'' 0x1B,
     Const ''KGSL_PROP_DEVICE_QTIMER'' 0x20, Const ''KGSL_PROP_L3_PWR_CONSTRAINT'' 0x22,
     Struct ''kgsl_shadowprop'' kgsl_shadowprop,
     Struct ''kgsl_qdss_stm_prop'' kgsl_qdss_stm_prop,
     Struct ''kgsl_qtimer_prop'' kgsl_qtimer_prop, Struct ''kgsl_version'' kgsl_version,
     Struct ''kgsl_sp_generic_mem'' kgsl_sp_generic_mem,
     Struct ''kgsl_ucode_version'' kgsl_ucode_version,
     Struct ''kgsl_gpmu_version'' kgsl_gpmu_version, Const ''KGSL_PERFCOUNTER_GROUP_CP'' 0x0,
     Const ''KGSL_PERFCOUNTER_GROUP_RBBM'' 0x1, Const ''KGSL_PERFCOUNTER_GROUP_PC'' 0x2,
     Const ''KGSL_PERFCOUNTER_GROUP_VFD'' 0x3, Const ''KGSL_PERFCOUNTER_GROUP_HLSQ'' 0x4,
     Const ''KGSL_PERFCOUNTER_GROUP_VPC'' 0x5, Const ''KGSL_PERFCOUNTER_GROUP_TSE'' 0x6,
     Const ''KGSL_PERFCOUNTER_GROUP_RAS'' 0x7, Const ''KGSL_PERFCOUNTER_GROUP_UCHE'' 0x8,
     Const ''KGSL_PERFCOUNTER_GROUP_TP'' 0x9, Const ''KGSL_PERFCOUNTER_GROUP_SP'' 0xA,
     Const ''KGSL_PERFCOUNTER_GROUP_RB'' 0xB, Const ''KGSL_PERFCOUNTER_GROUP_PWR'' 0xC,
     Const ''KGSL_PERFCOUNTER_GROUP_VBIF'' 0xD, Const ''KGSL_PERFCOUNTER_GROUP_VBIF_PWR'' 0xE,
     Const ''KGSL_PERFCOUNTER_GROUP_MH'' 0xF, Const ''KGSL_PERFCOUNTER_GROUP_PA_SU'' 0x10,
     Const ''KGSL_PERFCOUNTER_GROUP_SQ'' 0x11, Const ''KGSL_PERFCOUNTER_GROUP_SX'' 0x12,
     Const ''KGSL_PERFCOUNTER_GROUP_TCF'' 0x13, Const ''KGSL_PERFCOUNTER_GROUP_TCM'' 0x14,
     Const ''KGSL_PERFCOUNTER_GROUP_TCR'' 0x15, Const ''KGSL_PERFCOUNTER_GROUP_L2'' 0x16,
     Const ''KGSL_PERFCOUNTER_GROUP_VSC'' 0x17, Const ''KGSL_PERFCOUNTER_GROUP_CCU'' 0x18,
     Const ''KGSL_PERFCOUNTER_GROUP_LRZ'' 0x19, Const ''KGSL_PERFCOUNTER_GROUP_CMP'' 0x1A,
     Const ''KGSL_PERFCOUNTER_GROUP_ALWAYSON'' 0x1B,
     Const ''KGSL_PERFCOUNTER_GROUP_SP_PWR'' 0x1C, Const ''KGSL_PERFCOUNTER_GROUP_TP_PWR'' 0x1D,
     Const ''KGSL_PERFCOUNTER_GROUP_RB_PWR'' 0x1E,
     Const ''KGSL_PERFCOUNTER_GROUP_CCU_PWR'' 0x1F,
     Const ''KGSL_PERFCOUNTER_GROUP_UCHE_PWR'' 0x20,
     Const ''KGSL_PERFCOUNTER_GROUP_CP_PWR'' 0x21,
     Const ''KGSL_PERFCOUNTER_GROUP_GPMU_PWR'' 0x22,
     Const ''KGSL_PERFCOUNTER_GROUP_ALWAYSON_PWR'' 0x23,
     Const ''KGSL_PERFCOUNTER_GROUP_MAX'' 0x24, Const ''KGSL_PERFCOUNTER_NOT_USED'' 0xFFFFFFFF,
     Const ''KGSL_PERFCOUNTER_BROKEN'' 0xFFFFFFFE, Struct ''kgsl_ibdesc'' kgsl_ibdesc,
     Struct ''kgsl_cmdbatch_profiling_buffer'' kgsl_cmdbatch_profiling_buffer,
     Const ''KGSL_IOC_TYPE'' 0x09, Struct ''kgsl_device_getproperty'' kgsl_device_getproperty,
     Request ''IOCTL_KGSL_DEVICE_GETPROPERTY'' (IOWR KGSL_IOC_TYPE 2 kgsl_device_getproperty),
     Struct ''kgsl_device_waittimestamp'' kgsl_device_waittimestamp,
     Request ''IOCTL_KGSL_DEVICE_WAITTIMESTAMP'' (IOW KGSL_IOC_TYPE 6 kgsl_device_waittimestamp),
     Struct ''kgsl_device_waittimestamp_ctxtid'' kgsl_device_waittimestamp_ctxtid,
     Request ''IOCTL_KGSL_DEVICE_WAITTIMESTAMP_CTXTID'' (IOW KGSL_IOC_TYPE 7 kgsl_device_waittimestamp_ctxtid),
     Struct ''kgsl_ringbuffer_issueibcmds'' kgsl_ringbuffer_issueibcmds,
     Request ''IOCTL_KGSL_RINGBUFFER_ISSUEIBCMDS'' (IOWR KGSL_IOC_TYPE 16 kgsl_ringbuffer_issueibcmds),
     Struct ''kgsl_cmdstream_readtimestamp'' kgsl_cmdstream_readtimestamp,
     Request ''IOCTL_KGSL_CMDSTREAM_READTIMESTAMP_OLD'' (IOR KGSL_IOC_TYPE 17 kgsl_cmdstream_readtimestamp),
     Request ''IOCTL_KGSL_CMDSTREAM_READTIMESTAMP'' (IOWR KGSL_IOC_TYPE 17 kgsl_cmdstream_readtimestamp),
     Struct ''kgsl_cmdstream_freememontimestamp'' kgsl_cmdstream_freememontimestamp,
     Request ''IOCTL_KGSL_CMDSTREAM_FREEMEMONTIMESTAMP'' (IOW KGSL_IOC_TYPE 18 kgsl_cmdstream_freememontimestamp),
     Request ''IOCTL_KGSL_CMDSTREAM_FREEMEMONTIMESTAMP_OLD'' (IOR KGSL_IOC_TYPE 18 kgsl_cmdstream_freememontimestamp)]"

definition msm_kgsl_6 :: "decl list" where
  "msm_kgsl_6 =
    [Struct ''kgsl_drawctxt_create'' kgsl_drawctxt_create,
     Request ''IOCTL_KGSL_DRAWCTXT_CREATE'' (IOWR KGSL_IOC_TYPE 19 kgsl_drawctxt_create),
     Struct ''kgsl_drawctxt_destroy'' kgsl_drawctxt_destroy,
     Request ''IOCTL_KGSL_DRAWCTXT_DESTROY'' (IOW KGSL_IOC_TYPE 20 kgsl_drawctxt_destroy),
     Struct ''kgsl_map_user_mem'' kgsl_map_user_mem,
     Request ''IOCTL_KGSL_MAP_USER_MEM'' (IOWR KGSL_IOC_TYPE 21 kgsl_map_user_mem),
     Struct ''kgsl_cmdstream_readtimestamp_ctxtid'' kgsl_cmdstream_readtimestamp_ctxtid,
     Request ''IOCTL_KGSL_CMDSTREAM_READTIMESTAMP_CTXTID'' (IOWR KGSL_IOC_TYPE 22 kgsl_cmdstream_readtimestamp_ctxtid),
     Struct ''kgsl_cmdstream_freememontimestamp_ctxtid'' kgsl_cmdstream_freememontimestamp_ctxtid,
     Request ''IOCTL_KGSL_CMDSTREAM_FREEMEMONTIMESTAMP_CTXTID'' (IOW KGSL_IOC_TYPE 23 kgsl_cmdstream_freememontimestamp_ctxtid),
     Struct ''kgsl_sharedmem_from_pmem'' kgsl_sharedmem_from_pmem,
     Request ''IOCTL_KGSL_SHAREDMEM_FROM_PMEM'' (IOWR KGSL_IOC_TYPE 32 kgsl_sharedmem_from_pmem),
     Struct ''kgsl_sharedmem_free'' kgsl_sharedmem_free,
     Request ''IOCTL_KGSL_SHAREDMEM_FREE'' (IOW KGSL_IOC_TYPE 33 kgsl_sharedmem_free),
     Struct ''kgsl_cff_user_event'' kgsl_cff_user_event,
     Request ''IOCTL_KGSL_CFF_USER_EVENT'' (IOW KGSL_IOC_TYPE 49 kgsl_cff_user_event),
     Struct ''kgsl_gmem_desc'' kgsl_gmem_desc, Struct ''kgsl_buffer_desc'' kgsl_buffer_desc,
     Struct ''kgsl_bind_gmem_shadow'' kgsl_bind_gmem_shadow,
     Request ''IOCTL_KGSL_DRAWCTXT_BIND_GMEM_SHADOW'' (IOW KGSL_IOC_TYPE 34 kgsl_bind_gmem_shadow),
     Struct ''kgsl_sharedmem_from_vmalloc'' kgsl_sharedmem_from_vmalloc,
     Request ''IOCTL_KGSL_SHAREDMEM_FROM_VMALLOC'' (IOWR KGSL_IOC_TYPE 35 kgsl_sharedmem_from_vmalloc),
     Request ''IOCTL_KGSL_SHAREDMEM_FLUSH_CACHE'' (IOW KGSL_IOC_TYPE 36 kgsl_sharedmem_free),
     Struct ''kgsl_drawctxt_set_bin_base_offset'' kgsl_drawctxt_set_bin_base_offset,
     Request ''IOCTL_KGSL_DRAWCTXT_SET_BIN_BASE_OFFSET'' (IOW KGSL_IOC_TYPE 37 kgsl_drawctxt_set_bin_base_offset),
     Enum ''kgsl_cmdwindow_type'' [(''KGSL_CMDWINDOW_MIN'', 0), (''KGSL_CMDWINDOW_2D'', 0),
       (''KGSL_CMDWINDOW_3D'', 1), (''KGSL_CMDWINDOW_MMU'', 2),
       (''KGSL_CMDWINDOW_ARBITER'', 255), (''KGSL_CMDWINDOW_MAX'', 255)],
     Struct ''kgsl_cmdwindow_write'' kgsl_cmdwindow_write,
     Request ''IOCTL_KGSL_CMDWINDOW_WRITE'' (IOW KGSL_IOC_TYPE 46 kgsl_cmdwindow_write),
     Struct ''kgsl_gpumem_alloc'' kgsl_gpumem_alloc,
     Request ''IOCTL_KGSL_GPUMEM_ALLOC'' (IOWR KGSL_IOC_TYPE 47 kgsl_gpumem_alloc),
     Struct ''kgsl_cff_syncmem'' kgsl_cff_syncmem,
     Request ''IOCTL_KGSL_CFF_SYNCMEM'' (IOW KGSL_IOC_TYPE 48 kgsl_cff_syncmem),
     Struct ''kgsl_timestamp_event'' kgsl_timestamp_event,
     Request ''IOCTL_KGSL_TIMESTAMP_EVENT_OLD'' (IOW KGSL_IOC_TYPE 49 kgsl_timestamp_event),
     Const ''KGSL_TIMESTAMP_EVENT_GENLOCK'' 1,
     Struct ''kgsl_timestamp_event_genlock'' kgsl_timestamp_event_genlock,
     Const ''KGSL_TIMESTAMP_EVENT_FENCE'' 2,
     Struct ''kgsl_timestamp_event_fence'' kgsl_timestamp_event_fence,
     Request ''IOCTL_KGSL_SETPROPERTY'' (IOW KGSL_IOC_TYPE 50 kgsl_device_getproperty),
     Request ''IOCTL_KGSL_TIMESTAMP_EVENT'' (IOWR KGSL_IOC_TYPE 51 kgsl_timestamp_event),
     Struct ''kgsl_gpumem_alloc_id'' kgsl_gpumem_alloc_id,
     Request ''IOCTL_KGSL_GPUMEM_ALLOC_ID'' (IOWR KGSL_IOC_TYPE 52 kgsl_gpumem_alloc_id),
     Struct ''kgsl_gpumem_free_id'' kgsl_gpumem_free_id,
     Request ''IOCTL_KGSL_GPUMEM_FREE_ID'' (IOWR KGSL_IOC_TYPE 53 kgsl_gpumem_free_id)]"

definition msm_kgsl_7 :: "decl list" where
  "msm_kgsl_7 =
    [Struct ''kgsl_gpumem_get_info'' kgsl_gpumem_get_info,
     Request ''IOCTL_KGSL_GPUMEM_GET_INFO'' (IOWR KGSL_IOC_TYPE 54 kgsl_gpumem_get_info),
     Struct ''kgsl_gpumem_sync_cache'' kgsl_gpumem_sync_cache,
     Const ''KGSL_GPUMEM_CACHE_CLEAN'' (2 ^ 0), Const ''KGSL_GPUMEM_CACHE_TO_GPU'' 1,
     Const ''KGSL_GPUMEM_CACHE_INV'' (2 ^ 1), Const ''KGSL_GPUMEM_CACHE_FROM_GPU'' 2,
     Const ''KGSL_GPUMEM_CACHE_FLUSH'' 3, Const ''KGSL_GPUMEM_CACHE_RANGE'' (- 2147483648),
     Request ''IOCTL_KGSL_GPUMEM_SYNC_CACHE'' (IOW KGSL_IOC_TYPE 55 kgsl_gpumem_sync_cache),
     Struct ''kgsl_perfcounter_get'' kgsl_perfcounter_get,
     Request ''IOCTL_KGSL_PERFCOUNTER_GET'' (IOWR KGSL_IOC_TYPE 56 kgsl_perfcounter_get),
     Struct ''kgsl_perfcounter_put'' kgsl_perfcounter_put,
     Request ''IOCTL_KGSL_PERFCOUNTER_PUT'' (IOW KGSL_IOC_TYPE 57 kgsl_perfcounter_put),
     Struct ''kgsl_perfcounter_query'' kgsl_perfcounter_query,
     Request ''IOCTL_KGSL_PERFCOUNTER_QUERY'' (IOWR KGSL_IOC_TYPE 58 kgsl_perfcounter_query),
     Struct ''kgsl_perfcounter_read_group'' kgsl_perfcounter_read_group,
     Struct ''kgsl_perfcounter_read'' kgsl_perfcounter_read,
     Request ''IOCTL_KGSL_PERFCOUNTER_READ'' (IOWR KGSL_IOC_TYPE 59 kgsl_perfcounter_read),
     Struct ''kgsl_gpumem_sync_cache_bulk'' kgsl_gpumem_sync_cache_bulk,
     Request ''IOCTL_KGSL_GPUMEM_SYNC_CACHE_BULK'' (IOWR KGSL_IOC_TYPE 60 kgsl_gpumem_sync_cache_bulk),
     Struct ''kgsl_cmd_syncpoint_timestamp'' kgsl_cmd_syncpoint_timestamp,
     Struct ''kgsl_cmd_syncpoint_fence'' kgsl_cmd_syncpoint_fence,
     Struct ''kgsl_cmd_syncpoint'' kgsl_cmd_syncpoint, Const ''KGSL_IBDESC_MEMLIST'' 0x1,
     Const ''KGSL_IBDESC_PROFILING_BUFFER'' 0x2,
     Struct ''kgsl_submit_commands'' kgsl_submit_commands,
     Request ''IOCTL_KGSL_SUBMIT_COMMANDS'' (IOWR KGSL_IOC_TYPE 61 kgsl_submit_commands),
     Struct ''kgsl_device_constraint'' kgsl_device_constraint, Const ''KGSL_CONSTRAINT_NONE'' 0,
     Const ''KGSL_CONSTRAINT_PWRLEVEL'' 1, Const ''KGSL_CONSTRAINT_L3_NONE'' 2,
     Const ''KGSL_CONSTRAINT_L3_PWRLEVEL'' 3, Const ''KGSL_CONSTRAINT_PWR_MIN'' 0,
     Const ''KGSL_CONSTRAINT_PWR_MAX'' 1, Const ''KGSL_CONSTRAINT_L3_PWR_MED'' 0,
     Const ''KGSL_CONSTRAINT_L3_PWR_MAX'' 1,
     Struct ''kgsl_device_constraint_pwrlevel'' kgsl_device_constraint_pwrlevel,
     Struct ''kgsl_syncsource_create'' kgsl_syncsource_create,
     Request ''IOCTL_KGSL_SYNCSOURCE_CREATE'' (IOWR KGSL_IOC_TYPE 64 kgsl_syncsource_create),
     Struct ''kgsl_syncsource_destroy'' kgsl_syncsource_destroy,
     Request ''IOCTL_KGSL_SYNCSOURCE_DESTROY'' (IOWR KGSL_IOC_TYPE 65 kgsl_syncsource_destroy),
     Struct ''kgsl_syncsource_create_fence'' kgsl_syncsource_create_fence,
     Request ''IOCTL_KGSL_SYNCSOURCE_CREATE_FENCE'' (IOWR KGSL_IOC_TYPE 66 kgsl_syncsource_create_fence),
     Struct ''kgsl_syncsource_signal_fence'' kgsl_syncsource_signal_fence,
     Request ''IOCTL_KGSL_SYNCSOURCE_SIGNAL_FENCE'' (IOWR KGSL_IOC_TYPE 67 kgsl_syncsource_signal_fence),
     Struct ''kgsl_cff_sync_gpuobj'' kgsl_cff_sync_gpuobj,
     Request ''IOCTL_KGSL_CFF_SYNC_GPUOBJ'' (IOW KGSL_IOC_TYPE 68 kgsl_cff_sync_gpuobj),
     Struct ''kgsl_gpuobj_alloc'' kgsl_gpuobj_alloc,
     Const ''KGSL_GPUOBJ_ALLOC_METADATA_MAX'' 64,
     Request ''IOCTL_KGSL_GPUOBJ_ALLOC'' (IOWR KGSL_IOC_TYPE 69 kgsl_gpuobj_alloc)]"

definition msm_kgsl_8 :: "decl list" where
  "msm_kgsl_8 =
    [Struct ''kgsl_gpuobj_free'' kgsl_gpuobj_free, Const ''KGSL_GPUOBJ_FREE_ON_EVENT'' 1,
     Const ''KGSL_GPU_EVENT_TIMESTAMP'' 1, Const ''KGSL_GPU_EVENT_FENCE'' 2,
     Struct ''kgsl_gpu_event_timestamp'' kgsl_gpu_event_timestamp,
     Struct ''kgsl_gpu_event_fence'' kgsl_gpu_event_fence,
     Request ''IOCTL_KGSL_GPUOBJ_FREE'' (IOW KGSL_IOC_TYPE 70 kgsl_gpuobj_free),
     Struct ''kgsl_gpuobj_info'' kgsl_gpuobj_info,
     Request ''IOCTL_KGSL_GPUOBJ_INFO'' (IOWR KGSL_IOC_TYPE 71 kgsl_gpuobj_info),
     Struct ''kgsl_gpuobj_import'' kgsl_gpuobj_import,
     Struct ''kgsl_gpuobj_import_dma_buf'' kgsl_gpuobj_import_dma_buf,
     Struct ''kgsl_gpuobj_import_useraddr'' kgsl_gpuobj_import_useraddr,
     Request ''IOCTL_KGSL_GPUOBJ_IMPORT'' (IOWR KGSL_IOC_TYPE 72 kgsl_gpuobj_import),
     Struct ''kgsl_gpuobj_sync_obj'' kgsl_gpuobj_sync_obj,
     Struct ''kgsl_gpuobj_sync'' kgsl_gpuobj_sync,
     Request ''IOCTL_KGSL_GPUOBJ_SYNC'' (IOW KGSL_IOC_TYPE 73 kgsl_gpuobj_sync),
     Struct ''kgsl_command_object'' kgsl_command_object,
     Struct ''kgsl_command_syncpoint'' kgsl_command_syncpoint,
     Struct ''kgsl_gpu_command'' kgsl_gpu_command,
     Request ''IOCTL_KGSL_GPU_COMMAND'' (IOWR KGSL_IOC_TYPE 74 kgsl_gpu_command),
     Struct ''kgsl_preemption_counters_query'' kgsl_preemption_counters_query,
     Request ''IOCTL_KGSL_PREEMPTIONCOUNTER_QUERY'' (IOWR KGSL_IOC_TYPE 75 kgsl_preemption_counters_query),
     Const ''KGSL_GPUOBJ_SET_INFO_METADATA'' (2 ^ 0),
     Const ''KGSL_GPUOBJ_SET_INFO_TYPE'' (2 ^ 1),
     Struct ''kgsl_gpuobj_set_info'' kgsl_gpuobj_set_info,
     Request ''IOCTL_KGSL_GPUOBJ_SET_INFO'' (IOW KGSL_IOC_TYPE 76 kgsl_gpuobj_set_info),
     Struct ''kgsl_sparse_phys_alloc'' kgsl_sparse_phys_alloc,
     Request ''IOCTL_KGSL_SPARSE_PHYS_ALLOC'' (IOWR KGSL_IOC_TYPE 80 kgsl_sparse_phys_alloc),
     Struct ''kgsl_sparse_phys_free'' kgsl_sparse_phys_free,
     Request ''IOCTL_KGSL_SPARSE_PHYS_FREE'' (IOW KGSL_IOC_TYPE 81 kgsl_sparse_phys_free),
     Struct ''kgsl_sparse_virt_alloc'' kgsl_sparse_virt_alloc,
     Request ''IOCTL_KGSL_SPARSE_VIRT_ALLOC'' (IOWR KGSL_IOC_TYPE 82 kgsl_sparse_virt_alloc),
     Struct ''kgsl_sparse_virt_free'' kgsl_sparse_virt_free,
     Request ''IOCTL_KGSL_SPARSE_VIRT_FREE'' (IOW KGSL_IOC_TYPE 83 kgsl_sparse_virt_free),
     Struct ''kgsl_sparse_binding_object'' kgsl_sparse_binding_object,
     Struct ''kgsl_sparse_bind'' kgsl_sparse_bind,
     Request ''IOCTL_KGSL_SPARSE_BIND'' (IOW KGSL_IOC_TYPE 84 kgsl_sparse_bind),
     Struct ''kgsl_gpu_sparse_command'' kgsl_gpu_sparse_command,
     Request ''IOCTL_KGSL_GPU_SPARSE_COMMAND'' (IOWR KGSL_IOC_TYPE 85 kgsl_gpu_sparse_command)]"

definition msm_kgsl_h :: "decl list" where
  "msm_kgsl_h = msm_kgsl_1 @ msm_kgsl_2 @ msm_kgsl_3 @ msm_kgsl_4 @ msm_kgsl_5 @ msm_kgsl_6 @ msm_kgsl_7 @
     msm_kgsl_8"

subsection \<open>linux/ion.h\<close>

abbreviation ion_allocation_data :: ctype where
  "ion_allocation_data \<equiv>
     StructT Natural [(''len'', ulongT), (''align'', ulongT), (''heap_id_mask'', u32),
      (''flags'', u32), (''handle'', s32)]"

abbreviation ion_fd_data :: ctype where
  "ion_fd_data \<equiv>
     StructT Natural [(''handle'', s32), (''fd'', s32)]"

abbreviation ion_handle_data :: ctype where
  "ion_handle_data \<equiv>
     StructT Natural [(''handle'', s32)]"

abbreviation ion_custom_data :: ctype where
  "ion_custom_data \<equiv>
     StructT Natural [(''cmd'', u32), (''arg'', ulongT)]"

definition ion_1 :: "decl list" where
  "ion_1 =
    [Flag ''_LINUX_ION_H'']"

abbreviation ION_IOC_MAGIC :: nat where "ION_IOC_MAGIC \<equiv> 73"

definition ion_2 :: "decl list" where
  "ion_2 =
    [Typedef ''ion_user_handle_t'' s32,
     Enum ''ion_heap_type'' [(''ION_HEAP_TYPE_SYSTEM'', 0), (''ION_HEAP_TYPE_SYSTEM_CONTIG'', 1),
       (''ION_HEAP_TYPE_CARVEOUT'', 2), (''ION_HEAP_TYPE_CHUNK'', 3), (''ION_HEAP_TYPE_DMA'', 4),
       (''ION_HEAP_TYPE_CUSTOM'', 5), (''ION_NUM_HEAPS'', 16)],
     Const ''ION_HEAP_SYSTEM_MASK'' 1, Const ''ION_HEAP_SYSTEM_CONTIG_MASK'' 2,
     Const ''ION_HEAP_CARVEOUT_MASK'' 4, Const ''ION_HEAP_TYPE_DMA_MASK'' 16,
     Const ''ION_NUM_HEAP_IDS'' 32, Const ''ION_FLAG_CACHED'' 1,
     Const ''ION_FLAG_CACHED_NEEDS_SYNC'' 2, Struct ''ion_allocation_data'' ion_allocation_data,
     Struct ''ion_fd_data'' ion_fd_data, Struct ''ion_handle_data'' ion_handle_data,
     Struct ''ion_custom_data'' ion_custom_data, Const ''ION_IOC_MAGIC'' 73,
     Request ''ION_IOC_ALLOC'' (IOWR ION_IOC_MAGIC 0 ion_allocation_data),
     Request ''ION_IOC_FREE'' (IOWR ION_IOC_MAGIC 1 ion_handle_data),
     Request ''ION_IOC_MAP'' (IOWR ION_IOC_MAGIC 2 ion_fd_data),
     Request ''ION_IOC_SHARE'' (IOWR ION_IOC_MAGIC 4 ion_fd_data),
     Request ''ION_IOC_IMPORT'' (IOWR ION_IOC_MAGIC 5 ion_fd_data),
     Request ''ION_IOC_SYNC'' (IOWR ION_IOC_MAGIC 7 ion_fd_data),
     Request ''ION_IOC_CUSTOM'' (IOWR ION_IOC_MAGIC 6 ion_custom_data)]"

definition ion_h :: "decl list" where
  "ion_h = ion_1 @ ion_2"

subsection \<open>linux/msm_ion.h\<close>

abbreviation ion_flush_data :: ctype where
  "ion_flush_data \<equiv>
     StructT Natural [(''handle'', s32), (''fd'', s32), (''vaddr'', PtrT), (''offset'', u32),
      (''length'', u32)]"

abbreviation ion_prefetch_regions :: ctype where
  "ion_prefetch_regions \<equiv>
     StructT Natural [(''vmid'', u32), (''sizes'', PtrT), (''nr_sizes'', u32)]"

abbreviation ion_prefetch_data :: ctype where
  "ion_prefetch_data \<equiv>
     StructT Natural [(''heap_id'', s32), (''len'', ulongT), (''regions'', PtrT),
      (''nr_regions'', u32)]"

definition msm_ion_1 :: "decl list" where
  "msm_ion_1 =
    [Flag ''_MSM_ION_H'']"

definition msm_ion_2 :: "decl list" where
  "msm_ion_2 =
    [Enum ''msm_ion_heap_types'' [(''ION_HEAP_TYPE_MSM_START'', 6),
       (''ION_HEAP_TYPE_SECURE_DMA'', 6), (''ION_HEAP_TYPE_SYSTEM_SECURE'', 7),
       (''ION_HEAP_TYPE_HYP_CMA'', 8), (''ION_HEAP_TYPE_SECURE_CARVEOUT'', 9)],
     Enum ''ion_heap_ids'' [(''INVALID_HEAP_ID'', -1), (''ION_CP_MM_HEAP_ID'', 8),
       (''ION_SECURE_HEAP_ID'', 9), (''ION_SECURE_DISPLAY_HEAP_ID'', 10),
       (''ION_CP_MFC_HEAP_ID'', 12), (''ION_SPSS_HEAP_ID'', 13),
       (''ION_SECURE_CARVEOUT_HEAP_ID'', 14), (''ION_CP_WB_HEAP_ID'', 16),
       (''ION_QSECOM_TA_HEAP_ID'', 19), (''ION_CAMERA_HEAP_ID'', 20),
       (''ION_SYSTEM_CONTIG_HEAP_ID'', 21), (''ION_ADSP_HEAP_ID'', 22),
       (''ION_PIL1_HEAP_ID'', 23), (''ION_SF_HEAP_ID'', 24), (''ION_SYSTEM_HEAP_ID'', 25),
       (''ION_PIL2_HEAP_ID'', 26), (''ION_QSECOM_HEAP_ID'', 27), (''ION_AUDIO_HEAP_ID'', 28),
       (''ION_MM_FIRMWARE_HEAP_ID'', 29), (''ION_GOOGLE_HEAP_ID'', 30),
       (''ION_HEAP_ID_RESERVED'', 31)],
     Const ''ION_IOMMU_HEAP_ID'' 25, Const ''ION_HEAP_TYPE_IOMMU'' 0,
     Const ''ION_SPSS_HEAP_ID'' 13,
     Enum ''ion_fixed_position'' [(''NOT_FIXED'', 0), (''FIXED_LOW'', 1), (''FIXED_MIDDLE'', 2),
       (''FIXED_HIGH'', 3)],
     Enum ''cp_mem_usage'' [(''VIDEO_BITSTREAM'', 1), (''VIDEO_PIXEL'', 2),
       (''VIDEO_NONPIXEL'', 3), (''DISPLAY_SECURE_CP_USAGE'', 4),
       (''CAMERA_SECURE_CP_USAGE'', 5), (''MAX_USAGE'', 6), (''UNKNOWN'', 2147483647)],
     Const ''ION_FLAG_CP_TOUCH'' 131072, Const ''ION_FLAG_CP_BITSTREAM'' 262144,
     Const ''ION_FLAG_CP_PIXEL'' 524288, Const ''ION_FLAG_CP_NON_PIXEL'' 1048576,
     Const ''ION_FLAG_CP_CAMERA'' 2097152, Const ''ION_FLAG_CP_HLOS'' 4194304,
     Const ''ION_FLAG_CP_SPSS_SP'' 8388608, Const ''ION_FLAG_CP_SPSS_SP_SHARED'' 16777216,
     Const ''ION_FLAG_CP_SEC_DISPLAY'' 33554432, Const ''ION_FLAG_CP_APP'' 67108864,
     Const ''ION_FLAG_CP_CAMERA_PREVIEW'' 134217728, Const ''ION_FLAG_CP_CDSP'' 536870912,
     Const ''ION_FLAG_CP_SPSS_HLOS_SHARED'' 1073741824,
     Const ''ION_FLAG_ALLOW_NON_CONTIG'' 268435456, Const ''ION_FLAG_SECURE'' 2147483648,
     Const ''ION_FLAG_POOL_FORCE_ALLOC'' 65536, Const ''ION_SECURE'' 2147483648]"

definition msm_ion_3 :: "decl list" where
  "msm_ion_3 =
    [Text ''ION_ADSP_HEAP_NAME'' ''adsp'', Text ''ION_SYSTEM_HEAP_NAME'' ''system'',
     Text ''ION_VMALLOC_HEAP_NAME'' ''system'', Text ''ION_KMALLOC_HEAP_NAME'' ''kmalloc'',
     Text ''ION_AUDIO_HEAP_NAME'' ''audio'', Text ''ION_SF_HEAP_NAME'' ''sf'',
     Text ''ION_MM_HEAP_NAME'' ''mm'', Text ''ION_CAMERA_HEAP_NAME'' ''camera_preview'',
     Text ''ION_IOMMU_HEAP_NAME'' ''iommu'', Text ''ION_MFC_HEAP_NAME'' ''mfc'',
     Text ''ION_SPSS_HEAP_NAME'' ''spss'',
     Text ''ION_SECURE_CARVEOUT_HEAP_NAME'' ''secure_carveout'',
     Text ''ION_WB_HEAP_NAME'' ''wb'', Text ''ION_MM_FIRMWARE_HEAP_NAME'' ''mm_fw'',
     Text ''ION_GOOGLE_HEAP_NAME'' ''easel_mem'', Text ''ION_PIL1_HEAP_NAME'' ''pil_1'',
     Text ''ION_PIL2_HEAP_NAME'' ''pil_2'', Text ''ION_QSECOM_HEAP_NAME'' ''qsecom'',
     Text ''ION_QSECOM_TA_HEAP_NAME'' ''qsecom_ta'',
     Text ''ION_SECURE_HEAP_NAME'' ''secure_heap'',
     Text ''ION_SECURE_DISPLAY_HEAP_NAME'' ''secure_display'']"

abbreviation ION_IOC_MSM_MAGIC :: nat where "ION_IOC_MSM_MAGIC \<equiv> 77"

definition msm_ion_4 :: "decl list" where
  "msm_ion_4 =
    [Struct ''ion_flush_data'' ion_flush_data,
     Struct ''ion_prefetch_regions'' ion_prefetch_regions,
     Struct ''ion_prefetch_data'' ion_prefetch_data, Const ''ION_IOC_MSM_MAGIC'' 77,
     Request ''ION_IOC_CLEAN_CACHES'' (IOWR ION_IOC_MSM_MAGIC 0 ion_flush_data),
     Request ''ION_IOC_INV_CACHES'' (IOWR ION_IOC_MSM_MAGIC 1 ion_flush_data),
     Request ''ION_IOC_CLEAN_INV_CACHES'' (IOWR ION_IOC_MSM_MAGIC 2 ion_flush_data),
     Request ''ION_IOC_PREFETCH'' (IOWR ION_IOC_MSM_MAGIC 3 ion_prefetch_data),
     Request ''ION_IOC_DRAIN'' (IOWR ION_IOC_MSM_MAGIC 4 ion_prefetch_data)]"

definition msm_ion_h :: "decl list" where
  "msm_ion_h = msm_ion_1 @ msm_ion_2 @ msm_ion_3 @ msm_ion_4"

end
