(* ===== verification/SanMdp.thy ===== *)
theory SanMdp
  imports CLayout
begin

text \<open>
  The headers programs are built with (under sdm710/kernel-headers, stripped of comments) of
  the frame buffer, display and rotator drivers (linux/msm\_mdp.h and others): every
  structure and union with its fields in order; then, for every file, the list of its
  declarations, in blocks: structures, enumerations, number macros and device requests. A
  type of the C library or of a header that is not in the repository is a foreign type.
\<close>

subsection \<open>linux/msm_mdp.h\<close>

abbreviation mdp_rect :: ctype where
  "mdp_rect \<equiv>
     StructT Natural [(''x'', u32), (''y'', u32), (''w'', u32), (''h'', u32)]"

abbreviation mdp_img :: ctype where
  "mdp_img \<equiv>
     StructT Natural [(''width'', u32), (''height'', u32), (''format'', u32), (''offset'', u32),
      (''memory_id'', s32), (''priv'', u32)]"

abbreviation mult_factor :: ctype where
  "mult_factor \<equiv>
     StructT Natural [(''numer'', u32), (''denom'', u32)]"

abbreviation MDP_CCS_SIZE :: nat where "MDP_CCS_SIZE \<equiv> 9"

abbreviation MDP_BV_SIZE :: nat where "MDP_BV_SIZE \<equiv> 3"

abbreviation mdp_ccs :: ctype where
  "mdp_ccs \<equiv>
     StructT Natural [(''direction'', s32), (''ccs'', ArrT u16 MDP_CCS_SIZE),
      (''bv'', ArrT u16 MDP_BV_SIZE)]"

abbreviation mdp_csc :: ctype where
  "mdp_csc \<equiv>
     StructT Natural [(''id'', s32), (''csc_mv'', ArrT u32 9), (''csc_pre_bv'', ArrT u32 3),
      (''csc_post_bv'', ArrT u32 3), (''csc_pre_lv'', ArrT u32 6), (''csc_post_lv'', ArrT u32 6)]"

abbreviation color :: ctype where
  "color \<equiv>
     StructT Natural [(''r'', u32), (''g'', u32), (''b'', u32), (''alpha'', u32)]"

abbreviation mdp_blit_req :: ctype where
  "mdp_blit_req \<equiv>
     StructT Natural [(''src'', mdp_img), (''dst'', mdp_img), (''src_rect'', mdp_rect),
      (''dst_rect'', mdp_rect), (''const_color'', color), (''alpha'', u32),
      (''transp_mask'', u32), (''flags'', u32), (''sharpening_strength'', s32),
      (''color_space'', u8), (''fps'', u32)]"

abbreviation mdp_blit_req_list :: ctype where
  "mdp_blit_req_list \<equiv>
     StructT Natural [(''count'', u32), (''req'', ArrT mdp_blit_req 0)]"

abbreviation msmfb_data :: ctype where
  "msmfb_data \<equiv>
     StructT Natural [(''offset'', u32), (''memory_id'', s32), (''id'', s32), (''flags'', u32),
      (''priv'', u32), (''iova'', u32)]"

abbreviation msmfb_overlay_data :: ctype where
  "msmfb_overlay_data \<equiv>
     StructT Natural [(''id'', u32), (''data'', msmfb_data), (''version_key'', u32),
      (''plane1_data'', msmfb_data), (''plane2_data'', msmfb_data), (''dst_data'', msmfb_data)]"

abbreviation msmfb_img :: ctype where
  "msmfb_img \<equiv>
     StructT Natural [(''width'', u32), (''height'', u32), (''format'', u32)]"

abbreviation msmfb_writeback_data :: ctype where
  "msmfb_writeback_data \<equiv>
     StructT Natural [(''buf_info'', msmfb_data), (''img'', msmfb_img)]"

abbreviation mdp_qseed_cfg :: ctype where
  "mdp_qseed_cfg \<equiv>
     StructT Natural [(''table_num'', u32), (''ops'', u32), (''len'', u32), (''data'', PtrT)]"

abbreviation mdp_sharp_cfg :: ctype where
  "mdp_sharp_cfg \<equiv>
     StructT Natural [(''flags'', u32), (''strength'', u32), (''edge_thr'', u32),
      (''smooth_thr'', u32), (''noise_thr'', u32)]"

abbreviation mdp_qseed_cfg_data :: ctype where
  "mdp_qseed_cfg_data \<equiv>
     StructT Natural [(''block'', u32), (''qseed_data'', mdp_qseed_cfg)]"

abbreviation MDP_CSC_MATRIX_COEFF_SIZE :: nat where "MDP_CSC_MATRIX_COEFF_SIZE \<equiv> 9"

abbreviation MDP_CSC_BIAS_SIZE :: nat where "MDP_CSC_BIAS_SIZE \<equiv> 3"

abbreviation MDP_CSC_CLAMP_SIZE :: nat where "MDP_CSC_CLAMP_SIZE \<equiv> 6"

abbreviation mdp_csc_cfg :: ctype where
  "mdp_csc_cfg \<equiv>
     StructT Natural [(''flags'', u32), (''csc_mv'', ArrT u32 MDP_CSC_MATRIX_COEFF_SIZE),
      (''csc_pre_bv'', ArrT u32 MDP_CSC_BIAS_SIZE),
      (''csc_post_bv'', ArrT u32 MDP_CSC_BIAS_SIZE),
      (''csc_pre_lv'', ArrT u32 MDP_CSC_CLAMP_SIZE),
      (''csc_post_lv'', ArrT u32 MDP_CSC_CLAMP_SIZE)]"

abbreviation mdp_csc_cfg_data :: ctype where
  "mdp_csc_cfg_data \<equiv>
     StructT Natural [(''block'', u32), (''csc_data'', mdp_csc_cfg)]"

abbreviation mdp_pa_cfg :: ctype where
  "mdp_pa_cfg \<equiv>
     StructT Natural [(''flags'', u32), (''hue_adj'', u32), (''sat_adj'', u32),
      (''val_adj'', u32), (''cont_adj'', u32)]"

abbreviation mdp_pa_mem_col_cfg :: ctype where
  "mdp_pa_mem_col_cfg \<equiv>
     StructT Natural [(''color_adjust_p0'', u32), (''color_adjust_p1'', u32),
      (''hue_region'', u32), (''sat_region'', u32), (''val_region'', u32)]"

abbreviation mdp_pa_v2_data :: ctype where
  "mdp_pa_v2_data \<equiv>
     StructT Natural [(''flags'', u32), (''global_hue_adj'', u32), (''global_sat_adj'', u32),
      (''global_val_adj'', u32), (''global_cont_adj'', u32), (''skin_cfg'', mdp_pa_mem_col_cfg),
      (''sky_cfg'', mdp_pa_mem_col_cfg), (''fol_cfg'', mdp_pa_mem_col_cfg),
      (''six_zone_len'', u32), (''six_zone_thresh'', u32), (''six_zone_curve_p0'', PtrT),
      (''six_zone_curve_p1'', PtrT)]"

abbreviation mdp_pa_mem_col_data_v1_7 :: ctype where
  "mdp_pa_mem_col_data_v1_7 \<equiv>
     StructT Natural [(''color_adjust_p0'', u32), (''color_adjust_p1'', u32),
      (''color_adjust_p2'', u32), (''blend_gain'', u32), (''sat_hold'', u8), (''val_hold'', u8),
      (''hue_region'', u32), (''sat_region'', u32), (''val_region'', u32)]"

abbreviation mdp_pa_data_v1_7 :: ctype where
  "mdp_pa_data_v1_7 \<equiv>
     StructT Natural [(''mode'', u32), (''global_hue_adj'', u32), (''global_sat_adj'', u32),
      (''global_val_adj'', u32), (''global_cont_adj'', u32),
      (''skin_cfg'', mdp_pa_mem_col_data_v1_7), (''sky_cfg'', mdp_pa_mem_col_data_v1_7),
      (''fol_cfg'', mdp_pa_mem_col_data_v1_7), (''six_zone_thresh'', u32),
      (''six_zone_adj_p0'', u32), (''six_zone_adj_p1'', u32), (''six_zone_sat_hold'', u8),
      (''six_zone_val_hold'', u8), (''six_zone_len'', u32), (''six_zone_curve_p0'', PtrT),
      (''six_zone_curve_p1'', PtrT)]"

abbreviation mdp_pa_v2_cfg_data :: ctype where
  "mdp_pa_v2_cfg_data \<equiv>
     StructT Natural [(''version'', u32), (''block'', u32), (''flags'', u32),
      (''pa_v2_data'', mdp_pa_v2_data), (''cfg_payload'', PtrT)]"

abbreviation mdp_igc_lut_data :: ctype where
  "mdp_igc_lut_data \<equiv>
     StructT Natural [(''block'', u32), (''version'', u32), (''len'', u32), (''ops'', u32),
      (''c0_c1_data'', PtrT), (''c2_data'', PtrT), (''cfg_payload'', PtrT)]"

abbreviation mdp_igc_lut_data_v1_7 :: ctype where
  "mdp_igc_lut_data_v1_7 \<equiv>
     StructT Natural [(''table_fmt'', u32), (''len'', u32), (''c0_c1_data'', PtrT),
      (''c2_data'', PtrT)]"

abbreviation mdp_igc_lut_data_payload :: ctype where
  "mdp_igc_lut_data_payload \<equiv>
     StructT Natural [(''table_fmt'', u32), (''len'', u32), (''c0_c1_data'', u64),
      (''c2_data'', u64), (''strength'', u32)]"

abbreviation mdp_histogram_cfg :: ctype where
  "mdp_histogram_cfg \<equiv>
     StructT Natural [(''ops'', u32), (''block'', u32), (''frame_cnt'', u8), (''bit_mask'', u8),
      (''num_bins'', u16)]"

abbreviation mdp_hist_lut_data_v1_7 :: ctype where
  "mdp_hist_lut_data_v1_7 \<equiv>
     StructT Natural [(''len'', u32), (''data'', PtrT)]"

abbreviation mdp_hist_lut_data :: ctype where
  "mdp_hist_lut_data \<equiv>
     StructT Natural [(''block'', u32), (''version'', u32), (''hist_lut_first'', u32),
      (''ops'', u32), (''len'', u32), (''data'', PtrT), (''cfg_payload'', PtrT)]"

abbreviation mdp_pcc_coeff :: ctype where
  "mdp_pcc_coeff \<equiv>
     StructT Natural [(''c'', u32), (''r'', u32), (''g'', u32), (''b'', u32), (''rr'', u32),
      (''gg'', u32), (''bb'', u32), (''rg'', u32), (''gb'', u32), (''rb'', u32),
      (''rgb_0'', u32), (''rgb_1'', u32)]"

abbreviation mdp_pcc_coeff_v1_7 :: ctype where
  "mdp_pcc_coeff_v1_7 \<equiv>
     StructT Natural [(''c'', u32), (''r'', u32), (''g'', u32), (''b'', u32), (''rg'', u32),
      (''gb'', u32), (''rb'', u32), (''rgb'', u32)]"

abbreviation mdp_pcc_data_v1_7 :: ctype where
  "mdp_pcc_data_v1_7 \<equiv>
     StructT Natural [(''r'', mdp_pcc_coeff_v1_7), (''g'', mdp_pcc_coeff_v1_7),
      (''b'', mdp_pcc_coeff_v1_7)]"

abbreviation mdp_pcc_cfg_data :: ctype where
  "mdp_pcc_cfg_data \<equiv>
     StructT Natural [(''version'', u32), (''block'', u32), (''ops'', u32),
      (''r'', mdp_pcc_coeff), (''g'', mdp_pcc_coeff), (''b'', mdp_pcc_coeff),
      (''cfg_payload'', PtrT)]"

abbreviation mdp_overlay_pp_params :: ctype where
  "mdp_overlay_pp_params \<equiv>
     StructT Natural [(''config_ops'', u32), (''csc_cfg'', mdp_csc_cfg),
      (''qseed_cfg'', ArrT mdp_qseed_cfg 2), (''pa_cfg'', mdp_pa_cfg),
      (''pa_v2_cfg'', mdp_pa_v2_data), (''igc_cfg'', mdp_igc_lut_data),
      (''sharp_cfg'', mdp_sharp_cfg), (''hist_cfg'', mdp_histogram_cfg),
      (''hist_lut_cfg'', mdp_hist_lut_data), (''pa_v2_cfg_data'', mdp_pa_v2_cfg_data),
      (''pcc_cfg_data'', mdp_pcc_cfg_data)]"

abbreviation MAX_PLANES :: nat where "MAX_PLANES \<equiv> 4"

abbreviation mdp_scale_data :: ctype where
  "mdp_scale_data \<equiv>
     StructT Natural [(''enable_pxl_ext'', u8), (''init_phase_x'', ArrT s32 MAX_PLANES),
      (''phase_step_x'', ArrT s32 MAX_PLANES), (''init_phase_y'', ArrT s32 MAX_PLANES),
      (''phase_step_y'', ArrT s32 MAX_PLANES), (''num_ext_pxls_left'', ArrT s32 MAX_PLANES),
      (''num_ext_pxls_right'', ArrT s32 MAX_PLANES),
      (''num_ext_pxls_top'', ArrT s32 MAX_PLANES), (''num_ext_pxls_btm'', ArrT s32 MAX_PLANES),
      (''left_ftch'', ArrT s32 MAX_PLANES), (''left_rpt'', ArrT s32 MAX_PLANES),
      (''right_ftch'', ArrT s32 MAX_PLANES), (''right_rpt'', ArrT s32 MAX_PLANES),
      (''top_rpt'', ArrT s32 MAX_PLANES), (''btm_rpt'', ArrT s32 MAX_PLANES),
      (''top_ftch'', ArrT s32 MAX_PLANES), (''btm_ftch'', ArrT s32 MAX_PLANES),
      (''roi_w'', ArrT u32 MAX_PLANES)]"

abbreviation mdp_overlay :: ctype where
  "mdp_overlay \<equiv>
     StructT Natural [(''src'', msmfb_img), (''src_rect'', mdp_rect), (''dst_rect'', mdp_rect),
      (''z_order'', u32), (''is_fg'', u32), (''alpha'', u32), (''blend_op'', u32),
      (''transp_mask'', u32), (''flags'', u32), (''pipe_type'', u32), (''id'', u32),
      (''priority'', u8), (''user_data'', ArrT u32 6), (''bg_color'', u32), (''horz_deci'', u8),
      (''vert_deci'', u8), (''overlay_pp_cfg'', mdp_overlay_pp_params),
      (''scale'', mdp_scale_data), (''color_space'', u8), (''frame_rate'', u32)]"

abbreviation msmfb_overlay_3d :: ctype where
  "msmfb_overlay_3d \<equiv>
     StructT Natural [(''is_3d'', u32), (''width'', u32), (''height'', u32)]"

abbreviation msmfb_overlay_blt :: ctype where
  "msmfb_overlay_blt \<equiv>
     StructT Natural [(''enable'', u32), (''offset'', u32), (''width'', u32), (''height'', u32),
      (''bpp'', u32)]"

abbreviation mdp_histogram :: ctype where
  "mdp_histogram \<equiv>
     StructT Natural [(''frame_cnt'', u32), (''bin_cnt'', u32), (''r'', PtrT), (''g'', PtrT),
      (''b'', PtrT)]"

abbreviation MISR_CRC_BATCH_SIZE :: nat where "MISR_CRC_BATCH_SIZE \<equiv> 32"

abbreviation mdp_misr :: ctype where
  "mdp_misr \<equiv>
     StructT Natural [(''block_id'', u32), (''frame_count'', u32), (''crc_op_mode'', u32),
      (''crc_value'', ArrT u32 MISR_CRC_BATCH_SIZE)]"

abbreviation mdp_histogram_start_req :: ctype where
  "mdp_histogram_start_req \<equiv>
     StructT Natural [(''block'', u32), (''frame_cnt'', u8), (''bit_mask'', u8),
      (''num_bins'', u16)]"

abbreviation mdp_histogram_data :: ctype where
  "mdp_histogram_data \<equiv>
     StructT Natural [(''block'', u32), (''bin_cnt'', u32), (''c0'', PtrT), (''c1'', PtrT),
      (''c2'', PtrT), (''extra_info'', PtrT)]"

abbreviation mdp_ar_gc_lut_data :: ctype where
  "mdp_ar_gc_lut_data \<equiv>
     StructT Natural [(''x_start'', u32), (''slope'', u32), (''offset'', u32)]"

abbreviation mdp_pgc_lut_data :: ctype where
  "mdp_pgc_lut_data \<equiv>
     StructT Natural [(''version'', u32), (''block'', u32), (''flags'', u32),
      (''num_r_stages'', u8), (''num_g_stages'', u8), (''num_b_stages'', u8),
      (''r_data'', PtrT), (''g_data'', PtrT), (''b_data'', PtrT), (''cfg_payload'', PtrT)]"

abbreviation mdp_pgc_lut_data_v1_7 :: ctype where
  "mdp_pgc_lut_data_v1_7 \<equiv>
     StructT Natural [(''len'', u32), (''c0_data'', PtrT), (''c1_data'', PtrT),
      (''c2_data'', PtrT)]"

abbreviation mdp_rgb_lut_data :: ctype where
  "mdp_rgb_lut_data \<equiv>
     StructT Natural [(''flags'', u32), (''lut_type'', u32),
      (''cmap'', ForeignT ''struct fb_cmap'')]"

abbreviation mdp_lut_cfg_data :: ctype where
  "mdp_lut_cfg_data \<equiv>
     StructT Natural [(''lut_type'', u32),
      (''data'', UnionT Natural [(''igc_lut_data'', mdp_igc_lut_data),
      (''pgc_lut_data'', mdp_pgc_lut_data), (''hist_lut_data'', mdp_hist_lut_data),
      (''rgb_lut_data'', mdp_rgb_lut_data)])]"

abbreviation mdp_bl_scale_data :: ctype where
  "mdp_bl_scale_data \<equiv>
     StructT Natural [(''min_lvl'', u32), (''scale'', u32)]"

abbreviation mdp_pa_cfg_data :: ctype where
  "mdp_pa_cfg_data \<equiv>
     StructT Natural [(''block'', u32), (''pa_data'', mdp_pa_cfg)]"

abbreviation MDP_DITHER_DATA_V1_7_SZ :: nat where "MDP_DITHER_DATA_V1_7_SZ \<equiv> 16"

abbreviation mdp_dither_data_v1_7 :: ctype where
  "mdp_dither_data_v1_7 \<equiv>
     StructT Natural [(''g_y_depth'', u32), (''r_cr_depth'', u32), (''b_cb_depth'', u32),
      (''len'', u32), (''data'', ArrT u32 MDP_DITHER_DATA_V1_7_SZ), (''temporal_en'', u32)]"

abbreviation mdp_pa_dither_data :: ctype where
  "mdp_pa_dither_data \<equiv>
     StructT Natural [(''data_flags'', u64), (''matrix_sz'', u32), (''matrix_data'', u64),
      (''strength'', u32), (''offset_en'', u32)]"

abbreviation mdp_dither_cfg_data :: ctype where
  "mdp_dither_cfg_data \<equiv>
     StructT Natural [(''version'', u32), (''block'', u32), (''flags'', u32), (''mode'', u32),
      (''g_y_depth'', u32), (''r_cr_depth'', u32), (''b_cb_depth'', u32),
      (''cfg_payload'', PtrT)]"

abbreviation MDP_GAMUT_TABLE_NUM :: nat where "MDP_GAMUT_TABLE_NUM \<equiv> 8"

abbreviation mdp_gamut_cfg_data :: ctype where
  "mdp_gamut_cfg_data \<equiv>
     StructT Natural [(''block'', u32), (''flags'', u32), (''version'', u32),
      (''gamut_first'', u32), (''tbl_size'', ArrT u32 MDP_GAMUT_TABLE_NUM),
      (''r_tbl'', ArrT PtrT MDP_GAMUT_TABLE_NUM), (''g_tbl'', ArrT PtrT MDP_GAMUT_TABLE_NUM),
      (''b_tbl'', ArrT PtrT MDP_GAMUT_TABLE_NUM), (''cfg_payload'', PtrT)]"

abbreviation MDP_GAMUT_TABLE_NUM_V1_7 :: nat where "MDP_GAMUT_TABLE_NUM_V1_7 \<equiv> 4"

abbreviation MDP_GAMUT_SCALE_OFF_TABLE_NUM :: nat where "MDP_GAMUT_SCALE_OFF_TABLE_NUM \<equiv> 3"

abbreviation mdp_gamut_data_v1_7 :: ctype where
  "mdp_gamut_data_v1_7 \<equiv>
     StructT Natural [(''mode'', u32), (''map_en'', u32),
      (''tbl_size'', ArrT u32 MDP_GAMUT_TABLE_NUM_V1_7),
      (''c0_data'', ArrT PtrT MDP_GAMUT_TABLE_NUM_V1_7),
      (''c1_c2_data'', ArrT PtrT MDP_GAMUT_TABLE_NUM_V1_7),
      (''tbl_scale_off_sz'', ArrT u32 MDP_GAMUT_SCALE_OFF_TABLE_NUM),
      (''scale_off_data'', ArrT PtrT MDP_GAMUT_SCALE_OFF_TABLE_NUM)]"

abbreviation mdp_calib_config_data :: ctype where
  "mdp_calib_config_data \<equiv>
     StructT Natural [(''ops'', u32), (''addr'', u32), (''data'', u32)]"

abbreviation mdp_calib_config_buffer :: ctype where
  "mdp_calib_config_buffer \<equiv>
     StructT Natural [(''ops'', u32), (''size'', u32), (''buffer'', PtrT)]"

abbreviation mdp_calib_dcm_state :: ctype where
  "mdp_calib_dcm_state \<equiv>
     StructT Natural [(''ops'', u32), (''dcm_state'', u32)]"

abbreviation mdss_ad_init :: ctype where
  "mdss_ad_init \<equiv>
     StructT Natural [(''asym_lut'', ArrT u32 33), (''color_corr_lut'', ArrT u32 33),
      (''i_control'', ArrT u8 2), (''black_lvl'', u16), (''white_lvl'', u16), (''var'', u8),
      (''limit_ampl'', u8), (''i_dither'', u8), (''slope_max'', u8), (''slope_min'', u8),
      (''dither_ctl'', u8), (''format'', u8), (''auto_size'', u8), (''frame_w'', u16),
      (''frame_h'', u16), (''logo_v'', u8), (''logo_h'', u8), (''alpha'', u32),
      (''alpha_base'', u32), (''al_thresh'', u32), (''bl_lin_len'', u32), (''bl_att_len'', u32),
      (''bl_lin'', PtrT), (''bl_lin_inv'', PtrT), (''bl_att_lut'', PtrT)]"

abbreviation mdss_ad_cfg :: ctype where
  "mdss_ad_cfg \<equiv>
     StructT Natural [(''mode'', u32), (''al_calib_lut'', ArrT u32 33),
      (''backlight_min'', u16), (''backlight_max'', u16), (''backlight_scale'', u16),
      (''amb_light_min'', u16), (''filter'', ArrT u16 2), (''calib'', ArrT u16 4),
      (''strength_limit'', u8), (''t_filter_recursion'', u8), (''stab_itr'', u16),
      (''bl_ctrl_mode'', u32)]"

abbreviation mdss_ad_bl_cfg :: ctype where
  "mdss_ad_bl_cfg \<equiv>
     StructT Natural [(''bl_min_delta'', u32), (''bl_low_limit'', u32)]"

abbreviation mdss_ad_init_cfg :: ctype where
  "mdss_ad_init_cfg \<equiv>
     StructT Natural [(''ops'', u32), (''params'', UnionT Natural [(''init'', mdss_ad_init),
      (''cfg'', mdss_ad_cfg)])]"

abbreviation mdss_ad_input :: ctype where
  "mdss_ad_input \<equiv>
     StructT Natural [(''mode'', u32), (''in'', UnionT Natural [(''amb_light'', u32),
      (''strength'', u32), (''calib_bl'', u32)]), (''output'', u32)]"

abbreviation mdss_calib_cfg :: ctype where
  "mdss_calib_cfg \<equiv>
     StructT Natural [(''ops'', u32), (''calib_mask'', u32)]"

abbreviation msmfb_mdp_pp :: ctype where
  "msmfb_mdp_pp \<equiv>
     StructT Natural [(''op'', u32),
      (''data'', UnionT Natural [(''pcc_cfg_data'', mdp_pcc_cfg_data),
      (''csc_cfg_data'', mdp_csc_cfg_data), (''lut_cfg_data'', mdp_lut_cfg_data),
      (''qseed_cfg_data'', mdp_qseed_cfg_data), (''bl_scale_data'', mdp_bl_scale_data),
      (''pa_cfg_data'', mdp_pa_cfg_data), (''pa_v2_cfg_data'', mdp_pa_v2_cfg_data),
      (''dither_cfg_data'', mdp_dither_cfg_data), (''gamut_cfg_data'', mdp_gamut_cfg_data),
      (''calib_cfg'', mdp_calib_config_data), (''ad_init_cfg'', mdss_ad_init_cfg),
      (''mdss_calib_cfg'', mdss_calib_cfg), (''ad_input'', mdss_ad_input),
      (''calib_buffer'', mdp_calib_config_buffer), (''calib_dcm'', mdp_calib_dcm_state),
      (''ad_bl_cfg'', mdss_ad_bl_cfg)])]"

abbreviation mdp_blend_cfg :: ctype where
  "mdp_blend_cfg \<equiv>
     StructT Natural [(''is_premultiplied'', u32)]"

abbreviation mdp_mixer_cfg :: ctype where
  "mdp_mixer_cfg \<equiv>
     StructT Natural [(''writeback_format'', u32), (''alpha'', u32)]"

abbreviation mdss_hw_caps :: ctype where
  "mdss_hw_caps \<equiv>
     StructT Natural [(''mdp_rev'', u32), (''rgb_pipes'', u8), (''vig_pipes'', u8),
      (''dma_pipes'', u8), (''max_smp_cnt'', u8), (''smp_per_pipe'', u8), (''features'', u32)]"

abbreviation msmfb_metadata :: ctype where
  "msmfb_metadata \<equiv>
     StructT Natural [(''op'', u32), (''flags'', u32),
      (''data'', UnionT Natural [(''misr_request'', mdp_misr), (''blend_cfg'', mdp_blend_cfg),
      (''mixer_cfg'', mdp_mixer_cfg), (''panel_frame_rate'', u32), (''video_info_code'', u32),
      (''caps'', mdss_hw_caps), (''secure_en'', u8), (''fbmem_ionfd'', s32)])]"

abbreviation mdp_buf_sync :: ctype where
  "mdp_buf_sync \<equiv>
     StructT Natural [(''flags'', u32), (''acq_fen_fd_cnt'', u32), (''session_id'', u32),
      (''acq_fen_fd'', PtrT), (''rel_fen_fd'', PtrT), (''retire_fen_fd'', PtrT)]"

abbreviation mdp_async_blit_req_list :: ctype where
  "mdp_async_blit_req_list \<equiv>
     StructT Natural [(''sync'', mdp_buf_sync), (''count'', u32), (''req'', ArrT mdp_blit_req 0)]"

abbreviation mdp_display_commit :: ctype where
  "mdp_display_commit \<equiv>
     StructT Natural [(''flags'', u32), (''wait_for_finish'', u32),
      (''var'', ForeignT ''struct fb_var_screeninfo''), (''l_roi'', mdp_rect),
      (''r_roi'', mdp_rect)]"

abbreviation mdp_overlay_list :: ctype where
  "mdp_overlay_list \<equiv>
     StructT Natural [(''num_overlays'', u32), (''overlay_list'', PtrT), (''flags'', u32),
      (''processed_overlays'', u32)]"

abbreviation mdp_page_protection :: ctype where
  "mdp_page_protection \<equiv>
     StructT Natural [(''page_protection'', u32)]"

abbreviation mdp_mixer_info :: ctype where
  "mdp_mixer_info \<equiv>
     StructT Natural [(''pndx'', s32), (''pnum'', s32), (''ptype'', s32), (''mixer_num'', s32),
      (''z_order'', s32)]"

abbreviation MAX_PIPE_PER_MIXER :: nat where "MAX_PIPE_PER_MIXER \<equiv> 7"

abbreviation msmfb_mixer_info_req :: ctype where
  "msmfb_mixer_info_req \<equiv>
     StructT Natural [(''mixer_num'', s32), (''cnt'', s32),
      (''info'', ArrT mdp_mixer_info MAX_PIPE_PER_MIXER)]"

abbreviation mdp_pp_feature_version :: ctype where
  "mdp_pp_feature_version \<equiv>
     StructT Natural [(''pp_feature'', u32), (''version_info'', u32)]"

definition msm_mdp_1 :: "decl list" where
  "msm_mdp_1 =
    [Flag ''_MSM_MDP_H_'']"

abbreviation MSMFB_IOCTL_MAGIC :: nat where "MSMFB_IOCTL_MAGIC \<equiv> 109"

definition msm_mdp_2 :: "decl list" where
  "msm_mdp_2 =
    [Const ''MSMFB_IOCTL_MAGIC'' 109, Request ''MSMFB_GRP_DISP'' (IOW MSMFB_IOCTL_MAGIC 1 u32),
     Request ''MSMFB_BLIT'' (IOW MSMFB_IOCTL_MAGIC 2 u32),
     Request ''MSMFB_SUSPEND_SW_REFRESHER'' (IOW MSMFB_IOCTL_MAGIC 128 u32),
     Request ''MSMFB_RESUME_SW_REFRESHER'' (IOW MSMFB_IOCTL_MAGIC 129 u32),
     Request ''MSMFB_CURSOR'' (IOW MSMFB_IOCTL_MAGIC 130 (ForeignT ''struct fb_cursor'')),
     Request ''MSMFB_SET_LUT'' (IOW MSMFB_IOCTL_MAGIC 131 (ForeignT ''struct fb_cmap'')),
     Request ''MSMFB_HISTOGRAM'' (IOWR MSMFB_IOCTL_MAGIC 132 mdp_histogram_data),
     Request ''MSMFB_GET_CCS_MATRIX'' (IOWR MSMFB_IOCTL_MAGIC 133 mdp_ccs),
     Request ''MSMFB_SET_CCS_MATRIX'' (IOW MSMFB_IOCTL_MAGIC 134 mdp_ccs),
     Request ''MSMFB_OVERLAY_SET'' (IOWR MSMFB_IOCTL_MAGIC 135 mdp_overlay),
     Request ''MSMFB_OVERLAY_UNSET'' (IOW MSMFB_IOCTL_MAGIC 136 u32),
     Request ''MSMFB_OVERLAY_PLAY'' (IOW MSMFB_IOCTL_MAGIC 137 msmfb_overlay_data),
     Request ''MSMFB_OVERLAY_QUEUE'' (IOW MSMFB_IOCTL_MAGIC 137 msmfb_overlay_data),
     Request ''MSMFB_GET_PAGE_PROTECTION'' (IOR MSMFB_IOCTL_MAGIC 138 mdp_page_protection),
     Request ''MSMFB_SET_PAGE_PROTECTION'' (IOW MSMFB_IOCTL_MAGIC 139 mdp_page_protection),
     Request ''MSMFB_OVERLAY_GET'' (IOR MSMFB_IOCTL_MAGIC 140 mdp_overlay),
     Request ''MSMFB_OVERLAY_PLAY_ENABLE'' (IOW MSMFB_IOCTL_MAGIC 141 u32),
     Request ''MSMFB_OVERLAY_BLT'' (IOWR MSMFB_IOCTL_MAGIC 142 msmfb_overlay_blt),
     Request ''MSMFB_OVERLAY_BLT_OFFSET'' (IOW MSMFB_IOCTL_MAGIC 143 u32),
     Request ''MSMFB_HISTOGRAM_START'' (IOR MSMFB_IOCTL_MAGIC 144 mdp_histogram_start_req),
     Request ''MSMFB_HISTOGRAM_STOP'' (IOR MSMFB_IOCTL_MAGIC 145 u32),
     Request ''MSMFB_NOTIFY_UPDATE'' (IOWR MSMFB_IOCTL_MAGIC 146 u32),
     Request ''MSMFB_OVERLAY_3D'' (IOWR MSMFB_IOCTL_MAGIC 147 msmfb_overlay_3d),
     Request ''MSMFB_MIXER_INFO'' (IOWR MSMFB_IOCTL_MAGIC 148 msmfb_mixer_info_req),
     Request ''MSMFB_OVERLAY_PLAY_WAIT'' (IOWR MSMFB_IOCTL_MAGIC 149 msmfb_overlay_data),
     Request ''MSMFB_WRITEBACK_INIT'' (IO MSMFB_IOCTL_MAGIC 150),
     Request ''MSMFB_WRITEBACK_START'' (IO MSMFB_IOCTL_MAGIC 151),
     Request ''MSMFB_WRITEBACK_STOP'' (IO MSMFB_IOCTL_MAGIC 152),
     Request ''MSMFB_WRITEBACK_QUEUE_BUFFER'' (IOW MSMFB_IOCTL_MAGIC 153 msmfb_data),
     Request ''MSMFB_WRITEBACK_DEQUEUE_BUFFER'' (IOW MSMFB_IOCTL_MAGIC 154 msmfb_data),
     Request ''MSMFB_WRITEBACK_TERMINATE'' (IO MSMFB_IOCTL_MAGIC 155),
     Request ''MSMFB_MDP_PP'' (IOWR MSMFB_IOCTL_MAGIC 156 msmfb_mdp_pp),
     Request ''MSMFB_OVERLAY_VSYNC_CTRL'' (IOW MSMFB_IOCTL_MAGIC 160 u32),
     Request ''MSMFB_VSYNC_CTRL'' (IOW MSMFB_IOCTL_MAGIC 161 u32),
     Request ''MSMFB_BUFFER_SYNC'' (IOW MSMFB_IOCTL_MAGIC 162 mdp_buf_sync),
     Request ''MSMFB_OVERLAY_COMMIT'' (IO MSMFB_IOCTL_MAGIC 163),
     Request ''MSMFB_DISPLAY_COMMIT'' (IOW MSMFB_IOCTL_MAGIC 164 mdp_display_commit),
     Request ''MSMFB_METADATA_SET'' (IOW MSMFB_IOCTL_MAGIC 165 msmfb_metadata),
     Request ''MSMFB_METADATA_GET'' (IOW MSMFB_IOCTL_MAGIC 166 msmfb_metadata),
     Request ''MSMFB_WRITEBACK_SET_MIRRORING_HINT'' (IOW MSMFB_IOCTL_MAGIC 167 u32),
     Request ''MSMFB_ASYNC_BLIT'' (IOW MSMFB_IOCTL_MAGIC 168 u32),
     Request ''MSMFB_OVERLAY_PREPARE'' (IOWR MSMFB_IOCTL_MAGIC 169 mdp_overlay_list),
     Request ''MSMFB_LPM_ENABLE'' (IOWR MSMFB_IOCTL_MAGIC 170 u32),
     Request ''MSMFB_MDP_PP_GET_FEATURE_VERSION'' (IOWR MSMFB_IOCTL_MAGIC 171 mdp_pp_feature_version),
     Const ''FB_TYPE_3D_PANEL'' 0x10101010, Const ''MDP_IMGTYPE2_START'' 0x10000,
     Const ''MSMFB_DRIVER_VERSION'' 0xF9E8D701, Const ''MDP_IMGTYPE_END'' 0x100]"

definition msm_mdp_3 :: "decl list" where
  "msm_mdp_3 =
    [Const ''MDSS_MDP_HW_REV_100'' 268435456, Const ''MDSS_MDP_HW_REV_101'' 268500992,
     Const ''MDSS_MDP_HW_REV_101_1'' 268500993, Const ''MDSS_MDP_HW_REV_101_2'' 268500994,
     Const ''MDSS_MDP_HW_REV_102'' 268566528, Const ''MDSS_MDP_HW_REV_102_1'' 268566529,
     Const ''MDSS_MDP_HW_REV_103'' 268632064, Const ''MDSS_MDP_HW_REV_103_1'' 268632065,
     Const ''MDSS_MDP_HW_REV_105'' 268763136, Const ''MDSS_MDP_HW_REV_106'' 268828672,
     Const ''MDSS_MDP_HW_REV_107'' 268894208, Const ''MDSS_MDP_HW_REV_107_1'' 268894209,
     Const ''MDSS_MDP_HW_REV_107_2'' 268894210, Const ''MDSS_MDP_HW_REV_108'' 268959744,
     Const ''MDSS_MDP_HW_REV_109'' 269025280, Const ''MDSS_MDP_HW_REV_110'' 269090816,
     Const ''MDSS_MDP_HW_REV_200'' 536870912, Const ''MDSS_MDP_HW_REV_112'' 269221888,
     Const ''MDSS_MDP_HW_REV_114'' 269352960, Const ''MDSS_MDP_HW_REV_115'' 269418496,
     Const ''MDSS_MDP_HW_REV_116'' 269484032, Const ''MDSS_MDP_HW_REV_300'' 805306368,
     Const ''MDSS_MDP_HW_REV_301'' 805306369,
     Enum '''' [(''NOTIFY_UPDATE_INIT'', 0), (''NOTIFY_UPDATE_DEINIT'', 1),
       (''NOTIFY_UPDATE_START'', 2), (''NOTIFY_UPDATE_STOP'', 3),
       (''NOTIFY_UPDATE_POWER_OFF'', 4)],
     Enum '''' [(''NOTIFY_TYPE_NO_UPDATE'', 0), (''NOTIFY_TYPE_SUSPEND'', 1),
       (''NOTIFY_TYPE_UPDATE'', 2), (''NOTIFY_TYPE_BL_UPDATE'', 3),
       (''NOTIFY_TYPE_BL_AD_ATTEN_UPDATE'', 4)],
     Enum '''' [(''MDP_RGB_565'', 0), (''MDP_XRGB_8888'', 1), (''MDP_Y_CBCR_H2V2'', 2),
       (''MDP_Y_CBCR_H2V2_ADRENO'', 3), (''MDP_ARGB_8888'', 4), (''MDP_RGB_888'', 5),
       (''MDP_Y_CRCB_H2V2'', 6), (''MDP_YCRYCB_H2V1'', 7), (''MDP_CBYCRY_H2V1'', 8),
       (''MDP_Y_CRCB_H2V1'', 9), (''MDP_Y_CBCR_H2V1'', 10), (''MDP_Y_CRCB_H1V2'', 11),
       (''MDP_Y_CBCR_H1V2'', 12), (''MDP_RGBA_8888'', 13), (''MDP_BGRA_8888'', 14),
       (''MDP_RGBX_8888'', 15), (''MDP_Y_CRCB_H2V2_TILE'', 16), (''MDP_Y_CBCR_H2V2_TILE'', 17),
       (''MDP_Y_CR_CB_H2V2'', 18), (''MDP_Y_CR_CB_GH2V2'', 19), (''MDP_Y_CB_CR_H2V2'', 20),
       (''MDP_Y_CRCB_H1V1'', 21), (''MDP_Y_CBCR_H1V1'', 22), (''MDP_YCRCB_H1V1'', 23),
       (''MDP_YCBCR_H1V1'', 24), (''MDP_BGR_565'', 25), (''MDP_BGR_888'', 26),
       (''MDP_Y_CBCR_H2V2_VENUS'', 27), (''MDP_BGRX_8888'', 28), (''MDP_RGBA_8888_TILE'', 29),
       (''MDP_ARGB_8888_TILE'', 30), (''MDP_ABGR_8888_TILE'', 31), (''MDP_BGRA_8888_TILE'', 32),
       (''MDP_RGBX_8888_TILE'', 33), (''MDP_XRGB_8888_TILE'', 34), (''MDP_XBGR_8888_TILE'', 35),
       (''MDP_BGRX_8888_TILE'', 36), (''MDP_YCBYCR_H2V1'', 37), (''MDP_RGB_565_TILE'', 38),
       (''MDP_BGR_565_TILE'', 39), (''MDP_ARGB_1555'', 40), (''MDP_RGBA_5551'', 41),
       (''MDP_ARGB_4444'', 42), (''MDP_RGBA_4444'', 43), (''MDP_RGB_565_UBWC'', 44),
       (''MDP_RGBA_8888_UBWC'', 45), (''MDP_Y_CBCR_H2V2_UBWC'', 46),
       (''MDP_RGBX_8888_UBWC'', 47), (''MDP_Y_CRCB_H2V2_VENUS'', 48),
       (''MDP_IMGTYPE_LIMIT'', 49), (''MDP_RGB_BORDERFILL'', 50), (''MDP_XRGB_1555'', 51),
       (''MDP_RGBX_5551'', 52), (''MDP_XRGB_4444'', 53), (''MDP_RGBX_4444'', 54),
       (''MDP_ABGR_1555'', 55), (''MDP_BGRA_5551'', 56), (''MDP_XBGR_1555'', 57),
       (''MDP_BGRX_5551'', 58), (''MDP_ABGR_4444'', 59), (''MDP_BGRA_4444'', 60),
       (''MDP_XBGR_4444'', 61), (''MDP_BGRX_4444'', 62), (''MDP_ABGR_8888'', 63),
       (''MDP_XBGR_8888'', 64), (''MDP_RGBA_1010102'', 65), (''MDP_ARGB_2101010'', 66),
       (''MDP_RGBX_1010102'', 67), (''MDP_XRGB_2101010'', 68), (''MDP_BGRA_1010102'', 69),
       (''MDP_ABGR_2101010'', 70), (''MDP_BGRX_1010102'', 71), (''MDP_XBGR_2101010'', 72),
       (''MDP_RGBA_1010102_UBWC'', 73), (''MDP_RGBX_1010102_UBWC'', 74),
       (''MDP_Y_CBCR_H2V2_P010'', 75), (''MDP_Y_CBCR_H2V2_TP10_UBWC'', 76),
       (''MDP_CRYCBY_H2V1'', 77), (''MDP_IMGTYPE_LIMIT1'', 256), (''MDP_FB_FORMAT'', 65536),
       (''MDP_IMGTYPE_LIMIT2'', 65537)],
     Const ''MDP_CRYCBY_H2V1'' 77, Enum '''' [(''PMEM_IMG'', 0), (''FB_IMG'', 1)],
     Enum '''' [(''HSIC_HUE'', 0), (''HSIC_SAT'', 1), (''HSIC_INT'', 2), (''HSIC_CON'', 3),
       (''NUM_HSIC_PARAM'', 4)],
     Enum ''mdss_mdp_max_bw_mode'' [(''MDSS_MAX_BW_LIMIT_DEFAULT'', 1),
       (''MDSS_MAX_BW_LIMIT_CAMERA'', 2), (''MDSS_MAX_BW_LIMIT_HFLIP'', 4),
       (''MDSS_MAX_BW_LIMIT_VFLIP'', 8)],
     Const ''MDSS_MDP_ROT_ONLY'' 0x80, Const ''MDSS_MDP_RIGHT_MIXER'' 0x100,
     Const ''MDSS_MDP_DUAL_PIPE'' 0x200, Const ''MDP_ROT_NOP'' 0, Const ''MDP_FLIP_LR'' 0x1,
     Const ''MDP_FLIP_UD'' 0x2, Const ''MDP_ROT_90'' 0x4, Const ''MDP_ROT_180'' 3,
     Const ''MDP_ROT_270'' 7, Const ''MDP_DITHER'' 0x8, Const ''MDP_BLUR'' 0x10,
     Const ''MDP_BLEND_FG_PREMULT'' 0x20000]"

definition msm_mdp_4 :: "decl list" where
  "msm_mdp_4 =
    [Const ''MDP_IS_FG'' 0x40000, Const ''MDP_SOLID_FILL'' 0x00000020,
     Const ''MDP_VPU_PIPE'' 0x00000040, Const ''MDP_DEINTERLACE'' 0x80000000,
     Const ''MDP_SHARPENING'' 0x40000000, Const ''MDP_NO_DMA_BARRIER_START'' 0x20000000,
     Const ''MDP_NO_DMA_BARRIER_END'' 0x10000000, Const ''MDP_NO_BLIT'' 0x08000000,
     Const ''MDP_BLIT_WITH_DMA_BARRIERS'' 0x000,
     Const ''MDP_BLIT_WITH_NO_DMA_BARRIERS'' 805306368, Const ''MDP_BLIT_SRC_GEM'' 0x04000000,
     Const ''MDP_BLIT_DST_GEM'' 0x02000000, Const ''MDP_BLIT_NON_CACHED'' 0x01000000,
     Const ''MDP_OV_PIPE_SHARE'' 0x00800000, Const ''MDP_DEINTERLACE_ODD'' 0x00400000,
     Const ''MDP_OV_PLAY_NOWAIT'' 0x00200000, Const ''MDP_SOURCE_ROTATED_90'' 0x00100000,
     Const ''MDP_OVERLAY_PP_CFG_EN'' 0x00080000, Const ''MDP_BACKEND_COMPOSITION'' 0x00040000,
     Const ''MDP_BORDERFILL_SUPPORTED'' 0x00010000,
     Const ''MDP_SECURE_OVERLAY_SESSION'' 0x00008000,
     Const ''MDP_SECURE_DISPLAY_OVERLAY_SESSION'' 0x00002000,
     Const ''MDP_OV_PIPE_FORCE_DMA'' 0x00004000, Const ''MDP_MEMORY_ID_TYPE_FB'' 0x00001000,
     Const ''MDP_BWC_EN'' 0x00000400, Const ''MDP_DECIMATION_EN'' 0x00000800,
     Const ''MDP_SMP_FORCE_ALLOC'' 0x00200000, Const ''MDP_TRANSP_NOP'' 0xffffffff,
     Const ''MDP_ALPHA_NOP'' 0xff, Const ''MDP_FB_PAGE_PROTECTION_NONCACHED'' 0,
     Const ''MDP_FB_PAGE_PROTECTION_WRITECOMBINE'' 1,
     Const ''MDP_FB_PAGE_PROTECTION_WRITETHROUGHCACHE'' 2,
     Const ''MDP_FB_PAGE_PROTECTION_WRITEBACKCACHE'' 3,
     Const ''MDP_FB_PAGE_PROTECTION_WRITEBACKWACACHE'' 4,
     Const ''MDP_FB_PAGE_PROTECTION_INVALID'' 5, Const ''MDP_NUM_FB_PAGE_PROTECTION_VALUES'' 5,
     Const ''MDP_DEEP_COLOR_YUV444'' 0x1, Const ''MDP_DEEP_COLOR_RGB30B'' 0x2,
     Const ''MDP_DEEP_COLOR_RGB36B'' 0x4, Const ''MDP_DEEP_COLOR_RGB48B'' 0x8,
     Struct ''mdp_rect'' mdp_rect, Struct ''mdp_img'' mdp_img,
     Struct ''mult_factor'' mult_factor, Const ''MDP_CCS_RGB2YUV'' 0,
     Const ''MDP_CCS_YUV2RGB'' 1, Const ''MDP_CCS_SIZE'' 9, Const ''MDP_BV_SIZE'' 3,
     Struct ''mdp_ccs'' mdp_ccs, Struct ''mdp_csc'' mdp_csc, Const ''MDP_BLIT_REQ_VERSION'' 3,
     Struct ''color'' color, Struct ''mdp_blit_req'' mdp_blit_req,
     Struct ''mdp_blit_req_list'' mdp_blit_req_list, Const ''MSMFB_DATA_VERSION'' 2,
     Struct ''msmfb_data'' msmfb_data, Const ''MSMFB_NEW_REQUEST'' (- 1),
     Struct ''msmfb_overlay_data'' msmfb_overlay_data, Struct ''msmfb_img'' msmfb_img,
     Const ''MSMFB_WRITEBACK_DEQUEUE_BLOCKING'' 0x1,
     Struct ''msmfb_writeback_data'' msmfb_writeback_data, Const ''MDP_PP_OPS_ENABLE'' 0x1,
     Const ''MDP_PP_OPS_READ'' 0x2, Const ''MDP_PP_OPS_WRITE'' 0x4,
     Const ''MDP_PP_OPS_DISABLE'' 0x8, Const ''MDP_PP_IGC_FLAG_ROM0'' 0x10,
     Const ''MDP_PP_IGC_FLAG_ROM1'' 0x20, Const ''MDSS_PP_DSPP_CFG'' 0x000,
     Const ''MDSS_PP_SSPP_CFG'' 0x100, Const ''MDSS_PP_LM_CFG'' 0x200,
     Const ''MDSS_PP_WB_CFG'' 0x300, Const ''MDSS_PP_ARG_MASK'' 0x3C00,
     Const ''MDSS_PP_ARG_NUM'' 4, Const ''MDSS_PP_ARG_SHIFT'' 10,
     Const ''MDSS_PP_LOCATION_MASK'' 0x0300, Const ''MDSS_PP_LOGICAL_MASK'' 0x00FF]"

definition msm_mdp_5 :: "decl list" where
  "msm_mdp_5 =
    [Struct ''mdp_qseed_cfg'' mdp_qseed_cfg, Struct ''mdp_sharp_cfg'' mdp_sharp_cfg,
     Struct ''mdp_qseed_cfg_data'' mdp_qseed_cfg_data, Const ''MDP_OVERLAY_PP_CSC_CFG'' 0x1,
     Const ''MDP_OVERLAY_PP_QSEED_CFG'' 0x2, Const ''MDP_OVERLAY_PP_PA_CFG'' 0x4,
     Const ''MDP_OVERLAY_PP_IGC_CFG'' 0x8, Const ''MDP_OVERLAY_PP_SHARP_CFG'' 0x10,
     Const ''MDP_OVERLAY_PP_HIST_CFG'' 0x20, Const ''MDP_OVERLAY_PP_HIST_LUT_CFG'' 0x40,
     Const ''MDP_OVERLAY_PP_PA_V2_CFG'' 0x80, Const ''MDP_OVERLAY_PP_PCC_CFG'' 0x100,
     Const ''MDP_CSC_FLAG_ENABLE'' 0x1, Const ''MDP_CSC_FLAG_YUV_IN'' 0x2,
     Const ''MDP_CSC_FLAG_YUV_OUT'' 0x4, Const ''MDP_CSC_MATRIX_COEFF_SIZE'' 9,
     Const ''MDP_CSC_CLAMP_SIZE'' 6, Const ''MDP_CSC_BIAS_SIZE'' 3,
     Struct ''mdp_csc_cfg'' mdp_csc_cfg, Struct ''mdp_csc_cfg_data'' mdp_csc_cfg_data,
     Struct ''mdp_pa_cfg'' mdp_pa_cfg, Struct ''mdp_pa_mem_col_cfg'' mdp_pa_mem_col_cfg,
     Const ''MDP_SIX_ZONE_LUT_SIZE'' 384, Const ''MDP_PP_PA_HUE_ENABLE'' 0x10,
     Const ''MDP_PP_PA_SAT_ENABLE'' 0x20, Const ''MDP_PP_PA_VAL_ENABLE'' 0x40,
     Const ''MDP_PP_PA_CONT_ENABLE'' 0x80, Const ''MDP_PP_PA_SIX_ZONE_ENABLE'' 0x100,
     Const ''MDP_PP_PA_SKIN_ENABLE'' 0x200, Const ''MDP_PP_PA_SKY_ENABLE'' 0x400,
     Const ''MDP_PP_PA_FOL_ENABLE'' 0x800, Const ''MDP_PP_PA_MEM_PROT_HUE_EN'' 0x1,
     Const ''MDP_PP_PA_MEM_PROT_SAT_EN'' 0x2, Const ''MDP_PP_PA_MEM_PROT_VAL_EN'' 0x4,
     Const ''MDP_PP_PA_MEM_PROT_CONT_EN'' 0x8, Const ''MDP_PP_PA_MEM_PROT_SIX_EN'' 0x10,
     Const ''MDP_PP_PA_MEM_PROT_BLEND_EN'' 0x20, Const ''MDP_PP_PA_HUE_MASK'' 0x1000,
     Const ''MDP_PP_PA_SAT_MASK'' 0x2000, Const ''MDP_PP_PA_VAL_MASK'' 0x4000,
     Const ''MDP_PP_PA_CONT_MASK'' 0x8000, Const ''MDP_PP_PA_SIX_ZONE_HUE_MASK'' 0x10000,
     Const ''MDP_PP_PA_SIX_ZONE_SAT_MASK'' 0x20000,
     Const ''MDP_PP_PA_SIX_ZONE_VAL_MASK'' 0x40000,
     Const ''MDP_PP_PA_MEM_COL_SKIN_MASK'' 0x80000,
     Const ''MDP_PP_PA_MEM_COL_SKY_MASK'' 0x100000,
     Const ''MDP_PP_PA_MEM_COL_FOL_MASK'' 0x200000, Const ''MDP_PP_PA_MEM_PROTECT_EN'' 0x400000,
     Const ''MDP_PP_PA_SAT_ZERO_EXP_EN'' 0x800000, Const ''MDP_PP_PA_LEFT_HOLD'' 0x1,
     Const ''MDP_PP_PA_RIGHT_HOLD'' 0x2, Struct ''mdp_pa_v2_data'' mdp_pa_v2_data,
     Struct ''mdp_pa_mem_col_data_v1_7'' mdp_pa_mem_col_data_v1_7,
     Struct ''mdp_pa_data_v1_7'' mdp_pa_data_v1_7,
     Struct ''mdp_pa_v2_cfg_data'' mdp_pa_v2_cfg_data,
     Enum '''' [(''mdp_igc_rec601'', 1), (''mdp_igc_rec709'', 2), (''mdp_igc_srgb'', 3),
       (''mdp_igc_custom'', 4), (''mdp_igc_rec_max'', 5)]]"

definition msm_mdp_6 :: "decl list" where
  "msm_mdp_6 =
    [Struct ''mdp_igc_lut_data'' mdp_igc_lut_data,
     Struct ''mdp_igc_lut_data_v1_7'' mdp_igc_lut_data_v1_7,
     Struct ''mdp_igc_lut_data_payload'' mdp_igc_lut_data_payload,
     Struct ''mdp_histogram_cfg'' mdp_histogram_cfg,
     Struct ''mdp_hist_lut_data_v1_7'' mdp_hist_lut_data_v1_7,
     Struct ''mdp_hist_lut_data'' mdp_hist_lut_data, Struct ''mdp_pcc_coeff'' mdp_pcc_coeff,
     Struct ''mdp_pcc_coeff_v1_7'' mdp_pcc_coeff_v1_7,
     Struct ''mdp_pcc_data_v1_7'' mdp_pcc_data_v1_7,
     Struct ''mdp_pcc_cfg_data'' mdp_pcc_cfg_data,
     Enum '''' [(''mdp_lut_igc'', 0), (''mdp_lut_pgc'', 1), (''mdp_lut_hist'', 2),
       (''mdp_lut_rgb'', 3), (''mdp_lut_max'', 4)],
     Struct ''mdp_overlay_pp_params'' mdp_overlay_pp_params,
     Enum ''mdss_mdp_blend_op'' [(''BLEND_OP_NOT_DEFINED'', 0), (''BLEND_OP_OPAQUE'', 1),
       (''BLEND_OP_PREMULTIPLIED'', 2), (''BLEND_OP_COVERAGE'', 3), (''BLEND_OP_MAX'', 4)]]"

definition msm_mdp_7 :: "decl list" where
  "msm_mdp_7 =
    [Const ''MAX_PLANES'' 4, Struct ''mdp_scale_data'' mdp_scale_data,
     Enum ''mdp_overlay_pipe_type'' [(''PIPE_TYPE_AUTO'', 0), (''PIPE_TYPE_VIG'', 1),
       (''PIPE_TYPE_RGB'', 2), (''PIPE_TYPE_DMA'', 3), (''PIPE_TYPE_CURSOR'', 4),
       (''PIPE_TYPE_MAX'', 5)],
     Struct ''mdp_overlay'' mdp_overlay, Struct ''msmfb_overlay_3d'' msmfb_overlay_3d,
     Struct ''msmfb_overlay_blt'' msmfb_overlay_blt, Struct ''mdp_histogram'' mdp_histogram,
     Const ''MISR_CRC_BATCH_SIZE'' 32,
     Enum '''' [(''DISPLAY_MISR_EDP'', 0), (''DISPLAY_MISR_DSI0'', 1),
       (''DISPLAY_MISR_DSI1'', 2), (''DISPLAY_MISR_HDMI'', 3), (''DISPLAY_MISR_LCDC'', 4),
       (''DISPLAY_MISR_MDP'', 5), (''DISPLAY_MISR_ATV'', 6), (''DISPLAY_MISR_DSI_CMD'', 7),
       (''DISPLAY_MISR_MAX'', 8)],
     Enum '''' [(''MISR_OP_NONE'', 0), (''MISR_OP_SFM'', 1), (''MISR_OP_MFM'', 2),
       (''MISR_OP_BM'', 3), (''MISR_OP_MAX'', 4)],
     Struct ''mdp_misr'' mdp_misr,
     Enum '''' [(''MDP_BLOCK_RESERVED'', 0), (''MDP_BLOCK_OVERLAY_0'', 1),
       (''MDP_BLOCK_OVERLAY_1'', 2), (''MDP_BLOCK_VG_1'', 3), (''MDP_BLOCK_VG_2'', 4),
       (''MDP_BLOCK_RGB_1'', 5), (''MDP_BLOCK_RGB_2'', 6), (''MDP_BLOCK_DMA_P'', 7),
       (''MDP_BLOCK_DMA_S'', 8), (''MDP_BLOCK_DMA_E'', 9), (''MDP_BLOCK_OVERLAY_2'', 10),
       (''MDP_LOGICAL_BLOCK_DISP_0'', 16), (''MDP_LOGICAL_BLOCK_DISP_1'', 17),
       (''MDP_LOGICAL_BLOCK_DISP_2'', 18), (''MDP_BLOCK_MAX'', 19)],
     Struct ''mdp_histogram_start_req'' mdp_histogram_start_req,
     Struct ''mdp_histogram_data'' mdp_histogram_data, Const ''GC_LUT_ENTRIES_V1_7'' 512,
     Struct ''mdp_ar_gc_lut_data'' mdp_ar_gc_lut_data,
     Const ''MDP_PP_PGC_ROUNDING_ENABLE'' 0x10, Struct ''mdp_pgc_lut_data'' mdp_pgc_lut_data,
     Const ''PGC_LUT_ENTRIES'' 1024]"

definition msm_mdp_8 :: "decl list" where
  "msm_mdp_8 =
    [Struct ''mdp_pgc_lut_data_v1_7'' mdp_pgc_lut_data_v1_7,
     Struct ''mdp_rgb_lut_data'' mdp_rgb_lut_data,
     Enum '''' [(''mdp_rgb_lut_gc'', 0), (''mdp_rgb_lut_hist'', 1)],
     Struct ''mdp_lut_cfg_data'' mdp_lut_cfg_data,
     Struct ''mdp_bl_scale_data'' mdp_bl_scale_data, Struct ''mdp_pa_cfg_data'' mdp_pa_cfg_data,
     Const ''MDP_DITHER_DATA_V1_7_SZ'' 16, Struct ''mdp_dither_data_v1_7'' mdp_dither_data_v1_7,
     Struct ''mdp_pa_dither_data'' mdp_pa_dither_data,
     Struct ''mdp_dither_cfg_data'' mdp_dither_cfg_data, Const ''MDP_GAMUT_TABLE_NUM'' 8,
     Const ''MDP_GAMUT_TABLE_NUM_V1_7'' 4, Const ''MDP_GAMUT_SCALE_OFF_TABLE_NUM'' 3,
     Const ''MDP_GAMUT_TABLE_V1_7_SZ'' 1229, Const ''MDP_GAMUT_SCALE_OFF_SZ'' 16,
     Const ''MDP_GAMUT_TABLE_V1_7_COARSE_SZ'' 32,
     Struct ''mdp_gamut_cfg_data'' mdp_gamut_cfg_data,
     Enum '''' [(''mdp_gamut_fine_mode'', 1), (''mdp_gamut_coarse_mode'', 2)],
     Struct ''mdp_gamut_data_v1_7'' mdp_gamut_data_v1_7,
     Struct ''mdp_calib_config_data'' mdp_calib_config_data,
     Struct ''mdp_calib_config_buffer'' mdp_calib_config_buffer,
     Struct ''mdp_calib_dcm_state'' mdp_calib_dcm_state,
     Enum '''' [(''DCM_UNINIT'', 0), (''DCM_UNBLANK'', 1), (''DCM_ENTER'', 2), (''DCM_EXIT'', 3),
       (''DCM_BLANK'', 4), (''DTM_ENTER'', 5), (''DTM_EXIT'', 6)],
     Const ''MDSS_PP_SPLIT_LEFT_ONLY'' 0x10000000,
     Const ''MDSS_PP_SPLIT_RIGHT_ONLY'' 0x20000000, Const ''MDSS_PP_SPLIT_MASK'' 0x30000000,
     Const ''MDSS_MAX_BL_BRIGHTNESS'' 255, Const ''AD_BL_LIN_LEN'' 256,
     Const ''AD_BL_ATT_LUT_LEN'' 33, Const ''MDSS_AD_MODE_AUTO_BL'' 0x0,
     Const ''MDSS_AD_MODE_AUTO_STR'' 0x1, Const ''MDSS_AD_MODE_TARG_STR'' 0x3,
     Const ''MDSS_AD_MODE_MAN_STR'' 0x7, Const ''MDSS_AD_MODE_CALIB'' 0xF,
     Const ''MDP_PP_AD_INIT'' 0x10, Const ''MDP_PP_AD_CFG'' 0x20]"

definition msm_mdp_9 :: "decl list" where
  "msm_mdp_9 =
    [Struct ''mdss_ad_init'' mdss_ad_init, Const ''MDSS_AD_BL_CTRL_MODE_EN'' 1,
     Const ''MDSS_AD_BL_CTRL_MODE_DIS'' 0, Struct ''mdss_ad_cfg'' mdss_ad_cfg,
     Struct ''mdss_ad_bl_cfg'' mdss_ad_bl_cfg, Struct ''mdss_ad_init_cfg'' mdss_ad_init_cfg,
     Struct ''mdss_ad_input'' mdss_ad_input, Const ''MDSS_CALIB_MODE_BL'' 0x1,
     Struct ''mdss_calib_cfg'' mdss_calib_cfg,
     Enum '''' [(''mdp_op_pcc_cfg'', 0), (''mdp_op_csc_cfg'', 1), (''mdp_op_lut_cfg'', 2),
       (''mdp_op_qseed_cfg'', 3), (''mdp_bl_scale_cfg'', 4), (''mdp_op_pa_cfg'', 5),
       (''mdp_op_pa_v2_cfg'', 6), (''mdp_op_dither_cfg'', 7), (''mdp_op_gamut_cfg'', 8),
       (''mdp_op_calib_cfg'', 9), (''mdp_op_ad_cfg'', 10), (''mdp_op_ad_input'', 11),
       (''mdp_op_calib_mode'', 12), (''mdp_op_calib_buffer'', 13),
       (''mdp_op_calib_dcm_state'', 14), (''mdp_op_max'', 15), (''mdp_op_pa_dither_cfg'', 16),
       (''mdp_op_ad_bl_cfg'', 17), (''mdp_op_pp_max'', 255)],
     Const ''mdp_op_pa_dither_cfg'' 16, Const ''mdp_op_pp_max'' 255,
     Const ''mdp_op_ad_bl_cfg'' 17,
     Enum '''' [(''WB_FORMAT_NV12'', 0), (''WB_FORMAT_RGB_565'', 1), (''WB_FORMAT_RGB_888'', 2),
       (''WB_FORMAT_xRGB_8888'', 3), (''WB_FORMAT_ARGB_8888'', 4), (''WB_FORMAT_BGRA_8888'', 5),
       (''WB_FORMAT_BGRX_8888'', 6), (''WB_FORMAT_ARGB_8888_INPUT_ALPHA'', 7)],
     Struct ''msmfb_mdp_pp'' msmfb_mdp_pp, Const ''FB_METADATA_VIDEO_INFO_CODE_SUPPORT'' 1,
     Enum '''' [(''metadata_op_none'', 0), (''metadata_op_base_blend'', 1),
       (''metadata_op_frame_rate'', 2), (''metadata_op_vic'', 3), (''metadata_op_wb_format'', 4),
       (''metadata_op_wb_secure'', 5), (''metadata_op_get_caps'', 6), (''metadata_op_crc'', 7),
       (''metadata_op_get_ion_fd'', 8), (''metadata_op_max'', 9)],
     Struct ''mdp_blend_cfg'' mdp_blend_cfg, Struct ''mdp_mixer_cfg'' mdp_mixer_cfg]"

definition msm_mdp_10 :: "decl list" where
  "msm_mdp_10 =
    [Struct ''mdss_hw_caps'' mdss_hw_caps, Struct ''msmfb_metadata'' msmfb_metadata,
     Const ''MDP_MAX_FENCE_FD'' 32, Const ''MDP_BUF_SYNC_FLAG_WAIT'' 1,
     Const ''MDP_BUF_SYNC_FLAG_RETIRE_FENCE'' 0x10, Struct ''mdp_buf_sync'' mdp_buf_sync,
     Struct ''mdp_async_blit_req_list'' mdp_async_blit_req_list,
     Const ''MDP_DISPLAY_COMMIT_OVERLAY'' 1, Struct ''mdp_display_commit'' mdp_display_commit,
     Struct ''mdp_overlay_list'' mdp_overlay_list,
     Struct ''mdp_page_protection'' mdp_page_protection,
     Struct ''mdp_mixer_info'' mdp_mixer_info, Const ''MAX_PIPE_PER_MIXER'' 7,
     Struct ''msmfb_mixer_info_req'' msmfb_mixer_info_req,
     Enum '''' [(''DISPLAY_SUBSYSTEM_ID'', 0), (''ROTATOR_SUBSYSTEM_ID'', 1)],
     Enum '''' [(''MDP_IOMMU_DOMAIN_CP'', 0), (''MDP_IOMMU_DOMAIN_NS'', 1)],
     Enum '''' [(''MDP_WRITEBACK_MIRROR_OFF'', 0), (''MDP_WRITEBACK_MIRROR_ON'', 1),
       (''MDP_WRITEBACK_MIRROR_PAUSE'', 2), (''MDP_WRITEBACK_MIRROR_RESUME'', 3)],
     Enum ''mdp_color_space'' [(''MDP_CSC_ITU_R_601'', 0), (''MDP_CSC_ITU_R_601_FR'', 1),
       (''MDP_CSC_ITU_R_709'', 2)],
     Const ''MDP_CSC_ITU_R_2020'' (2 + 1), Const ''MDP_CSC_ITU_R_2020_FR'' (3 + 1),
     Enum '''' [(''mdp_igc_v1_7'', 1), (''mdp_igc_vmax'', 2), (''mdp_hist_lut_v1_7'', 3),
       (''mdp_hist_lut_vmax'', 4), (''mdp_pgc_v1_7'', 5), (''mdp_pgc_vmax'', 6),
       (''mdp_dither_v1_7'', 7), (''mdp_dither_vmax'', 8), (''mdp_gamut_v1_7'', 9),
       (''mdp_gamut_vmax'', 10), (''mdp_pa_v1_7'', 11), (''mdp_pa_vmax'', 12),
       (''mdp_pcc_v1_7'', 13), (''mdp_pcc_vmax'', 14), (''mdp_pp_legacy'', 15),
       (''mdp_dither_pa_v1_7'', 16), (''mdp_igc_v3'', 17), (''mdp_pp_unknown'', 255)],
     Const ''mdp_dither_pa_v1_7'' 16, Const ''mdp_pp_unknown'' 255, Const ''mdp_igc_v3'' 17,
     Enum '''' [(''IGC'', 1), (''PCC'', 2), (''GC'', 3), (''PA'', 4), (''GAMUT'', 5),
       (''DITHER'', 6), (''QSEED'', 7), (''HIST_LUT'', 8), (''HIST'', 9),
       (''PP_FEATURE_MAX'', 10), (''PA_DITHER'', 11), (''PP_MAX_FEATURES'', 25)],
     Const ''PA_DITHER'' 11, Const ''PP_MAX_FEATURES'' 25,
     Struct ''mdp_pp_feature_version'' mdp_pp_feature_version]"

definition msm_mdp_h :: "decl list" where
  "msm_mdp_h = msm_mdp_1 @ msm_mdp_2 @ msm_mdp_3 @ msm_mdp_4 @ msm_mdp_5 @ msm_mdp_6 @ msm_mdp_7 @
     msm_mdp_8 @ msm_mdp_9 @ msm_mdp_10"

subsection \<open>linux/msm_mdp_ext.h\<close>

abbreviation mdp_layer_plane :: ctype where
  "mdp_layer_plane \<equiv>
     StructT Natural [(''fd'', s32), (''offset'', u32), (''stride'', u32)]"

abbreviation mdp_layer_buffer :: ctype where
  "mdp_layer_buffer \<equiv>
     StructT Natural [(''width'', u32), (''height'', u32), (''format'', u32),
      (''planes'', ArrT mdp_layer_plane MAX_PLANES), (''plane_count'', u32),
      (''comp_ratio'', mult_factor), (''fence'', s32), (''reserved'', u32)]"

abbreviation mdp_input_layer :: ctype where
  "mdp_input_layer \<equiv>
     StructT Natural [(''flags'', u32), (''pipe_ndx'', u32), (''horz_deci'', u8),
      (''vert_deci'', u8), (''alpha'', u8), (''z_order'', u16), (''transp_mask'', u32),
      (''bg_color'', u32), (''blend_op'', EnumT ''mdss_mdp_blend_op''),
      (''color_space'', EnumT ''mdp_color_space''), (''src_rect'', mdp_rect),
      (''dst_rect'', mdp_rect), (''scale'', PtrT), (''buffer'', mdp_layer_buffer),
      (''pp_info'', PtrT), (''error_code'', s32), (''reserved'', ArrT u32 6)]"

abbreviation mdp_output_layer :: ctype where
  "mdp_output_layer \<equiv>
     StructT Natural [(''flags'', u32), (''writeback_ndx'', u32),
      (''buffer'', mdp_layer_buffer), (''color_space'', EnumT ''mdp_color_space''),
      (''reserved'', ArrT u32 5)]"

abbreviation mdp_destination_scaler_data :: ctype where
  "mdp_destination_scaler_data \<equiv>
     StructT Natural [(''flags'', u32), (''dest_scaler_ndx'', u32), (''lm_width'', u32),
      (''lm_height'', u32), (''scale'', u64)]"

abbreviation mdp_frc_info :: ctype where
  "mdp_frc_info \<equiv>
     StructT Natural [(''flags'', u32), (''frame_cnt'', u32), (''timestamp'', s64)]"

abbreviation MDP_LAYER_COMMIT_V1_PAD :: nat where "MDP_LAYER_COMMIT_V1_PAD \<equiv> 3"

abbreviation mdp_layer_commit_v1 :: ctype where
  "mdp_layer_commit_v1 \<equiv>
     StructT Natural [(''flags'', u32), (''release_fence'', s32), (''left_roi'', mdp_rect),
      (''right_roi'', mdp_rect), (''input_layers'', PtrT), (''input_layer_cnt'', u32),
      (''output_layer'', PtrT), (''retire_fence'', s32), (''dest_scaler'', PtrT),
      (''dest_scaler_cnt'', u32), (''frc_info'', PtrT),
      (''reserved'', ArrT u32 MDP_LAYER_COMMIT_V1_PAD)]"

abbreviation mdp_layer_commit :: ctype where
  "mdp_layer_commit \<equiv>
     StructT Natural [(''version'', u32),
      ('''', UnionT Natural [(''commit_v1'', mdp_layer_commit_v1)])]"

abbreviation mdp_point :: ctype where
  "mdp_point \<equiv>
     StructT Natural [(''x'', u32), (''y'', u32)]"

abbreviation mdp_async_layer :: ctype where
  "mdp_async_layer \<equiv>
     StructT Natural [(''flags'', u32), (''pipe_ndx'', u32), (''src'', mdp_point),
      (''dst'', mdp_point), (''error_code'', s32), (''reserved'', ArrT u32 3)]"

abbreviation mdp_position_update :: ctype where
  "mdp_position_update \<equiv>
     StructT Natural [(''input_layers'', PtrT), (''input_layer_cnt'', u32)]"

abbreviation MAX_DET_CURVES :: nat where "MAX_DET_CURVES \<equiv> 3"

abbreviation mdp_det_enhance_data :: ctype where
  "mdp_det_enhance_data \<equiv>
     StructT Natural [(''enable'', u32), (''sharpen_level1'', s16), (''sharpen_level2'', s16),
      (''clip'', u16), (''limit'', u16), (''thr_quiet'', u16), (''thr_dieout'', u16),
      (''thr_low'', u16), (''thr_high'', u16), (''prec_shift'', u16),
      (''adjust_a'', ArrT s16 MAX_DET_CURVES), (''adjust_b'', ArrT s16 MAX_DET_CURVES),
      (''adjust_c'', ArrT s16 MAX_DET_CURVES)]"

abbreviation mdp_scale_data_v2 :: ctype where
  "mdp_scale_data_v2 \<equiv>
     StructT Natural [(''enable'', u32), (''init_phase_x'', ArrT s32 MAX_PLANES),
      (''phase_step_x'', ArrT s32 MAX_PLANES), (''init_phase_y'', ArrT s32 MAX_PLANES),
      (''phase_step_y'', ArrT s32 MAX_PLANES), (''num_ext_pxls_left'', ArrT u32 MAX_PLANES),
      (''num_ext_pxls_right'', ArrT u32 MAX_PLANES),
      (''num_ext_pxls_top'', ArrT u32 MAX_PLANES), (''num_ext_pxls_btm'', ArrT u32 MAX_PLANES),
      (''left_ftch'', ArrT s32 MAX_PLANES), (''left_rpt'', ArrT s32 MAX_PLANES),
      (''right_ftch'', ArrT s32 MAX_PLANES), (''right_rpt'', ArrT s32 MAX_PLANES),
      (''top_rpt'', ArrT u32 MAX_PLANES), (''btm_rpt'', ArrT u32 MAX_PLANES),
      (''top_ftch'', ArrT u32 MAX_PLANES), (''btm_ftch'', ArrT u32 MAX_PLANES),
      (''roi_w'', ArrT u32 MAX_PLANES), (''preload_x'', ArrT u32 MAX_PLANES),
      (''preload_y'', ArrT u32 MAX_PLANES), (''src_width'', ArrT u32 MAX_PLANES),
      (''src_height'', ArrT u32 MAX_PLANES), (''dst_width'', u32), (''dst_height'', u32),
      (''y_rgb_filter_cfg'', u32), (''uv_filter_cfg'', u32), (''alpha_filter_cfg'', u32),
      (''blend_cfg'', u32), (''lut_flag'', u32), (''dir_lut_idx'', u32),
      (''y_rgb_cir_lut_idx'', u32), (''uv_cir_lut_idx'', u32), (''y_rgb_sep_lut_idx'', u32),
      (''uv_sep_lut_idx'', u32), (''detail_enhance'', mdp_det_enhance_data),
      (''reserved'', ArrT u64 8)]"

abbreviation mdp_scale_luts_info :: ctype where
  "mdp_scale_luts_info \<equiv>
     StructT Natural [(''dir_lut'', u64), (''cir_lut'', u64), (''sep_lut'', u64),
      (''dir_lut_size'', u32), (''cir_lut_size'', u32), (''sep_lut_size'', u32)]"

abbreviation mdp_set_cfg :: ctype where
  "mdp_set_cfg \<equiv>
     StructT Natural [(''flags'', u64), (''len'', u32), (''payload'', u64)]"

definition msm_mdp_ext_1 :: "decl list" where
  "msm_mdp_ext_1 =
    [Flag ''_MSM_MDP_EXT_H_'']"

abbreviation MDP_IOCTL_MAGIC :: nat where "MDP_IOCTL_MAGIC \<equiv> 83"

definition msm_mdp_ext_2 :: "decl list" where
  "msm_mdp_ext_2 =
    [Const ''MDP_IOCTL_MAGIC'' 83,
     Request ''MSMFB_ATOMIC_COMMIT'' (IOWR MDP_IOCTL_MAGIC 128 PtrT),
     Request ''MSMFB_ASYNC_POSITION_UPDATE'' (IOWR MDP_IOCTL_MAGIC 129 mdp_position_update),
     Request ''MSMFB_MDP_SET_CFG'' (IOW MDP_IOCTL_MAGIC 130 mdp_set_cfg)]"

definition msm_mdp_ext_3 :: "decl list" where
  "msm_mdp_ext_3 =
    [Const ''MDP_LAYER_COMMIT_V1_PAD'' 3]"

definition msm_mdp_ext_4 :: "decl list" where
  "msm_mdp_ext_4 =
    [Const ''MDP_LAYER_FLIP_LR'' 0x1, Const ''MDP_LAYER_FLIP_UD'' 0x2,
     Const ''MDP_LAYER_ENABLE_PIXEL_EXT'' 0x4, Const ''MDP_LAYER_FORGROUND'' 0x8,
     Const ''MDP_LAYER_SECURE_SESSION'' 0x10, Const ''MDP_LAYER_SOLID_FILL'' 0x20,
     Const ''MDP_LAYER_DEINTERLACE'' 0x40, Const ''MDP_LAYER_BWC'' 0x80,
     Const ''MDP_LAYER_ASYNC'' 0x100, Const ''MDP_LAYER_PP'' 0x200,
     Const ''MDP_LAYER_SECURE_DISPLAY_SESSION'' 0x400,
     Const ''MDP_LAYER_ENABLE_QSEED3_SCALE'' 0x800, Const ''MDP_LAYER_MULTIRECT_ENABLE'' 0x1000,
     Const ''MDP_LAYER_MULTIRECT_PARALLEL_MODE'' 0x2000, Const ''MDP_DESTSCALER_ENABLE'' 0x1,
     Const ''MDP_DESTSCALER_SCALE_UPDATE'' 0x2, Const ''MDP_DESTSCALER_ENHANCER_UPDATE'' 0x4,
     Const ''MDP_VALIDATE_LAYER'' 0x01, Const ''MDP_COMMIT_WAIT_FOR_FINISH'' 0x02,
     Const ''MDP_COMMIT_SYNC_FENCE_WAIT'' 0x04, Const ''MDP_COMMIT_AVR_EN'' 0x08,
     Const ''MDP_COMMIT_AVR_ONE_SHOT_MODE'' 0x10, Const ''MDP_COMMIT_CWB_EN'' 0x800,
     Const ''MDP_COMMIT_CWB_DSPP'' 0x1000, Const ''MDP_COMMIT_VERSION_1_0'' 0x00010000,
     Struct ''mdp_layer_plane'' mdp_layer_plane, Struct ''mdp_layer_buffer'' mdp_layer_buffer,
     Struct ''mdp_input_layer'' mdp_input_layer, Struct ''mdp_output_layer'' mdp_output_layer,
     Struct ''mdp_destination_scaler_data'' mdp_destination_scaler_data,
     Const ''MDP_VIDEO_FRC_ENABLE'' (2 ^ 0), Struct ''mdp_frc_info'' mdp_frc_info,
     Struct ''mdp_layer_commit_v1'' mdp_layer_commit_v1,
     Struct ''mdp_layer_commit'' mdp_layer_commit, Struct ''mdp_point'' mdp_point,
     Struct ''mdp_async_layer'' mdp_async_layer,
     Struct ''mdp_position_update'' mdp_position_update, Const ''MAX_DET_CURVES'' 3,
     Struct ''mdp_det_enhance_data'' mdp_det_enhance_data, Const ''ENABLE_SCALE'' 0x1,
     Const ''ENABLE_DETAIL_ENHANCE'' 0x2, Const ''ENABLE_DIRECTION_DETECTION'' 0x4,
     Const ''SCALER_LUT_SWAP'' 0x1, Const ''SCALER_LUT_DIR_WR'' 0x2,
     Const ''SCALER_LUT_Y_CIR_WR'' 0x4, Const ''SCALER_LUT_UV_CIR_WR'' 0x8,
     Const ''SCALER_LUT_Y_SEP_WR'' 0x10, Const ''SCALER_LUT_UV_SEP_WR'' 0x20,
     Const ''FILTER_EDGE_DIRECTED_2D'' 0x0, Const ''FILTER_CIRCULAR_2D'' 0x1,
     Const ''FILTER_SEPARABLE_1D'' 0x2, Const ''FILTER_BILINEAR'' 0x3,
     Const ''FILTER_ALPHA_DROP_REPEAT'' 0x0, Const ''FILTER_ALPHA_BILINEAR'' 0x1]"

definition msm_mdp_ext_5 :: "decl list" where
  "msm_mdp_ext_5 =
    [Struct ''mdp_scale_data_v2'' mdp_scale_data_v2,
     Struct ''mdp_scale_luts_info'' mdp_scale_luts_info, Const ''MDP_QSEED3_LUT_CFG'' 0x1,
     Struct ''mdp_set_cfg'' mdp_set_cfg]"

definition msm_mdp_ext_h :: "decl list" where
  "msm_mdp_ext_h = msm_mdp_ext_1 @ msm_mdp_ext_2 @ msm_mdp_ext_3 @ msm_mdp_ext_4 @ msm_mdp_ext_5"

subsection \<open>linux/mdss_rotator.h\<close>

abbreviation mdp_rotation_buf_info :: ctype where
  "mdp_rotation_buf_info \<equiv>
     StructT Natural [(''width'', u32), (''height'', u32), (''format'', u32),
      (''comp_ratio'', mult_factor)]"

abbreviation mdp_rotation_config :: ctype where
  "mdp_rotation_config \<equiv>
     StructT Natural [(''version'', u32), (''session_id'', u32),
      (''input'', mdp_rotation_buf_info), (''output'', mdp_rotation_buf_info),
      (''frame_rate'', u32), (''flags'', u32), (''reserved'', ArrT u32 6)]"

abbreviation mdp_rotation_item :: ctype where
  "mdp_rotation_item \<equiv>
     StructT Natural [(''flags'', u32), (''src_rect'', mdp_rect), (''dst_rect'', mdp_rect),
      (''input'', mdp_layer_buffer), (''output'', mdp_layer_buffer), (''pipe_idx'', u32),
      (''wb_idx'', u32), (''session_id'', u32), (''reserved'', ArrT u32 6)]"

abbreviation mdp_rotation_request :: ctype where
  "mdp_rotation_request \<equiv>
     StructT Natural [(''version'', u32), (''flags'', u32), (''count'', u32), (''list'', PtrT),
      (''reserved'', ArrT u32 6)]"

definition mdss_rotator_1 :: "decl list" where
  "mdss_rotator_1 =
    [Flag ''_MDSS_ROTATOR_H_'']"

abbreviation MDSS_ROTATOR_IOCTL_MAGIC :: nat where "MDSS_ROTATOR_IOCTL_MAGIC \<equiv> 119"

definition mdss_rotator_2 :: "decl list" where
  "mdss_rotator_2 =
    [Const ''MDSS_ROTATOR_IOCTL_MAGIC'' 119,
     Request ''MDSS_ROTATION_OPEN'' (IOWR MDSS_ROTATOR_IOCTL_MAGIC 1 PtrT),
     Request ''MDSS_ROTATION_CONFIG'' (IOWR MDSS_ROTATOR_IOCTL_MAGIC 2 PtrT),
     Request ''MDSS_ROTATION_REQUEST'' (IOWR MDSS_ROTATOR_IOCTL_MAGIC 3 PtrT),
     Request ''MDSS_ROTATION_CLOSE'' (IOW MDSS_ROTATOR_IOCTL_MAGIC 4 u32),
     Const ''MDP_ROTATION_NOP'' 0x01, Const ''MDP_ROTATION_FLIP_LR'' 0x02,
     Const ''MDP_ROTATION_FLIP_UD'' 0x04, Const ''MDP_ROTATION_90'' 0x08,
     Const ''MDP_ROTATION_180'' 6, Const ''MDP_ROTATION_270'' 14,
     Const ''MDP_ROTATION_DEINTERLACE'' 0x10, Const ''MDP_ROTATION_BWC_EN'' 0x40,
     Const ''MDP_ROTATION_SECURE'' 0x80, Const ''MDSS_ROTATION_REQUEST_VALIDATE'' 0x01,
     Const ''MDP_ROTATION_REQUEST_VERSION_1_0'' 0x00010000,
     Const ''MDSS_ROTATION_HW_ANY'' 0xFFFFFFFF,
     Struct ''mdp_rotation_buf_info'' mdp_rotation_buf_info,
     Struct ''mdp_rotation_config'' mdp_rotation_config,
     Struct ''mdp_rotation_item'' mdp_rotation_item,
     Struct ''mdp_rotation_request'' mdp_rotation_request]"

definition mdss_rotator_h :: "decl list" where
  "mdss_rotator_h = mdss_rotator_1 @ mdss_rotator_2"

subsection \<open>linux/msm_rotator.h\<close>

abbreviation msm_rotator_img_info :: ctype where
  "msm_rotator_img_info \<equiv>
     StructT Natural [(''session_id'', u32), (''src'', msmfb_img), (''dst'', msmfb_img),
      (''src_rect'', mdp_rect), (''dst_x'', u32), (''dst_y'', u32), (''rotations'', u8),
      (''enable'', s32), (''downscale_ratio'', u32), (''secure'', u32)]"

abbreviation msm_rotator_data_info :: ctype where
  "msm_rotator_data_info \<equiv>
     StructT Natural [(''session_id'', s32), (''src'', msmfb_data), (''dst'', msmfb_data),
      (''version_key'', u32), (''src_chroma'', msmfb_data), (''dst_chroma'', msmfb_data)]"

abbreviation msm_rot_clocks :: ctype where
  "msm_rot_clocks \<equiv>
     StructT Natural [(''clk_name'', PtrT), (''clk_type'', EnumT ''rotator_clk_type''),
      (''clk_rate'', u32)]"

abbreviation msm_rotator_platform_data :: ctype where
  "msm_rotator_platform_data \<equiv>
     StructT Natural [(''number_of_clocks'', u32), (''hardware_version_number'', u32),
      (''rotator_clks'', PtrT), (''bus_scale_table'', PtrT), (''rot_iommu_split_domain'', CharT)]"

definition msm_rotator_1 :: "decl list" where
  "msm_rotator_1 =
    [Flag ''__MSM_ROTATOR_H__'']"

abbreviation MSM_ROTATOR_IOCTL_MAGIC :: nat where "MSM_ROTATOR_IOCTL_MAGIC \<equiv> 82"

definition msm_rotator_2 :: "decl list" where
  "msm_rotator_2 =
    [Const ''MSM_ROTATOR_IOCTL_MAGIC'' 82,
     Request ''MSM_ROTATOR_IOCTL_START'' (IOWR MSM_ROTATOR_IOCTL_MAGIC 1 msm_rotator_img_info),
     Request ''MSM_ROTATOR_IOCTL_ROTATE'' (IOW MSM_ROTATOR_IOCTL_MAGIC 2 msm_rotator_data_info),
     Request ''MSM_ROTATOR_IOCTL_FINISH'' (IOW MSM_ROTATOR_IOCTL_MAGIC 3 s32),
     Const ''ROTATOR_VERSION_01'' 0xA5B4C301,
     Enum ''rotator_clk_type'' [(''ROTATOR_CORE_CLK'', 0), (''ROTATOR_PCLK'', 1),
       (''ROTATOR_IMEM_CLK'', 2)],
     Struct ''msm_rotator_img_info'' msm_rotator_img_info,
     Struct ''msm_rotator_data_info'' msm_rotator_data_info,
     Struct ''msm_rot_clocks'' msm_rot_clocks,
     Struct ''msm_rotator_platform_data'' msm_rotator_platform_data]"

definition msm_rotator_h :: "decl list" where
  "msm_rotator_h = msm_rotator_1 @ msm_rotator_2"

end
