(* ===== verification/SanSensor.thy ===== *)
theory SanSensor
  imports CLayout
begin

text \<open>
  The headers programs are built with (under sdm710/kernel-headers, stripped of comments) of
  the second camera driver (media/msmb\_*.h, msm\_cam\_sensor.h, msm\_camsensor\_sdk.h):
  every structure and union with its fields in order; then, for every file, the list of its
  declarations, in blocks: structures, enumerations, number macros and device requests. A
  type of the C library or of a header that is not in the repository is a foreign type.
\<close>

subsection \<open>media/msm_camsensor_sdk.h\<close>

abbreviation msm_sensor_power_setting :: ctype where
  "msm_sensor_power_setting \<equiv>
     StructT Natural [(''seq_type'', EnumT ''msm_sensor_power_seq_type_t''), (''seq_val'', u16),
      (''config_val'', slongT), (''delay'', u16), (''data'', ArrT PtrT 10)]"

abbreviation MAX_POWER_CONFIG :: nat where "MAX_POWER_CONFIG \<equiv> 12"

abbreviation msm_sensor_power_setting_array :: ctype where
  "msm_sensor_power_setting_array \<equiv>
     StructT Natural [(''power_setting_a'', ArrT msm_sensor_power_setting MAX_POWER_CONFIG),
      (''power_setting'', PtrT), (''size'', u16),
      (''power_down_setting_a'', ArrT msm_sensor_power_setting MAX_POWER_CONFIG),
      (''power_down_setting'', PtrT), (''size_down'', u16)]"

abbreviation msm_sensor_i2c_sync_params :: ctype where
  "msm_sensor_i2c_sync_params \<equiv>
     StructT Natural [(''cid'', u32), (''csid'', s32), (''line'', u16), (''delay'', u16)]"

abbreviation msm_camera_reg_settings_t :: ctype where
  "msm_camera_reg_settings_t \<equiv>
     StructT Natural [(''reg_addr'', u16),
      (''addr_type'', EnumT ''msm_camera_i2c_reg_addr_type''), (''reg_data'', u16),
      (''data_type'', EnumT ''msm_camera_i2c_data_type''),
      (''i2c_operation'', EnumT ''msm_camera_i2c_operation''), (''delay'', u16)]"

abbreviation MSM_EEPROM_MEMORY_MAP_MAX_SIZE :: nat where "MSM_EEPROM_MEMORY_MAP_MAX_SIZE \<equiv> 80"

abbreviation msm_eeprom_mem_map_t :: ctype where
  "msm_eeprom_mem_map_t \<equiv>
     StructT Natural [(''slave_addr'', s32),
      (''mem_settings'', ArrT msm_camera_reg_settings_t MSM_EEPROM_MEMORY_MAP_MAX_SIZE),
      (''memory_map_size'', s32)]"

abbreviation MSM_EEPROM_MAX_MEM_MAP_CNT :: nat where "MSM_EEPROM_MAX_MEM_MAP_CNT \<equiv> 8"

abbreviation msm_eeprom_memory_map_array :: ctype where
  "msm_eeprom_memory_map_array \<equiv>
     StructT Natural [(''memory_map'', ArrT msm_eeprom_mem_map_t MSM_EEPROM_MAX_MEM_MAP_CNT),
      (''msm_size_of_max_mappings'', u32)]"

abbreviation msm_sensor_init_params :: ctype where
  "msm_sensor_init_params \<equiv>
     StructT Natural [(''modes_supported'', s32), (''position'', EnumT ''camb_position_t''),
      (''sensor_mount_angle'', u32)]"

abbreviation msm_sensor_id_info_t :: ctype where
  "msm_sensor_id_info_t \<equiv>
     StructT Natural [(''sensor_id_reg_addr'', u16), (''sensor_id'', u16),
      (''sensor_id_mask'', u16)]"

abbreviation msm_camera_sensor_slave_info :: ctype where
  "msm_camera_sensor_slave_info \<equiv>
     StructT Natural [(''sensor_name'', ArrT CharT 32), (''eeprom_name'', ArrT CharT 32),
      (''actuator_name'', ArrT CharT 32), (''ois_name'', ArrT CharT 32),
      (''flash_name'', ArrT CharT 32), (''camera_id'', EnumT ''msm_sensor_camera_id_t''),
      (''slave_addr'', u16), (''i2c_freq_mode'', EnumT ''i2c_freq_mode_t''),
      (''addr_type'', EnumT ''msm_camera_i2c_reg_addr_type''),
      (''sensor_id_info'', msm_sensor_id_info_t),
      (''power_setting_array'', msm_sensor_power_setting_array), (''is_init_params_valid'', u8),
      (''sensor_init_params'', msm_sensor_init_params),
      (''output_format'', EnumT ''msm_sensor_output_format_t''),
      (''bypass_video_node_creation'', u8)]"

abbreviation msm_camera_i2c_reg_array :: ctype where
  "msm_camera_i2c_reg_array \<equiv>
     StructT Natural [(''reg_addr'', u16), (''reg_data'', u16), (''delay'', u32)]"

abbreviation msm_camera_i2c_reg_setting :: ctype where
  "msm_camera_i2c_reg_setting \<equiv>
     StructT Natural [(''reg_setting'', PtrT), (''size'', u16),
      (''addr_type'', EnumT ''msm_camera_i2c_reg_addr_type''),
      (''data_type'', EnumT ''msm_camera_i2c_data_type''), (''delay'', u16)]"

abbreviation msm_camera_csid_vc_cfg :: ctype where
  "msm_camera_csid_vc_cfg \<equiv>
     StructT Natural [(''cid'', u8), (''dt'', u8), (''decode_format'', u8)]"

abbreviation MAX_CID :: nat where "MAX_CID \<equiv> 16"

abbreviation msm_camera_csid_lut_params :: ctype where
  "msm_camera_csid_lut_params \<equiv>
     StructT Natural [(''num_cid'', u8), (''vc_cfg_a'', ArrT msm_camera_csid_vc_cfg MAX_CID),
      (''vc_cfg'', ArrT PtrT MAX_CID)]"

abbreviation msm_camera_csid_params :: ctype where
  "msm_camera_csid_params \<equiv>
     StructT Natural [(''lane_cnt'', u8), (''lane_assign'', u16), (''phy_sel'', u8),
      (''csi_clk'', u32), (''lut_params'', msm_camera_csid_lut_params), (''csi_3p_sel'', u8)]"

abbreviation msm_camera_csid_testmode_parms :: ctype where
  "msm_camera_csid_testmode_parms \<equiv>
     StructT Natural [(''num_bytes_per_line'', u32), (''num_lines'', u32),
      (''h_blanking_count'', u32), (''v_blanking_count'', u32), (''payload_mode'', u32)]"

abbreviation msm_camera_csiphy_params :: ctype where
  "msm_camera_csiphy_params \<equiv>
     StructT Natural [(''lane_cnt'', u8), (''settle_cnt'', u8), (''lane_mask'', u16),
      (''combo_mode'', u8), (''csid_core'', u8), (''csiphy_clk'', u32), (''csi_3phase'', u8),
      (''data_rate'', u64)]"

abbreviation I2C_SEQ_REG_DATA_MAX :: nat where "I2C_SEQ_REG_DATA_MAX \<equiv> 1024"

abbreviation msm_camera_i2c_seq_reg_array :: ctype where
  "msm_camera_i2c_seq_reg_array \<equiv>
     StructT Natural [(''reg_addr'', u16), (''reg_data'', ArrT u8 I2C_SEQ_REG_DATA_MAX),
      (''reg_data_size'', u16)]"

abbreviation msm_camera_i2c_seq_reg_setting :: ctype where
  "msm_camera_i2c_seq_reg_setting \<equiv>
     StructT Natural [(''reg_setting'', PtrT), (''size'', u16),
      (''addr_type'', EnumT ''msm_camera_i2c_reg_addr_type''), (''delay'', u16)]"

abbreviation msm_actuator_reg_params_t :: ctype where
  "msm_actuator_reg_params_t \<equiv>
     StructT Natural [(''reg_write_type'', EnumT ''msm_actuator_write_type''),
      (''hw_mask'', u32), (''reg_addr'', u16), (''hw_shift'', u16), (''data_shift'', u16),
      (''data_type'', u16), (''addr_type'', u16), (''reg_data'', u16), (''delay'', u16)]"

abbreviation damping_params_t :: ctype where
  "damping_params_t \<equiv>
     StructT Natural [(''damping_step'', u32), (''damping_delay'', u32), (''hw_params'', u32)]"

abbreviation region_params_t :: ctype where
  "region_params_t \<equiv>
     StructT Natural [(''step_bound'', ArrT u16 2), (''code_per_step'', u16), (''qvalue'', u32)]"

abbreviation reg_settings_t :: ctype where
  "reg_settings_t \<equiv>
     StructT Natural [(''reg_addr'', u16),
      (''addr_type'', EnumT ''msm_camera_i2c_reg_addr_type''), (''reg_data'', u16),
      (''data_type'', EnumT ''msm_camera_i2c_data_type''),
      (''i2c_operation'', EnumT ''msm_actuator_i2c_operation''), (''delay'', u32)]"

abbreviation MAX_I2C_REG_SET :: nat where "MAX_I2C_REG_SET \<equiv> 12"

abbreviation msm_camera_i2c_reg_setting_array :: ctype where
  "msm_camera_i2c_reg_setting_array \<equiv>
     StructT Natural [(''reg_setting_a'', ArrT msm_camera_i2c_reg_array MAX_I2C_REG_SET),
      (''size'', u16), (''addr_type'', EnumT ''msm_camera_i2c_reg_addr_type''),
      (''data_type'', EnumT ''msm_camera_i2c_data_type''), (''delay'', u16)]"

definition msm_camsensor_sdk_1 :: "decl list" where
  "msm_camsensor_sdk_1 =
    [Flag ''__UAPI_LINUX_MSM_CAMSENSOR_SDK_H'']"

definition msm_camsensor_sdk_2 :: "decl list" where
  "msm_camsensor_sdk_2 =
    [Const ''KVERSION'' 0x1, Const ''MAX_POWER_CONFIG'' 12, Const ''GPIO_OUT_LOW'' 0,
     Const ''GPIO_OUT_HIGH'' (2 ^ 1), Const ''CSI_EMBED_DATA'' 0x12,
     Const ''CSI_RESERVED_DATA_0'' 0x13, Const ''CSI_YUV422_8'' 0x1E, Const ''CSI_RAW8'' 0x2A,
     Const ''CSI_RAW10'' 0x2B, Const ''CSI_RAW12'' 0x2C, Const ''CSI_DECODE_6BIT'' 0,
     Const ''CSI_DECODE_8BIT'' 1, Const ''CSI_DECODE_10BIT'' 2, Const ''CSI_DECODE_12BIT'' 3,
     Const ''CSI_DECODE_DPCM_10_6_10'' 4, Const ''CSI_DECODE_DPCM_10_8_10'' 5,
     Const ''MAX_CID'' 16, Const ''I2C_SEQ_REG_DATA_MAX'' 1024, Const ''I2C_REG_DATA_MAX'' 8192,
     Const ''MSM_V4L2_PIX_FMT_META'' 1096041805, Const ''MSM_V4L2_PIX_FMT_SBGGR14'' 875644738,
     Const ''MSM_V4L2_PIX_FMT_SGBRG14'' 875643463, Const ''MSM_V4L2_PIX_FMT_SGRBG14'' 875643202,
     Const ''MSM_V4L2_PIX_FMT_SRGGB14'' 875644754, Const ''MAX_ACTUATOR_REG_TBL_SIZE'' 8,
     Const ''MAX_ACTUATOR_REGION'' 5, Const ''NUM_ACTUATOR_DIR'' 2,
     Const ''MAX_ACTUATOR_SCENARIO'' 8, Const ''MAX_ACT_MOD_NAME_SIZE'' 32,
     Const ''MAX_ACT_NAME_SIZE'' 32, Const ''MAX_ACTUATOR_INIT_SET'' 120,
     Const ''MAX_I2C_REG_SET'' 12, Const ''MAX_LED_TRIGGERS'' 3,
     Const ''MSM_EEPROM_MEMORY_MAP_MAX_SIZE'' 80, Const ''MSM_EEPROM_MAX_MEM_MAP_CNT'' 8,
     Const ''MSM_SENSOR_BYPASS_VIDEO_NODE'' 1,
     Enum ''msm_sensor_camera_id_t'' [(''CAMERA_0'', 0), (''CAMERA_1'', 1), (''CAMERA_2'', 2),
       (''CAMERA_3'', 3), (''MAX_CAMERAS'', 4)],
     Enum ''i2c_freq_mode_t'' [(''I2C_STANDARD_MODE'', 0), (''I2C_FAST_MODE'', 1),
       (''I2C_CUSTOM_MODE'', 2), (''I2C_FAST_PLUS_MODE'', 3), (''I2C_MAX_MODES'', 4)],
     Enum ''camb_position_t'' [(''BACK_CAMERA_B'', 0), (''FRONT_CAMERA_B'', 1),
       (''AUX_CAMERA_B'', 256), (''INVALID_CAMERA_B'', 257)],
     Enum ''msm_sensor_power_seq_type_t'' [(''SENSOR_CLK'', 0), (''SENSOR_GPIO'', 1),
       (''SENSOR_VREG'', 2), (''SENSOR_I2C_MUX'', 3), (''SENSOR_I2C'', 4)],
     Enum ''msm_camera_i2c_reg_addr_type'' [(''MSM_CAMERA_I2C_BYTE_ADDR'', 1),
       (''MSM_CAMERA_I2C_WORD_ADDR'', 2), (''MSM_CAMERA_I2C_3B_ADDR'', 3),
       (''MSM_CAMERA_I2C_DWORD_ADDR'', 4), (''MSM_CAMERA_I2C_ADDR_TYPE_MAX'', 5)],
     Const ''MSM_CAMERA_I2C_DWORD_ADDR'' 4,
     Enum ''msm_camera_i2c_data_type'' [(''MSM_CAMERA_I2C_BYTE_DATA'', 1),
       (''MSM_CAMERA_I2C_WORD_DATA'', 2), (''MSM_CAMERA_I2C_DWORD_DATA'', 3),
       (''MSM_CAMERA_I2C_SET_BYTE_MASK'', 4), (''MSM_CAMERA_I2C_UNSET_BYTE_MASK'', 5),
       (''MSM_CAMERA_I2C_SET_WORD_MASK'', 6), (''MSM_CAMERA_I2C_UNSET_WORD_MASK'', 7),
       (''MSM_CAMERA_I2C_SET_BYTE_WRITE_MASK_DATA'', 8), (''MSM_CAMERA_I2C_DATA_TYPE_MAX'', 9)],
     Enum ''msm_sensor_power_seq_gpio_t'' [(''SENSOR_GPIO_RESET'', 0),
       (''SENSOR_GPIO_STANDBY'', 1), (''SENSOR_GPIO_AF_PWDM'', 2), (''SENSOR_GPIO_VIO'', 3),
       (''SENSOR_GPIO_VANA'', 4), (''SENSOR_GPIO_VDIG'', 5), (''SENSOR_GPIO_VAF'', 6),
       (''SENSOR_GPIO_FL_EN'', 7), (''SENSOR_GPIO_FL_NOW'', 8), (''SENSOR_GPIO_FL_RESET'', 9),
       (''SENSOR_GPIO_CUSTOM1'', 10), (''SENSOR_GPIO_CUSTOM2'', 11),
       (''SENSOR_GPIO_CUSTOM3'', 12), (''SENSOR_GPIO_MAX'', 13)],
     Const ''SENSOR_GPIO_CUSTOM3'' 12,
     Enum ''msm_ir_cut_filter_gpio_t'' [(''IR_CUT_FILTER_GPIO_P'', 0),
       (''IR_CUT_FILTER_GPIO_M'', 1), (''IR_CUT_FILTER_GPIO_MAX'', 2)],
     Const ''IR_CUT_FILTER_GPIO_P'' 0, Const ''IR_CUT_FILTER_GPIO_M'' 1,
     Const ''R_CUT_FILTER_GPIO_MAX'' 2,
     Enum ''msm_camera_vreg_name_t'' [(''CAM_VDIG'', 0), (''CAM_VIO'', 1), (''CAM_VANA'', 2),
       (''CAM_VAF'', 3), (''CAM_V_CUSTOM1'', 4), (''CAM_V_CUSTOM2'', 5), (''CAM_VREG_MAX'', 6)],
     Enum ''msm_sensor_clk_type_t'' [(''SENSOR_CAM_MCLK'', 0), (''SENSOR_CAM_CLK'', 1),
       (''SENSOR_CAM_CLK_MAX'', 2)],
     Enum ''camerab_mode_t'' [(''CAMERA_MODE_2D_B'', 1), (''CAMERA_MODE_3D_B'', 2),
       (''CAMERA_MODE_INVALID'', 4)],
     Enum ''msm_actuator_data_type'' [(''MSM_ACTUATOR_BYTE_DATA'', 1),
       (''MSM_ACTUATOR_WORD_DATA'', 2)],
     Enum ''msm_actuator_addr_type'' [(''MSM_ACTUATOR_BYTE_ADDR'', 1),
       (''MSM_ACTUATOR_WORD_ADDR'', 2)],
     Enum ''msm_actuator_write_type'' [(''MSM_ACTUATOR_WRITE_HW_DAMP'', 0),
       (''MSM_ACTUATOR_WRITE_DAC'', 1), (''MSM_ACTUATOR_WRITE'', 2),
       (''MSM_ACTUATOR_WRITE_DIR_REG'', 3), (''MSM_ACTUATOR_POLL'', 4),
       (''MSM_ACTUATOR_READ_WRITE'', 5)],
     Enum ''msm_actuator_i2c_operation'' [(''MSM_ACT_WRITE'', 0), (''MSM_ACT_POLL'', 1)]]"

definition msm_camsensor_sdk_3 :: "decl list" where
  "msm_camsensor_sdk_3 =
    [Enum ''actuator_type'' [(''ACTUATOR_VCM'', 0), (''ACTUATOR_PIEZO'', 1),
       (''ACTUATOR_HVCM'', 2), (''ACTUATOR_BIVCM'', 3)],
     Enum ''msm_flash_driver_type'' [(''FLASH_DRIVER_PMIC'', 0), (''FLASH_DRIVER_I2C'', 1),
       (''FLASH_DRIVER_GPIO'', 2), (''FLASH_DRIVER_DEFAULT'', 3)],
     Enum ''msm_flash_cfg_type_t'' [(''CFG_FLASH_INIT'', 0), (''CFG_FLASH_RELEASE'', 1),
       (''CFG_FLASH_OFF'', 2), (''CFG_FLASH_LOW'', 3), (''CFG_FLASH_HIGH'', 4)],
     Enum ''msm_ir_led_cfg_type_t'' [(''CFG_IR_LED_INIT'', 0), (''CFG_IR_LED_RELEASE'', 1),
       (''CFG_IR_LED_OFF'', 2), (''CFG_IR_LED_ON'', 3)],
     Const ''CFG_IR_LED_INIT'' 0, Const ''CFG_IR_LED_RELEASE'' 1, Const ''CFG_IR_LED_OFF'' 2,
     Const ''CFG_IR_LED_ON'' 3,
     Enum ''msm_laser_led_cfg_type_t'' [(''CFG_LASER_LED_INIT'', 0),
       (''CFG_LASER_LED_CONTROL'', 1)],
     Const ''CFG_LASER_LED_INIT'' 0, Const ''CFG_LASER_LED_CONTROL'' 1,
     Enum ''msm_ir_cut_cfg_type_t'' [(''CFG_IR_CUT_INIT'', 0), (''CFG_IR_CUT_RELEASE'', 1),
       (''CFG_IR_CUT_OFF'', 2), (''CFG_IR_CUT_ON'', 3)],
     Const ''CFG_IR_CUT_INIT'' 0, Const ''CFG_IR_CUT_RELEASE'' 1, Const ''CFG_IR_CUT_OFF'' 2,
     Const ''CFG_IR_CUT_ON'' 3,
     Enum ''msm_sensor_output_format_t'' [(''MSM_SENSOR_BAYER'', 0), (''MSM_SENSOR_YCBCR'', 1),
       (''MSM_SENSOR_META'', 2)],
     Struct ''msm_sensor_power_setting'' msm_sensor_power_setting,
     Struct ''msm_sensor_power_setting_array'' msm_sensor_power_setting_array,
     Enum ''msm_camera_i2c_operation'' [(''MSM_CAM_WRITE'', 0), (''MSM_CAM_POLL'', 1),
       (''MSM_CAM_READ'', 2)],
     Struct ''msm_sensor_i2c_sync_params'' msm_sensor_i2c_sync_params,
     Struct ''msm_camera_reg_settings_t'' msm_camera_reg_settings_t,
     Struct ''msm_eeprom_mem_map_t'' msm_eeprom_mem_map_t,
     Struct ''msm_eeprom_memory_map_array'' msm_eeprom_memory_map_array,
     Struct ''msm_sensor_init_params'' msm_sensor_init_params,
     Struct ''msm_sensor_id_info_t'' msm_sensor_id_info_t,
     Struct ''msm_camera_sensor_slave_info'' msm_camera_sensor_slave_info,
     Struct ''msm_camera_i2c_reg_array'' msm_camera_i2c_reg_array,
     Struct ''msm_camera_i2c_reg_setting'' msm_camera_i2c_reg_setting,
     Struct ''msm_camera_csid_vc_cfg'' msm_camera_csid_vc_cfg,
     Struct ''msm_camera_csid_lut_params'' msm_camera_csid_lut_params,
     Struct ''msm_camera_csid_params'' msm_camera_csid_params]"

definition msm_camsensor_sdk_4 :: "decl list" where
  "msm_camsensor_sdk_4 =
    [Struct ''msm_camera_csid_testmode_parms'' msm_camera_csid_testmode_parms,
     Struct ''msm_camera_csiphy_params'' msm_camera_csiphy_params,
     Struct ''msm_camera_i2c_seq_reg_array'' msm_camera_i2c_seq_reg_array,
     Struct ''msm_camera_i2c_seq_reg_setting'' msm_camera_i2c_seq_reg_setting,
     Struct ''msm_actuator_reg_params_t'' msm_actuator_reg_params_t,
     Struct ''damping_params_t'' damping_params_t, Struct ''region_params_t'' region_params_t,
     Struct ''reg_settings_t'' reg_settings_t,
     Struct ''msm_camera_i2c_reg_setting_array'' msm_camera_i2c_reg_setting_array]"

definition msm_camsensor_sdk_h :: "decl list" where
  "msm_camsensor_sdk_h = msm_camsensor_sdk_1 @ msm_camsensor_sdk_2 @ msm_camsensor_sdk_3 @ msm_camsensor_sdk_4"

subsection \<open>media/msm_cam_sensor.h\<close>

abbreviation msm_camera_i2c_array_write_config :: ctype where
  "msm_camera_i2c_array_write_config \<equiv>
     StructT Natural [(''conf_array'', msm_camera_i2c_reg_setting), (''slave_addr'', u16)]"

abbreviation msm_camera_i2c_read_config :: ctype where
  "msm_camera_i2c_read_config \<equiv>
     StructT Natural [(''slave_addr'', u16), (''reg_addr'', u16),
      (''addr_type'', EnumT ''msm_camera_i2c_reg_addr_type''),
      (''data_type'', EnumT ''msm_camera_i2c_data_type''), (''data'', u16)]"

abbreviation msm_camera_csi2_params :: ctype where
  "msm_camera_csi2_params \<equiv>
     StructT Natural [(''csid_params'', msm_camera_csid_params),
      (''csiphy_params'', msm_camera_csiphy_params), (''csi_clk_scale_enable'', u8)]"

abbreviation msm_camera_csi_lane_params :: ctype where
  "msm_camera_csi_lane_params \<equiv>
     StructT Natural [(''csi_lane_assign'', u16), (''csi_lane_mask'', u16)]"

abbreviation csi_lane_params_t :: ctype where
  "csi_lane_params_t \<equiv>
     StructT Natural [(''csi_lane_assign'', u16), (''csi_lane_mask'', u8), (''csi_if'', u8),
      (''csid_core'', ArrT s8 2), (''csi_phy_sel'', u8)]"

abbreviation MAX_SENSOR_NAME :: nat where "MAX_SENSOR_NAME \<equiv> 32"

abbreviation SUB_MODULE_MAX :: nat where "SUB_MODULE_MAX \<equiv> 15"

abbreviation msm_sensor_info_t :: ctype where
  "msm_sensor_info_t \<equiv>
     StructT Natural [(''sensor_name'', ArrT CharT MAX_SENSOR_NAME), (''session_id'', u32),
      (''subdev_id'', ArrT s32 SUB_MODULE_MAX), (''subdev_intf'', ArrT s32 SUB_MODULE_MAX),
      (''is_mount_angle_valid'', u8), (''sensor_mount_angle'', u32), (''modes_supported'', s32),
      (''position'', EnumT ''camb_position_t'')]"

abbreviation camera_vreg_t :: ctype where
  "camera_vreg_t \<equiv>
     StructT Natural [(''reg_name'', PtrT), (''min_voltage'', s32), (''max_voltage'', s32),
      (''op_mode'', s32), (''delay'', u32), (''custom_vreg_name'', PtrT),
      (''type'', EnumT ''camera_vreg_type'')]"

abbreviation sensorb_cfg_data :: ctype where
  "sensorb_cfg_data \<equiv>
     StructT Natural [(''cfgtype'', s32),
      (''cfg'', UnionT Natural [(''sensor_info'', msm_sensor_info_t),
      (''sensor_init_params'', msm_sensor_init_params), (''setting'', PtrT),
      (''sensor_i2c_sync_params'', msm_sensor_i2c_sync_params)])]"

abbreviation csid_cfg_data :: ctype where
  "csid_cfg_data \<equiv>
     StructT Natural [(''cfgtype'', EnumT ''csid_cfg_type_t''),
      (''cfg'', UnionT Natural [(''csid_version'', u32), (''csid_params'', PtrT),
      (''csid_testmode_params'', PtrT)])]"

abbreviation csiphy_cfg_data :: ctype where
  "csiphy_cfg_data \<equiv>
     StructT Natural [(''cfgtype'', EnumT ''csiphy_cfg_type_t''),
      (''cfg'', UnionT Natural [(''csiphy_params'', PtrT), (''csi_lane_params'', PtrT)])]"

abbreviation eeprom_get_t :: ctype where
  "eeprom_get_t \<equiv>
     StructT Natural [(''num_bytes'', u32)]"

abbreviation eeprom_read_t :: ctype where
  "eeprom_read_t \<equiv>
     StructT Natural [(''dbuffer'', PtrT), (''num_bytes'', u32)]"

abbreviation eeprom_write_t :: ctype where
  "eeprom_write_t \<equiv>
     StructT Natural [(''dbuffer'', PtrT), (''num_bytes'', u32)]"

abbreviation eeprom_get_cmm_t :: ctype where
  "eeprom_get_cmm_t \<equiv>
     StructT Natural [(''cmm_support'', u32), (''cmm_compression'', u32), (''cmm_size'', u32)]"

abbreviation msm_eeprom_info_t :: ctype where
  "msm_eeprom_info_t \<equiv>
     StructT Natural [(''power_setting_array'', PtrT),
      (''i2c_freq_mode'', EnumT ''i2c_freq_mode_t''), (''mem_map_array'', PtrT)]"

abbreviation msm_ir_led_cfg_data_t :: ctype where
  "msm_ir_led_cfg_data_t \<equiv>
     StructT Natural [(''cfg_type'', EnumT ''msm_ir_led_cfg_type_t''),
      (''pwm_duty_on_ns'', s32), (''pwm_period_ns'', s32)]"

abbreviation msm_ir_cut_cfg_data_t :: ctype where
  "msm_ir_cut_cfg_data_t \<equiv>
     StructT Natural [(''cfg_type'', EnumT ''msm_ir_cut_cfg_type_t'')]"

abbreviation msm_laser_led_cfg_data_t :: ctype where
  "msm_laser_led_cfg_data_t \<equiv>
     StructT Natural [(''cfg_type'', EnumT ''msm_laser_led_cfg_type_t''), (''setting'', PtrT),
      (''debug_reg'', PtrT), (''debug_reg_size'', u32), (''i2c_addr'', u16),
      (''i2c_freq_mode'', EnumT ''i2c_freq_mode_t'')]"

abbreviation MAX_EEPROM_NAME :: nat where "MAX_EEPROM_NAME \<equiv> 32"

abbreviation msm_eeprom_cfg_data :: ctype where
  "msm_eeprom_cfg_data \<equiv>
     StructT Natural [(''cfgtype'', EnumT ''eeprom_cfg_type_t''), (''is_supported'', u8),
      (''cfg'', UnionT Natural [(''eeprom_name'', ArrT CharT MAX_EEPROM_NAME),
      (''get_data'', eeprom_get_t), (''read_data'', eeprom_read_t),
      (''write_data'', eeprom_write_t), (''get_cmm_data'', eeprom_get_cmm_t),
      (''eeprom_info'', msm_eeprom_info_t)])]"

abbreviation msm_ois_opcode :: ctype where
  "msm_ois_opcode \<equiv>
     StructT Natural [(''prog'', u32), (''coeff'', u32), (''pheripheral'', u32),
      (''memory'', u32)]"

abbreviation reg_settings_ois_t :: ctype where
  "reg_settings_ois_t \<equiv>
     StructT Natural [(''reg_addr'', u16),
      (''addr_type'', EnumT ''msm_camera_i2c_reg_addr_type''), (''reg_data'', u32),
      (''data_type'', EnumT ''msm_camera_i2c_data_type''),
      (''i2c_operation'', EnumT ''msm_ois_i2c_operation''), (''delay'', u32)]"

abbreviation msm_ois_params_t :: ctype where
  "msm_ois_params_t \<equiv>
     StructT Natural [(''data_size'', u16), (''setting_size'', u16), (''i2c_addr'', u32),
      (''i2c_freq_mode'', EnumT ''i2c_freq_mode_t''),
      (''i2c_addr_type'', EnumT ''msm_camera_i2c_reg_addr_type''),
      (''i2c_data_type'', EnumT ''msm_camera_i2c_data_type''), (''settings'', PtrT)]"

abbreviation msm_ois_set_info_t :: ctype where
  "msm_ois_set_info_t \<equiv>
     StructT Natural [(''ois_params'', msm_ois_params_t)]"

abbreviation msm_actuator_move_params_t :: ctype where
  "msm_actuator_move_params_t \<equiv>
     StructT Natural [(''dir'', s8), (''sign_dir'', s8), (''dest_step_pos'', s16),
      (''num_steps'', s32), (''curr_lens_pos'', u16), (''ringing_params'', PtrT)]"

abbreviation msm_actuator_tuning_params_t :: ctype where
  "msm_actuator_tuning_params_t \<equiv>
     StructT Natural [(''initial_code'', s16), (''pwd_step'', u16), (''region_size'', u16),
      (''total_steps'', u32), (''region_params'', PtrT)]"

abbreviation park_lens_data_t :: ctype where
  "park_lens_data_t \<equiv>
     StructT Natural [(''damping_step'', u32), (''damping_delay'', u32), (''hw_params'', u32),
      (''max_step'', u32)]"

abbreviation msm_actuator_params_t :: ctype where
  "msm_actuator_params_t \<equiv>
     StructT Natural [(''act_type'', EnumT ''actuator_type''), (''reg_tbl_size'', u8),
      (''data_size'', u16), (''init_setting_size'', u16), (''i2c_addr'', u32),
      (''i2c_freq_mode'', EnumT ''i2c_freq_mode_t''),
      (''i2c_addr_type'', EnumT ''msm_camera_i2c_reg_addr_type''),
      (''i2c_data_type'', EnumT ''msm_camera_i2c_data_type''), (''reg_tbl_params'', PtrT),
      (''init_settings'', PtrT), (''park_lens'', park_lens_data_t)]"

abbreviation msm_actuator_set_info_t :: ctype where
  "msm_actuator_set_info_t \<equiv>
     StructT Natural [(''actuator_params'', msm_actuator_params_t),
      (''af_tuning_params'', msm_actuator_tuning_params_t)]"

abbreviation msm_actuator_get_info_t :: ctype where
  "msm_actuator_get_info_t \<equiv>
     StructT Natural [(''focal_length_num'', u32), (''focal_length_den'', u32),
      (''f_number_num'', u32), (''f_number_den'', u32), (''f_pix_num'', u32),
      (''f_pix_den'', u32), (''total_f_dist_num'', u32), (''total_f_dist_den'', u32),
      (''hor_view_angle_num'', u32), (''hor_view_angle_den'', u32),
      (''ver_view_angle_num'', u32), (''ver_view_angle_den'', u32)]"

abbreviation MAX_OIS_NAME_SIZE :: nat where "MAX_OIS_NAME_SIZE \<equiv> 32"

abbreviation msm_ois_slave_info :: ctype where
  "msm_ois_slave_info \<equiv>
     StructT Natural [(''ois_name'', ArrT CharT MAX_OIS_NAME_SIZE), (''i2c_addr'', u32),
      (''opcode'', msm_ois_opcode)]"

abbreviation msm_ois_cfg_data :: ctype where
  "msm_ois_cfg_data \<equiv>
     StructT Natural [(''cfgtype'', s32),
      (''cfg'', UnionT Natural [(''set_info'', msm_ois_set_info_t), (''settings'', PtrT)])]"

abbreviation msm_ois_cfg_download_data :: ctype where
  "msm_ois_cfg_download_data \<equiv>
     StructT Natural [(''cfgtype'', s32), (''slave_info'', msm_ois_slave_info)]"

abbreviation MAX_NUMBER_OF_STEPS :: nat where "MAX_NUMBER_OF_STEPS \<equiv> 47"

abbreviation msm_actuator_set_position_t :: ctype where
  "msm_actuator_set_position_t \<equiv>
     StructT Natural [(''number_of_steps'', u16), (''hw_params'', u32),
      (''pos'', ArrT u16 MAX_NUMBER_OF_STEPS), (''delay'', ArrT u16 MAX_NUMBER_OF_STEPS)]"

abbreviation msm_actuator_cfg_data :: ctype where
  "msm_actuator_cfg_data \<equiv>
     StructT Natural [(''cfgtype'', s32), (''is_af_supported'', u8),
      (''cfg'', UnionT Natural [(''move'', msm_actuator_move_params_t),
      (''set_info'', msm_actuator_set_info_t), (''get_info'', msm_actuator_get_info_t),
      (''setpos'', msm_actuator_set_position_t), (''cam_name'', EnumT ''af_camera_name'')])]"

abbreviation MAX_LED_TRIGGERS :: nat where "MAX_LED_TRIGGERS \<equiv> 3"

abbreviation msm_camera_led_cfg_t :: ctype where
  "msm_camera_led_cfg_t \<equiv>
     StructT Natural [(''cfgtype'', EnumT ''msm_camera_led_config_t''),
      (''torch_current'', ArrT s32 MAX_LED_TRIGGERS),
      (''flash_current'', ArrT s32 MAX_LED_TRIGGERS),
      (''flash_duration'', ArrT s32 MAX_LED_TRIGGERS)]"

abbreviation msm_flash_init_info_t :: ctype where
  "msm_flash_init_info_t \<equiv>
     StructT Natural [(''flash_driver_type'', EnumT ''msm_flash_driver_type''),
      (''slave_addr'', u32), (''i2c_freq_mode'', EnumT ''i2c_freq_mode_t''),
      (''power_setting_array'', PtrT), (''settings'', PtrT)]"

abbreviation msm_flash_cfg_data_t :: ctype where
  "msm_flash_cfg_data_t \<equiv>
     StructT Natural [(''cfg_type'', EnumT ''msm_flash_cfg_type_t''),
      (''flash_current'', ArrT s32 MAX_LED_TRIGGERS),
      (''flash_duration'', ArrT s32 MAX_LED_TRIGGERS),
      (''cfg'', UnionT Natural [(''flash_init_info'', PtrT), (''settings'', PtrT)])]"

abbreviation msm_flash_query_data_t :: ctype where
  "msm_flash_query_data_t \<equiv>
     StructT Natural [(''flags'', s32), (''query_type'', s32), (''max_avail_curr'', s32)]"

abbreviation sensor_init_cfg_data :: ctype where
  "sensor_init_cfg_data \<equiv>
     StructT Natural [(''cfgtype'', EnumT ''msm_sensor_init_cfg_type_t''),
      (''probed_info'', msm_sensor_info_t), (''entity_name'', ArrT CharT MAX_SENSOR_NAME),
      (''cfg'', UnionT Natural [(''setting'', PtrT)])]"

definition msm_cam_sensor_1 :: "decl list" where
  "msm_cam_sensor_1 =
    [Flag ''__UAPI_LINUX_MSM_CAM_SENSOR_H'']"

definition msm_cam_sensor_2 :: "decl list" where
  "msm_cam_sensor_2 =
    [Const ''I2C_SEQ_REG_SETTING_MAX'' 5, Const ''MSM_SENSOR_MCLK_8HZ'' 8000000,
     Const ''MSM_SENSOR_MCLK_16HZ'' 16000000, Const ''MSM_SENSOR_MCLK_24HZ'' 24000000,
     Const ''MAX_SENSOR_NAME'' 32, Const ''MAX_ACTUATOR_AF_TOTAL_STEPS'' 1024,
     Const ''MAX_OIS_MOD_NAME_SIZE'' 32, Const ''MAX_OIS_NAME_SIZE'' 32,
     Const ''MAX_OIS_REG_SETTINGS'' 800, Const ''MOVE_NEAR'' 0, Const ''MOVE_FAR'' 1,
     Const ''MSM_ACTUATOR_MOVE_SIGNED_FAR'' (- 1), Const ''MSM_ACTUATOR_MOVE_SIGNED_NEAR'' 1,
     Const ''MAX_ACTUATOR_REGION'' 5, Const ''MAX_EEPROM_NAME'' 32,
     Const ''MAX_AF_ITERATIONS'' 3, Const ''MAX_NUMBER_OF_STEPS'' 47, Const ''MAX_REGULATOR'' 5,
     Const ''FLASH_QUERY_CURRENT'' 1, Const ''MSM_V4L2_PIX_FMT_META'' 1096041805,
     Const ''MSM_V4L2_PIX_FMT_META10'' 808535373, Const ''MSM_V4L2_PIX_FMT_SBGGR14'' 875644738,
     Const ''MSM_V4L2_PIX_FMT_SGBRG14'' 875643463, Const ''MSM_V4L2_PIX_FMT_SGRBG14'' 875643202,
     Const ''MSM_V4L2_PIX_FMT_SRGGB14'' 875644754,
     Enum ''flash_type'' [(''LED_FLASH'', 1), (''STROBE_FLASH'', 2), (''GPIO_FLASH'', 3)],
     Enum ''msm_sensor_resolution_t'' [(''MSM_SENSOR_RES_FULL'', 0), (''MSM_SENSOR_RES_QTR'', 1),
       (''MSM_SENSOR_RES_2'', 2), (''MSM_SENSOR_RES_3'', 3), (''MSM_SENSOR_RES_4'', 4),
       (''MSM_SENSOR_RES_5'', 5), (''MSM_SENSOR_RES_6'', 6), (''MSM_SENSOR_RES_7'', 7),
       (''MSM_SENSOR_INVALID_RES'', 8)],
     Enum ''msm_camera_stream_type_t'' [(''MSM_CAMERA_STREAM_PREVIEW'', 0),
       (''MSM_CAMERA_STREAM_SNAPSHOT'', 1), (''MSM_CAMERA_STREAM_VIDEO'', 2),
       (''MSM_CAMERA_STREAM_INVALID'', 3)],
     Enum ''sensor_sub_module_t'' [(''SUB_MODULE_SENSOR'', 0), (''SUB_MODULE_CHROMATIX'', 1),
       (''SUB_MODULE_ACTUATOR'', 2), (''SUB_MODULE_EEPROM'', 3), (''SUB_MODULE_LED_FLASH'', 4),
       (''SUB_MODULE_STROBE_FLASH'', 5), (''SUB_MODULE_CSID'', 6), (''SUB_MODULE_CSID_3D'', 7),
       (''SUB_MODULE_CSIPHY'', 8), (''SUB_MODULE_CSIPHY_3D'', 9), (''SUB_MODULE_OIS'', 10),
       (''SUB_MODULE_EXT'', 11), (''SUB_MODULE_IR_LED'', 12), (''SUB_MODULE_IR_CUT'', 13),
       (''SUB_MODULE_LASER_LED'', 14), (''SUB_MODULE_MAX'', 15)],
     Enum '''' [(''MSM_CAMERA_EFFECT_MODE_OFF'', 0), (''MSM_CAMERA_EFFECT_MODE_MONO'', 1),
       (''MSM_CAMERA_EFFECT_MODE_NEGATIVE'', 2), (''MSM_CAMERA_EFFECT_MODE_SOLARIZE'', 3),
       (''MSM_CAMERA_EFFECT_MODE_SEPIA'', 4), (''MSM_CAMERA_EFFECT_MODE_POSTERIZE'', 5),
       (''MSM_CAMERA_EFFECT_MODE_WHITEBOARD'', 6), (''MSM_CAMERA_EFFECT_MODE_BLACKBOARD'', 7),
       (''MSM_CAMERA_EFFECT_MODE_AQUA'', 8), (''MSM_CAMERA_EFFECT_MODE_EMBOSS'', 9),
       (''MSM_CAMERA_EFFECT_MODE_SKETCH'', 10), (''MSM_CAMERA_EFFECT_MODE_NEON'', 11),
       (''MSM_CAMERA_EFFECT_MODE_MAX'', 12)],
     Enum '''' [(''MSM_CAMERA_WB_MODE_AUTO'', 0), (''MSM_CAMERA_WB_MODE_CUSTOM'', 1),
       (''MSM_CAMERA_WB_MODE_INCANDESCENT'', 2), (''MSM_CAMERA_WB_MODE_FLUORESCENT'', 3),
       (''MSM_CAMERA_WB_MODE_WARM_FLUORESCENT'', 4), (''MSM_CAMERA_WB_MODE_DAYLIGHT'', 5),
       (''MSM_CAMERA_WB_MODE_CLOUDY_DAYLIGHT'', 6), (''MSM_CAMERA_WB_MODE_TWILIGHT'', 7),
       (''MSM_CAMERA_WB_MODE_SHADE'', 8), (''MSM_CAMERA_WB_MODE_OFF'', 9),
       (''MSM_CAMERA_WB_MODE_MAX'', 10)],
     Enum '''' [(''MSM_CAMERA_SCENE_MODE_OFF'', 0), (''MSM_CAMERA_SCENE_MODE_AUTO'', 1),
       (''MSM_CAMERA_SCENE_MODE_LANDSCAPE'', 2), (''MSM_CAMERA_SCENE_MODE_SNOW'', 3),
       (''MSM_CAMERA_SCENE_MODE_BEACH'', 4), (''MSM_CAMERA_SCENE_MODE_SUNSET'', 5),
       (''MSM_CAMERA_SCENE_MODE_NIGHT'', 6), (''MSM_CAMERA_SCENE_MODE_PORTRAIT'', 7),
       (''MSM_CAMERA_SCENE_MODE_BACKLIGHT'', 8), (''MSM_CAMERA_SCENE_MODE_SPORTS'', 9),
       (''MSM_CAMERA_SCENE_MODE_ANTISHAKE'', 10), (''MSM_CAMERA_SCENE_MODE_FLOWERS'', 11),
       (''MSM_CAMERA_SCENE_MODE_CANDLELIGHT'', 12), (''MSM_CAMERA_SCENE_MODE_FIREWORKS'', 13),
       (''MSM_CAMERA_SCENE_MODE_PARTY'', 14), (''MSM_CAMERA_SCENE_MODE_NIGHT_PORTRAIT'', 15),
       (''MSM_CAMERA_SCENE_MODE_THEATRE'', 16), (''MSM_CAMERA_SCENE_MODE_ACTION'', 17),
       (''MSM_CAMERA_SCENE_MODE_AR'', 18), (''MSM_CAMERA_SCENE_MODE_FACE_PRIORITY'', 19),
       (''MSM_CAMERA_SCENE_MODE_BARCODE'', 20), (''MSM_CAMERA_SCENE_MODE_HDR'', 21),
       (''MSM_CAMERA_SCENE_MODE_MAX'', 22)],
     Enum ''csid_cfg_type_t'' [(''CSID_INIT'', 0), (''CSID_CFG'', 1), (''CSID_TESTMODE_CFG'', 2),
       (''CSID_RELEASE'', 3)],
     Enum ''csiphy_cfg_type_t'' [(''CSIPHY_INIT'', 0), (''CSIPHY_CFG'', 1),
       (''CSIPHY_RELEASE'', 2)],
     Enum ''camera_vreg_type'' [(''VREG_TYPE_DEFAULT'', 0), (''VREG_TYPE_CUSTOM'', 1)],
     Enum ''sensor_af_t'' [(''SENSOR_AF_FOCUSSED'', 0), (''SENSOR_AF_NOT_FOCUSSED'', 1)],
     Enum ''cci_i2c_master_t'' [(''MASTER_0'', 0), (''MASTER_1'', 1), (''MASTER_MAX'', 2)],
     Struct ''msm_camera_i2c_array_write_config'' msm_camera_i2c_array_write_config]"

definition msm_cam_sensor_3 :: "decl list" where
  "msm_cam_sensor_3 =
    [Struct ''msm_camera_i2c_read_config'' msm_camera_i2c_read_config,
     Struct ''msm_camera_csi2_params'' msm_camera_csi2_params,
     Struct ''msm_camera_csi_lane_params'' msm_camera_csi_lane_params,
     Struct ''csi_lane_params_t'' csi_lane_params_t,
     Struct ''msm_sensor_info_t'' msm_sensor_info_t, Struct ''camera_vreg_t'' camera_vreg_t,
     Struct ''sensorb_cfg_data'' sensorb_cfg_data, Struct ''csid_cfg_data'' csid_cfg_data,
     Struct ''csiphy_cfg_data'' csiphy_cfg_data,
     Enum ''eeprom_cfg_type_t'' [(''CFG_EEPROM_GET_INFO'', 0), (''CFG_EEPROM_GET_CAL_DATA'', 1),
       (''CFG_EEPROM_READ_CAL_DATA'', 2), (''CFG_EEPROM_WRITE_DATA'', 3),
       (''CFG_EEPROM_GET_MM_INFO'', 4), (''CFG_EEPROM_INIT'', 5)],
     Struct ''eeprom_get_t'' eeprom_get_t, Struct ''eeprom_read_t'' eeprom_read_t,
     Struct ''eeprom_write_t'' eeprom_write_t, Struct ''eeprom_get_cmm_t'' eeprom_get_cmm_t,
     Struct ''msm_eeprom_info_t'' msm_eeprom_info_t,
     Struct ''msm_ir_led_cfg_data_t'' msm_ir_led_cfg_data_t,
     Struct ''msm_ir_cut_cfg_data_t'' msm_ir_cut_cfg_data_t,
     Struct ''msm_laser_led_cfg_data_t'' msm_laser_led_cfg_data_t,
     Struct ''msm_eeprom_cfg_data'' msm_eeprom_cfg_data]"

definition msm_cam_sensor_4 :: "decl list" where
  "msm_cam_sensor_4 =
    [Enum ''msm_sensor_cfg_type_t'' [(''CFG_SET_SLAVE_INFO'', 0), (''CFG_SLAVE_READ_I2C'', 1),
       (''CFG_WRITE_I2C_ARRAY'', 2), (''CFG_SLAVE_WRITE_I2C_ARRAY'', 3),
       (''CFG_WRITE_I2C_SEQ_ARRAY'', 4), (''CFG_POWER_UP'', 5), (''CFG_POWER_DOWN'', 6),
       (''CFG_SET_STOP_STREAM_SETTING'', 7), (''CFG_GET_SENSOR_INFO'', 8),
       (''CFG_GET_SENSOR_INIT_PARAMS'', 9), (''CFG_SET_INIT_SETTING'', 10),
       (''CFG_SET_RESOLUTION'', 11), (''CFG_SET_STOP_STREAM'', 12),
       (''CFG_SET_START_STREAM'', 13), (''CFG_SET_SATURATION'', 14), (''CFG_SET_CONTRAST'', 15),
       (''CFG_SET_SHARPNESS'', 16), (''CFG_SET_ISO'', 17),
       (''CFG_SET_EXPOSURE_COMPENSATION'', 18), (''CFG_SET_ANTIBANDING'', 19),
       (''CFG_SET_BESTSHOT_MODE'', 20), (''CFG_SET_EFFECT'', 21),
       (''CFG_SET_WHITE_BALANCE'', 22), (''CFG_SET_AUTOFOCUS'', 23),
       (''CFG_CANCEL_AUTOFOCUS'', 24), (''CFG_SET_STREAM_TYPE'', 25),
       (''CFG_SET_I2C_SYNC_PARAM'', 26), (''CFG_WRITE_I2C_ARRAY_ASYNC'', 27),
       (''CFG_WRITE_I2C_ARRAY_SYNC'', 28), (''CFG_WRITE_I2C_ARRAY_SYNC_BLOCK'', 29)],
     Enum ''msm_actuator_cfg_type_t'' [(''CFG_GET_ACTUATOR_INFO'', 0),
       (''CFG_SET_ACTUATOR_INFO'', 1), (''CFG_SET_DEFAULT_FOCUS'', 2), (''CFG_MOVE_FOCUS'', 3),
       (''CFG_SET_POSITION'', 4), (''CFG_ACTUATOR_POWERDOWN'', 5), (''CFG_ACTUATOR_POWERUP'', 6),
       (''CFG_ACTUATOR_INIT'', 7)],
     Struct ''msm_ois_opcode'' msm_ois_opcode,
     Enum ''msm_ois_cfg_type_t'' [(''CFG_OIS_INIT'', 0), (''CFG_OIS_POWERDOWN'', 1),
       (''CFG_OIS_POWERUP'', 2), (''CFG_OIS_CONTROL'', 3), (''CFG_OIS_I2C_WRITE_SEQ_TABLE'', 4)],
     Enum ''msm_ois_cfg_download_type_t'' [(''CFG_OIS_DOWNLOAD'', 0),
       (''CFG_OIS_DATA_CONFIG'', 1)],
     Enum ''msm_ois_i2c_operation'' [(''MSM_OIS_WRITE'', 0), (''MSM_OIS_POLL'', 1),
       (''MSM_OIS_READ'', 2)],
     Const ''MSM_OIS_READ'' 2, Struct ''reg_settings_ois_t'' reg_settings_ois_t,
     Struct ''msm_ois_params_t'' msm_ois_params_t,
     Struct ''msm_ois_set_info_t'' msm_ois_set_info_t,
     Struct ''msm_actuator_move_params_t'' msm_actuator_move_params_t,
     Struct ''msm_actuator_tuning_params_t'' msm_actuator_tuning_params_t,
     Struct ''park_lens_data_t'' park_lens_data_t,
     Struct ''msm_actuator_params_t'' msm_actuator_params_t,
     Struct ''msm_actuator_set_info_t'' msm_actuator_set_info_t,
     Struct ''msm_actuator_get_info_t'' msm_actuator_get_info_t,
     Enum ''af_camera_name'' [(''ACTUATOR_MAIN_CAM_0'', 0), (''ACTUATOR_MAIN_CAM_1'', 1),
       (''ACTUATOR_MAIN_CAM_2'', 2), (''ACTUATOR_MAIN_CAM_3'', 3), (''ACTUATOR_MAIN_CAM_4'', 4),
       (''ACTUATOR_MAIN_CAM_5'', 5), (''ACTUATOR_WEB_CAM_0'', 6), (''ACTUATOR_WEB_CAM_1'', 7),
       (''ACTUATOR_WEB_CAM_2'', 8)]]"

definition msm_cam_sensor_5 :: "decl list" where
  "msm_cam_sensor_5 =
    [Struct ''msm_ois_slave_info'' msm_ois_slave_info,
     Struct ''msm_ois_cfg_data'' msm_ois_cfg_data,
     Struct ''msm_ois_cfg_download_data'' msm_ois_cfg_download_data,
     Struct ''msm_actuator_set_position_t'' msm_actuator_set_position_t,
     Struct ''msm_actuator_cfg_data'' msm_actuator_cfg_data,
     Enum ''msm_camera_led_config_t'' [(''MSM_CAMERA_LED_OFF'', 0), (''MSM_CAMERA_LED_LOW'', 1),
       (''MSM_CAMERA_LED_HIGH'', 2), (''MSM_CAMERA_LED_INIT'', 3),
       (''MSM_CAMERA_LED_RELEASE'', 4)],
     Struct ''msm_camera_led_cfg_t'' msm_camera_led_cfg_t,
     Struct ''msm_flash_init_info_t'' msm_flash_init_info_t,
     Struct ''msm_flash_cfg_data_t'' msm_flash_cfg_data_t,
     Struct ''msm_flash_query_data_t'' msm_flash_query_data_t,
     Enum ''msm_sensor_init_cfg_type_t'' [(''CFG_SINIT_PROBE'', 0),
       (''CFG_SINIT_PROBE_DONE'', 1), (''CFG_SINIT_PROBE_WAIT_DONE'', 2)],
     Struct ''sensor_init_cfg_data'' sensor_init_cfg_data,
     Request ''VIDIOC_MSM_SENSOR_CFG'' (IOWR 86 (192 + 1) sensorb_cfg_data),
     Request ''VIDIOC_MSM_SENSOR_RELEASE'' (IO 86 (192 + 2)),
     Request ''VIDIOC_MSM_SENSOR_GET_SUBDEV_ID'' (IOWR 86 (192 + 3) u32),
     Request ''VIDIOC_MSM_CSIPHY_IO_CFG'' (IOWR 86 (192 + 4) csiphy_cfg_data),
     Request ''VIDIOC_MSM_CSID_IO_CFG'' (IOWR 86 (192 + 5) csid_cfg_data),
     Request ''VIDIOC_MSM_ACTUATOR_CFG'' (IOWR 86 (192 + 6) msm_actuator_cfg_data),
     Request ''VIDIOC_MSM_FLASH_LED_DATA_CFG'' (IOWR 86 (192 + 7) msm_camera_led_cfg_t),
     Request ''VIDIOC_MSM_EEPROM_CFG'' (IOWR 86 (192 + 8) msm_eeprom_cfg_data),
     Request ''VIDIOC_MSM_SENSOR_GET_AF_STATUS'' (IOWR 86 (192 + 9) u32),
     Request ''VIDIOC_MSM_SENSOR_INIT_CFG'' (IOWR 86 (192 + 10) sensor_init_cfg_data),
     Request ''VIDIOC_MSM_OIS_CFG'' (IOWR 86 (192 + 11) msm_ois_cfg_data),
     Request ''VIDIOC_MSM_FLASH_CFG'' (IOWR 86 (192 + 13) msm_flash_cfg_data_t),
     Request ''VIDIOC_MSM_OIS_CFG_DOWNLOAD'' (IOWR 86 (192 + 14) msm_ois_cfg_download_data),
     Request ''VIDIOC_MSM_FLASH_QUERY_DATA'' (IOWR 86 (192 + 15) msm_flash_query_data_t),
     Request ''VIDIOC_MSM_IR_LED_CFG'' (IOWR 86 (192 + 15) msm_ir_led_cfg_data_t),
     Request ''VIDIOC_MSM_IR_CUT_CFG'' (IOWR 86 (192 + 15) msm_ir_cut_cfg_data_t),
     Request ''VIDIOC_MSM_LASER_LED_CFG'' (IOWR 86 (192 + 16) msm_laser_led_cfg_data_t)]"

definition msm_cam_sensor_h :: "decl list" where
  "msm_cam_sensor_h = msm_cam_sensor_1 @ msm_cam_sensor_2 @ msm_cam_sensor_3 @ msm_cam_sensor_4 @ msm_cam_sensor_5"

subsection \<open>media/msmb_camera.h\<close>

abbreviation msm_v4l2_event_data :: ctype where
  "msm_v4l2_event_data \<equiv>
     StructT Natural [(''command'', u32), (''status'', u32), (''session_id'', u32),
      (''stream_id'', u32), (''map_op'', u32), (''map_buf_idx'', u32), (''notify'', u32),
      (''arg_value'', u32), (''ret_value'', u32), (''v4l2_event_type'', u32),
      (''v4l2_event_id'', u32), (''handle'', u32), (''nop6'', u32), (''nop7'', u32),
      (''nop8'', u32), (''nop9'', u32)]"

abbreviation msm_v4l2_format_data :: ctype where
  "msm_v4l2_format_data \<equiv>
     StructT Natural [(''type'', EnumT ''v4l2_buf_type''), (''width'', u32), (''height'', u32),
      (''pixelformat'', u32), (''num_planes'', u8), (''plane_sizes'', ArrT u32 8)]"

abbreviation msm_camera_smmu_attach_type :: ctype where
  "msm_camera_smmu_attach_type \<equiv>
     StructT Natural [(''attach'', EnumT ''smmu_attach_mode'')]"

abbreviation MSM_CAMERA_MAX_USER_BUFF_CNT :: nat where "MSM_CAMERA_MAX_USER_BUFF_CNT \<equiv> 16"

abbreviation msm_camera_user_buf_cont_t :: ctype where
  "msm_camera_user_buf_cont_t \<equiv>
     StructT Natural [(''buf_cnt'', u32), (''buf_idx'', ArrT u32 MSM_CAMERA_MAX_USER_BUFF_CNT)]"

abbreviation msm_camera_return_buf :: ctype where
  "msm_camera_return_buf \<equiv>
     StructT Natural [(''index'', u32), (''reserved'', u32)]"

abbreviation msm_camera_private_ioctl_arg :: ctype where
  "msm_camera_private_ioctl_arg \<equiv>
     StructT Natural [(''id'', u32), (''size'', u32), (''result'', u32), (''reserved'', u32),
      (''ioctl_ptr'', u64)]"

definition msmb_camera_1 :: "decl list" where
  "msmb_camera_1 =
    [Flag ''__UAPI_LINUX_MSMB_CAMERA_H'']"

definition msmb_camera_2 :: "nat \<Rightarrow> nat \<Rightarrow> decl list" where
  "msmb_camera_2 MEDIA_ENT_F_IO_V4L MEDIA_ENT_F_OLD_BASE =
    [Text ''MSM_CAM_LOGSYNC_FILE_NAME'' ''logsync'',
     Text ''MSM_CAM_LOGSYNC_FILE_BASEDIR'' ''camera'',
     Request ''MSM_CAM_V4L2_IOCTL_NOTIFY'' (IOW 86 (192 + 30) msm_v4l2_event_data),
     Request ''MSM_CAM_V4L2_IOCTL_NOTIFY_META'' (IOW 86 (192 + 31) msm_v4l2_event_data),
     Request ''MSM_CAM_V4L2_IOCTL_CMD_ACK'' (IOW 86 (192 + 32) msm_v4l2_event_data),
     Request ''MSM_CAM_V4L2_IOCTL_NOTIFY_ERROR'' (IOW 86 (192 + 33) msm_v4l2_event_data),
     Request ''MSM_CAM_V4L2_IOCTL_NOTIFY_DEBUG'' (IOW 86 (192 + 34) msm_v4l2_event_data),
     Request ''MSM_CAM_V4L2_IOCTL_DAEMON_DISABLED'' (IOW 86 (192 + 35) msm_v4l2_event_data),
     Const ''QCAMERA_VNODE_GROUP_ID'' (int MEDIA_ENT_F_IO_V4L),
     Text ''MSM_CAMERA_NAME'' ''msm_camera'', Text ''MSM_CONFIGURATION_NAME'' ''msm_config'',
     Const ''MSM_CAMERA_SUBDEV_BASE'' (3840 + int MEDIA_ENT_F_OLD_BASE),
     Const ''MSM_CAMERA_SUBDEV_CSIPHY'' (3840 + int MEDIA_ENT_F_OLD_BASE),
     Const ''MSM_CAMERA_SUBDEV_CSID'' (3853 + int MEDIA_ENT_F_OLD_BASE),
     Const ''MSM_CAMERA_SUBDEV_ISPIF'' (3842 + int MEDIA_ENT_F_OLD_BASE),
     Const ''MSM_CAMERA_SUBDEV_VFE'' (3843 + int MEDIA_ENT_F_OLD_BASE),
     Const ''MSM_CAMERA_SUBDEV_AXI'' (3844 + int MEDIA_ENT_F_OLD_BASE),
     Const ''MSM_CAMERA_SUBDEV_VPE'' (3845 + int MEDIA_ENT_F_OLD_BASE),
     Const ''MSM_CAMERA_SUBDEV_SENSOR'' (3846 + int MEDIA_ENT_F_OLD_BASE),
     Const ''MSM_CAMERA_SUBDEV_ACTUATOR'' (3847 + int MEDIA_ENT_F_OLD_BASE),
     Const ''MSM_CAMERA_SUBDEV_EEPROM'' (3848 + int MEDIA_ENT_F_OLD_BASE),
     Const ''MSM_CAMERA_SUBDEV_CPP'' (3849 + int MEDIA_ENT_F_OLD_BASE),
     Const ''MSM_CAMERA_SUBDEV_CCI'' (3850 + int MEDIA_ENT_F_OLD_BASE),
     Const ''MSM_CAMERA_SUBDEV_LED_FLASH'' (3851 + int MEDIA_ENT_F_OLD_BASE),
     Const ''MSM_CAMERA_SUBDEV_STROBE_FLASH'' (3852 + int MEDIA_ENT_F_OLD_BASE),
     Const ''MSM_CAMERA_SUBDEV_BUF_MNGR'' (3841 + int MEDIA_ENT_F_OLD_BASE),
     Const ''MSM_CAMERA_SUBDEV_SENSOR_INIT'' (3854 + int MEDIA_ENT_F_OLD_BASE),
     Const ''MSM_CAMERA_SUBDEV_OIS'' (3855 + int MEDIA_ENT_F_OLD_BASE),
     Const ''MSM_CAMERA_SUBDEV_FLASH'' (3856 + int MEDIA_ENT_F_OLD_BASE),
     Const ''MSM_CAMERA_SUBDEV_IR_LED'' (3857 + int MEDIA_ENT_F_OLD_BASE),
     Const ''MSM_CAMERA_SUBDEV_IR_CUT'' (3858 + int MEDIA_ENT_F_OLD_BASE),
     Const ''MSM_CAMERA_SUBDEV_EXT'' (3859 + int MEDIA_ENT_F_OLD_BASE),
     Const ''MSM_CAMERA_SUBDEV_TOF'' (3860 + int MEDIA_ENT_F_OLD_BASE),
     Const ''MSM_CAMERA_SUBDEV_LASER_LED'' (3861 + int MEDIA_ENT_F_OLD_BASE),
     Const ''MSM_MAX_CAMERA_SENSORS'' 5, Const ''MSM_CAMERA_MAX_STREAM_BUF'' 72,
     Const ''MSM_CAMERA_MAX_USER_BUFF_CNT'' 16, Const ''MSM_CAMERA_FEATURE_BASE'' 0x00010000,
     Const ''MSM_CAMERA_FEATURE_SHUTDOWN'' (0x10000 + 1),
     Const ''MSM_CAMERA_STATUS_BASE'' 0x00020000,
     Const ''MSM_CAMERA_STATUS_FAIL'' (0x20000 + 1),
     Const ''MSM_CAMERA_STATUS_SUCCESS'' (0x20000 + 2),
     Const ''MSM_CAMERA_V4L2_EVENT_TYPE'' (0x8000000 + 0x00002000),
     Const ''MSM_CAMERA_EVENT_MIN'' 0, Const ''MSM_CAMERA_NEW_SESSION'' 1,
     Const ''MSM_CAMERA_DEL_SESSION'' 2, Const ''MSM_CAMERA_SET_PARM'' 3,
     Const ''MSM_CAMERA_GET_PARM'' 4, Const ''MSM_CAMERA_MAPPING_CFG'' 5,
     Const ''MSM_CAMERA_MAPPING_SES'' 6, Const ''MSM_CAMERA_MSM_NOTIFY'' 7,
     Const ''MSM_CAMERA_EVENT_MAX'' 8, Const ''MSM_CAMERA_PRIV_S_CROP'' (0x8000000 + 1),
     Const ''MSM_CAMERA_PRIV_G_CROP'' (0x8000000 + 2),
     Const ''MSM_CAMERA_PRIV_G_FMT'' (0x8000000 + 3),
     Const ''MSM_CAMERA_PRIV_S_FMT'' (0x8000000 + 4),
     Const ''MSM_CAMERA_PRIV_TRY_FMT'' (0x8000000 + 5),
     Const ''MSM_CAMERA_PRIV_METADATA'' (0x8000000 + 6),
     Const ''MSM_CAMERA_PRIV_QUERY_CAP'' (0x8000000 + 7),
     Const ''MSM_CAMERA_PRIV_STREAM_ON'' (0x8000000 + 8),
     Const ''MSM_CAMERA_PRIV_STREAM_OFF'' (0x8000000 + 9),
     Const ''MSM_CAMERA_PRIV_NEW_STREAM'' (0x8000000 + 10),
     Const ''MSM_CAMERA_PRIV_DEL_STREAM'' (0x8000000 + 11),
     Const ''MSM_CAMERA_PRIV_SHUTDOWN'' (0x8000000 + 12),
     Const ''MSM_CAMERA_PRIV_STREAM_INFO_SYNC'' (0x8000000 + 13),
     Const ''MSM_CAMERA_PRIV_G_SESSION_ID'' (0x8000000 + 14),
     Const ''MSM_CAMERA_PRIV_CMD_MAX'' 20, Const ''MSM_CAMERA_CMD_SUCCESS'' 0x00000001,
     Const ''MSM_CAMERA_BUF_MAP_SUCCESS'' 0x00000002,
     Const ''MSM_CAMERA_ERR_EVT_BASE'' 0x00010000,
     Const ''MSM_CAMERA_ERR_CMD_FAIL'' (0x10000 + 1),
     Const ''MSM_CAMERA_ERR_MAPPING'' (0x10000 + 2),
     Const ''MSM_CAMERA_ERR_DEVICE_BUSY'' (0x10000 + 3),
     Struct ''msm_v4l2_event_data'' msm_v4l2_event_data,
     Struct ''msm_v4l2_format_data'' msm_v4l2_format_data]"

definition msmb_camera_3 :: "decl list" where
  "msmb_camera_3 =
    [Const ''MSM_V4L2_PIX_FMT_STATS_COMB'' 1296258131,
     Const ''MSM_V4L2_PIX_FMT_STATS_AE'' 1161909331,
     Const ''MSM_V4L2_PIX_FMT_STATS_AF'' 1178686547,
     Const ''MSM_V4L2_PIX_FMT_STATS_AWB'' 1113019475,
     Const ''MSM_V4L2_PIX_FMT_STATS_IHST'' 1414744137,
     Const ''MSM_V4L2_PIX_FMT_STATS_CS'' 1396921427,
     Const ''MSM_V4L2_PIX_FMT_STATS_RS'' 1397904467,
     Const ''MSM_V4L2_PIX_FMT_STATS_BG'' 1195529299,
     Const ''MSM_V4L2_PIX_FMT_STATS_BF'' 1178752083,
     Const ''MSM_V4L2_PIX_FMT_STATS_BHST'' 1414744130,
     Enum ''smmu_attach_mode'' [(''NON_SECURE_MODE'', 1), (''SECURE_MODE'', 2),
       (''MAX_PROTECTION_MODE'', 3)],
     Struct ''msm_camera_smmu_attach_type'' msm_camera_smmu_attach_type,
     Struct ''msm_camera_user_buf_cont_t'' msm_camera_user_buf_cont_t,
     Struct ''msm_camera_return_buf'' msm_camera_return_buf,
     Const ''MSM_CAMERA_PRIV_IOCTL_ID_BASE'' 0, Const ''MSM_CAMERA_PRIV_IOCTL_ID_RETURN_BUF'' 1,
     Struct ''msm_camera_private_ioctl_arg'' msm_camera_private_ioctl_arg,
     Request ''VIDIOC_MSM_CAMERA_PRIVATE_IOCTL_CMD'' (IOWR 86 192 msm_camera_private_ioctl_arg)]"

definition msmb_camera_h :: "nat \<Rightarrow> nat \<Rightarrow> decl list" where
  "msmb_camera_h MEDIA_ENT_F_IO_V4L MEDIA_ENT_F_OLD_BASE = msmb_camera_1 @ msmb_camera_2 MEDIA_ENT_F_IO_V4L MEDIA_ENT_F_OLD_BASE @ msmb_camera_3"

subsection \<open>media/msmb_isp.h\<close>

abbreviation msm_isp_sw_framskip :: ctype where
  "msm_isp_sw_framskip \<equiv>
     StructT Natural [(''stats_type_mask'', u32), (''stream_src_mask'', u32),
      (''skip_mode'', EnumT ''msm_vfe_frame_skip_pattern''), (''min_frame_id'', u32),
      (''max_frame_id'', u32)]"

abbreviation msm_vfe_fetch_engine_cfg :: ctype where
  "msm_vfe_fetch_engine_cfg \<equiv>
     StructT Natural [(''input_format'', u32), (''buf_width'', u32), (''buf_height'', u32),
      (''fetch_width'', u32), (''fetch_height'', u32), (''x_offset'', u32), (''y_offset'', u32),
      (''buf_stride'', u32)]"

abbreviation msm_vfe_camif_subsample_cfg :: ctype where
  "msm_vfe_camif_subsample_cfg \<equiv>
     StructT Natural [(''irq_subsample_period'', u32), (''irq_subsample_pattern'', u32),
      (''sof_counter_step'', u32), (''pixel_skip'', u32), (''line_skip'', u32),
      (''first_line'', u32), (''last_line'', u32), (''first_pixel'', u32),
      (''last_pixel'', u32), (''output_format'', EnumT ''msm_vfe_camif_output_format'')]"

abbreviation msm_vfe_camif_cfg :: ctype where
  "msm_vfe_camif_cfg \<equiv>
     StructT Natural [(''lines_per_frame'', u32), (''pixels_per_line'', u32),
      (''first_pixel'', u32), (''last_pixel'', u32), (''first_line'', u32),
      (''last_line'', u32), (''epoch_line0'', u32), (''epoch_line1'', u32), (''is_split'', u32),
      (''camif_input'', EnumT ''msm_vfe_camif_input''),
      (''subsample_cfg'', msm_vfe_camif_subsample_cfg)]"

abbreviation msm_vfe_testgen_cfg :: ctype where
  "msm_vfe_testgen_cfg \<equiv>
     StructT Natural [(''lines_per_frame'', u32), (''pixels_per_line'', u32),
      (''v_blank'', u32), (''h_blank'', u32),
      (''pixel_bayer_pattern'', EnumT ''ISP_START_PIXEL_PATTERN''), (''rotate_period'', u32),
      (''color_bar_pattern'', EnumT ''msm_vfe_testgen_color_pattern''),
      (''burst_num_frame'', u32)]"

abbreviation msm_vfe_pix_cfg :: ctype where
  "msm_vfe_pix_cfg \<equiv>
     StructT Natural [(''camif_cfg'', msm_vfe_camif_cfg),
      (''testgen_cfg'', msm_vfe_testgen_cfg), (''fetch_engine_cfg'', msm_vfe_fetch_engine_cfg),
      (''input_mux'', EnumT ''msm_vfe_inputmux''),
      (''pixel_pattern'', EnumT ''ISP_START_PIXEL_PATTERN''), (''input_format'', u32),
      (''hvx_cmd'', EnumT ''msm_vfe_hvx_streaming_cmd''), (''is_split'', u32)]"

abbreviation msm_vfe_rdi_cfg :: ctype where
  "msm_vfe_rdi_cfg \<equiv>
     StructT Natural [(''cid'', u8), (''frame_based'', u8)]"

abbreviation msm_vfe_input_cfg :: ctype where
  "msm_vfe_input_cfg \<equiv>
     StructT Natural [(''d'', UnionT Natural [(''pix_cfg'', msm_vfe_pix_cfg),
      (''rdi_cfg'', msm_vfe_rdi_cfg)]), (''input_src'', EnumT ''msm_vfe_input_src''),
      (''input_pix_clk'', u32)]"

abbreviation msm_vfe_fetch_eng_start :: ctype where
  "msm_vfe_fetch_eng_start \<equiv>
     StructT Natural [(''session_id'', u32), (''stream_id'', u32), (''buf_idx'', u32),
      (''offline_mode'', u8), (''fd'', u32), (''buf_addr'', u32), (''frame_id'', u32)]"

abbreviation msm_vfe_fetch_eng_multi_pass_start :: ctype where
  "msm_vfe_fetch_eng_multi_pass_start \<equiv>
     StructT Natural [(''session_id'', u32), (''stream_id'', u32), (''buf_idx'', u32),
      (''offline_mode'', u8), (''fd'', u32), (''buf_addr'', u32), (''frame_id'', u32),
      (''output_buf_idx'', u32), (''input_buf_offset'', u32),
      (''offline_pass'', EnumT ''msm_vfe_fetch_eng_pass''), (''output_stream_id'', u32)]"

abbreviation msm_vfe_axi_plane_cfg :: ctype where
  "msm_vfe_axi_plane_cfg \<equiv>
     StructT Natural [(''output_width'', u32), (''output_height'', u32),
      (''output_stride'', u32), (''output_scan_lines'', u32), (''output_plane_format'', u32),
      (''plane_addr_offset'', u32), (''csid_src'', u8), (''rdi_cid'', u8)]"

abbreviation MAX_PLANES_PER_STREAM :: nat where "MAX_PLANES_PER_STREAM \<equiv> 3"

abbreviation msm_vfe_axi_stream_request_cmd :: ctype where
  "msm_vfe_axi_stream_request_cmd \<equiv>
     StructT Natural [(''session_id'', u32), (''stream_id'', u32), (''vt_enable'', u32),
      (''output_format'', u32), (''stream_src'', EnumT ''msm_vfe_axi_stream_src''),
      (''plane_cfg'', ArrT msm_vfe_axi_plane_cfg MAX_PLANES_PER_STREAM), (''burst_count'', u32),
      (''hfr_mode'', u32), (''frame_base'', u8), (''init_frame_drop'', u32),
      (''frame_skip_pattern'', EnumT ''msm_vfe_frame_skip_pattern''), (''buf_divert'', u8),
      (''axi_stream_handle'', u32), (''controllable_output'', u32), (''burst_len'', u32),
      (''rdi_input_type'', EnumT ''msm_stream_rdi_input_type'')]"

abbreviation msm_vfe_axi_stream_release_cmd :: ctype where
  "msm_vfe_axi_stream_release_cmd \<equiv>
     StructT Natural [(''stream_handle'', u32)]"

abbreviation VFE_AXI_SRC_MAX :: nat where "VFE_AXI_SRC_MAX \<equiv> 8"

abbreviation msm_vfe_axi_stream_cfg_cmd :: ctype where
  "msm_vfe_axi_stream_cfg_cmd \<equiv>
     StructT Natural [(''num_streams'', u8), (''stream_handle'', ArrT u32 VFE_AXI_SRC_MAX),
      (''cmd'', EnumT ''msm_vfe_axi_stream_cmd''), (''sync_frame_id_src'', u8)]"

abbreviation msm_vfe_axi_stream_cfg_update_info :: ctype where
  "msm_vfe_axi_stream_cfg_update_info \<equiv>
     StructT Natural [(''stream_handle'', u32), (''output_format'', u32),
      (''user_stream_id'', u32), (''frame_id'', u32),
      (''skip_pattern'', EnumT ''msm_vfe_frame_skip_pattern''),
      (''plane_cfg'', ArrT msm_vfe_axi_plane_cfg MAX_PLANES_PER_STREAM),
      (''sw_skip_info'', msm_isp_sw_framskip)]"

abbreviation msm_vfe_axi_stream_cfg_update_info_req_frm :: ctype where
  "msm_vfe_axi_stream_cfg_update_info_req_frm \<equiv>
     StructT Natural [(''stream_handle'', u32), (''user_stream_id'', u32), (''frame_id'', u32),
      (''buf_index'', u32)]"

abbreviation msm_vfe_axi_halt_cmd :: ctype where
  "msm_vfe_axi_halt_cmd \<equiv>
     StructT Natural [(''stop_camif'', u32), (''overflow_detected'', u32),
      (''blocking_halt'', u32)]"

abbreviation msm_vfe_axi_reset_cmd :: ctype where
  "msm_vfe_axi_reset_cmd \<equiv>
     StructT Natural [(''blocking'', u32), (''frame_id'', u32)]"

abbreviation msm_vfe_axi_restart_cmd :: ctype where
  "msm_vfe_axi_restart_cmd \<equiv>
     StructT Natural [(''enable_camif'', u32)]"

abbreviation MSM_ISP_STATS_MAX :: nat where "MSM_ISP_STATS_MAX \<equiv> 15"

abbreviation msm_vfe_axi_stream_update_cmd :: ctype where
  "msm_vfe_axi_stream_update_cmd \<equiv>
     StructT Natural [(''num_streams'', u32),
      (''update_type'', EnumT ''msm_vfe_axi_stream_update_type''),
      ('''', UnionT Natural [(''update_info'', ArrT msm_vfe_axi_stream_cfg_update_info MSM_ISP_STATS_MAX), (''req_frm_ver2'', msm_vfe_axi_stream_cfg_update_info_req_frm)])]"

abbreviation msm_vfe_smmu_attach_cmd :: ctype where
  "msm_vfe_smmu_attach_cmd \<equiv>
     StructT Natural [(''security_mode'', u32), (''iommu_attach_mode'', u32)]"

abbreviation msm_vfe_stats_stream_request_cmd :: ctype where
  "msm_vfe_stats_stream_request_cmd \<equiv>
     StructT Natural [(''session_id'', u32), (''stream_id'', u32),
      (''stats_type'', EnumT ''msm_isp_stats_type''), (''composite_flag'', u32),
      (''framedrop_pattern'', u32), (''init_frame_drop'', u32),
      (''irq_subsample_pattern'', u32), (''buffer_offset'', u32), (''stream_handle'', u32)]"

abbreviation msm_vfe_stats_stream_release_cmd :: ctype where
  "msm_vfe_stats_stream_release_cmd \<equiv>
     StructT Natural [(''stream_handle'', u32)]"

abbreviation msm_vfe_stats_stream_cfg_cmd :: ctype where
  "msm_vfe_stats_stream_cfg_cmd \<equiv>
     StructT Natural [(''num_streams'', u8), (''stream_handle'', ArrT u32 MSM_ISP_STATS_MAX),
      (''enable'', u8), (''stats_burst_len'', u32)]"

abbreviation msm_vfe_cfg_cmd2 :: ctype where
  "msm_vfe_cfg_cmd2 \<equiv>
     StructT Natural [(''num_cfg'', u16), (''cmd_len'', u16), (''cfg_data'', PtrT),
      (''cfg_cmd'', PtrT)]"

abbreviation msm_vfe_cfg_cmd_list :: ctype where
  "msm_vfe_cfg_cmd_list \<equiv>
     StructT Natural [(''cfg_cmd'', msm_vfe_cfg_cmd2), (''next'', PtrT), (''next_size'', u32)]"

abbreviation msm_vfe_reg_rw_info :: ctype where
  "msm_vfe_reg_rw_info \<equiv>
     StructT Natural [(''reg_offset'', u32), (''cmd_data_offset'', u32), (''len'', u32)]"

abbreviation msm_vfe_reg_mask_info :: ctype where
  "msm_vfe_reg_mask_info \<equiv>
     StructT Natural [(''reg_offset'', u32), (''mask'', u32), (''val'', u32)]"

abbreviation msm_vfe_reg_dmi_info :: ctype where
  "msm_vfe_reg_dmi_info \<equiv>
     StructT Natural [(''hi_tbl_offset'', u32), (''lo_tbl_offset'', u32), (''len'', u32)]"

abbreviation msm_vfe_reg_cfg_cmd :: ctype where
  "msm_vfe_reg_cfg_cmd \<equiv>
     StructT Natural [(''u'', UnionT Natural [(''rw_info'', msm_vfe_reg_rw_info),
      (''mask_info'', msm_vfe_reg_mask_info), (''dmi_info'', msm_vfe_reg_dmi_info)]),
      (''cmd_type'', EnumT ''msm_vfe_reg_cfg_type'')]"

abbreviation VFE_SRC_MAX :: nat where "VFE_SRC_MAX \<equiv> 4"

abbreviation msm_isp_set_dual_hw_ms_cmd :: ctype where
  "msm_isp_set_dual_hw_ms_cmd \<equiv>
     StructT Natural [(''num_src'', u8),
      (''dual_hw_ms_type'', EnumT ''msm_vfe_dual_hw_ms_type''),
      (''primary_intf'', EnumT ''msm_vfe_input_src''),
      (''input_src'', ArrT (EnumT ''msm_vfe_input_src'') VFE_SRC_MAX),
      (''sof_delta_threshold'', u32)]"

abbreviation msm_isp_unmap_buf_req :: ctype where
  "msm_isp_unmap_buf_req \<equiv>
     StructT Natural [(''fd'', u32)]"

abbreviation msm_isp_buf_request :: ctype where
  "msm_isp_buf_request \<equiv>
     StructT Natural [(''session_id'', u32), (''stream_id'', u32), (''num_buf'', u8),
      (''handle'', u32), (''buf_type'', EnumT ''msm_isp_buf_type'')]"

abbreviation msm_isp_buf_request_ver2 :: ctype where
  "msm_isp_buf_request_ver2 \<equiv>
     StructT Natural [(''session_id'', u32), (''stream_id'', u32), (''num_buf'', u8),
      (''handle'', u32), (''buf_type'', EnumT ''msm_isp_buf_type''),
      (''security_mode'', EnumT ''smmu_attach_mode''), (''reserved'', ArrT u32 4)]"

abbreviation msm_isp_qbuf_plane :: ctype where
  "msm_isp_qbuf_plane \<equiv>
     StructT Natural [(''addr'', u32), (''offset'', u32), (''length'', u32)]"

abbreviation msm_isp_qbuf_buffer :: ctype where
  "msm_isp_qbuf_buffer \<equiv>
     StructT Natural [(''planes'', ArrT msm_isp_qbuf_plane MAX_PLANES_PER_STREAM),
      (''num_planes'', u32)]"

abbreviation msm_isp_qbuf_info :: ctype where
  "msm_isp_qbuf_info \<equiv>
     StructT Natural [(''handle'', u32), (''buf_idx'', s32), (''buffer'', msm_isp_qbuf_buffer),
      (''dirty_buf'', u32)]"

abbreviation msm_isp_clk_rates :: ctype where
  "msm_isp_clk_rates \<equiv>
     StructT Natural [(''svs_rate'', u32), (''nominal_rate'', u32), (''high_rate'', u32)]"

abbreviation msm_vfe_axi_src_state :: ctype where
  "msm_vfe_axi_src_state \<equiv>
     StructT Natural [(''input_src'', EnumT ''msm_vfe_input_src''), (''src_active'', u32),
      (''src_frame_id'', u32)]"

abbreviation msm_isp_buf_event :: ctype where
  "msm_isp_buf_event \<equiv>
     StructT Natural [(''session_id'', u32), (''stream_id'', u32), (''handle'', u32),
      (''output_format'', u32), (''buf_idx'', s8)]"

abbreviation msm_isp_fetch_eng_event :: ctype where
  "msm_isp_fetch_eng_event \<equiv>
     StructT Natural [(''session_id'', u32), (''stream_id'', u32), (''handle'', u32),
      (''fd'', u32), (''buf_idx'', s8), (''offline_mode'', s8)]"

abbreviation msm_isp_stats_event :: ctype where
  "msm_isp_stats_event \<equiv>
     StructT Natural [(''stats_mask'', u32), (''stats_buf_idxs'', ArrT u8 MSM_ISP_STATS_MAX),
      (''pd_stats_idx'', u8)]"

abbreviation msm_isp_stream_ack :: ctype where
  "msm_isp_stream_ack \<equiv>
     StructT Natural [(''session_id'', u32), (''stream_id'', u32), (''handle'', u32)]"

abbreviation msm_isp_error_info :: ctype where
  "msm_isp_error_info \<equiv>
     StructT Natural [(''err_type'', EnumT ''msm_vfe_error_type''), (''session_id'', u32),
      (''stream_id'', u32), (''stream_id_mask'', u32)]"

abbreviation MS_NUM_SLAVE_MAX :: nat where "MS_NUM_SLAVE_MAX \<equiv> 1"

abbreviation msm_isp_ms_delta_info :: ctype where
  "msm_isp_ms_delta_info \<equiv>
     StructT Natural [(''num_delta_info'', u8), (''delta'', ArrT u32 MS_NUM_SLAVE_MAX)]"

abbreviation msm_isp_output_info :: ctype where
  "msm_isp_output_info \<equiv>
     StructT Natural [(''regs_not_updated'', u8), (''output_err_mask'', u16),
      (''stream_framedrop_mask'', u8), (''stats_framedrop_mask'', u16)]"

abbreviation msm_isp_sof_info :: ctype where
  "msm_isp_sof_info \<equiv>
     StructT Natural [(''regs_not_updated'', u8), (''reg_update_fail_mask'', u16),
      (''stream_get_buf_fail_mask'', u32), (''stats_get_buf_fail_mask'', u16),
      (''ms_delta_info'', msm_isp_ms_delta_info), (''axi_updating_mask'', u16),
      (''reg_update_fail_mask_ext'', u32)]"

abbreviation msm_isp_event_data :: ctype where
  "msm_isp_event_data \<equiv>
     StructT Natural [(''timestamp'', ForeignT ''struct timeval''),
      (''mono_timestamp'', ForeignT ''struct timeval''), (''frame_id'', u32),
      (''u'', UnionT Natural [(''stats'', msm_isp_stats_event),
      (''buf_done'', msm_isp_buf_event), (''fetch_done'', msm_isp_fetch_eng_event),
      (''error_info'', msm_isp_error_info), (''output_info'', msm_isp_output_info),
      (''sof_info'', msm_isp_sof_info)])]"

abbreviation msm_isp_ahb_clk_cfg :: ctype where
  "msm_isp_ahb_clk_cfg \<equiv>
     StructT Natural [(''vote'', u32), (''reserved'', ArrT u32 2)]"

abbreviation msm_isp_dual_hw_master_slave_sync :: ctype where
  "msm_isp_dual_hw_master_slave_sync \<equiv>
     StructT Natural [(''sync_mode'', u32), (''reserved'', ArrT u32 2)]"

abbreviation msm_vfe_dual_lpm_mode :: ctype where
  "msm_vfe_dual_lpm_mode \<equiv>
     StructT Natural [(''stream_src'', ArrT (EnumT ''msm_vfe_axi_stream_src'') VFE_AXI_SRC_MAX),
      (''num_src'', u32), (''lpm_mode'', u32)]"

definition msmb_isp_1 :: "decl list" where
  "msmb_isp_1 =
    [Flag ''__UAPI_MSMB_ISP__'']"

definition msmb_isp_2 :: "decl list" where
  "msmb_isp_2 =
    [Const ''MAX_PLANES_PER_STREAM'' 3, Const ''MAX_NUM_STREAM'' 7, Const ''ISP_VERSION_48'' 48,
     Const ''ISP_VERSION_47'' 47, Const ''ISP_VERSION_46'' 46, Const ''ISP_VERSION_44'' 44,
     Const ''ISP_VERSION_40'' 40, Const ''ISP_VERSION_32'' 32,
     Const ''ISP_NATIVE_BUF_BIT'' 65536, Const ''ISP0_BIT'' 131072, Const ''ISP1_BIT'' 262144,
     Const ''ISP_META_CHANNEL_BIT'' 524288, Const ''ISP_SCRATCH_BUF_BIT'' 1048576,
     Const ''ISP_OFFLINE_STATS_BIT'' 2097152, Const ''ISP_SVHDR_IN_BIT'' 4194304,
     Const ''ISP_SVHDR_OUT_BIT'' 8388608, Const ''ISP_STATS_STREAM_BIT'' 0x80000000,
     Const ''VFE_HW_LIMIT'' 1]"

definition msmb_isp_3 :: "decl list" where
  "msmb_isp_3 =
    [Enum ''ISP_START_PIXEL_PATTERN'' [(''ISP_BAYER_RGRGRG'', 0), (''ISP_BAYER_GRGRGR'', 1),
       (''ISP_BAYER_BGBGBG'', 2), (''ISP_BAYER_GBGBGB'', 3), (''ISP_YUV_YCbYCr'', 4),
       (''ISP_YUV_YCrYCb'', 5), (''ISP_YUV_CbYCrY'', 6), (''ISP_YUV_CrYCbY'', 7),
       (''ISP_PIX_PATTERN_MAX'', 8)],
     Enum ''msm_vfe_plane_fmt'' [(''Y_PLANE'', 0), (''CB_PLANE'', 1), (''CR_PLANE'', 2),
       (''CRCB_PLANE'', 3), (''CBCR_PLANE'', 4), (''VFE_PLANE_FMT_MAX'', 5)],
     Enum ''msm_vfe_input_src'' [(''VFE_PIX_0'', 0), (''VFE_RAW_0'', 1), (''VFE_RAW_1'', 2),
       (''VFE_RAW_2'', 3), (''VFE_SRC_MAX'', 4)],
     Enum ''msm_vfe_axi_stream_src'' [(''PIX_ENCODER'', 0), (''PIX_VIEWFINDER'', 1),
       (''PIX_VIDEO'', 2), (''CAMIF_RAW'', 3), (''IDEAL_RAW'', 4), (''RDI_INTF_0'', 5),
       (''RDI_INTF_1'', 6), (''RDI_INTF_2'', 7), (''VFE_AXI_SRC_MAX'', 8)],
     Enum ''msm_vfe_frame_skip_pattern'' [(''NO_SKIP'', 0), (''EVERY_2FRAME'', 1),
       (''EVERY_3FRAME'', 2), (''EVERY_4FRAME'', 3), (''EVERY_5FRAME'', 4),
       (''EVERY_6FRAME'', 5), (''EVERY_7FRAME'', 6), (''EVERY_8FRAME'', 7),
       (''EVERY_16FRAME'', 8), (''EVERY_32FRAME'', 9), (''SKIP_ALL'', 10), (''SKIP_RANGE'', 11),
       (''MAX_SKIP'', 12)],
     Const ''MSM_VFE_STREAM_STOP_PERIOD'' 15,
     Enum ''msm_isp_stats_type'' [(''MSM_ISP_STATS_AEC'', 0), (''MSM_ISP_STATS_AF'', 1),
       (''MSM_ISP_STATS_AWB'', 2), (''MSM_ISP_STATS_RS'', 3), (''MSM_ISP_STATS_CS'', 4),
       (''MSM_ISP_STATS_IHIST'', 5), (''MSM_ISP_STATS_SKIN'', 6), (''MSM_ISP_STATS_BG'', 7),
       (''MSM_ISP_STATS_BF'', 8), (''MSM_ISP_STATS_BE'', 9), (''MSM_ISP_STATS_BHIST'', 10),
       (''MSM_ISP_STATS_BF_SCALE'', 11), (''MSM_ISP_STATS_HDR_BE'', 12),
       (''MSM_ISP_STATS_HDR_BHIST'', 13), (''MSM_ISP_STATS_AEC_BG'', 14),
       (''MSM_ISP_STATS_MAX'', 15)],
     Struct ''msm_isp_sw_framskip'' msm_isp_sw_framskip,
     Enum ''msm_vfe_testgen_color_pattern'' [(''COLOR_BAR_8_COLOR'', 0), (''UNICOLOR_WHITE'', 1),
       (''UNICOLOR_YELLOW'', 2), (''UNICOLOR_CYAN'', 3), (''UNICOLOR_GREEN'', 4),
       (''UNICOLOR_MAGENTA'', 5), (''UNICOLOR_RED'', 6), (''UNICOLOR_BLUE'', 7),
       (''UNICOLOR_BLACK'', 8), (''MAX_COLOR'', 9)],
     Enum ''msm_vfe_camif_input'' [(''CAMIF_DISABLED'', 0), (''CAMIF_PAD_REG_INPUT'', 1),
       (''CAMIF_MIDDI_INPUT'', 2), (''CAMIF_MIPI_INPUT'', 3)],
     Struct ''msm_vfe_fetch_engine_cfg'' msm_vfe_fetch_engine_cfg,
     Enum ''msm_vfe_camif_output_format'' [(''CAMIF_QCOM_RAW'', 0), (''CAMIF_MIPI_RAW'', 1),
       (''CAMIF_PLAIN_8'', 2), (''CAMIF_PLAIN_16'', 3), (''CAMIF_MAX_FORMAT'', 4)],
     Struct ''msm_vfe_camif_subsample_cfg'' msm_vfe_camif_subsample_cfg,
     Struct ''msm_vfe_camif_cfg'' msm_vfe_camif_cfg,
     Struct ''msm_vfe_testgen_cfg'' msm_vfe_testgen_cfg]"

definition msmb_isp_4 :: "decl list" where
  "msmb_isp_4 =
    [Enum ''msm_vfe_inputmux'' [(''CAMIF'', 0), (''TESTGEN'', 1), (''EXTERNAL_READ'', 2)],
     Enum ''msm_vfe_stats_composite_group'' [(''STATS_COMPOSITE_GRP_NONE'', 0),
       (''STATS_COMPOSITE_GRP_1'', 1), (''STATS_COMPOSITE_GRP_2'', 2),
       (''STATS_COMPOSITE_GRP_MAX'', 3)],
     Enum ''msm_vfe_hvx_streaming_cmd'' [(''HVX_DISABLE'', 0), (''HVX_ONE_WAY'', 1),
       (''HVX_ROUND_TRIP'', 2)],
     Struct ''msm_vfe_pix_cfg'' msm_vfe_pix_cfg, Struct ''msm_vfe_rdi_cfg'' msm_vfe_rdi_cfg,
     Struct ''msm_vfe_input_cfg'' msm_vfe_input_cfg,
     Struct ''msm_vfe_fetch_eng_start'' msm_vfe_fetch_eng_start,
     Enum ''msm_vfe_fetch_eng_pass'' [(''OFFLINE_FIRST_PASS'', 0), (''OFFLINE_SECOND_PASS'', 1),
       (''OFFLINE_MAX_PASS'', 2)],
     Struct ''msm_vfe_fetch_eng_multi_pass_start'' msm_vfe_fetch_eng_multi_pass_start,
     Struct ''msm_vfe_axi_plane_cfg'' msm_vfe_axi_plane_cfg,
     Enum ''msm_stream_rdi_input_type'' [(''MSM_CAMERA_RDI_MIN'', 0),
       (''MSM_CAMERA_RDI_PDAF'', 1), (''MSM_CAMERA_RDI_MAX'', 2)],
     Struct ''msm_vfe_axi_stream_request_cmd'' msm_vfe_axi_stream_request_cmd,
     Struct ''msm_vfe_axi_stream_release_cmd'' msm_vfe_axi_stream_release_cmd,
     Enum ''msm_vfe_axi_stream_cmd'' [(''STOP_STREAM'', 0), (''START_STREAM'', 1),
       (''STOP_IMMEDIATELY'', 2)],
     Struct ''msm_vfe_axi_stream_cfg_cmd'' msm_vfe_axi_stream_cfg_cmd,
     Enum ''msm_vfe_axi_stream_update_type'' [(''ENABLE_STREAM_BUF_DIVERT'', 0),
       (''DISABLE_STREAM_BUF_DIVERT'', 1), (''UPDATE_STREAM_FRAMEDROP_PATTERN'', 2),
       (''UPDATE_STREAM_STATS_FRAMEDROP_PATTERN'', 3), (''UPDATE_STREAM_AXI_CONFIG'', 4),
       (''UPDATE_STREAM_REQUEST_FRAMES'', 5), (''UPDATE_STREAM_ADD_BUFQ'', 6),
       (''UPDATE_STREAM_REMOVE_BUFQ'', 7), (''UPDATE_STREAM_SW_FRAME_DROP'', 8),
       (''UPDATE_STREAM_REQUEST_FRAMES_VER2'', 9), (''UPDATE_STREAM_OFFLINE_AXI_CONFIG'', 10)],
     Const ''UPDATE_STREAM_REQUEST_FRAMES_VER2'' 9,
     Enum ''msm_vfe_iommu_type'' [(''IOMMU_ATTACH'', 0), (''IOMMU_DETACH'', 1)],
     Enum ''msm_vfe_buff_queue_id'' [(''VFE_BUF_QUEUE_DEFAULT'', 0),
       (''VFE_BUF_QUEUE_SHARED'', 1), (''VFE_BUF_QUEUE_MAX'', 2)],
     Struct ''msm_vfe_axi_stream_cfg_update_info'' msm_vfe_axi_stream_cfg_update_info,
     Struct ''msm_vfe_axi_stream_cfg_update_info_req_frm'' msm_vfe_axi_stream_cfg_update_info_req_frm]"

definition msmb_isp_5 :: "decl list" where
  "msmb_isp_5 =
    [Struct ''msm_vfe_axi_halt_cmd'' msm_vfe_axi_halt_cmd,
     Struct ''msm_vfe_axi_reset_cmd'' msm_vfe_axi_reset_cmd,
     Struct ''msm_vfe_axi_restart_cmd'' msm_vfe_axi_restart_cmd,
     Struct ''msm_vfe_axi_stream_update_cmd'' msm_vfe_axi_stream_update_cmd,
     Struct ''msm_vfe_smmu_attach_cmd'' msm_vfe_smmu_attach_cmd,
     Struct ''msm_vfe_stats_stream_request_cmd'' msm_vfe_stats_stream_request_cmd,
     Struct ''msm_vfe_stats_stream_release_cmd'' msm_vfe_stats_stream_release_cmd,
     Struct ''msm_vfe_stats_stream_cfg_cmd'' msm_vfe_stats_stream_cfg_cmd,
     Enum ''msm_vfe_reg_cfg_type'' [(''VFE_WRITE'', 0), (''VFE_WRITE_MB'', 1), (''VFE_READ'', 2),
       (''VFE_CFG_MASK'', 3), (''VFE_WRITE_DMI_16BIT'', 4), (''VFE_WRITE_DMI_32BIT'', 5),
       (''VFE_WRITE_DMI_64BIT'', 6), (''VFE_READ_DMI_16BIT'', 7), (''VFE_READ_DMI_32BIT'', 8),
       (''VFE_READ_DMI_64BIT'', 9), (''GET_MAX_CLK_RATE'', 10), (''GET_CLK_RATES'', 11),
       (''GET_ISP_ID'', 12), (''VFE_HW_UPDATE_LOCK'', 13), (''VFE_HW_UPDATE_UNLOCK'', 14),
       (''SET_WM_UB_SIZE'', 15), (''SET_UB_POLICY'', 16), (''GET_VFE_HW_LIMIT'', 17)],
     Struct ''msm_vfe_cfg_cmd2'' msm_vfe_cfg_cmd2,
     Struct ''msm_vfe_cfg_cmd_list'' msm_vfe_cfg_cmd_list,
     Struct ''msm_vfe_reg_rw_info'' msm_vfe_reg_rw_info,
     Struct ''msm_vfe_reg_mask_info'' msm_vfe_reg_mask_info,
     Struct ''msm_vfe_reg_dmi_info'' msm_vfe_reg_dmi_info,
     Struct ''msm_vfe_reg_cfg_cmd'' msm_vfe_reg_cfg_cmd,
     Enum ''vfe_sd_type'' [(''VFE_SD_0'', 0), (''VFE_SD_1'', 1), (''VFE_SD_COMMON'', 2),
       (''VFE_SD_MAX'', 3)],
     Const ''MS_NUM_SLAVE_MAX'' 1,
     Enum ''msm_vfe_dual_hw_type'' [(''DUAL_NONE'', 0), (''DUAL_HW_VFE_SPLIT'', 1),
       (''DUAL_HW_MASTER_SLAVE'', 2)],
     Enum ''msm_vfe_dual_hw_ms_type'' [(''MS_TYPE_NONE'', 0), (''MS_TYPE_MASTER'', 1),
       (''MS_TYPE_SLAVE'', 2)],
     Struct ''msm_isp_set_dual_hw_ms_cmd'' msm_isp_set_dual_hw_ms_cmd,
     Enum ''msm_isp_buf_type'' [(''ISP_PRIVATE_BUF'', 0), (''ISP_SHARE_BUF'', 1),
       (''MAX_ISP_BUF_TYPE'', 2)],
     Struct ''msm_isp_unmap_buf_req'' msm_isp_unmap_buf_req,
     Struct ''msm_isp_buf_request'' msm_isp_buf_request,
     Struct ''msm_isp_buf_request_ver2'' msm_isp_buf_request_ver2]"

definition msmb_isp_6 :: "decl list" where
  "msmb_isp_6 =
    [Struct ''msm_isp_qbuf_plane'' msm_isp_qbuf_plane,
     Struct ''msm_isp_qbuf_buffer'' msm_isp_qbuf_buffer,
     Struct ''msm_isp_qbuf_info'' msm_isp_qbuf_info,
     Struct ''msm_isp_clk_rates'' msm_isp_clk_rates,
     Struct ''msm_vfe_axi_src_state'' msm_vfe_axi_src_state,
     Enum ''msm_isp_event_mask_index'' [(''ISP_EVENT_MASK_INDEX_STATS_NOTIFY'', 0),
       (''ISP_EVENT_MASK_INDEX_ERROR'', 1), (''ISP_EVENT_MASK_INDEX_IOMMU_P_FAULT'', 2),
       (''ISP_EVENT_MASK_INDEX_STREAM_UPDATE_DONE'', 3),
       (''ISP_EVENT_MASK_INDEX_REG_UPDATE'', 4), (''ISP_EVENT_MASK_INDEX_SOF'', 5),
       (''ISP_EVENT_MASK_INDEX_BUF_DIVERT'', 6), (''ISP_EVENT_MASK_INDEX_COMP_STATS_NOTIFY'', 7),
       (''ISP_EVENT_MASK_INDEX_MASK_FE_READ_DONE'', 8), (''ISP_EVENT_MASK_INDEX_BUF_DONE'', 9),
       (''ISP_EVENT_MASK_INDEX_REG_UPDATE_MISSING'', 10),
       (''ISP_EVENT_MASK_INDEX_PING_PONG_MISMATCH'', 11),
       (''ISP_EVENT_MASK_INDEX_BUF_FATAL_ERROR'', 12)],
     Const ''ISP_EVENT_SUBS_MASK_NONE'' 0, Const ''ISP_EVENT_SUBS_MASK_STATS_NOTIFY'' 1,
     Const ''ISP_EVENT_SUBS_MASK_ERROR'' 2, Const ''ISP_EVENT_SUBS_MASK_IOMMU_P_FAULT'' 4,
     Const ''ISP_EVENT_SUBS_MASK_STREAM_UPDATE_DONE'' 8,
     Const ''ISP_EVENT_SUBS_MASK_REG_UPDATE'' 16, Const ''ISP_EVENT_SUBS_MASK_SOF'' 32,
     Const ''ISP_EVENT_SUBS_MASK_BUF_DIVERT'' 64,
     Const ''ISP_EVENT_SUBS_MASK_COMP_STATS_NOTIFY'' 128,
     Const ''ISP_EVENT_SUBS_MASK_FE_READ_DONE'' 256, Const ''ISP_EVENT_SUBS_MASK_BUF_DONE'' 512,
     Const ''ISP_EVENT_SUBS_MASK_REG_UPDATE_MISSING'' 1024,
     Const ''ISP_EVENT_SUBS_MASK_PING_PONG_MISMATCH'' 2048,
     Const ''ISP_EVENT_SUBS_MASK_BUF_FATAL_ERROR'' 4096,
     Enum ''msm_isp_event_idx'' [(''ISP_REG_UPDATE'', 0), (''ISP_EPOCH_0'', 1),
       (''ISP_EPOCH_1'', 2), (''ISP_START_ACK'', 3), (''ISP_STOP_ACK'', 4),
       (''ISP_IRQ_VIOLATION'', 5), (''ISP_STATS_OVERFLOW'', 6), (''ISP_BUF_DONE'', 7),
       (''ISP_FE_RD_DONE'', 8), (''ISP_IOMMU_P_FAULT'', 9), (''ISP_ERROR'', 10),
       (''ISP_HW_FATAL_ERROR'', 11), (''ISP_PING_PONG_MISMATCH'', 12),
       (''ISP_REG_UPDATE_MISSING'', 13), (''ISP_BUF_FATAL_ERROR'', 14), (''ISP_EVENT_MAX'', 15)],
     Const ''ISP_EVENT_OFFSET'' 8, Const ''ISP_EVENT_BASE'' 134217728,
     Const ''ISP_BUF_EVENT_BASE'' 134217984, Const ''ISP_STATS_EVENT_BASE'' 134218240,
     Const ''ISP_CAMIF_EVENT_BASE'' 134218496, Const ''ISP_STREAM_EVENT_BASE'' 134218752,
     Const ''ISP_EVENT_REG_UPDATE'' 134217728, Const ''ISP_EVENT_EPOCH_0'' 134217729,
     Const ''ISP_EVENT_EPOCH_1'' 134217730, Const ''ISP_EVENT_START_ACK'' 134217731,
     Const ''ISP_EVENT_STOP_ACK'' 134217732, Const ''ISP_EVENT_IRQ_VIOLATION'' 134217733,
     Const ''ISP_EVENT_STATS_OVERFLOW'' 134217734, Const ''ISP_EVENT_ERROR'' 134217738,
     Const ''ISP_EVENT_SOF'' 134218496, Const ''ISP_EVENT_EOF'' (0x8000300 + 1),
     Const ''ISP_EVENT_BUF_DONE'' 134217735, Const ''ISP_EVENT_BUF_DIVERT'' 134217984,
     Const ''ISP_EVENT_STATS_NOTIFY'' 134218240,
     Const ''ISP_EVENT_COMP_STATS_NOTIFY'' 134218255,
     Const ''ISP_EVENT_FE_READ_DONE'' 134217736, Const ''ISP_EVENT_IOMMU_P_FAULT'' 134217737,
     Const ''ISP_EVENT_HW_FATAL_ERROR'' 134217739,
     Const ''ISP_EVENT_PING_PONG_MISMATCH'' 134217740,
     Const ''ISP_EVENT_REG_UPDATE_MISSING'' 134217741,
     Const ''ISP_EVENT_BUF_FATAL_ERROR'' 134217742,
     Const ''ISP_EVENT_STREAM_UPDATE_DONE'' 134218752,
     Struct ''msm_isp_buf_event'' msm_isp_buf_event,
     Struct ''msm_isp_fetch_eng_event'' msm_isp_fetch_eng_event,
     Struct ''msm_isp_stats_event'' msm_isp_stats_event,
     Struct ''msm_isp_stream_ack'' msm_isp_stream_ack,
     Enum ''msm_vfe_error_type'' [(''ISP_ERROR_NONE'', 0), (''ISP_ERROR_CAMIF'', 1),
       (''ISP_ERROR_BUS_OVERFLOW'', 2), (''ISP_ERROR_RETURN_EMPTY_BUFFER'', 3),
       (''ISP_ERROR_FRAME_ID_MISMATCH'', 4), (''ISP_ERROR_MAX'', 5)],
     Struct ''msm_isp_error_info'' msm_isp_error_info,
     Struct ''msm_isp_ms_delta_info'' msm_isp_ms_delta_info,
     Struct ''msm_isp_output_info'' msm_isp_output_info]"

abbreviation MSM_VFE_REG_CFG :: nat where "MSM_VFE_REG_CFG \<equiv> 192"

abbreviation MSM_ISP_REQUEST_BUF :: nat where "MSM_ISP_REQUEST_BUF \<equiv> 193"

abbreviation MSM_ISP_ENQUEUE_BUF :: nat where "MSM_ISP_ENQUEUE_BUF \<equiv> 194"

abbreviation MSM_ISP_RELEASE_BUF :: nat where "MSM_ISP_RELEASE_BUF \<equiv> 195"

abbreviation MSM_ISP_REQUEST_STREAM :: nat where "MSM_ISP_REQUEST_STREAM \<equiv> 196"

abbreviation MSM_ISP_CFG_STREAM :: nat where "MSM_ISP_CFG_STREAM \<equiv> 197"

abbreviation MSM_ISP_RELEASE_STREAM :: nat where "MSM_ISP_RELEASE_STREAM \<equiv> 198"

abbreviation MSM_ISP_INPUT_CFG :: nat where "MSM_ISP_INPUT_CFG \<equiv> 199"

abbreviation MSM_ISP_SET_SRC_STATE :: nat where "MSM_ISP_SET_SRC_STATE \<equiv> 200"

abbreviation MSM_ISP_REQUEST_STATS_STREAM :: nat where "MSM_ISP_REQUEST_STATS_STREAM \<equiv> 201"

abbreviation MSM_ISP_CFG_STATS_STREAM :: nat where "MSM_ISP_CFG_STATS_STREAM \<equiv> 202"

abbreviation MSM_ISP_RELEASE_STATS_STREAM :: nat where "MSM_ISP_RELEASE_STATS_STREAM \<equiv> 203"

abbreviation MSM_ISP_REG_UPDATE_CMD :: nat where "MSM_ISP_REG_UPDATE_CMD \<equiv> 204"

abbreviation MSM_ISP_UPDATE_STREAM :: nat where "MSM_ISP_UPDATE_STREAM \<equiv> 205"

abbreviation MSM_VFE_REG_LIST_CFG :: nat where "MSM_VFE_REG_LIST_CFG \<equiv> 206"

abbreviation MSM_ISP_SMMU_ATTACH :: nat where "MSM_ISP_SMMU_ATTACH \<equiv> 207"

abbreviation MSM_ISP_UPDATE_STATS_STREAM :: nat where "MSM_ISP_UPDATE_STATS_STREAM \<equiv> 208"

abbreviation MSM_ISP_AXI_HALT :: nat where "MSM_ISP_AXI_HALT \<equiv> 209"

abbreviation MSM_ISP_AXI_RESET :: nat where "MSM_ISP_AXI_RESET \<equiv> 210"

abbreviation MSM_ISP_AXI_RESTART :: nat where "MSM_ISP_AXI_RESTART \<equiv> 211"

abbreviation MSM_ISP_FETCH_ENG_START :: nat where "MSM_ISP_FETCH_ENG_START \<equiv> 212"

abbreviation MSM_ISP_DEQUEUE_BUF :: nat where "MSM_ISP_DEQUEUE_BUF \<equiv> 213"

abbreviation MSM_ISP_SET_DUAL_HW_MASTER_SLAVE :: nat where "MSM_ISP_SET_DUAL_HW_MASTER_SLAVE \<equiv> 214"

abbreviation MSM_ISP_MAP_BUF_START_FE :: nat where "MSM_ISP_MAP_BUF_START_FE \<equiv> 215"

abbreviation MSM_ISP_UNMAP_BUF :: nat where "MSM_ISP_UNMAP_BUF \<equiv> 216"

abbreviation MSM_ISP_AHB_CLK_CFG :: nat where "MSM_ISP_AHB_CLK_CFG \<equiv> 217"

abbreviation MSM_ISP_DUAL_HW_MASTER_SLAVE_SYNC :: nat where "MSM_ISP_DUAL_HW_MASTER_SLAVE_SYNC \<equiv> 218"

abbreviation MSM_ISP_FETCH_ENG_MULTI_PASS_START :: nat where "MSM_ISP_FETCH_ENG_MULTI_PASS_START \<equiv> 219"

abbreviation MSM_ISP_MAP_BUF_START_MULTI_PASS_FE :: nat where "MSM_ISP_MAP_BUF_START_MULTI_PASS_FE \<equiv> 220"

abbreviation MSM_ISP_REQUEST_BUF_VER2 :: nat where "MSM_ISP_REQUEST_BUF_VER2 \<equiv> 221"

abbreviation MSM_ISP_DUAL_HW_LPM_MODE :: nat where "MSM_ISP_DUAL_HW_LPM_MODE \<equiv> 222"

definition msmb_isp_7 :: "decl list" where
  "msmb_isp_7 =
    [Struct ''msm_isp_sof_info'' msm_isp_sof_info, Const ''AXI_UPDATING_MASK'' 1,
     Const ''REG_UPDATE_FAIL_MASK_EXT'' 1, Struct ''msm_isp_event_data'' msm_isp_event_data,
     Enum ''msm_vfe_ahb_clk_vote'' [(''MSM_ISP_CAMERA_AHB_SVS_VOTE'', 1),
       (''MSM_ISP_CAMERA_AHB_TURBO_VOTE'', 2), (''MSM_ISP_CAMERA_AHB_NOMINAL_VOTE'', 3),
       (''MSM_ISP_CAMERA_AHB_SUSPEND_VOTE'', 4)],
     Struct ''msm_isp_ahb_clk_cfg'' msm_isp_ahb_clk_cfg,
     Enum ''msm_vfe_dual_cam_sync_mode'' [(''MSM_ISP_DUAL_CAM_ASYNC'', 0),
       (''MSM_ISP_DUAL_CAM_SYNC'', 1)],
     Struct ''msm_isp_dual_hw_master_slave_sync'' msm_isp_dual_hw_master_slave_sync,
     Struct ''msm_vfe_dual_lpm_mode'' msm_vfe_dual_lpm_mode,
     Const ''V4L2_PIX_FMT_QBGGR8'' 944194129, Const ''V4L2_PIX_FMT_QGBRG8'' 943867729,
     Const ''V4L2_PIX_FMT_QGRBG8'' 944916305, Const ''V4L2_PIX_FMT_QRGGB8'' 944198225,
     Const ''V4L2_PIX_FMT_QBGGR10'' 809976401, Const ''V4L2_PIX_FMT_QGBRG10'' 809650001,
     Const ''V4L2_PIX_FMT_QGRBG10'' 810698577, Const ''V4L2_PIX_FMT_QRGGB10'' 809980497,
     Const ''V4L2_PIX_FMT_QBGGR12'' 843530833, Const ''V4L2_PIX_FMT_QGBRG12'' 843204433,
     Const ''V4L2_PIX_FMT_QGRBG12'' 844253009, Const ''V4L2_PIX_FMT_QRGGB12'' 843534929,
     Const ''V4L2_PIX_FMT_QBGGR14'' 877085265, Const ''V4L2_PIX_FMT_QGBRG14'' 876758865,
     Const ''V4L2_PIX_FMT_QGRBG14'' 877807441, Const ''V4L2_PIX_FMT_QRGGB14'' 877089361,
     Const ''V4L2_PIX_FMT_P16BGGR10'' 809976400, Const ''V4L2_PIX_FMT_P16GBRG10'' 809650000,
     Const ''V4L2_PIX_FMT_P16GRBG10'' 810698576, Const ''V4L2_PIX_FMT_P16RGGB10'' 809980496,
     Const ''V4L2_PIX_FMT_P16BGGR12'' 843530832, Const ''V4L2_PIX_FMT_P16GBRG12'' 843204432,
     Const ''V4L2_PIX_FMT_P16GRBG12'' 844253008, Const ''V4L2_PIX_FMT_P16RGGB12'' 843534928,
     Const ''V4L2_PIX_FMT_NV14'' 875648590, Const ''V4L2_PIX_FMT_NV41'' 825513550,
     Const ''V4L2_PIX_FMT_META'' 1413827921, Const ''V4L2_PIX_FMT_META10'' 808537425,
     Const ''V4L2_PIX_FMT_SBGGR14'' 875644738, Const ''V4L2_PIX_FMT_SGBRG14'' 875643463,
     Const ''V4L2_PIX_FMT_SGRBG14'' 875643202, Const ''V4L2_PIX_FMT_SRGGB14'' 875644754,
     Enum ''msm_isp_ioctl_cmd_code'' [(''MSM_VFE_REG_CFG'', 192), (''MSM_ISP_REQUEST_BUF'', 193),
       (''MSM_ISP_ENQUEUE_BUF'', 194), (''MSM_ISP_RELEASE_BUF'', 195),
       (''MSM_ISP_REQUEST_STREAM'', 196), (''MSM_ISP_CFG_STREAM'', 197),
       (''MSM_ISP_RELEASE_STREAM'', 198), (''MSM_ISP_INPUT_CFG'', 199),
       (''MSM_ISP_SET_SRC_STATE'', 200), (''MSM_ISP_REQUEST_STATS_STREAM'', 201),
       (''MSM_ISP_CFG_STATS_STREAM'', 202), (''MSM_ISP_RELEASE_STATS_STREAM'', 203),
       (''MSM_ISP_REG_UPDATE_CMD'', 204), (''MSM_ISP_UPDATE_STREAM'', 205),
       (''MSM_VFE_REG_LIST_CFG'', 206), (''MSM_ISP_SMMU_ATTACH'', 207),
       (''MSM_ISP_UPDATE_STATS_STREAM'', 208), (''MSM_ISP_AXI_HALT'', 209),
       (''MSM_ISP_AXI_RESET'', 210), (''MSM_ISP_AXI_RESTART'', 211),
       (''MSM_ISP_FETCH_ENG_START'', 212), (''MSM_ISP_DEQUEUE_BUF'', 213),
       (''MSM_ISP_SET_DUAL_HW_MASTER_SLAVE'', 214), (''MSM_ISP_MAP_BUF_START_FE'', 215),
       (''MSM_ISP_UNMAP_BUF'', 216), (''MSM_ISP_AHB_CLK_CFG'', 217),
       (''MSM_ISP_DUAL_HW_MASTER_SLAVE_SYNC'', 218),
       (''MSM_ISP_FETCH_ENG_MULTI_PASS_START'', 219),
       (''MSM_ISP_MAP_BUF_START_MULTI_PASS_FE'', 220), (''MSM_ISP_REQUEST_BUF_VER2'', 221),
       (''MSM_ISP_DUAL_HW_LPM_MODE'', 222)],
     Request ''VIDIOC_MSM_VFE_REG_CFG'' (IOWR 86 MSM_VFE_REG_CFG msm_vfe_cfg_cmd2),
     Request ''VIDIOC_MSM_ISP_REQUEST_BUF'' (IOWR 86 MSM_ISP_REQUEST_BUF msm_isp_buf_request),
     Request ''VIDIOC_MSM_ISP_ENQUEUE_BUF'' (IOWR 86 MSM_ISP_ENQUEUE_BUF msm_isp_qbuf_info),
     Request ''VIDIOC_MSM_ISP_RELEASE_BUF'' (IOWR 86 MSM_ISP_RELEASE_BUF msm_isp_buf_request),
     Request ''VIDIOC_MSM_ISP_REQUEST_STREAM'' (IOWR 86 MSM_ISP_REQUEST_STREAM msm_vfe_axi_stream_request_cmd),
     Request ''VIDIOC_MSM_ISP_CFG_STREAM'' (IOWR 86 MSM_ISP_CFG_STREAM msm_vfe_axi_stream_cfg_cmd),
     Request ''VIDIOC_MSM_ISP_RELEASE_STREAM'' (IOWR 86 MSM_ISP_RELEASE_STREAM msm_vfe_axi_stream_release_cmd),
     Request ''VIDIOC_MSM_ISP_INPUT_CFG'' (IOWR 86 MSM_ISP_INPUT_CFG msm_vfe_input_cfg),
     Request ''VIDIOC_MSM_ISP_SET_SRC_STATE'' (IOWR 86 MSM_ISP_SET_SRC_STATE msm_vfe_axi_src_state),
     Request ''VIDIOC_MSM_ISP_REQUEST_STATS_STREAM'' (IOWR 86 MSM_ISP_REQUEST_STATS_STREAM msm_vfe_stats_stream_request_cmd),
     Request ''VIDIOC_MSM_ISP_CFG_STATS_STREAM'' (IOWR 86 MSM_ISP_CFG_STATS_STREAM msm_vfe_stats_stream_cfg_cmd),
     Request ''VIDIOC_MSM_ISP_RELEASE_STATS_STREAM'' (IOWR 86 MSM_ISP_RELEASE_STATS_STREAM msm_vfe_stats_stream_release_cmd),
     Request ''VIDIOC_MSM_ISP_REG_UPDATE_CMD'' (IOWR 86 MSM_ISP_REG_UPDATE_CMD (EnumT ''msm_vfe_input_src'')),
     Request ''VIDIOC_MSM_ISP_UPDATE_STREAM'' (IOWR 86 MSM_ISP_UPDATE_STREAM msm_vfe_axi_stream_update_cmd),
     Request ''VIDIOC_MSM_VFE_REG_LIST_CFG'' (IOWR 86 MSM_VFE_REG_LIST_CFG msm_vfe_cfg_cmd_list),
     Request ''VIDIOC_MSM_ISP_SMMU_ATTACH'' (IOWR 86 MSM_ISP_SMMU_ATTACH msm_vfe_smmu_attach_cmd),
     Request ''VIDIOC_MSM_ISP_UPDATE_STATS_STREAM'' (IOWR 86 MSM_ISP_UPDATE_STATS_STREAM msm_vfe_axi_stream_update_cmd),
     Request ''VIDIOC_MSM_ISP_AXI_HALT'' (IOWR 86 MSM_ISP_AXI_HALT msm_vfe_axi_halt_cmd),
     Request ''VIDIOC_MSM_ISP_AXI_RESET'' (IOWR 86 MSM_ISP_AXI_RESET msm_vfe_axi_reset_cmd),
     Request ''VIDIOC_MSM_ISP_AXI_RESTART'' (IOWR 86 MSM_ISP_AXI_RESTART msm_vfe_axi_restart_cmd),
     Request ''VIDIOC_MSM_ISP_FETCH_ENG_START'' (IOWR 86 MSM_ISP_FETCH_ENG_START msm_vfe_fetch_eng_start),
     Request ''VIDIOC_MSM_ISP_DEQUEUE_BUF'' (IOWR 86 MSM_ISP_DEQUEUE_BUF msm_isp_qbuf_info),
     Request ''VIDIOC_MSM_ISP_SET_DUAL_HW_MASTER_SLAVE'' (IOWR 86 MSM_ISP_SET_DUAL_HW_MASTER_SLAVE msm_isp_set_dual_hw_ms_cmd),
     Request ''VIDIOC_MSM_ISP_MAP_BUF_START_FE'' (IOWR 86 MSM_ISP_MAP_BUF_START_FE msm_vfe_fetch_eng_start),
     Request ''VIDIOC_MSM_ISP_UNMAP_BUF'' (IOWR 86 MSM_ISP_UNMAP_BUF msm_isp_unmap_buf_req),
     Request ''VIDIOC_MSM_ISP_AHB_CLK_CFG'' (IOWR 86 MSM_ISP_AHB_CLK_CFG msm_isp_ahb_clk_cfg),
     Request ''VIDIOC_MSM_ISP_DUAL_HW_MASTER_SLAVE_SYNC'' (IOWR 86 MSM_ISP_DUAL_HW_MASTER_SLAVE_SYNC msm_isp_dual_hw_master_slave_sync),
     Request ''VIDIOC_MSM_ISP_FETCH_ENG_MULTI_PASS_START'' (IOWR 86 MSM_ISP_FETCH_ENG_MULTI_PASS_START msm_vfe_fetch_eng_multi_pass_start),
     Request ''VIDIOC_MSM_ISP_MAP_BUF_START_MULTI_PASS_FE'' (IOWR 86 MSM_ISP_MAP_BUF_START_MULTI_PASS_FE msm_vfe_fetch_eng_multi_pass_start),
     Request ''VIDIOC_MSM_ISP_REQUEST_BUF_VER2'' (IOWR 86 MSM_ISP_REQUEST_BUF_VER2 msm_isp_buf_request_ver2),
     Request ''VIDIOC_MSM_ISP_DUAL_HW_LPM_MODE'' (IOWR 86 MSM_ISP_DUAL_HW_LPM_MODE msm_vfe_dual_lpm_mode)]"

definition msmb_isp_h :: "decl list" where
  "msmb_isp_h = msmb_isp_1 @ msmb_isp_2 @ msmb_isp_3 @ msmb_isp_4 @ msmb_isp_5 @ msmb_isp_6 @ msmb_isp_7"

subsection \<open>media/msmb_ispif.h\<close>

abbreviation msm_ispif_pack_cfg :: ctype where
  "msm_ispif_pack_cfg \<equiv>
     StructT Natural [(''pixel_swap_en'', s32),
      (''even_odd_sel'', EnumT ''msm_ispif_pixel_odd_even''),
      (''pack_mode'', EnumT ''msm_ispif_pixel_pack_mode'')]"

abbreviation MAX_CID_CH_PARAM_ENTRY :: nat where "MAX_CID_CH_PARAM_ENTRY \<equiv> 3"

abbreviation msm_ispif_params_entry :: ctype where
  "msm_ispif_params_entry \<equiv>
     StructT Natural [(''vfe_intf'', EnumT ''msm_ispif_vfe_intf''),
      (''intftype'', EnumT ''msm_ispif_intftype''), (''num_cids'', s32),
      (''cids'', ArrT (EnumT ''msm_ispif_cid'') MAX_CID_CH_PARAM_ENTRY),
      (''csid'', EnumT ''msm_ispif_csid''), (''crop_enable'', s32), (''crop_start_pixel'', u16),
      (''crop_end_pixel'', u16)]"

abbreviation msm_ispif_right_param_entry :: ctype where
  "msm_ispif_right_param_entry \<equiv>
     StructT Natural [(''cids'', ArrT (EnumT ''msm_ispif_cid'') MAX_CID_CH_PARAM_ENTRY),
      (''csid'', EnumT ''msm_ispif_csid'')]"

abbreviation INTF_MAX :: nat where "INTF_MAX \<equiv> 5"

abbreviation MAX_PARAM_ENTRIES :: nat where "MAX_PARAM_ENTRIES \<equiv> INTF_MAX * 2"

abbreviation CID_MAX :: nat where "CID_MAX \<equiv> 16"

abbreviation VFE_MAX :: nat where "VFE_MAX \<equiv> 2"

abbreviation msm_ispif_param_data_ext :: ctype where
  "msm_ispif_param_data_ext \<equiv>
     StructT Natural [(''num'', u32),
      (''entries'', ArrT msm_ispif_params_entry MAX_PARAM_ENTRIES),
      (''pack_cfg'', ArrT msm_ispif_pack_cfg CID_MAX),
      (''right_entries'', ArrT msm_ispif_right_param_entry MAX_PARAM_ENTRIES),
      (''stereo_enable'', u32), (''line_width'', ArrT u16 VFE_MAX)]"

abbreviation msm_ispif_param_data :: ctype where
  "msm_ispif_param_data \<equiv>
     StructT Natural [(''num'', u32),
      (''entries'', ArrT msm_ispif_params_entry MAX_PARAM_ENTRIES)]"

abbreviation msm_isp_info :: ctype where
  "msm_isp_info \<equiv>
     StructT Natural [(''max_resolution'', u32), (''id'', u32), (''ver'', u32)]"

abbreviation msm_ispif_vfe_info :: ctype where
  "msm_ispif_vfe_info \<equiv>
     StructT Natural [(''num_vfe'', s32), (''info'', ArrT msm_isp_info VFE_MAX)]"

abbreviation ispif_cfg_data :: ctype where
  "ispif_cfg_data \<equiv>
     StructT Natural [(''cfg_type'', EnumT ''ispif_cfg_type_t''),
      ('''', UnionT Natural [(''reg_dump'', s32), (''csid_version'', u32),
      (''vfe_info'', msm_ispif_vfe_info), (''params'', msm_ispif_param_data)])]"

abbreviation ispif_cfg_data_ext :: ctype where
  "ispif_cfg_data_ext \<equiv>
     StructT Natural [(''cfg_type'', EnumT ''ispif_cfg_type_t''), (''data'', PtrT),
      (''size'', u32)]"

definition msmb_ispif_1 :: "decl list" where
  "msmb_ispif_1 =
    [Flag ''UAPI_MSMB_ISPIF_H'']"

definition msmb_ispif_2 :: "decl list" where
  "msmb_ispif_2 =
    [Const ''CSID_VERSION_V20'' 0x02000011, Const ''CSID_VERSION_V22'' 0x02001000,
     Const ''CSID_VERSION_V30'' 0x30000000, Const ''CSID_VERSION_V3'' 0x30000000,
     Enum ''msm_ispif_vfe_intf'' [(''VFE0'', 0), (''VFE1'', 1), (''VFE_MAX'', 2)],
     Const ''VFE0_MASK'' 1, Const ''VFE1_MASK'' 2,
     Enum ''msm_ispif_intftype'' [(''PIX0'', 0), (''RDI0'', 1), (''PIX1'', 2), (''RDI1'', 3),
       (''RDI2'', 4), (''INTF_MAX'', 5)],
     Const ''MAX_PARAM_ENTRIES'' 10, Const ''MAX_CID_CH'' 8, Const ''MAX_CID_CH_PARAM_ENTRY'' 3,
     Const ''PIX0_MASK'' 1, Const ''PIX1_MASK'' 4, Const ''RDI0_MASK'' 2, Const ''RDI1_MASK'' 8,
     Const ''RDI2_MASK'' 16,
     Enum ''msm_ispif_vc'' [(''VC0'', 0), (''VC1'', 1), (''VC2'', 2), (''VC3'', 3),
       (''VC_MAX'', 4)],
     Enum ''msm_ispif_cid'' [(''CID0'', 0), (''CID1'', 1), (''CID2'', 2), (''CID3'', 3),
       (''CID4'', 4), (''CID5'', 5), (''CID6'', 6), (''CID7'', 7), (''CID8'', 8), (''CID9'', 9),
       (''CID10'', 10), (''CID11'', 11), (''CID12'', 12), (''CID13'', 13), (''CID14'', 14),
       (''CID15'', 15), (''CID_MAX'', 16)],
     Enum ''msm_ispif_csid'' [(''CSID0'', 0), (''CSID1'', 1), (''CSID2'', 2), (''CSID3'', 3),
       (''CSID_MAX'', 4)],
     Enum ''msm_ispif_pixel_odd_even'' [(''PIX_EVEN'', 0), (''PIX_ODD'', 1)],
     Enum ''msm_ispif_pixel_pack_mode'' [(''PACK_BYTE'', 0), (''PACK_PLAIN_PACK'', 1),
       (''PACK_NV_P8'', 2), (''PACK_NV_P16'', 3)],
     Struct ''msm_ispif_pack_cfg'' msm_ispif_pack_cfg,
     Struct ''msm_ispif_params_entry'' msm_ispif_params_entry,
     Struct ''msm_ispif_right_param_entry'' msm_ispif_right_param_entry,
     Struct ''msm_ispif_param_data_ext'' msm_ispif_param_data_ext,
     Struct ''msm_ispif_param_data'' msm_ispif_param_data, Struct ''msm_isp_info'' msm_isp_info,
     Struct ''msm_ispif_vfe_info'' msm_ispif_vfe_info,
     Enum ''ispif_cfg_type_t'' [(''ISPIF_CLK_ENABLE'', 0), (''ISPIF_CLK_DISABLE'', 1),
       (''ISPIF_INIT'', 2), (''ISPIF_CFG'', 3), (''ISPIF_START_FRAME_BOUNDARY'', 4),
       (''ISPIF_RESTART_FRAME_BOUNDARY'', 5), (''ISPIF_STOP_FRAME_BOUNDARY'', 6),
       (''ISPIF_STOP_IMMEDIATELY'', 7), (''ISPIF_RELEASE'', 8), (''ISPIF_ENABLE_REG_DUMP'', 9),
       (''ISPIF_SET_VFE_INFO'', 10), (''ISPIF_CFG2'', 11), (''ISPIF_CFG_STEREO'', 12)],
     Struct ''ispif_cfg_data'' ispif_cfg_data, Struct ''ispif_cfg_data_ext'' ispif_cfg_data_ext,
     Const ''ISPIF_RDI_PACK_MODE_SUPPORT'' 1, Const ''ISPIF_3D_SUPPORT'' 1,
     Const ''ISPIF_LINE_WIDTH_SUPPORT'' 1,
     Request ''VIDIOC_MSM_ISPIF_CFG'' (IOWR 86 192 ispif_cfg_data),
     Request ''VIDIOC_MSM_ISPIF_CFG_EXT'' (IOWR 86 (192 + 1) ispif_cfg_data_ext)]"

definition msmb_ispif_h :: "decl list" where
  "msmb_ispif_h = msmb_ispif_1 @ msmb_ispif_2"

subsection \<open>media/msmb_pproc.h\<close>

abbreviation msm_cpp_buffer_info_t :: ctype where
  "msm_cpp_buffer_info_t \<equiv>
     StructT Natural [(''fd'', s32), (''index'', u32), (''offset'', u32), (''native_buff'', u8),
      (''processed_divert'', u8), (''identity'', u32)]"

abbreviation msm_cpp_stream_buff_info_t :: ctype where
  "msm_cpp_stream_buff_info_t \<equiv>
     StructT Natural [(''identity'', u32), (''num_buffs'', u32), (''buffer_info'', PtrT)]"

abbreviation MAX_PLANES :: nat where "MAX_PLANES \<equiv> 8"

abbreviation msm_cpp_batch_info_t :: ctype where
  "msm_cpp_batch_info_t \<equiv>
     StructT Natural [(''batch_mode'', EnumT ''msm_cpp_batch_mode_t''), (''batch_size'', u32),
      (''intra_plane_offset'', ArrT u32 MAX_PLANES), (''pick_preview_idx'', u32),
      (''cont_idx'', u32)]"

abbreviation MSM_OUTPUT_BUF_CNT :: nat where "MSM_OUTPUT_BUF_CNT \<equiv> 8"

abbreviation msm_cpp_frame_info_t :: ctype where
  "msm_cpp_frame_info_t \<equiv>
     StructT Natural [(''frame_id'', s32), (''timestamp'', ForeignT ''struct timeval''),
      (''inst_id'', u32), (''identity'', u32), (''client_id'', u32),
      (''frame_type'', EnumT ''msm_cpp_frame_type''), (''num_strips'', u32), (''msg_len'', u32),
      (''cpp_cmd_msg'', PtrT), (''src_fd'', s32), (''dst_fd'', s32),
      (''in_time'', ForeignT ''struct timeval''), (''out_time'', ForeignT ''struct timeval''),
      (''cookie'', PtrT), (''status'', PtrT), (''duplicate_output'', s32),
      (''duplicate_identity'', u32), (''feature_mask'', u32), (''we_disable'', u8),
      (''input_buffer_info'', msm_cpp_buffer_info_t),
      (''output_buffer_info'', ArrT msm_cpp_buffer_info_t MSM_OUTPUT_BUF_CNT),
      (''duplicate_buffer_info'', msm_cpp_buffer_info_t),
      (''tnr_scratch_buffer_info'', ArrT msm_cpp_buffer_info_t 2), (''reserved'', u32),
      (''partial_frame_indicator'', u8), (''first_payload'', u8), (''last_payload'', u8),
      (''first_stripe_index'', u32), (''last_stripe_index'', u32),
      (''stripe_info_offset'', u32), (''stripe_info'', u32),
      (''batch_info'', msm_cpp_batch_info_t)]"

abbreviation msm_cpp_pop_stream_info_t :: ctype where
  "msm_cpp_pop_stream_info_t \<equiv>
     StructT Natural [(''frame_id'', s32), (''identity'', u32)]"

abbreviation MAX_FREQ_TBL :: nat where "MAX_FREQ_TBL \<equiv> 10"

abbreviation cpp_hw_info :: ctype where
  "cpp_hw_info \<equiv>
     StructT Natural [(''cpp_hw_version'', u32), (''cpp_hw_caps'', u32),
      (''freq_tbl'', ArrT ulongT MAX_FREQ_TBL), (''freq_tbl_count'', u32)]"

abbreviation msm_vpe_frame_strip_info :: ctype where
  "msm_vpe_frame_strip_info \<equiv>
     StructT Natural [(''src_w'', u32), (''src_h'', u32), (''dst_w'', u32), (''dst_h'', u32),
      (''src_x'', u32), (''src_y'', u32), (''phase_step_x'', u32), (''phase_step_y'', u32),
      (''phase_init_x'', u32), (''phase_init_y'', u32)]"

abbreviation msm_vpe_buffer_info_t :: ctype where
  "msm_vpe_buffer_info_t \<equiv>
     StructT Natural [(''fd'', s32), (''index'', u32), (''offset'', u32), (''native_buff'', u8),
      (''processed_divert'', u8)]"

abbreviation msm_vpe_stream_buff_info_t :: ctype where
  "msm_vpe_stream_buff_info_t \<equiv>
     StructT Natural [(''identity'', u32), (''num_buffs'', u32), (''buffer_info'', PtrT)]"

abbreviation msm_vpe_frame_info_t :: ctype where
  "msm_vpe_frame_info_t \<equiv>
     StructT Natural [(''frame_id'', s32), (''timestamp'', ForeignT ''struct timeval''),
      (''inst_id'', u32), (''identity'', u32), (''client_id'', u32),
      (''frame_type'', EnumT ''msm_vpe_frame_type''),
      (''strip_info'', msm_vpe_frame_strip_info), (''src_fd'', ulongT), (''dst_fd'', ulongT),
      (''src_ion_handle'', PtrT), (''dest_ion_handle'', PtrT), (''src_phyaddr'', ulongT),
      (''dest_phyaddr'', ulongT), (''src_chroma_plane_offset'', ulongT),
      (''dest_chroma_plane_offset'', ulongT), (''in_time'', ForeignT ''struct timeval''),
      (''out_time'', ForeignT ''struct timeval''), (''cookie'', PtrT),
      (''input_buffer_info'', msm_vpe_buffer_info_t),
      (''output_buffer_info'', msm_vpe_buffer_info_t)]"

abbreviation msm_buf_mngr_info :: ctype where
  "msm_buf_mngr_info \<equiv>
     StructT Natural [(''session_id'', u32), (''stream_id'', u32), (''frame_id'', u32),
      (''timestamp'', ForeignT ''struct timeval''), (''index'', u32), (''reserved'', u32),
      (''type'', EnumT ''msm_camera_buf_mngr_buf_type''),
      (''user_buf'', msm_camera_user_buf_cont_t)]"

abbreviation msm_pproc_queue_buf_info :: ctype where
  "msm_pproc_queue_buf_info \<equiv>
     StructT Natural [(''buff_mgr_info'', msm_buf_mngr_info), (''is_buf_dirty'', u8)]"

abbreviation msm_cpp_clock_settings_t :: ctype where
  "msm_cpp_clock_settings_t \<equiv>
     StructT Natural [(''clock_rate'', ulongT), (''avg'', u64), (''inst'', u64)]"

abbreviation msm_camera_v4l2_ioctl_t :: ctype where
  "msm_camera_v4l2_ioctl_t \<equiv>
     StructT Natural [(''id'', u32), (''len'', ulongT), (''trans_code'', s32),
      (''ioctl_ptr'', PtrT)]"

definition msmb_pproc_1 :: "decl list" where
  "msmb_pproc_1 =
    [Flag ''__UAPI_MSMB_PPROC_H'']"

definition msmb_pproc_2 :: "decl list" where
  "msmb_pproc_2 =
    [Const ''MAX_PLANES'' 8, Const ''PARTIAL_FRAME_STRIPE_COUNT'' 4,
     Const ''MAX_NUM_CPP_STRIPS'' 8, Const ''MSM_CPP_MAX_NUM_PLANES'' 3,
     Const ''MSM_CPP_MIN_FRAME_LENGTH'' 13, Const ''MSM_CPP_MAX_FRAME_LENGTH'' 4096,
     Const ''MSM_CPP_MAX_FW_NAME_LEN'' 32, Const ''MAX_FREQ_TBL'' 10,
     Const ''MSM_OUTPUT_BUF_CNT'' 8,
     Enum ''msm_cpp_frame_type'' [(''MSM_CPP_OFFLINE_FRAME'', 0),
      (''MSM_CPP_REALTIME_FRAME'', 1)],
     Enum ''msm_vpe_frame_type'' [(''MSM_VPE_OFFLINE_FRAME'', 0),
      (''MSM_VPE_REALTIME_FRAME'', 1)],
     Struct ''msm_cpp_buffer_info_t'' msm_cpp_buffer_info_t,
     Struct ''msm_cpp_stream_buff_info_t'' msm_cpp_stream_buff_info_t,
     Enum ''msm_cpp_batch_mode_t'' [(''BATCH_MODE_NONE'', 0), (''BATCH_MODE_VIDEO'', 1),
       (''BATCH_MODE_PREVIEW'', 2)],
     Struct ''msm_cpp_batch_info_t'' msm_cpp_batch_info_t,
     Struct ''msm_cpp_frame_info_t'' msm_cpp_frame_info_t,
     Struct ''msm_cpp_pop_stream_info_t'' msm_cpp_pop_stream_info_t,
     Struct ''cpp_hw_info'' cpp_hw_info,
     Struct ''msm_vpe_frame_strip_info'' msm_vpe_frame_strip_info,
     Struct ''msm_vpe_buffer_info_t'' msm_vpe_buffer_info_t,
     Struct ''msm_vpe_stream_buff_info_t'' msm_vpe_stream_buff_info_t,
     Struct ''msm_vpe_frame_info_t'' msm_vpe_frame_info_t,
     Struct ''msm_pproc_queue_buf_info'' msm_pproc_queue_buf_info,
     Struct ''msm_cpp_clock_settings_t'' msm_cpp_clock_settings_t,
     Request ''VIDIOC_MSM_CPP_CFG'' (IOWR 86 192 msm_camera_v4l2_ioctl_t),
     Request ''VIDIOC_MSM_CPP_GET_EVENTPAYLOAD'' (IOWR 86 (192 + 1) msm_camera_v4l2_ioctl_t),
     Request ''VIDIOC_MSM_CPP_GET_INST_INFO'' (IOWR 86 (192 + 2) msm_camera_v4l2_ioctl_t),
     Request ''VIDIOC_MSM_CPP_LOAD_FIRMWARE'' (IOWR 86 (192 + 3) msm_camera_v4l2_ioctl_t),
     Request ''VIDIOC_MSM_CPP_GET_HW_INFO'' (IOWR 86 (192 + 4) msm_camera_v4l2_ioctl_t),
     Request ''VIDIOC_MSM_CPP_FLUSH_QUEUE'' (IOWR 86 (192 + 5) msm_camera_v4l2_ioctl_t),
     Request ''VIDIOC_MSM_CPP_ENQUEUE_STREAM_BUFF_INFO'' (IOWR 86 (192 + 6) msm_camera_v4l2_ioctl_t),
     Request ''VIDIOC_MSM_CPP_DEQUEUE_STREAM_BUFF_INFO'' (IOWR 86 (192 + 7) msm_camera_v4l2_ioctl_t),
     Request ''VIDIOC_MSM_VPE_CFG'' (IOWR 86 (192 + 8) msm_camera_v4l2_ioctl_t),
     Request ''VIDIOC_MSM_VPE_TRANSACTION_SETUP'' (IOWR 86 (192 + 9) msm_camera_v4l2_ioctl_t),
     Request ''VIDIOC_MSM_VPE_GET_EVENTPAYLOAD'' (IOWR 86 (192 + 10) msm_camera_v4l2_ioctl_t)]"

definition msmb_pproc_3 :: "decl list" where
  "msmb_pproc_3 =
    [Request ''VIDIOC_MSM_VPE_GET_INST_INFO'' (IOWR 86 (192 + 11) msm_camera_v4l2_ioctl_t),
     Request ''VIDIOC_MSM_VPE_ENQUEUE_STREAM_BUFF_INFO'' (IOWR 86 (192 + 12) msm_camera_v4l2_ioctl_t),
     Request ''VIDIOC_MSM_VPE_DEQUEUE_STREAM_BUFF_INFO'' (IOWR 86 (192 + 13) msm_camera_v4l2_ioctl_t),
     Request ''VIDIOC_MSM_CPP_QUEUE_BUF'' (IOWR 86 (192 + 14) msm_camera_v4l2_ioctl_t),
     Request ''VIDIOC_MSM_CPP_APPEND_STREAM_BUFF_INFO'' (IOWR 86 (192 + 15) msm_camera_v4l2_ioctl_t),
     Request ''VIDIOC_MSM_CPP_SET_CLOCK'' (IOWR 86 (192 + 16) msm_camera_v4l2_ioctl_t),
     Request ''VIDIOC_MSM_CPP_POP_STREAM_BUFFER'' (IOWR 86 (192 + 17) msm_camera_v4l2_ioctl_t),
     Request ''VIDIOC_MSM_CPP_IOMMU_ATTACH'' (IOWR 86 (192 + 18) msm_camera_v4l2_ioctl_t),
     Request ''VIDIOC_MSM_CPP_IOMMU_DETACH'' (IOWR 86 (192 + 19) msm_camera_v4l2_ioctl_t),
     Request ''VIDIOC_MSM_CPP_DELETE_STREAM_BUFF'' (IOWR 86 (192 + 20) msm_camera_v4l2_ioctl_t),
     Const ''V4L2_EVENT_CPP_FRAME_DONE'' (0x8000000 + 0),
     Const ''V4L2_EVENT_VPE_FRAME_DONE'' (0x8000000 + 1),
     Struct ''msm_camera_v4l2_ioctl_t'' msm_camera_v4l2_ioctl_t]"

definition msmb_pproc_h :: "decl list" where
  "msmb_pproc_h = msmb_pproc_1 @ msmb_pproc_2 @ msmb_pproc_3"

subsection \<open>media/msmb_generic_buf_mgr.h\<close>

abbreviation msm_buf_mngr_main_cont_info :: ctype where
  "msm_buf_mngr_main_cont_info \<equiv>
     StructT Natural [(''session_id'', u32), (''stream_id'', u32),
      (''cmd'', EnumT ''msm_camera_buf_mngr_cmd''), (''cnt'', u32), (''cont_fd'', s32)]"

definition msmb_generic_buf_mgr_1 :: "decl list" where
  "msmb_generic_buf_mgr_1 =
    [Flag ''__UAPI_MEDIA_MSMB_GENERIC_BUF_MGR_H__'']"

definition msmb_generic_buf_mgr_2 :: "decl list" where
  "msmb_generic_buf_mgr_2 =
    [Enum ''msm_camera_buf_mngr_cmd'' [(''MSM_CAMERA_BUF_MNGR_CONT_MAP'', 0),
       (''MSM_CAMERA_BUF_MNGR_CONT_UNMAP'', 1), (''MSM_CAMERA_BUF_MNGR_CONT_MAX'', 2)],
     Enum ''msm_camera_buf_mngr_buf_type'' [(''MSM_CAMERA_BUF_MNGR_BUF_PLANAR'', 0),
       (''MSM_CAMERA_BUF_MNGR_BUF_USER'', 1), (''MSM_CAMERA_BUF_MNGR_BUF_INVALID'', 2)],
     Struct ''msm_buf_mngr_info'' msm_buf_mngr_info,
     Struct ''msm_buf_mngr_main_cont_info'' msm_buf_mngr_main_cont_info,
     Const ''MSM_CAMERA_BUF_MNGR_IOCTL_ID_BASE'' 0,
     Const ''MSM_CAMERA_BUF_MNGR_IOCTL_ID_GET_BUF_BY_IDX'' 1,
     Request ''VIDIOC_MSM_BUF_MNGR_GET_BUF'' (IOWR 86 (192 + 33) msm_buf_mngr_info),
     Request ''VIDIOC_MSM_BUF_MNGR_PUT_BUF'' (IOWR 86 (192 + 34) msm_buf_mngr_info),
     Request ''VIDIOC_MSM_BUF_MNGR_BUF_DONE'' (IOWR 86 (192 + 35) msm_buf_mngr_info),
     Request ''VIDIOC_MSM_BUF_MNGR_CONT_CMD'' (IOWR 86 (192 + 36) msm_buf_mngr_main_cont_info),
     Request ''VIDIOC_MSM_BUF_MNGR_INIT'' (IOWR 86 (192 + 37) msm_buf_mngr_info),
     Request ''VIDIOC_MSM_BUF_MNGR_DEINIT'' (IOWR 86 (192 + 38) msm_buf_mngr_info),
     Request ''VIDIOC_MSM_BUF_MNGR_FLUSH'' (IOWR 86 (192 + 39) msm_buf_mngr_info),
     Request ''VIDIOC_MSM_BUF_MNGR_IOCTL_CMD'' (IOWR 86 (192 + 40) msm_camera_private_ioctl_arg),
     Request ''VIDIOC_MSM_BUF_MNGR_BUF_ERROR'' (IOWR 86 (192 + 41) msm_buf_mngr_info)]"

definition msmb_generic_buf_mgr_h :: "decl list" where
  "msmb_generic_buf_mgr_h = msmb_generic_buf_mgr_1 @ msmb_generic_buf_mgr_2"

end
