(* ===== verification/SanCam.thy ===== *)
theory SanCam
  imports CLayout
begin

text \<open>
  The headers programs are built with (under sdm710/kernel-headers, stripped of comments) of
  the third camera driver (media/cam\_*.h): every structure and union with its fields in
  order; then, for every file, the list of its declarations, in blocks: structures,
  enumerations, number macros and device requests. A type of the C library or of a header
  that is not in the repository is a foreign type.
\<close>

subsection \<open>media/cam_defs.h\<close>

abbreviation cam_control :: ctype where
  "cam_control \<equiv>
     StructT Natural [(''op_code'', u32), (''size'', u32), (''handle_type'', u32),
      (''reserved'', u32), (''handle'', u64)]"

abbreviation cam_hw_version :: ctype where
  "cam_hw_version \<equiv>
     StructT Natural [(''major'', u32), (''minor'', u32), (''incr'', u32), (''reserved'', u32)]"

abbreviation cam_iommu_handle :: ctype where
  "cam_iommu_handle \<equiv>
     StructT Natural [(''non_secure'', s32), (''secure'', s32)]"

abbreviation cam_plane_cfg :: ctype where
  "cam_plane_cfg \<equiv>
     StructT Natural [(''width'', u32), (''height'', u32), (''plane_stride'', u32),
      (''slice_height'', u32), (''meta_stride'', u32), (''meta_size'', u32),
      (''meta_offset'', u32), (''packer_config'', u32), (''mode_config'', u32),
      (''tile_config'', u32), (''h_init'', u32), (''v_init'', u32)]"

abbreviation cam_cmd_buf_desc :: ctype where
  "cam_cmd_buf_desc \<equiv>
     StructT Natural [(''mem_handle'', s32), (''offset'', u32), (''size'', u32),
      (''length'', u32), (''type'', u32), (''meta_data'', u32)]"

abbreviation CAM_PACKET_MAX_PLANES :: nat where "CAM_PACKET_MAX_PLANES \<equiv> 3"

abbreviation cam_buf_io_cfg :: ctype where
  "cam_buf_io_cfg \<equiv>
     StructT Natural [(''mem_handle'', ArrT s32 CAM_PACKET_MAX_PLANES),
      (''offsets'', ArrT u32 CAM_PACKET_MAX_PLANES),
      (''planes'', ArrT cam_plane_cfg CAM_PACKET_MAX_PLANES), (''format'', u32),
      (''color_space'', u32), (''color_pattern'', u32), (''bpp'', u32), (''rotation'', u32),
      (''resource_type'', u32), (''fence'', s32), (''early_fence'', s32),
      (''aux_cmd_buf'', cam_cmd_buf_desc), (''direction'', u32), (''batch_size'', u32),
      (''subsample_pattern'', u32), (''subsample_period'', u32), (''framedrop_pattern'', u32),
      (''framedrop_period'', u32), (''flag'', u32), (''padding'', u32)]"

abbreviation cam_packet_header :: ctype where
  "cam_packet_header \<equiv>
     StructT Natural [(''op_code'', u32), (''size'', u32), (''request_id'', u64),
      (''flags'', u32), (''padding'', u32)]"

abbreviation cam_patch_desc :: ctype where
  "cam_patch_desc \<equiv>
     StructT Natural [(''dst_buf_hdl'', s32), (''dst_offset'', u32), (''src_buf_hdl'', s32),
      (''src_offset'', u32)]"

abbreviation cam_packet :: ctype where
  "cam_packet \<equiv>
     StructT Natural [(''header'', cam_packet_header), (''cmd_buf_offset'', u32),
      (''num_cmd_buf'', u32), (''io_configs_offset'', u32), (''num_io_configs'', u32),
      (''patch_offset'', u32), (''num_patches'', u32), (''kmd_cmd_buf_index'', u32),
      (''kmd_cmd_buf_offset'', u32), (''payload'', ArrT u64 1)]"

abbreviation cam_release_dev_cmd :: ctype where
  "cam_release_dev_cmd \<equiv>
     StructT Natural [(''session_handle'', s32), (''dev_handle'', s32)]"

abbreviation cam_start_stop_dev_cmd :: ctype where
  "cam_start_stop_dev_cmd \<equiv>
     StructT Natural [(''session_handle'', s32), (''dev_handle'', s32)]"

abbreviation cam_config_dev_cmd :: ctype where
  "cam_config_dev_cmd \<equiv>
     StructT Natural [(''session_handle'', s32), (''dev_handle'', s32), (''offset'', u64),
      (''packet_handle'', u64)]"

abbreviation cam_query_cap_cmd :: ctype where
  "cam_query_cap_cmd \<equiv>
     StructT Natural [(''size'', u32), (''handle_type'', u32), (''caps_handle'', u64)]"

abbreviation cam_acquire_dev_cmd :: ctype where
  "cam_acquire_dev_cmd \<equiv>
     StructT Natural [(''session_handle'', s32), (''dev_handle'', s32), (''handle_type'', u32),
      (''num_resources'', u32), (''resource_hdl'', u64)]"

abbreviation cam_flush_dev_cmd :: ctype where
  "cam_flush_dev_cmd \<equiv>
     StructT Natural [(''version'', u64), (''session_handle'', s32), (''dev_handle'', s32),
      (''flush_type'', u32), (''reserved'', u32), (''req_id'', s64)]"

definition cam_defs_1 :: "decl list" where
  "cam_defs_1 =
    [Flag ''__UAPI_CAM_DEFS_H__'']"

definition cam_defs_2 :: "decl list" where
  "cam_defs_2 =
    [Const ''CAM_COMMON_OPCODE_BASE'' 0x100, Const ''CAM_QUERY_CAP'' (256 + 0x1),
     Const ''CAM_ACQUIRE_DEV'' (256 + 0x2), Const ''CAM_START_DEV'' (256 + 0x3),
     Const ''CAM_STOP_DEV'' (256 + 0x4), Const ''CAM_CONFIG_DEV'' (256 + 0x5),
     Const ''CAM_RELEASE_DEV'' (256 + 0x6), Const ''CAM_SD_SHUTDOWN'' (256 + 0x7),
     Const ''CAM_FLUSH_REQ'' (256 + 0x8), Const ''CAM_COMMON_OPCODE_MAX'' (256 + 0x9),
     Const ''CAM_EXT_OPCODE_BASE'' 0x200, Const ''CAM_CONFIG_DEV_EXTERNAL'' (512 + 0x1),
     Const ''CAM_HANDLE_USER_POINTER'' 1, Const ''CAM_HANDLE_MEM_HANDLE'' 2,
     Const ''CAM_GENERIC_BLOB_CMDBUFFER_SIZE_MASK'' 0xFFFFFF00,
     Const ''CAM_GENERIC_BLOB_CMDBUFFER_SIZE_SHIFT'' 8,
     Const ''CAM_GENERIC_BLOB_CMDBUFFER_TYPE_MASK'' 0xFF,
     Const ''CAM_GENERIC_BLOB_CMDBUFFER_TYPE_SHIFT'' 0, Const ''CAM_CMD_BUF_DMI'' 0x1,
     Const ''CAM_CMD_BUF_DMI16'' 0x2, Const ''CAM_CMD_BUF_DMI32'' 0x3,
     Const ''CAM_CMD_BUF_DMI64'' 0x4, Const ''CAM_CMD_BUF_DIRECT'' 0x5,
     Const ''CAM_CMD_BUF_INDIRECT'' 0x6, Const ''CAM_CMD_BUF_I2C'' 0x7,
     Const ''CAM_CMD_BUF_FW'' 0x8, Const ''CAM_CMD_BUF_GENERIC'' 0x9,
     Const ''CAM_CMD_BUF_LEGACY'' 0xA,
     Enum ''flush_type_t'' [(''CAM_FLUSH_TYPE_REQ'', 0), (''CAM_FLUSH_TYPE_ALL'', 1),
       (''CAM_FLUSH_TYPE_MAX'', 2)],
     Struct ''cam_control'' cam_control,
     Request ''VIDIOC_CAM_CONTROL'' (IOWR 86 192 cam_control),
     Struct ''cam_hw_version'' cam_hw_version, Struct ''cam_iommu_handle'' cam_iommu_handle,
     Const ''CAM_SECURE_MODE_NON_SECURE'' 0, Const ''CAM_SECURE_MODE_SECURE'' 1,
     Const ''CAM_FORMAT_BASE'' 0, Const ''CAM_FORMAT_MIPI_RAW_6'' 1,
     Const ''CAM_FORMAT_MIPI_RAW_8'' 2, Const ''CAM_FORMAT_MIPI_RAW_10'' 3,
     Const ''CAM_FORMAT_MIPI_RAW_12'' 4, Const ''CAM_FORMAT_MIPI_RAW_14'' 5,
     Const ''CAM_FORMAT_MIPI_RAW_16'' 6, Const ''CAM_FORMAT_MIPI_RAW_20'' 7,
     Const ''CAM_FORMAT_QTI_RAW_8'' 8, Const ''CAM_FORMAT_QTI_RAW_10'' 9,
     Const ''CAM_FORMAT_QTI_RAW_12'' 10, Const ''CAM_FORMAT_QTI_RAW_14'' 11,
     Const ''CAM_FORMAT_PLAIN8'' 12, Const ''CAM_FORMAT_PLAIN16_8'' 13,
     Const ''CAM_FORMAT_PLAIN16_10'' 14, Const ''CAM_FORMAT_PLAIN16_12'' 15,
     Const ''CAM_FORMAT_PLAIN16_14'' 16, Const ''CAM_FORMAT_PLAIN16_16'' 17,
     Const ''CAM_FORMAT_PLAIN32_20'' 18, Const ''CAM_FORMAT_PLAIN64'' 19,
     Const ''CAM_FORMAT_PLAIN128'' 20, Const ''CAM_FORMAT_ARGB'' 21,
     Const ''CAM_FORMAT_ARGB_10'' 22, Const ''CAM_FORMAT_ARGB_12'' 23,
     Const ''CAM_FORMAT_ARGB_14'' 24, Const ''CAM_FORMAT_DPCM_10_6_10'' 25,
     Const ''CAM_FORMAT_DPCM_10_8_10'' 26, Const ''CAM_FORMAT_DPCM_12_6_12'' 27,
     Const ''CAM_FORMAT_DPCM_12_8_12'' 28, Const ''CAM_FORMAT_DPCM_14_8_14'' 29,
     Const ''CAM_FORMAT_DPCM_14_10_14'' 30, Const ''CAM_FORMAT_NV21'' 31,
     Const ''CAM_FORMAT_NV12'' 32, Const ''CAM_FORMAT_TP10'' 33, Const ''CAM_FORMAT_YUV422'' 34,
     Const ''CAM_FORMAT_PD8'' 35, Const ''CAM_FORMAT_PD10'' 36,
     Const ''CAM_FORMAT_UBWC_NV12'' 37, Const ''CAM_FORMAT_UBWC_NV12_4R'' 38,
     Const ''CAM_FORMAT_UBWC_TP10'' 39, Const ''CAM_FORMAT_UBWC_P010'' 40,
     Const ''CAM_FORMAT_PLAIN8_SWAP'' 41, Const ''CAM_FORMAT_PLAIN8_10'' 42,
     Const ''CAM_FORMAT_PLAIN8_10_SWAP'' 43, Const ''CAM_FORMAT_YV12'' 44,
     Const ''CAM_FORMAT_Y_ONLY'' 45, Const ''CAM_FORMAT_MAX'' 46,
     Const ''CAM_ROTATE_CW_0_DEGREE'' 0, Const ''CAM_ROTATE_CW_90_DEGREE'' 1,
     Const ''CAM_RORATE_CW_180_DEGREE'' 2, Const ''CAM_ROTATE_CW_270_DEGREE'' 3,
     Const ''CAM_COLOR_SPACE_BASE'' 0, Const ''CAM_COLOR_SPACE_BT601_FULL'' 1,
     Const ''CAM_COLOR_SPACE_BT601625'' 2, Const ''CAM_COLOR_SPACE_BT601525'' 3,
     Const ''CAM_COLOR_SPACE_BT709'' 4, Const ''CAM_COLOR_SPACE_DEPTH'' 5,
     Const ''CAM_COLOR_SPACE_MAX'' 6, Const ''CAM_BUF_INPUT'' 1, Const ''CAM_BUF_OUTPUT'' 2,
     Const ''CAM_BUF_IN_OUT'' 3, Const ''CAM_PACKET_DEV_BASE'' 0,
     Const ''CAM_PACKET_DEV_IMG_SENSOR'' 1, Const ''CAM_PACKET_DEV_ACTUATOR'' 2,
     Const ''CAM_PACKET_DEV_COMPANION'' 3, Const ''CAM_PACKET_DEV_EEPOM'' 4,
     Const ''CAM_PACKET_DEV_CSIPHY'' 5, Const ''CAM_PACKET_DEV_OIS'' 6,
     Const ''CAM_PACKET_DEV_FLASH'' 7, Const ''CAM_PACKET_DEV_FD'' 8,
     Const ''CAM_PACKET_DEV_JPEG_ENC'' 9, Const ''CAM_PACKET_DEV_JPEG_DEC'' 10,
     Const ''CAM_PACKET_DEV_VFE'' 11, Const ''CAM_PACKET_DEV_CPP'' 12,
     Const ''CAM_PACKET_DEV_CSID'' 13, Const ''CAM_PACKET_DEV_ISPIF'' 14,
     Const ''CAM_PACKET_DEV_IFE'' 15, Const ''CAM_PACKET_DEV_ICP'' 16,
     Const ''CAM_PACKET_DEV_LRME'' 17, Const ''CAM_PACKET_DEV_MAX'' 18,
     Const ''CAM_PACKET_MAX_PLANES'' 3, Struct ''cam_plane_cfg'' cam_plane_cfg]"

definition cam_defs_3 :: "decl list" where
  "cam_defs_3 =
    [Struct ''cam_cmd_buf_desc'' cam_cmd_buf_desc, Struct ''cam_buf_io_cfg'' cam_buf_io_cfg,
     Struct ''cam_packet_header'' cam_packet_header, Struct ''cam_patch_desc'' cam_patch_desc,
     Struct ''cam_packet'' cam_packet, Struct ''cam_release_dev_cmd'' cam_release_dev_cmd,
     Struct ''cam_start_stop_dev_cmd'' cam_start_stop_dev_cmd,
     Struct ''cam_config_dev_cmd'' cam_config_dev_cmd,
     Struct ''cam_query_cap_cmd'' cam_query_cap_cmd,
     Struct ''cam_acquire_dev_cmd'' cam_acquire_dev_cmd,
     Struct ''cam_flush_dev_cmd'' cam_flush_dev_cmd]"

definition cam_defs_h :: "decl list" where
  "cam_defs_h = cam_defs_1 @ cam_defs_2 @ cam_defs_3"

subsection \<open>media/cam_req_mgr.h\<close>

abbreviation cam_req_mgr_event_data :: ctype where
  "cam_req_mgr_event_data \<equiv>
     StructT Natural [(''session_hdl'', s32), (''link_hdl'', s32), (''frame_id'', s32),
      (''reserved'', s32), (''req_id'', s64), (''tv_sec'', u64), (''tv_usec'', u64)]"

abbreviation cam_req_mgr_session_info :: ctype where
  "cam_req_mgr_session_info \<equiv>
     StructT Natural [(''session_hdl'', s32), (''reserved'', s32)]"

abbreviation CAM_REQ_MGR_MAX_HANDLES :: nat where "CAM_REQ_MGR_MAX_HANDLES \<equiv> 64"

abbreviation cam_req_mgr_link_info :: ctype where
  "cam_req_mgr_link_info \<equiv>
     StructT Natural [(''session_hdl'', s32), (''num_devices'', u32),
      (''dev_hdls'', ArrT s32 CAM_REQ_MGR_MAX_HANDLES), (''link_hdl'', s32)]"

abbreviation cam_req_mgr_unlink_info :: ctype where
  "cam_req_mgr_unlink_info \<equiv>
     StructT Natural [(''session_hdl'', s32), (''link_hdl'', s32)]"

abbreviation cam_req_mgr_flush_info :: ctype where
  "cam_req_mgr_flush_info \<equiv>
     StructT Natural [(''session_hdl'', s32), (''link_hdl'', s32), (''flush_type'', u32),
      (''reserved'', u32), (''req_id'', s64)]"

abbreviation cam_req_mgr_sched_request :: ctype where
  "cam_req_mgr_sched_request \<equiv>
     StructT Natural [(''session_hdl'', s32), (''link_hdl'', s32), (''bubble_enable'', s32),
      (''sync_mode'', s32), (''req_id'', s64)]"

abbreviation MAX_LINKS_PER_SESSION :: nat where "MAX_LINKS_PER_SESSION \<equiv> 2"

abbreviation cam_req_mgr_sync_mode :: ctype where
  "cam_req_mgr_sync_mode \<equiv>
     StructT Natural [(''session_hdl'', s32), (''sync_mode'', s32), (''num_links'', s32),
      (''link_hdls'', ArrT s32 MAX_LINKS_PER_SESSION), (''master_link_hdl'', s32),
      (''reserved'', s32)]"

abbreviation cam_req_mgr_link_control :: ctype where
  "cam_req_mgr_link_control \<equiv>
     StructT Natural [(''ops'', s32), (''session_hdl'', s32), (''num_links'', s32),
      (''reserved'', s32), (''link_hdls'', ArrT s32 MAX_LINKS_PER_SESSION)]"

abbreviation cam_mem_alloc_out_params :: ctype where
  "cam_mem_alloc_out_params \<equiv>
     StructT Natural [(''buf_handle'', u32), (''fd'', s32), (''vaddr'', u64)]"

abbreviation cam_mem_map_out_params :: ctype where
  "cam_mem_map_out_params \<equiv>
     StructT Natural [(''buf_handle'', u32), (''reserved'', u32), (''vaddr'', u64)]"

abbreviation CAM_MEM_MMU_MAX_HANDLE :: nat where "CAM_MEM_MMU_MAX_HANDLE \<equiv> 16"

abbreviation cam_mem_mgr_alloc_cmd :: ctype where
  "cam_mem_mgr_alloc_cmd \<equiv>
     StructT Natural [(''len'', u64), (''align'', u64),
      (''mmu_hdls'', ArrT s32 CAM_MEM_MMU_MAX_HANDLE), (''num_hdl'', u32), (''flags'', u32),
      (''out'', cam_mem_alloc_out_params)]"

abbreviation cam_mem_mgr_map_cmd :: ctype where
  "cam_mem_mgr_map_cmd \<equiv>
     StructT Natural [(''mmu_hdls'', ArrT s32 CAM_MEM_MMU_MAX_HANDLE), (''num_hdl'', u32),
      (''flags'', u32), (''fd'', s32), (''reserved'', u32), (''out'', cam_mem_map_out_params)]"

abbreviation cam_mem_mgr_release_cmd :: ctype where
  "cam_mem_mgr_release_cmd \<equiv>
     StructT Natural [(''buf_handle'', s32), (''reserved'', u32)]"

abbreviation cam_mem_cache_ops_cmd :: ctype where
  "cam_mem_cache_ops_cmd \<equiv>
     StructT Natural [(''buf_handle'', s32), (''mem_cache_ops'', u32)]"

abbreviation cam_req_mgr_error_msg :: ctype where
  "cam_req_mgr_error_msg \<equiv>
     StructT Natural [(''error_type'', u32), (''request_id'', u32), (''device_hdl'', s32),
      (''link_hdl'', s32), (''resource_size'', u64)]"

abbreviation cam_req_mgr_frame_msg :: ctype where
  "cam_req_mgr_frame_msg \<equiv>
     StructT Natural [(''request_id'', u64), (''frame_id'', u64), (''timestamp'', u64),
      (''link_hdl'', s32), (''sof_status'', u32)]"

abbreviation cam_req_mgr_message :: ctype where
  "cam_req_mgr_message \<equiv>
     StructT Natural [(''session_hdl'', s32), (''reserved'', s32),
      (''u'', UnionT Natural [(''err_msg'', cam_req_mgr_error_msg),
      (''frame_msg'', cam_req_mgr_frame_msg)])]"

definition cam_req_mgr_1 :: "decl list" where
  "cam_req_mgr_1 =
    [Flag ''__UAPI_LINUX_CAM_REQ_MGR_H'']"

definition cam_req_mgr_2 :: "nat \<Rightarrow> decl list" where
  "cam_req_mgr_2 MEDIA_ENT_F_OLD_BASE =
    [Text ''CAM_REQ_MGR_VNODE_NAME'' ''cam-req-mgr-devnode'',
     Const ''CAM_DEVICE_TYPE_BASE'' (int MEDIA_ENT_F_OLD_BASE),
     Const ''CAM_VNODE_DEVICE_TYPE'' (int MEDIA_ENT_F_OLD_BASE),
     Const ''CAM_SENSOR_DEVICE_TYPE'' (1 + int MEDIA_ENT_F_OLD_BASE),
     Const ''CAM_IFE_DEVICE_TYPE'' (2 + int MEDIA_ENT_F_OLD_BASE),
     Const ''CAM_ICP_DEVICE_TYPE'' (3 + int MEDIA_ENT_F_OLD_BASE),
     Const ''CAM_LRME_DEVICE_TYPE'' (4 + int MEDIA_ENT_F_OLD_BASE),
     Const ''CAM_JPEG_DEVICE_TYPE'' (5 + int MEDIA_ENT_F_OLD_BASE),
     Const ''CAM_FD_DEVICE_TYPE'' (6 + int MEDIA_ENT_F_OLD_BASE),
     Const ''CAM_CPAS_DEVICE_TYPE'' (7 + int MEDIA_ENT_F_OLD_BASE),
     Const ''CAM_CSIPHY_DEVICE_TYPE'' (8 + int MEDIA_ENT_F_OLD_BASE),
     Const ''CAM_ACTUATOR_DEVICE_TYPE'' (9 + int MEDIA_ENT_F_OLD_BASE),
     Const ''CAM_CCI_DEVICE_TYPE'' (10 + int MEDIA_ENT_F_OLD_BASE),
     Const ''CAM_FLASH_DEVICE_TYPE'' (11 + int MEDIA_ENT_F_OLD_BASE),
     Const ''CAM_EEPROM_DEVICE_TYPE'' (12 + int MEDIA_ENT_F_OLD_BASE),
     Const ''CAM_OIS_DEVICE_TYPE'' (13 + int MEDIA_ENT_F_OLD_BASE),
     Const ''CAM_REQ_MGR_HDL_IDX_POS'' 8, Const ''CAM_REQ_MGR_HDL_IDX_MASK'' 255]"

definition cam_req_mgr_3 :: "decl list" where
  "cam_req_mgr_3 =
    [Const ''CAM_REQ_MGR_MAX_HANDLES'' 64, Const ''MAX_LINKS_PER_SESSION'' 2,
     Const ''V4L_EVENT_CAM_REQ_MGR_EVENT'' (0x8000000 + 0),
     Const ''V4L_EVENT_CAM_REQ_MGR_SOF'' 0, Const ''V4L_EVENT_CAM_REQ_MGR_ERROR'' 1,
     Const ''V4L_EVENT_CAM_REQ_MGR_SOF_BOOT_TS'' 2, Const ''V4L_EVENT_CAM_REQ_MGR_MAX'' 3,
     Const ''CAM_REQ_MGR_SOF_EVENT_SUCCESS'' 0, Const ''CAM_REQ_MGR_SOF_EVENT_ERROR'' 1,
     Const ''CAM_REQ_MGR_LINK_ACTIVATE'' 0, Const ''CAM_REQ_MGR_LINK_DEACTIVATE'' 1,
     Const ''CAM_REQ_MGR_FLUSH_TYPE_ALL'' 0, Const ''CAM_REQ_MGR_FLUSH_TYPE_CANCEL_REQ'' 1,
     Const ''CAM_REQ_MGR_FLUSH_TYPE_MAX'' 2, Const ''CAM_REQ_MGR_SYNC_MODE_NO_SYNC'' 0,
     Const ''CAM_REQ_MGR_SYNC_MODE_SYNC'' 1,
     Struct ''cam_req_mgr_event_data'' cam_req_mgr_event_data,
     Struct ''cam_req_mgr_session_info'' cam_req_mgr_session_info,
     Struct ''cam_req_mgr_link_info'' cam_req_mgr_link_info,
     Struct ''cam_req_mgr_unlink_info'' cam_req_mgr_unlink_info,
     Struct ''cam_req_mgr_flush_info'' cam_req_mgr_flush_info,
     Struct ''cam_req_mgr_sched_request'' cam_req_mgr_sched_request,
     Struct ''cam_req_mgr_sync_mode'' cam_req_mgr_sync_mode,
     Struct ''cam_req_mgr_link_control'' cam_req_mgr_link_control,
     Const ''CAM_REQ_MGR_CREATE_DEV_NODES'' (265 + 1),
     Const ''CAM_REQ_MGR_CREATE_SESSION'' (265 + 2),
     Const ''CAM_REQ_MGR_DESTROY_SESSION'' (265 + 3), Const ''CAM_REQ_MGR_LINK'' (265 + 4),
     Const ''CAM_REQ_MGR_UNLINK'' (265 + 5), Const ''CAM_REQ_MGR_SCHED_REQ'' (265 + 6),
     Const ''CAM_REQ_MGR_FLUSH_REQ'' (265 + 7), Const ''CAM_REQ_MGR_SYNC_MODE'' (265 + 8),
     Const ''CAM_REQ_MGR_ALLOC_BUF'' (265 + 9), Const ''CAM_REQ_MGR_MAP_BUF'' (265 + 10),
     Const ''CAM_REQ_MGR_RELEASE_BUF'' (265 + 11), Const ''CAM_REQ_MGR_CACHE_OPS'' (265 + 12),
     Const ''CAM_REQ_MGR_LINK_CONTROL'' (265 + 13),
     Const ''CAM_MEM_FLAG_HW_READ_WRITE'' (2 ^ 0), Const ''CAM_MEM_FLAG_HW_READ_ONLY'' (2 ^ 1),
     Const ''CAM_MEM_FLAG_HW_WRITE_ONLY'' (2 ^ 2), Const ''CAM_MEM_FLAG_KMD_ACCESS'' (2 ^ 3),
     Const ''CAM_MEM_FLAG_UMD_ACCESS'' (2 ^ 4), Const ''CAM_MEM_FLAG_PROTECTED_MODE'' (2 ^ 5),
     Const ''CAM_MEM_FLAG_CMD_BUF_TYPE'' (2 ^ 6), Const ''CAM_MEM_FLAG_PIXEL_BUF_TYPE'' (2 ^ 7),
     Const ''CAM_MEM_FLAG_STATS_BUF_TYPE'' (2 ^ 8),
     Const ''CAM_MEM_FLAG_PACKET_BUF_TYPE'' (2 ^ 9), Const ''CAM_MEM_FLAG_CACHE'' (2 ^ 10),
     Const ''CAM_MEM_FLAG_HW_SHARED_ACCESS'' (2 ^ 11), Const ''CAM_MEM_MMU_MAX_HANDLE'' 16,
     Const ''CAM_MEM_BUFQ_MAX'' 1024, Const ''CAM_MEM_MGR_SECURE_BIT_POS'' 15,
     Const ''CAM_MEM_MGR_HDL_IDX_SIZE'' 15, Const ''CAM_MEM_MGR_HDL_FD_SIZE'' 16,
     Const ''CAM_MEM_MGR_HDL_IDX_END_POS'' 16, Const ''CAM_MEM_MGR_HDL_FD_END_POS'' 32,
     Const ''CAM_MEM_MGR_HDL_IDX_MASK'' 32767]"

definition cam_req_mgr_4 :: "decl list" where
  "cam_req_mgr_4 =
    [Const ''CAM_MEM_DMA_NONE'' 0, Const ''CAM_MEM_DMA_BIDIRECTIONAL'' 1,
     Const ''CAM_MEM_DMA_TO_DEVICE'' 2, Const ''CAM_MEM_DMA_FROM_DEVICE'' 3,
     Const ''CAM_MEM_CLEAN_CACHE'' 1, Const ''CAM_MEM_INV_CACHE'' 2,
     Const ''CAM_MEM_CLEAN_INV_CACHE'' 3,
     Struct ''cam_mem_alloc_out_params'' cam_mem_alloc_out_params,
     Struct ''cam_mem_map_out_params'' cam_mem_map_out_params,
     Struct ''cam_mem_mgr_alloc_cmd'' cam_mem_mgr_alloc_cmd,
     Struct ''cam_mem_mgr_map_cmd'' cam_mem_mgr_map_cmd,
     Struct ''cam_mem_mgr_release_cmd'' cam_mem_mgr_release_cmd,
     Struct ''cam_mem_cache_ops_cmd'' cam_mem_cache_ops_cmd,
     Const ''CAM_REQ_MGR_ERROR_TYPE_DEVICE'' 0, Const ''CAM_REQ_MGR_ERROR_TYPE_REQUEST'' 1,
     Const ''CAM_REQ_MGR_ERROR_TYPE_BUFFER'' 2,
     Struct ''cam_req_mgr_error_msg'' cam_req_mgr_error_msg,
     Struct ''cam_req_mgr_frame_msg'' cam_req_mgr_frame_msg,
     Struct ''cam_req_mgr_message'' cam_req_mgr_message]"

definition cam_req_mgr_h :: "nat \<Rightarrow> decl list" where
  "cam_req_mgr_h MEDIA_ENT_F_OLD_BASE = cam_req_mgr_1 @ cam_req_mgr_2 MEDIA_ENT_F_OLD_BASE @ cam_req_mgr_3 @ cam_req_mgr_4"

subsection \<open>media/cam_sync.h\<close>

abbreviation cam_sync_ev_header :: ctype where
  "cam_sync_ev_header \<equiv>
     StructT Natural [(''sync_obj'', s32), (''status'', s32)]"

abbreviation cam_sync_info :: ctype where
  "cam_sync_info \<equiv>
     StructT Natural [(''name'', ArrT CharT 64), (''sync_obj'', s32)]"

abbreviation cam_sync_signal :: ctype where
  "cam_sync_signal \<equiv>
     StructT Natural [(''sync_obj'', s32), (''sync_state'', u32)]"

abbreviation cam_sync_merge :: ctype where
  "cam_sync_merge \<equiv>
     StructT Natural [(''sync_objs'', u64), (''num_objs'', u32), (''merged'', s32)]"

abbreviation CAM_SYNC_USER_PAYLOAD_SIZE :: nat where "CAM_SYNC_USER_PAYLOAD_SIZE \<equiv> 2"

abbreviation cam_sync_userpayload_info :: ctype where
  "cam_sync_userpayload_info \<equiv>
     StructT Natural [(''sync_obj'', s32), (''reserved'', u32),
      (''payload'', ArrT u64 CAM_SYNC_USER_PAYLOAD_SIZE)]"

abbreviation cam_sync_wait :: ctype where
  "cam_sync_wait \<equiv>
     StructT Natural [(''sync_obj'', s32), (''reserved'', u32), (''timeout_ms'', u64)]"

abbreviation cam_private_ioctl_arg :: ctype where
  "cam_private_ioctl_arg \<equiv>
     StructT Natural [(''id'', u32), (''size'', u32), (''result'', u32), (''reserved'', u32),
      (''ioctl_ptr'', u64)]"

definition cam_sync_1 :: "decl list" where
  "cam_sync_1 =
    [Flag ''__UAPI_CAM_SYNC_H__'']"

definition cam_sync_2 :: "nat \<Rightarrow> decl list" where
  "cam_sync_2 MEDIA_ENT_F_OLD_BASE =
    [Text ''CAM_SYNC_DEVICE_NAME'' ''cam_sync_device'',
     Const ''CAM_SYNC_V4L_EVENT'' (0x8000000 + 0), Const ''CAM_SYNC_V4L_EVENT_ID_CB_TRIG'' 0,
     Const ''CAM_SYNC_USER_PAYLOAD_SIZE'' 2,
     Const ''CAM_SYNC_DEVICE_TYPE'' (int MEDIA_ENT_F_OLD_BASE)]"

definition cam_sync_3 :: "decl list" where
  "cam_sync_3 =
    [Const ''CAM_SYNC_STATE_INVALID'' 0, Const ''CAM_SYNC_STATE_ACTIVE'' 1,
     Const ''CAM_SYNC_STATE_SIGNALED_SUCCESS'' 2, Const ''CAM_SYNC_STATE_SIGNALED_ERROR'' 3,
     Struct ''cam_sync_ev_header'' cam_sync_ev_header, Struct ''cam_sync_info'' cam_sync_info,
     Struct ''cam_sync_signal'' cam_sync_signal, Struct ''cam_sync_merge'' cam_sync_merge,
     Struct ''cam_sync_userpayload_info'' cam_sync_userpayload_info,
     Struct ''cam_sync_wait'' cam_sync_wait,
     Struct ''cam_private_ioctl_arg'' cam_private_ioctl_arg,
     Request ''CAM_PRIVATE_IOCTL_CMD'' (IOWR 86 192 cam_private_ioctl_arg),
     Const ''CAM_SYNC_CREATE'' 0, Const ''CAM_SYNC_DESTROY'' 1, Const ''CAM_SYNC_SIGNAL'' 2,
     Const ''CAM_SYNC_MERGE'' 3, Const ''CAM_SYNC_REGISTER_PAYLOAD'' 4,
     Const ''CAM_SYNC_DEREGISTER_PAYLOAD'' 5, Const ''CAM_SYNC_WAIT'' 6]"

definition cam_sync_h :: "nat \<Rightarrow> decl list" where
  "cam_sync_h MEDIA_ENT_F_OLD_BASE = cam_sync_1 @ cam_sync_2 MEDIA_ENT_F_OLD_BASE @ cam_sync_3"

subsection \<open>media/cam_sensor.h\<close>

abbreviation MAX_RAINBOW_CONFIG_SIZE :: nat where "MAX_RAINBOW_CONFIG_SIZE \<equiv> 32"

abbreviation rainbow_config :: ctype where
  "rainbow_config \<equiv>
     StructT Packed [(''operation'', EnumT ''rainbow_op_type''), (''size'', u32),
      (''reg_addr'', ArrT u32 MAX_RAINBOW_CONFIG_SIZE),
      (''reg_data'', ArrT u32 MAX_RAINBOW_CONFIG_SIZE)]"

abbreviation cam_sensor_query_cap :: ctype where
  "cam_sensor_query_cap \<equiv>
     StructT Packed [(''slot_info'', u32), (''secure_camera'', u32), (''pos_pitch'', u32),
      (''pos_roll'', u32), (''pos_yaw'', u32), (''actuator_slot_id'', u32),
      (''eeprom_slot_id'', u32), (''ois_slot_id'', u32), (''flash_slot_id'', u32),
      (''csiphy_slot_id'', u32)]"

abbreviation cam_csiphy_query_cap :: ctype where
  "cam_csiphy_query_cap \<equiv>
     StructT Packed [(''slot_info'', u32), (''version'', u32), (''clk_lane'', u32),
      (''reserved'', u32)]"

abbreviation cam_actuator_query_cap :: ctype where
  "cam_actuator_query_cap \<equiv>
     StructT Packed [(''slot_info'', u32), (''reserved'', u32)]"

abbreviation cam_eeprom_query_cap_t :: ctype where
  "cam_eeprom_query_cap_t \<equiv>
     StructT Packed [(''slot_info'', u32), (''eeprom_kernel_probe'', u16), (''reserved'', u16)]"

abbreviation cam_ois_query_cap_t :: ctype where
  "cam_ois_query_cap_t \<equiv>
     StructT Packed [(''slot_info'', u32), (''reserved'', u16)]"

abbreviation cam_cmd_i2c_info :: ctype where
  "cam_cmd_i2c_info \<equiv>
     StructT Packed [(''slave_addr'', u16), (''i2c_freq_mode'', u8), (''cmd_type'', u8)]"

abbreviation cam_cmd_get_ois_data :: ctype where
  "cam_cmd_get_ois_data \<equiv>
     StructT Packed [(''reg_addr'', u32), (''reg_data'', u32), (''query_size_handle'', u64),
      (''query_data_handle'', u64)]"

abbreviation cam_ois_shift :: ctype where
  "cam_ois_shift \<equiv>
     StructT Packed [(''ois_shift_x'', s16), (''ois_shift_y'', s16), (''time_readout'', s64)]"

abbreviation cam_ois_opcode :: ctype where
  "cam_ois_opcode \<equiv>
     StructT Packed [(''prog'', u32), (''coeff'', u32), (''pheripheral'', u32),
      (''memory'', u32)]"

abbreviation MAX_OIS_NAME_SIZE :: nat where "MAX_OIS_NAME_SIZE \<equiv> 32"

abbreviation cam_cmd_ois_info :: ctype where
  "cam_cmd_ois_info \<equiv>
     StructT Packed [(''slave_addr'', u16), (''i2c_freq_mode'', u8), (''cmd_type'', u8),
      (''ois_fw_flag'', u8), (''is_ois_calib'', u8),
      (''ois_name'', ArrT CharT MAX_OIS_NAME_SIZE), (''opcode'', cam_ois_opcode)]"

abbreviation cam_cmd_probe :: ctype where
  "cam_cmd_probe \<equiv>
     StructT Packed [(''data_type'', u8), (''addr_type'', u8), (''op_code'', u8),
      (''cmd_type'', u8), (''reg_addr'', u32), (''expected_data'', u32), (''data_mask'', u32),
      (''camera_id'', u16), (''fw_update_flag'', u8), (''reserved'', u16)]"

abbreviation cam_power_settings :: ctype where
  "cam_power_settings \<equiv>
     StructT Packed [(''power_seq_type'', u16), (''reserved'', u16), (''config_val_low'', u32),
      (''config_val_high'', u32)]"

abbreviation cam_cmd_power :: ctype where
  "cam_cmd_power \<equiv>
     StructT Packed [(''count'', u16), (''reserved'', u8), (''cmd_type'', u8),
      (''power_settings'', ArrT cam_power_settings 1)]"

abbreviation i2c_rdwr_header :: ctype where
  "i2c_rdwr_header \<equiv>
     StructT Packed [(''count'', u16), (''op_code'', u8), (''cmd_type'', u8),
      (''data_type'', u8), (''addr_type'', u8), (''slave_addr'', u16)]"

abbreviation i2c_random_wr_payload :: ctype where
  "i2c_random_wr_payload \<equiv>
     StructT Packed [(''reg_addr'', u32), (''reg_data'', u32)]"

abbreviation cam_cmd_i2c_random_wr :: ctype where
  "cam_cmd_i2c_random_wr \<equiv>
     StructT Packed [(''header'', i2c_rdwr_header),
      (''random_wr_payload'', ArrT i2c_random_wr_payload 1)]"

abbreviation cam_cmd_read :: ctype where
  "cam_cmd_read \<equiv>
     StructT Packed [(''reg_data'', u32), (''reserved'', u32)]"

abbreviation cam_cmd_i2c_continuous_wr :: ctype where
  "cam_cmd_i2c_continuous_wr \<equiv>
     StructT Packed [(''header'', i2c_rdwr_header), (''reg_addr'', u32),
      (''data_read'', ArrT cam_cmd_read 1)]"

abbreviation cam_cmd_i2c_random_rd :: ctype where
  "cam_cmd_i2c_random_rd \<equiv>
     StructT Packed [(''header'', i2c_rdwr_header), (''data_read'', ArrT cam_cmd_read 1)]"

abbreviation cam_cmd_i2c_continuous_rd :: ctype where
  "cam_cmd_i2c_continuous_rd \<equiv>
     StructT Packed [(''header'', i2c_rdwr_header), (''reg_addr'', u32)]"

abbreviation cam_cmd_conditional_wait :: ctype where
  "cam_cmd_conditional_wait \<equiv>
     StructT Packed [(''data_type'', u8), (''addr_type'', u8), (''op_code'', u8),
      (''cmd_type'', u8), (''timeout'', u16), (''reserved'', u16), (''reg_addr'', u32),
      (''reg_data'', u32), (''data_mask'', u32)]"

abbreviation cam_cmd_unconditional_wait :: ctype where
  "cam_cmd_unconditional_wait \<equiv>
     StructT Packed [(''delay'', s16), (''op_code'', u8), (''cmd_type'', u8)]"

abbreviation cam_csiphy_info :: ctype where
  "cam_csiphy_info \<equiv>
     StructT Packed [(''lane_mask'', u16), (''lane_assign'', u16), (''csiphy_3phase'', u8),
      (''combo_mode'', u8), (''lane_cnt'', u8), (''secure_mode'', u8), (''settle_time'', u64),
      (''data_rate'', u64)]"

abbreviation cam_csiphy_acquire_dev_info :: ctype where
  "cam_csiphy_acquire_dev_info \<equiv>
     StructT Packed [(''combo_mode'', u32), (''reserved'', u32)]"

abbreviation cam_sensor_acquire_dev :: ctype where
  "cam_sensor_acquire_dev \<equiv>
     StructT Packed [(''session_handle'', u32), (''device_handle'', u32),
      (''handle_type'', u32), (''reserved'', u32), (''info_handle'', u64)]"

abbreviation cam_sensor_streamon_dev :: ctype where
  "cam_sensor_streamon_dev \<equiv>
     StructT Packed [(''session_handle'', u32), (''device_handle'', u32),
      (''handle_type'', u32), (''reserved'', u32), (''info_handle'', u64)]"

abbreviation cam_flash_init :: ctype where
  "cam_flash_init \<equiv>
     StructT Packed [(''flash_type'', u8), (''reserved'', u16), (''cmd_type'', u8)]"

abbreviation CAM_FLASH_MAX_LED_TRIGGERS :: nat where "CAM_FLASH_MAX_LED_TRIGGERS \<equiv> 3"

abbreviation cam_flash_set_rer :: ctype where
  "cam_flash_set_rer \<equiv>
     StructT Packed [(''count'', u16), (''opcode'', u8), (''cmd_type'', u8),
      (''num_iteration'', u16), (''reserved'', u16), (''led_on_delay_ms'', u32),
      (''led_off_delay_ms'', u32), (''led_current_ma'', ArrT u32 CAM_FLASH_MAX_LED_TRIGGERS)]"

abbreviation cam_flash_set_on_off :: ctype where
  "cam_flash_set_on_off \<equiv>
     StructT Packed [(''count'', u16), (''opcode'', u8), (''cmd_type'', u8),
      (''led_current_ma'', ArrT u32 CAM_FLASH_MAX_LED_TRIGGERS)]"

abbreviation cam_flash_query_curr :: ctype where
  "cam_flash_query_curr \<equiv>
     StructT Packed [(''reserved'', u16), (''opcode'', u8), (''cmd_type'', u8),
      (''query_current_ma'', u32)]"

abbreviation cam_flash_query_cap_info :: ctype where
  "cam_flash_query_cap_info \<equiv>
     StructT Packed [(''slot_info'', u32),
      (''max_current_flash'', ArrT u32 CAM_FLASH_MAX_LED_TRIGGERS),
      (''max_duration_flash'', ArrT u32 CAM_FLASH_MAX_LED_TRIGGERS),
      (''max_current_torch'', ArrT u32 CAM_FLASH_MAX_LED_TRIGGERS)]"

definition cam_sensor_1 :: "decl list" where
  "cam_sensor_1 =
    [Flag ''__UAPI_CAM_SENSOR_H__'']"

definition cam_sensor_2 :: "decl list" where
  "cam_sensor_2 =
    [Const ''CAM_SENSOR_PROBE_CMD'' (265 + 1), Const ''CAM_FLASH_MAX_LED_TRIGGERS'' 3,
     Const ''MAX_OIS_NAME_SIZE'' 32, Const ''CAM_CSIPHY_SECURE_MODE_ENABLED'' 1,
     Const ''MAX_RAINBOW_CONFIG_SIZE'' 32,
     Enum ''rainbow_op_type'' [(''RAINBOW_SEQ_READ'', 0), (''RAINBOW_RANDOM_READ'', 1),
       (''RAINBOW_SEQ_WRITE'', 2), (''RAINBOW_RANDOM_WRITE'', 3)],
     Struct ''rainbow_config'' rainbow_config,
     Request ''RAINBOW_CONFIG'' (IOWR 82 1 rainbow_config),
     Struct ''cam_sensor_query_cap'' cam_sensor_query_cap,
     Struct ''cam_csiphy_query_cap'' cam_csiphy_query_cap,
     Struct ''cam_actuator_query_cap'' cam_actuator_query_cap,
     Struct ''cam_eeprom_query_cap_t'' cam_eeprom_query_cap_t,
     Struct ''cam_ois_query_cap_t'' cam_ois_query_cap_t,
     Struct ''cam_cmd_i2c_info'' cam_cmd_i2c_info,
     Struct ''cam_cmd_get_ois_data'' cam_cmd_get_ois_data,
     Struct ''cam_ois_shift'' cam_ois_shift, Struct ''cam_ois_opcode'' cam_ois_opcode,
     Struct ''cam_cmd_ois_info'' cam_cmd_ois_info, Struct ''cam_cmd_probe'' cam_cmd_probe,
     Struct ''cam_power_settings'' cam_power_settings, Struct ''cam_cmd_power'' cam_cmd_power,
     Struct ''i2c_rdwr_header'' i2c_rdwr_header,
     Struct ''i2c_random_wr_payload'' i2c_random_wr_payload,
     Struct ''cam_cmd_i2c_random_wr'' cam_cmd_i2c_random_wr,
     Struct ''cam_cmd_read'' cam_cmd_read,
     Struct ''cam_cmd_i2c_continuous_wr'' cam_cmd_i2c_continuous_wr,
     Struct ''cam_cmd_i2c_random_rd'' cam_cmd_i2c_random_rd,
     Struct ''cam_cmd_i2c_continuous_rd'' cam_cmd_i2c_continuous_rd,
     Struct ''cam_cmd_conditional_wait'' cam_cmd_conditional_wait]"

definition cam_sensor_3 :: "decl list" where
  "cam_sensor_3 =
    [Struct ''cam_cmd_unconditional_wait'' cam_cmd_unconditional_wait,
     Struct ''cam_csiphy_info'' cam_csiphy_info,
     Struct ''cam_csiphy_acquire_dev_info'' cam_csiphy_acquire_dev_info,
     Struct ''cam_sensor_acquire_dev'' cam_sensor_acquire_dev,
     Struct ''cam_sensor_streamon_dev'' cam_sensor_streamon_dev,
     Struct ''cam_flash_init'' cam_flash_init, Struct ''cam_flash_set_rer'' cam_flash_set_rer,
     Struct ''cam_flash_set_on_off'' cam_flash_set_on_off,
     Struct ''cam_flash_query_curr'' cam_flash_query_curr,
     Struct ''cam_flash_query_cap_info'' cam_flash_query_cap_info]"

definition cam_sensor_h :: "decl list" where
  "cam_sensor_h = cam_sensor_1 @ cam_sensor_2 @ cam_sensor_3"

subsection \<open>media/cam_isp.h\<close>

abbreviation cam_isp_dev_cap_info :: ctype where
  "cam_isp_dev_cap_info \<equiv>
     StructT Natural [(''hw_type'', u32), (''reserved'', u32), (''hw_version'', cam_hw_version)]"

abbreviation CAM_ISP_HW_MAX :: nat where "CAM_ISP_HW_MAX \<equiv> 5"

abbreviation cam_isp_query_cap_cmd :: ctype where
  "cam_isp_query_cap_cmd \<equiv>
     StructT Natural [(''device_iommu'', cam_iommu_handle), (''cdm_iommu'', cam_iommu_handle),
      (''num_dev'', s32), (''reserved'', u32),
      (''dev_caps'', ArrT cam_isp_dev_cap_info CAM_ISP_HW_MAX)]"

abbreviation cam_isp_out_port_info :: ctype where
  "cam_isp_out_port_info \<equiv>
     StructT Natural [(''res_type'', u32), (''format'', u32), (''width'', u32),
      (''height'', u32), (''comp_grp_id'', u32), (''split_point'', u32), (''secure_mode'', u32),
      (''reserved'', u32)]"

abbreviation cam_isp_in_port_info :: ctype where
  "cam_isp_in_port_info \<equiv>
     StructT Natural [(''res_type'', u32), (''lane_type'', u32), (''lane_num'', u32),
      (''lane_cfg'', u32), (''vc'', u32), (''dt'', u32), (''format'', u32),
      (''test_pattern'', u32), (''usage_type'', u32), (''left_start'', u32),
      (''left_stop'', u32), (''left_width'', u32), (''right_start'', u32),
      (''right_stop'', u32), (''right_width'', u32), (''line_start'', u32),
      (''line_stop'', u32), (''height'', u32), (''pixel_clk'', u32), (''batch_size'', u32),
      (''dsp_mode'', u32), (''hbi_cnt'', u32), (''reserved'', u32), (''num_out_res'', u32),
      (''data'', ArrT cam_isp_out_port_info 1)]"

abbreviation cam_isp_resource :: ctype where
  "cam_isp_resource \<equiv>
     StructT Natural [(''resource_id'', u32), (''length'', u32), (''handle_type'', u32),
      (''reserved'', u32), (''res_hdl'', u64)]"

abbreviation cam_isp_port_hfr_config :: ctype where
  "cam_isp_port_hfr_config \<equiv>
     StructT Packed [(''resource_type'', u32), (''subsample_pattern'', u32),
      (''subsample_period'', u32), (''framedrop_pattern'', u32), (''framedrop_period'', u32),
      (''reserved'', u32)]"

abbreviation cam_isp_resource_hfr_config :: ctype where
  "cam_isp_resource_hfr_config \<equiv>
     StructT Packed [(''num_ports'', u32), (''reserved'', u32),
      (''port_hfr_config'', ArrT cam_isp_port_hfr_config 1)]"

abbreviation cam_isp_dual_split_params :: ctype where
  "cam_isp_dual_split_params \<equiv>
     StructT Natural [(''split_point'', u32), (''right_padding'', u32), (''left_padding'', u32),
      (''reserved'', u32)]"

abbreviation cam_isp_dual_stripe_config :: ctype where
  "cam_isp_dual_stripe_config \<equiv>
     StructT Natural [(''offset'', u32), (''width'', u32), (''tileconfig'', u32),
      (''port_id'', u32)]"

abbreviation cam_isp_dual_config :: ctype where
  "cam_isp_dual_config \<equiv>
     StructT Packed [(''num_ports'', u32), (''reserved'', u32),
      (''split_params'', cam_isp_dual_split_params),
      (''stripes'', ArrT cam_isp_dual_stripe_config 1)]"

abbreviation cam_isp_clock_config :: ctype where
  "cam_isp_clock_config \<equiv>
     StructT Packed [(''usage_type'', u32), (''num_rdi'', u32), (''left_pix_hz'', u64),
      (''right_pix_hz'', u64), (''rdi_hz'', ArrT u64 1)]"

abbreviation cam_isp_bw_vote :: ctype where
  "cam_isp_bw_vote \<equiv>
     StructT Packed [(''resource_id'', u32), (''reserved'', u32), (''cam_bw_bps'', u64),
      (''ext_bw_bps'', u64)]"

abbreviation cam_isp_bw_config :: ctype where
  "cam_isp_bw_config \<equiv>
     StructT Packed [(''usage_type'', u32), (''num_rdi'', u32),
      (''left_pix_vote'', cam_isp_bw_vote), (''right_pix_vote'', cam_isp_bw_vote),
      (''rdi_vote'', ArrT cam_isp_bw_vote 1)]"

definition cam_isp_1 :: "decl list" where
  "cam_isp_1 =
    [Flag ''__UAPI_CAM_ISP_H__'']"

definition cam_isp_2 :: "decl list" where
  "cam_isp_2 =
    [Text ''CAM_ISP_DEV_NAME'' ''cam-isp'', Const ''CAM_ISP_HW_BASE'' 0,
     Const ''CAM_ISP_HW_CSID'' 1, Const ''CAM_ISP_HW_VFE'' 2, Const ''CAM_ISP_HW_IFE'' 3,
     Const ''CAM_ISP_HW_ISPIF'' 4, Const ''CAM_ISP_HW_MAX'' 5,
     Const ''CAM_ISP_PATTERN_BAYER_RGRGRG'' 0, Const ''CAM_ISP_PATTERN_BAYER_GRGRGR'' 1,
     Const ''CAM_ISP_PATTERN_BAYER_BGBGBG'' 2, Const ''CAM_ISP_PATTERN_BAYER_GBGBGB'' 3,
     Const ''CAM_ISP_PATTERN_YUV_YCBYCR'' 4, Const ''CAM_ISP_PATTERN_YUV_YCRYCB'' 5,
     Const ''CAM_ISP_PATTERN_YUV_CBYCRY'' 6, Const ''CAM_ISP_PATTERN_YUV_CRYCBY'' 7,
     Const ''CAM_ISP_PATTERN_MAX'' 8, Const ''CAM_ISP_RES_USAGE_SINGLE'' 0,
     Const ''CAM_ISP_RES_USAGE_DUAL'' 1, Const ''CAM_ISP_RES_USAGE_MAX'' 2,
     Const ''CAM_ISP_RES_ID_PORT'' 0, Const ''CAM_ISP_RES_ID_CLK'' 1,
     Const ''CAM_ISP_RES_ID_MAX'' 2, Const ''CAM_ISP_LANE_TYPE_DPHY'' 0,
     Const ''CAM_ISP_LANE_TYPE_CPHY'' 1, Const ''CAM_ISP_LANE_TYPE_MAX'' 2,
     Const ''CAM_ISP_RES_COMP_GROUP_NONE'' 0, Const ''CAM_ISP_RES_COMP_GROUP_ID_0'' 1,
     Const ''CAM_ISP_RES_COMP_GROUP_ID_1'' 2, Const ''CAM_ISP_RES_COMP_GROUP_ID_2'' 3,
     Const ''CAM_ISP_RES_COMP_GROUP_ID_3'' 4, Const ''CAM_ISP_RES_COMP_GROUP_ID_4'' 5,
     Const ''CAM_ISP_RES_COMP_GROUP_ID_5'' 6, Const ''CAM_ISP_RES_COMP_GROUP_ID_MAX'' 6,
     Const ''CAM_ISP_PACKET_OP_BASE'' 0, Const ''CAM_ISP_PACKET_INIT_DEV'' 1,
     Const ''CAM_ISP_PACKET_UPDATE_DEV'' 2, Const ''CAM_ISP_PACKET_OP_MAX'' 3,
     Const ''CAM_ISP_PACKET_META_BASE'' 0, Const ''CAM_ISP_PACKET_META_LEFT'' 1,
     Const ''CAM_ISP_PACKET_META_RIGHT'' 2, Const ''CAM_ISP_PACKET_META_COMMON'' 3,
     Const ''CAM_ISP_PACKET_META_DMI_LEFT'' 4, Const ''CAM_ISP_PACKET_META_DMI_RIGHT'' 5,
     Const ''CAM_ISP_PACKET_META_DMI_COMMON'' 6, Const ''CAM_ISP_PACKET_META_CLOCK'' 7,
     Const ''CAM_ISP_PACKET_META_CSID'' 8, Const ''CAM_ISP_PACKET_META_DUAL_CONFIG'' 9,
     Const ''CAM_ISP_PACKET_META_GENERIC_BLOB_LEFT'' 10,
     Const ''CAM_ISP_PACKET_META_GENERIC_BLOB_RIGHT'' 11,
     Const ''CAM_ISP_PACKET_META_GENERIC_BLOB_COMMON'' 12, Const ''CAM_ISP_DSP_MODE_NONE'' 0,
     Const ''CAM_ISP_DSP_MODE_ONE_WAY'' 1, Const ''CAM_ISP_DSP_MODE_ROUND'' 2,
     Const ''CAM_ISP_GENERIC_BLOB_TYPE_HFR_CONFIG'' 0,
     Const ''CAM_ISP_GENERIC_BLOB_TYPE_CLOCK_CONFIG'' 1,
     Const ''CAM_ISP_GENERIC_BLOB_TYPE_BW_CONFIG'' 2,
     Struct ''cam_isp_dev_cap_info'' cam_isp_dev_cap_info,
     Struct ''cam_isp_query_cap_cmd'' cam_isp_query_cap_cmd,
     Struct ''cam_isp_out_port_info'' cam_isp_out_port_info,
     Struct ''cam_isp_in_port_info'' cam_isp_in_port_info,
     Struct ''cam_isp_resource'' cam_isp_resource,
     Struct ''cam_isp_port_hfr_config'' cam_isp_port_hfr_config,
     Struct ''cam_isp_resource_hfr_config'' cam_isp_resource_hfr_config,
     Struct ''cam_isp_dual_split_params'' cam_isp_dual_split_params,
     Struct ''cam_isp_dual_stripe_config'' cam_isp_dual_stripe_config,
     Struct ''cam_isp_dual_config'' cam_isp_dual_config,
     Struct ''cam_isp_clock_config'' cam_isp_clock_config]"

definition cam_isp_3 :: "decl list" where
  "cam_isp_3 =
    [Struct ''cam_isp_bw_vote'' cam_isp_bw_vote, Struct ''cam_isp_bw_config'' cam_isp_bw_config]"

definition cam_isp_h :: "decl list" where
  "cam_isp_h = cam_isp_1 @ cam_isp_2 @ cam_isp_3"

subsection \<open>media/cam_icp.h\<close>

abbreviation cam_icp_clk_bw_request :: ctype where
  "cam_icp_clk_bw_request \<equiv>
     StructT Natural [(''budget_ns'', u64), (''frame_cycles'', u32), (''rt_flag'', u32),
      (''uncompressed_bw'', u64), (''compressed_bw'', u64)]"

abbreviation cam_icp_dev_ver :: ctype where
  "cam_icp_dev_ver \<equiv>
     StructT Natural [(''dev_type'', u32), (''reserved'', u32), (''hw_ver'', cam_hw_version)]"

abbreviation cam_icp_ver :: ctype where
  "cam_icp_ver \<equiv>
     StructT Natural [(''major'', u32), (''minor'', u32), (''revision'', u32),
      (''reserved'', u32)]"

abbreviation CAM_ICP_DEV_TYPE_MAX :: nat where "CAM_ICP_DEV_TYPE_MAX \<equiv> 5"

abbreviation cam_icp_query_cap_cmd :: ctype where
  "cam_icp_query_cap_cmd \<equiv>
     StructT Natural [(''dev_iommu_handle'', cam_iommu_handle),
      (''cdm_iommu_handle'', cam_iommu_handle), (''fw_version'', cam_icp_ver),
      (''api_version'', cam_icp_ver), (''num_ipe'', u32), (''num_bps'', u32),
      (''dev_ver'', ArrT cam_icp_dev_ver CAM_ICP_DEV_TYPE_MAX)]"

abbreviation cam_icp_res_info :: ctype where
  "cam_icp_res_info \<equiv>
     StructT Natural [(''format'', u32), (''width'', u32), (''height'', u32), (''fps'', u32)]"

abbreviation cam_icp_acquire_dev_info :: ctype where
  "cam_icp_acquire_dev_info \<equiv>
     StructT Packed [(''scratch_mem_size'', u32), (''dev_type'', u32),
      (''io_config_cmd_size'', u32), (''io_config_cmd_handle'', s32), (''secure_mode'', u32),
      (''chain_info'', s32), (''in_res'', cam_icp_res_info), (''num_out_res'', u32),
      (''out_res'', ArrT cam_icp_res_info 1)]"

definition cam_icp_1 :: "decl list" where
  "cam_icp_1 =
    [Flag ''__UAPI_CAM_ICP_H__'']"

definition cam_icp_2 :: "decl list" where
  "cam_icp_2 =
    [Const ''CAM_ICP_DEV_TYPE_A5'' 1, Const ''CAM_ICP_DEV_TYPE_IPE'' 2,
     Const ''CAM_ICP_DEV_TYPE_BPS'' 3, Const ''CAM_ICP_DEV_TYPE_IPE_CDM'' 4,
     Const ''CAM_ICP_DEV_TYPE_BPS_CDM'' 5, Const ''CAM_ICP_DEV_TYPE_MAX'' 5,
     Const ''CAM_ICP_RES_TYPE_BPS'' 1, Const ''CAM_ICP_RES_TYPE_IPE_RT'' 2,
     Const ''CAM_ICP_RES_TYPE_IPE'' 3, Const ''CAM_ICP_RES_TYPE_MAX'' 4,
     Const ''CAM_ICP_OPCODE_IPE_UPDATE'' 0, Const ''CAM_ICP_OPCODE_BPS_UPDATE'' 1,
     Const ''CAM_ICP_IPE_INPUT_IMAGE_FULL'' 0x0, Const ''CAM_ICP_IPE_INPUT_IMAGE_DS4'' 0x1,
     Const ''CAM_ICP_IPE_INPUT_IMAGE_DS16'' 0x2, Const ''CAM_ICP_IPE_INPUT_IMAGE_DS64'' 0x3,
     Const ''CAM_ICP_IPE_INPUT_IMAGE_FULL_REF'' 0x4,
     Const ''CAM_ICP_IPE_INPUT_IMAGE_DS4_REF'' 0x5,
     Const ''CAM_ICP_IPE_INPUT_IMAGE_DS16_REF'' 0x6,
     Const ''CAM_ICP_IPE_INPUT_IMAGE_DS64_REF'' 0x7,
     Const ''CAM_ICP_IPE_OUTPUT_IMAGE_DISPLAY'' 0x8,
     Const ''CAM_ICP_IPE_OUTPUT_IMAGE_VIDEO'' 0x9,
     Const ''CAM_ICP_IPE_OUTPUT_IMAGE_FULL_REF'' 0xA,
     Const ''CAM_ICP_IPE_OUTPUT_IMAGE_DS4_REF'' 0xB,
     Const ''CAM_ICP_IPE_OUTPUT_IMAGE_DS16_REF'' 0xC,
     Const ''CAM_ICP_IPE_OUTPUT_IMAGE_DS64_REF'' 0xD, Const ''CAM_ICP_IPE_IMAGE_MAX'' 0xE,
     Const ''CAM_ICP_BPS_INPUT_IMAGE'' 0x0, Const ''CAM_ICP_BPS_OUTPUT_IMAGE_FULL'' 0x1,
     Const ''CAM_ICP_BPS_OUTPUT_IMAGE_DS4'' 0x2, Const ''CAM_ICP_BPS_OUTPUT_IMAGE_DS16'' 0x3,
     Const ''CAM_ICP_BPS_OUTPUT_IMAGE_DS64'' 0x4,
     Const ''CAM_ICP_BPS_OUTPUT_IMAGE_STATS_BG'' 0x5,
     Const ''CAM_ICP_BPS_OUTPUT_IMAGE_STATS_BHIST'' 0x6,
     Const ''CAM_ICP_BPS_OUTPUT_IMAGE_REG1'' 0x7, Const ''CAM_ICP_BPS_OUTPUT_IMAGE_REG2'' 0x8,
     Const ''CAM_ICP_BPS_IO_IMAGES_MAX'' 0x9, Const ''CAM_ICP_CMD_META_GENERIC_BLOB'' 0x1,
     Const ''CAM_ICP_CMD_GENERIC_BLOB_CLK'' 0x1,
     Struct ''cam_icp_clk_bw_request'' cam_icp_clk_bw_request,
     Struct ''cam_icp_dev_ver'' cam_icp_dev_ver, Struct ''cam_icp_ver'' cam_icp_ver,
     Struct ''cam_icp_query_cap_cmd'' cam_icp_query_cap_cmd,
     Struct ''cam_icp_res_info'' cam_icp_res_info,
     Struct ''cam_icp_acquire_dev_info'' cam_icp_acquire_dev_info]"

definition cam_icp_h :: "decl list" where
  "cam_icp_h = cam_icp_1 @ cam_icp_2"

subsection \<open>media/cam_jpeg.h\<close>

abbreviation cam_jpeg_dev_ver :: ctype where
  "cam_jpeg_dev_ver \<equiv>
     StructT Natural [(''size'', u32), (''dev_type'', u32), (''hw_ver'', cam_hw_version)]"

abbreviation CAM_JPEG_DEV_TYPE_MAX :: nat where "CAM_JPEG_DEV_TYPE_MAX \<equiv> 2"

abbreviation cam_jpeg_query_cap_cmd :: ctype where
  "cam_jpeg_query_cap_cmd \<equiv>
     StructT Natural [(''dev_iommu_handle'', cam_iommu_handle),
      (''cdm_iommu_handle'', cam_iommu_handle), (''num_enc'', u32), (''num_dma'', u32),
      (''dev_ver'', ArrT cam_jpeg_dev_ver CAM_JPEG_DEV_TYPE_MAX)]"

abbreviation cam_jpeg_res_info :: ctype where
  "cam_jpeg_res_info \<equiv>
     StructT Natural [(''format'', u32), (''width'', u32), (''height'', u32), (''fps'', u32)]"

abbreviation cam_jpeg_acquire_dev_info :: ctype where
  "cam_jpeg_acquire_dev_info \<equiv>
     StructT Natural [(''dev_type'', u32), (''reserved'', u32), (''in_res'', cam_jpeg_res_info),
      (''out_res'', cam_jpeg_res_info)]"

abbreviation cam_jpeg_config_inout_param_info :: ctype where
  "cam_jpeg_config_inout_param_info \<equiv>
     StructT Natural [(''clk_index'', s32), (''output_size'', s32)]"

definition cam_jpeg_1 :: "decl list" where
  "cam_jpeg_1 =
    [Flag ''__UAPI_CAM_JPEG_H__'']"

definition cam_jpeg_2 :: "decl list" where
  "cam_jpeg_2 =
    [Const ''CAM_JPEG_DEV_TYPE_ENC'' 0, Const ''CAM_JPEG_DEV_TYPE_DMA'' 1,
     Const ''CAM_JPEG_DEV_TYPE_MAX'' 2, Const ''CAM_JPEG_NUM_DEV_PER_RES_MAX'' 1,
     Const ''CAM_JPEG_RES_TYPE_ENC'' 0, Const ''CAM_JPEG_RES_TYPE_DMA'' 1,
     Const ''CAM_JPEG_RES_TYPE_MAX'' 2, Const ''CAM_JPEG_OPCODE_ENC_UPDATE'' 0,
     Const ''CAM_JPEG_OPCODE_DMA_UPDATE'' 1, Const ''CAM_JPEG_ENC_INPUT_IMAGE'' 0x0,
     Const ''CAM_JPEG_ENC_OUTPUT_IMAGE'' 0x1, Const ''CAM_JPEG_ENC_IO_IMAGES_MAX'' 0x2,
     Const ''CAM_JPEG_DMA_INPUT_IMAGE'' 0x0, Const ''CAM_JPEG_DMA_OUTPUT_IMAGE'' 0x1,
     Const ''CAM_JPEG_DMA_IO_IMAGES_MAX'' 0x2, Const ''CAM_JPEG_IMAGE_MAX'' 0x2,
     Struct ''cam_jpeg_dev_ver'' cam_jpeg_dev_ver,
     Struct ''cam_jpeg_query_cap_cmd'' cam_jpeg_query_cap_cmd,
     Struct ''cam_jpeg_res_info'' cam_jpeg_res_info,
     Struct ''cam_jpeg_acquire_dev_info'' cam_jpeg_acquire_dev_info,
     Struct ''cam_jpeg_config_inout_param_info'' cam_jpeg_config_inout_param_info]"

definition cam_jpeg_h :: "decl list" where
  "cam_jpeg_h = cam_jpeg_1 @ cam_jpeg_2"

subsection \<open>media/cam_fd.h\<close>

abbreviation cam_fd_soc_clock_bw_request :: ctype where
  "cam_fd_soc_clock_bw_request \<equiv>
     StructT Natural [(''clock_rate'', u64), (''bandwidth'', u64), (''reserved'', ArrT u64 4)]"

abbreviation cam_fd_face :: ctype where
  "cam_fd_face \<equiv>
     StructT Natural [(''prop1'', u32), (''prop2'', u32), (''prop3'', u32), (''prop4'', u32)]"

abbreviation CAM_FD_MAX_FACES :: nat where "CAM_FD_MAX_FACES \<equiv> 35"

abbreviation cam_fd_results :: ctype where
  "cam_fd_results \<equiv>
     StructT Natural [(''faces'', ArrT cam_fd_face CAM_FD_MAX_FACES), (''face_count'', u32),
      (''reserved'', ArrT u32 3)]"

abbreviation cam_fd_hw_caps :: ctype where
  "cam_fd_hw_caps \<equiv>
     StructT Natural [(''core_version'', cam_hw_version), (''wrapper_version'', cam_hw_version),
      (''raw_results_available'', u32), (''supported_modes'', u32), (''reserved'', u64)]"

abbreviation cam_fd_query_cap_cmd :: ctype where
  "cam_fd_query_cap_cmd \<equiv>
     StructT Natural [(''device_iommu'', cam_iommu_handle), (''cdm_iommu'', cam_iommu_handle),
      (''hw_caps'', cam_fd_hw_caps), (''reserved'', u64)]"

abbreviation cam_fd_acquire_dev_info :: ctype where
  "cam_fd_acquire_dev_info \<equiv>
     StructT Natural [(''clk_bw_request'', cam_fd_soc_clock_bw_request), (''priority'', u32),
      (''mode'', u32), (''get_raw_results'', u32), (''reserved'', ArrT u32 13)]"

definition cam_fd_1 :: "decl list" where
  "cam_fd_1 =
    [Flag ''__UAPI_CAM_FD_H__'']"

definition cam_fd_2 :: "decl list" where
  "cam_fd_2 =
    [Const ''CAM_FD_MAX_FACES'' 35, Const ''CAM_FD_RAW_RESULT_ENTRIES'' 512,
     Const ''CAM_PACKET_OPCODES_FD_FRAME_UPDATE'' 0x0,
     Const ''CAM_FD_CMD_BUFFER_ID_GENERIC'' 0x0, Const ''CAM_FD_CMD_BUFFER_ID_CDM'' 0x1,
     Const ''CAM_FD_CMD_BUFFER_ID_MAX'' 0x2,
     Const ''CAM_FD_BLOB_TYPE_SOC_CLOCK_BW_REQUEST'' 0x0,
     Const ''CAM_FD_BLOB_TYPE_RAW_RESULTS_REQUIRED'' 0x1,
     Const ''CAM_FD_INPUT_PORT_ID_IMAGE'' 0x0, Const ''CAM_FD_INPUT_PORT_ID_MAX'' 0x1,
     Const ''CAM_FD_OUTPUT_PORT_ID_RESULTS'' 0x0,
     Const ''CAM_FD_OUTPUT_PORT_ID_RAW_RESULTS'' 0x1,
     Const ''CAM_FD_OUTPUT_PORT_ID_WORK_BUFFER'' 0x2, Const ''CAM_FD_OUTPUT_PORT_ID_MAX'' 0x3,
     Struct ''cam_fd_soc_clock_bw_request'' cam_fd_soc_clock_bw_request,
     Struct ''cam_fd_face'' cam_fd_face, Struct ''cam_fd_results'' cam_fd_results,
     Struct ''cam_fd_hw_caps'' cam_fd_hw_caps,
     Struct ''cam_fd_query_cap_cmd'' cam_fd_query_cap_cmd,
     Struct ''cam_fd_acquire_dev_info'' cam_fd_acquire_dev_info]"

definition cam_fd_h :: "decl list" where
  "cam_fd_h = cam_fd_1 @ cam_fd_2"

subsection \<open>media/cam_lrme.h\<close>

abbreviation cam_lrme_hw_version :: ctype where
  "cam_lrme_hw_version \<equiv>
     StructT Natural [(''gen'', u32), (''rev'', u32), (''step'', u32)]"

abbreviation cam_lrme_dev_cap :: ctype where
  "cam_lrme_dev_cap \<equiv>
     StructT Natural [(''clc_hw_version'', cam_lrme_hw_version),
      (''bus_rd_hw_version'', cam_lrme_hw_version),
      (''bus_wr_hw_version'', cam_lrme_hw_version), (''top_hw_version'', cam_lrme_hw_version),
      (''top_titan_version'', cam_lrme_hw_version)]"

abbreviation CAM_LRME_DEV_MAX :: nat where "CAM_LRME_DEV_MAX \<equiv> 1"

abbreviation cam_lrme_query_cap_cmd :: ctype where
  "cam_lrme_query_cap_cmd \<equiv>
     StructT Natural [(''device_iommu'', cam_iommu_handle), (''cdm_iommu'', cam_iommu_handle),
      (''num_devices'', u32), (''dev_caps'', ArrT cam_lrme_dev_cap CAM_LRME_DEV_MAX)]"

abbreviation cam_lrme_soc_info :: ctype where
  "cam_lrme_soc_info \<equiv>
     StructT Natural [(''clock_rate'', u64), (''bandwidth'', u64), (''reserved'', ArrT u64 4)]"

abbreviation cam_lrme_acquire_args :: ctype where
  "cam_lrme_acquire_args \<equiv>
     StructT Natural [(''lrme_soc_info'', cam_lrme_soc_info)]"

definition cam_lrme_1 :: "decl list" where
  "cam_lrme_1 =
    [Flag ''__UAPI_CAM_LRME_H__'']"

definition cam_lrme_2 :: "decl list" where
  "cam_lrme_2 =
    [Enum ''CAM_LRME_IO_TYPE'' [(''CAM_LRME_IO_TYPE_TAR'', 0), (''CAM_LRME_IO_TYPE_REF'', 1),
       (''CAM_LRME_IO_TYPE_RES'', 2), (''CAM_LRME_IO_TYPE_DS2'', 3)],
     Const ''CAM_LRME_INPUT_PORT_TYPE_TAR'' (2 ^ 0),
     Const ''CAM_LRME_INPUT_PORT_TYPE_REF'' (2 ^ 1),
     Const ''CAM_LRME_OUTPUT_PORT_TYPE_DS2'' (2 ^ 0),
     Const ''CAM_LRME_OUTPUT_PORT_TYPE_RES'' (2 ^ 1), Const ''CAM_LRME_DEV_MAX'' 1,
     Struct ''cam_lrme_hw_version'' cam_lrme_hw_version,
     Struct ''cam_lrme_dev_cap'' cam_lrme_dev_cap,
     Struct ''cam_lrme_query_cap_cmd'' cam_lrme_query_cap_cmd,
     Struct ''cam_lrme_soc_info'' cam_lrme_soc_info,
     Struct ''cam_lrme_acquire_args'' cam_lrme_acquire_args]"

definition cam_lrme_h :: "decl list" where
  "cam_lrme_h = cam_lrme_1 @ cam_lrme_2"

subsection \<open>media/cam_cpas.h\<close>

abbreviation cam_cpas_query_cap :: ctype where
  "cam_cpas_query_cap \<equiv>
     StructT Natural [(''camera_family'', u32), (''reserved'', u32),
      (''camera_version'', cam_hw_version), (''cpas_version'', cam_hw_version)]"

definition cam_cpas_1 :: "decl list" where
  "cam_cpas_1 =
    [Flag ''__UAPI_CAM_CPAS_H__'']"

definition cam_cpas_2 :: "decl list" where
  "cam_cpas_2 =
    [Const ''CAM_FAMILY_CAMERA_SS'' 1, Const ''CAM_FAMILY_CPAS_SS'' 2,
     Struct ''cam_cpas_query_cap'' cam_cpas_query_cap]"

definition cam_cpas_h :: "decl list" where
  "cam_cpas_h = cam_cpas_1 @ cam_cpas_2"

end
