(* ===== verification/SanControls.thy ===== *)
theory SanControls
  imports CLayout
begin

text \<open>
  The headers programs are built with (under sdm710/kernel-headers, stripped of comments) of
  the controls of video devices (linux/v4l2-controls.h): every structure and union with its
  fields in order; then, for every file, the list of its declarations, in blocks:
  structures, enumerations, number macros and device requests. A type of the C library or of
  a header that is not in the repository is a foreign type.
\<close>

subsection \<open>linux/v4l2-controls.h\<close>

definition v4l2_controls_1 :: "decl list" where
  "v4l2_controls_1 =
    [Flag ''__LINUX_V4L2_CONTROLS_H'', Const ''V4L2_CTRL_CLASS_USER'' 0x00980000,
     Const ''V4L2_CTRL_CLASS_MPEG'' 0x00990000, Const ''V4L2_CTRL_CLASS_CAMERA'' 0x009a0000,
     Const ''V4L2_CTRL_CLASS_FM_TX'' 0x009b0000, Const ''V4L2_CTRL_CLASS_FLASH'' 0x009c0000,
     Const ''V4L2_CTRL_CLASS_JPEG'' 0x009d0000,
     Const ''V4L2_CTRL_CLASS_IMAGE_SOURCE'' 0x009e0000,
     Const ''V4L2_CTRL_CLASS_IMAGE_PROC'' 0x009f0000, Const ''V4L2_CTRL_CLASS_DV'' 0x00a00000,
     Const ''V4L2_CTRL_CLASS_FM_RX'' 0x00a10000, Const ''V4L2_CTRL_CLASS_RF_TUNER'' 0x00a20000,
     Const ''V4L2_CTRL_CLASS_DETECT'' 0x00a30000, Const ''V4L2_CID_BASE'' 9963776,
     Const ''V4L2_CID_USER_BASE'' 9963776, Const ''V4L2_CID_USER_CLASS'' 9961473,
     Const ''V4L2_CID_BRIGHTNESS'' (0x980900 + 0), Const ''V4L2_CID_CONTRAST'' (0x980900 + 1),
     Const ''V4L2_CID_SATURATION'' (0x980900 + 2), Const ''V4L2_CID_HUE'' (0x980900 + 3),
     Const ''V4L2_CID_AUDIO_VOLUME'' (0x980900 + 5),
     Const ''V4L2_CID_AUDIO_BALANCE'' (0x980900 + 6),
     Const ''V4L2_CID_AUDIO_BASS'' (0x980900 + 7),
     Const ''V4L2_CID_AUDIO_TREBLE'' (0x980900 + 8),
     Const ''V4L2_CID_AUDIO_MUTE'' (0x980900 + 9),
     Const ''V4L2_CID_AUDIO_LOUDNESS'' (0x980900 + 10),
     Const ''V4L2_CID_BLACK_LEVEL'' (0x980900 + 11),
     Const ''V4L2_CID_AUTO_WHITE_BALANCE'' (0x980900 + 12),
     Const ''V4L2_CID_DO_WHITE_BALANCE'' (0x980900 + 13),
     Const ''V4L2_CID_RED_BALANCE'' (0x980900 + 14),
     Const ''V4L2_CID_BLUE_BALANCE'' (0x980900 + 15), Const ''V4L2_CID_GAMMA'' (0x980900 + 16),
     Const ''V4L2_CID_WHITENESS'' 9963792, Const ''V4L2_CID_EXPOSURE'' (0x980900 + 17),
     Const ''V4L2_CID_AUTOGAIN'' (0x980900 + 18), Const ''V4L2_CID_GAIN'' (0x980900 + 19),
     Const ''V4L2_CID_HFLIP'' (0x980900 + 20), Const ''V4L2_CID_VFLIP'' (0x980900 + 21),
     Const ''V4L2_CID_POWER_LINE_FREQUENCY'' (0x980900 + 24),
     Enum ''v4l2_power_line_frequency'' [(''V4L2_CID_POWER_LINE_FREQUENCY_DISABLED'', 0),
       (''V4L2_CID_POWER_LINE_FREQUENCY_50HZ'', 1), (''V4L2_CID_POWER_LINE_FREQUENCY_60HZ'', 2),
       (''V4L2_CID_POWER_LINE_FREQUENCY_AUTO'', 3)],
     Const ''V4L2_CID_HUE_AUTO'' (0x980900 + 25),
     Const ''V4L2_CID_WHITE_BALANCE_TEMPERATURE'' (0x980900 + 26),
     Const ''V4L2_CID_SHARPNESS'' (0x980900 + 27),
     Const ''V4L2_CID_BACKLIGHT_COMPENSATION'' (0x980900 + 28),
     Const ''V4L2_CID_CHROMA_AGC'' (0x980900 + 29),
     Const ''V4L2_CID_COLOR_KILLER'' (0x980900 + 30),
     Const ''V4L2_CID_COLORFX'' (0x980900 + 31),
     Enum ''v4l2_colorfx'' [(''V4L2_COLORFX_NONE'', 0), (''V4L2_COLORFX_BW'', 1),
       (''V4L2_COLORFX_SEPIA'', 2), (''V4L2_COLORFX_NEGATIVE'', 3), (''V4L2_COLORFX_EMBOSS'', 4),
       (''V4L2_COLORFX_SKETCH'', 5), (''V4L2_COLORFX_SKY_BLUE'', 6),
       (''V4L2_COLORFX_GRASS_GREEN'', 7), (''V4L2_COLORFX_SKIN_WHITEN'', 8),
       (''V4L2_COLORFX_VIVID'', 9), (''V4L2_COLORFX_AQUA'', 10),
       (''V4L2_COLORFX_ART_FREEZE'', 11), (''V4L2_COLORFX_SILHOUETTE'', 12),
       (''V4L2_COLORFX_SOLARIZATION'', 13), (''V4L2_COLORFX_ANTIQUE'', 14),
       (''V4L2_COLORFX_SET_CBCR'', 15)],
     Const ''V4L2_CID_AUTOBRIGHTNESS'' (0x980900 + 32),
     Const ''V4L2_CID_BAND_STOP_FILTER'' (0x980900 + 33),
     Const ''V4L2_CID_ROTATE'' (0x980900 + 34), Const ''V4L2_CID_BG_COLOR'' (0x980900 + 35),
     Const ''V4L2_CID_CHROMA_GAIN'' (0x980900 + 36),
     Const ''V4L2_CID_ILLUMINATORS_1'' (0x980900 + 37),
     Const ''V4L2_CID_ILLUMINATORS_2'' (0x980900 + 38),
     Const ''V4L2_CID_MIN_BUFFERS_FOR_CAPTURE'' (0x980900 + 39),
     Const ''V4L2_CID_MIN_BUFFERS_FOR_OUTPUT'' (0x980900 + 40),
     Const ''V4L2_CID_ALPHA_COMPONENT'' (0x980900 + 41),
     Const ''V4L2_CID_COLORFX_CBCR'' (0x980900 + 42), Const ''V4L2_CID_LASTP1'' (0x980900 + 43),
     Const ''V4L2_CID_USER_MEYE_BASE'' (0x980900 + 0x1000),
     Const ''V4L2_CID_USER_BTTV_BASE'' (0x980900 + 0x1010),
     Const ''V4L2_CID_USER_S2255_BASE'' (0x980900 + 0x1030),
     Const ''V4L2_CID_USER_SI476X_BASE'' (0x980900 + 0x1040),
     Const ''V4L2_CID_USER_TI_VPE_BASE'' (0x980900 + 0x1050),
     Const ''V4L2_CID_USER_SAA7134_BASE'' (0x980900 + 0x1060),
     Const ''V4L2_CID_USER_ADV7180_BASE'' (0x980900 + 0x1070),
     Const ''V4L2_CID_USER_TC358743_BASE'' (0x980900 + 0x1080),
     Const ''V4L2_CID_MPEG_BASE'' 10029312, Const ''V4L2_CID_MPEG_CLASS'' 10027009,
     Const ''V4L2_CID_MPEG_STREAM_TYPE'' (0x990900 + 0),
     Enum ''v4l2_mpeg_stream_type'' [(''V4L2_MPEG_STREAM_TYPE_MPEG2_PS'', 0),
       (''V4L2_MPEG_STREAM_TYPE_MPEG2_TS'', 1), (''V4L2_MPEG_STREAM_TYPE_MPEG1_SS'', 2),
       (''V4L2_MPEG_STREAM_TYPE_MPEG2_DVD'', 3), (''V4L2_MPEG_STREAM_TYPE_MPEG1_VCD'', 4),
       (''V4L2_MPEG_STREAM_TYPE_MPEG2_SVCD'', 5)],
     Const ''V4L2_CID_MPEG_STREAM_PID_PMT'' (0x990900 + 1),
     Const ''V4L2_CID_MPEG_STREAM_PID_AUDIO'' (0x990900 + 2),
     Const ''V4L2_CID_MPEG_STREAM_PID_VIDEO'' (0x990900 + 3),
     Const ''V4L2_CID_MPEG_STREAM_PID_PCR'' (0x990900 + 4),
     Const ''V4L2_CID_MPEG_STREAM_PES_ID_AUDIO'' (0x990900 + 5),
     Const ''V4L2_CID_MPEG_STREAM_PES_ID_VIDEO'' (0x990900 + 6),
     Const ''V4L2_CID_MPEG_STREAM_VBI_FMT'' (0x990900 + 7),
     Enum ''v4l2_mpeg_stream_vbi_fmt'' [(''V4L2_MPEG_STREAM_VBI_FMT_NONE'', 0),
       (''V4L2_MPEG_STREAM_VBI_FMT_IVTV'', 1)],
     Const ''V4L2_CID_MPEG_AUDIO_SAMPLING_FREQ'' (0x990900 + 100),
     Enum ''v4l2_mpeg_audio_sampling_freq'' [(''V4L2_MPEG_AUDIO_SAMPLING_FREQ_44100'', 0),
       (''V4L2_MPEG_AUDIO_SAMPLING_FREQ_48000'', 1),
      (''V4L2_MPEG_AUDIO_SAMPLING_FREQ_32000'', 2)],
     Const ''V4L2_CID_MPEG_AUDIO_ENCODING'' (0x990900 + 101),
     Enum ''v4l2_mpeg_audio_encoding'' [(''V4L2_MPEG_AUDIO_ENCODING_LAYER_1'', 0),
       (''V4L2_MPEG_AUDIO_ENCODING_LAYER_2'', 1), (''V4L2_MPEG_AUDIO_ENCODING_LAYER_3'', 2),
       (''V4L2_MPEG_AUDIO_ENCODING_AAC'', 3), (''V4L2_MPEG_AUDIO_ENCODING_AC3'', 4)],
     Const ''V4L2_CID_MPEG_AUDIO_L1_BITRATE'' (0x990900 + 102),
     Enum ''v4l2_mpeg_audio_l1_bitrate'' [(''V4L2_MPEG_AUDIO_L1_BITRATE_32K'', 0),
       (''V4L2_MPEG_AUDIO_L1_BITRATE_64K'', 1), (''V4L2_MPEG_AUDIO_L1_BITRATE_96K'', 2),
       (''V4L2_MPEG_AUDIO_L1_BITRATE_128K'', 3), (''V4L2_MPEG_AUDIO_L1_BITRATE_160K'', 4),
       (''V4L2_MPEG_AUDIO_L1_BITRATE_192K'', 5), (''V4L2_MPEG_AUDIO_L1_BITRATE_224K'', 6),
       (''V4L2_MPEG_AUDIO_L1_BITRATE_256K'', 7), (''V4L2_MPEG_AUDIO_L1_BITRATE_288K'', 8),
       (''V4L2_MPEG_AUDIO_L1_BITRATE_320K'', 9), (''V4L2_MPEG_AUDIO_L1_BITRATE_352K'', 10),
       (''V4L2_MPEG_AUDIO_L1_BITRATE_384K'', 11), (''V4L2_MPEG_AUDIO_L1_BITRATE_416K'', 12),
       (''V4L2_MPEG_AUDIO_L1_BITRATE_448K'', 13)],
     Const ''V4L2_CID_MPEG_AUDIO_L2_BITRATE'' (0x990900 + 103)]"

definition v4l2_controls_2 :: "decl list" where
  "v4l2_controls_2 =
    [Enum ''v4l2_mpeg_audio_l2_bitrate'' [(''V4L2_MPEG_AUDIO_L2_BITRATE_32K'', 0),
       (''V4L2_MPEG_AUDIO_L2_BITRATE_48K'', 1), (''V4L2_MPEG_AUDIO_L2_BITRATE_56K'', 2),
       (''V4L2_MPEG_AUDIO_L2_BITRATE_64K'', 3), (''V4L2_MPEG_AUDIO_L2_BITRATE_80K'', 4),
       (''V4L2_MPEG_AUDIO_L2_BITRATE_96K'', 5), (''V4L2_MPEG_AUDIO_L2_BITRATE_112K'', 6),
       (''V4L2_MPEG_AUDIO_L2_BITRATE_128K'', 7), (''V4L2_MPEG_AUDIO_L2_BITRATE_160K'', 8),
       (''V4L2_MPEG_AUDIO_L2_BITRATE_192K'', 9), (''V4L2_MPEG_AUDIO_L2_BITRATE_224K'', 10),
       (''V4L2_MPEG_AUDIO_L2_BITRATE_256K'', 11), (''V4L2_MPEG_AUDIO_L2_BITRATE_320K'', 12),
       (''V4L2_MPEG_AUDIO_L2_BITRATE_384K'', 13)],
     Const ''V4L2_CID_MPEG_AUDIO_L3_BITRATE'' (0x990900 + 104),
     Enum ''v4l2_mpeg_audio_l3_bitrate'' [(''V4L2_MPEG_AUDIO_L3_BITRATE_32K'', 0),
       (''V4L2_MPEG_AUDIO_L3_BITRATE_40K'', 1), (''V4L2_MPEG_AUDIO_L3_BITRATE_48K'', 2),
       (''V4L2_MPEG_AUDIO_L3_BITRATE_56K'', 3), (''V4L2_MPEG_AUDIO_L3_BITRATE_64K'', 4),
       (''V4L2_MPEG_AUDIO_L3_BITRATE_80K'', 5), (''V4L2_MPEG_AUDIO_L3_BITRATE_96K'', 6),
       (''V4L2_MPEG_AUDIO_L3_BITRATE_112K'', 7), (''V4L2_MPEG_AUDIO_L3_BITRATE_128K'', 8),
       (''V4L2_MPEG_AUDIO_L3_BITRATE_160K'', 9), (''V4L2_MPEG_AUDIO_L3_BITRATE_192K'', 10),
       (''V4L2_MPEG_AUDIO_L3_BITRATE_224K'', 11), (''V4L2_MPEG_AUDIO_L3_BITRATE_256K'', 12),
       (''V4L2_MPEG_AUDIO_L3_BITRATE_320K'', 13)],
     Const ''V4L2_CID_MPEG_AUDIO_MODE'' (0x990900 + 105),
     Enum ''v4l2_mpeg_audio_mode'' [(''V4L2_MPEG_AUDIO_MODE_STEREO'', 0),
       (''V4L2_MPEG_AUDIO_MODE_JOINT_STEREO'', 1), (''V4L2_MPEG_AUDIO_MODE_DUAL'', 2),
       (''V4L2_MPEG_AUDIO_MODE_MONO'', 3)],
     Const ''V4L2_CID_MPEG_AUDIO_MODE_EXTENSION'' (0x990900 + 106),
     Enum ''v4l2_mpeg_audio_mode_extension'' [(''V4L2_MPEG_AUDIO_MODE_EXTENSION_BOUND_4'', 0),
       (''V4L2_MPEG_AUDIO_MODE_EXTENSION_BOUND_8'', 1),
       (''V4L2_MPEG_AUDIO_MODE_EXTENSION_BOUND_12'', 2),
       (''V4L2_MPEG_AUDIO_MODE_EXTENSION_BOUND_16'', 3)],
     Const ''V4L2_CID_MPEG_AUDIO_EMPHASIS'' (0x990900 + 107),
     Enum ''v4l2_mpeg_audio_emphasis'' [(''V4L2_MPEG_AUDIO_EMPHASIS_NONE'', 0),
       (''V4L2_MPEG_AUDIO_EMPHASIS_50_DIV_15_uS'', 1),
       (''V4L2_MPEG_AUDIO_EMPHASIS_CCITT_J17'', 2)],
     Const ''V4L2_CID_MPEG_AUDIO_CRC'' (0x990900 + 108),
     Enum ''v4l2_mpeg_audio_crc'' [(''V4L2_MPEG_AUDIO_CRC_NONE'', 0),
       (''V4L2_MPEG_AUDIO_CRC_CRC16'', 1)],
     Const ''V4L2_CID_MPEG_AUDIO_MUTE'' (0x990900 + 109),
     Const ''V4L2_CID_MPEG_AUDIO_AAC_BITRATE'' (0x990900 + 110),
     Const ''V4L2_CID_MPEG_AUDIO_AC3_BITRATE'' (0x990900 + 111),
     Enum ''v4l2_mpeg_audio_ac3_bitrate'' [(''V4L2_MPEG_AUDIO_AC3_BITRATE_32K'', 0),
       (''V4L2_MPEG_AUDIO_AC3_BITRATE_40K'', 1), (''V4L2_MPEG_AUDIO_AC3_BITRATE_48K'', 2),
       (''V4L2_MPEG_AUDIO_AC3_BITRATE_56K'', 3), (''V4L2_MPEG_AUDIO_AC3_BITRATE_64K'', 4),
       (''V4L2_MPEG_AUDIO_AC3_BITRATE_80K'', 5), (''V4L2_MPEG_AUDIO_AC3_BITRATE_96K'', 6),
       (''V4L2_MPEG_AUDIO_AC3_BITRATE_112K'', 7), (''V4L2_MPEG_AUDIO_AC3_BITRATE_128K'', 8),
       (''V4L2_MPEG_AUDIO_AC3_BITRATE_160K'', 9), (''V4L2_MPEG_AUDIO_AC3_BITRATE_192K'', 10),
       (''V4L2_MPEG_AUDIO_AC3_BITRATE_224K'', 11), (''V4L2_MPEG_AUDIO_AC3_BITRATE_256K'', 12),
       (''V4L2_MPEG_AUDIO_AC3_BITRATE_320K'', 13), (''V4L2_MPEG_AUDIO_AC3_BITRATE_384K'', 14),
       (''V4L2_MPEG_AUDIO_AC3_BITRATE_448K'', 15), (''V4L2_MPEG_AUDIO_AC3_BITRATE_512K'', 16),
       (''V4L2_MPEG_AUDIO_AC3_BITRATE_576K'', 17), (''V4L2_MPEG_AUDIO_AC3_BITRATE_640K'', 18)],
     Const ''V4L2_CID_MPEG_AUDIO_DEC_PLAYBACK'' (0x990900 + 112),
     Enum ''v4l2_mpeg_audio_dec_playback'' [(''V4L2_MPEG_AUDIO_DEC_PLAYBACK_AUTO'', 0),
       (''V4L2_MPEG_AUDIO_DEC_PLAYBACK_STEREO'', 1), (''V4L2_MPEG_AUDIO_DEC_PLAYBACK_LEFT'', 2),
       (''V4L2_MPEG_AUDIO_DEC_PLAYBACK_RIGHT'', 3), (''V4L2_MPEG_AUDIO_DEC_PLAYBACK_MONO'', 4),
       (''V4L2_MPEG_AUDIO_DEC_PLAYBACK_SWAPPED_STEREO'', 5)],
     Const ''V4L2_CID_MPEG_AUDIO_DEC_MULTILINGUAL_PLAYBACK'' (0x990900 + 113),
     Const ''V4L2_CID_MPEG_VIDEO_ENCODING'' (0x990900 + 200),
     Enum ''v4l2_mpeg_video_encoding'' [(''V4L2_MPEG_VIDEO_ENCODING_MPEG_1'', 0),
       (''V4L2_MPEG_VIDEO_ENCODING_MPEG_2'', 1), (''V4L2_MPEG_VIDEO_ENCODING_MPEG_4_AVC'', 2)],
     Const ''V4L2_CID_MPEG_VIDEO_ASPECT'' (0x990900 + 201),
     Enum ''v4l2_mpeg_video_aspect'' [(''V4L2_MPEG_VIDEO_ASPECT_1x1'', 0),
       (''V4L2_MPEG_VIDEO_ASPECT_4x3'', 1), (''V4L2_MPEG_VIDEO_ASPECT_16x9'', 2),
       (''V4L2_MPEG_VIDEO_ASPECT_221x100'', 3)],
     Const ''V4L2_CID_MPEG_VIDEO_B_FRAMES'' (0x990900 + 202),
     Const ''V4L2_CID_MPEG_VIDEO_GOP_SIZE'' (0x990900 + 203),
     Const ''V4L2_CID_MPEG_VIDEO_GOP_CLOSURE'' (0x990900 + 204),
     Const ''V4L2_CID_MPEG_VIDEO_PULLDOWN'' (0x990900 + 205),
     Const ''V4L2_CID_MPEG_VIDEO_BITRATE_MODE'' (0x990900 + 206),
     Enum ''v4l2_mpeg_video_bitrate_mode'' [(''V4L2_MPEG_VIDEO_BITRATE_MODE_VBR'', 0),
       (''V4L2_MPEG_VIDEO_BITRATE_MODE_CBR'', 1)],
     Const ''V4L2_CID_MPEG_VIDEO_BITRATE'' (0x990900 + 207),
     Const ''V4L2_CID_MPEG_VIDEO_BITRATE_PEAK'' (0x990900 + 208),
     Const ''V4L2_CID_MPEG_VIDEO_TEMPORAL_DECIMATION'' (0x990900 + 209),
     Const ''V4L2_CID_MPEG_VIDEO_MUTE'' (0x990900 + 210),
     Const ''V4L2_CID_MPEG_VIDEO_MUTE_YUV'' (0x990900 + 211),
     Const ''V4L2_CID_MPEG_VIDEO_DECODER_SLICE_INTERFACE'' (0x990900 + 212),
     Const ''V4L2_CID_MPEG_VIDEO_DECODER_MPEG4_DEBLOCK_FILTER'' (0x990900 + 213),
     Const ''V4L2_CID_MPEG_VIDEO_CYCLIC_INTRA_REFRESH_MB'' (0x990900 + 214),
     Const ''V4L2_CID_MPEG_VIDEO_FRAME_RC_ENABLE'' (0x990900 + 215),
     Const ''V4L2_CID_MPEG_VIDEO_HEADER_MODE'' (0x990900 + 216),
     Enum ''v4l2_mpeg_video_header_mode'' [(''V4L2_MPEG_VIDEO_HEADER_MODE_SEPARATE'', 0),
       (''V4L2_MPEG_VIDEO_HEADER_MODE_JOINED_WITH_1ST_FRAME'', 1),
       (''V4L2_MPEG_VIDEO_HEADER_MODE_JOINED_WITH_I_FRAME'', 2)],
     Const ''V4L2_CID_MPEG_VIDEO_MAX_REF_PIC'' (0x990900 + 217),
     Const ''V4L2_CID_MPEG_VIDEO_MB_RC_ENABLE'' (0x990900 + 218),
     Const ''V4L2_CID_MPEG_VIDEO_MULTI_SLICE_MAX_BYTES'' (0x990900 + 219),
     Const ''V4L2_CID_MPEG_VIDEO_MULTI_SLICE_MAX_MB'' (0x990900 + 220),
     Const ''V4L2_CID_MPEG_VIDEO_MULTI_SLICE_MODE'' (0x990900 + 221),
     Enum ''v4l2_mpeg_video_multi_slice_mode'' [(''V4L2_MPEG_VIDEO_MULTI_SLICE_MODE_SINGLE'', 0),
       (''V4L2_MPEG_VIDEO_MULTI_SICE_MODE_MAX_MB'', 1),
       (''V4L2_MPEG_VIDEO_MULTI_SICE_MODE_MAX_BYTES'', 2),
       (''V4L2_MPEG_VIDEO_MULTI_SLICE_GOB'', 3)],
     Const ''V4L2_CID_MPEG_VIDEO_VBV_SIZE'' (0x990900 + 222),
     Const ''V4L2_CID_MPEG_VIDEO_DEC_PTS'' (0x990900 + 223),
     Const ''V4L2_CID_MPEG_VIDEO_DEC_FRAME'' (0x990900 + 224),
     Const ''V4L2_CID_MPEG_VIDEO_VBV_DELAY'' (0x990900 + 225),
     Const ''V4L2_CID_MPEG_VIDEO_REPEAT_SEQ_HEADER'' (0x990900 + 226),
     Const ''V4L2_CID_MPEG_VIDEO_MV_H_SEARCH_RANGE'' (0x990900 + 227),
     Const ''V4L2_CID_MPEG_VIDEO_MV_V_SEARCH_RANGE'' (0x990900 + 228),
     Const ''V4L2_CID_MPEG_VIDEO_FORCE_KEY_FRAME'' (0x990900 + 229),
     Const ''V4L2_CID_MPEG_VIDEO_H263_I_FRAME_QP'' (0x990900 + 300),
     Const ''V4L2_CID_MPEG_VIDEO_H263_P_FRAME_QP'' (0x990900 + 301)]"

definition v4l2_controls_3 :: "decl list" where
  "v4l2_controls_3 =
    [Const ''V4L2_CID_MPEG_VIDEO_H263_B_FRAME_QP'' (0x990900 + 302),
     Const ''V4L2_CID_MPEG_VIDEO_H263_MIN_QP'' (0x990900 + 303),
     Const ''V4L2_CID_MPEG_VIDEO_H263_MAX_QP'' (0x990900 + 304),
     Const ''V4L2_CID_MPEG_VIDEO_H264_I_FRAME_QP'' (0x990900 + 350),
     Const ''V4L2_CID_MPEG_VIDEO_H264_P_FRAME_QP'' (0x990900 + 351),
     Const ''V4L2_CID_MPEG_VIDEO_H264_B_FRAME_QP'' (0x990900 + 352),
     Const ''V4L2_CID_MPEG_VIDEO_H264_MIN_QP'' (0x990900 + 353),
     Const ''V4L2_CID_MPEG_VIDEO_H264_MAX_QP'' (0x990900 + 354),
     Const ''V4L2_CID_MPEG_VIDEO_H264_8X8_TRANSFORM'' (0x990900 + 355),
     Const ''V4L2_CID_MPEG_VIDEO_H264_CPB_SIZE'' (0x990900 + 356),
     Const ''V4L2_CID_MPEG_VIDEO_H264_ENTROPY_MODE'' (0x990900 + 357),
     Enum ''v4l2_mpeg_video_h264_entropy_mode'' [(''V4L2_MPEG_VIDEO_H264_ENTROPY_MODE_CAVLC'', 0),
       (''V4L2_MPEG_VIDEO_H264_ENTROPY_MODE_CABAC'', 1)],
     Const ''V4L2_CID_MPEG_VIDEO_H264_I_PERIOD'' (0x990900 + 358),
     Const ''V4L2_CID_MPEG_VIDEO_H264_LEVEL'' (0x990900 + 359),
     Enum ''v4l2_mpeg_video_h264_level'' [(''V4L2_MPEG_VIDEO_H264_LEVEL_1_0'', 0),
       (''V4L2_MPEG_VIDEO_H264_LEVEL_1B'', 1), (''V4L2_MPEG_VIDEO_H264_LEVEL_1_1'', 2),
       (''V4L2_MPEG_VIDEO_H264_LEVEL_1_2'', 3), (''V4L2_MPEG_VIDEO_H264_LEVEL_1_3'', 4),
       (''V4L2_MPEG_VIDEO_H264_LEVEL_2_0'', 5), (''V4L2_MPEG_VIDEO_H264_LEVEL_2_1'', 6),
       (''V4L2_MPEG_VIDEO_H264_LEVEL_2_2'', 7), (''V4L2_MPEG_VIDEO_H264_LEVEL_3_0'', 8),
       (''V4L2_MPEG_VIDEO_H264_LEVEL_3_1'', 9), (''V4L2_MPEG_VIDEO_H264_LEVEL_3_2'', 10),
       (''V4L2_MPEG_VIDEO_H264_LEVEL_4_0'', 11), (''V4L2_MPEG_VIDEO_H264_LEVEL_4_1'', 12),
       (''V4L2_MPEG_VIDEO_H264_LEVEL_4_2'', 13), (''V4L2_MPEG_VIDEO_H264_LEVEL_5_0'', 14),
       (''V4L2_MPEG_VIDEO_H264_LEVEL_5_1'', 15), (''V4L2_MPEG_VIDEO_H264_LEVEL_5_2'', 16),
       (''V4L2_MPEG_VIDEO_H264_LEVEL_UNKNOWN'', 17)],
     Const ''V4L2_MPEG_VIDEO_H264_LEVEL_UNKNOWN'' 17,
     Const ''V4L2_CID_MPEG_VIDEO_H264_LOOP_FILTER_ALPHA'' (0x990900 + 360),
     Const ''V4L2_CID_MPEG_VIDEO_H264_LOOP_FILTER_BETA'' (0x990900 + 361),
     Const ''V4L2_CID_MPEG_VIDEO_H264_LOOP_FILTER_MODE'' (0x990900 + 362),
     Enum ''v4l2_mpeg_video_h264_loop_filter_mode'' [(''V4L2_MPEG_VIDEO_H264_LOOP_FILTER_MODE_ENABLED'', 0),
       (''V4L2_MPEG_VIDEO_H264_LOOP_FILTER_MODE_DISABLED'', 1),
       (''V4L2_MPEG_VIDEO_H264_LOOP_FILTER_MODE_DISABLED_AT_SLICE_BOUNDARY'', 2)],
     Const ''V4L2_CID_MPEG_VIDEO_H264_PROFILE'' (0x990900 + 363),
     Enum ''v4l2_mpeg_video_h264_profile'' [(''V4L2_MPEG_VIDEO_H264_PROFILE_BASELINE'', 0),
       (''V4L2_MPEG_VIDEO_H264_PROFILE_CONSTRAINED_BASELINE'', 1),
       (''V4L2_MPEG_VIDEO_H264_PROFILE_MAIN'', 2),
       (''V4L2_MPEG_VIDEO_H264_PROFILE_EXTENDED'', 3),
       (''V4L2_MPEG_VIDEO_H264_PROFILE_HIGH'', 4), (''V4L2_MPEG_VIDEO_H264_PROFILE_HIGH_10'', 5),
       (''V4L2_MPEG_VIDEO_H264_PROFILE_HIGH_422'', 6),
       (''V4L2_MPEG_VIDEO_H264_PROFILE_HIGH_444_PREDICTIVE'', 7),
       (''V4L2_MPEG_VIDEO_H264_PROFILE_HIGH_10_INTRA'', 8),
       (''V4L2_MPEG_VIDEO_H264_PROFILE_HIGH_422_INTRA'', 9),
       (''V4L2_MPEG_VIDEO_H264_PROFILE_HIGH_444_INTRA'', 10),
       (''V4L2_MPEG_VIDEO_H264_PROFILE_CAVLC_444_INTRA'', 11),
       (''V4L2_MPEG_VIDEO_H264_PROFILE_SCALABLE_BASELINE'', 12),
       (''V4L2_MPEG_VIDEO_H264_PROFILE_SCALABLE_HIGH'', 13),
       (''V4L2_MPEG_VIDEO_H264_PROFILE_SCALABLE_HIGH_INTRA'', 14),
       (''V4L2_MPEG_VIDEO_H264_PROFILE_STEREO_HIGH'', 15),
       (''V4L2_MPEG_VIDEO_H264_PROFILE_MULTIVIEW_HIGH'', 16),
       (''V4L2_MPEG_VIDEO_H264_PROFILE_CONSTRAINED_HIGH'', 17)],
     Const ''V4L2_CID_MPEG_VIDEO_H264_VUI_EXT_SAR_HEIGHT'' (0x990900 + 364),
     Const ''V4L2_CID_MPEG_VIDEO_H264_VUI_EXT_SAR_WIDTH'' (0x990900 + 365),
     Const ''V4L2_CID_MPEG_VIDEO_H264_VUI_SAR_ENABLE'' (0x990900 + 366),
     Const ''V4L2_CID_MPEG_VIDEO_H264_VUI_SAR_IDC'' (0x990900 + 367),
     Enum ''v4l2_mpeg_video_h264_vui_sar_idc'' [(''V4L2_MPEG_VIDEO_H264_VUI_SAR_IDC_UNSPECIFIED'', 0),
       (''V4L2_MPEG_VIDEO_H264_VUI_SAR_IDC_1x1'', 1),
       (''V4L2_MPEG_VIDEO_H264_VUI_SAR_IDC_12x11'', 2),
       (''V4L2_MPEG_VIDEO_H264_VUI_SAR_IDC_10x11'', 3),
       (''V4L2_MPEG_VIDEO_H264_VUI_SAR_IDC_16x11'', 4),
       (''V4L2_MPEG_VIDEO_H264_VUI_SAR_IDC_40x33'', 5),
       (''V4L2_MPEG_VIDEO_H264_VUI_SAR_IDC_24x11'', 6),
       (''V4L2_MPEG_VIDEO_H264_VUI_SAR_IDC_20x11'', 7),
       (''V4L2_MPEG_VIDEO_H264_VUI_SAR_IDC_32x11'', 8),
       (''V4L2_MPEG_VIDEO_H264_VUI_SAR_IDC_80x33'', 9),
       (''V4L2_MPEG_VIDEO_H264_VUI_SAR_IDC_18x11'', 10),
       (''V4L2_MPEG_VIDEO_H264_VUI_SAR_IDC_15x11'', 11),
       (''V4L2_MPEG_VIDEO_H264_VUI_SAR_IDC_64x33'', 12),
       (''V4L2_MPEG_VIDEO_H264_VUI_SAR_IDC_160x99'', 13),
       (''V4L2_MPEG_VIDEO_H264_VUI_SAR_IDC_4x3'', 14),
       (''V4L2_MPEG_VIDEO_H264_VUI_SAR_IDC_3x2'', 15),
       (''V4L2_MPEG_VIDEO_H264_VUI_SAR_IDC_2x1'', 16),
       (''V4L2_MPEG_VIDEO_H264_VUI_SAR_IDC_EXTENDED'', 17)],
     Const ''V4L2_CID_MPEG_VIDEO_H264_SEI_FRAME_PACKING'' (0x990900 + 368),
     Const ''V4L2_CID_MPEG_VIDEO_H264_SEI_FP_CURRENT_FRAME_0'' (0x990900 + 369),
     Const ''V4L2_CID_MPEG_VIDEO_H264_SEI_FP_ARRANGEMENT_TYPE'' (0x990900 + 370),
     Enum ''v4l2_mpeg_video_h264_sei_fp_arrangement_type'' [(''V4L2_MPEG_VIDEO_H264_SEI_FP_ARRANGEMENT_TYPE_CHECKERBOARD'', 0),
       (''V4L2_MPEG_VIDEO_H264_SEI_FP_ARRANGEMENT_TYPE_COLUMN'', 1),
       (''V4L2_MPEG_VIDEO_H264_SEI_FP_ARRANGEMENT_TYPE_ROW'', 2),
       (''V4L2_MPEG_VIDEO_H264_SEI_FP_ARRANGEMENT_TYPE_SIDE_BY_SIDE'', 3),
       (''V4L2_MPEG_VIDEO_H264_SEI_FP_ARRANGEMENT_TYPE_TOP_BOTTOM'', 4),
       (''V4L2_MPEG_VIDEO_H264_SEI_FP_ARRANGEMENT_TYPE_TEMPORAL'', 5)],
     Const ''V4L2_CID_MPEG_VIDEO_H264_FMO'' (0x990900 + 371),
     Const ''V4L2_CID_MPEG_VIDEO_H264_FMO_MAP_TYPE'' (0x990900 + 372),
     Enum ''v4l2_mpeg_video_h264_fmo_map_type'' [(''V4L2_MPEG_VIDEO_H264_FMO_MAP_TYPE_INTERLEAVED_SLICES'', 0),
       (''V4L2_MPEG_VIDEO_H264_FMO_MAP_TYPE_SCATTERED_SLICES'', 1),
       (''V4L2_MPEG_VIDEO_H264_FMO_MAP_TYPE_FOREGROUND_WITH_LEFT_OVER'', 2),
       (''V4L2_MPEG_VIDEO_H264_FMO_MAP_TYPE_BOX_OUT'', 3),
       (''V4L2_MPEG_VIDEO_H264_FMO_MAP_TYPE_RASTER_SCAN'', 4),
       (''V4L2_MPEG_VIDEO_H264_FMO_MAP_TYPE_WIPE_SCAN'', 5),
       (''V4L2_MPEG_VIDEO_H264_FMO_MAP_TYPE_EXPLICIT'', 6)],
     Const ''V4L2_CID_MPEG_VIDEO_H264_FMO_SLICE_GROUP'' (0x990900 + 373),
     Const ''V4L2_CID_MPEG_VIDEO_H264_FMO_CHANGE_DIRECTION'' (0x990900 + 374),
     Enum ''v4l2_mpeg_video_h264_fmo_change_dir'' [(''V4L2_MPEG_VIDEO_H264_FMO_CHANGE_DIR_RIGHT'', 0),
       (''V4L2_MPEG_VIDEO_H264_FMO_CHANGE_DIR_LEFT'', 1)],
     Const ''V4L2_CID_MPEG_VIDEO_H264_FMO_CHANGE_RATE'' (0x990900 + 375),
     Const ''V4L2_CID_MPEG_VIDEO_H264_FMO_RUN_LENGTH'' (0x990900 + 376),
     Const ''V4L2_CID_MPEG_VIDEO_H264_ASO'' (0x990900 + 377),
     Const ''V4L2_CID_MPEG_VIDEO_H264_ASO_SLICE_ORDER'' (0x990900 + 378),
     Const ''V4L2_CID_MPEG_VIDEO_H264_HIERARCHICAL_CODING'' (0x990900 + 379),
     Const ''V4L2_CID_MPEG_VIDEO_H264_HIERARCHICAL_CODING_TYPE'' (0x990900 + 380),
     Enum ''v4l2_mpeg_video_h264_hierarchical_coding_type'' [(''V4L2_MPEG_VIDEO_H264_HIERARCHICAL_CODING_B'', 0),
       (''V4L2_MPEG_VIDEO_H264_HIERARCHICAL_CODING_P'', 1)],
     Const ''V4L2_CID_MPEG_VIDEO_H264_HIERARCHICAL_CODING_LAYER'' (0x990900 + 381),
     Const ''V4L2_CID_MPEG_VIDEO_H264_HIERARCHICAL_CODING_LAYER_QP'' (0x990900 + 382),
     Const ''V4L2_CID_MPEG_VIDEO_MPEG4_I_FRAME_QP'' (0x990900 + 400),
     Const ''V4L2_CID_MPEG_VIDEO_MPEG4_P_FRAME_QP'' (0x990900 + 401),
     Const ''V4L2_CID_MPEG_VIDEO_MPEG4_B_FRAME_QP'' (0x990900 + 402),
     Const ''V4L2_CID_MPEG_VIDEO_MPEG4_MIN_QP'' (0x990900 + 403),
     Const ''V4L2_CID_MPEG_VIDEO_MPEG4_MAX_QP'' (0x990900 + 404),
     Const ''V4L2_CID_MPEG_VIDEO_MPEG4_LEVEL'' (0x990900 + 405),
     Enum ''v4l2_mpeg_video_mpeg4_level'' [(''V4L2_MPEG_VIDEO_MPEG4_LEVEL_0'', 0),
       (''V4L2_MPEG_VIDEO_MPEG4_LEVEL_0B'', 1), (''V4L2_MPEG_VIDEO_MPEG4_LEVEL_1'', 2),
       (''V4L2_MPEG_VIDEO_MPEG4_LEVEL_2'', 3), (''V4L2_MPEG_VIDEO_MPEG4_LEVEL_3'', 4),
       (''V4L2_MPEG_VIDEO_MPEG4_LEVEL_3B'', 5), (''V4L2_MPEG_VIDEO_MPEG4_LEVEL_4'', 6),
       (''V4L2_MPEG_VIDEO_MPEG4_LEVEL_5'', 7)],
     Const ''V4L2_CID_MPEG_VIDEO_MPEG4_PROFILE'' (0x990900 + 406)]"

definition v4l2_controls_4 :: "decl list" where
  "v4l2_controls_4 =
    [Enum ''v4l2_mpeg_video_mpeg4_profile'' [(''V4L2_MPEG_VIDEO_MPEG4_PROFILE_SIMPLE'', 0),
       (''V4L2_MPEG_VIDEO_MPEG4_PROFILE_ADVANCED_SIMPLE'', 1),
       (''V4L2_MPEG_VIDEO_MPEG4_PROFILE_CORE'', 2),
       (''V4L2_MPEG_VIDEO_MPEG4_PROFILE_SIMPLE_SCALABLE'', 3),
       (''V4L2_MPEG_VIDEO_MPEG4_PROFILE_ADVANCED_CODING_EFFICIENCY'', 4)],
     Const ''V4L2_CID_MPEG_VIDEO_MPEG4_QPEL'' (0x990900 + 407),
     Const ''V4L2_CID_MPEG_VIDEO_VPX_NUM_PARTITIONS'' (0x990900 + 500),
     Enum ''v4l2_vp8_num_partitions'' [(''V4L2_CID_MPEG_VIDEO_VPX_1_PARTITION'', 0),
       (''V4L2_CID_MPEG_VIDEO_VPX_2_PARTITIONS'', 1),
       (''V4L2_CID_MPEG_VIDEO_VPX_4_PARTITIONS'', 2),
       (''V4L2_CID_MPEG_VIDEO_VPX_8_PARTITIONS'', 3)],
     Const ''V4L2_CID_MPEG_VIDEO_VPX_IMD_DISABLE_4X4'' (0x990900 + 501),
     Const ''V4L2_CID_MPEG_VIDEO_VPX_NUM_REF_FRAMES'' (0x990900 + 502),
     Enum ''v4l2_vp8_num_ref_frames'' [(''V4L2_CID_MPEG_VIDEO_VPX_1_REF_FRAME'', 0),
       (''V4L2_CID_MPEG_VIDEO_VPX_2_REF_FRAME'', 1),
      (''V4L2_CID_MPEG_VIDEO_VPX_3_REF_FRAME'', 2)],
     Const ''V4L2_CID_MPEG_VIDEO_VPX_FILTER_LEVEL'' (0x990900 + 503),
     Const ''V4L2_CID_MPEG_VIDEO_VPX_FILTER_SHARPNESS'' (0x990900 + 504),
     Const ''V4L2_CID_MPEG_VIDEO_VPX_GOLDEN_FRAME_REF_PERIOD'' (0x990900 + 505),
     Const ''V4L2_CID_MPEG_VIDEO_VPX_GOLDEN_FRAME_SEL'' (0x990900 + 506),
     Enum ''v4l2_vp8_golden_frame_sel'' [(''V4L2_CID_MPEG_VIDEO_VPX_GOLDEN_FRAME_USE_PREV'', 0),
       (''V4L2_CID_MPEG_VIDEO_VPX_GOLDEN_FRAME_USE_REF_PERIOD'', 1)],
     Const ''V4L2_CID_MPEG_VIDEO_VPX_MIN_QP'' (0x990900 + 507),
     Const ''V4L2_CID_MPEG_VIDEO_VPX_MAX_QP'' (0x990900 + 508),
     Const ''V4L2_CID_MPEG_VIDEO_VPX_I_FRAME_QP'' (0x990900 + 509),
     Const ''V4L2_CID_MPEG_VIDEO_VPX_P_FRAME_QP'' (0x990900 + 510),
     Const ''V4L2_CID_MPEG_VIDEO_VPX_PROFILE'' (0x990900 + 511),
     Const ''V4L2_CID_MPEG_CX2341X_BASE'' 10031104,
     Const ''V4L2_CID_MPEG_CX2341X_VIDEO_SPATIAL_FILTER_MODE'' (0x991000 + 0),
     Enum ''v4l2_mpeg_cx2341x_video_spatial_filter_mode'' [(''V4L2_MPEG_CX2341X_VIDEO_SPATIAL_FILTER_MODE_MANUAL'', 0),
       (''V4L2_MPEG_CX2341X_VIDEO_SPATIAL_FILTER_MODE_AUTO'', 1)],
     Const ''V4L2_CID_MPEG_CX2341X_VIDEO_SPATIAL_FILTER'' (0x991000 + 1),
     Const ''V4L2_CID_MPEG_CX2341X_VIDEO_LUMA_SPATIAL_FILTER_TYPE'' (0x991000 + 2),
     Enum ''v4l2_mpeg_cx2341x_video_luma_spatial_filter_type'' [(''V4L2_MPEG_CX2341X_VIDEO_LUMA_SPATIAL_FILTER_TYPE_OFF'', 0),
       (''V4L2_MPEG_CX2341X_VIDEO_LUMA_SPATIAL_FILTER_TYPE_1D_HOR'', 1),
       (''V4L2_MPEG_CX2341X_VIDEO_LUMA_SPATIAL_FILTER_TYPE_1D_VERT'', 2),
       (''V4L2_MPEG_CX2341X_VIDEO_LUMA_SPATIAL_FILTER_TYPE_2D_HV_SEPARABLE'', 3),
       (''V4L2_MPEG_CX2341X_VIDEO_LUMA_SPATIAL_FILTER_TYPE_2D_SYM_NON_SEPARABLE'', 4)],
     Const ''V4L2_CID_MPEG_CX2341X_VIDEO_CHROMA_SPATIAL_FILTER_TYPE'' (0x991000 + 3),
     Enum ''v4l2_mpeg_cx2341x_video_chroma_spatial_filter_type'' [(''V4L2_MPEG_CX2341X_VIDEO_CHROMA_SPATIAL_FILTER_TYPE_OFF'', 0),
       (''V4L2_MPEG_CX2341X_VIDEO_CHROMA_SPATIAL_FILTER_TYPE_1D_HOR'', 1)],
     Const ''V4L2_CID_MPEG_CX2341X_VIDEO_TEMPORAL_FILTER_MODE'' (0x991000 + 4),
     Enum ''v4l2_mpeg_cx2341x_video_temporal_filter_mode'' [(''V4L2_MPEG_CX2341X_VIDEO_TEMPORAL_FILTER_MODE_MANUAL'', 0),
       (''V4L2_MPEG_CX2341X_VIDEO_TEMPORAL_FILTER_MODE_AUTO'', 1)],
     Const ''V4L2_CID_MPEG_CX2341X_VIDEO_TEMPORAL_FILTER'' (0x991000 + 5),
     Const ''V4L2_CID_MPEG_CX2341X_VIDEO_MEDIAN_FILTER_TYPE'' (0x991000 + 6),
     Enum ''v4l2_mpeg_cx2341x_video_median_filter_type'' [(''V4L2_MPEG_CX2341X_VIDEO_MEDIAN_FILTER_TYPE_OFF'', 0),
       (''V4L2_MPEG_CX2341X_VIDEO_MEDIAN_FILTER_TYPE_HOR'', 1),
       (''V4L2_MPEG_CX2341X_VIDEO_MEDIAN_FILTER_TYPE_VERT'', 2),
       (''V4L2_MPEG_CX2341X_VIDEO_MEDIAN_FILTER_TYPE_HOR_VERT'', 3),
       (''V4L2_MPEG_CX2341X_VIDEO_MEDIAN_FILTER_TYPE_DIAG'', 4)],
     Const ''V4L2_CID_MPEG_CX2341X_VIDEO_LUMA_MEDIAN_FILTER_BOTTOM'' (0x991000 + 7),
     Const ''V4L2_CID_MPEG_CX2341X_VIDEO_LUMA_MEDIAN_FILTER_TOP'' (0x991000 + 8),
     Const ''V4L2_CID_MPEG_CX2341X_VIDEO_CHROMA_MEDIAN_FILTER_BOTTOM'' (0x991000 + 9),
     Const ''V4L2_CID_MPEG_CX2341X_VIDEO_CHROMA_MEDIAN_FILTER_TOP'' (0x991000 + 10),
     Const ''V4L2_CID_MPEG_CX2341X_STREAM_INSERT_NAV_PACKETS'' (0x991000 + 11),
     Const ''V4L2_CID_MPEG_MFC51_BASE'' 10031360,
     Const ''V4L2_CID_MPEG_MFC51_VIDEO_DECODER_H264_DISPLAY_DELAY'' (0x991100 + 0),
     Const ''V4L2_CID_MPEG_MFC51_VIDEO_DECODER_H264_DISPLAY_DELAY_ENABLE'' (0x991100 + 1),
     Const ''V4L2_CID_MPEG_MFC51_VIDEO_FRAME_SKIP_MODE'' (0x991100 + 2),
     Enum ''v4l2_mpeg_mfc51_video_frame_skip_mode'' [(''V4L2_MPEG_MFC51_VIDEO_FRAME_SKIP_MODE_DISABLED'', 0),
       (''V4L2_MPEG_MFC51_VIDEO_FRAME_SKIP_MODE_LEVEL_LIMIT'', 1),
       (''V4L2_MPEG_MFC51_VIDEO_FRAME_SKIP_MODE_BUF_LIMIT'', 2)],
     Const ''V4L2_CID_MPEG_MFC51_VIDEO_FORCE_FRAME_TYPE'' (0x991100 + 3),
     Enum ''v4l2_mpeg_mfc51_video_force_frame_type'' [(''V4L2_MPEG_MFC51_VIDEO_FORCE_FRAME_TYPE_DISABLED'', 0),
       (''V4L2_MPEG_MFC51_VIDEO_FORCE_FRAME_TYPE_I_FRAME'', 1),
       (''V4L2_MPEG_MFC51_VIDEO_FORCE_FRAME_TYPE_NOT_CODED'', 2)],
     Const ''V4L2_CID_MPEG_MFC51_VIDEO_PADDING'' (0x991100 + 4),
     Const ''V4L2_CID_MPEG_MFC51_VIDEO_PADDING_YUV'' (0x991100 + 5),
     Const ''V4L2_CID_MPEG_MFC51_VIDEO_RC_FIXED_TARGET_BIT'' (0x991100 + 6),
     Const ''V4L2_CID_MPEG_MFC51_VIDEO_RC_REACTION_COEFF'' (0x991100 + 7),
     Const ''V4L2_CID_MPEG_MFC51_VIDEO_H264_ADAPTIVE_RC_ACTIVITY'' (0x991100 + 50),
     Const ''V4L2_CID_MPEG_MFC51_VIDEO_H264_ADAPTIVE_RC_DARK'' (0x991100 + 51),
     Const ''V4L2_CID_MPEG_MFC51_VIDEO_H264_ADAPTIVE_RC_SMOOTH'' (0x991100 + 52),
     Const ''V4L2_CID_MPEG_MFC51_VIDEO_H264_ADAPTIVE_RC_STATIC'' (0x991100 + 53),
     Const ''V4L2_CID_MPEG_MFC51_VIDEO_H264_NUM_REF_PIC_FOR_P'' (0x991100 + 54),
     Const ''V4L2_CID_MPEG_MSM_VIDC_BASE'' 10035200,
     Const ''V4L2_CID_MPEG_VIDC_VIDEO_PICTYPE_DEC_MODE'' (0x992000 + 0),
     Enum ''v4l2_mpeg_vidc_video_pictype_dec_mode'' [(''V4L2_MPEG_VIDC_VIDEO_PICTYPE_DECODE_OFF'', 0),
       (''V4L2_MPEG_VIDC_VIDEO_PICTYPE_DECODE_ON'', 1)],
     Const ''V4L2_CID_MPEG_VIDC_VIDEO_KEEP_ASPECT_RATIO'' (0x992000 + 1),
     Const ''V4L2_CID_MPEG_VIDC_VIDEO_STREAM_FORMAT'' (0x992000 + 2),
     Enum ''v4l2_mpeg_vidc_video_stream_format'' [(''V4L2_MPEG_VIDC_VIDEO_NAL_FORMAT_STARTCODES'', 0),
       (''V4L2_MPEG_VIDC_VIDEO_NAL_FORMAT_ONE_NAL_PER_BUFFER'', 1),
       (''V4L2_MPEG_VIDC_VIDEO_NAL_FORMAT_ONE_BYTE_LENGTH'', 2),
       (''V4L2_MPEG_VIDC_VIDEO_NAL_FORMAT_TWO_BYTE_LENGTH'', 3),
       (''V4L2_MPEG_VIDC_VIDEO_NAL_FORMAT_FOUR_BYTE_LENGTH'', 4)],
     Const ''V4L2_CID_MPEG_VIDC_VIDEO_OUTPUT_ORDER'' (0x992000 + 3),
     Enum ''v4l2_mpeg_vidc_video_output_order'' [(''V4L2_MPEG_VIDC_VIDEO_OUTPUT_ORDER_DISPLAY'', 0),
       (''V4L2_MPEG_VIDC_VIDEO_OUTPUT_ORDER_DECODE'', 1)],
     Const ''V4L2_CID_MPEG_VIDC_VIDEO_FRAME_RATE'' (0x992000 + 4),
     Const ''V4L2_CID_MPEG_VIDC_VIDEO_IDR_PERIOD'' (0x992000 + 5),
     Const ''V4L2_CID_MPEG_VIDC_VIDEO_NUM_P_FRAMES'' (0x992000 + 6),
     Const ''V4L2_CID_MPEG_VIDC_VIDEO_NUM_B_FRAMES'' (0x992000 + 7),
     Const ''V4L2_CID_MPEG_VIDC_VIDEO_REQUEST_IFRAME'' (0x992000 + 8),
     Const ''V4L2_CID_MPEG_VIDC_VIDEO_RATE_CONTROL'' (0x992000 + 9),
     Enum ''v4l2_mpeg_vidc_video_rate_control'' [(''V4L2_CID_MPEG_VIDC_VIDEO_RATE_CONTROL_OFF'', 0),
       (''V4L2_CID_MPEG_VIDC_VIDEO_RATE_CONTROL_VBR_VFR'', 1),
       (''V4L2_CID_MPEG_VIDC_VIDEO_RATE_CONTROL_VBR_CFR'', 2),
       (''V4L2_CID_MPEG_VIDC_VIDEO_RATE_CONTROL_CBR_VFR'', 3),
       (''V4L2_CID_MPEG_VIDC_VIDEO_RATE_CONTROL_CBR_CFR'', 4),
       (''V4L2_CID_MPEG_VIDC_VIDEO_RATE_CONTROL_MBR_CFR'', 5),
       (''V4L2_CID_MPEG_VIDC_VIDEO_RATE_CONTROL_MBR_VFR'', 6),
       (''V4L2_CID_MPEG_VIDC_VIDEO_RATE_CONTROL_CQ'', 7)],
     Const ''V4L2_CID_MPEG_VIDC_VIDEO_RATE_CONTROL_MBR_CFR'' 5,
     Const ''V4L2_CID_MPEG_VIDC_VIDEO_RATE_CONTROL_MBR_VFR'' 6,
     Const ''V4L2_CID_MPEG_VIDC_VIDEO_ROTATION'' (0x992000 + 10),
     Enum ''v4l2_mpeg_vidc_video_rotation'' [(''V4L2_CID_MPEG_VIDC_VIDEO_ROTATION_NONE'', 0),
       (''V4L2_CID_MPEG_VIDC_VIDEO_ROTATION_90'', 1),
       (''V4L2_CID_MPEG_VIDC_VIDEO_ROTATION_180'', 2),
       (''V4L2_CID_MPEG_VIDC_VIDEO_ROTATION_270'', 3)],
     Const ''V4L2_CID_MPEG_VIDC_VIDEO_H264_CABAC_MODEL'' (0x992000 + 11),
     Enum ''v4l2_mpeg_vidc_h264_cabac_model'' [(''V4L2_CID_MPEG_VIDC_VIDEO_H264_CABAC_MODEL_0'', 0),
       (''V4L2_CID_MPEG_VIDC_VIDEO_H264_CABAC_MODEL_1'', 1),
       (''V4L2_CID_MPEG_VIDC_VIDEO_H264_CABAC_MODEL_2'', 2)],
     Const ''V4L2_CID_MPEG_VIDC_VIDEO_INTRA_REFRESH_MODE'' (0x992000 + 12)]"

definition v4l2_controls_5 :: "decl list" where
  "v4l2_controls_5 =
    [Enum ''v4l2_mpeg_vidc_video_intra_refresh_mode'' [(''V4L2_CID_MPEG_VIDC_VIDEO_INTRA_REFRESH_NONE'', 0),
       (''V4L2_CID_MPEG_VIDC_VIDEO_INTRA_REFRESH_CYCLIC'', 1),
       (''V4L2_CID_MPEG_VIDC_VIDEO_INTRA_REFRESH_RANDOM'', 2),
       (''V4L2_CID_MPEG_VIDC_VIDEO_INTRA_REFRESH_ADAPTIVE'', 3),
       (''V4L2_CID_MPEG_VIDC_VIDEO_INTRA_REFRESH_CYCLIC_ADAPTIVE'', 4)],
     Const ''V4L2_CID_MPEG_VIDC_VIDEO_IR_MBS'' (0x992000 + 13),
     Const ''V4L2_CID_MPEG_VIDC_VIDEO_AU_DELIMITER'' (0x992000 + 14),
     Enum ''v4l2_mpeg_vidc_video_au_delimiter'' [(''V4L2_MPEG_VIDC_VIDEO_AU_DELIMITER_DISABLED'', 0),
       (''V4L2_MPEG_VIDC_VIDEO_AU_DELIMITER_ENABLED'', 1)],
     Const ''V4L2_CID_MPEG_VIDC_VIDEO_SYNC_FRAME_DECODE'' (0x992000 + 15),
     Enum ''v4l2_mpeg_vidc_video_sync_frame_decode'' [(''V4L2_MPEG_VIDC_VIDEO_SYNC_FRAME_DECODE_DISABLE'', 0),
       (''V4L2_MPEG_VIDC_VIDEO_SYNC_FRAME_DECODE_ENABLE'', 1)],
     Const ''V4L2_CID_MPEG_VIDC_VIDEO_SECURE'' (0x992000 + 16),
     Const ''V4L2_CID_MPEG_VIDC_VIDEO_EXTRADATA'' (0x992000 + 17),
     Enum ''v4l2_mpeg_vidc_extradata'' [(''V4L2_MPEG_VIDC_EXTRADATA_NONE'', 0),
       (''V4L2_MPEG_VIDC_EXTRADATA_MB_QUANTIZATION'', 1),
       (''V4L2_MPEG_VIDC_EXTRADATA_INTERLACE_VIDEO'', 2),
       (''V4L2_MPEG_VIDC_EXTRADATA_VC1_FRAMEDISP'', 3),
       (''V4L2_MPEG_VIDC_EXTRADATA_VC1_SEQDISP'', 4),
       (''V4L2_MPEG_VIDC_EXTRADATA_TIMESTAMP'', 5),
       (''V4L2_MPEG_VIDC_EXTRADATA_S3D_FRAME_PACKING'', 6),
       (''V4L2_MPEG_VIDC_EXTRADATA_FRAME_RATE'', 7),
       (''V4L2_MPEG_VIDC_EXTRADATA_PANSCAN_WINDOW'', 8),
       (''V4L2_MPEG_VIDC_EXTRADATA_RECOVERY_POINT_SEI'', 9),
       (''V4L2_MPEG_VIDC_EXTRADATA_MULTISLICE_INFO'', 10),
       (''V4L2_MPEG_VIDC_EXTRADATA_NUM_CONCEALED_MB'', 11),
       (''V4L2_MPEG_VIDC_EXTRADATA_METADATA_FILLER'', 12),
       (''V4L2_MPEG_VIDC_EXTRADATA_INPUT_CROP'', 13),
       (''V4L2_MPEG_VIDC_EXTRADATA_DIGITAL_ZOOM'', 14),
       (''V4L2_MPEG_VIDC_EXTRADATA_ASPECT_RATIO'', 15),
       (''V4L2_MPEG_VIDC_EXTRADATA_MPEG2_SEQDISP'', 16),
       (''V4L2_MPEG_VIDC_EXTRADATA_STREAM_USERDATA'', 17),
       (''V4L2_MPEG_VIDC_EXTRADATA_FRAME_QP'', 18),
       (''V4L2_MPEG_VIDC_EXTRADATA_FRAME_BITS_INFO'', 19),
       (''V4L2_MPEG_VIDC_EXTRADATA_LTR'', 20), (''V4L2_MPEG_VIDC_EXTRADATA_METADATA_MBI'', 21),
       (''V4L2_MPEG_VIDC_EXTRADATA_VQZIP_SEI'', 22),
       (''V4L2_MPEG_VIDC_EXTRADATA_YUV_STATS'', 23), (''V4L2_MPEG_VIDC_EXTRADATA_ROI_QP'', 24),
       (''V4L2_MPEG_VIDC_EXTRADATA_OUTPUT_CROP'', 25),
       (''V4L2_MPEG_VIDC_EXTRADATA_DISPLAY_COLOUR_SEI'', 26),
       (''V4L2_MPEG_VIDC_EXTRADATA_CONTENT_LIGHT_LEVEL_SEI'', 27),
       (''V4L2_MPEG_VIDC_EXTRADATA_PQ_INFO'', 28),
       (''V4L2_MPEG_VIDC_EXTRADATA_VUI_DISPLAY'', 29),
       (''V4L2_MPEG_VIDC_EXTRADATA_VPX_COLORSPACE'', 30),
       (''V4L2_MPEG_VIDC_EXTRADATA_UBWC_CR_STATS_INFO'', 31),
       (''V4L2_MPEG_VIDC_EXTRADATA_ENC_FRAME_QP'', 32)],
     Const ''V4L2_MPEG_VIDC_EXTRADATA_OUTPUT_CROP'' 25,
     Const ''V4L2_MPEG_VIDC_EXTRADATA_DISPLAY_COLOUR_SEI'' 26,
     Const ''V4L2_MPEG_VIDC_EXTRADATA_CONTENT_LIGHT_LEVEL_SEI'' 27,
     Const ''V4L2_MPEG_VIDC_EXTRADATA_PQ_INFO'' 28,
     Const ''V4L2_MPEG_VIDC_EXTRADATA_VUI_DISPLAY'' 29,
     Const ''V4L2_MPEG_VIDC_EXTRADATA_VPX_COLORSPACE'' 30,
     Const ''V4L2_MPEG_VIDC_EXTRADATA_UBWC_CR_STATS_INFO'' 31,
     Const ''V4L2_MPEG_VIDC_EXTRADATA_ENC_FRAME_QP'' 32,
     Const ''V4L2_CID_MPEG_VIDEO_MULTI_SLICE_DELIVERY_MODE'' (0x992000 + 18),
     Const ''V4L2_CID_MPEG_VIDC_VIDEO_VUI_TIMING_INFO'' (0x992000 + 19),
     Enum ''v4l2_mpeg_vidc_video_vui_timing_info'' [(''V4L2_MPEG_VIDC_VIDEO_VUI_TIMING_INFO_DISABLED'', 0),
       (''V4L2_MPEG_VIDC_VIDEO_VUI_TIMING_INFO_ENABLED'', 1)],
     Const ''V4L2_CID_MPEG_VIDC_VIDEO_VP8_PROFILE_LEVEL'' (0x992000 + 20),
     Enum ''v4l2_mpeg_vidc_video_vp8_profile_level'' [(''V4L2_MPEG_VIDC_VIDEO_VP8_UNUSED'', 0),
       (''V4L2_MPEG_VIDC_VIDEO_VP8_VERSION_0'', 1), (''V4L2_MPEG_VIDC_VIDEO_VP8_VERSION_1'', 2),
       (''V4L2_MPEG_VIDC_VIDEO_VP8_VERSION_2'', 3), (''V4L2_MPEG_VIDC_VIDEO_VP8_VERSION_3'', 4)],
     Const ''V4L2_CID_MPEG_VIDC_VIDEO_PRESERVE_TEXT_QUALITY'' (0x992000 + 21),
     Enum ''v4l2_mpeg_vidc_video_preserve_text_quality'' [(''V4L2_MPEG_VIDC_VIDEO_PRESERVE_TEXT_QUALITY_DISABLED'', 0),
       (''V4L2_MPEG_VIDC_VIDEO_PRESERVE_TEXT_QUALITY_ENABLED'', 1)],
     Const ''V4L2_CID_MPEG_VIDC_VIDEO_STREAM_OUTPUT_MODE'' (0x992000 + 22),
     Enum ''v4l2_mpeg_vidc_video_decoder_multi_stream'' [(''V4L2_CID_MPEG_VIDC_VIDEO_STREAM_OUTPUT_PRIMARY'', 0),
       (''V4L2_CID_MPEG_VIDC_VIDEO_STREAM_OUTPUT_SECONDARY'', 1)],
     Const ''V4L2_CID_MPEG_VIDC_VIDEO_MPEG2_LEVEL'' (0x992000 + 23),
     Enum ''v4l2_mpeg_vidc_video_mpeg2_level'' [(''V4L2_MPEG_VIDC_VIDEO_MPEG2_LEVEL_0'', 0),
       (''V4L2_MPEG_VIDC_VIDEO_MPEG2_LEVEL_1'', 1), (''V4L2_MPEG_VIDC_VIDEO_MPEG2_LEVEL_2'', 2),
       (''V4L2_MPEG_VIDC_VIDEO_MPEG2_LEVEL_3'', 3)],
     Const ''V4L2_CID_MPEG_VIDC_VIDEO_MPEG2_PROFILE'' (0x992000 + 24),
     Enum ''v4l2_mpeg_vidc_video_mpeg2_profile'' [(''V4L2_MPEG_VIDC_VIDEO_MPEG2_PROFILE_SIMPLE'', 0),
       (''V4L2_MPEG_VIDC_VIDEO_MPEG2_PROFILE_MAIN'', 1),
       (''V4L2_MPEG_VIDC_VIDEO_MPEG2_PROFILE_422'', 2),
       (''V4L2_MPEG_VIDC_VIDEO_MPEG2_PROFILE_SNR_SCALABLE'', 3),
       (''V4L2_MPEG_VIDC_VIDEO_MPEG2_PROFILE_SPATIAL_SCALABLE'', 4),
       (''V4L2_MPEG_VIDC_VIDEO_MPEG2_PROFILE_HIGH'', 5)],
     Enum ''v4l2_mpeg_vidc_video_mvc_layout'' [(''V4L2_MPEG_VIDC_VIDEO_MVC_SEQUENTIAL'', 0),
       (''V4L2_MPEG_VIDC_VIDEO_MVC_TOP_BOTTOM'', 1)],
     Const ''V4L2_CID_MPEG_VIDC_VIDEO_CONCEAL_COLOR'' (0x992000 + 25),
     Const ''V4L2_CID_MPEG_VIDC_VIDEO_LTRMODE'' (0x992000 + 26),
     Enum ''v4l2_mpeg_vidc_video_ltrmode'' [(''V4L2_MPEG_VIDC_VIDEO_LTR_MODE_DISABLE'', 0),
       (''V4L2_MPEG_VIDC_VIDEO_LTR_MODE_MANUAL'', 1),
       (''V4L2_MPEG_VIDC_VIDEO_LTR_MODE_PERIODIC'', 2)],
     Const ''V4L2_CID_MPEG_VIDC_VIDEO_LTRCOUNT'' (0x992000 + 27),
     Const ''V4L2_CID_MPEG_VIDC_VIDEO_USELTRFRAME'' (0x992000 + 28),
     Const ''V4L2_CID_MPEG_VIDC_VIDEO_MARKLTRFRAME'' (0x992000 + 29),
     Const ''V4L2_CID_MPEG_VIDC_VIDEO_HIER_P_NUM_LAYERS'' (0x992000 + 30),
     Const ''V4L2_CID_MPEG_VIDC_VIDEO_ALLOC_MODE_OUTPUT'' (0x992000 + 31),
     Enum ''v4l2_mpeg_vidc_video_alloc_mode_type'' [(''V4L2_MPEG_VIDC_VIDEO_STATIC'', 0),
       (''V4L2_MPEG_VIDC_VIDEO_RING'', 1), (''V4L2_MPEG_VIDC_VIDEO_DYNAMIC'', 2)],
     Const ''V4L2_CID_MPEG_VIDC_VIDEO_IFRAME_X_RANGE'' (0x992000 + 32),
     Const ''V4L2_CID_MPEG_VIDC_VIDEO_PFRAME_X_RANGE'' (0x992000 + 33),
     Const ''V4L2_CID_MPEG_VIDC_VIDEO_BFRAME_X_RANGE'' (0x992000 + 34),
     Const ''V4L2_CID_MPEG_VIDC_VIDEO_IFRAME_Y_RANGE'' (0x992000 + 35),
     Const ''V4L2_CID_MPEG_VIDC_VIDEO_PFRAME_Y_RANGE'' (0x992000 + 36),
     Const ''V4L2_CID_MPEG_VIDC_VIDEO_BFRAME_Y_RANGE'' (0x992000 + 37),
     Const ''V4L2_CID_MPEG_VIDC_VIDEO_VPX_ERROR_RESILIENCE'' (0x992000 + 38),
     Const ''V4L2_CID_MPEG_VIDC_VIDEO_BUFFER_SIZE_LIMIT'' (0x992000 + 39),
     Enum ''vl42_mpeg_vidc_video_vpx_error_resilience'' [(''V4L2_MPEG_VIDC_VIDEO_VPX_ERROR_RESILIENCE_DISABLED'', 0),
       (''V4L2_MPEG_VIDC_VIDEO_VPX_ERROR_RESILIENCE_ENABLED'', 1)],
     Const ''V4L2_CID_MPEG_VIDC_VIDEO_HEVC_PROFILE'' (0x992000 + 40),
     Enum ''v4l2_mpeg_video_hevc_profile'' [(''V4L2_MPEG_VIDC_VIDEO_HEVC_PROFILE_MAIN'', 0),
       (''V4L2_MPEG_VIDC_VIDEO_HEVC_PROFILE_MAIN10'', 1),
       (''V4L2_MPEG_VIDC_VIDEO_HEVC_PROFILE_MAIN_STILL_PIC'', 2)],
     Const ''V4L2_CID_MPEG_VIDC_VIDEO_HEVC_TIER_LEVEL'' (0x992000 + 41)]"

definition v4l2_controls_6 :: "decl list" where
  "v4l2_controls_6 =
    [Enum ''v4l2_mpeg_video_hevc_level'' [(''V4L2_MPEG_VIDC_VIDEO_HEVC_LEVEL_MAIN_TIER_LEVEL_1'', 0),
       (''V4L2_MPEG_VIDC_VIDEO_HEVC_LEVEL_HIGH_TIER_LEVEL_1'', 1),
       (''V4L2_MPEG_VIDC_VIDEO_HEVC_LEVEL_MAIN_TIER_LEVEL_2'', 2),
       (''V4L2_MPEG_VIDC_VIDEO_HEVC_LEVEL_HIGH_TIER_LEVEL_2'', 3),
       (''V4L2_MPEG_VIDC_VIDEO_HEVC_LEVEL_MAIN_TIER_LEVEL_2_1'', 4),
       (''V4L2_MPEG_VIDC_VIDEO_HEVC_LEVEL_HIGH_TIER_LEVEL_2_1'', 5),
       (''V4L2_MPEG_VIDC_VIDEO_HEVC_LEVEL_MAIN_TIER_LEVEL_3'', 6),
       (''V4L2_MPEG_VIDC_VIDEO_HEVC_LEVEL_HIGH_TIER_LEVEL_3'', 7),
       (''V4L2_MPEG_VIDC_VIDEO_HEVC_LEVEL_MAIN_TIER_LEVEL_3_1'', 8),
       (''V4L2_MPEG_VIDC_VIDEO_HEVC_LEVEL_HIGH_TIER_LEVEL_3_1'', 9),
       (''V4L2_MPEG_VIDC_VIDEO_HEVC_LEVEL_MAIN_TIER_LEVEL_4'', 10),
       (''V4L2_MPEG_VIDC_VIDEO_HEVC_LEVEL_HIGH_TIER_LEVEL_4'', 11),
       (''V4L2_MPEG_VIDC_VIDEO_HEVC_LEVEL_MAIN_TIER_LEVEL_4_1'', 12),
       (''V4L2_MPEG_VIDC_VIDEO_HEVC_LEVEL_HIGH_TIER_LEVEL_4_1'', 13),
       (''V4L2_MPEG_VIDC_VIDEO_HEVC_LEVEL_MAIN_TIER_LEVEL_5'', 14),
       (''V4L2_MPEG_VIDC_VIDEO_HEVC_LEVEL_HIGH_TIER_LEVEL_5'', 15),
       (''V4L2_MPEG_VIDC_VIDEO_HEVC_LEVEL_MAIN_TIER_LEVEL_5_1'', 16),
       (''V4L2_MPEG_VIDC_VIDEO_HEVC_LEVEL_HIGH_TIER_LEVEL_5_1'', 17),
       (''V4L2_MPEG_VIDC_VIDEO_HEVC_LEVEL_MAIN_TIER_LEVEL_5_2'', 18),
       (''V4L2_MPEG_VIDC_VIDEO_HEVC_LEVEL_HIGH_TIER_LEVEL_5_2'', 19),
       (''V4L2_MPEG_VIDC_VIDEO_HEVC_LEVEL_MAIN_TIER_LEVEL_6'', 20),
       (''V4L2_MPEG_VIDC_VIDEO_HEVC_LEVEL_HIGH_TIER_LEVEL_6'', 21),
       (''V4L2_MPEG_VIDC_VIDEO_HEVC_LEVEL_MAIN_TIER_LEVEL_6_1'', 22),
       (''V4L2_MPEG_VIDC_VIDEO_HEVC_LEVEL_HIGH_TIER_LEVEL_6_1'', 23),
       (''V4L2_MPEG_VIDC_VIDEO_HEVC_LEVEL_MAIN_TIER_LEVEL_6_2'', 24),
       (''V4L2_MPEG_VIDC_VIDEO_HEVC_LEVEL_HIGH_TIER_LEVEL_6_2'', 25),
       (''V4L2_MPEG_VIDC_VIDEO_HEVC_LEVEL_UNKNOWN'', 26)],
     Const ''V4L2_MPEG_VIDC_VIDEO_HEVC_LEVEL_UNKNOWN'' 26,
     Const ''V4L2_CID_MPEG_VIDC_VIDEO_HIER_B_NUM_LAYERS'' (0x992000 + 42),
     Const ''V4L2_CID_MPEG_VIDC_VIDEO_HYBRID_HIERP_MODE'' (0x992000 + 43),
     Const ''V4L2_CID_MPEG_VIDC_VIDEO_DPB_COLOR_FORMAT'' (0x992000 + 44),
     Enum ''v4l2_mpeg_vidc_video_dpb_color_format'' [(''V4L2_MPEG_VIDC_VIDEO_DPB_COLOR_FMT_NONE'', 0),
       (''V4L2_MPEG_VIDC_VIDEO_DPB_COLOR_FMT_UBWC'', 1),
       (''V4L2_MPEG_VIDC_VIDEO_DPB_COLOR_FMT_TP10_UBWC'', 2)],
     Const ''V4L2_CID_VIDC_QBUF_MODE'' (0x992000 + 45),
     Enum ''v4l2_vidc_qbuf_mode'' [(''V4L2_VIDC_QBUF_STANDARD'', 0),
       (''V4L2_VIDC_QBUF_BATCHED'', 1)],
     Const ''V4L2_CID_MPEG_VIDC_VIDEO_MAX_HIERP_LAYERS'' (0x992000 + 46),
     Const ''V4L2_CID_MPEG_VIDC_VIDEO_BASELAYER_ID'' (0x992000 + 47),
     Const ''V4L2_CID_MPEG_VIDC_VENC_PARAM_SAR_WIDTH'' (0x992000 + 48),
     Const ''V4L2_CID_MPEG_VIDC_VENC_PARAM_SAR_HEIGHT'' (0x992000 + 49),
     Const ''V4L2_CID_MPEG_VIDC_VIDEO_VQZIP_SEI'' (0x992000 + 50),
     Enum ''v4l2_mpeg_vidc_video_vqzip_sei_enable'' [(''V4L2_CID_MPEG_VIDC_VIDEO_VQZIP_SEI_DISABLE'', 0),
       (''V4L2_CID_MPEG_VIDC_VIDEO_VQZIP_SEI_ENABLE'', 1)],
     Const ''V4L2_CID_MPEG_VIDC_VENC_PARAM_LAYER_BITRATE'' (0x992000 + 51),
     Const ''V4L2_CID_MPEG_VIDC_VIDEO_PRIORITY'' (0x992000 + 52),
     Enum ''v4l2_mpeg_vidc_video_priority'' [(''V4L2_MPEG_VIDC_VIDEO_PRIORITY_REALTIME_ENABLE'', 0),
       (''V4L2_MPEG_VIDC_VIDEO_PRIORITY_REALTIME_DISABLE'', 1)],
     Const ''V4L2_CID_MPEG_VIDC_VIDEO_OPERATING_RATE'' (0x992000 + 53),
     Const ''V4L2_CID_MPEG_VIDC_VIDEO_VENC_BITRATE_TYPE'' (0x992000 + 54),
     Enum ''v4l2_mpeg_vidc_video_venc_bitrate_type_enable'' [(''V4L2_CID_MPEG_VIDC_VIDEO_VENC_BITRATE_DISABLE'', 0),
       (''V4L2_CID_MPEG_VIDC_VIDEO_VENC_BITRATE_ENABLE'', 1)],
     Const ''V4L2_CID_MPEG_VIDC_VIDEO_VPE_CSC'' (0x992000 + 55),
     Enum ''v4l2_cid_mpeg_vidc_video_vpe_csc_type_enable'' [(''V4L2_CID_MPEG_VIDC_VIDEO_VPE_CSC_DISABLE'', 0),
       (''V4L2_CID_MPEG_VIDC_VIDEO_VPE_CSC_ENABLE'', 1)],
     Const ''V4L2_CID_MPEG_VIDC_VIDEO_LOWLATENCY_MODE'' (0x992000 + 56),
     Enum ''v4l2_mpeg_vidc_video_lowlatency_mode'' [(''V4L2_CID_MPEG_VIDC_VIDEO_LOWLATENCY_DISABLE'', 0),
       (''V4L2_CID_MPEG_VIDC_VIDEO_LOWLATENCY_ENABLE'', 1)],
     Const ''V4L2_CID_MPEG_VIDC_VIDEO_BLUR_WIDTH'' (0x992000 + 57),
     Const ''V4L2_CID_MPEG_VIDC_VIDEO_BLUR_HEIGHT'' (0x992000 + 58),
     Const ''V4L2_CID_MPEG_VIDC_VIDEO_H264_TRANSFORM_8x8'' (0x992000 + 59),
     Enum ''v4l2_mpeg_vidc_video_h264_transform_8x8'' [(''V4L2_MPEG_VIDC_VIDEO_H264_TRANSFORM_8x8_DISABLE'', 0),
       (''V4L2_MPEG_VIDC_VIDEO_H264_TRANSFORM_8x8_ENABLE'', 1)],
     Const ''V4L2_CID_MPEG_VIDC_VIDEO_COLOR_SPACE'' (0x992000 + 60),
     Const ''V4L2_CID_MPEG_VIDC_VIDEO_FULL_RANGE'' (0x992000 + 61),
     Enum ''v4l2_cid_mpeg_vidc_video_full_range'' [(''V4L2_CID_MPEG_VIDC_VIDEO_FULL_RANGE_DISABLE'', 0),
       (''V4L2_CID_MPEG_VIDC_VIDEO_FULL_RANGE_ENABLE'', 1)],
     Const ''V4L2_CID_MPEG_VIDC_VIDEO_TRANSFER_CHARS'' (0x992000 + 62),
     Const ''V4L2_CID_MPEG_VIDC_VIDEO_MATRIX_COEFFS'' (0x992000 + 63),
     Const ''V4L2_CID_MPEG_VIDC_VIDEO_IFRAME_SIZE_TYPE'' (0x992000 + 64),
     Const ''V4L2_CID_MPEG_VIDC_VIDEO_LAYER_ID'' (0x992000 + 65),
     Const ''V4L2_CID_MPEG_VIDC_VIDEO_VP9_PROFILE'' (0x992000 + 66),
     Enum ''v4l2_mpeg_vidc_video_vp9_profile'' [(''V4L2_MPEG_VIDC_VIDEO_VP9_PROFILE_UNUSED'', 0),
       (''V4L2_MPEG_VIDC_VIDEO_VP9_PROFILE_P0'', 1),
       (''V4L2_MPEG_VIDC_VIDEO_VP9_PROFILE_P2_10'', 2)],
     Const ''V4L2_CID_MPEG_VIDC_VIDEO_VP9_LEVEL'' (0x992000 + 67),
     Enum ''v4l2_mpeg_vidc_video_vp9_level'' [(''V4L2_MPEG_VIDC_VIDEO_VP9_LEVEL_UNUSED'', 0),
       (''V4L2_MPEG_VIDC_VIDEO_VP9_LEVEL_1'', 1), (''V4L2_MPEG_VIDC_VIDEO_VP9_LEVEL_11'', 2),
       (''V4L2_MPEG_VIDC_VIDEO_VP9_LEVEL_2'', 3), (''V4L2_MPEG_VIDC_VIDEO_VP9_LEVEL_21'', 4),
       (''V4L2_MPEG_VIDC_VIDEO_VP9_LEVEL_3'', 5), (''V4L2_MPEG_VIDC_VIDEO_VP9_LEVEL_31'', 6),
       (''V4L2_MPEG_VIDC_VIDEO_VP9_LEVEL_4'', 7), (''V4L2_MPEG_VIDC_VIDEO_VP9_LEVEL_41'', 8),
       (''V4L2_MPEG_VIDC_VIDEO_VP9_LEVEL_5'', 9), (''V4L2_MPEG_VIDC_VIDEO_VP9_LEVEL_51'', 10)],
     Const ''V4L2_CID_MPEG_VIDC_VIDEO_MB_ERROR_MAP_REPORTING'' (0x992000 + 68),
     Const ''V4L2_CID_MPEG_VIDC_VIDEO_CONTINUE_DATA_TRANSFER'' (0x992000 + 69),
     Const ''V4L2_CID_MPEG_VIDC_VIDEO_ALLOC_MODE_INPUT'' (0x992000 + 70),
     Const ''V4L2_CID_MPEG_VIDC_VIDEO_FRAME_ASSEMBLY'' (0x992000 + 71),
     Enum ''v4l2_mpeg_vidc_video_assembly'' [(''V4L2_MPEG_VIDC_FRAME_ASSEMBLY_DISABLE'', 0),
       (''V4L2_MPEG_VIDC_FRAME_ASSEMBLY_ENABLE'', 1)],
     Const ''V4L2_CID_MPEG_VIDC_VIDEO_H263_PROFILE'' (0x992000 + 72),
     Enum ''v4l2_mpeg_vidc_video_h263_profile'' [(''V4L2_MPEG_VIDC_VIDEO_H263_PROFILE_BASELINE'', 0),
       (''V4L2_MPEG_VIDC_VIDEO_H263_PROFILE_H320CODING'', 1),
       (''V4L2_MPEG_VIDC_VIDEO_H263_PROFILE_BACKWARDCOMPATIBLE'', 2),
       (''V4L2_MPEG_VIDC_VIDEO_H263_PROFILE_ISWV2'', 3),
       (''V4L2_MPEG_VIDC_VIDEO_H263_PROFILE_ISWV3'', 4),
       (''V4L2_MPEG_VIDC_VIDEO_H263_PROFILE_HIGHCOMPRESSION'', 5),
       (''V4L2_MPEG_VIDC_VIDEO_H263_PROFILE_INTERNET'', 6),
       (''V4L2_MPEG_VIDC_VIDEO_H263_PROFILE_INTERLACE'', 7),
       (''V4L2_MPEG_VIDC_VIDEO_H263_PROFILE_HIGHLATENCY'', 8)],
     Const ''V4L2_CID_MPEG_VIDEO_MIN_QP_PACKED'' (0x992000 + 97),
     Const ''V4L2_CID_MPEG_VIDEO_MAX_QP_PACKED'' (0x992000 + 98),
     Const ''V4L2_CID_MPEG_VIDC_VIDEO_I_FRAME_QP'' (0x992000 + 99),
     Const ''V4L2_CID_MPEG_VIDC_VIDEO_P_FRAME_QP'' (0x992000 + 100),
     Const ''V4L2_CID_MPEG_VIDC_VIDEO_B_FRAME_QP'' (0x992000 + 101),
     Const ''V4L2_CID_MPEG_VIDC_VIDEO_I_FRAME_QP_MIN'' (0x992000 + 102),
     Const ''V4L2_CID_MPEG_VIDC_VIDEO_P_FRAME_QP_MIN'' (0x992000 + 103),
     Const ''V4L2_CID_MPEG_VIDC_VIDEO_B_FRAME_QP_MIN'' (0x992000 + 104),
     Const ''V4L2_CID_MPEG_VIDC_VIDEO_I_FRAME_QP_MAX'' (0x992000 + 105),
     Const ''V4L2_CID_MPEG_VIDC_VIDEO_P_FRAME_QP_MAX'' (0x992000 + 106),
     Const ''V4L2_CID_MPEG_VIDC_VIDEO_B_FRAME_QP_MAX'' (0x992000 + 107),
     Const ''V4L2_CID_MPEG_VIDC_VIDEO_QP_MASK'' (0x992000 + 108),
     Enum ''v4l2_mpeg_vidc_video_venc_iframesize_type'' [(''V4L2_CID_MPEG_VIDC_VIDEO_IFRAME_SIZE_DEFAULT'', 0),
       (''V4L2_CID_MPEG_VIDC_VIDEO_IFRAME_SIZE_MEDIUM'', 1),
       (''V4L2_CID_MPEG_VIDC_VIDEO_IFRAME_SIZE_HUGE'', 2),
       (''V4L2_CID_MPEG_VIDC_VIDEO_IFRAME_SIZE_UNLIMITED'', 3)],
     Const ''V4L2_CID_MPEG_VIDC_VIDEO_CONCEAL_COLOR_8BIT'' (0x992000 + 109)]"

definition v4l2_controls_7 :: "decl list" where
  "v4l2_controls_7 =
    [Const ''V4L2_CID_MPEG_VIDC_VIDEO_CONCEAL_COLOR_10BIT'' (0x992000 + 110),
     Const ''V4L2_CID_MPEG_VIDC_VIDEO_TME_PROFILE'' (0x992000 + 111),
     Enum ''v4l2_mpeg_vidc_video_tme_profile'' [(''V4L2_MPEG_VIDC_VIDEO_TME_PROFILE_0'', 0),
       (''V4L2_MPEG_VIDC_VIDEO_TME_PROFILE_1'', 1), (''V4L2_MPEG_VIDC_VIDEO_TME_PROFILE_2'', 2),
       (''V4L2_MPEG_VIDC_VIDEO_TME_PROFILE_3'', 3)],
     Const ''V4L2_CID_MPEG_VIDC_VIDEO_TME_LEVEL'' (0x992000 + 112),
     Enum ''v4l2_mpeg_vidc_video_tme_level'' [(''V4L2_MPEG_VIDC_VIDEO_TME_LEVEL_INTEGER'', 0)],
     Const ''V4L2_CID_MPEG_VIDC_VIDEO_TME_PAYLOAD_VERSION'' (0x992000 + 113),
     Const ''V4L2_CID_MPEG_VIDC_VIDEO_VPE_CSC_CUSTOM_MATRIX'' (0x992000 + 114),
     Const ''V4L2_CID_MPEG_VIDC_VIDEO_FLIP'' (0x992000 + 115),
     Enum ''v4l2_mpeg_vidc_video_flip'' [(''V4L2_CID_MPEG_VIDC_VIDEO_FLIP_NONE'', 0),
       (''V4L2_CID_MPEG_VIDC_VIDEO_FLIP_HORI'', 1), (''V4L2_CID_MPEG_VIDC_VIDEO_FLIP_VERT'', 2),
       (''V4L2_CID_MPEG_VIDC_VIDEO_FLIP_BOTH'', 3)],
     Const ''V4L2_MPEG_VIDC_VENC_HDR_INFO_ENABLED'' 1,
     Const ''V4L2_MPEG_VIDC_VENC_HDR_INFO_DISABLED'' 0,
     Const ''V4L2_CID_MPEG_VIDC_VENC_HDR_INFO'' (0x992000 + 116),
     Const ''V4L2_CID_MPEG_VIDC_VENC_RGB_PRIMARY_00'' (0x992000 + 117),
     Const ''V4L2_CID_MPEG_VIDC_VENC_RGB_PRIMARY_01'' (0x992000 + 118),
     Const ''V4L2_CID_MPEG_VIDC_VENC_RGB_PRIMARY_10'' (0x992000 + 119),
     Const ''V4L2_CID_MPEG_VIDC_VENC_RGB_PRIMARY_11'' (0x992000 + 120),
     Const ''V4L2_CID_MPEG_VIDC_VENC_RGB_PRIMARY_20'' (0x992000 + 121),
     Const ''V4L2_CID_MPEG_VIDC_VENC_RGB_PRIMARY_21'' (0x992000 + 122),
     Const ''V4L2_CID_MPEG_VIDC_VENC_WHITEPOINT_X'' (0x992000 + 123),
     Const ''V4L2_CID_MPEG_VIDC_VENC_WHITEPOINT_Y'' (0x992000 + 124),
     Const ''V4L2_CID_MPEG_VIDC_VENC_MAX_DISP_LUM'' (0x992000 + 125),
     Const ''V4L2_CID_MPEG_VIDC_VENC_MIN_DISP_LUM'' (0x992000 + 126),
     Const ''V4L2_CID_MPEG_VIDC_VENC_MAX_CLL'' (0x992000 + 127),
     Const ''V4L2_CID_MPEG_VIDC_VENC_MAX_FLL'' (0x992000 + 128),
     Const ''V4L2_CID_MPEG_VIDC_SET_PERF_LEVEL'' (0x992000 + 129),
     Enum ''v4l2_mpeg_vidc_perf_level'' [(''V4L2_CID_MPEG_VIDC_PERF_LEVEL_NOMINAL'', 0),
       (''V4L2_CID_MPEG_VIDC_PERF_LEVEL_PERFORMANCE'', 1),
       (''V4L2_CID_MPEG_VIDC_PERF_LEVEL_TURBO'', 2)],
     Const ''V4L2_CID_MPEG_VIDC_VIDEO_AIR_MBS'' (0x992000 + 130),
     Const ''V4L2_CID_MPEG_VIDC_VIDEO_AIR_REF'' (0x992000 + 131),
     Const ''V4L2_CID_MPEG_VIDC_VIDEO_CIR_MBS'' (0x992000 + 132),
     Const ''V4L2_CID_MPEG_VIDC_VIDEO_H264_VUI_TIMING_INFO'' (0x992000 + 135),
     Const ''V4L2_CID_MPEG_VIDEO_MULTI_SLICE_GOB'' (0x992000 + 136),
     Const ''V4L2_CID_MPEG_VIDC_VIDEO_H264_VUI_BITSTREAM_RESTRICT'' (0x992000 + 137),
     Enum ''v4l2_mpeg_vidc_video_h264_vui_bitstream_restrict'' [(''V4L2_MPEG_VIDC_VIDEO_H264_VUI_BITSTREAM_RESTRICT_DISABLED'', 0),
       (''V4L2_MPEG_VIDC_VIDEO_H264_VUI_BITSTREAM_RESTRICT_ENABLED'', 1)],
     Const ''V4L2_CID_MPEG_VIDC_VIDEO_DEINTERLACE'' (0x992000 + 138),
     Enum ''v4l2_mpeg_vidc_video_deinterlace'' [(''V4L2_CID_MPEG_VIDC_VIDEO_DEINTERLACE_DISABLED'', 0),
       (''V4L2_CID_MPEG_VIDC_VIDEO_DEINTERLACE_ENABLED'', 1)],
     Const ''V4L2_CID_MPEG_VIDC_VIDEO_MPEG4_TIME_RESOLUTION'' (0x992000 + 139),
     Const ''V4L2_CID_MPEG_VIDC_VIDEO_REQUEST_SEQ_HEADER'' (0x992000 + 140),
     Const ''V4L2_CID_MPEG_VIDC_VIDEO_RATE_CONTROL_TIMESTAMP_MODE'' (0x992000 + 141),
     Enum ''v4l2_mpeg_vidc_video_rate_control_timestamp_mode'' [(''V4L2_MPEG_VIDC_VIDEO_RATE_CONTROL_TIMESTAMP_MODE_HONOR'', 0),
       (''V4L2_MPEG_VIDC_VIDEO_RATE_CONTROL_TIMESTAMP_MODE_IGNORE'', 1)],
     Const ''V4L2_CID_MPEG_VIDC_VIDEO_ENABLE_INITIAL_QP'' (0x992000 + 142),
     Enum ''vl42_mpeg_vidc_video_enable_initial_qp'' [(''V4L2_CID_MPEG_VIDC_VIDEO_ENABLE_INITIAL_QP_IFRAME'', 1),
       (''V4L2_CID_MPEG_VIDC_VIDEO_ENABLE_INITIAL_QP_PFRAME'', 2),
       (''V4L2_CID_MPEG_VIDC_VIDEO_ENABLE_INITIAL_QP_BFRAME'', 4)],
     Const ''V4L2_CID_MPEG_VIDC_VIDEO_INITIAL_I_FRAME_QP'' (0x992000 + 143),
     Const ''V4L2_CID_MPEG_VIDC_VIDEO_INITIAL_P_FRAME_QP'' (0x992000 + 144),
     Const ''V4L2_CID_MPEG_VIDC_VIDEO_INITIAL_B_FRAME_QP'' (0x992000 + 145),
     Const ''V4L2_CID_MPEG_VIDC_VIDEO_H264_NAL_SVC'' (0x992000 + 146),
     Const ''V4L2_CID_MPEG_VIDC_VIDEO_PERF_MODE'' (0x992000 + 147),
     Enum ''v4l2_mpeg_vidc_video_perf_mode'' [(''V4L2_MPEG_VIDC_VIDEO_PERF_MAX_QUALITY'', 1),
       (''V4L2_MPEG_VIDC_VIDEO_PERF_POWER_SAVE'', 2)],
     Const ''V4L2_CID_MPEG_VIDC_VIDEO_MBI_STATISTICS_MODE'' (0x992000 + 148),
     Const ''V4L2_CID_MPEG_VIDC_VIDEO_CONFIG_QP'' (0x992000 + 149),
     Const ''V4L2_CID_MPEG_VIDC_VIDEO_H264_PIC_ORDER_CNT'' (0x992000 + 150),
     Const ''V4L2_CID_MPEG_VIDC_VIDEO_SCS_THRESHOLD'' (0x992000 + 151),
     Const ''V4L2_CID_MPEG_VIDC_VIDEO_MVC_BUFFER_LAYOUT'' (0x992000 + 152),
     Const ''V4L2_CID_MPEG_VIDC_VIDEO_SECURE_SCALING_THRESHOLD'' (0x992000 + 153),
     Const ''V4L2_CID_MPEG_VIDC_VIDEO_NON_SECURE_OUTPUT2'' (0x992000 + 154),
     Const ''V4L2_CID_MPEG_VIDC_VIDEO_VP8_MIN_QP'' (0x992000 + 155),
     Const ''V4L2_CID_MPEG_VIDC_VIDEO_VP8_MAX_QP'' (0x992000 + 156),
     Const ''V4L2_CID_MPEG_VIDC_VIDEO_H263_LEVEL'' (0x992000 + 157),
     Enum ''v4l2_mpeg_vidc_video_h263_level'' [(''V4L2_MPEG_VIDC_VIDEO_H263_LEVEL_1_0'', 0),
       (''V4L2_MPEG_VIDC_VIDEO_H263_LEVEL_2_0'', 1),
       (''V4L2_MPEG_VIDC_VIDEO_H263_LEVEL_3_0'', 2),
       (''V4L2_MPEG_VIDC_VIDEO_H263_LEVEL_4_0'', 3),
       (''V4L2_MPEG_VIDC_VIDEO_H263_LEVEL_4_5'', 4),
       (''V4L2_MPEG_VIDC_VIDEO_H263_LEVEL_5_0'', 5),
       (''V4L2_MPEG_VIDC_VIDEO_H263_LEVEL_6_0'', 6),
      (''V4L2_MPEG_VIDC_VIDEO_H263_LEVEL_7_0'', 7)],
     Const ''V4L2_CID_MPEG_VIDC_VIDEO_POST_LOOP_DEBLOCKER_MODE'' (0x992000 + 158),
     Const ''V4L2_CID_MPEG_VIDC_VIDEO_DIVX_FORMAT'' (0x992000 + 159),
     Enum ''v4l2_mpeg_vidc_video_divx_format_type'' [(''V4L2_MPEG_VIDC_VIDEO_DIVX_FORMAT_4'', 0),
       (''V4L2_MPEG_VIDC_VIDEO_DIVX_FORMAT_5'', 1), (''V4L2_MPEG_VIDC_VIDEO_DIVX_FORMAT_6'', 2)],
     Const ''V4L2_CID_MPEG_VIDC_VIDEO_FRAME_QUALITY'' (0x992000 + 160),
     Const ''V4L2_CID_MPEG_VIDC_IMG_GRID_DIMENSION'' (0x992000 + 161),
     Enum ''v4l2_mpeg_vidc_video_mbi_statistics_mode'' [(''V4L2_CID_MPEG_VIDC_VIDEO_MBI_MODE_DEFAULT'', 0),
       (''V4L2_CID_MPEG_VIDC_VIDEO_MBI_MODE_1'', 1),
       (''V4L2_CID_MPEG_VIDC_VIDEO_MBI_MODE_2'', 2),
      (''V4L2_CID_MPEG_VIDC_VIDEO_MBI_MODE_3'', 3)],
     Enum ''vl42_mpeg_vidc_video_h264_svc_nal'' [(''V4L2_CID_MPEG_VIDC_VIDEO_H264_NAL_SVC_DISABLED'', 0),
       (''V4L2_CID_MPEG_VIDC_VIDEO_H264_NAL_SVC_ENABLED'', 1)],
     Enum ''v4l2_mpeg_vidc_video_h264_vui_timing_info'' [(''V4L2_MPEG_VIDC_VIDEO_H264_VUI_TIMING_INFO_DISABLED'', 0),
       (''V4L2_MPEG_VIDC_VIDEO_H264_VUI_TIMING_INFO_ENABLED'', 1)],
     Const ''V4L2_CID_CAMERA_CLASS_BASE'' 10094848, Const ''V4L2_CID_CAMERA_CLASS'' 10092545,
     Const ''V4L2_CID_EXPOSURE_AUTO'' (0x9a0900 + 1),
     Enum ''v4l2_exposure_auto_type'' [(''V4L2_EXPOSURE_AUTO'', 0),
       (''V4L2_EXPOSURE_MANUAL'', 1), (''V4L2_EXPOSURE_SHUTTER_PRIORITY'', 2),
       (''V4L2_EXPOSURE_APERTURE_PRIORITY'', 3)],
     Const ''V4L2_CID_EXPOSURE_ABSOLUTE'' (0x9a0900 + 2),
     Const ''V4L2_CID_EXPOSURE_AUTO_PRIORITY'' (0x9a0900 + 3),
     Const ''V4L2_CID_PAN_RELATIVE'' (0x9a0900 + 4),
     Const ''V4L2_CID_TILT_RELATIVE'' (0x9a0900 + 5),
     Const ''V4L2_CID_PAN_RESET'' (0x9a0900 + 6), Const ''V4L2_CID_TILT_RESET'' (0x9a0900 + 7),
     Const ''V4L2_CID_PAN_ABSOLUTE'' (0x9a0900 + 8),
     Const ''V4L2_CID_TILT_ABSOLUTE'' (0x9a0900 + 9),
     Const ''V4L2_CID_FOCUS_ABSOLUTE'' (0x9a0900 + 10),
     Const ''V4L2_CID_FOCUS_RELATIVE'' (0x9a0900 + 11),
     Const ''V4L2_CID_FOCUS_AUTO'' (0x9a0900 + 12),
     Const ''V4L2_CID_ZOOM_ABSOLUTE'' (0x9a0900 + 13),
     Const ''V4L2_CID_ZOOM_RELATIVE'' (0x9a0900 + 14),
     Const ''V4L2_CID_ZOOM_CONTINUOUS'' (0x9a0900 + 15),
     Const ''V4L2_CID_PRIVACY'' (0x9a0900 + 16),
     Const ''V4L2_CID_IRIS_ABSOLUTE'' (0x9a0900 + 17),
     Const ''V4L2_CID_IRIS_RELATIVE'' (0x9a0900 + 18),
     Const ''V4L2_CID_AUTO_EXPOSURE_BIAS'' (0x9a0900 + 19),
     Const ''V4L2_CID_AUTO_N_PRESET_WHITE_BALANCE'' (0x9a0900 + 20)]"

definition v4l2_controls_8 :: "decl list" where
  "v4l2_controls_8 =
    [Enum ''v4l2_auto_n_preset_white_balance'' [(''V4L2_WHITE_BALANCE_MANUAL'', 0),
       (''V4L2_WHITE_BALANCE_AUTO'', 1), (''V4L2_WHITE_BALANCE_INCANDESCENT'', 2),
       (''V4L2_WHITE_BALANCE_FLUORESCENT'', 3), (''V4L2_WHITE_BALANCE_FLUORESCENT_H'', 4),
       (''V4L2_WHITE_BALANCE_HORIZON'', 5), (''V4L2_WHITE_BALANCE_DAYLIGHT'', 6),
       (''V4L2_WHITE_BALANCE_FLASH'', 7), (''V4L2_WHITE_BALANCE_CLOUDY'', 8),
       (''V4L2_WHITE_BALANCE_SHADE'', 9)],
     Const ''V4L2_CID_WIDE_DYNAMIC_RANGE'' (0x9a0900 + 21),
     Const ''V4L2_CID_IMAGE_STABILIZATION'' (0x9a0900 + 22),
     Const ''V4L2_CID_ISO_SENSITIVITY'' (0x9a0900 + 23),
     Const ''V4L2_CID_ISO_SENSITIVITY_AUTO'' (0x9a0900 + 24),
     Enum ''v4l2_iso_sensitivity_auto_type'' [(''V4L2_ISO_SENSITIVITY_MANUAL'', 0),
       (''V4L2_ISO_SENSITIVITY_AUTO'', 1)],
     Const ''V4L2_CID_EXPOSURE_METERING'' (0x9a0900 + 25),
     Enum ''v4l2_exposure_metering'' [(''V4L2_EXPOSURE_METERING_AVERAGE'', 0),
       (''V4L2_EXPOSURE_METERING_CENTER_WEIGHTED'', 1), (''V4L2_EXPOSURE_METERING_SPOT'', 2),
       (''V4L2_EXPOSURE_METERING_MATRIX'', 3)],
     Const ''V4L2_CID_SCENE_MODE'' (0x9a0900 + 26),
     Enum ''v4l2_scene_mode'' [(''V4L2_SCENE_MODE_NONE'', 0), (''V4L2_SCENE_MODE_BACKLIGHT'', 1),
       (''V4L2_SCENE_MODE_BEACH_SNOW'', 2), (''V4L2_SCENE_MODE_CANDLE_LIGHT'', 3),
       (''V4L2_SCENE_MODE_DAWN_DUSK'', 4), (''V4L2_SCENE_MODE_FALL_COLORS'', 5),
       (''V4L2_SCENE_MODE_FIREWORKS'', 6), (''V4L2_SCENE_MODE_LANDSCAPE'', 7),
       (''V4L2_SCENE_MODE_NIGHT'', 8), (''V4L2_SCENE_MODE_PARTY_INDOOR'', 9),
       (''V4L2_SCENE_MODE_PORTRAIT'', 10), (''V4L2_SCENE_MODE_SPORTS'', 11),
       (''V4L2_SCENE_MODE_SUNSET'', 12), (''V4L2_SCENE_MODE_TEXT'', 13)],
     Const ''V4L2_CID_3A_LOCK'' (0x9a0900 + 27), Const ''V4L2_LOCK_EXPOSURE'' (2 ^ 0),
     Const ''V4L2_LOCK_WHITE_BALANCE'' (2 ^ 1), Const ''V4L2_LOCK_FOCUS'' (2 ^ 2),
     Const ''V4L2_CID_AUTO_FOCUS_START'' (0x9a0900 + 28),
     Const ''V4L2_CID_AUTO_FOCUS_STOP'' (0x9a0900 + 29),
     Const ''V4L2_CID_AUTO_FOCUS_STATUS'' (0x9a0900 + 30),
     Const ''V4L2_AUTO_FOCUS_STATUS_IDLE'' 0, Const ''V4L2_AUTO_FOCUS_STATUS_BUSY'' (2 ^ 0),
     Const ''V4L2_AUTO_FOCUS_STATUS_REACHED'' (2 ^ 1),
     Const ''V4L2_AUTO_FOCUS_STATUS_FAILED'' (2 ^ 2),
     Const ''V4L2_CID_AUTO_FOCUS_RANGE'' (0x9a0900 + 31),
     Enum ''v4l2_auto_focus_range'' [(''V4L2_AUTO_FOCUS_RANGE_AUTO'', 0),
       (''V4L2_AUTO_FOCUS_RANGE_NORMAL'', 1), (''V4L2_AUTO_FOCUS_RANGE_MACRO'', 2),
       (''V4L2_AUTO_FOCUS_RANGE_INFINITY'', 3)],
     Const ''V4L2_CID_PAN_SPEED'' (0x9a0900 + 32),
     Const ''V4L2_CID_TILT_SPEED'' (0x9a0900 + 33),
     Const ''V4L2_CID_FM_TX_CLASS_BASE'' 10160384, Const ''V4L2_CID_FM_TX_CLASS'' 10158081,
     Const ''V4L2_CID_RDS_TX_DEVIATION'' (0x9b0900 + 1),
     Const ''V4L2_CID_RDS_TX_PI'' (0x9b0900 + 2), Const ''V4L2_CID_RDS_TX_PTY'' (0x9b0900 + 3),
     Const ''V4L2_CID_RDS_TX_PS_NAME'' (0x9b0900 + 5),
     Const ''V4L2_CID_RDS_TX_RADIO_TEXT'' (0x9b0900 + 6),
     Const ''V4L2_CID_RDS_TX_MONO_STEREO'' (0x9b0900 + 7),
     Const ''V4L2_CID_RDS_TX_ARTIFICIAL_HEAD'' (0x9b0900 + 8),
     Const ''V4L2_CID_RDS_TX_COMPRESSED'' (0x9b0900 + 9),
     Const ''V4L2_CID_RDS_TX_DYNAMIC_PTY'' (0x9b0900 + 10),
     Const ''V4L2_CID_RDS_TX_TRAFFIC_ANNOUNCEMENT'' (0x9b0900 + 11),
     Const ''V4L2_CID_RDS_TX_TRAFFIC_PROGRAM'' (0x9b0900 + 12),
     Const ''V4L2_CID_RDS_TX_MUSIC_SPEECH'' (0x9b0900 + 13),
     Const ''V4L2_CID_RDS_TX_ALT_FREQS_ENABLE'' (0x9b0900 + 14),
     Const ''V4L2_CID_RDS_TX_ALT_FREQS'' (0x9b0900 + 15),
     Const ''V4L2_CID_AUDIO_LIMITER_ENABLED'' (0x9b0900 + 64),
     Const ''V4L2_CID_AUDIO_LIMITER_RELEASE_TIME'' (0x9b0900 + 65),
     Const ''V4L2_CID_AUDIO_LIMITER_DEVIATION'' (0x9b0900 + 66),
     Const ''V4L2_CID_AUDIO_COMPRESSION_ENABLED'' (0x9b0900 + 80),
     Const ''V4L2_CID_AUDIO_COMPRESSION_GAIN'' (0x9b0900 + 81),
     Const ''V4L2_CID_AUDIO_COMPRESSION_THRESHOLD'' (0x9b0900 + 82),
     Const ''V4L2_CID_AUDIO_COMPRESSION_ATTACK_TIME'' (0x9b0900 + 83),
     Const ''V4L2_CID_AUDIO_COMPRESSION_RELEASE_TIME'' (0x9b0900 + 84),
     Const ''V4L2_CID_PILOT_TONE_ENABLED'' (0x9b0900 + 96),
     Const ''V4L2_CID_PILOT_TONE_DEVIATION'' (0x9b0900 + 97),
     Const ''V4L2_CID_PILOT_TONE_FREQUENCY'' (0x9b0900 + 98),
     Const ''V4L2_CID_TUNE_PREEMPHASIS'' (0x9b0900 + 112),
     Enum ''v4l2_preemphasis'' [(''V4L2_PREEMPHASIS_DISABLED'', 0),
       (''V4L2_PREEMPHASIS_50_uS'', 1), (''V4L2_PREEMPHASIS_75_uS'', 2)],
     Const ''V4L2_CID_TUNE_POWER_LEVEL'' (0x9b0900 + 113),
     Const ''V4L2_CID_TUNE_ANTENNA_CAPACITOR'' (0x9b0900 + 114),
     Const ''V4L2_CID_FLASH_CLASS_BASE'' 10225920, Const ''V4L2_CID_FLASH_CLASS'' 10223617,
     Const ''V4L2_CID_FLASH_LED_MODE'' (0x9c0900 + 1),
     Enum ''v4l2_flash_led_mode'' [(''V4L2_FLASH_LED_MODE_NONE'', 0),
       (''V4L2_FLASH_LED_MODE_FLASH'', 1), (''V4L2_FLASH_LED_MODE_TORCH'', 2)],
     Const ''V4L2_CID_FLASH_STROBE_SOURCE'' (0x9c0900 + 2),
     Enum ''v4l2_flash_strobe_source'' [(''V4L2_FLASH_STROBE_SOURCE_SOFTWARE'', 0),
       (''V4L2_FLASH_STROBE_SOURCE_EXTERNAL'', 1)],
     Const ''V4L2_CID_FLASH_STROBE'' (0x9c0900 + 3),
     Const ''V4L2_CID_FLASH_STROBE_STOP'' (0x9c0900 + 4),
     Const ''V4L2_CID_FLASH_STROBE_STATUS'' (0x9c0900 + 5),
     Const ''V4L2_CID_FLASH_TIMEOUT'' (0x9c0900 + 6),
     Const ''V4L2_CID_FLASH_INTENSITY'' (0x9c0900 + 7),
     Const ''V4L2_CID_FLASH_TORCH_INTENSITY'' (0x9c0900 + 8),
     Const ''V4L2_CID_FLASH_INDICATOR_INTENSITY'' (0x9c0900 + 9),
     Const ''V4L2_CID_FLASH_FAULT'' (0x9c0900 + 10),
     Const ''V4L2_FLASH_FAULT_OVER_VOLTAGE'' (2 ^ 0),
     Const ''V4L2_FLASH_FAULT_TIMEOUT'' (2 ^ 1),
     Const ''V4L2_FLASH_FAULT_OVER_TEMPERATURE'' (2 ^ 2),
     Const ''V4L2_FLASH_FAULT_SHORT_CIRCUIT'' (2 ^ 3),
     Const ''V4L2_FLASH_FAULT_OVER_CURRENT'' (2 ^ 4),
     Const ''V4L2_FLASH_FAULT_INDICATOR'' (2 ^ 5),
     Const ''V4L2_FLASH_FAULT_UNDER_VOLTAGE'' (2 ^ 6),
     Const ''V4L2_FLASH_FAULT_INPUT_VOLTAGE'' (2 ^ 7),
     Const ''V4L2_FLASH_FAULT_LED_OVER_TEMPERATURE'' (2 ^ 8),
     Const ''V4L2_CID_FLASH_CHARGE'' (0x9c0900 + 11),
     Const ''V4L2_CID_FLASH_READY'' (0x9c0900 + 12),
     Const ''V4L2_CID_JPEG_CLASS_BASE'' 10291456, Const ''V4L2_CID_JPEG_CLASS'' 10289153,
     Const ''V4L2_CID_JPEG_CHROMA_SUBSAMPLING'' (0x9d0900 + 1),
     Enum ''v4l2_jpeg_chroma_subsampling'' [(''V4L2_JPEG_CHROMA_SUBSAMPLING_444'', 0),
       (''V4L2_JPEG_CHROMA_SUBSAMPLING_422'', 1), (''V4L2_JPEG_CHROMA_SUBSAMPLING_420'', 2),
       (''V4L2_JPEG_CHROMA_SUBSAMPLING_411'', 3), (''V4L2_JPEG_CHROMA_SUBSAMPLING_410'', 4),
       (''V4L2_JPEG_CHROMA_SUBSAMPLING_GRAY'', 5)],
     Const ''V4L2_CID_JPEG_RESTART_INTERVAL'' (0x9d0900 + 2),
     Const ''V4L2_CID_JPEG_COMPRESSION_QUALITY'' (0x9d0900 + 3),
     Const ''V4L2_CID_JPEG_ACTIVE_MARKER'' (0x9d0900 + 4),
     Const ''V4L2_JPEG_ACTIVE_MARKER_APP0'' (2 ^ 0),
     Const ''V4L2_JPEG_ACTIVE_MARKER_APP1'' (2 ^ 1),
     Const ''V4L2_JPEG_ACTIVE_MARKER_COM'' (2 ^ 16),
     Const ''V4L2_JPEG_ACTIVE_MARKER_DQT'' (2 ^ 17),
     Const ''V4L2_JPEG_ACTIVE_MARKER_DHT'' (2 ^ 18)]"

definition v4l2_controls_9 :: "decl list" where
  "v4l2_controls_9 =
    [Const ''V4L2_CID_IMAGE_SOURCE_CLASS_BASE'' 10356992,
     Const ''V4L2_CID_IMAGE_SOURCE_CLASS'' 10354689, Const ''V4L2_CID_VBLANK'' (0x9e0900 + 1),
     Const ''V4L2_CID_HBLANK'' (0x9e0900 + 2), Const ''V4L2_CID_ANALOGUE_GAIN'' (0x9e0900 + 3),
     Const ''V4L2_CID_TEST_PATTERN_RED'' (0x9e0900 + 4),
     Const ''V4L2_CID_TEST_PATTERN_GREENR'' (0x9e0900 + 5),
     Const ''V4L2_CID_TEST_PATTERN_BLUE'' (0x9e0900 + 6),
     Const ''V4L2_CID_TEST_PATTERN_GREENB'' (0x9e0900 + 7),
     Const ''V4L2_CID_IMAGE_PROC_CLASS_BASE'' 10422528,
     Const ''V4L2_CID_IMAGE_PROC_CLASS'' 10420225, Const ''V4L2_CID_LINK_FREQ'' (0x9f0900 + 1),
     Const ''V4L2_CID_PIXEL_RATE'' (0x9f0900 + 2),
     Const ''V4L2_CID_TEST_PATTERN'' (0x9f0900 + 3), Const ''V4L2_CID_DV_CLASS_BASE'' 10488064,
     Const ''V4L2_CID_DV_CLASS'' 10485761, Const ''V4L2_CID_DV_TX_HOTPLUG'' (0xa00900 + 1),
     Const ''V4L2_CID_DV_TX_RXSENSE'' (0xa00900 + 2),
     Const ''V4L2_CID_DV_TX_EDID_PRESENT'' (0xa00900 + 3),
     Const ''V4L2_CID_DV_TX_MODE'' (0xa00900 + 4),
     Enum ''v4l2_dv_tx_mode'' [(''V4L2_DV_TX_MODE_DVI_D'', 0), (''V4L2_DV_TX_MODE_HDMI'', 1)],
     Const ''V4L2_CID_DV_TX_RGB_RANGE'' (0xa00900 + 5),
     Enum ''v4l2_dv_rgb_range'' [(''V4L2_DV_RGB_RANGE_AUTO'', 0),
       (''V4L2_DV_RGB_RANGE_LIMITED'', 1), (''V4L2_DV_RGB_RANGE_FULL'', 2)],
     Const ''V4L2_CID_DV_TX_IT_CONTENT_TYPE'' (0xa00900 + 6),
     Enum ''v4l2_dv_it_content_type'' [(''V4L2_DV_IT_CONTENT_TYPE_GRAPHICS'', 0),
       (''V4L2_DV_IT_CONTENT_TYPE_PHOTO'', 1), (''V4L2_DV_IT_CONTENT_TYPE_CINEMA'', 2),
       (''V4L2_DV_IT_CONTENT_TYPE_GAME'', 3), (''V4L2_DV_IT_CONTENT_TYPE_NO_ITC'', 4)],
     Const ''V4L2_CID_DV_RX_POWER_PRESENT'' (0xa00900 + 100),
     Const ''V4L2_CID_DV_RX_RGB_RANGE'' (0xa00900 + 101),
     Const ''V4L2_CID_DV_RX_IT_CONTENT_TYPE'' (0xa00900 + 102),
     Const ''V4L2_CID_FM_RX_CLASS_BASE'' 10553600, Const ''V4L2_CID_FM_RX_CLASS'' 10551297,
     Const ''V4L2_CID_TUNE_DEEMPHASIS'' (0xa10900 + 1),
     Enum ''v4l2_deemphasis'' [(''V4L2_DEEMPHASIS_DISABLED'', 0), (''V4L2_DEEMPHASIS_50_uS'', 1),
       (''V4L2_DEEMPHASIS_75_uS'', 2)],
     Const ''V4L2_CID_RDS_RECEPTION'' (0xa10900 + 2),
     Const ''V4L2_CID_RDS_RX_PTY'' (0xa10900 + 3),
     Const ''V4L2_CID_RDS_RX_PS_NAME'' (0xa10900 + 4),
     Const ''V4L2_CID_RDS_RX_RADIO_TEXT'' (0xa10900 + 5),
     Const ''V4L2_CID_RDS_RX_TRAFFIC_ANNOUNCEMENT'' (0xa10900 + 6),
     Const ''V4L2_CID_RDS_RX_TRAFFIC_PROGRAM'' (0xa10900 + 7),
     Const ''V4L2_CID_RDS_RX_MUSIC_SPEECH'' (0xa10900 + 8),
     Const ''V4L2_CID_RF_TUNER_CLASS_BASE'' 10619136,
     Const ''V4L2_CID_RF_TUNER_CLASS'' 10616833,
     Const ''V4L2_CID_RF_TUNER_BANDWIDTH_AUTO'' (0xa20900 + 11),
     Const ''V4L2_CID_RF_TUNER_BANDWIDTH'' (0xa20900 + 12),
     Const ''V4L2_CID_RF_TUNER_RF_GAIN'' (0xa20900 + 32),
     Const ''V4L2_CID_RF_TUNER_LNA_GAIN_AUTO'' (0xa20900 + 41),
     Const ''V4L2_CID_RF_TUNER_LNA_GAIN'' (0xa20900 + 42),
     Const ''V4L2_CID_RF_TUNER_MIXER_GAIN_AUTO'' (0xa20900 + 51),
     Const ''V4L2_CID_RF_TUNER_MIXER_GAIN'' (0xa20900 + 52),
     Const ''V4L2_CID_RF_TUNER_IF_GAIN_AUTO'' (0xa20900 + 61),
     Const ''V4L2_CID_RF_TUNER_IF_GAIN'' (0xa20900 + 62),
     Const ''V4L2_CID_RF_TUNER_PLL_LOCK'' (0xa20900 + 91),
     Const ''V4L2_CID_DETECT_CLASS_BASE'' 10684672, Const ''V4L2_CID_DETECT_CLASS'' 10682369,
     Const ''V4L2_CID_DETECT_MD_MODE'' (0xa30900 + 1),
     Enum ''v4l2_detect_md_mode'' [(''V4L2_DETECT_MD_MODE_DISABLED'', 0),
       (''V4L2_DETECT_MD_MODE_GLOBAL'', 1), (''V4L2_DETECT_MD_MODE_THRESHOLD_GRID'', 2),
       (''V4L2_DETECT_MD_MODE_REGION_GRID'', 3)],
     Const ''V4L2_CID_DETECT_MD_GLOBAL_THRESHOLD'' (0xa30900 + 2),
     Const ''V4L2_CID_DETECT_MD_THRESHOLD_GRID'' (0xa30900 + 3),
     Const ''V4L2_CID_DETECT_MD_REGION_GRID'' (0xa30900 + 4)]"

definition v4l2_controls_h :: "decl list" where
  "v4l2_controls_h = v4l2_controls_1 @ v4l2_controls_2 @ v4l2_controls_3 @ v4l2_controls_4 @ v4l2_controls_5 @
     v4l2_controls_6 @ v4l2_controls_7 @ v4l2_controls_8 @ v4l2_controls_9"

end
