(* ===== verification/HeadersAgree.thy ===== *)
theory HeadersAgree
  imports LayoutDrm LayoutVideo LayoutIpa LayoutQmi LayoutKgsl LayoutMdp LayoutCal LayoutAudio
    LayoutSound LayoutCamera LayoutSensor LayoutCam LayoutControls
    LayoutMisc
    SanDrm SanVideo SanIpa SanQmi SanKgsl SanMdp SanCal SanAudio SanSound SanCamera SanSensor
    SanCam SanControls SanMisc SanCodec
begin















section \<open>All headers, by file name\<close>




end
