(* ===== verification/PyText.thy ===== *)
theory PyText
  imports CText
begin

text \<open>
  Text as Python programs read it: lines with any of the three line ends, words between white
  space, and \<open>int()\<close> of a word. Texts are ASCII.
\<close>

section \<open>Lines\<close>

definition LF :: char where "LF = CHR 0x0A"
definition CR :: char where "CR = CHR 0x0D"

text \<open>A file opened as text: the line ends of other systems are read as line feeds.\<close>

fun newlines :: "bool \<Rightarrow> string \<Rightarrow> string" where
  "newlines after_cr [] = []"
| "newlines after_cr (c # cs) =
     (if c = CR then LF # newlines True cs
      else if after_cr \<and> c = LF then newlines False cs
      else c # newlines False cs)"

lemma newlines_id: "CR \<notin> set s \<Longrightarrow> newlines False s = s"
  by (induction s) auto

text \<open>\<open>readline\<close> until it returns the empty text, which is the last line here.\<close>

fun readlines :: "string \<Rightarrow> string \<Rightarrow> string list" where
  "readlines line [] = (if line = [] then [[]] else [line, []])"
| "readlines line (c # cs) =
     (if c = LF then (line @ [LF]) # readlines [] cs else readlines (line @ [c]) cs)"

lemma readlines_line: "LF \<notin> set l \<Longrightarrow> readlines p (l @ LF # t) = (p @ l @ [LF]) # readlines [] t"
  by (induction l arbitrary: p) auto

section \<open>Words\<close>

definition py_space :: "char \<Rightarrow> bool" where
  "py_space c \<longleftrightarrow> is_space c \<or> 28 \<le> (of_char c :: nat) \<and> of_char c \<le> (31 :: nat)"

fun split_from :: "string \<Rightarrow> string \<Rightarrow> string list" where
  "split_from w [] = (if w = [] then [] else [w])"
| "split_from w (c # cs) =
     (if py_space c then (if w = [] then [] else [w]) @ split_from [] cs
      else split_from (w @ [c]) cs)"

definition split :: "string \<Rightarrow> string list" where
  "split s = split_from [] s"

definition is_word :: "string \<Rightarrow> bool" where
  "is_word w \<longleftrightarrow> w \<noteq> [] \<and> list_all (\<lambda>c. \<not> py_space c) w"

lemma split_from_word: "list_all (\<lambda>c. \<not> py_space c) w \<Longrightarrow> split_from v (w @ t) = split_from (v @ w) t"
  by (induction w arbitrary: v) auto

lemma split_Nil [simp]: "split [] = []"
  by (simp add: split_def)

lemma split_space [simp]: "py_space c \<Longrightarrow> split (c # s) = split s"
  by (simp add: split_def)

lemma split_word: "is_word w \<Longrightarrow> py_space c \<Longrightarrow> split (w @ c # t) = w # split t"
  by (simp add: split_def is_word_def split_from_word)

lemma py_space_simps [simp]: "py_space CHR '' ''" "py_space LF"
  by (simp_all add: py_space_def is_space_def LF_def)

section \<open>Numbers\<close>

text \<open>Single underscores may stand between digits.\<close>

fun digits :: "nat \<Rightarrow> string \<Rightarrow> nat option" where
  "digits a [] = Some a"
| "digits a (c # cs) =
     (if is_digit 10 c then digits (a * 10 + the (digit_val c)) cs
      else if c = CHR ''_'' then
        (case cs of [] \<Rightarrow> None | d # _ \<Rightarrow> if is_digit 10 d then digits a cs else None)
      else None)"

definition py_nat :: "string \<Rightarrow> nat option" where
  "py_nat s = (case s of [] \<Rightarrow> None | c # _ \<Rightarrow> if is_digit 10 c then digits 0 s else None)"

definition py_int :: "string \<Rightarrow> int option" where
  "py_int s =
     (case s of
        [] \<Rightarrow> None
      | c # t \<Rightarrow>
          if c = CHR ''-'' then map_option (\<lambda>n. - int n) (py_nat t)
          else if c = CHR ''+'' then map_option int (py_nat t)
          else map_option int (py_nat s))"

lemma digits_all: "list_all (is_digit 10) s \<Longrightarrow>
  digits a s = Some (foldl (\<lambda>a c. a * 10 + the (digit_val c)) a s)"
  by (induction s arbitrary: a) auto

lemma dec_digits: "list_all (is_digit 10) (dec n)"
  using num_digits [of 10 _ n] by (auto simp: dec_num list_all_iff)

lemma py_nat_dec: "py_nat (dec n) = Some n"
proof -
  obtain c t where ct: "dec n = c # t" "is_digit 10 c"
    using num_head [of 10 n] by (auto simp: dec_num)
  have "py_nat (dec n) = digits 0 (dec n)" using ct by (simp add: py_nat_def)
  also have "\<dots> = Some (digits_value 10 (dec n))"
    using digits_all [OF dec_digits] by (simp add: digits_value_def)
  finally show ?thesis using num_value [of 10 n] by (simp add: dec_num)
qed

text \<open>\<open>str\<close> of a number is \<open>print\_d\<close>; \<open>int\<close> reads it back.\<close>

lemma py_int_print: "py_int (print_d v) = Some v"
proof (cases "v < 0")
  case True
  then show ?thesis by (simp add: py_int_def print_d_def py_nat_dec)
next
  case False
  obtain c t where ct: "dec (nat v) = c # t" "is_digit 10 c"
    using num_head [of 10 "nat v"] by (auto simp: dec_num)
  have "py_int (dec (nat v)) = map_option int (py_nat (dec (nat v)))"
    using digit_not_special [OF ct(2)] by (simp add: ct(1) py_int_def)
  with False show ?thesis by (simp add: print_d_def py_nat_dec)
qed

lemma digit_no_space:
  assumes "is_digit 10 c"
  shows "\<not> py_space c" "c \<noteq> LF" "c \<noteq> CR"
proof -
  have "48 \<le> (of_char c :: nat)"
    using assms by (auto simp: is_digit_def digit_val_def Let_def split: if_splits)
  then show "\<not> py_space c" "c \<noteq> LF" "c \<noteq> CR"
    by (auto simp: py_space_def is_space_def LF_def CR_def)
qed

lemma print_d_chars: "c \<in> set (print_d v) \<Longrightarrow> c = CHR ''-'' \<or> is_digit 10 c"
  using dec_digits [of "nat v"] dec_digits [of "nat (- v)"]
  by (auto simp: print_d_def list_all_iff split: if_splits)

lemma print_d_word: "is_word (print_d v)"
proof -
  have "print_d v \<noteq> []" by (simp add: print_d_def)
  moreover have "\<not> py_space c" if "c \<in> set (print_d v)" for c
    using print_d_chars [OF that] digit_no_space
    by (auto simp: py_space_def is_space_def)
  ultimately show ?thesis by (simp add: is_word_def list_all_iff)
qed

lemma print_d_no_line: "LF \<notin> set (print_d v)" "CR \<notin> set (print_d v)"
  using print_d_chars [of LF v] print_d_chars [of CR v] digit_no_space [of LF] digit_no_space [of CR]
  by (auto simp: LF_def CR_def)

end
