(* ===== verification/TuningConvert.thy ===== *)
theory TuningConvert
  imports PyText "HOL-Library.Word"
begin

text \<open>
  The tool that turns the tuning of the speaker amplifier from text into the binary files of the
  firmware and back (audio/convert\_config\_string.py): the checksum, the two conversions of the
  sample width, the two directions and the command line. A configuration is a list of 32-bit
  numbers whose last one is the checksum of the others. The state is the file system; an
  exception leaves it as it is at that moment.
\<close>

unbundle bit_operations_syntax

datatype py_exn = IndexError | ValueError | OverflowError | TypeError | OSError | SystemExit

section \<open>The checksum\<close>

definition crc_step :: "int \<Rightarrow> int" where
  "crc_step crc =
     ((drop_bit 1 crc AND 0xffffffff) XOR
      (0xEDB88320 AND (- (crc AND 1) AND 0xffffffff))) AND 0xffffffff"

definition crc_word :: "int \<Rightarrow> int \<Rightarrow> int" where
  "crc_word crc w = (crc_step ^^ (4 * 8)) (crc XOR (w AND 0xffffffff))"

definition Generate_CRC :: "int list \<Rightarrow> int" where
  "Generate_CRC inlist =
     (let crc = foldl crc_word (NOT 0 AND 0xffffffff) (butlast inlist);
          crc = NOT crc AND 0xffffffff
      in if crc > 0x7fffffff then - (0x7fffffff - (crc AND 0x7fffffff) + 1) else crc)"

section \<open>Sample width\<close>

definition coded16 :: "int \<Rightarrow> int \<Rightarrow> bool" where
  "coded16 a b \<longleftrightarrow> a = 17 \<and> b \<in> {0, 1, 2, 3} \<or> a = 16 \<and> b \<in> {5, 4}"

definition coded24 :: "int \<Rightarrow> int \<Rightarrow> bool" where
  "coded24 a b \<longleftrightarrow> a = 53 \<and> b \<in> {0, 1, 2, 3} \<or> a = 52 \<and> b \<in> {5, 4}"

definition to24 :: "int \<Rightarrow> int \<Rightarrow> int" where
  "to24 a b = (if coded16 a b then (if a = 17 then 53 else 52) else a)"

definition to16 :: "int \<Rightarrow> int \<Rightarrow> int" where
  "to16 a b = (if coded24 a b then (if a = 53 then 17 else 16) else a)"

text \<open>The loop over the numbers after the header, in place.\<close>

primrec recode :: "(int \<Rightarrow> int \<Rightarrow> int) \<Rightarrow> nat list \<Rightarrow> int list \<Rightarrow> int list" where
  "recode f [] binarydata = binarydata"
| "recode f (i # is') binarydata =
     recode f is' (binarydata[i := f (binarydata ! i) (binarydata ! (i + 1))])"

lemma recode_length [simp]: "length (recode f is' d) = length d"
  by (induction is' arbitrary: d) simp_all

text \<open>The loop over the widths of the other ports ends at the first that is not as expected.\<close>

fun change_widths :: "int \<Rightarrow> int \<Rightarrow> nat list \<Rightarrow> int list \<Rightarrow> py_exn + (bool \<times> int list)" where
  "change_widths old new [] binarydata = Inr (True, binarydata)"
| "change_widths old new (i # ilist) binarydata =
     (if length binarydata \<le> i then Inl IndexError
      else if binarydata ! i = old then change_widths old new ilist (binarydata[i := new])
      else Inr (False, binarydata))"

text \<open>Both conversions are this one, with the numbers exchanged.\<close>

definition convert ::
    "int \<Rightarrow> int \<Rightarrow> (int \<Rightarrow> int \<Rightarrow> int) \<Rightarrow> int list \<Rightarrow> py_exn + (bool \<times> int list)" where
  "convert old new f binarydata =
     (if length binarydata \<le> 14 then Inl IndexError
      else if binarydata ! 14 = old then
        (case change_widths old new [16, 18, 20] (binarydata[14 := new]) of
           Inl e \<Rightarrow> Inl e
         | Inr (False, d) \<Rightarrow> Inr (False, d)
         | Inr (True, d) \<Rightarrow>
             (let d = recode f [21..<length d - 1] d
              in Inr (True, d[length d - 1 := Generate_CRC d])))
      else if binarydata ! 14 = new then Inr (True, binarydata)
      else Inr (False, binarydata))"

definition convertto24bit :: "int list \<Rightarrow> py_exn + (bool \<times> int list)" where
  "convertto24bit = convert 2 4 to24"

definition convertto16bit :: "int list \<Rightarrow> py_exn + (bool \<times> int list)" where
  "convertto16bit = convert 4 2 to16"

definition detectbitpersample :: "int list \<Rightarrow> py_exn + unit" where
  "detectbitpersample binarydata = (if length binarydata \<le> 14 then Inl IndexError else Inr ())"

section \<open>Files\<close>

type_synonym disk = "string \<Rightarrow> string option"
type_synonym 'a py = "(disk, py_exn, 'a) prog"

text \<open>The machine the tool runs on: its byte order, and the files it may write.\<close>

record host =
  big_endian :: bool
  writable :: "string \<Rightarrow> bool"

definition raise_or :: "py_exn + 'a \<Rightarrow> 'a py" where
  "raise_or r = (case r of Inl e \<Rightarrow> throwE e | Inr a \<Rightarrow> returnE a)"

definition open_in :: "string \<Rightarrow> string py" where
  "open_in f = bindE (getsE (\<lambda>d. d f)) (\<lambda>c. case c of None \<Rightarrow> throwE OSError | Some s \<Rightarrow> returnE s)"

definition open_out :: "host \<Rightarrow> string \<Rightarrow> unit py" where
  "open_out H f = (if writable H f then modifyE (\<lambda>d. d(f \<mapsto> [])) else throwE OSError)"

definition write_out :: "string \<Rightarrow> string \<Rightarrow> unit py" where
  "write_out f s = modifyE (\<lambda>d. d(f \<mapsto> (case d f of None \<Rightarrow> [] | Some c \<Rightarrow> c) @ s))"

text \<open>An array of 32-bit numbers as the bytes of a file.\<close>

definition item_bytes :: "bool \<Rightarrow> int \<Rightarrow> string" where
  "item_bytes big x =
     (let bytes = map (\<lambda>k. char_of (nat (x div 256 ^ k mod 256))) [0, 1, 2, 3]
      in if big then rev bytes else bytes)"

definition item_value :: "bool \<Rightarrow> string \<Rightarrow> int" where
  "item_value big s =
     (let v = foldr (\<lambda>c v. int (of_char c) + 256 * v) (if big then rev s else s) 0
      in if v < 2 ^ 31 then v else v - 2 ^ 32)"

definition tofile :: "bool \<Rightarrow> int list \<Rightarrow> string" where
  "tofile big xs = concat (map (item_bytes big) xs)"

primrec fromfile :: "bool \<Rightarrow> string \<Rightarrow> nat \<Rightarrow> int list" where
  "fromfile big s 0 = []"
| "fromfile big s (Suc n) = item_value big (take 4 s) # fromfile big (drop 4 s) n"

section \<open>Text and binary files\<close>

text \<open>The text of one macro, written as the loop does it.\<close>

definition write_macro :: "string \<Rightarrow> string \<Rightarrow> int list \<Rightarrow> unit py" where
  "write_macro f name xs =
     bindE (write_out f ([LF, LF, LF] @ ''#define '' @ name @ '' '')) (\<lambda>_.
     bindE (write_out f (concat (map (\<lambda>x. print_d x @ '', '') (butlast xs)))) (\<lambda>_.
     if xs = [] then throwE IndexError
     else write_out f (print_d (last xs) @ [LF, LF, LF, LF])))"

definition array_out :: "host \<Rightarrow> string option \<Rightarrow> int list \<Rightarrow> unit py" where
  "array_out H out xs =
     (case out of None \<Rightarrow> returnE ()
      | Some f \<Rightarrow> bindE (open_out H f) (\<lambda>_. write_out f (tofile (big_endian H) xs)))"

definition convert_mode :: "nat \<Rightarrow> int list \<Rightarrow> int list py" where
  "convert_mode to24bit xs =
     (if to24bit = 0 then bindE (raise_or (detectbitpersample xs)) (\<lambda>_. returnE xs)
      else if to24bit = 1 then
        bindE (raise_or (convertto16bit xs)) (\<lambda>(ok, d). if ok then returnE d else throwE SystemExit)
      else if to24bit = 2 then
        bindE (raise_or (convertto24bit xs)) (\<lambda>(ok, d). if ok then returnE d else throwE SystemExit)
      else returnE xs)"

definition array_in :: "host \<Rightarrow> string \<Rightarrow> int list py" where
  "array_in H f =
     bindE (open_in f) (\<lambda>s. returnE (fromfile (big_endian H) s (length s div 4)))"

definition binary2header ::
    "host \<Rightarrow> string \<Rightarrow> string \<Rightarrow> string \<Rightarrow> nat \<Rightarrow> string option \<Rightarrow> string option \<Rightarrow> unit py" where
  "binary2header H fileinput fileinput1 fileoutput to24bit fileoutput1 fileoutput2 =
     bindE (array_in H fileinput) (\<lambda>binarydata.
     bindE (array_in H fileinput1) (\<lambda>binarydata1.
     bindE (convert_mode to24bit binarydata) (\<lambda>binarydata.
     bindE (open_out H fileoutput) (\<lambda>_.
     bindE (write_macro fileoutput ''CSPL_CONFIG_RX'' binarydata) (\<lambda>_.
     bindE (write_macro fileoutput ''CSPL_CONFIG_TX'' binarydata1) (\<lambda>_.
     bindE (array_out H fileoutput1 binarydata) (\<lambda>_.
     array_out H fileoutput2 binarydata1)))))))"

text \<open>The words of a line after the name of the macro: all but the last end with a comma, and
  an array takes 32-bit numbers only.\<close>

definition in_range :: "int \<Rightarrow> bool" where
  "in_range x \<longleftrightarrow> - (2 ^ 31) \<le> x \<and> x < 2 ^ 31"

definition append_int :: "int list \<Rightarrow> string \<Rightarrow> py_exn + int list" where
  "append_int xs w =
     (case py_int w of None \<Rightarrow> Inl ValueError
      | Some x \<Rightarrow> if in_range x then Inr (xs @ [x]) else Inl OverflowError)"

fun append_words :: "int list \<Rightarrow> string list \<Rightarrow> py_exn + int list" where
  "append_words xs [] = Inr xs"
| "append_words xs (w # ws) =
     (case append_int xs (butlast w) of Inl e \<Rightarrow> Inl e | Inr ys \<Rightarrow> append_words ys ws)"

definition append_line :: "int list \<Rightarrow> string list \<Rightarrow> py_exn + int list" where
  "append_line xs sline =
     (case append_words xs (butlast (drop 2 sline)) of
        Inl e \<Rightarrow> Inl e | Inr ys \<Rightarrow> append_int ys (last sline))"

fun read_lines :: "string list \<Rightarrow> int list \<times> int list \<Rightarrow> py_exn + (int list \<times> int list)" where
  "read_lines [] (RX, TX) = Inr (RX, TX)"
| "read_lines (line # ls) (RX, TX) =
     (let sline = split line in
      if length sline > 1 \<and> sline ! 1 = ''CSPL_CONFIG_RX'' then
        (case append_line RX sline of Inl e \<Rightarrow> Inl e | Inr RX \<Rightarrow> read_lines ls (RX, TX))
      else if length sline > 1 \<and> sline ! 1 = ''CSPL_CONFIG_TX'' then
        (case append_line TX sline of Inl e \<Rightarrow> Inl e | Inr TX \<Rightarrow> read_lines ls (RX, TX))
      else read_lines ls (RX, TX))"

definition read_header :: "string \<Rightarrow> py_exn + (int list \<times> int list)" where
  "read_header s = read_lines (readlines [] (newlines False s)) ([], [])"

definition text_out :: "host \<Rightarrow> string option \<Rightarrow> int list \<Rightarrow> int list \<Rightarrow> unit py" where
  "text_out H out RX TX =
     (case out of None \<Rightarrow> returnE ()
      | Some f \<Rightarrow>
          bindE (open_out H f) (\<lambda>_.
          bindE (whenE (RX \<noteq> []) () (write_macro f ''CSPL_CONFIG_RX'' RX)) (\<lambda>_.
          whenE (TX \<noteq> []) () (write_macro f ''CSPL_CONFIG_TX'' TX))))"

definition header2binary ::
    "host \<Rightarrow> string \<Rightarrow> string option \<Rightarrow> nat \<Rightarrow> string option \<Rightarrow> string option \<Rightarrow> unit py" where
  "header2binary H fileinput fileoutput to24bit fileoutput1 fileoutput2 =
     bindE (open_in fileinput) (\<lambda>s.
     bindE (raise_or (read_header s)) (\<lambda>(RX, TX).
     bindE (convert_mode to24bit RX) (\<lambda>RX.
     bindE (text_out H fileoutput RX TX) (\<lambda>_.
     bindE (whenE (RX \<noteq> []) () (array_out H fileoutput1 RX)) (\<lambda>_.
     whenE (TX \<noteq> []) () (array_out H fileoutput2 TX))))))"

section \<open>The command line\<close>

definition main :: "host \<Rightarrow> string list \<Rightarrow> unit py" where
  "main H argv =
     (if length argv < 4 then returnE ()
      else if argv ! 1 = ''bin'' then
        (if length argv = 4 then throwE IndexError else throwE TypeError)
      else if argv ! 1 = ''txt'' then
        (if length argv = 4 then throwE IndexError
         else header2binary H (argv ! 2) None 0 (Some (argv ! 3)) (Some (argv ! 4)))
      else if argv ! 1 = ''bin16'' \<or> argv ! 1 = ''bin24'' then
        (let to24bit = (if argv ! 1 = ''bin16'' then 1 else 2) in
         if length argv = 5 then
           binary2header H (argv ! 2) (argv ! 3) (argv ! 4) to24bit None None
         else if length argv = 7 then
           binary2header H (argv ! 2) (argv ! 3) (argv ! 4) to24bit
             (Some (argv ! 5)) (Some (argv ! 6))
         else returnE ())
      else if argv ! 1 = ''txt16'' \<or> argv ! 1 = ''txt24'' then
        (let to24bit = (if argv ! 1 = ''txt16'' then 1 else 2) in
         if length argv = 4 then header2binary H (argv ! 2) (Some (argv ! 3)) to24bit None None
         else if length argv = 6 then
           header2binary H (argv ! 2) (Some (argv ! 3)) to24bit (Some (argv ! 4)) (Some (argv ! 5))
         else returnE ())
      else returnE ())"

end
