(* ===== verification/TuningCrc.thy ===== *)
theory TuningCrc
  imports TuningConvert
begin

text \<open>
  The checksum tells any two configurations apart that differ in one number: a round of the
  shift register is injective, because the polynomial has the highest bit.
\<close>

lemma and_mask32: "x AND 0xffffffff = take_bit 32 (x :: int)"
  by (simp add: take_bit_eq_mask mask_eq_exp_minus_1)

definition reg :: "int \<Rightarrow> bool" where
  "reg c \<longleftrightarrow> take_bit 32 c = c"

lemma reg_take [simp]: "reg (take_bit 32 c)"
  by (simp add: reg_def)

lemma reg_bounds: "reg c \<longleftrightarrow> 0 \<le> c \<and> c < 2 ^ 32"
  by (simp add: reg_def take_bit_int_eq_self_iff)

lemma reg_xor: "reg a \<Longrightarrow> reg b \<Longrightarrow> reg (a XOR b)"
  by (simp add: reg_def take_bit_xor)

lemma crc_step_reg [simp]: "reg (crc_step c)"
  unfolding crc_step_def and_mask32 by (rule reg_take)

lemma crc_step_cases:
  assumes "reg c"
  shows "crc_step c = (if even c then c div 2 else (c div 2) XOR 0xEDB88320)"
proof -
  have half: "take_bit 32 (c div 2) = c div 2"
    by (rule take_bit_int_eq_self) (use assms in \<open>auto simp: reg_bounds\<close>)
  have odd: "c AND 1 = (if even c then 0 else 1)"
    by (simp add: and_one_eq mod_2_eq_odd)
  show ?thesis
    using half by (simp add: crc_step_def and_mask32 odd drop_bit_Suc take_bit_xor mask_eq_exp_minus_1)
qed

lemma crc_step_inj:
  assumes "reg c" and "reg d" and "crc_step c = crc_step d"
  shows "c = d"
proof -
  have low: "\<not> bit (x div 2) 31" if "reg x" for x
  proof -
    have "take_bit 31 (x div 2) = x div 2"
      by (rule take_bit_int_eq_self) (use that in \<open>auto simp: reg_bounds\<close>)
    then show ?thesis by (metis bit_take_bit_iff less_irrefl)
  qed
  have high: "bit (x div 2 XOR 0xEDB88320) 31" if "reg x" for x
    using low [OF that] by (simp add: bit_xor_iff)
  have cancel: "a XOR x = b XOR x \<Longrightarrow> a = b" for a b x :: int
    by (metis xor.assoc xor_self_eq xor.right_neutral)
  have "even c = even d \<and> c div 2 = d div 2"
    using assms low high crc_step_cases cancel by (metis (full_types))
  then show ?thesis by (metis even_iff_mod_2_eq_zero mult_div_mod_eq not_mod_2_eq_0_eq_1)
qed

lemma crc_steps_inj: "reg c \<Longrightarrow> reg d \<Longrightarrow> (crc_step ^^ n) c = (crc_step ^^ n) d \<Longrightarrow> c = d"
proof (induction n arbitrary: c d)
  case (Suc n)
  then have "(crc_step ^^ n) (crc_step c) = (crc_step ^^ n) (crc_step d)"
    by (simp add: funpow_swap1)
  then have "crc_step c = crc_step d" by (rule Suc.IH [OF crc_step_reg crc_step_reg])
  with Suc.prems crc_step_inj show ?case by blast
qed simp

lemma crc_steps_reg: "reg c \<Longrightarrow> reg ((crc_step ^^ n) c)"
  by (cases n) simp_all

lemma crc_word_reg: "reg c \<Longrightarrow> reg (crc_word c w)"
  by (simp add: crc_word_def and_mask32 crc_steps_reg reg_xor)

lemma crc_word_inj:
  assumes "reg c" and "reg d" and "crc_word c v = crc_word d w"
  shows "c XOR take_bit 32 v = d XOR take_bit 32 w"
  using assms crc_steps_inj [of "c XOR take_bit 32 v" "d XOR take_bit 32 w" 32]
  by (simp add: crc_word_def and_mask32 reg_xor)

lemma xor_cancel: "a XOR x = b XOR x \<longleftrightarrow> a = (b :: int)"
  by (metis xor.assoc xor_self_eq xor.right_neutral)

lemma foldl_crc_inj:
  "reg c \<Longrightarrow> reg d \<Longrightarrow> foldl crc_word c ws = foldl crc_word d ws \<Longrightarrow> c = d"
proof (induction ws arbitrary: c d)
  case (Cons w ws)
  then have "crc_word c w = crc_word d w" by (simp add: crc_word_reg)
  with Cons.prems crc_word_inj [of c d w w] show ?case by (simp add: xor_cancel)
qed simp

lemma foldl_crc_reg: "reg c \<Longrightarrow> reg (foldl crc_word c ws)"
  by (induction ws arbitrary: c) (simp_all add: crc_word_reg)

text \<open>The register as a signed number.\<close>

definition as_signed :: "int \<Rightarrow> int" where
  "as_signed c = (if c > 0x7fffffff then c - 2 ^ 32 else c)"

definition crc_of :: "int list \<Rightarrow> int" where
  "crc_of ws = foldl crc_word 0xffffffff ws"

lemma crc_of_reg [simp]: "reg (crc_of ws)"
  unfolding crc_of_def by (rule foldl_crc_reg) (simp add: reg_bounds)

lemma Generate_CRC_alt: "Generate_CRC xs = as_signed (0xffffffff - crc_of (butlast xs))"
proof -
  have neg: "NOT c AND 0xffffffff = 0xffffffff - c" if "reg c" for c
    using that unfolding and_mask32 take_bit_not_eq_mask_diff reg_def
    by (simp add: mask_eq_exp_minus_1)
  have sign: "- (0x7fffffff - (c AND 0x7fffffff) + 1) = c - 2 ^ 32"
    if "0x7fffffff < c" "c < 2 ^ 32" for c :: int
  proof -
    have "c AND 0x7fffffff = take_bit 31 c" by (simp add: take_bit_eq_mask mask_eq_exp_minus_1)
    also have "\<dots> = (c - 2 ^ 31) mod 2 ^ 31"
      unfolding take_bit_eq_mod by (rule minus_mod_self2 [symmetric])
    also have "\<dots> = c - 2 ^ 31" using that by (intro mod_pos_pos_trivial) simp_all
    finally show ?thesis by simp
  qed
  have bounds: "0 \<le> crc_of (butlast xs)" "crc_of (butlast xs) < 2 ^ 32"
    using crc_of_reg [of "butlast xs"] by (simp_all add: reg_bounds)
  have "Generate_CRC xs =
    (let crc = 0xffffffff - crc_of (butlast xs)
     in if crc > 0x7fffffff then - (0x7fffffff - (crc AND 0x7fffffff) + 1) else crc)"
    using neg [OF crc_of_reg, of "butlast xs"] by (simp add: Generate_CRC_def crc_of_def)
  with sign [of "0xffffffff - crc_of (butlast xs)"] bounds show ?thesis
    by (simp add: as_signed_def Let_def)
qed

lemma Generate_CRC_range: "in_range (Generate_CRC xs)"
  using crc_of_reg [of "butlast xs"]
  by (simp add: Generate_CRC_alt as_signed_def in_range_def reg_bounds)

lemma Generate_CRC_eq:
  "Generate_CRC xs = Generate_CRC ys \<longleftrightarrow> crc_of (butlast xs) = crc_of (butlast ys)"
  using crc_of_reg [of "butlast xs"] crc_of_reg [of "butlast ys"]
  by (auto simp: Generate_CRC_alt as_signed_def reg_bounds split: if_splits)

lemma take_bit_in_range:
  assumes "take_bit 32 v = take_bit 32 w" and "in_range v" and "in_range w"
  shows "v = w"
proof -
  have "(x + 2 ^ 31) mod 2 ^ 32 = x + 2 ^ 31" if "in_range x" for x
    using that by (intro mod_pos_pos_trivial) (simp_all add: in_range_def)
  moreover have "(v + 2 ^ 31) mod 2 ^ 32 = (w + 2 ^ 31) mod 2 ^ 32"
    using assms(1) unfolding take_bit_eq_mod by (rule mod_add_cong) (rule refl)
  ultimately show ?thesis using assms(2,3) by simp
qed

lemma crc_of_update:
  assumes "i < length ws" and "in_range v" and "in_range (ws ! i)"
    and "crc_of (ws[i := v]) = crc_of ws"
  shows "v = ws ! i"
proof -
  let ?c = "crc_of (take i ws)"
  have split: "ws = take i ws @ ws ! i # drop (Suc i) ws" "ws[i := v] = take i ws @ v # drop (Suc i) ws"
    using assms(1) by (simp_all add: id_take_nth_drop upd_conv_take_nth_drop)
  have "foldl crc_word (crc_word ?c v) (drop (Suc i) ws) =
      foldl crc_word (crc_word ?c (ws ! i)) (drop (Suc i) ws)"
    using assms(4) by (subst (asm) (2) split(1)) (simp add: split(2) crc_of_def)
  then have "crc_word ?c v = crc_word ?c (ws ! i)" by (simp add: foldl_crc_inj crc_word_reg)
  then have "?c XOR take_bit 32 v = ?c XOR take_bit 32 (ws ! i)"
    by (simp add: crc_word_inj)
  then have "take_bit 32 v = take_bit 32 (ws ! i)" by (metis xor.commute xor_cancel)
  then show ?thesis using assms(2,3) by (rule take_bit_in_range)
qed

end
