(* ===== verification/TuningEval.thy ===== *)
theory TuningEval
  imports TuningCrc
begin

text \<open>
  The checksum computed a byte at a time, with a table of 256 entries, which makes it possible
  to evaluate it on the configurations that are shipped.
\<close>

text \<open>The entries of the table.\<close>

definition crc_byte :: "int \<Rightarrow> int" where
  "crc_byte c = (crc_step ^^ 8) c"

text \<open>One byte at a time.\<close>

lemma crc_step_xor: "reg a \<Longrightarrow> reg b \<Longrightarrow> crc_step (a XOR b) = crc_step a XOR crc_step b"
proof -
  assume ab: "reg a" "reg b"
  have half: "(a XOR b) div 2 = a div 2 XOR b div 2"
    using drop_bit_xor [of 1 a b] unfolding drop_bit_eq_div by simp
  have par: "even (a XOR b) \<longleftrightarrow> (even a \<longleftrightarrow> even b)" by (simp add: even_xor_iff)
  show ?thesis
    by (simp add: crc_step_cases ab reg_xor half par ac_simps)
qed

lemma crc_steps_xor:
  "reg a \<Longrightarrow> reg b \<Longrightarrow> (crc_step ^^ n) (a XOR b) = (crc_step ^^ n) a XOR (crc_step ^^ n) b"
  by (induction n) (simp_all add: crc_step_xor crc_steps_reg)

lemma crc_steps_push: "reg (push_bit n k) \<Longrightarrow> 0 \<le> k \<Longrightarrow> (crc_step ^^ n) (push_bit n k) = k"
proof (induction n)
  case (Suc n)
  have le: "push_bit n k \<le> push_bit (Suc n) k" using Suc.prems(2) by (simp add: push_bit_eq_mult)
  have "crc_step (push_bit (Suc n) k) = push_bit n k"
    using crc_step_cases [OF Suc.prems(1)] by (simp add: push_bit_eq_mult)
  moreover have "reg (push_bit n k)"
    using Suc.prems le by (simp add: reg_bounds push_bit_nonnegative_int_iff)
  ultimately show ?case using Suc by (simp add: funpow_swap1)
qed simp

definition crc_eat :: "int \<Rightarrow> int" where "crc_eat c = drop_bit 8 c XOR crc_byte (c AND 255)"

lemma crc_steps8: "reg c \<Longrightarrow> (crc_step ^^ 8) c = crc_eat c"
proof -
  assume c: "reg c"
  let ?h = "push_bit 8 (drop_bit 8 c)"
  have mask: "c AND 255 = take_bit 8 c" by (simp add: take_bit_eq_mask mask_eq_exp_minus_1)
  have parts: "c = ?h XOR take_bit 8 c"
    by (rule bit_eqI) (auto simp: bit_xor_iff bit_push_bit_iff bit_drop_bit_eq bit_take_bit_iff)
  have low: "reg (take_bit 8 c)" by (simp add: reg_def take_bit_take_bit)
  have "?h = c XOR take_bit 8 c" by (subst (2) parts) (simp add: xor.assoc)
  then have h: "reg ?h" using c low by (simp add: reg_xor)
  have k: "0 \<le> drop_bit 8 c" using c by (simp add: reg_bounds)
  have "(crc_step ^^ 8) c = (crc_step ^^ 8) (?h XOR take_bit 8 c)" using parts by simp
  also have "\<dots> = (crc_step ^^ 8) ?h XOR (crc_step ^^ 8) (take_bit 8 c)"
    by (rule crc_steps_xor [OF h low])
  finally show ?thesis
    by (simp only: crc_steps_push [OF h k] crc_eat_def mask crc_byte_def)
qed

definition crc_run :: "int \<Rightarrow> int list \<Rightarrow> int" where
  "crc_run c ws = foldl crc_word c ws"

lemma crc_run_cong: "c = d \<Longrightarrow> crc_run c ws = crc_run d ws" by simp

lemma crc_eat_reg: "reg c \<Longrightarrow> reg (crc_eat c)"
  by (metis crc_steps8 crc_steps_reg)

lemma crc_word_bytes:
  "reg c \<Longrightarrow> crc_word c w = crc_eat (crc_eat (crc_eat (crc_eat (c XOR (w AND 0xffffffff)))))"
proof -
  assume "reg c"
  then have c: "reg (c XOR (w AND 0xffffffff))" by (simp add: and_mask32 reg_xor)
  have "(crc_step ^^ (4 * 8)) d = (crc_step ^^ 8) ((crc_step ^^ 8) ((crc_step ^^ 8) ((crc_step ^^ 8) d)))" for d
    using funpow_add [of 16 16 crc_step] funpow_add [of 8 8 crc_step] by (simp add: fun_eq_iff)
  with c show ?thesis by (simp add: crc_word_def crc_steps8 crc_eat_reg)
qed

lemma crc_run_Cons: "reg c \<Longrightarrow>
  crc_run c (w # ws) = crc_run (crc_eat (crc_eat (crc_eat (crc_eat (c XOR (w AND 0xffffffff)))))) ws"
  by (simp add: crc_run_def crc_word_bytes)

lemma crc_run_Nil: "crc_run c [] = c"
  by (simp add: crc_run_def)

lemma steps8: "(crc_step ^^ 8) c =
  crc_step (crc_step (crc_step (crc_step (crc_step (crc_step (crc_step (crc_step c)))))))"
  by (simp add: numeral_eq_Suc)
lemma crc_table_1:
  "crc_byte 0 = 0"
  "crc_byte 1 = 1996959894"
  "crc_byte 2 = 3993919788"
  "crc_byte 3 = 2567524794"
  "crc_byte 4 = 124634137"
  "crc_byte 5 = 1886057615"
  "crc_byte 6 = 3915621685"
  "crc_byte 7 = 2657392035"
  "crc_byte 8 = 249268274"
  "crc_byte 9 = 2044508324"
  "crc_byte 10 = 3772115230"
  "crc_byte 11 = 2547177864"
  "crc_byte 12 = 162941995"
  "crc_byte 13 = 2125561021"
  "crc_byte 14 = 3887607047"
  "crc_byte 15 = 2428444049"
  "crc_byte 16 = 498536548"
  "crc_byte 17 = 1789927666"
  "crc_byte 18 = 4089016648"
  "crc_byte 19 = 2227061214"
  "crc_byte 20 = 450548861"
  "crc_byte 21 = 1843258603"
  "crc_byte 22 = 4107580753"
  "crc_byte 23 = 2211677639"
  "crc_byte 24 = 325883990"
  "crc_byte 25 = 1684777152"
  "crc_byte 26 = 4251122042"
  "crc_byte 27 = 2321926636"
  "crc_byte 28 = 335633487"
  "crc_byte 29 = 1661365465"
  "crc_byte 30 = 4195302755"
  "crc_byte 31 = 2366115317"
  "crc_byte 32 = 997073096"
  "crc_byte 33 = 1281953886"
  "crc_byte 34 = 3579855332"
  "crc_byte 35 = 2724688242"
  "crc_byte 36 = 1006888145"
  "crc_byte 37 = 1258607687"
  "crc_byte 38 = 3524101629"
  "crc_byte 39 = 2768942443"
  "crc_byte 40 = 901097722"
  "crc_byte 41 = 1119000684"
  "crc_byte 42 = 3686517206"
  "crc_byte 43 = 2898065728"
  "crc_byte 44 = 853044451"
  "crc_byte 45 = 1172266101"
  "crc_byte 46 = 3705015759"
  "crc_byte 47 = 2882616665"
  "crc_byte 48 = 651767980"
  "crc_byte 49 = 1373503546"
  "crc_byte 50 = 3369554304"
  "crc_byte 51 = 3218104598"
  "crc_byte 52 = 565507253"
  "crc_byte 53 = 1454621731"
  "crc_byte 54 = 3485111705"
  "crc_byte 55 = 3099436303"
  "crc_byte 56 = 671266974"
  "crc_byte 57 = 1594198024"
  "crc_byte 58 = 3322730930"
  "crc_byte 59 = 2970347812"
  "crc_byte 60 = 795835527"
  "crc_byte 61 = 1483230225"
  "crc_byte 62 = 3244367275"
  "crc_byte 63 = 3060149565"
  by (simp_all add: crc_byte_def crc_step_def steps8)

lemma crc_table_2:
  "crc_byte 64 = 1994146192"
  "crc_byte 65 = 31158534"
  "crc_byte 66 = 2563907772"
  "crc_byte 67 = 4023717930"
  "crc_byte 68 = 1907459465"
  "crc_byte 69 = 112637215"
  "crc_byte 70 = 2680153253"
  "crc_byte 71 = 3904427059"
  "crc_byte 72 = 2013776290"
  "crc_byte 73 = 251722036"
  "crc_byte 74 = 2517215374"
  "crc_byte 75 = 3775830040"
  "crc_byte 76 = 2137656763"
  "crc_byte 77 = 141376813"
  "crc_byte 78 = 2439277719"
  "crc_byte 79 = 3865271297"
  "crc_byte 80 = 1802195444"
  "crc_byte 81 = 476864866"
  "crc_byte 82 = 2238001368"
  "crc_byte 83 = 4066508878"
  "crc_byte 84 = 1812370925"
  "crc_byte 85 = 453092731"
  "crc_byte 86 = 2181625025"
  "crc_byte 87 = 4111451223"
  "crc_byte 88 = 1706088902"
  "crc_byte 89 = 314042704"
  "crc_byte 90 = 2344532202"
  "crc_byte 91 = 4240017532"
  "crc_byte 92 = 1658658271"
  "crc_byte 93 = 366619977"
  "crc_byte 94 = 2362670323"
  "crc_byte 95 = 4224994405"
  "crc_byte 96 = 1303535960"
  "crc_byte 97 = 984961486"
  "crc_byte 98 = 2747007092"
  "crc_byte 99 = 3569037538"
  "crc_byte 100 = 1256170817"
  "crc_byte 101 = 1037604311"
  "crc_byte 102 = 2765210733"
  "crc_byte 103 = 3554079995"
  "crc_byte 104 = 1131014506"
  "crc_byte 105 = 879679996"
  "crc_byte 106 = 2909243462"
  "crc_byte 107 = 3663771856"
  "crc_byte 108 = 1141124467"
  "crc_byte 109 = 855842277"
  "crc_byte 110 = 2852801631"
  "crc_byte 111 = 3708648649"
  "crc_byte 112 = 1342533948"
  "crc_byte 113 = 654459306"
  "crc_byte 114 = 3188396048"
  "crc_byte 115 = 3373015174"
  "crc_byte 116 = 1466479909"
  "crc_byte 117 = 544179635"
  "crc_byte 118 = 3110523913"
  "crc_byte 119 = 3462522015"
  "crc_byte 120 = 1591671054"
  "crc_byte 121 = 702138776"
  "crc_byte 122 = 2966460450"
  "crc_byte 123 = 3352799412"
  "crc_byte 124 = 1504918807"
  "crc_byte 125 = 783551873"
  "crc_byte 126 = 3082640443"
  "crc_byte 127 = 3233442989"
  by (simp_all add: crc_byte_def crc_step_def steps8)

lemma crc_table_3:
  "crc_byte 128 = 3988292384"
  "crc_byte 129 = 2596254646"
  "crc_byte 130 = 62317068"
  "crc_byte 131 = 1957810842"
  "crc_byte 132 = 3939845945"
  "crc_byte 133 = 2647816111"
  "crc_byte 134 = 81470997"
  "crc_byte 135 = 1943803523"
  "crc_byte 136 = 3814918930"
  "crc_byte 137 = 2489596804"
  "crc_byte 138 = 225274430"
  "crc_byte 139 = 2053790376"
  "crc_byte 140 = 3826175755"
  "crc_byte 141 = 2466906013"
  "crc_byte 142 = 167816743"
  "crc_byte 143 = 2097651377"
  "crc_byte 144 = 4027552580"
  "crc_byte 145 = 2265490386"
  "crc_byte 146 = 503444072"
  "crc_byte 147 = 1762050814"
  "crc_byte 148 = 4150417245"
  "crc_byte 149 = 2154129355"
  "crc_byte 150 = 426522225"
  "crc_byte 151 = 1852507879"
  "crc_byte 152 = 4275313526"
  "crc_byte 153 = 2312317920"
  "crc_byte 154 = 282753626"
  "crc_byte 155 = 1742555852"
  "crc_byte 156 = 4189708143"
  "crc_byte 157 = 2394877945"
  "crc_byte 158 = 397917763"
  "crc_byte 159 = 1622183637"
  "crc_byte 160 = 3604390888"
  "crc_byte 161 = 2714866558"
  "crc_byte 162 = 953729732"
  "crc_byte 163 = 1340076626"
  "crc_byte 164 = 3518719985"
  "crc_byte 165 = 2797360999"
  "crc_byte 166 = 1068828381"
  "crc_byte 167 = 1219638859"
  "crc_byte 168 = 3624741850"
  "crc_byte 169 = 2936675148"
  "crc_byte 170 = 906185462"
  "crc_byte 171 = 1090812512"
  "crc_byte 172 = 3747672003"
  "crc_byte 173 = 2825379669"
  "crc_byte 174 = 829329135"
  "crc_byte 175 = 1181335161"
  "crc_byte 176 = 3412177804"
  "crc_byte 177 = 3160834842"
  "crc_byte 178 = 628085408"
  "crc_byte 179 = 1382605366"
  "crc_byte 180 = 3423369109"
  "crc_byte 181 = 3138078467"
  "crc_byte 182 = 570562233"
  "crc_byte 183 = 1426400815"
  "crc_byte 184 = 3317316542"
  "crc_byte 185 = 2998733608"
  "crc_byte 186 = 733239954"
  "crc_byte 187 = 1555261956"
  "crc_byte 188 = 3268935591"
  "crc_byte 189 = 3050360625"
  "crc_byte 190 = 752459403"
  "crc_byte 191 = 1541320221"
  by (simp_all add: crc_byte_def crc_step_def steps8)

lemma crc_table_4:
  "crc_byte 192 = 2607071920"
  "crc_byte 193 = 3965973030"
  "crc_byte 194 = 1969922972"
  "crc_byte 195 = 40735498"
  "crc_byte 196 = 2617837225"
  "crc_byte 197 = 3943577151"
  "crc_byte 198 = 1913087877"
  "crc_byte 199 = 83908371"
  "crc_byte 200 = 2512341634"
  "crc_byte 201 = 3803740692"
  "crc_byte 202 = 2075208622"
  "crc_byte 203 = 213261112"
  "crc_byte 204 = 2463272603"
  "crc_byte 205 = 3855990285"
  "crc_byte 206 = 2094854071"
  "crc_byte 207 = 198958881"
  "crc_byte 208 = 2262029012"
  "crc_byte 209 = 4057260610"
  "crc_byte 210 = 1759359992"
  "crc_byte 211 = 534414190"
  "crc_byte 212 = 2176718541"
  "crc_byte 213 = 4139329115"
  "crc_byte 214 = 1873836001"
  "crc_byte 215 = 414664567"
  "crc_byte 216 = 2282248934"
  "crc_byte 217 = 4279200368"
  "crc_byte 218 = 1711684554"
  "crc_byte 219 = 285281116"
  "crc_byte 220 = 2405801727"
  "crc_byte 221 = 4167216745"
  "crc_byte 222 = 1634467795"
  "crc_byte 223 = 376229701"
  "crc_byte 224 = 2685067896"
  "crc_byte 225 = 3608007406"
  "crc_byte 226 = 1308918612"
  "crc_byte 227 = 956543938"
  "crc_byte 228 = 2808555105"
  "crc_byte 229 = 3495958263"
  "crc_byte 230 = 1231636301"
  "crc_byte 231 = 1047427035"
  "crc_byte 232 = 2932959818"
  "crc_byte 233 = 3654703836"
  "crc_byte 234 = 1088359270"
  "crc_byte 235 = 936918000"
  "crc_byte 236 = 2847714899"
  "crc_byte 237 = 3736837829"
  "crc_byte 238 = 1202900863"
  "crc_byte 239 = 817233897"
  "crc_byte 240 = 3183342108"
  "crc_byte 241 = 3401237130"
  "crc_byte 242 = 1404277552"
  "crc_byte 243 = 615818150"
  "crc_byte 244 = 3134207493"
  "crc_byte 245 = 3453421203"
  "crc_byte 246 = 1423857449"
  "crc_byte 247 = 601450431"
  "crc_byte 248 = 3009837614"
  "crc_byte 249 = 3294710456"
  "crc_byte 250 = 1567103746"
  "crc_byte 251 = 711928724"
  "crc_byte 252 = 3020668471"
  "crc_byte 253 = 3272380065"
  "crc_byte 254 = 1510334235"
  "crc_byte 255 = 755167117"
  by (simp_all add: crc_byte_def crc_step_def steps8)

lemmas crc_table = crc_table_1 crc_table_2 crc_table_3 crc_table_4

lemma reg_numeral: "reg (numeral n) \<longleftrightarrow> numeral n < (2 ^ 32 :: int)" "reg 0" "reg 1"
  by (simp_all add: reg_bounds)

lemma crc_run_append: "crc_run c (xs @ ys) = crc_run (crc_run c xs) ys"
  by (simp add: crc_run_def)

lemma Generate_CRC_run: "Generate_CRC (xs @ [x]) = as_signed (0xffffffff - crc_run 0xffffffff xs)"
  by (simp add: Generate_CRC_alt crc_of_def crc_run_def)

lemmas crc_eval = crc_run_Cons crc_run_Nil crc_eat_def crc_table reg_numeral

end
