(* ===== verification/TuningCorrect.thy ===== *)
theory TuningCorrect
  imports TuningEval
begin

text \<open>
  The properties of the tuning tool: its checksum detects a changed number, the conversion of
  the sample width is undone by the other one, and the text it writes is read back.
\<close>

section \<open>The checksum\<close>

text \<open>C30: A changed number is detected: in a configuration with a right checksum, no number but
  the checksum can be replaced by another 32-bit number such that the checksum is right again.\<close>

theorem changed_number_detected:
  assumes "last d = Generate_CRC d" and "i < length d - 1" and "list_all in_range d"
    and "in_range v" and "v \<noteq> d ! i"
  shows "last (d[i := v]) \<noteq> Generate_CRC (d[i := v])"
proof
  assume "last (d[i := v]) = Generate_CRC (d[i := v])"
  moreover have "last (d[i := v]) = last d"
    using assms(2) by (subst last_list_update) auto
  ultimately have "crc_of (butlast (d[i := v])) = crc_of (butlast d)"
    using assms(1) by (simp add: Generate_CRC_eq [symmetric])
  then have "v = butlast d ! i"
    using assms by (intro crc_of_update) (auto simp: butlast_list_update nth_butlast list_all_length)
  with assms show False by (simp add: nth_butlast)
qed

definition sample_config :: "int list" where
  "sample_config =
     [25, 4, 768, 1234, 0, 0, 0, 0, 0, 0, 0, 0, 0, 0, 4, 1, 4, 2, 4, 3, 4, 53, 1, 3] @ [1324950167]"

lemma sample_crc: "last sample_config = Generate_CRC sample_config"
  unfolding sample_config_def
  by (simp only: Generate_CRC_run last_snoc) (simp add: crc_eval as_signed_def cong: crc_run_cong)

theorem changed_number_detected_witness:
  "last (sample_config[22 := 0]) \<noteq> Generate_CRC (sample_config[22 := 0])"
  by (rule changed_number_detected [OF sample_crc])
    (simp_all add: sample_config_def in_range_def)

section \<open>Conversions\<close>

text \<open>A number is recoded with the one after it, which the loop has not changed yet.\<close>

lemma recode_nth:
  "b \<le> length d - 1 \<Longrightarrow> j < length d \<Longrightarrow>
   recode f [a..<b] d ! j = (if a \<le> j \<and> j < b then f (d ! j) (d ! (j + 1)) else d ! j)"
proof (induction "b - a" arbitrary: a d)
  case (Suc n)
  then have ab: "[a..<b] = a # [Suc a..<b]" by (simp add: upt_conv_Cons)
  have "recode f [Suc a..<b] (d[a := f (d ! a) (d ! (a + 1))]) ! j =
    (let d' = d[a := f (d ! a) (d ! (a + 1))] in
     if Suc a \<le> j \<and> j < b then f (d' ! j) (d' ! (j + 1)) else d' ! j)"
    using Suc by (simp add: Let_def)
  with Suc.prems Suc.hyps(2) show ?case by (auto simp: ab Let_def nth_list_update)
qed simp

lemma convert_widths:
  assumes "20 < length d" and "list_all (\<lambda>i. d ! i = old) [14, 16, 18, 20]" and "old \<noteq> new"
  shows "convert old new f d =
    (let d = recode f [21..<length d - 1] (d[14 := new, 16 := new, 18 := new, 20 := new])
     in Inr (True, d[length d - 1 := Generate_CRC d]))"
  using assms by (simp add: convert_def)

text \<open>What the conversion does to each number.\<close>

definition converted :: "int \<Rightarrow> (int \<Rightarrow> int \<Rightarrow> int) \<Rightarrow> int list \<Rightarrow> int list" where
  "converted new f d =
     map (\<lambda>j. if j \<in> {14, 16, 18, 20} then new
              else if 21 \<le> j \<and> j < length d - 1 then f (d ! j) (d ! (j + 1)) else d ! j)
       [0..<length d]"

lemma recode_widths:
  assumes "21 < length d"
  shows "recode f [21..<length d - 1] (d[14 := new, 16 := new, 18 := new, 20 := new]) =
    converted new f d"
proof (rule nth_equalityI)
  fix j assume "j < length (recode f [21..<length d - 1] (d[14 := new, 16 := new, 18 := new, 20 := new]))"
  then show "recode f [21..<length d - 1] (d[14 := new, 16 := new, 18 := new, 20 := new]) ! j =
      converted new f d ! j"
    using assms by (auto simp: recode_nth converted_def nth_list_update)
qed (simp add: converted_def)

lemma Generate_CRC_butlast: "butlast xs = butlast ys \<Longrightarrow> Generate_CRC xs = Generate_CRC ys"
  by (simp add: Generate_CRC_alt)

lemma to24_to16: "\<not> coded16 a b \<Longrightarrow> to24 (to16 a b) (to16 b c) = a"
  by (auto simp: to24_def to16_def coded16_def coded24_def split: if_splits)

definition format_code :: "int \<Rightarrow> bool" where
  "format_code a \<longleftrightarrow> a \<in> {16, 17, 52, 53}"

lemma not_format_code: "\<not> format_code a \<Longrightarrow> to16 a b = a" "\<not> format_code a \<Longrightarrow> to24 a b = a"
  by (auto simp: to24_def to16_def coded16_def coded24_def format_code_def)

definition has_widths :: "int \<Rightarrow> int list \<Rightarrow> bool" where
  "has_widths v d \<longleftrightarrow> 21 < length d \<and> list_all (\<lambda>i. d ! i = v) [14, 16, 18, 20]"

text \<open>C31: Converting a 24-bit configuration to 16 bits and back gives the configuration that was
  there, checksum included, provided that the checksum was right, that no number in it looks
  like a 16-bit format code already, and that the last number before the checksum is no format
  code. The tool cannot tell format codes from other numbers, so the second condition is
  needed (lemma \<open>conversion_not_undone\<close>).\<close>

theorem conversion_undone:
  assumes "has_widths 4 d" and "last d = Generate_CRC d"
    and "list_all (\<lambda>j. \<not> coded16 (d ! j) (d ! (j + 1))) [21..<length d - 2]"
    and "\<not> format_code (d ! (length d - 2))"
  shows "\<exists>e. convertto16bit d = Inr (True, e) \<and> last e = Generate_CRC e \<and>
    convertto24bit e = Inr (True, d)"
proof -
  define u where "u = converted 2 to16 d"
  define e where "e = u[length d - 1 := Generate_CRC u]"
  have len: "21 < length d" "length u = length d" "length e = length d"
    using assms(1) by (simp_all add: has_widths_def u_def converted_def e_def)
  have "Generate_CRC e = Generate_CRC u"
    by (rule Generate_CRC_butlast) (simp add: e_def butlast_list_update len)
  moreover have "last e = Generate_CRC u"
    using len by (simp add: e_def last_list_update flip: length_0_conv)
  moreover have "convertto16bit d = Inr (True, e)"
    using assms(1) convert_widths [of d 4 2 to16] recode_widths [of d to16 2] len
    by (simp add: convertto16bit_def has_widths_def Let_def e_def flip: u_def)
  moreover have "convertto24bit e = Inr (True, d)"
  proof -
    define v where "v = converted 4 to24 e"
    have restored: "v ! j = d ! j" if j: "j < length d - 1" for j
    proof (cases "j \<in> {14, 16, 18, 20} \<or> j < 21")
      case True
      then show ?thesis using j assms(1) len
        by (auto simp: v_def e_def u_def converted_def has_widths_def nth_list_update)
    next
      case False
      then have e: "e ! j = to16 (d ! j) (d ! (j + 1))"
        using j len by (auto simp: e_def u_def converted_def nth_list_update)
      have v: "v ! j = to24 (e ! j) (e ! (j + 1))"
        using False j len by (auto simp: v_def converted_def)
      show ?thesis
      proof (cases "j = length d - 2")
        case True
        with e v assms(4) show ?thesis by (simp add: not_format_code)
      next
        case mid: False
        with False j assms(3) have "\<not> coded16 (d ! j) (d ! (j + 1))" by (simp add: list_all_iff)
        moreover have "e ! (j + 1) = to16 (d ! (j + 1)) (d ! (j + 2))"
          using mid False j len by (auto simp: e_def u_def converted_def nth_list_update)
        ultimately show ?thesis using e v to24_to16 by simp
      qed
    qed
    have "length v = length d" using len by (simp add: v_def converted_def)
    with restored have but: "butlast v = butlast d" by (simp add: list_eq_iff_nth_eq nth_butlast)
    then have "Generate_CRC v = last d" using Generate_CRC_butlast assms(2) by metis
    moreover have "v \<noteq> []" "d \<noteq> []" using len \<open>length v = length d\<close> by auto
    ultimately have "v[length d - 1 := Generate_CRC v] = d"
      using but \<open>length v = length d\<close>
      by (metis append_butlast_last_id length_butlast list_update_length)
    moreover have "list_all (\<lambda>i. e ! i = 2) [14, 16, 18, 20]"
      using len by (auto simp: e_def u_def converted_def nth_list_update)
    ultimately show ?thesis
      using convert_widths [of e 2 4 to24] recode_widths [of e to24 4] len
      by (simp add: convertto24bit_def Let_def flip: v_def)
  qed
  ultimately show ?thesis by auto
qed

theorem conversion_undone_witness:
  "\<exists>e. convertto16bit sample_config = Inr (True, e) \<and> convertto24bit e = Inr (True, sample_config)"
proof -
  have "has_widths 4 sample_config" by (simp add: has_widths_def sample_config_def)
  moreover have "list_all (\<lambda>j. \<not> coded16 (sample_config ! j) (sample_config ! (j + 1)))
      [21..<length sample_config - 2]"
    by (simp add: sample_config_def upt_rec coded16_def)
  moreover have "\<not> format_code (sample_config ! (length sample_config - 2))"
    by (simp add: sample_config_def format_code_def)
  ultimately show ?thesis using conversion_undone [OF _ sample_crc] by blast
qed

text \<open>A number that looks like a code comes back as another one; the configurations
  B1-Build325-Squeeze-Final.h and C1-Build325-Squeeze-Final.h have one.\<close>

definition unlucky_config :: "int list" where
  "unlucky_config =
     [25, 4, 768, 1234, 0, 0, 0, 0, 0, 0, 0, 0, 0, 0, 4, 1, 4, 2, 4, 3, 4, 16, 5, 3, 0]"

lemma conversion_not_undone:
  "\<exists>e d. convertto16bit unlucky_config = Inr (True, e) \<and> convertto24bit e = Inr (True, d) \<and>
     unlucky_config ! 21 = 16 \<and> d ! 21 = 52"
  by (simp add: unlucky_config_def convertto16bit_def convertto24bit_def convert_def upt_rec
      to16_def to24_def coded16_def coded24_def)

end
