(* ===== verification/TuningText.thy ===== *)
theory TuningText
  imports TuningCrc
begin

text \<open>
  The text of a configuration is read back as the numbers it was made of, so that the two kinds
  of output of the tool agree.
\<close>

section \<open>The text of a macro\<close>

definition macro_line :: "string \<Rightarrow> int list \<Rightarrow> string" where
  "macro_line name xs =
     ''#define '' @ name @ '' '' @ concat (map (\<lambda>x. print_d x @ '', '') (butlast xs)) @
     print_d (last xs)"

definition macro_text :: "string \<Rightarrow> int list \<Rightarrow> string" where
  "macro_text name xs = [LF, LF, LF] @ macro_line name xs @ [LF, LF, LF, LF]"

lemma comma_word: "is_word (print_d x @ '','')"
  using print_d_word [of x] by (simp add: is_word_def py_space_def is_space_def)

lemma split_items:
  "split (concat (map (\<lambda>x. print_d x @ '', '') xs) @ print_d y) =
     map (\<lambda>x. print_d x @ '','') xs @ [print_d y]"
proof (induction xs)
  case Nil
  then show ?case using print_d_word [of y]
    by (simp add: split_def is_word_def split_from_word [of _ "[]" "[]", simplified])
next
  case (Cons x xs)
  then show ?case
    using split_word [OF comma_word [of x], of "CHR '' ''"
        "concat (map (\<lambda>x. print_d x @ '', '') xs) @ print_d y"] by simp
qed

lemma split_from_end: "py_space c \<Longrightarrow> split_from w (u @ [c]) = split_from w u"
  by (induction u arbitrary: w) auto

lemma split_macro_line:
  assumes "is_word name"
  shows "split (macro_line name xs @ [LF]) =
    ''#define'' # name # map (\<lambda>x. print_d x @ '','') (butlast xs) @ [print_d (last xs)]"
proof -
  let ?items = "concat (map (\<lambda>x. print_d x @ '', '') (butlast xs)) @ print_d (last xs)"
  have "is_word ''#define''" by (simp add: is_word_def py_space_def is_space_def)
  then have "split (''#define'' @ CHR '' '' # name @ CHR '' '' # ?items) =
      ''#define'' # name # split ?items"
    using split_word assms py_space_simps(1) by metis
  then have "split (macro_line name xs) = ''#define'' # name # split ?items"
    by (simp add: macro_line_def)
  then show ?thesis
    using split_from_end [of LF "[]" "macro_line name xs"] by (simp add: split_def split_items [unfolded split_def])
qed

section \<open>Reading it back\<close>

lemma append_int_print: "in_range x \<Longrightarrow> append_int xs (print_d x) = Inr (xs @ [x])"
  by (simp add: append_int_def py_int_print)

lemma append_words_print:
  "list_all in_range ys \<Longrightarrow> append_words xs (map (\<lambda>x. print_d x @ '','') ys) = Inr (xs @ ys)"
  by (induction ys arbitrary: xs) (simp_all add: append_int_print)

lemma append_line_print:
  assumes "xs \<noteq> []" and "list_all in_range xs"
  shows "append_line [] (a # b # map (\<lambda>x. print_d x @ '','') (butlast xs) @ [print_d (last xs)]) = Inr xs"
proof -
  have "list_all in_range (butlast xs)" "in_range (last xs)"
    using assms by (auto simp: list_all_iff dest: in_set_butlastD)
  then show ?thesis
    using assms(1) by (simp add: append_line_def append_words_print append_int_print)
qed

lemma macro_line_chars:
  "LF \<notin> set name \<Longrightarrow> LF \<notin> set (macro_line name xs)"
  "CR \<notin> set name \<Longrightarrow> CR \<notin> set (macro_line name xs)"
  using print_d_no_line by (auto simp: macro_line_def LF_def CR_def)

lemma macro_text_lines:
  "LF \<notin> set name \<Longrightarrow> readlines [] (macro_text name xs @ t) =
     [[LF], [LF], [LF], macro_line name xs @ [LF], [LF], [LF], [LF]] @ readlines [] t"
  by (simp add: macro_text_def readlines_line macro_line_chars)

lemma macro_text_CR: "CR \<notin> set name \<Longrightarrow> CR \<notin> set (macro_text name xs)"
  using macro_line_chars(2) by (simp add: macro_text_def) (simp add: LF_def CR_def)

lemma macro_names:
  "is_word ''CSPL_CONFIG_RX''" "LF \<notin> set ''CSPL_CONFIG_RX''" "CR \<notin> set ''CSPL_CONFIG_RX''"
  "is_word ''CSPL_CONFIG_TX''" "LF \<notin> set ''CSPL_CONFIG_TX''" "CR \<notin> set ''CSPL_CONFIG_TX''"
  by (simp_all add: is_word_def py_space_def is_space_def LF_def CR_def)

lemma read_macro_texts:
  assumes "RX \<noteq> []" and "TX \<noteq> []" and "list_all in_range RX" and "list_all in_range TX"
  shows "read_header (macro_text ''CSPL_CONFIG_RX'' RX @ macro_text ''CSPL_CONFIG_TX'' TX) = Inr (RX, TX)"
proof -
  let ?s = "macro_text ''CSPL_CONFIG_RX'' RX @ macro_text ''CSPL_CONFIG_TX'' TX"
  have "newlines False ?s = ?s"
    by (rule newlines_id) (simp add: macro_text_CR macro_names del: set_simps)
  moreover have "split [LF] = []" by simp
  ultimately show ?thesis
    using macro_text_lines [OF macro_names(5), of TX "[]"] assms
    by (simp add: read_header_def macro_text_lines [OF macro_names(2)] Let_def
        split_macro_line macro_names append_line_print)
qed

section \<open>Arrays in range\<close>

lemma item_value_range: "in_range (item_value big (take 4 s))"
proof -
  let ?v = "\<lambda>t. foldr (\<lambda>c v. int (of_char c) + 256 * v) t (0 :: int)"
  have bound: "0 \<le> ?v t \<and> ?v t < 256 ^ length t" for t :: string
  proof (induction t)
    case (Cons c t)
    have "int (of_char c) < 256" using nat_of_char_less_256 [of c] by linarith
    moreover have "?v t + 1 \<le> 256 ^ length t" using Cons by simp
    ultimately have "int (of_char c) + 256 * ?v t < 256 * 256 ^ length t" by linarith
    with Cons show ?case by simp
  qed simp
  have "?v t < 2 ^ 32" if "length t \<le> 4" for t :: string
  proof -
    have "(256 :: int) ^ length t \<le> 256 ^ 4" using that by (intro power_increasing) simp_all
    with bound [of t] show ?thesis by simp
  qed
  then have small: "?v t < 2 ^ 32" if "length t \<le> 4" for t :: string using that .
  define u where "u = (if big then rev (take 4 s) else take 4 s)"
  have "length u \<le> 4" by (simp add: u_def)
  from small [OF this] bound [of u] show ?thesis
    by (simp add: item_value_def in_range_def flip: u_def) (simp add: Let_def)
qed

lemma fromfile_range: "list_all in_range (fromfile big s n)"
  by (induction n arbitrary: s) (simp_all add: item_value_range)

lemma list_update_range: "list_all in_range xs \<Longrightarrow> in_range v \<Longrightarrow> list_all in_range (xs[i := v])"
  by (auto simp: list_all_iff dest: set_update_subset_insert [THEN subsetD])

lemma recode_range:
  "(\<And>a b. in_range a \<Longrightarrow> in_range (f a b)) \<Longrightarrow> list_all in_range d \<Longrightarrow>
   list_all (\<lambda>i. i < length d) is' \<Longrightarrow> list_all in_range (recode f is' d)"
proof (induction is' arbitrary: d)
  case (Cons i is')
  then have "in_range (d ! i)" by (simp add: list_all_iff)
  with Cons show ?case by (simp add: list_update_range)
qed simp

lemma change_widths_range:
  "change_widths old new ilist d = Inr (b, e) \<Longrightarrow> list_all in_range d \<Longrightarrow> in_range new \<Longrightarrow>
   list_all in_range e \<and> length e = length d"
  by (induction old new ilist d rule: change_widths.induct)
    (auto simp: list_update_range split: if_splits)

lemma convert_range:
  assumes "convert old new f d = Inr (b, e)" and "list_all in_range d" and "in_range new"
    and f: "\<And>a b. in_range a \<Longrightarrow> in_range (f a b)"
  shows "list_all in_range e \<and> length e = length d \<and> 14 < length d"
proof -
  have d: "list_all in_range (d[14 := new])" using assms list_update_range by blast
  have "list_all in_range (recode f [21..<n - 1] u)" if "list_all in_range u" "n = length u" for u n
    using that by (intro recode_range f) (auto simp: list_all_iff)
  then have done24: "list_all in_range ((recode f [21..<n - 1] u)[k := Generate_CRC w])"
    if "list_all in_range u" "n = length u" for u n k w
    using that by (simp add: list_update_range Generate_CRC_range)
  show ?thesis
  proof (cases "d ! 14 = old \<and> 14 < length d")
    case False
    with assms show ?thesis by (auto simp: convert_def split: if_splits)
  next
    case True
    then obtain c u where c: "change_widths old new [16, 18, 20] (d[14 := new]) = Inr (c, u)"
      using assms(1) by (auto simp: convert_def simp del: change_widths.simps split: sum.splits)
    from change_widths_range [OF c d assms(3)] True assms(1) c done24 [of u "length u"]
    show ?thesis
      by (cases c) (auto simp: convert_def Let_def simp del: change_widths.simps)
  qed
qed

lemma to_range: "in_range a \<Longrightarrow> in_range (to24 a b)" "in_range a \<Longrightarrow> in_range (to16 a b)"
  by (auto simp: to24_def to16_def in_range_def)

lemma convert_mode_range:
  assumes "convert_mode m xs s = (Inr ys, s')" and "m = 1 \<or> m = 2" and "list_all in_range xs"
  shows "s' = s \<and> list_all in_range ys \<and> 14 < length ys"
proof -
  have "in_range 2" "in_range 4" by (simp_all add: in_range_def)
  then show ?thesis
    using assms convert_range [of 4 2 to16 xs] convert_range [of 2 4 to24 xs] to_range
    by (auto simp: convert_mode_def raise_or_def prog_simps convertto16bit_def convertto24bit_def
        split: sum.splits prod.splits if_splits)
qed

section \<open>The two kinds of output\<close>

lemma open_in_run [simp]:
  "open_in f d = (case d f of None \<Rightarrow> (Inl OSError, d) | Some c \<Rightarrow> (Inr c, d))"
  by (simp add: open_in_def prog_simps split: option.split)

lemma array_in_run [simp]:
  "array_in H f d = (case d f of None \<Rightarrow> (Inl OSError, d)
     | Some c \<Rightarrow> (Inr (fromfile (big_endian H) c (length c div 4)), d))"
  by (simp add: array_in_def prog_simps split: option.split)

lemma open_out_run [simp]:
  "open_out H f d = (if writable H f then (Inr (), d(f \<mapsto> [])) else (Inl OSError, d))"
  by (simp add: open_out_def prog_simps)

lemma write_macro_run [simp]:
  "xs \<noteq> [] \<Longrightarrow> d f = Some c \<Longrightarrow> write_macro f n xs d = (Inr (), d(f \<mapsto> c @ macro_text n xs))"
  by (simp add: write_macro_def write_out_def prog_simps macro_text_def macro_line_def)

lemma write_macro_empty: "write_macro f n [] d = (Inr r, d') \<longleftrightarrow> False"
  by (simp add: write_macro_def write_out_def prog_simps)

lemma array_out_run [simp]:
  "array_out H (Some f) xs d =
     (if writable H f then (Inr (), d(f \<mapsto> tofile (big_endian H) xs)) else (Inl OSError, d))"
  "array_out H None xs d = (Inr (), d)"
  by (simp_all add: array_out_def write_out_def prog_simps)

lemma bindE_Inr: "bindE m f s = (Inr r, t) \<longleftrightarrow> (\<exists>a u. m s = (Inr a, u) \<and> f a u = (Inr r, t))"
  by (auto simp: bindE_def split: prod.splits sum.splits)

lemma binary2header_files:
  assumes run: "binary2header H f1 f2 h m (Some b1) (Some b2) d = (Inr (), d1)"
    and m: "m = 1 \<or> m = 2"
  obtains RX TX where "14 < length RX" "TX \<noteq> []" "list_all in_range RX" "list_all in_range TX"
    "d1 = d(h \<mapsto> macro_text ''CSPL_CONFIG_RX'' RX @ macro_text ''CSPL_CONFIG_TX'' TX,
        b1 \<mapsto> tofile (big_endian H) RX, b2 \<mapsto> tofile (big_endian H) TX)"
proof -
  from run obtain X TX RX where in1: "array_in H f1 d = (Inr X, d)" and in2: "array_in H f2 d = (Inr TX, d)"
    and conv: "convert_mode m X d = (Inr RX, d)" and range: "list_all in_range RX" "14 < length RX"
    and out: "bindE (open_out H h) (\<lambda>_. bindE (write_macro h ''CSPL_CONFIG_RX'' RX) (\<lambda>_.
      bindE (write_macro h ''CSPL_CONFIG_TX'' TX) (\<lambda>_. bindE (array_out H (Some b1) RX) (\<lambda>_.
      array_out H (Some b2) TX)))) d = (Inr (), d1)" and TX: "list_all in_range TX"
    using convert_mode_range [OF _ m] fromfile_range
    by (fastforce simp: binary2header_def bindE_Inr split: option.splits)
  have "TX \<noteq> []" using out write_macro_empty by (auto simp: bindE_Inr)
  moreover have "RX \<noteq> []" using range by auto
  ultimately have "d1 = d(h \<mapsto> macro_text ''CSPL_CONFIG_RX'' RX @ macro_text ''CSPL_CONFIG_TX'' TX,
        b1 \<mapsto> tofile (big_endian H) RX, b2 \<mapsto> tofile (big_endian H) TX)"
    using out by (auto simp: bindE_Inr split: if_splits)
  with that range TX \<open>TX \<noteq> []\<close> show ?thesis by blast
qed

lemma header2binary_files:
  assumes "d h = Some (macro_text ''CSPL_CONFIG_RX'' RX @ macro_text ''CSPL_CONFIG_TX'' TX)"
    and "14 < length RX" "TX \<noteq> []" "list_all in_range RX" "list_all in_range TX"
    and "writable H c1" "writable H c2"
  shows "header2binary H h None 0 (Some c1) (Some c2) d =
    (Inr (), d(c1 \<mapsto> tofile (big_endian H) RX, c2 \<mapsto> tofile (big_endian H) TX))"
proof -
  have "RX \<noteq> []" using assms(2) by auto
  with assms show ?thesis
    using read_macro_texts [of RX TX]
    by (simp add: header2binary_def convert_mode_def detectbitpersample_def raise_or_def
        text_out_def prog_simps)
qed

text \<open>C32: The two kinds of output of the tool agree: after a conversion that wrote a header and
  two binary files, making binary files from the header gives the same bytes as the ones written.\<close>

theorem text_and_binaries_agree:
  assumes "main H [p, m, f1, f2, h, b1, b2] d = (Inr (), d1)" and "m = ''bin16'' \<or> m = ''bin24''"
    and "distinct [h, b1, b2]" and "writable H c1" and "writable H c2"
  shows "main H [p, ''txt'', h, c1, c2] d1 = (Inr (), d1(c1 := d1 b1, c2 := d1 b2))"
proof -
  obtain k where k: "binary2header H f1 f2 h k (Some b1) (Some b2) d = (Inr (), d1)" "k = 1 \<or> k = 2"
    using assms(1,2) by (auto simp: main_def numeral_eq_Suc)
  from binary2header_files [OF k] obtain RX TX where
    files: "14 < length RX" "TX \<noteq> []" "list_all in_range RX" "list_all in_range TX"
    "d1 = d(h \<mapsto> macro_text ''CSPL_CONFIG_RX'' RX @ macro_text ''CSPL_CONFIG_TX'' TX,
        b1 \<mapsto> tofile (big_endian H) RX, b2 \<mapsto> tofile (big_endian H) TX)" .
  then have "d1 h = Some (macro_text ''CSPL_CONFIG_RX'' RX @ macro_text ''CSPL_CONFIG_TX'' TX)"
    "d1 b1 = Some (tofile (big_endian H) RX)" "d1 b2 = Some (tofile (big_endian H) TX)"
    using assms(3) by auto
  with header2binary_files [of d1 h RX TX H c1 c2] files(1-4) assms(4,5) show ?thesis
    by (simp add: main_def)
qed

definition sample_host :: host where
  "sample_host = \<lparr>big_endian = False, writable = (\<lambda>f. True)\<rparr>"

text \<open>A configuration of 15 numbers, the last one 4, and one of a single number.\<close>

definition sample_rx :: string where
  "sample_rx = replicate 56 CHR 0x00 @ [CHR 0x04, CHR 0x00, CHR 0x00, CHR 0x00]"

definition sample_tx :: string where
  "sample_tx = replicate 4 CHR 0x00"

definition sample_disk :: disk where
  "sample_disk = [''rx.bin'' \<mapsto> sample_rx, ''tx.bin'' \<mapsto> sample_tx]"

lemma sample_arrays:
  "fromfile False sample_rx 15 = replicate 14 0 @ [4]" "item_value False (take 4 sample_tx) = 0"
  "length sample_rx div 4 = 15" "length sample_tx div 4 = 1"
  by code_simp+

lemma sample_in:
  "array_in sample_host ''rx.bin'' sample_disk = (Inr (replicate 14 0 @ [4]), sample_disk)"
  "array_in sample_host ''tx.bin'' sample_disk = (Inr [0], sample_disk)"
  by (simp_all add: sample_disk_def sample_host_def sample_arrays)

lemma sample_mode: "convert_mode 2 (replicate 14 0 @ [4]) s = (Inr (replicate 14 0 @ [4]), s)"
  by (simp add: convert_mode_def convertto24bit_def convert_def raise_or_def prog_simps nth_append)

lemma sample_run:
  "fst (main sample_host [''convert'', ''bin24'', ''rx.bin'', ''tx.bin'', ''t.h'', ''r'', ''t''] sample_disk) = Inr ()"
proof -
  have "writable sample_host = (\<lambda>f. True)" by (simp add: sample_host_def)
  then have "fst (binary2header sample_host ''rx.bin'' ''tx.bin'' ''t.h'' 2 (Some ''r'') (Some ''t'')
      sample_disk) = Inr ()"
    unfolding binary2header_def bindE_def
    by (simp add: sample_in sample_mode del: array_in_run)
  then show ?thesis by (simp add: main_def)
qed

theorem text_and_binaries_agree_witness:
  "\<exists>d1. main sample_host [''convert'', ''bin24'', ''rx.bin'', ''tx.bin'', ''t.h'', ''r'', ''t'']
       sample_disk = (Inr (), d1) \<and>
     main sample_host [''convert'', ''txt'', ''t.h'', ''r2'', ''t2''] d1 =
       (Inr (), d1(''r2'' := d1 ''r'', ''t2'' := d1 ''t''))"
proof -
  obtain d1 where run: "main sample_host
      [''convert'', ''bin24'', ''rx.bin'', ''tx.bin'', ''t.h'', ''r'', ''t''] sample_disk = (Inr (), d1)"
    using sample_run by (metis prod.collapse)
  have "main sample_host [''convert'', ''txt'', ''t.h'', ''r2'', ''t2''] d1 =
      (Inr (), d1(''r2'' := d1 ''r'', ''t2'' := d1 ''t''))"
    by (rule text_and_binaries_agree [OF run]) (simp_all add: sample_host_def)
  with run show ?thesis by blast
qed

text \<open>The mode that only makes a text of two binary files never gets there: the call lacks two
  arguments.\<close>

lemma bin_mode_fails: "4 \<le> length argv \<Longrightarrow> argv ! 1 = ''bin'' \<Longrightarrow> \<exists>e. main H argv d = (Inl e, d)"
  by (simp add: main_def throwE_def)

end
