(* ===== verification/TuningData.thy ===== *)
theory TuningData
  imports TuningEval
begin

text \<open>
  The two configurations that audio/generate\_bin.sh converts, one for each device, with the
  numbers of their symbols; and that they are well formed: each says its own length, ends with
  its checksum, and lists the ports and the parameters that the symbols name. The files that
  device.mk installs have other numbers; they follow in a section of their own.
\<close>

type_synonym symbols = "(string \<times> int) list"

section \<open>20180509\_100\_Sargo\_Stereo\_Protect.h\<close>

definition sargo_rx_symbols :: symbols where
  "sargo_rx_symbols =
     [(''CSPL_IN_LEFT'', 1), (''CSPL_IN_RIGHT'', 2), (''CSPL_OUT_RIGHT'', 4),
      (''CSPL_OUT_LEFT'', 3), (''CSPL_TEMPERATURE_RIGHT'', 120),
      (''CSPL_CAL_STATUS_RIGHT'', 908), (''CSPL_CAL_CHECKSUM_LEFT'', 903),
      (''CSPL_CAL_STATUS_LEFT'', 902), (''CSPL_CAL_Z_RIGHT'', 906),
      (''CSPL_TEMPERATURE_LEFT'', 119), (''CSPL_EXCURSION_MODEL_RIGHT'', 122),
      (''CSPL_CAL_Z_LEFT'', 900), (''CSPL_CAL_AMBIENT_TEMPERATURE_LEFT'', 901),
      (''CSPL_CAL_CHECKSUM_RIGHT'', 909), (''CSPL_EXCURSION_MODEL_LEFT'', 121),
      (''CSPL_CAL_AMBIENT_TEMPERATURE_RIGHT'', 907),
      (''CSPL_CAL_SET_STATUS_FULL_RIGHT'', 910), (''CSPL_CAL_SET_STATUS_HP_LEFT'', 905),
      (''CSPL_CAL_SET_STATUS_HP_RIGHT'', 911), (''CSPL_CAL_SET_STATUS_FULL_LEFT'', 904)]"

definition sargo_rx_1 :: "int list" where
  "sargo_rx_1 =
     [589, 4, 768, 1234, 13672, 768, 5679, 16, 9875, 48000, 48, 8, 4, 1, 4, 2, 4, 3, 4, 4, 4,
      0, 48, 0, 48, 0, 48, 0, 48, 16, 16, 902, 120, 906, 119, 900, 908, 901, 122, 121, 909,
      907, 903, 905, 904, 911, 910, 70, 53, 1, 4, 53, 1, 5, 53, 0, 5, 1, 4, 4, 53, 0, 5, 1]"

definition sargo_rx_2 :: "int list" where
  "sargo_rx_2 =
     [5, 5, 1, 5, 5, 1, 5, 5, 3, 5, 5, - 2119657205, 2092542729, 2119835196, - 2119835196,
      2119835196, 3, 5, 5, - 2119657205, 2092542729, 2119835196, - 2119835196, 2119835196, 1,
      5, 5, 1, 5, 5, 1, 5, 5, 1, 5, 5, 11, 5, 6, 8, 4, 6001, 6002, 6003, 6004, 0, 4,
      - 2096293503, - 2096293503, - 2096293503, - 2096293503, 4, 2052387573, 2052387573,
      2052387573, 2052387573, 4, 1293222, 1293222, 1293222, 1293222, 4, 1293222, 1293222]"

definition sargo_rx_3 :: "int list" where
  "sargo_rx_3 =
     [1293222, 1293222, 4, 1293222, 1293222, 1293222, 1293222, 11, 6, 6, 8, 4, 6001, 6002,
      6003, 6004, 0, 4, - 2126322971, - 2126322971, - 2126322971, - 2126322971, 4, 2105370123,
      2105370123, 2105370123, 2105370123, 4, 1713966715, 1713966715, 1713966715, 1713966715,
      4, - 1695028449, - 1695028449, - 1695028449, - 1695028449, 4, 1676298755, 1676298755,
      1676298755, 1676298755, 22, 5, 5, 144, 41, 6, 6, 7, 16, 27, 7, 6, 144, 267, 2146747946,
      40, 6, 6, 10661170, 18, 6, 6]"

definition sargo_rx_4 :: "int list" where
  "sargo_rx_4 =
     [17, 7895160, 7895160, 7895160, 7895160, 7895160, 7895160, 7895160, 7895160, 7895160,
      7895160, 7895160, 7895160, 7895160, 7895160, 7895160, 7895160, 7895160, 22, 5, 5, 16,
      39, 5, 6, 6, 1, 5, 5, 3, 5, 5, - 1792293227, 1538959524, 1817757406, - 1817757406,
      1817757406, 3, 5, 5, - 1792293227, 1538959524, 1817757406, - 1817757406, 1817757406, 37,
      5, 5, 3, 4, 6, 0, 11, 12, 60, 120, 10633, 23, 3650722, 751619276, 322122547, 1073577011,
      1073752125, 989623]"

definition sargo_rx_5 :: "int list" where
  "sargo_rx_5 =
     [3, 6, 6, - 1792293227, 1538959524, 25464179, 25464179, 25464179, 3, 6, 6, - 1792293227,
      1538959524, 25464179, 25464179, 25464179, 4, 5, 6, 5, 37, 5, 5, 3, 4, 6, 0, 11, 13, 60,
      120, 10633, 23, 3650722, 510027366, 120795955, 1073731522, 1073746974, 989623, 25, 5, 6,
      48, 2386766, 499999, 4800, 3, 6, 6, - 2133569855, 2119835204, 44785, 44785, 44785, 1, 6,
      7, 4, 5, 6, 6, 1, 5, 5]"

definition sargo_rx_6 :: "int list" where
  "sargo_rx_6 =
     [4, 7, 5, 5, 52, 5, 2, 1, 4, 4, 1, 4, 4, 3, 4, 4, - 2119657205, 2092542729, 2119835196,
      - 2119835196, 2119835196, 3, 4, 4, - 2119657205, 2092542729, 2119835196, - 2119835196,
      2119835196, 1, 4, 4, 1, 4, 4, 1, 4, 4, 1, 4, 4, 11, 4, 5, 7, 4, 6001, 6002, 6003, 6004,
      0, 4, - 2052615183, - 2052615183, - 2052615183, - 2052615183, 4, 1979238100, 1979238100,
      1979238100, 1979238100, 4, 3941168, 3941168]"

definition sargo_rx_7 :: "int list" where
  "sargo_rx_7 =
     [3941168, 3941168, 4, 3941168, 3941168, 3941168, 3941168, 4, 3941168, 3941168, 3941168,
      3941168, 11, 5, 5, 7, 4, 6001, 6002, 6003, 6004, 0, 4, - 2128718877, - 2128718877,
      - 2128718877, - 2128718877, 4, 2110279212, 2110279212, 2110279212, 2110279212, 4,
      1707665443, 1707665443, 1707665443, 1707665443, 4, - 1690923265, - 1690923265,
      - 1690923265, - 1690923265, 4, 1674506200, 1674506200, 1674506200, 1674506200, 22, 4, 4,
      144, 41, 5, 6, 5, 16, 27, 5, 5, 144, 267, 2146747946, 40, 5]"

definition sargo_rx_8 :: "int list" where
  "sargo_rx_8 =
     [5, 51618444, 18, 5, 5, 17, 7895160, 7895160, 7895160, 7895160, 7895160, 7895160,
      7895160, 7895160, 7895160, 7895160, 7895160, 7895160, 7895160, 7895160, 7895160,
      7895160, 7895160, 22, 4, 4, 16, 39, 4, 5, 5, 1, 4, 4, 3, 4, 4, - 1792293227, 1538959524,
      1817757406, - 1817757406, 1817757406, 3, 4, 4, - 1792293227, 1538959524, 1817757406,
      - 1817757406, 1817757406, 37, 4, 4, 1, 2, 10, 5, 9, 14, 50, 110, 9552, 23, 3833258]"

definition sargo_rx_9 :: "int list" where
  "sargo_rx_9 =
     [751619276, 322122547, 1073577011, 1073752125, 1049601, 3, 5, 5, - 1792293227,
      1538959524, 25464179, 25464179, 25464179, 3, 5, 5, - 1792293227, 1538959524, 25464179,
      25464179, 25464179, 4, 4, 5, 4, 37, 4, 4, 1, 2, 10, 5, 9, 15, 50, 110, 9552, 23,
      3833258, 510027366, 120795955, 1073731522, 1073746974, 1049601, 25, 4, 5, 48, 2386766,
      499999, 4800, 3, 5, 5, - 2133569855, 2119835204, 44785, 44785, 44785, 1, 5, 6, 4, 4]"

definition sargo_rx_10 :: "int list" where
  "sargo_rx_10 =
     [5, 5, 1, 4, 4, 4, 6, 4, 4, 52, 4, 3]"

definition sargo_rx :: "int list" where
  "sargo_rx =
     sargo_rx_1 @ sargo_rx_2 @ sargo_rx_3 @ sargo_rx_4 @ sargo_rx_5 @ sargo_rx_6 @
      sargo_rx_7 @ sargo_rx_8 @ sargo_rx_9 @ sargo_rx_10 @ [2052810289]"

definition sargo_tx_symbols :: symbols where
  "sargo_tx_symbols =
     [(''CSPL_IN_CURRENT_RIGHT'', 11), (''CSPL_IN_VOLTAGE_LEFT'', 10),
      (''CSPL_IN_VOLTAGE_RIGHT'', 12), (''CSPL_IN_CURRENT_LEFT'', 9),
      (''CSPL_TEMPERATURE_RIGHT'', 120), (''CSPL_TEMPERATURE_LEFT'', 119),
      (''CSPL_EXCURSION_MODEL_RIGHT'', 122), (''CSPL_EXCURSION_MODEL_LEFT'', 121)]"

definition sargo_tx_1 :: "int list" where
  "sargo_tx_1 =
     [425, 4, 768, 1234, 4268, 1344, 5679, 16, 9875, 48000, 48, 11, 4, 10, 2, 11, 2, 12, 2, 9,
      2, 0, 48, 0, 48, 0, 48, 0, 48, 0, 48, 0, 48, 0, 48, 14, 4, 119, 121, 120, 122, 50, 17,
      3, 4, 17, 0, 5, 3, 5, 5, - 2143508228, 2139547499, 2143511901, - 2143511901, 2143511901,
      3, 5, 5, - 2143508228, 2139547499, 2143511901, - 2143511901, 2143511901]"

definition sargo_tx_2 :: "int list" where
  "sargo_tx_2 =
     [3, 5, 6, - 2146598296, 2145797691, 842978, 0, - 842978, 3, 6, 6, - 2146598296,
      2145797691, 842978, 0, - 842978, 3, 5, 7, - 2133803504, 2129650866, 8916390, 0,
      - 8916390, 3, 5, 8, - 2133803504, 2129650866, 8916390, 0, - 8916390, 3, 5, 9,
      - 2133803504, 2129650866, 8916390, 0, - 8916390, 3, 5, 5, - 2133803504, 2129650866,
      8916390, 0, - 8916390, 3, 4, 4, - 2143508228, 2139547499, 2143511901, - 2143511901,
      2143511901, 3, 4, 4, - 2143508228, 2139547499, 2143511901, - 2143511901, 2143511901]"

definition sargo_tx_3 :: "int list" where
  "sargo_tx_3 =
     [3, 4, 10, - 2146598296, 2145797691, 842978, 0, - 842978, 3, 10, 10, - 2146598296,
      2145797691, 842978, 0, - 842978, 19, 10, 6, 4, 1024, 8, 131067, 13, 21, 4, 0, 10633,
      1024, 1073239999, 3, 4, 6, - 2133803504, 2129650866, 8916390, 0, - 8916390, 19, 6, 7, 5,
      32768, 1, 262135, 12, 3, 4, 6, - 2133803504, 2129650866, 8916390, 0, - 8916390, 19, 6,
      8, 6, 32768, 1, 262135, 12, 3, 4]"

definition sargo_tx_4 :: "int list" where
  "sargo_tx_4 =
     [6, - 2133803504, 2129650866, 8916390, 0, - 8916390, 19, 6, 9, 7, 32768, 1, 262135, 12,
      3, 4, 4, - 2133803504, 2129650866, 8916390, 0, - 8916390, 19, 4, 5, 8, 32768, 1, 262135,
      12, 23, 8, 7, 6, 5, 1, 6001, 6002, 6003, 6004, 0, 17, 1, 4, 17, 2, 5, 3, 5, 5,
      - 2143508228, 2139547499, 2143511901, - 2143511901, 2143511901, 3, 5, 5, - 2143508228,
      2139547499, 2143511901, - 2143511901, 2143511901, 3]"

definition sargo_tx_5 :: "int list" where
  "sargo_tx_5 =
     [5, 6, - 2146598296, 2145797691, 842978, 0, - 842978, 3, 6, 6, - 2146598296, 2145797691,
      842978, 0, - 842978, 3, 5, 7, - 2122640104, 2120193161, 13645243, 0, - 13645243, 3, 5,
      8, - 2122640104, 2120193161, 13645243, 0, - 13645243, 3, 5, 9, - 2122640104, 2120193161,
      13645243, 0, - 13645243, 3, 5, 5, - 2122640104, 2120193161, 13645243, 0, - 13645243, 3,
      4, 4, - 2143508228, 2139547499, 2143511901, - 2143511901, 2143511901, 3, 4, 4,
      - 2143508228, 2139547499, 2143511901, - 2143511901, 2143511901, 3]"

definition sargo_tx_6 :: "int list" where
  "sargo_tx_6 =
     [4, 10, - 2146598296, 2145797691, 842978, 0, - 842978, 3, 10, 10, - 2146598296,
      2145797691, 842978, 0, - 842978, 19, 10, 6, 9, 1024, 8, 131067, 13, 21, 9, 2, 9552,
      1024, 1073239999, 3, 4, 6, - 2122640104, 2120193161, 13645243, 0, - 13645243, 19, 6, 7,
      10, 32768, 1, 262135, 12, 3, 4, 6, - 2122640104, 2120193161, 13645243, 0, - 13645243,
      19, 6, 8, 11, 32768, 1, 262135, 12, 3, 4, 6]"

definition sargo_tx_7 :: "int list" where
  "sargo_tx_7 =
     [- 2122640104, 2120193161, 13645243, 0, - 13645243, 19, 6, 9, 12, 32768, 1, 262135, 12,
      3, 4, 4, - 2122640104, 2120193161, 13645243, 0, - 13645243, 19, 4, 5, 13, 32768, 1,
      262135, 12, 23, 13, 12, 11, 10, 3, 6001, 6002, 6003, 6004, 0]"

definition sargo_tx :: "int list" where
  "sargo_tx =
     sargo_tx_1 @ sargo_tx_2 @ sargo_tx_3 @ sargo_tx_4 @ sargo_tx_5 @ sargo_tx_6 @
      sargo_tx_7 @ [- 2102453470]"

section \<open>20180509\_Bonito\_Protect\_24bit.h\<close>

definition bonito_rx_symbols :: symbols where
  "bonito_rx_symbols =
     [(''CSPL_IN_LEFT'', 1), (''CSPL_IN_RIGHT'', 2), (''CSPL_OUT_RIGHT'', 4),
      (''CSPL_OUT_LEFT'', 3), (''CSPL_TEMPERATURE_RIGHT'', 120),
      (''CSPL_CAL_STATUS_RIGHT'', 908), (''CSPL_CAL_CHECKSUM_LEFT'', 903),
      (''CSPL_CAL_STATUS_LEFT'', 902), (''CSPL_CAL_Z_RIGHT'', 906),
      (''CSPL_TEMPERATURE_LEFT'', 119), (''CSPL_EXCURSION_MODEL_RIGHT'', 122),
      (''CSPL_CAL_Z_LEFT'', 900), (''CSPL_CAL_AMBIENT_TEMPERATURE_LEFT'', 901),
      (''CSPL_CAL_CHECKSUM_RIGHT'', 909), (''CSPL_EXCURSION_MODEL_LEFT'', 121),
      (''CSPL_CAL_AMBIENT_TEMPERATURE_RIGHT'', 907),
      (''CSPL_CAL_SET_STATUS_FULL_RIGHT'', 910), (''CSPL_CAL_SET_STATUS_HP_LEFT'', 905),
      (''CSPL_CAL_SET_STATUS_HP_RIGHT'', 911), (''CSPL_CAL_SET_STATUS_FULL_LEFT'', 904)]"

definition bonito_rx_1 :: "int list" where
  "bonito_rx_1 =
     [589, 4, 768, 1234, 13672, 768, 5679, 16, 9875, 48000, 48, 8, 4, 1, 4, 2, 4, 3, 4, 4, 4,
      0, 48, 0, 48, 0, 48, 0, 48, 16, 16, 902, 120, 906, 119, 900, 908, 901, 122, 121, 909,
      907, 903, 905, 904, 911, 910, 70, 53, 1, 4, 53, 1, 5, 53, 0, 5, 1, 4, 4, 53, 0, 5, 1]"

definition bonito_rx_2 :: "int list" where
  "bonito_rx_2 =
     [5, 5, 1, 5, 5, 1, 5, 5, 3, 5, 5, - 2119657205, 2092542729, 2119835196, - 2119835196,
      2119835196, 3, 5, 5, - 2119657205, 2092542729, 2119835196, - 2119835196, 2119835196, 1,
      5, 5, 1, 5, 5, 1, 5, 5, 1, 5, 5, 11, 5, 6, 8, 4, 6001, 6002, 6003, 6004, 0, 4,
      - 2060522088, - 2060522088, - 2060522088, - 2060522088, 4, 1982052173, 1982052173,
      1982052173, 1982052173, 4, 2071498, 2071498, 2071498, 2071498, 4, 2071498, 2071498]"

definition bonito_rx_3 :: "int list" where
  "bonito_rx_3 =
     [2071498, 2071498, 4, 2071498, 2071498, 2071498, 2071498, 11, 6, 6, 8, 4, 6001, 6002,
      6003, 6004, 0, 4, - 2126459776, - 2126459776, - 2126459776, - 2126459776, 4, 2105559741,
      2105559741, 2105559741, 2105559741, 4, 1927924539, 1927924539, 1927924539, 1927924539,
      4, - 1907939879, - 1907939879, - 1907939879, - 1907939879, 4, 1888079887, 1888079887,
      1888079887, 1888079887, 22, 5, 5, 144, 41, 6, 6, 7, 16, 27, 7, 6, 144, 267, 2146747946,
      40, 6, 6, 18958540, 18, 6, 6]"

definition bonito_rx_4 :: "int list" where
  "bonito_rx_4 =
     [17, 7895160, 7895160, 7895160, 7895160, 7895160, 7895160, 7895160, 7895160, 7895160,
      7895160, 7895160, 7895160, 7895160, 7895160, 7895160, 7895160, 7895160, 22, 5, 5, 16,
      39, 5, 6, 6, 1, 5, 5, 3, 5, 5, - 1792293227, 1538959524, 1817757406, - 1817757406,
      1817757406, 3, 5, 5, - 1792293227, 1538959524, 1817757406, - 1817757406, 1817757406, 37,
      5, 5, 3, 4, 6, 0, 11, 12, 60, 120, 10788, 23, 3650722, 751619276, 322122547, 1073577011,
      1073752125, 975685]"

definition bonito_rx_5 :: "int list" where
  "bonito_rx_5 =
     [3, 6, 6, - 1792293227, 1538959524, 25464179, 25464179, 25464179, 3, 6, 6, - 1792293227,
      1538959524, 25464179, 25464179, 25464179, 4, 5, 6, 5, 37, 5, 5, 3, 4, 6, 0, 11, 13, 60,
      120, 10788, 23, 3650722, 510027366, 120795955, 1073731522, 1073746974, 975685, 25, 5, 6,
      48, 2386766, 499999, 4800, 3, 6, 6, - 2133569855, 2119835204, 44785, 44785, 44785, 1, 6,
      7, 4, 5, 6, 6, 1, 5, 5]"

definition bonito_rx_6 :: "int list" where
  "bonito_rx_6 =
     [4, 7, 5, 5, 52, 5, 2, 1, 4, 4, 1, 4, 4, 3, 4, 4, - 2119657205, 2092542729, 2119835196,
      - 2119835196, 2119835196, 3, 4, 4, - 2119657205, 2092542729, 2119835196, - 2119835196,
      2119835196, 1, 4, 4, 1, 4, 4, 1, 4, 4, 1, 4, 4, 11, 4, 5, 7, 4, 6001, 6002, 6003, 6004,
      0, 4, - 2061266477, - 2061266477, - 2061266477, - 2061266477, 4, 1996631270, 1996631270,
      1996631270, 1996631270, 4, 3600109, 3600109]"

definition bonito_rx_7 :: "int list" where
  "bonito_rx_7 =
     [3600109, 3600109, 4, 3600109, 3600109, 3600109, 3600109, 4, 3600109, 3600109, 3600109,
      3600109, 11, 5, 5, 7, 4, 6001, 6002, 6003, 6004, 0, 4, - 2130257428, - 2130257428,
      - 2130257428, - 2130257428, 4, 2113829313, 2113829313, 2113829313, 2113829313, 4,
      2007976557, 2007976557, 2007976557, 2007976557, 4, - 1991391739, - 1991391739,
      - 1991391739, - 1991391739, 4, 1975597214, 1975597214, 1975597214, 1975597214, 22, 4, 4,
      144, 41, 5, 6, 5, 16, 27, 5, 5, 144, 267, 2146747946, 40, 5]"

definition bonito_rx_8 :: "int list" where
  "bonito_rx_8 =
     [5, 67267442, 18, 5, 5, 17, 7895160, 7895160, 7895160, 7895160, 7895160, 7895160,
      7895160, 7895160, 7895160, 7895160, 7895160, 7895160, 7895160, 7895160, 7895160,
      7895160, 7895160, 22, 4, 4, 16, 39, 4, 5, 5, 1, 4, 4, 3, 4, 4, - 1792293227, 1538959524,
      1817757406, - 1817757406, 1817757406, 3, 4, 4, - 1792293227, 1538959524, 1817757406,
      - 1817757406, 1817757406, 37, 4, 4, 1, 2, 10, 5, 9, 14, 50, 110, 9003, 23, 3833258]"

definition bonito_rx_9 :: "int list" where
  "bonito_rx_9 =
     [751619276, 322122547, 1073577011, 1073752125, 1113262, 3, 5, 5, - 1792293227,
      1538959524, 25464179, 25464179, 25464179, 3, 5, 5, - 1792293227, 1538959524, 25464179,
      25464179, 25464179, 4, 4, 5, 4, 37, 4, 4, 1, 2, 10, 5, 9, 15, 50, 110, 9003, 23,
      3833258, 510027366, 120795955, 1073731522, 1073746974, 1113262, 25, 4, 5, 48, 2386766,
      499999, 4800, 3, 5, 5, - 2133569855, 2119835204, 44785, 44785, 44785, 1, 5, 6, 4, 4]"

definition bonito_rx_10 :: "int list" where
  "bonito_rx_10 =
     [5, 5, 1, 4, 4, 4, 6, 4, 4, 52, 4, 3]"

definition bonito_rx :: "int list" where
  "bonito_rx =
     bonito_rx_1 @ bonito_rx_2 @ bonito_rx_3 @ bonito_rx_4 @ bonito_rx_5 @
      bonito_rx_6 @ bonito_rx_7 @ bonito_rx_8 @ bonito_rx_9 @ bonito_rx_10 @ [- 1076593316]"

definition bonito_tx_symbols :: symbols where
  "bonito_tx_symbols =
     [(''CSPL_IN_CURRENT_RIGHT'', 11), (''CSPL_IN_VOLTAGE_LEFT'', 10),
      (''CSPL_IN_VOLTAGE_RIGHT'', 12), (''CSPL_IN_CURRENT_LEFT'', 9),
      (''CSPL_TEMPERATURE_RIGHT'', 120), (''CSPL_TEMPERATURE_LEFT'', 119),
      (''CSPL_EXCURSION_MODEL_RIGHT'', 122), (''CSPL_EXCURSION_MODEL_LEFT'', 121)]"

definition bonito_tx_1 :: "int list" where
  "bonito_tx_1 =
     [425, 4, 768, 1234, 4268, 1344, 5679, 16, 9875, 48000, 48, 11, 4, 10, 2, 11, 2, 12, 2, 9,
      2, 0, 48, 0, 48, 0, 48, 0, 48, 0, 48, 0, 48, 0, 48, 14, 4, 119, 121, 120, 122, 50, 17,
      3, 4, 17, 0, 5, 3, 5, 5, - 2143508228, 2139547499, 2143511901, - 2143511901, 2143511901,
      3, 5, 5, - 2143508228, 2139547499, 2143511901, - 2143511901, 2143511901]"

definition bonito_tx_2 :: "int list" where
  "bonito_tx_2 =
     [3, 5, 6, - 2146598296, 2145797691, 842978, 0, - 842978, 3, 6, 6, - 2146598296,
      2145797691, 842978, 0, - 842978, 3, 5, 7, - 2131386568, 2127392723, 10045462, 0,
      - 10045462, 3, 5, 8, - 2131386568, 2127392723, 10045462, 0, - 10045462, 3, 5, 9,
      - 2131386568, 2127392723, 10045462, 0, - 10045462, 3, 5, 5, - 2131386568, 2127392723,
      10045462, 0, - 10045462, 3, 4, 4, - 2143508228, 2139547499, 2143511901, - 2143511901,
      2143511901, 3, 4, 4, - 2143508228, 2139547499, 2143511901, - 2143511901, 2143511901]"

definition bonito_tx_3 :: "int list" where
  "bonito_tx_3 =
     [3, 4, 10, - 2146598296, 2145797691, 842978, 0, - 842978, 3, 10, 10, - 2146598296,
      2145797691, 842978, 0, - 842978, 19, 10, 6, 4, 1024, 8, 131067, 13, 21, 4, 0, 10789,
      1024, 1073239999, 3, 4, 6, - 2131386568, 2127392723, 10045462, 0, - 10045462, 19, 6, 7,
      5, 32768, 1, 262135, 12, 3, 4, 6, - 2131386568, 2127392723, 10045462, 0, - 10045462, 19,
      6, 8, 6, 32768, 1, 262135, 12, 3, 4]"

definition bonito_tx_4 :: "int list" where
  "bonito_tx_4 =
     [6, - 2131386568, 2127392723, 10045462, 0, - 10045462, 19, 6, 9, 7, 32768, 1, 262135, 12,
      3, 4, 4, - 2131386568, 2127392723, 10045462, 0, - 10045462, 19, 4, 5, 8, 32768, 1,
      262135, 12, 23, 8, 7, 6, 5, 1, 6001, 6002, 6003, 6004, 0, 17, 1, 4, 17, 2, 5, 3, 5, 5,
      - 2143508228, 2139547499, 2143511901, - 2143511901, 2143511901, 3, 5, 5, - 2143508228,
      2139547499, 2143511901, - 2143511901, 2143511901, 3]"

definition bonito_tx_5 :: "int list" where
  "bonito_tx_5 =
     [5, 6, - 2146598296, 2145797691, 842978, 0, - 842978, 3, 6, 6, - 2146598296, 2145797691,
      842978, 0, - 842978, 3, 5, 7, - 2123141140, 2120572843, 13455402, 0, - 13455402, 3, 5,
      8, - 2123141140, 2120572843, 13455402, 0, - 13455402, 3, 5, 9, - 2123141140, 2120572843,
      13455402, 0, - 13455402, 3, 5, 5, - 2123141140, 2120572843, 13455402, 0, - 13455402, 3,
      4, 4, - 2143508228, 2139547499, 2143511901, - 2143511901, 2143511901, 3, 4, 4,
      - 2143508228, 2139547499, 2143511901, - 2143511901, 2143511901, 3]"

definition bonito_tx_6 :: "int list" where
  "bonito_tx_6 =
     [4, 10, - 2146598296, 2145797691, 842978, 0, - 842978, 3, 10, 10, - 2146598296,
      2145797691, 842978, 0, - 842978, 19, 10, 6, 9, 1024, 8, 131067, 13, 21, 9, 2, 9003,
      1024, 1073239999, 3, 4, 6, - 2123141140, 2120572843, 13455402, 0, - 13455402, 19, 6, 7,
      10, 32768, 1, 262135, 12, 3, 4, 6, - 2123141140, 2120572843, 13455402, 0, - 13455402,
      19, 6, 8, 11, 32768, 1, 262135, 12, 3, 4, 6]"

definition bonito_tx_7 :: "int list" where
  "bonito_tx_7 =
     [- 2123141140, 2120572843, 13455402, 0, - 13455402, 19, 6, 9, 12, 32768, 1, 262135, 12,
      3, 4, 4, - 2123141140, 2120572843, 13455402, 0, - 13455402, 19, 4, 5, 13, 32768, 1,
      262135, 12, 23, 13, 12, 11, 10, 3, 6001, 6002, 6003, 6004, 0]"

definition bonito_tx :: "int list" where
  "bonito_tx =
     bonito_tx_1 @ bonito_tx_2 @ bonito_tx_3 @ bonito_tx_4 @ bonito_tx_5 @
      bonito_tx_6 @ bonito_tx_7 @ [- 1488967997]"

section \<open>Checksums\<close>

lemma crc_sargo_rx_1: "crc_run 4294967295 sargo_rx_1 = 193229027"
  unfolding sargo_rx_1_def by (simp add: crc_eval cong: crc_run_cong)

lemma crc_sargo_rx_2: "crc_run 193229027 sargo_rx_2 = 1056779012"
  unfolding sargo_rx_2_def by (simp add: crc_eval cong: crc_run_cong)

lemma crc_sargo_rx_3: "crc_run 1056779012 sargo_rx_3 = 3486622292"
  unfolding sargo_rx_3_def by (simp add: crc_eval cong: crc_run_cong)

lemma crc_sargo_rx_4: "crc_run 3486622292 sargo_rx_4 = 2963290269"
  unfolding sargo_rx_4_def by (simp add: crc_eval cong: crc_run_cong)

lemma crc_sargo_rx_5: "crc_run 2963290269 sargo_rx_5 = 1745110733"
  unfolding sargo_rx_5_def by (simp add: crc_eval cong: crc_run_cong)

lemma crc_sargo_rx_6: "crc_run 1745110733 sargo_rx_6 = 726847275"
  unfolding sargo_rx_6_def by (simp add: crc_eval cong: crc_run_cong)

lemma crc_sargo_rx_7: "crc_run 726847275 sargo_rx_7 = 1065803580"
  unfolding sargo_rx_7_def by (simp add: crc_eval cong: crc_run_cong)

lemma crc_sargo_rx_8: "crc_run 1065803580 sargo_rx_8 = 1816401968"
  unfolding sargo_rx_8_def by (simp add: crc_eval cong: crc_run_cong)

lemma crc_sargo_rx_9: "crc_run 1816401968 sargo_rx_9 = 3290893892"
  unfolding sargo_rx_9_def by (simp add: crc_eval cong: crc_run_cong)

lemma crc_sargo_rx_10: "crc_run 3290893892 sargo_rx_10 = 2242157006"
  unfolding sargo_rx_10_def by (simp add: crc_eval cong: crc_run_cong)

lemma crc_sargo_tx_1: "crc_run 4294967295 sargo_tx_1 = 1977616006"
  unfolding sargo_tx_1_def by (simp add: crc_eval cong: crc_run_cong)

lemma crc_sargo_tx_2: "crc_run 1977616006 sargo_tx_2 = 2586133205"
  unfolding sargo_tx_2_def by (simp add: crc_eval cong: crc_run_cong)

lemma crc_sargo_tx_3: "crc_run 2586133205 sargo_tx_3 = 2509643991"
  unfolding sargo_tx_3_def by (simp add: crc_eval cong: crc_run_cong)

lemma crc_sargo_tx_4: "crc_run 2509643991 sargo_tx_4 = 1240748432"
  unfolding sargo_tx_4_def by (simp add: crc_eval cong: crc_run_cong)

lemma crc_sargo_tx_5: "crc_run 1240748432 sargo_tx_5 = 344170219"
  unfolding sargo_tx_5_def by (simp add: crc_eval cong: crc_run_cong)

lemma crc_sargo_tx_6: "crc_run 344170219 sargo_tx_6 = 3437980136"
  unfolding sargo_tx_6_def by (simp add: crc_eval cong: crc_run_cong)

lemma crc_sargo_tx_7: "crc_run 3437980136 sargo_tx_7 = 2102453469"
  unfolding sargo_tx_7_def by (simp add: crc_eval cong: crc_run_cong)

lemma crc_bonito_rx_1: "crc_run 4294967295 bonito_rx_1 = 193229027"
  unfolding bonito_rx_1_def by (simp add: crc_eval cong: crc_run_cong)

lemma crc_bonito_rx_2: "crc_run 193229027 bonito_rx_2 = 1514063781"
  unfolding bonito_rx_2_def by (simp add: crc_eval cong: crc_run_cong)

lemma crc_bonito_rx_3: "crc_run 1514063781 bonito_rx_3 = 2211480619"
  unfolding bonito_rx_3_def by (simp add: crc_eval cong: crc_run_cong)

lemma crc_bonito_rx_4: "crc_run 2211480619 bonito_rx_4 = 3663099965"
  unfolding bonito_rx_4_def by (simp add: crc_eval cong: crc_run_cong)

lemma crc_bonito_rx_5: "crc_run 3663099965 bonito_rx_5 = 107099263"
  unfolding bonito_rx_5_def by (simp add: crc_eval cong: crc_run_cong)

lemma crc_bonito_rx_6: "crc_run 107099263 bonito_rx_6 = 390093276"
  unfolding bonito_rx_6_def by (simp add: crc_eval cong: crc_run_cong)

lemma crc_bonito_rx_7: "crc_run 390093276 bonito_rx_7 = 3042195800"
  unfolding bonito_rx_7_def by (simp add: crc_eval cong: crc_run_cong)

lemma crc_bonito_rx_8: "crc_run 3042195800 bonito_rx_8 = 3287254731"
  unfolding bonito_rx_8_def by (simp add: crc_eval cong: crc_run_cong)

lemma crc_bonito_rx_9: "crc_run 3287254731 bonito_rx_9 = 928779416"
  unfolding bonito_rx_9_def by (simp add: crc_eval cong: crc_run_cong)

lemma crc_bonito_rx_10: "crc_run 928779416 bonito_rx_10 = 1076593315"
  unfolding bonito_rx_10_def by (simp add: crc_eval cong: crc_run_cong)

lemma crc_bonito_tx_1: "crc_run 4294967295 bonito_tx_1 = 1977616006"
  unfolding bonito_tx_1_def by (simp add: crc_eval cong: crc_run_cong)

lemma crc_bonito_tx_2: "crc_run 1977616006 bonito_tx_2 = 753475878"
  unfolding bonito_tx_2_def by (simp add: crc_eval cong: crc_run_cong)

lemma crc_bonito_tx_3: "crc_run 753475878 bonito_tx_3 = 2116464101"
  unfolding bonito_tx_3_def by (simp add: crc_eval cong: crc_run_cong)

lemma crc_bonito_tx_4: "crc_run 2116464101 bonito_tx_4 = 2295354012"
  unfolding bonito_tx_4_def by (simp add: crc_eval cong: crc_run_cong)

lemma crc_bonito_tx_5: "crc_run 2295354012 bonito_tx_5 = 2884651561"
  unfolding bonito_tx_5_def by (simp add: crc_eval cong: crc_run_cong)

lemma crc_bonito_tx_6: "crc_run 2884651561 bonito_tx_6 = 2160519614"
  unfolding bonito_tx_6_def by (simp add: crc_eval cong: crc_run_cong)

lemma crc_bonito_tx_7: "crc_run 2160519614 bonito_tx_7 = 1488967996"
  unfolding bonito_tx_7_def by (simp add: crc_eval cong: crc_run_cong)

lemma sargo_rx_crc: "Generate_CRC sargo_rx = last sargo_rx"
  unfolding sargo_rx_def append_assoc [symmetric]
  by (simp only: Generate_CRC_run last_snoc crc_run_append
      crc_sargo_rx_1 crc_sargo_rx_2 crc_sargo_rx_3 crc_sargo_rx_4 crc_sargo_rx_5
      crc_sargo_rx_6 crc_sargo_rx_7 crc_sargo_rx_8 crc_sargo_rx_9 crc_sargo_rx_10)
    (simp add: as_signed_def)

lemma sargo_tx_crc: "Generate_CRC sargo_tx = last sargo_tx"
  unfolding sargo_tx_def append_assoc [symmetric]
  by (simp only: Generate_CRC_run last_snoc crc_run_append
      crc_sargo_tx_1 crc_sargo_tx_2 crc_sargo_tx_3 crc_sargo_tx_4 crc_sargo_tx_5
      crc_sargo_tx_6 crc_sargo_tx_7)
    (simp add: as_signed_def)

lemma bonito_rx_crc: "Generate_CRC bonito_rx = last bonito_rx"
  unfolding bonito_rx_def append_assoc [symmetric]
  by (simp only: Generate_CRC_run last_snoc crc_run_append
      crc_bonito_rx_1 crc_bonito_rx_2 crc_bonito_rx_3 crc_bonito_rx_4 crc_bonito_rx_5
      crc_bonito_rx_6 crc_bonito_rx_7 crc_bonito_rx_8 crc_bonito_rx_9 crc_bonito_rx_10)
    (simp add: as_signed_def)

lemma bonito_tx_crc: "Generate_CRC bonito_tx = last bonito_tx"
  unfolding bonito_tx_def append_assoc [symmetric]
  by (simp only: Generate_CRC_run last_snoc crc_run_append
      crc_bonito_tx_1 crc_bonito_tx_2 crc_bonito_tx_3 crc_bonito_tx_4 crc_bonito_tx_5
      crc_bonito_tx_6 crc_bonito_tx_7)
    (simp add: as_signed_def)

section \<open>Well-formed configurations\<close>

definition port_numbers :: "int list \<Rightarrow> int list" where
  "port_numbers xs = [xs ! 13, xs ! 15, xs ! 17, xs ! 19]"

text \<open>The count of parameters is followed by their numbers.\<close>

definition parameter_numbers :: "nat \<Rightarrow> int list \<Rightarrow> int list" where
  "parameter_numbers at xs = take (nat (xs ! at)) (drop (at + 1) xs)"

lemma parameter_numbers_prefix:
  "nat (xs ! at) + at + 1 \<le> 64 \<Longrightarrow> parameter_numbers at xs = parameter_numbers at (take 64 xs)"
  by (simp add: parameter_numbers_def drop_take min_def)

definition well_formed :: "symbols \<Rightarrow> nat \<Rightarrow> int list \<Rightarrow> bool" where
  "well_formed syms at xs \<longleftrightarrow>
     xs ! 0 = int (length xs) \<and> last xs = Generate_CRC xs \<and> list_all in_range xs \<and>
     distinct (map fst syms) \<and>
     map snd syms \<in> lists (set (port_numbers xs @ parameter_numbers at xs)) \<and>
     set (port_numbers xs @ parameter_numbers at xs) \<subseteq> snd ` set syms"

lemma sargo_rx_numbers: "list_all in_range sargo_rx" "length sargo_rx = 589"
  by (simp_all add: sargo_rx_def in_range_def
      sargo_rx_1_def sargo_rx_2_def sargo_rx_3_def sargo_rx_4_def sargo_rx_5_def
      sargo_rx_6_def sargo_rx_7_def sargo_rx_8_def sargo_rx_9_def sargo_rx_10_def)

lemma sargo_rx_well_formed: "well_formed sargo_rx_symbols 30 sargo_rx"
proof -
  have first: "take 64 sargo_rx = sargo_rx_1" by (simp add: sargo_rx_def sargo_rx_1_def)
  have at: "sargo_rx ! i = sargo_rx_1 ! i" if "i < 64" for i
    using that by (simp flip: first)
  have params: "parameter_numbers 30 sargo_rx = parameter_numbers 30 sargo_rx_1"
    using parameter_numbers_prefix [of sargo_rx 30] by (simp add: first at sargo_rx_1_def)
  show ?thesis
    unfolding well_formed_def params port_numbers_def
    unfolding parameter_numbers_def
    by (simp add: at sargo_rx_numbers sargo_rx_crc sargo_rx_1_def sargo_rx_symbols_def)
qed

lemma sargo_tx_numbers: "list_all in_range sargo_tx" "length sargo_tx = 425"
  by (simp_all add: sargo_tx_def in_range_def
      sargo_tx_1_def sargo_tx_2_def sargo_tx_3_def sargo_tx_4_def sargo_tx_5_def
      sargo_tx_6_def sargo_tx_7_def)

lemma sargo_tx_well_formed: "well_formed sargo_tx_symbols 36 sargo_tx"
proof -
  have first: "take 64 sargo_tx = sargo_tx_1" by (simp add: sargo_tx_def sargo_tx_1_def)
  have at: "sargo_tx ! i = sargo_tx_1 ! i" if "i < 64" for i
    using that by (simp flip: first)
  have params: "parameter_numbers 36 sargo_tx = parameter_numbers 36 sargo_tx_1"
    using parameter_numbers_prefix [of sargo_tx 36] by (simp add: first at sargo_tx_1_def)
  show ?thesis
    unfolding well_formed_def params port_numbers_def
    unfolding parameter_numbers_def
    by (simp add: at sargo_tx_numbers sargo_tx_crc sargo_tx_1_def sargo_tx_symbols_def)
qed

lemma bonito_rx_numbers: "list_all in_range bonito_rx" "length bonito_rx = 589"
  by (simp_all add: bonito_rx_def in_range_def
      bonito_rx_1_def bonito_rx_2_def bonito_rx_3_def bonito_rx_4_def bonito_rx_5_def
      bonito_rx_6_def bonito_rx_7_def bonito_rx_8_def bonito_rx_9_def bonito_rx_10_def)

lemma bonito_rx_well_formed: "well_formed bonito_rx_symbols 30 bonito_rx"
proof -
  have first: "take 64 bonito_rx = bonito_rx_1" by (simp add: bonito_rx_def bonito_rx_1_def)
  have at: "bonito_rx ! i = bonito_rx_1 ! i" if "i < 64" for i
    using that by (simp flip: first)
  have params: "parameter_numbers 30 bonito_rx = parameter_numbers 30 bonito_rx_1"
    using parameter_numbers_prefix [of bonito_rx 30] by (simp add: first at bonito_rx_1_def)
  show ?thesis
    unfolding well_formed_def params port_numbers_def
    unfolding parameter_numbers_def
    by (simp add: at bonito_rx_numbers bonito_rx_crc bonito_rx_1_def bonito_rx_symbols_def)
qed

lemma bonito_tx_numbers: "list_all in_range bonito_tx" "length bonito_tx = 425"
  by (simp_all add: bonito_tx_def in_range_def
      bonito_tx_1_def bonito_tx_2_def bonito_tx_3_def bonito_tx_4_def bonito_tx_5_def
      bonito_tx_6_def bonito_tx_7_def)

lemma bonito_tx_well_formed: "well_formed bonito_tx_symbols 36 bonito_tx"
proof -
  have first: "take 64 bonito_tx = bonito_tx_1" by (simp add: bonito_tx_def bonito_tx_1_def)
  have at: "bonito_tx ! i = bonito_tx_1 ! i" if "i < 64" for i
    using that by (simp flip: first)
  have params: "parameter_numbers 36 bonito_tx = parameter_numbers 36 bonito_tx_1"
    using parameter_numbers_prefix [of bonito_tx 36] by (simp add: first at bonito_tx_1_def)
  show ?thesis
    unfolding well_formed_def params port_numbers_def
    unfolding parameter_numbers_def
    by (simp add: at bonito_tx_numbers bonito_tx_crc bonito_tx_1_def bonito_tx_symbols_def)
qed

section \<open>The installed firmware\<close>

text \<open>
  The four files of speaker tuning that device.mk installs as firmware (lines 717 to 720), as the
  numbers that their bytes are, least significant byte first; and that these, like the
  configurations of the headers, are well formed. No header of the repository has their numbers,
  so the ports and the parameters are compared with the symbols of the device's last header.
\<close>

subsection \<open>crus\_sp\_config\_s4\_rx.bin\<close>

definition s4_rx_1 :: "int list" where
  "s4_rx_1 =
     [589, 4, 768, 1234, 14344, 768, 5679, 16, 9875, 48000, 48, 8, 4, 1, 4, 2, 4, 3, 4, 4, 4,
      0, 48, 0, 48, 0, 48, 0, 48, 16, 16, 902, 120, 906, 119, 900, 908, 901, 122, 121, 909,
      907, 903, 905, 904, 911, 910, 70, 53, 1, 4, 53, 1, 5, 53, 0, 5, 1, 4, 4, 53, 0, 5, 1]"

definition s4_rx_2 :: "int list" where
  "s4_rx_2 =
     [5, 5, 1, 5, 5, 1, 5, 5, 3, 5, 5, - 2137545157, 2127698234, 2137568049, - 2137568049,
      2137568049, 3, 5, 5, - 2137545157, 2127698234, 2137568049, - 2137568049, 2137568049, 1,
      5, 5, 1, 5, 5, 1, 5, 5, 1, 5, 5, 11, 5, 6, 8, 4, 6001, 6002, 6003, 6004, 2, 4,
      - 2065930016, - 2066834109, - 2068097641, - 2070117331, 4, 1996520529, 1997880356,
      2000251654, 2003740600, 4, 2519362, 2431941, 2416185, 2295805, 4, 2519362, 2431941]"

definition s4_rx_3 :: "int list" where
  "s4_rx_3 =
     [2416185, 2295805, 4, 2519362, 2431941, 2416185, 2295805, 11, 6, 6, 8, 4, 6001, 6002,
      6003, 6004, 2, 4, - 2136676965, - 2136676965, - 2136676965, - 2136680249, 4, 2126069125,
      2126069125, 2126069125, 2126075580, 4, 1884487774, 1884487774, 1884487774, 1882189608,
      4, - 1874399410, - 1874399410, - 1874399410, - 1872110784, 4, 1864508349, 1864508349,
      1864508349, 1862229136, 22, 5, 5, 144, 41, 6, 6, 7, 16, 27, 7, 6, 144, 267, 2146747946,
      40, 6, 6, 13421618, 18, 6, 6]"

definition s4_rx_4 :: "int list" where
  "s4_rx_4 =
     [17, 7895160, 7895160, 7895160, 7895160, 7895160, 7895160, 7895160, 7895160, 7895160,
      7895160, 7895160, 7895160, 7895160, 7895160, 7895160, 7895160, 7895160, 22, 5, 5, 16,
      39, 5, 6, 6, 1, 5, 5, 3, 5, 5, - 1792293227, 1538959524, 1817757406, - 1817757406,
      1817757406, 3, 5, 5, - 1792293227, 1538959524, 1817757406, - 1817757406, 1817757406, 37,
      5, 5, 3, 4, 6, 0, 11, 12, 40, 100, 11291, 23, 3650722, 751619276, 322122547, 1073577011,
      1073752125, 932472]"

definition s4_rx_5 :: "int list" where
  "s4_rx_5 =
     [3, 6, 6, - 1792293227, 1538959524, 25464179, 25464179, 25464179, 3, 6, 6, - 1792293227,
      1538959524, 25464179, 25464179, 25464179, 4, 5, 6, 5, 37, 5, 5, 3, 4, 6, 0, 11, 13, 40,
      100, 11291, 23, 3650722, 510027366, 120795955, 1073731522, 1073746974, 932472, 25, 5, 6,
      48, 2386766, 499999, 4800, 3, 6, 6, - 2133569855, 2119835204, 44785, 44785, 44785, 1, 6,
      7, 4, 5, 6, 6, 1, 5, 5]"

definition s4_rx_6 :: "int list" where
  "s4_rx_6 =
     [4, 7, 5, 5, 52, 5, 2, 1, 4, 4, 1, 4, 4, 3, 4, 4, - 2137545157, 2127698234, 2137568049,
      - 2137568049, 2137568049, 3, 4, 4, - 2137545157, 2127698234, 2137568049, - 2137568049,
      2137568049, 1, 4, 4, 1, 4, 4, 1, 4, 4, 1, 4, 4, 11, 4, 5, 7, 4, 6001, 6002, 6003, 6004,
      2, 4, - 2094982360, - 2083126498, - 2081854881, - 2071722067, 4, 2057693420, 2038928064,
      2039160991, 2024881415, 4, 1824779, 2418116]"

definition s4_rx_7 :: "int list" where
  "s4_rx_7 =
     [2751127, 3469177, 4, 1824779, 2418116, 2751127, 3469177, 4, 1824779, 2418116, 2751127,
      3469177, 11, 5, 5, 7, 4, 6001, 6002, 6003, 6004, 2, 4, - 2140400695, - 2140400695,
      - 2140400695, - 2140400695, 4, 2133400826, 2133400826, 2133400826, 2133400826, 4,
      1604311701, 1604311701, 1604311701, 1604311701, 4, - 1598234016, - 1598234016,
      - 1598234016, - 1598234016, 4, 1592238115, 1592238115, 1592238115, 1592238115, 22, 4, 4,
      144, 41, 5, 6, 5, 16, 27, 5, 5, 144, 267, 2146747946, 40, 5]"

definition s4_rx_8 :: "int list" where
  "s4_rx_8 =
     [5, 23324100, 18, 5, 5, 17, 7895160, 7895160, 7895160, 7895160, 7895160, 7895160,
      7895160, 7895160, 7895160, 7895160, 7895160, 7895160, 7895160, 7895160, 7895160,
      7895160, 7895160, 22, 4, 4, 16, 39, 4, 5, 5, 1, 4, 4, 3, 4, 4, - 1792293227, 1538959524,
      1817757406, - 1817757406, 1817757406, 3, 4, 4, - 1792293227, 1538959524, 1817757406,
      - 1817757406, 1817757406, 37, 4, 4, 1, 2, 10, 5, 9, 14, 50, 110, 9603, 23, 3833258]"

definition s4_rx_9 :: "int list" where
  "s4_rx_9 =
     [858993459, 214748364, 1073422522, 1073752125, 1043988, 3, 5, 5, - 1792293227,
      1538959524, 25464179, 25464179, 25464179, 3, 5, 5, - 1792293227, 1538959524, 25464179,
      25464179, 25464179, 4, 4, 5, 4, 37, 4, 4, 1, 2, 10, 5, 9, 15, 50, 110, 9603, 23,
      3833258, 751619276, 107374182, 1073577011, 1073746974, 1043988, 25, 4, 5, 48, 2386766,
      499999, 4800, 3, 5, 5, - 2133569855, 2119835204, 44785, 44785, 44785, 1, 5, 6, 4, 4]"

definition s4_rx_10 :: "int list" where
  "s4_rx_10 =
     [5, 5, 1, 4, 4, 4, 6, 4, 4, 52, 4, 3]"

definition s4_rx :: "int list" where
  "s4_rx =
     s4_rx_1 @ s4_rx_2 @ s4_rx_3 @ s4_rx_4 @ s4_rx_5 @ s4_rx_6 @ s4_rx_7 @ s4_rx_8 @
      s4_rx_9 @ s4_rx_10 @ [- 1416124110]"

subsection \<open>crus\_sp\_config\_s4\_tx.bin\<close>

definition s4_tx_1 :: "int list" where
  "s4_tx_1 =
     [425, 4, 768, 1234, 4468, 1344, 5679, 16, 9875, 48000, 48, 11, 4, 10, 2, 11, 2, 12, 2, 9,
      2, 0, 48, 0, 48, 0, 48, 0, 48, 0, 48, 0, 48, 0, 48, 14, 4, 119, 121, 120, 122, 50, 17,
      3, 4, 17, 0, 5, 3, 5, 5, - 2143508228, 2139547499, 2143511901, - 2143511901, 2143511901,
      3, 5, 5, - 2143508228, 2139547499, 2143511901, - 2143511901, 2143511901]"

definition s4_tx_2 :: "int list" where
  "s4_tx_2 =
     [3, 5, 6, - 2146598296, 2145797691, 842978, 0, - 842978, 3, 6, 6, - 2146598296,
      2145797691, 842978, 0, - 842978, 3, 5, 7, - 2134833024, 2130659539, 8412054, 0,
      - 8412054, 3, 5, 8, - 2134552030, 2130381212, 8551217, 0, - 8551217, 3, 5, 9,
      - 2134692814, 2130520369, 8481639, 0, - 8481639, 3, 5, 5, - 2133514194, 2129372739,
      9055454, 0, - 9055454, 3, 4, 4, - 2143508228, 2139547499, 2143511901, - 2143511901,
      2143511901, 3, 4, 4, - 2143508228, 2139547499, 2143511901, - 2143511901, 2143511901]"

definition s4_tx_3 :: "int list" where
  "s4_tx_3 =
     [3, 4, 10, - 2146598296, 2145797691, 842978, 0, - 842978, 3, 10, 10, - 2146598296,
      2145797691, 842978, 0, - 842978, 19, 10, 6, 4, 1024, 8, 131067, 13, 21, 4, 0, 11291,
      1024, 1073239999, 3, 4, 6, - 2134833024, 2130659539, 8412054, 0, - 8412054, 19, 6, 7, 5,
      32768, 1, 262135, 12, 3, 4, 6, - 2134552030, 2130381212, 8551217, 0, - 8551217, 19, 6,
      8, 6, 32768, 1, 262135, 12, 3, 4]"

definition s4_tx_4 :: "int list" where
  "s4_tx_4 =
     [6, - 2134692814, 2130520369, 8481639, 0, - 8481639, 19, 6, 9, 7, 32768, 1, 262135, 12,
      3, 4, 4, - 2133514194, 2129372739, 9055454, 0, - 9055454, 19, 4, 5, 8, 32768, 1, 262135,
      12, 23, 8, 7, 6, 5, 1, 6001, 6002, 6003, 6004, 2, 17, 1, 4, 17, 2, 5, 3, 5, 5,
      - 2143508228, 2139547499, 2143511901, - 2143511901, 2143511901, 3, 5, 5, - 2143508228,
      2139547499, 2143511901, - 2143511901, 2143511901, 3]"

definition s4_tx_5 :: "int list" where
  "s4_tx_5 =
     [5, 6, - 2146598296, 2145797691, 842978, 0, - 842978, 3, 6, 6, - 2146598296, 2145797691,
      842978, 0, - 842978, 3, 5, 7, - 2120403669, 2118537825, 14472911, 0, - 14472911, 3, 5,
      8, - 2120923380, 2118916961, 14283343, 0, - 14283343, 3, 5, 9, - 2120070718, 2118296622,
      14593512, 0, - 14593512, 3, 5, 5, - 2119399627, 2117814372, 14834637, 0, - 14834637, 3,
      4, 4, - 2143508228, 2139547499, 2143511901, - 2143511901, 2143511901, 3, 4, 4,
      - 2143508228, 2139547499, 2143511901, - 2143511901, 2143511901, 3]"

definition s4_tx_6 :: "int list" where
  "s4_tx_6 =
     [4, 10, - 2146598296, 2145797691, 842978, 0, - 842978, 3, 10, 10, - 2146598296,
      2145797691, 842978, 0, - 842978, 19, 10, 6, 9, 1024, 8, 131067, 13, 21, 9, 2, 9603,
      1024, 1073239999, 3, 4, 6, - 2120403669, 2118537825, 14472911, 0, - 14472911, 19, 6, 7,
      10, 32768, 1, 262135, 12, 3, 4, 6, - 2120923380, 2118916961, 14283343, 0, - 14283343,
      19, 6, 8, 11, 32768, 1, 262135, 12, 3, 4, 6]"

definition s4_tx_7 :: "int list" where
  "s4_tx_7 =
     [- 2120070718, 2118296622, 14593512, 0, - 14593512, 19, 6, 9, 12, 32768, 1, 262135, 12,
      3, 4, 4, - 2119399627, 2117814372, 14834637, 0, - 14834637, 19, 4, 5, 13, 32768, 1,
      262135, 12, 23, 13, 12, 11, 10, 3, 6001, 6002, 6003, 6004, 2]"

definition s4_tx :: "int list" where
  "s4_tx =
     s4_tx_1 @ s4_tx_2 @ s4_tx_3 @ s4_tx_4 @ s4_tx_5 @ s4_tx_6 @ s4_tx_7 @ [21666474]"

subsection \<open>crus\_sp\_config\_b4\_rx.bin\<close>

definition b4_rx_1 :: "int list" where
  "b4_rx_1 =
     [589, 4, 768, 1234, 14344, 768, 5679, 16, 9875, 48000, 48, 8, 4, 1, 4, 2, 4, 3, 4, 4, 4,
      0, 48, 0, 48, 0, 48, 0, 48, 16, 16, 902, 120, 906, 119, 900, 908, 901, 122, 121, 909,
      907, 903, 905, 904, 911, 910, 70, 53, 1, 4, 53, 1, 5, 53, 0, 5, 1, 4, 4, 53, 0, 5, 1]"

definition b4_rx_2 :: "int list" where
  "b4_rx_2 =
     [5, 5, 1, 5, 5, 1, 5, 5, 3, 5, 5, - 2137545157, 2127698234, 2137568049, - 2137568049,
      2137568049, 3, 5, 5, - 2137545157, 2127698234, 2137568049, - 2137568049, 2137568049, 1,
      5, 5, 1, 5, 5, 1, 5, 5, 1, 5, 5, 11, 5, 6, 8, 4, 6001, 6002, 6003, 6004, 2, 4,
      - 2062825793, - 2070068814, - 2067524644, - 2065825344, 4, 1992058032, 2004204998,
      1999844440, 1996942925, 4, 2830672, 2370307, 2519651, 2615624, 4, 2830672, 2370307]"

definition b4_rx_3 :: "int list" where
  "b4_rx_3 =
     [2519651, 2615624, 4, 2830672, 2370307, 2519651, 2615624, 11, 6, 6, 8, 4, 6001, 6002,
      6003, 6004, 2, 4, - 2135702057, - 2135702057, - 2135702057, - 2135702057, 4, 2124147665,
      2124147665, 2124147665, 2124147665, 4, 1911431571, 1911431571, 1911431571, 1911431571,
      4, - 1900346581, - 1900346581, - 1900346581, - 1900346581, 4, 1889487380, 1889487380,
      1889487380, 1889487380, 22, 5, 5, 144, 41, 6, 6, 7, 16, 27, 7, 6, 144, 267, 2146747946,
      40, 6, 6, 13421618, 18, 6, 6]"

definition b4_rx_4 :: "int list" where
  "b4_rx_4 =
     [17, 7895160, 7895160, 7895160, 7895160, 7895160, 7895160, 7895160, 7895160, 7895160,
      7895160, 7895160, 7895160, 7895160, 7895160, 7895160, 7895160, 7895160, 22, 5, 5, 16,
      39, 5, 6, 6, 1, 5, 5, 3, 5, 5, - 1792293227, 1538959524, 1817757406, - 1817757406,
      1817757406, 3, 5, 5, - 1792293227, 1538959524, 1817757406, - 1817757406, 1817757406, 37,
      5, 5, 3, 4, 6, 0, 11, 12, 40, 100, 11055, 23, 3650722, 751619276, 322122547, 1073577011,
      1073752125, 952320]"

definition b4_rx_5 :: "int list" where
  "b4_rx_5 =
     [3, 6, 6, - 1792293227, 1538959524, 25464179, 25464179, 25464179, 3, 6, 6, - 1792293227,
      1538959524, 25464179, 25464179, 25464179, 4, 5, 6, 5, 37, 5, 5, 3, 4, 6, 0, 11, 13, 40,
      100, 11055, 23, 3650722, 510027366, 120795955, 1073731522, 1073746974, 952320, 25, 5, 6,
      48, 2386766, 499999, 4800, 3, 6, 6, - 2133569855, 2119835204, 44785, 44785, 44785, 1, 6,
      7, 4, 5, 6, 6, 1, 5, 5]"

definition b4_rx_6 :: "int list" where
  "b4_rx_6 =
     [4, 7, 5, 5, 52, 5, 2, 1, 4, 4, 1, 4, 4, 3, 4, 4, - 2137545157, 2127698234, 2137568049,
      - 2137568049, 2137568049, 3, 4, 4, - 2137545157, 2127698234, 2137568049, - 2137568049,
      2137568049, 1, 4, 4, 1, 4, 4, 1, 4, 4, 1, 4, 4, 11, 4, 5, 7, 4, 6001, 6002, 6003, 6004,
      3, 4, - 2056219888, - 2047543077, - 2048033860, - 2056722907, 4, 1990969188, 1975740464,
      1976475775, 1991981589, 4, 3985641, 3626689]"

definition b4_rx_7 :: "int list" where
  "b4_rx_7 =
     [3607387, 4112535, 4, 3985641, 3626689, 3607387, 4112535, 4, 3985641, 3626689, 3607387,
      4112535, 11, 5, 5, 7, 4, 6001, 6002, 6003, 6004, 3, 4, - 2130635104, - 2129939308,
      - 2129939308, - 2131837447, 4, 2113977231, 2112727398, 2112727398, 2116376223, 4,
      1302277300, 1582313361, 1582313361, 1284394218, 4, - 1289130727, - 1567252756,
      - 1567252756, - 1272274281, 4, 1276175392, 1552524029, 1552524029, 1260339675, 22, 4, 4,
      144, 41, 5, 6, 5, 16, 27, 5, 5, 144, 267, 2146747946, 40, 5]"

definition b4_rx_8 :: "int list" where
  "b4_rx_8 =
     [5, 21271832, 18, 5, 5, 17, 7895160, 7895160, 7895160, 7895160, 7895160, 7895160,
      7895160, 7895160, 7895160, 7895160, 7895160, 7895160, 7895160, 7895160, 7895160,
      7895160, 7895160, 22, 4, 4, 16, 39, 4, 5, 5, 1, 4, 4, 3, 4, 4, - 1792293227, 1538959524,
      1817757406, - 1817757406, 1817757406, 3, 4, 4, - 1792293227, 1538959524, 1817757406,
      - 1817757406, 1817757406, 37, 4, 4, 1, 2, 10, 5, 9, 14, 50, 110, 9662, 23, 3833258]"

definition b4_rx_9 :: "int list" where
  "b4_rx_9 =
     [858993459, 214748364, 1073422522, 1073752125, 1037431, 3, 5, 5, - 1792293227,
      1538959524, 25464179, 25464179, 25464179, 3, 5, 5, - 1792293227, 1538959524, 25464179,
      25464179, 25464179, 4, 4, 5, 4, 37, 4, 4, 1, 2, 10, 5, 9, 15, 50, 110, 9662, 23,
      3833258, 751619276, 107374182, 1073577011, 1073746974, 1037431, 25, 4, 5, 48, 2386766,
      499999, 4800, 3, 5, 5, - 2133569855, 2119835204, 44785, 44785, 44785, 1, 5, 6, 4, 4]"

definition b4_rx_10 :: "int list" where
  "b4_rx_10 =
     [5, 5, 1, 4, 4, 4, 6, 4, 4, 52, 4, 3]"

definition b4_rx :: "int list" where
  "b4_rx =
     b4_rx_1 @ b4_rx_2 @ b4_rx_3 @ b4_rx_4 @ b4_rx_5 @ b4_rx_6 @ b4_rx_7 @ b4_rx_8 @
      b4_rx_9 @ b4_rx_10 @ [1076426016]"

subsection \<open>crus\_sp\_config\_b4\_tx.bin\<close>

definition b4_tx_1 :: "int list" where
  "b4_tx_1 =
     [425, 4, 768, 1234, 4468, 1344, 5679, 16, 9875, 48000, 48, 11, 4, 10, 2, 11, 2, 12, 2, 9,
      2, 0, 48, 0, 48, 0, 48, 0, 48, 0, 48, 0, 48, 0, 48, 14, 4, 119, 121, 120, 122, 50, 17,
      3, 4, 17, 0, 5, 3, 5, 5, - 2143508228, 2139547499, 2143511901, - 2143511901, 2143511901,
      3, 5, 5, - 2143508228, 2139547499, 2143511901, - 2143511901, 2143511901]"

definition b4_tx_2 :: "int list" where
  "b4_tx_2 =
     [3, 5, 6, - 2146598296, 2145797691, 842978, 0, - 842978, 3, 6, 6, - 2146598296,
      2145797691, 842978, 0, - 842978, 3, 5, 7, - 2134233168, 2130068160, 8707743, 0,
      - 8707743, 3, 5, 8, - 2130885054, 2126941549, 10271049, 0, - 10271049, 3, 5, 9,
      - 2134622494, 2130450789, 8516429, 0, - 8516429, 3, 5, 5, - 2134552030, 2130381212,
      8551217, 0, - 8551217, 3, 4, 4, - 2143508228, 2139547499, 2143511901, - 2143511901,
      2143511901, 3, 4, 4, - 2143508228, 2139547499, 2143511901, - 2143511901, 2143511901]"

definition b4_tx_3 :: "int list" where
  "b4_tx_3 =
     [3, 4, 10, - 2146598296, 2145797691, 842978, 0, - 842978, 3, 10, 10, - 2146598296,
      2145797691, 842978, 0, - 842978, 19, 10, 6, 4, 1024, 8, 131067, 13, 21, 4, 0, 11055,
      1024, 1073239999, 3, 4, 6, - 2134233168, 2130068160, 8707743, 0, - 8707743, 19, 6, 7, 5,
      32768, 1, 262135, 12, 3, 4, 6, - 2130885054, 2126941549, 10271049, 0, - 10271049, 19, 6,
      8, 6, 32768, 1, 262135, 12, 3, 4]"

definition b4_tx_4 :: "int list" where
  "b4_tx_4 =
     [6, - 2134622494, 2130450789, 8516429, 0, - 8516429, 19, 6, 9, 7, 32768, 1, 262135, 12,
      3, 4, 4, - 2134552030, 2130381212, 8551217, 0, - 8551217, 19, 4, 5, 8, 32768, 1, 262135,
      12, 23, 8, 7, 6, 5, 1, 6001, 6002, 6003, 6004, 2, 17, 1, 4, 17, 2, 5, 3, 5, 5,
      - 2143508228, 2139547499, 2143511901, - 2143511901, 2143511901, 3, 5, 5, - 2143508228,
      2139547499, 2143511901, - 2143511901, 2143511901, 3]"

definition b4_tx_5 :: "int list" where
  "b4_tx_5 =
     [5, 6, - 2146598296, 2145797691, 842978, 0, - 842978, 3, 6, 6, - 2146598296, 2145797691,
      842978, 0, - 842978, 3, 5, 7, - 2119975271, 2118227716, 14627965, 0, - 14627965, 3, 5,
      8, - 2120070718, 2118296622, 14593512, 0, - 14593512, 3, 5, 9, - 2118233097, 2116988142,
      15247752, 0, - 15247752, 3, 5, 5, - 2119399627, 2117814372, 14834637, 0, - 14834637, 3,
      4, 4, - 2143508228, 2139547499, 2143511901, - 2143511901, 2143511901, 3, 4, 4,
      - 2143508228, 2139547499, 2143511901, - 2143511901, 2143511901, 3]"

definition b4_tx_6 :: "int list" where
  "b4_tx_6 =
     [4, 10, - 2146598296, 2145797691, 842978, 0, - 842978, 3, 10, 10, - 2146598296,
      2145797691, 842978, 0, - 842978, 19, 10, 6, 9, 1024, 8, 131067, 13, 21, 9, 2, 9662,
      1024, 1073239999, 3, 4, 6, - 2119975271, 2118227716, 14627965, 0, - 14627965, 19, 6, 7,
      10, 32768, 1, 262135, 12, 3, 4, 6, - 2120070718, 2118296622, 14593512, 0, - 14593512,
      19, 6, 8, 11, 32768, 1, 262135, 12, 3, 4, 6]"

definition b4_tx_7 :: "int list" where
  "b4_tx_7 =
     [- 2118233097, 2116988142, 15247752, 0, - 15247752, 19, 6, 9, 12, 32768, 1, 262135, 12,
      3, 4, 4, - 2119399627, 2117814372, 14834637, 0, - 14834637, 19, 4, 5, 13, 32768, 1,
      262135, 12, 23, 13, 12, 11, 10, 3, 6001, 6002, 6003, 6004, 3]"

definition b4_tx :: "int list" where
  "b4_tx =
     b4_tx_1 @ b4_tx_2 @ b4_tx_3 @ b4_tx_4 @ b4_tx_5 @ b4_tx_6 @ b4_tx_7 @ [1092767854]"

subsection \<open>Their checksums and forms\<close>

lemma crc_s4_rx_1: "crc_run 4294967295 s4_rx_1 = 1654991296"
  unfolding s4_rx_1_def by (simp add: crc_eval cong: crc_run_cong)

lemma crc_s4_rx_2: "crc_run 1654991296 s4_rx_2 = 92926344"
  unfolding s4_rx_2_def by (simp add: crc_eval cong: crc_run_cong)

lemma crc_s4_rx_3: "crc_run 92926344 s4_rx_3 = 1238460503"
  unfolding s4_rx_3_def by (simp add: crc_eval cong: crc_run_cong)

lemma crc_s4_rx_4: "crc_run 1238460503 s4_rx_4 = 1384004850"
  unfolding s4_rx_4_def by (simp add: crc_eval cong: crc_run_cong)

lemma crc_s4_rx_5: "crc_run 1384004850 s4_rx_5 = 3060974108"
  unfolding s4_rx_5_def by (simp add: crc_eval cong: crc_run_cong)

lemma crc_s4_rx_6: "crc_run 3060974108 s4_rx_6 = 1645784441"
  unfolding s4_rx_6_def by (simp add: crc_eval cong: crc_run_cong)

lemma crc_s4_rx_7: "crc_run 1645784441 s4_rx_7 = 4209622098"
  unfolding s4_rx_7_def by (simp add: crc_eval cong: crc_run_cong)

lemma crc_s4_rx_8: "crc_run 4209622098 s4_rx_8 = 1402224959"
  unfolding s4_rx_8_def by (simp add: crc_eval cong: crc_run_cong)

lemma crc_s4_rx_9: "crc_run 1402224959 s4_rx_9 = 393626309"
  unfolding s4_rx_9_def by (simp add: crc_eval cong: crc_run_cong)

lemma crc_s4_rx_10: "crc_run 393626309 s4_rx_10 = 1416124109"
  unfolding s4_rx_10_def by (simp add: crc_eval cong: crc_run_cong)

lemma s4_rx_crc: "Generate_CRC s4_rx = last s4_rx"
  unfolding s4_rx_def append_assoc [symmetric]
  by (simp only: Generate_CRC_run last_snoc crc_run_append
      crc_s4_rx_1 crc_s4_rx_2 crc_s4_rx_3 crc_s4_rx_4 crc_s4_rx_5 crc_s4_rx_6
      crc_s4_rx_7 crc_s4_rx_8 crc_s4_rx_9 crc_s4_rx_10)
    (simp add: as_signed_def)

lemma crc_s4_tx_1: "crc_run 4294967295 s4_tx_1 = 550801150"
  unfolding s4_tx_1_def by (simp add: crc_eval cong: crc_run_cong)

lemma crc_s4_tx_2: "crc_run 550801150 s4_tx_2 = 202053680"
  unfolding s4_tx_2_def by (simp add: crc_eval cong: crc_run_cong)

lemma crc_s4_tx_3: "crc_run 202053680 s4_tx_3 = 2565969411"
  unfolding s4_tx_3_def by (simp add: crc_eval cong: crc_run_cong)

lemma crc_s4_tx_4: "crc_run 2565969411 s4_tx_4 = 1546039186"
  unfolding s4_tx_4_def by (simp add: crc_eval cong: crc_run_cong)

lemma crc_s4_tx_5: "crc_run 1546039186 s4_tx_5 = 415586455"
  unfolding s4_tx_5_def by (simp add: crc_eval cong: crc_run_cong)

lemma crc_s4_tx_6: "crc_run 415586455 s4_tx_6 = 3665254843"
  unfolding s4_tx_6_def by (simp add: crc_eval cong: crc_run_cong)

lemma crc_s4_tx_7: "crc_run 3665254843 s4_tx_7 = 4273300821"
  unfolding s4_tx_7_def by (simp add: crc_eval cong: crc_run_cong)

lemma s4_tx_crc: "Generate_CRC s4_tx = last s4_tx"
  unfolding s4_tx_def append_assoc [symmetric]
  by (simp only: Generate_CRC_run last_snoc crc_run_append
      crc_s4_tx_1 crc_s4_tx_2 crc_s4_tx_3 crc_s4_tx_4 crc_s4_tx_5 crc_s4_tx_6 crc_s4_tx_7)
    (simp add: as_signed_def)

lemma crc_b4_rx_1: "crc_run 4294967295 b4_rx_1 = 1654991296"
  unfolding b4_rx_1_def by (simp add: crc_eval cong: crc_run_cong)

lemma crc_b4_rx_2: "crc_run 1654991296 b4_rx_2 = 2721651470"
  unfolding b4_rx_2_def by (simp add: crc_eval cong: crc_run_cong)

lemma crc_b4_rx_3: "crc_run 2721651470 b4_rx_3 = 1297419236"
  unfolding b4_rx_3_def by (simp add: crc_eval cong: crc_run_cong)

lemma crc_b4_rx_4: "crc_run 1297419236 b4_rx_4 = 965688657"
  unfolding b4_rx_4_def by (simp add: crc_eval cong: crc_run_cong)

lemma crc_b4_rx_5: "crc_run 965688657 b4_rx_5 = 3348936500"
  unfolding b4_rx_5_def by (simp add: crc_eval cong: crc_run_cong)

lemma crc_b4_rx_6: "crc_run 3348936500 b4_rx_6 = 2108012408"
  unfolding b4_rx_6_def by (simp add: crc_eval cong: crc_run_cong)

lemma crc_b4_rx_7: "crc_run 2108012408 b4_rx_7 = 392839421"
  unfolding b4_rx_7_def by (simp add: crc_eval cong: crc_run_cong)

lemma crc_b4_rx_8: "crc_run 392839421 b4_rx_8 = 4022071766"
  unfolding b4_rx_8_def by (simp add: crc_eval cong: crc_run_cong)

lemma crc_b4_rx_9: "crc_run 4022071766 b4_rx_9 = 1484021519"
  unfolding b4_rx_9_def by (simp add: crc_eval cong: crc_run_cong)

lemma crc_b4_rx_10: "crc_run 1484021519 b4_rx_10 = 3218541279"
  unfolding b4_rx_10_def by (simp add: crc_eval cong: crc_run_cong)

lemma b4_rx_crc: "Generate_CRC b4_rx = last b4_rx"
  unfolding b4_rx_def append_assoc [symmetric]
  by (simp only: Generate_CRC_run last_snoc crc_run_append
      crc_b4_rx_1 crc_b4_rx_2 crc_b4_rx_3 crc_b4_rx_4 crc_b4_rx_5 crc_b4_rx_6
      crc_b4_rx_7 crc_b4_rx_8 crc_b4_rx_9 crc_b4_rx_10)
    (simp add: as_signed_def)

lemma crc_b4_tx_1: "crc_run 4294967295 b4_tx_1 = 550801150"
  unfolding b4_tx_1_def by (simp add: crc_eval cong: crc_run_cong)

lemma crc_b4_tx_2: "crc_run 550801150 b4_tx_2 = 626863786"
  unfolding b4_tx_2_def by (simp add: crc_eval cong: crc_run_cong)

lemma crc_b4_tx_3: "crc_run 626863786 b4_tx_3 = 2833755678"
  unfolding b4_tx_3_def by (simp add: crc_eval cong: crc_run_cong)

lemma crc_b4_tx_4: "crc_run 2833755678 b4_tx_4 = 504825901"
  unfolding b4_tx_4_def by (simp add: crc_eval cong: crc_run_cong)

lemma crc_b4_tx_5: "crc_run 504825901 b4_tx_5 = 418711388"
  unfolding b4_tx_5_def by (simp add: crc_eval cong: crc_run_cong)

lemma crc_b4_tx_6: "crc_run 418711388 b4_tx_6 = 142286998"
  unfolding b4_tx_6_def by (simp add: crc_eval cong: crc_run_cong)

lemma crc_b4_tx_7: "crc_run 142286998 b4_tx_7 = 3202199441"
  unfolding b4_tx_7_def by (simp add: crc_eval cong: crc_run_cong)

lemma b4_tx_crc: "Generate_CRC b4_tx = last b4_tx"
  unfolding b4_tx_def append_assoc [symmetric]
  by (simp only: Generate_CRC_run last_snoc crc_run_append
      crc_b4_tx_1 crc_b4_tx_2 crc_b4_tx_3 crc_b4_tx_4 crc_b4_tx_5 crc_b4_tx_6 crc_b4_tx_7)
    (simp add: as_signed_def)

lemma s4_rx_numbers: "list_all in_range s4_rx" "length s4_rx = 589"
  by (simp_all add: s4_rx_def in_range_def
      s4_rx_1_def s4_rx_2_def s4_rx_3_def s4_rx_4_def s4_rx_5_def s4_rx_6_def
      s4_rx_7_def s4_rx_8_def s4_rx_9_def s4_rx_10_def)

lemma s4_rx_well_formed: "well_formed sargo_rx_symbols 30 s4_rx"
proof -
  have first: "take 64 s4_rx = s4_rx_1" by (simp add: s4_rx_def s4_rx_1_def)
  have at: "s4_rx ! i = s4_rx_1 ! i" if "i < 64" for i
    using that by (simp flip: first)
  have params: "parameter_numbers 30 s4_rx = parameter_numbers 30 s4_rx_1"
    using parameter_numbers_prefix [of s4_rx 30] by (simp add: first at s4_rx_1_def)
  show ?thesis
    unfolding well_formed_def params port_numbers_def
    unfolding parameter_numbers_def
    by (simp add: at s4_rx_numbers s4_rx_crc s4_rx_1_def sargo_rx_symbols_def)
qed

lemma s4_tx_numbers: "list_all in_range s4_tx" "length s4_tx = 425"
  by (simp_all add: s4_tx_def in_range_def
      s4_tx_1_def s4_tx_2_def s4_tx_3_def s4_tx_4_def s4_tx_5_def s4_tx_6_def s4_tx_7_def)

lemma s4_tx_well_formed: "well_formed sargo_tx_symbols 36 s4_tx"
proof -
  have first: "take 64 s4_tx = s4_tx_1" by (simp add: s4_tx_def s4_tx_1_def)
  have at: "s4_tx ! i = s4_tx_1 ! i" if "i < 64" for i
    using that by (simp flip: first)
  have params: "parameter_numbers 36 s4_tx = parameter_numbers 36 s4_tx_1"
    using parameter_numbers_prefix [of s4_tx 36] by (simp add: first at s4_tx_1_def)
  show ?thesis
    unfolding well_formed_def params port_numbers_def
    unfolding parameter_numbers_def
    by (simp add: at s4_tx_numbers s4_tx_crc s4_tx_1_def sargo_tx_symbols_def)
qed

lemma b4_rx_numbers: "list_all in_range b4_rx" "length b4_rx = 589"
  by (simp_all add: b4_rx_def in_range_def
      b4_rx_1_def b4_rx_2_def b4_rx_3_def b4_rx_4_def b4_rx_5_def b4_rx_6_def
      b4_rx_7_def b4_rx_8_def b4_rx_9_def b4_rx_10_def)

lemma b4_rx_well_formed: "well_formed bonito_rx_symbols 30 b4_rx"
proof -
  have first: "take 64 b4_rx = b4_rx_1" by (simp add: b4_rx_def b4_rx_1_def)
  have at: "b4_rx ! i = b4_rx_1 ! i" if "i < 64" for i
    using that by (simp flip: first)
  have params: "parameter_numbers 30 b4_rx = parameter_numbers 30 b4_rx_1"
    using parameter_numbers_prefix [of b4_rx 30] by (simp add: first at b4_rx_1_def)
  show ?thesis
    unfolding well_formed_def params port_numbers_def
    unfolding parameter_numbers_def
    by (simp add: at b4_rx_numbers b4_rx_crc b4_rx_1_def bonito_rx_symbols_def)
qed

lemma b4_tx_numbers: "list_all in_range b4_tx" "length b4_tx = 425"
  by (simp_all add: b4_tx_def in_range_def
      b4_tx_1_def b4_tx_2_def b4_tx_3_def b4_tx_4_def b4_tx_5_def b4_tx_6_def b4_tx_7_def)

lemma b4_tx_well_formed: "well_formed bonito_tx_symbols 36 b4_tx"
proof -
  have first: "take 64 b4_tx = b4_tx_1" by (simp add: b4_tx_def b4_tx_1_def)
  have at: "b4_tx ! i = b4_tx_1 ! i" if "i < 64" for i
    using that by (simp flip: first)
  have params: "parameter_numbers 36 b4_tx = parameter_numbers 36 b4_tx_1"
    using parameter_numbers_prefix [of b4_tx 36] by (simp add: first at b4_tx_1_def)
  show ?thesis
    unfolding well_formed_def params port_numbers_def
    unfolding parameter_numbers_def
    by (simp add: at b4_tx_numbers b4_tx_crc b4_tx_1_def bonito_tx_symbols_def)
qed

text \<open>C33: The speaker configurations of both devices are well formed, those of the two headers that
  generate\_bin.sh converts (\<open>sargo\<close>, \<open>bonito\<close>) and those of the four files that device.mk
  installs as firmware (\<open>s4\<close>, \<open>b4\<close>), which have other numbers: the first number of each is its
  length, the last its checksum, all numbers have 32 bits, and the numbers of its ports and
  parameters are those the device's header has symbols for, no symbol without its number and no
  number without its symbol.\<close>

theorem shipped_configurations_sound:
  "well_formed sargo_rx_symbols 30 sargo_rx \<and> well_formed sargo_tx_symbols 36 sargo_tx \<and>
   well_formed bonito_rx_symbols 30 bonito_rx \<and> well_formed bonito_tx_symbols 36 bonito_tx \<and>
   well_formed sargo_rx_symbols 30 s4_rx \<and> well_formed sargo_tx_symbols 36 s4_tx \<and>
   well_formed bonito_rx_symbols 30 b4_rx \<and> well_formed bonito_tx_symbols 36 b4_tx"
  by (intro conjI sargo_rx_well_formed sargo_tx_well_formed bonito_rx_well_formed
      bonito_tx_well_formed s4_rx_well_formed s4_tx_well_formed b4_rx_well_formed
      b4_tx_well_formed)

text \<open>What is installed is not what the script makes of the headers.\<close>

lemma installed_numbers_differ:
  "s4_rx \<noteq> sargo_rx" "s4_tx \<noteq> sargo_tx" "b4_rx \<noteq> bonito_rx" "b4_tx \<noteq> bonito_tx"
  by (simp_all add: s4_rx_def s4_rx_1_def sargo_rx_def sargo_rx_1_def s4_tx_def s4_tx_1_def
      sargo_tx_def sargo_tx_1_def b4_rx_def b4_rx_1_def bonito_rx_def bonito_rx_1_def
      b4_tx_def b4_tx_1_def bonito_tx_def bonito_tx_1_def)

end
