(* ===== verification/Spec2Isabelle.thy ===== *)
theory Spec2Isabelle
  imports GadgetService MediaInfoCorrect HdmiModesCorrect HealthCorrect UsbService UsbThreads
    DumpstateService Services PowerStats VideoFormatsCorrect IpaClients CodecRegisters
    UsbShared LayoutProperties HeadersAgree TuningCorrect TuningText TuningData
begin

text \<open>
  Verification library of the vendor services and device headers of the Google Pixel 3a device
  tree (sargo and bonito). The tree holds five small services written in C++, a few programs
  that run once, a tool for the tuning of the speakers, and headers of the kernel: most of them
  declare the structures and requests of the drivers, and some hold code, the layout of video
  buffers, the tables of HDMI modes, and macros that pack fields and classify numbers. Each
  service is a set of handlers called over binder; none of them calls another, but all act on the
  same kernel through files, properties, directories and callbacks. The library has one group of
  theories for each.

  \<^bold>\<open>Shared theories.\<close> \<open>Prelude\<close> holds the state and error monads (a handler that can return early is
  a \<open>prog\<close>: a function of the state to an exit or a value, and the new state), the rules for
  invariants of runs (the locale \<open>machine\<close> and its interpretations), and the lemmas on words,
  lists and strings that several components need. \<open>Os\<close> is the operating system as the services
  see it: an environment \<open>E\<close> answers every call, as a function of everything that happened before,
  and each call is recorded in a history. A theorem therefore holds for every behaviour of the
  files, and may speak of the order of calls. \<open>CInt\<close> has the 32-bit arithmetic of the headers,
  \<open>Double\<close> the rounding of floating point numbers, \<open>CText\<close> numbers as text.

  \<^bold>\<open>USB gadget\<close> (usb/gadget/UsbGadget.cpp). \<open>GadgetMonitor\<close> is the thread \<open>monitorFfs\<close>, \<open>Gadget\<close> the
  operations of the service in the order of the file, \<open>GadgetCorrect\<close> and \<open>GadgetIds\<close> their lemmas,
  \<open>GadgetService\<close> the properties: every request is answered exactly once; the links made are the
  plan computed from the request and from the properties as this setup read them; a tear-down
  that succeeds went through all its steps (the write of \<open>none\<close> to the controller may have failed,
  since the code ignores its result); the product id determines the functions and agrees with a
  table; the monitor writes only after it found every endpoint, with pauses and clock readings
  perhaps between the two, and stops exactly on request; and the descriptors are open exactly
  while there is a monitor, in every interleaving of requests with the steps of the thread. During
  a tear-down the thread runs only from the request to stop to the join; a pull-up by it between
  the write of \<open>none\<close> and that request is not among the runs.

  \<^bold>\<open>USB port service\<close> (usb/usb/Usb.cpp). \<open>UsbState\<close> has the roles, the port status, the messages of the
  callback and the state, \<open>Usb\<close> every operation and the worker thread, \<open>UsbPorts\<close> the listing of the
  ports and what a report says for a given file system, \<open>UsbCorrect\<close> the invariants kept by every
  operation, \<open>UsbService\<close> the properties: what a power or data role switch answers, by what was
  opened, written and read back; how a mode switch ends, with the file that did not open, the
  write that failed, the partner or the timeout, and that a port that failed is put back to both
  roles; a status report has each port once with the roles of its files, if these have words of
  the kernel's interface; what a kernel event does when the report it asks for succeeds; messages
  go only to the callback that is set; and a worker was created and not joined exactly while
  there is a callback (the thread may have returned early). In these theories each operation is
  one step. \<open>UsbThreads\<close> looks inside: the service and the worker are sequences of lock operations,
  and it is shown that they can always run to their ends when no callback is cleared, and that
  clearing one at a bad moment can block both for ever. Calls of the service come one at a time,
  as its one binder thread makes them, and creating a thread and sending it a signal do not fail.

  \<^bold>\<open>Both USB services\<close> share the file that connects the controller. \<open>UsbShared\<close> puts the calls of both
  into one log, in any order, and shows that while data signalling counts as switched off only
  the gadget service can have connected the controller; that it can is an example there. The
  kernel's side is a hypothesis: the file reads as what was stored last.

  \<^bold>\<open>Dumpstate\<close> (dumpstate/DumpstateDevice.cpp). \<open>Tar\<close> is the archive header with a reader of the
  format as its specification, \<open>Dumpstate\<close> the copying, choosing and streaming of logs and the modem
  thread, \<open>DumpstateBoard\<close> the sections of the report and the handlers, \<open>DumpstateCorrect\<close> the lemmas,
  \<open>DumpstateService\<close> the properties: on a file system that works the archive read by the reader gives
  the files (the reader does without the blocks that end an archive and without the version of the
  format, which are not written); the newest logs, no more than the limit, are copied, an old and
  longer file of the name keeping its tail; the logger is stopped and started again exactly if it
  was enabled and ran; bad requests are refused before anything is dumped; the report makes the
  sections of a list that is written out beside the model. The modem thread runs as one step
  between two sections of the report, at every place, because the two share nothing but the
  history.

  \<^bold>\<open>Health\<close> (health/). \<open>HealthState\<close> has the state, \<open>Recharge\<close> the recharging control with its rounding,
  \<open>Learned\<close> the backup of the learned capacity, \<open>Health\<close> the storage statistics and the order in which
  the updaters run, \<open>HealthCorrect\<close> the properties: the reported level lies between the gauge's and
  full and is the nearest to the linear one; a recharging cycle reports full; what is saved of a
  capacity is what a later start reads; the statistics are those of the file.

  \<^bold>\<open>Headers\<close> (sdm710/original-kernel-headers). \<open>MediaInfo\<close> and \<open>MediaInfoCorrect\<close> are
  media/msm\_media\_info.h: how the size of a buffer stands to the size that the comments document
  for its format (\<open>documented\<close>, written from the comments and not from the code), that it holds the
  frame, and that nothing wraps for frames of 1 to 16384 pixels each way (beyond the bound the
  theorems claim nothing, and the definitions wrap as C does).
  \<open>HdmiModes\<close> and \<open>HdmiModesCorrect\<close> are video/msm\_hdmi\_modes.h: the lookup tables are indexed by
  their own codes, and the timings agree with their clocks.

  Four more groups are the macros and tables of other headers. \<open>PackedFields\<close> has the numbers made of
  several fields (buffer handles of the camera, register writes of the codec, revisions and
  versions), all proved from a few rules on one field of a word; \<open>VideoFormats\<close> and
  \<open>VideoFormatsCorrect\<close> the colours and format codes of linux/videodev2.h, where the documented
  defaults are the specification; \<open>IpaClients\<close> the clients of linux/msm\_ipa.h and their classes;
  \<open>CodecRegisters\<close> the registers of the WCD9320 codec, and \<open>SanCodec\<close> those of the stripped copies.

  \<^bold>\<open>Device interfaces\<close> (sdm710/original-kernel-headers and sdm710/kernel-headers). \<open>CLayout\<close> has the C
  types of the headers and the rules by which the compiler places fields, with the ABI as a
  parameter, and proves what any layout guarantees. The theories \<open>LayoutDrm\<close> to \<open>LayoutMisc\<close>, one
  per group of drivers, have every structure and union of 88 of the original headers under its C
  name, and each of these headers as the list of its declarations in the order of the file
  (structures and unions, type names, enumerations, macros without arguments for a number, a text
  or the size of a type, empty macros, requests), in blocks of lines that follow each other; the
  theories \<open>SanDrm\<close> to \<open>SanMisc\<close> have the same lists for the stripped copies, made from their own
  text. What a configuration macro would add is left out (none is defined), and so are macros with
  arguments. The other four original headers are the two named before and the two of the codec's
  registers; three headers that exist as a stripped copy only are not modelled.
  \<open>QmiMessages\<close> says what a message of the modem looks like on the wire, given its structure.
  \<open>LayoutCorrect\<close> collects the structures meant for both ABIs and the requests of each driver;
  \<open>LayoutProperties\<close> has the properties: structures meant for both ABIs are the same in both, the
  requests of a header have different numbers, reserved areas hold every member, calibration
  messages begin alike, and the declared lengths of modem messages are exact.
  \<open>HeadersAgree\<close> shows that the two copies of the headers declare the same. The value of a number
  macro is written as the header has it where it is a literal, a shift of one or an offset from
  another macro, and as its value otherwise. The types and numbers these headers take from other
  headers are parameters, and the encoding of a request into a word is not used.

  \<^bold>\<open>Speaker tuning\<close> (audio/convert\_config\_string.py, a Python script). \<open>PyText\<close> is text as Python
  reads it, \<open>TuningConvert\<close> the whole script: the checksum, the conversions of the sample width, the
  two directions between text and binary files, and the command line, over a file system that keeps
  what was written when an exception ends a run. \<open>TuningCrc\<close> shows that a step of the checksum is
  injective, \<open>TuningEval\<close> computes it by bytes with a table, \<open>TuningCorrect\<close> and \<open>TuningText\<close> have the
  properties: a changed number is detected, the two conversions undo each other on configurations
  without accidental format codes, and the text and the binary files of one run agree. \<open>TuningData\<close>
  has the configurations of the two headers that generate\_bin.sh converts and those of the four
  files that device.mk installs, which have other numbers, and the property that all of them are
  well formed.

  \<^bold>\<open>Small programs.\<close> \<open>Services\<close> has keymaster/wait\_for\_strongbox.cpp, which returns exactly if the key
  stores appear, voice\_processing/voice\_processing\_descriptors.c and the main functions of the USB
  services; \<open>PowerStats\<close> has powerstats/service.cpp.

  \<^bold>\<open>Loops.\<close> A loop over a finite thing is recursion over it. A loop that waits for the outside takes
  the list of what it will be given: the batches of the monitor, the wake-ups of \<open>switchMode\<close>, the
  polls of the worker. If the list ends first the loop is still waiting, which is a result of its
  own (\<open>Waiting\<close>, or a thread that is not done), so that a theorem that a loop ends says so: it ends
  within any list that contains what ends it. The wait for the key stores is a partial function,
  and that it returns is proved. No fuel is used.

  \<^bold>\<open>Not modelled.\<close> Logging; the sizes of buffers that are read into strings, except the archive
  header; the calls of the dump and health libraries beyond their order and arguments; the names
  of the enumerators of the HIDL and AIDL interfaces, which are outside the repository and whose
  numbers are parameters where they matter. Of the device headers, the macros with arguments that
  are not named above, the stripped copies of msm\_media\_info.h and msm\_hdmi\_modes.h, and
  msm\_audio\_g711.h, msm\_audio\_g711\_dec.h and audio\_slimslave.h, of which only a stripped copy
  exists. Scripts, policy, overlays, configuration and the one Java receiver are not C code and
  are left aside.
\<close>

end
